(* ===== verification/FlexPrelude.thy ===== *)
theory FlexPrelude
  imports Main "HOL-Library.Word"
begin

text \<open>
  Shared vocabulary of the development.

  A C function of the repository either returns or stops the process: an
  \<open>assert\<close> that fails, an \<open>assert(0 && "Not implemented")\<close>, a read past the end
  of a buffer or a dereference of a null pointer.  Every fallible function is a
  HOL function into \<open>'a res\<close>: \<open>Inl\<close> is the way it stops, \<open>Inr\<close> its result.
  \<open>res_bind\<close> is the sequencing of two statements.

  The integer types of the C code are words of their width.
\<close>

section \<open>Outcomes of a C function\<close>

datatype cerr =
    AssertFail
  | NotImplemented
  | NullDeref
  | OutOfBounds

type_synonym 'a res = "cerr + 'a"

definition res_bind :: "'a res \<Rightarrow> ('a \<Rightarrow> 'b res) \<Rightarrow> 'b res" where
  "res_bind m f = (case m of Inl e \<Rightarrow> Inl e | Inr x \<Rightarrow> f x)"

definition c_assert :: "bool \<Rightarrow> unit res" where
  "c_assert b = (if b then Inr () else Inl AssertFail)"

lemma res_bind_simps [simp]:
  "res_bind (Inl e) f = Inl e"
  "res_bind (Inr x) f = f x"
  by (simp_all add: res_bind_def)

lemma res_bind_eq_Inr:
  "res_bind m f = Inr y \<longleftrightarrow> (\<exists>x. m = Inr x \<and> f x = Inr y)"
  by (cases m) auto

lemma res_bind_InrE:
  assumes "res_bind m f = Inr y"
  obtains x where "m = Inr x" "f x = Inr y"
  using assms by (auto simp: res_bind_eq_Inr)

lemma res_bind_assoc:
  "res_bind (res_bind m f) g = res_bind m (\<lambda>x. res_bind (f x) g)"
  by (cases m) auto

lemma res_bind_cong [fundef_cong]:
  "m = m' \<Longrightarrow> (\<And>x. m' = Inr x \<Longrightarrow> f x = g x) \<Longrightarrow> res_bind m f = res_bind m' g"
  by (cases m') auto

lemma c_assert_simps [simp]:
  "c_assert True = Inr ()"
  "c_assert False = Inl AssertFail"
  by (simp_all add: c_assert_def)

lemma c_assert_eq_Inr [simp]: "c_assert b = Inr u \<longleftrightarrow> b"
  by (cases b) auto

lemma if_Inl_eq_Inr [simp]:
  "(if b then Inl e else m) = Inr y \<longleftrightarrow> \<not> b \<and> m = Inr y"
  "(if b then m else Inl e) = Inr y \<longleftrightarrow> b \<and> m = Inr y"
  by auto

section \<open>Machine integers\<close>

type_synonym u8 = "8 word"
type_synonym u16 = "16 word"
type_synonym u32 = "32 word"
type_synonym u64 = "64 word"

lemma unat_lt_65536: "unat (w :: u16) < 65536"
proof -
  have "unat w < 2 ^ LENGTH(16)" by (rule unsigned_less)
  then show ?thesis by simp
qed

lemma unat_ucast_16_32: "unat (ucast (w :: u16) :: u32) = unat w"
  using unat_lt_65536 [of w] by (simp add: unsigned_ucast_eq take_bit_nat_eq_self)

lemma unat_ucast_32_64: "unat (ucast (w :: u32) :: u64) = unat w"
  using unsigned_less [of w, where 'a = nat] by (simp add: unsigned_ucast_eq take_bit_nat_eq_self)

lemma ucast_16_32_inj: "(ucast (a :: u16) :: u32) = ucast b \<longleftrightarrow> a = b"
proof
  assume "(ucast a :: u32) = ucast b"
  then have "unat (ucast a :: u32) = unat (ucast b :: u32)" by (rule arg_cong)
  then show "a = b" by (simp only: unat_ucast_16_32 unsigned_word_eqI)
qed simp

lemma ucast_16_32_pos: "0 < (ucast (a :: u16) :: u32) \<longleftrightarrow> 0 < a"
  by (simp add: word_less_nat_alt unat_ucast_16_32)

lemma ucast_of_nat_16_32: "n < 65536 \<Longrightarrow> (ucast (of_nat n :: u16) :: u32) = of_nat n"
proof -
  assume "n < 65536"
  then have "unat (ucast (of_nat n :: u16) :: u32) = unat (of_nat n :: u32)"
    by (simp add: unat_ucast_16_32 unat_of_nat take_bit_eq_mod)
  then show ?thesis by (rule unsigned_word_eqI)
qed

section \<open>Lists\<close>

lemma filter_eq_Nil_if_all: "(\<And>x. x \<in> set xs \<Longrightarrow> \<not> P x) \<Longrightarrow> filter P xs = []"
  by (induction xs) auto

lemma filter_id_if_all: "(\<And>x. x \<in> set xs \<Longrightarrow> P x) \<Longrightarrow> filter P xs = xs"
  by (induction xs) auto

lemma distinct_map_filter_key:
  "distinct (map f xs) \<Longrightarrow> x \<in> set xs \<Longrightarrow> filter (\<lambda>y. f y = f x) xs = [x]"
proof (induction xs)
  case (Cons y ys)
  show ?case
  proof (cases "x = y")
    case True
    with Cons.prems have "filter (\<lambda>z. f z = f x) ys = []"
      by (intro filter_eq_Nil_if_all) (auto simp: image_iff)
    with True show ?thesis by simp
  next
    case False
    with Cons.prems have "f y \<noteq> f x" "x \<in> set ys" by (auto simp: image_iff)
    with Cons show ?thesis by simp
  qed
qed simp

text \<open>A loop over a list whose body may stop the process.\<close>

fun fold_res :: "('e \<Rightarrow> 'a \<Rightarrow> 'a res) \<Rightarrow> 'e list \<Rightarrow> 'a \<Rightarrow> 'a res" where
  "fold_res f [] a = Inr a"
| "fold_res f (x # xs) a = res_bind (f x a) (\<lambda>a'. fold_res f xs a')"

lemma fold_res_append: "fold_res f (xs @ ys) a = res_bind (fold_res f xs a) (fold_res f ys)"
proof (induction xs arbitrary: a)
  case (Cons x xs)
  then show ?case by (cases "f x a") auto
qed simp

lemma fold_res_snoc:
  "(\<And>x a. x \<in> set xs \<Longrightarrow> f x a = Inr (a @ [g x])) \<Longrightarrow> fold_res f xs a = Inr (a @ map g xs)"
  by (induction xs arbitrary: a) auto

text \<open>A loop that fills an array, whose body may stop the process.\<close>

fun map_res :: "('a \<Rightarrow> 'b res) \<Rightarrow> 'a list \<Rightarrow> 'b list res" where
  "map_res f [] = Inr []"
| "map_res f (x # xs) = res_bind (f x) (\<lambda>y. res_bind (map_res f xs) (\<lambda>ys. Inr (y # ys)))"

text \<open>A loop that writes followed by a loop that reads gives back the array exactly when this is
  so for each entry.\<close>

lemma map_res_trip:
  "res_bind (map_res f xs) (map_res g) = Inr xs \<longleftrightarrow> (\<forall>x\<in>set xs. res_bind (f x) g = Inr x)"
proof (induction xs)
  case (Cons x xs)
  then show ?case
    by (cases "f x"; cases "map_res f xs") (auto simp: res_bind_eq_Inr)
qed simp

lemma map_res_trip_cases:
  assumes "\<And>x. res_bind (f x) g = Inr x \<longleftrightarrow> ok x"
  obtains (stops) e where "map_res f xs = Inl e" "\<not> list_all ok xs"
  | (writes) ys where "map_res f xs = Inr ys" "map_res g ys = Inr xs \<longleftrightarrow> list_all ok xs" "length ys = length xs"
proof (cases "map_res f xs")
  case (Inl e)
  then have "\<not> list_all ok xs" using map_res_trip [of f xs g] assms by (auto simp: list_all_iff)
  then show thesis using Inl by (intro stops)
next
  case (Inr ys)
  then have "map_res g ys = Inr xs \<longleftrightarrow> list_all ok xs"
    using map_res_trip [of f xs g] assms by (auto simp: list_all_iff)
  moreover have "length ys = length xs"
    using Inr by (induction xs arbitrary: ys) (auto simp: res_bind_eq_Inr)
  ultimately show thesis using Inr by (intro writes)
qed

lemma map_res_Inl: "map_res f xs = Inl e \<Longrightarrow> \<exists>x\<in>set xs. f x = Inl e"
  by (induction xs) (auto simp: res_bind_def split: sum.splits)

lemma map_res_length: "map_res f xs = Inr ys \<Longrightarrow> length ys = length xs"
  by (induction xs arbitrary: ys) (auto simp: res_bind_eq_Inr)

lemma map_res_set: "map_res f xs = Inr ys \<Longrightarrow> x \<in> set xs \<Longrightarrow> \<exists>y\<in>set ys. f x = Inr y"
  by (induction xs arbitrary: ys) (auto simp: res_bind_eq_Inr)

lemma map_res_map:
  "(\<And>x. x \<in> set xs \<Longrightarrow> g (f x) = Inr (h x)) \<Longrightarrow> map_res g (map f xs) = Inr (map h xs)"
  by (induction xs) auto

lemma map_res_total: "(\<And>x. x \<in> set xs \<Longrightarrow> \<exists>y. f x = Inr y) \<Longrightarrow> \<exists>ys. map_res f xs = Inr ys"
  by (induction xs) (auto simp: res_bind_eq_Inr)

end
