(* ===== verification/AssocSpec.thy ===== *)
theory AssocSpec
  imports FlexPrelude "HOL-Library.Multiset"
begin

text \<open>
  The contract of the associative containers (\<open>assoc_generic.h\<close>): a container holds
  entries in the order of its comparator, \<open>insert\<close> adds an entry after the ones that do
  not come later, \<open>extract\<close> removes one entry whose key the comparator calls equal and
  fails when there is none.  The list functions below say what that means; the locale
  \<open>assoc_container\<close> is the contract itself and what a client may conclude from it.
\<close>

section \<open>Comparators\<close>

text \<open>
  The associative containers of \<open>src/util/alg_ds/ds/assoc_container\<close> are
  parametrised by a comparator \<open>int (*comp)(const void*, const void*)\<close>.  It answers
  1 when its first argument comes first, -1 when its second one does and 0 when
  the two are the same key.  The laws of the locale are what the containers rely on.
  They are asked for on a set \<open>D\<close> of keys only: some comparators of the code assert
  that their arguments are well formed, and one of them is an order only on some keys.
\<close>

type_synonym 'k cmp_fun = "'k \<Rightarrow> 'k \<Rightarrow> int"

locale comparator =
  fixes cmp :: "'k cmp_fun" and D :: "'k set"
  assumes cmp_range: "a \<in> D \<Longrightarrow> b \<in> D \<Longrightarrow> cmp a b = 1 \<or> cmp a b = 0 \<or> cmp a b = -1"
    and cmp_flip: "a \<in> D \<Longrightarrow> b \<in> D \<Longrightarrow> cmp a b = - cmp b a"
    and cmp_trans: "a \<in> D \<Longrightarrow> b \<in> D \<Longrightarrow> c \<in> D \<Longrightarrow> cmp a b = 1 \<Longrightarrow> cmp b c = 1 \<Longrightarrow> cmp a c = 1"
    and cmp_eq_left: "a \<in> D \<Longrightarrow> b \<in> D \<Longrightarrow> c \<in> D \<Longrightarrow> cmp a b = 0 \<Longrightarrow> cmp a c = cmp b c"
begin

lemma cmp_refl [simp]: "a \<in> D \<Longrightarrow> cmp a a = 0"
  using cmp_flip [of a a] by simp

lemma cmp_eq_right: "a \<in> D \<Longrightarrow> b \<in> D \<Longrightarrow> c \<in> D \<Longrightarrow> cmp a b = 0 \<Longrightarrow> cmp c a = cmp c b"
  using cmp_eq_left [of a b c] cmp_flip [of c a] cmp_flip [of c b] by simp

lemma cmp_sym: "a \<in> D \<Longrightarrow> b \<in> D \<Longrightarrow> cmp a b = 0 \<longleftrightarrow> cmp b a = 0"
  using cmp_flip [of a b] by simp

lemma cmp_gt_iff: "a \<in> D \<Longrightarrow> b \<in> D \<Longrightarrow> cmp a b = -1 \<longleftrightarrow> cmp b a = 1"
  using cmp_flip [of a b] by auto

lemma cmp_eq_trans:
  "a \<in> D \<Longrightarrow> b \<in> D \<Longrightarrow> c \<in> D \<Longrightarrow> cmp a b = 0 \<Longrightarrow> cmp b c = 0 \<Longrightarrow> cmp a c = 0"
  using cmp_eq_left [of a b c] by simp

lemma cmp_le_less_trans:
  "a \<in> D \<Longrightarrow> b \<in> D \<Longrightarrow> c \<in> D \<Longrightarrow> cmp b a \<noteq> 1 \<Longrightarrow> cmp b c = 1 \<Longrightarrow> cmp a c = 1"
  using cmp_range [of a b] cmp_eq_left [of a b c] cmp_gt_iff [of a b] cmp_trans [of a b c]
    cmp_gt_iff [of b a]
  by auto

lemma cmp_less_le_trans:
  "a \<in> D \<Longrightarrow> b \<in> D \<Longrightarrow> c \<in> D \<Longrightarrow> cmp a b = 1 \<Longrightarrow> cmp c b \<noteq> 1 \<Longrightarrow> cmp a c = 1"
  using cmp_range [of b c] cmp_eq_right [of b c a] cmp_gt_iff [of b c] cmp_trans [of a b c]
    cmp_gt_iff [of c b]
  by auto

lemma cmp_le_trans:
  "a \<in> D \<Longrightarrow> b \<in> D \<Longrightarrow> c \<in> D \<Longrightarrow> cmp b a \<noteq> 1 \<Longrightarrow> cmp c b \<noteq> 1 \<Longrightarrow> cmp c a \<noteq> 1"
  using cmp_less_le_trans [of c a b] cmp_le_less_trans by blast

end

section \<open>Ordered lists of entries\<close>

definition sorted_entries :: "'k cmp_fun \<Rightarrow> ('k \<times> 'v) list \<Rightarrow> bool" where
  "sorted_entries cmp xs \<longleftrightarrow> sorted_wrt (\<lambda>a b. cmp (fst b) (fst a) \<noteq> 1) xs"

text \<open>No two entries have keys the comparator calls equal.\<close>

definition uniq_entries :: "'k cmp_fun \<Rightarrow> ('k \<times> 'v) list \<Rightarrow> bool" where
  "uniq_entries cmp xs \<longleftrightarrow> sorted_wrt (\<lambda>a b. cmp (fst a) (fst b) \<noteq> 0) xs"

fun ins_entry :: "'k cmp_fun \<Rightarrow> 'k \<Rightarrow> 'v \<Rightarrow> ('k \<times> 'v) list \<Rightarrow> ('k \<times> 'v) list" where
  "ins_entry cmp k v [] = [(k, v)]"
| "ins_entry cmp k v (e # es) =
    (if cmp k (fst e) = 1 then (k, v) # e # es else e # ins_entry cmp k v es)"

definition del_key :: "'k cmp_fun \<Rightarrow> 'k \<Rightarrow> ('k \<times> 'v) list \<Rightarrow> ('k \<times> 'v) list" where
  "del_key cmp k xs = filter (\<lambda>e. cmp k (fst e) \<noteq> 0) xs"

fun get_key :: "'k cmp_fun \<Rightarrow> 'k \<Rightarrow> ('k \<times> 'v) list \<Rightarrow> 'v option" where
  "get_key cmp k [] = None"
| "get_key cmp k (e # es) = (if cmp k (fst e) = 0 then Some (snd e) else get_key cmp k es)"

definition fresh_key :: "'k cmp_fun \<Rightarrow> 'k \<Rightarrow> ('k \<times> 'v) list \<Rightarrow> bool" where
  "fresh_key cmp k xs \<longleftrightarrow> (\<forall>e\<in>set xs. cmp k (fst e) \<noteq> 0)"

lemma mset_ins_entry [simp]: "mset (ins_entry cmp k v xs) = add_mset (k, v) (mset xs)"
  by (induction xs) auto

lemma set_ins_entry [simp]: "set (ins_entry cmp k v xs) = insert (k, v) (set xs)"
  by (induction xs) auto

lemma length_ins_entry [simp]: "length (ins_entry cmp k v xs) = Suc (length xs)"
  by (induction xs) auto

lemma ins_entry_append_less:
  "cmp k (fst e) = 1 \<Longrightarrow> ins_entry cmp k v (xs @ e # ys) = ins_entry cmp k v xs @ e # ys"
  by (induction xs) auto

lemma get_key_None_iff: "get_key cmp k xs = None \<longleftrightarrow> fresh_key cmp k xs"
  by (induction xs) (auto simp: fresh_key_def)

lemma get_key_SomeD: "get_key cmp k xs = Some v \<Longrightarrow> \<exists>k'. (k', v) \<in> set xs \<and> cmp k k' = 0"
  by (induction xs) (auto split: if_splits)

lemma set_del_key_subset: "set (del_key cmp k xs) \<subseteq> set xs"
  by (auto simp: del_key_def)

lemma uniq_del_key: "uniq_entries cmp xs \<Longrightarrow> uniq_entries cmp (del_key cmp k xs)"
  by (auto simp: uniq_entries_def del_key_def intro: sorted_wrt_filter)

lemma del_key_fresh: "fresh_key cmp k xs \<Longrightarrow> del_key cmp k xs = xs"
  by (auto simp: del_key_def fresh_key_def intro: filter_id_if_all)

definition keys_in :: "'k set \<Rightarrow> ('k \<times> 'v) list \<Rightarrow> bool" where
  "keys_in D xs \<longleftrightarrow> (\<forall>e\<in>set xs. fst e \<in> D)"

lemma keys_in_simps [simp]:
  "keys_in D []"
  "keys_in D (x # xs) \<longleftrightarrow> fst x \<in> D \<and> keys_in D xs"
  "keys_in D (xs @ ys) \<longleftrightarrow> keys_in D xs \<and> keys_in D ys"
  "keys_in D (ins_entry cmp k v xs) \<longleftrightarrow> k \<in> D \<and> keys_in D xs"
  "keys_in UNIV xs"
  by (auto simp: keys_in_def)

lemma keys_inD: "keys_in D xs \<Longrightarrow> e \<in> set xs \<Longrightarrow> fst e \<in> D"
  by (simp add: keys_in_def)

lemma keys_in_del_key: "keys_in D xs \<Longrightarrow> keys_in D (del_key cmp k xs)"
  by (auto simp: keys_in_def del_key_def)

context comparator
begin

lemma ins_entry_append_ge:
  assumes "sorted_entries cmp (xs @ [e])" "cmp k (fst e) \<noteq> 1" "keys_in D (xs @ [e])" "k \<in> D"
  shows "ins_entry cmp k v (xs @ e # ys) = xs @ e # ins_entry cmp k v ys"
  using assms
proof (induction xs)
  case (Cons x xs)
  then have "cmp k (fst x) \<noteq> 1"
    using cmp_le_trans [of "fst x" "fst e" k] by (auto simp: sorted_entries_def sorted_wrt_append)
  with Cons show ?case by (auto simp: sorted_entries_def)
qed simp

lemma ins_entry_sorted:
  "sorted_entries cmp xs \<Longrightarrow> keys_in D xs \<Longrightarrow> k \<in> D \<Longrightarrow> sorted_entries cmp (ins_entry cmp k v xs)"
proof (induction xs)
  case (Cons x xs)
  have x: "fst x \<in> D" "\<And>y. y \<in> set xs \<Longrightarrow> fst y \<in> D"
    using Cons.prems(2) by (auto simp: keys_in_def)
  show ?case
  proof (cases "cmp k (fst x) = 1")
    case True
    have "cmp (fst x) k \<noteq> 1" using True cmp_flip [of k "fst x"] x Cons.prems(3) by simp
    moreover have "cmp (fst y) k \<noteq> 1" if "y \<in> set xs" for y
      using that Cons.prems(1,3) True x(1) x(2) [OF that] \<open>cmp (fst x) k \<noteq> 1\<close>
        cmp_le_trans [of k "fst x" "fst y"]
      by (auto simp: sorted_entries_def)
    ultimately show ?thesis using True Cons.prems by (auto simp: sorted_entries_def)
  next
    case False
    with Cons show ?thesis by (auto simp: sorted_entries_def)
  qed
qed (simp add: sorted_entries_def)

lemma uniq_ins_entry:
  "uniq_entries cmp xs \<Longrightarrow> fresh_key cmp k xs \<Longrightarrow> keys_in D xs \<Longrightarrow> k \<in> D \<Longrightarrow>
    uniq_entries cmp (ins_entry cmp k v xs)"
  by (induction xs) (auto simp: uniq_entries_def fresh_key_def cmp_sym)

lemma get_ins_entry:
  assumes "fresh_key cmp k xs" "keys_in D xs" "k \<in> D" "q \<in> D"
  shows "get_key cmp q (ins_entry cmp k v xs) = (if cmp q k = 0 then Some v else get_key cmp q xs)"
  using assms
proof (induction xs)
  case (Cons x xs)
  have "cmp q k = 0 \<Longrightarrow> cmp q (fst x) \<noteq> 0"
    using Cons.prems cmp_eq_left [of q k "fst x"] by (auto simp: fresh_key_def)
  with Cons show ?case by (auto simp: fresh_key_def)
qed simp

lemma get_del_key:
  "keys_in D xs \<Longrightarrow> k \<in> D \<Longrightarrow> q \<in> D \<Longrightarrow>
    get_key cmp q (del_key cmp k xs) = (if cmp q k = 0 then None else get_key cmp q xs)"
proof (induction xs)
  case (Cons x xs)
  have "cmp k (fst x) = 0 \<Longrightarrow> cmp q (fst x) = 0 \<Longrightarrow> cmp q k = 0"
    using Cons.prems cmp_eq_trans [of q "fst x" k] by (simp add: cmp_sym [of "fst x"])
  moreover have "cmp q k = 0 \<Longrightarrow> cmp q (fst x) = cmp k (fst x)"
    using Cons.prems by (intro cmp_eq_left) auto
  ultimately show ?case using Cons by (auto simp: del_key_def)
qed (simp add: del_key_def)

lemma get_key_uniq:
  assumes "uniq_entries cmp xs" "(k', v) \<in> set xs" "cmp k k' = 0" "keys_in D xs" "k \<in> D"
  shows "get_key cmp k xs = Some v"
  using assms
proof (induction xs)
  case (Cons x xs)
  have "k' \<in> D" using Cons.prems by (auto simp: keys_in_def)
  then have "x = (k', v)" if "cmp k (fst x) = 0"
    using that Cons.prems cmp_eq_trans [of "fst x" k k'] by (auto simp: uniq_entries_def cmp_sym)
  with Cons show ?case by (auto simp: uniq_entries_def)
qed simp

lemma get_key_Some_iff:
  "uniq_entries cmp xs \<Longrightarrow> keys_in D xs \<Longrightarrow> k \<in> D \<Longrightarrow>
    get_key cmp k xs = Some v \<longleftrightarrow> (\<exists>k'. (k', v) \<in> set xs \<and> cmp k k' = 0)"
  using get_key_uniq get_key_SomeD by metis

lemma del_key_split:
  assumes "uniq_entries cmp (xs @ (k', v) # ys)" "cmp k k' = 0"
    "keys_in D (xs @ (k', v) # ys)" "k \<in> D"
  shows "del_key cmp k (xs @ (k', v) # ys) = xs @ ys"
    and "get_key cmp k (xs @ (k', v) # ys) = Some v"
proof -
  have "k' \<in> D" using assms(3) by simp
  have "cmp k (fst e) \<noteq> 0" if "e \<in> set (xs @ ys)" for e
  proof -
    have "fst e \<in> D" using that assms(3) by (auto simp: keys_in_def)
    moreover have "cmp k' (fst e) \<noteq> 0 \<or> cmp (fst e) k' \<noteq> 0"
      using that assms(1) by (auto simp: uniq_entries_def sorted_wrt_append)
    ultimately show ?thesis
      using assms(2,4) \<open>k' \<in> D\<close> cmp_eq_left [of k k' "fst e"] cmp_sym [of k' "fst e"] by auto
  qed
  then show "del_key cmp k (xs @ (k', v) # ys) = xs @ ys"
    using assms(2) by (auto simp: del_key_def intro!: filter_id_if_all)
  show "get_key cmp k (xs @ (k', v) # ys) = Some v"
    by (rule get_key_uniq [OF assms(1) _ assms(2,3,4)]) simp
qed

lemma del_ins_entry:
  "fresh_key cmp k xs \<Longrightarrow> k \<in> D \<Longrightarrow> del_key cmp k (ins_entry cmp k v xs) = xs"
proof (induction xs)
  case Nil
  then show ?case by (simp add: del_key_def)
next
  case (Cons x xs)
  then have "del_key cmp k xs = xs" by (auto simp: fresh_key_def intro: del_key_fresh)
  with Cons show ?case by (auto simp: fresh_key_def del_key_def)
qed

lemma del_key_cong:
  "cmp k k' = 0 \<Longrightarrow> keys_in D xs \<Longrightarrow> k \<in> D \<Longrightarrow> k' \<in> D \<Longrightarrow> del_key cmp k xs = del_key cmp k' xs"
  unfolding del_key_def
  by (rule filter_cong [OF refl]) (simp add: cmp_eq_left [of k k'] keys_in_def)

end

section \<open>The interface\<close>

locale assoc_container = comparator cmp D for cmp :: "'k cmp_fun" and D +
  fixes inv :: "'t \<Rightarrow> bool"
    and entries :: "'t \<Rightarrow> ('k \<times> 'v) list"
    and ins :: "'t \<Rightarrow> 'k \<Rightarrow> 'v \<Rightarrow> 't res"
    and ext :: "'t \<Rightarrow> 'k \<Rightarrow> ('v \<times> 't) res"
  assumes inv_sorted: "inv t \<Longrightarrow> sorted_entries cmp (entries t)"
    and inv_keys: "inv t \<Longrightarrow> keys_in D (entries t)"
    and ins_ok: "inv t \<Longrightarrow> k \<in> D \<Longrightarrow>
      \<exists>t'. ins t k v = Inr t' \<and> inv t' \<and> entries t' = ins_entry cmp k v (entries t)"
    and ext_found: "inv t \<Longrightarrow> k \<in> D \<Longrightarrow> \<not> fresh_key cmp k (entries t) \<Longrightarrow>
      \<exists>k' v t' xs ys. ext t k = Inr (v, t') \<and> inv t' \<and> cmp k k' = 0 \<and>
        entries t = xs @ (k', v) # ys \<and> entries t' = xs @ ys"
    and ext_absent: "inv t \<Longrightarrow> k \<in> D \<Longrightarrow> fresh_key cmp k (entries t) \<Longrightarrow> ext t k = Inl AssertFail"
begin

text \<open>A client that never stores the same key twice sees a finite map.\<close>

lemma ext_uniq:
  assumes "inv t" "k \<in> D" "uniq_entries cmp (entries t)" "get_key cmp k (entries t) = Some v"
  obtains t' where "ext t k = Inr (v, t')" "inv t'" "entries t' = del_key cmp k (entries t)"
proof -
  have "\<not> fresh_key cmp k (entries t)" using assms(4) by (simp flip: get_key_None_iff)
  from ext_found [OF assms(1,2) this] obtain k' v' t' xs ys where
    *: "ext t k = Inr (v', t')" "inv t'" "cmp k k' = 0"
      "entries t = xs @ (k', v') # ys" "entries t' = xs @ ys" by blast
  with assms show ?thesis using that del_key_split [of xs k' v' ys k] inv_keys [OF assms(1)] by auto
qed

lemma ext_uniq_cases:
  assumes "inv t" "k \<in> D" "uniq_entries cmp (entries t)"
  shows "case get_key cmp k (entries t) of
      None \<Rightarrow> ext t k = Inl AssertFail
    | Some v \<Rightarrow> \<exists>t'. ext t k = Inr (v, t') \<and> inv t' \<and> entries t' = del_key cmp k (entries t)"
proof (cases "get_key cmp k (entries t)")
  case None
  moreover have "fresh_key cmp k (entries t)" using None by (simp add: get_key_None_iff)
  ultimately show ?thesis using ext_absent [OF assms(1,2)] by simp
next
  case (Some v)
  then show ?thesis using ext_uniq [OF assms Some] by auto
qed

lemma ext_after_ins:
  assumes "inv t" "fresh_key cmp k (entries t)" "cmp q k = 0" "k \<in> D" "q \<in> D"
    and "uniq_entries cmp (entries t)"
  shows "\<exists>t' t''. ins t k v = Inr t' \<and> ext t' q = Inr (v, t'') \<and> inv t'' \<and>
    entries t'' = entries t"
proof -
  obtain t' where t': "ins t k v = Inr t'" "inv t'" "entries t' = ins_entry cmp k v (entries t)"
    using ins_ok assms by blast
  note ks = inv_keys [OF assms(1)] and ks' = inv_keys [OF t'(2)]
  have "uniq_entries cmp (entries t')" using uniq_ins_entry assms t' ks by simp
  moreover have "get_key cmp q (entries t') = Some v"
    using get_ins_entry [OF assms(2) ks assms(4,5)] assms(3) t'(3) by simp
  ultimately obtain t'' where t'': "ext t' q = Inr (v, t'')" "inv t''"
    "entries t'' = del_key cmp q (entries t')"
    using ext_uniq [OF t'(2) assms(5)] by blast
  have "del_key cmp q (entries t') = del_key cmp k (entries t')"
    using assms ks' by (intro del_key_cong)
  with t'' t' assms have "entries t'' = entries t" using del_ins_entry by simp
  with t' t'' show ?thesis by blast
qed

end

end
