(* ===== verification/Compare.thy ===== *)
theory Compare
  imports AssocSpec
begin

text \<open>
  The comparators of \<open>src/util/compare.h\<close> and the ways the other comparators of the code
  are built: by the order of one number, and by one comparator after the other.  All of
  them are instances of the locale \<open>comparator\<close>.

  \<open>cmp_fd\<close> and \<open>eq_fd\<close> also assert that both file descriptors are positive; the set of
  the positive ones is the set of keys on which \<open>cmp_fd\<close> is a comparator.
\<close>

definition cmp_order :: "'a::linorder \<Rightarrow> 'a \<Rightarrow> int" where
  "cmp_order a b = (if a < b then 1 else if a = b then 0 else -1)"

definition cmp_lex :: "'a cmp_fun \<Rightarrow> 'a cmp_fun \<Rightarrow> 'a cmp_fun" where
  "cmp_lex c d a b = (if c a b \<noteq> 0 then c a b else d a b)"

lemma cmp_order_comparator: "comparator (\<lambda>a b. cmp_order (f a) (f b :: 'b::linorder)) D"
  by unfold_locales (auto simp: cmp_order_def split: if_splits)

lemma cmp_order_flipped_comparator:
  "comparator (\<lambda>a b. cmp_order (f b) (f a :: 'b::linorder)) D"
  by unfold_locales (auto simp: cmp_order_def split: if_splits)

lemma cmp_order_eq0 [simp]: "cmp_order a b = 0 \<longleftrightarrow> a = b"
  by (auto simp: cmp_order_def)

lemma cmp_order_refl [simp]: "cmp_order a a = 0"
  by simp

lemma comparator_cong:
  assumes "comparator c D" "\<And>a b. a \<in> D \<Longrightarrow> b \<in> D \<Longrightarrow> c a b = d a b"
  shows "comparator d D"
proof
  show "d a b = 1 \<or> d a b = 0 \<or> d a b = -1" if "a \<in> D" "b \<in> D" for a b
    using comparator.cmp_range [OF assms(1) that] assms(2) [OF that] by simp
  show "d a b = - d b a" if "a \<in> D" "b \<in> D" for a b
    using comparator.cmp_flip [OF assms(1) that] assms(2) that by simp
  show "d e g = 1" if "e \<in> D" "f \<in> D" "g \<in> D" "d e f = 1" "d f g = 1" for e f g
    using comparator.cmp_trans [OF assms(1) that(1-3)] assms(2) that by simp
  show "d e g = d f g" if "e \<in> D" "f \<in> D" "g \<in> D" "d e f = 0" for e f g
    using comparator.cmp_eq_left [OF assms(1) that(1-3)] assms(2) that by simp
qed

lemma cmp_lex_comparator:
  assumes "comparator c D" "comparator d D"
  shows "comparator (cmp_lex c d) D"
proof
  fix a b assume *: "a \<in> D" "b \<in> D"
  show "cmp_lex c d a b = 1 \<or> cmp_lex c d a b = 0 \<or> cmp_lex c d a b = -1"
    using assms [THEN comparator.cmp_range, of a b] * by (auto simp: cmp_lex_def)
  show "cmp_lex c d a b = - cmp_lex c d b a"
    using assms [THEN comparator.cmp_flip, of a b] * by (auto simp: cmp_lex_def)
next
  fix e f g assume *: "e \<in> D" "f \<in> D" "g \<in> D"
  note r = comparator.cmp_range [OF assms(1)] comparator.cmp_range [OF assms(2)]
  show "cmp_lex c d e g = 1" if "cmp_lex c d e f = 1" "cmp_lex c d f g = 1"
    using that * comparator.cmp_trans [OF assms(1), of e f g]
      comparator.cmp_trans [OF assms(2), of e f g]
      comparator.cmp_eq_left [OF assms(1), of e f g]
      comparator.cmp_eq_right [OF assms(1), of f g e]
    by (auto simp: cmp_lex_def split: if_splits)
  show "cmp_lex c d e g = cmp_lex c d f g" if "cmp_lex c d e f = 0"
    using that * comparator.cmp_eq_left [OF assms(1), of e f g]
      comparator.cmp_eq_left [OF assms(2), of e f g]
    by (auto simp: cmp_lex_def split: if_splits)
qed

section \<open>File descriptors and RAN function identifiers\<close>

definition eq_fd :: "int \<Rightarrow> int \<Rightarrow> bool res" where
  "eq_fd fd1 fd2 = res_bind (c_assert (0 < fd1)) (\<lambda>_. res_bind (c_assert (0 < fd2)) (\<lambda>_. Inr (fd1 = fd2)))"

definition fd_dom :: "int set" where
  "fd_dom = {fd. 0 < fd}"

definition cmp_fd :: "int cmp_fun" where
  "cmp_fd fd1 fd2 = (if fd1 < fd2 then 1 else if fd1 = fd2 then 0 else -1)"

definition eq_ran_func_id :: "u16 \<Rightarrow> u16 \<Rightarrow> bool" where
  "eq_ran_func_id a b = (a = b)"

definition cmp_ran_func_id :: "u16 cmp_fun" where
  "cmp_ran_func_id a b = (if a < b then 1 else if a = b then 0 else -1)"

lemma fd_dom_iff [simp]: "fd \<in> fd_dom \<longleftrightarrow> 0 < fd"
  by (simp add: fd_dom_def)

lemma cmp_fd_eq0 [simp]: "cmp_fd a b = 0 \<longleftrightarrow> a = b"
  by (simp add: cmp_fd_def)

lemma cmp_ran_func_id_eq0 [simp]: "cmp_ran_func_id a b = 0 \<longleftrightarrow> a = b"
  by (simp add: cmp_ran_func_id_def)

lemma eq_fd_ok: "fd1 \<in> fd_dom \<Longrightarrow> fd2 \<in> fd_dom \<Longrightarrow> eq_fd fd1 fd2 = Inr (cmp_fd fd1 fd2 = 0)"
  by (simp add: eq_fd_def)

interpretation fd: comparator cmp_fd fd_dom
  by (rule comparator_cong [OF cmp_order_comparator [of "\<lambda>x. x"]])
     (simp add: cmp_order_def cmp_fd_def)

interpretation ran_func: comparator cmp_ran_func_id UNIV
  by (rule comparator_cong [OF cmp_order_comparator [of "\<lambda>x. x"]])
     (simp add: cmp_order_def cmp_ran_func_id_def)

end
