(* ===== verification/RbTree.thy ===== *)
theory RbTree
  imports Compare
begin

text \<open>
  The red-black tree of \<open>src/util/alg_ds/ds/assoc_container/assoc_rb_tree.c\<close>, on which
  every map of the RIC and of the agent is built.

  A heap of nodes linked by \<open>left\<close>, \<open>right\<close> and \<open>parent\<close> is a tree together with the
  node in focus.  The subtree below the focus is an \<open>assoc_node\<close> (\<open>Dummy\<close> is the
  sentinel \<open>tree->dummy\<close>); what the \<open>parent\<close> pointers of the focus reach is a path, the
  nearest parent first, each entry holding the parent's own fields and its other
  subtree.  \<open>plug\<close> is the whole tree.  A step \<open>x = x->parent\<close> drops the first entry,
  \<open>x = x->left\<close> adds one.  The sentinel has null children, so a read through them is
  \<open>NullDeref\<close>.
\<close>

datatype assoc_color = ASSOC_BLACK | ASSOC_RED

datatype ('k, 'v) assoc_node =
    Dummy
  | Node (ncolor: assoc_color) (nleft: "('k, 'v) assoc_node") (nkey: 'k) (nvalue: 'v)
      (nright: "('k, 'v) assoc_node")
where
  "ncolor Dummy = ASSOC_BLACK"

text \<open>\<open>LeftOf\<close>: the focus is the left child of this parent; \<open>RightOf\<close>: its right child.\<close>

datatype ('k, 'v) parent =
    LeftOf assoc_color 'k 'v "('k, 'v) assoc_node"
  | RightOf assoc_color "('k, 'v) assoc_node" 'k 'v

type_synonym ('k, 'v) path = "('k, 'v) parent list"

fun set_color :: "assoc_color \<Rightarrow> ('k, 'v) assoc_node \<Rightarrow> ('k, 'v) assoc_node" where
  "set_color c Dummy = Dummy"
| "set_color c (Node _ l k v r) = Node c l k v r"

fun pcolor :: "('k, 'v) parent \<Rightarrow> assoc_color" where
  "pcolor (LeftOf c _ _ _) = c"
| "pcolor (RightOf c _ _ _) = c"

fun link :: "('k, 'v) assoc_node \<Rightarrow> ('k, 'v) parent \<Rightarrow> ('k, 'v) assoc_node" where
  "link x (LeftOf c k v r) = Node c x k v r"
| "link x (RightOf c l k v) = Node c l k v x"

fun plug :: "('k, 'v) assoc_node \<Rightarrow> ('k, 'v) path \<Rightarrow> ('k, 'v) assoc_node" where
  "plug x [] = x"
| "plug x (p # ps) = plug (link x p) ps"

record ('k, 'v) assoc_rb_tree =
  root :: "('k, 'v) assoc_node"
  comp :: "'k cmp_fun"
  tsize :: nat

definition assoc_rb_tree_init :: "'k cmp_fun \<Rightarrow> ('k, 'v) assoc_rb_tree" where
  "assoc_rb_tree_init comp_func = \<lparr>root = Dummy, comp = comp_func, tsize = 0\<rparr>"

section \<open>Rotations\<close>

text \<open>The subtree rooted at \<open>x_node\<close> after the rotation; relinking it below the parent of
  \<open>x_node\<close> is \<open>plug\<close>.\<close>

fun left_rotate :: "('k, 'v) assoc_node \<Rightarrow> ('k, 'v) assoc_node res" where
  "left_rotate (Node c a k v (Node c' b k' v' d)) = Inr (Node c' (Node c a k v b) k' v' d)"
| "left_rotate _ = Inl AssertFail"

fun right_rotate :: "('k, 'v) assoc_node \<Rightarrow> ('k, 'v) assoc_node res" where
  "right_rotate (Node c (Node c' a k' v' b) k v d) = Inr (Node c' a k' v' (Node c b k v d))"
| "right_rotate _ = Inl AssertFail"

section \<open>Insertion\<close>

text \<open>The loop of \<open>insert_fixup\<close>: the focus is \<open>z_node\<close>.  A red root as the parent has the
  sentinel as \<open>grand_parent\<close>, whose null \<open>left\<close> is read as the uncle.  After cases 2
  and 3 the parent is black and the loop ends.\<close>

fun insert_fixup ::
  "('k, 'v) assoc_node \<Rightarrow> ('k, 'v) path \<Rightarrow> ('k, 'v) assoc_node res" where
  "insert_fixup z [] = Inr (set_color ASSOC_BLACK z)"
| "insert_fixup z [p] =
    (if pcolor p = ASSOC_RED then Inl NullDeref
     else Inr (set_color ASSOC_BLACK (plug z [p])))"
| "insert_fixup z (p # g # rest) =
    (if pcolor p = ASSOC_RED then
       (case g of
          LeftOf gc gk gv uncle \<Rightarrow>
            if ncolor uncle = ASSOC_RED then
              insert_fixup (Node ASSOC_RED (set_color ASSOC_BLACK (link z p)) gk gv
                (set_color ASSOC_BLACK uncle)) rest
            else
              res_bind (case p of RightOf _ _ _ _ \<Rightarrow> left_rotate (link z p)
                                | LeftOf _ _ _ _ \<Rightarrow> Inr (link z p)) (\<lambda>prnt.
              res_bind (right_rotate (Node ASSOC_RED (set_color ASSOC_BLACK prnt) gk gv uncle)) (\<lambda>t.
              Inr (set_color ASSOC_BLACK (plug t rest))))
        | RightOf gc uncle gk gv \<Rightarrow>
            if ncolor uncle = ASSOC_RED then
              insert_fixup (Node ASSOC_RED (set_color ASSOC_BLACK uncle) gk gv
                (set_color ASSOC_BLACK (link z p))) rest
            else
              res_bind (case p of LeftOf _ _ _ _ \<Rightarrow> right_rotate (link z p)
                                | RightOf _ _ _ _ \<Rightarrow> Inr (link z p)) (\<lambda>prnt.
              res_bind (left_rotate (Node ASSOC_RED uncle gk gv (set_color ASSOC_BLACK prnt))) (\<lambda>t.
              Inr (set_color ASSOC_BLACK (plug t rest)))))
     else Inr (set_color ASSOC_BLACK (plug z (p # g # rest))))"

text \<open>The descent to the leaf where the new node goes.\<close>

fun insert_path ::
  "'k cmp_fun \<Rightarrow> 'k \<Rightarrow> ('k, 'v) assoc_node \<Rightarrow> ('k, 'v) path \<Rightarrow> ('k, 'v) path" where
  "insert_path cmp key Dummy ps = ps"
| "insert_path cmp key (Node c l k v r) ps =
    (if cmp key k = 1 then insert_path cmp key l (LeftOf c k v r # ps)
     else insert_path cmp key r (RightOf c l k v # ps))"

definition assoc_rb_tree_insert ::
  "('k, 'v) assoc_rb_tree \<Rightarrow> 'k \<Rightarrow> 'v \<Rightarrow> ('k, 'v) assoc_rb_tree res" where
  "assoc_rb_tree_insert tree key v =
    res_bind (insert_fixup (Node ASSOC_RED Dummy key v Dummy)
                (insert_path (comp tree) key (root tree) [])) (\<lambda>t.
    Inr (tree\<lparr>root := t, tsize := tsize tree + 1\<rparr>))"

section \<open>Removal\<close>

text \<open>Cases 2, 3 and 4 of \<open>delete_fixup\<close>, with the parent \<open>Node pc _ pk pv _\<close> of \<open>x\<close> and
  its sibling \<open>w\<close>.  The result is the next \<open>x_node\<close> with its path; after case 4 it is the
  root.\<close>

definition fixup_left ::
  "('k, 'v) assoc_node \<Rightarrow> assoc_color \<Rightarrow> 'k \<Rightarrow> 'v \<Rightarrow> ('k, 'v) assoc_node \<Rightarrow> ('k, 'v) path \<Rightarrow>
    (('k, 'v) assoc_node \<times> ('k, 'v) path) res" where
  "fixup_left x pc pk pv w ps =
    res_bind (c_assert (ncolor w = ASSOC_BLACK)) (\<lambda>_.
    case w of
      Dummy \<Rightarrow> Inl NullDeref
    | Node wc wl wk wv wr \<Rightarrow>
        if ncolor wl = ASSOC_BLACK \<and> ncolor wr = ASSOC_BLACK then
          Inr (Node pc x pk pv (Node ASSOC_RED wl wk wv wr), ps)
        else
          res_bind (if ncolor wr = ASSOC_BLACK
                    then right_rotate (Node ASSOC_RED (set_color ASSOC_BLACK wl) wk wv wr)
                    else Inr w) (\<lambda>w'.
          case w' of
            Dummy \<Rightarrow> Inl NullDeref
          | Node wc' wl' wk' wv' wr' \<Rightarrow>
              res_bind (c_assert (wc' = ASSOC_BLACK \<and> ncolor wr' = ASSOC_RED)) (\<lambda>_.
              res_bind (left_rotate (Node ASSOC_BLACK x pk pv
                          (Node pc wl' wk' wv' (set_color ASSOC_BLACK wr')))) (\<lambda>t.
              Inr (plug t ps, [])))))"

definition fixup_right ::
  "('k, 'v) assoc_node \<Rightarrow> assoc_color \<Rightarrow> ('k, 'v) assoc_node \<Rightarrow> 'k \<Rightarrow> 'v \<Rightarrow> ('k, 'v) path \<Rightarrow>
    (('k, 'v) assoc_node \<times> ('k, 'v) path) res" where
  "fixup_right x pc w pk pv ps =
    res_bind (c_assert (ncolor w = ASSOC_BLACK)) (\<lambda>_.
    case w of
      Dummy \<Rightarrow> Inl NullDeref
    | Node wc wl wk wv wr \<Rightarrow>
        if ncolor wl = ASSOC_BLACK \<and> ncolor wr = ASSOC_BLACK then
          Inr (Node pc (Node ASSOC_RED wl wk wv wr) pk pv x, ps)
        else
          res_bind (if ncolor wl = ASSOC_BLACK
                    then left_rotate (Node ASSOC_RED wl wk wv (set_color ASSOC_BLACK wr))
                    else Inr w) (\<lambda>w'.
          case w' of
            Dummy \<Rightarrow> Inl NullDeref
          | Node wc' wl' wk' wv' wr' \<Rightarrow>
              res_bind (c_assert (wc' = ASSOC_BLACK \<and> ncolor wl' = ASSOC_RED)) (\<lambda>_.
              res_bind (right_rotate (Node ASSOC_BLACK
                          (Node pc (set_color ASSOC_BLACK wl') wk' wv' wr') pk pv x)) (\<lambda>t.
              Inr (plug t ps, [])))))"

text \<open>Case 1 in front of them: a red sibling becomes the black parent of the red parent.\<close>

fun fixup_step ::
  "('k, 'v) assoc_node \<Rightarrow> ('k, 'v) parent \<Rightarrow> ('k, 'v) path \<Rightarrow>
    (('k, 'v) assoc_node \<times> ('k, 'v) path) res" where
  "fixup_step x (LeftOf pc pk pv w) ps =
    (case w of
       Node ASSOC_RED wl wk wv wr \<Rightarrow>
         fixup_left x ASSOC_RED pk pv wl (LeftOf ASSOC_BLACK wk wv wr # ps)
     | _ \<Rightarrow> fixup_left x pc pk pv w ps)"
| "fixup_step x (RightOf pc w pk pv) ps =
    (case w of
       Node ASSOC_RED wl wk wv wr \<Rightarrow>
         fixup_right x ASSOC_RED wr pk pv (RightOf ASSOC_BLACK wl wk wv # ps)
     | _ \<Rightarrow> fixup_right x pc w pk pv ps)"

lemma fixup_left_measure:
  "fixup_left x pc pk pv w ps = Inr (x', ps') \<Longrightarrow>
    ps' = [] \<or> (ncolor x' = pc \<and> ps' = ps)"
  by (auto simp: fixup_left_def res_bind_def c_assert_def
           split: assoc_node.splits if_splits sum.splits)

lemma fixup_right_measure:
  "fixup_right x pc w pk pv ps = Inr (x', ps') \<Longrightarrow>
    ps' = [] \<or> (ncolor x' = pc \<and> ps' = ps)"
  by (auto simp: fixup_right_def res_bind_def c_assert_def
           split: assoc_node.splits if_splits sum.splits)

lemma fixup_step_measure:
  assumes "fixup_step x p ps = Inr (x', ps')"
  shows "ps' = [] \<or> ncolor x' = ASSOC_RED \<or> ps' = ps"
  using assms
  by (cases p)
     (auto split: assoc_node.splits assoc_color.splits
       dest!: fixup_left_measure fixup_right_measure)

function delete_fixup ::
  "('k, 'v) assoc_node \<Rightarrow> ('k, 'v) path \<Rightarrow> ('k, 'v) assoc_node res" where
  "delete_fixup x [] = Inr (set_color ASSOC_BLACK x)"
| "delete_fixup x (p # ps) =
    (if ncolor x = ASSOC_BLACK then
       (case fixup_step x p ps of
          Inl e \<Rightarrow> Inl e
        | Inr (x', ps') \<Rightarrow> delete_fixup x' ps')
     else Inr (plug (set_color ASSOC_BLACK x) (p # ps)))"
  by pat_completeness auto
termination
  by (relation "measure (\<lambda>(x, ps). if ncolor x = ASSOC_RED then 0 else length ps)")
     (auto dest: fixup_step_measure)

text \<open>\<open>minimum\<close>: the leftmost node of the focus, with its path.\<close>

fun minimum ::
  "('k, 'v) assoc_node \<Rightarrow> ('k, 'v) path \<Rightarrow> ('k, 'v) assoc_node \<times> ('k, 'v) path" where
  "minimum Dummy ps = (Dummy, [])"
| "minimum (Node c l k v r) ps =
    (if l = Dummy then (Node c l k v r, ps) else minimum l (LeftOf c k v r # ps))"

text \<open>A comparator result outside -1, 0, 1 fails the assertion of the loop.\<close>

fun find_rb_tree ::
  "'k cmp_fun \<Rightarrow> 'k \<Rightarrow> ('k, 'v) assoc_node \<Rightarrow> ('k, 'v) path \<Rightarrow>
    (('k, 'v) assoc_node \<times> ('k, 'v) path) res" where
  "find_rb_tree cmp key Dummy ps = Inr (Dummy, ps)"
| "find_rb_tree cmp key (Node c l k v r) ps =
    (if cmp key k = 1 then find_rb_tree cmp key l (LeftOf c k v r # ps)
     else if cmp key k = -1 then find_rb_tree cmp key r (RightOf c l k v # ps)
     else if cmp key k = 0 then Inr (Node c l k v r, ps)
     else Inl AssertFail)"

text \<open>The part of \<open>assoc_rb_tree_extract\<close> before the fixup: the colour that leaves its
  place, and \<open>x_node\<close> in focus.  With two children, the leftmost node \<open>y\<close> of the right
  subtree takes the place and the colour of \<open>z\<close>; the path of \<open>x\<close> goes through it.\<close>

fun unlink_node ::
  "('k, 'v) assoc_node \<Rightarrow> ('k, 'v) path \<Rightarrow>
    assoc_color \<times> ('k, 'v) assoc_node \<times> ('k, 'v) path" where
  "unlink_node Dummy ps = (ASSOC_BLACK, Dummy, ps)"
| "unlink_node (Node c l k v r) ps =
    (if l = Dummy then (c, r, ps)
     else if r = Dummy then (c, l, ps)
     else (case minimum r [] of
             (Node yc yl yk yv yr, py) \<Rightarrow> (yc, yr, py @ RightOf c l yk yv # ps)
           | (Dummy, py) \<Rightarrow> (c, l, ps)))"

definition assoc_rb_tree_extract ::
  "('k, 'v) assoc_rb_tree \<Rightarrow> 'k \<Rightarrow> ('v \<times> ('k, 'v) assoc_rb_tree) res" where
  "assoc_rb_tree_extract tree key =
    res_bind (find_rb_tree (comp tree) key (root tree) []) (\<lambda>(z, ps).
    res_bind (c_assert (z \<noteq> Dummy)) (\<lambda>_.
    case unlink_node z ps of (original_color, x, ps') \<Rightarrow>
    res_bind (if original_color = ASSOC_BLACK then delete_fixup x ps' else Inr (plug x ps')) (\<lambda>t.
    res_bind (c_assert (tsize tree \<noteq> 0)) (\<lambda>_.
    Inr (nvalue z, tree\<lparr>root := t, tsize := tsize tree - 1\<rparr>)))))"

section \<open>Iteration\<close>

text \<open>An iterator is a node in focus; the end iterator is the sentinel.\<close>

type_synonym ('k, 'v) rb_it = "('k, 'v) assoc_node \<times> ('k, 'v) path"

definition assoc_rb_tree_front :: "('k, 'v) assoc_rb_tree \<Rightarrow> ('k, 'v) rb_it" where
  "assoc_rb_tree_front tree = minimum (root tree) []"

definition assoc_rb_tree_end :: "('k, 'v) assoc_rb_tree \<Rightarrow> ('k, 'v) rb_it" where
  "assoc_rb_tree_end tree = (Dummy, [])"

text \<open>Climbing to the first parent reached from its left.\<close>

fun climb :: "('k, 'v) assoc_node \<Rightarrow> ('k, 'v) path \<Rightarrow> ('k, 'v) rb_it" where
  "climb x [] = (Dummy, [])"
| "climb x (LeftOf c k v r # ps) = (Node c x k v r, ps)"
| "climb x (RightOf c l k v # ps) = climb (Node c l k v x) ps"

fun assoc_rb_tree_next :: "('k, 'v) rb_it \<Rightarrow> ('k, 'v) rb_it res" where
  "assoc_rb_tree_next (Dummy, ps) = Inl AssertFail"
| "assoc_rb_tree_next (Node c l k v r, ps) =
    (if r \<noteq> Dummy then Inr (minimum r (RightOf c l k v # ps))
     else Inr (climb (Node c l k v r) ps))"

fun assoc_rb_tree_key :: "('k, 'v) rb_it \<Rightarrow> 'k res" where
  "assoc_rb_tree_key (Dummy, ps) = Inl AssertFail"
| "assoc_rb_tree_key (Node c l k v r, ps) = Inr k"

fun assoc_rb_tree_value :: "('k, 'v) rb_it \<Rightarrow> 'v res" where
  "assoc_rb_tree_value (Dummy, ps) = Inl AssertFail"
| "assoc_rb_tree_value (Node c l k v r, ps) = Inr v"

definition assoc_rb_tree_size :: "('k, 'v) assoc_rb_tree \<Rightarrow> nat" where
  "assoc_rb_tree_size tree = tsize tree"

text \<open>The order in which \<open>assoc_rb_tree_free\<close> hands the entries to the free function.\<close>

fun depth_first_search_free :: "('k, 'v) assoc_node \<Rightarrow> ('k \<times> 'v) list" where
  "depth_first_search_free Dummy = []"
| "depth_first_search_free (Node c l k v r) =
    depth_first_search_free l @ depth_first_search_free r @ [(k, v)]"

definition assoc_rb_tree_free :: "('k, 'v) assoc_rb_tree \<Rightarrow> ('k \<times> 'v) list" where
  "assoc_rb_tree_free tree = depth_first_search_free (root tree)"

section \<open>The sequence of entries\<close>

fun inorder :: "('k, 'v) assoc_node \<Rightarrow> ('k \<times> 'v) list" where
  "inorder Dummy = []"
| "inorder (Node c l k v r) = inorder l @ (k, v) # inorder r"

fun before :: "('k, 'v) path \<Rightarrow> ('k \<times> 'v) list" where
  "before [] = []"
| "before (LeftOf c k v r # ps) = before ps"
| "before (RightOf c l k v # ps) = before ps @ inorder l @ [(k, v)]"

fun after :: "('k, 'v) path \<Rightarrow> ('k \<times> 'v) list" where
  "after [] = []"
| "after (LeftOf c k v r # ps) = (k, v) # inorder r @ after ps"
| "after (RightOf c l k v # ps) = after ps"

named_theorems rb_inorder

lemma inorder_plug [rb_inorder]: "inorder (plug x ps) = before ps @ inorder x @ after ps"
proof (induction ps arbitrary: x)
  case (Cons p ps) then show ?case by (cases p) auto
qed simp

lemma inorder_set_color [simp]: "inorder (set_color c t) = inorder t"
  by (cases t) auto

lemma before_append [simp]: "before (ps @ qs) = before qs @ before ps"
  by (induction ps rule: before.induct) auto

lemma after_append [simp]: "after (ps @ qs) = after ps @ after qs"
  by (induction ps rule: after.induct) auto

lemma plug_append: "plug x (ps @ qs) = plug (plug x ps) qs"
  by (induction ps arbitrary: x) auto

lemma left_rotate_inorder [rb_inorder]: "left_rotate t = Inr t' \<Longrightarrow> inorder t' = inorder t"
  by (cases t rule: left_rotate.cases) auto

lemma right_rotate_inorder [rb_inorder]: "right_rotate t = Inr t' \<Longrightarrow> inorder t' = inorder t"
  by (cases t rule: right_rotate.cases) auto

section \<open>The red-black properties\<close>

text \<open>Property 4 (\<open>invc\<close>), property 5 (\<open>invh\<close> with the black height \<open>bh\<close>) and
  property 2 (a black root) of the comment that opens the C file; and what they say of a
  path, so that they can be read off the focus.\<close>

fun invc :: "('k, 'v) assoc_node \<Rightarrow> bool" where
  "invc Dummy = True"
| "invc (Node c l k v r) =
    ((c = ASSOC_RED \<longrightarrow> ncolor l = ASSOC_BLACK \<and> ncolor r = ASSOC_BLACK) \<and> invc l \<and> invc r)"

definition blk :: "assoc_color \<Rightarrow> nat" where
  "blk c = (if c = ASSOC_BLACK then 1 else 0)"

lemma blk_simps [simp]: "blk ASSOC_BLACK = 1" "blk ASSOC_RED = 0" "blk c = 0 \<longleftrightarrow> c = ASSOC_RED"
  by (cases c; simp add: blk_def)+

fun bh :: "('k, 'v) assoc_node \<Rightarrow> nat" where
  "bh Dummy = 0"
| "bh (Node c l k v r) = bh l + blk c"

fun invh :: "('k, 'v) assoc_node \<Rightarrow> bool" where
  "invh Dummy = True"
| "invh (Node c l k v r) = (invh l \<and> invh r \<and> bh l = bh r)"

definition rb_ok :: "('k, 'v) assoc_node \<Rightarrow> bool" where
  "rb_ok t \<longleftrightarrow> invc t \<and> invh t \<and> ncolor t = ASSOC_BLACK"

fun path_h :: "('k, 'v) path \<Rightarrow> nat \<Rightarrow> bool" where
  "path_h [] n = True"
| "path_h (LeftOf c k v r # ps) n = (invh r \<and> bh r = n \<and> path_h ps (n + blk c))"
| "path_h (RightOf c l k v # ps) n = (invh l \<and> bh l = n \<and> path_h ps (n + blk c))"

fun path_c :: "('k, 'v) path \<Rightarrow> assoc_color \<Rightarrow> bool" where
  "path_c [] fc = True"
| "path_c (LeftOf c k v r # ps) fc =
    (invc r \<and> (c = ASSOC_RED \<longrightarrow> ncolor r = ASSOC_BLACK \<and> fc = ASSOC_BLACK) \<and> path_c ps c)"
| "path_c (RightOf c l k v # ps) fc =
    (invc l \<and> (c = ASSOC_RED \<longrightarrow> ncolor l = ASSOC_BLACK \<and> fc = ASSOC_BLACK) \<and> path_c ps c)"

fun root_c :: "('k, 'v) path \<Rightarrow> assoc_color \<Rightarrow> assoc_color" where
  "root_c [] fc = fc"
| "root_c (p # ps) fc = root_c ps (pcolor p)"

fun blacks :: "('k, 'v) path \<Rightarrow> nat" where
  "blacks [] = 0"
| "blacks (p # ps) = blk (pcolor p) + blacks ps"

lemma color_not_red [simp]: "c \<noteq> ASSOC_RED \<longleftrightarrow> c = ASSOC_BLACK"
  by (cases c) auto
lemma color_not_black [simp]: "c \<noteq> ASSOC_BLACK \<longleftrightarrow> c = ASSOC_RED"
  by (cases c) auto

lemma ncolor_link [simp]: "ncolor (link x p) = pcolor p"
  by (cases p) auto

lemma ncolor_plug [simp]: "ncolor (plug x ps) = root_c ps (ncolor x)"
  by (induction ps arbitrary: x) auto

lemma ncolor_set_color: "ncolor (set_color c t) = (if t = Dummy then ASSOC_BLACK else c)"
  by (cases t) auto

lemma ncolor_set_black [simp]: "ncolor (set_color ASSOC_BLACK t) = ASSOC_BLACK"
  by (cases t) auto

lemma set_black_id [simp]: "ncolor t = ASSOC_BLACK \<Longrightarrow> set_color ASSOC_BLACK t = t"
  by (cases t) auto

lemma invh_set_color [simp]: "invh (set_color c t) = invh t"
  by (cases t) auto

lemma invc_set_black: "invc t \<Longrightarrow> invc (set_color ASSOC_BLACK t)"
  by (cases t) auto

lemma bh_set_black: "bh (set_color ASSOC_BLACK t) = (if ncolor t = ASSOC_RED then bh t + 1 else bh t)"
  by (cases t) (auto simp: blk_def)

lemma invc_plug: "invc (plug x ps) \<longleftrightarrow> invc x \<and> path_c ps (ncolor x)"
proof (induction ps arbitrary: x)
  case (Cons p ps) then show ?case by (cases p) auto
qed simp

lemma invh_plug: "invh (plug x ps) \<longleftrightarrow> invh x \<and> path_h ps (bh x)"
proof (induction ps arbitrary: x)
  case (Cons p ps) then show ?case by (cases p) auto
qed simp

lemma bh_plug: "path_h ps (bh x) \<Longrightarrow> bh (plug x ps) = bh x + blacks ps"
proof (induction ps arbitrary: x)
  case (Cons p ps) then show ?case by (cases p) auto
qed simp

lemma path_h_append: "path_h (ps @ qs) n \<longleftrightarrow> path_h ps n \<and> path_h qs (n + blacks ps)"
proof (induction ps arbitrary: n)
  case (Cons p ps) then show ?case by (cases p) (auto simp: add.assoc)
qed simp

lemma path_c_append: "path_c (ps @ qs) fc \<longleftrightarrow> path_c ps fc \<and> path_c qs (root_c ps fc)"
proof (induction ps arbitrary: fc)
  case (Cons p ps) then show ?case by (cases p) auto
qed simp

lemma path_c_black: "path_c ps c \<Longrightarrow> path_c ps ASSOC_BLACK"
  by (cases "(ps, c)" rule: path_c.cases) auto

lemma root_c_black: "root_c ps c = ASSOC_BLACK \<Longrightarrow> root_c ps ASSOC_BLACK = ASSOC_BLACK"
  by (cases ps) auto

lemma root_c_append [simp]: "root_c (ps @ qs) c = root_c qs (root_c ps c)"
  by (induction ps arbitrary: c) auto

lemma red_nodeE:
  assumes "ncolor t = ASSOC_RED"
  obtains l k v r where "t = Node ASSOC_RED l k v r"
  using assms by (cases t) auto

section \<open>The fixups restore them\<close>

lemma insert_fixup_inorder:
  "insert_fixup z ps = Inr t \<Longrightarrow> inorder t = inorder (plug z ps)"
proof (induction z ps rule: insert_fixup.induct)
  case (3 z p g rest)
  show ?case
  proof (cases "pcolor p = ASSOC_RED")
    case True
    with 3 show ?thesis
      by (cases g; cases p) (auto simp: rb_inorder res_bind_eq_Inr split: if_splits)
  next
    case False
    with 3 show ?thesis by auto
  qed
qed (auto split: if_splits)

lemma insert_fixup_ok:
  assumes "ncolor z = ASSOC_RED" "invc z" "invh z" "path_h ps (bh z)" "path_c ps ASSOC_BLACK"
    "root_c ps ASSOC_BLACK = ASSOC_BLACK"
  shows "\<exists>t. insert_fixup z ps = Inr t \<and> rb_ok t"
  using assms
proof (induction z ps rule: insert_fixup.induct)
  case (1 z)
  then show ?case by (auto simp: rb_ok_def invc_set_black)
next
  case (2 z p)
  then show ?case by (cases p) (auto simp: rb_ok_def)
next
  case (3 z p g rest)
  show ?case
  proof (cases "pcolor p = ASSOC_RED")
    case True
    obtain l k v r where z: "z = Node ASSOC_RED l k v r" using 3 by (auto elim: red_nodeE)
    show ?thesis
      using 3 True unfolding z
      by (cases g; cases p)
        (auto simp: invc_set_black bh_set_black rb_ok_def invc_plug invh_plug ncolor_set_color
          dest: path_c_black split: if_splits)
  next
    case False
    then show ?thesis using 3
      by (cases p; cases g) (auto simp: rb_ok_def invc_plug invh_plug)
  qed
qed


text \<open>What the loop of \<open>delete_fixup\<close> maintains: one black node is missing on the path
  above the focus, and painting the focus black repairs its own colour.\<close>

definition one_short :: "('k, 'v) assoc_node \<Rightarrow> ('k, 'v) path \<Rightarrow> bool" where
  "one_short x ps \<longleftrightarrow> invc (set_color ASSOC_BLACK x) \<and> invh x \<and> path_h ps (bh x + 1) \<and>
    path_c ps ASSOC_BLACK \<and> root_c ps ASSOC_BLACK = ASSOC_BLACK"

lemma fixup_left_ok:
  assumes "ncolor x = ASSOC_BLACK" "invc x" "invh x" "invc w" "invh w" "ncolor w = ASSOC_BLACK"
    "bh x = n" "bh w = n + 1" "path_h ps (n + 1 + blk pc)" "path_c ps pc" "root_c ps pc = ASSOC_BLACK"
  shows "\<exists>x' ps'. fixup_left x pc pk pv w ps = Inr (x', ps') \<and> one_short x' ps' \<and>
    inorder (plug x' ps') = inorder (plug (Node pc x pk pv w) ps)"
proof (cases w)
  case (Node wc wl wk wv wr)
  show ?thesis
  proof (cases wl; cases wr; cases pc)
  qed (use assms Node in \<open>auto simp: fixup_left_def one_short_def inorder_plug invc_plug invh_plug
        dest: path_c_black root_c_black split: assoc_node.splits\<close>)
qed (use assms in auto)


lemma fixup_right_ok:
  assumes "ncolor x = ASSOC_BLACK" "invc x" "invh x" "invc w" "invh w" "ncolor w = ASSOC_BLACK"
    "bh x = n" "bh w = n + 1" "path_h ps (n + 1 + blk pc)" "path_c ps pc" "root_c ps pc = ASSOC_BLACK"
  shows "\<exists>x' ps'. fixup_right x pc w pk pv ps = Inr (x', ps') \<and> one_short x' ps' \<and>
    inorder (plug x' ps') = inorder (plug (Node pc w pk pv x) ps)"
proof (cases w)
  case (Node wc wl wk wv wr)
  show ?thesis
  proof (cases wl; cases wr; cases pc)
  qed (use assms Node in \<open>auto simp: fixup_right_def one_short_def inorder_plug invc_plug invh_plug
        dest: path_c_black root_c_black split: assoc_node.splits\<close>)
qed (use assms in auto)

lemma fixup_step_ok:
  assumes "one_short x (p # ps)" "ncolor x = ASSOC_BLACK"
  shows "\<exists>x' ps'. fixup_step x p ps = Inr (x', ps') \<and> one_short x' ps' \<and>
    inorder (plug x' ps') = inorder (plug x (p # ps))"
proof (cases p)
  case (LeftOf pc pk pv w)
  show ?thesis
  proof (cases "ncolor w = ASSOC_RED")
    case True
    then obtain wl wk wv wr where w: "w = Node ASSOC_RED wl wk wv wr" by (rule red_nodeE)
    show ?thesis
      using fixup_left_ok [of x wl "bh x" "LeftOf ASSOC_BLACK wk wv wr # ps" ASSOC_RED pk pv] assms
      by (auto simp: LeftOf w one_short_def inorder_plug dest: path_c_black root_c_black)
  next
    case False
    then have "fixup_step x p ps = fixup_left x pc pk pv w ps"
      by (cases w) (auto simp: LeftOf)
    then show ?thesis
      using fixup_left_ok [of x w "bh x" ps pc pk pv] assms False by (auto simp: LeftOf one_short_def)
  qed
next
  case (RightOf pc w pk pv)
  show ?thesis
  proof (cases "ncolor w = ASSOC_RED")
    case True
    then obtain wl wk wv wr where w: "w = Node ASSOC_RED wl wk wv wr" by (rule red_nodeE)
    show ?thesis
      using fixup_right_ok [of x wr "bh x" "RightOf ASSOC_BLACK wl wk wv # ps" ASSOC_RED pk pv] assms
      by (auto simp: RightOf w one_short_def inorder_plug dest: path_c_black root_c_black)
  next
    case False
    then have "fixup_step x p ps = fixup_right x pc w pk pv ps"
      by (cases w) (auto simp: RightOf)
    then show ?thesis
      using fixup_right_ok [of x w "bh x" ps pc pk pv] assms False by (auto simp: RightOf one_short_def)
  qed
qed

lemma delete_fixup_ok:
  "one_short x ps \<Longrightarrow>
    \<exists>t. delete_fixup x ps = Inr t \<and> rb_ok t \<and> inorder t = inorder (plug x ps)"
proof (induction x ps rule: delete_fixup.induct)
  case (1 x)
  then show ?case by (simp add: one_short_def rb_ok_def)
next
  case (2 x p ps)
  show ?case
  proof (cases "ncolor x = ASSOC_BLACK")
    case True
    from fixup_step_ok [OF "2.prems" True] obtain x' ps' where
      *: "fixup_step x p ps = Inr (x', ps')" "one_short x' ps'"
        "inorder (plug x' ps') = inorder (plug x (p # ps))" by blast
    from "2.IH" [OF True *(1) refl *(2)] * True show ?thesis by auto
  next
    case False
    then have "bh (set_color ASSOC_BLACK x) = bh x + 1" by (simp add: bh_set_black)
    with False "2.prems" show ?thesis
      by (cases p) (auto simp: one_short_def rb_ok_def invc_plug invh_plug inorder_plug)
  qed
qed

section \<open>Removing a node\<close>

lemma minimum_spec:
  "t \<noteq> Dummy \<Longrightarrow> minimum t ps = (y, ps') \<Longrightarrow>
    \<exists>yc yk yv yr py. y = Node yc Dummy yk yv yr \<and> ps' = py @ ps \<and> plug y py = t \<and> before py = []"
proof (induction t arbitrary: ps)
  case (Node c l k v r)
  show ?case
  proof (cases "l = Dummy")
    case True
    with Node.prems show ?thesis by (auto intro: exI [of _ "[]"])
  next
    case False
    with Node.prems have "minimum l (LeftOf c k v r # ps) = (y, ps')" by simp
    from Node.IH(1) [OF False this] obtain yc yk yv yr py where
      "y = Node yc Dummy yk yv yr" "ps' = py @ LeftOf c k v r # ps" "plug y py = l" "before py = []"
      by blast
    then show ?thesis
      by (intro exI [of _ yc] exI [of _ yk] exI [of _ yv] exI [of _ yr]
            exI [of _ "py @ [LeftOf c k v r]"]) (simp add: plug_append)
  qed
qed simp

lemma unlink_node_inorder:
  "unlink_node (Node c l k v r) ps = (oc, x, ps') \<Longrightarrow>
    inorder (plug x ps') = before ps @ inorder l @ inorder r @ after ps"
proof (cases "l = Dummy \<or> r = Dummy")
  case False
  moreover assume "unlink_node (Node c l k v r) ps = (oc, x, ps')"
  moreover obtain y py where m: "minimum r [] = (y, py)" by (cases "minimum r []")
  moreover obtain yc yk yv yr where "y = Node yc Dummy yk yv yr" "plug y py = r" "before py = []"
    using minimum_spec [OF _ m] False by auto
  moreover have "inorder (plug y py) = inorder r" using calculation by simp
  ultimately show ?thesis by (auto simp: inorder_plug)
qed (auto simp: inorder_plug split: if_splits)

lemma unlink_node_ok:
  assumes "rb_ok (plug (Node c l k v r) ps)" "unlink_node (Node c l k v r) ps = (oc, x, ps')"
  shows "if oc = ASSOC_BLACK then one_short x ps' else rb_ok (plug x ps')"
proof -
  have r: "invc l" "invc r" "invh l" "invh r" "bh l = bh r" "path_h ps (bh l + blk c)"
    "path_c ps c" "root_c ps c = ASSOC_BLACK"
    "c = ASSOC_RED \<longrightarrow> ncolor l = ASSOC_BLACK \<and> ncolor r = ASSOC_BLACK"
    using assms(1) by (auto simp: rb_ok_def invc_plug invh_plug)
  show ?thesis
  proof (cases "l = Dummy \<or> r = Dummy")
    case True
    then have *: "oc = c" "ps' = ps" "x = (if l = Dummy then r else l)"
      using assms(2) by (auto split: if_splits)
    have "root_c ps (ncolor x) = ASSOC_BLACK" if "c = ASSOC_RED"
      using r(8) that by (cases ps) auto
    then show ?thesis
      using True r unfolding *
      by (auto simp: rb_ok_def one_short_def invc_plug invh_plug invc_set_black
          dest: path_c_black root_c_black)
  next
    case False
    obtain y py where m: "minimum r [] = (y, py)" by (cases "minimum r []")
    obtain yc yk yv yr where y: "y = Node yc Dummy yk yv yr" "plug y py = r" "before py = []"
      using minimum_spec [OF _ m] False by auto
    have u: "oc = yc" "x = yr" "ps' = py @ RightOf c l yk yv # ps"
      using assms(2) False m y by auto
    have p: "path_h py (blk yc)" "path_c py yc" "bh r = blk yc + blacks py"
      "ncolor r = root_c py yc" "invc yr" "invh yr" "bh yr = 0"
      "yc = ASSOC_RED \<longrightarrow> ncolor yr = ASSOC_BLACK"
      using r(2,4) y bh_plug [of py y] by (auto simp: invc_plug invh_plug)
    have "root_c py ASSOC_BLACK = ASSOC_RED \<longrightarrow> root_c py yc = ASSOC_RED"
      by (cases py) auto
    then have "c = ASSOC_RED \<longrightarrow> root_c py ASSOC_BLACK = ASSOC_BLACK" using r(9) p(4)
      by (metis color_not_red)
    then show ?thesis
      using p r unfolding u
      by (auto simp: one_short_def rb_ok_def path_h_append path_c_append invc_plug invh_plug
          invc_set_black dest: path_c_black)
  qed
qed

section \<open>The tree as an ordered container\<close>

definition rb_entries :: "('k, 'v) assoc_rb_tree \<Rightarrow> ('k \<times> 'v) list" where
  "rb_entries tree = inorder (root tree)"

definition rb_inv :: "'k cmp_fun \<Rightarrow> 'k set \<Rightarrow> ('k, 'v) assoc_rb_tree \<Rightarrow> bool" where
  "rb_inv cmp D tree \<longleftrightarrow> comp tree = cmp \<and> rb_ok (root tree) \<and>
    sorted_entries cmp (rb_entries tree) \<and> tsize tree = length (rb_entries tree) \<and>
    keys_in D (rb_entries tree)"

lemma insert_path_plug: "plug Dummy (insert_path cmp key t ps) = plug t ps"
  by (induction cmp key t ps rule: insert_path.induct) auto

lemma rb_inv_sorted: "rb_inv cmp D tree \<Longrightarrow> sorted_entries cmp (rb_entries tree)"
  by (simp add: rb_inv_def)

lemma rb_inv_keys: "rb_inv cmp D tree \<Longrightarrow> keys_in D (rb_entries tree)"
  by (simp add: rb_inv_def)

lemma rb_inv_init: "rb_inv cmp D (assoc_rb_tree_init cmp)"
  by (simp add: rb_inv_def rb_entries_def assoc_rb_tree_init_def rb_ok_def sorted_entries_def)

lemma sorted_entries_append:
  "sorted_entries cmp (xs @ ys) \<longleftrightarrow> sorted_entries cmp xs \<and> sorted_entries cmp ys \<and>
    (\<forall>x\<in>set xs. \<forall>y\<in>set ys. cmp (fst y) (fst x) \<noteq> 1)"
  by (auto simp: sorted_entries_def sorted_wrt_append)

lemma sorted_entries_Nil [simp]: "sorted_entries cmp []"
  by (simp add: sorted_entries_def)

lemma sorted_entries_Cons:
  "sorted_entries cmp (x # xs) \<longleftrightarrow> sorted_entries cmp xs \<and> (\<forall>y\<in>set xs. cmp (fst y) (fst x) \<noteq> 1)"
  by (auto simp: sorted_entries_def)

context comparator
begin

lemma insert_path_inorder:
  "sorted_entries cmp (inorder t) \<Longrightarrow> keys_in D (inorder t) \<Longrightarrow> key \<in> D \<Longrightarrow>
    before (insert_path cmp key t ps) @ (key, v) # after (insert_path cmp key t ps) =
    before ps @ ins_entry cmp key v (inorder t) @ after ps"
proof (induction t arbitrary: ps)
  case (Node c l k w r)
  have "sorted_entries cmp (inorder l)" "sorted_entries cmp (inorder r)"
    "sorted_entries cmp (inorder l @ [(k, w)])"
    using Node.prems by (auto simp: sorted_entries_append sorted_entries_Cons)
  with Node.IH Node.prems(2,3) show ?case
    by (auto simp: ins_entry_append_less ins_entry_append_ge)
qed simp

lemma rb_insert_ok:
  assumes "rb_inv cmp D tree" "key \<in> D"
  shows "\<exists>t'. assoc_rb_tree_insert tree key v = Inr t' \<and> rb_inv cmp D t' \<and>
    rb_entries t' = ins_entry cmp key v (rb_entries tree)"
proof -
  let ?ps = "insert_path cmp key (root tree) []" and ?z = "Node ASSOC_RED Dummy key v Dummy"
  have "rb_ok (plug Dummy ?ps)" using assms by (simp add: insert_path_plug rb_inv_def)
  then have "path_h ?ps (bh ?z)" "path_c ?ps ASSOC_BLACK" "root_c ?ps ASSOC_BLACK = ASSOC_BLACK"
    by (auto simp: rb_ok_def invc_plug invh_plug)
  with insert_fixup_ok [of ?z ?ps] obtain t where t: "insert_fixup ?z ?ps = Inr t" "rb_ok t"
    by auto
  have "inorder t = ins_entry cmp key v (rb_entries tree)"
    using insert_fixup_inorder [OF t(1)] insert_path_inorder [of "root tree" key "[]" v] assms
    by (simp add: inorder_plug rb_inv_def rb_entries_def)
  moreover have "sorted_entries cmp (ins_entry cmp key v (rb_entries tree))" "comp tree = cmp"
    "tsize tree = length (rb_entries tree)" "keys_in D (rb_entries tree)"
    using assms ins_entry_sorted by (auto simp: rb_inv_def)
  ultimately show ?thesis
    using t assms(2) by (simp add: assoc_rb_tree_insert_def rb_inv_def rb_entries_def)
qed

lemma find_rb_tree_spec:
  "sorted_entries cmp (inorder t) \<Longrightarrow> keys_in D (inorder t) \<Longrightarrow> key \<in> D \<Longrightarrow>
    \<exists>z ps'. find_rb_tree cmp key t ps = Inr (z, ps') \<and> plug z ps' = plug t ps \<and>
      (if z = Dummy then fresh_key cmp key (inorder t) else cmp key (nkey z) = 0)"
proof (induction t arbitrary: ps)
  case (Node c l k w r)
  have s: "sorted_entries cmp (inorder l)" "sorted_entries cmp (inorder r)"
    and le: "\<forall>e\<in>set (inorder l). cmp k (fst e) \<noteq> 1" "\<forall>e\<in>set (inorder r). cmp (fst e) k \<noteq> 1"
    using Node.prems(1) by (auto simp: sorted_entries_append sorted_entries_Cons)
  have d: "keys_in D (inorder l)" "keys_in D (inorder r)" "k \<in> D" using Node.prems(2) by auto
  note key = Node.prems(3)
  consider "cmp key k = 1" | "cmp key k = 0" | "cmp key k = -1"
    using cmp_range [OF key d(3)] by blast
  then show ?case
  proof cases
    case 1
    have "cmp key (fst e) \<noteq> 0" if "e \<in> set (inorder r)" for e
      using cmp_less_le_trans [of key k "fst e"] that le(2) 1 d key by (auto simp: keys_in_def)
    then have "fresh_key cmp key (inorder l) \<Longrightarrow> fresh_key cmp key (inorder (Node c l k w r))"
      using 1 by (auto simp: fresh_key_def)
    then show ?thesis
      using 1 Node.IH(1) [OF s(1) d(1) key, of "LeftOf c k w r # ps"] by fastforce
  next
    case 2
    then show ?thesis by simp
  next
    case 3
    then have "cmp k key = 1" using d(3) key by (simp add: cmp_gt_iff)
    then have "cmp (fst e) key = 1" if "e \<in> set (inorder l)" for e
      using cmp_le_less_trans [of "fst e" k key] that le(1) d key by (auto simp: keys_in_def)
    then have "cmp key (fst e) \<noteq> 0" if "e \<in> set (inorder l)" for e
      using that d(1) key cmp_sym [of key "fst e"] by (fastforce simp: keys_in_def)
    then have "fresh_key cmp key (inorder r) \<Longrightarrow> fresh_key cmp key (inorder (Node c l k w r))"
      using 3 by (auto simp: fresh_key_def)
    then show ?thesis
      using 3 Node.IH(2) [OF s(2) d(2) key, of "RightOf c l k w # ps"] by fastforce
  qed
qed (auto simp: fresh_key_def)

lemma rb_extract_absent:
  assumes "rb_inv cmp D tree" "key \<in> D" "fresh_key cmp key (rb_entries tree)"
  shows "assoc_rb_tree_extract tree key = Inl AssertFail"
proof -
  have "sorted_entries cmp (inorder (root tree))" "keys_in D (inorder (root tree))"
    using assms by (auto simp: rb_inv_def rb_entries_def)
  from find_rb_tree_spec [OF this assms(2), of "[]"] obtain z ps where
    f: "find_rb_tree cmp key (root tree) [] = Inr (z, ps)" "plug z ps = root tree"
    "z \<noteq> Dummy \<longrightarrow> cmp key (nkey z) = 0" by (auto split: if_splits)
  have "z = Dummy"
  proof (cases z)
    case (Node c l k v r)
    then have "(k, v) \<in> set (rb_entries tree)"
      unfolding rb_entries_def f(2) [symmetric] by (simp add: inorder_plug)
    with assms f Node show ?thesis by (auto simp: fresh_key_def)
  qed simp
  with f assms show ?thesis by (simp add: assoc_rb_tree_extract_def rb_inv_def)
qed

lemma rb_extract_found:
  assumes "rb_inv cmp D tree" "key \<in> D" "\<not> fresh_key cmp key (rb_entries tree)"
  shows "\<exists>k' v t' xs ys. assoc_rb_tree_extract tree key = Inr (v, t') \<and> rb_inv cmp D t' \<and>
    cmp key k' = 0 \<and> rb_entries tree = xs @ (k', v) # ys \<and> rb_entries t' = xs @ ys"
proof -
  have "sorted_entries cmp (inorder (root tree))" "keys_in D (inorder (root tree))"
    using assms by (auto simp: rb_inv_def rb_entries_def)
  from find_rb_tree_spec [OF this assms(2), of "[]"] assms obtain z ps where
    f: "find_rb_tree cmp key (root tree) [] = Inr (z, ps)" "plug z ps = root tree"
    "z \<noteq> Dummy" "cmp key (nkey z) = 0" by (auto simp: rb_entries_def split: if_splits)
  then obtain c l k v r where z: "z = Node c l k v r" by (cases z) auto
  obtain oc x ps' where u: "unlink_node z ps = (oc, x, ps')" by (cases "unlink_node z ps") auto
  have ok: "if oc = ASSOC_BLACK then one_short x ps' else rb_ok (plug x ps')"
    using unlink_node_ok [of c l k v r ps] u assms(1) f(2) by (simp add: z rb_inv_def)
  have io: "inorder (plug x ps') = before ps @ inorder l @ inorder r @ after ps"
    using unlink_node_inorder [of c l k v r ps] u by (simp add: z)
  obtain t where t: "(if oc = ASSOC_BLACK then delete_fixup x ps' else Inr (plug x ps')) = Inr t"
    "rb_ok t" "inorder t = inorder (plug x ps')"
    using ok delete_fixup_ok [of x ps'] by (cases "oc = ASSOC_BLACK") auto
  have e: "rb_entries tree = (before ps @ inorder l) @ (k, v) # (inorder r @ after ps)"
    unfolding rb_entries_def f(2) [symmetric] by (simp add: inorder_plug z)
  have n: "tsize tree = length (rb_entries tree)" "comp tree = cmp"
    "sorted_entries cmp (rb_entries tree)" "keys_in D (rb_entries tree)"
    using assms(1) by (auto simp: rb_inv_def)
  have x: "assoc_rb_tree_extract tree key = Inr (v, tree\<lparr>root := t, tsize := tsize tree - 1\<rparr>)"
    using f(1,3) t(1) n e u z
    by (simp add: assoc_rb_tree_extract_def del: unlink_node.simps)
  have "rb_inv cmp D (tree\<lparr>root := t, tsize := tsize tree - 1\<rparr>)"
    using t n e io by (auto simp: rb_inv_def rb_entries_def sorted_entries_append sorted_entries_Cons)
  moreover have "rb_entries (tree\<lparr>root := t, tsize := tsize tree - 1\<rparr>) =
      (before ps @ inorder l) @ (inorder r @ after ps)"
    using t io by (simp add: rb_entries_def)
  moreover have "cmp key k = 0" using f(4) by (simp add: z)
  ultimately show ?thesis using x e by blast
qed

end

sublocale comparator \<subseteq> rb: assoc_container cmp D "rb_inv cmp D" rb_entries
  assoc_rb_tree_insert assoc_rb_tree_extract
  by unfold_locales (rule rb_inv_sorted rb_inv_keys rb_insert_ok rb_extract_found rb_extract_absent; assumption)+

section \<open>Iterating\<close>

text \<open>What is left to visit from an iterator, the current entry included.\<close>

fun it_entries :: "('k, 'v) rb_it \<Rightarrow> ('k \<times> 'v) list" where
  "it_entries (Dummy, ps) = []"
| "it_entries (Node c l k v r, ps) = (k, v) # inorder r @ after ps"

lemma it_entries_minimum: "t \<noteq> Dummy \<Longrightarrow> it_entries (minimum t ps) = inorder t @ after ps"
proof (induction t arbitrary: ps)
  case (Node c l k v r)
  then show ?case by (cases "l = Dummy") auto
qed simp

lemma it_entries_climb: "it_entries (climb x ps) = after ps"
  by (induction x ps rule: climb.induct) auto

lemma it_entries_next: "assoc_rb_tree_next it = Inr it' \<Longrightarrow> it_entries it' = tl (it_entries it)"
  by (cases it rule: it_entries.cases) (auto simp: it_entries_minimum it_entries_climb split: if_splits)

lemma it_entries_front: "it_entries (assoc_rb_tree_front tree) = rb_entries tree"
  by (cases "root tree = Dummy") (auto simp: assoc_rb_tree_front_def rb_entries_def it_entries_minimum)

lemma next_total: "it_entries it \<noteq> [] \<Longrightarrow> \<exists>it'. assoc_rb_tree_next it = Inr it'"
  by (cases it rule: it_entries.cases) auto

lemma it_key_value:
  "it_entries it = (k, v) # es \<Longrightarrow>
    assoc_rb_tree_key it = Inr k \<and> assoc_rb_tree_value it = Inr v"
  by (cases it rule: it_entries.cases) auto

text \<open>\<open>find_if_rb_tree\<close> of \<open>alg/find.c\<close>, from an iterator to the end; \<open>f\<close> is the
  predicate applied to the searched value.\<close>

function find_if_rb_tree :: "('k \<Rightarrow> bool) \<Rightarrow> ('k, 'v) rb_it \<Rightarrow> ('k, 'v) rb_it res" where
  "find_if_rb_tree f it =
    (if fst it = Dummy then Inr it
     else res_bind (assoc_rb_tree_key it) (\<lambda>k.
       if f k then Inr it
       else res_bind (assoc_rb_tree_next it) (\<lambda>it'. find_if_rb_tree f it')))"
  by pat_completeness auto
termination
proof (relation "measure (\<lambda>(f, it). length (it_entries it))")
  fix f :: "'k \<Rightarrow> bool" and it x it' :: "('k, 'v) rb_it"
  assume "fst it \<noteq> Dummy" "assoc_rb_tree_next it = Inr it'"
  then show "((f, it'), f, it) \<in> measure (\<lambda>(f, it). length (it_entries it))"
    using it_entries_next [of it it'] by (cases it rule: it_entries.cases) auto
qed auto

declare find_if_rb_tree.simps [simp del]

lemma find_if_rb_tree_spec:
  "\<exists>it'. find_if_rb_tree f it = Inr it' \<and>
    it_entries it' = dropWhile (\<lambda>e. \<not> f (fst e)) (it_entries it)"
proof (induction f it rule: find_if_rb_tree.induct)
  case (1 f it)
  show ?case
  proof (cases it rule: it_entries.cases)
    case (2 c l k v r ps)
    show ?thesis
    proof (cases "f k")
      case False
      obtain it' where n: "assoc_rb_tree_next it = Inr it'" using next_total [of it] 2 by auto
      have "\<exists>it''. find_if_rb_tree f it' = Inr it'' \<and>
          it_entries it'' = dropWhile (\<lambda>e. \<not> f (fst e)) (it_entries it')"
        using 1 2 False n by auto
      moreover have "it_entries it' = tl (it_entries it)" using it_entries_next [OF n] .
      ultimately show ?thesis
        using 2 False n by (subst find_if_rb_tree.simps) auto
    qed (use 2 in \<open>subst find_if_rb_tree.simps, simp\<close>)
  qed (subst find_if_rb_tree.simps, simp)
qed

section \<open>Height\<close>

fun height :: "('k, 'v) assoc_node \<Rightarrow> nat" where
  "height Dummy = 0"
| "height (Node c l k v r) = Suc (max (height l) (height r))"

lemma bh_size: "invh t \<Longrightarrow> 2 ^ bh t \<le> length (inorder t) + 1"
proof (induction t)
  case (Node c l k v r)
  then have "2 ^ bh l \<le> length (inorder l) + 1" "2 ^ bh l \<le> length (inorder r) + 1" by auto
  then show ?case by (cases c) auto
qed simp

lemma height_bh: "invc t \<Longrightarrow> invh t \<Longrightarrow> height t \<le> 2 * bh t + (1 - blk (ncolor t))"
proof (induction t)
  case (Node c l k v r)
  then show ?case by (cases c; cases "ncolor l"; cases "ncolor r") (auto simp: max_def)
qed simp

lemma rb_height:
  assumes "rb_ok t"
  shows "2 ^ height t \<le> (length (inorder t) + 1)\<^sup>2"
proof -
  have "height t \<le> 2 * bh t" using assms height_bh [of t] by (simp add: rb_ok_def)
  then have "(2::nat) ^ height t \<le> 2 ^ (2 * bh t)" by (rule power_increasing) simp
  also have "\<dots> = (2 ^ bh t)\<^sup>2" by (simp add: power_even_eq)
  also have "\<dots> \<le> (length (inorder t) + 1)\<^sup>2"
    using assms bh_size by (intro power_mono) (auto simp: rb_ok_def)
  finally show ?thesis .
qed

section \<open>Loops over a tree\<close>

text \<open>The recurring \<open>while(it != end)\<close> with a key, a value and an advance: the body works
  on a state of its own.\<close>

function rb_foreach :: "('k \<Rightarrow> 'v \<Rightarrow> 'a \<Rightarrow> 'a res) \<Rightarrow> ('k, 'v) rb_it \<Rightarrow> 'a \<Rightarrow> 'a res" where
  "rb_foreach f it a =
    (if fst it = Dummy then Inr a
     else res_bind (assoc_rb_tree_key it) (\<lambda>k.
       res_bind (assoc_rb_tree_value it) (\<lambda>v.
       res_bind (f k v a) (\<lambda>a'.
       res_bind (assoc_rb_tree_next it) (\<lambda>it'. rb_foreach f it' a')))))"
  by pat_completeness auto
termination
  apply (relation "measure (\<lambda>(f, it, a). length (it_entries it))")
  subgoal by simp
  subgoal for f it a k v a' it'
    using it_entries_next [of it it'] by (cases it rule: it_entries.cases) auto
  done

declare rb_foreach.simps [simp del]

lemma rb_foreach_eq: "rb_foreach f it a = fold_res (\<lambda>(k, v). f k v) (it_entries it) a"
proof (induction f it a rule: rb_foreach.induct)
  case (1 f it a)
  show ?case
  proof (cases it rule: it_entries.cases)
    case (1 ps)
    then show ?thesis by (subst rb_foreach.simps) simp
  next
    case (2 c l k v r ps)
    obtain it' where n: "assoc_rb_tree_next it = Inr it'" using next_total [of it] 2 by auto
    then have t: "it_entries it' = inorder r @ after ps" using it_entries_next [OF n] 2 by simp
    have "rb_foreach f it' a' = fold_res (\<lambda>(k, v). f k v) (inorder r @ after ps) a'"
      if "f k v a = Inr a'" for a'
      using "1.IH" [of k v a' it'] 2 n that t by simp
    then show ?thesis
      using 2 n by (subst rb_foreach.simps) (cases "f k v a", auto)
  qed
qed

section \<open>Searching with an equality test\<close>

text \<open>The recurring \<open>it = find_if(tree, assoc_front(tree), assoc_end(tree), value, f)\<close>
  followed by \<open>assoc_value\<close> when \<open>it\<close> is not the end.\<close>

definition rb_find_value :: "('k \<Rightarrow> bool) \<Rightarrow> ('k, 'v) assoc_rb_tree \<Rightarrow> 'v option res" where
  "rb_find_value f tree =
    res_bind (find_if_rb_tree f (assoc_rb_tree_front tree)) (\<lambda>it.
    if fst it = Dummy then Inr None
    else res_bind (assoc_rb_tree_value it) (\<lambda>v. Inr (Some v)))"

fun first_value :: "('k \<Rightarrow> bool) \<Rightarrow> ('k \<times> 'v) list \<Rightarrow> 'v option" where
  "first_value f [] = None"
| "first_value f (e # es) = (if f (fst e) then Some (snd e) else first_value f es)"

lemma first_value_dropWhile:
  "first_value f xs = (case dropWhile (\<lambda>e. \<not> f (fst e)) xs of [] \<Rightarrow> None | e # _ \<Rightarrow> Some (snd e))"
  by (induction xs) auto

lemma rb_find_value_eq: "rb_find_value f tree = Inr (first_value f (rb_entries tree))"
proof -
  obtain it where it: "find_if_rb_tree f (assoc_rb_tree_front tree) = Inr it"
    "it_entries it = dropWhile (\<lambda>e. \<not> f (fst e)) (rb_entries tree)"
    using find_if_rb_tree_spec [of f "assoc_rb_tree_front tree"] by (auto simp: it_entries_front)
  show ?thesis
  proof (cases it rule: it_entries.cases)
    case (1 ps)
    with it show ?thesis by (simp add: rb_find_value_def first_value_dropWhile)
  next
    case (2 c l k v r ps)
    with it have "dropWhile (\<lambda>e. \<not> f (fst e)) (rb_entries tree) = (k, v) # inorder r @ after ps"
      by simp
    then show ?thesis
      using it 2 by (simp add: rb_find_value_def first_value_dropWhile)
  qed
qed

lemma first_value_get_key:
  "(\<And>e. e \<in> set xs \<Longrightarrow> f (fst e) \<longleftrightarrow> cmp q (fst e) = 0) \<Longrightarrow> first_value f xs = get_key cmp q xs"
  by (induction xs) auto

lemma first_value_None_iff: "first_value f xs = None \<longleftrightarrow> (\<forall>e\<in>set xs. \<not> f (fst e))"
  by (induction xs) auto

lemma first_value_SomeD: "first_value f xs = Some v \<Longrightarrow> \<exists>k. (k, v) \<in> set xs \<and> f k"
  by (induction xs) (auto split: if_splits)

end
