(* ===== verification/BiMap.thy ===== *)
theory BiMap
  imports RbTree
begin

text \<open>
  The bidirectional map of \<open>src/util/alg_ds/ds/assoc_container/bimap.c\<close>: two red-black
  trees, \<open>left\<close> from the first keys to the second ones and \<open>right\<close> back.  Insertion
  and extraction work on both.  The RIC keeps its running timers in such maps, the iApp
  its translation of request identifiers.

  \<open>bi_map_extract_left\<close> hands the memory of a second key to the comparator of the first
  keys (line 87).  How that memory reads as a first key is a parameter of the model.
\<close>

record ('k1, 'k2) bi_map =
  left :: "('k1, 'k2) assoc_rb_tree"
  right :: "('k2, 'k1) assoc_rb_tree"

definition bi_map_init :: "'k1 cmp_fun \<Rightarrow> 'k2 cmp_fun \<Rightarrow> ('k1, 'k2) bi_map" where
  "bi_map_init cmp1 cmp2 = \<lparr>left = assoc_rb_tree_init cmp1, right = assoc_rb_tree_init cmp2\<rparr>"

definition bi_map_insert :: "('k1, 'k2) bi_map \<Rightarrow> 'k1 \<Rightarrow> 'k2 \<Rightarrow> ('k1, 'k2) bi_map res" where
  "bi_map_insert m key1 key2 =
    res_bind (assoc_rb_tree_insert (left m) key1 key2) (\<lambda>l.
    res_bind (assoc_rb_tree_insert (right m) key2 key1) (\<lambda>r.
    Inr (m\<lparr>left := l, right := r\<rparr>)))"

definition bi_map_extract_left ::
  "('k2 \<Rightarrow> 'k1) \<Rightarrow> ('k1, 'k2) bi_map \<Rightarrow> 'k1 \<Rightarrow> ('k2 \<times> ('k1, 'k2) bi_map) res" where
  "bi_map_extract_left as_key1 m key1 =
    res_bind (assoc_rb_tree_extract (left m) key1) (\<lambda>(key2, l).
    res_bind (assoc_rb_tree_extract (right m) key2) (\<lambda>(key3, r).
    res_bind (c_assert (comp (left m) (as_key1 key2) key3 = 0)) (\<lambda>_.
    res_bind (c_assert (assoc_rb_tree_size l = assoc_rb_tree_size r)) (\<lambda>_.
    Inr (key2, m\<lparr>left := l, right := r\<rparr>)))))"

definition bi_map_extract_right ::
  "('k1, 'k2) bi_map \<Rightarrow> 'k2 \<Rightarrow> ('k1 \<times> ('k1, 'k2) bi_map) res" where
  "bi_map_extract_right m key2 =
    res_bind (assoc_rb_tree_extract (right m) key2) (\<lambda>(key1, r).
    res_bind (assoc_rb_tree_extract (left m) key1) (\<lambda>(key3, l).
    res_bind (c_assert (comp (right m) key2 key3 = 0)) (\<lambda>_.
    res_bind (c_assert (assoc_rb_tree_size l = assoc_rb_tree_size r)) (\<lambda>_.
    Inr (key1, m\<lparr>left := l, right := r\<rparr>)))))"

definition bi_map_size :: "('k1, 'k2) bi_map \<Rightarrow> nat res" where
  "bi_map_size m =
    res_bind (c_assert (assoc_rb_tree_size (left m) = assoc_rb_tree_size (right m))) (\<lambda>_.
    Inr (assoc_rb_tree_size (left m)))"

definition bi_map_front_left :: "('k1, 'k2) bi_map \<Rightarrow> ('k1, 'k2) rb_it" where
  "bi_map_front_left m = assoc_rb_tree_front (left m)"

definition bi_map_next_left :: "('k1, 'k2) bi_map \<Rightarrow> ('k1, 'k2) rb_it \<Rightarrow> ('k1, 'k2) rb_it res" where
  "bi_map_next_left m it = assoc_rb_tree_next it"

text \<open>The end of the left side is computed as its front (line 129 of the C file).\<close>

definition bi_map_end_left :: "('k1, 'k2) bi_map \<Rightarrow> ('k1, 'k2) rb_it" where
  "bi_map_end_left m = assoc_rb_tree_front (left m)"

definition bi_map_front_right :: "('k1, 'k2) bi_map \<Rightarrow> ('k2, 'k1) rb_it" where
  "bi_map_front_right m = assoc_rb_tree_front (right m)"

definition bi_map_next_right :: "('k1, 'k2) bi_map \<Rightarrow> ('k2, 'k1) rb_it \<Rightarrow> ('k2, 'k1) rb_it res" where
  "bi_map_next_right m it = assoc_rb_tree_next it"

definition bi_map_end_right :: "('k1, 'k2) bi_map \<Rightarrow> ('k2, 'k1) rb_it" where
  "bi_map_end_right m = assoc_rb_tree_end (right m)"

definition bi_map_value_left :: "('k1, 'k2) rb_it \<Rightarrow> 'k2 res" where
  "bi_map_value_left it = assoc_rb_tree_value it"

definition bi_map_value_right :: "('k2, 'k1) rb_it \<Rightarrow> 'k1 res" where
  "bi_map_value_right it = assoc_rb_tree_value it"

section \<open>The two sides hold the same pairs\<close>

definition bm_pairs :: "('k1, 'k2) bi_map \<Rightarrow> ('k1 \<times> 'k2) list" where
  "bm_pairs m = rb_entries (left m)"

definition bm_inv ::
  "'k1 cmp_fun \<Rightarrow> 'k1 set \<Rightarrow> 'k2 cmp_fun \<Rightarrow> 'k2 set \<Rightarrow> ('k1, 'k2) bi_map \<Rightarrow> bool" where
  "bm_inv c1 D1 c2 D2 m \<longleftrightarrow> rb_inv c1 D1 (left m) \<and> rb_inv c2 D2 (right m) \<and>
    mset (rb_entries (right m)) = image_mset prod.swap (mset (rb_entries (left m)))"

text \<open>No first key and no second key occurs twice.\<close>

definition bm_uniq :: "'k1 cmp_fun \<Rightarrow> 'k2 cmp_fun \<Rightarrow> ('k1, 'k2) bi_map \<Rightarrow> bool" where
  "bm_uniq c1 c2 m \<longleftrightarrow> uniq_entries c1 (rb_entries (left m)) \<and> uniq_entries c2 (rb_entries (right m))"

definition bm_get_left :: "'k1 cmp_fun \<Rightarrow> ('k1, 'k2) bi_map \<Rightarrow> 'k1 \<Rightarrow> 'k2 option" where
  "bm_get_left c1 m k = get_key c1 k (rb_entries (left m))"

definition bm_get_right :: "'k2 cmp_fun \<Rightarrow> ('k1, 'k2) bi_map \<Rightarrow> 'k2 \<Rightarrow> 'k1 option" where
  "bm_get_right c2 m k = get_key c2 k (rb_entries (right m))"

lemma bm_inv_init: "bm_inv c1 D1 c2 D2 (bi_map_init c1 c2)"
  by (simp add: bm_inv_def bi_map_init_def rb_inv_init)
     (simp add: rb_entries_def assoc_rb_tree_init_def)

lemma rb_entries_init [simp]: "rb_entries (assoc_rb_tree_init c) = []"
  by (simp add: rb_entries_def assoc_rb_tree_init_def)

lemma bm_uniq_init: "bm_uniq c1 c2 (bi_map_init c1 c2)"
  by (simp add: bm_uniq_def bi_map_init_def uniq_entries_def)

lemma bm_pairs_init [simp]: "bm_pairs (bi_map_init c1 c2) = []"
  by (simp add: bm_pairs_def bi_map_init_def)

lemma bm_set_right:
  "bm_inv c1 D1 c2 D2 m \<Longrightarrow> (k2, k1) \<in> set (rb_entries (right m)) \<longleftrightarrow> (k1, k2) \<in> set (bm_pairs m)"
proof -
  assume "bm_inv c1 D1 c2 D2 m"
  then have "set_mset (mset (rb_entries (right m))) = prod.swap ` set (rb_entries (left m))"
    by (simp add: bm_inv_def)
  then show ?thesis by (force simp: bm_pairs_def)
qed

lemma bm_length: "bm_inv c1 D1 c2 D2 m \<Longrightarrow> length (rb_entries (right m)) = length (bm_pairs m)"
proof -
  assume "bm_inv c1 D1 c2 D2 m"
  then have "size (mset (rb_entries (right m))) = size (mset (rb_entries (left m)))"
    by (simp add: bm_inv_def)
  then show ?thesis by (simp add: bm_pairs_def)
qed

lemma bi_map_size_ok: "bm_inv c1 D1 c2 D2 m \<Longrightarrow> bi_map_size m = Inr (length (bm_pairs m))"
  using bm_length [of c1 D1 c2 D2 m]
  by (auto simp: bi_map_size_def assoc_rb_tree_size_def bm_inv_def rb_inv_def bm_pairs_def)

locale two_comparators = c1: comparator cmp1 D1 + c2: comparator cmp2 D2
  for cmp1 :: "'k1 cmp_fun" and D1 and cmp2 :: "'k2 cmp_fun" and D2
begin

abbreviation "bminv \<equiv> bm_inv cmp1 D1 cmp2 D2"
abbreviation "bmuniq \<equiv> bm_uniq cmp1 cmp2"

lemma insert_ok:
  assumes "bminv m" "k1 \<in> D1" "k2 \<in> D2"
  shows "\<exists>m'. bi_map_insert m k1 k2 = Inr m' \<and> bminv m' \<and>
    bm_pairs m' = ins_entry cmp1 k1 k2 (bm_pairs m) \<and>
    rb_entries (right m') = ins_entry cmp2 k2 k1 (rb_entries (right m))"
proof -
  obtain l where l: "assoc_rb_tree_insert (left m) k1 k2 = Inr l" "rb_inv cmp1 D1 l"
    "rb_entries l = ins_entry cmp1 k1 k2 (rb_entries (left m))"
    using c1.rb_insert_ok [of "left m" k1 k2] assms unfolding bm_inv_def by blast
  obtain r where r: "assoc_rb_tree_insert (right m) k2 k1 = Inr r" "rb_inv cmp2 D2 r"
    "rb_entries r = ins_entry cmp2 k2 k1 (rb_entries (right m))"
    using c2.rb_insert_ok [of "right m" k2 k1] assms unfolding bm_inv_def by blast
  show ?thesis
    using assms l r by (simp add: bi_map_insert_def bm_inv_def bm_pairs_def)
qed

lemma insert_uniq:
  assumes "bminv m" "bmuniq m" "k1 \<in> D1" "k2 \<in> D2"
    "bm_get_left cmp1 m k1 = None" "bm_get_right cmp2 m k2 = None"
  obtains m' where "bi_map_insert m k1 k2 = Inr m'" "bminv m'" "bmuniq m'"
    "\<And>q. q \<in> D1 \<Longrightarrow> bm_get_left cmp1 m' q = (if cmp1 q k1 = 0 then Some k2 else bm_get_left cmp1 m q)"
    "\<And>q. q \<in> D2 \<Longrightarrow> bm_get_right cmp2 m' q = (if cmp2 q k2 = 0 then Some k1 else bm_get_right cmp2 m q)"
proof -
  obtain m' where m': "bi_map_insert m k1 k2 = Inr m'" "bminv m'"
    "bm_pairs m' = ins_entry cmp1 k1 k2 (bm_pairs m)"
    "rb_entries (right m') = ins_entry cmp2 k2 k1 (rb_entries (right m))"
    using insert_ok assms by blast
  have f: "fresh_key cmp1 k1 (rb_entries (left m))" "fresh_key cmp2 k2 (rb_entries (right m))"
    using assms(5,6) by (simp_all add: bm_get_left_def bm_get_right_def get_key_None_iff)
  have k: "keys_in D1 (rb_entries (left m))" "keys_in D2 (rb_entries (right m))"
    using assms(1) by (auto simp: bm_inv_def rb_inv_def)
  have "bmuniq m'"
    using m' assms f k by (simp add: bm_uniq_def bm_pairs_def c1.uniq_ins_entry c2.uniq_ins_entry)
  then show ?thesis
    using that m' f k assms(3,4)
    by (simp add: bm_get_left_def bm_get_right_def bm_pairs_def c1.get_ins_entry c2.get_ins_entry)
qed

lemma get_right_pair:
  assumes "bminv m" "bm_get_right cmp2 m k2 = Some k1"
  obtains k2' where "(k1, k2') \<in> set (bm_pairs m)" "cmp2 k2 k2' = 0" "k1 \<in> D1" "k2' \<in> D2"
proof -
  obtain k2' where k2': "(k2', k1) \<in> set (rb_entries (right m))" "cmp2 k2 k2' = 0"
    using get_key_SomeD assms(2) unfolding bm_get_right_def by fast
  then have p: "(k1, k2') \<in> set (bm_pairs m)" using bm_set_right assms(1) by fast
  have "k1 \<in> D1" "k2' \<in> D2"
    using assms(1) keys_inD [OF _ p [unfolded bm_pairs_def]] keys_inD [OF _ k2'(1)]
    by (auto simp: bm_inv_def rb_inv_def)
  with p k2' show ?thesis using that by blast
qed

text \<open>A lookup on one side and one on the other are inverse to each other.\<close>

lemma get_left_right:
  assumes "bminv m" "bmuniq m" "bm_get_right cmp2 m k2 = Some k1" "k2 \<in> D2"
  obtains k2' where "bm_get_left cmp1 m k1 = Some k2'" "cmp2 k2 k2' = 0"
proof -
  obtain k2' where k: "(k1, k2') \<in> set (bm_pairs m)" "cmp2 k2 k2' = 0" "k1 \<in> D1"
    using get_right_pair assms by blast
  have "bm_get_left cmp1 m k1 = Some k2'"
    unfolding bm_get_left_def
    using assms k c1.get_key_uniq [of "rb_entries (left m)" k1 k2' k1]
    by (auto simp: bm_uniq_def bm_inv_def rb_inv_def bm_pairs_def)
  with k that show ?thesis by blast
qed

lemma mset_del_key:
  assumes "comparator c D" "uniq_entries c xs" "(k', v) \<in> set xs" "c k k' = 0" "keys_in D xs" "k \<in> D"
  shows "mset (del_key c k xs) = mset xs - {#(k', v)#}"
proof -
  obtain ys zs where "xs = ys @ (k', v) # zs" using assms(3) by (meson split_list)
  then show ?thesis
    using comparator.del_key_split [OF assms(1), of ys k' v zs k] assms by simp
qed

lemma extract_right_ok:
  assumes "bminv m" "bmuniq m" "k2 \<in> D2" "bm_get_right cmp2 m k2 = Some k1"
  obtains m' where "bi_map_extract_right m k2 = Inr (k1, m')" "bminv m'" "bmuniq m'"
    "bm_pairs m' = del_key cmp1 k1 (bm_pairs m)"
    "rb_entries (right m') = del_key cmp2 k2 (rb_entries (right m))"
proof -
  have i: "rb_inv cmp1 D1 (left m)" "rb_inv cmp2 D2 (right m)"
    "uniq_entries cmp1 (rb_entries (left m))" "uniq_entries cmp2 (rb_entries (right m))"
    "keys_in D1 (rb_entries (left m))" "keys_in D2 (rb_entries (right m))"
    using assms by (auto simp: bm_inv_def bm_uniq_def rb_inv_def)
  obtain k2' where p: "(k1, k2') \<in> set (bm_pairs m)" "cmp2 k2 k2' = 0" "k1 \<in> D1" "k2' \<in> D2"
    using get_right_pair assms by blast
  obtain r where r: "assoc_rb_tree_extract (right m) k2 = Inr (k1, r)" "rb_inv cmp2 D2 r"
    "rb_entries r = del_key cmp2 k2 (rb_entries (right m))"
    using c2.rb.ext_uniq [OF i(2) assms(3) i(4)] assms(4) unfolding bm_get_right_def by blast
  have "get_key cmp1 k1 (rb_entries (left m)) = Some k2'"
    using c1.get_key_uniq [OF i(3) p(1) [unfolded bm_pairs_def] _ i(5) p(3)] p(3) by simp
  then obtain l where l: "assoc_rb_tree_extract (left m) k1 = Inr (k2', l)" "rb_inv cmp1 D1 l"
    "rb_entries l = del_key cmp1 k1 (rb_entries (left m))"
    using c1.rb.ext_uniq [OF i(1) p(3) i(3)] by blast
  let ?m = "m\<lparr>left := l, right := r\<rparr>"
  have "mset (rb_entries l) = mset (rb_entries (left m)) - {#(k1, k2')#}"
    unfolding l(3)
    using mset_del_key [OF c1.comparator_axioms i(3) p(1) [unfolded bm_pairs_def] _ i(5) p(3)] p(3)
    by simp
  moreover have "(k2', k1) \<in> set (rb_entries (right m))" using p(1) bm_set_right assms(1) by fast
  then have "mset (rb_entries r) = mset (rb_entries (right m)) - {#(k2', k1)#}"
    unfolding r(3)
    using mset_del_key [OF c2.comparator_axioms i(4) _ p(2) i(6) assms(3)] by blast
  moreover have "{#(k1, k2')#} \<subseteq># mset (rb_entries (left m))"
    using p(1) by (simp add: bm_pairs_def)
  ultimately have "bminv ?m"
    using l r assms(1) by (simp add: bm_inv_def image_mset_Diff)
  moreover have "comp (right m) k2 k2' = 0" using i(2) p(2) by (simp add: rb_inv_def)
  moreover have "bi_map_size ?m = Inr (length (bm_pairs ?m))"
    by (rule bi_map_size_ok) fact
  then have "assoc_rb_tree_size l = assoc_rb_tree_size r"
    by (auto simp: bi_map_size_def assoc_rb_tree_size_def c_assert_def split: if_splits)
  ultimately show ?thesis
    using that [of ?m] r l i
    by (simp add: bi_map_extract_right_def bm_uniq_def bm_pairs_def uniq_del_key)
qed

lemma extract_right_absent:
  assumes "bminv m" "k2 \<in> D2" "bm_get_right cmp2 m k2 = None"
  shows "bi_map_extract_right m k2 = Inl AssertFail"
  using c2.rb_extract_absent [of "right m" k2] assms
  by (simp add: bi_map_extract_right_def bm_get_right_def get_key_None_iff bm_inv_def)

text \<open>The extraction from the left passes its assertion only when the removed second key,
  read as a first key, is the first key.\<close>

lemma extract_left_ok:
  assumes "bminv m" "bmuniq m" "k1 \<in> D1" "bm_get_left cmp1 m k1 = Some k2"
  obtains k1' m' where "cmp1 k1 k1' = 0" "k1' \<in> D1" "(k1', k2) \<in> set (bm_pairs m)"
    "bi_map_extract_left f m k1 =
      (if cmp1 (f k2) k1' = 0 then Inr (k2, m') else Inl AssertFail)"
    "bminv m'" "bmuniq m'" "bm_pairs m' = del_key cmp1 k1 (bm_pairs m)"
    "rb_entries (right m') = del_key cmp2 k2 (rb_entries (right m))"
proof -
  have i: "rb_inv cmp1 D1 (left m)" "rb_inv cmp2 D2 (right m)"
    "uniq_entries cmp1 (rb_entries (left m))" "uniq_entries cmp2 (rb_entries (right m))"
    "keys_in D1 (rb_entries (left m))" "keys_in D2 (rb_entries (right m))"
    using assms by (auto simp: bm_inv_def bm_uniq_def rb_inv_def)
  obtain k1' where p: "(k1', k2) \<in> set (bm_pairs m)" "cmp1 k1 k1' = 0"
    using get_key_SomeD assms(4) unfolding bm_get_left_def bm_pairs_def by fast
  then have q: "(k2, k1') \<in> set (rb_entries (right m))" using bm_set_right assms(1) by fast
  have d: "k1' \<in> D1" "k2 \<in> D2"
    using i(5,6) keys_inD [OF _ p(1) [unfolded bm_pairs_def]] keys_inD [OF _ q] by auto
  obtain l where l: "assoc_rb_tree_extract (left m) k1 = Inr (k2, l)" "rb_inv cmp1 D1 l"
    "rb_entries l = del_key cmp1 k1 (rb_entries (left m))"
    using c1.rb.ext_uniq [OF i(1) assms(3) i(3)] assms(4) unfolding bm_get_left_def by blast
  have "get_key cmp2 k2 (rb_entries (right m)) = Some k1'"
    using c2.get_key_uniq [OF i(4) q _ i(6)] d by simp
  then obtain r where r: "assoc_rb_tree_extract (right m) k2 = Inr (k1', r)" "rb_inv cmp2 D2 r"
    "rb_entries r = del_key cmp2 k2 (rb_entries (right m))"
    using c2.rb.ext_uniq [OF i(2) d(2) i(4)] by blast
  let ?m = "m\<lparr>left := l, right := r\<rparr>"
  have "mset (rb_entries l) = mset (rb_entries (left m)) - {#(k1', k2)#}"
    unfolding l(3)
    using mset_del_key [OF c1.comparator_axioms i(3) p(1) [unfolded bm_pairs_def] p(2) i(5) assms(3)]
    by simp
  moreover have "mset (rb_entries r) = mset (rb_entries (right m)) - {#(k2, k1')#}"
    unfolding r(3)
    using mset_del_key [OF c2.comparator_axioms i(4) q _ i(6) d(2)] d(2) by simp
  moreover have "{#(k1', k2)#} \<subseteq># mset (rb_entries (left m))"
    using p(1) by (simp add: bm_pairs_def)
  ultimately have v: "bminv ?m"
    using l r assms(1) by (simp add: bm_inv_def image_mset_Diff)
  have "bi_map_size ?m = Inr (length (bm_pairs ?m))"
    by (rule bi_map_size_ok) fact
  then have "assoc_rb_tree_size l = assoc_rb_tree_size r"
    by (auto simp: bi_map_size_def assoc_rb_tree_size_def c_assert_def split: if_splits)
  moreover have "comp (left m) = cmp1" using i(1) by (simp add: rb_inv_def)
  ultimately have "bi_map_extract_left f m k1 =
      (if cmp1 (f k2) k1' = 0 then Inr (k2, ?m) else Inl AssertFail)"
    using l r by (simp add: bi_map_extract_left_def)
  then show ?thesis
    using that [OF p(2) d(1) p(1) _ v] i l r by (simp add: bm_uniq_def bm_pairs_def uniq_del_key)
qed

end

end
