(* ===== verification/AssocReg.thy ===== *)
theory AssocReg
  imports FlexPrelude
begin

text \<open>
  The registry of \<open>src/util/alg_ds/ds/assoc_container/assoc_reg.c\<close>: an array of buckets
  in the order of a growing key.  Erasing leaves a bucket without a value; the array is
  compacted, shrunk and doubled as it empties and fills.  A key is searched by bisection
  (\<open>lower_bound.c\<close>, \<open>find_reg\<close> of \<open>find.c\<close>).

  The array \<open>arr\<close> has \<open>cap\<close> buckets, the first \<open>occ_bucket\<close> of them in use; zeroed memory
  is \<open>zero_bucket\<close>, with no value.  An iterator is the index of its bucket.
\<close>

record 'v registry_bucket =
  bkey :: u32
  has_value :: bool
  bval :: "'v option"

record 'v assoc_reg =
  arr :: "'v registry_bucket list"
  sz :: nat
  cap :: nat
  occ_bucket :: nat
  key_id :: nat

definition MIN_SIZE :: nat where
  "MIN_SIZE = 16"

definition zero_bucket :: "'v registry_bucket" where
  "zero_bucket = \<lparr>bkey = 0, has_value = False, bval = None\<rparr>"

definition iterator_in_ds :: "'v assoc_reg \<Rightarrow> nat \<Rightarrow> bool" where
  "iterator_in_ds reg it = (if it < occ_bucket reg then True else False)"

text \<open>\<open>copy_if\<close>: the loop writes the kept elements to the front of another array.\<close>

fun copy_if_loop :: "('b \<Rightarrow> bool) \<Rightarrow> 'b list \<Rightarrow> nat \<Rightarrow> 'b list \<Rightarrow> nat \<times> 'b list" where
  "copy_if_loop fp [] i_out out = (i_out, out)"
| "copy_if_loop fp (x # xs) i_out out =
    (if fp x then copy_if_loop fp xs (i_out + 1) (out[i_out := x])
     else copy_if_loop fp xs i_out out)"

text \<open>\<open>partition\<close>: the same in place, from index \<open>i\<close> on.\<close>

function partition_loop :: "('b \<Rightarrow> bool) \<Rightarrow> nat \<Rightarrow> nat \<Rightarrow> nat \<Rightarrow> 'b list \<Rightarrow> nat \<times> 'b list" where
  "partition_loop fp n_memb i j a =
    (if i < n_memb then
       (if fp (a ! i) then partition_loop fp n_memb (i + 1) (j + 1) (a[j := a ! i])
        else partition_loop fp n_memb (i + 1) j a)
     else (j, a))"
  by pat_completeness auto
termination by (relation "measure (\<lambda>(fp, n, i, j, a). n - i)") auto

declare partition_loop.simps [simp del]

definition zero_from :: "nat \<Rightarrow> 'v registry_bucket list \<Rightarrow> 'v registry_bucket list" where
  "zero_from idx a = take idx a @ replicate (length a - idx) zero_bucket"

definition shrink_if_necessary :: "'v assoc_reg \<Rightarrow> 'v assoc_reg res" where
  "shrink_if_necessary reg =
    (if cap reg = MIN_SIZE \<or> cap reg < sz reg * 4 then Inr reg
     else
       (case partition_loop has_value (occ_bucket reg) 0 0 (arr reg) of (idx, a) \<Rightarrow>
        res_bind (c_assert (idx \<le> occ_bucket reg)) (\<lambda>_.
        Inr (reg\<lparr>arr := take idx (zero_from idx a) @ replicate (cap reg div 2 - idx) zero_bucket,
                 occ_bucket := idx, cap := cap reg div 2\<rparr>))))"

definition compact_if_necessary :: "'v assoc_reg \<Rightarrow> 'v assoc_reg res" where
  "compact_if_necessary reg =
    (if occ_bucket reg < sz reg * 2 then Inr reg
     else
       (case partition_loop has_value (occ_bucket reg) 0 0 (arr reg) of (idx, a) \<Rightarrow>
        res_bind (c_assert (idx \<le> occ_bucket reg)) (\<lambda>_.
        Inr (reg\<lparr>arr := zero_from idx a, occ_bucket := idx\<rparr>))))"

definition expand_if_neccesary :: "'v assoc_reg \<Rightarrow> 'v assoc_reg" where
  "expand_if_neccesary reg =
    (if occ_bucket reg < cap reg - 1 then reg
     else
       (case copy_if_loop has_value (take (occ_bucket reg) (arr reg)) 0
               (replicate (cap reg * 2) zero_bucket) of (out_idx, tmp_arr) \<Rightarrow>
        reg\<lparr>arr := tmp_arr, occ_bucket := out_idx, cap := cap reg * 2\<rparr>))"

definition assoc_reg_init :: "'v assoc_reg" where
  "assoc_reg_init =
    \<lparr>arr = replicate MIN_SIZE zero_bucket, sz = 0, cap = MIN_SIZE, occ_bucket = 0, key_id = 1\<rparr>"

definition SIZE_MAX :: nat where
  "SIZE_MAX = 2 ^ 64 - 1"

definition assoc_reg_push_back :: "'v assoc_reg \<Rightarrow> 'v \<Rightarrow> (u32 \<times> 'v assoc_reg) res" where
  "assoc_reg_push_back reg0 v =
    (let reg = expand_if_neccesary reg0; key = (of_nat (key_id reg) :: u32) in
     if length (arr reg) \<le> occ_bucket reg then Inl OutOfBounds
     else
       res_bind (c_assert (key_id reg \<noteq> SIZE_MAX)) (\<lambda>_.
       Inr (key, reg\<lparr>arr := (arr reg)[occ_bucket reg := \<lparr>bkey = key, has_value = True, bval = Some v\<rparr>],
                     key_id := key_id reg + 1, occ_bucket := occ_bucket reg + 1, sz := sz reg + 1\<rparr>)))"

definition assoc_reg_key :: "'v assoc_reg \<Rightarrow> nat \<Rightarrow> u32 res" where
  "assoc_reg_key reg it =
    res_bind (c_assert (iterator_in_ds reg it)) (\<lambda>_.
    res_bind (c_assert (has_value (arr reg ! it))) (\<lambda>_. Inr (bkey (arr reg ! it))))"

definition assoc_reg_value :: "'v assoc_reg \<Rightarrow> nat \<Rightarrow> 'v res" where
  "assoc_reg_value reg it =
    res_bind (c_assert (iterator_in_ds reg it)) (\<lambda>_.
    res_bind (c_assert (has_value (arr reg ! it))) (\<lambda>_.
    case bval (arr reg ! it) of Some v \<Rightarrow> Inr v | None \<Rightarrow> Inl OutOfBounds))"

definition assoc_reg_size :: "'v assoc_reg \<Rightarrow> nat" where
  "assoc_reg_size reg = sz reg"

definition assoc_reg_end :: "'v assoc_reg \<Rightarrow> nat" where
  "assoc_reg_end reg = occ_bucket reg"

text \<open>The first bucket with a value from index \<open>idx\<close> on, or the end.\<close>

function skip_empty :: "'v assoc_reg \<Rightarrow> nat \<Rightarrow> nat" where
  "skip_empty reg idx =
    (if idx < occ_bucket reg \<and> \<not> has_value (arr reg ! idx) then skip_empty reg (idx + 1) else idx)"
  by pat_completeness auto
termination by (relation "measure (\<lambda>(reg, idx). occ_bucket reg - idx)") auto

declare skip_empty.simps [simp del]

definition assoc_reg_front :: "'v assoc_reg \<Rightarrow> nat" where
  "assoc_reg_front reg = (if occ_bucket reg = 0 then 0 else skip_empty reg 0)"

definition assoc_reg_next :: "'v assoc_reg \<Rightarrow> nat \<Rightarrow> nat res" where
  "assoc_reg_next reg it =
    (if length (arr reg) \<le> it then Inl OutOfBounds
     else
       res_bind (c_assert (has_value (arr reg ! it))) (\<lambda>_.
       res_bind (c_assert (iterator_in_ds reg it)) (\<lambda>_.
       Inr (skip_empty reg (it + 1)))))"

definition clear_bucket :: "'v assoc_reg \<Rightarrow> nat \<Rightarrow> 'v assoc_reg" where
  "clear_bucket reg it =
    reg\<lparr>arr := (arr reg)[it := (arr reg ! it)\<lparr>has_value := False\<rparr>], sz := sz reg - 1\<rparr>"

lemma skip_empty_ge: "idx \<le> skip_empty reg idx"
proof (induction reg idx rule: skip_empty.induct)
  case (1 reg idx)
  then show ?case by (subst skip_empty.simps) (auto dest: Suc_leD)
qed

lemma skip_empty_le: "idx \<le> occ_bucket reg \<Longrightarrow> skip_empty reg idx \<le> occ_bucket reg"
proof (induction reg idx rule: skip_empty.induct)
  case (1 reg idx)
  then show ?case by (subst skip_empty.simps) auto
qed

lemma assoc_reg_next_range:
  "assoc_reg_next reg it = Inr it' \<Longrightarrow> it < it' \<and> it < occ_bucket reg \<and> it' \<le> occ_bucket reg"
  using skip_empty_ge [of "it + 1" reg] skip_empty_le [of "it + 1" reg]
  by (auto simp: assoc_reg_next_def iterator_in_ds_def res_bind_eq_Inr split: if_splits)

lemma occ_clear_bucket [simp]: "occ_bucket (clear_bucket reg it) = occ_bucket reg"
  by (simp add: clear_bucket_def)

function erase_loop :: "'v assoc_reg \<Rightarrow> nat \<Rightarrow> nat \<Rightarrow> 'v assoc_reg res" where
  "erase_loop reg it end_it =
    (if it = end_it then Inr reg
     else (case assoc_reg_next reg it of
             Inl e \<Rightarrow> Inl e
           | Inr it' \<Rightarrow> erase_loop (clear_bucket reg it) it' end_it))"
  by pat_completeness auto
termination
  by (relation "measure (\<lambda>(reg, it, end_it). occ_bucket reg - it)")
     (auto dest: assoc_reg_next_range)

declare erase_loop.simps [simp del]

definition assoc_reg_erase :: "'v assoc_reg \<Rightarrow> nat \<Rightarrow> nat \<Rightarrow> 'v assoc_reg res" where
  "assoc_reg_erase reg start_it end_it =
    (if start_it = end_it then Inr reg
     else
       res_bind (c_assert (iterator_in_ds reg start_it)) (\<lambda>_.
       res_bind (erase_loop reg start_it end_it) (\<lambda>reg'.
       res_bind (compact_if_necessary reg') shrink_if_necessary)))"

section \<open>Searching\<close>

text \<open>The bisection of \<open>lower_bound_reg\<close> on the buckets from \<open>start_it\<close> on.\<close>

function bisect :: "'v registry_bucket list \<Rightarrow> nat \<Rightarrow> u32 \<Rightarrow> nat \<Rightarrow> nat \<Rightarrow> nat" where
  "bisect a start_it key lower len =
    (if 0 < len then
       (let half = len div 2; idx = lower + half in
        if bkey (a ! (start_it + idx)) < key then bisect a start_it key (idx + 1) (len - half - 1)
        else bisect a start_it key lower half)
     else lower)"
  by pat_completeness auto
termination by (relation "measure (\<lambda>(a, s, k, lower, len). len)") auto

declare bisect.simps [simp del]

definition lower_bound_reg :: "'v assoc_reg \<Rightarrow> nat \<Rightarrow> nat \<Rightarrow> u32 \<Rightarrow> nat res" where
  "lower_bound_reg reg start_it end_it key =
    res_bind (c_assert (end_it - start_it < cap reg)) (\<lambda>_.
    Inr (start_it + bisect (arr reg) start_it key 0 (end_it - start_it)))"

definition find_reg :: "'v assoc_reg \<Rightarrow> nat \<Rightarrow> nat \<Rightarrow> u32 \<Rightarrow> nat res" where
  "find_reg reg start_it end_it key =
    res_bind (c_assert (0 < key)) (\<lambda>_.
    if start_it = end_it then Inr end_it
    else
      res_bind (lower_bound_reg reg start_it end_it key) (\<lambda>it.
      res_bind (c_assert (it \<le> end_it)) (\<lambda>_.
      if it = end_it then Inr end_it
      else if \<not> has_value (arr reg ! it) \<or> bkey (arr reg ! it) \<noteq> key then Inr end_it
      else Inr it)))"

section \<open>Removing by predicate\<close>

fun remove_if_loop :: "('v option \<Rightarrow> bool) \<Rightarrow> 'v registry_bucket list \<Rightarrow> u32 list \<times> 'v registry_bucket list" where
  "remove_if_loop f [] = ([], [])"
| "remove_if_loop f (b # bs) =
    (case remove_if_loop f bs of (ks, bs') \<Rightarrow>
       if has_value b \<and> f (bval b) then (bkey b # ks, b\<lparr>has_value := False\<rparr> # bs')
       else (ks, b # bs'))"

definition remove_if_range_reg ::
  "'v assoc_reg \<Rightarrow> ('v option \<Rightarrow> bool) \<Rightarrow> (u32 list \<times> 'v assoc_reg) res" where
  "remove_if_range_reg reg f =
    (case remove_if_loop f (take (occ_bucket reg) (arr reg)) of (ks, bs) \<Rightarrow>
       res_bind (compact_if_necessary
         (reg\<lparr>arr := bs @ drop (occ_bucket reg) (arr reg), sz := sz reg - length ks\<rparr>)) (\<lambda>reg'.
       res_bind (shrink_if_necessary reg') (\<lambda>reg''. Inr (ks, reg''))))"

text \<open>The checks of \<open>test_invariants_registry_hold\<close>.\<close>

fun keys_grow :: "int \<Rightarrow> 'v registry_bucket list \<Rightarrow> bool" where
  "keys_grow last_key [] = True"
| "keys_grow last_key (b # bs) = (last_key < uint (bkey b) \<and> keys_grow (uint (bkey b)) bs)"

definition test_invariants_registry_hold :: "'v assoc_reg \<Rightarrow> bool" where
  "test_invariants_registry_hold reg \<longleftrightarrow> occ_bucket reg \<le> cap reg \<and> sz reg \<le> cap reg \<and>
    keys_grow (-1) (take (occ_bucket reg) (arr reg)) \<and>
    length (filter has_value (take (occ_bucket reg) (arr reg))) = sz reg"

section \<open>Well-formed registries\<close>

definition occ :: "'v assoc_reg \<Rightarrow> 'v registry_bucket list" where
  "occ reg = take (occ_bucket reg) (arr reg)"

definition reg_shape :: "'v assoc_reg \<Rightarrow> bool" where
  "reg_shape reg \<longleftrightarrow> length (arr reg) = cap reg \<and> (\<exists>n. cap reg = MIN_SIZE * 2 ^ n) \<and>
    occ_bucket reg < cap reg"

definition reg_keys :: "'v assoc_reg \<Rightarrow> bool" where
  "reg_keys reg \<longleftrightarrow> sorted_wrt (\<lambda>a b. bkey a < bkey b) (occ reg) \<and>
    (\<forall>b\<in>set (occ reg). 0 < bkey b \<and> unat (bkey b) < key_id reg) \<and>
    (\<forall>b\<in>set (occ reg). has_value b \<longrightarrow> bval b \<noteq> None)"

definition reg_inv :: "'v assoc_reg \<Rightarrow> bool" where
  "reg_inv reg \<longleftrightarrow> reg_shape reg \<and> reg_keys reg \<and> sz reg = length (filter has_value (occ reg)) \<and>
    1 \<le> key_id reg \<and> key_id reg \<le> 2 ^ 32"

definition reg_entries :: "'v assoc_reg \<Rightarrow> (u32 \<times> 'v) list" where
  "reg_entries reg = map (\<lambda>b. (bkey b, the (bval b))) (filter has_value (occ reg))"

definition reg_lookup :: "'v assoc_reg \<Rightarrow> u32 \<Rightarrow> 'v option" where
  "reg_lookup reg k = map_of (reg_entries reg) k"

lemma length_occ: "reg_shape reg \<Longrightarrow> length (occ reg) = occ_bucket reg"
  by (simp add: occ_def reg_shape_def)

lemma nth_occ: "i < occ_bucket reg \<Longrightarrow> occ reg ! i = arr reg ! i"
  by (simp add: occ_def)

lemma partition_loop_spec:
  "i \<le> n \<Longrightarrow> n \<le> length a \<Longrightarrow> j \<le> i \<Longrightarrow> partition_loop fp n i j a = (j', a') \<Longrightarrow>
    length a' = length a \<and> j' = j + length (filter fp (take (n - i) (drop i a))) \<and>
    take j' a' = take j a @ filter fp (take (n - i) (drop i a))"
proof (induction fp n i j a arbitrary: j' a' rule: partition_loop.induct)
  case (1 fp n i j a)
  show ?case
  proof (cases "i < n")
    case True
    then have split: "take (n - i) (drop i a) = a ! i # take (n - Suc i) (drop (Suc i) a)"
      using 1(4) by (simp add: Cons_nth_drop_Suc [symmetric] take_Cons' )
    show ?thesis
    proof (cases "fp (a ! i)")
      case fp: True
      have "partition_loop fp n (i + 1) (j + 1) (a[j := a ! i]) = (j', a')"
        using 1(6) True fp by (simp add: partition_loop.simps [of fp n i])
      moreover have "drop (Suc i) (a[j := a ! i]) = drop (Suc i) a" using 1(5) by simp
      moreover have "take (Suc j) (a[j := a ! i]) = take j a @ [a ! i]"
        using 1(4,5) True by (simp add: take_Suc_conv_app_nth)
      ultimately show ?thesis
        using 1(1) [OF True fp, of j' a'] 1(4,5) True fp split by auto
    next
      case fp: False
      have "partition_loop fp n (i + 1) j a = (j', a')"
        using 1(6) True fp by (simp add: partition_loop.simps [of fp n i])
      then show ?thesis using 1(2) [OF True fp, of j' a'] 1(4,5) True fp split by auto
    qed
  next
    case False
    then have "i = n" using 1(3) by simp
    then show ?thesis using 1(6) by (simp add: partition_loop.simps [of fp n n])
  qed
qed

lemma copy_if_loop_spec:
  "i + length (filter fp xs) \<le> length out \<Longrightarrow>
    copy_if_loop fp xs i out =
      (i + length (filter fp xs), take i out @ filter fp xs @ drop (i + length (filter fp xs)) out)"
proof (induction fp xs i out rule: copy_if_loop.induct)
  case (2 fp x xs i out)
  then show ?case by (auto simp: take_Suc_conv_app_nth)
qed simp

text \<open>Compacting keeps the buckets with a value, in order.\<close>

lemma partition_occ:
  assumes "reg_shape reg" "partition_loop has_value (occ_bucket reg) 0 0 (arr reg) = (idx, a)"
  shows "length a = cap reg" "idx = length (filter has_value (occ reg))"
    "take idx a = filter has_value (occ reg)" "idx \<le> occ_bucket reg"
proof -
  have s: "length a = length (arr reg)" "idx = length (filter has_value (occ reg))"
      "take idx a = filter has_value (occ reg)"
    using partition_loop_spec [OF _ _ _ assms(2)] assms(1) by (auto simp: reg_shape_def occ_def)
  then show "length a = cap reg" "idx = length (filter has_value (occ reg))"
    "take idx a = filter has_value (occ reg)"
    using assms(1) by (auto simp: reg_shape_def)
  show "idx \<le> occ_bucket reg"
    using s length_filter_le [of has_value "occ reg"] length_occ [OF assms(1)] by simp
qed

lemma compact_ok:
  assumes "reg_shape reg"
  shows "\<exists>reg'. compact_if_necessary reg = Inr reg' \<and> reg_shape reg' \<and>
    (occ reg' = occ reg \<or> occ reg' = filter has_value (occ reg)) \<and>
    sz reg' = sz reg \<and> key_id reg' = key_id reg"
proof (cases "occ_bucket reg < sz reg * 2")
  case True
  then show ?thesis using assms by (simp add: compact_if_necessary_def)
next
  case False
  obtain idx a where p: "partition_loop has_value (occ_bucket reg) 0 0 (arr reg) = (idx, a)"
    by (cases "partition_loop has_value (occ_bucket reg) 0 0 (arr reg)")
  note q = partition_occ [OF assms p]
  have "occ_bucket reg < cap reg" using assms by (simp add: reg_shape_def)
  then have "idx \<le> length a" using q by simp
  then show ?thesis
    using False p q assms
    by (auto simp: compact_if_necessary_def reg_shape_def occ_def zero_from_def min_def)
qed

lemma shrink_ok:
  assumes "reg_shape reg" "sz reg = length (filter has_value (occ reg))"
  shows "\<exists>reg'. shrink_if_necessary reg = Inr reg' \<and> reg_shape reg' \<and>
    (occ reg' = occ reg \<or> occ reg' = filter has_value (occ reg)) \<and>
    sz reg' = sz reg \<and> key_id reg' = key_id reg"
proof (cases "cap reg = MIN_SIZE \<or> cap reg < sz reg * 4")
  case True
  then show ?thesis using assms by (auto simp: shrink_if_necessary_def)
next
  case False
  obtain idx a where p: "partition_loop has_value (occ_bucket reg) 0 0 (arr reg) = (idx, a)"
    by (cases "partition_loop has_value (occ_bucket reg) 0 0 (arr reg)")
  note q = partition_occ [OF assms(1) p]
  obtain n where n: "cap reg = MIN_SIZE * 2 ^ n" using assms(1) by (auto simp: reg_shape_def)
  with False have "n \<noteq> 0" by (cases n) auto
  then obtain m where m: "n = Suc m" by (cases n) auto
  have half: "cap reg div 2 = MIN_SIZE * 2 ^ m" using n m by (simp add: MIN_SIZE_def)
  have "idx * 4 \<le> cap reg" using False q assms(2) by simp
  moreover have "MIN_SIZE \<le> cap reg div 2" using half by simp
  ultimately have i: "idx < cap reg div 2" "idx \<le> length a" using q by (auto simp: MIN_SIZE_def)
  have s: "shrink_if_necessary reg =
      Inr (reg\<lparr>arr := take idx a @ replicate (cap reg div 2 - idx) zero_bucket,
        occ_bucket := idx, cap := cap reg div 2\<rparr>)"
    using False p q i by (simp add: shrink_if_necessary_def zero_from_def min_def)
  show ?thesis
    unfolding s using i q half
    by (auto simp: reg_shape_def occ_def min_def intro!: exI [of _ m])
qed

lemma expand_ok:
  assumes "reg_shape reg" "reg' = expand_if_neccesary reg"
  shows "reg_shape reg'" "occ_bucket reg' + 1 < cap reg'"
    "occ reg' = occ reg \<or> occ reg' = filter has_value (occ reg)"
    "sz reg' = sz reg" "key_id reg' = key_id reg"
proof -
  have "reg_shape reg' \<and> occ_bucket reg' + 1 < cap reg' \<and>
    (occ reg' = occ reg \<or> occ reg' = filter has_value (occ reg)) \<and>
    sz reg' = sz reg \<and> key_id reg' = key_id reg"
  proof (cases "occ_bucket reg < cap reg - 1")
    case True
    then show ?thesis using assms by (simp add: expand_if_neccesary_def)
  next
    case False
    let ?k = "filter has_value (take (occ_bucket reg) (arr reg))"
    have "length (take (occ_bucket reg) (arr reg)) = occ_bucket reg"
      using assms(1) by (simp add: reg_shape_def)
    then have k: "length ?k \<le> occ_bucket reg"
      using length_filter_le [of has_value "take (occ_bucket reg) (arr reg)"] by simp
    moreover have c: "occ_bucket reg < cap reg" using assms(1) by (simp add: reg_shape_def)
    ultimately have e: "reg' = reg\<lparr>arr := ?k @ drop (length ?k) (replicate (cap reg * 2) zero_bucket),
        occ_bucket := length ?k, cap := cap reg * 2\<rparr>"
      using False assms(2) by (simp add: expand_if_neccesary_def copy_if_loop_spec)
    obtain n where "cap reg = MIN_SIZE * 2 ^ n" using assms(1) by (auto simp: reg_shape_def)
    then have "cap reg * 2 = MIN_SIZE * 2 ^ Suc n" by simp
    then show ?thesis
      unfolding e using k c False by (auto simp: reg_shape_def occ_def intro!: exI [of _ "Suc n"])
  qed
  then show "reg_shape reg'" "occ_bucket reg' + 1 < cap reg'"
    "occ reg' = occ reg \<or> occ reg' = filter has_value (occ reg)"
    "sz reg' = sz reg" "key_id reg' = key_id reg" by auto
qed

text \<open>Dropping the empty buckets changes neither the entries nor the invariants.\<close>

lemma reg_keys_compacted:
  assumes "reg_keys reg" "occ reg' = occ reg \<or> occ reg' = filter has_value (occ reg)"
    "key_id reg' = key_id reg"
  shows "reg_keys reg'" "reg_entries reg' = reg_entries reg"
    "filter has_value (occ reg') = filter has_value (occ reg)"
  using assms by (auto simp: reg_keys_def reg_entries_def sorted_wrt_filter)


section \<open>The operations on entries\<close>

lemma reg_inv_init: "reg_inv assoc_reg_init" "reg_entries assoc_reg_init = []"
  by (auto simp: reg_inv_def reg_shape_def reg_keys_def occ_def assoc_reg_init_def MIN_SIZE_def
      reg_entries_def intro: exI [of _ 0])

lemma push_back_ok:
  assumes "reg_inv reg" "key_id reg < 2 ^ 32"
  shows "\<exists>reg'. assoc_reg_push_back reg v = Inr (of_nat (key_id reg), reg') \<and> reg_inv reg' \<and>
    reg_entries reg' = reg_entries reg @ [(of_nat (key_id reg), v)] \<and>
    key_id reg' = key_id reg + 1"
proof -
  define r where "r = expand_if_neccesary reg"
  note e = expand_ok [OF _ r_def]
  have i: "reg_shape reg" "reg_keys reg" "sz reg = length (filter has_value (occ reg))"
    using assms by (auto simp: reg_inv_def)
  note e = e [OF i(1)]
  note k = reg_keys_compacted [OF i(2) e(3) e(5)]
  let ?k = "of_nat (key_id reg) :: u32"
  let ?b = "\<lparr>bkey = ?k, has_value = True, bval = Some v\<rparr>"
  let ?r = "r\<lparr>arr := (arr r)[occ_bucket r := ?b], key_id := key_id r + 1,
    occ_bucket := occ_bucket r + 1, sz := sz r + 1\<rparr>"
  have un: "unat ?k = key_id reg" using assms(2) by (simp add: unat_of_nat take_bit_nat_eq_self)
  have p: "assoc_reg_push_back reg v = Inr (?k, ?r)"
    using e assms(2) by (simp add: assoc_reg_push_back_def r_def [symmetric] Let_def SIZE_MAX_def reg_shape_def)
  have o: "occ ?r = occ r @ [?b]"
    using e(1,2) by (simp add: occ_def take_Suc_conv_app_nth reg_shape_def)
  have lt: "bkey b < ?k" if "b \<in> set (occ r)" for b
  proof -
    have "unat (bkey b) < key_id reg" using k(1) that e(5) by (auto simp: reg_keys_def)
    then show ?thesis using un by (simp add: word_less_nat_alt)
  qed
  have pos: "0 < ?k" using assms un by (simp add: word_less_nat_alt reg_inv_def)
  have "reg_keys ?r"
    unfolding reg_keys_def o
    using k(1) lt pos un e(5) by (fastforce simp: reg_keys_def sorted_wrt_append)
  moreover have "reg_shape ?r" using e(1,2) by (simp add: reg_shape_def)
  ultimately have "reg_inv ?r"
    using e(4,5) k(3) i(3) assms unfolding reg_inv_def o by simp
  moreover have "reg_entries ?r = reg_entries reg @ [(?k, v)]"
    using k(2) unfolding reg_entries_def o by simp
  ultimately show ?thesis using p e(5) by simp
qed

text \<open>The bisection finds the first bucket whose key is not smaller.\<close>

lemma bisect_spec:
  assumes "\<And>i j. i < j \<Longrightarrow> j < n \<Longrightarrow> bkey (a ! (s + i)) < bkey (a ! (s + j))"
    "lower + len \<le> n"
    "\<And>i. i < lower \<Longrightarrow> bkey (a ! (s + i)) < key"
    "\<And>i. lower + len \<le> i \<Longrightarrow> i < n \<Longrightarrow> key \<le> bkey (a ! (s + i))"
  shows "bisect a s key lower len \<le> n \<and>
    (\<forall>i<bisect a s key lower len. bkey (a ! (s + i)) < key) \<and>
    (\<forall>i. bisect a s key lower len \<le> i \<longrightarrow> i < n \<longrightarrow> key \<le> bkey (a ! (s + i)))"
  using assms
proof (induction a s key lower len rule: bisect.induct)
  case (1 a s key lower len)
  show ?case
  proof (cases "0 < len")
    case False
    then have "bisect a s key lower len = lower" by (simp add: bisect.simps [of a s key lower])
    then show ?thesis using 1(4-6) False by auto
  next
    case True
    define half where "half = len div 2"
    define idx where "idx = lower + half"
    have idx: "lower \<le> idx" "idx < lower + len" using True by (auto simp: idx_def half_def)
    show ?thesis
    proof (cases "bkey (a ! (s + idx)) < key")
      case less: True
      have r: "bisect a s key lower len = bisect a s key (idx + 1) (len - half - 1)"
        using True less by (simp add: bisect.simps [of a s key lower] half_def idx_def Let_def)
      have "bkey (a ! (s + i)) < key" if "i < idx + 1" for i
      proof (cases "i = idx")
        case False
        then have "bkey (a ! (s + i)) < bkey (a ! (s + idx))"
          using that idx 1(4) by (intro 1(3)) auto
        with less show ?thesis by (rule order.strict_trans [rotated])
      qed (use less in simp)
      moreover have e: "idx + 1 + (len - half - 1) = lower + len"
        using True by (simp add: idx_def half_def)
      ultimately show ?thesis
        unfolding r using 1(4,6) by (intro 1(1) [OF True half_def idx_def less 1(3)]) auto
    next
      case geq: False
      have r: "bisect a s key lower len = bisect a s key lower half"
        using True geq by (simp add: bisect.simps [of a s key lower] half_def idx_def Let_def)
      have "key \<le> bkey (a ! (s + i))" if "lower + half \<le> i" "i < n" for i
      proof (cases "i = idx")
        case False
        then have "bkey (a ! (s + idx)) < bkey (a ! (s + i))"
          using that 1(3) [of idx i] by (simp add: idx_def)
        then show ?thesis using geq by simp
      qed (use geq in simp)
      moreover have "lower + half \<le> n" using 1(4) by (simp add: half_def)
      ultimately show ?thesis
        unfolding r using 1(5) by (intro 1(2) [OF True half_def idx_def geq 1(3)]) auto
    qed
  qed
qed

lemma skip_empty_spec:
  assumes "idx \<le> occ_bucket reg" "it = skip_empty reg idx"
  shows "idx \<le> it \<and> it \<le> occ_bucket reg \<and> (\<forall>j. idx \<le> j \<longrightarrow> j < it \<longrightarrow> \<not> has_value (arr reg ! j)) \<and>
    (it < occ_bucket reg \<longrightarrow> has_value (arr reg ! it))"
  using assms
proof (induction reg idx rule: skip_empty.induct)
  case (1 reg idx)
  show ?case
  proof (cases "idx < occ_bucket reg \<and> \<not> has_value (arr reg ! idx)")
    case True
    then have r: "it = skip_empty reg (idx + 1)" using 1(3) by (simp add: skip_empty.simps [of reg idx])
    have "idx + 1 \<le> it \<and> it \<le> occ_bucket reg \<and>
        (\<forall>j. idx + 1 \<le> j \<longrightarrow> j < it \<longrightarrow> \<not> has_value (arr reg ! j)) \<and>
        (it < occ_bucket reg \<longrightarrow> has_value (arr reg ! it))"
      using 1(1) [OF True _ r] True by simp
    moreover have "\<not> has_value (arr reg ! j)" if "idx \<le> j" "j < it" for j
      using calculation True that by (cases "j = idx") auto
    ultimately show ?thesis by simp
  next
    case False
    have "it = idx" unfolding 1(3) by (subst skip_empty.simps) (simp only: False if_False)
    then show ?thesis using 1(2) False by auto
  qed
qed

lemma front_eq: "assoc_reg_front reg = skip_empty reg 0"
  by (auto simp: assoc_reg_front_def skip_empty.simps [of reg 0])

definition bucket_at :: "'v assoc_reg \<Rightarrow> nat \<Rightarrow> u32 \<Rightarrow> 'v \<Rightarrow> bool" where
  "bucket_at reg it k v \<longleftrightarrow> it < occ_bucket reg \<and> has_value (arr reg ! it) \<and>
    bkey (arr reg ! it) = k \<and> bval (arr reg ! it) = Some v"

lemma entries_bucket_at:
  assumes "reg_inv reg"
  shows "(k, v) \<in> set (reg_entries reg) \<longleftrightarrow> (\<exists>it. bucket_at reg it k v)"
proof -
  have l: "length (occ reg) = occ_bucket reg" using assms length_occ by (auto simp: reg_inv_def)
  have "has_value b \<longrightarrow> bval b \<noteq> None" if "b \<in> set (occ reg)" for b
    using assms that by (auto simp: reg_inv_def reg_keys_def)
  then have "(k, v) \<in> set (reg_entries reg) \<longleftrightarrow>
      (\<exists>b\<in>set (occ reg). has_value b \<and> bkey b = k \<and> bval b = Some v)"
    by (force simp: reg_entries_def)
  also have "\<dots> \<longleftrightarrow> (\<exists>it<occ_bucket reg. has_value (occ reg ! it) \<and> bkey (occ reg ! it) = k \<and>
      bval (occ reg ! it) = Some v)"
    by (metis in_set_conv_nth l)
  finally show ?thesis by (auto simp: bucket_at_def nth_occ)
qed

lemma reg_keys_nth:
  "reg_inv reg \<Longrightarrow> i < j \<Longrightarrow> j < occ_bucket reg \<Longrightarrow> bkey (arr reg ! i) < bkey (arr reg ! j)"
  using length_occ [of reg]
  by (auto simp: reg_inv_def reg_keys_def sorted_wrt_iff_nth_less nth_occ)

lemma find_reg_ok:
  assumes "reg_inv reg" "0 < k"
  shows "\<exists>it. find_reg reg (assoc_reg_front reg) (assoc_reg_end reg) k = Inr it \<and>
    (if it = assoc_reg_end reg then k \<notin> fst ` set (reg_entries reg)
     else \<exists>v. bucket_at reg it k v)"
proof -
  let ?s = "assoc_reg_front reg" and ?e = "occ_bucket reg"
  have f: "?s \<le> ?e" "\<And>j. j < ?s \<Longrightarrow> \<not> has_value (arr reg ! j)"
    using skip_empty_spec [of 0 reg ?s] by (auto simp: front_eq)
  have sh: "?e < cap reg" using assms by (simp add: reg_inv_def reg_shape_def)
  let ?r = "bisect (arr reg) ?s k 0 (?e - ?s)"
  have b: "?r \<le> ?e - ?s" "\<And>i. i < ?r \<Longrightarrow> bkey (arr reg ! (?s + i)) < k"
    "\<And>i. ?r \<le> i \<Longrightarrow> i < ?e - ?s \<Longrightarrow> k \<le> bkey (arr reg ! (?s + i))"
    using bisect_spec [of "?e - ?s" "arr reg" ?s 0 "?e - ?s" k] reg_keys_nth [OF assms(1)] by auto
  have hit: "it = ?s + ?r" if "bucket_at reg it k v" for it v
  proof -
    have it: "it < ?e" "has_value (arr reg ! it)" "bkey (arr reg ! it) = k"
      using that by (auto simp: bucket_at_def)
    then have "?s \<le> it" using f(2) by (meson not_le)
    then have "\<not> it - ?s < ?r" using b(2) [of "it - ?s"] it by auto
    moreover have "\<not> ?r < it - ?s"
    proof
      assume "?r < it - ?s"
      then have "bkey (arr reg ! (?s + ?r)) < k"
        using reg_keys_nth [OF assms(1), of "?s + ?r" it] it \<open>?s \<le> it\<close> by simp
      moreover have "k \<le> bkey (arr reg ! (?s + ?r))"
        using b(3) [of ?r] \<open>?r < it - ?s\<close> it by simp
      ultimately show False by simp
    qed
    ultimately show ?thesis using \<open>?s \<le> it\<close> by simp
  qed
  have none: "k \<notin> fst ` set (reg_entries reg)" if "\<And>it v. \<not> bucket_at reg it k v"
    using that entries_bucket_at [OF assms(1)] by force
  have le: "?s + ?r \<le> ?e" using b(1) f(1) by simp
  have lb: "lower_bound_reg reg ?s ?e k = Inr (?s + ?r)"
    using less_imp_diff_less [OF sh, of ?s] by (simp add: lower_bound_reg_def)
  show ?thesis
  proof (cases "?s = ?e")
    case True
    then have "\<not> bucket_at reg it k v" for it v using f(2) by (auto simp: bucket_at_def)
    then show ?thesis using True none assms(2) by (auto simp: find_reg_def assoc_reg_end_def)
  next
    case False
    show ?thesis
    proof (cases "?s + ?r < ?e \<and> has_value (arr reg ! (?s + ?r)) \<and> bkey (arr reg ! (?s + ?r)) = k")
      case True
      then have "arr reg ! (?s + ?r) \<in> set (occ reg)"
        using length_occ [of reg] assms(1) nth_mem [of "?s + ?r" "occ reg"]
        by (simp add: reg_inv_def nth_occ)
      then have "bval (arr reg ! (?s + ?r)) \<noteq> None"
        using True assms(1) by (auto simp: reg_inv_def reg_keys_def)
      then have "\<exists>v. bucket_at reg (?s + ?r) k v" using True by (auto simp: bucket_at_def)
      moreover have "find_reg reg ?s (assoc_reg_end reg) k = Inr (?s + ?r)"
        using True False lb assms(2) by (simp add: find_reg_def assoc_reg_end_def)
      ultimately show ?thesis using True by (auto simp: assoc_reg_end_def)
    next
      case ne: False
      have "\<not> bucket_at reg it k v" for it v
      proof
        assume h: "bucket_at reg it k v"
        with hit [OF h] ne show False by (auto simp: bucket_at_def)
      qed
      moreover have "find_reg reg ?s (assoc_reg_end reg) k = Inr ?e"
        using ne False lb assms(2) le by (auto simp: find_reg_def assoc_reg_end_def)
      ultimately show ?thesis using none by (auto simp: assoc_reg_end_def)
    qed
  qed
qed


lemma clear_bucket_ok:
  assumes "reg_inv reg" "bucket_at reg it k v"
  shows "reg_inv (clear_bucket reg it)"
    "reg_entries (clear_bucket reg it) = filter (\<lambda>e. fst e \<noteq> k) (reg_entries reg)"
proof -
  let ?b = "arr reg ! it"
  have it: "it < occ_bucket reg" "has_value ?b" "bkey ?b = k" using assms(2) by (auto simp: bucket_at_def)
  have l: "length (occ reg) = occ_bucket reg" using assms(1) length_occ by (auto simp: reg_inv_def)
  define xs where "xs = take it (occ reg)"
  define ys where "ys = drop (Suc it) (occ reg)"
  have o: "occ reg = xs @ ?b # ys"
    using it l id_take_nth_drop [of it "occ reg"] by (simp add: xs_def ys_def nth_occ)
  have o': "occ (clear_bucket reg it) = xs @ ?b\<lparr>has_value := False\<rparr> # ys"
  proof -
    have "occ (clear_bucket reg it) = (occ reg)[it := ?b\<lparr>has_value := False\<rparr>]"
      using it by (simp add: occ_def clear_bucket_def take_update_swap)
    then show ?thesis using it l by (simp add: xs_def ys_def upd_conv_take_nth_drop)
  qed
  have k: "reg_keys reg" using assms(1) by (simp add: reg_inv_def)
  then have ne: "bkey b \<noteq> k" if "b \<in> set xs \<union> set ys" for b
    using that it unfolding reg_keys_def o by (fastforce simp: sorted_wrt_append)
  have "reg_keys (clear_bucket reg it)"
    using k unfolding reg_keys_def o o' by (auto simp: sorted_wrt_append clear_bucket_def)
  moreover have "reg_shape (clear_bucket reg it)"
    using assms(1) by (simp add: reg_inv_def reg_shape_def clear_bucket_def)
  moreover have "sz (clear_bucket reg it) = length (filter has_value (occ (clear_bucket reg it)))"
    using assms(1) it unfolding o' by (simp add: reg_inv_def o clear_bucket_def)
  ultimately show "reg_inv (clear_bucket reg it)"
    using assms(1) by (simp add: reg_inv_def) (simp add: clear_bucket_def)
  have "filter (\<lambda>e. fst e \<noteq> k) (map (\<lambda>b. (bkey b, the (bval b))) (filter has_value zs)) =
      map (\<lambda>b. (bkey b, the (bval b))) (filter has_value zs)" if "set zs \<subseteq> set xs \<union> set ys" for zs
    using that ne by (intro filter_id_if_all) fastforce
  then show "reg_entries (clear_bucket reg it) = filter (\<lambda>e. fst e \<noteq> k) (reg_entries reg)"
    using it unfolding reg_entries_def o o' by simp
qed

lemma next_of_bucket:
  assumes "reg_shape reg" "bucket_at reg it k v"
  shows "assoc_reg_next reg it = Inr (skip_empty reg (it + 1))"
  using assms by (simp add: assoc_reg_next_def bucket_at_def iterator_in_ds_def reg_shape_def)

lemma tidy_ok:
  assumes "reg_inv reg"
  shows "\<exists>reg'. res_bind (compact_if_necessary reg) shrink_if_necessary = Inr reg' \<and>
    reg_inv reg' \<and> reg_entries reg' = reg_entries reg \<and> key_id reg' = key_id reg"
proof -
  have i: "reg_shape reg" "reg_keys reg" "sz reg = length (filter has_value (occ reg))"
    using assms by (auto simp: reg_inv_def)
  obtain r1 where c: "compact_if_necessary reg = Inr r1" "reg_shape r1"
    "occ r1 = occ reg \<or> occ r1 = filter has_value (occ reg)" "sz r1 = sz reg" "key_id r1 = key_id reg"
    using compact_ok [OF i(1)] by blast
  note k1 = reg_keys_compacted [OF i(2) c(3) c(5)]
  have "sz r1 = length (filter has_value (occ r1))" using c i k1 by simp
  from shrink_ok [OF c(2) this] obtain r2 where s: "shrink_if_necessary r1 = Inr r2" "reg_shape r2"
    "occ r2 = occ r1 \<or> occ r2 = filter has_value (occ r1)" "sz r2 = sz r1" "key_id r2 = key_id r1"
    by blast
  note k2 = reg_keys_compacted [OF k1(1) s(3) s(5)]
  have "reg_inv r2" using assms c s k1 k2 i by (simp add: reg_inv_def)
  then show ?thesis using c s k1 k2 by simp
qed

text \<open>Erasing the bucket of one key, as \<open>rm_act_proc\<close> does.\<close>

lemma erase_one_ok:
  assumes "reg_inv reg" "bucket_at reg it k v"
  shows "\<exists>nxt reg'. assoc_reg_next reg it = Inr nxt \<and> assoc_reg_erase reg it nxt = Inr reg' \<and>
    reg_inv reg' \<and> reg_entries reg' = filter (\<lambda>e. fst e \<noteq> k) (reg_entries reg) \<and>
    key_id reg' = key_id reg"
proof -
  have sh: "reg_shape reg" using assms(1) by (simp add: reg_inv_def)
  note n = next_of_bucket [OF sh assms(2)]
  let ?n = "skip_empty reg (it + 1)"
  have ne: "it \<noteq> ?n" using skip_empty_ge [of "it + 1" reg] by simp
  have "erase_loop reg it ?n = Inr (clear_bucket reg it)"
    using ne n erase_loop.simps [of "clear_bucket reg it" ?n ?n]
    by (subst erase_loop.simps) simp
  moreover have "iterator_in_ds reg it" using assms(2) by (simp add: bucket_at_def iterator_in_ds_def)
  ultimately have "assoc_reg_erase reg it ?n =
      res_bind (compact_if_necessary (clear_bucket reg it)) shrink_if_necessary"
    using ne by (simp add: assoc_reg_erase_def)
  moreover have "key_id (clear_bucket reg it) = key_id reg" by (simp add: clear_bucket_def)
  ultimately show ?thesis
    using tidy_ok [OF clear_bucket_ok(1) [OF assms]] n clear_bucket_ok(2) [OF assms] by auto
qed

lemma reg_distinct: "reg_inv reg \<Longrightarrow> distinct (map fst (reg_entries reg))"
proof -
  assume "reg_inv reg"
  then have "sorted_wrt (\<lambda>a b. bkey a < bkey b) (filter has_value (occ reg))"
    by (simp add: reg_inv_def reg_keys_def sorted_wrt_filter)
  then have "sorted_wrt (<) (map bkey (filter has_value (occ reg)))"
    by (simp add: sorted_wrt_map)
  then show ?thesis
    by (simp add: reg_entries_def o_def strict_sorted_iff)
qed

text \<open>The invariants that the test function of the C code checks hold.\<close>

lemma keys_grow_sorted:
  "sorted_wrt (\<lambda>a b. bkey a < bkey b) bs \<Longrightarrow> (\<forall>b\<in>set bs. l < uint (bkey b)) \<Longrightarrow> keys_grow l bs"
  by (induction bs arbitrary: l) (auto simp: word_less_def)

lemma invariants_hold: "reg_inv reg \<Longrightarrow> test_invariants_registry_hold reg"
proof -
  assume i: "reg_inv reg"
  then have "length (occ reg) = occ_bucket reg" "occ_bucket reg < cap reg"
    using length_occ by (auto simp: reg_inv_def reg_shape_def)
  moreover have "sz reg \<le> length (occ reg)" using i by (simp add: reg_inv_def)
  moreover have "-1 < uint (bkey b)" for b :: "'a registry_bucket"
    by (rule order.strict_trans2 [OF _ uint_ge_0]) simp
  then have "keys_grow (-1) (occ reg)"
    using i by (intro keys_grow_sorted) (auto simp: reg_inv_def reg_keys_def)
  ultimately show ?thesis
    using i unfolding test_invariants_registry_hold_def occ_def [symmetric] by (simp add: reg_inv_def)
qed

lemma remove_if_loop_spec:
  "remove_if_loop f bs = (ks, bs') \<Longrightarrow>
    ks = map bkey (filter (\<lambda>b. has_value b \<and> f (bval b)) bs) \<and>
    bs' = map (\<lambda>b. if has_value b \<and> f (bval b) then b\<lparr>has_value := False\<rparr> else b) bs"
  by (induction bs arbitrary: ks bs') (auto split: prod.splits if_splits)


lemma remove_if_range_ok:
  fixes reg :: "'v assoc_reg"
  assumes "reg_inv reg"
  shows "\<exists>ks reg'. remove_if_range_reg reg f = Inr (ks, reg') \<and> reg_inv reg' \<and>
    ks = map fst (filter (\<lambda>e. f (Some (snd e))) (reg_entries reg)) \<and>
    reg_entries reg' = filter (\<lambda>e. \<not> f (Some (snd e))) (reg_entries reg) \<and>
    key_id reg' = key_id reg"
proof -
  let ?hit = "\<lambda>b. has_value b \<and> f (bval b)"
  let ?upd = "\<lambda>b :: 'v registry_bucket. if ?hit b then b\<lparr>has_value := False\<rparr> else b"
  obtain ks bs where l: "remove_if_loop f (occ reg) = (ks, bs)" by (cases "remove_if_loop f (occ reg)")
  note sp = remove_if_loop_spec [OF l]
  have i: "reg_shape reg" "reg_keys reg" "sz reg = length (filter has_value (occ reg))"
    using assms by (auto simp: reg_inv_def)
  let ?r = "reg\<lparr>arr := bs @ drop (occ_bucket reg) (arr reg), sz := sz reg - length ks\<rparr>"
  have len: "length bs = occ_bucket reg" using sp length_occ [OF i(1)] by simp
  then have o: "occ ?r = map ?upd (occ reg)" using sp by (simp add: occ_def)
  have some: "b \<in> set (occ reg) \<Longrightarrow> has_value b \<Longrightarrow> Some (the (bval b)) = bval b" for b
    using i(2) by (auto simp: reg_keys_def)
  have fm: "filter has_value (map ?upd zs) = filter (\<lambda>b. has_value b \<and> \<not> f (bval b)) zs" for zs
    by (induction zs) auto
  have cnt: "length (filter has_value zs) = length (filter ?hit zs) +
      length (filter (\<lambda>b. has_value b \<and> \<not> f (bval b)) zs)" for zs
    by (induction zs) auto
  have srt: "sorted_wrt (\<lambda>a b. bkey a < bkey b) (map ?upd (occ reg))"
  proof -
    have "sorted_wrt (\<lambda>a b. bkey a < bkey b) zs \<Longrightarrow> sorted_wrt (\<lambda>a b. bkey a < bkey b) (map ?upd zs)" for zs
      by (induction zs) auto
    then show ?thesis using i(2) by (simp add: reg_keys_def)
  qed
  have "reg_keys ?r" using i(2) srt unfolding reg_keys_def o by auto
  moreover have "reg_shape ?r" using i(1) len by (simp add: reg_shape_def)
  moreover have "sz ?r = length (filter has_value (occ ?r))"
    unfolding o fm using i(3) cnt [of "occ reg"] sp by simp
  ultimately have inv: "reg_inv ?r" using assms by (simp add: reg_inv_def)
  have e1: "map fst (filter (\<lambda>e. f (Some (snd e))) (map (\<lambda>b. (bkey b, the (bval b))) (filter has_value zs)))
      = map bkey (filter ?hit zs)" if "set zs \<subseteq> set (occ reg)" for zs
    using that some by (induction zs) auto
  have e2: "map (\<lambda>b. (bkey b, the (bval b))) (filter (\<lambda>b. has_value b \<and> \<not> f (bval b)) zs)
      = filter (\<lambda>e. \<not> f (Some (snd e))) (map (\<lambda>b. (bkey b, the (bval b))) (filter has_value zs))"
    if "set zs \<subseteq> set (occ reg)" for zs
    using that some by (induction zs) auto
  have "reg_entries ?r = filter (\<lambda>e. \<not> f (Some (snd e))) (reg_entries reg)"
    unfolding reg_entries_def o fm using e2 by simp
  moreover have "ks = map fst (filter (\<lambda>e. f (Some (snd e))) (reg_entries reg))"
    unfolding reg_entries_def using sp e1 by simp
  moreover obtain r2 where "res_bind (compact_if_necessary ?r) shrink_if_necessary = Inr r2"
    "reg_inv r2" "reg_entries r2 = reg_entries ?r" "key_id r2 = key_id ?r"
    using tidy_ok [OF inv] by blast
  moreover obtain r1 where "compact_if_necessary ?r = Inr r1" "shrink_if_necessary r1 = Inr r2"
    using calculation(3) by (rule res_bind_InrE)
  ultimately show ?thesis
    using l by (auto simp: remove_if_range_reg_def occ_def [symmetric])
qed

end
