(* ===== verification/RbUpdate.thy ===== *)
theory RbUpdate
  imports RbTree
begin

text \<open>
  The values of the trees are pointers, and some callers change the object behind the pointer
  that \<open>assoc_value\<close> returns.  In the model the value itself is replaced at the position of the
  iterator; the shape and the keys of the tree stay.
\<close>

fun rb_set_value :: "('k, 'v) assoc_rb_tree \<Rightarrow> ('k, 'v) rb_it \<Rightarrow> 'v \<Rightarrow> ('k, 'v) assoc_rb_tree" where
  "rb_set_value tree (Dummy, ps) v' = tree"
| "rb_set_value tree (Node c l k v r, ps) v' = tree\<lparr>root := plug (Node c l k v' r) ps\<rparr>"

text \<open>Iterators are positions of the tree they started from.\<close>

lemma plug_minimum: "t \<noteq> Dummy \<Longrightarrow> plug (fst (minimum t ps)) (snd (minimum t ps)) = plug t ps"
proof (induction t arbitrary: ps)
  case (Node c l k v r)
  then show ?case by (cases "l = Dummy") auto
qed simp

lemma plug_climb:
  "fst (climb x ps) \<noteq> Dummy \<Longrightarrow> plug (fst (climb x ps)) (snd (climb x ps)) = plug x ps"
  by (induction x ps rule: climb.induct) auto

lemma fst_minimum: "t \<noteq> Dummy \<Longrightarrow> fst (minimum t ps) \<noteq> Dummy"
proof (induction t arbitrary: ps)
  case (Node c l k v r)
  then show ?case by (cases "l = Dummy") auto
qed simp

text \<open>A position of the tree, or its end.\<close>

definition it_of :: "('k, 'v) assoc_rb_tree \<Rightarrow> ('k, 'v) rb_it \<Rightarrow> bool" where
  "it_of tree it \<longleftrightarrow> fst it \<noteq> Dummy \<longrightarrow> plug (fst it) (snd it) = root tree"

lemma it_of_front: "it_of t (assoc_rb_tree_front t)"
  by (cases "root t = Dummy")
     (auto simp: it_of_def assoc_rb_tree_front_def plug_minimum simp del: minimum.simps(2))

lemma it_of_next: "it_of t it \<Longrightarrow> assoc_rb_tree_next it = Inr it' \<Longrightarrow> it_of t it'"
  by (cases it rule: it_entries.cases)
     (auto simp: it_of_def plug_minimum plug_climb simp del: minimum.simps climb.simps split: if_splits)

lemma it_of_find_if: "it_of t it \<Longrightarrow> find_if_rb_tree f it = Inr it' \<Longrightarrow> it_of t it'"
proof (induction f it rule: find_if_rb_tree.induct)
  case (1 f it)
  from "1.prems"(2) show ?case
    by (subst (asm) find_if_rb_tree.simps)
       (use "1.IH" "1.prems"(1) in \<open>auto simp: res_bind_eq_Inr it_of_next split: if_splits\<close>)
qed

lemma ncolor_plug_eq: "ncolor x = ncolor y \<Longrightarrow> ncolor (plug x ps) = ncolor (plug y ps)"
proof (induction ps arbitrary: x y)
  case (Cons p ps)
  then show ?case by (cases p) auto
qed simp

lemma rb_set_value_ok:
  assumes "rb_inv cmp D t" "it_of t (Node c l k v r, ps)"
  shows "rb_inv cmp D (rb_set_value t (Node c l k v r, ps) v')"
    and "rb_entries t = (before ps @ inorder l) @ (k, v) # inorder r @ after ps"
    and "rb_entries (rb_set_value t (Node c l k v r, ps) v') =
      (before ps @ inorder l) @ (k, v') # inorder r @ after ps"
proof -
  have p: "plug (Node c l k v r) ps = root t" using assms(2) by (simp add: it_of_def)
  show e: "rb_entries t = (before ps @ inorder l) @ (k, v) # inorder r @ after ps"
    unfolding rb_entries_def p [symmetric] by (simp add: inorder_plug)
  show e': "rb_entries (rb_set_value t (Node c l k v r, ps) v') =
      (before ps @ inorder l) @ (k, v') # inorder r @ after ps"
    by (simp add: rb_entries_def inorder_plug)
  have "rb_ok (plug (Node c l k v r) ps)" using assms(1) p by (simp add: rb_inv_def)
  then have "rb_ok (plug (Node c l k v' r) ps)"
    using ncolor_plug_eq [of "Node c l k v r" "Node c l k v' r" ps]
    by (auto simp: rb_ok_def invc_plug invh_plug)
  then show "rb_inv cmp D (rb_set_value t (Node c l k v r, ps) v')"
    using assms(1) e e'
    by (auto simp: rb_inv_def sorted_entries_def sorted_wrt_append)
qed

text \<open>The pattern \<open>it = find_if(...); if(it == end) insert else change the value\<close>.\<close>

fun upd_first :: "('k \<Rightarrow> bool) \<Rightarrow> ('v \<Rightarrow> 'v) \<Rightarrow> ('k \<times> 'v) list \<Rightarrow> ('k \<times> 'v) list" where
  "upd_first f g [] = []"
| "upd_first f g (e # es) = (if f (fst e) then (fst e, g (snd e)) # es else e # upd_first f g es)"

lemma upd_first_split:
  "(\<And>e. e \<in> set xs \<Longrightarrow> \<not> f (fst e)) \<Longrightarrow> f (fst e) \<Longrightarrow>
    upd_first f g (xs @ e # ys) = xs @ (fst e, g (snd e)) # ys"
  by (induction xs) auto

lemma dropWhile_Cons_split:
  "dropWhile P xs = y # ys \<Longrightarrow> \<not> P y \<and> (\<exists>zs. xs = zs @ y # ys \<and> (\<forall>z\<in>set zs. P z))"
proof -
  assume "dropWhile P xs = y # ys"
  moreover from this have "\<not> P y" using hd_dropWhile [of P xs] by simp
  ultimately show ?thesis
    using takeWhile_dropWhile_id [of P xs] by (metis set_takeWhileD)
qed

lemma find_if_set_value:
  assumes "rb_inv cmp D t" "find_if_rb_tree f (assoc_rb_tree_front t) = Inr it" "fst it \<noteq> Dummy"
  obtains v where "assoc_rb_tree_value it = Inr v" "first_value f (rb_entries t) = Some v"
    "\<And>v'. rb_inv cmp D (rb_set_value t it v')"
    "rb_entries (rb_set_value t it (g v)) = upd_first f g (rb_entries t)"
proof -
  obtain c l k v r ps where it: "it = (Node c l k v r, ps)"
    using assms(3) by (cases it rule: it_entries.cases) auto
  have o: "it_of t (Node c l k v r, ps)"
    using it_of_find_if [OF it_of_front assms(2)] it by simp
  have "it_entries it = dropWhile (\<lambda>e. \<not> f (fst e)) (rb_entries t)"
    using find_if_rb_tree_spec [of f "assoc_rb_tree_front t"] assms(2) by (auto simp: it_entries_front)
  then have d: "dropWhile (\<lambda>e. \<not> f (fst e)) (rb_entries t) = (k, v) # inorder r @ after ps"
    by (simp add: it)
  then obtain zs where z: "rb_entries t = zs @ (k, v) # inorder r @ after ps" "f k"
    "\<forall>z\<in>set zs. \<not> f (fst z)"
    using dropWhile_Cons_split [OF d] by auto
  note s = rb_set_value_ok [OF assms(1) o]
  have zs: "zs = before ps @ inorder l" using z(1) s(2) by simp
  show ?thesis
  proof (rule that [of v])
    show "assoc_rb_tree_value it = Inr v" by (simp add: it)
    show "first_value f (rb_entries t) = Some v" by (simp add: first_value_dropWhile d)
    show "rb_inv cmp D (rb_set_value t it v')" for v' using s(1) it by simp
    show "rb_entries (rb_set_value t it (g v)) = upd_first f g (rb_entries t)"
      using s(3) z zs upd_first_split [of zs f "(k, v)" g] by (auto simp: it)
  qed
qed

end
