(* ===== verification/E2apIds.thy ===== *)
theory E2apIds
  imports Compare
begin

text \<open>
  The identifiers of E2AP and their comparators: \<open>ric_gen_id.c\<close>, \<open>e2ap_plmn.c\<close>,
  \<open>e2ap_global_node_id.c\<close>, \<open>sctp_msg.c\<close>, \<open>xapp_ric_id.c\<close>, \<open>pending_events.c\<close>,
  \<open>pending_event_ric.c\<close> and \<open>ind_event.c\<close>.  A C struct is a record; a pointer member
  that may be null is an option; an enum is a datatype with its C value.
\<close>

section \<open>RIC request identifiers\<close>

record ric_gen_id =
  ric_req_id :: u32
  ric_inst_id :: u16
  ran_func_id :: u16

definition eq_ric_gen_id :: "ric_gen_id \<Rightarrow> ric_gen_id \<Rightarrow> bool" where
  "eq_ric_gen_id m0 m1 \<longleftrightarrow> ric_req_id m0 = ric_req_id m1 \<and> ric_inst_id m0 = ric_inst_id m1 \<and>
    ran_func_id m0 = ran_func_id m1"

definition cmp_ric_gen_id :: "ric_gen_id cmp_fun" where
  "cmp_ric_gen_id m0 m1 =
    (if ran_func_id m0 < ran_func_id m1 then 1
     else if ran_func_id m0 > ran_func_id m1 then -1
     else if ric_inst_id m0 < ric_inst_id m1 then 1
     else if ric_inst_id m0 > ric_inst_id m1 then -1
     else if ric_req_id m0 < ric_req_id m1 then 1
     else if ric_req_id m0 > ric_req_id m1 then -1
     else 0)"

record xapp_ric_id =
  xric_id :: ric_gen_id
  xapp_id :: u16

definition eq_xapp_ric_gen_id :: "xapp_ric_id \<Rightarrow> xapp_ric_id \<Rightarrow> bool" where
  "eq_xapp_ric_gen_id m0 m1 =
    (if xapp_id m0 \<noteq> xapp_id m1 then False else eq_ric_gen_id (xric_id m0) (xric_id m1))"

definition cmp_xapp_ric_gen_id :: "xapp_ric_id cmp_fun" where
  "cmp_xapp_ric_gen_id m0 m1 =
    (if xapp_id m0 < xapp_id m1 then 1
     else if xapp_id m0 > xapp_id m1 then -1
     else cmp_ric_gen_id (xric_id m0) (xric_id m1))"

section \<open>E2 node identifiers\<close>

datatype ngran_node =
    Ngran_eNB | Ngran_ng_eNB | Ngran_gNB
  | Ngran_eNB_CU | Ngran_ng_eNB_CU | Ngran_gNB_CU
  | Ngran_eNB_DU | Ngran_gNB_DU | Ngran_eNB_MBMS_STA

fun ngran_val :: "ngran_node \<Rightarrow> nat" where
  "ngran_val Ngran_eNB = 0"
| "ngran_val Ngran_ng_eNB = 1"
| "ngran_val Ngran_gNB = 2"
| "ngran_val Ngran_eNB_CU = 3"
| "ngran_val Ngran_ng_eNB_CU = 4"
| "ngran_val Ngran_gNB_CU = 5"
| "ngran_val Ngran_eNB_DU = 6"
| "ngran_val Ngran_gNB_DU = 7"
| "ngran_val Ngran_eNB_MBMS_STA = 8"

definition node_is_monolithic :: "ngran_node \<Rightarrow> bool" where
  "node_is_monolithic t \<longleftrightarrow> t = Ngran_eNB \<or> t = Ngran_ng_eNB \<or> t = Ngran_gNB"

definition node_is_cu :: "ngran_node \<Rightarrow> bool" where
  "node_is_cu t \<longleftrightarrow> t = Ngran_eNB_CU \<or> t = Ngran_ng_eNB_CU \<or> t = Ngran_gNB_CU"

definition node_is_du :: "ngran_node \<Rightarrow> bool" where
  "node_is_du t \<longleftrightarrow> t = Ngran_eNB_DU \<or> t = Ngran_gNB_DU"

record plmn =
  mcc :: u16
  mnc :: u16
  mnc_digit_len :: u8

definition cp_plmn :: "plmn \<Rightarrow> plmn" where
  "cp_plmn src = \<lparr>mcc = mcc src, mnc = mnc src, mnc_digit_len = mnc_digit_len src\<rparr>"

definition eq_plmn :: "plmn \<Rightarrow> plmn \<Rightarrow> bool" where
  "eq_plmn m0 m1 =
    (if mcc m0 \<noteq> mcc m1 then False
     else if mnc m0 \<noteq> mnc m1 then False
     else if mnc_digit_len m0 \<noteq> mnc_digit_len m1 then False
     else True)"

definition cmp_plmn :: "plmn cmp_fun" where
  "cmp_plmn m0 m1 =
    (if mcc m0 < mcc m1 then -1 else if mcc m0 > mcc m1 then 1
     else if mnc m0 < mnc m1 then -1 else if mnc m0 > mnc m1 then 1
     else if mnc_digit_len m0 < mnc_digit_len m1 then -1
     else if mnc_digit_len m0 > mnc_digit_len m1 then 1
     else 0)"

record global_e2_node_id =
  ntype :: ngran_node
  nplmn :: plmn
  nb_id :: u32
  cu_du_id :: "u64 option"

definition cp_global_e2_node_id :: "global_e2_node_id \<Rightarrow> global_e2_node_id" where
  "cp_global_e2_node_id src =
    \<lparr>ntype = ntype src, nplmn = cp_plmn (nplmn src), nb_id = nb_id src,
     cu_du_id = (case cu_du_id src of Some i \<Rightarrow> Some i | None \<Rightarrow> None)\<rparr>"

text \<open>Two distinct objects are compared (the pointer shortcut answers true).\<close>

definition eq_global_e2_node_id :: "global_e2_node_id \<Rightarrow> global_e2_node_id \<Rightarrow> bool" where
  "eq_global_e2_node_id m0 m1 =
    (if node_is_monolithic (ntype m0) \<and> node_is_monolithic (ntype m1) then
       (if ntype m0 \<noteq> ntype m1 then False
        else if \<not> eq_plmn (nplmn m0) (nplmn m1) then False
        else if nb_id m0 \<noteq> nb_id m1 then False
        else True)
     else if (node_is_cu (ntype m0) \<or> node_is_du (ntype m0)) \<and>
             (node_is_cu (ntype m1) \<or> node_is_du (ntype m1)) then
       (if cu_du_id m0 = None \<or> cu_du_id m1 = None then False
        else if ntype m0 \<noteq> ntype m1 then False
        else if \<not> eq_plmn (nplmn m0) (nplmn m1) then False
        else if nb_id m0 \<noteq> nb_id m1 then False
        else if cu_du_id m0 \<noteq> cu_du_id m1 then False
        else True)
     else
       (if \<not> eq_plmn (nplmn m0) (nplmn m1) then False
        else if nb_id m0 \<noteq> nb_id m1 then False
        else True))"

text \<open>The comparator reads through \<open>cu_du_id\<close> without the null test of the equality.\<close>

definition cmp_global_e2_node_id :: "global_e2_node_id \<Rightarrow> global_e2_node_id \<Rightarrow> int res" where
  "cmp_global_e2_node_id m0 m1 =
    (if node_is_monolithic (ntype m0) \<and> node_is_monolithic (ntype m1) then
       (if ngran_val (ntype m0) < ngran_val (ntype m1) then Inr (-1)
        else if ngran_val (ntype m0) > ngran_val (ntype m1) then Inr 1
        else if cmp_plmn (nplmn m0) (nplmn m1) \<noteq> 0 then Inr (cmp_plmn (nplmn m0) (nplmn m1))
        else if nb_id m0 < nb_id m1 then Inr (-1)
        else if nb_id m0 > nb_id m1 then Inr 1
        else Inr 0)
     else if (node_is_cu (ntype m0) \<or> node_is_du (ntype m0)) \<and>
             (node_is_cu (ntype m1) \<or> node_is_du (ntype m1)) then
       (if ngran_val (ntype m0) < ngran_val (ntype m1) then Inr (-1)
        else if ngran_val (ntype m0) > ngran_val (ntype m1) then Inr 1
        else if cmp_plmn (nplmn m0) (nplmn m1) \<noteq> 0 then Inr (cmp_plmn (nplmn m0) (nplmn m1))
        else if nb_id m0 < nb_id m1 then Inr (-1)
        else if nb_id m0 > nb_id m1 then Inr 1
        else (case (cu_du_id m0, cu_du_id m1) of
                (Some i0, Some i1) \<Rightarrow>
                  if i0 < i1 then Inr (-1) else if i0 > i1 then Inr 1 else Inr 0
              | _ \<Rightarrow> Inl NullDeref))
     else
       (if cmp_plmn (nplmn m0) (nplmn m1) \<noteq> 0 then Inr (cmp_plmn (nplmn m0) (nplmn m1))
        else if nb_id m0 < nb_id m1 then Inr (-1)
        else if nb_id m0 > nb_id m1 then Inr 1
        else Inr 0))"

text \<open>As the comparator of a container.  A comparison that stops the process is the
  value 2, which no comparator returns.\<close>

definition cmp_global_e2_node_id_wrapper :: "global_e2_node_id cmp_fun" where
  "cmp_global_e2_node_id_wrapper m0 m1 =
    (case cmp_global_e2_node_id m0 m1 of Inl _ \<Rightarrow> 2 | Inr c \<Rightarrow> c)"

definition monolithic_dom :: "global_e2_node_id set" where
  "monolithic_dom = {n. node_is_monolithic (ntype n)}"

definition split_dom :: "global_e2_node_id set" where
  "split_dom = {n. (node_is_cu (ntype n) \<or> node_is_du (ntype n)) \<and> cu_du_id n \<noteq> None}"

section \<open>Addresses\<close>

record sockaddr_in =
  sin_family :: u16
  sin_port :: u16
  sin_addr :: u32

text \<open>\<open>sri\<close> is the \<open>sctp_sndrcvinfo\<close> of the system headers; its content is not looked at.\<close>

record 'sri sctp_info =
  addr :: sockaddr_in
  sri :: 'sri

definition cmp_sockaddr_in :: "sockaddr_in cmp_fun" where
  "cmp_sockaddr_in m0 m1 =
    (if sin_port m0 < sin_port m1 then 1 else if sin_port m0 > sin_port m1 then -1
     else if sin_addr m0 < sin_addr m1 then 1 else if sin_addr m0 > sin_addr m1 then -1
     else if sin_family m0 < sin_family m1 then 1 else if sin_family m0 > sin_family m1 then -1
     else 0)"

definition cmp_sctp_sndrcvinfo :: "'sri \<Rightarrow> 'sri \<Rightarrow> int" where
  "cmp_sctp_sndrcvinfo m0 m1 = 0"

definition cmp_sctp_info_wrapper :: "'sri sctp_info cmp_fun" where
  "cmp_sctp_info_wrapper m0 m1 =
    (let c = cmp_sockaddr_in (addr m0) (addr m1) in
     if c \<noteq> 0 then c else cmp_sctp_sndrcvinfo (sri m0) (sri m1))"

definition eq_sctp_info_wrapper :: "'sri sctp_info \<Rightarrow> 'sri sctp_info \<Rightarrow> bool" where
  "eq_sctp_info_wrapper m0 m1 \<longleftrightarrow> cmp_sctp_info_wrapper m0 m1 = 0"

section \<open>Pending events\<close>

datatype pending_event =
    SETUP_REQUEST_PENDING_EVENT
  | SUBSCRIPTION_REQUEST_PENDING_EVENT
  | SUBSCRIPTION_DELETE_REQUEST_PENDING_EVENT
  | CONTROL_REQUEST_PENDING_EVENT
  | E42_SETUP_REQUEST_PENDING_EVENT
  | E42_RIC_SUBSCRIPTION_REQUEST_PENDING_EVENT
  | RIC_SUBSCRIPTION_DELETE_REQUEST_PENDING_EVENT
  | E42_RIC_SUBSCRIPTION_DELETE_REQUEST_PENDING_EVENT
  | E42_RIC_CONTROL_REQUEST_PENDING_EVENT

fun pending_event_val :: "pending_event \<Rightarrow> int" where
  "pending_event_val SETUP_REQUEST_PENDING_EVENT = 0"
| "pending_event_val SUBSCRIPTION_REQUEST_PENDING_EVENT = 1"
| "pending_event_val SUBSCRIPTION_DELETE_REQUEST_PENDING_EVENT = 2"
| "pending_event_val CONTROL_REQUEST_PENDING_EVENT = 3"
| "pending_event_val E42_SETUP_REQUEST_PENDING_EVENT = 4"
| "pending_event_val E42_RIC_SUBSCRIPTION_REQUEST_PENDING_EVENT = 5"
| "pending_event_val RIC_SUBSCRIPTION_DELETE_REQUEST_PENDING_EVENT = 6"
| "pending_event_val E42_RIC_SUBSCRIPTION_DELETE_REQUEST_PENDING_EVENT = 7"
| "pending_event_val E42_RIC_CONTROL_REQUEST_PENDING_EVENT = 8"

definition cmp_pending_event :: "pending_event cmp_fun" where
  "cmp_pending_event ev1 ev2 =
    (if pending_event_val ev1 < pending_event_val ev2 then 1
     else if pending_event_val ev1 = pending_event_val ev2 then 0
     else -1)"

definition valid_pending_event :: "pending_event \<Rightarrow> bool res" where
  "valid_pending_event ev =
    res_bind (c_assert (ev = SETUP_REQUEST_PENDING_EVENT
                        \<or> ev = SUBSCRIPTION_REQUEST_PENDING_EVENT
                        \<or> ev = SUBSCRIPTION_DELETE_REQUEST_PENDING_EVENT
                        \<or> ev = E42_SETUP_REQUEST_PENDING_EVENT)) (\<lambda>_. Inr True)"

record pending_event_ric =
  ev :: pending_event
  pid :: ric_gen_id

definition cmp_pending_event_ric :: "pending_event_ric cmp_fun" where
  "cmp_pending_event_ric p1 p2 =
    (let cmp_ev = cmp_pending_event (ev p1) (ev p2) in
     if cmp_ev \<noteq> 0 then cmp_ev else cmp_ric_gen_id (pid p1) (pid p2))"

text \<open>\<open>sm\<close> stands for the pointer to the service model.\<close>

record 'sm ind_event =
  iric_id :: ric_gen_id
  ism :: 'sm
  action_id :: u8

definition cmp_ind_event :: "'sm ind_event cmp_fun" where
  "cmp_ind_event m0 m1 = cmp_ric_gen_id (iric_id m0) (iric_id m1)"

section \<open>They are comparators\<close>

lemma cmp_ric_gen_id_lex:
  "cmp_ric_gen_id = cmp_lex (\<lambda>a b. cmp_order (ran_func_id a) (ran_func_id b))
     (cmp_lex (\<lambda>a b. cmp_order (ric_inst_id a) (ric_inst_id b))
       (\<lambda>a b. cmp_order (ric_req_id a) (ric_req_id b)))"
  by (intro ext) (auto simp: cmp_ric_gen_id_def cmp_lex_def cmp_order_def)

interpretation ric_gen: comparator cmp_ric_gen_id UNIV
  unfolding cmp_ric_gen_id_lex by (intro cmp_lex_comparator cmp_order_comparator)

lemma cmp_ric_gen_id_eq0 [simp]: "cmp_ric_gen_id a b = 0 \<longleftrightarrow> a = b"
  by (cases a; cases b) (auto simp: cmp_ric_gen_id_def)

lemma eq_ric_gen_id_iff [simp]: "eq_ric_gen_id a b \<longleftrightarrow> a = b"
  by (cases a; cases b) (auto simp: eq_ric_gen_id_def)

lemma cmp_xapp_ric_gen_id_lex:
  "cmp_xapp_ric_gen_id = cmp_lex (\<lambda>a b. cmp_order (xapp_id a) (xapp_id b))
     (\<lambda>a b. cmp_ric_gen_id (xric_id a) (xric_id b))"
  by (intro ext) (auto simp: cmp_xapp_ric_gen_id_def cmp_lex_def cmp_order_def)

lemma comparator_comap: "comparator c UNIV \<Longrightarrow> comparator (\<lambda>a b. c (f a) (f b)) D"
proof
  assume c: "comparator c UNIV"
  show "c (f a) (f b) = 1 \<or> c (f a) (f b) = 0 \<or> c (f a) (f b) = -1" for a b
    using comparator.cmp_range [OF c] by simp
  show "c (f a) (f b) = - c (f b) (f a)" for a b
    using comparator.cmp_flip [OF c, of "f a" "f b"] by simp
  show "c (f i) (f k) = 1" if "c (f i) (f j) = 1" "c (f j) (f k) = 1" for i j k
    using comparator.cmp_trans [OF c, of "f i" "f j" "f k"] that by simp
  show "c (f i) (f k) = c (f j) (f k)" if "c (f i) (f j) = 0" for i j k
    using comparator.cmp_eq_left [OF c, of "f i" "f j" "f k"] that by simp
qed

interpretation xapp_ric: comparator cmp_xapp_ric_gen_id UNIV
  unfolding cmp_xapp_ric_gen_id_lex
  by (rule cmp_lex_comparator [OF cmp_order_comparator
        comparator_comap [OF ric_gen.comparator_axioms]])

lemma cmp_xapp_ric_gen_id_eq0 [simp]: "cmp_xapp_ric_gen_id a b = 0 \<longleftrightarrow> a = b"
  by (cases a; cases b) (auto simp: cmp_xapp_ric_gen_id_def)

lemma eq_xapp_ric_gen_id_iff [simp]: "eq_xapp_ric_gen_id a b \<longleftrightarrow> a = b"
  by (cases a; cases b) (auto simp: eq_xapp_ric_gen_id_def)

interpretation pend_ev: comparator cmp_pending_event UNIV
  by (rule comparator_cong [OF cmp_order_comparator [of pending_event_val]])
     (simp add: cmp_order_def cmp_pending_event_def)

lemma pending_event_val_inj [simp]: "pending_event_val a = pending_event_val b \<longleftrightarrow> a = b"
  by (cases a; cases b) auto

lemma cmp_pending_event_eq0 [simp]: "cmp_pending_event a b = 0 \<longleftrightarrow> a = b"
  by (auto simp: cmp_pending_event_def)

lemma cmp_pending_event_ric_lex:
  "cmp_pending_event_ric = cmp_lex (\<lambda>a b. cmp_pending_event (ev a) (ev b))
     (\<lambda>a b. cmp_ric_gen_id (pid a) (pid b))"
  by (intro ext) (simp add: cmp_pending_event_ric_def cmp_lex_def)

interpretation pend_ric: comparator cmp_pending_event_ric UNIV
  unfolding cmp_pending_event_ric_lex
  by (rule cmp_lex_comparator [OF comparator_comap [OF pend_ev.comparator_axioms]
        comparator_comap [OF ric_gen.comparator_axioms]])

lemma cmp_pending_event_ric_eq0 [simp]: "cmp_pending_event_ric a b = 0 \<longleftrightarrow> a = b"
  by (cases a; cases b) (auto simp: cmp_pending_event_ric_def Let_def)

interpretation ind_ev: comparator "cmp_ind_event :: 'sm ind_event cmp_fun" UNIV
  using comparator_comap [OF ric_gen.comparator_axioms, of iric_id]
  by (simp add: cmp_ind_event_def [abs_def])

lemma cmp_ind_event_eq0 [simp]: "cmp_ind_event a b = 0 \<longleftrightarrow> iric_id a = iric_id b"
  by (simp add: cmp_ind_event_def)

lemma cmp_sctp_info_lex:
  "cmp_sctp_info_wrapper = cmp_lex (\<lambda>a b. cmp_order (sin_port (addr a)) (sin_port (addr b)))
     (cmp_lex (\<lambda>a b. cmp_order (sin_addr (addr a)) (sin_addr (addr b)))
       (\<lambda>a b. cmp_order (sin_family (addr a)) (sin_family (addr b))))"
  by (intro ext)
     (auto simp: cmp_sctp_info_wrapper_def cmp_sockaddr_in_def cmp_sctp_sndrcvinfo_def
       cmp_lex_def cmp_order_def Let_def)

interpretation sctp: comparator "cmp_sctp_info_wrapper :: 'sri sctp_info cmp_fun" UNIV
  unfolding cmp_sctp_info_lex by (intro cmp_lex_comparator cmp_order_comparator)

lemma eq_sctp_info_iff [simp]: "eq_sctp_info_wrapper a b \<longleftrightarrow> addr a = addr b"
  by (cases "addr a"; cases "addr b")
     (auto simp: eq_sctp_info_wrapper_def cmp_sctp_info_wrapper_def cmp_sockaddr_in_def
       cmp_sctp_sndrcvinfo_def Let_def)

section \<open>E2 nodes: an order on each kind of nodes, not across them\<close>

lemma eq_plmn_iff [simp]: "eq_plmn a b \<longleftrightarrow> a = b"
  by (cases a; cases b) (auto simp: eq_plmn_def)

lemma cmp_plmn_eq0 [simp]: "cmp_plmn a b = 0 \<longleftrightarrow> a = b"
  by (cases a; cases b) (auto simp: cmp_plmn_def)

lemma cp_plmn_id [simp]: "cp_plmn p = p"
  by (simp add: cp_plmn_def)

lemma cp_global_e2_node_id_id [simp]: "cp_global_e2_node_id n = n"
  by (cases n) (auto simp: cp_global_e2_node_id_def split: option.splits)

lemma ngran_val_inj [simp]: "ngran_val a = ngran_val b \<longleftrightarrow> a = b"
  by (cases a; cases b) auto

lemma cmp_plmn_lex:
  "cmp_plmn = cmp_lex (\<lambda>a b. cmp_order (mcc b) (mcc a))
     (cmp_lex (\<lambda>a b. cmp_order (mnc b) (mnc a))
       (\<lambda>a b. cmp_order (mnc_digit_len b) (mnc_digit_len a)))"
  by (intro ext) (auto simp: cmp_plmn_def cmp_lex_def cmp_order_def)

lemma plmn_comparator: "comparator cmp_plmn D"
  unfolding cmp_plmn_lex by (intro cmp_lex_comparator cmp_order_flipped_comparator)

definition cmp_node_lex :: "global_e2_node_id cmp_fun" where
  "cmp_node_lex = cmp_lex (\<lambda>a b. cmp_order (ngran_val (ntype b)) (ngran_val (ntype a)))
     (cmp_lex (\<lambda>a b. cmp_plmn (nplmn a) (nplmn b))
       (\<lambda>a b. cmp_order (nb_id b) (nb_id a)))"

lemma cmp_node_lex_comparator: "comparator cmp_node_lex D"
  unfolding cmp_node_lex_def
  by (rule cmp_lex_comparator [OF cmp_order_flipped_comparator
        cmp_lex_comparator [OF comparator_comap [OF plmn_comparator]
          cmp_order_flipped_comparator]])

interpretation mono: comparator cmp_global_e2_node_id_wrapper monolithic_dom
  by (rule comparator_cong [OF cmp_node_lex_comparator])
     (auto simp: cmp_node_lex_def cmp_lex_def cmp_order_def monolithic_dom_def
       cmp_global_e2_node_id_wrapper_def cmp_global_e2_node_id_def)

lemma node_kinds_disjoint:
  "node_is_cu t \<or> node_is_du t \<Longrightarrow> \<not> node_is_monolithic t"
  by (auto simp: node_is_cu_def node_is_du_def node_is_monolithic_def)

interpretation split: comparator cmp_global_e2_node_id_wrapper split_dom
  by (rule comparator_cong [OF cmp_lex_comparator [OF cmp_node_lex_comparator
        cmp_order_flipped_comparator [of "\<lambda>n. the (cu_du_id n)"]]])
     (auto simp: cmp_node_lex_def cmp_lex_def cmp_order_def split_dom_def
       cmp_global_e2_node_id_wrapper_def cmp_global_e2_node_id_def
       dest!: node_kinds_disjoint)

end
