(* ===== verification/E2apMsg.thy ===== *)
theory E2apMsg
  imports E2apIds
begin

text \<open>
  The messages of E2AP and of its xApp extension E42 (\<open>src/lib/ap/type_defs.h\<close> and
  \<open>src/lib/ap/e2ap_types\<close>), with the equality and copy functions the programs and their
  tests use.  A byte array is a list of bytes, an optional member an option, a pair of
  a pointer and a length a list.

  The processes exchange these values; \<open>E2apUnion\<close> adds the members that no handler reads, and
  \<open>E2apCarry\<close> takes the values through the encoder and the decoder.
\<close>

type_synonym byte_array = "u8 list"

definition copy_byte_array :: "byte_array \<Rightarrow> byte_array" where
  "copy_byte_array src = src"

text \<open>\<open>eq_byte_array\<close> on two pointers that are not the same object: null is \<open>None\<close>.\<close>

fun eq_byte_array :: "byte_array option \<Rightarrow> byte_array option \<Rightarrow> bool" where
  "eq_byte_array None None = True"
| "eq_byte_array None (Some _) = False"
| "eq_byte_array (Some _) None = False"
| "eq_byte_array (Some m0) (Some m1) = (if length m0 \<noteq> length m1 then False else m0 = m1)"

text \<open>A counted comparison \<open>for(i < len) if(eq(a[i], b[i]) == false) return false\<close> after the
  test of the two lengths.\<close>

fun eq_arr :: "('a \<Rightarrow> 'a \<Rightarrow> bool) \<Rightarrow> 'a list \<Rightarrow> 'a list \<Rightarrow> bool" where
  "eq_arr f [] [] = True"
| "eq_arr f (x # xs) (y # ys) = (if \<not> f x y then False else eq_arr f xs ys)"
| "eq_arr f _ _ = False"

record ran_function =
  rf_def :: byte_array
  rf_id :: u16
  rf_rev :: u16
  rf_oid :: "byte_array option"

definition cp_ran_function :: "ran_function \<Rightarrow> ran_function" where
  "cp_ran_function src =
    \<lparr>rf_def = copy_byte_array (rf_def src), rf_id = rf_id src, rf_rev = rf_rev src,
     rf_oid = (case rf_oid src of None \<Rightarrow> None | Some o' \<Rightarrow> Some (copy_byte_array o'))\<rparr>"

definition eq_ran_function :: "ran_function \<Rightarrow> ran_function \<Rightarrow> bool" where
  "eq_ran_function m0 m1 =
    (if \<not> eq_byte_array (Some (rf_def m0)) (Some (rf_def m1)) then False
     else if rf_id m0 \<noteq> rf_id m1 then False
     else if rf_rev m0 \<noteq> rf_rev m1 then False
     else if \<not> eq_byte_array (rf_oid m0) (rf_oid m1) then False
     else True)"

definition cmp_ran_function :: "ran_function \<Rightarrow> ran_function \<Rightarrow> int" where
  "cmp_ran_function m0 m1 =
    (if rf_id m0 < rf_id m1 then -1 else if rf_id m0 = rf_id m1 then 0 else 1)"

section \<open>Subscriptions\<close>

datatype ric_subseq_action_type = RIC_SUBS_REQ_CONTINUE | RIC_SUBS_REQ_HALT

record ric_subsequent_action =
  sa_type :: ric_subseq_action_type
  time_to_wait_ms :: "u32 option"

text \<open>Of two objects, both given.  The second null test looks at \<open>m1\<close> instead of its
  member, so a waiting time against none reads through a null pointer.\<close>

definition eq_ric_subsequent_action_obj ::
  "ric_subsequent_action \<Rightarrow> ric_subsequent_action \<Rightarrow> bool res" where
  "eq_ric_subsequent_action_obj m0 m1 =
    (if sa_type m0 \<noteq> sa_type m1 then Inr False
     else (case (time_to_wait_ms m0, time_to_wait_ms m1) of
             (None, None) \<Rightarrow> Inr True
           | (None, Some _) \<Rightarrow> Inr False
           | (Some _, None) \<Rightarrow> Inl NullDeref
           | (Some t0, Some t1) \<Rightarrow> if t0 \<noteq> t1 then Inr False else Inr True))"

fun eq_ric_subsequent_action ::
  "ric_subsequent_action option \<Rightarrow> ric_subsequent_action option \<Rightarrow> bool res" where
  "eq_ric_subsequent_action None None = Inr True"
| "eq_ric_subsequent_action None (Some _) = Inr False"
| "eq_ric_subsequent_action (Some _) None = Inr False"
| "eq_ric_subsequent_action (Some m0) (Some m1) = eq_ric_subsequent_action_obj m0 m1"

datatype ric_action_type = RIC_ACT_REPORT | RIC_ACT_INSERT | RIC_ACT_POLICY

record ric_action =
  act_id :: u8
  act_type :: ric_action_type
  act_definition :: "byte_array option"
  act_subseq :: "ric_subsequent_action option"

definition eq_ric_action :: "ric_action \<Rightarrow> ric_action \<Rightarrow> bool res" where
  "eq_ric_action m0 m1 =
    (if act_id m0 \<noteq> act_id m1 then Inr False
     else if act_type m0 \<noteq> act_type m1 then Inr False
     else if \<not> eq_byte_array (act_definition m0) (act_definition m1) then Inr False
     else eq_ric_subsequent_action (act_subseq m0) (act_subseq m1))"

record ric_subscription_request =
  sr_ric_id :: ric_gen_id
  event_trigger :: byte_array
  action :: "ric_action list"

fun eq_actions :: "ric_action list \<Rightarrow> ric_action list \<Rightarrow> bool res" where
  "eq_actions (x # xs) (y # ys) =
    res_bind (eq_ric_action x y) (\<lambda>b. if \<not> b then Inr False else eq_actions xs ys)"
| "eq_actions _ _ = Inr True"

definition eq_ric_subscritption_request ::
  "ric_subscription_request \<Rightarrow> ric_subscription_request \<Rightarrow> bool res" where
  "eq_ric_subscritption_request m0 m1 =
    (if \<not> eq_ric_gen_id (sr_ric_id m0) (sr_ric_id m1) then Inr False
     else if \<not> eq_byte_array (Some (event_trigger m0)) (Some (event_trigger m1)) then Inr False
     else if length (action m0) \<noteq> length (action m1) then Inr False
     else eq_actions (action m0) (action m1))"

text \<open>\<open>cause_t\<close> is compared and copied as memory.\<close>

record cause =
  present :: u32
  cause_val :: u32

record ric_action_not_admitted =
  na_act_id :: u8
  na_cause :: cause

definition eq_cause :: "cause \<Rightarrow> cause \<Rightarrow> bool" where
  "eq_cause m0 m1 = (if m0 \<noteq> m1 then False else True)"

definition cp_cause :: "cause \<Rightarrow> cause" where
  "cp_cause src = src"

definition eq_ric_action_not_admitted ::
  "ric_action_not_admitted \<Rightarrow> ric_action_not_admitted \<Rightarrow> bool" where
  "eq_ric_action_not_admitted m0 m1 =
    (if na_act_id m0 \<noteq> na_act_id m1 then False
     else if \<not> eq_cause (na_cause m0) (na_cause m1) then False
     else True)"

definition cp_ric_action_not_admitted :: "ric_action_not_admitted \<Rightarrow> ric_action_not_admitted" where
  "cp_ric_action_not_admitted src = \<lparr>na_act_id = na_act_id src, na_cause = cp_cause (na_cause src)\<rparr>"

record ric_action_admitted =
  ric_act_id :: u8

definition eq_ric_action_admitted :: "ric_action_admitted \<Rightarrow> ric_action_admitted \<Rightarrow> bool" where
  "eq_ric_action_admitted m0 m1 = (if ric_act_id m0 \<noteq> ric_act_id m1 then False else True)"

definition cp_ric_action_admitted :: "ric_action_admitted \<Rightarrow> ric_action_admitted" where
  "cp_ric_action_admitted src = \<lparr>ric_act_id = ric_act_id src\<rparr>"

record ric_subscription_response =
  resp_ric_id :: ric_gen_id
  admitted :: "ric_action_admitted list"
  not_admitted :: "ric_action_not_admitted list"

definition eq_ric_subscritption_response ::
  "ric_subscription_response \<Rightarrow> ric_subscription_response \<Rightarrow> bool" where
  "eq_ric_subscritption_response m0 m1 =
    (if \<not> eq_ric_gen_id (resp_ric_id m0) (resp_ric_id m1) then False
     else if length (admitted m0) \<noteq> length (admitted m1) then False
     else if \<not> eq_arr eq_ric_action_admitted (admitted m0) (admitted m1) then False
     else if length (not_admitted m0) \<noteq> length (not_admitted m1) then False
     else if \<not> eq_arr eq_ric_action_not_admitted (not_admitted m0) (not_admitted m1) then False
     else True)"

definition cp_ric_subscription_respponse :: "ric_subscription_response \<Rightarrow> ric_subscription_response" where
  "cp_ric_subscription_respponse src =
    \<lparr>resp_ric_id = resp_ric_id src,
     admitted = map cp_ric_action_admitted (admitted src),
     not_admitted = map cp_ric_action_not_admitted (not_admitted src)\<rparr>"

text \<open>Moving: the target gets the content, the source is zeroed.\<close>

definition zero_ric_gen_id :: ric_gen_id where
  "zero_ric_gen_id = \<lparr>ric_req_id = 0, ric_inst_id = 0, ran_func_id = 0\<rparr>"

definition mv_ric_subscription_respponse ::
  "ric_subscription_response \<Rightarrow> ric_subscription_response \<times> ric_subscription_response" where
  "mv_ric_subscription_respponse src =
    (\<lparr>resp_ric_id = resp_ric_id src, admitted = admitted src, not_admitted = not_admitted src\<rparr>,
     \<lparr>resp_ric_id = zero_ric_gen_id, admitted = [], not_admitted = []\<rparr>)"

record ric_subscription_delete_request =
  sdr_ric_id :: ric_gen_id

definition eq_ric_subscription_delete_request ::
  "ric_subscription_delete_request \<Rightarrow> ric_subscription_delete_request \<Rightarrow> bool" where
  "eq_ric_subscription_delete_request m0 m1 =
    (if \<not> eq_ric_gen_id (sdr_ric_id m0) (sdr_ric_id m1) then False else True)"

definition cp_ric_subscription_delete_request ::
  "ric_subscription_delete_request \<Rightarrow> ric_subscription_delete_request" where
  "cp_ric_subscription_delete_request src = \<lparr>sdr_ric_id = sdr_ric_id src\<rparr>"

record ric_subscription_delete_response =
  sdresp_ric_id :: ric_gen_id

definition eq_ric_subscription_delete_response ::
  "ric_subscription_delete_response \<Rightarrow> ric_subscription_delete_response \<Rightarrow> bool" where
  "eq_ric_subscription_delete_response m0 m1 =
    (if \<not> eq_ric_gen_id (sdresp_ric_id m0) (sdresp_ric_id m1) then False else True)"

section \<open>Control and indication\<close>

datatype ric_control_ack_req =
  RIC_CONTROL_REQUEST_NO_ACK | RIC_CONTROL_REQUEST_ACK | RIC_CONTROL_REQUEST_NACK

record ric_control_request =
  cr_ric_id :: ric_gen_id
  cr_call_process_id :: "byte_array option"
  cr_hdr :: byte_array
  cr_msg :: byte_array
  ack_req :: "ric_control_ack_req option"

fun eq_ric_control_ack_req :: "ric_control_ack_req option \<Rightarrow> ric_control_ack_req option \<Rightarrow> bool" where
  "eq_ric_control_ack_req None None = True"
| "eq_ric_control_ack_req None (Some _) = False"
| "eq_ric_control_ack_req (Some _) None = False"
| "eq_ric_control_ack_req (Some m0) (Some m1) = (if m0 \<noteq> m1 then False else True)"

definition eq_ric_control_request :: "ric_control_request \<Rightarrow> ric_control_request \<Rightarrow> bool" where
  "eq_ric_control_request m0 m1 =
    (if \<not> eq_ric_gen_id (cr_ric_id m0) (cr_ric_id m1) then False
     else if \<not> eq_byte_array (cr_call_process_id m0) (cr_call_process_id m1) then False
     else if \<not> eq_byte_array (Some (cr_hdr m0)) (Some (cr_hdr m1)) then False
     else if \<not> eq_byte_array (Some (cr_msg m0)) (Some (cr_msg m1)) then False
     else if \<not> eq_ric_control_ack_req (ack_req m0) (ack_req m1) then False
     else True)"

datatype ric_control_status =
  RIC_CONTROL_STATUS_SUCCESS | RIC_CONTROL_STATUS_REJECTED | RIC_CONTROL_STATUS_FAILED

record ric_control_acknowledge =
  ca_ric_id :: ric_gen_id
  ca_call_process_id :: "byte_array option"
  ca_status :: ric_control_status
  control_outcome :: "byte_array option"

definition eq_ric_control_acknowledge ::
  "ric_control_acknowledge \<Rightarrow> ric_control_acknowledge \<Rightarrow> bool" where
  "eq_ric_control_acknowledge m0 m1 =
    (if \<not> eq_ric_gen_id (ca_ric_id m0) (ca_ric_id m1) then False
     else if \<not> eq_byte_array (ca_call_process_id m0) (ca_call_process_id m1) then False
     else if ca_status m0 \<noteq> ca_status m1 then False
     else if \<not> eq_byte_array (control_outcome m0) (control_outcome m1) then False
     else True)"

datatype ric_indication_type = RIC_IND_REPORT | RIC_IND_INSERT

record ric_indication =
  ind_ric_id :: ric_gen_id
  ind_action_id :: u8
  sn :: "u16 option"
  ind_type :: ric_indication_type
  ind_hdr :: byte_array
  ind_msg :: byte_array
  ind_call_process_id :: "byte_array option"

fun eq_sn :: "u16 option \<Rightarrow> u16 option \<Rightarrow> bool" where
  "eq_sn None None = True"
| "eq_sn None (Some _) = False"
| "eq_sn (Some _) None = False"
| "eq_sn (Some m0) (Some m1) = (if m0 \<noteq> m1 then False else True)"

definition eq_ric_indication :: "ric_indication \<Rightarrow> ric_indication \<Rightarrow> bool" where
  "eq_ric_indication m0 m1 =
    (if \<not> eq_ric_gen_id (ind_ric_id m0) (ind_ric_id m1) then False
     else if ind_action_id m0 \<noteq> ind_action_id m1 then False
     else if \<not> eq_sn (sn m0) (sn m1) then False
     else if ind_type m0 \<noteq> ind_type m1 then False
     else if \<not> eq_byte_array (Some (ind_hdr m0)) (Some (ind_hdr m1)) then False
     else if \<not> eq_byte_array (Some (ind_msg m0)) (Some (ind_msg m1)) then False
     else if \<not> eq_byte_array (ind_call_process_id m0) (ind_call_process_id m1) then False
     else True)"

definition mv_ric_indication :: "ric_indication \<Rightarrow> ric_indication \<times> ric_indication" where
  "mv_ric_indication src =
    (\<lparr>ind_ric_id = ind_ric_id src, ind_action_id = ind_action_id src, sn = sn src,
      ind_type = ind_type src, ind_hdr = ind_hdr src, ind_msg = ind_msg src,
      ind_call_process_id = ind_call_process_id src\<rparr>,
     \<lparr>ind_ric_id = zero_ric_gen_id, ind_action_id = 0, sn = None,
      ind_type = RIC_IND_REPORT, ind_hdr = [], ind_msg = [], ind_call_process_id = None\<rparr>)"

section \<open>Setup\<close>

record e2_node_connected =
  nc_id :: global_e2_node_id
  ack_rf :: "ran_function list"

definition cp_e2_node_connected :: "e2_node_connected \<Rightarrow> e2_node_connected" where
  "cp_e2_node_connected src =
    \<lparr>nc_id = cp_global_e2_node_id (nc_id src), ack_rf = map cp_ran_function (ack_rf src)\<rparr>"

definition eq_e2_node_connected :: "e2_node_connected \<Rightarrow> e2_node_connected \<Rightarrow> bool" where
  "eq_e2_node_connected m0 m1 =
    (if \<not> eq_global_e2_node_id (nc_id m0) (nc_id m1) then False
     else if length (ack_rf m0) \<noteq> length (ack_rf m1) then False
     else if \<not> eq_arr eq_ran_function (ack_rf m0) (ack_rf m1) then False
     else True)"

record e42_setup_request =
  e42_ran_func_item :: "ran_function list"

definition cp_e42_setup_request :: "e42_setup_request \<Rightarrow> e42_setup_request" where
  "cp_e42_setup_request src = \<lparr>e42_ran_func_item = map cp_ran_function (e42_ran_func_item src)\<rparr>"

definition eq_e42_setup_request :: "e42_setup_request \<Rightarrow> e42_setup_request \<Rightarrow> bool" where
  "eq_e42_setup_request m0 m1 =
    (if length (e42_ran_func_item m0) \<noteq> length (e42_ran_func_item m1) then False
     else if \<not> eq_arr eq_ran_function (e42_ran_func_item m0) (e42_ran_func_item m1) then False
     else True)"

record e42_setup_response =
  e42_xapp_id :: u16
  e42_nodes :: "e2_node_connected list"

definition cp_e42_setup_response :: "e42_setup_response \<Rightarrow> e42_setup_response" where
  "cp_e42_setup_response src =
    \<lparr>e42_xapp_id = e42_xapp_id src, e42_nodes = map cp_e2_node_connected (e42_nodes src)\<rparr>"

definition eq_e42_setup_response :: "e42_setup_response \<Rightarrow> e42_setup_response \<Rightarrow> bool" where
  "eq_e42_setup_response m0 m1 =
    (if e42_xapp_id m0 \<noteq> e42_xapp_id m1 then False
     else if length (e42_nodes m0) \<noteq> length (e42_nodes m1) then False
     else if \<not> eq_arr eq_e2_node_connected (e42_nodes m0) (e42_nodes m1) then False
     else True)"

text \<open>Without the configuration updates, which no handler looks at.\<close>

record e2_setup_request =
  stp_id :: global_e2_node_id
  ran_func_item :: "ran_function list"

record global_ric_id =
  gr_plmn :: plmn
  near_ric_id :: u32

definition eq_global_ric_id :: "global_ric_id \<Rightarrow> global_ric_id \<Rightarrow> bool" where
  "eq_global_ric_id m0 m1 =
    (if \<not> eq_plmn (gr_plmn m0) (gr_plmn m1) then False
     else if near_ric_id m0 \<noteq> near_ric_id m1 then False
     else True)"

record e2_setup_response =
  stp_resp_id :: global_ric_id
  accepted :: "u16 list"

section \<open>E42 requests\<close>

record e42_ric_subscription_request =
  e42sr_xapp_id :: u16
  e42sr_id :: global_e2_node_id
  e42sr_sr :: ric_subscription_request

definition eq_e42_ric_subscritption_request ::
  "e42_ric_subscription_request \<Rightarrow> e42_ric_subscription_request \<Rightarrow> bool res" where
  "eq_e42_ric_subscritption_request m0 m1 =
    (if e42sr_xapp_id m0 \<noteq> e42sr_xapp_id m1 then Inr False
     else if \<not> eq_global_e2_node_id (e42sr_id m0) (e42sr_id m1) then Inr False
     else eq_ric_subscritption_request (e42sr_sr m0) (e42sr_sr m1))"

record e42_ric_subscription_delete_request =
  e42sdr_xapp_id :: u16
  e42sdr_sdr :: ric_subscription_delete_request

definition eq_e42_ric_subscription_delete_request ::
  "e42_ric_subscription_delete_request \<Rightarrow> e42_ric_subscription_delete_request \<Rightarrow> bool" where
  "eq_e42_ric_subscription_delete_request m0 m1 =
    (if e42sdr_xapp_id m0 \<noteq> e42sdr_xapp_id m1 then False
     else eq_ric_subscription_delete_request (e42sdr_sdr m0) (e42sdr_sdr m1))"

record e42_ric_control_request =
  e42cr_xapp_id :: u16
  e42cr_id :: global_e2_node_id
  e42cr_ctrl_req :: ric_control_request

definition eq_e42_ric_control_request ::
  "e42_ric_control_request \<Rightarrow> e42_ric_control_request \<Rightarrow> bool" where
  "eq_e42_ric_control_request m0 m1 =
    (if e42cr_xapp_id m0 \<noteq> e42cr_xapp_id m1 then False
     else if \<not> eq_global_e2_node_id (e42cr_id m0) (e42cr_id m1) then False
     else eq_ric_control_request (e42cr_ctrl_req m0) (e42cr_ctrl_req m1))"

section \<open>The message union\<close>

datatype e2_msg_type =
    RIC_SUBSCRIPTION_REQUEST | RIC_SUBSCRIPTION_RESPONSE | RIC_SUBSCRIPTION_FAILURE
  | RIC_SUBSCRIPTION_DELETE_REQUEST | RIC_SUBSCRIPTION_DELETE_RESPONSE
  | RIC_SUBSCRIPTION_DELETE_FAILURE | RIC_INDICATION | RIC_CONTROL_REQUEST
  | RIC_CONTROL_ACKNOWLEDGE | RIC_CONTROL_FAILURE | E2AP_ERROR_INDICATION
  | E2_SETUP_REQUEST | E2_SETUP_RESPONSE | E2_SETUP_FAILURE
  | E2AP_RESET_REQUEST | E2AP_RESET_RESPONSE
  | RIC_SERVICE_UPDATE | RIC_SERVICE_UPDATE_ACKNOWLEDGE | RIC_SERVICE_UPDATE_FAILURE
  | RIC_SERVICE_QUERY
  | E2_NODE_CONFIGURATION_UPDATE | E2_NODE_CONFIGURATION_UPDATE_ACKNOWLEDGE
  | E2_NODE_CONFIGURATION_UPDATE_FAILURE
  | E2_CONNECTION_UPDATE | E2_CONNECTION_UPDATE_ACKNOWLEDGE | E2_CONNECTION_UPDATE_FAILURE
  | E42_SETUP_REQUEST | E42_SETUP_RESPONSE | E42_RIC_SUBSCRIPTION_REQUEST
  | E42_RIC_SUBSCRIPTION_DELETE_REQUEST | E42_RIC_CONTROL_REQUEST
  | NONE_E2_MSG_TYPE

text \<open>The members of the union that some handler reads have a constructor of their own;
  for the others \<open>Other_msg\<close> keeps the type only.\<close>

datatype e2ap_msg =
    Ric_sub_req ric_subscription_request
  | Ric_sub_resp ric_subscription_response
  | Ric_sub_del_req ric_subscription_delete_request
  | Ric_sub_del_resp ric_subscription_delete_response
  | Ric_ind ric_indication
  | Ric_ctrl_req ric_control_request
  | Ric_ctrl_ack ric_control_acknowledge
  | E2_stp_req e2_setup_request
  | E2_stp_resp e2_setup_response
  | E42_stp_req e42_setup_request
  | E42_stp_resp e42_setup_response
  | E42_ric_sub_req e42_ric_subscription_request
  | E42_ric_sub_del_req e42_ric_subscription_delete_request
  | E42_ric_ctrl_req e42_ric_control_request
  | Other_msg e2_msg_type

fun msg_type :: "e2ap_msg \<Rightarrow> e2_msg_type" where
  "msg_type (Ric_sub_req _) = RIC_SUBSCRIPTION_REQUEST"
| "msg_type (Ric_sub_resp _) = RIC_SUBSCRIPTION_RESPONSE"
| "msg_type (Ric_sub_del_req _) = RIC_SUBSCRIPTION_DELETE_REQUEST"
| "msg_type (Ric_sub_del_resp _) = RIC_SUBSCRIPTION_DELETE_RESPONSE"
| "msg_type (Ric_ind _) = RIC_INDICATION"
| "msg_type (Ric_ctrl_req _) = RIC_CONTROL_REQUEST"
| "msg_type (Ric_ctrl_ack _) = RIC_CONTROL_ACKNOWLEDGE"
| "msg_type (E2_stp_req _) = E2_SETUP_REQUEST"
| "msg_type (E2_stp_resp _) = E2_SETUP_RESPONSE"
| "msg_type (E42_stp_req _) = E42_SETUP_REQUEST"
| "msg_type (E42_stp_resp _) = E42_SETUP_RESPONSE"
| "msg_type (E42_ric_sub_req _) = E42_RIC_SUBSCRIPTION_REQUEST"
| "msg_type (E42_ric_sub_del_req _) = E42_RIC_SUBSCRIPTION_DELETE_REQUEST"
| "msg_type (E42_ric_ctrl_req _) = E42_RIC_CONTROL_REQUEST"
| "msg_type (Other_msg t) = t"

abbreviation none_msg :: e2ap_msg where
  "none_msg \<equiv> Other_msg NONE_E2_MSG_TYPE"

section \<open>The equality functions decide equality\<close>

lemma eq_byte_array_iff [simp]: "eq_byte_array a b \<longleftrightarrow> a = b"
  by (cases "(a, b)" rule: eq_byte_array.cases) auto

lemma eq_arr_iff: "(\<And>x y. f x y \<longleftrightarrow> x = y) \<Longrightarrow> eq_arr f xs ys \<longleftrightarrow> xs = ys"
  by (induction f xs ys rule: eq_arr.induct) auto

lemma copy_byte_array_id [simp]: "copy_byte_array b = b"
  by (simp add: copy_byte_array_def)

lemma cp_ran_function_id [simp]: "cp_ran_function f = f"
  by (cases f) (auto simp: cp_ran_function_def split: option.splits)

lemma map_cp_ran_function [simp]: "map cp_ran_function xs = xs"
  by (induction xs) auto

lemma eq_ran_function_iff [simp]: "eq_ran_function a b \<longleftrightarrow> a = b"
  by (cases a; cases b) (auto simp: eq_ran_function_def)

lemma cp_e2_node_connected_id [simp]: "cp_e2_node_connected n = n"
  by (cases n) (simp add: cp_e2_node_connected_def)

lemma eq_ric_subsequent_action_iff:
  "eq_ric_subsequent_action a b = Inr (a = b) \<or>
    (\<exists>m0 m1. a = Some m0 \<and> b = Some m1 \<and> sa_type m0 = sa_type m1 \<and> time_to_wait_ms m0 \<noteq> None \<and>
      time_to_wait_ms m1 = None \<and> eq_ric_subsequent_action a b = Inl NullDeref)"
  by (cases "(a, b)" rule: eq_ric_subsequent_action.cases)
     (auto simp: eq_ric_subsequent_action_obj_def split: option.splits)

lemma eq_ric_action_admitted_iff [simp]: "eq_ric_action_admitted a b \<longleftrightarrow> a = b"
  by (cases a; cases b) (auto simp: eq_ric_action_admitted_def)

lemma eq_ric_action_not_admitted_iff [simp]: "eq_ric_action_not_admitted a b \<longleftrightarrow> a = b"
  by (cases a; cases b) (auto simp: eq_ric_action_not_admitted_def eq_cause_def)

lemma eq_ric_subscritption_response_iff [simp]: "eq_ric_subscritption_response a b \<longleftrightarrow> a = b"
  by (cases a; cases b) (auto simp: eq_ric_subscritption_response_def eq_arr_iff)

lemma eq_ric_control_ack_req_iff [simp]: "eq_ric_control_ack_req a b \<longleftrightarrow> a = b"
  by (cases "(a, b)" rule: eq_ric_control_ack_req.cases) auto

lemma eq_ric_control_request_iff [simp]: "eq_ric_control_request a b \<longleftrightarrow> a = b"
  by (cases a; cases b) (auto simp: eq_ric_control_request_def)

lemma eq_sn_iff [simp]: "eq_sn a b \<longleftrightarrow> a = b"
  by (cases "(a, b)" rule: eq_sn.cases) auto

lemma eq_ric_indication_iff [simp]: "eq_ric_indication a b \<longleftrightarrow> a = b"
  by (cases a; cases b) (auto simp: eq_ric_indication_def)

lemma mv_ric_indication_fst [simp]: "fst (mv_ric_indication i) = i"
  by (cases i) (simp add: mv_ric_indication_def)

lemma mv_ric_subscription_respponse_fst [simp]: "fst (mv_ric_subscription_respponse r) = r"
  by (cases r) (simp add: mv_ric_subscription_respponse_def)

lemma cp_ric_subscription_respponse_id [simp]: "cp_ric_subscription_respponse r = r"
proof -
  have a: "cp_ric_action_admitted x = x" for x
    by (cases x) (simp add: cp_ric_action_admitted_def)
  have b: "cp_ric_action_not_admitted x = x" for x
    by (cases x) (simp add: cp_ric_action_not_admitted_def cp_cause_def)
  show ?thesis by (cases r) (simp add: cp_ric_subscription_respponse_def a b cong: map_cong)
qed

lemma cp_ric_subscription_delete_request_id [simp]: "cp_ric_subscription_delete_request r = r"
  by (cases r) (simp add: cp_ric_subscription_delete_request_def)

end
