(* ===== verification/RegE2Nodes.thy ===== *)
theory RegE2Nodes
  imports RbTree E2apMsg
begin

text \<open>
  The registry of the connected E2 nodes, \<open>src/lib/msg_hand/reg_e2_nodes.c\<close>: a red-black tree
  from node identifiers to the RAN functions of the node.  The iApp keeps one and sends its
  content to every xApp that connects.

  The lock \<open>mtx\<close> makes each function one step.  The equality test that looks a node up and the
  comparator of the tree agree on sets of nodes of one kind only, so the lemmas are proved in
  the locale \<open>node_set\<close> and interpreted on the monolithic nodes and on the CU/DU ones.
\<close>

record reg_e2_nodes =
  node_to_rf :: "(global_e2_node_id, ran_function list) assoc_rb_tree"

definition init_reg_e2_node :: reg_e2_nodes where
  "init_reg_e2_node = \<lparr>node_to_rf = assoc_rb_tree_init cmp_global_e2_node_id_wrapper\<rparr>"

definition add_reg_e2_node ::
  "reg_e2_nodes \<Rightarrow> global_e2_node_id \<Rightarrow> ran_function list \<Rightarrow> reg_e2_nodes res" where
  "add_reg_e2_node i id0 ran_func =
    res_bind (c_assert (0 < length ran_func)) (\<lambda>_.
    let arr = map cp_ran_function ran_func in
    res_bind
      (if assoc_rb_tree_size (node_to_rf i) > 0
       then res_bind (rb_find_value (eq_global_e2_node_id id0) (node_to_rf i)) (\<lambda>r. c_assert (r = None))
       else Inr ()) (\<lambda>_.
    res_bind (assoc_rb_tree_insert (node_to_rf i) id0 arr) (\<lambda>t.
    Inr (i\<lparr>node_to_rf := t\<rparr>))))"

definition sz_reg_e2_node :: "reg_e2_nodes \<Rightarrow> nat" where
  "sz_reg_e2_node n = assoc_rb_tree_size (node_to_rf n)"

definition cp_reg_e2_node ::
  "reg_e2_nodes \<Rightarrow> (global_e2_node_id, ran_function list) assoc_rb_tree res" where
  "cp_reg_e2_node n =
    res_bind (rb_foreach (\<lambda>k arr ans. assoc_rb_tree_insert ans (cp_global_e2_node_id k) (map cp_ran_function arr))
      (assoc_rb_tree_front (node_to_rf n)) (assoc_rb_tree_init cmp_global_e2_node_id_wrapper)) (\<lambda>ans.
    res_bind (c_assert (assoc_rb_tree_size ans = assoc_rb_tree_size (node_to_rf n))) (\<lambda>_.
    Inr ans))"

text \<open>\<open>e2_node_arr_t\<close> counts its elements in a \<open>uint8_t\<close>.  The array \<open>n\<close> is allocated with that
  many elements, and not at all when the count wraps to 0; the loop writes one element per
  entry of the tree.\<close>

record e2_node_arr =
  arr_len :: u8
  arr_n :: "e2_node_connected list"

definition generate_e2_node_arr :: "reg_e2_nodes \<Rightarrow> e2_node_arr res" where
  "generate_e2_node_arr n =
    res_bind (cp_reg_e2_node n) (\<lambda>t.
    let len = (word_of_nat (assoc_rb_tree_size t) :: u8) in
    res_bind (rb_foreach (\<lambda>k arr ans.
        if len = 0 then Inl NullDeref
        else if length ans \<ge> unat len then Inl OutOfBounds
        else Inr (ans @ [\<lparr>nc_id = cp_global_e2_node_id k, ack_rf = map cp_ran_function arr\<rparr>]))
      (assoc_rb_tree_front t) []) (\<lambda>ns.
    Inr \<lparr>arr_len = len, arr_n = ns\<rparr>))"

definition rm_reg_e2_node :: "reg_e2_nodes \<Rightarrow> global_e2_node_id \<Rightarrow> reg_e2_nodes res" where
  "rm_reg_e2_node n id0 =
    res_bind (rb_find_value (eq_global_e2_node_id id0) (node_to_rf n)) (\<lambda>r.
    res_bind (c_assert (r \<noteq> None)) (\<lambda>_.
    res_bind (assoc_rb_tree_extract (node_to_rf n) id0) (\<lambda>(arr, t).
    Inr (n\<lparr>node_to_rf := t\<rparr>))))"

section \<open>Invariant and content\<close>

definition e2reg_entries :: "reg_e2_nodes \<Rightarrow> (global_e2_node_id \<times> ran_function list) list" where
  "e2reg_entries r = rb_entries (node_to_rf r)"

definition e2reg_inv :: "global_e2_node_id set \<Rightarrow> reg_e2_nodes \<Rightarrow> bool" where
  "e2reg_inv D r \<longleftrightarrow> rb_inv cmp_global_e2_node_id_wrapper D (node_to_rf r) \<and>
    uniq_entries cmp_global_e2_node_id_wrapper (e2reg_entries r)"

definition e2reg_get :: "reg_e2_nodes \<Rightarrow> global_e2_node_id \<Rightarrow> ran_function list option" where
  "e2reg_get r k = first_value (eq_global_e2_node_id k) (e2reg_entries r)"

lemma e2reg_inv_init: "e2reg_inv D init_reg_e2_node"
  by (simp add: e2reg_inv_def init_reg_e2_node_def rb_inv_init e2reg_entries_def uniq_entries_def)
     (simp add: rb_entries_def assoc_rb_tree_init_def)

lemma rb_size_entries: "rb_inv c D t \<Longrightarrow> assoc_rb_tree_size t = length (rb_entries t)"
  by (simp add: assoc_rb_tree_size_def rb_inv_def)

locale node_set = comparator cmp_global_e2_node_id_wrapper D for D +
  assumes eq_node: "a \<in> D \<Longrightarrow> b \<in> D \<Longrightarrow>
    eq_global_e2_node_id a b \<longleftrightarrow> cmp_global_e2_node_id_wrapper a b = 0"
begin

abbreviation "node_cmp \<equiv> cmp_global_e2_node_id_wrapper"

lemma reg_get_key:
  "e2reg_inv D r \<Longrightarrow> k \<in> D \<Longrightarrow> e2reg_get r k = get_key node_cmp k (e2reg_entries r)"
  unfolding e2reg_get_def
  by (rule first_value_get_key)
     (auto simp: eq_node e2reg_inv_def e2reg_entries_def rb_inv_def dest: keys_inD)

lemma add_reg_ok:
  assumes "e2reg_inv D r" "k \<in> D" "rfs \<noteq> []" "e2reg_get r k = None"
  obtains r' where "add_reg_e2_node r k rfs = Inr r'" "e2reg_inv D r'"
    "e2reg_entries r' = ins_entry node_cmp k rfs (e2reg_entries r)"
    "\<And>q. q \<in> D \<Longrightarrow> e2reg_get r' q = (if eq_global_e2_node_id q k then Some rfs else e2reg_get r q)"
proof -
  have i: "rb_inv node_cmp D (node_to_rf r)" "uniq_entries node_cmp (e2reg_entries r)"
    using assms by (auto simp: e2reg_inv_def)
  obtain t where t: "assoc_rb_tree_insert (node_to_rf r) k rfs = Inr t" "rb_inv node_cmp D t"
    "rb_entries t = ins_entry node_cmp k rfs (rb_entries (node_to_rf r))"
    using rb_insert_ok [OF i(1) assms(2)] by blast
  have f: "fresh_key node_cmp k (e2reg_entries r)" "keys_in D (e2reg_entries r)"
    using assms i reg_get_key [OF assms(1,2)] by (auto simp: get_key_None_iff rb_inv_def e2reg_entries_def)
  let ?r = "r\<lparr>node_to_rf := t\<rparr>"
  have inv: "e2reg_inv D ?r"
    using t i f assms(2) by (auto simp: e2reg_inv_def e2reg_entries_def uniq_ins_entry)
  have "add_reg_e2_node r k rfs = Inr ?r"
    using t assms by (simp add: add_reg_e2_node_def rb_find_value_eq e2reg_get_def e2reg_entries_def)
  moreover have "e2reg_entries ?r = ins_entry node_cmp k rfs (e2reg_entries r)"
    using t by (simp add: e2reg_entries_def)
  moreover have "e2reg_get ?r q = (if eq_global_e2_node_id q k then Some rfs else e2reg_get r q)"
    if "q \<in> D" for q
    using reg_get_key [OF inv that] reg_get_key [OF assms(1) that] get_ins_entry [OF f assms(2) that]
    by (simp add: calculation(2) eq_node that assms(2))
  ultimately show ?thesis using inv that by blast
qed

lemma add_reg_dup:
  assumes "e2reg_inv D r" "k \<in> D" "e2reg_get r k \<noteq> None"
  shows "add_reg_e2_node r k rfs = Inl AssertFail"
proof -
  have "e2reg_entries r \<noteq> []" using assms(3) by (auto simp: e2reg_get_def)
  then have "0 < assoc_rb_tree_size (node_to_rf r)"
    using assms(1) by (auto simp: rb_size_entries e2reg_inv_def e2reg_entries_def)
  then show ?thesis
    using assms(3)
    by (cases "rfs = []") (auto simp: add_reg_e2_node_def rb_find_value_eq e2reg_get_def e2reg_entries_def)
qed

lemma rm_reg_ok:
  assumes "e2reg_inv D r" "k \<in> D" "e2reg_get r k \<noteq> None"
  obtains r' where "rm_reg_e2_node r k = Inr r'" "e2reg_inv D r'"
    "e2reg_entries r' = del_key node_cmp k (e2reg_entries r)"
    "\<And>q. q \<in> D \<Longrightarrow> e2reg_get r' q = (if eq_global_e2_node_id q k then None else e2reg_get r q)"
proof -
  have i: "rb_inv node_cmp D (node_to_rf r)" "uniq_entries node_cmp (rb_entries (node_to_rf r))"
    using assms by (auto simp: e2reg_inv_def e2reg_entries_def)
  obtain v where v: "get_key node_cmp k (rb_entries (node_to_rf r)) = Some v"
    using assms(3) reg_get_key [OF assms(1,2)] by (auto simp: e2reg_entries_def)
  obtain t where t: "assoc_rb_tree_extract (node_to_rf r) k = Inr (v, t)" "rb_inv node_cmp D t"
    "rb_entries t = del_key node_cmp k (rb_entries (node_to_rf r))"
    using rb.ext_uniq [OF i(1) assms(2) i(2) v] by blast
  let ?r = "r\<lparr>node_to_rf := t\<rparr>"
  have inv: "e2reg_inv D ?r"
    using t i by (simp add: e2reg_inv_def e2reg_entries_def uniq_del_key)
  have "rm_reg_e2_node r k = Inr ?r"
    using t assms by (simp add: rm_reg_e2_node_def rb_find_value_eq e2reg_get_def e2reg_entries_def)
  moreover have e: "e2reg_entries ?r = del_key node_cmp k (e2reg_entries r)"
    using t by (simp add: e2reg_entries_def)
  moreover have "e2reg_get ?r q = (if eq_global_e2_node_id q k then None else e2reg_get r q)"
    if "q \<in> D" for q
    using reg_get_key [OF inv that] reg_get_key [OF assms(1) that]
      get_del_key [of "e2reg_entries r" k q] that assms(1,2)
    by (simp add: e eq_node) (simp add: e2reg_inv_def rb_inv_def e2reg_entries_def)
  ultimately show ?thesis using inv that by blast
qed

lemma rm_reg_absent:
  "e2reg_get r k = None \<Longrightarrow> rm_reg_e2_node r k = Inl AssertFail"
  by (simp add: rm_reg_e2_node_def rb_find_value_eq e2reg_get_def e2reg_entries_def)

text \<open>Copying inserts the entries in their order, so every one goes to the end.\<close>

lemma ins_entry_last:
  "(\<And>e. e \<in> set xs \<Longrightarrow> c k (fst e) \<noteq> 1) \<Longrightarrow> ins_entry c k v xs = xs @ [(k, v)]"
  by (induction xs) auto

lemma copy_entries:
  assumes "rb_inv node_cmp D t" "sorted_entries node_cmp (rb_entries t @ es)"
    "keys_in D (rb_entries t @ es)"
  shows "\<exists>t'. fold_res (\<lambda>(k, arr) a. assoc_rb_tree_insert a k arr) es t = Inr t' \<and>
    rb_inv node_cmp D t' \<and> rb_entries t' = rb_entries t @ es"
  using assms
proof (induction es arbitrary: t)
  case (Cons e es)
  obtain k v where e: "e = (k, v)" by (cases e)
  with Cons.prems have k: "k \<in> D" by simp
  obtain t1 where t1: "assoc_rb_tree_insert t k v = Inr t1" "rb_inv node_cmp D t1"
    "rb_entries t1 = ins_entry node_cmp k v (rb_entries t)"
    using rb_insert_ok [OF Cons.prems(1) k] by blast
  have "rb_entries t1 = rb_entries t @ [(k, v)]"
    unfolding t1(3) using Cons.prems(2)
    by (intro ins_entry_last) (auto simp: e sorted_entries_def sorted_wrt_append)
  then show ?case using Cons.IH [of t1] Cons.prems(2,3) t1(1,2) by (simp add: e)
qed auto

lemma cp_reg_ok:
  assumes "e2reg_inv D r"
  obtains t where "cp_reg_e2_node r = Inr t" "rb_inv node_cmp D t" "rb_entries t = e2reg_entries r"
proof -
  have i: "rb_inv node_cmp D (node_to_rf r)" using assms by (simp add: e2reg_inv_def)
  have n: "rb_entries (assoc_rb_tree_init node_cmp :: (_, ran_function list) assoc_rb_tree) = []"
    by (simp add: rb_entries_def assoc_rb_tree_init_def)
  obtain t where t: "fold_res (\<lambda>(k, arr) a. assoc_rb_tree_insert a k arr) (e2reg_entries r)
      (assoc_rb_tree_init node_cmp) = Inr t" "rb_inv node_cmp D t" "rb_entries t = e2reg_entries r"
    using copy_entries [OF rb_inv_init, of "e2reg_entries r"] rb.inv_sorted [OF i] rb.inv_keys [OF i]
    by (auto simp: n e2reg_entries_def)
  then have "cp_reg_e2_node r = Inr t"
    using rb_size_entries [OF i] rb_size_entries [OF t(2)]
    by (simp add: cp_reg_e2_node_def rb_foreach_eq it_entries_front e2reg_entries_def)
  with t that show ?thesis by blast
qed

lemma generate_loop:
  assumes "n < 256" "length es + length acc \<le> n"
  shows "fold_res (\<lambda>(k, arr) ans.
        if (word_of_nat n :: u8) = 0 then Inl NullDeref
        else if length ans \<ge> unat (word_of_nat n :: u8) then Inl OutOfBounds
        else Inr (ans @ [\<lparr>nc_id = cp_global_e2_node_id k, ack_rf = map cp_ran_function arr\<rparr>])) es acc =
    Inr (acc @ map (\<lambda>(k, arr). \<lparr>nc_id = k, ack_rf = arr\<rparr>) es)"
  using assms(2)
proof (induction es arbitrary: acc)
  case (Cons e es)
  obtain k v where e: "e = (k, v)" by (cases e)
  have u: "unat (word_of_nat n :: u8) = n" using assms(1) by (simp add: unat_of_nat)
  then have "(word_of_nat n :: u8) \<noteq> 0" using Cons.prems by (auto simp: e dest!: unat_eq_zero [THEN iffD2])
  then show ?case using Cons.IH [of "acc @ [\<lparr>nc_id = k, ack_rf = v\<rparr>]"] Cons.prems u by (simp add: e)
qed simp

lemma generate_ok:
  assumes "e2reg_inv D r" "length (e2reg_entries r) < 256"
  shows "generate_e2_node_arr r = Inr \<lparr>arr_len = word_of_nat (length (e2reg_entries r)),
    arr_n = map (\<lambda>(k, arr). \<lparr>nc_id = k, ack_rf = arr\<rparr>) (e2reg_entries r)\<rparr>"
proof -
  obtain t where t: "cp_reg_e2_node r = Inr t" "rb_inv node_cmp D t" "rb_entries t = e2reg_entries r"
    using cp_reg_ok [OF assms(1)] by blast
  then show ?thesis
    using generate_loop [OF assms(2), of "e2reg_entries r" "[]"]
    by (simp add: generate_e2_node_arr_def rb_foreach_eq it_entries_front rb_size_entries [OF t(2)])
qed

lemma unat_lt_256: "unat (w :: u8) < 256"
proof -
  have "unat w < 2 ^ LENGTH(8)" by (rule unsigned_less)
  then show ?thesis by simp
qed

text \<open>From 256 nodes on the function writes out of the array, or through a null pointer.\<close>

lemma generate_loop_overflow:
  assumes "unat len < length es + length acc" "length acc \<le> unat (len :: u8)"
  shows "fold_res (\<lambda>(k, arr) ans.
        if len = 0 then Inl NullDeref
        else if length ans \<ge> unat len then Inl OutOfBounds
        else Inr (ans @ [g k arr])) es acc = Inl (if len = 0 then NullDeref else OutOfBounds)"
  using assms
proof (induction es arbitrary: acc)
  case (Cons e es)
  then show ?case
    by (cases e; cases "length acc = unat len") (auto simp: unat_eq_zero)
qed simp

lemma generate_overflow:
  assumes "e2reg_inv D r" "length (e2reg_entries r) \<ge> 256"
  shows "\<exists>e. generate_e2_node_arr r = Inl e"
proof -
  obtain t where t: "cp_reg_e2_node r = Inr t" "rb_inv node_cmp D t" "rb_entries t = e2reg_entries r"
    using cp_reg_ok [OF assms(1)] by blast
  have "unat (word_of_nat (length (e2reg_entries r)) :: u8) < length (e2reg_entries r)"
    using assms(2) unat_lt_256 [of "word_of_nat (length (e2reg_entries r))"] by linarith
  then show ?thesis
    using t by (simp add: generate_e2_node_arr_def rb_foreach_eq it_entries_front
        rb_size_entries [OF t(2)] generate_loop_overflow)
qed

end

section \<open>The two kinds of nodes\<close>

interpretation mono_nodes: node_set monolithic_dom
  by unfold_locales
     (auto simp: monolithic_dom_def cmp_global_e2_node_id_wrapper_def cmp_global_e2_node_id_def
       eq_global_e2_node_id_def)

lemma split_eq_node:
  assumes "a \<in> split_dom" "b \<in> split_dom"
  shows "eq_global_e2_node_id a b \<longleftrightarrow> cmp_global_e2_node_id_wrapper a b = 0"
proof -
  obtain i j where ij: "cu_du_id a = Some i" "cu_du_id b = Some j"
    using assms by (auto simp: split_dom_def)
  have k: "node_is_cu (ntype a) \<or> node_is_du (ntype a)" "node_is_cu (ntype b) \<or> node_is_du (ntype b)"
    using assms by (auto simp: split_dom_def)
  then have m: "\<not> node_is_monolithic (ntype a)" "\<not> node_is_monolithic (ntype b)"
    using node_kinds_disjoint by blast+
  show ?thesis
    using k m ij
    by (simp add: cmp_global_e2_node_id_wrapper_def cmp_global_e2_node_id_def eq_global_e2_node_id_def)
qed

interpretation split_nodes: node_set split_dom
  by unfold_locales (rule split_eq_node)

end
