(* ===== verification/SeqRing.thy ===== *)
theory SeqRing
  imports FlexPrelude
begin

text \<open>
  The ring buffer of \<open>src/util/alg_ds/ds/seq_container/seq_ring.c\<close>: an array whose capacity is a
  power of two (a \<open>size_t\<close>) and two counters that only grow, modulo \<open>2 ^ 32\<close>, of which the low bits
  are positions.  A cell is \<open>None\<close> when its bytes are zeroed.  An iterator is the position that its
  pointer has in the array.
\<close>

section \<open>Operations\<close>

record 'v seq_ring =
  cells :: "'v option list"
  r_head :: u32
  r_tail :: u32
  r_cap :: u64

definition mask_ring :: "u64 \<Rightarrow> u32 \<Rightarrow> u32" where
  "mask_ring cap val = and val (ucast cap - 1)"

definition seq_ring_size :: "'v seq_ring \<Rightarrow> u64" where
  "seq_ring_size r = ucast (r_head r - r_tail r)"

definition full_ring :: "'v seq_ring \<Rightarrow> bool" where
  "full_ring r \<longleftrightarrow> seq_ring_size r = r_cap r - 1"

text \<open>A copy between the arrays; a read or write past an end is \<open>OutOfBounds\<close>.\<close>

definition copy_cells :: "'v option list \<Rightarrow> nat \<Rightarrow> 'v option list \<Rightarrow> nat \<Rightarrow> nat \<Rightarrow> 'v option list res" where
  "copy_cells dst d src s n =
    (if length dst < d + n \<or> length src < s + n then Inl OutOfBounds
     else Inr (take d dst @ take n (drop s src) @ drop (d + n) dst))"

definition enlarge_buffer_ring :: "'v seq_ring \<Rightarrow> 'v seq_ring res" where
  "enlarge_buffer_ring r =
    res_bind (c_assert (full_ring r)) (\<lambda>_.
    let tmp = replicate (unat (r_cap r * 2)) None;
        head_pos = mask_ring (r_cap r) (r_head r);
        tail_pos = mask_ring (r_cap r) (r_tail r);
        cap = r_cap r * 2
    in res_bind
      (if tail_pos < head_pos then copy_cells tmp 0 (cells r) (unat tail_pos) (unat (head_pos - tail_pos))
       else res_bind (copy_cells tmp 0 (cells r) (unat tail_pos) (unat (r_cap r - ucast tail_pos))) (\<lambda>tmp1.
         copy_cells tmp1 (unat (r_cap r - ucast tail_pos)) (cells r) 0 (unat head_pos))) (\<lambda>tmp2.
      Inr \<lparr>cells = tmp2, r_head = ucast (cap div 2 - 1), r_tail = 0, r_cap = cap\<rparr>))"

definition seq_ring_init :: "'v seq_ring" where
  "seq_ring_init = \<lparr>cells = replicate 32 None, r_head = 0, r_tail = 0, r_cap = 32\<rparr>"

definition write_cell :: "'v option list \<Rightarrow> nat \<Rightarrow> 'v \<Rightarrow> 'v option list res" where
  "write_cell xs i v = (if i < length xs then Inr (xs[i := Some v]) else Inl OutOfBounds)"

definition seq_ring_push_back :: "'v seq_ring \<Rightarrow> 'v \<Rightarrow> 'v seq_ring res" where
  "seq_ring_push_back r v =
    res_bind (if full_ring r then enlarge_buffer_ring r else Inr r) (\<lambda>r1.
    let pos = mask_ring (r_cap r1) (r_head r1) in
    res_bind (write_cell (cells r1) (unat pos) v) (\<lambda>xs.
    Inr (r1\<lparr>cells := xs, r_head := r_head r1 + 1\<rparr>)))"

definition seq_ring_front :: "'v seq_ring \<Rightarrow> u32" where
  "seq_ring_front r = mask_ring (r_cap r) (r_tail r)"

definition seq_ring_end :: "'v seq_ring \<Rightarrow> u32" where
  "seq_ring_end r = mask_ring (r_cap r) (r_head r)"

definition seq_ring_next :: "'v seq_ring \<Rightarrow> u32 \<Rightarrow> u32" where
  "seq_ring_next r it = (if ucast (it + 1) = r_cap r then 0 else it + 1)"

definition seq_ring_at :: "'v seq_ring \<Rightarrow> u32 \<Rightarrow> u32" where
  "seq_ring_at r pos = mask_ring (r_cap r) (r_tail r + pos)"

definition seq_ring_dist :: "'v seq_ring \<Rightarrow> u32 \<Rightarrow> u32 \<Rightarrow> u32" where
  "seq_ring_dist r it0 it1 = (if it0 < it1 then it1 - it0 else ucast (r_cap r - ucast it0 + ucast it1))"

text \<open>\<open>memset\<close> to zero.\<close>

definition zero_cells :: "'v option list \<Rightarrow> nat \<Rightarrow> nat \<Rightarrow> 'v option list res" where
  "zero_cells xs s n =
    (if length xs < s + n then Inl OutOfBounds else Inr (take s xs @ replicate n None @ drop (s + n) xs))"

definition seq_ring_erase :: "'v seq_ring \<Rightarrow> u32 \<Rightarrow> u32 \<Rightarrow> 'v seq_ring res" where
  "seq_ring_erase r it_start it_end =
    res_bind (c_assert (it_start = mask_ring (r_cap r) (r_tail r))) (\<lambda>_.
    if it_start = it_end then Inr r
    else
      res_bind (c_assert (ucast it_end \<le> r_cap r)) (\<lambda>_.
      res_bind
        (if it_start < it_end then
           res_bind (zero_cells (cells r) (unat it_start) (unat (it_end - it_start))) (\<lambda>xs.
           Inr (r\<lparr>cells := xs, r_tail := r_tail r + (it_end - it_start)\<rparr>))
         else
           res_bind (zero_cells (cells r) (unat it_start) (unat (r_cap r - ucast it_start))) (\<lambda>xs.
           res_bind (zero_cells xs 0 (unat it_end)) (\<lambda>ys.
           Inr (r\<lparr>cells := ys, r_tail := r_tail r + ucast (r_cap r - ucast it_start + ucast it_end)\<rparr>)))) (\<lambda>r1.
      res_bind (c_assert (mask_ring (r_cap r1) (r_tail r1) = it_end)) (\<lambda>_. Inr r1))))"

text \<open>The value under an iterator; a zeroed cell or one past the array is not a value.\<close>

definition ring_value :: "'v seq_ring \<Rightarrow> u32 \<Rightarrow> 'v res" where
  "ring_value r it =
    (if unat it < length (cells r) then
       (case cells r ! unat it of None \<Rightarrow> Inl OutOfBounds | Some v \<Rightarrow> Inr v)
     else Inl OutOfBounds)"

text \<open>\<open>seq_ring_free\<close> calls its function on every element; the iterations are at most the
  capacity, which is the fuel.\<close>

fun ring_values :: "nat \<Rightarrow> 'v seq_ring \<Rightarrow> u32 \<Rightarrow> 'v list res" where
  "ring_values fuel r it =
    (if it = seq_ring_end r then Inr []
     else case fuel of
       0 \<Rightarrow> Inl OutOfBounds
     | Suc n \<Rightarrow> res_bind (ring_value r it) (\<lambda>v.
         res_bind (ring_values n r (seq_ring_next r it)) (\<lambda>vs. Inr (v # vs))))"

definition seq_ring_free :: "'v seq_ring \<Rightarrow> 'v list res" where
  "seq_ring_free r = ring_values (unat (r_cap r)) r (seq_ring_front r)"

declare ring_values.simps [simp del]

section \<open>Windows of an array\<close>

text \<open>The \<open>n\<close> cells from position \<open>t\<close> on, around the end of the array.\<close>

definition ring_seq :: "'a list \<Rightarrow> nat \<Rightarrow> nat \<Rightarrow> 'a list" where
  "ring_seq xs t n = map (\<lambda>i. xs ! ((t + i) mod length xs)) [0..<n]"

lemma length_ring_seq [simp]: "length (ring_seq xs t n) = n"
  by (simp add: ring_seq_def)

lemma nth_ring_seq: "i < n \<Longrightarrow> ring_seq xs t n ! i = xs ! ((t + i) mod length xs)"
  by (simp add: ring_seq_def)

lemma ring_seq_mod: "ring_seq xs (t mod length xs) n = ring_seq xs t n"
  by (simp add: ring_seq_def mod_add_left_eq)

lemma ring_seq_0: "n \<le> length xs \<Longrightarrow> ring_seq xs 0 n = take n xs"
  by (rule nth_equalityI) (auto simp: nth_ring_seq)

lemma mod_window:
  fixes t :: nat
  assumes "t < c" "i < c"
  shows "(t + i) mod c = (if t + i < c then t + i else t + i - c)"
proof (cases "t + i < c")
  case False
  then have "(t + i - c) mod c = t + i - c" using assms by simp
  then show ?thesis using False by (simp add: mod_if)
qed simp

lemma ring_seq_flat:
  "t + n \<le> length xs \<Longrightarrow> t < length xs \<Longrightarrow> n \<le> length xs \<Longrightarrow> ring_seq xs t n = take n (drop t xs)"
  by (rule nth_equalityI) (auto simp: nth_ring_seq)

lemma ring_seq_round:
  "length xs \<le> t + n \<Longrightarrow> t < length xs \<Longrightarrow> n \<le> length xs \<Longrightarrow>
    ring_seq xs t n = drop t xs @ take (t + n - length xs) xs"
  by (rule nth_equalityI) (auto simp: nth_ring_seq nth_append mod_window add.commute)

lemma mod_distinct:
  fixes t :: nat
  assumes "i < n" "n < c"
  shows "(t + i) mod c \<noteq> (t + n) mod c"
proof
  assume "(t + i) mod c = (t + n) mod c"
  then have "c dvd (t + n) - (t + i)" using mod_eq_dvd_iff_nat [of "t + i" "t + n" c] assms(1) by simp
  then show False using assms by (auto dest: dvd_imp_le)
qed

lemma ring_seq_write:
  assumes "n < length xs"
  shows "ring_seq (xs[(t + n) mod length xs := x]) t (Suc n) = ring_seq xs t n @ [x]"
proof (rule nth_equalityI)
  fix i assume "i < length (ring_seq (xs[(t + n) mod length xs := x]) t (Suc n))"
  then have i: "i < n \<or> i = n" by auto
  moreover have "xs \<noteq> []" using assms by auto
  ultimately show "ring_seq (xs[(t + n) mod length xs := x]) t (Suc n) ! i = (ring_seq xs t n @ [x]) ! i"
    using mod_distinct [of i n "length xs" t] assms
    by (auto simp: nth_ring_seq nth_append simp del: mod_less)
qed simp

text \<open>Cells outside of the window do not matter.\<close>

lemma ring_seq_cong:
  "length ys = length xs \<Longrightarrow> (\<And>i. i < n \<Longrightarrow> ys ! ((t + i) mod length xs) = xs ! ((t + i) mod length xs)) \<Longrightarrow>
    ring_seq ys t n = ring_seq xs t n"
  by (simp add: ring_seq_def)

lemma ring_seq_drop: "m \<le> n \<Longrightarrow> ring_seq xs (t + m) (n - m) = drop m (ring_seq xs t n)"
  by (rule nth_equalityI) (auto simp: nth_ring_seq add.assoc)

section \<open>Positions\<close>

lemma unat_pow2:
  assumes "k < 32"
  shows "unat (2 ^ k :: u32) = 2 ^ k"
proof -
  have "(2::nat) ^ k < 2 ^ 32" using assms by (intro power_strict_increasing) simp_all
  then have "unat (of_nat (2 ^ k) :: u32) = 2 ^ k" by (subst unat_of_nat) (simp add: take_bit_eq_mod)
  then show ?thesis by simp
qed

lemma unat_pow2_64:
  assumes "k < 32"
  shows "unat (2 ^ k :: u64) = 2 ^ k"
proof -
  have "(2::nat) ^ k < 2 ^ 64" using assms by (intro power_strict_increasing) simp_all
  then have "unat (of_nat (2 ^ k) :: u64) = 2 ^ k" by (subst unat_of_nat) (simp add: take_bit_eq_mod)
  then show ?thesis by simp
qed

lemma ucast_pow2: "(ucast (2 ^ k :: u64) :: u32) = 2 ^ k"
  by (rule bit_word_eqI) (auto simp: bit_ucast_iff bit_exp_iff)

lemma unat_down: "unat w < 2 ^ 32 \<Longrightarrow> unat (ucast (w :: u64) :: u32) = unat w"
  by (simp add: unsigned_ucast_eq take_bit_nat_eq_self)

lemma unat_mask_ring: "k < 32 \<Longrightarrow> unat (mask_ring (2 ^ k) v) = unat v mod 2 ^ k"
  by (simp only: mask_ring_def ucast_pow2 mask_eq_exp_minus_1 [symmetric] take_bit_eq_mask [symmetric]
      unsigned_take_bit_eq) (simp add: take_bit_eq_mod)

lemma pow2_dvd: "k < 32 \<Longrightarrow> (2::nat) ^ k dvd 4294967296"
  using le_imp_power_dvd [of k 32 "2::nat"] by simp

lemma unat_add_mod: "k < 32 \<Longrightarrow> unat (a + b :: u32) mod 2 ^ k = (unat a + unat b) mod 2 ^ k"
  by (simp add: unat_word_ariths mod_mod_cancel pow2_dvd)

lemma unat_of_nat_mod: "k < 32 \<Longrightarrow> unat (of_nat n :: u32) mod 2 ^ k = n mod 2 ^ k"
  by (simp add: unat_of_nat mod_mod_cancel pow2_dvd)

lemma mask_ring_pos: "k < 32 \<Longrightarrow> unat (mask_ring (2 ^ k) (v + of_nat n)) = (unat v + n) mod 2 ^ k"
  by (simp add: unat_mask_ring unat_add_mod) (metis mod_add_right_eq unat_of_nat_mod)

section \<open>The queue that a ring represents\<close>

definition ring_at :: "nat \<Rightarrow> 'v seq_ring \<Rightarrow> 'v list \<Rightarrow> bool" where
  "ring_at k r q \<longleftrightarrow> 5 \<le> k \<and> k < 32 \<and> r_cap r = 2 ^ k \<and> length (cells r) = 2 ^ k \<and> length q < 2 ^ k \<and>
    r_head r = r_tail r + of_nat (length q) \<and> ring_seq (cells r) (unat (r_tail r)) (length q) = map Some q"

definition ring_rep :: "'v seq_ring \<Rightarrow> 'v list \<Rightarrow> bool" where
  "ring_rep r q \<longleftrightarrow> (\<exists>k. ring_at k r q)"

lemma word_eqI_nat: "unat (a :: u32) = unat b \<Longrightarrow> a = b"
  by (rule unsigned_word_eqI)

lemma small_len: "k < 32 \<Longrightarrow> n < (2::nat) ^ k \<Longrightarrow> n < 4294967296"
  using power_strict_increasing [of k 32 "2::nat"] by simp

lemma unat_len: "k < 32 \<Longrightarrow> n < 2 ^ k \<Longrightarrow> unat (of_nat n :: u32) = n"
  using small_len [of k n] by (simp add: unat_of_nat take_bit_eq_mod)

lemma ring_at_size: "ring_at k r q \<Longrightarrow> unat (seq_ring_size r) = length q"
  using unat_len [of k "length q"] by (simp add: ring_at_def seq_ring_size_def unat_ucast_32_64)

lemma ring_rep_size: "ring_rep r q \<Longrightarrow> unat (seq_ring_size r) = length q"
  by (auto simp: ring_rep_def ring_at_size)

lemma ring_init: "ring_rep seq_ring_init []"
  unfolding ring_rep_def by (rule exI [of _ 5]) (simp add: ring_at_def seq_ring_init_def ring_seq_def)

lemma full_iff:
  assumes "ring_at k r q"
  shows "full_ring r \<longleftrightarrow> length q = 2 ^ k - 1"
proof -
  have k: "k < 32" "length q < 2 ^ k" and c: "r_cap r = 2 ^ k" using assms by (simp_all add: ring_at_def)
  have "(1 :: u64) \<le> 2 ^ k" by (simp add: word_le_nat_alt unat_pow2_64 [OF k(1)])
  then have m: "unat (r_cap r - 1) = 2 ^ k - 1" by (simp add: c unat_sub unat_pow2_64 [OF k(1)])
  have "full_ring r \<longleftrightarrow> unat (seq_ring_size r) = unat (r_cap r - 1)"
    unfolding full_ring_def by (auto intro: unsigned_word_eqI)
  then show ?thesis using m ring_at_size [OF assms] by simp
qed

lemma copy_cells_ok:
  "d + n \<le> length dst \<Longrightarrow> s + n \<le> length src \<Longrightarrow>
    copy_cells dst d src s n = Inr (take d dst @ take n (drop s src) @ drop (d + n) dst)"
  by (simp add: copy_cells_def)

lemma enlarge_ok:
  assumes "ring_at k r q" "full_ring r" "k < 31"
  obtains r' where "enlarge_buffer_ring r = Inr r'" "ring_at (Suc k) r' q"
proof -
  let ?c = "2 ^ k :: nat" and ?n = "length q"
  have r: "r_cap r = 2 ^ k" "length (cells r) = ?c" "5 \<le> k"
    "r_head r = r_tail r + of_nat ?n" "ring_seq (cells r) (unat (r_tail r)) ?n = map Some q"
    using assms(1) by (simp_all add: ring_at_def)
  have k: "k < 32" "Suc k < 32" using assms(3) by simp_all
  have n: "?n = ?c - 1" "0 < ?c" "?n < ?c" using assms full_iff [OF assms(1)] by simp_all
  let ?hp = "mask_ring (r_cap r) (r_head r)" and ?tp = "mask_ring (r_cap r) (r_tail r)"
  define t where "t = unat ?tp"
  have t: "t = unat (r_tail r) mod ?c" "t < ?c" by (simp_all add: t_def r(1) unat_mask_ring k)
  have h: "unat ?hp = (t + ?n) mod ?c"
    by (simp add: r(1,4) mask_ring_pos k t(1) mod_add_left_eq)
  have w: "ring_seq (cells r) t ?n = map Some q"
    using r(5) ring_seq_mod [of "cells r" "unat (r_tail r)"] by (simp add: t(1) r(2))
  have cap: "unat (r_cap r * 2) = 2 * ?c" using unat_pow2_64 [OF k(2)] by (simp add: r(1) mult.commute)
  let ?tmp = "replicate (2 * ?c) None :: 'a option list"
  have c2: "ucast (r_cap r * 2 div 2 - 1) = (of_nat ?n :: u32)"
  proof -
    have "unat (r_cap r * 2 div 2) = ?c" by (simp add: unat_div cap)
    then have "unat (r_cap r * 2 div 2 - 1) = ?n" using n by (simp add: unat_sub word_le_nat_alt)
    then have "unat (ucast (r_cap r * 2 div 2 - 1) :: u32) = unat (of_nat ?n :: u32)"
      using n(3) small_len [OF k(1) n(3)] unat_len [OF k(1) n(3)] by (simp add: unat_down)
    then show ?thesis by (rule unsigned_word_eqI)
  qed
  obtain tmp where tmp: "(if ?tp < ?hp then copy_cells ?tmp 0 (cells r) (unat ?tp) (unat (?hp - ?tp))
       else res_bind (copy_cells ?tmp 0 (cells r) (unat ?tp) (unat (r_cap r - ucast ?tp))) (\<lambda>tmp1.
         copy_cells tmp1 (unat (r_cap r - ucast ?tp)) (cells r) 0 (unat ?hp))) = Inr tmp"
    "length tmp = 2 * ?c" "take ?n tmp = map Some q"
  proof (cases "t = 0")
    case True
    then have "unat ?hp = ?n" "?tp = 0" using h n(3) t_def by (simp_all add: unat_eq_zero)
    moreover have "0 < ?n" using n(1) r(3) power_increasing [of 5 k "2::nat"] by simp
    ultimately have "?tp < ?hp" "unat (?hp - ?tp) = ?n" "unat ?tp = 0" by (simp_all add: word_less_nat_alt)
    moreover have "take ?n (cells r) = map Some q" using w True n r(2) by (simp add: ring_seq_0)
    ultimately show ?thesis
      using that [of "take ?n (cells r) @ drop ?n ?tmp"] n r(2) by (simp add: copy_cells_ok)
  next
    case False
    then have hp: "unat ?hp = t - 1" using h n t(2) mod_window [of t ?c ?n] by simp
    then have "\<not> ?tp < ?hp" using t_def by (simp add: word_less_nat_alt)
    moreover have "unat (r_cap r - ucast ?tp) = ?c - t"
      using t(2) t_def unat_pow2_64 [OF k(1)] by (simp add: r(1) unat_sub word_le_nat_alt unat_ucast_32_64)
    moreover have "drop t (cells r) @ take (t - 1) (cells r) = map Some q"
      using w ring_seq_round [of "cells r" t ?n] n t(2) r(2) False by simp
    ultimately show ?thesis
      using that [of "map Some q @ drop ?n ?tmp"] n r(2) t(2) t_def hp False by (simp add: copy_cells_ok)
  qed
  let ?r = "\<lparr>cells = tmp, r_head = ucast (r_cap r * 2 div 2 - 1), r_tail = 0, r_cap = r_cap r * 2\<rparr>"
  have "enlarge_buffer_ring r = Inr ?r"
    using assms(2) tmp(1) by (simp add: enlarge_buffer_ring_def Let_def cap)
  moreover have "?n < 2 * ?c" using n(3) by simp
  then have "ring_at (Suc k) ?r q"
    using k r(1,3) tmp c2 by (simp add: ring_at_def ring_seq_0 mult.commute)
  ultimately show ?thesis by (rule that)
qed

lemma push_room:
  assumes "ring_at k r q" "length q + 1 < 2 ^ k"
  obtains xs where "write_cell (cells r) (unat (mask_ring (r_cap r) (r_head r))) v = Inr xs"
    "ring_at k (r\<lparr>cells := xs, r_head := r_head r + 1\<rparr>) (q @ [v])"
proof -
  have r: "k < 32" "r_cap r = 2 ^ k" "length (cells r) = 2 ^ k" "r_head r = r_tail r + of_nat (length q)"
    using assms(1) by (simp_all add: ring_at_def)
  let ?xs = "(cells r)[(unat (r_tail r) + length q) mod length (cells r) := Some v]"
  have p: "unat (mask_ring (r_cap r) (r_head r)) = (unat (r_tail r) + length q) mod length (cells r)"
    using r by (simp add: mask_ring_pos)
  have w: "write_cell (cells r) (unat (mask_ring (r_cap r) (r_head r))) v = Inr ?xs"
    unfolding p by (simp add: write_cell_def r(3))
  have "ring_seq ?xs (unat (r_tail r)) (Suc (length q)) = map Some (q @ [v])"
    using assms ring_seq_write [of "length q" "cells r" "unat (r_tail r)" "Some v"] by (simp add: ring_at_def)
  then have "ring_at k (r\<lparr>cells := ?xs, r_head := r_head r + 1\<rparr>) (q @ [v])"
    using assms by (simp add: ring_at_def)
  then show ?thesis by (rule that [OF w])
qed

lemma push_ok:
  assumes "ring_rep r q" "length q + 1 < 2 ^ 31"
  obtains r' where "seq_ring_push_back r v = Inr r'" "ring_rep r' (q @ [v])"
proof -
  obtain k where k: "ring_at k r q" using assms(1) by (auto simp: ring_rep_def)
  obtain r1 k1 where r1: "(if full_ring r then enlarge_buffer_ring r else Inr r) = Inr r1" "ring_at k1 r1 q"
    "length q + 1 < 2 ^ k1"
  proof (cases "full_ring r")
    case True
    then have l: "length q = 2 ^ k - 1" using full_iff [OF k] by simp
    have "k \<noteq> 31" using assms(2) l by auto
    then have "k < 31" using k by (simp add: ring_at_def)
    then show ?thesis
      by (rule enlarge_ok [OF k True]) (use True l in \<open>auto intro!: that\<close>)
  next
    case False
    moreover have "length q < 2 ^ k" using k by (simp add: ring_at_def)
    ultimately show ?thesis using k full_iff [OF k] by (intro that [of r k]) auto
  qed
  obtain xs where "write_cell (cells r1) (unat (mask_ring (r_cap r1) (r_head r1))) v = Inr xs"
    "ring_at k1 (r1\<lparr>cells := xs, r_head := r_head r1 + 1\<rparr>) (q @ [v])"
    by (rule push_room [OF r1(2,3)])
  then show ?thesis
    using r1(1) by (intro that) (auto simp: seq_ring_push_back_def Let_def ring_rep_def)
qed

text \<open>The iterator on element \<open>i\<close>, and its value.\<close>

lemma ring_next:
  assumes "ring_at k r q"
  shows "seq_ring_next r (seq_ring_at r (of_nat i)) = seq_ring_at r (of_nat (Suc i))"
proof -
  have r: "k < 32" "r_cap r = 2 ^ k" using assms by (simp_all add: ring_at_def)
  let ?p = "seq_ring_at r (of_nat i)"
  have p: "unat (seq_ring_at r (of_nat j)) = (unat (r_tail r) + j) mod 2 ^ k" for j
    by (simp add: seq_ring_at_def r mask_ring_pos)
  then have l: "unat ?p < 2 ^ k" by simp
  have b: "(2::nat) ^ k < 4294967296" using power_strict_increasing [of k 32 "2::nat"] r(1) by simp
  have s: "unat (?p + 1) = unat ?p + 1" using l b by (simp add: unat_word_ariths)
  have "ucast (?p + 1) = r_cap r \<longleftrightarrow> unat (ucast (?p + 1) :: u64) = unat (r_cap r)"
    by (auto intro: unsigned_word_eqI)
  then have e: "ucast (?p + 1) = r_cap r \<longleftrightarrow> unat ?p + 1 = 2 ^ k"
    using s r(2) unat_pow2_64 [OF r(1)] by (simp add: unat_ucast_32_64)
  have "unat (seq_ring_next r ?p) = unat (seq_ring_at r (of_nat (Suc i)))"
    unfolding seq_ring_next_def e p [of "Suc i"] using s by (simp add: p mod_Suc del: of_nat_Suc)
  then show ?thesis by (rule unsigned_word_eqI)
qed

lemma ring_value_at:
  assumes "ring_at k r q" "i < length q"
  shows "ring_value r (seq_ring_at r (of_nat i)) = Inr (q ! i)"
proof -
  have r: "k < 32" "r_cap r = 2 ^ k" "length (cells r) = 2 ^ k"
    "ring_seq (cells r) (unat (r_tail r)) (length q) = map Some q"
    using assms(1) by (simp_all add: ring_at_def)
  have p: "unat (seq_ring_at r (of_nat i)) = (unat (r_tail r) + i) mod 2 ^ k"
    by (simp add: seq_ring_at_def r mask_ring_pos)
  have "cells r ! ((unat (r_tail r) + i) mod 2 ^ k) = Some (q ! i)"
    using arg_cong [OF r(4), of "\<lambda>l. l ! i"] assms(2) by (simp add: nth_ring_seq r(3))
  then show ?thesis by (simp add: ring_value_def p r(3))
qed

lemma ring_front: "seq_ring_front r = seq_ring_at r 0"
  by (simp add: seq_ring_front_def seq_ring_at_def)

lemma ring_end: "ring_at k r q \<Longrightarrow> seq_ring_end r = seq_ring_at r (of_nat (length q))"
  by (simp add: seq_ring_end_def seq_ring_at_def ring_at_def)

lemma ring_at_inj:
  assumes "ring_at k r q" "i < j" "j \<le> length q"
  shows "seq_ring_at r (of_nat i) \<noteq> seq_ring_at r (of_nat j)"
proof
  have r: "k < 32" "r_cap r = 2 ^ k" "length q < 2 ^ k" using assms(1) by (simp_all add: ring_at_def)
  assume "seq_ring_at r (of_nat i) = seq_ring_at r (of_nat j)"
  then have "unat (seq_ring_at r (of_nat i)) = unat (seq_ring_at r (of_nat j))" by simp
  then show False
    using mod_distinct [OF assms(2), of "2 ^ k" "unat (r_tail r)"] assms(3) r
    by (simp add: seq_ring_at_def mask_ring_pos)
qed

lemma ring_values_ok:
  assumes "ring_at k r q"
  shows "i \<le> length q \<Longrightarrow> length q - i \<le> n \<Longrightarrow> ring_values n r (seq_ring_at r (of_nat i)) = Inr (drop i q)"
proof (induction "length q - i" arbitrary: i n)
  case 0
  then show ?case using ring_end [OF assms] by (subst ring_values.simps) simp
next
  case (Suc d)
  then have i: "i < length q" and d: "d = length q - Suc i" by simp_all
  then obtain m where m: "n = Suc m" using Suc.prems by (cases n) simp_all
  have "seq_ring_at r (of_nat i) \<noteq> seq_ring_end r"
    using ring_at_inj [OF assms i] ring_end [OF assms] by simp
  moreover have "ring_values m r (seq_ring_at r (of_nat (Suc i))) = Inr (drop (Suc i) q)"
    using Suc.hyps(1) [OF d] Suc.prems i m by simp
  ultimately show ?case
    by (subst ring_values.simps)
       (simp add: m ring_value_at [OF assms i] ring_next [OF assms] Cons_nth_drop_Suc [OF i] del: of_nat_Suc)
qed

lemma ring_free: "ring_rep r q \<Longrightarrow> seq_ring_free r = Inr q"
proof -
  assume "ring_rep r q"
  then obtain k where k: "ring_at k r q" by (auto simp: ring_rep_def)
  then have "length q \<le> unat (r_cap r)" by (auto simp: ring_at_def unat_pow2_64)
  then show ?thesis
    using ring_values_ok [OF k, of 0 "unat (r_cap r)"] by (simp add: seq_ring_free_def ring_front)
qed

lemma zero_cells_ok:
  assumes "s + n \<le> length xs"
  obtains ys where "zero_cells xs s n = Inr ys" "length ys = length xs"
    "\<And>p. p < length xs \<Longrightarrow> p < s \<or> s + n \<le> p \<Longrightarrow> ys ! p = xs ! p"
proof (rule that)
  show "zero_cells xs s n = Inr (take s xs @ replicate n None @ drop (s + n) xs)"
    using assms by (simp add: zero_cells_def)
qed (use assms in \<open>auto simp: nth_append\<close>)

lemma ring_shift:
  assumes "ring_at k r q" "n \<le> length q" "length xs = 2 ^ k"
    and "\<And>i. n \<le> i \<Longrightarrow> i < length q \<Longrightarrow> xs ! ((unat (r_tail r) + i) mod 2 ^ k) = cells r ! ((unat (r_tail r) + i) mod 2 ^ k)"
  shows "ring_at k (r\<lparr>cells := xs, r_tail := r_tail r + of_nat n\<rparr>) (drop n q)"
proof -
  have r: "k < 32" "length (cells r) = 2 ^ k" "ring_seq (cells r) (unat (r_tail r)) (length q) = map Some q"
    using assms(1) by (simp_all add: ring_at_def)
  have m: "unat (r_tail r + of_nat n) mod 2 ^ k = (unat (r_tail r) + n) mod 2 ^ k"
    using mask_ring_pos [OF r(1), of "r_tail r" n] by (simp add: unat_mask_ring r(1))
  have "ring_seq xs (unat (r_tail r + of_nat n)) (length q - n) = ring_seq xs (unat (r_tail r) + n) (length q - n)"
    using ring_seq_mod [of xs "unat (r_tail r + of_nat n)"] ring_seq_mod [of xs "unat (r_tail r) + n"] m assms(3) by simp
  also have "\<dots> = ring_seq (cells r) (unat (r_tail r) + n) (length q - n)"
    using assms(3) r(2) by (intro ring_seq_cong) (simp_all add: assms(4) add.assoc)
  also have "\<dots> = drop n (map Some q)" by (simp add: ring_seq_drop [OF assms(2)] r(3))
  finally have w: "ring_seq xs (unat (r_tail r + of_nat n)) (length (drop n q)) = map Some (drop n q)"
    by (simp add: drop_map)
  have "length q < 2 ^ k" using assms(1) by (simp add: ring_at_def)
  then have "length (drop n q) < 2 ^ k" by simp
  with w show ?thesis
    using assms(1-3) by (simp add: ring_at_def of_nat_diff)
qed

lemma ring_erase_ok:
  assumes "ring_at k r q" "0 < n" "n \<le> length q"
  obtains r' where "seq_ring_erase r (seq_ring_front r) (seq_ring_at r (of_nat n)) = Inr r'" "ring_at k r' (drop n q)"
proof -
  let ?c = "2 ^ k :: nat" and ?s = "seq_ring_front r" and ?e = "seq_ring_at r (of_nat n)"
  have r: "k < 32" "r_cap r = 2 ^ k" "length (cells r) = ?c" "length q < ?c"
    using assms(1) by (simp_all add: ring_at_def)
  have cap: "unat (r_cap r) = ?c" by (simp add: r unat_pow2_64)
  define t where "t = unat ?s"
  have t: "t = unat (r_tail r) mod ?c" "t < ?c" by (simp_all add: t_def seq_ring_front_def r(1,2) unat_mask_ring)
  have i: "(unat (r_tail r) + i) mod ?c = (if t + i < ?c then t + i else t + i - ?c)" if "i < ?c" for i
    using mod_window [OF t(2) that] by (simp add: t(1) mod_add_left_eq)
  have e: "unat ?e = (if t + n < ?c then t + n else t + n - ?c)"
    using i [of n] assms(3) r by (simp add: seq_ring_at_def mask_ring_pos)
  have ne: "?s \<noteq> ?e" using ring_at_inj [OF assms] by (simp add: ring_front)
  have un: "unat (of_nat n :: u32) = n" using unat_len [OF r(1), of n] assms(3) r(4) by simp
  have le: "ucast ?e \<le> r_cap r" using e t(2) assms(3) r(4) by (auto simp: word_le_nat_alt cap unat_ucast_32_64)
  obtain r1 where r1: "(if ?s < ?e then
           res_bind (zero_cells (cells r) (unat ?s) (unat (?e - ?s))) (\<lambda>xs.
           Inr (r\<lparr>cells := xs, r_tail := r_tail r + (?e - ?s)\<rparr>))
         else
           res_bind (zero_cells (cells r) (unat ?s) (unat (r_cap r - ucast ?s))) (\<lambda>xs.
           res_bind (zero_cells xs 0 (unat ?e)) (\<lambda>ys.
           Inr (r\<lparr>cells := ys, r_tail := r_tail r + ucast (r_cap r - ucast ?s + ucast ?e)\<rparr>)))) = Inr r1"
    "ring_at k r1 (drop n q)" "r_cap r1 = r_cap r" "r_tail r1 = r_tail r + of_nat n"
  proof (cases "t + n < ?c")
    case True
    then have l: "?s < ?e" using e assms(2) by (simp add: word_less_nat_alt t_def)
    have d: "unat (?e - ?s) = n" using l e True by (simp add: unat_sub word_less_nat_alt word_le_nat_alt t_def)
    then have en: "?e - ?s = of_nat n" using un by (intro word_eqI_nat) simp
    obtain xs where xs: "zero_cells (cells r) t n = Inr xs" "length xs = length (cells r)"
      "\<And>p. p < length (cells r) \<Longrightarrow> p < t \<or> t + n \<le> p \<Longrightarrow> xs ! p = cells r ! p"
      by (rule zero_cells_ok [of t n "cells r"]) (use True r(3) in simp_all)
    have "ring_at k (r\<lparr>cells := xs, r_tail := r_tail r + of_nat n\<rparr>) (drop n q)"
    proof (rule ring_shift [OF assms(1,3)])
      fix j assume j: "n \<le> j" "j < length q"
      then have c: "j < ?c" using r(4) by simp
      let ?p = "(unat (r_tail r) + j) mod ?c"
      have "?p < t \<or> t + n \<le> ?p" using i [OF c] j c by auto
      moreover have "?p < length (cells r)" by (simp add: r(3))
      ultimately show "xs ! ?p = cells r ! ?p" by (intro xs(3))
    qed (use xs r in simp)
    then show ?thesis
      using l xs(1) d en by (intro that [of "r\<lparr>cells := xs, r_tail := r_tail r + of_nat n\<rparr>"]) (simp_all add: t_def)
  next
    case False
    then have l: "\<not> ?s < ?e" using e assms(3) r(4) by (simp add: word_less_nat_alt t_def)
    have d: "unat (r_cap r - ucast ?s) = ?c - t"
      using t(2) by (simp add: unat_sub word_le_nat_alt cap t_def unat_ucast_32_64)
    have "unat (r_cap r - ucast ?s + ucast ?e) = n"
      using d e False t(2) assms(3) r(4) small_len [OF r(1), of n] by (simp add: unat_word_ariths unat_ucast_32_64)
    then have en: "ucast (r_cap r - ucast ?s + ucast ?e) = (of_nat n :: u32)"
      using un small_len [OF r(1), of n] assms(3) r(4) by (intro word_eqI_nat) (simp add: unat_down)
    obtain xs where xs: "zero_cells (cells r) t (?c - t) = Inr xs" "length xs = length (cells r)"
      "\<And>p. p < length (cells r) \<Longrightarrow> p < t \<or> t + (?c - t) \<le> p \<Longrightarrow> xs ! p = cells r ! p"
      by (rule zero_cells_ok [of t "?c - t" "cells r"]) (use t(2) r(3) in simp_all)
    obtain ys where ys: "zero_cells xs 0 (t + n - ?c) = Inr ys" "length ys = length xs"
      "\<And>p. p < length xs \<Longrightarrow> p < 0 \<or> 0 + (t + n - ?c) \<le> p \<Longrightarrow> ys ! p = xs ! p"
      by (rule zero_cells_ok [of 0 "t + n - ?c" xs]) (use t(2) r(3,4) assms(3) xs(2) in simp_all)
    have "ring_at k (r\<lparr>cells := ys, r_tail := r_tail r + of_nat n\<rparr>) (drop n q)"
    proof (rule ring_shift [OF assms(1,3)])
      fix j assume j: "n \<le> j" "j < length q"
      have p: "(unat (r_tail r) + j) mod ?c = t + j - ?c" using i [of j] j r(4) False by simp
      then show "ys ! ((unat (r_tail r) + j) mod ?c) = cells r ! ((unat (r_tail r) + j) mod ?c)"
        using j r(3,4) t(2) False xs(2) ys(3) [of "t + j - ?c"] xs(3) [of "t + j - ?c"] by simp
    qed (use xs ys r in simp)
    then show ?thesis
      using l xs(1) ys(1) d en e False
      by (intro that [of "r\<lparr>cells := ys, r_tail := r_tail r + of_nat n\<rparr>"]) (simp_all add: t_def)
  qed
  have "mask_ring (r_cap r1) (r_tail r1) = ?e" by (simp add: r1(3,4) seq_ring_at_def)
  then have "seq_ring_erase r ?s ?e = Inr r1"
    using ne le r1(1) by (simp add: seq_ring_erase_def) (simp add: seq_ring_front_def)
  then show ?thesis using r1(2) by (rule that)
qed

end
