(* ===== verification/SeqArr.thy ===== *)
theory SeqArr
  imports SeqRing
begin

text \<open>
  The dynamic array of \<open>src/util/alg_ds/ds/seq_container/seq_arr.c\<close> and the algorithms
  \<open>for_each_arr\<close> and \<open>find_if_arr\<close> of \<open>src/util/alg_ds/alg\<close>.  The memory is modelled at the level
  of its bytes: \<open>arr_data\<close> is the allocation, of which a byte is \<open>None\<close> as long as nothing was
  written to it, an element is \<open>elt_size\<close> bytes of it, and an iterator is the distance of its pointer
  from the start of the allocation.  A read or write past the allocation is \<open>OutOfBounds\<close>.

  A \<open>size_t\<close> is a natural number with the wrap-around written out.  The occupation that
  \<open>maybe_shrink\<close> compares with a quarter is a \<open>float\<close>: the capacity is a power of two, so the
  quotient is exact for sizes up to \<open>2 ^ 24\<close>, and the comparison of the numbers is the same there.
\<close>

section \<open>Operations\<close>

record seq_arr =
  arr_data :: "u8 option list"
  arr_size :: nat
  elt_size :: nat
  arr_cap :: nat

abbreviation size_t :: "nat \<Rightarrow> nat" where
  "size_t n \<equiv> n mod 2 ^ 64"

text \<open>The conversion of an integer to \<open>int\<close>.\<close>

definition c_int :: "int \<Rightarrow> int" where
  "c_int n = sint (word_of_int n :: 32 word)"

definition realloc_bytes :: "u8 option list \<Rightarrow> nat \<Rightarrow> u8 option list" where
  "realloc_bytes bs n = take n bs @ replicate (n - length bs) None"

definition maybe_expand :: "seq_arr \<Rightarrow> seq_arr" where
  "maybe_expand arr =
    (if size_t (arr_size arr + 1) = arr_cap arr then
       arr\<lparr>arr_data := realloc_bytes (arr_data arr) (size_t (2 * arr_cap arr * elt_size arr)),
           arr_cap := size_t (arr_cap arr * 2)\<rparr>
     else arr)"

definition maybe_shrink :: "seq_arr \<Rightarrow> seq_arr res" where
  "maybe_shrink arr =
    (if 8 < arr_size arr \<and> 4 * arr_size arr < arr_cap arr then
       res_bind (c_assert (8 < arr_cap arr)) (\<lambda>_.
       let cap = arr_cap arr div 2 in
       res_bind (c_assert (cap * cap < 2 ^ 64)) (\<lambda>_.
       let tmp = replicate (cap * cap) (Some 0) in
       res_bind (c_assert (arr_size arr \<le> cap)) (\<lambda>_.
       res_bind (copy_cells tmp 0 (arr_data arr) 0 (size_t (arr_size arr * elt_size arr))) (\<lambda>bs.
       Inr (arr\<lparr>arr_data := bs, arr_cap := cap\<rparr>)))))
     else Inr arr)"

definition seq_arr_init :: "nat \<Rightarrow> seq_arr" where
  "seq_arr_init e = \<lparr>arr_data = replicate (8 * e) (Some 0), arr_size = 0, elt_size = e, arr_cap = 8\<rparr>"

definition seq_arr_front :: "seq_arr \<Rightarrow> nat" where
  "seq_arr_front arr = 0"

definition seq_arr_next :: "seq_arr \<Rightarrow> nat \<Rightarrow> nat" where
  "seq_arr_next arr it = it + elt_size arr"

definition seq_arr_end :: "seq_arr \<Rightarrow> nat" where
  "seq_arr_end arr = size_t (arr_size arr * elt_size arr)"

definition seq_arr_at :: "seq_arr \<Rightarrow> u32 \<Rightarrow> nat res" where
  "seq_arr_at arr pos =
    res_bind (c_assert (unat pos < arr_size arr)) (\<lambda>_. Inr (size_t (unat pos * elt_size arr)))"

text \<open>The difference of the pointers is divided by a \<open>size_t\<close>, and so as an unsigned number.\<close>

definition seq_arr_dist :: "seq_arr \<Rightarrow> nat \<Rightarrow> nat \<Rightarrow> int res" where
  "seq_arr_dist arr it_first it_last =
    (let pos = sint (word_of_int ((int it_last - int it_first) mod 2 ^ 64 div int (elt_size arr)) :: 64 word) in
     res_bind (c_assert (-1 < pos)) (\<lambda>_. Inr pos))"

definition seq_arr_equal :: "seq_arr \<Rightarrow> nat \<Rightarrow> nat \<Rightarrow> bool" where
  "seq_arr_equal arr it_1 it_2 \<longleftrightarrow> it_1 = it_2"

definition seq_arr_value :: "seq_arr \<Rightarrow> nat \<Rightarrow> u8 list res" where
  "seq_arr_value arr it = Inl NotImplemented"

definition seq_arr_push_back :: "seq_arr \<Rightarrow> u8 list \<Rightarrow> seq_arr res" where
  "seq_arr_push_back arr x =
    res_bind (c_assert (length x = elt_size arr)) (\<lambda>_.
    let arr = maybe_expand arr in
    let offset = size_t (arr_size arr * elt_size arr) in
    res_bind (copy_cells (arr_data arr) offset (map Some x) 0 (elt_size arr)) (\<lambda>bs.
    Inr (arr\<lparr>arr_data := bs, arr_size := size_t (arr_size arr + 1)\<rparr>)))"

text \<open>\<open>memset\<close> to zero.\<close>

definition zero_bytes :: "u8 option list \<Rightarrow> nat \<Rightarrow> nat \<Rightarrow> u8 option list res" where
  "zero_bytes bs s n = copy_cells bs s (replicate n (Some 0)) 0 n"

definition seq_arr_erase :: "seq_arr \<Rightarrow> nat \<Rightarrow> nat \<Rightarrow> seq_arr res" where
  "seq_arr_erase arr start_it end_it =
    res_bind (c_assert (start_it \<le> end_it)) (\<lambda>_.
    if start_it = end_it then Inr arr
    else
      let num_bytes_move = c_int (int (seq_arr_end arr) - int end_it) in
      res_bind (c_assert (-1 < num_bytes_move)) (\<lambda>_.
      res_bind (copy_cells (arr_data arr) start_it (arr_data arr) end_it (nat num_bytes_move)) (\<lambda>bs.
      let num_bytes_erase = c_int (int end_it - int start_it);
          num_elm_erase = c_int (num_bytes_erase mod 2 ^ 64 div int (elt_size arr)) in
      res_bind (c_assert (0 < num_elm_erase)) (\<lambda>_.
      let arr1 = arr\<lparr>arr_data := bs, arr_size := nat ((int (arr_size arr) - num_elm_erase) mod 2 ^ 64)\<rparr> in
      res_bind (zero_bytes bs (seq_arr_end arr1) (nat (num_bytes_erase mod 2 ^ 64))) (\<lambda>bs'.
      maybe_shrink (arr1\<lparr>arr_data := bs'\<rparr>))))))"

definition seq_arr_size :: "seq_arr \<Rightarrow> nat" where
  "seq_arr_size arr = arr_size arr"

text \<open>The bytes of the element under an iterator.\<close>

definition arr_elt :: "seq_arr \<Rightarrow> nat \<Rightarrow> u8 list res" where
  "arr_elt arr it =
    (let bs = take (elt_size arr) (drop it (arr_data arr)) in
     if length bs = elt_size arr \<and> None \<notin> set bs then Inr (map the bs) else Inl OutOfBounds)"

text \<open>The loops over iterators: they need not meet their end, and then they leave the array.  A
  loop that does not return is \<open>None\<close>.\<close>

partial_function (option) for_each_arr ::
  "seq_arr \<Rightarrow> nat \<Rightarrow> nat \<Rightarrow> (u8 list \<Rightarrow> 's \<Rightarrow> 's res) \<Rightarrow> 's \<Rightarrow> 's res option" where
  "for_each_arr arr it e f s =
    (if it = e then Some (Inr s)
     else (case res_bind (arr_elt arr it) (\<lambda>x. f x s) of
         Inl err \<Rightarrow> Some (Inl err)
       | Inr s' \<Rightarrow> for_each_arr arr (it + elt_size arr) e f s'))"

partial_function (option) find_if_arr ::
  "seq_arr \<Rightarrow> nat \<Rightarrow> nat \<Rightarrow> (u8 list \<Rightarrow> bool) \<Rightarrow> nat res option" where
  "find_if_arr arr it e p =
    (if it = e then Some (Inr it)
     else (case arr_elt arr it of
         Inl err \<Rightarrow> Some (Inl err)
       | Inr x \<Rightarrow> if p x then Some (Inr it) else find_if_arr arr (seq_arr_next arr it) e p))"

definition seq_arr_free :: "seq_arr \<Rightarrow> (u8 list \<Rightarrow> 's \<Rightarrow> 's res) option \<Rightarrow> 's \<Rightarrow> 's res option" where
  "seq_arr_free arr free_func s =
    (case free_func of
       None \<Rightarrow> Some (Inr s)
     | Some f \<Rightarrow> for_each_arr arr (seq_arr_front arr) (seq_arr_end arr) f s)"

section \<open>The list it implements\<close>

text \<open>The array holds the elements \<open>xs\<close>, each of \<open>e\<close> bytes.\<close>

definition arr_rep :: "nat \<Rightarrow> seq_arr \<Rightarrow> u8 list list \<Rightarrow> bool" where
  "arr_rep e arr xs \<longleftrightarrow> elt_size arr = e \<and> 0 < e \<and> e < 2 ^ 26 \<and> arr_size arr = length xs \<and>
    (\<forall>x\<in>set xs. length x = e) \<and> length xs < arr_cap arr \<and>
    (\<exists>k\<in>{3..24}. arr_cap arr = 2 ^ k) \<and>
    length xs * e \<le> length (arr_data arr) \<and>
    take (length xs * e) (arr_data arr) = map Some (concat xs)"

text \<open>The allocation has room for as many elements as the capacity allows.\<close>

definition roomy :: "seq_arr \<Rightarrow> bool" where
  "roomy arr \<longleftrightarrow> (arr_cap arr - 1) * elt_size arr \<le> length (arr_data arr)"

lemma length_concat_elts: "(\<forall>x\<in>set xs. length x = e) \<Longrightarrow> length (concat xs) = length xs * e"
  by (induction xs) auto

lemma take_concat_elts:
  "(\<forall>x\<in>set xs. length x = e) \<Longrightarrow> take (i * e) (concat xs) = concat (take i xs)"
proof (induction xs arbitrary: i)
  case (Cons x xs)
  then show ?case by (cases i) (simp_all add: add.commute)
qed simp

lemma drop_concat_elts:
  "(\<forall>x\<in>set xs. length x = e) \<Longrightarrow> drop (i * e) (concat xs) = concat (drop i xs)"
proof (induction xs arbitrary: i)
  case (Cons x xs)
  then show ?case by (cases i) (simp_all add: add.commute)
qed simp

lemma arr_bytes_bound: "e < 2 ^ 26 \<Longrightarrow> n \<le> 2 ^ 25 \<Longrightarrow> n * e < (2 ^ 51 :: nat)"
proof -
  assume "e < (2::nat) ^ 26" "n \<le> 2 ^ 25"
  then have "n * e \<le> 2 ^ 25 * (2 ^ 26 - 1)" by (intro mult_le_mono) simp_all
  then show ?thesis by (rule le_less_trans) simp
qed

lemma c_int_id: "- (2 ^ 31) \<le> n \<Longrightarrow> n < 2 ^ 31 \<Longrightarrow> c_int n = n"
  by (simp add: c_int_def signed_of_int signed_take_bit_int_eq_self)

lemma c_int_nat: "n < 2 ^ 31 \<Longrightarrow> c_int (int n) = int n"
  by (rule c_int_id) simp_all

lemma size_t_int: "n < 2 ^ 31 \<Longrightarrow> int n mod 2 ^ 64 = int n"
  by simp

lemma arr_rep_cap_le: "arr_rep e arr xs \<Longrightarrow> arr_cap arr \<le> 2 ^ 24"
proof -
  assume "arr_rep e arr xs"
  then obtain k where "k \<le> 24" "arr_cap arr = 2 ^ k" by (auto simp: arr_rep_def)
  moreover have "(2::nat) ^ k \<le> 2 ^ 24" using \<open>k \<le> 24\<close> by (rule power_increasing) simp
  ultimately show ?thesis by simp
qed

lemma arr_rep_end: "arr_rep e arr xs \<Longrightarrow> seq_arr_end arr = length xs * e"
  using arr_bytes_bound [of e "length xs"] arr_rep_cap_le [of e arr xs]
  by (simp add: arr_rep_def seq_arr_end_def)

lemma arr_rep_init: "0 < e \<Longrightarrow> e < 2 ^ 26 \<Longrightarrow> arr_rep e (seq_arr_init e) [] \<and> roomy (seq_arr_init e)"
  by (auto simp: arr_rep_def roomy_def seq_arr_init_def intro: bexI [of _ 3])

lemma maybe_expand_rep:
  assumes "arr_rep e arr xs" "length xs + 1 < 2 ^ 24"
  shows "arr_rep e (maybe_expand arr) xs" "length xs + 1 < arr_cap (maybe_expand arr)"
    "roomy arr \<Longrightarrow> roomy (maybe_expand arr)"
proof -
  have r: "elt_size arr = e" "e < 2 ^ 26" "length xs < arr_cap arr" "arr_size arr = length xs"
    using assms(1) by (simp_all add: arr_rep_def)
  obtain k where k: "3 \<le> k" "k \<le> 24" "arr_cap arr = 2 ^ k" using assms(1) by (auto simp: arr_rep_def)
  have sz: "size_t (length xs + 1) = length xs + 1" using assms(2) by simp
  have "arr_rep e (maybe_expand arr) xs \<and> length xs + 1 < arr_cap (maybe_expand arr) \<and>
    (roomy arr \<longrightarrow> roomy (maybe_expand arr))"
  proof (cases "length xs + 1 = arr_cap arr")
    case True
    then have "2 ^ k < (2 ^ 24 :: nat)" using assms(2) k(3) by simp
    then have "k < 24" by (simp only: power_strict_increasing_iff [of "2::nat"])
    then have k': "Suc k \<in> {3..24}" using k(1) by simp
    have c: "arr_cap arr \<le> 2 ^ 24" by (rule arr_rep_cap_le [OF assms(1)])
    then have w: "size_t (2 * arr_cap arr * e) = 2 * arr_cap arr * e" "size_t (arr_cap arr * 2) = arr_cap arr * 2"
      using arr_bytes_bound [OF r(2), of "2 * arr_cap arr"] by simp_all
    have l: "length xs * e \<le> 2 * arr_cap arr * e" using r(3) by (intro mult_right_mono) simp_all
    define bs where "bs = realloc_bytes (arr_data arr) (2 * arr_cap arr * e)"
    have m: "maybe_expand arr = arr\<lparr>arr_data := bs, arr_cap := arr_cap arr * 2\<rparr>"
      using True sz w r(1,4) by (simp add: maybe_expand_def bs_def)
    have "length bs = 2 * arr_cap arr * e" "take (length xs * e) bs = take (length xs * e) (arr_data arr)"
      using l assms(1) by (auto simp: bs_def realloc_bytes_def arr_rep_def)
    moreover have "\<exists>k\<in>{3..24}. arr_cap arr * 2 = 2 ^ k" using k' k(3) by (intro bexI [of _ "Suc k"]) simp_all
    moreover have "(arr_cap arr * 2 - 1) * e \<le> 2 * arr_cap arr * e" by (intro mult_right_mono) simp_all
    ultimately show ?thesis
      using assms(1) l by (simp add: m arr_rep_def roomy_def)
  next
    case False
    then show ?thesis using assms(1) r(3) sz by (simp add: maybe_expand_def r(4))
  qed
  then show "arr_rep e (maybe_expand arr) xs" "length xs + 1 < arr_cap (maybe_expand arr)"
    "roomy arr \<Longrightarrow> roomy (maybe_expand arr)" by simp_all
qed

text \<open>Appending: what is written is the element, and it is written past the allocation exactly when
  this has no room.\<close>

lemma push_back_cases:
  assumes "arr_rep e arr xs" "length xs + 1 < 2 ^ 24" "length x = e"
  defines "a \<equiv> maybe_expand arr"
  shows "(length xs + 1) * e \<le> length (arr_data a) \<Longrightarrow>
      \<exists>arr'. seq_arr_push_back arr x = Inr arr' \<and> arr_rep e arr' (xs @ [x]) \<and>
        arr_cap arr' = arr_cap a \<and> length (arr_data arr') = length (arr_data a)"
    "length (arr_data a) < (length xs + 1) * e \<Longrightarrow> seq_arr_push_back arr x = Inl OutOfBounds"
proof -
  have a: "arr_rep e a xs" "length xs + 1 < arr_cap a"
    unfolding a_def by (rule maybe_expand_rep [OF assms(1,2)])+
  have el: "elt_size a = e" "elt_size arr = e" "arr_size a = length xs" "e < 2 ^ 26"
    using a(1) assms(1) by (simp_all add: arr_rep_def)
  have off: "size_t (length xs * e) = length xs * e" "size_t (length xs + 1) = length xs + 1"
    using arr_bytes_bound [OF el(4), of "length xs"] assms(2) by simp_all
  have p: "seq_arr_push_back arr x =
    res_bind (copy_cells (arr_data a) (length xs * e) (map Some x) 0 e) (\<lambda>bs.
      Inr (a\<lparr>arr_data := bs, arr_size := length xs + 1\<rparr>))"
    unfolding seq_arr_push_back_def Let_def a_def [symmetric] el off assms(3) by simp
  show "seq_arr_push_back arr x = Inl OutOfBounds" if "length (arr_data a) < (length xs + 1) * e"
    using that by (simp add: p copy_cells_def add.commute)
  assume len: "(length xs + 1) * e \<le> length (arr_data a)"
  define bs where "bs = take (length xs * e) (arr_data a) @ map Some x @ drop (length xs * e + e) (arr_data a)"
  have "length bs = length (arr_data a)" using len assms(3) by (simp add: bs_def)
  moreover have "seq_arr_push_back arr x = Inr (a\<lparr>arr_data := bs, arr_size := length xs + 1\<rparr>)"
    using len assms(3) by (simp add: p copy_cells_def bs_def)
  moreover have "arr_rep e (a\<lparr>arr_data := bs, arr_size := length xs + 1\<rparr>) (xs @ [x])"
    using a len assms(3) \<open>length bs = _\<close> by (auto simp: arr_rep_def bs_def)
  ultimately show "\<exists>arr'. seq_arr_push_back arr x = Inr arr' \<and> arr_rep e arr' (xs @ [x]) \<and>
    arr_cap arr' = arr_cap a \<and> length (arr_data arr') = length (arr_data a)"
    by (intro exI [of _ "a\<lparr>arr_data := bs, arr_size := length xs + 1\<rparr>"]) simp
qed

text \<open>Shrinking: the new allocation is the square of the new capacity, not its product with the
  size of an element.\<close>

lemma maybe_shrink_cases:
  assumes "arr_rep e arr xs"
  shows "\<not> (8 < length xs \<and> 4 * length xs < arr_cap arr) \<Longrightarrow> maybe_shrink arr = Inr arr"
    "8 < length xs \<Longrightarrow> 4 * length xs < arr_cap arr \<Longrightarrow> length xs * e \<le> (arr_cap arr div 2) * (arr_cap arr div 2) \<Longrightarrow>
      \<exists>arr'. maybe_shrink arr = Inr arr' \<and> arr_rep e arr' xs \<and> arr_cap arr' = arr_cap arr div 2 \<and>
        length (arr_data arr') = (arr_cap arr div 2) * (arr_cap arr div 2)"
    "8 < length xs \<Longrightarrow> 4 * length xs < arr_cap arr \<Longrightarrow> (arr_cap arr div 2) * (arr_cap arr div 2) < length xs * e \<Longrightarrow>
      maybe_shrink arr = Inl OutOfBounds"
proof -
  have r: "elt_size arr = e" "arr_size arr = length xs" "e < 2 ^ 26" "length xs * e \<le> length (arr_data arr)"
    "length xs < arr_cap arr" "take (length xs * e) (arr_data arr) = map Some (concat xs)"
    using assms by (simp_all add: arr_rep_def)
  obtain k where k: "3 \<le> k" "k \<le> 24" "arr_cap arr = 2 ^ k" using assms by (auto simp: arr_rep_def)
  let ?c = "arr_cap arr div 2"
  have c: "arr_cap arr \<le> 2 ^ 24" by (rule arr_rep_cap_le [OF assms])
  have w: "size_t (length xs * e) = length xs * e"
    using arr_bytes_bound [OF r(3), of "length xs"] r(5) c by simp
  have "?c * ?c \<le> 2 ^ 24 * 2 ^ 24" using c by (intro mult_le_mono) simp_all
  then have cc: "?c * ?c < 2 ^ 64" by (rule le_less_trans) simp
  show "maybe_shrink arr = Inr arr" if "\<not> (8 < length xs \<and> 4 * length xs < arr_cap arr)"
    using that unfolding maybe_shrink_def r by (rule if_not_P)
  assume s: "8 < length xs" "4 * length xs < arr_cap arr"
  have half: "length xs \<le> ?c" using s by linarith
  have m: "maybe_shrink arr =
    res_bind (copy_cells (replicate (?c * ?c) (Some 0)) 0 (arr_data arr) 0 (length xs * e)) (\<lambda>bs.
      Inr (arr\<lparr>arr_data := bs, arr_cap := ?c\<rparr>))"
    using s cc half unfolding maybe_shrink_def Let_def r w by (simp add: r)
  show "maybe_shrink arr = Inl OutOfBounds" if "?c * ?c < length xs * e"
    using that by (simp add: m copy_cells_def)
  assume fits: "length xs * e \<le> ?c * ?c"
  define bs where "bs = map Some (concat xs) @ replicate (?c * ?c - length xs * e) (Some 0)"
  have lc: "length (concat xs) = length xs * e" by (rule length_concat_elts) (use assms in \<open>simp add: arr_rep_def\<close>)
  have len: "length bs = ?c * ?c" using fits lc by (simp add: bs_def)
  have mb: "maybe_shrink arr = Inr (arr\<lparr>arr_data := bs, arr_cap := ?c\<rparr>)"
    using fits r(4,6) by (simp add: m copy_cells_def bs_def)
  have "3 \<le> k - 1"
  proof (rule ccontr)
    assume "\<not> 3 \<le> k - 1"
    then have "k = 3" using k(1) by simp
    then show False using s k(3) by simp
  qed
  moreover have "?c = 2 ^ (k - 1)" using k(1,3) by (cases k) simp_all
  ultimately have "arr_rep e (arr\<lparr>arr_data := bs, arr_cap := ?c\<rparr>) xs"
    using assms s fits len lc k(2) by (auto simp: arr_rep_def bs_def intro!: bexI [of _ "k - 1"])
  then show "\<exists>arr'. maybe_shrink arr = Inr arr' \<and> arr_rep e arr' xs \<and> arr_cap arr' = ?c \<and>
      length (arr_data arr') = ?c * ?c"
    using len mb by (intro exI [of _ "arr\<lparr>arr_data := bs, arr_cap := ?c\<rparr>"]) simp
qed

lemma maybe_shrink_narrow:
  assumes "arr_rep e arr xs" "e \<le> 33" "roomy arr"
  shows "\<exists>arr'. maybe_shrink arr = Inr arr' \<and> arr_rep e arr' xs \<and> roomy arr'"
proof (cases "8 < length xs \<and> 4 * length xs < arr_cap arr")
  case True
  obtain k where k: "arr_cap arr = 2 ^ k" using assms(1) by (auto simp: arr_rep_def)
  have "6 \<le> k"
  proof (rule ccontr)
    assume "\<not> 6 \<le> k"
    then have "(2::nat) ^ k \<le> 2 ^ 5" by (intro power_increasing) simp_all
    then show False using True k by simp
  qed
  then have "(2::nat) ^ 5 \<le> 2 ^ (k - 1)" by (intro power_increasing) simp_all
  moreover have "arr_cap arr div 2 = 2 ^ (k - 1)" using k \<open>6 \<le> k\<close> by (cases k) simp_all
  ultimately obtain c where c: "arr_cap arr div 2 = c" "32 \<le> c" by simp
  have "(c - 1) * e \<le> (c - 1) * 33" using assms(2) by (intro mult_left_mono) simp_all
  also have "\<dots> \<le> c * c"
  proof -
    obtain d where "c = 32 + d" using c(2) by (auto simp: le_iff_add)
    then show ?thesis by (simp add: algebra_simps)
  qed
  finally have room: "(c - 1) * e \<le> c * c" .
  have "length xs \<le> c - 1" using True c by linarith
  then have "length xs * e \<le> (c - 1) * e" by (intro mult_right_mono) simp_all
  then have "length xs * e \<le> c * c" using room by (rule order_trans)
  then obtain arr' where "maybe_shrink arr = Inr arr'" "arr_rep e arr' xs" "arr_cap arr' = c"
    "length (arr_data arr') = c * c"
    using maybe_shrink_cases(2) [OF assms(1)] True c(1) by auto
  moreover from this have "roomy arr'" using room by (simp add: roomy_def arr_rep_def)
  ultimately show ?thesis by blast
next
  case False
  then show ?thesis using maybe_shrink_cases(1) [OF assms(1)] assms by auto
qed

lemma zero_bytes_ok:
  "s + n \<le> length bs \<Longrightarrow> zero_bytes bs s n = Inr (take s bs @ replicate n (Some 0) @ drop (s + n) bs)"
  by (simp add: zero_bytes_def copy_cells_def)

text \<open>Erasing the elements from position \<open>i\<close> to before position \<open>j\<close>, before the shrinking.\<close>

lemma erase_cases:
  assumes "arr_rep e arr xs" "length xs * e < 2 ^ 31" "i \<le> j" "j \<le> length xs"
  shows "i = j \<Longrightarrow> seq_arr_erase arr (i * e) (j * e) = Inr arr"
    "i < j \<Longrightarrow> \<exists>arr1. seq_arr_erase arr (i * e) (j * e) = maybe_shrink arr1 \<and>
      arr_rep e arr1 (take i xs @ drop j xs) \<and> arr_cap arr1 = arr_cap arr \<and>
      length (arr_data arr1) = length (arr_data arr)"
proof -
  let ?d = "arr_data arr" and ?n = "length xs"
  have r: "elt_size arr = e" "arr_size arr = ?n" "0 < e" "?n * e \<le> length ?d" "?n < arr_cap arr"
    "take (?n * e) ?d = map Some (concat xs)" "\<forall>x\<in>set xs. length x = e"
    using assms(1) by (simp_all add: arr_rep_def)
  show "seq_arr_erase arr (i * e) (j * e) = Inr arr" if "i = j"
    using that by (simp add: seq_arr_erase_def)
  assume ij: "i < j"
  have le: "i * e < j * e" "j * e \<le> ?n * e" using ij assms(4) r(3) by simp_all
  let ?m = "?n - (j - i)"
  have m: "?m = i + (?n - j)" "?m \<le> ?n" using assms(3,4) by simp_all
  have sum: "?m * e + (j - i) * e = ?n * e" using assms(3,4) by (simp add: add_mult_distrib [symmetric])
  have d1: "int (?n * e) - int (j * e) = int ((?n - j) * e)" "int (j * e) - int (i * e) = int ((j - i) * e)"
    using le by (simp_all add: of_nat_diff diff_mult_distrib flip: of_nat_mult)
  note d2 = d1(2)
  have small: "(j - i) * e < 2 ^ 31" "(?n - j) * e < 2 ^ 31"
    using le assms(2) by (simp_all only: diff_mult_distrib)
  have mv: "c_int (int (?n * e) - int (j * e)) = int ((?n - j) * e)"
    by (simp only: d1(1)) (rule c_int_nat [OF small(2)])
  have er: "c_int (int (j * e) - int (i * e)) = int ((j - i) * e)"
    by (simp only: d2) (rule c_int_nat [OF small(1)])
  have "(j - i) * 1 \<le> (j - i) * e" using r(3) by (intro mult_le_mono) simp_all
  then have "(j - i) * 1 < 2 ^ 31" using small(1) by (rule le_less_trans)
  then have small': "j - i < 2 ^ 31" by simp
  have u: "int ((j - i) * e) mod 2 ^ 64 = int ((j - i) * e)" by (rule size_t_int [OF small(1)])
  have q: "int ((j - i) * e) div int e = int (j - i)" using r(3) by (simp flip: zdiv_int)
  have num: "c_int (int (j - i)) = int (j - i)" by (rule c_int_nat [OF small'])
  have sz: "nat ((int ?n - int (j - i)) mod 2 ^ 64) = ?m"
  proof -
    have "?n < 2 ^ 25" using r(5) arr_rep_cap_le [OF assms(1)] by simp
    then have "(int ?n - int (j - i)) mod 2 ^ 64 = int ?m"
      using assms(3,4) by (simp add: of_nat_diff)
    then show ?thesis by simp
  qed
  have "?m * e \<le> ?n * e" using m by (intro mult_right_mono) simp_all
  then have "?m * e < 2 ^ 31" using assms(2) by (rule le_less_trans)
  then have "?m * e < 2 ^ 64" by (rule less_trans) simp
  then have en: "size_t (?m * e) = ?m * e" by (rule mod_less)
  define bs where "bs = take (i * e) ?d @ take ((?n - j) * e) (drop (j * e) ?d) @ drop (i * e + (?n - j) * e) ?d"
  define arr1 where "arr1 = arr\<lparr>arr_size := ?m,
    arr_data := take (?m * e) bs @ replicate ((j - i) * e) (Some 0) @ drop (?n * e) bs\<rparr>"
  have ad: "arr_data arr1 = take (?m * e) bs @ replicate ((j - i) * e) (Some 0) @ drop (?n * e) bs"
    by (simp add: arr1_def)
  have jn: "j * e + (?n - j) * e = ?n * e" using assms(4) by (simp add: add_mult_distrib [symmetric])
  have ime: "i * e + (?n - j) * e = ?m * e" using m(1) by (simp add: add_mult_distrib)
  have "i * e \<le> length ?d" "(?n - j) * e \<le> length ?d - j * e" "?m * e \<le> length ?d"
    using le r(4) jn \<open>?m * e \<le> ?n * e\<close> by linarith+
  note fits = this
  then have lt: "length (take (i * e) ?d) = i * e" "length (take ((?n - j) * e) (drop (j * e) ?d)) = (?n - j) * e"
    by (simp_all only: length_take length_drop min_absorb2)
  have len: "length bs = length ?d"
    unfolding bs_def length_append lt length_drop ime using fits(3) ime by linarith
  have c1: "copy_cells ?d (i * e) ?d (j * e) (nat (int ((?n - j) * e))) = Inr bs"
    using jn r(4) ime fits(3) unfolding copy_cells_def nat_int bs_def by (intro if_not_P) linarith
  have c2: "zero_bytes bs (?m * e) (nat (int ((j - i) * e))) = Inr (arr_data arr1)"
    unfolding nat_int by (subst zero_bytes_ok) (simp_all only: sum len r(4), simp add: arr1_def)
  have "length (take (?m * e) bs) = ?m * e" "length (drop (?n * e) bs) = length ?d - ?n * e"
    using len fits(3) by (simp_all only: length_take length_drop min_absorb2)
  then have la: "length (arr_data arr1) = length ?d"
    using sum r(4) unfolding ad length_append length_replicate by linarith
  have e1: "seq_arr_end (arr\<lparr>arr_data := bs, arr_size := ?m\<rparr>) = ?m * e"
    using en by (simp add: seq_arr_end_def r(1))
  have ok: "c_assert (i * e \<le> j * e) = Inr ()" "c_assert (-1 < int ((?n - j) * e)) = Inr ()"
    "c_assert (0 < int (j - i)) = Inr ()" "(i * e = j * e) = False"
    using le(1) ij by (simp_all del: of_nat_mult)
  have "seq_arr_erase arr (i * e) (j * e) =
      maybe_shrink (arr\<lparr>arr_data := bs, arr_size := ?m, arr_data := arr_data arr1\<rparr>)"
    by (simp only: seq_arr_erase_def Let_def arr_rep_end [OF assms(1)] r(1,2) mv er u q num sz e1 ok c1 c2
        res_bind_simps if_False)
  then have "seq_arr_erase arr (i * e) (j * e) = maybe_shrink arr1" by (simp add: arr1_def)
  moreover have "arr_rep e arr1 (take i xs @ drop j xs)"
  proof -
    have t: "take (i * e) ?d = map Some (concat (take i xs))"
      using arg_cong [OF r(6), of "take (i * e)"] le take_concat_elts [OF r(7), of i]
      by (simp add: take_map min_def)
    have "take ((?n - j) * e) (drop (j * e) ?d) = drop (j * e) (take (?n * e) ?d)"
      by (simp add: drop_take diff_mult_distrib)
    then have d: "take ((?n - j) * e) (drop (j * e) ?d) = map Some (concat (drop j xs))"
      using drop_concat_elts [OF r(7), of j] by (simp add: r(6) drop_map)
    have "take (?m * e) bs = map Some (concat (take i xs @ drop j xs))"
      using t d lt by (simp add: bs_def ime [symmetric])
    moreover have "take n (take n bs @ ys) = take n bs" if "n \<le> length bs" for n ys
      using that by simp
    ultimately have tk: "take (?m * e) (arr_data arr1) = map Some (concat (take i xs @ drop j xs))"
      using fits(3) len unfolding ad by (metis (no_types))
    have le1: "?m * e \<le> length (arr_data arr1)" using fits(3) by (simp only: la)
    have l: "length (take i xs @ drop j xs) = ?m" using assms(3,4) by simp
    have s: "\<forall>x\<in>set (take i xs @ drop j xs). length x = e"
      using r(7) by (auto dest: in_set_takeD in_set_dropD)
    have f: "elt_size arr1 = e" "arr_size arr1 = ?m" "arr_cap arr1 = arr_cap arr"
      by (simp_all add: arr1_def r(1))
    have "?m < arr_cap arr" using m(2) r(5) by (rule le_less_trans)
    moreover have "e < 2 ^ 26" "\<exists>k\<in>{3..24}. arr_cap arr = 2 ^ k" using assms(1) unfolding arr_rep_def by blast+
    ultimately show ?thesis using tk le1 s r(3) unfolding arr_rep_def l f by blast
  qed
  moreover note la
  ultimately show "\<exists>arr1. seq_arr_erase arr (i * e) (j * e) = maybe_shrink arr1 \<and>
      arr_rep e arr1 (take i xs @ drop j xs) \<and> arr_cap arr1 = arr_cap arr \<and>
      length (arr_data arr1) = length ?d"
    by (intro exI [of _ arr1]) (simp add: arr1_def)
qed

section \<open>Reading the elements\<close>

lemma arr_elt_ok:
  assumes "arr_rep e arr xs" "i < length xs"
  shows "arr_elt arr (i * e) = Inr (xs ! i)"
proof -
  have r: "elt_size arr = e" "\<forall>x\<in>set xs. length x = e" "take (length xs * e) (arr_data arr) = map Some (concat xs)"
    using assms(1) by (simp_all add: arr_rep_def)
  have "Suc i * e \<le> length xs * e" using assms(2) by (intro mult_right_mono) simp_all
  then have "take e (drop (i * e) (arr_data arr)) = take e (drop (i * e) (take (length xs * e) (arr_data arr)))"
    by (simp add: drop_take min_def)
  also have "\<dots> = map Some (take (1 * e) (concat (drop i xs)))"
    by (simp add: r(3) drop_map take_map drop_concat_elts [OF r(2)])
  also have "take (1 * e) (concat (drop i xs)) = concat (take 1 (drop i xs))"
    using r(2) by (intro take_concat_elts) (auto dest: in_set_dropD)
  also have "take 1 (drop i xs) = [xs ! i]" using assms(2) by (simp add: Cons_nth_drop_Suc [symmetric])
  finally have "take e (drop (i * e) (arr_data arr)) = map Some (xs ! i)" by simp
  moreover have "length (xs ! i) = e" using r(2) assms(2) by simp
  ultimately show ?thesis by (auto simp: arr_elt_def r(1))
qed

lemma for_each_ok:
  assumes "arr_rep e arr xs"
  shows "i \<le> length xs \<Longrightarrow> for_each_arr arr (i * e) (seq_arr_end arr) f s = Some (fold_res f (drop i xs) s)"
proof (induction "length xs - i" arbitrary: i s)
  case 0
  then have "i = length xs" by simp
  then show ?case by (subst for_each_arr.simps) (simp add: arr_rep_end [OF assms])
next
  case (Suc n)
  then have i: "i < length xs" by simp
  then have ne: "i * e \<noteq> length xs * e" using assms by (simp add: arr_rep_def)
  have pos: "0 < e" "elt_size arr = e" using assms by (simp_all add: arr_rep_def)
  then have nx: "i * e + elt_size arr = Suc i * e" by simp
  have ih: "for_each_arr arr (Suc i * e) (seq_arr_end arr) f s' = Some (fold_res f (drop (Suc i) xs) s')" for s'
    using Suc.hyps(2) i by (intro Suc.hyps(1)) simp_all
  show ?case
    by (subst for_each_arr.simps)
       (use ih pos(1) in \<open>auto simp: arr_rep_end [OF assms] ne less_imp_neq [OF i] nx arr_elt_ok [OF assms i] Cons_nth_drop_Suc [OF i, symmetric]
         res_bind_def split: sum.splits\<close>)
qed

lemma find_if_ok:
  assumes "arr_rep e arr xs"
  shows "i \<le> length xs \<Longrightarrow> find_if_arr arr (i * e) (seq_arr_end arr) p =
    Some (Inr ((i + length (takeWhile (\<lambda>x. \<not> p x) (drop i xs))) * e))"
proof (induction "length xs - i" arbitrary: i)
  case 0
  then have "i = length xs" by simp
  then show ?case by (subst find_if_arr.simps) (simp add: arr_rep_end [OF assms])
next
  case (Suc n)
  then have i: "i < length xs" by simp
  then have ne: "i * e \<noteq> length xs * e" using assms by (simp add: arr_rep_def)
  have nx: "seq_arr_next arr (i * e) = Suc i * e" using assms by (simp add: arr_rep_def seq_arr_next_def)
  have ih: "find_if_arr arr (Suc i * e) (seq_arr_end arr) p =
      Some (Inr ((Suc i + length (takeWhile (\<lambda>x. \<not> p x) (drop (Suc i) xs))) * e))"
    using Suc.hyps(2) i by (intro Suc.hyps(1)) simp_all
  show ?case
    by (subst find_if_arr.simps)
       (use ih in \<open>simp add: arr_rep_end [OF assms] ne less_imp_neq [OF i] nx arr_elt_ok [OF assms i] Cons_nth_drop_Suc [OF i, symmetric]\<close>)
qed

lemma arr_at_ok:
  assumes "arr_rep e arr xs" "i < length xs"
  shows "seq_arr_at arr (of_nat i) = Inr (i * e)"
proof -
  have r: "arr_size arr = length xs" "elt_size arr = e" "e < 2 ^ 26" "length xs < arr_cap arr"
    using assms(1) by (simp_all add: arr_rep_def)
  have i: "i < 2 ^ 24" using arr_rep_cap_le [OF assms(1)] r(4) assms(2) by linarith
  then have "unat (of_nat i :: u32) = i" by (simp add: unat_of_nat take_bit_nat_eq_self)
  moreover have "size_t (i * e) = i * e"
    using arr_bytes_bound [OF r(3), of i] i by simp
  ultimately show ?thesis using assms(2) by (simp add: seq_arr_at_def r)
qed

text \<open>The distance counts the elements between two iterators; the assertion does not see that they
  are in the wrong order unless an element is a single byte.\<close>

lemma sint64_small: "0 \<le> n \<Longrightarrow> n < 2 ^ 63 \<Longrightarrow> sint (word_of_int n :: 64 word) = n"
  by (simp add: signed_of_int signed_take_bit_int_eq_self)

lemma arr_dist_forward:
  assumes "arr_rep e arr xs" "i \<le> j" "j \<le> length xs"
  shows "seq_arr_dist arr (i * e) (j * e) = Inr (int (j - i))"
proof -
  have r: "elt_size arr = e" "0 < e" "e < 2 ^ 26" "length xs < arr_cap arr"
    using assms(1) by (simp_all add: arr_rep_def)
  have n: "j - i < 2 ^ 24" using arr_rep_cap_le [OF assms(1)] r(4) assms(3) by linarith
  have "(j - i) * e < 2 ^ 51" using n by (intro arr_bytes_bound [OF r(3)]) simp
  then have "(j - i) * e < 2 ^ 64" by (rule less_trans) simp
  moreover have "i * e \<le> j * e" using assms(2) by (rule mult_le_mono1)
  then have "int (j * e) - int (i * e) = int ((j - i) * e)"
    by (simp add: of_nat_diff diff_mult_distrib flip: of_nat_mult)
  ultimately have "(int (j * e) - int (i * e)) mod 2 ^ 64 = int ((j - i) * e)"
    by (simp only:) (rule mod_pos_pos_trivial, simp_all del: of_nat_mult)
  moreover have "int ((j - i) * e) div int e = int (j - i)" using r(2) by (simp flip: zdiv_int)
  moreover have "sint (word_of_int (int (j - i)) :: 64 word) = int (j - i)"
    using n by (intro sint64_small) simp_all
  ultimately show ?thesis by (simp only: seq_arr_dist_def r Let_def) simp
qed

lemma arr_dist_backward:
  assumes "arr_rep e arr xs" "j < i" "i \<le> length xs" "2 \<le> e"
  shows "\<exists>n. seq_arr_dist arr (i * e) (j * e) = Inr n \<and> 0 < n"
proof -
  have r: "elt_size arr = e" "e < 2 ^ 26" "length xs < arr_cap arr"
    using assms(1) by (simp_all add: arr_rep_def)
  have n: "i - j < 2 ^ 24" using arr_rep_cap_le [OF assms(1)] r(3) assms(3) by linarith
  define m where "m = (i - j) * e"
  have "m < 2 ^ 51" unfolding m_def using n by (intro arr_bytes_bound [OF r(2)]) simp
  have "0 < m" using assms(2,4) by (simp add: m_def)
  have "j * e \<le> i * e" using assms(2) by (intro mult_le_mono1) simp
  then have "int (j * e) - int (i * e) = - int m"
    by (simp add: m_def of_nat_diff diff_mult_distrib flip: of_nat_mult)
  moreover have "(- int m) mod 2 ^ 64 = 2 ^ 64 - int m"
    using \<open>0 < m\<close> \<open>m < 2 ^ 51\<close> by (subst zmod_zminus1_eq_if) simp
  ultimately have d: "(int (j * e) - int (i * e)) mod 2 ^ 64 = 2 ^ 64 - int m" by simp
  let ?q = "(2 ^ 64 - int m) div int e"
  have "?q \<le> (2 ^ 64 - int m) div 2" using assms(4) \<open>m < 2 ^ 51\<close> by (intro zdiv_mono2) simp_all
  then have up: "?q < 2 ^ 63" using \<open>0 < m\<close> by simp
  have "int e \<le> 2 ^ 64 - int m" using r(2) \<open>m < 2 ^ 51\<close> by simp
  then have "0 < ?q" using assms(4) by (simp add: pos_imp_zdiv_pos_iff)
  then show ?thesis using up sint64_small [of ?q]
    by (simp only: seq_arr_dist_def r d Let_def) simp
qed

section \<open>Runs\<close>

text \<open>What the users of the array do with it: append an element, and erase the elements between
  two iterators, which are the positions \<open>i\<close> and \<open>j\<close> of elements or of the end.\<close>

datatype arr_op = Arr_push "u8 list" | Arr_erase nat nat

fun arr_do :: "arr_op \<Rightarrow> seq_arr \<Rightarrow> seq_arr res" where
  "arr_do (Arr_push x) arr = seq_arr_push_back arr x"
| "arr_do (Arr_erase i j) arr = seq_arr_erase arr (i * elt_size arr) (j * elt_size arr)"

definition arr_run :: "nat \<Rightarrow> arr_op list \<Rightarrow> seq_arr res" where
  "arr_run e ops = fold_res arr_do ops (seq_arr_init e)"

fun list_do :: "arr_op \<Rightarrow> u8 list list \<Rightarrow> u8 list list" where
  "list_do (Arr_push x) xs = xs @ [x]"
| "list_do (Arr_erase i j) xs = take i xs @ drop j xs"

fun op_ok :: "nat \<Rightarrow> arr_op \<Rightarrow> u8 list list \<Rightarrow> bool" where
  "op_ok e (Arr_push x) xs \<longleftrightarrow> length x = e \<and> length xs + 1 < 2 ^ 24"
| "op_ok e (Arr_erase i j) xs \<longleftrightarrow> i \<le> j \<and> j \<le> length xs"

fun ops_ok :: "nat \<Rightarrow> arr_op list \<Rightarrow> u8 list list \<Rightarrow> bool" where
  "ops_ok e [] xs \<longleftrightarrow> True"
| "ops_ok e (op # ops) xs \<longleftrightarrow> op_ok e op xs \<and> ops_ok e ops (list_do op xs)"

lemma arr_do_narrow:
  assumes "arr_rep e arr xs" "roomy arr" "e \<le> 33" "op_ok e op xs"
  shows "\<exists>arr'. arr_do op arr = Inr arr' \<and> arr_rep e arr' (list_do op xs) \<and> roomy arr'"
proof (cases op)
  case (Arr_push x)
  let ?a = "maybe_expand arr"
  have p: "length xs + 1 < 2 ^ 24" "length x = e" using assms(4) Arr_push by simp_all
  have a: "arr_rep e ?a xs" "length xs + 1 < arr_cap ?a" "roomy ?a"
    by (rule maybe_expand_rep [OF assms(1) p(1)] maybe_expand_rep(3) [OF assms(1) p(1) assms(2)])+
  have el: "elt_size ?a = e" using a(1) by (simp add: arr_rep_def)
  have "(length xs + 1) * e \<le> (arr_cap ?a - 1) * e" using a(2) by (intro mult_le_mono1) simp
  then have "(length xs + 1) * e \<le> length (arr_data ?a)" using a(3) by (simp add: roomy_def el)
  then obtain arr' where "seq_arr_push_back arr x = Inr arr'" "arr_rep e arr' (xs @ [x])"
    "arr_cap arr' = arr_cap ?a" "length (arr_data arr') = length (arr_data ?a)"
    using push_back_cases(1) [OF assms(1) p] by blast
  moreover from this have "roomy arr'" using a(3) by (simp add: roomy_def el) (simp add: arr_rep_def)
  ultimately show ?thesis using Arr_push by auto
next
  case (Arr_erase i j)
  have ij: "i \<le> j" "j \<le> length xs" using assms(4) Arr_erase by simp_all
  have el: "elt_size arr = e" using assms(1) by (simp add: arr_rep_def)
  have "length xs < 2 ^ 24" using arr_rep_cap_le [OF assms(1)] assms(1) by (simp add: arr_rep_def)
  then have "length xs * e \<le> 2 ^ 24 * 33" using assms(3) by (intro mult_le_mono) simp_all
  then have b: "length xs * e < 2 ^ 31" by simp
  show ?thesis
  proof (cases "i = j")
    case True
    then show ?thesis using erase_cases(1) [OF assms(1) b ij] assms(1,2) Arr_erase el by simp
  next
    case False
    then have lt: "i < j" using ij by simp
    obtain arr1 where a: "seq_arr_erase arr (i * e) (j * e) = maybe_shrink arr1"
      "arr_rep e arr1 (take i xs @ drop j xs)" "arr_cap arr1 = arr_cap arr"
      "length (arr_data arr1) = length (arr_data arr)"
      using erase_cases(2) [OF assms(1) b ij lt] by blast
    moreover have "elt_size arr1 = e" using a(2) by (simp add: arr_rep_def)
    then have "roomy arr1" using a(3,4) assms(2) by (simp add: roomy_def el)
    ultimately show ?thesis
      using maybe_shrink_narrow [OF a(2) assms(3)] Arr_erase el by auto
  qed
qed

lemma arr_runs_narrow:
  "arr_rep e arr xs \<Longrightarrow> roomy arr \<Longrightarrow> e \<le> 33 \<Longrightarrow> ops_ok e ops xs \<Longrightarrow>
    \<exists>arr'. fold_res arr_do ops arr = Inr arr' \<and> arr_rep e arr' (fold list_do ops xs) \<and> roomy arr'"
proof (induction ops arbitrary: arr xs)
  case (Cons op ops)
  then obtain arr1 where "arr_do op arr = Inr arr1" "arr_rep e arr1 (list_do op xs)" "roomy arr1"
    using arr_do_narrow [of e arr xs op] by auto
  then show ?case using Cons by simp
qed auto

text \<open>Elements of more than 33 bytes: growing to 64 places, shrinking to 32 and growing again
  leaves the allocation.\<close>

lemma pushes_no_growth:
  assumes "arr_rep e arr xs" "length xs + length ys < arr_cap arr" "\<forall>y\<in>set ys. length y = e"
    "length (arr_data arr) < (length xs + length ys) * e"
  shows "fold_res arr_do (map Arr_push ys) arr = Inl OutOfBounds"
  using assms
proof (induction ys arbitrary: arr xs)
  case Nil
  then show ?case by (simp add: arr_rep_def)
next
  case (Cons y ys)
  have sz: "length xs + 1 < 2 ^ 24" using Cons.prems(2) arr_rep_cap_le [OF Cons.prems(1)] by simp
  have "arr_size arr = length xs" using Cons.prems(1) by (simp add: arr_rep_def)
  then have a: "maybe_expand arr = arr" using Cons.prems(2) sz by (simp add: maybe_expand_def)
  have y: "length y = e" using Cons.prems(3) by simp
  show ?case
  proof (cases "(length xs + 1) * e \<le> length (arr_data arr)")
    case True
    then obtain arr' where "seq_arr_push_back arr y = Inr arr'" "arr_rep e arr' (xs @ [y])"
      "arr_cap arr' = arr_cap arr" "length (arr_data arr') = length (arr_data arr)"
      using push_back_cases(1) [OF Cons.prems(1) sz y] a by auto
    then show ?thesis using Cons.prems Cons.IH [of arr' "xs @ [y]"] by simp
  next
    case False
    then have "seq_arr_push_back arr y = Inl OutOfBounds"
      using push_back_cases(2) [OF Cons.prems(1) sz y] a by simp
    then show ?thesis by simp
  qed
qed

lemma pushes_roomy:
  assumes "arr_rep e arr xs" "roomy arr" "length xs + length ys < 2 ^ 24" "\<forall>y\<in>set ys. length y = e"
    "arr_cap arr \<le> max 8 (2 * length xs)"
  shows "\<exists>arr'. fold_res arr_do (map Arr_push ys) arr = Inr arr' \<and> arr_rep e arr' (xs @ ys) \<and>
    arr_cap arr' \<le> max 8 (2 * length (xs @ ys))"
  using assms
proof (induction ys arbitrary: arr xs)
  case (Cons y ys)
  let ?a = "maybe_expand arr"
  have p: "length xs + 1 < 2 ^ 24" "length y = e" using Cons.prems(3,4) by simp_all
  have a: "arr_rep e ?a xs" "length xs + 1 < arr_cap ?a" "roomy ?a"
    by (rule maybe_expand_rep [OF Cons.prems(1) p(1)] maybe_expand_rep(3) [OF Cons.prems(1) p(1) Cons.prems(2)])+
  have el: "elt_size ?a = e" using a(1) by (simp add: arr_rep_def)
  have "(length xs + 1) * e \<le> (arr_cap ?a - 1) * e" using a(2) by (intro mult_le_mono1) simp
  then have "(length xs + 1) * e \<le> length (arr_data ?a)" using a(3) by (simp add: roomy_def el)
  then obtain arr' where p': "seq_arr_push_back arr y = Inr arr'" "arr_rep e arr' (xs @ [y])"
    "arr_cap arr' = arr_cap ?a" "length (arr_data arr') = length (arr_data ?a)"
    using push_back_cases(1) [OF Cons.prems(1) p] by blast
  then have "roomy arr'" using a(3) by (simp add: roomy_def el) (simp add: arr_rep_def)
  moreover have "size_t (arr_cap arr * 2) = arr_cap arr * 2" "arr_size arr = length xs"
    using arr_rep_cap_le [OF Cons.prems(1)] Cons.prems(1) by (simp_all add: arr_rep_def)
  then have "arr_cap ?a \<le> max 8 (2 * length (xs @ [y]))"
    using Cons.prems(5) p(1) by (auto simp: maybe_expand_def)
  ultimately show ?case
    using Cons.IH [OF p'(2), unfolded p'(3)] Cons.prems(3,4) p'(1) by simp
qed auto

text \<open>The run: 32 elements are added, the first 23 erased, 22 added.\<close>

definition refill_ops :: "nat \<Rightarrow> arr_op list" where
  "refill_ops e = map Arr_push (replicate 32 (replicate e 0)) @ [Arr_erase 0 23] @
    map Arr_push (replicate 22 (replicate e 0))"

lemma ops_ok_append: "ops_ok e (ops @ ops') xs \<longleftrightarrow> ops_ok e ops xs \<and> ops_ok e ops' (fold list_do ops xs)"
  by (induction ops arbitrary: xs) auto

lemma fold_pushes: "fold list_do (map Arr_push ys) xs = xs @ ys"
  by (induction ys arbitrary: xs) simp_all

lemma arr_pushes_ok:
  "(\<forall>y\<in>set ys. length y = e) \<Longrightarrow> length xs + length ys < 2 ^ 24 \<Longrightarrow> ops_ok e (map Arr_push ys) xs"
  by (induction ys arbitrary: xs) simp_all

lemma refill_ops_ok: "ops_ok e (refill_ops e) []"
proof -
  have ok: "ops_ok e (map Arr_push (replicate n (replicate e 0))) xs" if "length xs + n < 2 ^ 24" for n xs
    using that by (intro arr_pushes_ok) simp_all
  have r: "ops_ok e (map Arr_push (replicate 32 (replicate e 0))) []"
    "ops_ok e (map Arr_push (replicate 22 (replicate e 0))) (replicate 9 (replicate e 0))"
    by (rule ok, simp)+
  show ?thesis
    unfolding refill_ops_def ops_ok_append fold_pushes
    using r by (simp add: drop_replicate)
qed

lemma refill_overflows:
  assumes "33 < e" "e < 2 ^ 26"
  shows "arr_run e (refill_ops e) = Inl OutOfBounds"
proof -
  let ?x = "replicate e (0 :: u8)"
  have "0 < e" using assms(1) by simp
  note init = arr_rep_init [OF this assms(2)]
  obtain a where a: "fold_res arr_do (map Arr_push (replicate 32 ?x)) (seq_arr_init e) = Inr a"
    "arr_rep e a (replicate 32 ?x)" "arr_cap a \<le> 64"
    using pushes_roomy [of e "seq_arr_init e" "[]" "replicate 32 ?x"] init
    by (auto simp: seq_arr_init_def)
  obtain k where k: "arr_cap a = 2 ^ k" "32 < arr_cap a" using a(2) by (auto simp: arr_rep_def)
  then have "(2::nat) ^ 5 < 2 ^ k" "(2::nat) ^ k \<le> 2 ^ 6" using a(3) by simp_all
  then have "5 < k" "k \<le> 6" by (simp_all only: power_strict_increasing_iff power_increasing_iff one_less_numeral_iff semiring_norm)
  then have "k = 6" by simp
  then have c: "arr_cap a = 64" using k by simp
  have b: "length (replicate 32 ?x) * e < 2 ^ 31" using assms(2) by simp
  have el: "elt_size a = e" using a(2) by (simp add: arr_rep_def)
  obtain a1 where a1: "seq_arr_erase a (0 * e) (23 * e) = maybe_shrink a1"
    "arr_rep e a1 (take 0 (replicate 32 ?x) @ drop 23 (replicate 32 ?x))" "arr_cap a1 = 64"
    using erase_cases(2) [OF a(2) b, of 0 23] c by auto
  then have r1: "arr_rep e a1 (replicate 9 ?x)" by (simp add: drop_replicate)
  show ?thesis
  proof (cases "9 * e \<le> 1024")
    case True
    then obtain a2 where a2: "maybe_shrink a1 = Inr a2" "arr_rep e a2 (replicate 9 ?x)" "arr_cap a2 = 32"
      "length (arr_data a2) = 1024"
      using maybe_shrink_cases(2) [OF r1] a1(3) by (auto)
    have "fold_res arr_do (map Arr_push (replicate 22 ?x)) a2 = Inl OutOfBounds"
      by (rule pushes_no_growth [OF a2(2)]) (use a2(3,4) assms(1) in simp_all)
    then show ?thesis
      using a(1) a1(1) a2(1) el
      by (simp add: arr_run_def refill_ops_def fold_res_append del: map_replicate)
  next
    case False
    then have "maybe_shrink a1 = Inl OutOfBounds"
      using maybe_shrink_cases(3) [OF r1] a1(3) by (simp)
    then show ?thesis
      using a(1) a1(1) el
      by (simp add: arr_run_def refill_ops_def fold_res_append del: map_replicate)
  qed
qed

end
