(* ===== verification/ContainerProps.thy ===== *)
theory ContainerProps
  imports BiMap AssocReg RbUpdate RegE2Nodes SeqArr
begin

text \<open>
  The properties of the containers: the red-black tree, the bidirectional map, the
  registry and the dynamic array of \<open>src/util/alg_ds\<close>, and the registry of E2 nodes built on them.  The model
  and the lemmas are in the theories of the containers.
\<close>

text \<open>Ran function identifiers with a comparator of the code are the concrete trees of
  the witnesses.\<close>

definition small_tree :: "(u16, nat) assoc_rb_tree" where
  "small_tree = \<lparr>root = Node ASSOC_BLACK (Node ASSOC_RED Dummy 142 10 Dummy) 143 11 Dummy,
    comp = cmp_ran_func_id, tsize = 2\<rparr>"

lemma small_tree_entries: "rb_entries small_tree = [(142, 10), (143, 11)]"
  by (simp add: small_tree_def rb_entries_def)

lemma small_tree_inv: "rb_inv cmp_ran_func_id UNIV small_tree"
  by (simp add: rb_inv_def small_tree_entries)
     (simp add: small_tree_def rb_ok_def sorted_entries_def cmp_ran_func_id_def blk_def)

text \<open>C28: Inserting a key into a well-formed red-black tree does not fail, keeps the order
  of the keys, the red-black balance and the stored size, and adds exactly the one entry,
  after the entries whose key does not come later.\<close>

theorem rb_insert_correct:
  assumes "comparator cmp D" "rb_inv cmp D tree" "key \<in> D"
  shows "\<exists>t'. assoc_rb_tree_insert tree key v = Inr t' \<and> rb_inv cmp D t' \<and>
    rb_entries t' = ins_entry cmp key v (rb_entries tree) \<and>
    assoc_rb_tree_size t' = assoc_rb_tree_size tree + 1"
proof -
  obtain t' where "assoc_rb_tree_insert tree key v = Inr t'" "rb_inv cmp D t'"
    "rb_entries t' = ins_entry cmp key v (rb_entries tree)"
    using comparator.rb_insert_ok [OF assms] by blast
  then show ?thesis using assms(2) by (simp add: rb_size_entries)
qed

theorem rb_insert_correct_witness:
  "\<exists>t'. assoc_rb_tree_insert small_tree 7 (12::nat) = Inr t' \<and> rb_inv cmp_ran_func_id UNIV t' \<and>
    rb_entries t' = [(7, 12), (142, 10), (143, 11)] \<and> assoc_rb_tree_size t' = 3"
  using rb_insert_correct [OF ran_func.comparator_axioms small_tree_inv, of 7 12]
  by (simp add: small_tree_entries cmp_ran_func_id_def assoc_rb_tree_size_def)
     (simp add: small_tree_def)

text \<open>C29: Extracting a key the comparator finds in a well-formed tree returns the value of one
  matching entry and leaves the other entries in order in a well-formed tree; extracting a
  key that is not there stops at the assertion.\<close>

theorem rb_extract_correct:
  assumes "comparator cmp D" "rb_inv cmp D tree" "key \<in> D"
  shows "if fresh_key cmp key (rb_entries tree) then assoc_rb_tree_extract tree key = Inl AssertFail
    else \<exists>k' v t' xs ys. assoc_rb_tree_extract tree key = Inr (v, t') \<and> rb_inv cmp D t' \<and>
      cmp key k' = 0 \<and> rb_entries tree = xs @ (k', v) # ys \<and> rb_entries t' = xs @ ys"
  using comparator.rb_extract_absent [OF assms] comparator.rb_extract_found [OF assms] by simp

theorem rb_extract_correct_witness:
  "(\<exists>k' v t' xs ys. assoc_rb_tree_extract small_tree 143 = Inr (v, t') \<and>
     rb_inv cmp_ran_func_id UNIV t' \<and> cmp_ran_func_id 143 k' = 0 \<and>
     rb_entries small_tree = xs @ (k', v) # ys \<and> rb_entries t' = xs @ ys) \<and>
   assoc_rb_tree_extract small_tree 9 = Inl AssertFail"
  using rb_extract_correct [OF ran_func.comparator_axioms small_tree_inv, of 143]
    rb_extract_correct [OF ran_func.comparator_axioms small_tree_inv, of 9]
  by (simp add: small_tree_entries fresh_key_def cmp_ran_func_id_def)

text \<open>C30: The dynamic array refines a list as long as an element has at most 33 bytes: after any run of
  appends of elements of that size and erasures of ranges between two positions, with fewer than \<open>2 ^ 24\<close>
  elements at any time, the number of elements, the loop over them, the search with a predicate
  and the access by position are those of the list.  With more than 33 and fewer than \<open>2 ^ 26\<close> bytes it does
  not: \<open>maybe_shrink\<close> allocates the square of the capacity and not its product with the size of an element,
  and for each such size the run \<open>refill_ops\<close>, which appends 32 elements, erases 23 and appends 22, leaves the
  allocation.\<close>

theorem seq_arr_refines:
  assumes "0 < e" "e < 2 ^ 26"
  shows "(e \<le> 33 \<and> ops_ok e ops [] \<and> xs = fold list_do ops [] \<longrightarrow>
      (\<exists>a. arr_run e ops = Inr a \<and> seq_arr_size a = length xs \<and>
        for_each_arr a (seq_arr_front a) (seq_arr_end a) f s = Some (fold_res f xs s) \<and>
        find_if_arr a (seq_arr_front a) (seq_arr_end a) p =
          Some (Inr (length (takeWhile (\<lambda>x. \<not> p x) xs) * e)) \<and>
        (\<forall>i<length xs. seq_arr_at a (of_nat i) = Inr (i * e) \<and> arr_elt a (i * e) = Inr (xs ! i)))) \<and>
    (33 < e \<longrightarrow> ops_ok e (refill_ops e) [] \<and> arr_run e (refill_ops e) = Inl OutOfBounds)"
proof (intro conjI impI)
  assume h: "e \<le> 33 \<and> ops_ok e ops [] \<and> xs = fold list_do ops []"
  obtain a where a: "arr_run e ops = Inr a" "arr_rep e a xs"
    using arr_runs_narrow [of e "seq_arr_init e" "[]" ops] arr_rep_init [OF assms] h by (auto simp: arr_run_def)
  have "seq_arr_size a = length xs" using a(2) by (simp add: seq_arr_size_def arr_rep_def)
  then show "\<exists>a. arr_run e ops = Inr a \<and> seq_arr_size a = length xs \<and>
      for_each_arr a (seq_arr_front a) (seq_arr_end a) f s = Some (fold_res f xs s) \<and>
      find_if_arr a (seq_arr_front a) (seq_arr_end a) p = Some (Inr (length (takeWhile (\<lambda>x. \<not> p x) xs) * e)) \<and>
      (\<forall>i<length xs. seq_arr_at a (of_nat i) = Inr (i * e) \<and> arr_elt a (i * e) = Inr (xs ! i))"
    using a for_each_ok [OF a(2), of 0 f s] find_if_ok [OF a(2), of 0 p] arr_at_ok [OF a(2)] arr_elt_ok [OF a(2)]
    by (auto simp: seq_arr_front_def)
qed (use assms in \<open>simp_all add: refill_ops_ok refill_overflows\<close>)

theorem seq_arr_refines_witness:
  "(\<exists>a. arr_run 2 [Arr_push [1, 2], Arr_push [3, 4], Arr_push [5, 6], Arr_erase 0 1] = Inr a \<and> seq_arr_size a = 2 \<and>
     find_if_arr a (seq_arr_front a) (seq_arr_end a) (\<lambda>x. x = [5, 6]) = Some (Inr 2) \<and>
     seq_arr_at a 1 = Inr 2 \<and> arr_elt a 2 = Inr [5, 6]) \<and>
   ops_ok 40 (refill_ops 40) [] \<and> arr_run 40 (refill_ops 40) = Inl OutOfBounds"
proof (rule conjI, goal_cases)
  case 1
  let ?ops = "[Arr_push [1, 2], Arr_push [3, 4], Arr_push [5, 6], Arr_erase 0 1] :: arr_op list"
  have "ops_ok 2 ?ops []" "fold list_do ?ops [] = [[3, 4], [5, 6]]" by simp_all
  then obtain a where a: "arr_run 2 ?ops = Inr a" "seq_arr_size a = 2"
    "find_if_arr a (seq_arr_front a) (seq_arr_end a) (\<lambda>x. x = [5, 6]) = Some (Inr 2)"
    "seq_arr_at a (of_nat 1) = Inr 2" "arr_elt a 2 = Inr [5, 6]"
    using seq_arr_refines [of 2 ?ops "[[3, 4], [5, 6]]" "\<lambda>x s. Inr s" "()" "\<lambda>x. x = [5, 6]"] by auto
  then show ?case by (intro exI [of _ a]) simp
next
  case 2
  show ?case using seq_arr_refines [of 40] by simp
qed

text \<open>C33: The loop from \<open>front\<close> to \<open>end\<close> with \<open>next\<close> visits every entry of a tree once, in
  the order of the keys, and ends; \<open>next\<close> never leaves the tree before the end.\<close>

theorem rb_iteration_complete:
  "rb_foreach (\<lambda>k v acc. Inr (acc @ [(k, v)])) (assoc_rb_tree_front tree) [] = Inr (rb_entries tree)"
proof -
  have *: "fold_res (\<lambda>(k, v) acc. Inr (acc @ [(k, v)])) es a = Inr (a @ es)" for es a
    by (induction es arbitrary: a) auto
  show ?thesis unfolding rb_foreach_eq it_entries_front * by simp
qed

text \<open>C34: A pair with two keys of its own that is inserted into a bidirectional map is found
  under both keys, and extracting its second key gives the first key back together with a
  map that holds the pairs of before.\<close>

theorem bi_map_insert_extract:
  assumes "two_comparators c1 D1 c2 D2" "bm_inv c1 D1 c2 D2 m" "bm_uniq c1 c2 m" "k1 \<in> D1" "k2 \<in> D2"
    "bm_get_left c1 m k1 = None" "bm_get_right c2 m k2 = None"
  shows "\<exists>m' m''. bi_map_insert m k1 k2 = Inr m' \<and> bm_inv c1 D1 c2 D2 m' \<and> bm_uniq c1 c2 m' \<and>
    bm_get_left c1 m' k1 = Some k2 \<and> bm_get_right c2 m' k2 = Some k1 \<and>
    bi_map_size m' = Inr (length (bm_pairs m) + 1) \<and>
    bi_map_extract_right m' k2 = Inr (k1, m'') \<and> bm_inv c1 D1 c2 D2 m'' \<and> bm_pairs m'' = bm_pairs m"
proof -
  have c: "comparator c1 D1" "comparator c2 D2" using assms(1) by (simp_all add: two_comparators_def)
  obtain m' where ins: "bi_map_insert m k1 k2 = Inr m'" "bm_inv c1 D1 c2 D2 m'" "bm_uniq c1 c2 m'"
    "\<And>q. q \<in> D1 \<Longrightarrow> bm_get_left c1 m' q = (if c1 q k1 = 0 then Some k2 else bm_get_left c1 m q)"
    "\<And>q. q \<in> D2 \<Longrightarrow> bm_get_right c2 m' q = (if c2 q k2 = 0 then Some k1 else bm_get_right c2 m q)"
    using two_comparators.insert_uniq [OF assms] by metis
  have pairs: "bm_pairs m' = ins_entry c1 k1 k2 (bm_pairs m)"
    using two_comparators.insert_ok [OF assms(1,2,4,5)] ins(1) by auto
  have r: "bm_get_right c2 m' k2 = Some k1" "bm_get_left c1 m' k1 = Some k2"
    using ins(4,5) assms(4,5) comparator.cmp_refl [OF c(1)] comparator.cmp_refl [OF c(2)] by auto
  obtain m'' where ext: "bi_map_extract_right m' k2 = Inr (k1, m'')" "bm_inv c1 D1 c2 D2 m''"
    "bm_pairs m'' = del_key c1 k1 (bm_pairs m')"
    using two_comparators.extract_right_ok [OF assms(1) ins(2,3) assms(5) r(1)] by metis
  have "fresh_key c1 k1 (bm_pairs m)"
    using assms(6) by (simp add: bm_get_left_def bm_pairs_def get_key_None_iff)
  then have "bm_pairs m'' = bm_pairs m"
    using ext(3) pairs comparator.cmp_refl [OF c(1) assms(4)] comparator.del_ins_entry [OF c(1)]
      assms(4) by metis
  then show ?thesis using ins(1-3) r ext(1,2) bi_map_size_ok [OF ins(2)] pairs by auto
qed

theorem bi_map_insert_extract_witness:
  "\<exists>m' m''. bi_map_insert (bi_map_init cmp_fd cmp_ran_func_id) 5 142 = Inr m' \<and>
    bm_get_left cmp_fd m' 5 = Some 142 \<and> bm_get_right cmp_ran_func_id m' 142 = Some 5 \<and>
    bi_map_extract_right m' 142 = Inr (5, m'') \<and> bm_pairs m'' = []"
proof -
  have *: "two_comparators cmp_fd fd_dom cmp_ran_func_id UNIV"
    by (rule two_comparators.intro [OF fd.comparator_axioms ran_func.comparator_axioms])
  show ?thesis
    using bi_map_insert_extract [OF * bm_inv_init bm_uniq_init, of 5 142]
    by (auto simp: bm_get_left_def bm_get_right_def bi_map_init_def bm_pairs_def)
qed

text \<open>A value pushed into a well-formed registry gets a fresh key above all the keys in
  use; the search by bisection for that key finds the value, the searches for the other
  keys find what they found before, and the checks of the registry's own
  \<open>test_invariants_registry_hold\<close> stay true.\<close>

theorem reg_push_find:
  assumes "reg_inv reg" "key_id reg < 2 ^ 32"
  shows "\<exists>reg' it. assoc_reg_push_back reg v = Inr (of_nat (key_id reg), reg') \<and> reg_inv reg' \<and>
    test_invariants_registry_hold reg' \<and>
    reg_entries reg' = reg_entries reg @ [(of_nat (key_id reg), v)] \<and>
    find_reg reg' (assoc_reg_front reg') (assoc_reg_end reg') (of_nat (key_id reg)) = Inr it \<and>
    assoc_reg_value reg' it = Inr v"
proof -
  obtain reg' where reg': "assoc_reg_push_back reg v = Inr (of_nat (key_id reg), reg')" "reg_inv reg'"
    "reg_entries reg' = reg_entries reg @ [(of_nat (key_id reg), v)]"
    using push_back_ok [OF assms] by blast
  have pos: "(0::u32) < of_nat (key_id reg)"
    using assms unfolding reg_inv_def by (simp add: word_less_nat_alt unat_of_nat take_bit_eq_mod)
  obtain it where it: "find_reg reg' (assoc_reg_front reg') (assoc_reg_end reg') (of_nat (key_id reg)) = Inr it"
    "if it = assoc_reg_end reg' then of_nat (key_id reg) \<notin> fst ` set (reg_entries reg')
     else \<exists>v. bucket_at reg' it (of_nat (key_id reg)) v"
    using find_reg_ok [OF reg'(2) pos] by blast
  then obtain w where w: "bucket_at reg' it (of_nat (key_id reg)) w" using reg'(3) by (auto split: if_splits)
  then have "(of_nat (key_id reg), w) \<in> set (reg_entries reg')"
    using entries_bucket_at [OF reg'(2)] by blast
  moreover have "(of_nat (key_id reg), v) \<in> set (reg_entries reg')" using reg'(3) by simp
  ultimately have "w = v" using reg_distinct [OF reg'(2)] by (metis map_of_eq_Some_iff option.inject)
  then have "assoc_reg_value reg' it = Inr v"
    using w by (auto simp: bucket_at_def assoc_reg_value_def iterator_in_ds_def)
  then show ?thesis using reg' it invariants_hold [OF reg'(2)] by blast
qed

theorem reg_push_find_witness:
  "\<exists>reg' it. assoc_reg_push_back assoc_reg_init ''a'' = Inr (1, reg') \<and>
    find_reg reg' (assoc_reg_front reg') (assoc_reg_end reg') 1 = Inr it \<and>
    assoc_reg_value reg' it = Inr ''a''"
  using reg_push_find [OF reg_inv_init(1), of "''a''"] by (auto simp: assoc_reg_init_def)

text \<open>A registry from which the key 2 was erased.\<close>

definition small_reg :: "nat assoc_reg" where
  "small_reg =
    \<lparr>arr = [\<lparr>bkey = 1, has_value = True, bval = Some 10\<rparr>, \<lparr>bkey = 2, has_value = False, bval = Some 20\<rparr>,
            \<lparr>bkey = 3, has_value = True, bval = Some 30\<rparr>] @ replicate 13 zero_bucket,
     sz = 2, cap = 16, occ_bucket = 3, key_id = 4\<rparr>"

lemma small_reg_entries: "reg_entries small_reg = [(1, 10), (3, 30)]"
  by (simp add: small_reg_def reg_entries_def occ_def)

lemma small_reg_inv: "reg_inv small_reg"
proof -
  have "\<exists>n. (16::nat) = MIN_SIZE * 2 ^ n" by (rule exI [of _ 0]) (simp add: MIN_SIZE_def)
  then show ?thesis
    by (simp add: reg_inv_def reg_shape_def reg_keys_def small_reg_def occ_def)
qed

text \<open>C35: Erasing the bucket an iterator points to, up to its successor, removes exactly
  that entry and keeps the registry well formed, whether or not the array is compacted or
  shrunk on the way.\<close>

theorem reg_erase_correct:
  assumes "reg_inv reg" "bucket_at reg it k v"
  shows "\<exists>nxt reg'. assoc_reg_next reg it = Inr nxt \<and> assoc_reg_erase reg it nxt = Inr reg' \<and>
    reg_inv reg' \<and> reg_entries reg' = filter (\<lambda>e. fst e \<noteq> k) (reg_entries reg) \<and>
    test_invariants_registry_hold reg'"
  using erase_one_ok [OF assms] invariants_hold by blast

theorem reg_erase_correct_witness:
  "\<exists>nxt reg'. assoc_reg_next small_reg 2 = Inr nxt \<and> assoc_reg_erase small_reg 2 nxt = Inr reg' \<and>
    reg_inv reg' \<and> reg_entries reg' = [(1, 10)] \<and> test_invariants_registry_hold reg'"
  using reg_erase_correct [OF small_reg_inv, of 2 3 30]
  by (simp add: small_reg_entries bucket_at_def) (simp add: small_reg_def)

text \<open>\<open>remove_if\<close> on a registry removes exactly the values the predicate holds of,
  returns their keys in order, and keeps the registry well formed.\<close>

theorem reg_remove_if_correct:
  assumes "reg_inv reg"
  shows "\<exists>ks reg'. remove_if_range_reg reg f = Inr (ks, reg') \<and> reg_inv reg' \<and>
    ks = map fst (filter (\<lambda>e. f (Some (snd e))) (reg_entries reg)) \<and>
    reg_entries reg' = filter (\<lambda>e. \<not> f (Some (snd e))) (reg_entries reg)"
  using remove_if_range_ok [OF assms] by blast

theorem reg_remove_if_correct_witness:
  "\<exists>ks reg'. remove_if_range_reg small_reg (\<lambda>v. v = Some 30) = Inr (ks, reg') \<and>
    reg_inv reg' \<and> ks = [3] \<and> reg_entries reg' = [(1, 10)]"
  using reg_remove_if_correct [OF small_reg_inv, of "\<lambda>v. v = Some 30"] by (simp add: small_reg_entries)

end
