(* ===== verification/Bytes.thy ===== *)
theory Bytes
  imports E2apMsg
begin

text \<open>
  Bytes in memory.  The plain codecs of the service models copy integers and structs with
  \<open>memcpy\<close>, so the bytes on the wire are those in memory: little endian, with the padding of the
  x86-64 ABI.  \<open>le\<close> writes an integer of any width, \<open>un_le\<close> reads one; a read past the end of a
  buffer is the outcome \<open>OutOfBounds\<close>.  The bytes of padding are not specified: an encoder gets
  them as an argument.
\<close>

section \<open>Integers\<close>

definition le :: "'a::len word \<Rightarrow> byte_array" where
  "le w = map (\<lambda>i. ucast (drop_bit (8 * i) w)) [0..<LENGTH('a) div 8]"

primrec un_le :: "byte_array \<Rightarrow> 'a::len word" where
  "un_le [] = 0"
| "un_le (b # bs) = or (ucast b) (push_bit 8 (un_le bs))"

lemma length_le [simp]: "length (le (w :: 'a::len word)) = LENGTH('a) div 8"
  by (simp add: le_def)

lemma bit_un_le:
  "bit (un_le bs :: 'a::len word) n \<longleftrightarrow> n < LENGTH('a) \<and> n div 8 < length bs \<and> bit (bs ! (n div 8)) (n mod 8)"
proof (induction bs arbitrary: n)
  case (Cons b bs)
  show ?case
  proof (cases "n < 8")
    case True
    then show ?thesis by (auto simp: bit_or_iff bit_push_bit_iff bit_ucast_iff)
  next
    case False
    then have "n = 8 + (n - 8)" by simp
    then obtain m where m: "n = 8 + m" by blast
    have b: "\<not> bit b (8 + m)" by (auto dest: bit_imp_le_length)
    have d: "(8 + m) div 8 = Suc (m div 8)" by simp
    show ?thesis
      by (auto simp: m b d bit_or_iff bit_push_bit_iff bit_ucast_iff Cons.IH dest: bit_imp_le_length)
  qed
qed simp

lemma un_le_le:
  assumes "8 dvd LENGTH('a)"
  shows "un_le (le (w :: 'a::len word)) = w"
proof (rule bit_word_eqI)
  fix n assume n: "n < LENGTH('a)"
  then have d: "n div 8 < LENGTH('a) div 8" using assms by (auto simp: dvd_def)
  have e: "n mod 8 + 8 * (n div 8) = n" "8 * (n div 8) + n mod 8 = n" by simp_all
  have "bit (ucast (drop_bit (8 * (n div 8)) w) :: u8) (n mod 8) = bit w n"
    by (simp add: bit_ucast_iff bit_drop_bit_eq e)
  then show "bit (un_le (le w) :: 'a word) n = bit w n"
    using n d by (simp add: bit_un_le le_def)
qed

section \<open>Sequences of reads\<close>

text \<open>The next integer of a struct, and the next \<open>n\<close> bytes of a buffer.\<close>

definition rd_le :: "byte_array \<Rightarrow> 'a::len word \<times> byte_array" where
  "rd_le bs = (un_le (take (LENGTH('a) div 8) bs), drop (LENGTH('a) div 8) bs)"

lemma rd_le_append [simp]:
  "8 dvd LENGTH('a) \<Longrightarrow> rd_le (le (w :: 'a::len word) @ bs) = (w, bs)"
  by (simp add: rd_le_def un_le_le)

definition memcpy_from :: "nat \<Rightarrow> byte_array \<Rightarrow> (byte_array \<times> byte_array) res" where
  "memcpy_from n bs = (if length bs < n then Inl OutOfBounds else Inr (take n bs, drop n bs))"

lemma memcpy_from_append [simp]: "length as = n \<Longrightarrow> memcpy_from n (as @ bs) = Inr (as, bs)"
  by (simp add: memcpy_from_def)

lemma memcpy_from_all [simp]: "length as = n \<Longrightarrow> memcpy_from n as = Inr (as, [])"
  by (simp add: memcpy_from_def)

text \<open>A fixed-size integer that is the whole buffer, as in \<open>assert(len == sizeof(x)); memcpy\<close>.\<close>

definition dec_exact :: "byte_array \<Rightarrow> 'a::len word res" where
  "dec_exact bs = res_bind (c_assert (length bs = LENGTH('a) div 8)) (\<lambda>_. Inr (un_le bs))"

lemma dec_exact_le [simp]: "8 dvd LENGTH('a) \<Longrightarrow> dec_exact (le (w :: 'a::len word)) = Inr w"
  by (simp add: dec_exact_def un_le_le)

section \<open>Arrays of structs\<close>

text \<open>The loops over the \<open>n\<close> elements of an array: an element that is not there is a read past
  the end.  \<open>put\<close> gets the padding of its element, \<open>get\<close> the bytes of one.\<close>

fun put_elems :: "((nat \<Rightarrow> u8) \<Rightarrow> 'a \<Rightarrow> byte_array) \<Rightarrow> (nat \<Rightarrow> nat \<Rightarrow> u8) \<Rightarrow> nat \<Rightarrow> 'a list \<Rightarrow> byte_array res" where
  "put_elems put pads 0 xs = Inr []"
| "put_elems put pads (Suc n) [] = Inl OutOfBounds"
| "put_elems put pads (Suc n) (x # xs) =
    res_bind (put_elems put (\<lambda>i. pads (Suc i)) n xs) (\<lambda>bs. Inr (put (pads 0) x @ bs))"

fun get_elems :: "nat \<Rightarrow> (byte_array \<Rightarrow> 'a) \<Rightarrow> nat \<Rightarrow> byte_array \<Rightarrow> ('a list \<times> byte_array) res" where
  "get_elems sz get 0 bs = Inr ([], bs)"
| "get_elems sz get (Suc n) bs =
    res_bind (memcpy_from sz bs) (\<lambda>(b, bs').
    res_bind (get_elems sz get n bs') (\<lambda>(xs, r). Inr (get b # xs, r)))"

definition take_elems :: "nat \<Rightarrow> 'a list \<Rightarrow> 'a list res" where
  "take_elems n xs = (if length xs < n then Inl OutOfBounds else Inr (take n xs))"

fun eq_elems :: "('a \<Rightarrow> 'a \<Rightarrow> bool res) \<Rightarrow> nat \<Rightarrow> 'a list \<Rightarrow> 'a list \<Rightarrow> bool res" where
  "eq_elems eq 0 xs ys = Inr True"
| "eq_elems eq (Suc n) (x # xs) (y # ys) =
    res_bind (eq x y) (\<lambda>b. if b then eq_elems eq n xs ys else Inr False)"
| "eq_elems eq (Suc n) xs ys = Inl OutOfBounds"

text \<open>\<open>assert\<close> of a comparison.\<close>

definition must :: "bool res \<Rightarrow> unit res" where
  "must r = res_bind r c_assert"

lemma must_simps [simp]: "must (Inr True) = Inr ()" "must (Inr False) = Inl AssertFail" "must (Inl e) = Inl e"
  by (simp_all add: must_def)

lemma take_elems_all [simp]: "take_elems (length xs) xs = Inr xs"
  by (simp add: take_elems_def)

lemma eq_elems_exact:
  "length xs = n \<Longrightarrow> length ys = n \<Longrightarrow> (\<And>x y. eq x y = Inr (x = y)) \<Longrightarrow> eq_elems eq n xs ys = Inr (xs = ys)"
  by (induction eq n xs ys rule: eq_elems.induct) auto

text \<open>A codec of an array: the layout of one element has a fixed size and is read back whatever
  the padding.\<close>

locale struct_codec =
  fixes sz :: nat and put :: "(nat \<Rightarrow> u8) \<Rightarrow> 'a \<Rightarrow> byte_array" and get :: "byte_array \<Rightarrow> 'a"
  assumes put_size: "length (put pad x) = sz"
    and get_put: "get (put pad x) = x"
begin

lemma put_ok: "\<exists>bs. put_elems put pads (length xs) xs = Inr bs \<and> length bs = sz * length xs \<and>
    (\<forall>r. get_elems sz get (length xs) (bs @ r) = Inr (xs, r))"
proof (induction xs arbitrary: pads)
  case (Cons x xs)
  from Cons.IH [of "\<lambda>i. pads (Suc i)"] obtain bs where
    "put_elems put (\<lambda>i. pads (Suc i)) (length xs) xs = Inr bs" "length bs = sz * length xs"
    "\<And>r. get_elems sz get (length xs) (bs @ r) = Inr (xs, r)" by blast
  then show ?case by (simp add: put_size get_put)
qed simp

lemma put_elems_ok:
  obtains bs where "put_elems put pads (length xs) xs = Inr bs" "length bs = sz * length xs"
    "\<And>r. get_elems sz get (length xs) (bs @ r) = Inr (xs, r)"
  using put_ok [of pads xs] by blast

end

section \<open>Floats\<close>

text \<open>A \<open>float\<close> is its 32 bits.  The operators \<open>!=\<close> and \<open>==\<close>: a NaN differs from everything, the two
  zeros are equal.\<close>

definition f32_nan :: "u32 \<Rightarrow> bool" where
  "f32_nan b \<longleftrightarrow> and (drop_bit 23 b) 0xFF = 0xFF \<and> and b 0x7FFFFF \<noteq> 0"

definition f32_zero :: "u32 \<Rightarrow> bool" where
  "f32_zero b \<longleftrightarrow> and b 0x7FFFFFFF = 0"

definition f32_ne :: "u32 \<Rightarrow> u32 \<Rightarrow> bool" where
  "f32_ne a b \<longleftrightarrow> f32_nan a \<or> f32_nan b \<or> (a \<noteq> b \<and> \<not> (f32_zero a \<and> f32_zero b))"

definition f32_eq :: "u32 \<Rightarrow> u32 \<Rightarrow> bool" where
  "f32_eq a b \<longleftrightarrow> \<not> f32_ne a b"

lemma f32_eq_refl [simp]: "f32_eq a a \<longleftrightarrow> \<not> f32_nan a"
  by (simp add: f32_eq_def f32_ne_def)

text \<open>\<open>src/util/alg_ds/alg/eq_float.c\<close>: on two different numbers it compares a relative distance, computed
  in IEEE arithmetic, with a tolerance; that comparison is the argument \<open>near\<close>.\<close>

definition eq_float :: "(u32 \<Rightarrow> u32 \<Rightarrow> bool) \<Rightarrow> u32 \<Rightarrow> u32 \<Rightarrow> bool res" where
  "eq_float near a b =
    res_bind (c_assert (\<not> f32_nan a)) (\<lambda>_.
    res_bind (c_assert (\<not> f32_nan b)) (\<lambda>_.
    Inr (if f32_eq a b then True else near a b)))"

lemma eq_float_refl [simp]: "eq_float near a a = (if f32_nan a then Inl AssertFail else Inr True)"
  by (simp add: eq_float_def)

section \<open>The next power of two\<close>

text \<open>The trick that the decoders of RLC and GTP use on the length of the buffer.\<close>

definition next_pow2 :: "u64 \<Rightarrow> u64" where
  "next_pow2 x0 =
    (let x = x0 - 1; x = or x (drop_bit 1 x); x = or x (drop_bit 2 x); x = or x (drop_bit 4 x);
         x = or x (drop_bit 8 x); x = or x (drop_bit 16 x); x = or x (drop_bit 32 x)
     in x + 1)"

lemma or_drop_63:
  fixes x :: u64
  assumes "y \<le> x" "\<not> bit x 63"
  shows "y \<le> or x (drop_bit n x) \<and> \<not> bit (or x (drop_bit n x)) 63"
proof
  have "x \<le> or x (drop_bit n x)" by (rule le_word_or2)
  then show "y \<le> or x (drop_bit n x)" using assms(1) by simp
  show "\<not> bit (or x (drop_bit n x)) 63"
    using assms(2) by (cases "n = 0") (auto simp: bit_or_iff bit_drop_bit_eq dest: bit_imp_le_length)
qed

lemma next_pow2_ge:
  assumes "12 \<le> n" "n < 2 ^ 63"
  shows "16 \<le> unat (next_pow2 (of_nat n))"
proof (cases "n < 16")
  case True
  then have "n \<in> {12, 13, 14, 15}" using assms(1) by auto
  then show ?thesis by (auto simp: next_pow2_def)
next
  case False
  let ?y = "of_nat n - 1 :: u64"
  have u: "unat (of_nat n :: u64) = n" using assms by (simp add: unat_of_nat)
  have y: "unat ?y = n - 1" using assms u by (simp add: unat_sub_if' [where x = "of_nat n :: u64"])
  have "uint ?y = int (n - 1)" by (simp only: uint_nat y)
  then have "\<not> bit (uint ?y) 63" using assms by (simp add: bit_iff_odd zdiv_int)
  then have b: "\<not> bit ?y 63" by (simp add: bit_uint_iff)
  define z where "z = next_pow2 (of_nat n) - 1"
  have z: "?y \<le> z \<and> \<not> bit z 63"
    unfolding z_def next_pow2_def Let_def add_diff_cancel_right'
    by (intro or_drop_63 [THEN conjunct1] or_drop_63 [THEN conjunct2] conjI) (use b in auto)
  have "1 + z \<noteq> 0"
  proof
    assume "1 + z = 0"
    then have "z = - 1" by (simp add: eq_neg_iff_add_eq_0 add.commute)
    then show False using z by simp
  qed
  then have "unat (1 + z) = Suc (unat z)" by (rule unatSuc)
  moreover have "next_pow2 (of_nat n) = 1 + z" by (simp add: z_def)
  moreover have "n - 1 \<le> unat z" using z y by (simp add: word_le_nat_alt)
  ultimately show ?thesis using False by simp
qed

end
