(* ===== verification/HashTable.thy ===== *)
theory HashTable
  imports Bytes "HOL-Library.Multiset"
begin

text \<open>
  The hash table with open addressing of
  \<open>src/util/alg_ds/ds/assoc_container/assoc_ht_open_address.c\<close> and the hash of
  \<open>src/util/alg_ds/alg/murmur_hash_32.c\<close>.  A key is the bytes under its pointer, and values are of
  any type.  An entry is dirty from the moment something is stored in it until the table is
  rehashed; it keeps its key and its value after a removal, but they are not looked at any more.

  The locale \<open>ht_keys\<close> states what the table relies on: on a set of keys the comparison is an
  equivalence and keys that are equal have the same hash.
\<close>

unbundle bit_operations_syntax

section \<open>The hash\<close>

definition murmur_32_scramble :: "u32 \<Rightarrow> u32" where
  "murmur_32_scramble k0 =
    (let k1 = k0 * 0xcc9e2d51;
         k2 = push_bit 15 k1 OR drop_bit 17 k1
     in k2 * 0x1b873593)"

text \<open>The loop over the groups of four bytes, and the one over the rest.\<close>

fun murmur_groups :: "nat \<Rightarrow> byte_array \<Rightarrow> u32 \<Rightarrow> (u32 \<times> byte_array) res" where
  "murmur_groups 0 key h = Inr (h, key)"
| "murmur_groups (Suc i) key h =
    res_bind (memcpy_from 4 key) (\<lambda>(b, key').
    let h1 = h XOR murmur_32_scramble (un_le b);
        h2 = push_bit 13 h1 OR drop_bit 19 h1
    in murmur_groups i key' (h2 * 5 + 0xe6546b64))"

fun murmur_rest :: "nat \<Rightarrow> byte_array \<Rightarrow> u32 \<Rightarrow> u32 res" where
  "murmur_rest 0 key k = Inr k"
| "murmur_rest (Suc i) key k =
    (if i < length key then murmur_rest i key (push_bit 8 k OR ucast (key ! i)) else Inl OutOfBounds)"

definition murmur3_32 :: "byte_array \<Rightarrow> nat \<Rightarrow> u32 \<Rightarrow> u32 res" where
  "murmur3_32 key len seed =
    res_bind (murmur_groups (len div 4) key seed) (\<lambda>(h, rest).
    res_bind (murmur_rest (len mod 4) rest 0) (\<lambda>k.
    let h1 = h XOR murmur_32_scramble k;
        h2 = h1 XOR of_nat len;
        h3 = h2 XOR drop_bit 16 h2;
        h4 = h3 * 0x85ebca6b;
        h5 = h4 XOR drop_bit 13 h4;
        h6 = h5 * 0xc2b2ae35
    in Inr (h6 XOR drop_bit 16 h6)))"

lemma murmur_test: "murmur3_32 [0x74, 0x65, 0x73, 0x74] 4 0 = Inr 0xba6bd213"
  by code_simp

definition hash_func :: "byte_array \<Rightarrow> u32 res" where
  "hash_func key = murmur3_32 key 4 42"

section \<open>Operations\<close>

record 'v hentry =
  he_key :: "byte_array option"
  he_value :: "'v option"
  he_hash :: u32
  is_dirty :: bool
  has_value :: bool

record 'v assoc_ht =
  ht_arr :: "'v hentry list"
  ht_key_sz :: nat
  ht_sz :: u32
  ht_cap :: u32
  num_dirty :: u32
  ht_key_eq :: "byte_array \<Rightarrow> byte_array \<Rightarrow> bool"

definition no_entry :: "'v hentry" where
  "no_entry = \<lparr>he_key = None, he_value = None, he_hash = 0, is_dirty = False, has_value = False\<rparr>"

text \<open>\<open>key_eq\<close> on the key of an entry.\<close>

definition entry_eq :: "'v assoc_ht \<Rightarrow> byte_array \<Rightarrow> 'v hentry \<Rightarrow> bool res" where
  "entry_eq ht key e = (case he_key e of None \<Rightarrow> Inl NullDeref | Some k \<Rightarrow> Inr (ht_key_eq ht key k))"

definition ht_entry :: "'v assoc_ht \<Rightarrow> u32 \<Rightarrow> 'v hentry res" where
  "ht_entry ht idx = (if unat idx < length (ht_arr ht) then Inr (ht_arr ht ! unat idx) else Inl OutOfBounds)"

definition next_idx :: "'v assoc_ht \<Rightarrow> u32 \<Rightarrow> u32" where
  "next_idx ht idx = (if idx + 1 = ht_cap ht then 0 else idx + 1)"

text \<open>The loop of \<open>find_idx\<close>.  It starts below the capacity and comes back to its start after
  that many rounds, which are the fuel.\<close>

fun find_idx_loop :: "nat \<Rightarrow> 'v assoc_ht \<Rightarrow> byte_array \<Rightarrow> u32 \<Rightarrow> u32 \<Rightarrow> u32 res" where
  "find_idx_loop 0 ht key start_idx idx = Inl AssertFail"
| "find_idx_loop (Suc n) ht key start_idx idx =
    res_bind (ht_entry ht idx) (\<lambda>e.
    if \<not> is_dirty e then Inr idx
    else
      res_bind (if has_value e then entry_eq ht key e else Inr False) (\<lambda>b.
      if b then Inr idx
      else if start_idx \<noteq> next_idx ht idx then find_idx_loop n ht key start_idx (next_idx ht idx)
      else Inl AssertFail))"

definition find_idx :: "'v assoc_ht \<Rightarrow> byte_array \<Rightarrow> u32 \<Rightarrow> u32 res" where
  "find_idx ht key hash =
    (let start_idx = hash mod ht_cap ht in find_idx_loop (unat (ht_cap ht)) ht key start_idx start_idx)"

definition rehash_entry :: "'v assoc_ht \<Rightarrow> nat \<Rightarrow> 'v assoc_ht \<Rightarrow> 'v assoc_ht res" where
  "rehash_entry old idx_old ht =
    res_bind (if idx_old < length (ht_arr old) then Inr (ht_arr old ! idx_old) else Inl OutOfBounds) (\<lambda>e.
    if has_value e then
      res_bind (c_assert (is_dirty e)) (\<lambda>_.
      res_bind (case he_key e of None \<Rightarrow> Inl NullDeref | Some k \<Rightarrow> Inr k) (\<lambda>key.
      res_bind (find_idx ht key (he_hash e)) (\<lambda>idx_new.
      res_bind (ht_entry ht idx_new) (\<lambda>_.
      Inr (ht\<lparr>ht_arr := (ht_arr ht)[unat idx_new := e], num_dirty := num_dirty ht + 1\<rparr>)))))
    else Inr ht)"

definition rehash_table :: "'v assoc_ht \<Rightarrow> u32 \<Rightarrow> 'v assoc_ht res" where
  "rehash_table ht cap =
    fold_res (rehash_entry ht) [0..<unat (ht_cap ht)]
      (ht\<lparr>ht_cap := cap, ht_arr := replicate (unat cap) no_entry, num_dirty := 0\<rparr>)"

definition expand_or_shrink_if_neccesary :: "'v assoc_ht \<Rightarrow> 'v assoc_ht res" where
  "expand_or_shrink_if_neccesary ht =
    res_bind
      (if ht_cap ht < num_dirty ht * 2 then rehash_table ht (ht_cap ht * 2)
       else if ht_sz ht * 4 < ht_cap ht \<and> 16 < ht_cap ht then rehash_table ht (ht_cap ht div 2)
       else Inr ht) (\<lambda>ht.
    res_bind (c_assert (ht_sz ht * 2 \<le> ht_cap ht)) (\<lambda>_.
    res_bind (c_assert (num_dirty ht * 2 \<le> ht_cap ht)) (\<lambda>_. Inr ht)))"

definition assoc_ht_open_init :: "nat \<Rightarrow> (byte_array \<Rightarrow> byte_array \<Rightarrow> bool) \<Rightarrow> 'v assoc_ht res" where
  "assoc_ht_open_init key_sz key_eq =
    res_bind (c_assert (0 < key_sz)) (\<lambda>_.
    Inr \<lparr>ht_arr = replicate 16 no_entry, ht_key_sz = key_sz, ht_sz = 0, ht_cap = 16, num_dirty = 0,
      ht_key_eq = key_eq\<rparr>)"

text \<open>The pairs that \<open>assoc_ht_open_free\<close> passes to \<open>free_func\<close>, in order.\<close>

definition free_entry :: "'v assoc_ht \<Rightarrow> nat \<Rightarrow> (byte_array option \<times> 'v option) list \<Rightarrow>
    (byte_array option \<times> 'v option) list res" where
  "free_entry ht i freed =
    res_bind (if i < length (ht_arr ht) then Inr (ht_arr ht ! i) else Inl OutOfBounds) (\<lambda>e.
    if has_value e then
      res_bind (c_assert (is_dirty e)) (\<lambda>_. Inr (freed @ [(he_key e, he_value e)]))
    else Inr freed)"

definition assoc_ht_open_free :: "'v assoc_ht \<Rightarrow> (byte_array option \<times> 'v option) list res" where
  "assoc_ht_open_free ht = fold_res (free_entry ht) [0..<unat (ht_cap ht)] []"

definition assoc_ht_open_insert :: "'v assoc_ht \<Rightarrow> byte_array \<Rightarrow> nat \<Rightarrow> 'v \<Rightarrow> 'v assoc_ht res" where
  "assoc_ht_open_insert ht key key_sz value =
    res_bind (c_assert (ht_key_sz ht = key_sz)) (\<lambda>_.
    res_bind (expand_or_shrink_if_neccesary ht) (\<lambda>ht.
    res_bind (c_assert (num_dirty ht * 2 \<le> ht_cap ht)) (\<lambda>_.
    res_bind (hash_func key) (\<lambda>hash.
    res_bind (find_idx ht key hash) (\<lambda>idx.
    res_bind (c_assert (idx < ht_cap ht)) (\<lambda>_.
    res_bind (ht_entry ht idx) (\<lambda>e.
    res_bind
      (if has_value e then
         res_bind (c_assert (is_dirty e)) (\<lambda>_.
         res_bind (entry_eq ht key e) (\<lambda>b.
         res_bind (c_assert b) (\<lambda>_. Inr (e, ht_sz ht))))
       else
         res_bind (memcpy_from key_sz key) (\<lambda>(key_dst, _). Inr (e\<lparr>he_key := Some key_dst\<rparr>, ht_sz ht + 1))) (\<lambda>(e1, sz).
    Inr (ht\<lparr>ht_arr := (ht_arr ht)[unat idx :=
              e1\<lparr>he_value := Some value, he_hash := hash, is_dirty := True, has_value := True\<rparr>],
            ht_sz := sz,
            num_dirty := (if is_dirty e1 then num_dirty ht else num_dirty ht + 1)\<rparr>)))))))))"

text \<open>The loop of \<open>find_entry\<close>: the position of the entry it points to, \<open>None\<close> for the null
  pointer.\<close>

fun find_entry_loop :: "nat \<Rightarrow> 'v assoc_ht \<Rightarrow> byte_array \<Rightarrow> u32 \<Rightarrow> u32 \<Rightarrow> u32 option res" where
  "find_entry_loop 0 ht key start_idx idx = Inl AssertFail"
| "find_entry_loop (Suc n) ht key start_idx idx =
    res_bind (ht_entry ht idx) (\<lambda>e.
    if \<not> is_dirty e then res_bind (c_assert (\<not> has_value e)) (\<lambda>_. Inr None)
    else
      res_bind (if has_value e then entry_eq ht key e else Inr False) (\<lambda>b.
      if b then Inr (Some idx)
      else if start_idx \<noteq> next_idx ht idx then find_entry_loop n ht key start_idx (next_idx ht idx)
      else Inl AssertFail))"

definition find_entry :: "'v assoc_ht \<Rightarrow> byte_array \<Rightarrow> u32 option res" where
  "find_entry ht key =
    res_bind (hash_func key) (\<lambda>hash.
    let start_idx = hash mod ht_cap ht in find_entry_loop (unat (ht_cap ht)) ht key start_idx start_idx)"

definition remove_value_htab :: "'v assoc_ht \<Rightarrow> byte_array \<Rightarrow> 'v assoc_ht res" where
  "remove_value_htab ht key =
    res_bind (expand_or_shrink_if_neccesary ht) (\<lambda>ht.
    res_bind (c_assert (num_dirty ht * 2 \<le> ht_cap ht)) (\<lambda>_.
    res_bind (find_entry ht key) (\<lambda>r.
    case r of
      None \<Rightarrow> Inr ht
    | Some idx \<Rightarrow>
        res_bind (ht_entry ht idx) (\<lambda>e.
        res_bind (c_assert (is_dirty e \<and> has_value e)) (\<lambda>_.
        Inr (ht\<lparr>ht_arr := (ht_arr ht)[unat idx := e\<lparr>has_value := False\<rparr>], ht_sz := ht_sz ht - 1\<rparr>))))))"

definition assoc_ht_open_value :: "'v assoc_ht \<Rightarrow> byte_array \<Rightarrow> 'v option res" where
  "assoc_ht_open_value ht key =
    res_bind (find_entry ht key) (\<lambda>r.
    case r of None \<Rightarrow> Inr None | Some idx \<Rightarrow> res_bind (ht_entry ht idx) (\<lambda>e. Inr (he_value e)))"

definition assoc_ht_open_size :: "'v assoc_ht \<Rightarrow> u32" where
  "assoc_ht_open_size ht = ht_sz ht"

text \<open>Not implemented in the source.\<close>

definition assoc_ht_open_extract :: "'v assoc_ht \<Rightarrow> byte_array \<Rightarrow> 'v res" where
  "assoc_ht_open_extract ht key = Inl NotImplemented"

definition assoc_ht_open_key :: "'v assoc_ht \<Rightarrow> u32 \<Rightarrow> byte_array res" where
  "assoc_ht_open_key ht it = Inl NotImplemented"

definition assoc_ht_open_front :: "'v assoc_ht \<Rightarrow> u32 res" where
  "assoc_ht_open_front ht = Inl NotImplemented"

definition assoc_ht_open_next :: "'v assoc_ht \<Rightarrow> u32 \<Rightarrow> u32 res" where
  "assoc_ht_open_next ht it = Inl NotImplemented"

definition assoc_ht_open_end :: "'v assoc_ht \<Rightarrow> u32 res" where
  "assoc_ht_open_end ht = Inl NotImplemented"

section \<open>Probing\<close>

text \<open>The positions that a probe visits, and where it stops.\<close>

abbreviation slot :: "nat \<Rightarrow> u32 \<Rightarrow> nat \<Rightarrow> nat" where
  "slot n h i \<equiv> (unat h + i) mod n"

definition key_of :: "'v hentry \<Rightarrow> byte_array" where
  "key_of e = the (he_key e)"

definition matches :: "(byte_array \<Rightarrow> byte_array \<Rightarrow> bool) \<Rightarrow> byte_array \<Rightarrow> 'v hentry \<Rightarrow> bool" where
  "matches eq key e \<longleftrightarrow> has_value e \<and> eq key (key_of e)"

definition stops :: "(byte_array \<Rightarrow> byte_array \<Rightarrow> bool) \<Rightarrow> byte_array \<Rightarrow> 'v hentry \<Rightarrow> bool" where
  "stops eq key e \<longleftrightarrow> \<not> is_dirty e \<or> matches eq key e"

text \<open>The shape of the array: as long as the capacity, which is a power of two, and every entry
  with a value has a key and is dirty.\<close>

definition ht_shape :: "'v assoc_ht \<Rightarrow> bool" where
  "ht_shape ht \<longleftrightarrow> length (ht_arr ht) = unat (ht_cap ht) \<and> (\<exists>k\<in>{4..30}. ht_cap ht = 2 ^ k) \<and>
    (\<forall>e\<in>set (ht_arr ht). has_value e \<longrightarrow> is_dirty e \<and> he_key e \<noteq> None \<and> he_value e \<noteq> None)"

lemma unat_pow2_32: "k < 32 \<Longrightarrow> unat (2 ^ k :: u32) = 2 ^ k"
proof -
  assume "k < 32"
  then have "(2::nat) ^ k < 2 ^ 32" by (intro power_strict_increasing) simp_all
  then have "unat (of_nat (2 ^ k) :: u32) = 2 ^ k" by (subst unat_of_nat) (simp add: take_bit_eq_mod)
  then show ?thesis by simp
qed

lemma ht_shape_cap:
  assumes "ht_shape ht"
  shows "16 \<le> unat (ht_cap ht)" "unat (ht_cap ht) \<le> 2 ^ 30" "length (ht_arr ht) = unat (ht_cap ht)"
    "unat (h mod ht_cap ht) = slot (unat (ht_cap ht)) h 0"
proof -
  obtain k where k: "4 \<le> k" "k \<le> 30" "ht_cap ht = 2 ^ k" using assms by (auto simp: ht_shape_def)
  have u: "unat (ht_cap ht) = 2 ^ k" using k by (simp add: unat_pow2_32)
  have "(2::nat) ^ 4 \<le> 2 ^ k" "(2::nat) ^ k \<le> 2 ^ 30"
    by (rule power_increasing [OF k(1)], simp) (rule power_increasing [OF k(2)], simp)
  then show "16 \<le> unat (ht_cap ht)" "unat (ht_cap ht) \<le> 2 ^ 30" by (simp_all add: u)
  show "length (ht_arr ht) = unat (ht_cap ht)" using assms by (simp add: ht_shape_def)
  show "unat (h mod ht_cap ht) = slot (unat (ht_cap ht)) h 0" by (simp add: unat_mod)
qed

lemma slot_neq_start:
  assumes "0 < i" "i < n"
  shows "slot n h i \<noteq> slot n h 0"
proof
  assume "slot n h i = slot n h 0"
  then have "n dvd i" using mod_eq_dvd_iff_nat [of "unat h" "unat h + i" n] by simp
  then show False using assms by (auto dest: dvd_imp_le)
qed

lemma slot_onto:
  assumes "p < n"
  shows "\<exists>j<n. p = slot n h j"
proof (intro exI [of _ "(p + (n - unat h mod n)) mod n"] conjI)
  show "(p + (n - unat h mod n)) mod n < n" using assms by simp
  have "unat h mod n \<le> n" using assms by (simp add: less_imp_le)
  then have "unat h mod n + (p + (n - unat h mod n)) = p + n" by simp
  then have "(unat h + (p + (n - unat h mod n))) mod n = p mod n"
    by (metis mod_add_left_eq mod_add_self2)
  then show "p = slot n h ((p + (n - unat h mod n)) mod n)" using assms by (simp add: mod_add_right_eq)
qed

lemma next_idx_slot:
  assumes "ht_shape ht" "unat idx = slot (unat (ht_cap ht)) h i"
  shows "unat (next_idx ht idx) = slot (unat (ht_cap ht)) h (Suc i)"
proof -
  let ?n = "unat (ht_cap ht)"
  note c = ht_shape_cap [OF assms(1)]
  have lt: "unat idx < ?n" using assms(2) c(1) by simp
  have u: "unat (idx + 1) = unat idx + 1" using lt c(2) by (simp add: unat_word_ariths)
  have s: "slot ?n h (Suc i) = (unat idx + 1) mod ?n" using assms(2) by (simp add: mod_Suc_eq)
  show ?thesis
  proof (cases "idx + 1 = ht_cap ht")
    case True
    then have "unat idx + 1 = ?n" using u by simp
    then show ?thesis using True s by (simp add: next_idx_def)
  next
    case False
    then have "unat idx + 1 \<noteq> ?n" using u by (metis word_unat_eq_iff)
    then show ?thesis using False s u lt by (simp add: next_idx_def)
  qed
qed

lemma entry_eq_ok:
  assumes "ht_shape ht" "p < length (ht_arr ht)" "is_dirty (ht_arr ht ! p)"
  shows "(if has_value (ht_arr ht ! p) then entry_eq ht key (ht_arr ht ! p) else Inr False) =
    Inr (matches (ht_key_eq ht) key (ht_arr ht ! p))"
proof (cases "has_value (ht_arr ht ! p)")
  case True
  moreover have "ht_arr ht ! p \<in> set (ht_arr ht)" using assms(2) by simp
  ultimately have "he_key (ht_arr ht ! p) \<noteq> None" using assms(1) by (auto simp: ht_shape_def)
  then show ?thesis using True by (auto simp: entry_eq_def matches_def key_of_def)
qed (simp add: matches_def)

text \<open>Both loops stop at the first position of the probe that is not dirty or has the key.\<close>

lemma probe_loops:
  fixes ht :: "'v assoc_ht" and h :: u32
  defines "n \<equiv> unat (ht_cap ht)"
  assumes "ht_shape ht" "m < n" "stops (ht_key_eq ht) key (ht_arr ht ! slot n h m)"
    "\<And>i. i < m \<Longrightarrow> \<not> stops (ht_key_eq ht) key (ht_arr ht ! slot n h i)"
    "unat start_idx = slot n h 0"
  shows "i \<le> m \<Longrightarrow> unat idx = slot n h i \<Longrightarrow> m - i < fuel \<Longrightarrow>
    \<exists>r. unat r = slot n h m \<and> find_idx_loop fuel ht key start_idx idx = Inr r \<and>
      find_entry_loop fuel ht key start_idx idx = Inr (if is_dirty (ht_arr ht ! unat r) then Some r else None)"
proof (induction fuel arbitrary: i idx)
  case (Suc fuel)
  note c = ht_shape_cap [OF assms(2)]
  have lt: "slot n h j < length (ht_arr ht)" for j using c by (simp add: n_def)
  have e: "ht_entry ht idx = Inr (ht_arr ht ! slot n h i)"
    using lt [of i] Suc.prems(2) by (simp add: ht_entry_def)
  let ?e = "ht_arr ht ! slot n h i"
  have steps: "find_idx_loop (Suc fuel) ht key start_idx idx =
      (if \<not> is_dirty ?e \<or> matches (ht_key_eq ht) key ?e then Inr idx
       else if start_idx \<noteq> next_idx ht idx then find_idx_loop fuel ht key start_idx (next_idx ht idx)
       else Inl AssertFail)"
    "find_entry_loop (Suc fuel) ht key start_idx idx =
      (if \<not> is_dirty ?e then res_bind (c_assert (\<not> has_value ?e)) (\<lambda>_. Inr None)
       else if matches (ht_key_eq ht) key ?e then Inr (Some idx)
       else if start_idx \<noteq> next_idx ht idx then find_entry_loop fuel ht key start_idx (next_idx ht idx)
       else Inl AssertFail)"
    using entry_eq_ok [OF assms(2) lt [of i], of key]
    by (cases "is_dirty ?e", simp_all only: find_idx_loop.simps find_entry_loop.simps e res_bind_simps, simp_all)
  show ?case
  proof (cases "i = m")
    case True
    show ?thesis
    proof (cases "is_dirty (ht_arr ht ! slot n h m)")
      case dirty: True
      then show ?thesis
        using assms(4) True Suc.prems(2) by (intro exI [of _ idx]) (simp add: steps stops_def del: find_idx_loop.simps find_entry_loop.simps)
    next
      case False
      have "ht_arr ht ! slot n h m \<in> set (ht_arr ht)" using lt by simp
      then have "\<not> has_value (ht_arr ht ! slot n h m)" using False assms(2) by (auto simp: ht_shape_def)
      then show ?thesis using False True Suc.prems(2)
        by (intro exI [of _ idx]) (simp add: steps del: find_idx_loop.simps find_entry_loop.simps)
    qed
  next
    case False
    then have i: "i < m" using Suc.prems(1) by simp
    have "is_dirty (ht_arr ht ! slot n h i)" "\<not> matches (ht_key_eq ht) key (ht_arr ht ! slot n h i)"
      using assms(5) [OF i] by (simp_all add: stops_def)
    moreover have nx: "unat (next_idx ht idx) = slot n h (Suc i)"
      unfolding n_def by (rule next_idx_slot [OF assms(2) Suc.prems(2) [unfolded n_def]])
    moreover have "start_idx \<noteq> next_idx ht idx"
      using slot_neq_start [of "Suc i" n h] i assms(3,6) nx by auto
    moreover have "m - Suc i < fuel" using Suc.prems(3) i by simp
    ultimately show ?thesis
      using Suc.IH [of "Suc i" "next_idx ht idx"] i
      by (simp add: steps del: find_idx_loop.simps find_entry_loop.simps)
  qed
qed simp

lemma probe_stops:
  assumes "ht_shape ht" "p < unat (ht_cap ht)" "stops (ht_key_eq ht) key (ht_arr ht ! p)" "hash_func key = Inr h"
  obtains r m where "find_idx ht key h = Inr r"
    "find_entry ht key = Inr (if is_dirty (ht_arr ht ! unat r) then Some r else None)"
    "unat r = slot (unat (ht_cap ht)) h m" "m < unat (ht_cap ht)" "stops (ht_key_eq ht) key (ht_arr ht ! unat r)"
    "\<And>i. i < m \<Longrightarrow> \<not> stops (ht_key_eq ht) key (ht_arr ht ! slot (unat (ht_cap ht)) h i)"
proof -
  let ?n = "unat (ht_cap ht)"
  let ?P = "\<lambda>i. stops (ht_key_eq ht) key (ht_arr ht ! slot ?n h i)"
  obtain j where j: "j < ?n" "?P j" using slot_onto [OF assms(2)] assms(3) by metis
  define m where "m = (LEAST i. ?P i)"
  have m: "?P m" "m \<le> j" "\<And>i. i < m \<Longrightarrow> \<not> ?P i"
    unfolding m_def using j(2) by (auto intro: LeastI Least_le dest: not_less_Least)
  then have mn: "m < ?n" using j(1) by simp
  obtain r where r: "unat r = slot ?n h m"
    "find_idx_loop ?n ht key (h mod ht_cap ht) (h mod ht_cap ht) = Inr r"
    "find_entry_loop ?n ht key (h mod ht_cap ht) (h mod ht_cap ht) = Inr (if is_dirty (ht_arr ht ! unat r) then Some r else None)"
    using probe_loops [OF assms(1) mn m(1,3) ht_shape_cap(4) [OF assms(1)], of 0 "h mod ht_cap ht" ?n]
      ht_shape_cap(4) [OF assms(1)] mn by auto
  show thesis
  proof (rule that [OF _ _ r(1) mn])
    show "find_idx ht key h = Inr r" using r(2) by (simp add: find_idx_def Let_def)
    show "find_entry ht key = Inr (if is_dirty (ht_arr ht ! unat r) then Some r else None)"
      using r(3) assms(4) by (simp add: find_entry_def Let_def)
    show "stops (ht_key_eq ht) key (ht_arr ht ! unat r)" using m(1) r(1) by simp
  qed (rule m(3))
qed

section \<open>The invariant\<close>

definition live :: "'v hentry list \<Rightarrow> (byte_array \<times> 'v) list" where
  "live es = map (\<lambda>e. (key_of e, the (he_value e))) (filter has_value es)"

text \<open>The entry at a position is on the probe of its hash, behind dirty entries only.\<close>

definition placed :: "'v hentry list \<Rightarrow> nat \<Rightarrow> bool" where
  "placed es p \<longleftrightarrow> (\<exists>j<length es. p = slot (length es) (he_hash (es ! p)) j \<and>
    (\<forall>i<j. is_dirty (es ! slot (length es) (he_hash (es ! p)) i)))"

definition ht_ok :: "(byte_array \<Rightarrow> byte_array \<Rightarrow> bool) \<Rightarrow> byte_array set \<Rightarrow> nat \<Rightarrow> 'v assoc_ht \<Rightarrow> bool" where
  "ht_ok eq K ksz ht \<longleftrightarrow> ht_shape ht \<and> ht_key_eq ht = eq \<and> ht_key_sz ht = ksz \<and>
    (\<forall>p<length (ht_arr ht). has_value (ht_arr ht ! p) \<longrightarrow> key_of (ht_arr ht ! p) \<in> K \<and>
      hash_func (key_of (ht_arr ht ! p)) = Inr (he_hash (ht_arr ht ! p)) \<and> placed (ht_arr ht) p) \<and>
    (\<forall>p<length (ht_arr ht). \<forall>q<length (ht_arr ht). has_value (ht_arr ht ! p) \<longrightarrow> has_value (ht_arr ht ! q) \<longrightarrow>
      eq (key_of (ht_arr ht ! p)) (key_of (ht_arr ht ! q)) \<longrightarrow> p = q) \<and>
    unat (num_dirty ht) = length (filter is_dirty (ht_arr ht))"

locale ht_keys =
  fixes eq :: "byte_array \<Rightarrow> byte_array \<Rightarrow> bool" and K :: "byte_array set" and ksz :: nat
  assumes eq_refl: "k \<in> K \<Longrightarrow> eq k k"
    and eq_sym: "a \<in> K \<Longrightarrow> b \<in> K \<Longrightarrow> eq a b \<Longrightarrow> eq b a"
    and eq_trans: "a \<in> K \<Longrightarrow> b \<in> K \<Longrightarrow> c \<in> K \<Longrightarrow> eq a b \<Longrightarrow> eq b c \<Longrightarrow> eq a c"
    and eq_hash: "a \<in> K \<Longrightarrow> b \<in> K \<Longrightarrow> eq a b \<Longrightarrow> hash_func a = hash_func b"
    and key_size: "k \<in> K \<Longrightarrow> length k = ksz"
    and four_bytes: "4 \<le> ksz"

lemma hash_func_ok: "4 \<le> length key \<Longrightarrow> \<exists>h. hash_func key = Inr h"
  by (simp add: hash_func_def murmur3_32_def memcpy_from_def Let_def)

lemma hash_func_prefix: "4 \<le> length a \<Longrightarrow> take 4 a = take 4 b \<Longrightarrow> 4 \<le> length b \<Longrightarrow> hash_func a = hash_func b"
  by (simp add: hash_func_def murmur3_32_def memcpy_from_def Let_def)

lemma split_at:
  assumes "p < length es"
  obtains R where "mset es = add_mset (es ! p) R" "\<forall>x. mset (es[p := x]) = add_mset x R"
    "\<forall>e\<in>#R. \<exists>q<length es. q \<noteq> p \<and> e = es ! q"
proof (rule that [of "mset (take p es @ drop (Suc p) es)"])
  have "mset (take p es @ es ! p # drop (Suc p) es) = add_mset (es ! p) (mset (take p es @ drop (Suc p) es))" by simp
  then show "mset es = add_mset (es ! p) (mset (take p es @ drop (Suc p) es))"
    by (simp add: id_take_nth_drop [OF assms, symmetric])
  show "\<forall>x. mset (es[p := x]) = add_mset x (mset (take p es @ drop (Suc p) es))"
    by (simp add: upd_conv_take_nth_drop [OF assms])
  show "\<forall>e\<in>#mset (take p es @ drop (Suc p) es). \<exists>q<length es. q \<noteq> p \<and> e = es ! q"
  proof
    fix e assume e: "e \<in># mset (take p es @ drop (Suc p) es)"
    consider i where "i < p" "e = es ! i" | i where "i < length es - Suc p" "e = es ! (Suc p + i)"
      using e assms by (auto simp: in_set_conv_nth)
    then show "\<exists>q<length es. q \<noteq> p \<and> e = es ! q"
    proof cases
      case (1 i)
      then show ?thesis using assms by (intro exI [of _ i]) simp
    next
      case (2 i)
      then show ?thesis using assms by (intro exI [of _ "Suc p + i"]) simp
    qed
  qed
qed

lemma mset_live: "mset (live es) = image_mset (\<lambda>e. (key_of e, the (he_value e))) (filter_mset has_value (mset es))"
  by (simp add: live_def)

lemma length_filter_mset: "length (filter P es) = size (filter_mset P (mset es))"
  by (metis mset_filter size_mset)

lemma live_length: "length (live es) = length (filter has_value es)"
  by (simp add: live_def)

lemma live_le_dirty: "ht_shape ht \<Longrightarrow> length (live (ht_arr ht)) \<le> length (filter is_dirty (ht_arr ht))"
proof -
  assume "ht_shape ht"
  then have "filter has_value (ht_arr ht) = filter has_value (filter is_dirty (ht_arr ht))"
    by (auto simp: ht_shape_def intro: filter_cong)
  then show ?thesis by (simp only: live_length length_filter_le)
qed

lemma ht_ok_size [simp]: "ht_ok eq K ksz (ht\<lparr>ht_sz := s\<rparr>) \<longleftrightarrow> ht_ok eq K ksz ht"
  by (simp add: ht_ok_def ht_shape_def)

lemma ht_ok_uniq:
  "ht_ok eq K ksz ht \<Longrightarrow> p < length (ht_arr ht) \<Longrightarrow> q < length (ht_arr ht) \<Longrightarrow> has_value (ht_arr ht ! p) \<Longrightarrow>
    has_value (ht_arr ht ! q) \<Longrightarrow> eq (key_of (ht_arr ht ! p)) (key_of (ht_arr ht ! q)) \<Longrightarrow> p = q"
  by (simp add: ht_ok_def)

lemma ht_ok_fresh:
  assumes "k \<in> {4..30}" "ht_key_eq ht = eq" "ht_key_sz ht = ksz"
  shows "ht_ok eq K ksz (ht\<lparr>ht_cap := 2 ^ k, ht_arr := replicate (2 ^ k) no_entry, num_dirty := 0\<rparr>)"
proof -
  have "unat (2 ^ k :: u32) = 2 ^ k" using assms(1) by (intro unat_pow2_32) simp
  then show ?thesis
    using assms by (auto simp: ht_ok_def ht_shape_def no_entry_def)
qed

lemma live_fresh [simp]: "live (replicate n no_entry) = []"
  by (simp add: live_def no_entry_def)

lemma dirty_fresh [simp]: "filter is_dirty (replicate n no_entry) = []"
  by (simp add: no_entry_def)

lemma live_Nil [simp]: "live [] = []"
  by (simp add: live_def)

lemma live_append [simp]: "live (xs @ ys) = live xs @ live ys"
  by (simp add: live_def)

context ht_keys
begin

lemma hash_total: "k \<in> K \<Longrightarrow> \<exists>h. hash_func k = Inr h"
  using key_size four_bytes by (intro hash_func_ok) simp

text \<open>A probe finds the one entry with the key, or a place for it.\<close>

lemma find_or_free:
  assumes "ht_ok eq K ksz ht" "key \<in> K" "length (filter is_dirty (ht_arr ht)) < length (ht_arr ht)"
  obtains h r where "hash_func key = Inr h" "find_idx ht key h = Inr r" "unat r < length (ht_arr ht)"
    "matches eq key (ht_arr ht ! unat r)" "is_dirty (ht_arr ht ! unat r)" "find_entry ht key = Inr (Some r)"
  | h r j where "hash_func key = Inr h" "find_idx ht key h = Inr r" "unat r < length (ht_arr ht)"
    "\<And>p. p < length (ht_arr ht) \<Longrightarrow> \<not> matches eq key (ht_arr ht ! p)" "\<not> is_dirty (ht_arr ht ! unat r)"
    "find_entry ht key = Inr None" "j < length (ht_arr ht)" "unat r = slot (length (ht_arr ht)) h j"
    "\<And>i. i < j \<Longrightarrow> is_dirty (ht_arr ht ! slot (length (ht_arr ht)) h i)"
proof -
  let ?es = "ht_arr ht" and ?n = "length (ht_arr ht)"
  have sh: "ht_shape ht" "ht_key_eq ht = eq" using assms(1) by (simp_all add: ht_ok_def)
  have n: "unat (ht_cap ht) = ?n" using sh(1) by (simp add: ht_shape_def)
  obtain h where h: "hash_func key = Inr h" using hash_total [OF assms(2)] by blast
  obtain p where p: "p < ?n" "\<not> is_dirty (?es ! p)"
    using assms(3) by (metis filter_True in_set_conv_nth less_irrefl)
  then have st: "stops (ht_key_eq ht) key (?es ! p)" by (simp add: stops_def)
  obtain r m where r: "find_idx ht key h = Inr r"
    "find_entry ht key = Inr (if is_dirty (?es ! unat r) then Some r else None)"
    "unat r = slot ?n h m" "m < ?n" "stops eq key (?es ! unat r)"
    "\<And>i. i < m \<Longrightarrow> \<not> stops eq key (?es ! slot ?n h i)"
    using probe_stops [OF sh(1) p(1) [folded n] st h, unfolded n sh(2)] by blast
  have lt: "unat r < ?n" unfolding r(3) by (rule mod_less_divisor [OF le_less_trans [OF le0 p(1)]])
  show thesis
  proof (cases "is_dirty (?es ! unat r)")
    case True
    then show thesis using that(1) [OF h r(1) lt] r(2,5) by (simp add: stops_def)
  next
    case False
    have "\<not> matches eq key (?es ! q)" if q: "q < ?n" for q
    proof
      assume m: "matches eq key (?es ! q)"
      then have hv: "has_value (?es ! q)" "eq key (key_of (?es ! q))" by (simp_all add: matches_def)
      then have k: "key_of (?es ! q) \<in> K" "hash_func (key_of (?es ! q)) = Inr (he_hash (?es ! q))" "placed ?es q"
        using assms(1) q by (simp_all add: ht_ok_def)
      then have "he_hash (?es ! q) = h" using eq_hash [OF assms(2) k(1) hv(2)] h by simp
      then obtain j where j: "q = slot ?n h j" "\<And>i. i < j \<Longrightarrow> is_dirty (?es ! slot ?n h i)"
        using k(3) by (auto simp: placed_def)
      have "is_dirty (?es ! q)" using hv(1) q sh(1) by (auto simp: ht_shape_def)
      then have "j \<noteq> m" using False j(1) r(3) by metis
      moreover have "\<not> m < j" using j(2) [of m] False r(3) by auto
      moreover have "\<not> j < m" using r(6) [of j] m j(1) by (auto simp: stops_def)
      ultimately show False by simp
    qed
    moreover have "is_dirty (?es ! slot ?n h i)" if "i < m" for i
      using r(6) [OF that] by (simp add: stops_def)
    ultimately show thesis using that(2) [OF h r(1) lt] r(2-4) False by simp
  qed
qed

text \<open>Storing a key that is not there.\<close>

lemma store_new:
  assumes "ht_ok eq K ksz ht" "key \<in> K" "hash_func key = Inr h" "unat r < length (ht_arr ht)"
    "\<And>p. p < length (ht_arr ht) \<Longrightarrow> \<not> matches eq key (ht_arr ht ! p)" "\<not> is_dirty (ht_arr ht ! unat r)"
    "j < length (ht_arr ht)" "unat r = slot (length (ht_arr ht)) h j"
    "\<And>i. i < j \<Longrightarrow> is_dirty (ht_arr ht ! slot (length (ht_arr ht)) h i)"
    "has_value e" "is_dirty e" "he_key e = Some key" "he_value e = Some v" "he_hash e = h"
  defines "ht' \<equiv> ht\<lparr>ht_arr := (ht_arr ht)[unat r := e], num_dirty := num_dirty ht + 1\<rparr>"
  shows "ht_ok eq K ksz ht'" "mset (live (ht_arr ht')) = add_mset (key, v) (mset (live (ht_arr ht)))"
    "length (filter is_dirty (ht_arr ht')) = Suc (length (filter is_dirty (ht_arr ht)))"
proof -
  let ?es = "ht_arr ht" and ?n = "length (ht_arr ht)" and ?p = "unat r"
  have sh: "ht_shape ht" "ht_key_eq ht = eq" "ht_key_sz ht = ksz" using assms(1) by (simp_all add: ht_ok_def)
  have n0: "0 < ?n" using assms(4) by (rule le_less_trans [OF le0])
  have nv: "\<not> has_value (?es ! ?p)" using assms(4,6) sh(1) by (auto simp: ht_shape_def)
  obtain R where R: "mset ?es = add_mset (?es ! ?p) R" "mset (?es[?p := e]) = add_mset e R"
    using split_at [OF assms(4)] by metis
  show "mset (live (ht_arr ht')) = add_mset (key, v) (mset (live ?es))"
    using nv assms(10,12,13) by (simp add: ht'_def mset_live R key_of_def)
  show d: "length (filter is_dirty (ht_arr ht')) = Suc (length (filter is_dirty ?es))"
    using assms(6,11) by (simp add: ht'_def length_filter_mset R)
  have dl: "length (filter is_dirty ?es) < 2 ^ 31"
    using length_filter_le [of is_dirty ?es] ht_shape_cap(2,3) [OF sh(1)] by simp
  have nd: "unat (num_dirty ht) = length (filter is_dirty ?es)" using assms(1) by (simp add: ht_ok_def)
  then have "unat (num_dirty ht + 1) = Suc (length (filter is_dirty ?es))"
    using dl by (simp add: unat_word_ariths)
  moreover have "ht_shape ht'"
    using sh(1) assms(10-13) set_update_subset_insert [of ?es ?p e] by (fastforce simp: ht_shape_def ht'_def)
  moreover have at: "ht_arr ht' ! q = (if q = ?p then e else ?es ! q)" if "q < ?n" for q
    using that by (simp add: ht'_def nth_list_update)
  have mono: "is_dirty (ht_arr ht' ! q)" if "q < ?n" "is_dirty (?es ! q)" for q
    using that assms(11) by (simp add: at)
  have len: "length (ht_arr ht') = ?n" by (simp add: ht'_def)
  have inv: "key_of (ht_arr ht' ! q) \<in> K \<and> hash_func (key_of (ht_arr ht' ! q)) = Inr (he_hash (ht_arr ht' ! q)) \<and>
      placed (ht_arr ht') q" if "q < ?n" "has_value (ht_arr ht' ! q)" for q
  proof (cases "q = ?p")
    case True
    have "slot ?n h i < ?n" for i by (rule mod_less_divisor [OF n0])
    moreover have "he_hash (ht_arr ht' ! ?p) = h" using at [OF assms(4)] assms(14) by simp
    ultimately have "placed (ht_arr ht') ?p"
      unfolding placed_def len using assms(7-9) mono by (intro exI [of _ j]) simp
    then show ?thesis using True assms(2,3,12,14) at [OF assms(4)] by (simp add: key_of_def)
  next
    case False
    then have q: "has_value (?es ! q)" using that by (simp add: at)
    then have o: "key_of (?es ! q) \<in> K" "hash_func (key_of (?es ! q)) = Inr (he_hash (?es ! q))" "placed ?es q"
      using assms(1) that(1) by (simp_all add: ht_ok_def)
    obtain j' where j': "j' < ?n" "q = slot ?n (he_hash (?es ! q)) j'"
      "\<And>i. i < j' \<Longrightarrow> is_dirty (?es ! slot ?n (he_hash (?es ! q)) i)"
      using o(3) by (auto simp: placed_def)
    have "slot ?n k i < ?n" for k i by (rule mod_less_divisor [OF n0])
    then have "placed (ht_arr ht') q"
      unfolding placed_def len at [OF that(1)] using j' mono False by (intro exI [of _ j']) auto
    then show ?thesis using o at [OF that(1)] False by simp
  qed
  moreover have "q = q'" if "q < ?n" "q' < ?n" "has_value (ht_arr ht' ! q)" "has_value (ht_arr ht' ! q')"
    "eq (key_of (ht_arr ht' ! q)) (key_of (ht_arr ht' ! q'))" for q q'
  proof (rule ccontr)
    assume ne: "q \<noteq> q'"
    have k: "key_of e = key" using assms(12) by (simp add: key_of_def)
    have kq: "key_of (?es ! s) \<in> K" if "s < ?n" "has_value (?es ! s)" for s
      using that assms(1) by (simp add: ht_ok_def)
    consider "q = ?p" "q' \<noteq> ?p" | "q' = ?p" "q \<noteq> ?p" | "q \<noteq> ?p" "q' \<noteq> ?p" using ne by blast
    then show False
    proof cases
      case 1
      then show ?thesis using that assms(5) [of q'] k by (simp add: at matches_def)
    next
      case 2
      then have "eq (key_of (?es ! q)) key" "has_value (?es ! q)" using that k by (simp_all add: at)
      then have "matches eq key (?es ! q)"
        using eq_sym [OF kq [OF that(1)] assms(2)] by (simp add: matches_def)
      then show ?thesis using assms(5) [OF that(1)] by simp
    next
      case 3
      then have "has_value (?es ! q)" "has_value (?es ! q')" "eq (key_of (?es ! q)) (key_of (?es ! q'))"
        using that by (simp_all add: at)
      then show ?thesis using assms(1) that(1,2) ne by (auto simp: ht_ok_def)
    qed
  qed
  ultimately show "ht_ok eq K ksz ht'"
    unfolding ht_ok_def len using sh d by (simp add: ht'_def)
qed

text \<open>Rehashing: the loop has moved the entries before position \<open>i\<close>.\<close>

lemma rehash_prefix:
  assumes "ht_ok eq K ksz ht" "k \<in> {4..30}" "length (live (ht_arr ht)) < 2 ^ k" "i \<le> length (ht_arr ht)"
  shows "\<exists>t. fold_res (rehash_entry ht) [0..<i]
      (ht\<lparr>ht_cap := 2 ^ k, ht_arr := replicate (2 ^ k) no_entry, num_dirty := 0\<rparr>) = Inr t \<and>
    ht_ok eq K ksz t \<and> ht_cap t = 2 ^ k \<and> ht_sz t = ht_sz ht \<and>
    mset (live (ht_arr t)) = mset (live (take i (ht_arr ht))) \<and>
    length (filter is_dirty (ht_arr t)) = length (live (take i (ht_arr ht)))"
  using assms(4)
proof (induction i)
  case 0
  have fields: "ht_key_eq ht = eq" "ht_key_sz ht = ksz" using assms(1) by (simp_all add: ht_ok_def)
  then show ?case
    using ht_ok_fresh [OF assms(2), of ht eq ksz K] by simp
next
  case (Suc i)
  let ?es = "ht_arr ht"
  obtain t where t: "fold_res (rehash_entry ht) [0..<i]
      (ht\<lparr>ht_cap := 2 ^ k, ht_arr := replicate (2 ^ k) no_entry, num_dirty := 0\<rparr>) = Inr t"
    "ht_ok eq K ksz t" "ht_cap t = 2 ^ k" "ht_sz t = ht_sz ht"
    "mset (live (ht_arr t)) = mset (live (take i ?es))"
    "length (filter is_dirty (ht_arr t)) = length (live (take i ?es))"
    using Suc by auto
  have i: "i < length ?es" using Suc.prems by simp
  have tk: "take (Suc i) ?es = take i ?es @ [?es ! i]" by (rule take_Suc_conv_app_nth [OF i])
  have step: "fold_res (rehash_entry ht) [0..<Suc i]
      (ht\<lparr>ht_cap := 2 ^ k, ht_arr := replicate (2 ^ k) no_entry, num_dirty := 0\<rparr>) = rehash_entry ht i t"
    using t(1) by (simp add: fold_res_append) (cases "rehash_entry ht i t"; simp)
  show ?case
  proof (cases "has_value (?es ! i)")
    case False
    then have "rehash_entry ht i t = Inr t" "live (take (Suc i) ?es) = live (take i ?es)"
      using i by (simp_all add: rehash_entry_def tk live_def)
    then show ?thesis unfolding step using t(2-6) by simp
  next
    case True
    let ?e = "?es ! i"
    have "?e \<in> set ?es" using i by simp
    then obtain key v where e: "is_dirty ?e" "he_key ?e = Some key" "he_value ?e = Some v"
      using True assms(1) by (auto simp: ht_ok_def ht_shape_def)
    then have key: "key \<in> K" "hash_func key = Inr (he_hash ?e)"
      using True i assms(1) by (auto simp: ht_ok_def key_of_def)
    have len: "length (ht_arr t) = 2 ^ k"
      using t(2,3) assms(2) by (simp add: ht_ok_def ht_shape_def unat_pow2_32)
    have "length (live (take i ?es)) \<le> length (live ?es)"
      using live_append [of "take i ?es" "drop i ?es"] by simp
    then have free: "length (filter is_dirty (ht_arr t)) < length (ht_arr t)"
      using t(6) assms(3) len by simp
    have fresh: "\<not> matches eq key (ht_arr t ! p)" if "p < length (ht_arr t)" for p
    proof
      assume m: "matches eq key (ht_arr t ! p)"
      then have "(key_of (ht_arr t ! p), the (he_value (ht_arr t ! p))) \<in> set (live (ht_arr t))"
        using that by (auto simp: live_def matches_def)
      then have "(key_of (ht_arr t ! p), the (he_value (ht_arr t ! p))) \<in> set (live (take i ?es))"
        using t(5) by (metis set_mset_mset)
      then obtain e' where e': "e' \<in> set (take i ?es)" "has_value e'" "key_of e' = key_of (ht_arr t ! p)"
        by (auto simp: live_def)
      then obtain q where q: "q < i" "e' = ?es ! q" using i by (auto simp: in_set_conv_nth)
      have "eq (key_of ?e) (key_of (?es ! q))" using m e(2) e'(3) q(2) by (simp add: matches_def key_of_def)
      moreover have "q < length ?es" using q(1) i by simp
      ultimately have "i = q" using ht_ok_uniq [OF assms(1) i] True e'(2) q(2) by blast
      then show False using q(1) by simp
    qed
    obtain r j where r: "find_idx t key (he_hash ?e) = Inr r" "unat r < length (ht_arr t)" "\<not> is_dirty (ht_arr t ! unat r)"
      "j < length (ht_arr t)" "unat r = slot (length (ht_arr t)) (he_hash ?e) j"
      "\<And>i. i < j \<Longrightarrow> is_dirty (ht_arr t ! slot (length (ht_arr t)) (he_hash ?e) i)"
    proof (rule find_or_free [OF t(2) key(1) free])
      fix h r assume "unat r < length (ht_arr t)" "matches eq key (ht_arr t ! unat r)"
      then show thesis using fresh by blast
    next
      fix h r j
      assume a: "hash_func key = Inr h" "find_idx t key h = Inr r" "unat r < length (ht_arr t)"
        "\<not> is_dirty (ht_arr t ! unat r)" "j < length (ht_arr t)" "unat r = slot (length (ht_arr t)) h j"
        "\<And>i. i < j \<Longrightarrow> is_dirty (ht_arr t ! slot (length (ht_arr t)) h i)"
      then have "h = he_hash ?e" using key(2) by simp
      then show thesis using a(2-7) by (intro that) simp_all
    qed
    note st = store_new [OF t(2) key r(2) fresh r(3-6) True e refl]
    have "rehash_entry ht i t = Inr (t\<lparr>ht_arr := (ht_arr t)[unat r := ?e], num_dirty := num_dirty t + 1\<rparr>)"
      using i True e r(1,2) by (simp add: rehash_entry_def ht_entry_def)
    then show ?thesis
      unfolding step using st t(3-6) True e(2,3) by (simp add: tk live_def key_of_def)
  qed
qed

lemma rehash_ok:
  assumes "ht_ok eq K ksz ht" "k \<in> {4..30}" "length (live (ht_arr ht)) < 2 ^ k"
  obtains t where "rehash_table ht (2 ^ k) = Inr t" "ht_ok eq K ksz t" "ht_cap t = 2 ^ k" "ht_sz t = ht_sz ht"
    "mset (live (ht_arr t)) = mset (live (ht_arr ht))"
    "length (filter is_dirty (ht_arr t)) = length (live (ht_arr ht))"
proof -
  have "unat (2 ^ k :: u32) = 2 ^ k" using assms(2) by (intro unat_pow2_32) simp
  moreover have "unat (ht_cap ht) = length (ht_arr ht)" using assms(1) by (simp add: ht_ok_def ht_shape_def)
  ultimately show thesis
    using rehash_prefix [OF assms order_refl] that by (auto simp: rehash_table_def)
qed

end

text \<open>The table holds the pairs of the list \<open>al\<close>; at most \<open>N\<close> insertions were made.\<close>

definition ht_rep :: "(byte_array \<Rightarrow> byte_array \<Rightarrow> bool) \<Rightarrow> byte_array set \<Rightarrow> nat \<Rightarrow> nat \<Rightarrow> 'v assoc_ht \<Rightarrow>
    (byte_array \<times> 'v) list \<Rightarrow> bool" where
  "ht_rep eq K ksz N ht al \<longleftrightarrow> ht_ok eq K ksz ht \<and> mset (live (ht_arr ht)) = mset al \<and> unat (ht_sz ht) = length al \<and>
    2 * length (filter is_dirty (ht_arr ht)) \<le> length (ht_arr ht) + 2 \<and>
    length (filter is_dirty (ht_arr ht)) \<le> N \<and> length (ht_arr ht) \<le> max 16 (4 * N)"

context ht_keys
begin

lemma ht_expand_ok:
  assumes "ht_rep eq K ksz N ht al" "N < 2 ^ 28"
  obtains t where "expand_or_shrink_if_neccesary ht = Inr t" "ht_rep eq K ksz N t al"
    "2 * length (filter is_dirty (ht_arr t)) \<le> length (ht_arr t)" "num_dirty t * 2 \<le> ht_cap t"
proof -
  let ?d = "length (filter is_dirty (ht_arr ht))" and ?n = "length (ht_arr ht)"
  have r: "ht_ok eq K ksz ht" "mset (live (ht_arr ht)) = mset al" "unat (ht_sz ht) = length al"
    "2 * ?d \<le> ?n + 2" "?d \<le> N" "?n \<le> max 16 (4 * N)"
    using assms(1) by (simp_all add: ht_rep_def)
  have sh: "ht_shape ht" "unat (num_dirty ht) = ?d" using r(1) by (simp_all add: ht_ok_def)
  obtain k where k: "4 \<le> k" "k \<le> 30" "ht_cap ht = 2 ^ k" using sh(1) by (auto simp: ht_shape_def)
  have n: "unat (ht_cap ht) = ?n" "?n = 2 ^ k" "16 \<le> ?n" "?n \<le> 2 ^ 30"
    using ht_shape_cap [OF sh(1)] k unat_pow2_32 [of k] by simp_all
  have la: "length (live (ht_arr ht)) = length al" using r(2) by (metis size_mset)
  have ld: "length al \<le> ?d" using live_le_dirty [OF sh(1)] la by simp
  have dw: "unat (num_dirty ht * 2) = 2 * ?d" using sh(2) r(4) n(4) by (simp add: unat_word_ariths)
  have sw: "unat (ht_sz ht * 4) = 4 * length al" "unat (ht_sz ht * 2) = 2 * length al"
    using r(3,4) n(4) ld by (simp_all add: unat_word_ariths)
  define m where "m = (if ht_cap ht < num_dirty ht * 2 then rehash_table ht (ht_cap ht * 2)
       else if ht_sz ht * 4 < ht_cap ht \<and> 16 < ht_cap ht then rehash_table ht (ht_cap ht div 2)
       else Inr ht)"
  obtain t where t: "m = Inr t" "ht_ok eq K ksz t" "mset (live (ht_arr t)) = mset al" "ht_sz t = ht_sz ht"
    "2 * length (filter is_dirty (ht_arr t)) \<le> length (ht_arr t)" "2 * length al \<le> length (ht_arr t)"
    "length (filter is_dirty (ht_arr t)) \<le> N" "length (ht_arr t) \<le> max 16 (4 * N)"
  proof (cases "?n < 2 * ?d")
    case True
    then have b: "2 ^ Suc k < 4 * N" "16 \<le> 2 * ?n" using n(2,3) r(5) by simp_all
    then have "(2::nat) ^ Suc k < 2 ^ 30" using assms(2) by simp
    then have "Suc k < 30" by (rule power_less_imp_less_exp [rotated]) simp
    then have k': "Suc k \<in> {4..30}" using k(1) by simp
    have "length (live (ht_arr ht)) < 2 ^ Suc k" using la ld r(4) n(2,3) by simp
    then obtain t where t: "rehash_table ht (2 ^ Suc k) = Inr t" "ht_ok eq K ksz t" "ht_cap t = 2 ^ Suc k"
      "ht_sz t = ht_sz ht" "mset (live (ht_arr t)) = mset (live (ht_arr ht))"
      "length (filter is_dirty (ht_arr t)) = length (live (ht_arr ht))"
      using rehash_ok [OF r(1) k'] by blast
    have "length (ht_arr t) = 2 ^ Suc k"
      using t(2,3) k' unat_pow2_32 [of "Suc k"] by (simp add: ht_ok_def ht_shape_def)
    then have q: "length (ht_arr t) = 2 * ?n" using n(2) by simp
    moreover have "m = Inr t"
      using t(1) True k(3) dw n(1) by (simp add: m_def word_less_nat_alt mult.commute)
    moreover have "2 * length al \<le> 2 * ?n" "length al \<le> N" "2 * ?n \<le> max 16 (4 * N)"
      using ld r(4,5) n(3) True by simp_all
    ultimately show thesis
      using t(2,4-6) r(2) la by (intro that [of t]) simp_all
  next
    case nolarge: False
    show thesis
    proof (cases "4 * length al < ?n \<and> 16 < ?n")
      case True
      have "k \<noteq> 4" using True n(2) by auto
      then obtain j where j: "k = Suc j" "j \<in> {4..30}" using k(1,2) by (cases k) auto
      have "length (live (ht_arr ht)) < 2 ^ j" using True la n(2) j(1) by simp
      then obtain t where t: "rehash_table ht (2 ^ j) = Inr t" "ht_ok eq K ksz t" "ht_cap t = 2 ^ j"
        "ht_sz t = ht_sz ht" "mset (live (ht_arr t)) = mset (live (ht_arr ht))"
        "length (filter is_dirty (ht_arr t)) = length (live (ht_arr ht))"
        using rehash_ok [OF r(1) j(2)] by blast
      have lt: "length (ht_arr t) = 2 ^ j"
        using t(2,3) j unat_pow2_32 [of j] by (simp add: ht_ok_def ht_shape_def)
      have "unat (ht_cap ht div 2) = unat (2 ^ j :: u32)"
        using n(1,2) j unat_pow2_32 [of j] by (simp add: unat_div)
      then have "ht_cap ht div 2 = 2 ^ j" by (rule unsigned_word_eqI)
      then have "m = Inr t"
        using t(1) True nolarge dw sw n(1) by (simp add: m_def word_less_nat_alt)
      then show thesis
        using t(2,4-6) lt r(2,5,6) la ld n(2) j(1) True by (intro that [of t]) simp_all
    next
      case False
      then have "m = Inr ht" using nolarge dw sw n(1) by (auto simp: m_def word_less_nat_alt)
      then show thesis using r nolarge ld by (intro that [of ht]) simp_all
    qed
  qed
  have u: "unat (ht_cap t) = length (ht_arr t)" "unat (num_dirty t) = length (filter is_dirty (ht_arr t))"
    "length (ht_arr t) \<le> 2 ^ 30"
    using t(2) ht_shape_cap [of t] by (simp_all add: ht_ok_def)
  then have a: "num_dirty t * 2 \<le> ht_cap t" "ht_sz t * 2 \<le> ht_cap t"
    using t(4-6) sw(2) by (simp_all add: word_le_nat_alt unat_word_ariths mult.commute)
  have "expand_or_shrink_if_neccesary ht = Inr t"
    using t(1) a by (simp add: expand_or_shrink_if_neccesary_def m_def [symmetric])
  moreover have "ht_rep eq K ksz N t al" using t r(3) by (simp add: ht_rep_def)
  ultimately show thesis using t(5) a(1) by (intro that)
qed

lemma matches_iff:
  assumes "mset (live es) = mset al"
  shows "(\<exists>p<length es. matches eq key (es ! p)) \<longleftrightarrow> (\<exists>a\<in>set al. eq key (fst a))"
proof -
  have s: "set al = set (live es)" using assms by (metis set_mset_mset)
  have "(\<exists>p<length es. matches eq key (es ! p)) \<longleftrightarrow> (\<exists>e\<in>set es. matches eq key e)"
    by (metis in_set_conv_nth)
  also have "\<dots> \<longleftrightarrow> (\<exists>a\<in>set al. eq key (fst a))"
    by (auto simp: s live_def matches_def)
  finally show ?thesis .
qed

text \<open>The entry with the key is the only one.\<close>

lemma match_split:
  assumes "ht_ok eq K ksz ht" "key \<in> K" "p < length (ht_arr ht)" "matches eq key (ht_arr ht ! p)"
  obtains k' v R where "he_key (ht_arr ht ! p) = Some k'" "he_value (ht_arr ht ! p) = Some v" "eq key k'"
    "has_value (ht_arr ht ! p)" "is_dirty (ht_arr ht ! p)"
    "mset (ht_arr ht) = add_mset (ht_arr ht ! p) R" "\<forall>e. mset ((ht_arr ht)[p := e]) = add_mset e R"
    "\<forall>a\<in>#image_mset (\<lambda>e. (key_of e, the (he_value e))) (filter_mset has_value R). \<not> eq key (fst a)"
proof -
  let ?es = "ht_arr ht"
  have hv: "has_value (?es ! p)" "eq key (key_of (?es ! p))" using assms(4) by (simp_all add: matches_def)
  have "?es ! p \<in> set ?es" using assms(3) by simp
  then obtain k' v where kv: "he_key (?es ! p) = Some k'" "he_value (?es ! p) = Some v" "is_dirty (?es ! p)"
    using hv(1) assms(1) by (auto simp: ht_ok_def ht_shape_def)
  have inK: "key_of (?es ! q) \<in> K" if "q < length ?es" "has_value (?es ! q)" for q
    using that assms(1) by (simp add: ht_ok_def)
  obtain R where R: "mset ?es = add_mset (?es ! p) R" "\<forall>e. mset (?es[p := e]) = add_mset e R"
    "\<forall>e\<in>#R. \<exists>q<length ?es. q \<noteq> p \<and> e = ?es ! q"
    by (rule split_at [OF assms(3)])
  have "\<forall>a\<in>#image_mset (\<lambda>e. (key_of e, the (he_value e))) (filter_mset has_value R). \<not> eq key (fst a)"
  proof (intro ballI notI)
    fix a assume a: "a \<in># image_mset (\<lambda>e. (key_of e, the (he_value e))) (filter_mset has_value R)"
    assume "eq key (fst a)"
    then obtain e where e: "e \<in># R" "has_value e" "eq key (key_of e)" using a by auto
    obtain q where q: "q < length ?es" "q \<noteq> p" "e = ?es ! q" using R(3) e(1) by blast
    have "eq (key_of (?es ! p)) (key_of (?es ! q))"
      using eq_trans [OF inK [OF assms(3) hv(1)] assms(2)] eq_sym [OF assms(2)] inK assms(3) hv e(2,3) q(1,3) by blast
    then show False using ht_ok_uniq [OF assms(1,3) q(1)] hv(1) e(2) q(2,3) by simp
  qed
  then show thesis using hv kv R(1,2) by (intro that) (simp_all add: key_of_def)
qed

lemma update_same_shape:
  assumes "ht_ok eq K ksz ht" "p < length (ht_arr ht)" "has_value (ht_arr ht ! p)"
    "he_key e = he_key (ht_arr ht ! p)" "he_hash e = he_hash (ht_arr ht ! p)" "is_dirty e" "he_value e \<noteq> None"
  shows "ht_ok eq K ksz (ht\<lparr>ht_arr := (ht_arr ht)[p := e]\<rparr>)"
    "length (filter is_dirty ((ht_arr ht)[p := e])) = length (filter is_dirty (ht_arr ht))"
proof -
  let ?es = "ht_arr ht" and ?fs = "(ht_arr ht)[p := e]"
  have "?es ! p \<in> set ?es" using assms(2) by simp
  then have d: "is_dirty (?es ! p)" "he_key (?es ! p) \<noteq> None"
    using assms(1,3) by (auto simp: ht_ok_def ht_shape_def)
  obtain R where R: "mset ?es = add_mset (?es ! p) R" "mset ?fs = add_mset e R"
    using split_at [OF assms(2)] by metis
  show c: "length (filter is_dirty ?fs) = length (filter is_dirty ?es)"
    using d assms(6) by (simp add: length_filter_mset R)
  have at: "key_of (?fs ! q) = key_of (?es ! q)" "he_hash (?fs ! q) = he_hash (?es ! q)"
    "is_dirty (?fs ! q) = is_dirty (?es ! q)" "has_value (?fs ! q) \<Longrightarrow> has_value (?es ! q)"
    if "q < length ?es" for q
    using that assms(2-6) d by (auto simp: nth_list_update key_of_def split: if_splits)
  have n0: "0 < length ?es" using assms(2) by (rule le_less_trans [OF le0])
  have s: "slot (length ?es) h i < length ?es" for h i by (rule mod_less_divisor [OF n0])
  have "placed ?fs q \<longleftrightarrow> placed ?es q" if "q < length ?es" for q
    using that by (simp add: placed_def at s)
  moreover have "ht_shape (ht\<lparr>ht_arr := ?fs\<rparr>)"
    using assms(1,4,6,7) d set_update_subset_insert [of ?es p e] by (fastforce simp: ht_ok_def ht_shape_def)
  ultimately show "ht_ok eq K ksz (ht\<lparr>ht_arr := ?fs\<rparr>)"
    using assms(1) c at unfolding ht_ok_def by simp
qed

end

text \<open>What a table promises: the list of pairs, of which no two keys are the same.\<close>

definition al_put :: "('k \<Rightarrow> 'k \<Rightarrow> bool) \<Rightarrow> 'k \<Rightarrow> 'v \<Rightarrow> ('k \<times> 'v) list \<Rightarrow> ('k \<times> 'v) list" where
  "al_put eq k v al =
    (if \<exists>a\<in>set al. eq k (fst a) then map (\<lambda>a. if eq k (fst a) then (fst a, v) else a) al else al @ [(k, v)])"

definition al_del :: "('k \<Rightarrow> 'k \<Rightarrow> bool) \<Rightarrow> 'k \<Rightarrow> ('k \<times> 'v) list \<Rightarrow> ('k \<times> 'v) list" where
  "al_del eq k al = filter (\<lambda>a. \<not> eq k (fst a)) al"

definition al_get :: "('k \<Rightarrow> 'k \<Rightarrow> bool) \<Rightarrow> 'k \<Rightarrow> ('k \<times> 'v) list \<Rightarrow> 'v option" where
  "al_get eq k al = map_option snd (find (\<lambda>a. eq k (fst a)) al)"

lemma image_mset_fix: "(\<And>x. x \<in># M \<Longrightarrow> f x = x) \<Longrightarrow> image_mset f M = M"
  by (induction M) auto

lemma filter_mset_fix: "(\<And>x. x \<in># M \<Longrightarrow> P x) \<Longrightarrow> filter_mset P M = M"
  by (induction M) auto

context ht_keys
begin

lemma insert_ok:
  assumes "ht_rep eq K ksz N ht al" "N < 2 ^ 28" "key \<in> K"
  shows "\<exists>ht'. assoc_ht_open_insert ht key ksz v = Inr ht' \<and> ht_rep eq K ksz (Suc N) ht' (al_put eq key v al)"
proof -
  obtain t where t: "expand_or_shrink_if_neccesary ht = Inr t" "ht_rep eq K ksz N t al"
    "2 * length (filter is_dirty (ht_arr t)) \<le> length (ht_arr t)" "num_dirty t * 2 \<le> ht_cap t"
    by (rule ht_expand_ok [OF assms(1,2)])
  have r: "ht_ok eq K ksz t" "mset (live (ht_arr t)) = mset al" "unat (ht_sz t) = length al"
    "length (filter is_dirty (ht_arr t)) \<le> N" "length (ht_arr t) \<le> max 16 (4 * N)"
    using t(2) by (simp_all add: ht_rep_def)
  have kz: "ht_key_sz ht = ksz" using assms(1) by (simp add: ht_rep_def ht_ok_def)
  have sh: "ht_shape t" "ht_key_eq t = eq" using r(1) by (simp_all add: ht_ok_def)
  note c = ht_shape_cap [OF sh(1)]
  have lt: "i < ht_cap t" if "unat i < length (ht_arr t)" for i
    using that c(3) by (simp add: word_less_nat_alt)
  have free: "length (filter is_dirty (ht_arr t)) < length (ht_arr t)" using t(3) c(1,3) by linarith
  show ?thesis
  proof (rule find_or_free [OF r(1) assms(3) free])
    fix h i
    assume a: "hash_func key = Inr h" "find_idx t key h = Inr i" "unat i < length (ht_arr t)"
      "matches eq key (ht_arr t ! unat i)"
    let ?e = "ht_arr t ! unat i"
    obtain k' v' R where m: "he_key ?e = Some k'" "he_value ?e = Some v'" "eq key k'" "has_value ?e" "is_dirty ?e"
      "mset (ht_arr t) = add_mset ?e R" "\<forall>e. mset ((ht_arr t)[unat i := e]) = add_mset e R"
      "\<forall>a\<in>#image_mset (\<lambda>e. (key_of e, the (he_value e))) (filter_mset has_value R). \<not> eq key (fst a)"
      by (rule match_split [OF r(1) assms(3) a(3,4)])
    define e' where "e' = ?e\<lparr>he_value := Some v, he_hash := h, is_dirty := True, has_value := True\<rparr>"
    have kh: "k' \<in> K" "hash_func k' = Inr (he_hash ?e)" using r(1) a(3) m(1,4) by (auto simp: ht_ok_def key_of_def)
    have "he_hash ?e = h" using eq_hash [OF assms(3) kh(1) m(3)] kh(2) a(1) by simp
    then have up: "ht_ok eq K ksz (t\<lparr>ht_arr := (ht_arr t)[unat i := e']\<rparr>)"
      "length (filter is_dirty ((ht_arr t)[unat i := e'])) = length (filter is_dirty (ht_arr t))"
      using m by (intro update_same_shape [OF r(1) a(3)]; simp add: e'_def)+
    have run: "assoc_ht_open_insert ht key ksz v = Inr (t\<lparr>ht_arr := (ht_arr t)[unat i := e']\<rparr>)"
      using kz t(1,4) a(1,2) lt [OF a(3)] a(3) m(1,3-5) sh(2)
      by (simp add: assoc_ht_open_insert_def ht_entry_def entry_eq_def e'_def)
    have "\<exists>a\<in>set al. eq key (fst a)"
      using matches_iff [OF r(2), of key] a(3,4) by blast
    then have "mset (al_put eq key v al) = image_mset (\<lambda>a. if eq key (fst a) then (fst a, v) else a) (mset (live (ht_arr t)))"
      by (simp add: al_put_def r(2))
    moreover have "image_mset (\<lambda>a. if eq key (fst a) then (fst a, v) else a)
        (image_mset (\<lambda>e. (key_of e, the (he_value e))) (filter_mset has_value R)) =
      image_mset (\<lambda>e. (key_of e, the (he_value e))) (filter_mset has_value R)"
      by (intro image_mset_fix if_not_P) (use m(8) in blast)
    ultimately have "mset (live ((ht_arr t)[unat i := e'])) = mset (al_put eq key v al)"
      using m(1-4) by (simp add: mset_live m(6,7) e'_def key_of_def)
    moreover have "length (al_put eq key v al) = length al"
      using \<open>\<exists>a\<in>set al. eq key (fst a)\<close> by (simp add: al_put_def)
    ultimately show ?thesis
      using run up r(3-5) t(3) by (intro exI [of _ "t\<lparr>ht_arr := (ht_arr t)[unat i := e']\<rparr>"]) (simp add: ht_rep_def)
  next
    fix h i j
    assume a: "hash_func key = Inr h" "find_idx t key h = Inr i" "unat i < length (ht_arr t)"
      "\<And>p. p < length (ht_arr t) \<Longrightarrow> \<not> matches eq key (ht_arr t ! p)" "\<not> is_dirty (ht_arr t ! unat i)"
      "j < length (ht_arr t)" "unat i = slot (length (ht_arr t)) h j"
      "\<And>i. i < j \<Longrightarrow> is_dirty (ht_arr t ! slot (length (ht_arr t)) h i)"
    let ?e = "ht_arr t ! unat i"
    define e' where "e' = ?e\<lparr>he_key := Some key, he_value := Some v, he_hash := h, is_dirty := True, has_value := True\<rparr>"
    have f: "has_value e'" "is_dirty e'" "he_key e' = Some key" "he_value e' = Some v" "he_hash e' = h"
      by (simp_all add: e'_def)
    define ht' where "ht' = t\<lparr>ht_arr := (ht_arr t)[unat i := e'], ht_sz := ht_sz t + 1, num_dirty := num_dirty t + 1\<rparr>"
    note st = store_new [OF r(1) assms(3) a(1,3-8) f]
    have "?e \<in> set (ht_arr t)" using a(3) by simp
    then have "\<not> has_value ?e" using a(5) sh(1) by (auto simp: ht_shape_def)
    then have "assoc_ht_open_insert ht key ksz v = Inr ht'"
      using kz t(1,4) a(1,2) lt [OF a(3)] a(3,5) key_size [OF assms(3)]
      by (simp add: assoc_ht_open_insert_def ht_entry_def ht'_def e'_def memcpy_from_def)
    moreover have nf: "\<not> (\<exists>a\<in>set al. eq key (fst a))"
      using matches_iff [OF r(2), of key] a(4) by blast
    then have "al_put eq key v al = al @ [(key, v)]" by (simp add: al_put_def)
    moreover have ok: "ht_ok eq K ksz ht'"
      using st(1) by (simp add: ht_ok_def ht_shape_def ht'_def)
    moreover have "length al = length (live (ht_arr t))" using r(2) by (metis size_mset)
    then have "length al < 2 ^ 30" using live_le_dirty [OF sh(1)] t(3) c(1-3) by simp
    then have "unat (ht_sz t + 1) = Suc (length al)" using r(3) by (simp add: unat_word_ariths)
    ultimately show ?thesis
      using st(2,3) r(2-5) t(3) by (intro exI [of _ ht']) (simp add: ht_rep_def ht'_def)
  qed
qed

lemma remove_ok:
  assumes "ht_rep eq K ksz N ht al" "N < 2 ^ 28" "key \<in> K"
  shows "\<exists>ht'. remove_value_htab ht key = Inr ht' \<and> ht_rep eq K ksz N ht' (al_del eq key al)"
proof -
  obtain t where t: "expand_or_shrink_if_neccesary ht = Inr t" "ht_rep eq K ksz N t al"
    "2 * length (filter is_dirty (ht_arr t)) \<le> length (ht_arr t)" "num_dirty t * 2 \<le> ht_cap t"
    by (rule ht_expand_ok [OF assms(1,2)])
  have r: "ht_ok eq K ksz t" "mset (live (ht_arr t)) = mset al" "unat (ht_sz t) = length al"
    "length (filter is_dirty (ht_arr t)) \<le> N" "length (ht_arr t) \<le> max 16 (4 * N)"
    using t(2) by (simp_all add: ht_rep_def)
  have sh: "ht_shape t" using r(1) by (simp add: ht_ok_def)
  note c = ht_shape_cap [OF sh]
  have free: "length (filter is_dirty (ht_arr t)) < length (ht_arr t)" using t(3) c(1,3) by linarith
  show ?thesis
  proof (rule find_or_free [OF r(1) assms(3) free])
    fix h i
    assume a: "unat i < length (ht_arr t)" "matches eq key (ht_arr t ! unat i)" "find_entry t key = Inr (Some i)"
    let ?e = "ht_arr t ! unat i"
    obtain k' v' R where m: "he_key ?e = Some k'" "he_value ?e = Some v'" "eq key k'" "has_value ?e" "is_dirty ?e"
      "mset (ht_arr t) = add_mset ?e R" "\<forall>e. mset ((ht_arr t)[unat i := e]) = add_mset e R"
      "\<forall>a\<in>#image_mset (\<lambda>e. (key_of e, the (he_value e))) (filter_mset has_value R). \<not> eq key (fst a)"
      by (rule match_split [OF r(1) assms(3) a(1,2)])
    define e' where "e' = ?e\<lparr>has_value := False\<rparr>"
    define ht' where "ht' = t\<lparr>ht_arr := (ht_arr t)[unat i := e'], ht_sz := ht_sz t - 1\<rparr>"
    have up: "ht_ok eq K ksz (t\<lparr>ht_arr := (ht_arr t)[unat i := e']\<rparr>)"
      "length (filter is_dirty ((ht_arr t)[unat i := e'])) = length (filter is_dirty (ht_arr t))"
      using m by (intro update_same_shape [OF r(1) a(1) m(4)]; simp add: e'_def)+
    have run: "remove_value_htab ht key = Inr ht'"
      using t(1,4) a(1,3) m(4,5) by (simp add: remove_value_htab_def ht_entry_def ht'_def e'_def)
    have "mset (al_del eq key al) = filter_mset (\<lambda>a. \<not> eq key (fst a)) (mset (live (ht_arr t)))"
      by (simp add: al_del_def r(2))
    moreover have "filter_mset (\<lambda>a. \<not> eq key (fst a))
        (image_mset (\<lambda>e. (key_of e, the (he_value e))) (filter_mset has_value R)) =
      image_mset (\<lambda>e. (key_of e, the (he_value e))) (filter_mset has_value R)"
      by (intro filter_mset_fix) (use m(8) in blast)
    ultimately have ml: "mset (live ((ht_arr t)[unat i := e'])) = mset (al_del eq key al)"
      using m(1-4) by (simp add: mset_live m(6,7) e'_def key_of_def)
    moreover have "ht_ok eq K ksz ht'" using up(1) by (simp add: ht_ok_def ht_shape_def ht'_def)
    moreover have "length al = Suc (length (al_del eq key al))"
    proof -
      have "length al = size (mset (live (ht_arr t)))" using r(2) by simp
      also have "\<dots> = Suc (size (mset (live ((ht_arr t)[unat i := e']))))"
        using m(4) by (simp add: mset_live m(6,7) e'_def)
      finally show ?thesis by (simp only: ml size_mset)
    qed
    then have "unat (ht_sz t - 1) = length (al_del eq key al)"
      using r(3) by (simp add: unat_sub word_le_nat_alt)
    ultimately show ?thesis
      using run up(2) r(4,5) t(3) by (intro exI [of _ ht']) (simp add: ht_rep_def ht'_def)
  next
    fix h i j
    assume a: "\<And>p. p < length (ht_arr t) \<Longrightarrow> \<not> matches eq key (ht_arr t ! p)" "find_entry t key = Inr None"
    have "\<not> (\<exists>a\<in>set al. eq key (fst a))" using matches_iff [OF r(2), of key] a(1) by blast
    then have "al_del eq key al = al" by (auto simp: al_del_def intro: filter_id_if_all)
    moreover have "remove_value_htab ht key = Inr t" using t(1,4) a(2) by (simp add: remove_value_htab_def)
    ultimately show ?thesis using t(2) by auto
  qed
qed

lemma value_ok:
  assumes "ht_rep eq K ksz N ht al" "key \<in> K"
  shows "assoc_ht_open_value ht key = Inr (al_get eq key al)"
proof -
  have r: "ht_ok eq K ksz ht" "mset (live (ht_arr ht)) = mset al"
    "2 * length (filter is_dirty (ht_arr ht)) \<le> length (ht_arr ht) + 2"
    using assms(1) by (simp_all add: ht_rep_def)
  have sh: "ht_shape ht" using r(1) by (simp add: ht_ok_def)
  have free: "length (filter is_dirty (ht_arr ht)) < length (ht_arr ht)"
    using r(3) ht_shape_cap(1,3) [OF sh] by linarith
  show ?thesis
  proof (rule find_or_free [OF r(1) assms(2) free])
    fix h i
    assume a: "unat i < length (ht_arr ht)" "matches eq key (ht_arr ht ! unat i)" "find_entry ht key = Inr (Some i)"
    let ?e = "ht_arr ht ! unat i"
    obtain k' v' R where m: "he_key ?e = Some k'" "he_value ?e = Some v'" "eq key k'" "has_value ?e" "is_dirty ?e"
      "mset (ht_arr ht) = add_mset ?e R" "\<forall>e. mset ((ht_arr ht)[unat i := e]) = add_mset e R"
      "\<forall>a\<in>#image_mset (\<lambda>e. (key_of e, the (he_value e))) (filter_mset has_value R). \<not> eq key (fst a)"
      by (rule match_split [OF r(1) assms(2) a(1,2)])
    have al: "mset al = add_mset (k', v') (image_mset (\<lambda>e. (key_of e, the (he_value e))) (filter_mset has_value R))"
      using m(1,2,4) by (simp add: r(2) [symmetric] mset_live m(6) key_of_def)
    then have "(k', v') \<in> set al" by (metis set_mset_mset union_single_eq_member)
    then obtain b where b: "find (\<lambda>a. eq key (fst a)) al = Some b"
      using m(3) by (cases "find (\<lambda>a. eq key (fst a)) al") (force simp: find_None_iff)+
    then have "b \<in> set al" "eq key (fst b)" by (auto simp: find_Some_iff)
    moreover have "b = (k', v')" if "b \<in># mset al"
      using m(8) that \<open>eq key (fst b)\<close> by (auto simp: al)
    ultimately have "b = (k', v')" by simp
    then show ?thesis using a m(2) b by (simp add: assoc_ht_open_value_def ht_entry_def al_get_def)
  next
    fix h i j
    assume a: "\<And>p. p < length (ht_arr ht) \<Longrightarrow> \<not> matches eq key (ht_arr ht ! p)" "find_entry ht key = Inr None"
    have "\<not> (\<exists>a\<in>set al. eq key (fst a))" using matches_iff [OF r(2), of key] a(1) by blast
    then have "find (\<lambda>a. eq key (fst a)) al = None" unfolding find_None_iff by blast
    then show ?thesis using a(2) by (simp add: assoc_ht_open_value_def al_get_def)
  qed
qed

end

section \<open>Runs\<close>

datatype 'v ht_op = Ht_insert byte_array 'v | Ht_remove byte_array

fun ht_op_key :: "'v ht_op \<Rightarrow> byte_array" where
  "ht_op_key (Ht_insert k v) = k"
| "ht_op_key (Ht_remove k) = k"

fun ht_do :: "nat \<Rightarrow> 'v ht_op \<Rightarrow> 'v assoc_ht \<Rightarrow> 'v assoc_ht res" where
  "ht_do ksz (Ht_insert k v) ht = assoc_ht_open_insert ht k ksz v"
| "ht_do ksz (Ht_remove k) ht = remove_value_htab ht k"

definition ht_run :: "nat \<Rightarrow> (byte_array \<Rightarrow> byte_array \<Rightarrow> bool) \<Rightarrow> 'v ht_op list \<Rightarrow> 'v assoc_ht res" where
  "ht_run ksz eq ops = res_bind (assoc_ht_open_init ksz eq) (fold_res (ht_do ksz) ops)"

fun al_do :: "(byte_array \<Rightarrow> byte_array \<Rightarrow> bool) \<Rightarrow> 'v ht_op \<Rightarrow> (byte_array \<times> 'v) list \<Rightarrow> (byte_array \<times> 'v) list" where
  "al_do eq (Ht_insert k v) al = al_put eq k v al"
| "al_do eq (Ht_remove k) al = al_del eq k al"

definition al_run :: "(byte_array \<Rightarrow> byte_array \<Rightarrow> bool) \<Rightarrow> 'v ht_op list \<Rightarrow> (byte_array \<times> 'v) list" where
  "al_run eq ops = fold (al_do eq) ops []"

lemma ht_init_rep:
  assumes "0 < ksz"
  obtains ht :: "'v assoc_ht" where "assoc_ht_open_init ksz eq = Inr ht" "ht_rep eq K ksz 0 ht []"
proof -
  let ?z = "\<lparr>ht_arr = [], ht_key_sz = ksz, ht_sz = 0, ht_cap = 0, num_dirty = 0, ht_key_eq = eq\<rparr> :: 'v assoc_ht"
  have "ht_ok eq K ksz (?z\<lparr>ht_cap := 2 ^ 4, ht_arr := replicate (2 ^ 4) no_entry, num_dirty := 0\<rparr>)"
    by (rule ht_ok_fresh) simp_all
  then show thesis
    using assms
    by (intro that [of "?z\<lparr>ht_cap := 2 ^ 4, ht_arr := replicate (2 ^ 4) no_entry, num_dirty := 0\<rparr>"])
      (simp_all add: assoc_ht_open_init_def ht_rep_def)
qed

lemma ht_rep_mono: "ht_rep eq K ksz N ht al \<Longrightarrow> N \<le> N' \<Longrightarrow> ht_rep eq K ksz N' ht al"
  by (auto simp: ht_rep_def)

lemma free_entries:
  assumes "\<forall>e\<in>set (ht_arr ht). has_value e \<longrightarrow> is_dirty e \<and> he_key e \<noteq> None \<and> he_value e \<noteq> None"
  shows "i \<le> length (ht_arr ht) \<Longrightarrow> fold_res (free_entry ht) [0..<i] [] =
    Inr (map (\<lambda>a. (Some (fst a), Some (snd a))) (live (take i (ht_arr ht))))"
proof (induction i)
  case (Suc i)
  then have i: "i < length (ht_arr ht)" by simp
  then have "ht_arr ht ! i \<in> set (ht_arr ht)" by simp
  then show ?case
    using Suc i assms by (auto simp: fold_res_append free_entry_def take_Suc_conv_app_nth live_def key_of_def)
qed simp

lemma ht_free_ok:
  "ht_rep eq K ksz N ht al \<Longrightarrow>
    \<exists>ys. assoc_ht_open_free ht = Inr ys \<and> mset ys = mset (map (\<lambda>a. (Some (fst a), Some (snd a))) al)"
  using free_entries [of ht "length (ht_arr ht)"]
  by (auto simp: ht_rep_def ht_ok_def ht_shape_def assoc_ht_open_free_def)

context ht_keys
begin

lemma ht_runs:
  "ht_rep eq K ksz N ht al \<Longrightarrow> N + length ops < 2 ^ 28 \<Longrightarrow> (\<forall>op\<in>set ops. ht_op_key op \<in> K) \<Longrightarrow>
    \<exists>ht'. fold_res (ht_do ksz) ops ht = Inr ht' \<and> ht_rep eq K ksz (N + length ops) ht' (fold (al_do eq) ops al)"
proof (induction ops arbitrary: ht al N)
  case (Cons op ops)
  have N: "N < 2 ^ 28" using Cons.prems(2) by simp
  have "\<exists>ht1. ht_do ksz op ht = Inr ht1 \<and> ht_rep eq K ksz (Suc N) ht1 (al_do eq op al)"
  proof (cases op)
    case (Ht_insert k v)
    then show ?thesis using insert_ok [OF Cons.prems(1) N] Cons.prems(3) by simp
  next
    case (Ht_remove k)
    then show ?thesis using remove_ok [OF Cons.prems(1) N] Cons.prems(3) ht_rep_mono [of eq K ksz N _ _ "Suc N"] by fastforce
  qed
  then show ?case using Cons.IH [of "Suc N"] Cons.prems(2,3) by auto
qed auto

lemma ht_run_ok:
  assumes "\<forall>op\<in>set (ops :: 'v ht_op list). ht_op_key op \<in> K" "length ops < 2 ^ 28"
  shows "\<exists>ht. ht_run ksz eq ops = Inr ht \<and> ht_rep eq K ksz (length ops) ht (al_run eq ops)"
proof -
  have "0 < ksz" using four_bytes by simp
  then obtain ht :: "'v assoc_ht" where "assoc_ht_open_init ksz eq = Inr ht" "ht_rep eq K ksz 0 ht []"
    by (rule ht_init_rep)
  then show ?thesis using ht_runs [of 0 ht "[]" ops] assms by (simp add: ht_run_def al_run_def)
qed

end

text \<open>Keys that are compared by their bytes.\<close>

lemma byte_keys: "4 \<le> n \<Longrightarrow> ht_keys (=) {k. length k = n} n"
  by unfold_locales auto

interpretation int_keys: ht_keys "(=)" "{k. length k = 4}" 4
  by (rule byte_keys) simp

text \<open>The hash reads four bytes, whatever the size of the keys.\<close>

lemma hash_func_short: "length key < 4 \<Longrightarrow> hash_func key = Inl OutOfBounds"
  by (simp add: hash_func_def murmur3_32_def memcpy_from_def)

end
