(* ===== verification/StringSearch.thy ===== *)
theory StringSearch
  imports FlexPrelude
begin

text \<open>
  The string searches of \<open>src/util/alg_ds/alg/string\<close>: the naive one and the one of Boyer and
  Moore.  A \<open>char\<close> is a byte that is signed where it becomes an index.  The memory of the haystack
  may go on after its length, as the zero at the end of a string does; a read past the memory is
  \<open>OutOfBounds\<close>.  A pointer into the haystack is its distance from the start, the null pointer is
  \<open>None\<close>.  A search that does not return is \<open>None\<close> outside of that.
\<close>

section \<open>The naive search\<close>

definition char_at :: "u8 list \<Rightarrow> nat \<Rightarrow> u8 res" where
  "char_at mem k = (if k < length mem then Inr (mem ! k) else Inl OutOfBounds)"

text \<open>The inner loop ends at the first difference; its result is \<open>j\<close>.\<close>

fun naive_match :: "nat \<Rightarrow> u8 list \<Rightarrow> u8 list \<Rightarrow> nat \<Rightarrow> nat \<Rightarrow> nat res" where
  "naive_match 0 needle haystack k j = Inr j"
| "naive_match (Suc n) needle haystack k j =
    res_bind (char_at haystack k) (\<lambda>h.
    res_bind (char_at needle j) (\<lambda>c.
    if h \<noteq> c then Inr j else naive_match n needle haystack (k + 1) (j + 1)))"

fun naive_loop :: "nat \<Rightarrow> nat \<Rightarrow> u8 list \<Rightarrow> u8 list \<Rightarrow> nat \<Rightarrow> nat option res" where
  "naive_loop 0 len_needle needle haystack i = Inr None"
| "naive_loop (Suc n) len_needle needle haystack i =
    res_bind (naive_match len_needle needle haystack i 0) (\<lambda>j.
    if j = len_needle then Inr (Some i) else naive_loop n len_needle needle haystack (i + 1))"

definition search_naive :: "nat \<Rightarrow> u8 list \<Rightarrow> nat \<Rightarrow> u8 list \<Rightarrow> nat option res" where
  "search_naive len_needle needle len_haystack haystack =
    res_bind (c_assert (len_needle \<noteq> 0)) (\<lambda>_.
    res_bind (c_assert (len_haystack \<noteq> 0)) (\<lambda>_.
    res_bind (c_assert (len_needle \<le> len_haystack)) (\<lambda>_.
    naive_loop len_haystack len_needle needle haystack 0)))"

section \<open>The search of Boyer and Moore\<close>

text \<open>The last occurrence of a character; -1 for none.\<close>

fun delta_1_loop :: "u8 list \<Rightarrow> nat \<Rightarrow> int list \<Rightarrow> int list res" where
  "delta_1_loop [] i d = Inr d"
| "delta_1_loop (c # cs) i d =
    (if sint c < 0 then Inl OutOfBounds else delta_1_loop cs (i + 1) (d[unat c := int i]))"

definition pre_process_delta_1 :: "nat \<Rightarrow> u8 list \<Rightarrow> int list res" where
  "pre_process_delta_1 len needle =
    (if length needle < len then Inl OutOfBounds
     else delta_1_loop (take len needle) 0 (replicate 256 (-1)))"

text \<open>The inner loop of \<open>pre_process_delta_2\<close>, which sets \<open>shift\<close> and follows \<open>pattern\<close>.\<close>

partial_function (option) delta_2_inner ::
  "nat \<Rightarrow> u8 list \<Rightarrow> nat \<Rightarrow> nat list \<Rightarrow> nat list \<Rightarrow> nat \<Rightarrow> (nat list \<times> nat) option" where
  "delta_2_inner len needle i pattern shift j =
    (if j < len + 1 \<and> needle ! (i - 1) \<noteq> needle ! (j - 1) then
       delta_2_inner len needle i pattern (if shift ! j = 0 then shift[j := j - i] else shift) (pattern ! j)
     else Some (shift, j))"

fun delta_2_outer :: "nat \<Rightarrow> nat \<Rightarrow> u8 list \<Rightarrow> nat list \<Rightarrow> nat list \<Rightarrow> nat \<Rightarrow> (nat list \<times> nat list) option" where
  "delta_2_outer 0 len needle pattern shift j = Some (pattern, shift)"
| "delta_2_outer (Suc i) len needle pattern shift j =
    Option.bind (delta_2_inner len needle (Suc i) pattern shift j) (\<lambda>(shift', j').
    delta_2_outer i len needle (pattern[i := j' - 1]) shift' (j' - 1))"

fun delta_2_case_2 :: "nat list \<Rightarrow> nat list \<Rightarrow> nat \<Rightarrow> nat \<Rightarrow> nat list" where
  "delta_2_case_2 pattern [] i j = []"
| "delta_2_case_2 pattern (s # shift) i j =
    (if s = 0 then j else s) # delta_2_case_2 pattern shift (i + 1) (if j = i then pattern ! j else j)"

definition pre_process_delta_2 :: "nat \<Rightarrow> u8 list \<Rightarrow> nat list option" where
  "pre_process_delta_2 len needle =
    Option.bind (delta_2_outer len len needle ((replicate (len + 1) 0)[len := len + 1]) (replicate (len + 1) 0) (len + 1))
      (\<lambda>(pattern, shift). Some (delta_2_case_2 pattern shift 0 (pattern ! 0)))"

text \<open>The main loop.  The indices are of type \<open>size_t\<close>, whose arithmetic wraps around.\<close>

partial_function (option) bm_loop ::
  "nat \<Rightarrow> u8 list \<Rightarrow> int list \<Rightarrow> nat list \<Rightarrow> nat \<Rightarrow> u8 list \<Rightarrow> nat \<Rightarrow> nat \<Rightarrow> nat option res option" where
  "bm_loop m needle d1 d2 n haystack i j =
    (if i < n then
       (case res_bind (char_at haystack i) (\<lambda>h. res_bind (char_at needle j) (\<lambda>c. Inr (h, c))) of
          Inl e \<Rightarrow> Some (Inl e)
        | Inr (h, c) \<Rightarrow>
            if h \<noteq> c then
              if sint h < 0 then Some (Inl OutOfBounds)
              else
                let shift1 = nat ((int m - 1 - d1 ! unat h) mod 2 ^ 64);
                    shift2 = d2 ! (j + 1);
                    shift = max 1 (max shift1 shift2)
                in bm_loop m needle d1 d2 n haystack ((i + shift) mod 2 ^ 64) (m - 1)
            else if j = 0 then Some (Inr (Some i))
            else bm_loop m needle d1 d2 n haystack (if i = 0 then 2 ^ 64 - 1 else i - 1) (j - 1))
     else Some (Inr None))"

definition search_booyer_moore :: "nat \<Rightarrow> u8 list \<Rightarrow> nat \<Rightarrow> u8 list \<Rightarrow> nat option res option" where
  "search_booyer_moore m needle n haystack =
    (if m = 0 \<or> n = 0 then Some (Inr None)
     else case pre_process_delta_1 m needle of
         Inl e \<Rightarrow> Some (Inl e)
       | Inr d1 \<Rightarrow> Option.bind (pre_process_delta_2 m needle) (\<lambda>d2.
           bm_loop m needle d1 d2 n haystack (m - 1) (m - 1)))"

declare delta_2_inner.simps [code] bm_loop.simps [code]

section \<open>What they find\<close>

text \<open>The needle starts at a position.\<close>

definition occurs_at :: "u8 list \<Rightarrow> u8 list \<Rightarrow> nat \<Rightarrow> bool" where
  "occurs_at needle haystack i \<longleftrightarrow> take (length needle) (drop i haystack) = needle"

lemma naive_match_ok:
  assumes "0 \<notin> set needle"
  shows "j + n = length needle \<Longrightarrow> k \<le> length haystack \<Longrightarrow>
    \<exists>r. naive_match n needle (haystack @ [0]) k j = Inr r \<and>
      (r = length needle \<longleftrightarrow> take n (drop k haystack) = drop j needle)"
proof (induction n arbitrary: k j)
  case (Suc n)
  then have j: "j < length needle" by simp
  then have c: "char_at needle j = Inr (needle ! j)" by (simp add: char_at_def)
  have nz: "needle ! j \<noteq> 0" using assms j by (metis nth_mem)
  have d: "drop j needle = needle ! j # drop (Suc j) needle" by (simp add: Cons_nth_drop_Suc j)
  show ?case
  proof (cases "k < length haystack")
    case True
    then have h: "char_at (haystack @ [0]) k = Inr (haystack ! k)" by (simp add: char_at_def nth_append)
    have dk: "drop k haystack = haystack ! k # drop (Suc k) haystack" by (simp add: Cons_nth_drop_Suc True)
    show ?thesis
      using Suc.IH [of "Suc j" "Suc k"] Suc.prems True h c j by (auto simp: d dk)
  next
    case False
    then have "k = length haystack" using Suc.prems by simp
    then have "char_at (haystack @ [0]) k = Inr 0" by (simp add: char_at_def)
    then show ?thesis using c nz j False by (simp add: d)
  qed
qed simp

lemma naive_loop_ok:
  assumes "0 \<notin> set needle"
  shows "i + n = length haystack \<Longrightarrow> naive_loop n (length needle) needle (haystack @ [0]) i =
    Inr (find (occurs_at needle haystack) [i..<length haystack])"
proof (induction n arbitrary: i)
  case (Suc n)
  obtain r where "naive_match (length needle) needle (haystack @ [0]) i 0 = Inr r"
    "r = length needle \<longleftrightarrow> occurs_at needle haystack i"
    using naive_match_ok [OF assms, of 0 "length needle" i haystack] Suc.prems by (auto simp: occurs_at_def)
  moreover have "[i..<length haystack] = i # [Suc i..<length haystack]"
    using Suc.prems by (intro upt_rec [THEN trans]) simp
  ultimately show ?case using Suc by simp
qed simp

text \<open>The naive search in a string, which has a zero after its last character.\<close>

lemma search_naive_ok:
  assumes "needle \<noteq> []" "0 \<notin> set needle" "length needle \<le> length haystack"
  shows "search_naive (length needle) needle (length haystack) (haystack @ [0]) =
    Inr (find (occurs_at needle haystack) [0..<length haystack])"
proof -
  have "haystack \<noteq> []" using assms(1,3) by auto
  then show ?thesis
    using assms naive_loop_ok [OF assms(2), of 0 "length haystack" haystack] by (simp add: search_naive_def)
qed

text \<open>Without the zero the end of the haystack is overrun when it begins like the needle.\<close>

lemma search_naive_overrun: "search_naive 2 [97, 98] 2 [99, 97] = Inl OutOfBounds"
  by code_simp

text \<open>What the search of Boyer and Moore returns is an occurrence.\<close>

lemma bm_loop_sound:
  assumes "bm_loop m needle d1 d2 n haystack i j = Some r"
  shows "m = length needle \<longrightarrow> j < m \<longrightarrow> n < 2 ^ 64 \<longrightarrow>
    (i < n \<longrightarrow> drop (Suc j) needle = take (m - Suc j) (drop (Suc i) haystack)) \<longrightarrow> r = Inr (Some p) \<longrightarrow>
    occurs_at needle haystack p"
proof (rule bm_loop.raw_induct [where P = "\<lambda>m needle d1 d2 n haystack i j r.
    m = length needle \<longrightarrow> j < m \<longrightarrow> n < 2 ^ 64 \<longrightarrow>
    (i < n \<longrightarrow> drop (Suc j) needle = take (m - Suc j) (drop (Suc i) haystack)) \<longrightarrow> r = Inr (Some p) \<longrightarrow>
    occurs_at needle haystack p", OF _ assms])
  fix loop :: "nat \<Rightarrow> u8 list \<Rightarrow> int list \<Rightarrow> nat list \<Rightarrow> nat \<Rightarrow> u8 list \<Rightarrow> nat \<Rightarrow> nat \<Rightarrow> nat option res option"
    and m needle d1 d2 n haystack i j r
  assume IH: "\<And>m needle d1 d2 n haystack i j r. loop m needle d1 d2 n haystack i j = Some r \<Longrightarrow>
      m = length needle \<longrightarrow> j < m \<longrightarrow> n < 2 ^ 64 \<longrightarrow>
      (i < n \<longrightarrow> drop (Suc j) needle = take (m - Suc j) (drop (Suc i) haystack)) \<longrightarrow> r = Inr (Some p) \<longrightarrow>
      occurs_at needle haystack p"
  assume hyps: "(if i < n then
       (case res_bind (char_at haystack i) (\<lambda>h. res_bind (char_at needle j) (\<lambda>c. Inr (h, c))) of
          Inl e \<Rightarrow> Some (Inl e)
        | Inr (h, c) \<Rightarrow>
            if h \<noteq> c then
              if sint h < 0 then Some (Inl OutOfBounds)
              else
                let shift1 = nat ((int m - 1 - d1 ! unat h) mod 2 ^ 64);
                    shift2 = d2 ! (j + 1);
                    shift = max 1 (max shift1 shift2)
                in loop m needle d1 d2 n haystack ((i + shift) mod 2 ^ 64) (m - 1)
            else if j = 0 then Some (Inr (Some i))
            else loop m needle d1 d2 n haystack (if i = 0 then 2 ^ 64 - 1 else i - 1) (j - 1))
     else Some (Inr None)) = Some r"
  show "m = length needle \<longrightarrow> j < m \<longrightarrow> n < 2 ^ 64 \<longrightarrow>
      (i < n \<longrightarrow> drop (Suc j) needle = take (m - Suc j) (drop (Suc i) haystack)) \<longrightarrow> r = Inr (Some p) \<longrightarrow>
      occurs_at needle haystack p"
  proof (intro impI)
    assume m: "m = length needle" "j < m" and n: "n < 2 ^ 64"
      and suf: "i < n \<longrightarrow> drop (Suc j) needle = take (m - Suc j) (drop (Suc i) haystack)"
      and r: "r = Inr (Some p)"
    then have i: "i < n" using hyps by (auto split: if_splits)
    have c: "char_at needle j = Inr (needle ! j)" using m by (simp add: char_at_def)
    have h: "i < length haystack" "char_at haystack i = Inr (haystack ! i)"
      using hyps i r by (auto simp: char_at_def split: if_splits)
    have dn: "drop j needle = needle ! j # drop (Suc j) needle" using m by (simp add: Cons_nth_drop_Suc)
    have dh: "drop i haystack = haystack ! i # drop (Suc i) haystack" using h by (simp add: Cons_nth_drop_Suc)
    have "Suc (m - Suc j) = m - j" using m by simp
    then have suf': "haystack ! i = needle ! j \<Longrightarrow> drop j needle = take (m - j) (drop i haystack)"
      using suf i by (metis dn dh take_Suc_Cons)
    consider (differ) "haystack ! i \<noteq> needle ! j" "\<not> sint (haystack ! i) < 0"
      "\<exists>k. loop m needle d1 d2 n haystack k (m - 1) = Some r"
      | (found) "haystack ! i = needle ! j" "j = 0" "p = i"
      | (step) "haystack ! i = needle ! j" "j \<noteq> 0"
        "loop m needle d1 d2 n haystack (if i = 0 then 2 ^ 64 - 1 else i - 1) (j - 1) = Some r"
      using hyps i r c h by (auto simp: Let_def split: if_splits)
    then show "occurs_at needle haystack p"
    proof cases
      case differ
      then obtain k where "loop m needle d1 d2 n haystack k (m - 1) = Some r" by blast
      from IH [OF this] show ?thesis using m n r by simp
    next
      case found
      then show ?thesis using suf' m by (simp add: occurs_at_def)
    next
      case step
      from IH [OF step(3)] show ?thesis
        using suf' step(1,2) m n r by (cases i) (simp_all add: less_imp_diff_less)
    qed
  qed
qed

lemma search_booyer_moore_sound:
  assumes "search_booyer_moore (length needle) needle n haystack = Some (Inr (Some p))" "n < 2 ^ 64"
  shows "occurs_at needle haystack p"
proof -
  have "length needle \<noteq> 0" using assms(1) by (auto simp: search_booyer_moore_def)
  then obtain d1 d2 where
    "bm_loop (length needle) needle d1 d2 n haystack (length needle - 1) (length needle - 1) = Some (Inr (Some p))"
    using assms(1) by (auto simp: search_booyer_moore_def bind_eq_Some_conv split: if_splits sum.splits)
  from bm_loop_sound [OF this] show ?thesis using assms(2) \<open>length needle \<noteq> 0\<close> by simp
qed

text \<open>The second shift moves the needle and not the position in the haystack, which is before the
  end of the needle; so the search may come back to where it was.\<close>

lemma bm_loop_cycles:
  assumes "bm_loop m needle d1 d2 n haystack i j = Some r"
  shows "m = 3 \<longrightarrow> needle = [97, 98, 97] \<longrightarrow> haystack = [98, 98, 97] @ rest \<longrightarrow> 3 \<le> n \<longrightarrow>
    d1 ! 98 = 1 \<longrightarrow> d2 ! 1 = 2 \<longrightarrow> i = j \<longrightarrow> 2 < i"
proof (rule bm_loop.raw_induct [where P = "\<lambda>m needle d1 d2 n haystack i j r.
    m = 3 \<longrightarrow> needle = [97, 98, 97] \<longrightarrow> haystack = [98, 98, 97] @ rest \<longrightarrow> 3 \<le> n \<longrightarrow>
    d1 ! 98 = 1 \<longrightarrow> d2 ! 1 = 2 \<longrightarrow> i = j \<longrightarrow> 2 < i", OF _ assms])
  fix loop :: "nat \<Rightarrow> u8 list \<Rightarrow> int list \<Rightarrow> nat list \<Rightarrow> nat \<Rightarrow> u8 list \<Rightarrow> nat \<Rightarrow> nat \<Rightarrow> nat option res option"
    and m needle d1 d2 n haystack i j r
  assume IH: "\<And>m needle d1 d2 n haystack i j r. loop m needle d1 d2 n haystack i j = Some r \<Longrightarrow>
      m = 3 \<longrightarrow> needle = [97, 98, 97] \<longrightarrow> haystack = [98, 98, 97] @ rest \<longrightarrow> 3 \<le> n \<longrightarrow>
      d1 ! 98 = 1 \<longrightarrow> d2 ! 1 = 2 \<longrightarrow> i = j \<longrightarrow> 2 < i"
  assume hyps: "(if i < n then
       (case res_bind (char_at haystack i) (\<lambda>h. res_bind (char_at needle j) (\<lambda>c. Inr (h, c))) of
          Inl e \<Rightarrow> Some (Inl e)
        | Inr (h, c) \<Rightarrow>
            if h \<noteq> c then
              if sint h < 0 then Some (Inl OutOfBounds)
              else
                let shift1 = nat ((int m - 1 - d1 ! unat h) mod 2 ^ 64);
                    shift2 = d2 ! (j + 1);
                    shift = max 1 (max shift1 shift2)
                in loop m needle d1 d2 n haystack ((i + shift) mod 2 ^ 64) (m - 1)
            else if j = 0 then Some (Inr (Some i))
            else loop m needle d1 d2 n haystack (if i = 0 then 2 ^ 64 - 1 else i - 1) (j - 1))
     else Some (Inr None)) = Some r"
  show "m = 3 \<longrightarrow> needle = [97, 98, 97] \<longrightarrow> haystack = [98, 98, 97] @ rest \<longrightarrow> 3 \<le> n \<longrightarrow>
      d1 ! 98 = 1 \<longrightarrow> d2 ! 1 = 2 \<longrightarrow> i = j \<longrightarrow> 2 < i"
  proof (intro impI, rule ccontr)
    assume a: "m = 3" "needle = [97, 98, 97]" "haystack = [98, 98, 97] @ rest" "3 \<le> n"
      "d1 ! 98 = 1" "d2 ! 1 = 2" "i = j" "\<not> 2 < i"
    have ih: "loop m needle d1 d2 n haystack k k = Some r \<Longrightarrow> 2 < k" for k
      using IH [of m needle d1 d2 n haystack k k r] a by blast
    consider "i = 0" | "i = 1" | "i = 2" using a(8) by linarith
    then show False
    proof cases
      case 1
      then have "loop m needle d1 d2 n haystack 2 2 = Some r" using hyps a by (simp add: char_at_def Let_def flip: numeral_2_eq_2)
      from ih [OF this] show ?thesis by simp
    next
      case 2
      then have "loop m needle d1 d2 n haystack 0 0 = Some r" using hyps a by (simp add: char_at_def)
      from ih [OF this] show ?thesis by simp
    next
      case 3
      then have "loop m needle d1 d2 n haystack 1 1 = Some r" using hyps a by (simp add: char_at_def)
      from ih [OF this] show ?thesis by simp
    qed
  qed
qed

lemma delta_2_aba: "pre_process_delta_2 3 [97, 98, 97] = Some [2, 2, 2, 1]"
  by code_simp

lemma search_booyer_moore_cycles:
  "search_booyer_moore 3 [97, 98, 97] (3 + length rest) ([98, 98, 97] @ rest) = None"
proof -
  obtain d1 where d1: "pre_process_delta_1 3 [97, 98, 97] = Inr d1" "d1 ! 98 = 1"
    by (simp add: pre_process_delta_1_def sint_uint nth_list_update)
  have "bm_loop 3 [97, 98, 97] d1 [2, 2, 2, 1] (3 + length rest) ([98, 98, 97] @ rest) 2 2 = None"
  proof (rule ccontr)
    assume "bm_loop 3 [97, 98, 97] d1 [2, 2, 2, 1] (3 + length rest) ([98, 98, 97] @ rest) 2 2 \<noteq> None"
    then obtain r where
      "bm_loop 3 [97, 98, 97] d1 [2, 2, 2, 1] (3 + length rest) ([98, 98, 97] @ rest) 2 2 = Some r" by blast
    note bm_loop_cycles [OF this, of rest]
    then show False using d1(2) by simp
  qed
  then show ?thesis by (simp add: search_booyer_moore_def d1(1) delta_2_aba)
qed

end
