(* ===== verification/ApMaps.thy ===== *)
theory ApMaps
  imports BiMap RegE2Nodes
begin

text \<open>
  The maps of the near-RT RIC and of its iApp: from E2 nodes to the SCTP association they
  connected on (\<open>src/ric/map_e2_node_sockaddr.c\<close>), from xApps to theirs
  (\<open>src/ric/iApp/map_xapps_sockaddr.c\<close>), and between the request identifiers of the RIC and
  those of the xApps (\<open>src/ric/iApp/map_ric_id.c\<close>).  The locks make every function one step.
\<close>

context comparator
begin

text \<open>Inserting a key that is already there leaves its lookup as it was: the new entry goes
  behind the old one.\<close>

lemma get_key_less:
  assumes "sorted_entries cmp (x # xs)" "keys_in D (x # xs)" "q \<in> D" "cmp q (fst x) = 1"
  shows "get_key cmp q (x # xs) = None"
proof -
  have "cmp q (fst y) = 1" if "y \<in> set xs" for y
    using cmp_less_le_trans [of q "fst x" "fst y"] assms that keys_inD [OF assms(2), of y]
    by (simp add: sorted_entries_def)
  then show ?thesis using assms(4) by (auto simp: get_key_None_iff fresh_key_def)
qed

lemma get_ins_entry_any:
  assumes "sorted_entries cmp xs" "keys_in D xs" "k \<in> D" "q \<in> D"
  shows "get_key cmp q (ins_entry cmp k v xs) =
    (case get_key cmp q xs of Some w \<Rightarrow> Some w | None \<Rightarrow> if cmp q k = 0 then Some v else None)"
  using assms
proof (induction xs)
  case (Cons x xs)
  have s: "sorted_entries cmp xs" using Cons.prems(1) by (simp add: sorted_entries_def)
  have "get_key cmp q (x # xs) = None" if "cmp k (fst x) = 1" "cmp q k = 0"
    using get_key_less [OF Cons.prems(1,2,4)] cmp_eq_left [of q k "fst x"] Cons.prems that by simp
  then show ?case using Cons s by (auto split: option.splits)
qed simp

end

section \<open>E2 nodes and their associations\<close>

record 'sri map_e2_node_sockaddr =
  e2_map :: "(global_e2_node_id, 'sri sctp_info) bi_map"

definition init_map_e2_node_sad :: "'sri map_e2_node_sockaddr" where
  "init_map_e2_node_sad = \<lparr>e2_map = bi_map_init cmp_global_e2_node_id_wrapper cmp_sctp_info_wrapper\<rparr>"

text \<open>The release build, in which nothing checks that the node is new.\<close>

definition add_map_e2_node_sad ::
  "'sri map_e2_node_sockaddr \<Rightarrow> global_e2_node_id \<Rightarrow> 'sri sctp_info \<Rightarrow> 'sri map_e2_node_sockaddr res" where
  "add_map_e2_node_sad m id0 s =
    res_bind (bi_map_insert (e2_map m) id0 s) (\<lambda>b. Inr (m\<lparr>e2_map := b\<rparr>))"

definition rm_map_e2_node_sad ::
  "('sri sctp_info \<Rightarrow> global_e2_node_id) \<Rightarrow> 'sri map_e2_node_sockaddr \<Rightarrow> global_e2_node_id \<Rightarrow>
    ('sri sctp_info \<times> 'sri map_e2_node_sockaddr) res" where
  "rm_map_e2_node_sad as_key1 m id0 =
    res_bind (bi_map_extract_left as_key1 (e2_map m) id0) (\<lambda>(s, b). Inr (s, m\<lparr>e2_map := b\<rparr>))"

definition rm_map_sad_e2_node ::
  "'sri map_e2_node_sockaddr \<Rightarrow> 'sri sctp_info \<Rightarrow> (global_e2_node_id \<times> 'sri map_e2_node_sockaddr) res" where
  "rm_map_sad_e2_node m s =
    res_bind (bi_map_extract_right (e2_map m) s) (\<lambda>(i, b). Inr (i, m\<lparr>e2_map := b\<rparr>))"

definition find_map_e2_node_sad ::
  "'sri map_e2_node_sockaddr \<Rightarrow> global_e2_node_id \<Rightarrow> 'sri sctp_info res" where
  "find_map_e2_node_sad m id0 =
    res_bind (rb_find_value (eq_global_e2_node_id id0) (left (e2_map m))) (\<lambda>r.
    case r of None \<Rightarrow> Inl AssertFail | Some s \<Rightarrow> Inr s)"

definition e2_sad_inv :: "global_e2_node_id set \<Rightarrow> 'sri map_e2_node_sockaddr \<Rightarrow> bool" where
  "e2_sad_inv D m \<longleftrightarrow>
    bm_inv cmp_global_e2_node_id_wrapper D cmp_sctp_info_wrapper UNIV (e2_map m) \<and>
    bm_uniq cmp_global_e2_node_id_wrapper cmp_sctp_info_wrapper (e2_map m)"

definition e2_sad_get :: "'sri map_e2_node_sockaddr \<Rightarrow> global_e2_node_id \<Rightarrow> 'sri sctp_info option" where
  "e2_sad_get m k = first_value (eq_global_e2_node_id k) (bm_pairs (e2_map m))"

definition e2_sad_node :: "'sri map_e2_node_sockaddr \<Rightarrow> 'sri sctp_info \<Rightarrow> global_e2_node_id option" where
  "e2_sad_node m s = bm_get_right cmp_sctp_info_wrapper (e2_map m) s"

lemma e2_sad_inv_init: "e2_sad_inv D init_map_e2_node_sad"
  by (simp add: e2_sad_inv_def init_map_e2_node_sad_def bm_inv_init bm_uniq_init)

lemma find_map_e2_node_sad_eq:
  "find_map_e2_node_sad m k = (case e2_sad_get m k of None \<Rightarrow> Inl AssertFail | Some s \<Rightarrow> Inr s)"
  by (simp add: find_map_e2_node_sad_def rb_find_value_eq e2_sad_get_def bm_pairs_def)

sublocale node_set \<subseteq> node_sad: two_comparators cmp_global_e2_node_id_wrapper D cmp_sctp_info_wrapper UNIV
  by unfold_locales

context node_set
begin

lemma sad_get_key:
  "e2_sad_inv D m \<Longrightarrow> k \<in> D \<Longrightarrow> e2_sad_get m k = bm_get_left node_cmp (e2_map m) k"
  unfolding e2_sad_get_def bm_get_left_def bm_pairs_def
  by (rule first_value_get_key)
     (auto simp: eq_node e2_sad_inv_def bm_inv_def rb_inv_def dest: keys_inD)

lemma add_sad_ok:
  assumes "e2_sad_inv D m" "k \<in> D" "e2_sad_get m k = None" "e2_sad_node m s = None"
  obtains m' where "add_map_e2_node_sad m k s = Inr m'" "e2_sad_inv D m'"
    "\<And>q. q \<in> D \<Longrightarrow> e2_sad_get m' q = (if eq_global_e2_node_id q k then Some s else e2_sad_get m q)"
    "\<And>q. e2_sad_node m' q = (if eq_sctp_info_wrapper q s then Some k else e2_sad_node m q)"
proof -
  have i: "node_sad.bminv (e2_map m)" "node_sad.bmuniq (e2_map m)"
    using assms(1) by (auto simp: e2_sad_inv_def)
  obtain b where b: "bi_map_insert (e2_map m) k s = Inr b" "node_sad.bminv b" "node_sad.bmuniq b"
    "\<And>q. q \<in> D \<Longrightarrow> bm_get_left node_cmp b q = (if node_cmp q k = 0 then Some s else bm_get_left node_cmp (e2_map m) q)"
    "\<And>q. q \<in> UNIV \<Longrightarrow> bm_get_right cmp_sctp_info_wrapper b q =
      (if cmp_sctp_info_wrapper q s = 0 then Some k else bm_get_right cmp_sctp_info_wrapper (e2_map m) q)"
    using node_sad.insert_uniq [OF i assms(2), of s] assms sad_get_key [OF assms(1,2)]
    by (auto simp: e2_sad_node_def)
  let ?m = "m\<lparr>e2_map := b\<rparr>"
  have inv: "e2_sad_inv D ?m" using b by (simp add: e2_sad_inv_def)
  have "add_map_e2_node_sad m k s = Inr ?m" using b by (simp add: add_map_e2_node_sad_def)
  moreover have "e2_sad_get ?m q = (if eq_global_e2_node_id q k then Some s else e2_sad_get m q)"
    if "q \<in> D" for q
    using sad_get_key [OF inv that] sad_get_key [OF assms(1) that] b(4) [OF that] eq_node [OF that assms(2)]
    by simp
  moreover have "e2_sad_node ?m q = (if eq_sctp_info_wrapper q s then Some k else e2_sad_node m q)" for q
    using b(5) by (simp add: e2_sad_node_def eq_sctp_info_wrapper_def del: eq_sctp_info_iff)
  ultimately show ?thesis using inv that by blast
qed

lemma rm_sad_ok:
  assumes "e2_sad_inv D m" "e2_sad_node m s = Some k"
  obtains m' where "rm_map_sad_e2_node m s = Inr (k, m')" "e2_sad_inv D m'" "k \<in> D"
    "\<And>q. q \<in> D \<Longrightarrow> e2_sad_get m' q = (if eq_global_e2_node_id q k then None else e2_sad_get m q)"
    "\<And>q. e2_sad_node m' q = (if eq_sctp_info_wrapper q s then None else e2_sad_node m q)"
proof -
  have i: "node_sad.bminv (e2_map m)" "node_sad.bmuniq (e2_map m)"
    using assms(1) by (auto simp: e2_sad_inv_def)
  have g: "bm_get_right cmp_sctp_info_wrapper (e2_map m) s = Some k"
    using assms(2) by (simp add: e2_sad_node_def)
  obtain b where b: "bi_map_extract_right (e2_map m) s = Inr (k, b)" "node_sad.bminv b" "node_sad.bmuniq b"
    "bm_pairs b = del_key node_cmp k (bm_pairs (e2_map m))"
    "rb_entries (right b) = del_key cmp_sctp_info_wrapper s (rb_entries (right (e2_map m)))"
    using node_sad.extract_right_ok [OF i _ g] by blast
  have k: "k \<in> D" using node_sad.get_right_pair [OF i(1) g] by blast
  let ?m = "m\<lparr>e2_map := b\<rparr>"
  have inv: "e2_sad_inv D ?m" using b by (simp add: e2_sad_inv_def)
  have ks: "keys_in D (bm_pairs (e2_map m))" using i(1) by (simp add: bm_inv_def rb_inv_def bm_pairs_def)
  have "rm_map_sad_e2_node m s = Inr (k, ?m)" using b by (simp add: rm_map_sad_e2_node_def)
  moreover have "e2_sad_get ?m q = (if eq_global_e2_node_id q k then None else e2_sad_get m q)"
    if "q \<in> D" for q
    using sad_get_key [OF inv that] sad_get_key [OF assms(1) that] get_del_key [OF ks k that] b(4)
      eq_node [OF that k]
    by (simp add: bm_get_left_def bm_pairs_def)
  moreover have "e2_sad_node ?m q = (if eq_sctp_info_wrapper q s then None else e2_sad_node m q)" for q
    using b(5) sctp.get_del_key [of "rb_entries (right (e2_map m))" s q]
    by (simp add: e2_sad_node_def bm_get_right_def eq_sctp_info_wrapper_def del: eq_sctp_info_iff)
  ultimately show ?thesis using inv k that by blast
qed

lemma rm_sad_absent:
  assumes "e2_sad_inv D m" "e2_sad_node m s = None"
  shows "rm_map_sad_e2_node m s = Inl AssertFail"
  using node_sad.extract_right_absent [of "e2_map m" s] assms
  by (simp add: rm_map_sad_e2_node_def e2_sad_inv_def e2_sad_node_def)

end

section \<open>xApps and their associations\<close>

definition cmp_uint16_wrapper :: "u16 cmp_fun" where
  "cmp_uint16_wrapper m0 m1 = (if m0 < m1 then 1 else if m0 > m1 then -1 else 0)"

definition eq_uint16_wrapper :: "u16 \<Rightarrow> u16 \<Rightarrow> bool" where
  "eq_uint16_wrapper m0 m1 \<longleftrightarrow> m0 = m1"

record 'sri map_xapps_sockaddr =
  xapp_tree :: "(u16, 'sri sctp_info) assoc_rb_tree"

definition init_map_xapps_sad :: "'sri map_xapps_sockaddr" where
  "init_map_xapps_sad = \<lparr>xapp_tree = assoc_rb_tree_init cmp_uint16_wrapper\<rparr>"

definition add_map_xapps_sad ::
  "'sri map_xapps_sockaddr \<Rightarrow> u16 \<Rightarrow> 'sri sctp_info \<Rightarrow> 'sri map_xapps_sockaddr res" where
  "add_map_xapps_sad m xid s =
    res_bind (rb_find_value (eq_uint16_wrapper xid) (xapp_tree m)) (\<lambda>r.
    res_bind (c_assert (r = None)) (\<lambda>_.
    res_bind (assoc_rb_tree_insert (xapp_tree m) xid s) (\<lambda>t.
    Inr (m\<lparr>xapp_tree := t\<rparr>))))"

definition rm_map_xapps_sad :: "'sri map_xapps_sockaddr \<Rightarrow> u16 \<Rightarrow> 'sri map_xapps_sockaddr res" where
  "rm_map_xapps_sad m xid = Inl NotImplemented"

definition find_map_xapps_sad :: "'sri map_xapps_sockaddr \<Rightarrow> u16 \<Rightarrow> 'sri sctp_info res" where
  "find_map_xapps_sad m xid =
    res_bind (rb_find_value (eq_uint16_wrapper xid) (xapp_tree m)) (\<lambda>r.
    case r of None \<Rightarrow> Inl AssertFail | Some s \<Rightarrow> Inr s)"

interpretation uint16: comparator cmp_uint16_wrapper UNIV
  by (rule comparator_cong [OF cmp_order_comparator [of id]])
     (auto simp: cmp_order_def cmp_uint16_wrapper_def)

definition xapps_inv :: "'sri map_xapps_sockaddr \<Rightarrow> bool" where
  "xapps_inv m \<longleftrightarrow> rb_inv cmp_uint16_wrapper UNIV (xapp_tree m)"

definition xapps_get :: "'sri map_xapps_sockaddr \<Rightarrow> u16 \<Rightarrow> 'sri sctp_info option" where
  "xapps_get m xid = get_key cmp_uint16_wrapper xid (rb_entries (xapp_tree m))"

lemma cmp_uint16_wrapper_eq0 [simp]: "cmp_uint16_wrapper a b = 0 \<longleftrightarrow> a = b"
  by (auto simp: cmp_uint16_wrapper_def)

lemma xapps_find: "rb_find_value (eq_uint16_wrapper xid) (xapp_tree m) = Inr (xapps_get m xid)"
  unfolding rb_find_value_eq xapps_get_def
  by (intro arg_cong [where f = Inr] first_value_get_key) (simp add: eq_uint16_wrapper_def)

lemma xapps_inv_init: "xapps_inv init_map_xapps_sad"
  by (simp add: xapps_inv_def init_map_xapps_sad_def rb_inv_init)

lemma xapps_get_init [simp]: "xapps_get init_map_xapps_sad xid = None"
  by (simp add: xapps_get_def init_map_xapps_sad_def)

lemma find_map_xapps_sad_eq:
  "find_map_xapps_sad m xid = (case xapps_get m xid of None \<Rightarrow> Inl AssertFail | Some s \<Rightarrow> Inr s)"
  by (simp add: find_map_xapps_sad_def xapps_find)

lemma add_map_xapps_sad_ok:
  assumes "xapps_inv m" "xapps_get m xid = None"
  obtains m' where "add_map_xapps_sad m xid s = Inr m'" "xapps_inv m'" "xapps_get m' = (xapps_get m)(xid \<mapsto> s)"
proof -
  have i: "rb_inv cmp_uint16_wrapper UNIV (xapp_tree m)" using assms by (simp add: xapps_inv_def)
  obtain t where t: "assoc_rb_tree_insert (xapp_tree m) xid s = Inr t" "rb_inv cmp_uint16_wrapper UNIV t"
    "rb_entries t = ins_entry cmp_uint16_wrapper xid s (rb_entries (xapp_tree m))"
    using uint16.rb_insert_ok [OF i] by blast
  have "fresh_key cmp_uint16_wrapper xid (rb_entries (xapp_tree m))"
    using assms(2) by (simp add: xapps_get_def get_key_None_iff)
  then have "xapps_get (m\<lparr>xapp_tree := t\<rparr>) = (xapps_get m)(xid \<mapsto> s)"
    using t by (intro ext) (simp add: xapps_get_def uint16.get_ins_entry)
  moreover have "add_map_xapps_sad m xid s = Inr (m\<lparr>xapp_tree := t\<rparr>)"
    using t assms by (simp add: add_map_xapps_sad_def xapps_find)
  ultimately show ?thesis using that t by (simp add: xapps_inv_def)
qed

lemma add_map_xapps_sad_dup:
  "xapps_get m xid \<noteq> None \<Longrightarrow> add_map_xapps_sad m xid s = Inl AssertFail"
  by (auto simp: add_map_xapps_sad_def xapps_find)

section \<open>Request identifiers of the RIC and of the xApps\<close>

record e2_node_ric_req =
  e2_node_id :: global_e2_node_id
  nric_req_id :: u16

definition cmp_uint16 :: "u16 cmp_fun" where
  "cmp_uint16 m0 m1 = (if m0 < m1 then -1 else if m0 = m1 then 0 else 1)"

definition cmp_e2_node_ric_req_wrapper :: "e2_node_ric_req cmp_fun" where
  "cmp_e2_node_ric_req_wrapper m0 m1 = cmp_uint16 (nric_req_id m0) (nric_req_id m1)"

definition eq_e2_node_ric_req :: "e2_node_ric_req \<Rightarrow> e2_node_ric_req \<Rightarrow> bool" where
  "eq_e2_node_ric_req m0 m1 \<longleftrightarrow> nric_req_id m0 = nric_req_id m1"

record map_ric_id =
  bimap :: "(e2_node_ric_req, xapp_ric_id) bi_map"

definition init_map_ric_id :: map_ric_id where
  "init_map_ric_id = \<lparr>bimap = bi_map_init cmp_e2_node_ric_req_wrapper cmp_xapp_ric_gen_id\<rparr>"

definition add_map_ric_id :: "map_ric_id \<Rightarrow> e2_node_ric_req \<Rightarrow> xapp_ric_id \<Rightarrow> map_ric_id res" where
  "add_map_ric_id m node x =
    res_bind (rb_find_value (eq_e2_node_ric_req node) (left (bimap m))) (\<lambda>r.
    res_bind (c_assert (r = None)) (\<lambda>_.
    res_bind (bi_map_insert (bimap m) node x) (\<lambda>b.
    Inr (m\<lparr>bimap := b\<rparr>))))"

definition rm_map_ric_id ::
  "(xapp_ric_id \<Rightarrow> e2_node_ric_req) \<Rightarrow> map_ric_id \<Rightarrow> e2_node_ric_req \<Rightarrow> map_ric_id res" where
  "rm_map_ric_id as_key1 m node =
    res_bind (bi_map_extract_left as_key1 (bimap m) node) (\<lambda>(x, b). Inr (m\<lparr>bimap := b\<rparr>))"

text \<open>The dummy key of the lookup has only its request identifier set.\<close>

definition dummy_node :: "u16 \<Rightarrow> e2_node_ric_req" where
  "dummy_node r =
    \<lparr>e2_node_id = \<lparr>ntype = Ngran_eNB, nplmn = \<lparr>mcc = 0, mnc = 0, mnc_digit_len = 0\<rparr>, nb_id = 0,
                  cu_du_id = None\<rparr>,
     nric_req_id = r\<rparr>"

definition find_xapp_map_ric_id :: "map_ric_id \<Rightarrow> u16 \<Rightarrow> xapp_ric_id res" where
  "find_xapp_map_ric_id m r =
    res_bind (c_assert (0 < r)) (\<lambda>_.
    res_bind (rb_find_value (eq_e2_node_ric_req (dummy_node r)) (left (bimap m))) (\<lambda>x.
    case x of None \<Rightarrow> Inl AssertFail | Some i \<Rightarrow> Inr i))"

definition find_ric_req_map_ric_id :: "map_ric_id \<Rightarrow> xapp_ric_id \<Rightarrow> e2_node_ric_req res" where
  "find_ric_req_map_ric_id m x =
    res_bind (rb_find_value (eq_xapp_ric_gen_id x) (right (bimap m))) (\<lambda>r.
    case r of None \<Rightarrow> Inl AssertFail | Some n \<Rightarrow> Inr n)"

lemma cmp_e2_node_ric_req_comparator: "comparator cmp_e2_node_ric_req_wrapper UNIV"
  by (rule comparator_cong [OF cmp_order_flipped_comparator [of nric_req_id]])
     (auto simp: cmp_order_def cmp_e2_node_ric_req_wrapper_def cmp_uint16_def)

interpretation ric_ids: two_comparators cmp_e2_node_ric_req_wrapper UNIV cmp_xapp_ric_gen_id UNIV
  by (rule two_comparators.intro [OF cmp_e2_node_ric_req_comparator xapp_ric.comparator_axioms])

lemma cmp_e2_node_ric_req_eq0 [simp]:
  "cmp_e2_node_ric_req_wrapper a b = 0 \<longleftrightarrow> nric_req_id a = nric_req_id b"
  by (auto simp: cmp_e2_node_ric_req_wrapper_def cmp_uint16_def)

definition ric_id_inv :: "map_ric_id \<Rightarrow> bool" where
  "ric_id_inv m \<longleftrightarrow>
    bm_inv cmp_e2_node_ric_req_wrapper UNIV cmp_xapp_ric_gen_id UNIV (bimap m) \<and>
    uniq_entries cmp_e2_node_ric_req_wrapper (bm_pairs (bimap m))"

text \<open>What the two lookups find.\<close>

definition ric_id_get :: "map_ric_id \<Rightarrow> u16 \<Rightarrow> xapp_ric_id option" where
  "ric_id_get m r = get_key cmp_e2_node_ric_req_wrapper (dummy_node r) (bm_pairs (bimap m))"

definition ric_id_node :: "map_ric_id \<Rightarrow> xapp_ric_id \<Rightarrow> e2_node_ric_req option" where
  "ric_id_node m x = get_key cmp_xapp_ric_gen_id x (rb_entries (right (bimap m)))"

lemma dummy_node_id [simp]: "nric_req_id (dummy_node r) = r"
  by (simp add: dummy_node_def)

lemma ric_id_find_left:
  "rb_find_value (eq_e2_node_ric_req n) (left (bimap m)) = Inr (ric_id_get m (nric_req_id n))"
  unfolding rb_find_value_eq ric_id_get_def bm_pairs_def
  by (intro arg_cong [where f = Inr] first_value_get_key) (simp add: eq_e2_node_ric_req_def)

lemma ric_id_find_right: "rb_find_value (eq_xapp_ric_gen_id x) (right (bimap m)) = Inr (ric_id_node m x)"
  unfolding rb_find_value_eq ric_id_node_def
  by (intro arg_cong [where f = Inr] first_value_get_key) simp

lemma find_xapp_map_ric_id_eq:
  "find_xapp_map_ric_id m r =
    (if r = 0 then Inl AssertFail else case ric_id_get m r of None \<Rightarrow> Inl AssertFail | Some x \<Rightarrow> Inr x)"
  by (cases "r = 0") (simp_all add: find_xapp_map_ric_id_def ric_id_find_left word_gt_0)

lemma find_ric_req_map_ric_id_eq:
  "find_ric_req_map_ric_id m x = (case ric_id_node m x of None \<Rightarrow> Inl AssertFail | Some n \<Rightarrow> Inr n)"
  by (simp add: find_ric_req_map_ric_id_def ric_id_find_right)

lemma ric_id_init [simp]:
  "ric_id_inv init_map_ric_id" "ric_id_get init_map_ric_id r = None" "ric_id_node init_map_ric_id x = None"
  by (simp_all add: ric_id_inv_def init_map_ric_id_def bm_inv_init ric_id_get_def ric_id_node_def)
     (simp_all add: uniq_entries_def bi_map_init_def)

lemma add_map_ric_id_ok:
  assumes "ric_id_inv m" "ric_id_get m (nric_req_id n) = None"
  obtains m' where "add_map_ric_id m n x = Inr m'" "ric_id_inv m'"
    "ric_id_get m' = (ric_id_get m)(nric_req_id n \<mapsto> x)"
    "ric_id_node m' = (if ric_id_node m x = None then (ric_id_node m)(x \<mapsto> n) else ric_id_node m)"
proof -
  have i: "ric_ids.bminv (bimap m)" "uniq_entries cmp_e2_node_ric_req_wrapper (bm_pairs (bimap m))"
    using assms(1) by (auto simp: ric_id_inv_def)
  obtain b where b: "bi_map_insert (bimap m) n x = Inr b" "ric_ids.bminv b"
    "bm_pairs b = ins_entry cmp_e2_node_ric_req_wrapper n x (bm_pairs (bimap m))"
    "rb_entries (right b) = ins_entry cmp_xapp_ric_gen_id x n (rb_entries (right (bimap m)))"
    using ric_ids.insert_ok [OF i(1)] by blast
  let ?m = "m\<lparr>bimap := b\<rparr>"
  have f: "fresh_key cmp_e2_node_ric_req_wrapper n (bm_pairs (bimap m))"
    using assms(2) by (simp add: ric_id_get_def get_key_None_iff fresh_key_def)
  have "add_map_ric_id m n x = Inr ?m"
    using b assms by (simp add: add_map_ric_id_def ric_id_find_left)
  moreover have "ric_id_inv ?m"
    using b i f by (simp add: ric_id_inv_def ric_ids.c1.uniq_ins_entry)
  moreover have "ric_id_get ?m = (ric_id_get m)(nric_req_id n \<mapsto> x)"
    using b f by (intro ext) (simp add: ric_id_get_def ric_ids.c1.get_ins_entry)
  moreover have "sorted_entries cmp_xapp_ric_gen_id (rb_entries (right (bimap m)))"
    using i(1) by (simp add: bm_inv_def rb_inv_def)
  then have "ric_id_node ?m = (if ric_id_node m x = None then (ric_id_node m)(x \<mapsto> n) else ric_id_node m)"
    using b by (intro ext) (auto simp: ric_id_node_def xapp_ric.get_ins_entry_any split: option.splits)
  ultimately show ?thesis using that by blast
qed

lemma add_map_ric_id_dup:
  "ric_id_get m (nric_req_id n) \<noteq> None \<Longrightarrow> add_map_ric_id m n x = Inl AssertFail"
  by (auto simp: add_map_ric_id_def ric_id_find_left)

text \<open>A node found for an xApp identifier has a RIC identifier that leads back to the xApp.\<close>

lemma ric_id_node_get:
  assumes "ric_id_inv m" "ric_id_node m x = Some n"
  shows "ric_id_get m (nric_req_id n) = Some x"
proof -
  have "(x, n) \<in> set (rb_entries (right (bimap m)))"
    using get_key_SomeD [OF assms(2) [unfolded ric_id_node_def]] by auto
  then have "(n, x) \<in> set (bm_pairs (bimap m))"
    using bm_set_right assms(1) unfolding ric_id_inv_def by fast
  then show ?thesis
    using assms(1) unfolding ric_id_get_def ric_id_inv_def
    by (auto intro!: ric_ids.c1.get_key_uniq [of _ n x])
qed

end
