(* ===== verification/NearRic.thy ===== *)
theory NearRic
  imports ApMaps RbUpdate
begin

text \<open>
  The near-RT RIC: \<open>src/ric/near_ric.c\<close>, \<open>msg_handler_ric.c\<close>, \<open>not_handler_ric.c\<close>,
  \<open>endpoint_ric.c\<close>, \<open>plugin_ric.c\<close>, \<open>e2_node.c\<close> and \<open>asio_ric.c\<close>.

  The state \<open>near_ric\<close> has the members of \<open>near_ric_t\<close> that the functions read and write.
  A function returns the new state and what it does to the outside, in order: messages sent,
  calls of the iApp, data passed to a listener.  Messages are sent as values (the encoding is
  the business of the ASN.1 code).  The file descriptor of a new timer is chosen by the
  operating system and is an argument.  The members of a service model, loaded from a shared
  object at run time, are functions held by the state.
\<close>

section \<open>The event loop of the operating system\<close>

text \<open>The interest list of the epoll instance (\<open>asio_ric.c\<close>).  Adding a descriptor twice or
  removing an absent one makes \<open>epoll_ctl\<close> answer -1.\<close>

type_synonym asio_ric = "int list"

definition add_fd_asio_ric :: "asio_ric \<Rightarrow> int \<Rightarrow> asio_ric res" where
  "add_fd_asio_ric io fd =
    res_bind (c_assert (0 < fd)) (\<lambda>_.
    res_bind (c_assert (fd \<notin> set io)) (\<lambda>_.
    Inr (fd # io)))"

text \<open>The two \<open>timespec\<close> of a timer, as seconds and nanoseconds.\<close>

definition timer_spec :: "int \<Rightarrow> int \<times> int" where
  "timer_spec ms = (ms div 1000, (ms * 1000000) mod 1000000000)"

definition create_timer_ms_asio_ric :: "asio_ric \<Rightarrow> int \<Rightarrow> int \<Rightarrow> int \<Rightarrow> asio_ric res" where
  "create_timer_ms_asio_ric io initial_ms interval_ms tfd =
    res_bind (c_assert (0 < initial_ms)) (\<lambda>_.
    res_bind (c_assert (0 < interval_ms)) (\<lambda>_.
    res_bind (c_assert (tfd \<noteq> -1)) (\<lambda>_.
    add_fd_asio_ric io tfd)))"

definition rm_fd_asio_ric :: "asio_ric \<Rightarrow> int \<Rightarrow> asio_ric res" where
  "rm_fd_asio_ric io fd =
    res_bind (c_assert (fd \<in> set io)) (\<lambda>_. Inr (remove1 fd io))"

section \<open>Service models\<close>

datatype sm_ag_if_rd_e =
    MAC_STATS_V0 | RLC_STATS_V0 | PDCP_STATS_V0 | SLICE_STATS_V0 | TC_STATS_V0
  | GTP_STATS_V0 | KPM_STATS_V0 | SM_AGENT_IF_READ_V0_END

record 'rd sm_ag_if_rd =
  rd_type :: sm_ag_if_rd_e
  rd_stats :: 'rd

record sm_subs_data =
  sd_event_trigger :: byte_array
  sd_action_def :: "byte_array option"

record sm_ind_data =
  sid_hdr :: byte_array
  sid_msg :: byte_array
  sid_call_process_id :: "byte_array option"

record sm_ctrl_req_data =
  scd_hdr :: byte_array
  scd_msg :: byte_array

record ('wr, 'rd) sm_ric =
  on_subscription :: "string \<Rightarrow> sm_subs_data res"
  on_indication :: "sm_ind_data \<Rightarrow> 'rd sm_ag_if_rd res"
  on_control_req :: "'wr \<Rightarrow> sm_ctrl_req_data res"
  sm_ran_func_id :: u16

type_synonym ('wr, 'rd) plugin_ric = "(u16, ('wr, 'rd) sm_ric) assoc_rb_tree"

text \<open>\<open>load_plugin_ric\<close> from the point where the shared object gave its service model.\<close>

definition load_plugin_ric :: "('wr, 'rd) plugin_ric \<Rightarrow> ('wr, 'rd) sm_ric \<Rightarrow> ('wr, 'rd) plugin_ric res" where
  "load_plugin_ric p sm =
    res_bind (c_assert (0 < sm_ran_func_id sm)) (\<lambda>_.
    assoc_rb_tree_insert p (sm_ran_func_id sm) sm)"

definition init_plugin_ric :: "('wr, 'rd) sm_ric list \<Rightarrow> ('wr, 'rd) plugin_ric res" where
  "init_plugin_ric sms =
    fold_res (\<lambda>sm p. load_plugin_ric p sm) sms (assoc_rb_tree_init cmp_ran_func_id)"

definition sm_plugin_ric :: "('wr, 'rd) plugin_ric \<Rightarrow> u16 \<Rightarrow> ('wr, 'rd) sm_ric res" where
  "sm_plugin_ric p rf =
    res_bind (c_assert (0 < rf)) (\<lambda>_.
    res_bind (rb_find_value (eq_ran_func_id rf) p) (\<lambda>r.
    case r of None \<Rightarrow> Inl AssertFail
    | Some sm \<Rightarrow> res_bind (c_assert (sm_ran_func_id sm = rf)) (\<lambda>_. Inr sm)))"

definition size_plugin_ric :: "('wr, 'rd) plugin_ric \<Rightarrow> nat" where
  "size_plugin_ric p = assoc_rb_tree_size p"

section \<open>Connected E2 nodes\<close>

record e2_node =
  en_id :: global_e2_node_id
  en_accepted :: "u16 list"

definition init_e2_node :: "global_e2_node_id \<Rightarrow> u16 list \<Rightarrow> e2_node" where
  "init_e2_node i acc =
    \<lparr>en_id = \<lparr>ntype = ntype i, nplmn = nplmn i, nb_id = nb_id i,
      cu_du_id = (case cu_du_id i of None \<Rightarrow> None | Some c \<Rightarrow> Some c)\<rparr>, en_accepted = acc\<rparr>"

definition cp_e2_node :: "e2_node \<Rightarrow> e2_node" where
  "cp_e2_node src = \<lparr>en_id = cp_global_e2_node_id (en_id src), en_accepted = map (\<lambda>a. a) (en_accepted src)\<rparr>"

text \<open>Erasing the first node with the identifier.\<close>

fun erase_e2_node :: "global_e2_node_id \<Rightarrow> e2_node list \<Rightarrow> e2_node list res" where
  "erase_e2_node i [] = Inl AssertFail"
| "erase_e2_node i (n # ns) =
    (if eq_global_e2_node_id i (en_id n) then Inr ns
     else res_bind (erase_e2_node i ns) (\<lambda>ms. Inr (n # ms)))"

section \<open>State and effects\<close>

record ('sri, 'wr, 'rd) near_ric =
  ep :: "'sri map_e2_node_sockaddr"
  io :: asio_ric
  plugin :: "('wr, 'rd) plugin_ric"
  pub_sub :: "(u16, string list) assoc_rb_tree"
  conn_nodes :: "e2_node list"
  req_id :: u32
  pending :: "(int, pending_event_ric) bi_map"

datatype ('sri, 'rd) ric_out =
    Send_msg "'sri sctp_info" e2ap_msg
  | Iapp_add_node global_e2_node_id "ran_function list"
  | Iapp_rm_node global_e2_node_id
  | Iapp_notify e2ap_msg
  | Publish string "'rd sm_ag_if_rd"

type_synonym ('sri, 'wr, 'rd) ric_res =
  "(('sri, 'wr, 'rd) near_ric \<times> ('sri, 'rd) ric_out list) res"

section \<open>Publish and subscribe\<close>

definition register_listeners_for_ran_func_id ::
  "(u16, string list) assoc_rb_tree \<Rightarrow> u16 \<Rightarrow> string \<Rightarrow> (u16, string list) assoc_rb_tree res" where
  "register_listeners_for_ran_func_id t rf subs =
    res_bind (find_if_rb_tree (eq_ran_func_id rf) (assoc_rb_tree_front t)) (\<lambda>it.
    if fst it = Dummy then assoc_rb_tree_insert t rf [subs]
    else res_bind (assoc_rb_tree_value it) (\<lambda>arr. Inr (rb_set_value t it (arr @ [subs]))))"

definition load_default_pub_sub_ric ::
  "('wr, 'rd) plugin_ric \<Rightarrow> (u16, string list) assoc_rb_tree \<Rightarrow> (u16, string list) assoc_rb_tree res" where
  "load_default_pub_sub_ric p t0 =
    rb_foreach (\<lambda>rf sm t.
      res_bind (register_listeners_for_ran_func_id t rf ''stdout listener'') (\<lambda>t1.
      res_bind (register_listeners_for_ran_func_id t1 rf ''redis listener'') (\<lambda>t2.
      register_listeners_for_ran_func_id t2 rf ''influx listener'')))
    (assoc_rb_tree_front p) t0"

text \<open>The search finds the entry of the RAN function; the listeners called are the ones of
  the first entry of the tree.\<close>

definition publish_ind_msg ::
  "('sri, 'wr, 'rd) near_ric \<Rightarrow> u16 \<Rightarrow> 'rd sm_ag_if_rd \<Rightarrow> ('sri, 'rd) ric_out list res" where
  "publish_ind_msg ric rf d =
    (let start_it = assoc_rb_tree_front (pub_sub ric) in
     res_bind (find_if_rb_tree (eq_ran_func_id rf) start_it) (\<lambda>sm_it.
     res_bind (c_assert (fst sm_it \<noteq> Dummy)) (\<lambda>_.
     res_bind (assoc_rb_tree_value start_it) (\<lambda>arr.
     Inr (map (\<lambda>s. Publish s d) arr)))))"

section \<open>Start\<close>

definition init_pending_events :: "(int, pending_event_ric) bi_map" where
  "init_pending_events = bi_map_init cmp_fd cmp_pending_event_ric"

definition init_near_ric :: "int \<Rightarrow> ('wr, 'rd) sm_ric list \<Rightarrow> ('sri, 'wr, 'rd) near_ric res" where
  "init_near_ric ep_fd sms =
    res_bind (add_fd_asio_ric [] ep_fd) (\<lambda>i.
    res_bind (init_plugin_ric sms) (\<lambda>p.
    res_bind (load_default_pub_sub_ric p (assoc_rb_tree_init cmp_ran_func_id)) (\<lambda>ps.
    Inr \<lparr>ep = init_map_e2_node_sad, io = i, plugin = p, pub_sub = ps, conn_nodes = [],
      req_id = 1021, pending = init_pending_events\<rparr>)))"

section \<open>Sending and timers\<close>

definition e2ap_send_bytes_ric ::
  "('sri, 'wr, 'rd) near_ric \<Rightarrow> global_e2_node_id \<Rightarrow> e2ap_msg \<Rightarrow> ('sri, 'rd) ric_out list res" where
  "e2ap_send_bytes_ric ric i m =
    res_bind (find_map_e2_node_sad (ep ric) i) (\<lambda>s. Inr [Send_msg s m])"

text \<open>Creating the timer and keeping it in the map, as five functions do.\<close>

definition start_pending_event ::
  "('sri, 'wr, 'rd) near_ric \<Rightarrow> int \<Rightarrow> int \<Rightarrow> pending_event_ric \<Rightarrow> ('sri, 'wr, 'rd) near_ric res" where
  "start_pending_event ric wait_ms fd_timer e =
    res_bind (create_timer_ms_asio_ric (io ric) wait_ms wait_ms fd_timer) (\<lambda>i.
    res_bind (bi_map_insert (pending ric) fd_timer e) (\<lambda>p.
    Inr (ric\<lparr>io := i, pending := p\<rparr>)))"

definition stop_pending_event ::
  "('sri, 'wr, 'rd) near_ric \<Rightarrow> pending_event_ric \<Rightarrow> ('sri, 'wr, 'rd) near_ric res" where
  "stop_pending_event ric e =
    res_bind (bi_map_extract_right (pending ric) e) (\<lambda>(fd, p).
    res_bind (c_assert (0 < fd)) (\<lambda>_.
    res_bind (rm_fd_asio_ric (io ric) fd) (\<lambda>i.
    Inr (ric\<lparr>io := i, pending := p\<rparr>))))"

section \<open>Requests\<close>

definition subs_request :: "ric_gen_id \<Rightarrow> sm_subs_data \<Rightarrow> ric_subscription_request" where
  "subs_request i data =
    \<lparr>sr_ric_id = i, event_trigger = sd_event_trigger data,
     action = [\<lparr>act_id = 0, act_type = RIC_ACT_REPORT, act_definition = sd_action_def data,
                act_subseq = None\<rparr>]\<rparr>"

definition generate_subscription_request ::
  "('sri, 'wr, 'rd) near_ric \<Rightarrow> ('wr, 'rd) sm_ric \<Rightarrow> u16 \<Rightarrow> string \<Rightarrow>
    (ric_subscription_request \<times> ('sri, 'wr, 'rd) near_ric) res" where
  "generate_subscription_request ric sm rf cmd =
    (let i = \<lparr>ric_req_id = req_id ric, ric_inst_id = 0, ran_func_id = rf\<rparr> in
     res_bind (on_subscription sm cmd) (\<lambda>data.
     Inr (subs_request i data, ric\<lparr>req_id := req_id ric + 1\<rparr>)))"

definition report_service_near_ric ::
  "('sri, 'wr, 'rd) near_ric \<Rightarrow> int \<Rightarrow> global_e2_node_id \<Rightarrow> u16 \<Rightarrow> string \<Rightarrow> ('sri, 'wr, 'rd) ric_res" where
  "report_service_near_ric ric fd_timer i rf cmd =
    res_bind (c_assert (rf \<noteq> 0)) (\<lambda>_.
    res_bind (sm_plugin_ric (plugin ric) rf) (\<lambda>sm.
    res_bind (generate_subscription_request ric sm rf cmd) (\<lambda>(sr, ric1).
    res_bind (start_pending_event ric1 3000 fd_timer
      \<lparr>ev = SUBSCRIPTION_REQUEST_PENDING_EVENT, pid = sr_ric_id sr\<rparr>) (\<lambda>ric2.
    res_bind (e2ap_send_bytes_ric ric2 i (Ric_sub_req sr)) (\<lambda>out.
    Inr (ric2, out))))))"

definition rm_report_service_near_ric ::
  "('sri, 'wr, 'rd) near_ric \<Rightarrow> global_e2_node_id \<Rightarrow> u16 \<Rightarrow> string \<Rightarrow> ('sri, 'wr, 'rd) ric_res" where
  "rm_report_service_near_ric ric i rf cmd =
    res_bind (c_assert (0 < rf)) (\<lambda>_. Inl AssertFail)"

definition generate_control_request ::
  "('sri, 'wr, 'rd) near_ric \<Rightarrow> ('wr, 'rd) sm_ric \<Rightarrow> 'wr \<Rightarrow>
    (ric_control_request \<times> ('sri, 'wr, 'rd) near_ric) res" where
  "generate_control_request ric sm wr =
    (let i = \<lparr>ric_req_id = req_id ric, ric_inst_id = 0, ran_func_id = sm_ran_func_id sm\<rparr> in
     res_bind (on_control_req sm wr) (\<lambda>data.
     Inr (\<lparr>cr_ric_id = i, cr_call_process_id = None, cr_hdr = scd_hdr data, cr_msg = scd_msg data,
          ack_req = Some RIC_CONTROL_REQUEST_ACK\<rparr>,
         ric\<lparr>req_id := req_id ric + 1\<rparr>)))"

definition control_service_near_ric ::
  "('sri, 'wr, 'rd) near_ric \<Rightarrow> int \<Rightarrow> global_e2_node_id \<Rightarrow> u16 \<Rightarrow> 'wr \<Rightarrow> ('sri, 'wr, 'rd) ric_res" where
  "control_service_near_ric ric fd_timer i rf wr =
    res_bind (c_assert (0 < rf)) (\<lambda>_.
    res_bind (sm_plugin_ric (plugin ric) rf) (\<lambda>sm.
    res_bind (c_assert (sm_ran_func_id sm = 142 \<or> sm_ran_func_id sm = 145)) (\<lambda>_.
    res_bind (generate_control_request ric sm wr) (\<lambda>(cr, ric1).
    res_bind (start_pending_event ric1 2000 fd_timer
      \<lparr>ev = CONTROL_REQUEST_PENDING_EVENT, pid = cr_ric_id cr\<rparr>) (\<lambda>ric2.
    res_bind (e2ap_send_bytes_ric ric2 i (Ric_ctrl_req cr)) (\<lambda>out.
    Inr (ric2, out)))))))"

section \<open>Requests forwarded for the iApp\<close>

unbundle bit_operations_syntax

text \<open>\<open>*(uint16_t*)&x = y\<close> on a 32-bit \<open>x\<close>, on a little-endian machine.\<close>

definition set_low16 :: "u32 \<Rightarrow> u16 \<Rightarrow> u32" where
  "set_low16 x y = (x AND NOT (mask 16)) OR ucast y"

definition fwd_ric_subscription_request ::
  "('sri, 'wr, 'rd) near_ric \<Rightarrow> int \<Rightarrow> global_e2_node_id \<Rightarrow> ric_subscription_request \<Rightarrow>
    (u16 \<times> ('sri, 'wr, 'rd) near_ric \<times> ('sri, 'rd) ric_out list) res" where
  "fwd_ric_subscription_request ric fd_timer i sr0 =
    (let rid = (ucast (req_id ric) :: u16);
         ric1 = ric\<lparr>req_id := req_id ric + 1\<rparr>;
         sr = sr0\<lparr>sr_ric_id := (sr_ric_id sr0)\<lparr>ric_req_id := set_low16 (ric_req_id (sr_ric_id sr0)) rid\<rparr>\<rparr>
     in res_bind (start_pending_event ric1 3000 fd_timer
          \<lparr>ev = SUBSCRIPTION_REQUEST_PENDING_EVENT, pid = sr_ric_id sr\<rparr>) (\<lambda>ric2.
        res_bind (e2ap_send_bytes_ric ric2 i (Ric_sub_req sr)) (\<lambda>out.
        Inr (rid, ric2, out))))"

definition fwd_ric_subscription_request_delete ::
  "('sri, 'wr, 'rd) near_ric \<Rightarrow> int \<Rightarrow> global_e2_node_id \<Rightarrow> ric_subscription_delete_request \<Rightarrow>
    ('sri, 'wr, 'rd) ric_res" where
  "fwd_ric_subscription_request_delete ric fd_timer i sdr =
    res_bind (start_pending_event ric 3000 fd_timer
      \<lparr>ev = SUBSCRIPTION_DELETE_REQUEST_PENDING_EVENT, pid = sdr_ric_id sdr\<rparr>) (\<lambda>ric2.
    res_bind (e2ap_send_bytes_ric ric2 i (Ric_sub_del_req sdr)) (\<lambda>out.
    Inr (ric2, out)))"

definition fwd_ric_control_request ::
  "('sri, 'wr, 'rd) near_ric \<Rightarrow> int \<Rightarrow> global_e2_node_id \<Rightarrow> ric_control_request \<Rightarrow>
    (u16 \<times> ('sri, 'wr, 'rd) near_ric \<times> ('sri, 'rd) ric_out list) res" where
  "fwd_ric_control_request ric fd_timer i cr0 =
    (let rid = (ucast (req_id ric) :: u16);
         ric1 = ric\<lparr>req_id := req_id ric + 1\<rparr>;
         cr = cr0\<lparr>cr_ric_id := (cr_ric_id cr0)\<lparr>ric_req_id := set_low16 (ric_req_id (cr_ric_id cr0)) rid\<rparr>\<rparr>
     in res_bind (start_pending_event ric1 3000 fd_timer
          \<lparr>ev = CONTROL_REQUEST_PENDING_EVENT, pid = cr_ric_id cr\<rparr>) (\<lambda>ric2.
        res_bind (e2ap_send_bytes_ric ric2 i (Ric_ctrl_req cr)) (\<lambda>out.
        Inr (rid, ric2, out))))"

section \<open>Handlers of the messages of the E2 nodes\<close>

definition check_valid_msg_type :: "e2_msg_type \<Rightarrow> bool" where
  "check_valid_msg_type t =
    (if t = RIC_SUBSCRIPTION_RESPONSE \<or> t = RIC_SUBSCRIPTION_FAILURE \<or>
        t = RIC_SUBSCRIPTION_DELETE_RESPONSE \<or> t = RIC_SUBSCRIPTION_DELETE_FAILURE \<or>
        t = RIC_INDICATION \<or> t = RIC_CONTROL_ACKNOWLEDGE \<or> t = RIC_CONTROL_FAILURE \<or>
        t = E2AP_ERROR_INDICATION \<or> t = E2_SETUP_REQUEST \<or> t = E2AP_RESET_REQUEST \<or>
        t = E2AP_RESET_RESPONSE \<or> t = RIC_SERVICE_UPDATE \<or> t = E2_NODE_CONFIGURATION_UPDATE \<or>
        t = E2_CONNECTION_UPDATE_ACKNOWLEDGE \<or> t = E2_CONNECTION_UPDATE_FAILURE
     then True else False)"

text \<open>An answer of a handler is a message, \<open>none_msg\<close> for no answer.\<close>

type_synonym ('sri, 'wr, 'rd) ric_ans =
  "(('sri, 'wr, 'rd) near_ric \<times> ('sri, 'rd) ric_out list \<times> e2ap_msg) res"

type_synonym ('sri, 'wr, 'rd) ric_handler =
  "('sri, 'wr, 'rd) near_ric \<Rightarrow> e2ap_msg \<Rightarrow> ('sri, 'wr, 'rd) ric_ans"

fun accept_ran_functions :: "('wr, 'rd) plugin_ric \<Rightarrow> ran_function list \<Rightarrow> u16 list res" where
  "accept_ran_functions p [] = Inr []"
| "accept_ran_functions p (rf # rfs) =
    res_bind (find_if_rb_tree (eq_ran_func_id (rf_id rf)) (assoc_rb_tree_front p)) (\<lambda>it.
    if fst it \<noteq> Dummy then
      res_bind (assoc_rb_tree_key it) (\<lambda>k.
      res_bind (c_assert (rf_id rf = k)) (\<lambda>_.
      res_bind (c_assert (length (rf_def rf) < 127)) (\<lambda>_.
      res_bind (accept_ran_functions p rfs) (\<lambda>acc.
      Inr (rf_id rf # acc)))))
    else Inl AssertFail)"

definition generate_setup_response ::
  "('sri, 'wr, 'rd) near_ric \<Rightarrow> e2_setup_request \<Rightarrow> e2_setup_response res" where
  "generate_setup_response ric req =
    res_bind (accept_ran_functions (plugin ric) (ran_func_item req)) (\<lambda>acc.
    Inr \<lparr>stp_resp_id = \<lparr>gr_plmn = nplmn (stp_id req), near_ric_id = 25\<rparr>, accepted = acc\<rparr>)"

definition e2ap_handle_subscription_response_ric :: "('sri, 'wr, 'rd) ric_handler" where
  "e2ap_handle_subscription_response_ric ric msg =
    (case msg of
       Ric_sub_resp resp \<Rightarrow>
         res_bind (stop_pending_event ric
           \<lparr>ev = SUBSCRIPTION_REQUEST_PENDING_EVENT, pid = resp_ric_id resp\<rparr>) (\<lambda>ric1.
         res_bind (c_assert (length (not_admitted resp) = 0)) (\<lambda>_.
         res_bind (c_assert (length (admitted resp) = 1)) (\<lambda>_.
         res_bind (c_assert (ric_act_id (admitted resp ! 0) = 0)) (\<lambda>_.
         Inr (ric1, [Iapp_notify msg], none_msg)))))
     | _ \<Rightarrow> Inl AssertFail)"

definition e2ap_handle_subscription_delete_response_ric :: "('sri, 'wr, 'rd) ric_handler" where
  "e2ap_handle_subscription_delete_response_ric ric msg =
    (case msg of
       Ric_sub_del_resp resp \<Rightarrow>
         res_bind (stop_pending_event ric
           \<lparr>ev = SUBSCRIPTION_DELETE_REQUEST_PENDING_EVENT, pid = sdresp_ric_id resp\<rparr>) (\<lambda>ric1.
         Inr (ric1, [Iapp_notify msg], none_msg))
     | _ \<Rightarrow> Inl AssertFail)"

definition e2ap_handle_indication_ric :: "('sri, 'wr, 'rd) ric_handler" where
  "e2ap_handle_indication_ric ric msg =
    (case msg of
       Ric_ind ind \<Rightarrow>
         (let rf = ran_func_id (ind_ric_id ind) in
          res_bind (sm_plugin_ric (plugin ric) rf) (\<lambda>sm.
          let data = \<lparr>sid_hdr = ind_hdr ind, sid_msg = ind_msg ind,
                      sid_call_process_id = ind_call_process_id ind\<rparr>
          in res_bind (on_indication sm data) (\<lambda>d.
             res_bind (c_assert (rd_type d = MAC_STATS_V0 \<or> rd_type d = RLC_STATS_V0 \<or>
                 rd_type d = PDCP_STATS_V0 \<or> rd_type d = SLICE_STATS_V0 \<or>
                 rd_type d = KPM_STATS_V0 \<or> rd_type d = GTP_STATS_V0)) (\<lambda>_.
             res_bind (publish_ind_msg ric rf d) (\<lambda>out.
             Inr (ric, out @ [Iapp_notify msg], none_msg))))))
     | _ \<Rightarrow> Inl AssertFail)"

definition e2ap_handle_control_ack_ric :: "('sri, 'wr, 'rd) ric_handler" where
  "e2ap_handle_control_ack_ric ric msg =
    (case msg of
       Ric_ctrl_ack ack \<Rightarrow>
         res_bind (c_assert (ca_status ack = RIC_CONTROL_STATUS_SUCCESS)) (\<lambda>_.
         res_bind (stop_pending_event ric
           \<lparr>ev = CONTROL_REQUEST_PENDING_EVENT, pid = ca_ric_id ack\<rparr>) (\<lambda>ric1.
         Inr (ric1, [Iapp_notify msg], none_msg)))
     | _ \<Rightarrow> Inl AssertFail)"

definition e2ap_handle_setup_request_ric :: "('sri, 'wr, 'rd) ric_handler" where
  "e2ap_handle_setup_request_ric ric msg =
    (case msg of
       E2_stp_req req \<Rightarrow>
         res_bind (if node_is_monolithic (ntype (stp_id req)) then Inr ()
                   else if cu_du_id (stp_id req) = None then Inl NullDeref else Inr ()) (\<lambda>_.
         res_bind (generate_setup_response ric req) (\<lambda>resp.
         let n = init_e2_node (stp_id req) (accepted resp) in
         Inr (ric\<lparr>conn_nodes := conn_nodes ric @ [n]\<rparr>,
           [Iapp_add_node (stp_id req) (ran_func_item req)], E2_stp_resp resp)))
     | _ \<Rightarrow> Inl AssertFail)"

text \<open>The bodies that end in \<open>assert(0!=0 && "Not implemented")\<close> after the test of the type.\<close>

definition not_implemented_ric :: "e2_msg_type \<Rightarrow> ('sri, 'wr, 'rd) ric_handler" where
  "not_implemented_ric t ric msg =
    res_bind (c_assert (msg_type msg = t)) (\<lambda>_. Inl NotImplemented)"

definition e2ap_handle_subscription_failure_ric :: "('sri, 'wr, 'rd) ric_handler" where
  "e2ap_handle_subscription_failure_ric = not_implemented_ric RIC_SUBSCRIPTION_FAILURE"

definition e2ap_handle_subscription_delete_failure_ric :: "('sri, 'wr, 'rd) ric_handler" where
  "e2ap_handle_subscription_delete_failure_ric = not_implemented_ric RIC_SUBSCRIPTION_DELETE_FAILURE"

definition e2ap_handle_control_failure_ric :: "('sri, 'wr, 'rd) ric_handler" where
  "e2ap_handle_control_failure_ric = not_implemented_ric RIC_CONTROL_FAILURE"

definition e2ap_handle_error_indication_ric :: "('sri, 'wr, 'rd) ric_handler" where
  "e2ap_handle_error_indication_ric = not_implemented_ric E2AP_ERROR_INDICATION"

definition e2ap_handle_reset_request_ric :: "('sri, 'wr, 'rd) ric_handler" where
  "e2ap_handle_reset_request_ric = not_implemented_ric E2AP_RESET_REQUEST"

definition e2ap_handle_reset_response_ric :: "('sri, 'wr, 'rd) ric_handler" where
  "e2ap_handle_reset_response_ric = not_implemented_ric E2AP_RESET_RESPONSE"

definition e2ap_handle_service_update_ric :: "('sri, 'wr, 'rd) ric_handler" where
  "e2ap_handle_service_update_ric = not_implemented_ric RIC_SERVICE_UPDATE"

definition e2ap_handle_node_configuration_update_ric :: "('sri, 'wr, 'rd) ric_handler" where
  "e2ap_handle_node_configuration_update_ric = not_implemented_ric E2_NODE_CONFIGURATION_UPDATE"

definition e2ap_handle_connection_update_ack_ric :: "('sri, 'wr, 'rd) ric_handler" where
  "e2ap_handle_connection_update_ack_ric = not_implemented_ric E2_CONNECTION_UPDATE_ACKNOWLEDGE"

definition e2ap_handle_connection_update_failure_ric :: "('sri, 'wr, 'rd) ric_handler" where
  "e2ap_handle_connection_update_failure_ric = not_implemented_ric E2_CONNECTION_UPDATE_FAILURE"

text \<open>The table of function pointers; a slot that stays 0 is \<open>None\<close>.\<close>

fun init_handle_msg_ric :: "e2_msg_type \<Rightarrow> ('sri, 'wr, 'rd) ric_handler option" where
  "init_handle_msg_ric RIC_SUBSCRIPTION_RESPONSE = Some e2ap_handle_subscription_response_ric"
| "init_handle_msg_ric RIC_SUBSCRIPTION_FAILURE = Some e2ap_handle_subscription_failure_ric"
| "init_handle_msg_ric RIC_SUBSCRIPTION_DELETE_RESPONSE = Some e2ap_handle_subscription_delete_response_ric"
| "init_handle_msg_ric RIC_SUBSCRIPTION_DELETE_FAILURE = Some e2ap_handle_subscription_delete_failure_ric"
| "init_handle_msg_ric RIC_INDICATION = Some e2ap_handle_indication_ric"
| "init_handle_msg_ric RIC_CONTROL_ACKNOWLEDGE = Some e2ap_handle_control_ack_ric"
| "init_handle_msg_ric RIC_CONTROL_FAILURE = Some e2ap_handle_control_failure_ric"
| "init_handle_msg_ric E2AP_ERROR_INDICATION = Some e2ap_handle_error_indication_ric"
| "init_handle_msg_ric E2_SETUP_REQUEST = Some e2ap_handle_setup_request_ric"
| "init_handle_msg_ric E2AP_RESET_REQUEST = Some e2ap_handle_reset_request_ric"
| "init_handle_msg_ric E2AP_RESET_RESPONSE = Some e2ap_handle_reset_response_ric"
| "init_handle_msg_ric RIC_SERVICE_UPDATE = Some e2ap_handle_service_update_ric"
| "init_handle_msg_ric E2_NODE_CONFIGURATION_UPDATE = Some e2ap_handle_node_configuration_update_ric"
| "init_handle_msg_ric E2_CONNECTION_UPDATE_ACKNOWLEDGE = Some e2ap_handle_connection_update_ack_ric"
| "init_handle_msg_ric E2_CONNECTION_UPDATE_FAILURE = Some e2ap_handle_connection_update_failure_ric"
| "init_handle_msg_ric _ = None"

definition e2ap_msg_handle_ric :: "('sri, 'wr, 'rd) ric_handler" where
  "e2ap_msg_handle_ric ric msg =
    res_bind (c_assert (check_valid_msg_type (msg_type msg))) (\<lambda>_.
    case init_handle_msg_ric (msg_type msg) of
      None \<Rightarrow> Inl AssertFail
    | Some h \<Rightarrow> h ric msg)"

section \<open>Notifications\<close>

definition notification_handle_ric ::
  "('sri, 'wr, 'rd) near_ric \<Rightarrow> bool \<Rightarrow> 'sri sctp_info \<Rightarrow> ('sri, 'wr, 'rd) ric_res" where
  "notification_handle_ric ric is_shutdown info =
    res_bind (c_assert is_shutdown) (\<lambda>_.
    res_bind (rm_map_sad_e2_node (ep ric) info) (\<lambda>(i, m).
    res_bind (erase_e2_node i (conn_nodes ric)) (\<lambda>ns.
    Inr (ric\<lparr>ep := m, conn_nodes := ns\<rparr>, [Iapp_rm_node i]))))"

section \<open>The event loop\<close>

definition eq_sock_addr :: "sockaddr_in \<Rightarrow> sockaddr_in \<Rightarrow> bool" where
  "eq_sock_addr m0 m1 =
    (if sin_family m0 \<noteq> sin_family m1 then False
     else if sin_addr m0 \<noteq> sin_addr m1 then False
     else if sin_port m0 \<noteq> sin_port m1 then False
     else True)"

text \<open>Kept in the C file but no longer called.\<close>

definition addr_registered_or_first_msg ::
  "e2ap_msg \<Rightarrow> sockaddr_in list \<Rightarrow> sockaddr_in \<Rightarrow> (bool \<times> sockaddr_in list) res" where
  "addr_registered_or_first_msg msg arr rcv =
    (let found = list_ex (eq_sock_addr rcv) arr in
     if msg_type msg = E2_SETUP_REQUEST then
       res_bind (c_assert (\<not> found)) (\<lambda>_. Inr (True, arr @ [rcv]))
     else res_bind (c_assert found) (\<lambda>_. Inr (found, arr)))"

text \<open>A search with \<open>eq_fd\<close>, which asserts that both descriptors are positive.\<close>

definition pend_event :: "('sri, 'wr, 'rd) near_ric \<Rightarrow> int \<Rightarrow> pending_event_ric res" where
  "pend_event ric fd =
    res_bind (c_assert (0 < fd)) (\<lambda>_.
    res_bind (bi_map_size (pending ric)) (\<lambda>sz.
    res_bind (c_assert (sz = 1)) (\<lambda>_.
    res_bind (rb_find_value (\<lambda>k. eq_fd fd k = Inr True) (left (pending ric))) (\<lambda>r.
    case r of None \<Rightarrow> Inl AssertFail | Some e \<Rightarrow> Inr e))))"

text \<open>What \<open>next_asio_event_ric\<close> hands to the loop, with the received message decoded.\<close>

datatype 'sri ric_event =
    Check_stop_token
  | Sctp_msg_arrived "'sri sctp_info" e2ap_msg
  | Sctp_connection_shutdown bool "'sri sctp_info"
  | Timer_expired int

definition e2_event_ric ::
  "('sri, 'wr, 'rd) near_ric \<Rightarrow> 'sri ric_event \<Rightarrow> ('sri, 'wr, 'rd) ric_res" where
  "e2_event_ric ric e =
    (case e of
       Check_stop_token \<Rightarrow> Inr (ric, [])
     | Sctp_msg_arrived info msg \<Rightarrow>
         res_bind (case msg of
             E2_stp_req req \<Rightarrow>
               res_bind (add_map_e2_node_sad (ep ric) (stp_id req) info) (\<lambda>m. Inr (ric\<lparr>ep := m\<rparr>))
           | _ \<Rightarrow> Inr ric) (\<lambda>ric1.
         res_bind (e2ap_msg_handle_ric ric1 msg) (\<lambda>(ric2, out, ans).
         if msg_type ans \<noteq> NONE_E2_MSG_TYPE then Inr (ric2, out @ [Send_msg info ans])
         else Inr (ric2, out)))
     | Sctp_connection_shutdown is_shutdown info \<Rightarrow> notification_handle_ric ric is_shutdown info
     | Timer_expired fd \<Rightarrow> res_bind (pend_event ric fd) (\<lambda>_. Inr (ric, [])))"

definition e2_event_loop_ric ::
  "'sri ric_event list \<Rightarrow> ('sri, 'wr, 'rd) near_ric \<Rightarrow> ('sri, 'wr, 'rd) ric_res" where
  "e2_event_loop_ric es ric =
    fold_res (\<lambda>e (r, out). res_bind (e2_event_ric r e) (\<lambda>(r', o'). Inr (r', out @ o'))) es (ric, [])"

definition conn_e2_nodes :: "('sri, 'wr, 'rd) near_ric \<Rightarrow> e2_node list" where
  "conn_e2_nodes ric = map (\<lambda>n. n) (conn_nodes ric)"

end
