(* ===== verification/NearRicThms.thy ===== *)
theory NearRicThms
  imports NearRic
begin

text \<open>
  What the near-RT RIC keeps and what its functions do.  The running timers: every event that
  waits for an answer has one timer, the timers are exactly the descriptors in the interest
  list besides the endpoint, starting and stopping add and remove one.  The service models
  and listeners that the start sets up.  The E2 nodes: the nodes in \<open>conn_e2_nodes\<close> are the
  ones with an address, whatever events arrive.
\<close>

section \<open>The pending events\<close>

interpretation pend: two_comparators cmp_fd fd_dom cmp_pending_event_ric UNIV
  by (rule two_comparators.intro [OF fd.comparator_axioms pend_ric.comparator_axioms])

text \<open>The timers that run are the descriptors of the interest list besides the one of the
  endpoint, and every timer has one event.\<close>

definition pend_inv :: "int \<Rightarrow> asio_ric \<Rightarrow> (int, pending_event_ric) bi_map \<Rightarrow> bool" where
  "pend_inv ep_fd i p \<longleftrightarrow> bm_inv cmp_fd fd_dom cmp_pending_event_ric UNIV p \<and>
    bm_uniq cmp_fd cmp_pending_event_ric p \<and> distinct i \<and> 0 < ep_fd \<and>
    set i = insert ep_fd (fst ` set (bm_pairs p)) \<and> ep_fd \<notin> fst ` set (bm_pairs p)"

definition pending_fd :: "(int, pending_event_ric) bi_map \<Rightarrow> pending_event_ric \<Rightarrow> int option" where
  "pending_fd p e = bm_get_right cmp_pending_event_ric p e"

lemma pend_inv_init: "0 < ep_fd \<Longrightarrow> pend_inv ep_fd [ep_fd] init_pending_events"
  by (simp add: pend_inv_def init_pending_events_def bm_inv_init bm_uniq_init)

lemma pending_fd_init [simp]: "pending_fd init_pending_events e = None"
  by (simp add: pending_fd_def init_pending_events_def bm_get_right_def bi_map_init_def)

lemma pending_fd_io:
  assumes "pend_inv ep_fd i p" "pending_fd p e = Some fd"
  shows "fd \<in> set i" "fd \<noteq> ep_fd" "0 < fd"
proof -
  obtain e' where "(fd, e') \<in> set (bm_pairs p)" "fd \<in> fd_dom"
    using pend.get_right_pair [of p e fd] assms by (auto simp: pend_inv_def pending_fd_def)
  then show "fd \<in> set i" "fd \<noteq> ep_fd" "0 < fd" using assms(1) by (force simp: pend_inv_def)+
qed

lemma start_pending_event_ok:
  assumes "pend_inv ep_fd (io ric) (pending ric)" "0 < wait" "0 < fd" "fd \<notin> set (io ric)"
    "pending_fd (pending ric) e = None"
  obtains p where "start_pending_event ric wait fd e = Inr (ric\<lparr>io := fd # io ric, pending := p\<rparr>)"
    "pend_inv ep_fd (fd # io ric) p" "pending_fd p = (pending_fd (pending ric))(e \<mapsto> fd)"
proof -
  let ?p = "pending ric"
  have i: "pend.bminv ?p" "pend.bmuniq ?p" and f: "fd \<in> fd_dom"
    using assms by (auto simp: pend_inv_def)
  have "fd \<notin> fst ` set (bm_pairs ?p)" using assms(1,4) by (auto simp: pend_inv_def)
  then have l: "bm_get_left cmp_fd ?p fd = None"
    by (force simp: bm_get_left_def bm_pairs_def get_key_None_iff fresh_key_def)
  have r: "bm_get_right cmp_pending_event_ric ?p e = None" using assms(5) by (simp add: pending_fd_def)
  obtain p where p: "bi_map_insert ?p fd e = Inr p" "pend.bminv p" "pend.bmuniq p"
    "\<And>q. q \<in> UNIV \<Longrightarrow> bm_get_right cmp_pending_event_ric p q =
      (if cmp_pending_event_ric q e = 0 then Some fd else bm_get_right cmp_pending_event_ric ?p q)"
    by (rule pend.insert_uniq [OF i f UNIV_I l r]) (rule that)
  have "set (bm_pairs p) = insert (fd, e) (set (bm_pairs ?p))"
    using pend.insert_ok [OF i(1) f, of e] p(1) by auto
  then have "pend_inv ep_fd (fd # io ric) p"
    using p assms by (auto simp: pend_inv_def)
  moreover have "pending_fd p = (pending_fd ?p)(e \<mapsto> fd)"
    using p(4) by (intro ext) (simp add: pending_fd_def)
  moreover have "start_pending_event ric wait fd e = Inr (ric\<lparr>io := fd # io ric, pending := p\<rparr>)"
    using assms p by (simp add: start_pending_event_def create_timer_ms_asio_ric_def add_fd_asio_ric_def)
  ultimately show ?thesis using that by blast
qed

lemma stop_pending_event_ok:
  assumes "pend_inv ep_fd (io ric) (pending ric)" "pending_fd (pending ric) e = Some fd"
  obtains p where
    "stop_pending_event ric e = Inr (ric\<lparr>io := remove1 fd (io ric), pending := p\<rparr>)"
    "pend_inv ep_fd (remove1 fd (io ric)) p" "pending_fd p = (pending_fd (pending ric))(e := None)"
proof -
  let ?p = "pending ric"
  have i: "pend.bminv ?p" "pend.bmuniq ?p" using assms by (auto simp: pend_inv_def)
  have g: "bm_get_right cmp_pending_event_ric ?p e = Some fd" using assms by (simp add: pending_fd_def)
  obtain p where p: "bi_map_extract_right ?p e = Inr (fd, p)" "pend.bminv p" "pend.bmuniq p"
    "bm_pairs p = del_key cmp_fd fd (bm_pairs ?p)"
    "rb_entries (right p) = del_key cmp_pending_event_ric e (rb_entries (right ?p))"
    using pend.extract_right_ok [OF i _ g] by blast
  note f = pending_fd_io [OF assms]
  have "fst ` set (bm_pairs p) = fst ` set (bm_pairs ?p) - {fd}"
    by (force simp: p(4) del_key_def)
  then have "pend_inv ep_fd (remove1 fd (io ric)) p"
    using assms(1) p f by (auto simp: pend_inv_def)
  moreover have "pending_fd p = (pending_fd ?p)(e := None)"
    using p(5) by (intro ext) (simp add: pending_fd_def bm_get_right_def pend_ric.get_del_key)
  moreover have "stop_pending_event ric e = Inr (ric\<lparr>io := remove1 fd (io ric), pending := p\<rparr>)"
    using p f by (simp add: stop_pending_event_def rm_fd_asio_ric_def)
  ultimately show ?thesis using that by blast
qed

lemma stop_pending_event_absent:
  assumes "pend_inv ep_fd (io ric) (pending ric)" "pending_fd (pending ric) e = None"
  shows "stop_pending_event ric e = Inl AssertFail"
  using pend.extract_right_absent [of "pending ric" e] assms
  by (simp add: stop_pending_event_def pend_inv_def pending_fd_def)

section \<open>Forwarded identifiers\<close>

lemma ucast_set_low16 [simp]: "(ucast (set_low16 x y) :: u16) = y"
  unfolding set_low16_def by (rule bit_word_eqI) (auto simp: bit_simps)

lemma drop_set_low16 [simp]: "drop_bit 16 (set_low16 x y) = drop_bit 16 x"
  unfolding set_low16_def
  by (rule bit_word_eqI) (auto simp: bit_simps dest: bit_imp_le_length)

lemma set_low16_small: "drop_bit 16 x = 0 \<Longrightarrow> set_low16 x y = ucast y"
proof -
  assume "drop_bit 16 x = 0"
  then have "\<not> bit x (16 + n)" for n by (metis bit_0_eq bit_drop_bit_eq bot_apply bot_bool_def comp_apply)
  then have "\<not> bit x n" if "16 \<le> n" for n using that by (metis le_add_diff_inverse)
  then show ?thesis
    unfolding set_low16_def by (intro bit_word_eqI) (auto simp: bit_simps not_less)
qed

section \<open>Service models and listeners\<close>

definition plugin_inv :: "('wr, 'rd) plugin_ric \<Rightarrow> bool" where
  "plugin_inv p \<longleftrightarrow> rb_inv cmp_ran_func_id UNIV p \<and>
    (\<forall>e\<in>set (rb_entries p). 0 < fst e \<and> sm_ran_func_id (snd e) = fst e)"

definition plugin_get :: "('wr, 'rd) plugin_ric \<Rightarrow> u16 \<Rightarrow> ('wr, 'rd) sm_ric option" where
  "plugin_get p rf = get_key cmp_ran_func_id rf (rb_entries p)"

lemma ran_func_first: "first_value (eq_ran_func_id rf) xs = get_key cmp_ran_func_id rf xs"
  by (intro first_value_get_key) (simp add: eq_ran_func_id_def)

lemma plugin_get_SomeD:
  "plugin_inv p \<Longrightarrow> plugin_get p rf = Some sm \<Longrightarrow> 0 < rf \<and> sm_ran_func_id sm = rf"
  unfolding plugin_get_def by (drule get_key_SomeD) (force simp: plugin_inv_def)

lemma sm_plugin_ric_eq:
  assumes "plugin_inv p"
  shows "sm_plugin_ric p rf = (case plugin_get p rf of None \<Rightarrow> Inl AssertFail | Some sm \<Rightarrow> Inr sm)"
proof (cases "plugin_get p rf")
  case None
  then show ?thesis
    by (cases "0 < rf") (simp_all add: sm_plugin_ric_def rb_find_value_eq ran_func_first plugin_get_def)
next
  case (Some sm)
  then show ?thesis
    using plugin_get_SomeD [OF assms Some]
    by (simp add: sm_plugin_ric_def rb_find_value_eq ran_func_first plugin_get_def)
qed

lemma load_plugin_ok:
  assumes "plugin_inv p" "0 < sm_ran_func_id sm" "plugin_get p (sm_ran_func_id sm) = None"
    "uniq_entries cmp_ran_func_id (rb_entries p)"
  obtains p' where "load_plugin_ric p sm = Inr p'" "plugin_inv p'"
    "plugin_get p' = (plugin_get p)(sm_ran_func_id sm \<mapsto> sm)" "uniq_entries cmp_ran_func_id (rb_entries p')"
proof -
  let ?k = "sm_ran_func_id sm"
  have f: "fresh_key cmp_ran_func_id ?k (rb_entries p)"
    using assms(3) by (simp add: plugin_get_def get_key_None_iff)
  obtain p' where p': "assoc_rb_tree_insert p ?k sm = Inr p'" "rb_inv cmp_ran_func_id UNIV p'"
    "rb_entries p' = ins_entry cmp_ran_func_id ?k sm (rb_entries p)"
    using ran_func.rb_insert_ok [of p ?k sm] assms(1) by (auto simp: plugin_inv_def)
  then have "plugin_get p' = (plugin_get p)(?k \<mapsto> sm)"
    using f by (intro ext) (simp add: plugin_get_def ran_func.get_ins_entry)
  then show ?thesis
    using that [of p'] p' assms f
    by (auto simp: load_plugin_ric_def plugin_inv_def ran_func.uniq_ins_entry)
qed

text \<open>Service models with identifiers of their own are all found after the start.\<close>

lemma init_plugin_ok:
  assumes "\<forall>sm\<in>set sms. 0 < sm_ran_func_id sm" "distinct (map sm_ran_func_id sms)"
  obtains p where "init_plugin_ric sms = Inr p" "plugin_inv p" "uniq_entries cmp_ran_func_id (rb_entries p)"
    "plugin_get p = map_of (map (\<lambda>sm. (sm_ran_func_id sm, sm)) sms)"
proof -
  have "\<exists>p'. fold_res (\<lambda>sm p. load_plugin_ric p sm) sms p = Inr p' \<and> plugin_inv p' \<and>
      uniq_entries cmp_ran_func_id (rb_entries p') \<and>
      plugin_get p' = plugin_get p ++ map_of (map (\<lambda>sm. (sm_ran_func_id sm, sm)) sms)"
    if "plugin_inv p" "uniq_entries cmp_ran_func_id (rb_entries p)"
      "\<forall>sm\<in>set sms. plugin_get p (sm_ran_func_id sm) = None" for p
    using that assms
  proof (induction sms arbitrary: p)
    case (Cons sm sms)
    obtain p1 where p1: "load_plugin_ric p sm = Inr p1" "plugin_inv p1"
      "plugin_get p1 = (plugin_get p)(sm_ran_func_id sm \<mapsto> sm)"
      "uniq_entries cmp_ran_func_id (rb_entries p1)"
      using load_plugin_ok [of p sm] Cons.prems by auto
    have n: "\<forall>s\<in>set sms. plugin_get p1 (sm_ran_func_id s) = None"
      using Cons.prems by (auto simp: p1(3) image_iff)
    have "map_of (map (\<lambda>sm. (sm_ran_func_id sm, sm)) sms) (sm_ran_func_id sm) = None"
      using Cons.prems by (force simp: map_of_eq_None_iff)
    then have "(plugin_get p)(sm_ran_func_id sm \<mapsto> sm) ++ map_of (map (\<lambda>sm. (sm_ran_func_id sm, sm)) sms) =
        plugin_get p ++ map_of (map (\<lambda>sm. (sm_ran_func_id sm, sm)) (sm # sms))"
      by (intro ext) (auto simp: map_add_def split: option.splits)
    note e = this
    obtain p2 where p2: "fold_res (\<lambda>sm p. load_plugin_ric p sm) sms p1 = Inr p2" "plugin_inv p2"
      "uniq_entries cmp_ran_func_id (rb_entries p2)"
      "plugin_get p2 = plugin_get p1 ++ map_of (map (\<lambda>sm. (sm_ran_func_id sm, sm)) sms)"
      using Cons.IH [OF p1(2,4) n] Cons.prems(4,5) by auto
    have "plugin_get p2 = plugin_get p ++ map_of (map (\<lambda>sm. (sm_ran_func_id sm, sm)) (sm # sms))"
      using e unfolding p2(4) p1(3) .
    with p2(1-3) show ?case unfolding fold_res.simps p1(1) res_bind_simps by blast
  qed auto
  moreover have "plugin_inv (assoc_rb_tree_init cmp_ran_func_id)"
    "uniq_entries cmp_ran_func_id (rb_entries (assoc_rb_tree_init cmp_ran_func_id :: ('a, 'b) plugin_ric))"
    "plugin_get (assoc_rb_tree_init cmp_ran_func_id :: ('a, 'b) plugin_ric) = Map.empty"
    by (auto simp: plugin_inv_def rb_inv_init uniq_entries_def plugin_get_def)
  ultimately show ?thesis
    using that unfolding init_plugin_ric_def by fastforce
qed

lemma register_listeners_ok:
  assumes "rb_inv cmp_ran_func_id UNIV t"
  obtains t' where "register_listeners_for_ran_func_id t rf s = Inr t'" "rb_inv cmp_ran_func_id UNIV t'"
    "rb_entries t' = (if get_key cmp_ran_func_id rf (rb_entries t) = None
      then ins_entry cmp_ran_func_id rf [s] (rb_entries t)
      else upd_first (eq_ran_func_id rf) (\<lambda>arr. arr @ [s]) (rb_entries t))"
proof -
  obtain it where it: "find_if_rb_tree (eq_ran_func_id rf) (assoc_rb_tree_front t) = Inr it"
    using find_if_rb_tree_spec by blast
  show ?thesis
  proof (cases "fst it = Dummy")
    case True
    then have "rb_find_value (eq_ran_func_id rf) t = Inr None" using it by (simp add: rb_find_value_def)
    then have "get_key cmp_ran_func_id rf (rb_entries t) = None"
      by (simp add: rb_find_value_eq ran_func_first)
    moreover obtain t' where "assoc_rb_tree_insert t rf [s] = Inr t'" "rb_inv cmp_ran_func_id UNIV t'"
      "rb_entries t' = ins_entry cmp_ran_func_id rf [s] (rb_entries t)"
      using ran_func.rb_insert_ok [OF assms, of rf "[s]"] by auto
    ultimately show ?thesis
      using that True it by (simp add: register_listeners_for_ran_func_id_def)
  next
    case False
    obtain v where v: "assoc_rb_tree_value it = Inr v"
      "first_value (eq_ran_func_id rf) (rb_entries t) = Some v"
      "\<And>v'. rb_inv cmp_ran_func_id UNIV (rb_set_value t it v')"
      "rb_entries (rb_set_value t it (v @ [s])) = upd_first (eq_ran_func_id rf) (\<lambda>arr. arr @ [s]) (rb_entries t)"
      using find_if_set_value [OF assms it False, of "\<lambda>arr. arr @ [s]"] by metis
    show ?thesis
      using that [of "rb_set_value t it (v @ [s])"] False it v
      by (simp add: register_listeners_for_ran_func_id_def ran_func_first)
  qed
qed

definition default_listeners :: "string list" where
  "default_listeners = [''stdout listener'', ''redis listener'', ''influx listener'']"

text \<open>Three listeners on a new RAN function that comes after all the others.\<close>

lemma register_three:
  assumes "rb_inv cmp_ran_func_id UNIV t" "\<And>e. e \<in> set (rb_entries t) \<Longrightarrow> cmp_ran_func_id (fst e) rf = 1"
  obtains t' where "res_bind (register_listeners_for_ran_func_id t rf ''stdout listener'') (\<lambda>t1.
      res_bind (register_listeners_for_ran_func_id t1 rf ''redis listener'') (\<lambda>t2.
      register_listeners_for_ran_func_id t2 rf ''influx listener'')) = Inr t'"
    "rb_inv cmp_ran_func_id UNIV t'" "rb_entries t' = rb_entries t @ [(rf, default_listeners)]"
proof -
  have lt: "fst e < rf" if "e \<in> set (rb_entries t)" for e
    using assms(2) [OF that] by (simp add: cmp_ran_func_id_def split: if_splits)
  have n: "get_key cmp_ran_func_id rf (rb_entries t) = None"
    using lt by (auto simp: get_key_None_iff fresh_key_def)
  have a: "ins_entry cmp_ran_func_id rf v (rb_entries t) = rb_entries t @ [(rf, v)]" for v :: "string list"
    using lt by (intro mono_nodes.ins_entry_last) (simp add: cmp_ran_func_id_def order_less_imp_not_less)
  have u: "upd_first (eq_ran_func_id rf) g (rb_entries t @ [(rf, v)]) = rb_entries t @ [(rf, g v)]"
    for v and g :: "string list \<Rightarrow> string list"
    using upd_first_split [of "rb_entries t" "eq_ran_func_id rf" "(rf, v)" g "[]"] lt
    by (force simp: eq_ran_func_id_def)
  have g: "get_key cmp_ran_func_id rf (rb_entries t @ [(rf, v)]) \<noteq> None" for v :: "string list"
    by (simp add: get_key_None_iff fresh_key_def)
  obtain t1 where t1: "register_listeners_for_ran_func_id t rf ''stdout listener'' = Inr t1"
    "rb_inv cmp_ran_func_id UNIV t1" "rb_entries t1 = rb_entries t @ [(rf, [''stdout listener''])]"
    using register_listeners_ok [OF assms(1), of rf "''stdout listener''"] by (metis n a)
  obtain t2 where t2: "register_listeners_for_ran_func_id t1 rf ''redis listener'' = Inr t2"
    "rb_inv cmp_ran_func_id UNIV t2"
    "rb_entries t2 = rb_entries t @ [(rf, [''stdout listener'', ''redis listener''])]"
    using register_listeners_ok [OF t1(2), of rf "''redis listener''"] by (auto simp: t1(3) g u)
  obtain t3 where t3: "register_listeners_for_ran_func_id t2 rf ''influx listener'' = Inr t3"
    "rb_inv cmp_ran_func_id UNIV t3" "rb_entries t3 = rb_entries t @ [(rf, default_listeners)]"
    using register_listeners_ok [OF t2(2), of rf "''influx listener''"]
    by (auto simp: t2(3) g u default_listeners_def)
  show ?thesis using that t1 t2 t3 by simp
qed

context comparator
begin

lemma strictly_sorted:
  "sorted_entries cmp xs \<Longrightarrow> uniq_entries cmp xs \<Longrightarrow> keys_in D xs \<Longrightarrow>
    sorted_wrt (\<lambda>a b. cmp a b = 1) (map fst xs)"
proof (induction xs)
  case (Cons x xs)
  have "cmp (fst x) (fst y) = 1" if "y \<in> set xs" for y
    using Cons.prems that cmp_range [of "fst x" "fst y"] cmp_gt_iff [of "fst x" "fst y"]
      keys_inD [OF Cons.prems(3), of y]
    by (auto simp: sorted_entries_def uniq_entries_def)
  with Cons show ?case by (auto simp: sorted_entries_def uniq_entries_def)
qed simp

end

lemma load_default_pub_sub_ok:
  assumes "rb_inv cmp_ran_func_id UNIV p" "uniq_entries cmp_ran_func_id (rb_entries p)"
  obtains ps where "load_default_pub_sub_ric p (assoc_rb_tree_init cmp_ran_func_id) = Inr ps"
    "rb_inv cmp_ran_func_id UNIV ps" "rb_entries ps = map (\<lambda>e. (fst e, default_listeners)) (rb_entries p)"
proof -
  let ?f = "\<lambda>rf sm t. res_bind (register_listeners_for_ran_func_id t rf ''stdout listener'') (\<lambda>t1.
      res_bind (register_listeners_for_ran_func_id t1 rf ''redis listener'') (\<lambda>t2.
      register_listeners_for_ran_func_id t2 rf ''influx listener''))"
  have "\<exists>t'. fold_res (\<lambda>(k, v). ?f k v) es t = Inr t' \<and> rb_inv cmp_ran_func_id UNIV t' \<and>
      rb_entries t' = rb_entries t @ map (\<lambda>e. (fst e, default_listeners)) es"
    if "rb_inv cmp_ran_func_id UNIV t" "sorted_wrt (\<lambda>a b. cmp_ran_func_id a b = 1) (map fst (rb_entries t) @ map fst es)"
    for es :: "(u16 \<times> ('a, 'b) sm_ric) list" and t
    using that
  proof (induction es arbitrary: t)
    case (Cons e es)
    have lt: "cmp_ran_func_id (fst x) (fst e) = 1" if "x \<in> set (rb_entries t)" for x
      using Cons.prems(2) that by (auto simp: sorted_wrt_append)
    obtain t' where t': "?f (fst e) (snd e) t = Inr t'" "rb_inv cmp_ran_func_id UNIV t'"
      "rb_entries t' = rb_entries t @ [(fst e, default_listeners)]"
      using register_three [OF Cons.prems(1) lt] by metis
    obtain t'' where "fold_res (\<lambda>(k, v). ?f k v) es t' = Inr t''" "rb_inv cmp_ran_func_id UNIV t''"
      "rb_entries t'' = rb_entries t' @ map (\<lambda>e. (fst e, default_listeners)) es"
      using Cons.IH [OF t'(2)] Cons.prems(2) t'(3) by auto
    with t' show ?case by (cases e) simp
  qed simp
  moreover have "sorted_wrt (\<lambda>a b. cmp_ran_func_id a b = 1) (map fst (rb_entries p))"
    using assms by (intro ran_func.strictly_sorted) (auto simp: rb_inv_def)
  ultimately obtain ps where "fold_res (\<lambda>(k, v). ?f k v) (rb_entries p) (assoc_rb_tree_init cmp_ran_func_id) = Inr ps"
    "rb_inv cmp_ran_func_id UNIV ps"
    "rb_entries ps = map (\<lambda>e. (fst e, default_listeners)) (rb_entries p)"
    using rb_inv_init [of cmp_ran_func_id UNIV] by fastforce
  then show ?thesis
    using that [of ps] by (simp add: load_default_pub_sub_ric_def rb_foreach_eq it_entries_front)
qed

text \<open>Publishing after the default start reaches the three listeners, although the listeners
  of the first RAN function are taken instead of the ones of the message's.\<close>

lemma publish_ind_msg_eq:
  "publish_ind_msg ric rf d =
    (if get_key cmp_ran_func_id rf (rb_entries (pub_sub ric)) = None then Inl AssertFail
     else Inr (map (\<lambda>s. Publish s d) (snd (hd (rb_entries (pub_sub ric))))))"
proof -
  let ?t = "pub_sub ric" and ?it = "assoc_rb_tree_front (pub_sub ric)"
  obtain it where it: "find_if_rb_tree (eq_ran_func_id rf) ?it = Inr it"
    "it_entries it = dropWhile (\<lambda>e. \<not> eq_ran_func_id rf (fst e)) (rb_entries ?t)"
    using find_if_rb_tree_spec [of "eq_ran_func_id rf" ?it] by (auto simp: it_entries_front)
  have d: "fst it = Dummy \<longleftrightarrow> it_entries it = []" by (cases it rule: it_entries.cases) auto
  have n: "it_entries it = [] \<longleftrightarrow> get_key cmp_ran_func_id rf (rb_entries ?t) = None"
    by (auto simp: it(2) dropWhile_eq_Nil_conv get_key_None_iff fresh_key_def eq_ran_func_id_def)
  show ?thesis
  proof (cases "rb_entries ?t")
    case Nil
    then show ?thesis using it d n by (simp add: publish_ind_msg_def)
  next
    case (Cons e es)
    then have "assoc_rb_tree_value ?it = Inr (snd e)"
      using it_key_value [of ?it "fst e" "snd e" es] by (simp add: it_entries_front)
    then show ?thesis using it(1) d n Cons by (simp add: publish_ind_msg_def)
  qed
qed

lemma accept_ran_functions_ok:
  assumes "\<forall>rf\<in>set rfs. plugin_get p (rf_id rf) \<noteq> None \<and> length (rf_def rf) < 127"
  shows "accept_ran_functions p rfs = Inr (map rf_id rfs)"
  using assms
proof (induction rfs)
  case (Cons rf rfs)
  obtain it where it: "find_if_rb_tree (eq_ran_func_id (rf_id rf)) (assoc_rb_tree_front p) = Inr it"
    "it_entries it = dropWhile (\<lambda>e. \<not> eq_ran_func_id (rf_id rf) (fst e)) (rb_entries p)"
    using find_if_rb_tree_spec [of "eq_ran_func_id (rf_id rf)" "assoc_rb_tree_front p"]
    by (auto simp: it_entries_front)
  have "plugin_get p (rf_id rf) \<noteq> None" using Cons.prems by simp
  then have "it_entries it \<noteq> []"
    by (auto simp: it(2) dropWhile_eq_Nil_conv plugin_get_def get_key_None_iff fresh_key_def eq_ran_func_id_def)
  then obtain k v es where e: "it_entries it = (k, v) # es" by (cases "it_entries it") auto
  then have "k = rf_id rf"
    using dropWhile_Cons_split [of "\<lambda>e. \<not> eq_ran_func_id (rf_id rf) (fst e)" "rb_entries p" "(k, v)" es] it(2)
    by (simp add: eq_ran_func_id_def)
  moreover have "fst it \<noteq> Dummy" using e by (cases it rule: it_entries.cases) auto
  ultimately show ?case
    using Cons it(1) it_key_value [OF e] by simp
qed simp

lemma accept_ran_functions_err:
  assumes "\<exists>rf\<in>set rfs. plugin_get p (rf_id rf) = None \<or> 127 \<le> length (rf_def rf)"
  shows "accept_ran_functions p rfs = Inl AssertFail"
  using assms
proof (induction rfs)
  case (Cons rf rfs)
  obtain it where it: "find_if_rb_tree (eq_ran_func_id (rf_id rf)) (assoc_rb_tree_front p) = Inr it"
    "it_entries it = dropWhile (\<lambda>e. \<not> eq_ran_func_id (rf_id rf) (fst e)) (rb_entries p)"
    using find_if_rb_tree_spec [of "eq_ran_func_id (rf_id rf)" "assoc_rb_tree_front p"]
    by (auto simp: it_entries_front)
  show ?case
  proof (cases "fst it = Dummy")
    case False
    then obtain k v es where e: "it_entries it = (k, v) # es" by (cases it rule: it_entries.cases) auto
    have "it_entries it \<noteq> []" using e by simp
    then have "plugin_get p (rf_id rf) \<noteq> None"
      by (auto simp: it(2) dropWhile_eq_Nil_conv plugin_get_def get_key_None_iff fresh_key_def eq_ran_func_id_def)
    then have "127 \<le> length (rf_def rf) \<or> accept_ran_functions p rfs = Inl AssertFail"
      using Cons by auto
    then show ?thesis
      using False it(1) it_key_value [OF e] by (cases "rf_id rf = k"; cases "length (rf_def rf) < 127") auto
  qed (simp add: it(1))
qed simp

section \<open>The nodes and the state as a whole\<close>

definition conn_inv :: "'sri map_e2_node_sockaddr \<Rightarrow> e2_node list \<Rightarrow> bool" where
  "conn_inv m ns \<longleftrightarrow> mset (map en_id ns) = mset (map fst (bm_pairs (e2_map m)))"

definition ric_inv ::
  "global_e2_node_id set \<Rightarrow> int \<Rightarrow> ('sri, 'wr, 'rd) near_ric \<Rightarrow> bool" where
  "ric_inv D ep_fd ric \<longleftrightarrow> e2_sad_inv D (ep ric) \<and> conn_inv (ep ric) (conn_nodes ric) \<and>
    pend_inv ep_fd (io ric) (pending ric) \<and> plugin_inv (plugin ric)"

text \<open>What the environment has to respect: a node that sets up is of the kind of nodes
  \<open>D\<close>, not connected yet, and on an association of its own.\<close>

definition fair_event ::
  "global_e2_node_id set \<Rightarrow> ('sri, 'wr, 'rd) near_ric \<Rightarrow> 'sri ric_event \<Rightarrow> bool" where
  "fair_event D ric e \<longleftrightarrow>
    (case e of
       Sctp_msg_arrived info (E2_stp_req req) \<Rightarrow>
         stp_id req \<in> D \<and> e2_sad_get (ep ric) (stp_id req) = None \<and> e2_sad_node (ep ric) info = None
     | _ \<Rightarrow> True)"

lemma en_id_init_e2_node [simp]: "en_id (init_e2_node i acc) = i"
  by (cases i) (auto simp: init_e2_node_def split: option.splits)

context node_set
begin

lemma erase_ok:
  assumes "uniq_entries node_cmp xs" "keys_in D xs" "(i, v) \<in> set xs"
    "mset (map en_id ns) = mset (map fst xs)"
  shows "\<exists>ms. erase_e2_node i ns = Inr ms \<and> mset (map en_id ms) = mset (map fst (del_key node_cmp i xs))"
proof -
  obtain ys zs where x: "xs = ys @ (i, v) # zs" using assms(3) by (meson split_list)
  have i: "i \<in> D" using assms(2,3) keys_inD by fastforce
  have d: "del_key node_cmp i xs = ys @ zs"
    unfolding x using del_key_split(1) [of ys i v zs i] assms i by (simp add: x)
  have f: "\<not> eq_global_e2_node_id i (fst e)" if "e \<in> set (ys @ zs)" for e
  proof -
    have "e \<in> set (del_key node_cmp i xs)" using that by (simp add: d)
    moreover have "fst e \<in> D" using that assms(2) keys_inD by (fastforce simp: x)
    ultimately show ?thesis using i eq_node by (simp add: del_key_def)
  qed
  have s: "set (map en_id ns) = insert i (fst ` set (ys @ zs))"
    using arg_cong [OF assms(4), of set_mset] by (simp add: x image_Un)
  have "\<exists>ms. erase_e2_node i ns = Inr ms \<and> mset (map en_id ns) = add_mset i (mset (map en_id ms))"
    if "i \<in> set (map en_id ns)" "\<forall>n\<in>set ns. en_id n = i \<or> \<not> eq_global_e2_node_id i (en_id n)"
    using that
  proof (induction ns)
    case (Cons n ns)
    have "eq_global_e2_node_id i i" using eq_node [OF i i] i by simp
    with Cons show ?case by (cases "eq_global_e2_node_id i (en_id n)") auto
  qed simp
  moreover have "\<forall>n\<in>set ns. en_id n = i \<or> \<not> eq_global_e2_node_id i (en_id n)"
  proof
    fix n assume "n \<in> set ns"
    then have "en_id n \<in> insert i (fst ` set (ys @ zs))" using s by auto
    then show "en_id n = i \<or> \<not> eq_global_e2_node_id i (en_id n)"
      using f by (metis imageE insertE)
  qed
  ultimately show ?thesis unfolding d using s assms(4) by (auto simp: x)
qed

lemma sad_pairs_add:
  assumes "e2_sad_inv D m" "k \<in> D" "add_map_e2_node_sad m k s = Inr m'"
  shows "mset (map fst (bm_pairs (e2_map m'))) = add_mset k (mset (map fst (bm_pairs (e2_map m))))"
proof -
  obtain b where "bi_map_insert (e2_map m) k s = Inr b"
    "bm_pairs b = ins_entry node_cmp k s (bm_pairs (e2_map m))"
    using node_sad.insert_ok [of "e2_map m" k s] assms(1,2) unfolding e2_sad_inv_def by blast
  then have "bm_pairs (e2_map m') = ins_entry node_cmp k s (bm_pairs (e2_map m))"
    using assms(3) by (auto simp: add_map_e2_node_sad_def)
  then show ?thesis by simp
qed

lemma sad_pairs_rm:
  assumes "e2_sad_inv D m" "rm_map_sad_e2_node m s = Inr (k, m')"
  shows "bm_pairs (e2_map m') = del_key node_cmp k (bm_pairs (e2_map m))"
    "\<exists>v. (k, v) \<in> set (bm_pairs (e2_map m))"
proof -
  have i: "node_sad.bminv (e2_map m)" "node_sad.bmuniq (e2_map m)"
    using assms(1) by (auto simp: e2_sad_inv_def)
  obtain k' where k': "bm_get_right cmp_sctp_info_wrapper (e2_map m) s = Some k'"
    using assms rm_sad_absent [OF assms(1), of s] by (cases "e2_sad_node m s") (auto simp: e2_sad_node_def)
  obtain b where b: "bi_map_extract_right (e2_map m) s = Inr (k', b)"
    "bm_pairs b = del_key node_cmp k' (bm_pairs (e2_map m))"
    using node_sad.extract_right_ok [OF i UNIV_I k'] by blast
  then have "k = k'" "e2_map m' = b" using assms(2) by (auto simp: rm_map_sad_e2_node_def)
  then show "bm_pairs (e2_map m') = del_key node_cmp k (bm_pairs (e2_map m))"
    "\<exists>v. (k, v) \<in> set (bm_pairs (e2_map m))"
    using b node_sad.get_right_pair [OF i(1) k'] by auto
qed

lemma setup_step:
  assumes "ric_inv D ep_fd ric" "stp_id req \<in> D" "e2_sad_get (ep ric) (stp_id req) = None"
    "e2_sad_node (ep ric) info = None"
    "e2_event_ric ric (Sctp_msg_arrived info (E2_stp_req req)) = Inr (ric', out)"
  shows "ric_inv D ep_fd ric'"
    and "\<exists>resp. out = [Iapp_add_node (stp_id req) (ran_func_item req), Send_msg info (E2_stp_resp resp)] \<and>
      generate_setup_response ric req = Inr resp"
    and "\<And>q. q \<in> D \<Longrightarrow>
      e2_sad_get (ep ric') q = (if eq_global_e2_node_id q (stp_id req) then Some info else e2_sad_get (ep ric) q)"
proof -
  have i: "e2_sad_inv D (ep ric)" using assms(1) by (simp add: ric_inv_def)
  obtain m where m: "add_map_e2_node_sad (ep ric) (stp_id req) info = Inr m" "e2_sad_inv D m"
    "\<And>q. q \<in> D \<Longrightarrow> e2_sad_get m q = (if eq_global_e2_node_id q (stp_id req) then Some info else e2_sad_get (ep ric) q)"
    using add_sad_ok [OF i assms(2-4)] by metis
  obtain resp where r: "generate_setup_response (ric\<lparr>ep := m\<rparr>) req = Inr resp"
    "ric' = ric\<lparr>ep := m, conn_nodes := conn_nodes ric @ [init_e2_node (stp_id req) (accepted resp)]\<rparr>"
    "out = [Iapp_add_node (stp_id req) (ran_func_item req), Send_msg info (E2_stp_resp resp)]"
    using assms(5) m(1)
    by (auto simp: e2_event_ric_def e2ap_msg_handle_ric_def check_valid_msg_type_def
        e2ap_handle_setup_request_ric_def res_bind_eq_Inr Let_def)
  have "conn_inv m (conn_nodes ric @ [init_e2_node (stp_id req) (accepted resp)])"
    using assms(1) sad_pairs_add [OF i assms(2) m(1)] by (simp add: ric_inv_def conn_inv_def)
  then show "ric_inv D ep_fd ric'" using assms(1) m(2) by (simp add: r(2) ric_inv_def)
  show "\<exists>resp. out = [Iapp_add_node (stp_id req) (ran_func_item req), Send_msg info (E2_stp_resp resp)] \<and>
      generate_setup_response ric req = Inr resp"
    using r by (auto simp: generate_setup_response_def)
  show "\<And>q. q \<in> D \<Longrightarrow>
      e2_sad_get (ep ric') q = (if eq_global_e2_node_id q (stp_id req) then Some info else e2_sad_get (ep ric) q)"
    using m(3) by (simp add: r(2))
qed

lemma shutdown_step:
  assumes "ric_inv D ep_fd ric" "e2_sad_node (ep ric) info = Some i"
  obtains ric' where "e2_event_ric ric (Sctp_connection_shutdown True info) = Inr (ric', [Iapp_rm_node i])"
    "ric_inv D ep_fd ric'"
    "\<And>q. q \<in> D \<Longrightarrow> e2_sad_get (ep ric') q = (if eq_global_e2_node_id q i then None else e2_sad_get (ep ric) q)"
proof -
  have s: "e2_sad_inv D (ep ric)" using assms(1) by (simp add: ric_inv_def)
  obtain m where m: "rm_map_sad_e2_node (ep ric) info = Inr (i, m)" "e2_sad_inv D m"
    "\<And>q. q \<in> D \<Longrightarrow> e2_sad_get m q = (if eq_global_e2_node_id q i then None else e2_sad_get (ep ric) q)"
    using rm_sad_ok [OF s assms(2)] by metis
  note p = sad_pairs_rm [OF s m(1)]
  have u: "uniq_entries node_cmp (bm_pairs (e2_map (ep ric)))" "keys_in D (bm_pairs (e2_map (ep ric)))"
    using s by (auto simp: e2_sad_inv_def bm_uniq_def bm_inv_def rb_inv_def bm_pairs_def)
  obtain ns where ns: "erase_e2_node i (conn_nodes ric) = Inr ns" "conn_inv m ns"
    using erase_ok [OF u, of i _ "conn_nodes ric"] p assms(1) by (auto simp: ric_inv_def conn_inv_def)
  show ?thesis
    using that [of "ric\<lparr>ep := m, conn_nodes := ns\<rparr>"] assms(1) m ns
    by (simp add: e2_event_ric_def notification_handle_ric_def ric_inv_def)
qed

text \<open>Every event keeps the invariant.\<close>

lemma handler_keeps:
  assumes "ric_inv D ep_fd ric" "e2ap_msg_handle_ric ric msg = Inr (ric', out, ans)"
    "msg_type msg \<noteq> E2_SETUP_REQUEST"
  shows "ric_inv D ep_fd ric' \<and> ep ric' = ep ric \<and> msg_type ans = NONE_E2_MSG_TYPE"
proof -
  have stop: "ric_inv D ep_fd r' \<and> ep r' = ep ric"
    if s: "stop_pending_event ric e = Inr r'" for e r'
  proof -
    have p: "pend_inv ep_fd (io ric) (pending ric)" using assms(1) by (simp add: ric_inv_def)
    obtain fd where fd: "pending_fd (pending ric) e = Some fd"
      using stop_pending_event_absent [OF p, of e] s by fastforce
    obtain q where q: "stop_pending_event ric e = Inr (ric\<lparr>io := remove1 fd (io ric), pending := q\<rparr>)"
      "pend_inv ep_fd (remove1 fd (io ric)) q"
      by (rule stop_pending_event_ok [OF p fd])
    then have "r' = ric\<lparr>io := remove1 fd (io ric), pending := q\<rparr>" using s by simp
    then show ?thesis using q(2) assms(1) by (simp add: ric_inv_def)
  qed
  show ?thesis
  proof (cases msg)
    case (Ric_sub_resp r)
    then show ?thesis
      using assms stop
      by (auto simp: e2ap_msg_handle_ric_def check_valid_msg_type_def
          e2ap_handle_subscription_response_ric_def res_bind_eq_Inr)
  next
    case (Ric_sub_del_resp r)
    then show ?thesis
      using assms stop
      by (auto simp: e2ap_msg_handle_ric_def check_valid_msg_type_def
          e2ap_handle_subscription_delete_response_ric_def res_bind_eq_Inr)
  next
    case (Ric_ind r)
    then show ?thesis
      using assms
      by (auto simp: e2ap_msg_handle_ric_def check_valid_msg_type_def
          e2ap_handle_indication_ric_def res_bind_eq_Inr Let_def)
  next
    case (Ric_ctrl_ack r)
    then show ?thesis
      using assms stop
      by (auto simp: e2ap_msg_handle_ric_def check_valid_msg_type_def
          e2ap_handle_control_ack_ric_def res_bind_eq_Inr)
  next
    case (Other_msg t)
    then show ?thesis
      using assms
      by (cases t)
        (simp_all add: e2ap_msg_handle_ric_def check_valid_msg_type_def not_implemented_ric_def
          e2ap_handle_subscription_response_ric_def e2ap_handle_subscription_failure_ric_def
          e2ap_handle_subscription_delete_response_ric_def e2ap_handle_subscription_delete_failure_ric_def
          e2ap_handle_indication_ric_def e2ap_handle_control_ack_ric_def e2ap_handle_control_failure_ric_def
          e2ap_handle_error_indication_ric_def e2ap_handle_reset_request_ric_def
          e2ap_handle_reset_response_ric_def e2ap_handle_service_update_ric_def
          e2ap_handle_node_configuration_update_ric_def e2ap_handle_connection_update_ack_ric_def
          e2ap_handle_connection_update_failure_ric_def)
  qed (use assms in \<open>simp_all add: e2ap_msg_handle_ric_def check_valid_msg_type_def\<close>)
qed

lemma event_keeps:
  assumes "ric_inv D ep_fd ric" "fair_event D ric e" "e2_event_ric ric e = Inr (ric', out)"
  shows "ric_inv D ep_fd ric'"
proof (cases e)
  case Check_stop_token
  then show ?thesis using assms by (simp add: e2_event_ric_def)
next
  case (Sctp_msg_arrived info msg)
  show ?thesis
  proof (cases "\<exists>req. msg = E2_stp_req req")
    case True
    then obtain req where "msg = E2_stp_req req" by blast
    then show ?thesis
      using setup_step(1) [OF assms(1)] assms(2,3) by (auto simp: Sctp_msg_arrived fair_event_def)
  next
    case False
    then have "(case msg of E2_stp_req req \<Rightarrow> f req | _ \<Rightarrow> g) = g" for f and g :: "('a, 'b, 'c) near_ric res"
      by (cases msg) auto
    then obtain out' ans where h: "e2ap_msg_handle_ric ric msg = Inr (ric', out', ans)"
      using assms(3) by (auto simp: Sctp_msg_arrived e2_event_ric_def res_bind_eq_Inr split: if_splits)
    have "msg_type msg \<noteq> E2_SETUP_REQUEST"
    proof
      assume "msg_type msg = E2_SETUP_REQUEST"
      then have "msg = Other_msg E2_SETUP_REQUEST" using False by (cases msg) auto
      then show False
        using h by (simp add: e2ap_msg_handle_ric_def check_valid_msg_type_def e2ap_handle_setup_request_ric_def)
    qed
    then show ?thesis using handler_keeps [OF assms(1) h] by blast
  qed
next
  case (Sctp_connection_shutdown sd info)
  then have sd: "sd" using assms(3)
    by (cases sd) (auto simp: e2_event_ric_def notification_handle_ric_def)
  have i: "e2_sad_inv D (ep ric)" using assms(1) by (simp add: ric_inv_def)
  have "e2_sad_node (ep ric) info \<noteq> None"
  proof
    assume "e2_sad_node (ep ric) info = None"
    from rm_sad_absent [OF i this] show False
      using assms(3) sd by (simp add: Sctp_connection_shutdown e2_event_ric_def notification_handle_ric_def)
  qed
  then obtain n where "e2_sad_node (ep ric) info = Some n" by blast
  then obtain ric2 where "e2_event_ric ric (Sctp_connection_shutdown True info) = Inr (ric2, [Iapp_rm_node n])"
    "ric_inv D ep_fd ric2"
    by (rule shutdown_step [OF assms(1)])
  then show ?thesis using assms(3) sd by (simp add: Sctp_connection_shutdown)
next
  case (Timer_expired fd)
  then show ?thesis using assms by (auto simp: e2_event_ric_def res_bind_eq_Inr)
qed

end

text \<open>A run of the loop in which every setup is fair when it happens.\<close>

fun fair_run :: "global_e2_node_id set \<Rightarrow> ('sri, 'wr, 'rd) near_ric \<Rightarrow> 'sri ric_event list \<Rightarrow> bool" where
  "fair_run D ric [] = True"
| "fair_run D ric (e # es) =
    (fair_event D ric e \<and>
     (case e2_event_ric ric e of Inl _ \<Rightarrow> True | Inr (ric', _) \<Rightarrow> fair_run D ric' es))"

lemma loop_keeps:
  fixes ric ric' :: "('sri, 'wr, 'rd) near_ric"
  assumes "fold_res (\<lambda>e (r, out). res_bind (e2_event_ric r e) (\<lambda>(r', o'). Inr (r', out @ o'))) es (ric, os) = Inr (ric', os')"
    "ric_inv D ep_fd ric" "node_set D" "fair_run D ric es"
  shows "ric_inv D ep_fd ric'"
  using assms
proof (induction es arbitrary: ric os)
  case (Cons e es)
  then obtain r1 o1 where r1: "e2_event_ric ric e = Inr (r1, o1)"
    "fold_res (\<lambda>e (r, out). res_bind (e2_event_ric r e) (\<lambda>(r', o'). Inr (r', out @ o'))) es (r1, os @ o1) = Inr (ric', os')"
    by (auto simp: res_bind_eq_Inr)
  have "ric_inv D ep_fd r1"
    using node_set.event_keeps [OF Cons.prems(3,2) _ r1(1)] Cons.prems(4) by simp
  then show ?case using Cons.IH [OF r1(2) _ Cons.prems(3)] Cons.prems(4) r1(1) by simp
qed simp

lemma conn_inv_init: "conn_inv init_map_e2_node_sad []"
  by (simp add: conn_inv_def init_map_e2_node_sad_def)

lemma init_near_ric_ok:
  assumes "0 < ep_fd" "\<forall>sm\<in>set sms. 0 < sm_ran_func_id sm" "distinct (map sm_ran_func_id sms)"
  obtains ric where "init_near_ric ep_fd sms = Inr ric" "ric_inv D ep_fd ric" "req_id ric = 1021"
    "plugin_get (plugin ric) = map_of (map (\<lambda>sm. (sm_ran_func_id sm, sm)) sms)"
    "rb_entries (pub_sub ric) = map (\<lambda>e. (fst e, default_listeners)) (rb_entries (plugin ric))"
    "uniq_entries cmp_ran_func_id (rb_entries (plugin ric))"
proof -
  obtain p where p: "init_plugin_ric sms = Inr p" "plugin_inv p" "uniq_entries cmp_ran_func_id (rb_entries p)"
    "plugin_get p = map_of (map (\<lambda>sm. (sm_ran_func_id sm, sm)) sms)"
    by (rule init_plugin_ok [OF assms(2,3)])
  have r: "rb_inv cmp_ran_func_id UNIV p" using p(2) by (simp add: plugin_inv_def)
  obtain ps where ps: "load_default_pub_sub_ric p (assoc_rb_tree_init cmp_ran_func_id) = Inr ps"
    "rb_entries ps = map (\<lambda>e. (fst e, default_listeners)) (rb_entries p)"
    by (rule load_default_pub_sub_ok [OF r p(3)])
  show ?thesis
    using assms(1) p ps pend_inv_init [OF assms(1)]
      that [of "\<lparr>ep = init_map_e2_node_sad, io = [ep_fd], plugin = p, pub_sub = ps, conn_nodes = [],
        req_id = 1021, pending = init_pending_events\<rparr>"]
    by (simp add: init_near_ric_def add_fd_asio_ric_def ric_inv_def e2_sad_inv_init conn_inv_init)
qed

section \<open>Requests and their answers\<close>

lemma request_ok:
  assumes "ric_inv D ep_fd ric" "0 < wait" "0 < fd" "fd \<notin> set (io ric)" "e2_sad_get (ep ric) i = Some s"
    "pending_fd (pending ric) e = None"
  obtains ric' where "start_pending_event (ric\<lparr>req_id := r\<rparr>) wait fd e = Inr ric'"
    "e2ap_send_bytes_ric ric' i m = Inr [Send_msg s m]" "ric_inv D ep_fd ric'"
    "pending_fd (pending ric') = (pending_fd (pending ric))(e \<mapsto> fd)"
    "io ric' = fd # io ric" "req_id ric' = r" "ep ric' = ep ric"
proof -
  have p: "pend_inv ep_fd (io (ric\<lparr>req_id := r\<rparr>)) (pending (ric\<lparr>req_id := r\<rparr>))"
    using assms(1) by (simp add: ric_inv_def)
  obtain q where q: "start_pending_event (ric\<lparr>req_id := r\<rparr>) wait fd e =
      Inr (ric\<lparr>req_id := r, io := fd # io ric, pending := q\<rparr>)"
    "pend_inv ep_fd (fd # io ric) q" "pending_fd q = (pending_fd (pending ric))(e \<mapsto> fd)"
    using start_pending_event_ok [OF p assms(2,3), of e] assms(4,6) by auto
  show ?thesis
    using that [OF q(1)] q assms(1,5)
    by (simp add: e2ap_send_bytes_ric_def find_map_e2_node_sad_eq ric_inv_def)
qed

definition fwd_id :: "('sri, 'wr, 'rd) near_ric \<Rightarrow> ric_gen_id \<Rightarrow> ric_gen_id" where
  "fwd_id ric i = i\<lparr>ric_req_id := set_low16 (ric_req_id i) (ucast (req_id ric))\<rparr>"

lemma fwd_subscription_ok:
  assumes "ric_inv D ep_fd ric" "0 < fd" "fd \<notin> set (io ric)" "e2_sad_get (ep ric) i = Some s"
    "pending_fd (pending ric) \<lparr>ev = SUBSCRIPTION_REQUEST_PENDING_EVENT, pid = fwd_id ric (sr_ric_id sr)\<rparr> = None"
  obtains ric' where "fwd_ric_subscription_request ric fd i sr =
      Inr (ucast (req_id ric), ric', [Send_msg s (Ric_sub_req (sr\<lparr>sr_ric_id := fwd_id ric (sr_ric_id sr)\<rparr>))])"
    "ric_inv D ep_fd ric'" "req_id ric' = req_id ric + 1" "io ric' = fd # io ric" "ep ric' = ep ric"
    "pending_fd (pending ric') = (pending_fd (pending ric))
      (\<lparr>ev = SUBSCRIPTION_REQUEST_PENDING_EVENT, pid = fwd_id ric (sr_ric_id sr)\<rparr> \<mapsto> fd)"
proof -
  obtain ric' where r: "start_pending_event (ric\<lparr>req_id := req_id ric + 1\<rparr>) 3000 fd
      \<lparr>ev = SUBSCRIPTION_REQUEST_PENDING_EVENT, pid = fwd_id ric (sr_ric_id sr)\<rparr> = Inr ric'"
    "e2ap_send_bytes_ric ric' i (Ric_sub_req (sr\<lparr>sr_ric_id := fwd_id ric (sr_ric_id sr)\<rparr>)) =
      Inr [Send_msg s (Ric_sub_req (sr\<lparr>sr_ric_id := fwd_id ric (sr_ric_id sr)\<rparr>))]"
    "ric_inv D ep_fd ric'" "pending_fd (pending ric') = (pending_fd (pending ric))
      (\<lparr>ev = SUBSCRIPTION_REQUEST_PENDING_EVENT, pid = fwd_id ric (sr_ric_id sr)\<rparr> \<mapsto> fd)"
    "io ric' = fd # io ric" "req_id ric' = req_id ric + 1" "ep ric' = ep ric"
    by (rule request_ok [OF assms(1) _ assms(2-5), of 3000]) simp
  show ?thesis
    by (rule that [OF _ r(3,6,5,7,4)])
       (use r(1,2) in \<open>simp add: fwd_ric_subscription_request_def fwd_id_def Let_def\<close>)
qed

lemma fwd_control_ok:
  assumes "ric_inv D ep_fd ric" "0 < fd" "fd \<notin> set (io ric)" "e2_sad_get (ep ric) i = Some s"
    "pending_fd (pending ric) \<lparr>ev = CONTROL_REQUEST_PENDING_EVENT, pid = fwd_id ric (cr_ric_id cr)\<rparr> = None"
  obtains ric' where "fwd_ric_control_request ric fd i cr =
      Inr (ucast (req_id ric), ric', [Send_msg s (Ric_ctrl_req (cr\<lparr>cr_ric_id := fwd_id ric (cr_ric_id cr)\<rparr>))])"
    "ric_inv D ep_fd ric'" "req_id ric' = req_id ric + 1" "io ric' = fd # io ric" "ep ric' = ep ric"
    "pending_fd (pending ric') = (pending_fd (pending ric))
      (\<lparr>ev = CONTROL_REQUEST_PENDING_EVENT, pid = fwd_id ric (cr_ric_id cr)\<rparr> \<mapsto> fd)"
proof -
  obtain ric' where r: "start_pending_event (ric\<lparr>req_id := req_id ric + 1\<rparr>) 3000 fd
      \<lparr>ev = CONTROL_REQUEST_PENDING_EVENT, pid = fwd_id ric (cr_ric_id cr)\<rparr> = Inr ric'"
    "e2ap_send_bytes_ric ric' i (Ric_ctrl_req (cr\<lparr>cr_ric_id := fwd_id ric (cr_ric_id cr)\<rparr>)) =
      Inr [Send_msg s (Ric_ctrl_req (cr\<lparr>cr_ric_id := fwd_id ric (cr_ric_id cr)\<rparr>))]"
    "ric_inv D ep_fd ric'" "pending_fd (pending ric') = (pending_fd (pending ric))
      (\<lparr>ev = CONTROL_REQUEST_PENDING_EVENT, pid = fwd_id ric (cr_ric_id cr)\<rparr> \<mapsto> fd)"
    "io ric' = fd # io ric" "req_id ric' = req_id ric + 1" "ep ric' = ep ric"
    by (rule request_ok [OF assms(1) _ assms(2-5), of 3000]) simp
  show ?thesis
    by (rule that [OF _ r(3,6,5,7,4)])
       (use r(1,2) in \<open>simp add: fwd_ric_control_request_def fwd_id_def Let_def\<close>)
qed

lemma fwd_delete_ok:
  assumes "ric_inv D ep_fd ric" "0 < fd" "fd \<notin> set (io ric)" "e2_sad_get (ep ric) i = Some s"
    "pending_fd (pending ric) \<lparr>ev = SUBSCRIPTION_DELETE_REQUEST_PENDING_EVENT, pid = sdr_ric_id sdr\<rparr> = None"
  obtains ric' where "fwd_ric_subscription_request_delete ric fd i sdr =
      Inr (ric', [Send_msg s (Ric_sub_del_req sdr)])"
    "ric_inv D ep_fd ric'" "req_id ric' = req_id ric" "io ric' = fd # io ric" "ep ric' = ep ric"
    "pending_fd (pending ric') = (pending_fd (pending ric))
      (\<lparr>ev = SUBSCRIPTION_DELETE_REQUEST_PENDING_EVENT, pid = sdr_ric_id sdr\<rparr> \<mapsto> fd)"
proof -
  obtain ric' where r: "start_pending_event (ric\<lparr>req_id := req_id ric\<rparr>) 3000 fd
      \<lparr>ev = SUBSCRIPTION_DELETE_REQUEST_PENDING_EVENT, pid = sdr_ric_id sdr\<rparr> = Inr ric'"
    "e2ap_send_bytes_ric ric' i (Ric_sub_del_req sdr) = Inr [Send_msg s (Ric_sub_del_req sdr)]"
    "ric_inv D ep_fd ric'" "pending_fd (pending ric') = (pending_fd (pending ric))
      (\<lparr>ev = SUBSCRIPTION_DELETE_REQUEST_PENDING_EVENT, pid = sdr_ric_id sdr\<rparr> \<mapsto> fd)"
    "io ric' = fd # io ric" "req_id ric' = req_id ric" "ep ric' = ep ric"
    by (rule request_ok [OF assms(1) _ assms(2-5), of 3000]) simp
  show ?thesis
    by (rule that [OF _ r(3,6,5,7,4)])
       (use r(1,2) in \<open>simp add: fwd_ric_subscription_request_delete_def\<close>)
qed

text \<open>The answer stops the timer that the request started.\<close>

lemma subscription_response_ok:
  assumes "ric_inv D ep_fd ric"
    "pending_fd (pending ric) \<lparr>ev = SUBSCRIPTION_REQUEST_PENDING_EVENT, pid = resp_ric_id resp\<rparr> = Some fd"
    "not_admitted resp = []" "admitted resp = [\<lparr>ric_act_id = 0\<rparr>]"
  obtains ric' where "e2ap_msg_handle_ric ric (Ric_sub_resp resp) = Inr (ric', [Iapp_notify (Ric_sub_resp resp)], none_msg)"
    "ric_inv D ep_fd ric'" "io ric' = remove1 fd (io ric)" "ep ric' = ep ric" "req_id ric' = req_id ric"
    "pending_fd (pending ric') = (pending_fd (pending ric))
      (\<lparr>ev = SUBSCRIPTION_REQUEST_PENDING_EVENT, pid = resp_ric_id resp\<rparr> := None)"
proof -
  have p: "pend_inv ep_fd (io ric) (pending ric)" using assms(1) by (simp add: ric_inv_def)
  obtain q where q: "stop_pending_event ric \<lparr>ev = SUBSCRIPTION_REQUEST_PENDING_EVENT, pid = resp_ric_id resp\<rparr> =
      Inr (ric\<lparr>io := remove1 fd (io ric), pending := q\<rparr>)" "pend_inv ep_fd (remove1 fd (io ric)) q"
    "pending_fd q = (pending_fd (pending ric))
      (\<lparr>ev = SUBSCRIPTION_REQUEST_PENDING_EVENT, pid = resp_ric_id resp\<rparr> := None)"
    by (rule stop_pending_event_ok [OF p assms(2)])
  show ?thesis
    by (rule that [of "ric\<lparr>io := remove1 fd (io ric), pending := q\<rparr>"])
       (use q assms in \<open>simp_all add: e2ap_msg_handle_ric_def check_valid_msg_type_def
          e2ap_handle_subscription_response_ric_def ric_inv_def\<close>)
qed

lemma delete_response_ok:
  assumes "ric_inv D ep_fd ric"
    "pending_fd (pending ric) \<lparr>ev = SUBSCRIPTION_DELETE_REQUEST_PENDING_EVENT, pid = sdresp_ric_id resp\<rparr> = Some fd"
  obtains ric' where "e2ap_msg_handle_ric ric (Ric_sub_del_resp resp) = Inr (ric', [Iapp_notify (Ric_sub_del_resp resp)], none_msg)"
    "ric_inv D ep_fd ric'" "io ric' = remove1 fd (io ric)" "ep ric' = ep ric" "req_id ric' = req_id ric"
    "pending_fd (pending ric') = (pending_fd (pending ric))
      (\<lparr>ev = SUBSCRIPTION_DELETE_REQUEST_PENDING_EVENT, pid = sdresp_ric_id resp\<rparr> := None)"
proof -
  have p: "pend_inv ep_fd (io ric) (pending ric)" using assms(1) by (simp add: ric_inv_def)
  obtain q where q: "stop_pending_event ric \<lparr>ev = SUBSCRIPTION_DELETE_REQUEST_PENDING_EVENT, pid = sdresp_ric_id resp\<rparr> =
      Inr (ric\<lparr>io := remove1 fd (io ric), pending := q\<rparr>)" "pend_inv ep_fd (remove1 fd (io ric)) q"
    "pending_fd q = (pending_fd (pending ric))
      (\<lparr>ev = SUBSCRIPTION_DELETE_REQUEST_PENDING_EVENT, pid = sdresp_ric_id resp\<rparr> := None)"
    by (rule stop_pending_event_ok [OF p assms(2)])
  show ?thesis
    by (rule that [of "ric\<lparr>io := remove1 fd (io ric), pending := q\<rparr>"])
       (use q assms in \<open>simp_all add: e2ap_msg_handle_ric_def check_valid_msg_type_def
          e2ap_handle_subscription_delete_response_ric_def ric_inv_def\<close>)
qed

lemma control_ack_ok:
  assumes "ric_inv D ep_fd ric" "ca_status ack = RIC_CONTROL_STATUS_SUCCESS"
    "pending_fd (pending ric) \<lparr>ev = CONTROL_REQUEST_PENDING_EVENT, pid = ca_ric_id ack\<rparr> = Some fd"
  obtains ric' where "e2ap_msg_handle_ric ric (Ric_ctrl_ack ack) = Inr (ric', [Iapp_notify (Ric_ctrl_ack ack)], none_msg)"
    "ric_inv D ep_fd ric'" "io ric' = remove1 fd (io ric)" "ep ric' = ep ric" "req_id ric' = req_id ric"
    "pending_fd (pending ric') = (pending_fd (pending ric))
      (\<lparr>ev = CONTROL_REQUEST_PENDING_EVENT, pid = ca_ric_id ack\<rparr> := None)"
proof -
  have p: "pend_inv ep_fd (io ric) (pending ric)" using assms(1) by (simp add: ric_inv_def)
  obtain q where q: "stop_pending_event ric \<lparr>ev = CONTROL_REQUEST_PENDING_EVENT, pid = ca_ric_id ack\<rparr> =
      Inr (ric\<lparr>io := remove1 fd (io ric), pending := q\<rparr>)" "pend_inv ep_fd (remove1 fd (io ric)) q"
    "pending_fd q = (pending_fd (pending ric))
      (\<lparr>ev = CONTROL_REQUEST_PENDING_EVENT, pid = ca_ric_id ack\<rparr> := None)"
    by (rule stop_pending_event_ok [OF p assms(3)])
  show ?thesis
    by (rule that [of "ric\<lparr>io := remove1 fd (io ric), pending := q\<rparr>"])
       (use q assms in \<open>simp_all add: e2ap_msg_handle_ric_def check_valid_msg_type_def
          e2ap_handle_control_ack_ric_def ric_inv_def\<close>)
qed

text \<open>An indication goes to the three listeners of its RAN function, then to the iApp.\<close>

definition rd_supported :: "sm_ag_if_rd_e \<Rightarrow> bool" where
  "rd_supported t \<longleftrightarrow> t \<in> {MAC_STATS_V0, RLC_STATS_V0, PDCP_STATS_V0, SLICE_STATS_V0, KPM_STATS_V0, GTP_STATS_V0}"

lemma indication_ok:
  assumes "plugin_inv (plugin ric)" "plugin_get (plugin ric) (ran_func_id (ind_ric_id ind)) = Some sm"
    "rb_entries (pub_sub ric) = map (\<lambda>e. (fst e, default_listeners)) (rb_entries (plugin ric))"
    "on_indication sm \<lparr>sid_hdr = ind_hdr ind, sid_msg = ind_msg ind,
      sid_call_process_id = ind_call_process_id ind\<rparr> = Inr d" "rd_supported (rd_type d)"
  shows "e2ap_msg_handle_ric ric (Ric_ind ind) =
    Inr (ric, map (\<lambda>n. Publish n d) default_listeners @ [Iapp_notify (Ric_ind ind)], none_msg)"
proof -
  let ?rf = "ran_func_id (ind_ric_id ind)"
  have "sm_plugin_ric (plugin ric) ?rf = Inr sm" using assms(1,2) by (simp add: sm_plugin_ric_eq)
  moreover obtain e es where e: "rb_entries (plugin ric) = e # es"
    using assms(2) by (cases "rb_entries (plugin ric)") (auto simp: plugin_get_def)
  have n: "get_key cmp_ran_func_id ?rf (map (\<lambda>e. (fst e, default_listeners)) xs) = None \<longleftrightarrow>
      get_key cmp_ran_func_id ?rf xs = None" for xs :: "(u16 \<times> 'z) list"
    by (auto simp: get_key_None_iff fresh_key_def)
  have "get_key cmp_ran_func_id ?rf (rb_entries (pub_sub ric)) \<noteq> None"
    unfolding assms(3) n using assms(2) by (simp add: plugin_get_def)
  ultimately show ?thesis
    using assms(3-5) e
    by (simp add: e2ap_msg_handle_ric_def check_valid_msg_type_def e2ap_handle_indication_ric_def
        publish_ind_msg_eq rd_supported_def Let_def)
qed

lemma valid_iff_handler: "check_valid_msg_type t \<longleftrightarrow> init_handle_msg_ric t \<noteq> None"
  by (cases t) (auto simp: check_valid_msg_type_def)

lemma timer_spec_ok:
  "0 \<le> ms \<Longrightarrow> fst (timer_spec ms) * 1000000000 + snd (timer_spec ms) = ms * 1000000 \<and>
    0 \<le> snd (timer_spec ms) \<and> snd (timer_spec ms) < 1000000000"
proof -
  have "(ms * 1000000) div 1000000000 = ms div 1000" using div_mult_mult2 [of 1000000 ms 1000] by simp
  then show ?thesis
    using div_mult_mod_eq [of "ms * 1000000" 1000000000] by (simp add: timer_spec_def)
qed

end
