(* ===== verification/IApp.thy ===== *)
theory IApp
  imports ApMaps
begin

text \<open>
  The iApp, the part of the near-RT RIC that serves the xApps: \<open>src/ric/iApp/e42_iapp.c\<close>,
  \<open>msg_handler_iapp.c\<close> and \<open>endpoint_iapp.c\<close>.  It gives every xApp an identifier, forwards
  requests of xApps to the RIC under a request identifier of the RIC, and translates the
  answers back.

  The code reaches the RIC through the generic interface of \<open>near_ric_if.h\<close>, behind which is
  the RIC or an emulator of the tests.  Here it is a record of functions on a state \<open>'ric\<close>.
\<close>

section \<open>State, interface and effects\<close>

record 'ric near_ric_if =
  fwd_sub_gen :: "'ric \<Rightarrow> global_e2_node_id \<Rightarrow> ric_subscription_request \<Rightarrow> (u16 \<times> 'ric) res"
  fwd_del_gen :: "'ric \<Rightarrow> global_e2_node_id \<Rightarrow> ric_subscription_delete_request \<Rightarrow> 'ric res"
  fwd_ctrl_gen :: "'ric \<Rightarrow> global_e2_node_id \<Rightarrow> ric_control_request \<Rightarrow> (u16 \<times> 'ric) res"

record 'sri e42_iapp =
  xapps :: "'sri map_xapps_sockaddr"
  e2_nodes :: reg_e2_nodes
  ric_ids_map :: map_ric_id
  next_xapp_id :: u32

definition init_e42_iapp :: "'sri e42_iapp" where
  "init_e42_iapp =
    \<lparr>xapps = init_map_xapps_sad, e2_nodes = init_reg_e2_node, ric_ids_map = init_map_ric_id,
     next_xapp_id = 7\<rparr>"

type_synonym 'sri iapp_out = "('sri sctp_info \<times> e2ap_msg) list"

type_synonym ('sri, 'ric) iapp_ans = "('sri e42_iapp \<times> 'ric \<times> 'sri iapp_out \<times> e2ap_msg) res"

type_synonym ('sri, 'ric) iapp_handler =
  "'ric near_ric_if \<Rightarrow> 'sri e42_iapp \<Rightarrow> 'ric \<Rightarrow> e2ap_msg \<Rightarrow> ('sri, 'ric) iapp_ans"

section \<open>E2 nodes\<close>

definition add_e2_node_iapp ::
  "'sri e42_iapp \<Rightarrow> global_e2_node_id \<Rightarrow> ran_function list \<Rightarrow> 'sri e42_iapp res" where
  "add_e2_node_iapp i id0 ran_func =
    res_bind (c_assert (0 < length ran_func)) (\<lambda>_.
    res_bind (add_reg_e2_node (e2_nodes i) id0 ran_func) (\<lambda>r. Inr (i\<lparr>e2_nodes := r\<rparr>)))"

definition rm_e2_node_iapp :: "'sri e42_iapp \<Rightarrow> global_e2_node_id \<Rightarrow> 'sri e42_iapp res" where
  "rm_e2_node_iapp i id0 =
    res_bind (rm_reg_e2_node (e2_nodes i) id0) (\<lambda>r. Inr (i\<lparr>e2_nodes := r\<rparr>))"

section \<open>Answers of the RIC, on their way to an xApp\<close>

text \<open>Looking up the xApp of a request identifier, with the two assertions that follow.\<close>

definition xapp_of_ric_id :: "'sri e42_iapp \<Rightarrow> ric_gen_id \<Rightarrow> xapp_ric_id res" where
  "xapp_of_ric_id iapp src =
    res_bind (find_xapp_map_ric_id (ric_ids_map iapp) (ucast (ric_req_id src))) (\<lambda>x.
    res_bind (c_assert (ran_func_id src = ran_func_id (xric_id x))) (\<lambda>_.
    res_bind (c_assert (ric_inst_id src = ric_inst_id (xric_id x))) (\<lambda>_.
    Inr x)))"

definition send_to_xapp :: "'sri e42_iapp \<Rightarrow> xapp_ric_id \<Rightarrow> e2ap_msg \<Rightarrow> 'sri iapp_out res" where
  "send_to_xapp iapp x ans =
    res_bind (find_map_xapps_sad (xapps iapp) (xapp_id x)) (\<lambda>info. Inr [(info, ans)])"

definition e2ap_handle_subscription_response_iapp :: "('sri, 'ric) iapp_handler" where
  "e2ap_handle_subscription_response_iapp rif iapp ric msg =
    (case msg of
       Ric_sub_resp src \<Rightarrow>
         res_bind (xapp_of_ric_id iapp (resp_ric_id src)) (\<lambda>x.
         let dst0 = fst (mv_ric_subscription_respponse src);
             dst = dst0\<lparr>resp_ric_id := (resp_ric_id dst0)\<lparr>ric_req_id := ric_req_id (xric_id x)\<rparr>\<rparr>
         in res_bind (send_to_xapp iapp x (Ric_sub_resp dst)) (\<lambda>out.
            Inr (iapp, ric, out, none_msg)))
     | _ \<Rightarrow> Inl AssertFail)"

definition e2ap_handle_subscription_delete_response_iapp :: "('sri, 'ric) iapp_handler" where
  "e2ap_handle_subscription_delete_response_iapp rif iapp ric msg =
    (case msg of
       Ric_sub_del_resp src \<Rightarrow>
         res_bind (xapp_of_ric_id iapp (sdresp_ric_id src)) (\<lambda>x.
         res_bind (send_to_xapp iapp x (Ric_sub_del_resp \<lparr>sdresp_ric_id = xric_id x\<rparr>)) (\<lambda>out.
         Inr (iapp, ric, out, none_msg)))
     | _ \<Rightarrow> Inl AssertFail)"

text \<open>Of a control acknowledge only the identifier and the status go on.\<close>

definition e2ap_handle_e42_ric_control_ack_iapp :: "('sri, 'ric) iapp_handler" where
  "e2ap_handle_e42_ric_control_ack_iapp rif iapp ric msg =
    (case msg of
       Ric_ctrl_ack src \<Rightarrow>
         res_bind (xapp_of_ric_id iapp (ca_ric_id src)) (\<lambda>x.
         let dst = \<lparr>ca_ric_id = xric_id x, ca_call_process_id = None, ca_status = ca_status src,
                    control_outcome = None\<rparr>
         in res_bind (send_to_xapp iapp x (Ric_ctrl_ack dst)) (\<lambda>out.
            Inr (iapp, ric, out, none_msg)))
     | _ \<Rightarrow> Inl AssertFail)"

definition e2ap_handle_ric_indication_iapp :: "('sri, 'ric) iapp_handler" where
  "e2ap_handle_ric_indication_iapp rif iapp ric msg =
    (case msg of
       Ric_ind src \<Rightarrow>
         res_bind (xapp_of_ric_id iapp (ind_ric_id src)) (\<lambda>x.
         let dst0 = fst (mv_ric_indication src);
             dst = dst0\<lparr>ind_ric_id := (ind_ric_id dst0)\<lparr>ric_req_id := ric_req_id (xric_id x)\<rparr>\<rparr>
         in res_bind (send_to_xapp iapp x (Ric_ind dst)) (\<lambda>out.
            Inr (iapp, ric, out, none_msg)))
     | _ \<Rightarrow> Inl AssertFail)"

section \<open>Messages of the xApps\<close>

definition generate_e42_setup_response ::
  "'sri e42_iapp \<Rightarrow> e42_setup_request \<Rightarrow> (e42_setup_response \<times> 'sri e42_iapp) res" where
  "generate_e42_setup_response iapp req =
    res_bind (c_assert (0 < length (e42_ran_func_item req))) (\<lambda>_.
    res_bind (generate_e2_node_arr (e2_nodes iapp)) (\<lambda>ans.
    Inr (\<lparr>e42_xapp_id = ucast (next_xapp_id iapp), e42_nodes = arr_n ans\<rparr>,
         iapp\<lparr>next_xapp_id := next_xapp_id iapp + 1\<rparr>)))"

definition e2ap_handle_e42_setup_request_iapp :: "('sri, 'ric) iapp_handler" where
  "e2ap_handle_e42_setup_request_iapp rif iapp ric msg =
    (case msg of
       E42_stp_req req \<Rightarrow>
         res_bind (generate_e42_setup_response iapp req) (\<lambda>(sr, iapp1).
         Inr (iapp1, ric, [], E42_stp_resp sr))
     | _ \<Rightarrow> Inl AssertFail)"

definition valid_xapp_id :: "'sri e42_iapp \<Rightarrow> u32 \<Rightarrow> bool res" where
  "valid_xapp_id iapp xid =
    res_bind (c_assert (xid < 65536)) (\<lambda>_. Inr (xid \<le> next_xapp_id iapp))"

definition valid_global_e2_node :: "'sri e42_iapp \<Rightarrow> global_e2_node_id \<Rightarrow> bool res" where
  "valid_global_e2_node iapp id0 =
    res_bind (generate_e2_node_arr (e2_nodes iapp)) (\<lambda>nodes.
    Inr (list_ex (\<lambda>n. eq_global_e2_node_id (nc_id n) id0) (take (unat (arr_len nodes)) (arr_n nodes))))"

definition e2ap_handle_e42_ric_subscription_delete_request_iapp :: "('sri, 'ric) iapp_handler" where
  "e2ap_handle_e42_ric_subscription_delete_request_iapp rif iapp ric msg =
    (case msg of
       E42_ric_sub_del_req src \<Rightarrow>
         (let x = \<lparr>xric_id = sdr_ric_id (e42sdr_sdr src), xapp_id = e42sdr_xapp_id src\<rparr> in
          res_bind (find_ric_req_map_ric_id (ric_ids_map iapp) x) (\<lambda>n.
          let dst0 = cp_ric_subscription_delete_request (e42sdr_sdr src);
              dst = dst0\<lparr>sdr_ric_id := (sdr_ric_id dst0)\<lparr>ric_req_id := ucast (nric_req_id n)\<rparr>\<rparr>
          in res_bind (fwd_del_gen rif ric (e2_node_id n) dst) (\<lambda>ric1.
             Inr (iapp, ric1, [], none_msg))))
     | _ \<Rightarrow> Inl AssertFail)"

definition e2ap_handle_e42_ric_subscription_request_iapp :: "('sri, 'ric) iapp_handler" where
  "e2ap_handle_e42_ric_subscription_request_iapp rif iapp ric msg =
    (case msg of
       E42_ric_sub_req e42_sr \<Rightarrow>
         res_bind (valid_xapp_id iapp (ucast (e42sr_xapp_id e42_sr))) (\<lambda>b.
         res_bind (c_assert b) (\<lambda>_.
         res_bind (valid_global_e2_node iapp (e42sr_id e42_sr)) (\<lambda>v.
         res_bind (c_assert v) (\<lambda>_.
         let x = \<lparr>xric_id = sr_ric_id (e42sr_sr e42_sr), xapp_id = e42sr_xapp_id e42_sr\<rparr> in
         res_bind (fwd_sub_gen rif ric (e42sr_id e42_sr) (e42sr_sr e42_sr)) (\<lambda>(new_ric_id, ric1).
         let n = \<lparr>e2_node_id = cp_global_e2_node_id (e42sr_id e42_sr), nric_req_id = new_ric_id\<rparr> in
         res_bind (add_map_ric_id (ric_ids_map iapp) n x) (\<lambda>m.
         Inr (iapp\<lparr>ric_ids_map := m\<rparr>, ric1, [], none_msg)))))))
     | _ \<Rightarrow> Inl AssertFail)"

definition e2ap_handle_e42_ric_control_request_iapp :: "('sri, 'ric) iapp_handler" where
  "e2ap_handle_e42_ric_control_request_iapp rif iapp ric msg =
    (case msg of
       E42_ric_ctrl_req e42_cr \<Rightarrow>
         res_bind (valid_xapp_id iapp (ucast (e42cr_xapp_id e42_cr))) (\<lambda>b.
         res_bind (c_assert b) (\<lambda>_.
         res_bind (valid_global_e2_node iapp (e42cr_id e42_cr)) (\<lambda>v.
         res_bind (c_assert v) (\<lambda>_.
         let x = \<lparr>xric_id = cr_ric_id (e42cr_ctrl_req e42_cr), xapp_id = e42cr_xapp_id e42_cr\<rparr> in
         res_bind (fwd_ctrl_gen rif ric (e42cr_id e42_cr) (e42cr_ctrl_req e42_cr)) (\<lambda>(new_ric_id, ric1).
         let n = \<lparr>e2_node_id = cp_global_e2_node_id (e42cr_id e42_cr), nric_req_id = new_ric_id\<rparr> in
         res_bind (add_map_ric_id (ric_ids_map iapp) n x) (\<lambda>m.
         Inr (iapp\<lparr>ric_ids_map := m\<rparr>, ric1, [], none_msg)))))))
     | _ \<Rightarrow> Inl AssertFail)"

section \<open>Dispatch\<close>

definition check_valid_msg_type_iapp :: "e2_msg_type \<Rightarrow> bool" where
  "check_valid_msg_type_iapp t \<longleftrightarrow>
    t = RIC_SUBSCRIPTION_RESPONSE \<or> t = E42_SETUP_REQUEST \<or> t = E42_RIC_SUBSCRIPTION_REQUEST \<or>
    t = E42_RIC_SUBSCRIPTION_DELETE_REQUEST \<or> t = E42_RIC_CONTROL_REQUEST \<or>
    t = RIC_CONTROL_ACKNOWLEDGE \<or> t = RIC_INDICATION \<or> t = RIC_SUBSCRIPTION_DELETE_RESPONSE"

fun init_handle_msg_iapp :: "e2_msg_type \<Rightarrow> ('sri, 'ric) iapp_handler option" where
  "init_handle_msg_iapp RIC_SUBSCRIPTION_RESPONSE = Some e2ap_handle_subscription_response_iapp"
| "init_handle_msg_iapp E42_SETUP_REQUEST = Some e2ap_handle_e42_setup_request_iapp"
| "init_handle_msg_iapp E42_RIC_SUBSCRIPTION_REQUEST = Some e2ap_handle_e42_ric_subscription_request_iapp"
| "init_handle_msg_iapp E42_RIC_SUBSCRIPTION_DELETE_REQUEST = Some e2ap_handle_e42_ric_subscription_delete_request_iapp"
| "init_handle_msg_iapp E42_RIC_CONTROL_REQUEST = Some e2ap_handle_e42_ric_control_request_iapp"
| "init_handle_msg_iapp RIC_CONTROL_ACKNOWLEDGE = Some e2ap_handle_e42_ric_control_ack_iapp"
| "init_handle_msg_iapp RIC_INDICATION = Some e2ap_handle_ric_indication_iapp"
| "init_handle_msg_iapp RIC_SUBSCRIPTION_DELETE_RESPONSE = Some e2ap_handle_subscription_delete_response_iapp"
| "init_handle_msg_iapp _ = None"

definition e2ap_msg_handle_iapp :: "('sri, 'ric) iapp_handler" where
  "e2ap_msg_handle_iapp rif iapp ric msg =
    res_bind (c_assert (check_valid_msg_type_iapp (msg_type msg))) (\<lambda>_.
    case init_handle_msg_iapp (msg_type msg) of
      None \<Rightarrow> Inl AssertFail
    | Some h \<Rightarrow> h rif iapp ric msg)"

definition notify_msg_iapp ::
  "'ric near_ric_if \<Rightarrow> 'sri e42_iapp \<Rightarrow> 'ric \<Rightarrow> e2ap_msg \<Rightarrow> ('sri e42_iapp \<times> 'ric \<times> 'sri iapp_out) res" where
  "notify_msg_iapp rif iapp ric msg =
    res_bind (c_assert (msg_type msg = RIC_INDICATION \<or> msg_type msg = RIC_SUBSCRIPTION_RESPONSE \<or>
      msg_type msg = RIC_SUBSCRIPTION_DELETE_RESPONSE \<or> msg_type msg = RIC_CONTROL_ACKNOWLEDGE)) (\<lambda>_.
    res_bind (e2ap_msg_handle_iapp rif iapp ric msg) (\<lambda>(iapp1, ric1, out, ans).
    res_bind (c_assert (msg_type ans = NONE_E2_MSG_TYPE)) (\<lambda>_.
    Inr (iapp1, ric1, out))))"

definition e2ap_reg_sock_addr_iapp :: "'sri e42_iapp \<Rightarrow> u16 \<Rightarrow> 'sri sctp_info \<Rightarrow> 'sri e42_iapp res" where
  "e2ap_reg_sock_addr_iapp iapp xid info =
    res_bind (add_map_xapps_sad (xapps iapp) xid info) (\<lambda>m. Inr (iapp\<lparr>xapps := m\<rparr>))"

text \<open>One turn of the event loop: a message of an xApp arrives from an association.\<close>

definition e2_event_iapp ::
  "'ric near_ric_if \<Rightarrow> 'sri e42_iapp \<Rightarrow> 'ric \<Rightarrow> 'sri sctp_info \<Rightarrow> e2ap_msg \<Rightarrow>
    ('sri e42_iapp \<times> 'ric \<times> 'sri iapp_out) res" where
  "e2_event_iapp rif iapp ric info msg =
    res_bind (e2ap_msg_handle_iapp rif iapp ric msg) (\<lambda>(iapp1, ric1, out, ans).
    res_bind (case ans of
        E42_stp_resp sr \<Rightarrow> e2ap_reg_sock_addr_iapp iapp1 (e42_xapp_id sr) info
      | _ \<Rightarrow> Inr iapp1) (\<lambda>iapp2.
    if msg_type ans \<noteq> NONE_E2_MSG_TYPE then Inr (iapp2, ric1, out @ [(info, ans)])
    else Inr (iapp2, ric1, out)))"

section \<open>Invariant\<close>

definition iapp_inv :: "global_e2_node_id set \<Rightarrow> 'sri e42_iapp \<Rightarrow> bool" where
  "iapp_inv D iapp \<longleftrightarrow> xapps_inv (xapps iapp) \<and> e2reg_inv D (e2_nodes iapp) \<and>
    ric_id_inv (ric_ids_map iapp) \<and> 7 \<le> next_xapp_id iapp \<and>
    (\<forall>k. xapps_get (xapps iapp) k \<noteq> None \<longrightarrow> 7 \<le> unat k \<and> unat k < unat (next_xapp_id iapp))"

lemma iapp_inv_init: "iapp_inv D init_e42_iapp"
  by (simp add: iapp_inv_def init_e42_iapp_def xapps_inv_init e2reg_inv_init)

section \<open>Answers\<close>

lemma xapp_of_ric_id_eq:
  "ucast (ric_req_id i) = k \<Longrightarrow> k \<noteq> 0 \<Longrightarrow> ric_id_get (ric_ids_map iapp) k = Some x \<Longrightarrow>
    ran_func_id i = ran_func_id (xric_id x) \<Longrightarrow> ric_inst_id i = ric_inst_id (xric_id x) \<Longrightarrow>
    xapp_of_ric_id iapp i = Inr x"
  by (simp add: xapp_of_ric_id_def find_xapp_map_ric_id_eq)

lemma xapp_of_ric_id_err:
  "ric_id_get (ric_ids_map iapp) (ucast (ric_req_id i)) = None \<Longrightarrow> xapp_of_ric_id iapp i = Inl AssertFail"
  by (simp add: xapp_of_ric_id_def find_xapp_map_ric_id_eq)

lemma send_to_xapp_eq:
  "send_to_xapp iapp x m =
    (case xapps_get (xapps iapp) (xapp_id x) of None \<Rightarrow> Inl AssertFail | Some s \<Rightarrow> Inr [(s, m)])"
  by (simp add: send_to_xapp_def find_map_xapps_sad_eq split: option.splits)

lemma ric_gen_id_restore:
  "ran_func_id (i :: ric_gen_id) = ran_func_id (j :: ric_gen_id) \<Longrightarrow> ric_inst_id i = ric_inst_id j \<Longrightarrow>
    i\<lparr>ric_req_id := ric_req_id j\<rparr> = j"
  by (cases i; cases j) simp

text \<open>The route back of a request identifier: the xApp that asked and its association.\<close>

definition routed :: "'sri e42_iapp \<Rightarrow> ric_gen_id \<Rightarrow> xapp_ric_id \<Rightarrow> 'sri sctp_info \<Rightarrow> bool" where
  "routed iapp i x info \<longleftrightarrow> (ucast (ric_req_id i) :: u16) \<noteq> 0 \<and>
    ric_id_get (ric_ids_map iapp) (ucast (ric_req_id i)) = Some x \<and>
    ran_func_id i = ran_func_id (xric_id x) \<and> ric_inst_id i = ric_inst_id (xric_id x) \<and>
    xapps_get (xapps iapp) (xapp_id x) = Some info"

lemma routed_xapp: "routed iapp i x info \<Longrightarrow> xapp_of_ric_id iapp i = Inr x"
  using xapp_of_ric_id_eq unfolding routed_def by blast

lemma routed_send: "routed iapp i x info \<Longrightarrow> send_to_xapp iapp x m = Inr [(info, m)]"
  by (simp add: routed_def send_to_xapp_eq)

lemma routed_id: "routed iapp i x info \<Longrightarrow> i\<lparr>ric_req_id := ric_req_id (xric_id x)\<rparr> = xric_id x"
  by (rule ric_gen_id_restore) (simp_all add: routed_def)

lemmas notify_defs = notify_msg_iapp_def e2ap_msg_handle_iapp_def check_valid_msg_type_iapp_def
  e2ap_handle_subscription_response_iapp_def e2ap_handle_subscription_delete_response_iapp_def
  e2ap_handle_e42_ric_control_ack_iapp_def e2ap_handle_ric_indication_iapp_def

lemma notify_sub_resp:
  "routed iapp (resp_ric_id r) x info \<Longrightarrow>
    notify_msg_iapp rif iapp ric (Ric_sub_resp r) =
      Inr (iapp, ric, [(info, Ric_sub_resp (r\<lparr>resp_ric_id := xric_id x\<rparr>))])"
  by (simp add: notify_defs routed_xapp routed_send routed_id Let_def)

lemma notify_sub_del_resp:
  "routed iapp (sdresp_ric_id r) x info \<Longrightarrow>
    notify_msg_iapp rif iapp ric (Ric_sub_del_resp r) =
      Inr (iapp, ric, [(info, Ric_sub_del_resp (r\<lparr>sdresp_ric_id := xric_id x\<rparr>))])"
  by (simp add: notify_defs routed_xapp routed_send)

lemma notify_indication:
  "routed iapp (ind_ric_id r) x info \<Longrightarrow>
    notify_msg_iapp rif iapp ric (Ric_ind r) =
      Inr (iapp, ric, [(info, Ric_ind (r\<lparr>ind_ric_id := xric_id x\<rparr>))])"
  by (simp add: notify_defs routed_xapp routed_send routed_id Let_def)

lemma notify_ctrl_ack:
  "routed iapp (ca_ric_id r) x info \<Longrightarrow>
    notify_msg_iapp rif iapp ric (Ric_ctrl_ack r) =
      Inr (iapp, ric, [(info, Ric_ctrl_ack \<lparr>ca_ric_id = xric_id x, ca_call_process_id = None,
        ca_status = ca_status r, control_outcome = None\<rparr>)])"
  by (simp add: notify_defs routed_xapp routed_send Let_def)

section \<open>Setup of an xApp\<close>

text \<open>As long as fewer than 65529 xApps have come, the new one gets an identifier that no
  other one has.\<close>

lemma e42_setup_ok:
  assumes "node_set D" "iapp_inv D iapp" "e42_ran_func_item req \<noteq> []" "next_xapp_id iapp < 65535"
    "length (e2reg_entries (e2_nodes iapp)) < 256"
  obtains iapp' where "e2_event_iapp rif iapp ric info (E42_stp_req req) =
      Inr (iapp', ric, [(info, E42_stp_resp \<lparr>e42_xapp_id = ucast (next_xapp_id iapp),
        e42_nodes = map (\<lambda>(k, arr). \<lparr>nc_id = k, ack_rf = arr\<rparr>) (e2reg_entries (e2_nodes iapp))\<rparr>)])"
    "iapp_inv D iapp'" "next_xapp_id iapp' = next_xapp_id iapp + 1"
    "xapps_get (xapps iapp) (ucast (next_xapp_id iapp)) = None"
    "xapps_get (xapps iapp') = (xapps_get (xapps iapp))(ucast (next_xapp_id iapp) \<mapsto> info)"
    "ric_ids_map iapp' = ric_ids_map iapp" "e2_nodes iapp' = e2_nodes iapp"
proof -
  let ?n = "next_xapp_id iapp" and ?k = "ucast (next_xapp_id iapp) :: u16"
  have i: "xapps_inv (xapps iapp)" "e2reg_inv D (e2_nodes iapp)"
    "\<And>k. xapps_get (xapps iapp) k \<noteq> None \<Longrightarrow> 7 \<le> unat k \<and> unat k < unat ?n"
    using assms(2) by (auto simp: iapp_inv_def)
  have u: "unat ?k = unat ?n" "unat ?n < 65535"
    using assms(4) by (auto simp: unsigned_ucast_eq word_less_nat_alt take_bit_nat_eq_self)
  have s: "unat (?n + 1) = unat ?n + 1" using u(2) by (simp add: unat_word_ariths(1))
  have f: "xapps_get (xapps iapp) ?k = None" using i(3) [of ?k] u by fastforce
  obtain m where m: "add_map_xapps_sad (xapps iapp) ?k info = Inr m" "xapps_inv m"
    "xapps_get m = (xapps_get (xapps iapp))(?k \<mapsto> info)"
    by (rule add_map_xapps_sad_ok [OF i(1) f])
  let ?i = "iapp\<lparr>next_xapp_id := ?n + 1, xapps := m\<rparr>"
  have g: "generate_e2_node_arr (e2_nodes iapp) = Inr \<lparr>arr_len = word_of_nat (length (e2reg_entries (e2_nodes iapp))),
      arr_n = map (\<lambda>(k, arr). \<lparr>nc_id = k, ack_rf = arr\<rparr>) (e2reg_entries (e2_nodes iapp))\<rparr>"
    by (rule node_set.generate_ok [OF assms(1) i(2) assms(5)])
  have k7: "7 \<le> unat ?n" using assms(2) by (simp add: iapp_inv_def word_le_nat_alt)
  have "iapp_inv D ?i"
    using assms(2) m u s k7 i(3) by (fastforce simp: iapp_inv_def word_le_nat_alt)
  then show ?thesis
    using m g assms(3) f
    by (intro that [of ?i])
       (simp_all add: e2_event_iapp_def e2ap_msg_handle_iapp_def check_valid_msg_type_iapp_def
          e2ap_handle_e42_setup_request_iapp_def generate_e42_setup_response_def e2ap_reg_sock_addr_iapp_def)
qed

section \<open>The RIC as the iApp uses it\<close>

text \<open>What the iApp relies on: forwarded requests get the values of a counter of the RIC, cut
  to 16 bits, and a forwarded deletion leaves the counter.\<close>

locale ric_provider =
  fixes rif :: "'ric near_ric_if" and counter :: "'ric \<Rightarrow> u32"
  assumes sub_counts: "fwd_sub_gen rif r i sr = Inr (k, r') \<Longrightarrow> k = ucast (counter r) \<and> counter r' = counter r + 1"
    and ctrl_counts: "fwd_ctrl_gen rif r i cr = Inr (k, r') \<Longrightarrow> k = ucast (counter r) \<and> counter r' = counter r + 1"
    and del_counts: "fwd_del_gen rif r i sdr = Inr r' \<Longrightarrow> counter r' = counter r"
begin

text \<open>All identifiers in the map were given out before.\<close>

definition issued :: "'sri e42_iapp \<Rightarrow> 'ric \<Rightarrow> bool" where
  "issued iapp r \<longleftrightarrow> 0 < unat (counter r) \<and>
    (\<forall>k. ric_id_get (ric_ids_map iapp) k \<noteq> None \<longrightarrow> unat k < unat (counter r))"

lemma next_fresh:
  assumes "issued iapp r" "counter r < 65536"
  shows "ric_id_get (ric_ids_map iapp) (ucast (counter r)) = None" "(ucast (counter r) :: u16) \<noteq> 0"
    "unat (ucast (counter r) :: u16) = unat (counter r)" "unat (counter r + 1) = unat (counter r) + 1"
proof -
  have l: "unat (counter r) < 65536" using assms(2) by (simp add: word_less_nat_alt)
  show u: "unat (ucast (counter r) :: u16) = unat (counter r)"
    using l by (simp add: unsigned_ucast_eq take_bit_nat_eq_self)
  show "ric_id_get (ric_ids_map iapp) (ucast (counter r)) = None"
    using assms(1) u unfolding issued_def by (metis order_less_irrefl)
  show "(ucast (counter r) :: u16) \<noteq> 0" using assms(1) u unfolding issued_def by (metis unat_0 order_less_irrefl)
  show "unat (counter r + 1) = unat (counter r) + 1" using l by (simp add: unat_word_ariths(1))
qed

lemma add_issued:
  assumes "iapp_inv D iapp" "issued iapp r" "counter r < 65536" "counter r' = counter r + 1"
  obtains m where "add_map_ric_id (ric_ids_map iapp) \<lparr>e2_node_id = i, nric_req_id = ucast (counter r)\<rparr> x = Inr m"
    "iapp_inv D (iapp\<lparr>ric_ids_map := m\<rparr>)" "issued (iapp\<lparr>ric_ids_map := m\<rparr>) r'"
    "ric_id_get m = (ric_id_get (ric_ids_map iapp))(ucast (counter r) \<mapsto> x)"
    "ric_id_node m = (if ric_id_node (ric_ids_map iapp) x = None
      then (ric_id_node (ric_ids_map iapp))(x \<mapsto> \<lparr>e2_node_id = i, nric_req_id = ucast (counter r)\<rparr>)
      else ric_id_node (ric_ids_map iapp))"
proof -
  have inv: "ric_id_inv (ric_ids_map iapp)" using assms(1) by (simp add: iapp_inv_def)
  note f = next_fresh [OF assms(2,3)]
  obtain m where m: "add_map_ric_id (ric_ids_map iapp) \<lparr>e2_node_id = i, nric_req_id = ucast (counter r)\<rparr> x = Inr m"
    "ric_id_inv m" "ric_id_get m = (ric_id_get (ric_ids_map iapp))(ucast (counter r) \<mapsto> x)"
    "ric_id_node m = (if ric_id_node (ric_ids_map iapp) x = None
      then (ric_id_node (ric_ids_map iapp))(x \<mapsto> \<lparr>e2_node_id = i, nric_req_id = ucast (counter r)\<rparr>)
      else ric_id_node (ric_ids_map iapp))"
    using add_map_ric_id_ok [OF inv, of "\<lparr>e2_node_id = i, nric_req_id = ucast (counter r)\<rparr>" x] f(1) by auto
  have "issued (iapp\<lparr>ric_ids_map := m\<rparr>) r'"
    unfolding issued_def
  proof (intro conjI allI impI)
    show "0 < unat (counter r')" using f(4) assms(4) by simp
    fix k assume "ric_id_get (ric_ids_map (iapp\<lparr>ric_ids_map := m\<rparr>)) k \<noteq> None"
    then have "k = ucast (counter r) \<or> ric_id_get (ric_ids_map iapp) k \<noteq> None" by (auto simp: m(3) split: if_splits)
    then have "unat k \<le> unat (counter r)" using assms(2) f(3) by (auto simp: issued_def less_imp_le)
    then show "unat k < unat (counter r')" using f(4) assms(4) by simp
  qed
  moreover have "iapp_inv D (iapp\<lparr>ric_ids_map := m\<rparr>)" using assms(1) m(2) by (simp add: iapp_inv_def)
  ultimately show ?thesis using that m by blast
qed

lemma valid_node_ok:
  assumes "node_set D" "iapp_inv D iapp" "e2reg_get (e2_nodes iapp) i \<noteq> None" "i \<in> D"
    "length (e2reg_entries (e2_nodes iapp)) < 256"
  shows "valid_global_e2_node iapp i = Inr True"
proof -
  have inv: "e2reg_inv D (e2_nodes iapp)" using assms(2) by (simp add: iapp_inv_def)
  let ?es = "e2reg_entries (e2_nodes iapp)"
  obtain v where "first_value (eq_global_e2_node_id i) ?es = Some v"
    using assms(3) by (auto simp: e2reg_get_def)
  then obtain k where k: "(k, v) \<in> set ?es" "eq_global_e2_node_id i k" using first_value_SomeD by fast
  have "k \<in> D" using k(1) inv keys_inD by (fastforce simp: e2reg_inv_def e2reg_entries_def rb_inv_def)
  then have e: "eq_global_e2_node_id k i"
    using k(2) node_set.eq_node [OF assms(1)] assms(4)
      comparator.cmp_sym [OF node_set.axioms(1) [OF assms(1)]] by blast
  have "unat (word_of_nat (length ?es) :: u8) = length ?es" using assms(5) by (simp add: unat_of_nat)
  then show ?thesis
    using node_set.generate_ok [OF assms(1) inv assms(5)] k(1) e
    by (force simp: valid_global_e2_node_def list_ex_iff)
qed

lemma valid_xapp_id_16:
  "valid_xapp_id iapp (ucast (w :: u16)) = Inr (ucast w \<le> next_xapp_id iapp)"
proof -
  have "unat (ucast w :: u32) < 65536" unfolding unat_ucast_16_32 by (rule unat_lt_65536)
  then show ?thesis by (simp add: valid_xapp_id_def word_less_nat_alt)
qed

lemma sub_req_ok:
  assumes "node_set D" "iapp_inv D iapp" "issued iapp r" "counter r < 65536"
    "ucast (e42sr_xapp_id sr) \<le> next_xapp_id iapp" "e42sr_id sr \<in> D"
    "e2reg_get (e2_nodes iapp) (e42sr_id sr) \<noteq> None" "length (e2reg_entries (e2_nodes iapp)) < 256"
    "fwd_sub_gen rif r (e42sr_id sr) (e42sr_sr sr) = Inr (k, r')"
  obtains m where "e2_event_iapp rif iapp r info (E42_ric_sub_req sr) = Inr (iapp\<lparr>ric_ids_map := m\<rparr>, r', [])"
    "iapp_inv D (iapp\<lparr>ric_ids_map := m\<rparr>)" "issued (iapp\<lparr>ric_ids_map := m\<rparr>) r'"
    "k = ucast (counter r)" "k \<noteq> 0" "ric_id_get (ric_ids_map iapp) k = None"
    "ric_id_get m = (ric_id_get (ric_ids_map iapp))
      (k \<mapsto> \<lparr>xric_id = sr_ric_id (e42sr_sr sr), xapp_id = e42sr_xapp_id sr\<rparr>)"
proof -
  note c = sub_counts [OF assms(9)]
  obtain m where m: "add_map_ric_id (ric_ids_map iapp) \<lparr>e2_node_id = e42sr_id sr, nric_req_id = ucast (counter r)\<rparr>
      \<lparr>xric_id = sr_ric_id (e42sr_sr sr), xapp_id = e42sr_xapp_id sr\<rparr> = Inr m"
    "iapp_inv D (iapp\<lparr>ric_ids_map := m\<rparr>)" "issued (iapp\<lparr>ric_ids_map := m\<rparr>) r'"
    "ric_id_get m = (ric_id_get (ric_ids_map iapp))
      (ucast (counter r) \<mapsto> \<lparr>xric_id = sr_ric_id (e42sr_sr sr), xapp_id = e42sr_xapp_id sr\<rparr>)"
    by (rule add_issued [OF assms(2-4) conjunct2 [OF c]])
  note f = next_fresh [OF assms(3,4)]
  have v: "valid_xapp_id iapp (ucast (e42sr_xapp_id sr)) = Inr True"
    using assms(5) by (simp add: valid_xapp_id_16)
  have n: "valid_global_e2_node iapp (e42sr_id sr) = Inr True"
    by (rule valid_node_ok [OF assms(1,2,7,6,8)])
  show ?thesis
    by (rule that [of m])
       (use m f v n c assms(9) in \<open>simp_all add: e2_event_iapp_def e2ap_msg_handle_iapp_def
          check_valid_msg_type_iapp_def e2ap_handle_e42_ric_subscription_request_iapp_def\<close>)
qed

lemma ctrl_req_ok:
  assumes "node_set D" "iapp_inv D iapp" "issued iapp r" "counter r < 65536"
    "ucast (e42cr_xapp_id cr) \<le> next_xapp_id iapp" "e42cr_id cr \<in> D"
    "e2reg_get (e2_nodes iapp) (e42cr_id cr) \<noteq> None" "length (e2reg_entries (e2_nodes iapp)) < 256"
    "fwd_ctrl_gen rif r (e42cr_id cr) (e42cr_ctrl_req cr) = Inr (k, r')"
  obtains m where "e2_event_iapp rif iapp r info (E42_ric_ctrl_req cr) = Inr (iapp\<lparr>ric_ids_map := m\<rparr>, r', [])"
    "iapp_inv D (iapp\<lparr>ric_ids_map := m\<rparr>)" "issued (iapp\<lparr>ric_ids_map := m\<rparr>) r'"
    "k = ucast (counter r)" "k \<noteq> 0" "ric_id_get (ric_ids_map iapp) k = None"
    "ric_id_get m = (ric_id_get (ric_ids_map iapp))
      (k \<mapsto> \<lparr>xric_id = cr_ric_id (e42cr_ctrl_req cr), xapp_id = e42cr_xapp_id cr\<rparr>)"
proof -
  note c = ctrl_counts [OF assms(9)]
  obtain m where m: "add_map_ric_id (ric_ids_map iapp) \<lparr>e2_node_id = e42cr_id cr, nric_req_id = ucast (counter r)\<rparr>
      \<lparr>xric_id = cr_ric_id (e42cr_ctrl_req cr), xapp_id = e42cr_xapp_id cr\<rparr> = Inr m"
    "iapp_inv D (iapp\<lparr>ric_ids_map := m\<rparr>)" "issued (iapp\<lparr>ric_ids_map := m\<rparr>) r'"
    "ric_id_get m = (ric_id_get (ric_ids_map iapp))
      (ucast (counter r) \<mapsto> \<lparr>xric_id = cr_ric_id (e42cr_ctrl_req cr), xapp_id = e42cr_xapp_id cr\<rparr>)"
    by (rule add_issued [OF assms(2-4) conjunct2 [OF c]])
  note f = next_fresh [OF assms(3,4)]
  have v: "valid_xapp_id iapp (ucast (e42cr_xapp_id cr)) = Inr True"
    using assms(5) by (simp add: valid_xapp_id_16)
  have n: "valid_global_e2_node iapp (e42cr_id cr) = Inr True"
    by (rule valid_node_ok [OF assms(1,2,7,6,8)])
  show ?thesis
    by (rule that [of m])
       (use m f v n c assms(9) in \<open>simp_all add: e2_event_iapp_def e2ap_msg_handle_iapp_def
          check_valid_msg_type_iapp_def e2ap_handle_e42_ric_control_request_iapp_def\<close>)
qed

text \<open>A deletion goes out under the identifier that the request got.\<close>

lemma sub_del_req_ok:
  assumes "ric_id_node (ric_ids_map iapp) \<lparr>xric_id = sdr_ric_id (e42sdr_sdr src), xapp_id = e42sdr_xapp_id src\<rparr> = Some n"
    "fwd_del_gen rif r (e2_node_id n)
      \<lparr>sdr_ric_id = (sdr_ric_id (e42sdr_sdr src))\<lparr>ric_req_id := ucast (nric_req_id n)\<rparr>\<rparr> = Inr r'"
  shows "e2_event_iapp rif iapp r info (E42_ric_sub_del_req src) = Inr (iapp, r', []) \<and> counter r' = counter r"
proof -
  have e: "src'\<lparr>sdr_ric_id := i\<rparr> = \<lparr>sdr_ric_id = i\<rparr>" for src' :: ric_subscription_delete_request and i
    by (cases src') simp
  show ?thesis
    using assms del_counts [OF assms(2)]
    by (simp add: e2_event_iapp_def e2ap_msg_handle_iapp_def check_valid_msg_type_iapp_def
        e2ap_handle_e42_ric_subscription_delete_request_iapp_def find_ric_req_map_ric_id_eq Let_def e)
qed

text \<open>The identifiers are never taken out of the map, so a counter that has gone round stops
  the process.\<close>

lemma sub_req_id_reused:
  assumes "fwd_sub_gen rif r (e42sr_id sr) (e42sr_sr sr) = Inr (k, r')"
    "ric_id_get (ric_ids_map iapp) (ucast (counter r)) \<noteq> None"
  shows "\<exists>e. e2_event_iapp rif iapp r info (E42_ric_sub_req sr) = Inl e"
proof -
  have k: "k = ucast (counter r)" using sub_counts [OF assms(1)] by simp
  have a: "add_map_ric_id (ric_ids_map iapp) \<lparr>e2_node_id = e42sr_id sr, nric_req_id = k\<rparr> x = Inl AssertFail" for x
    by (rule add_map_ric_id_dup) (use assms(2) k in simp)
  obtain b where b: "valid_xapp_id iapp (ucast (e42sr_xapp_id sr)) = Inr b"
    by (simp add: valid_xapp_id_16)
  show ?thesis
    using assms(1) b a
    by (cases b; cases "valid_global_e2_node iapp (e42sr_id sr)"; cases "valid_global_e2_node iapp (e42sr_id sr) = Inr True")
       (auto simp: e2_event_iapp_def e2ap_msg_handle_iapp_def check_valid_msg_type_iapp_def
          e2ap_handle_e42_ric_subscription_request_iapp_def c_assert_def)
qed

end

text \<open>\<open>valid_xapp_id\<close> also accepts the identifier that the next xApp will get.\<close>

lemma valid_next_xapp_id: "next_xapp_id iapp < 65536 \<Longrightarrow> valid_xapp_id iapp (next_xapp_id iapp) = Inr True"
  by (simp add: valid_xapp_id_def)

lemma valid_iapp_iff_handler: "check_valid_msg_type_iapp t \<longleftrightarrow> init_handle_msg_iapp t \<noteq> None"
  by (cases t) (auto simp: check_valid_msg_type_iapp_def)

end
