(* ===== verification/RicSystem.thy ===== *)
theory RicSystem
  imports NearRicThms IApp
begin

text \<open>
  The near-RT RIC and its iApp together, as \<open>src/ric/iApp/e42_iapp_api.c\<close> and
  \<open>near_ric_if.h\<close> connect them: the RIC calls \<open>add_e2_node_iapp_api\<close>, \<open>rm_e2_node_iapp_api\<close>
  and \<open>notify_msg_iapp_api\<close>, the iApp calls the forwarding functions of the RIC.  A step of
  the system is one turn of one of the two event loops.
\<close>

text \<open>The RIC as the iApp sees it: its state, the descriptors that the operating system will
  give to the next timers and what was sent.\<close>

type_synonym ('sri, 'wr, 'rd) ric_world =
  "('sri, 'wr, 'rd) near_ric \<times> int list \<times> ('sri, 'rd) ric_out list"

text \<open>\<open>timerfd_create\<close> without a descriptor left answers -1, which is asserted against.\<close>

fun with_timer ::
  "(int \<Rightarrow> ('k \<times> ('sri, 'wr, 'rd) near_ric \<times> ('sri, 'rd) ric_out list) res) \<Rightarrow>
    int list \<Rightarrow> ('sri, 'rd) ric_out list \<Rightarrow> ('k \<times> ('sri, 'wr, 'rd) ric_world) res" where
  "with_timer f [] out = Inl AssertFail"
| "with_timer f (fd # fds) out = res_bind (f fd) (\<lambda>(k, ric', out'). Inr (k, ric', fds, out @ out'))"

definition near_ric_iface :: "('sri, 'wr, 'rd) ric_world near_ric_if" where
  "near_ric_iface =
    \<lparr>fwd_sub_gen = (\<lambda>(ric, fds, out) i sr.
       with_timer (\<lambda>fd. fwd_ric_subscription_request ric fd i sr) fds out),
     fwd_del_gen = (\<lambda>(ric, fds, out) i sdr.
       res_bind (with_timer (\<lambda>fd. res_bind (fwd_ric_subscription_request_delete ric fd i sdr)
         (\<lambda>(ric', out'). Inr ((), ric', out'))) fds out) (\<lambda>(_, w). Inr w)),
     fwd_ctrl_gen = (\<lambda>(ric, fds, out) i cr.
       with_timer (\<lambda>fd. fwd_ric_control_request ric fd i cr) fds out)\<rparr>"

definition world_counter :: "('sri, 'wr, 'rd) ric_world \<Rightarrow> u32" where
  "world_counter w = req_id (fst w)"

lemma start_pending_req_id: "start_pending_event ric w fd e = Inr ric' \<Longrightarrow> req_id ric' = req_id ric"
  by (auto simp: start_pending_event_def res_bind_eq_Inr)

interpretation ric_prov: ric_provider near_ric_iface world_counter
proof
  fix r r' :: "('a, 'b, 'c) ric_world" and i k
  obtain ric fds out where r: "r = (ric, fds, out)" by (cases r)
  show "k = ucast (world_counter r) \<and> world_counter r' = world_counter r + 1"
    if "fwd_sub_gen near_ric_iface r i sr = Inr (k, r')" for sr
    using that by (cases fds) (auto simp: r near_ric_iface_def fwd_ric_subscription_request_def Let_def
        res_bind_eq_Inr world_counter_def dest!: start_pending_req_id)
  show "k = ucast (world_counter r) \<and> world_counter r' = world_counter r + 1"
    if "fwd_ctrl_gen near_ric_iface r i cr = Inr (k, r')" for cr
    using that by (cases fds) (auto simp: r near_ric_iface_def fwd_ric_control_request_def Let_def
        res_bind_eq_Inr world_counter_def dest!: start_pending_req_id)
  show "world_counter r' = world_counter r" if "fwd_del_gen near_ric_iface r i sdr = Inr r'" for sdr
    using that by (cases fds) (auto simp: r near_ric_iface_def fwd_ric_subscription_request_delete_def
        res_bind_eq_Inr world_counter_def dest!: start_pending_req_id)
qed

section \<open>Steps of the system\<close>

record ('sri, 'wr, 'rd) sys =
  s_ric :: "('sri, 'wr, 'rd) near_ric"
  s_iapp :: "'sri e42_iapp"

datatype ('sri, 'rd) sys_out =
    To_node "'sri sctp_info" e2ap_msg
  | To_xapp "'sri sctp_info" e2ap_msg
  | To_listener string "'rd sm_ag_if_rd"

text \<open>The calls of the iApp that an event of the RIC makes, in their order.\<close>

fun deliver ::
  "('sri, 'wr, 'rd) near_ric \<Rightarrow> ('sri, 'rd) ric_out \<Rightarrow> 'sri e42_iapp \<times> ('sri, 'rd) sys_out list \<Rightarrow>
    ('sri e42_iapp \<times> ('sri, 'rd) sys_out list) res" where
  "deliver ric (Send_msg s m) (iapp, out) = Inr (iapp, out @ [To_node s m])"
| "deliver ric (Publish n d) (iapp, out) = Inr (iapp, out @ [To_listener n d])"
| "deliver ric (Iapp_add_node i rfs) (iapp, out) =
    res_bind (add_e2_node_iapp iapp i rfs) (\<lambda>iapp'. Inr (iapp', out))"
| "deliver ric (Iapp_rm_node i) (iapp, out) =
    res_bind (rm_e2_node_iapp iapp i) (\<lambda>iapp'. Inr (iapp', out))"
| "deliver ric (Iapp_notify m) (iapp, out) =
    res_bind (notify_msg_iapp near_ric_iface iapp (ric, [], []) m) (\<lambda>(iapp', w, o').
    Inr (iapp', out @ map (\<lambda>(s, a). To_xapp s a) o'))"

datatype 'sri sys_event =
    From_ric_loop "'sri ric_event"
  | From_xapp "'sri sctp_info" e2ap_msg "int list"

definition sys_step ::
  "('sri, 'wr, 'rd) sys \<Rightarrow> 'sri sys_event \<Rightarrow> (('sri, 'wr, 'rd) sys \<times> ('sri, 'rd) sys_out list) res" where
  "sys_step st e =
    (case e of
       From_ric_loop re \<Rightarrow>
         res_bind (e2_event_ric (s_ric st) re) (\<lambda>(ric', outs).
         res_bind (fold_res (deliver ric') outs (s_iapp st, [])) (\<lambda>(iapp', out).
         Inr (\<lparr>s_ric = ric', s_iapp = iapp'\<rparr>, out)))
     | From_xapp info msg fds \<Rightarrow>
         res_bind (e2_event_iapp near_ric_iface (s_iapp st) (s_ric st, fds, []) info msg)
           (\<lambda>(iapp', (ric', _, routs), iouts).
         res_bind (fold_res (deliver ric') routs (iapp', [])) (\<lambda>(iapp'', out).
         Inr (\<lparr>s_ric = ric', s_iapp = iapp''\<rparr>, out @ map (\<lambda>(s, a). To_xapp s a) iouts))))"

definition sys_init :: "int \<Rightarrow> ('wr, 'rd) sm_ric list \<Rightarrow> ('sri, 'wr, 'rd) sys res" where
  "sys_init ep_fd sms =
    res_bind (init_near_ric ep_fd sms) (\<lambda>ric. Inr \<lparr>s_ric = ric, s_iapp = init_e42_iapp\<rparr>)"

section \<open>Invariant\<close>

text \<open>The parts are well formed, the iApp knows the nodes that have an address, its map holds
  only identifiers that the RIC gave out, and so do the pending requests.\<close>

definition pend_issued :: "('sri, 'wr, 'rd) near_ric \<Rightarrow> bool" where
  "pend_issued ric \<longleftrightarrow> (\<forall>e. pending_fd (pending ric) e \<noteq> None \<longrightarrow>
    ev e = SUBSCRIPTION_REQUEST_PENDING_EVENT \<or> ev e = CONTROL_REQUEST_PENDING_EVENT \<longrightarrow>
    unat (ucast (ric_req_id (pid e)) :: u16) < unat (req_id ric))"

definition nodes_agree :: "global_e2_node_id set \<Rightarrow> ('sri, 'wr, 'rd) sys \<Rightarrow> bool" where
  "nodes_agree D st \<longleftrightarrow> (\<forall>q\<in>D. e2reg_get (e2_nodes (s_iapp st)) q = None \<longleftrightarrow> e2_sad_get (ep (s_ric st)) q = None)"

definition sys_inv :: "global_e2_node_id set \<Rightarrow> int \<Rightarrow> ('sri, 'wr, 'rd) sys \<Rightarrow> bool" where
  "sys_inv D ep_fd st \<longleftrightarrow> ric_inv D ep_fd (s_ric st) \<and> iapp_inv D (s_iapp st) \<and> nodes_agree D st \<and>
    ric_prov.issued (s_iapp st) (s_ric st, [], []) \<and> pend_issued (s_ric st)"

lemma issued_world: "ric_prov.issued iapp (ric, fds, out) = ric_prov.issued iapp (ric, [], [])"
  by (simp add: ric_prov.issued_def world_counter_def)

lemma sys_init_ok:
  fixes sms :: "('wr, 'rd) sm_ric list"
  assumes "0 < ep_fd" "\<forall>sm\<in>set sms. 0 < sm_ran_func_id sm" "distinct (map sm_ran_func_id sms)"
  obtains st :: "('sri, 'wr, 'rd) sys" where "sys_init ep_fd sms = Inr st" "sys_inv D ep_fd st" "req_id (s_ric st) = 1021"
proof -
  obtain ric :: "('sri, 'wr, 'rd) near_ric" where r: "init_near_ric ep_fd sms = Inr ric" "ric_inv D ep_fd ric" "req_id ric = 1021"
    by (rule init_near_ric_ok [OF assms])
  then have "ep ric = init_map_e2_node_sad" "pending ric = init_pending_events"
    by (auto simp: init_near_ric_def res_bind_eq_Inr)
  note r = r this
  have i: "sys_inv D ep_fd \<lparr>s_ric = ric, s_iapp = init_e42_iapp\<rparr>"
    using r iapp_inv_init [of D]
    by (simp add: sys_inv_def nodes_agree_def pend_issued_def ric_prov.issued_def world_counter_def
        init_e42_iapp_def e2reg_get_def e2_sad_get_def e2reg_entries_def init_reg_e2_node_def
        init_map_e2_node_sad_def)
  show ?thesis by (rule that [OF _ i]) (use r in \<open>simp_all add: sys_init_def\<close>)
qed

section \<open>A request of an xApp from one end to the other\<close>

lemma fresh_request:
  assumes "pend_issued ric" "unat (req_id ric) < 65536" "ev e = SUBSCRIPTION_REQUEST_PENDING_EVENT \<or> ev e = CONTROL_REQUEST_PENDING_EVENT"
    "pid e = fwd_id ric i"
  shows "pending_fd (pending ric) e = None"
proof (rule ccontr)
  assume "pending_fd (pending ric) e \<noteq> None"
  then have "unat (ucast (ric_req_id (fwd_id ric i)) :: u16) < unat (req_id ric)"
    using assms by (auto simp: pend_issued_def)
  then show False using assms(2) by (simp add: fwd_id_def unsigned_ucast_eq take_bit_nat_eq_self)
qed

lemma pend_issued_add:
  assumes "pend_issued ric" "unat (req_id ric) < 65536" "req_id ric' = req_id ric + 1"
    "pending_fd (pending ric') = (pending_fd (pending ric))(\<lparr>ev = v, pid = fwd_id ric i\<rparr> \<mapsto> fd)"
  shows "pend_issued ric'"
  unfolding pend_issued_def
proof (intro allI impI)
  fix e assume "pending_fd (pending ric') e \<noteq> None"
    and k: "ev e = SUBSCRIPTION_REQUEST_PENDING_EVENT \<or> ev e = CONTROL_REQUEST_PENDING_EVENT"
  then have "e = \<lparr>ev = v, pid = fwd_id ric i\<rparr> \<or> pending_fd (pending ric) e \<noteq> None"
    by (simp add: assms(4) split: if_splits)
  moreover have n: "unat (req_id ric') = unat (req_id ric) + 1"
    using assms(2,3) by (simp add: unat_word_ariths(1))
  moreover have "unat (ucast (ric_req_id (fwd_id ric i)) :: u16) = unat (req_id ric)"
    using assms(2) by (simp add: fwd_id_def unsigned_ucast_eq take_bit_nat_eq_self)
  moreover have "unat (ucast (ric_req_id (pid e)) :: u16) < unat (req_id ric)"
    if "pending_fd (pending ric) e \<noteq> None"
    using assms(1) k that unfolding pend_issued_def by blast
  ultimately show "unat (ucast (ric_req_id (pid e)) :: u16) < unat (req_id ric')"
    by (metis add.commute less_Suc_eq pending_event_ric.select_convs(2) plus_1_eq_Suc)
qed

lemma sub_req_step:
  assumes "node_set D" "sys_inv D ep_fd st" "req_id (s_ric st) < 65536"
    "ucast (e42sr_xapp_id sr) \<le> next_xapp_id (s_iapp st)" "e42sr_id sr \<in> D"
    "e2_sad_get (ep (s_ric st)) (e42sr_id sr) = Some s"
    "length (e2reg_entries (e2_nodes (s_iapp st))) < 256"
    "0 < fd" "fd \<notin> set (io (s_ric st))"
  obtains st' where
    "sys_step st (From_xapp info (E42_ric_sub_req sr) [fd]) =
      Inr (st', [To_node s (Ric_sub_req ((e42sr_sr sr)\<lparr>sr_ric_id := fwd_id (s_ric st) (sr_ric_id (e42sr_sr sr))\<rparr>))])"
    "sys_inv D ep_fd st'" "io (s_ric st') = fd # io (s_ric st)" "req_id (s_ric st') = req_id (s_ric st) + 1"
    "pending_fd (pending (s_ric st')) = (pending_fd (pending (s_ric st)))
      (\<lparr>ev = SUBSCRIPTION_REQUEST_PENDING_EVENT, pid = fwd_id (s_ric st) (sr_ric_id (e42sr_sr sr))\<rparr> \<mapsto> fd)"
    "ric_id_get (ric_ids_map (s_iapp st')) = (ric_id_get (ric_ids_map (s_iapp st)))
      (ucast (req_id (s_ric st)) \<mapsto> \<lparr>xric_id = sr_ric_id (e42sr_sr sr), xapp_id = e42sr_xapp_id sr\<rparr>)"
    "(ucast (req_id (s_ric st)) :: u16) \<noteq> 0" "xapps (s_iapp st') = xapps (s_iapp st)"
    "ep (s_ric st') = ep (s_ric st)"
proof -
  let ?ric = "s_ric st" and ?iapp = "s_iapp st" and ?i = "sr_ric_id (e42sr_sr sr)"
  have inv: "ric_inv D ep_fd ?ric" "iapp_inv D ?iapp" "nodes_agree D st"
    "ric_prov.issued ?iapp (?ric, [fd], [])" "pend_issued ?ric"
    using assms(2) issued_world [of ?iapp ?ric "[fd]" "[]"] by (simp_all add: sys_inv_def)
  have l: "unat (req_id ?ric) < 65536" using assms(3) by (simp add: word_less_nat_alt)
  have reg: "e2reg_get (e2_nodes ?iapp) (e42sr_id sr) \<noteq> None"
    using inv(3) assms(5,6) by (simp add: nodes_agree_def)
  have fr: "pending_fd (pending ?ric) \<lparr>ev = SUBSCRIPTION_REQUEST_PENDING_EVENT, pid = fwd_id ?ric ?i\<rparr> = None"
    by (rule fresh_request [OF inv(5) l]) simp_all
  obtain ric' where r: "fwd_ric_subscription_request ?ric fd (e42sr_id sr) (e42sr_sr sr) =
      Inr (ucast (req_id ?ric), ric', [Send_msg s (Ric_sub_req ((e42sr_sr sr)\<lparr>sr_ric_id := fwd_id ?ric ?i\<rparr>))])"
    "ric_inv D ep_fd ric'" "req_id ric' = req_id ?ric + 1" "io ric' = fd # io ?ric" "ep ric' = ep ?ric"
    "pending_fd (pending ric') = (pending_fd (pending ?ric))
      (\<lparr>ev = SUBSCRIPTION_REQUEST_PENDING_EVENT, pid = fwd_id ?ric ?i\<rparr> \<mapsto> fd)"
    by (rule fwd_subscription_ok [OF inv(1) assms(8,9,6) fr])
  let ?o = "[Send_msg s (Ric_sub_req ((e42sr_sr sr)\<lparr>sr_ric_id := fwd_id ?ric ?i\<rparr>))]"
  have f: "fwd_sub_gen near_ric_iface (?ric, [fd], []) (e42sr_id sr) (e42sr_sr sr) =
      Inr (ucast (req_id ?ric), (ric', [], ?o))"
    using r(1) by (simp add: near_ric_iface_def)
  have c: "world_counter (?ric, [fd], []) < 65536" using assms(3) by (simp add: world_counter_def)
  obtain m where m: "e2_event_iapp near_ric_iface ?iapp (?ric, [fd], []) info (E42_ric_sub_req sr) =
      Inr (?iapp\<lparr>ric_ids_map := m\<rparr>, (ric', [], ?o), [])"
    "iapp_inv D (?iapp\<lparr>ric_ids_map := m\<rparr>)" "ric_prov.issued (?iapp\<lparr>ric_ids_map := m\<rparr>) (ric', [], ?o)"
    "(ucast (req_id ?ric) :: u16) \<noteq> 0"
    "ric_id_get m = (ric_id_get (ric_ids_map ?iapp))
      (ucast (req_id ?ric) \<mapsto> \<lparr>xric_id = ?i, xapp_id = e42sr_xapp_id sr\<rparr>)"
    by (rule ric_prov.sub_req_ok [OF assms(1) inv(2,4) c assms(4,5) reg assms(7) f])
  let ?st = "\<lparr>s_ric = ric', s_iapp = ?iapp\<lparr>ric_ids_map := m\<rparr>\<rparr>"
  have "sys_inv D ep_fd ?st"
    using r m inv(3) pend_issued_add [OF inv(5) l r(3,6)]
      issued_world [of "?iapp\<lparr>ric_ids_map := m\<rparr>" ric' "[]" ?o]
    by (simp add: sys_inv_def nodes_agree_def)
  moreover have "sys_step st (From_xapp info (E42_ric_sub_req sr) [fd]) =
      Inr (?st, [To_node s (Ric_sub_req ((e42sr_sr sr)\<lparr>sr_ric_id := fwd_id ?ric ?i\<rparr>))])"
    using m(1) by (simp add: sys_step_def)
  ultimately show ?thesis using that [of ?st] r m by simp
qed

lemma ctrl_req_step:
  assumes "node_set D" "sys_inv D ep_fd st" "req_id (s_ric st) < 65536"
    "ucast (e42cr_xapp_id cr) \<le> next_xapp_id (s_iapp st)" "e42cr_id cr \<in> D"
    "e2_sad_get (ep (s_ric st)) (e42cr_id cr) = Some s"
    "length (e2reg_entries (e2_nodes (s_iapp st))) < 256"
    "0 < fd" "fd \<notin> set (io (s_ric st))"
  obtains st' where
    "sys_step st (From_xapp info (E42_ric_ctrl_req cr) [fd]) =
      Inr (st', [To_node s (Ric_ctrl_req ((e42cr_ctrl_req cr)\<lparr>cr_ric_id := fwd_id (s_ric st) (cr_ric_id (e42cr_ctrl_req cr))\<rparr>))])"
    "sys_inv D ep_fd st'" "io (s_ric st') = fd # io (s_ric st)" "req_id (s_ric st') = req_id (s_ric st) + 1"
    "pending_fd (pending (s_ric st')) = (pending_fd (pending (s_ric st)))
      (\<lparr>ev = CONTROL_REQUEST_PENDING_EVENT, pid = fwd_id (s_ric st) (cr_ric_id (e42cr_ctrl_req cr))\<rparr> \<mapsto> fd)"
    "ric_id_get (ric_ids_map (s_iapp st')) = (ric_id_get (ric_ids_map (s_iapp st)))
      (ucast (req_id (s_ric st)) \<mapsto> \<lparr>xric_id = cr_ric_id (e42cr_ctrl_req cr), xapp_id = e42cr_xapp_id cr\<rparr>)"
    "(ucast (req_id (s_ric st)) :: u16) \<noteq> 0" "xapps (s_iapp st') = xapps (s_iapp st)"
    "ep (s_ric st') = ep (s_ric st)"
proof -
  let ?ric = "s_ric st" and ?iapp = "s_iapp st" and ?i = "cr_ric_id (e42cr_ctrl_req cr)"
  have inv: "ric_inv D ep_fd ?ric" "iapp_inv D ?iapp" "nodes_agree D st"
    "ric_prov.issued ?iapp (?ric, [fd], [])" "pend_issued ?ric"
    using assms(2) issued_world [of ?iapp ?ric "[fd]" "[]"] by (simp_all add: sys_inv_def)
  have l: "unat (req_id ?ric) < 65536" using assms(3) by (simp add: word_less_nat_alt)
  have reg: "e2reg_get (e2_nodes ?iapp) (e42cr_id cr) \<noteq> None"
    using inv(3) assms(5,6) by (simp add: nodes_agree_def)
  have fr: "pending_fd (pending ?ric) \<lparr>ev = CONTROL_REQUEST_PENDING_EVENT, pid = fwd_id ?ric ?i\<rparr> = None"
    by (rule fresh_request [OF inv(5) l]) simp_all
  obtain ric' where r: "fwd_ric_control_request ?ric fd (e42cr_id cr) (e42cr_ctrl_req cr) =
      Inr (ucast (req_id ?ric), ric', [Send_msg s (Ric_ctrl_req ((e42cr_ctrl_req cr)\<lparr>cr_ric_id := fwd_id ?ric ?i\<rparr>))])"
    "ric_inv D ep_fd ric'" "req_id ric' = req_id ?ric + 1" "io ric' = fd # io ?ric" "ep ric' = ep ?ric"
    "pending_fd (pending ric') = (pending_fd (pending ?ric))
      (\<lparr>ev = CONTROL_REQUEST_PENDING_EVENT, pid = fwd_id ?ric ?i\<rparr> \<mapsto> fd)"
    by (rule fwd_control_ok [OF inv(1) assms(8,9,6) fr])
  let ?o = "[Send_msg s (Ric_ctrl_req ((e42cr_ctrl_req cr)\<lparr>cr_ric_id := fwd_id ?ric ?i\<rparr>))]"
  have f: "fwd_ctrl_gen near_ric_iface (?ric, [fd], []) (e42cr_id cr) (e42cr_ctrl_req cr) =
      Inr (ucast (req_id ?ric), (ric', [], ?o))"
    using r(1) by (simp add: near_ric_iface_def)
  have c: "world_counter (?ric, [fd], []) < 65536" using assms(3) by (simp add: world_counter_def)
  obtain m where m: "e2_event_iapp near_ric_iface ?iapp (?ric, [fd], []) info (E42_ric_ctrl_req cr) =
      Inr (?iapp\<lparr>ric_ids_map := m\<rparr>, (ric', [], ?o), [])"
    "iapp_inv D (?iapp\<lparr>ric_ids_map := m\<rparr>)" "ric_prov.issued (?iapp\<lparr>ric_ids_map := m\<rparr>) (ric', [], ?o)"
    "(ucast (req_id ?ric) :: u16) \<noteq> 0"
    "ric_id_get m = (ric_id_get (ric_ids_map ?iapp))
      (ucast (req_id ?ric) \<mapsto> \<lparr>xric_id = ?i, xapp_id = e42cr_xapp_id cr\<rparr>)"
    by (rule ric_prov.ctrl_req_ok [OF assms(1) inv(2,4) c assms(4,5) reg assms(7) f])
  let ?st = "\<lparr>s_ric = ric', s_iapp = ?iapp\<lparr>ric_ids_map := m\<rparr>\<rparr>"
  have "sys_inv D ep_fd ?st"
    using r m inv(3) pend_issued_add [OF inv(5) l r(3,6)]
      issued_world [of "?iapp\<lparr>ric_ids_map := m\<rparr>" ric' "[]" ?o]
    by (simp add: sys_inv_def nodes_agree_def)
  moreover have "sys_step st (From_xapp info (E42_ric_ctrl_req cr) [fd]) =
      Inr (?st, [To_node s (Ric_ctrl_req ((e42cr_ctrl_req cr)\<lparr>cr_ric_id := fwd_id ?ric ?i\<rparr>))])"
    using m(1) by (simp add: sys_step_def)
  ultimately show ?thesis using that [of ?st] r m by simp
qed

lemma pend_issued_del:
  "pend_issued ric \<Longrightarrow> req_id ric' = req_id ric \<Longrightarrow>
    pending_fd (pending ric') = (pending_fd (pending ric))(e := None) \<Longrightarrow> pend_issued ric'"
  by (auto simp: pend_issued_def)

lemma issued_req_id:
  "ric_prov.issued iapp (ric, [], []) \<Longrightarrow> req_id ric' = req_id ric \<Longrightarrow> ric_prov.issued iapp (ric', [], [])"
  by (simp add: ric_prov.issued_def world_counter_def)

text \<open>Answers of a node reach the xApp under its own identifier and stop the timer.\<close>

lemma sub_resp_step:
  assumes "sys_inv D ep_fd st" "routed (s_iapp st) (resp_ric_id resp) x info"
    "pending_fd (pending (s_ric st)) \<lparr>ev = SUBSCRIPTION_REQUEST_PENDING_EVENT, pid = resp_ric_id resp\<rparr> = Some fd"
    "not_admitted resp = []" "admitted resp = [\<lparr>ric_act_id = 0\<rparr>]"
  obtains st' where "sys_step st (From_ric_loop (Sctp_msg_arrived s (Ric_sub_resp resp))) =
      Inr (st', [To_xapp info (Ric_sub_resp (resp\<lparr>resp_ric_id := xric_id x\<rparr>))])"
    "sys_inv D ep_fd st'" "s_iapp st' = s_iapp st" "io (s_ric st') = remove1 fd (io (s_ric st))"
    "pending_fd (pending (s_ric st')) = (pending_fd (pending (s_ric st)))
      (\<lparr>ev = SUBSCRIPTION_REQUEST_PENDING_EVENT, pid = resp_ric_id resp\<rparr> := None)"
    "req_id (s_ric st') = req_id (s_ric st)" "ep (s_ric st') = ep (s_ric st)"
proof -
  have i: "ric_inv D ep_fd (s_ric st)" using assms(1) by (simp add: sys_inv_def)
  obtain ric' where r: "e2ap_msg_handle_ric (s_ric st) (Ric_sub_resp resp) =
      Inr (ric', [Iapp_notify (Ric_sub_resp resp)], none_msg)"
    "ric_inv D ep_fd ric'" "io ric' = remove1 fd (io (s_ric st))" "ep ric' = ep (s_ric st)"
    "req_id ric' = req_id (s_ric st)"
    "pending_fd (pending ric') = (pending_fd (pending (s_ric st)))
      (\<lparr>ev = SUBSCRIPTION_REQUEST_PENDING_EVENT, pid = resp_ric_id resp\<rparr> := None)"
    by (rule subscription_response_ok [OF i assms(3-5)])
  have "sys_inv D ep_fd (st\<lparr>s_ric := ric'\<rparr>)"
    using assms(1) r pend_issued_del [OF _ r(5,6)] issued_req_id [OF _ r(5), of "s_iapp st"]
    by (simp add: sys_inv_def nodes_agree_def)
  moreover have "sys_step st (From_ric_loop (Sctp_msg_arrived s (Ric_sub_resp resp))) =
      Inr (st\<lparr>s_ric := ric'\<rparr>, [To_xapp info (Ric_sub_resp (resp\<lparr>resp_ric_id := xric_id x\<rparr>))])"
    using r(1) notify_sub_resp [OF assms(2), of near_ric_iface "(ric', [], [])"]
    by (simp add: sys_step_def e2_event_ric_def)
  ultimately show ?thesis using that r by simp
qed

lemma ctrl_ack_step:
  assumes "sys_inv D ep_fd st" "routed (s_iapp st) (ca_ric_id ack) x info" "ca_status ack = RIC_CONTROL_STATUS_SUCCESS"
    "pending_fd (pending (s_ric st)) \<lparr>ev = CONTROL_REQUEST_PENDING_EVENT, pid = ca_ric_id ack\<rparr> = Some fd"
  obtains st' where "sys_step st (From_ric_loop (Sctp_msg_arrived s (Ric_ctrl_ack ack))) =
      Inr (st', [To_xapp info (Ric_ctrl_ack \<lparr>ca_ric_id = xric_id x, ca_call_process_id = None,
        ca_status = RIC_CONTROL_STATUS_SUCCESS, control_outcome = None\<rparr>)])"
    "sys_inv D ep_fd st'" "s_iapp st' = s_iapp st" "io (s_ric st') = remove1 fd (io (s_ric st))"
    "pending_fd (pending (s_ric st')) = (pending_fd (pending (s_ric st)))
      (\<lparr>ev = CONTROL_REQUEST_PENDING_EVENT, pid = ca_ric_id ack\<rparr> := None)"
proof -
  have i: "ric_inv D ep_fd (s_ric st)" using assms(1) by (simp add: sys_inv_def)
  obtain ric' where r: "e2ap_msg_handle_ric (s_ric st) (Ric_ctrl_ack ack) =
      Inr (ric', [Iapp_notify (Ric_ctrl_ack ack)], none_msg)"
    "ric_inv D ep_fd ric'" "io ric' = remove1 fd (io (s_ric st))" "ep ric' = ep (s_ric st)"
    "req_id ric' = req_id (s_ric st)"
    "pending_fd (pending ric') = (pending_fd (pending (s_ric st)))
      (\<lparr>ev = CONTROL_REQUEST_PENDING_EVENT, pid = ca_ric_id ack\<rparr> := None)"
    by (rule control_ack_ok [OF i assms(3,4)])
  have "sys_inv D ep_fd (st\<lparr>s_ric := ric'\<rparr>)"
    using assms(1) r pend_issued_del [OF _ r(5,6)] issued_req_id [OF _ r(5), of "s_iapp st"]
    by (simp add: sys_inv_def nodes_agree_def)
  moreover have "sys_step st (From_ric_loop (Sctp_msg_arrived s (Ric_ctrl_ack ack))) =
      Inr (st\<lparr>s_ric := ric'\<rparr>, [To_xapp info (Ric_ctrl_ack \<lparr>ca_ric_id = xric_id x, ca_call_process_id = None,
        ca_status = RIC_CONTROL_STATUS_SUCCESS, control_outcome = None\<rparr>)])"
    using r(1) notify_ctrl_ack [OF assms(2), of near_ric_iface "(ric', [], [])"] assms(3)
    by (simp add: sys_step_def e2_event_ric_def)
  ultimately show ?thesis using that r by simp
qed

text \<open>The identifier that a forwarded request carries leads back to the xApp.\<close>

lemma routed_fwd_id:
  assumes "ric_id_get (ric_ids_map iapp) (ucast (req_id ric)) = Some \<lparr>xric_id = i, xapp_id = xid\<rparr>"
    "(ucast (req_id ric) :: u16) \<noteq> 0" "xapps_get (xapps iapp) xid = Some info"
  shows "routed iapp (fwd_id ric i) \<lparr>xric_id = i, xapp_id = xid\<rparr> info"
  using assms by (simp add: routed_def fwd_id_def)

lemma known_xapp_id:
  assumes "iapp_inv D iapp" "xapps_get (xapps iapp) xid \<noteq> None"
  shows "ucast xid \<le> next_xapp_id iapp"
proof -
  have "unat xid < unat (next_xapp_id iapp)" using assms by (auto simp: iapp_inv_def)
  then show ?thesis by (simp add: word_le_nat_alt unat_ucast_16_32)
qed

lemma subscription_end_to_end:
  assumes "node_set D" "sys_inv D ep_fd st" "req_id (s_ric st) < 65536"
    "xapps_get (xapps (s_iapp st)) (e42sr_xapp_id sr) = Some xinfo"
    "e42sr_id sr \<in> D" "e2_sad_get (ep (s_ric st)) (e42sr_id sr) = Some s"
    "length (e2reg_entries (e2_nodes (s_iapp st))) < 256" "0 < fd" "fd \<notin> set (io (s_ric st))"
  obtains st1 i where
    "sys_step st (From_xapp info (E42_ric_sub_req sr) [fd]) =
      Inr (st1, [To_node s (Ric_sub_req ((e42sr_sr sr)\<lparr>sr_ric_id := i\<rparr>))])"
    "sys_inv D ep_fd st1"
    "\<And>resp s'. resp_ric_id resp = i \<Longrightarrow> not_admitted resp = [] \<Longrightarrow> admitted resp = [\<lparr>ric_act_id = 0\<rparr>] \<Longrightarrow>
      \<exists>st2. sys_step st1 (From_ric_loop (Sctp_msg_arrived s' (Ric_sub_resp resp))) =
          Inr (st2, [To_xapp xinfo (Ric_sub_resp (resp\<lparr>resp_ric_id := sr_ric_id (e42sr_sr sr)\<rparr>))]) \<and>
        sys_inv D ep_fd st2 \<and> io (s_ric st2) = io (s_ric st) \<and>
        pending_fd (pending (s_ric st2)) = pending_fd (pending (s_ric st))"
proof -
  let ?i = "sr_ric_id (e42sr_sr sr)"
  have ii: "iapp_inv D (s_iapp st)" using assms(2) by (simp add: sys_inv_def)
  have v: "ucast (e42sr_xapp_id sr) \<le> next_xapp_id (s_iapp st)"
    by (rule known_xapp_id [OF ii]) (simp add: assms(4))
  obtain st1 where st1: "sys_step st (From_xapp info (E42_ric_sub_req sr) [fd]) =
      Inr (st1, [To_node s (Ric_sub_req ((e42sr_sr sr)\<lparr>sr_ric_id := fwd_id (s_ric st) ?i\<rparr>))])"
    "sys_inv D ep_fd st1" "io (s_ric st1) = fd # io (s_ric st)"
    "pending_fd (pending (s_ric st1)) = (pending_fd (pending (s_ric st)))
      (\<lparr>ev = SUBSCRIPTION_REQUEST_PENDING_EVENT, pid = fwd_id (s_ric st) ?i\<rparr> \<mapsto> fd)"
    "ric_id_get (ric_ids_map (s_iapp st1)) = (ric_id_get (ric_ids_map (s_iapp st)))
      (ucast (req_id (s_ric st)) \<mapsto> \<lparr>xric_id = ?i, xapp_id = e42sr_xapp_id sr\<rparr>)"
    "(ucast (req_id (s_ric st)) :: u16) \<noteq> 0" "xapps (s_iapp st1) = xapps (s_iapp st)"
    by (rule sub_req_step [OF assms(1,2,3) v assms(5-9)])
  have l: "unat (req_id (s_ric st)) < 65536" using assms(3) by (simp add: word_less_nat_alt)
  have pi: "pend_issued (s_ric st)" using assms(2) by (simp add: sys_inv_def)
  have fr: "pending_fd (pending (s_ric st)) \<lparr>ev = SUBSCRIPTION_REQUEST_PENDING_EVENT, pid = fwd_id (s_ric st) ?i\<rparr> = None"
    by (rule fresh_request [OF pi l]) simp_all
  have rt: "routed (s_iapp st1) (fwd_id (s_ric st) ?i) \<lparr>xric_id = ?i, xapp_id = e42sr_xapp_id sr\<rparr> xinfo"
    by (rule routed_fwd_id) (use st1 assms(4) in simp_all)
  show ?thesis
  proof (rule that [OF st1(1,2)])
    fix resp :: ric_subscription_response and s'
    assume a: "resp_ric_id resp = fwd_id (s_ric st) ?i" "not_admitted resp = []" "admitted resp = [\<lparr>ric_act_id = 0\<rparr>]"
    have p: "pending_fd (pending (s_ric st1)) \<lparr>ev = SUBSCRIPTION_REQUEST_PENDING_EVENT, pid = resp_ric_id resp\<rparr> = Some fd"
      by (simp add: a(1) st1(4))
    obtain st2 where st2: "sys_step st1 (From_ric_loop (Sctp_msg_arrived s' (Ric_sub_resp resp))) =
        Inr (st2, [To_xapp xinfo (Ric_sub_resp (resp\<lparr>resp_ric_id := xric_id \<lparr>xric_id = ?i, xapp_id = e42sr_xapp_id sr\<rparr>\<rparr>))])"
      "sys_inv D ep_fd st2" "io (s_ric st2) = remove1 fd (io (s_ric st1))"
      "pending_fd (pending (s_ric st2)) = (pending_fd (pending (s_ric st1)))
        (\<lparr>ev = SUBSCRIPTION_REQUEST_PENDING_EVENT, pid = resp_ric_id resp\<rparr> := None)"
      by (rule sub_resp_step [OF st1(2) rt [folded a(1)] p a(2,3)])
    have "pending_fd (pending (s_ric st2)) = pending_fd (pending (s_ric st))"
      using fr by (intro ext) (simp add: st2(4) st1(4) a(1))
    then show "\<exists>st2. sys_step st1 (From_ric_loop (Sctp_msg_arrived s' (Ric_sub_resp resp))) =
          Inr (st2, [To_xapp xinfo (Ric_sub_resp (resp\<lparr>resp_ric_id := ?i\<rparr>))]) \<and>
        sys_inv D ep_fd st2 \<and> io (s_ric st2) = io (s_ric st) \<and>
        pending_fd (pending (s_ric st2)) = pending_fd (pending (s_ric st))"
      using st2 st1(3) by auto
  qed
qed

section \<open>Every step keeps the invariant\<close>

text \<open>What a handler other than the one of the setup leaves alone.\<close>

fun benign_out :: "('sri, 'rd) ric_out \<Rightarrow> bool" where
  "benign_out (Iapp_add_node _ _) = False"
| "benign_out (Iapp_rm_node _) = False"
| "benign_out _ = True"

lemma stop_frame:
  assumes "pend_inv ep_fd (io ric) (pending ric)" "stop_pending_event ric e = Inr ric'"
  shows "req_id ric' = req_id ric \<and> ep ric' = ep ric \<and> pending_fd (pending ric') \<subseteq>\<^sub>m pending_fd (pending ric)"
proof -
  obtain fd where fd: "pending_fd (pending ric) e = Some fd"
    using stop_pending_event_absent [OF assms(1), of e] assms(2) by fastforce
  obtain q where "stop_pending_event ric e = Inr (ric\<lparr>io := remove1 fd (io ric), pending := q\<rparr>)"
    "pending_fd q = (pending_fd (pending ric))(e := None)"
    by (rule stop_pending_event_ok [OF assms(1) fd])
  then show ?thesis using assms(2) by (auto simp: map_le_def)
qed

lemma not_implemented_Inr [simp]: "not_implemented_ric t ric msg \<noteq> Inr r"
  by (simp add: not_implemented_ric_def res_bind_eq_Inr)

lemmas ric_handler_defs =
  e2ap_handle_subscription_response_ric_def e2ap_handle_subscription_failure_ric_def
  e2ap_handle_subscription_delete_response_ric_def e2ap_handle_subscription_delete_failure_ric_def
  e2ap_handle_indication_ric_def e2ap_handle_control_ack_ric_def e2ap_handle_control_failure_ric_def
  e2ap_handle_error_indication_ric_def e2ap_handle_reset_request_ric_def
  e2ap_handle_reset_response_ric_def e2ap_handle_service_update_ric_def
  e2ap_handle_node_configuration_update_ric_def e2ap_handle_connection_update_ack_ric_def
  e2ap_handle_connection_update_failure_ric_def

lemma handler_frame:
  assumes "pend_inv ep_fd (io ric) (pending ric)" "e2ap_msg_handle_ric ric msg = Inr (ric', out, ans)"
    "msg_type msg \<noteq> E2_SETUP_REQUEST"
  shows "req_id ric' = req_id ric \<and> ep ric' = ep ric \<and>
    pending_fd (pending ric') \<subseteq>\<^sub>m pending_fd (pending ric) \<and> list_all benign_out out"
proof -
  obtain h where h: "init_handle_msg_ric (msg_type msg) = Some h" "h ric msg = Inr (ric', out, ans)"
    using assms(2) by (auto simp: e2ap_msg_handle_ric_def res_bind_eq_Inr split: option.splits)
  show ?thesis
    using h assms(3) stop_frame [OF assms(1)]
    by (cases "msg_type msg")
       (auto simp: ric_handler_defs res_bind_eq_Inr Let_def publish_ind_msg_eq list_all_iff
         split: e2ap_msg.splits if_splits)
qed

lemma notify_same:
  "notify_msg_iapp rif iapp ric msg = Inr (iapp', ric', out) \<Longrightarrow> iapp' = iapp"
  by (auto simp: notify_defs res_bind_eq_Inr Let_def split: option.splits e2ap_msg.splits)

lemma deliver_benign:
  "list_all benign_out outs \<Longrightarrow> fold_res (deliver ric) outs (iapp, o0) = Inr (iapp', out) \<Longrightarrow> iapp' = iapp"
proof (induction outs arbitrary: o0)
  case (Cons x xs)
  then obtain i1 o1 where d: "deliver ric x (iapp, o0) = Inr (i1, o1)"
    "fold_res (deliver ric) xs (i1, o1) = Inr (iapp', out)" by (auto simp: res_bind_eq_Inr)
  have "i1 = iapp" using Cons.prems(1) d(1) by (cases x) (auto simp: res_bind_eq_Inr dest!: notify_same)
  then show ?case using Cons.IH [of o1] Cons.prems(1) d(2) by simp
qed simp

lemma pend_issued_le:
  "pend_issued ric \<Longrightarrow> req_id ric' = req_id ric \<Longrightarrow>
    pending_fd (pending ric') \<subseteq>\<^sub>m pending_fd (pending ric) \<Longrightarrow> pend_issued ric'"
  unfolding pend_issued_def by (metis domIff map_le_def)

text \<open>The iApp changes its nodes as the RIC does.\<close>

lemma add_node_ok:
  assumes "node_set D" "iapp_inv D iapp" "i \<in> D" "e2reg_get (e2_nodes iapp) i = None"
    "add_e2_node_iapp iapp i rfs = Inr iapp'"
  shows "iapp_inv D iapp'" "ric_ids_map iapp' = ric_ids_map iapp"
    "\<And>q. q \<in> D \<Longrightarrow> e2reg_get (e2_nodes iapp') q = None \<longleftrightarrow> \<not> eq_global_e2_node_id q i \<and> e2reg_get (e2_nodes iapp) q = None"
proof -
  have inv: "e2reg_inv D (e2_nodes iapp)" using assms(2) by (simp add: iapp_inv_def)
  have n: "rfs \<noteq> []" using assms(5) by (auto simp: add_e2_node_iapp_def)
  obtain r where r: "add_reg_e2_node (e2_nodes iapp) i rfs = Inr r" "e2reg_inv D r"
    "\<And>q. q \<in> D \<Longrightarrow> e2reg_get r q = (if eq_global_e2_node_id q i then Some rfs else e2reg_get (e2_nodes iapp) q)"
    by (rule node_set.add_reg_ok [OF assms(1) inv assms(3) n assms(4)]) (rule that)
  have e: "iapp' = iapp\<lparr>e2_nodes := r\<rparr>" using assms(5) r(1) n by (simp add: add_e2_node_iapp_def)
  show "iapp_inv D iapp'" "ric_ids_map iapp' = ric_ids_map iapp" using assms(2) r(2) by (simp_all add: e iapp_inv_def)
  show "\<And>q. q \<in> D \<Longrightarrow> e2reg_get (e2_nodes iapp') q = None \<longleftrightarrow> \<not> eq_global_e2_node_id q i \<and> e2reg_get (e2_nodes iapp) q = None"
    using r(3) by (simp add: e)
qed

lemma rm_node_ok:
  assumes "node_set D" "iapp_inv D iapp" "i \<in> D" "e2reg_get (e2_nodes iapp) i \<noteq> None"
  obtains iapp' where "rm_e2_node_iapp iapp i = Inr iapp'" "iapp_inv D iapp'" "ric_ids_map iapp' = ric_ids_map iapp"
    "\<And>q. q \<in> D \<Longrightarrow> e2reg_get (e2_nodes iapp') q = None \<longleftrightarrow> eq_global_e2_node_id q i \<or> e2reg_get (e2_nodes iapp) q = None"
proof -
  have inv: "e2reg_inv D (e2_nodes iapp)" using assms(2) by (simp add: iapp_inv_def)
  obtain r where r: "rm_reg_e2_node (e2_nodes iapp) i = Inr r" "e2reg_inv D r"
    "\<And>q. q \<in> D \<Longrightarrow> e2reg_get r q = (if eq_global_e2_node_id q i then None else e2reg_get (e2_nodes iapp) q)"
    by (rule node_set.rm_reg_ok [OF assms(1) inv assms(3,4)]) (rule that)
  show ?thesis
    by (rule that [of "iapp\<lparr>e2_nodes := r\<rparr>"])
       (use r assms(2) in \<open>auto simp: rm_e2_node_iapp_def iapp_inv_def\<close>)
qed

lemma ric_loop_keeps:
  assumes "node_set D" "sys_inv D ep_fd st" "fair_event D (s_ric st) e"
    "sys_step st (From_ric_loop e) = Inr (st', out)"
  shows "sys_inv D ep_fd st'"
proof -
  obtain ric' outs iapp' where r: "e2_event_ric (s_ric st) e = Inr (ric', outs)"
    "fold_res (deliver ric') outs (s_iapp st, []) = Inr (iapp', out)" "st' = \<lparr>s_ric = ric', s_iapp = iapp'\<rparr>"
    using assms(4) by (auto simp: sys_step_def res_bind_eq_Inr)
  have inv: "ric_inv D ep_fd (s_ric st)" "iapp_inv D (s_iapp st)" "nodes_agree D st"
    "ric_prov.issued (s_iapp st) (s_ric st, [], [])" "pend_issued (s_ric st)"
    using assms(2) by (simp_all add: sys_inv_def)
  have p: "pend_inv ep_fd (io (s_ric st)) (pending (s_ric st))" using inv(1) by (simp add: ric_inv_def)
  have ri: "ric_inv D ep_fd ric'" by (rule node_set.event_keeps [OF assms(1) inv(1) assms(3) r(1)])
  show ?thesis
  proof (cases e)
    case Check_stop_token
    then have "ric' = s_ric st" "iapp' = s_iapp st" using r by (auto simp: e2_event_ric_def)
    then show ?thesis using assms(2) r(3) by (simp add: sys_inv_def nodes_agree_def)
  next
    case (Timer_expired fd)
    then have "ric' = s_ric st" "iapp' = s_iapp st" using r by (auto simp: e2_event_ric_def res_bind_eq_Inr)
    then show ?thesis using assms(2) r(3) by (simp add: sys_inv_def nodes_agree_def)
  next
    case (Sctp_connection_shutdown sd info)
    then obtain i m ns where m: "rm_map_sad_e2_node (ep (s_ric st)) info = Inr (i, m)"
      "ric' = (s_ric st)\<lparr>ep := m, conn_nodes := ns\<rparr>" "outs = [Iapp_rm_node i]"
      using r(1) by (auto simp: e2_event_ric_def notification_handle_ric_def res_bind_eq_Inr)
    have es: "e2_sad_inv D (ep (s_ric st))" using inv(1) by (simp add: ric_inv_def)
    have n: "e2_sad_node (ep (s_ric st)) info = Some i" and m': "i \<in> D"
      "\<And>q. q \<in> D \<Longrightarrow> e2_sad_get m q = (if eq_global_e2_node_id q i then None else e2_sad_get (ep (s_ric st)) q)"
    proof -
      obtain j where j: "e2_sad_node (ep (s_ric st)) info = Some j"
        using node_set.rm_sad_absent [OF assms(1) es, of info] m(1) by fastforce
      obtain m2 where m2: "rm_map_sad_e2_node (ep (s_ric st)) info = Inr (j, m2)" "j \<in> D"
        "\<And>q. q \<in> D \<Longrightarrow> e2_sad_get m2 q = (if eq_global_e2_node_id q j then None else e2_sad_get (ep (s_ric st)) q)"
        by (rule node_set.rm_sad_ok [OF assms(1) es j]) (rule that)
      show "e2_sad_node (ep (s_ric st)) info = Some i" "i \<in> D"
        "\<And>q. q \<in> D \<Longrightarrow> e2_sad_get m q = (if eq_global_e2_node_id q i then None else e2_sad_get (ep (s_ric st)) q)"
        using j m(1) m2 by auto
    qed
    obtain v where v: "(i, v) \<in> set (bm_pairs (e2_map (ep (s_ric st))))"
      using node_set.sad_pairs_rm(2) [OF assms(1) es m(1)] by blast
    have ee: "eq_global_e2_node_id i i"
      using node_set.eq_node [OF assms(1) m'(1) m'(1)] comparator.cmp_refl [OF node_set.axioms(1) [OF assms(1)] m'(1)]
      by simp
    have "e2_sad_get (ep (s_ric st)) i \<noteq> None"
    proof
      assume "e2_sad_get (ep (s_ric st)) i = None"
      then show False using v ee unfolding e2_sad_get_def first_value_None_iff by fastforce
    qed
    then have k: "e2reg_get (e2_nodes (s_iapp st)) i \<noteq> None" using inv(3) m'(1) by (simp add: nodes_agree_def)
    obtain iapp2 where i2: "rm_e2_node_iapp (s_iapp st) i = Inr iapp2" "iapp_inv D iapp2"
      "ric_ids_map iapp2 = ric_ids_map (s_iapp st)"
      "\<And>q. q \<in> D \<Longrightarrow> e2reg_get (e2_nodes iapp2) q = None \<longleftrightarrow> eq_global_e2_node_id q i \<or> e2reg_get (e2_nodes (s_iapp st)) q = None"
      by (rule rm_node_ok [OF assms(1) inv(2) m'(1) k]) (rule that)
    then have "iapp' = iapp2" using r(2) m(3) by simp
    then show ?thesis
      using ri i2 inv m(2) m'(2) r(3)
      by (auto simp: sys_inv_def nodes_agree_def ric_prov.issued_def world_counter_def pend_issued_def)
  next
    case (Sctp_msg_arrived info msg)
    show ?thesis
    proof (cases "\<exists>req. msg = E2_stp_req req")
      case True
      then obtain req where q: "e = Sctp_msg_arrived info (E2_stp_req req)" using Sctp_msg_arrived by blast
      then have f: "stp_id req \<in> D" "e2_sad_get (ep (s_ric st)) (stp_id req) = None" "e2_sad_node (ep (s_ric st)) info = None"
        using assms(3) by (auto simp: fair_event_def)
      note ss = node_set.setup_step [OF assms(1) inv(1) f r(1) [unfolded q]]
      obtain resp where o: "outs = [Iapp_add_node (stp_id req) (ran_func_item req), Send_msg info (E2_stp_resp resp)]"
        using ss(2) by blast
      have fr: "req_id ric' = req_id (s_ric st)" "pending ric' = pending (s_ric st)"
        using r(1) by (auto simp: q e2_event_ric_def e2ap_msg_handle_ric_def e2ap_handle_setup_request_ric_def
            res_bind_eq_Inr Let_def check_valid_msg_type_def split: if_splits)
      have a: "add_e2_node_iapp (s_iapp st) (stp_id req) (ran_func_item req) = Inr iapp'"
        using r(2) by (auto simp: o res_bind_eq_Inr)
      have k: "e2reg_get (e2_nodes (s_iapp st)) (stp_id req) = None" using inv(3) f by (simp add: nodes_agree_def)
      note ao = add_node_ok [OF assms(1) inv(2) f(1) k a]
      show ?thesis
        using ri ao inv(3-5) fr ss(3) r(3)
        by (auto simp: sys_inv_def nodes_agree_def ric_prov.issued_def world_counter_def pend_issued_def)
    next
      case False
      then have c: "(case msg of E2_stp_req req \<Rightarrow> f req | _ \<Rightarrow> g) = g" for f and g :: "('a, 'b, 'c) near_ric res"
        by (cases msg) auto
      obtain out' ans where h: "e2ap_msg_handle_ric (s_ric st) msg = Inr (ric', out', ans)"
        "outs = out' \<or> outs = out' @ [Send_msg info ans]"
        using r(1) by (auto simp: Sctp_msg_arrived e2_event_ric_def c res_bind_eq_Inr split: if_splits)
      have "msg_type msg \<noteq> E2_SETUP_REQUEST"
      proof
        assume "msg_type msg = E2_SETUP_REQUEST"
        then have "msg = Other_msg E2_SETUP_REQUEST" using False by (cases msg) auto
        then show False
          using h by (simp add: e2ap_msg_handle_ric_def check_valid_msg_type_def e2ap_handle_setup_request_ric_def)
      qed
      note fr = handler_frame [OF p h(1) this]
      then have "list_all benign_out outs" using h(2) by auto
      then have "iapp' = s_iapp st" using deliver_benign r(2) by blast
      then show ?thesis
        using ri fr inv pend_issued_le [OF inv(5), of ric'] r(3)
        by (simp add: sys_inv_def nodes_agree_def ric_prov.issued_def world_counter_def)
    qed
  qed
qed

lemma valid_node_known:
  assumes "node_set D" "iapp_inv D iapp" "i \<in> D" "length (e2reg_entries (e2_nodes iapp)) < 256"
    "valid_global_e2_node iapp i = Inr True"
  shows "e2reg_get (e2_nodes iapp) i \<noteq> None"
proof
  assume n: "e2reg_get (e2_nodes iapp) i = None"
  have inv: "e2reg_inv D (e2_nodes iapp)" using assms(2) by (simp add: iapp_inv_def)
  have "\<not> eq_global_e2_node_id (fst e) i" if "e \<in> set (e2reg_entries (e2_nodes iapp))" for e
  proof -
    have "\<not> eq_global_e2_node_id i (fst e)" using n that by (auto simp: e2reg_get_def first_value_None_iff)
    moreover have "fst e \<in> D" using that inv keys_inD by (fastforce simp: e2reg_inv_def e2reg_entries_def rb_inv_def)
    ultimately show ?thesis
      using node_set.eq_node [OF assms(1)] assms(3) comparator.cmp_sym [OF node_set.axioms(1) [OF assms(1)]] by blast
  qed
  then show False
    using assms(5) node_set.generate_ok [OF assms(1) inv assms(4)]
    by (auto simp: valid_global_e2_node_def list_ex_iff dest!: in_set_takeD)
qed

text \<open>What is asked of the xApps and of the operating system: the 16-bit identifiers are not
  used up, fewer than 256 nodes are connected, requests are for nodes of the kind \<open>D\<close>, a
  subscription is not deleted again before the answer, new timers have new descriptors.\<close>

definition fair_xapp ::
  "global_e2_node_id set \<Rightarrow> ('sri, 'wr, 'rd) sys \<Rightarrow> e2ap_msg \<Rightarrow> int list \<Rightarrow> bool" where
  "fair_xapp D st msg fds \<longleftrightarrow>
    req_id (s_ric st) < 65536 \<and> next_xapp_id (s_iapp st) < 65535 \<and>
    length (e2reg_entries (e2_nodes (s_iapp st))) < 256 \<and>
    length fds = 1 \<and> 0 < hd fds \<and> hd fds \<notin> set (io (s_ric st)) \<and>
    (case msg of
       E42_ric_sub_req sr \<Rightarrow> e42sr_id sr \<in> D
     | E42_ric_ctrl_req cr \<Rightarrow> e42cr_id cr \<in> D
     | E42_ric_sub_del_req src \<Rightarrow>
         (case ric_id_node (ric_ids_map (s_iapp st))
             \<lparr>xric_id = sdr_ric_id (e42sdr_sdr src), xapp_id = e42sdr_xapp_id src\<rparr> of
            None \<Rightarrow> True
          | Some n \<Rightarrow> pending_fd (pending (s_ric st))
              \<lparr>ev = SUBSCRIPTION_DELETE_REQUEST_PENDING_EVENT,
               pid = (sdr_ric_id (e42sdr_sdr src))\<lparr>ric_req_id := ucast (nric_req_id n)\<rparr>\<rparr> = None)
     | _ \<Rightarrow> True)"

lemmas iapp_event_defs = e2_event_iapp_def e2ap_msg_handle_iapp_def check_valid_msg_type_iapp_def

lemma del_req_step:
  assumes "sys_inv D ep_fd st" "0 < fd" "fd \<notin> set (io (s_ric st))"
    "ric_id_node (ric_ids_map (s_iapp st)) \<lparr>xric_id = sdr_ric_id (e42sdr_sdr src), xapp_id = e42sdr_xapp_id src\<rparr> = Some n"
    "pending_fd (pending (s_ric st)) \<lparr>ev = SUBSCRIPTION_DELETE_REQUEST_PENDING_EVENT,
      pid = (sdr_ric_id (e42sdr_sdr src))\<lparr>ric_req_id := ucast (nric_req_id n)\<rparr>\<rparr> = None"
    "e2_sad_get (ep (s_ric st)) (e2_node_id n) = Some s"
  obtains st' where "sys_step st (From_xapp info (E42_ric_sub_del_req src) [fd]) =
      Inr (st', [To_node s (Ric_sub_del_req
        \<lparr>sdr_ric_id = (sdr_ric_id (e42sdr_sdr src))\<lparr>ric_req_id := ucast (nric_req_id n)\<rparr>\<rparr>)])"
    "sys_inv D ep_fd st'" "s_iapp st' = s_iapp st" "io (s_ric st') = fd # io (s_ric st)"
    "pending_fd (pending (s_ric st')) = (pending_fd (pending (s_ric st)))
      (\<lparr>ev = SUBSCRIPTION_DELETE_REQUEST_PENDING_EVENT,
        pid = (sdr_ric_id (e42sdr_sdr src))\<lparr>ric_req_id := ucast (nric_req_id n)\<rparr>\<rparr> \<mapsto> fd)"
proof -
  let ?d = "\<lparr>sdr_ric_id = (sdr_ric_id (e42sdr_sdr src))\<lparr>ric_req_id := ucast (nric_req_id n)\<rparr>\<rparr>"
  have i: "ric_inv D ep_fd (s_ric st)" "pend_issued (s_ric st)" using assms(1) by (simp_all add: sys_inv_def)
  have pn: "pending_fd (pending (s_ric st)) \<lparr>ev = SUBSCRIPTION_DELETE_REQUEST_PENDING_EVENT, pid = sdr_ric_id ?d\<rparr> = None"
    using assms(5) by simp
  obtain ric' where r: "fwd_ric_subscription_request_delete (s_ric st) fd (e2_node_id n) ?d =
      Inr (ric', [Send_msg s (Ric_sub_del_req ?d)])"
    "ric_inv D ep_fd ric'" "req_id ric' = req_id (s_ric st)" "io ric' = fd # io (s_ric st)" "ep ric' = ep (s_ric st)"
    "pending_fd (pending ric') = (pending_fd (pending (s_ric st)))
      (\<lparr>ev = SUBSCRIPTION_DELETE_REQUEST_PENDING_EVENT, pid = sdr_ric_id ?d\<rparr> \<mapsto> fd)"
    by (rule fwd_delete_ok [OF i(1) assms(2,3,6) pn])
  have f: "fwd_del_gen near_ric_iface (s_ric st, [fd], []) (e2_node_id n) ?d =
      Inr (ric', [], [Send_msg s (Ric_sub_del_req ?d)])"
    using r(1) by (simp add: near_ric_iface_def)
  have e: "e2_event_iapp near_ric_iface (s_iapp st) (s_ric st, [fd], []) info (E42_ric_sub_del_req src) =
      Inr (s_iapp st, (ric', [], [Send_msg s (Ric_sub_del_req ?d)]), [])"
    using ric_prov.sub_del_req_ok [OF assms(4) f, of info] by simp
  have "pend_issued ric'" using i(2) r(3,6) by (auto simp: pend_issued_def)
  then have "sys_inv D ep_fd \<lparr>s_ric = ric', s_iapp = s_iapp st\<rparr>"
    using assms(1) r issued_req_id [OF _ r(3), of "s_iapp st"] by (simp add: sys_inv_def nodes_agree_def)
  then show ?thesis
    by (rule that [rotated]) (use e r in \<open>simp_all add: sys_step_def\<close>)
qed

lemma xapp_keeps:
  assumes "node_set D" "sys_inv D ep_fd st" "fair_xapp D st msg fds"
    "sys_step st (From_xapp info msg fds) = Inr (st', out)"
  shows "sys_inv D ep_fd st'"
proof -
  obtain fd where fd: "fds = [fd]" "0 < fd" "fd \<notin> set (io (s_ric st))"
    using assms(3) by (auto simp: fair_xapp_def length_Suc_conv)
  have b: "req_id (s_ric st) < 65536" "next_xapp_id (s_iapp st) < 65535"
    "length (e2reg_entries (e2_nodes (s_iapp st))) < 256" using assms(3) by (auto simp: fair_xapp_def)
  have inv: "iapp_inv D (s_iapp st)" "nodes_agree D st" using assms(2) by (simp_all add: sys_inv_def)
  obtain iapp' w' io' where ie: "e2_event_iapp near_ric_iface (s_iapp st) (s_ric st, fds, []) info msg = Inr (iapp', w', io')"
    using assms(4) by (auto simp: sys_step_def res_bind_eq_Inr)
  have same: "sys_inv D ep_fd st'" if "iapp' = s_iapp st" "w' = (s_ric st, fds, [])"
    using that assms(2,4) ie by (auto simp: sys_step_def sys_inv_def nodes_agree_def)
  show ?thesis
  proof (cases msg)
    case (E42_ric_sub_req sr)
    have d: "e42sr_id sr \<in> D" using assms(3) by (simp add: E42_ric_sub_req fair_xapp_def)
    have v: "ucast (e42sr_xapp_id sr) \<le> next_xapp_id (s_iapp st)" "valid_global_e2_node (s_iapp st) (e42sr_id sr) = Inr True"
      using ie by (auto simp: E42_ric_sub_req iapp_event_defs e2ap_handle_e42_ric_subscription_request_iapp_def
          res_bind_eq_Inr ric_prov.valid_xapp_id_16)
    then obtain s where s: "e2_sad_get (ep (s_ric st)) (e42sr_id sr) = Some s"
      using valid_node_known [OF assms(1) inv(1) d b(3)] inv(2) d by (auto simp: nodes_agree_def)
    show ?thesis
      by (rule sub_req_step [OF assms(1,2) b(1) v(1) d s b(3) fd(2,3), of info])
         (use assms(4) in \<open>simp add: E42_ric_sub_req fd(1)\<close>)
  next
    case (E42_ric_ctrl_req cr)
    have d: "e42cr_id cr \<in> D" using assms(3) by (simp add: E42_ric_ctrl_req fair_xapp_def)
    have v: "ucast (e42cr_xapp_id cr) \<le> next_xapp_id (s_iapp st)" "valid_global_e2_node (s_iapp st) (e42cr_id cr) = Inr True"
      using ie by (auto simp: E42_ric_ctrl_req iapp_event_defs e2ap_handle_e42_ric_control_request_iapp_def
          res_bind_eq_Inr ric_prov.valid_xapp_id_16)
    then obtain s where s: "e2_sad_get (ep (s_ric st)) (e42cr_id cr) = Some s"
      using valid_node_known [OF assms(1) inv(1) d b(3)] inv(2) d by (auto simp: nodes_agree_def)
    show ?thesis
      by (rule ctrl_req_step [OF assms(1,2) b(1) v(1) d s b(3) fd(2,3), of info])
         (use assms(4) in \<open>simp add: E42_ric_ctrl_req fd(1)\<close>)
  next
    case (E42_ric_sub_del_req src)
    let ?x = "\<lparr>xric_id = sdr_ric_id (e42sdr_sdr src), xapp_id = e42sdr_xapp_id src\<rparr>"
    obtain n w1 where n: "ric_id_node (ric_ids_map (s_iapp st)) ?x = Some n"
      "fwd_del_gen near_ric_iface (s_ric st, [fd], []) (e2_node_id n)
        ((e42sdr_sdr src)\<lparr>sdr_ric_id := (sdr_ric_id (e42sdr_sdr src))\<lparr>ric_req_id := ucast (nric_req_id n)\<rparr>\<rparr>) = Inr w1"
      using ie by (auto simp: E42_ric_sub_del_req fd(1) iapp_event_defs find_ric_req_map_ric_id_eq
          e2ap_handle_e42_ric_subscription_delete_request_iapp_def res_bind_eq_Inr Let_def split: option.splits)
    then obtain s where s: "e2_sad_get (ep (s_ric st)) (e2_node_id n) = Some s"
      by (auto simp: near_ric_iface_def fwd_ric_subscription_request_delete_def res_bind_eq_Inr
          e2ap_send_bytes_ric_def find_map_e2_node_sad_eq start_pending_event_def split: option.splits)
    have p: "pending_fd (pending (s_ric st)) \<lparr>ev = SUBSCRIPTION_DELETE_REQUEST_PENDING_EVENT,
        pid = (sdr_ric_id (e42sdr_sdr src))\<lparr>ric_req_id := ucast (nric_req_id n)\<rparr>\<rparr> = None"
      using assms(3) n(1) by (simp add: E42_ric_sub_del_req fair_xapp_def)
    show ?thesis
      by (rule del_req_step [OF assms(2) fd(2,3) n(1) p s, of info])
         (use assms(4) in \<open>simp add: E42_ric_sub_del_req fd(1)\<close>)
  next
    case (E42_stp_req req)
    have n: "e42_ran_func_item req \<noteq> []"
      using ie by (auto simp: E42_stp_req iapp_event_defs e2ap_handle_e42_setup_request_iapp_def
          generate_e42_setup_response_def res_bind_eq_Inr)
    obtain i2 where i2: "e2_event_iapp near_ric_iface (s_iapp st) (s_ric st, fds, []) info (E42_stp_req req) =
      Inr (i2, (s_ric st, fds, []), [(info, E42_stp_resp \<lparr>e42_xapp_id = ucast (next_xapp_id (s_iapp st)),
        e42_nodes = map (\<lambda>(k, arr). \<lparr>nc_id = k, ack_rf = arr\<rparr>) (e2reg_entries (e2_nodes (s_iapp st)))\<rparr>)])"
      "iapp_inv D i2" "ric_ids_map i2 = ric_ids_map (s_iapp st)" "e2_nodes i2 = e2_nodes (s_iapp st)"
      by (rule e42_setup_ok [OF assms(1) inv(1) n b(2,3)])
    then have "st' = \<lparr>s_ric = s_ric st, s_iapp = i2\<rparr>"
      using assms(4) by (simp add: sys_step_def E42_stp_req)
    then show ?thesis using assms(2) i2 by (simp add: sys_inv_def nodes_agree_def ric_prov.issued_def)
  next
    case (Ric_sub_resp r)
    then show ?thesis using ie same by (auto simp: iapp_event_defs e2ap_handle_subscription_response_iapp_def res_bind_eq_Inr Let_def)
  next
    case (Ric_sub_del_resp r)
    then show ?thesis using ie same by (auto simp: iapp_event_defs e2ap_handle_subscription_delete_response_iapp_def res_bind_eq_Inr)
  next
    case (Ric_ctrl_ack r)
    then show ?thesis using ie same by (auto simp: iapp_event_defs e2ap_handle_e42_ric_control_ack_iapp_def res_bind_eq_Inr Let_def)
  next
    case (Ric_ind r)
    then show ?thesis using ie same by (auto simp: iapp_event_defs e2ap_handle_ric_indication_iapp_def res_bind_eq_Inr Let_def)
  next
    case (Other_msg t)
    then show ?thesis
      using ie by (cases t) (auto simp: iapp_event_defs e2ap_handle_subscription_response_iapp_def
          e2ap_handle_subscription_delete_response_iapp_def e2ap_handle_e42_ric_control_ack_iapp_def
          e2ap_handle_ric_indication_iapp_def e2ap_handle_e42_setup_request_iapp_def
          e2ap_handle_e42_ric_subscription_request_iapp_def e2ap_handle_e42_ric_control_request_iapp_def
          e2ap_handle_e42_ric_subscription_delete_request_iapp_def)
  qed (use ie in \<open>auto simp: iapp_event_defs\<close>)
qed

section \<open>Reachable states\<close>

definition fair_sys :: "global_e2_node_id set \<Rightarrow> ('sri, 'wr, 'rd) sys \<Rightarrow> 'sri sys_event \<Rightarrow> bool" where
  "fair_sys D st e \<longleftrightarrow>
    (case e of From_ric_loop re \<Rightarrow> fair_event D (s_ric st) re | From_xapp info msg fds \<Rightarrow> fair_xapp D st msg fds)"

inductive sys_reach ::
  "global_e2_node_id set \<Rightarrow> int \<Rightarrow> ('wr, 'rd) sm_ric list \<Rightarrow> ('sri, 'wr, 'rd) sys \<Rightarrow> bool"
  for D ep_fd sms where
  sys_start: "sys_init ep_fd sms = Inr st \<Longrightarrow> sys_reach D ep_fd sms st"
| sys_next: "sys_reach D ep_fd sms st \<Longrightarrow> fair_sys D st e \<Longrightarrow> sys_step st e = Inr (st', out) \<Longrightarrow>
    sys_reach D ep_fd sms st'"

inductive_cases sys_reachE: "sys_reach D ep_fd sms st"

lemma sys_step_keeps:
  "node_set D \<Longrightarrow> sys_inv D ep_fd st \<Longrightarrow> fair_sys D st e \<Longrightarrow> sys_step st e = Inr (st', out) \<Longrightarrow> sys_inv D ep_fd st'"
  by (cases e) (auto simp: fair_sys_def intro: ric_loop_keeps xapp_keeps)

lemma sys_reach_inv:
  assumes "sys_reach D ep_fd sms st" "node_set D" "0 < ep_fd" "\<forall>sm\<in>set sms. 0 < sm_ran_func_id sm"
    "distinct (map sm_ran_func_id sms)"
  shows "sys_inv D ep_fd st"
  using assms(1)
proof (induction rule: sys_reach.induct)
  case (sys_start st)
  obtain st2 :: "('c, 'a, 'b) sys" where "sys_init ep_fd sms = Inr st2" "sys_inv D ep_fd st2"
    by (rule sys_init_ok [OF assms(3-5)])
  with sys_start show ?case by simp
next
  case (sys_next st e st' out)
  then show ?case using sys_step_keeps [OF assms(2)] by blast
qed

end
