(* ===== verification/E2apAsn.thy ===== *)
theory E2apAsn
  imports E2apMsg
begin

text \<open>
  The values the E2AP encoder fills and the decoder reads: the structures that the ASN.1
  compiler generates from the E2AP grammar (\<open>src/lib/ap/ie/asn\<close>), with the choices as
  datatypes, optional members as options, \<open>long\<close> and \<open>INTEGER_t\<close> members as integers, an
  \<open>OCTET_STRING_t\<close> as its bytes.  A \<open>present\<close> tag and the \<open>choice\<close> it selects are one
  constructor.  With them the conversions of \<open>src/util/conversions.h\<close> and the helpers that
  the encoder (\<open>enc/e2ap_msg_enc_asn.c\<close>) and the decoder (\<open>dec/e2ap_msg_dec_asn.c\<close>) share
  among messages: causes, RAN functions, node identifiers and component updates.
\<close>

unbundle bit_operations_syntax

section \<open>Constants of \<open>global_consts.h\<close>\<close>

definition MAX_NUM_ACTION_DEF :: int where "MAX_NUM_ACTION_DEF = 16"
definition MAX_NUM_RAN_FUNC_ID :: int where "MAX_NUM_RAN_FUNC_ID = 256"
definition MAX_NUM_E2_NODE_COMPONENTS :: int where "MAX_NUM_E2_NODE_COMPONENTS = 1024"
definition MAX_NUM_TNLA :: int where "MAX_NUM_TNLA = 32"
definition MAX_RAN_FUNC_ID :: int where "MAX_RAN_FUNC_ID = 4096"
definition MAX_RAN_FUNC_REV :: int where "MAX_RAN_FUNC_REV = 4096"
definition MAX_RIC_REQUEST_ID :: int where "MAX_RIC_REQUEST_ID = 65536"
definition MAX_RIC_INSTANCE_ID :: int where "MAX_RIC_INSTANCE_ID = 65536"
definition MAX_RIC_ACTION_ID :: int where "MAX_RIC_ACTION_ID = 256"
definition MAX_RIC_INDICATION_SN :: int where "MAX_RIC_INDICATION_SN = 65536"
definition MAX_RIC_INDICATION_TYPE :: int where "MAX_RIC_INDICATION_TYPE = 2"

lemmas global_consts = MAX_NUM_ACTION_DEF_def MAX_NUM_RAN_FUNC_ID_def
  MAX_NUM_E2_NODE_COMPONENTS_def MAX_NUM_TNLA_def MAX_RAN_FUNC_ID_def MAX_RAN_FUNC_REV_def
  MAX_RIC_REQUEST_ID_def MAX_RIC_INSTANCE_ID_def MAX_RIC_ACTION_ID_def
  MAX_RIC_INDICATION_SN_def MAX_RIC_INDICATION_TYPE_def

section \<open>Network identities and node numbers (\<open>conversions.h\<close>)\<close>

type_synonym OCTET_STRING = "u8 list"

record BIT_STRING =
  bs_buf :: "u8 list"
  bits_unused :: nat

definition MCC_HUNDREDS :: "nat \<Rightarrow> nat" where
  "MCC_HUNDREDS v = v div 100"

definition MNC_HUNDREDS :: "nat \<Rightarrow> nat \<Rightarrow> nat" where
  "MNC_HUNDREDS v len = (if len = 2 then 15 else v div 100)"

definition MCC_MNC_DECIMAL :: "nat \<Rightarrow> nat" where
  "MCC_MNC_DECIMAL v = (v div 10) mod 10"

definition MCC_MNC_DIGIT :: "nat \<Rightarrow> nat" where
  "MCC_MNC_DIGIT v = v mod 10"

definition MCC_MNC_TO_PLMNID :: "u16 \<Rightarrow> u16 \<Rightarrow> u8 \<Rightarrow> OCTET_STRING" where
  "MCC_MNC_TO_PLMNID mCC mNC len =
    [of_nat (push_bit 4 (MCC_MNC_DECIMAL (unat mCC)) OR MCC_HUNDREDS (unat mCC)),
     of_nat (push_bit 4 (MNC_HUNDREDS (unat mNC) (unat len)) OR MCC_MNC_DIGIT (unat mCC)),
     of_nat (push_bit 4 (MCC_MNC_DIGIT (unat mNC)) OR MCC_MNC_DECIMAL (unat mNC))]"

text \<open>The result is the triple \<open>(mCC, mNC, mNCdIGITlENGTH)\<close>, of the widths of \<open>plmn_t\<close>.\<close>

definition PLMNID_TO_MCC_MNC :: "OCTET_STRING \<Rightarrow> plmn res" where
  "PLMNID_TO_MCC_MNC buf =
    (case buf of
       b0 # b1 # b2 # _ \<Rightarrow>
         let len = (if unat b1 div 16 mod 16 = 15 then 2 else 3) in
         Inr \<lparr>mcc = of_nat (unat b0 mod 16 * 100 + unat b0 div 16 mod 16 * 10 + unat b1 mod 16),
              mnc = of_nat ((if len = 2 then 0 else unat b1 div 16 mod 16 * 100) +
                            unat b2 mod 16 * 10 + unat b2 div 16 mod 16),
              mnc_digit_len = of_nat len\<rparr>
     | _ \<Rightarrow> Inl OutOfBounds)"

definition MACRO_ENB_ID_TO_BIT_STRING :: "u32 \<Rightarrow> BIT_STRING" where
  "MACRO_ENB_ID_TO_BIT_STRING m =
    \<lparr>bs_buf = [ucast (drop_bit 12 m), ucast (drop_bit 4 m), ucast (push_bit 4 (m AND 15))],
     bits_unused = 4\<rparr>"

definition BIT_STRING_TO_MACRO_ENB_ID :: "BIT_STRING \<Rightarrow> u32 res" where
  "BIT_STRING_TO_MACRO_ENB_ID a =
    (if bits_unused a \<noteq> 4 then Inl AssertFail
     else case bs_buf a of
       b0 # b1 # b2 # _ \<Rightarrow>
         Inr (push_bit 12 (ucast b0) OR push_bit 4 (ucast b1) OR drop_bit 4 (ucast b2))
     | _ \<Rightarrow> Inl OutOfBounds)"

definition MACRO_GNB_ID_TO_BIT_STRING :: "u32 \<Rightarrow> BIT_STRING" where
  "MACRO_GNB_ID_TO_BIT_STRING m =
    \<lparr>bs_buf = [ucast (drop_bit 20 m), ucast (drop_bit 12 m), ucast (drop_bit 4 m),
               ucast (push_bit 4 (m AND 15))],
     bits_unused = 4\<rparr>"

definition BIT_STRING_TO_MACRO_GNB_ID :: "BIT_STRING \<Rightarrow> u32 res" where
  "BIT_STRING_TO_MACRO_GNB_ID a =
    (if bits_unused a \<noteq> 4 then Inl AssertFail
     else case bs_buf a of
       b0 # b1 # b2 # b3 # _ \<Rightarrow>
         Inr (push_bit 20 (ucast b0) OR push_bit 12 (ucast b1) OR push_bit 4 (ucast b2) OR
              drop_bit 4 (ucast b3))
     | _ \<Rightarrow> Inl OutOfBounds)"

text \<open>Only the low 20 bits of the number of an eNB and the low 28 of a gNB survive.\<close>

lemma word_15_eq_mask: "(15 :: u32) = mask 4"
  by (simp add: mask_eq_exp_minus_1)

lemma enb_id_bits:
  "push_bit 12 (ucast (ucast (drop_bit 12 m) :: u8)) OR push_bit 4 (ucast (ucast (drop_bit 4 m) :: u8)) OR
    drop_bit 4 (ucast (ucast (push_bit 4 (m AND mask 4)) :: u8)) = (take_bit 20 m :: u32)" (is "?l = ?r")
proof (rule bit_word_eqI)
  fix n assume "n < LENGTH(32)"
  then consider "n < 4" | "4 \<le> n" "n < 12" | "12 \<le> n" "n < 20" | "20 \<le> n" "n < 32" by fastforce
  then show "bit ?l n = bit ?r n" by cases (auto simp: bit_simps)
qed

lemma gnb_id_bits:
  "push_bit 20 (ucast (ucast (drop_bit 20 m) :: u8)) OR push_bit 12 (ucast (ucast (drop_bit 12 m) :: u8)) OR
    push_bit 4 (ucast (ucast (drop_bit 4 m) :: u8)) OR
    drop_bit 4 (ucast (ucast (push_bit 4 (m AND mask 4)) :: u8)) = (take_bit 28 m :: u32)" (is "?l = ?r")
proof (rule bit_word_eqI)
  fix n assume "n < LENGTH(32)"
  then consider "n < 4" | "4 \<le> n" "n < 12" | "12 \<le> n" "n < 20" | "20 \<le> n" "n < 28" | "28 \<le> n" "n < 32"
    by fastforce
  then show "bit ?l n = bit ?r n" by cases (auto simp: bit_simps)
qed

lemma macro_enb_round_trip:
  "BIT_STRING_TO_MACRO_ENB_ID (MACRO_ENB_ID_TO_BIT_STRING m) = Inr (take_bit 20 m)"
  by (simp add: BIT_STRING_TO_MACRO_ENB_ID_def MACRO_ENB_ID_TO_BIT_STRING_def word_15_eq_mask enb_id_bits
    del: push_bit_and)

lemma macro_gnb_round_trip:
  "BIT_STRING_TO_MACRO_GNB_ID (MACRO_GNB_ID_TO_BIT_STRING m) = Inr (take_bit 28 m)"
  by (simp add: BIT_STRING_TO_MACRO_GNB_ID_def MACRO_GNB_ID_TO_BIT_STRING_def word_15_eq_mask gnb_id_bits
    del: push_bit_and)

lemma push_nibble: "b < 16 \<Longrightarrow> push_bit 4 a OR b = 16 * a + (b :: nat)"
proof -
  assume b: "b < 16"
  have "push_bit 4 a + b = push_bit 4 a OR b"
  proof (rule disjunctive_add)
    fix n
    have "\<not> bit b n" if "4 \<le> n"
    proof -
      have "b < 2 ^ n" using b that power_increasing [of 4 n "2 :: nat"] by simp
      then show ?thesis by (simp add: bit_iff_odd)
    qed
    then show "\<not> bit (push_bit 4 a) n \<or> \<not> bit b n" by (auto simp: bit_push_bit_iff)
  qed
  then show ?thesis by (simp add: push_bit_eq_mult)
qed

lemma decimal_digits: "m div 100 * 100 + (m div 10) mod 10 * 10 + m mod 10 = (m :: nat)"
proof -
  have "m div 10 div 10 * 10 + (m div 10) mod 10 = m div 10" by (rule div_mult_mod_eq)
  moreover have "m div 10 * 10 + m mod 10 = m" by (rule div_mult_mod_eq)
  moreover have "m div 10 div 10 = m div 100" by (simp add: div_mult2_eq [symmetric])
  ultimately show ?thesis by linarith
qed

lemma low_nibble: "unat (of_nat (push_bit 4 a OR b) :: u8) mod 16 = b mod 16"
proof -
  have "take_bit 4 (push_bit 4 a OR b) = take_bit 4 b"
    by (simp add: take_bit_or take_bit_push_bit)
  then have "(push_bit 4 a OR b) mod 16 = b mod 16" by (simp add: take_bit_eq_mod)
  moreover have "unat (of_nat n :: u8) mod 16 = n mod 16" for n
    by (simp add: unat_of_nat take_bit_eq_mod mod_mod_cancel)
  ultimately show ?thesis by simp
qed

lemma high_nibble: "b < 16 \<Longrightarrow> unat (of_nat (push_bit 4 a OR b) :: u8) div 16 mod 16 = a mod 16"
proof -
  assume b: "b < 16"
  have "unat (of_nat (push_bit 4 a OR b) :: u8) = (16 * a + b) mod 256"
    unfolding push_nibble [OF b] unat_of_nat by (simp add: take_bit_eq_mod)
  moreover have "(16 * a + b) mod 256 = 16 * (a mod 16) + b"
    using b mod_mult2_eq [of "16 * a + b" 16 16] by simp
  ultimately show ?thesis using b by simp
qed

lemma PLMNID_TO_MCC_MNC_nibbles:
  assumes "unat b0 mod 16 = h" "unat b0 div 16 mod 16 = d" "unat b1 mod 16 = u"
    "unat b1 div 16 mod 16 = nh" "unat b2 mod 16 = nd" "unat b2 div 16 mod 16 = nu"
  shows "PLMNID_TO_MCC_MNC [b0, b1, b2] =
    Inr \<lparr>mcc = of_nat (h * 100 + d * 10 + u),
         mnc = of_nat ((if nh = 15 then 0 else nh * 100) + nd * 10 + nu),
         mnc_digit_len = (if nh = 15 then 2 else 3)\<rparr>"
  using assms by (simp add: PLMNID_TO_MCC_MNC_def Let_def)

text \<open>The network identities that survive: decimal codes, with room for three digits and a
  little more, and a network code that agrees with its length.\<close>

definition plmn_ok :: "plmn \<Rightarrow> bool" where
  "plmn_ok p \<longleftrightarrow> unat (mcc p) < 1600 \<and>
    (mnc_digit_len p = 2 \<and> unat (mnc p) < 100 \<or> mnc_digit_len p = 3 \<and> unat (mnc p) < 1500)"

lemma PLMNID_of_MCC_MNC:
  fixes p :: plmn
  defines "c \<equiv> unat (mcc p)" and "n \<equiv> unat (mnc p)" and "nh \<equiv> MNC_HUNDREDS (unat (mnc p)) (unat (mnc_digit_len p)) mod 16"
  obtains d where
    "PLMNID_TO_MCC_MNC (MCC_MNC_TO_PLMNID (mcc p) (mnc p) (mnc_digit_len p)) =
      Inr \<lparr>mcc = of_nat (c div 100 mod 16 * 100 + d * 10 + c mod 10),
           mnc = of_nat ((if nh = 15 then 0 else nh * 100) + n div 10 mod 10 * 10 + n mod 10),
           mnc_digit_len = (if nh = 15 then 2 else 3)\<rparr>"
    "d < 16" "c < 1600 \<longrightarrow> d = c div 10 mod 10"
proof -
  have m1: "v mod 10 < 16" for v :: nat
    using mod_less_divisor [of 10 v] by linarith
  note m = m1 mod_less [OF m1]
  let ?b0 = "of_nat (push_bit 4 (MCC_MNC_DECIMAL c) OR MCC_HUNDREDS c) :: u8"
  show thesis
  proof (rule that [of "unat ?b0 div 16 mod 16"])
    show "PLMNID_TO_MCC_MNC (MCC_MNC_TO_PLMNID (mcc p) (mnc p) (mnc_digit_len p)) =
      Inr \<lparr>mcc = of_nat (c div 100 mod 16 * 100 + unat ?b0 div 16 mod 16 * 10 + c mod 10),
           mnc = of_nat ((if nh = 15 then 0 else nh * 100) + n div 10 mod 10 * 10 + n mod 10),
           mnc_digit_len = (if nh = 15 then 2 else 3)\<rparr>"
      unfolding MCC_MNC_TO_PLMNID_def c_def [symmetric] n_def [symmetric]
      by (rule PLMNID_TO_MCC_MNC_nibbles)
         (simp_all only: low_nibble high_nibble m MCC_MNC_DECIMAL_def MCC_MNC_DIGIT_def MCC_HUNDREDS_def nh_def n_def)
    show "unat ?b0 div 16 mod 16 < 16" by simp
    show "c < 1600 \<longrightarrow> unat ?b0 div 16 mod 16 = c div 10 mod 10"
    proof
      assume "c < 1600"
      then have "MCC_HUNDREDS c < 16" by (simp add: MCC_HUNDREDS_def)
      then show "unat ?b0 div 16 mod 16 = c div 10 mod 10"
        by (simp only: high_nibble MCC_MNC_DECIMAL_def m)
    qed
  qed
qed

lemma of_nat_u16_eq: "k < 65536 \<Longrightarrow> (of_nat k :: u16) = w \<longleftrightarrow> unat w = k"
  by (auto simp: unat_of_nat take_bit_eq_mod)

lemma mcc_digits:
  fixes c d :: nat
  assumes "d < 16" "c < 1600 \<longrightarrow> d = c div 10 mod 10"
  shows "c = c div 100 mod 16 * 100 + d * 10 + c mod 10 \<longleftrightarrow> c < 1600"
proof
  assume "c < 1600"
  then show "c = c div 100 mod 16 * 100 + d * 10 + c mod 10"
    using assms(2) decimal_digits [of c] by simp
next
  assume e: "c = c div 100 mod 16 * 100 + d * 10 + c mod 10"
  have b: "c mod 10 < 10" "c div 100 mod 16 \<le> 15" using mod_less_divisor [of 16 "c div 100"] by linarith+
  show "c < 1600"
  proof (rule ccontr)
    assume "\<not> c < 1600"
    then have "c div 100 = 16" using e b assms(1) by linarith
    then show False using e b assms(1) \<open>\<not> c < 1600\<close> by simp
  qed
qed

lemma mnc_digits:
  fixes n l :: nat
  defines "nh \<equiv> MNC_HUNDREDS n l mod 16"
  shows "n = (if nh = 15 then 0 else nh * 100) + n div 10 mod 10 * 10 + n mod 10 \<and> l = (if nh = 15 then 2 else 3) \<longleftrightarrow>
    l = 2 \<and> n < 100 \<or> l = 3 \<and> n < 1500"
proof (cases "l = 2")
  case True
  let ?x = "n div 10 mod 10 * 10 + n mod 10"
  have "?x < 100" using mod_less_divisor [of 10 n] mod_less_divisor [of 10 "n div 10"] by linarith
  moreover have "n < 100 \<Longrightarrow> n = ?x" using decimal_digits [of n] by simp
  ultimately have x: "n = ?x \<longleftrightarrow> n < 100" by metis
  have "nh = 15" using True by (simp add: nh_def MNC_HUNDREDS_def)
  moreover from this have e: "(if nh = 15 then 0 else nh * 100) + n div 10 mod 10 * 10 + n mod 10 = ?x" by simp
  ultimately show ?thesis unfolding e x using True by simp
next
  case False
  have b: "n div 10 mod 10 < 10" "n mod 10 < 10" "n div 100 mod 16 < 16" by simp_all
  show ?thesis
  proof
    assume l: "n = (if nh = 15 then 0 else nh * 100) + n div 10 mod 10 * 10 + n mod 10 \<and> l = (if nh = 15 then 2 else 3)"
    have nh: "nh \<noteq> 15" "l = 3" using conjunct2 [OF l] False by (auto split: if_splits)
    have "nh < 16" by (simp add: nh_def)
    then have "nh \<le> 14" using nh(1) by linarith
    moreover have "n = nh * 100 + n div 10 mod 10 * 10 + n mod 10"
      using conjunct1 [OF l] nh(1) by presburger
    ultimately have "n < 1500" using b by linarith
    then show "l = 2 \<and> n < 100 \<or> l = 3 \<and> n < 1500" using nh(2) by simp
  next
    assume "l = 2 \<and> n < 100 \<or> l = 3 \<and> n < 1500"
    then have n: "l = 3" "n div 100 < 15" using False by auto
    then have "nh = n div 100" by (simp add: nh_def MNC_HUNDREDS_def)
    then show "n = (if nh = 15 then 0 else nh * 100) + n div 10 mod 10 * 10 + n mod 10 \<and> l = (if nh = 15 then 2 else 3)"
      using n by (simp add: decimal_digits)
  qed
qed

lemma plmn_trip:
  "PLMNID_TO_MCC_MNC (MCC_MNC_TO_PLMNID (mcc p) (mnc p) (mnc_digit_len p)) = Inr p \<longleftrightarrow> plmn_ok p"
proof -
  let ?c = "unat (mcc p)" and ?n = "unat (mnc p)" and ?l = "unat (mnc_digit_len p)"
  let ?nh = "MNC_HUNDREDS ?n ?l mod 16"
  obtain d where
    d: "PLMNID_TO_MCC_MNC (MCC_MNC_TO_PLMNID (mcc p) (mnc p) (mnc_digit_len p)) =
      Inr \<lparr>mcc = of_nat (?c div 100 mod 16 * 100 + d * 10 + ?c mod 10),
           mnc = of_nat ((if ?nh = 15 then 0 else ?nh * 100) + ?n div 10 mod 10 * 10 + ?n mod 10),
           mnc_digit_len = (if ?nh = 15 then 2 else 3)\<rparr>"
      "d < 16" "?c < 1600 \<longrightarrow> d = ?c div 10 mod 10"
    by (rule PLMNID_of_MCC_MNC)
  have b: "?c div 100 mod 16 \<le> 15" "?c mod 10 < 10" "?n div 10 mod 10 < 10" "?n mod 10 < 10" "?nh \<le> 15"
    using mod_less_divisor [of 16 "?c div 100"] mod_less_divisor [of 16 "MNC_HUNDREDS ?n ?l"] by linarith+
  have eq: "Inr \<lparr>mcc = x, mnc = y, mnc_digit_len = z\<rparr> = (Inr p :: plmn res) \<longleftrightarrow>
      x = mcc p \<and> y = mnc p \<and> z = mnc_digit_len p" for x y z
    by (cases p) auto
  have k: "?c div 100 mod 16 * 100 + d * 10 + ?c mod 10 < 65536" using b d(2) by linarith
  have k': "(if ?nh = 15 then 0 else ?nh * 100) + ?n div 10 mod 10 * 10 + ?n mod 10 < 65536"
    using b by (auto split: if_splits)
  have l: "(if ?nh = 15 then 2 else 3) = mnc_digit_len p \<longleftrightarrow> ?l = (if ?nh = 15 then 2 else 3)"
    by (auto simp: word_unat_eq_iff)
  have m: "mnc_digit_len p = 2 \<longleftrightarrow> ?l = 2" "mnc_digit_len p = 3 \<longleftrightarrow> ?l = 3"
    by (auto simp: word_unat_eq_iff)
  show ?thesis
    unfolding d(1) eq of_nat_u16_eq [OF k] of_nat_u16_eq [OF k'] l mcc_digits [OF d(2,3)] mnc_digits plmn_ok_def m
    by (rule refl)
qed

section \<open>Causes\<close>

datatype Cause_PR =
    Cause_PR_NOTHING | Cause_PR_ricRequest | Cause_PR_ricService | Cause_PR_transport
  | Cause_PR_protocol | Cause_PR_misc

record Cause_t =
  cause_pr :: Cause_PR
  cause_choice :: int

text \<open>The tag \<open>cause_e\<close> of \<open>cause_t\<close> is kept as its number: \<open>CAUSE_NOTHING\<close> is 0,
  \<open>CAUSE_MISC\<close> is 5.\<close>

definition enc_copy_cause :: "cause \<Rightarrow> Cause_t res" where
  "enc_copy_cause src =
    (let put = (\<lambda>pr n. if cause_val src < n
                        then Inr \<lparr>cause_pr = pr, cause_choice = uint (cause_val src)\<rparr>
                        else Inl AssertFail) in
     if present src = 1 then put Cause_PR_ricRequest 11
     else if present src = 2 then put Cause_PR_ricService 3
     else if present src = 3 then put Cause_PR_transport 2
     else if present src = 4 then put Cause_PR_protocol 7
     else if present src = 5 then put Cause_PR_misc 4
     else Inl AssertFail)"

definition dec_copy_cause :: "Cause_t \<Rightarrow> cause res" where
  "dec_copy_cause src =
    (let get = (\<lambda>p n. if cause_choice src < n
                       then Inr \<lparr>present = p, cause_val = word_of_int (cause_choice src)\<rparr>
                       else Inl AssertFail) in
     case cause_pr src of
       Cause_PR_NOTHING \<Rightarrow> Inl AssertFail
     | Cause_PR_ricRequest \<Rightarrow> get 1 11
     | Cause_PR_ricService \<Rightarrow> get 2 3
     | Cause_PR_transport \<Rightarrow> get 3 2
     | Cause_PR_protocol \<Rightarrow> get 4 7
     | Cause_PR_misc \<Rightarrow> get 5 4)"

definition cause_ok :: "cause \<Rightarrow> bool" where
  "cause_ok c \<longleftrightarrow>
    present c = 1 \<and> cause_val c < 11 \<or> present c = 2 \<and> cause_val c < 3 \<or> present c = 3 \<and> cause_val c < 2 \<or>
    present c = 4 \<and> cause_val c < 7 \<or> present c = 5 \<and> cause_val c < 4"

lemma enc_copy_cause_not_ok: "\<not> cause_ok c \<Longrightarrow> enc_copy_cause c = Inl AssertFail"
  by (auto simp: enc_copy_cause_def cause_ok_def Let_def)

lemma enc_copy_cause_ok:
  assumes "cause_ok c"
  obtains a where "enc_copy_cause c = Inr a" "dec_copy_cause a = Inr c"
  using assms
  by (cases c) (auto simp: enc_copy_cause_def dec_copy_cause_def cause_ok_def Let_def word_less_def)

section \<open>RAN functions\<close>

record RANfunction_Item =
  ranFunctionID :: int
  ranFunctionDefinition :: OCTET_STRING
  ranFunctionRevision :: int
  ranFunctionOID :: "OCTET_STRING option"

definition enc_copy_ran_function :: "ran_function \<Rightarrow> RANfunction_Item" where
  "enc_copy_ran_function src =
    \<lparr>ranFunctionID = uint (rf_id src), ranFunctionDefinition = rf_def src,
     ranFunctionRevision = uint (rf_rev src), ranFunctionOID = rf_oid src\<rparr>"

definition dec_copy_ran_function :: "RANfunction_Item \<Rightarrow> ran_function" where
  "dec_copy_ran_function src =
    \<lparr>rf_def = ranFunctionDefinition src, rf_id = word_of_int (ranFunctionID src),
     rf_rev = word_of_int (ranFunctionRevision src), rf_oid = ranFunctionOID src\<rparr>"

text \<open>The loops of the setup messages test the numbers before they copy.\<close>

definition dec_checked_ran_function :: "RANfunction_Item \<Rightarrow> ran_function res" where
  "dec_checked_ran_function src =
    (if \<not> ranFunctionID src \<le> MAX_RAN_FUNC_ID then Inl AssertFail
     else if \<not> (ranFunctionRevision src > -1 \<and> ranFunctionRevision src \<le> MAX_RAN_FUNC_REV) then Inl AssertFail
     else Inr (dec_copy_ran_function src))"

lemma ran_function_round_trip [simp]: "dec_copy_ran_function (enc_copy_ran_function f) = f"
  by (simp add: dec_copy_ran_function_def enc_copy_ran_function_def)

definition rf_ok :: "ran_function \<Rightarrow> bool" where
  "rf_ok f \<longleftrightarrow> rf_id f \<le> 4096 \<and> rf_rev f \<le> 4096"

lemma checked_ran_function [simp]:
  "dec_checked_ran_function (enc_copy_ran_function f) = (if rf_ok f then Inr f else Inl AssertFail)"
proof -
  have "-1 < uint (rf_rev f)" by (rule order_less_le_trans [of _ 0]) simp_all
  then show ?thesis
    using ran_function_round_trip [of f]
    by (auto simp: dec_checked_ran_function_def global_consts rf_ok_def word_le_def enc_copy_ran_function_def)
qed

section \<open>Identifiers of E2 nodes\<close>

datatype GNB_ID_Choice_PR = GNB_ID_Choice_PR_NOTHING | GNB_ID_Choice_PR_gnb_ID

datatype ENB_ID_PR =
    ENB_ID_PR_NOTHING | ENB_ID_PR_macro_eNB_ID | ENB_ID_PR_home_eNB_ID
  | ENB_ID_PR_short_Macro_eNB_ID | ENB_ID_PR_long_Macro_eNB_ID

record GlobalE2node_gNB_ID =
  gnb_plmn_id :: OCTET_STRING
  gnb_id_present :: GNB_ID_Choice_PR
  gnb_ID :: BIT_STRING
  gNB_CU_UP_ID :: "int option"
  gNB_DU_ID :: "int option"

record GlobalE2node_eNB_ID =
  enb_pLMN_Identity :: OCTET_STRING
  eNB_ID_present :: ENB_ID_PR
  macro_eNB_ID :: BIT_STRING

text \<open>The content of the two choices that the code never reads is left out.\<close>

datatype GlobalE2node_ID =
    GlobalE2node_ID_PR_NOTHING
  | GlobalE2node_ID_PR_gNB GlobalE2node_gNB_ID
  | GlobalE2node_ID_PR_en_gNB
  | GlobalE2node_ID_PR_ng_eNB
  | GlobalE2node_ID_PR_eNB GlobalE2node_eNB_ID

definition read_cu_du_id :: "global_e2_node_id \<Rightarrow> int res" where
  "read_cu_du_id n = (case cu_du_id n of None \<Rightarrow> Inl NullDeref | Some v \<Rightarrow> Inr (uint v))"

definition enc_global_e2_node_id :: "global_e2_node_id \<Rightarrow> GlobalE2node_ID res" where
  "enc_global_e2_node_id n =
    (if \<not> (ntype n = Ngran_gNB \<or> ntype n = Ngran_gNB_CU \<or> ntype n = Ngran_gNB_DU \<or> ntype n = Ngran_eNB)
     then Inl AssertFail
     else
       let pl = MCC_MNC_TO_PLMNID (mcc (nplmn n)) (mnc (nplmn n)) (mnc_digit_len (nplmn n)) in
       if ntype n \<noteq> Ngran_eNB then
         res_bind (if ntype n = Ngran_gNB_CU then res_bind (read_cu_du_id n) (\<lambda>v. Inr (Some v)) else Inr None) (\<lambda>cu.
         res_bind (if ntype n = Ngran_gNB_DU then res_bind (read_cu_du_id n) (\<lambda>v. Inr (Some v)) else Inr None) (\<lambda>du.
         Inr (GlobalE2node_ID_PR_gNB
               \<lparr>gnb_plmn_id = pl, gnb_id_present = GNB_ID_Choice_PR_gnb_ID,
                gnb_ID = MACRO_GNB_ID_TO_BIT_STRING (nb_id n), gNB_CU_UP_ID = cu, gNB_DU_ID = du\<rparr>)))
       else
         Inr (GlobalE2node_ID_PR_eNB
               \<lparr>enb_pLMN_Identity = pl, eNB_ID_present = ENB_ID_PR_macro_eNB_ID,
                macro_eNB_ID = MACRO_ENB_ID_TO_BIT_STRING (nb_id n)\<rparr>))"

definition dec_global_e2_node_id :: "GlobalE2node_ID \<Rightarrow> global_e2_node_id res" where
  "dec_global_e2_node_id v =
    (case v of
       GlobalE2node_ID_PR_gNB g \<Rightarrow>
         if gnb_id_present g \<noteq> GNB_ID_Choice_PR_gnb_ID then Inl AssertFail
         else
           res_bind (PLMNID_TO_MCC_MNC (gnb_plmn_id g)) (\<lambda>pl.
           res_bind (BIT_STRING_TO_MACRO_GNB_ID (gnb_ID g)) (\<lambda>nb.
           Inr (case gNB_CU_UP_ID g of
                  Some cu \<Rightarrow> \<lparr>ntype = Ngran_gNB_CU, nplmn = pl, nb_id = nb, cu_du_id = Some (word_of_int cu)\<rparr>
                | None \<Rightarrow>
                    (case gNB_DU_ID g of
                       Some du \<Rightarrow> \<lparr>ntype = Ngran_gNB_DU, nplmn = pl, nb_id = nb, cu_du_id = Some (word_of_int du)\<rparr>
                     | None \<Rightarrow> \<lparr>ntype = Ngran_gNB, nplmn = pl, nb_id = nb, cu_du_id = None\<rparr>))))
     | GlobalE2node_ID_PR_eNB e \<Rightarrow>
         if eNB_ID_present e \<noteq> ENB_ID_PR_macro_eNB_ID then Inl AssertFail
         else
           res_bind (PLMNID_TO_MCC_MNC (enb_pLMN_Identity e)) (\<lambda>pl.
           res_bind (BIT_STRING_TO_MACRO_ENB_ID (macro_eNB_ID e)) (\<lambda>nb.
           Inr \<lparr>ntype = Ngran_eNB, nplmn = pl, nb_id = nb, cu_du_id = None\<rparr>))
     | _ \<Rightarrow> Inl AssertFail)"

text \<open>The node identifiers that survive the wire: a supported type, a network identity of
  decimal codes, a node number of 28 bits (20 for an eNB), and the identifier of a split node
  exactly when the node is split.\<close>

definition node_id_ok :: "global_e2_node_id \<Rightarrow> bool" where
  "node_id_ok n \<longleftrightarrow> plmn_ok (nplmn n) \<and>
    (ntype n = Ngran_eNB \<and> take_bit 20 (nb_id n) = nb_id n \<and> cu_du_id n = None \<or>
     ntype n = Ngran_gNB \<and> take_bit 28 (nb_id n) = nb_id n \<and> cu_du_id n = None \<or>
     (ntype n = Ngran_gNB_CU \<or> ntype n = Ngran_gNB_DU) \<and> take_bit 28 (nb_id n) = nb_id n \<and> cu_du_id n \<noteq> None)"

lemma node_id_trip: "res_bind (enc_global_e2_node_id n) dec_global_e2_node_id = Inr n \<longleftrightarrow> node_id_ok n"
proof -
  let ?pl = "PLMNID_TO_MCC_MNC (MCC_MNC_TO_PLMNID (mcc (nplmn n)) (mnc (nplmn n)) (mnc_digit_len (nplmn n)))"
  show ?thesis
    by (cases n; cases "ntype n"; cases ?pl)
       (auto simp: node_id_ok_def enc_global_e2_node_id_def dec_global_e2_node_id_def read_cu_du_id_def Let_def
         plmn_trip [symmetric] macro_enb_round_trip macro_gnb_round_trip split: option.splits)
qed

end
