(* ===== verification/E2apPdu.thy ===== *)
theory E2apPdu
  imports E2apAsn
begin

text \<open>
  The PDU between the two halves of the E2AP layer.  The encoder fills one and hands it to the
  aligned PER codec that the ASN.1 compiler generated, the decoder reads the one this codec
  returns.  A PDU is its kind, the procedure code, the criticality, the tag of the message and
  the list of information elements; an element is an identifier, a criticality and a value, and
  the items of a list are elements again.
\<close>

section \<open>Names of the grammar\<close>

datatype ProtocolIE_ID =
    Id_Cause | Id_CriticalityDiagnostics | Id_GlobalE2node_ID | Id_GlobalRIC_ID | Id_RANfunctionID
  | Id_RANfunctionID_Item | Id_RANfunctionIEcause_Item | Id_RANfunction_Item | Id_RANfunctionsAccepted
  | Id_RANfunctionsAdded | Id_RANfunctionsDeleted | Id_RANfunctionsModified | Id_RANfunctionsRejected
  | Id_RICaction_Admitted_Item | Id_RICactionID | Id_RICaction_NotAdmitted_Item | Id_RICactions_Admitted
  | Id_RICactions_NotAdmitted | Id_RICaction_ToBeSetup_Item | Id_RICcallProcessID
  | Id_RICcontrolAckRequest | Id_RICcontrolHeader | Id_RICcontrolMessage | Id_RICcontrolStatus
  | Id_RICindicationHeader | Id_RICindicationMessage | Id_RICindicationSN | Id_RICindicationType
  | Id_RICrequestID | Id_RICsubscriptionDetails | Id_TimeToWait | Id_RICcontrolOutcome
  | Id_E2nodeComponentConfigUpdate | Id_E2nodeComponentConfigUpdate_Item
  | Id_E2nodeComponentConfigUpdateAck | Id_E2nodeComponentConfigUpdateAck_Item
  | Id_E2connectionSetup | Id_E2connectionSetupFailed | Id_E2connectionSetupFailed_Item
  | Id_E2connectionFailed_Item | Id_E2connectionUpdate_Item | Id_E2connectionUpdateAdd
  | Id_E2connectionUpdateModify | Id_E2connectionUpdateRemove | Id_E2connectionUpdateRemove_Item
  | Id_TNLinformation | Id_XAPP_ID | Id_E2nodesConnected | Id_NODEfunctionID_Item

datatype ProcedureCode =
    Proc_E2setup | Proc_ErrorIndication | Proc_Reset | Proc_RICcontrol | Proc_RICindication
  | Proc_RICserviceQuery | Proc_RICserviceUpdate | Proc_RICsubscription | Proc_RICsubscriptionDelete
  | Proc_E2nodeConfigurationUpdate | Proc_E2connectionUpdate | Proc_E42setup
  | Proc_E42RICsubscription | Proc_E42RICsubscriptionDelete | Proc_E42RICcontrol

datatype Criticality = Criticality_reject | Criticality_ignore | Criticality_notify

datatype E2AP_PDU_PR =
    E2AP_PDU_PR_NOTHING | E2AP_PDU_PR_initiatingMessage | E2AP_PDU_PR_successfulOutcome
  | E2AP_PDU_PR_unsuccessfulOutcome

text \<open>The tags of the three message unions, as one type.\<close>

datatype value_PR =
    PR_RICsubscriptionRequest | PR_RICsubscriptionDeleteRequest | PR_RICserviceUpdate
  | PR_RICcontrolRequest | PR_E2setupRequest | PR_E2nodeConfigurationUpdate | PR_E2connectionUpdate
  | PR_ResetRequest | PR_E42setupRequest | PR_E42RICsubscriptionRequest
  | PR_E42RICsubscriptionDeleteRequest | PR_E42RICcontrolRequest | PR_RICindication
  | PR_RICserviceQuery | PR_ErrorIndication
  | PR_RICsubscriptionResponse | PR_RICsubscriptionDeleteResponse | PR_RICserviceUpdateAcknowledge
  | PR_RICcontrolAcknowledge | PR_E2setupResponse | PR_E2nodeConfigurationUpdateAcknowledge
  | PR_E2connectionUpdateAcknowledge | PR_ResetResponse | PR_E42setupResponse
  | PR_RICsubscriptionFailure | PR_RICsubscriptionDeleteFailure | PR_RICserviceUpdateFailure
  | PR_RICcontrolFailure | PR_E2setupFailure | PR_E2nodeConfigurationUpdateFailure
  | PR_E2connectionUpdateFailure

section \<open>Values\<close>

record RICaction_ToBeSetup_Item =
  ricActionID :: int
  ricActionType :: int
  ricActionDefinition :: "OCTET_STRING option"
  ricSubsequentAction :: "(int \<times> int) option"

datatype E2nodeComponentID =
    E2nodeComponentID_PR_NOTHING
  | E2nodeComponentID_PR_GNB_CU_UP "int option"
  | E2nodeComponentID_PR_GNB_DU "int option"

datatype E2nodeComponentConfigUpdate =
    Update_PR_NOTHING
  | Update_PR_gNB "OCTET_STRING option" "OCTET_STRING option" "OCTET_STRING option" "OCTET_STRING option"
  | Update_PR_en_gNB "OCTET_STRING option"
  | Update_PR_ng_eNB "OCTET_STRING option" "OCTET_STRING option"
  | Update_PR_eNB "OCTET_STRING option" "OCTET_STRING option"

record E2nodeComponentConfigUpdate_Item =
  e2nodeComponentType :: int
  e2nodeComponentID :: "E2nodeComponentID option"
  e2nodeComponentConfigUpdate :: E2nodeComponentConfigUpdate

record E2nodeComponentConfigUpdateAck_Item =
  ack_e2nodeComponentType :: int
  ack_e2nodeComponentID :: "E2nodeComponentID option"
  updateOutcome :: int
  failureCause :: "Cause_t option"

record TNLinformation =
  tnlAddress :: BIT_STRING
  tnlPort :: "BIT_STRING option"

text \<open>The tags of the values that are one integer, one octet string and one list.\<close>

datatype int_PR =
    I_RANfunctionID | I_RICactionID | I_RICindicationSN | I_RICindicationType
  | I_RICcontrolAckRequest | I_RICcontrolStatus | I_TimeToWait | I_XAPP_ID | I_RICaction_Admitted_Item

datatype octets_PR =
    O_RICindicationHeader | O_RICindicationMessage | O_RICcallProcessID
  | O_RICcontrolHeader | O_RICcontrolMessage | O_RICcontrolOutcome

datatype list_PR =
    L_RICaction_Admitted_List | L_RICaction_NotAdmitted_List | L_RANfunctions_List
  | L_RANfunctionsID_List | L_RANfunctionsIDcause_List | L_E2nodeComponentConfigUpdate_List
  | L_E2nodeComponentConfigUpdateAck_List | L_E2connectionUpdate_List
  | L_E2connectionUpdateRemove_List | L_E2connectionSetupFailed_List | L_E2nodeConnected_List

text \<open>\<open>V_RICrequestID\<close> takes the requestor and the instance, \<open>ricSubsequentAction\<close> the type and
  the time to wait, which is not optional in the grammar: 0 stands for none.\<close>

datatype ie = IE (ie_id: ProtocolIE_ID) (ie_crit: Criticality) (ie_value: ie_value)
and ie_value =
    V_int int_PR int
  | V_octets octets_PR OCTET_STRING
  | V_list list_PR "ie list"
  | V_RICrequestID int int
  | V_RICsubscriptionDetails OCTET_STRING "ie list"
  | V_RICaction_ToBeSetup_Item RICaction_ToBeSetup_Item
  | V_RICaction_NotAdmitted_Item int Cause_t
  | V_Cause Cause_t
  | V_CriticalityDiagnostics
  | V_GlobalE2node_ID GlobalE2node_ID
  | V_GlobalRIC_ID OCTET_STRING BIT_STRING
  | V_RANfunction_Item RANfunction_Item
  | V_RANfunctionID_Item int int
  | V_RANfunctionIDcause_Item int Cause_t
  | V_E2nodeComponentConfigUpdate_Item E2nodeComponentConfigUpdate_Item
  | V_E2nodeComponentConfigUpdateAck_Item E2nodeComponentConfigUpdateAck_Item
  | V_TNLinformation TNLinformation
  | V_E2connectionUpdate_Item TNLinformation int
  | V_E2connectionUpdateRemove_Item TNLinformation
  | V_E2connectionSetupFailed_Item TNLinformation Cause_t

record E2AP_PDU =
  pdu_present :: E2AP_PDU_PR
  procedureCode :: ProcedureCode
  criticality :: Criticality
  value_present :: value_PR
  protocolIEs :: "ie list"

section \<open>Reading a PDU\<close>

text \<open>\<open>list.array[k]\<close>.\<close>

definition ie_at :: "ie list \<Rightarrow> nat \<Rightarrow> ie res" where
  "ie_at ies k = (if k < length ies then Inr (ies ! k) else Inl OutOfBounds)"

text \<open>\<open>assert(value.present == PR)\<close> and the choice it selects.\<close>

definition get_int :: "int_PR \<Rightarrow> ie_value \<Rightarrow> int res" where
  "get_int pr v = (case v of V_int p i \<Rightarrow> if p = pr then Inr i else Inl AssertFail | _ \<Rightarrow> Inl AssertFail)"

definition get_octets :: "octets_PR \<Rightarrow> ie_value \<Rightarrow> OCTET_STRING res" where
  "get_octets pr v = (case v of V_octets p b \<Rightarrow> if p = pr then Inr b else Inl AssertFail | _ \<Rightarrow> Inl AssertFail)"

definition get_list :: "list_PR \<Rightarrow> ie_value \<Rightarrow> ie list res" where
  "get_list pr v = (case v of V_list p l \<Rightarrow> if p = pr then Inr l else Inl AssertFail | _ \<Rightarrow> Inl AssertFail)"

definition get_RICrequestID :: "ie_value \<Rightarrow> (int \<times> int) res" where
  "get_RICrequestID v = (case v of V_RICrequestID r i \<Rightarrow> Inr (r, i) | _ \<Rightarrow> Inl AssertFail)"

definition get_RICsubscriptionDetails :: "ie_value \<Rightarrow> (OCTET_STRING \<times> ie list) res" where
  "get_RICsubscriptionDetails v =
    (case v of V_RICsubscriptionDetails e l \<Rightarrow> Inr (e, l) | _ \<Rightarrow> Inl AssertFail)"

definition get_RICaction_ToBeSetup_Item :: "ie_value \<Rightarrow> RICaction_ToBeSetup_Item res" where
  "get_RICaction_ToBeSetup_Item v = (case v of V_RICaction_ToBeSetup_Item a \<Rightarrow> Inr a | _ \<Rightarrow> Inl AssertFail)"

definition get_RICaction_NotAdmitted_Item :: "ie_value \<Rightarrow> (int \<times> Cause_t) res" where
  "get_RICaction_NotAdmitted_Item v =
    (case v of V_RICaction_NotAdmitted_Item i c \<Rightarrow> Inr (i, c) | _ \<Rightarrow> Inl AssertFail)"

definition get_Cause :: "ie_value \<Rightarrow> Cause_t res" where
  "get_Cause v = (case v of V_Cause c \<Rightarrow> Inr c | _ \<Rightarrow> Inl AssertFail)"

definition get_GlobalE2node_ID :: "ie_value \<Rightarrow> GlobalE2node_ID res" where
  "get_GlobalE2node_ID v = (case v of V_GlobalE2node_ID n \<Rightarrow> Inr n | _ \<Rightarrow> Inl AssertFail)"

definition get_GlobalRIC_ID :: "ie_value \<Rightarrow> (OCTET_STRING \<times> BIT_STRING) res" where
  "get_GlobalRIC_ID v = (case v of V_GlobalRIC_ID p b \<Rightarrow> Inr (p, b) | _ \<Rightarrow> Inl AssertFail)"

definition get_RANfunction_Item :: "ie_value \<Rightarrow> RANfunction_Item res" where
  "get_RANfunction_Item v = (case v of V_RANfunction_Item f \<Rightarrow> Inr f | _ \<Rightarrow> Inl AssertFail)"

definition get_RANfunctionID_Item :: "ie_value \<Rightarrow> (int \<times> int) res" where
  "get_RANfunctionID_Item v = (case v of V_RANfunctionID_Item i r \<Rightarrow> Inr (i, r) | _ \<Rightarrow> Inl AssertFail)"

definition get_RANfunctionIDcause_Item :: "ie_value \<Rightarrow> (int \<times> Cause_t) res" where
  "get_RANfunctionIDcause_Item v =
    (case v of V_RANfunctionIDcause_Item i c \<Rightarrow> Inr (i, c) | _ \<Rightarrow> Inl AssertFail)"

definition get_E2nodeComponentConfigUpdate_Item :: "ie_value \<Rightarrow> E2nodeComponentConfigUpdate_Item res" where
  "get_E2nodeComponentConfigUpdate_Item v =
    (case v of V_E2nodeComponentConfigUpdate_Item u \<Rightarrow> Inr u | _ \<Rightarrow> Inl AssertFail)"

lemmas get_defs = get_int_def get_octets_def get_list_def get_RICrequestID_def
  get_RICsubscriptionDetails_def get_RICaction_ToBeSetup_Item_def get_RICaction_NotAdmitted_Item_def
  get_Cause_def get_GlobalE2node_ID_def get_GlobalRIC_ID_def get_RANfunction_Item_def
  get_RANfunctionID_Item_def get_RANfunctionIDcause_Item_def get_E2nodeComponentConfigUpdate_Item_def

text \<open>The three assertions at the head of an element: its identifier, its criticality and the tag
  of its value.  \<open>ie_any\<close> is the form without the test of the criticality, which the decoder
  leaves out where the O-RAN RIC sets it wrongly.\<close>

definition ie_any :: "ProtocolIE_ID \<Rightarrow> (ie_value \<Rightarrow> 'a res) \<Rightarrow> ie \<Rightarrow> 'a res" where
  "ie_any ident get e = (if ie_id e \<noteq> ident then Inl AssertFail else get (ie_value e))"

definition ie_is :: "ProtocolIE_ID \<Rightarrow> Criticality \<Rightarrow> (ie_value \<Rightarrow> 'a res) \<Rightarrow> ie \<Rightarrow> 'a res" where
  "ie_is ident cr get e =
    (if ie_id e \<noteq> ident then Inl AssertFail else if ie_crit e \<noteq> cr then Inl AssertFail else get (ie_value e))"

lemma ie_is_IE [simp]: "ie_is ident cr get (IE ident cr v) = get v"
  by (simp add: ie_is_def)

lemma ie_any_IE [simp]: "ie_any ident get (IE ident cr v) = get v"
  by (simp add: ie_any_def)

lemma ie_at_simps [simp]:
  "ie_at (e # es) 0 = Inr e"
  "ie_at (e # es) (Suc n) = ie_at es n"
  by (simp_all add: ie_at_def)

lemma ie_at_numeral [simp]: "ie_at (e # es) (numeral k) = ie_at es (pred_numeral k)"
  by (simp add: numeral_eq_Suc)

section \<open>Enumerations\<close>

text \<open>A C enumeration whose members are numbered from 0 travels as its number.  A number that
  the enumeration does not name, which the decoder would store without a test, is outside of the
  model: \<open>OutOfBounds\<close>.\<close>

fun enum_val :: "'a list \<Rightarrow> 'a \<Rightarrow> int" where
  "enum_val [] x = 0"
| "enum_val (y # ys) x = (if x = y then 0 else 1 + enum_val ys x)"

definition enum_of :: "'a list \<Rightarrow> int \<Rightarrow> 'a res" where
  "enum_of xs i = (if 0 \<le> i \<and> i < int (length xs) then Inr (xs ! nat i) else Inl OutOfBounds)"

lemma enum_val_nonneg: "0 \<le> enum_val xs x"
  by (induction xs) auto

lemma enum_round_trip:
  "x \<in> set xs \<Longrightarrow> enum_of xs (enum_val xs x) = Inr x"
proof (induction xs)
  case (Cons y ys)
  have "nat (1 + enum_val ys x) = Suc (nat (enum_val ys x))"
    using enum_val_nonneg [of ys x] by simp
  then show ?case using Cons enum_val_nonneg [of ys x] by (auto simp: enum_of_def split: if_splits)
qed simp

end
