(* ===== verification/E2apUnion.thy ===== *)
theory E2apUnion
  imports E2apMsg
begin

text \<open>
  Every member of the message union of \<open>src/lib/ap/type_defs.h\<close>, as the encoder and the decoder
  see it.  \<open>E2apMsg\<close> holds the members some handler reads; here are the others, and the setup
  messages with the lists the processes leave empty.
\<close>

datatype triggering_message = INITIATING_MESSAGE | SUCCESSFUL_OUTCOME | UNSUCCESSFUL_OUTCOME
datatype crit = REJECT | IGNORE | NOTIFY
datatype type_of_error = NOT_UNDERSTOOD | MISSING

record ie_criticality_diagnostics =
  icd_crit :: crit
  icd_id :: u16
  icd_type :: type_of_error

record criticality_diagnostics =
  procedure_code :: "u8 option"
  trig_msg :: "triggering_message option"
  proc_crit :: "crit option"
  cd_req_id :: "ric_gen_id option"
  cd_ie :: "ie_criticality_diagnostics list"

record ric_subscription_failure =
  sf_ric_id :: ric_gen_id
  sf_not_admitted :: "ric_action_not_admitted list"
  sf_crit_diag :: "criticality_diagnostics option"

record ric_subscription_delete_failure =
  sdf_ric_id :: ric_gen_id
  sdf_cause :: cause
  sdf_crit_diag :: "criticality_diagnostics option"

record ric_control_failure =
  cf_ric_id :: ric_gen_id
  cf_call_process_id :: "byte_array option"
  cf_cause :: cause
  cf_control_outcome :: "byte_array option"

record e2ap_error_indication =
  ei_ric_id :: "ric_gen_id option"
  ei_cause :: "cause option"
  ei_crit_diag :: "criticality_diagnostics option"

section \<open>Setup\<close>

datatype e2_node_component_type =
    E2_NODE_COMPONENT_TYPE_GNB | E2_NODE_COMPONENT_TYPE_GNB_CU_UP | E2_NODE_COMPONENT_TYPE_GNB_DU
  | E2_NODE_COMPONENT_TYPE_EN_GNB | E2_NODE_COMPONENT_TYPE_ENB | E2_NODE_COMPONENT_TYPE_NG_ENB

datatype e2_node_component_id_present = COMPONENT_ID_GNB_CU_UP | COMPONENT_ID_GNB_DU

text \<open>The tag \<open>update_present\<close> with the structure it selects.\<close>

datatype component_update =
    CONFIG_UPDATE_NOTHING
  | GNB_CONFIG_UPDATE "byte_array option" "byte_array option" "byte_array option" "byte_array option"
  | EN_GNB_CONFIG_UPDATE "byte_array option"
  | NG_ENB_CONFIG_UPDATE "byte_array option" "byte_array option"
  | ENB_CONFIG_UPDATE "byte_array option" "byte_array option"

text \<open>\<open>ccu_gnb_id\<close> is the union of \<open>gnb_cu_up_id\<close> and \<open>gnb_du_id\<close>.\<close>

record e2_node_component_config_update =
  ccu_type :: e2_node_component_type
  ccu_id_present :: "e2_node_component_id_present option"
  ccu_gnb_id :: u64
  ccu_update :: component_update

record e2_setup_request_msg = e2_setup_request +
  comp_conf_update :: "e2_node_component_config_update list"

record rejected_ran_function =
  rej_id :: u16
  rej_cause :: cause

record e2_setup_response_msg = e2_setup_response +
  rejected :: "rejected_ran_function list"
  comp_conf_update_ack_list :: "e2_node_component_config_update list"

datatype e2ap_time_to_wait =
    TIMETOWAIT_V1S | TIMETOWAIT_V2S | TIMETOWAIT_V5S | TIMETOWAIT_V10S | TIMETOWAIT_V20S | TIMETOWAIT_V60S

record transport_layer_information =
  tl_address :: byte_array
  tl_port :: "byte_array option"

record e2_setup_failure =
  stpf_cause :: cause
  stpf_time_to_wait :: "e2ap_time_to_wait option"
  stpf_crit_diag :: "criticality_diagnostics option"
  tl_info :: "transport_layer_information option"

section \<open>Reset and service update\<close>

record e2ap_reset_request =
  rst_cause :: cause

record e2ap_reset_response =
  rst_crit_diag :: "criticality_diagnostics option"

record ran_function_id_rev =
  fr_id :: u16
  fr_rev :: u16

record ric_service_update =
  su_added :: "ran_function list"
  su_modified :: "ran_function list"
  su_deleted :: "ran_function_id_rev list"

record ric_service_update_ack =
  sua_accepted :: "ran_function_id_rev list"
  sua_rejected :: "rejected_ran_function list"

record ric_service_update_failure =
  suf_rejected :: "rejected_ran_function list"
  suf_time_to_wait :: "e2ap_time_to_wait option"
  suf_crit_diag :: "criticality_diagnostics option"

record ric_service_query =
  sq_accepted :: "ran_function_id_rev list"

section \<open>Updates of the configuration and of the connections\<close>

record e2_node_configuration_update =
  comp_conf_update_list :: "e2_node_component_config_update list"

text \<open>\<open>update_outcome\<close> is a \<open>long\<close>.\<close>

record e2_node_component_config_update_ack_item =
  cua_type :: e2_node_component_type
  cua_id_present :: "e2_node_component_id_present option"
  cua_gnb_id :: u64
  cua_update_outcome :: u64
  cua_failure_cause :: "cause option"

record e2_node_configuration_update_ack =
  cua_list :: "e2_node_component_config_update_ack_item list"

record e2_node_configuration_update_failure =
  cuf_cause :: cause
  cuf_time_wait :: "e2ap_time_to_wait option"
  cuf_crit_diag :: "criticality_diagnostics option"

datatype e2ap_tnl_usage = TNL_USAGE_RIC_SERVICE | TNL_USAGE_SUPPORT_FUNCTION | TNL_USAGE_BOTH

record e2ap_tnl_information =
  tnl_addr :: byte_array
  tnl_port :: "byte_array option"

record e2_connection_update_item =
  cui_info :: e2ap_tnl_information
  cui_usage :: e2ap_tnl_usage

record e2_connection_update_remove_item =
  cur_info :: e2ap_tnl_information

record e2_connection_setup_failed =
  csf_cause :: cause
  csf_info :: e2ap_tnl_information

record e2_node_connection_update =
  cu_add :: "e2_connection_update_item list"
  cu_rem :: "e2_connection_update_remove_item list"
  cu_mod :: "e2_connection_update_item list"

record e2_node_connection_update_ack =
  cuack_setup :: "e2_connection_update_item list"
  cuack_failed :: "e2_connection_setup_failed list"

record e2_node_connection_update_failure =
  ncuf_cause :: cause
  ncuf_time_wait :: "e2ap_time_to_wait option"
  ncuf_crit_diag :: "criticality_diagnostics option"

section \<open>The union\<close>

datatype u_msg =
    U_ric_sub_req ric_subscription_request
  | U_ric_sub_resp ric_subscription_response
  | U_ric_sub_fail ric_subscription_failure
  | U_ric_sub_del_req ric_subscription_delete_request
  | U_ric_sub_del_resp ric_subscription_delete_response
  | U_ric_sub_del_fail ric_subscription_delete_failure
  | U_ric_ind ric_indication
  | U_ric_ctrl_req ric_control_request
  | U_ric_ctrl_ack ric_control_acknowledge
  | U_ric_ctrl_fail ric_control_failure
  | U_err_ind e2ap_error_indication
  | U_e2_stp_req e2_setup_request_msg
  | U_e2_stp_resp e2_setup_response_msg
  | U_e2_stp_fail e2_setup_failure
  | U_rst_req e2ap_reset_request
  | U_rst_resp e2ap_reset_response
  | U_ric_serv_updt ric_service_update
  | U_ric_serv_updt_ack ric_service_update_ack
  | U_ric_serv_updt_fail ric_service_update_failure
  | U_ric_serv_query ric_service_query
  | U_e2_node_conf_updt e2_node_configuration_update
  | U_e2_node_conf_updt_ack e2_node_configuration_update_ack
  | U_e2_node_conf_updt_fail e2_node_configuration_update_failure
  | U_e2_conn_updt e2_node_connection_update
  | U_e2_conn_updt_ack e2_node_connection_update_ack
  | U_e2_conn_updt_fail e2_node_connection_update_failure
  | U_e42_stp_req e42_setup_request
  | U_e42_stp_resp e42_setup_response
  | U_e42_ric_sub_req e42_ric_subscription_request
  | U_e42_ric_sub_del_req e42_ric_subscription_delete_request
  | U_e42_ric_ctrl_req e42_ric_control_request

fun u_type :: "u_msg \<Rightarrow> e2_msg_type" where
  "u_type (U_ric_sub_req _) = RIC_SUBSCRIPTION_REQUEST"
| "u_type (U_ric_sub_resp _) = RIC_SUBSCRIPTION_RESPONSE"
| "u_type (U_ric_sub_fail _) = RIC_SUBSCRIPTION_FAILURE"
| "u_type (U_ric_sub_del_req _) = RIC_SUBSCRIPTION_DELETE_REQUEST"
| "u_type (U_ric_sub_del_resp _) = RIC_SUBSCRIPTION_DELETE_RESPONSE"
| "u_type (U_ric_sub_del_fail _) = RIC_SUBSCRIPTION_DELETE_FAILURE"
| "u_type (U_ric_ind _) = RIC_INDICATION"
| "u_type (U_ric_ctrl_req _) = RIC_CONTROL_REQUEST"
| "u_type (U_ric_ctrl_ack _) = RIC_CONTROL_ACKNOWLEDGE"
| "u_type (U_ric_ctrl_fail _) = RIC_CONTROL_FAILURE"
| "u_type (U_err_ind _) = E2AP_ERROR_INDICATION"
| "u_type (U_e2_stp_req _) = E2_SETUP_REQUEST"
| "u_type (U_e2_stp_resp _) = E2_SETUP_RESPONSE"
| "u_type (U_e2_stp_fail _) = E2_SETUP_FAILURE"
| "u_type (U_rst_req _) = E2AP_RESET_REQUEST"
| "u_type (U_rst_resp _) = E2AP_RESET_RESPONSE"
| "u_type (U_ric_serv_updt _) = RIC_SERVICE_UPDATE"
| "u_type (U_ric_serv_updt_ack _) = RIC_SERVICE_UPDATE_ACKNOWLEDGE"
| "u_type (U_ric_serv_updt_fail _) = RIC_SERVICE_UPDATE_FAILURE"
| "u_type (U_ric_serv_query _) = RIC_SERVICE_QUERY"
| "u_type (U_e2_node_conf_updt _) = E2_NODE_CONFIGURATION_UPDATE"
| "u_type (U_e2_node_conf_updt_ack _) = E2_NODE_CONFIGURATION_UPDATE_ACKNOWLEDGE"
| "u_type (U_e2_node_conf_updt_fail _) = E2_NODE_CONFIGURATION_UPDATE_FAILURE"
| "u_type (U_e2_conn_updt _) = E2_CONNECTION_UPDATE"
| "u_type (U_e2_conn_updt_ack _) = E2_CONNECTION_UPDATE_ACKNOWLEDGE"
| "u_type (U_e2_conn_updt_fail _) = E2_CONNECTION_UPDATE_FAILURE"
| "u_type (U_e42_stp_req _) = E42_SETUP_REQUEST"
| "u_type (U_e42_stp_resp _) = E42_SETUP_RESPONSE"
| "u_type (U_e42_ric_sub_req _) = E42_RIC_SUBSCRIPTION_REQUEST"
| "u_type (U_e42_ric_sub_del_req _) = E42_RIC_SUBSCRIPTION_DELETE_REQUEST"
| "u_type (U_e42_ric_ctrl_req _) = E42_RIC_CONTROL_REQUEST"

section \<open>The messages the processes exchange\<close>

text \<open>A message of a process in the union: the setup messages have their other lists empty, as
  \<open>gen_setup_request\<close> of the agent and \<open>e2ap_handle_setup_request_ric\<close> leave them.\<close>

fun to_union :: "e2ap_msg \<Rightarrow> u_msg option" where
  "to_union (Ric_sub_req m) = Some (U_ric_sub_req m)"
| "to_union (Ric_sub_resp m) = Some (U_ric_sub_resp m)"
| "to_union (Ric_sub_del_req m) = Some (U_ric_sub_del_req m)"
| "to_union (Ric_sub_del_resp m) = Some (U_ric_sub_del_resp m)"
| "to_union (Ric_ind m) = Some (U_ric_ind m)"
| "to_union (Ric_ctrl_req m) = Some (U_ric_ctrl_req m)"
| "to_union (Ric_ctrl_ack m) = Some (U_ric_ctrl_ack m)"
| "to_union (E2_stp_req m) = Some (U_e2_stp_req (e2_setup_request.extend m
     (e2_setup_request_msg.fields [])))"
| "to_union (E2_stp_resp m) = Some (U_e2_stp_resp (e2_setup_response.extend m
     (e2_setup_response_msg.fields [] [])))"
| "to_union (E42_stp_req m) = Some (U_e42_stp_req m)"
| "to_union (E42_stp_resp m) = Some (U_e42_stp_resp m)"
| "to_union (E42_ric_sub_req m) = Some (U_e42_ric_sub_req m)"
| "to_union (E42_ric_sub_del_req m) = Some (U_e42_ric_sub_del_req m)"
| "to_union (E42_ric_ctrl_req m) = Some (U_e42_ric_ctrl_req m)"
| "to_union (Other_msg t) = None"

text \<open>What a handler sees of a message of the union.\<close>

fun of_union :: "u_msg \<Rightarrow> e2ap_msg" where
  "of_union (U_ric_sub_req m) = Ric_sub_req m"
| "of_union (U_ric_sub_resp m) = Ric_sub_resp m"
| "of_union (U_ric_sub_del_req m) = Ric_sub_del_req m"
| "of_union (U_ric_sub_del_resp m) = Ric_sub_del_resp m"
| "of_union (U_ric_ind m) = Ric_ind m"
| "of_union (U_ric_ctrl_req m) = Ric_ctrl_req m"
| "of_union (U_ric_ctrl_ack m) = Ric_ctrl_ack m"
| "of_union (U_e2_stp_req m) = E2_stp_req (e2_setup_request.truncate m)"
| "of_union (U_e2_stp_resp m) = E2_stp_resp (e2_setup_response.truncate m)"
| "of_union (U_e42_stp_req m) = E42_stp_req m"
| "of_union (U_e42_stp_resp m) = E42_stp_resp m"
| "of_union (U_e42_ric_sub_req m) = E42_ric_sub_req m"
| "of_union (U_e42_ric_sub_del_req m) = E42_ric_sub_del_req m"
| "of_union (U_e42_ric_ctrl_req m) = E42_ric_ctrl_req m"
| "of_union u = Other_msg (u_type u)"

lemma msg_type_of_union [simp]: "msg_type (of_union u) = u_type u"
  by (cases u) simp_all

lemma of_to_union: "to_union m = Some u \<Longrightarrow> of_union u = m"
  by (cases m)
     (auto simp: e2_setup_request.defs e2_setup_response.defs e2_setup_request_msg.defs e2_setup_response_msg.defs)

end
