(* ===== verification/E2apEnc.thy ===== *)
theory E2apEnc
  imports E2apPdu E2apUnion
begin

text \<open>
  The encoder of E2AP (\<open>src/lib/ap/enc/e2ap_msg_enc_asn.c\<close>): for each member of the message union
  the PDU its \<open>e2ap_enc_..._asn_pdu\<close> builds, with the assertions of the function, and the table
  of encoders.  Memory for the PDU is always available, so \<open>ASN_SEQUENCE_ADD\<close> returns 0.
\<close>

section \<open>Shared pieces\<close>

abbreviation initiatingMessage :: "ProcedureCode \<Rightarrow> value_PR \<Rightarrow> ie list \<Rightarrow> E2AP_PDU" where
  "initiatingMessage proc pr ies \<equiv>
    \<lparr>pdu_present = E2AP_PDU_PR_initiatingMessage, procedureCode = proc, criticality = Criticality_reject,
     value_present = pr, protocolIEs = ies\<rparr>"

abbreviation successfulOutcome :: "ProcedureCode \<Rightarrow> value_PR \<Rightarrow> ie list \<Rightarrow> E2AP_PDU" where
  "successfulOutcome proc pr ies \<equiv>
    \<lparr>pdu_present = E2AP_PDU_PR_successfulOutcome, procedureCode = proc, criticality = Criticality_reject,
     value_present = pr, protocolIEs = ies\<rparr>"

abbreviation unsuccessfulOutcome :: "ProcedureCode \<Rightarrow> value_PR \<Rightarrow> ie list \<Rightarrow> E2AP_PDU" where
  "unsuccessfulOutcome proc pr ies \<equiv>
    \<lparr>pdu_present = E2AP_PDU_PR_unsuccessfulOutcome, procedureCode = proc, criticality = Criticality_reject,
     value_present = pr, protocolIEs = ies\<rparr>"

text \<open>The two mandatory elements at the head of the messages of a procedure: the request
  identifier and the RAN function.\<close>

definition put_ric_id :: "ric_gen_id \<Rightarrow> ie list" where
  "put_ric_id g =
    [IE Id_RICrequestID Criticality_reject
       (V_RICrequestID (uint (ric_req_id g)) (uint (ric_inst_id g))),
     IE Id_RANfunctionID Criticality_reject (V_int I_RANfunctionID (uint (ran_func_id g)))]"

definition opt_ie :: "('a \<Rightarrow> ie) \<Rightarrow> 'a option \<Rightarrow> ie list" where
  "opt_ie f x = (case x of None \<Rightarrow> [] | Some v \<Rightarrow> [f v])"

lemma opt_ie_simps [simp]: "opt_ie f None = []" "opt_ie f (Some v) = [f v]"
  by (simp_all add: opt_ie_def)

text \<open>An optional octet string must have bytes when it is there.\<close>

definition put_octets_opt :: "ProtocolIE_ID \<Rightarrow> octets_PR \<Rightarrow> byte_array option \<Rightarrow> ie list res" where
  "put_octets_opt ident pr b =
    (case b of None \<Rightarrow> Inr []
     | Some bs \<Rightarrow> if bs = [] then Inl AssertFail
                 else Inr [IE ident Criticality_reject (V_octets pr bs)])"

lemma put_octets_opt_eq_Inr:
  "put_octets_opt ident pr b = Inr ies \<longleftrightarrow>
    b \<noteq> Some [] \<and> ies = opt_ie (\<lambda>bs. IE ident Criticality_reject (V_octets pr bs)) b"
  by (auto simp: put_octets_opt_def split: option.splits)

definition put_xapp_id :: "u16 \<Rightarrow> ie" where
  "put_xapp_id x = IE Id_XAPP_ID Criticality_reject (V_int I_XAPP_ID (uint x))"

definition put_node_id :: "global_e2_node_id \<Rightarrow> ie res" where
  "put_node_id n =
    res_bind (enc_global_e2_node_id n) (\<lambda>v.
    Inr (IE Id_GlobalE2node_ID Criticality_reject (V_GlobalE2node_ID v)))"

definition put_ran_function :: "ran_function \<Rightarrow> ie" where
  "put_ran_function f =
    IE Id_RANfunction_Item Criticality_reject (V_RANfunction_Item (enc_copy_ran_function f))"

text \<open>The numbers of the enumerations.\<close>

definition ric_action_type_e :: "ric_action_type list" where
  "ric_action_type_e = [RIC_ACT_REPORT, RIC_ACT_INSERT, RIC_ACT_POLICY]"

definition ric_subseq_action_type_e :: "ric_subseq_action_type list" where
  "ric_subseq_action_type_e = [RIC_SUBS_REQ_CONTINUE, RIC_SUBS_REQ_HALT]"

definition ric_indication_type_e :: "ric_indication_type list" where
  "ric_indication_type_e = [RIC_IND_REPORT, RIC_IND_INSERT]"

definition ric_control_ack_req_e :: "ric_control_ack_req list" where
  "ric_control_ack_req_e = [RIC_CONTROL_REQUEST_NO_ACK, RIC_CONTROL_REQUEST_ACK, RIC_CONTROL_REQUEST_NACK]"

definition ric_control_status_e :: "ric_control_status list" where
  "ric_control_status_e = [RIC_CONTROL_STATUS_SUCCESS, RIC_CONTROL_STATUS_REJECTED, RIC_CONTROL_STATUS_FAILED]"

definition e2_node_component_type_e :: "e2_node_component_type list" where
  "e2_node_component_type_e =
    [E2_NODE_COMPONENT_TYPE_GNB, E2_NODE_COMPONENT_TYPE_GNB_CU_UP, E2_NODE_COMPONENT_TYPE_GNB_DU,
     E2_NODE_COMPONENT_TYPE_EN_GNB, E2_NODE_COMPONENT_TYPE_ENB, E2_NODE_COMPONENT_TYPE_NG_ENB]"

definition e2ap_time_to_wait_e :: "e2ap_time_to_wait list" where
  "e2ap_time_to_wait_e =
    [TIMETOWAIT_V1S, TIMETOWAIT_V2S, TIMETOWAIT_V5S, TIMETOWAIT_V10S, TIMETOWAIT_V20S, TIMETOWAIT_V60S]"

definition e2ap_tnl_usage_e :: "e2ap_tnl_usage list" where
  "e2ap_tnl_usage_e = [TNL_USAGE_RIC_SERVICE, TNL_USAGE_SUPPORT_FUNCTION, TNL_USAGE_BOTH]"

lemmas enums = ric_action_type_e_def ric_subseq_action_type_e_def ric_indication_type_e_def
  ric_control_ack_req_e_def ric_control_status_e_def e2_node_component_type_e_def
  e2ap_time_to_wait_e_def e2ap_tnl_usage_e_def

lemma enum_complete [simp]:
  "(a :: ric_action_type) \<in> set ric_action_type_e"
  "(b :: ric_subseq_action_type) \<in> set ric_subseq_action_type_e"
  "(c :: ric_indication_type) \<in> set ric_indication_type_e"
  "(d :: ric_control_ack_req) \<in> set ric_control_ack_req_e"
  "(e :: ric_control_status) \<in> set ric_control_status_e"
  "(f :: e2_node_component_type) \<in> set e2_node_component_type_e"
  "(g :: e2ap_time_to_wait) \<in> set e2ap_time_to_wait_e"
  "(h :: e2ap_tnl_usage) \<in> set e2ap_tnl_usage_e"
proof -
  show "a \<in> set ric_action_type_e" by (cases a) (simp_all add: enums)
  show "b \<in> set ric_subseq_action_type_e" by (cases b) (simp_all add: enums)
  show "c \<in> set ric_indication_type_e" by (cases c) (simp_all add: enums)
  show "d \<in> set ric_control_ack_req_e" by (cases d) (simp_all add: enums)
  show "e \<in> set ric_control_status_e" by (cases e) (simp_all add: enums)
  show "f \<in> set e2_node_component_type_e" by (cases f) (simp_all add: enums)
  show "g \<in> set e2ap_time_to_wait_e" by (cases g) (simp_all add: enums)
  show "h \<in> set e2ap_tnl_usage_e" by (cases h) (simp_all add: enums)
qed

section \<open>Subscriptions\<close>

definition put_subseq_action :: "ric_subsequent_action \<Rightarrow> (int \<times> int) res" where
  "put_subseq_action sa =
    (case time_to_wait_ms sa of
       None \<Rightarrow> Inr (enum_val ric_subseq_action_type_e (sa_type sa), 0)
     | Some t \<Rightarrow> if t < 18 then Inr (enum_val ric_subseq_action_type_e (sa_type sa), uint t)
                else Inl AssertFail)"

definition put_action :: "ric_action \<Rightarrow> ie res" where
  "put_action src =
    res_bind (case act_subseq src of
                None \<Rightarrow> Inr None
              | Some sa \<Rightarrow> res_bind (put_subseq_action sa) (\<lambda>s. Inr (Some s))) (\<lambda>sub.
    Inr (IE Id_RICaction_ToBeSetup_Item Criticality_reject
          (V_RICaction_ToBeSetup_Item
            \<lparr>ricActionID = uint (act_id src), ricActionType = enum_val ric_action_type_e (act_type src),
             ricActionDefinition = act_definition src, ricSubsequentAction = sub\<rparr>)))"

definition put_subscription_details :: "ric_subscription_request \<Rightarrow> ie res" where
  "put_subscription_details sr =
    res_bind (map_res put_action (action sr)) (\<lambda>acts.
    Inr (IE Id_RICsubscriptionDetails Criticality_reject
          (V_RICsubscriptionDetails (event_trigger sr) acts)))"

definition e2ap_enc_subscription_request_asn_pdu :: "ric_subscription_request \<Rightarrow> E2AP_PDU res" where
  "e2ap_enc_subscription_request_asn_pdu sr =
    (if event_trigger sr = [] then Inl AssertFail
     else if \<not> int (length (action sr)) \<le> MAX_NUM_ACTION_DEF then Inl AssertFail
     else
       res_bind (put_subscription_details sr) (\<lambda>det.
       Inr (initiatingMessage Proc_RICsubscription PR_RICsubscriptionRequest
             (put_ric_id (sr_ric_id sr) @ [det]))))"

definition put_admitted :: "ric_action_admitted \<Rightarrow> ie" where
  "put_admitted src =
    IE Id_RICaction_Admitted_Item Criticality_reject (V_int I_RICaction_Admitted_Item (uint (ric_act_id src)))"

definition put_not_admitted :: "ric_action_not_admitted \<Rightarrow> ie res" where
  "put_not_admitted src =
    res_bind (enc_copy_cause (na_cause src)) (\<lambda>c.
    Inr (IE Id_RICaction_NotAdmitted_Item Criticality_reject
          (V_RICaction_NotAdmitted_Item (uint (na_act_id src)) c)))"

definition put_not_admitted_list :: "ric_action_not_admitted list \<Rightarrow> ie res" where
  "put_not_admitted_list l =
    res_bind (map_res put_not_admitted l) (\<lambda>na.
    Inr (IE Id_RICactions_NotAdmitted Criticality_reject (V_list L_RICaction_NotAdmitted_List na)))"

definition e2ap_enc_subscription_response_asn_pdu :: "ric_subscription_response \<Rightarrow> E2AP_PDU res" where
  "e2ap_enc_subscription_response_asn_pdu sr =
    res_bind (put_not_admitted_list (not_admitted sr)) (\<lambda>na.
    Inr (successfulOutcome Proc_RICsubscription PR_RICsubscriptionResponse
          (put_ric_id (resp_ric_id sr) @
           [IE Id_RICactions_Admitted Criticality_reject
              (V_list L_RICaction_Admitted_List (map put_admitted (admitted sr))), na])))"

definition e2ap_enc_subscription_failure_asn_pdu :: "ric_subscription_failure \<Rightarrow> E2AP_PDU res" where
  "e2ap_enc_subscription_failure_asn_pdu sf =
    res_bind (put_not_admitted_list (sf_not_admitted sf)) (\<lambda>na.
    if sf_crit_diag sf \<noteq> None then Inl NotImplemented
    else
      Inr (unsuccessfulOutcome Proc_RICsubscription PR_RICsubscriptionFailure
            (put_ric_id (sf_ric_id sf) @ [na])))"

definition e2ap_enc_subscription_delete_request_asn_pdu ::
  "ric_subscription_delete_request \<Rightarrow> E2AP_PDU res" where
  "e2ap_enc_subscription_delete_request_asn_pdu dr =
    Inr (initiatingMessage Proc_RICsubscriptionDelete PR_RICsubscriptionDeleteRequest
          (put_ric_id (sdr_ric_id dr)))"

definition e2ap_enc_subscription_delete_response_asn_pdu ::
  "ric_subscription_delete_response \<Rightarrow> E2AP_PDU res" where
  "e2ap_enc_subscription_delete_response_asn_pdu dr =
    Inr (successfulOutcome Proc_RICsubscriptionDelete PR_RICsubscriptionDeleteResponse
          (put_ric_id (sdresp_ric_id dr)))"

definition e2ap_enc_subscription_delete_failure_asn_pdu ::
  "ric_subscription_delete_failure \<Rightarrow> E2AP_PDU res" where
  "e2ap_enc_subscription_delete_failure_asn_pdu df =
    res_bind (enc_copy_cause (sdf_cause df)) (\<lambda>c.
    if sdf_crit_diag df \<noteq> None then Inl NotImplemented
    else
      Inr (unsuccessfulOutcome Proc_RICsubscriptionDelete PR_RICsubscriptionDeleteFailure
            (put_ric_id (sdf_ric_id df) @ [IE Id_RICactions_NotAdmitted Criticality_reject (V_Cause c)])))"

section \<open>Indication and control\<close>

definition e2ap_enc_indication_asn_pdu :: "ric_indication \<Rightarrow> E2AP_PDU res" where
  "e2ap_enc_indication_asn_pdu ind =
    (if ind_hdr ind = [] then Inl AssertFail
     else if ind_msg ind = [] then Inl AssertFail
     else
       res_bind (put_octets_opt Id_RICcallProcessID O_RICcallProcessID (ind_call_process_id ind)) (\<lambda>proc.
       Inr (initiatingMessage Proc_RICindication PR_RICindication
             (put_ric_id (ind_ric_id ind) @
              [IE Id_RICactionID Criticality_reject (V_int I_RICactionID (uint (ind_action_id ind)))] @
              opt_ie (\<lambda>s. IE Id_RICindicationSN Criticality_reject (V_int I_RICindicationSN (uint s))) (sn ind) @
              [IE Id_RICindicationType Criticality_reject
                 (V_int I_RICindicationType (enum_val ric_indication_type_e (ind_type ind))),
               IE Id_RICindicationHeader Criticality_reject (V_octets O_RICindicationHeader (ind_hdr ind)),
               IE Id_RICindicationMessage Criticality_reject (V_octets O_RICindicationMessage (ind_msg ind))] @
              proc))))"

text \<open>The elements of a control request, in the E2 message and in the E42 message around it.\<close>

definition put_control :: "ric_control_request \<Rightarrow> ie list res" where
  "put_control req =
    res_bind (put_octets_opt Id_RICcallProcessID O_RICcallProcessID (cr_call_process_id req)) (\<lambda>proc.
    Inr (put_ric_id (cr_ric_id req) @ proc @
         [IE Id_RICcontrolHeader Criticality_reject (V_octets O_RICcontrolHeader (cr_hdr req)),
          IE Id_RICcontrolMessage Criticality_reject (V_octets O_RICcontrolMessage (cr_msg req))] @
         opt_ie (\<lambda>a. IE Id_RICcontrolAckRequest Criticality_reject
                       (V_int I_RICcontrolAckRequest (enum_val ric_control_ack_req_e a))) (ack_req req)))"

definition e2ap_enc_control_request_asn_pdu :: "ric_control_request \<Rightarrow> E2AP_PDU res" where
  "e2ap_enc_control_request_asn_pdu req =
    (if cr_hdr req = [] then Inl AssertFail
     else if cr_msg req = [] then Inl AssertFail
     else
       res_bind (put_control req) (\<lambda>ies.
       Inr (initiatingMessage Proc_RICcontrol PR_RICcontrolRequest ies)))"

definition e2ap_enc_control_ack_asn_pdu :: "ric_control_acknowledge \<Rightarrow> E2AP_PDU res" where
  "e2ap_enc_control_ack_asn_pdu ca =
    res_bind (put_octets_opt Id_RICcallProcessID O_RICcallProcessID (ca_call_process_id ca)) (\<lambda>proc.
    res_bind (put_octets_opt Id_RICcontrolOutcome O_RICcontrolOutcome (control_outcome ca)) (\<lambda>out.
    Inr (successfulOutcome Proc_RICcontrol PR_RICcontrolAcknowledge
          (put_ric_id (ca_ric_id ca) @ proc @
           [IE Id_RICcontrolStatus Criticality_reject
              (V_int I_RICcontrolStatus (enum_val ric_control_status_e (ca_status ca)))] @ out))))"

definition e2ap_enc_control_failure_asn_pdu :: "ric_control_failure \<Rightarrow> E2AP_PDU res" where
  "e2ap_enc_control_failure_asn_pdu cf =
    res_bind (put_octets_opt Id_RICcallProcessID O_RICcallProcessID (cf_call_process_id cf)) (\<lambda>proc.
    res_bind (enc_copy_cause (cf_cause cf)) (\<lambda>c.
    res_bind (put_octets_opt Id_RICcontrolOutcome O_RICcontrolOutcome (cf_control_outcome cf)) (\<lambda>out.
    Inr (unsuccessfulOutcome Proc_RICcontrol PR_RICcontrolFailure
          (put_ric_id (cf_ric_id cf) @ proc @ [IE Id_Cause Criticality_reject (V_Cause c)] @ out)))))"

section \<open>Global procedures\<close>

definition e2ap_enc_error_indication_asn_pdu :: "e2ap_error_indication \<Rightarrow> E2AP_PDU res" where
  "e2ap_enc_error_indication_asn_pdu ei =
    res_bind (case ei_cause ei of
                None \<Rightarrow> Inr []
              | Some c \<Rightarrow> res_bind (enc_copy_cause c) (\<lambda>c'. Inr [IE Id_Cause Criticality_reject (V_Cause c')])) (\<lambda>ca.
    if ei_crit_diag ei \<noteq> None then Inl NotImplemented
    else
      Inr (initiatingMessage Proc_ErrorIndication PR_ErrorIndication
            ((case ei_ric_id ei of None \<Rightarrow> [] | Some g \<Rightarrow> put_ric_id g) @ ca)))"

text \<open>The structure of an eNB update is allocated under the tag of an ng-eNB; both are two
  pointers to octet strings, so the first octet string goes out as the first of an ng-eNB and the
  second as the second.\<close>

definition put_component_update :: "component_update \<Rightarrow> E2nodeComponentConfigUpdate res" where
  "put_component_update u =
    (case u of
       GNB_CONFIG_UPDATE ng xn e1 f1 \<Rightarrow> Inr (Update_PR_gNB ng xn e1 f1)
     | EN_GNB_CONFIG_UPDATE x2 \<Rightarrow> Inr (Update_PR_en_gNB x2)
     | NG_ENB_CONFIG_UPDATE ng xn \<Rightarrow> Inr (Update_PR_ng_eNB ng xn)
     | ENB_CONFIG_UPDATE s1 x2 \<Rightarrow> Inr (Update_PR_ng_eNB s1 x2)
     | CONFIG_UPDATE_NOTHING \<Rightarrow> Inl AssertFail)"

definition enc_copy_component_update :: "e2_node_component_config_update \<Rightarrow> ie res" where
  "enc_copy_component_update src =
    res_bind (put_component_update (ccu_update src)) (\<lambda>u.
    Inr (IE Id_E2nodeComponentConfigUpdate_Item Criticality_reject
          (V_E2nodeComponentConfigUpdate_Item
            \<lparr>e2nodeComponentType = enum_val e2_node_component_type_e (ccu_type src),
             e2nodeComponentID =
               (case ccu_id_present src of
                  None \<Rightarrow> None
                | Some COMPONENT_ID_GNB_CU_UP \<Rightarrow> Some (E2nodeComponentID_PR_GNB_CU_UP (Some (uint (ccu_gnb_id src))))
                | Some COMPONENT_ID_GNB_DU \<Rightarrow> Some (E2nodeComponentID_PR_GNB_DU (Some (uint (ccu_gnb_id src))))),
             e2nodeComponentConfigUpdate = u\<rparr>)))"

definition e2ap_enc_setup_request_asn_pdu :: "e2_setup_request_msg \<Rightarrow> E2AP_PDU res" where
  "e2ap_enc_setup_request_asn_pdu sr =
    (if \<not> int (length (ran_func_item sr)) \<le> MAX_NUM_RAN_FUNC_ID then Inl AssertFail
     else
      res_bind (put_node_id (stp_id sr)) (\<lambda>rid.
      res_bind (map_res enc_copy_component_update (comp_conf_update sr)) (\<lambda>ccu.
      Inr (initiatingMessage Proc_E2setup PR_E2setupRequest
            ([rid] @
             (if ran_func_item sr = [] then []
              else [IE Id_RANfunctionsAdded Criticality_reject
                      (V_list L_RANfunctions_List (map put_ran_function (ran_func_item sr)))]) @
             (if comp_conf_update sr = [] then []
              else [IE Id_E2nodeComponentConfigUpdate Criticality_reject
                      (V_list L_E2nodeComponentConfigUpdate_List ccu)]))))))"

text \<open>Items of the lists of accepted and of rejected functions of a setup response.\<close>

definition put_accepted :: "u16 \<Rightarrow> ie" where
  "put_accepted f = IE Id_RANfunctionID_Item Criticality_ignore (V_RANfunctionID_Item (uint f) 0)"

definition put_rejected :: "rejected_ran_function \<Rightarrow> ie res" where
  "put_rejected r =
    res_bind (enc_copy_cause (rej_cause r)) (\<lambda>c.
    Inr (IE Id_RANfunctionID_Item Criticality_ignore (V_RANfunctionIDcause_Item (uint (rej_id r)) c)))"

definition e2ap_enc_setup_response_asn_pdu :: "e2_setup_response_msg \<Rightarrow> E2AP_PDU res" where
  "e2ap_enc_setup_response_asn_pdu sr =
    (if \<not> int (length (accepted sr)) \<le> MAX_NUM_RAN_FUNC_ID then Inl AssertFail
     else if \<not> int (length (rejected sr)) \<le> MAX_NUM_RAN_FUNC_ID then Inl AssertFail
     else if \<not> int (length (comp_conf_update_ack_list sr)) \<le> MAX_NUM_E2_NODE_COMPONENTS then Inl AssertFail
     else
       res_bind (map_res put_rejected (rejected sr)) (\<lambda>rej.
       if comp_conf_update_ack_list sr \<noteq> [] then Inl NotImplemented
       else
         Inr (successfulOutcome Proc_E2setup PR_E2setupResponse
               ([IE Id_GlobalRIC_ID Criticality_reject
                   (V_GlobalRIC_ID
                     (MCC_MNC_TO_PLMNID (mcc (gr_plmn (stp_resp_id sr))) (mnc (gr_plmn (stp_resp_id sr)))
                        (mnc_digit_len (gr_plmn (stp_resp_id sr))))
                     (MACRO_ENB_ID_TO_BIT_STRING (near_ric_id (stp_resp_id sr))))] @
                (if accepted sr = [] then []
                 else [IE Id_RANfunctionsAccepted Criticality_reject
                         (V_list L_RANfunctionsID_List (map put_accepted (accepted sr)))]) @
                (if rejected sr = [] then []
                 else [IE Id_RANfunctionsRejected Criticality_reject (V_list L_RANfunctionsIDcause_List rej)])))))"

text \<open>\<open>copy_ba_to_bit_string\<close>: whole bytes.\<close>

definition copy_ba_to_bit_string :: "byte_array \<Rightarrow> BIT_STRING" where
  "copy_ba_to_bit_string b = \<lparr>bs_buf = b, bits_unused = 0\<rparr>"

definition e2ap_enc_setup_failure_asn_pdu :: "e2_setup_failure \<Rightarrow> E2AP_PDU res" where
  "e2ap_enc_setup_failure_asn_pdu sf =
    res_bind (enc_copy_cause (stpf_cause sf)) (\<lambda>c.
    if stpf_crit_diag sf \<noteq> None then Inl NotImplemented
    else
      Inr (unsuccessfulOutcome Proc_E2setup PR_E2setupFailure
            ([IE Id_E2connectionSetupFailed Criticality_ignore (V_Cause c)] @
             opt_ie (\<lambda>t. IE Id_TimeToWait Criticality_ignore
                           (V_int I_TimeToWait (enum_val e2ap_time_to_wait_e t))) (stpf_time_to_wait sf) @
             opt_ie (\<lambda>t. IE Id_TNLinformation Criticality_ignore
                           (V_TNLinformation
                             \<lparr>tnlAddress = copy_ba_to_bit_string (tl_address t),
                              tnlPort = map_option copy_ba_to_bit_string (tl_port t)\<rparr>)) (tl_info sf))))"

definition e2ap_enc_reset_request_asn_pdu :: "e2ap_reset_request \<Rightarrow> E2AP_PDU res" where
  "e2ap_enc_reset_request_asn_pdu rr =
    res_bind (enc_copy_cause (rst_cause rr)) (\<lambda>c.
    Inr (initiatingMessage Proc_Reset PR_ResetRequest [IE Id_Cause Criticality_ignore (V_Cause c)]))"

definition e2ap_enc_reset_response_asn_pdu :: "e2ap_reset_response \<Rightarrow> E2AP_PDU res" where
  "e2ap_enc_reset_response_asn_pdu rr =
    (if rst_crit_diag rr \<noteq> None then Inl NotImplemented
     else Inr (successfulOutcome Proc_Reset PR_ResetResponse []))"

section \<open>Updates of the service\<close>

text \<open>A function by its number and revision, in an item that also has room for a definition.\<close>

definition put_bare_function :: "ran_function_id_rev \<Rightarrow> ie" where
  "put_bare_function f =
    IE Id_RANfunction_Item Criticality_reject
      (V_RANfunction_Item
        \<lparr>ranFunctionID = uint (fr_id f), ranFunctionDefinition = [], ranFunctionRevision = uint (fr_rev f),
         ranFunctionOID = None\<rparr>)"

text \<open>The deleted functions are added to the list \<open>ran_mod\<close> of the modified ones, and the list of
  the deleted ones stays empty.\<close>

definition e2ap_enc_service_update_asn_pdu :: "ric_service_update \<Rightarrow> E2AP_PDU res" where
  "e2ap_enc_service_update_asn_pdu su =
    (if \<not> int (length (su_added su)) \<le> MAX_NUM_RAN_FUNC_ID then Inl AssertFail
     else if \<not> int (length (su_deleted su)) \<le> MAX_NUM_RAN_FUNC_ID then Inl AssertFail
     else if \<not> int (length (su_modified su)) \<le> MAX_NUM_RAN_FUNC_ID then Inl AssertFail
     else
       Inr (initiatingMessage Proc_RICserviceUpdate PR_RICserviceUpdate
             [IE Id_RANfunctionsAdded Criticality_reject
                (V_list L_RANfunctions_List (map put_ran_function (su_added su))),
              IE Id_RANfunctionsModified Criticality_reject
                (V_list L_RANfunctions_List
                  (map put_ran_function (su_modified su) @ map put_bare_function (su_deleted su))),
              IE Id_RANfunctionsDeleted Criticality_reject (V_list L_RANfunctionsID_List [])]))"

definition put_rejected_service :: "rejected_ran_function \<Rightarrow> ie res" where
  "put_rejected_service r =
    res_bind (enc_copy_cause (rej_cause r)) (\<lambda>c.
    Inr (IE Id_RANfunctionIEcause_Item Criticality_ignore (V_RANfunctionIDcause_Item (uint (rej_id r)) c)))"

text \<open>The rejected functions go out under the tag of the list of accepted ones.\<close>

definition e2ap_enc_service_update_ack_asn_pdu :: "ric_service_update_ack \<Rightarrow> E2AP_PDU res" where
  "e2ap_enc_service_update_ack_asn_pdu su =
    (if \<not> int (length (sua_accepted su)) \<le> MAX_NUM_RAN_FUNC_ID then Inl AssertFail
     else if \<not> int (length (sua_rejected su)) \<le> MAX_NUM_RAN_FUNC_ID then Inl AssertFail
     else
       res_bind (map_res put_rejected_service (sua_rejected su)) (\<lambda>rej.
       Inr (successfulOutcome Proc_RICserviceUpdate PR_RICserviceUpdateAcknowledge
             ((if sua_accepted su = [] then []
               else [IE Id_RANfunctionsAccepted Criticality_ignore
                       (V_list L_RANfunctionsID_List
                         (map (\<lambda>f. IE Id_RANfunction_Item Criticality_reject
                                     (V_RANfunctionID_Item (uint (fr_id f)) (uint (fr_rev f)))) (sua_accepted su)))]) @
              (if sua_rejected su = [] then []
               else [IE Id_RANfunctionsRejected Criticality_ignore (V_list L_RANfunctionsID_List rej)])))))"

text \<open>With a time to wait the list of the rejected functions is added a second time, instead of
  the time.\<close>

definition e2ap_enc_service_update_failure_asn_pdu :: "ric_service_update_failure \<Rightarrow> E2AP_PDU res" where
  "e2ap_enc_service_update_failure_asn_pdu uf =
    res_bind (map_res put_rejected_service (suf_rejected uf)) (\<lambda>rej.
    if suf_crit_diag uf \<noteq> None then Inl NotImplemented
    else
      let update_failure = IE Id_RANfunctionsRejected Criticality_reject (V_list L_RANfunctionsIDcause_List rej) in
      Inr (unsuccessfulOutcome Proc_RICserviceUpdate PR_RICserviceUpdateFailure
            ([update_failure] @ (if suf_time_to_wait uf = None then [] else [update_failure]))))"

definition e2ap_enc_service_query_asn_pdu :: "ric_service_query \<Rightarrow> E2AP_PDU res" where
  "e2ap_enc_service_query_asn_pdu sq =
    (if \<not> int (length (sq_accepted sq)) \<le> MAX_NUM_RAN_FUNC_ID then Inl AssertFail
     else
       Inr (initiatingMessage Proc_RICserviceQuery PR_RICserviceQuery
             [IE Id_RANfunctionsAccepted Criticality_ignore
                (V_list L_RANfunctionsID_List (map put_bare_function (sq_accepted sq)))]))"

section \<open>Updates of the configuration and of the connections\<close>

definition e2ap_enc_node_configuration_update_asn_pdu :: "e2_node_configuration_update \<Rightarrow> E2AP_PDU res" where
  "e2ap_enc_node_configuration_update_asn_pdu cu =
    (if \<not> int (length (comp_conf_update_list cu)) \<le> MAX_NUM_ACTION_DEF then Inl AssertFail
     else
       res_bind (map_res enc_copy_component_update (comp_conf_update_list cu)) (\<lambda>ccu.
       Inr (initiatingMessage Proc_E2nodeConfigurationUpdate PR_E2nodeConfigurationUpdate
             [IE Id_E2nodeComponentConfigUpdate Criticality_ignore
                (V_list L_E2nodeComponentConfigUpdate_List ccu)])))"

text \<open>The pointer \<open>id_present\<close>, not what it points to, is compared with the enumeration, so the
  identifier is always the one of a DU, and its value is not filled in.  The outcome is copied
  only with a cause of failure.\<close>

definition put_update_ack :: "e2_node_component_config_update_ack_item \<Rightarrow> ie res" where
  "put_update_ack src =
    res_bind (case cua_failure_cause src of
                None \<Rightarrow> Inr (0, None)
              | Some c \<Rightarrow> res_bind (enc_copy_cause c) (\<lambda>c'. Inr (sint (cua_update_outcome src), Some c'))) (\<lambda>(out, c).
    Inr (IE Id_E2nodeComponentConfigUpdateAck_Item Criticality_reject
          (V_E2nodeComponentConfigUpdateAck_Item
            \<lparr>ack_e2nodeComponentType = enum_val e2_node_component_type_e (cua_type src),
             ack_e2nodeComponentID =
               (if cua_id_present src = None then None else Some (E2nodeComponentID_PR_GNB_DU None)),
             updateOutcome = out, failureCause = c\<rparr>)))"

definition e2ap_enc_node_configuration_update_ack_asn_pdu ::
  "e2_node_configuration_update_ack \<Rightarrow> E2AP_PDU res" where
  "e2ap_enc_node_configuration_update_ack_asn_pdu cua =
    (if \<not> int (length (cua_list cua)) \<le> MAX_NUM_ACTION_DEF then Inl AssertFail
     else
       res_bind (map_res put_update_ack (cua_list cua)) (\<lambda>l.
       Inr (successfulOutcome Proc_E2nodeConfigurationUpdate PR_E2nodeConfigurationUpdateAcknowledge
             [IE Id_E2nodeComponentConfigUpdateAck Criticality_reject
                (V_list L_E2nodeComponentConfigUpdateAck_List l)])))"

definition e2ap_enc_node_configuration_update_failure_asn_pdu ::
  "e2_node_configuration_update_failure \<Rightarrow> E2AP_PDU res" where
  "e2ap_enc_node_configuration_update_failure_asn_pdu cuf =
    res_bind (enc_copy_cause (cuf_cause cuf)) (\<lambda>c.
    if cuf_crit_diag cuf \<noteq> None then Inl NotImplemented
    else
      Inr (unsuccessfulOutcome Proc_E2nodeConfigurationUpdate PR_E2nodeConfigurationUpdateFailure
            ([IE Id_E2nodeComponentConfigUpdate Criticality_reject (V_Cause c)] @
             opt_ie (\<lambda>t. IE Id_E2nodeComponentConfigUpdate Criticality_reject
                           (V_int I_TimeToWait (enum_val e2ap_time_to_wait_e t))) (cuf_time_wait cuf))))"

definition put_tnl_info :: "e2ap_tnl_information \<Rightarrow> TNLinformation" where
  "put_tnl_info src =
    \<lparr>tnlAddress = copy_ba_to_bit_string (tnl_addr src),
     tnlPort = map_option copy_ba_to_bit_string (tnl_port src)\<rparr>"

text \<open>The item of a connection, under the identifier the caller gives it: the loop over the
  connections to modify uses the identifier of the list.\<close>

definition put_connection :: "ProtocolIE_ID \<Rightarrow> e2_connection_update_item \<Rightarrow> ie" where
  "put_connection ident src =
    IE ident Criticality_ignore
      (V_E2connectionUpdate_Item (put_tnl_info (cui_info src)) (enum_val e2ap_tnl_usage_e (cui_usage src)))"

definition put_removed :: "e2_connection_update_remove_item \<Rightarrow> ie" where
  "put_removed src =
    IE Id_E2connectionUpdate_Item Criticality_ignore
      (V_E2connectionUpdateRemove_Item (put_tnl_info (cur_info src)))"

definition e2ap_enc_node_connection_update_asn_pdu :: "e2_node_connection_update \<Rightarrow> E2AP_PDU res" where
  "e2ap_enc_node_connection_update_asn_pdu cu =
    (if \<not> int (length (cu_add cu)) \<le> MAX_NUM_TNLA then Inl AssertFail
     else if \<not> int (length (cu_rem cu)) \<le> MAX_NUM_TNLA then Inl AssertFail
     else if \<not> int (length (cu_mod cu)) \<le> MAX_NUM_TNLA then Inl AssertFail
     else
       Inr (initiatingMessage Proc_E2connectionUpdate PR_E2connectionUpdate
             ((if cu_add cu = [] then []
               else [IE Id_E2connectionUpdateAdd Criticality_ignore
                       (V_list L_E2connectionUpdate_List
                         (map (put_connection Id_E2connectionUpdate_Item) (cu_add cu)))]) @
              (if cu_rem cu = [] then []
               else [IE Id_E2connectionUpdateRemove Criticality_ignore
                       (V_list L_E2connectionUpdateRemove_List (map put_removed (cu_rem cu)))]) @
              (if cu_mod cu = [] then []
               else [IE Id_E2connectionUpdateModify Criticality_ignore
                       (V_list L_E2connectionUpdate_List
                         (map (put_connection Id_E2connectionUpdateModify) (cu_mod cu)))]))))"

definition put_setup_failed :: "e2_connection_setup_failed \<Rightarrow> ie res" where
  "put_setup_failed src =
    res_bind (enc_copy_cause (csf_cause src)) (\<lambda>c.
    Inr (IE Id_E2connectionSetupFailed_Item Criticality_ignore
          (V_E2connectionSetupFailed_Item (put_tnl_info (csf_info src)) c)))"

definition e2ap_enc_node_connection_update_ack_asn_pdu :: "e2_node_connection_update_ack \<Rightarrow> E2AP_PDU res" where
  "e2ap_enc_node_connection_update_ack_asn_pdu ca =
    (if \<not> int (length (cuack_setup ca)) \<le> MAX_NUM_TNLA then Inl AssertFail
     else if \<not> int (length (cuack_failed ca)) \<le> MAX_NUM_TNLA then Inl AssertFail
     else
       res_bind (map_res put_setup_failed (cuack_failed ca)) (\<lambda>failed.
       Inr (successfulOutcome Proc_E2connectionUpdate PR_E2connectionUpdateAcknowledge
             ((if cuack_setup ca = [] then []
               else [IE Id_E2connectionSetup Criticality_ignore
                       (V_list L_E2connectionUpdate_List
                         (map (put_connection Id_E2connectionUpdate_Item) (cuack_setup ca)))]) @
              (if cuack_failed ca = [] then []
               else [IE Id_E2connectionSetupFailed Criticality_ignore
                       (V_list L_E2connectionSetupFailed_List failed)])))))"

definition e2ap_enc_node_connection_update_failure_asn_pdu ::
  "e2_node_connection_update_failure \<Rightarrow> E2AP_PDU res" where
  "e2ap_enc_node_connection_update_failure_asn_pdu cf =
    res_bind (enc_copy_cause (ncuf_cause cf)) (\<lambda>c.
    if ncuf_crit_diag cf \<noteq> None then Inl NotImplemented
    else
      Inr (unsuccessfulOutcome Proc_E2connectionUpdate PR_E2connectionUpdateFailure
            ([IE Id_E2connectionFailed_Item Criticality_reject (V_Cause c)] @
             opt_ie (\<lambda>t. IE Id_E2connectionFailed_Item Criticality_reject
                           (V_int I_TimeToWait (enum_val e2ap_time_to_wait_e t))) (ncuf_time_wait cf))))"

section \<open>E42: between an xApp and the iApp\<close>

definition e2ap_enc_e42_subscription_request_asn_pdu :: "e42_ric_subscription_request \<Rightarrow> E2AP_PDU res" where
  "e2ap_enc_e42_subscription_request_asn_pdu e42_sr =
    (if event_trigger (e42sr_sr e42_sr) = [] then Inl AssertFail
     else if \<not> int (length (action (e42sr_sr e42_sr))) \<le> MAX_NUM_ACTION_DEF then Inl AssertFail
     else
       res_bind (put_node_id (e42sr_id e42_sr)) (\<lambda>rid.
       res_bind (put_subscription_details (e42sr_sr e42_sr)) (\<lambda>det.
       Inr (initiatingMessage Proc_E42RICsubscription PR_E42RICsubscriptionRequest
             ([put_xapp_id (e42sr_xapp_id e42_sr), rid] @ put_ric_id (sr_ric_id (e42sr_sr e42_sr)) @ [det])))))"

definition e2ap_enc_e42_setup_request_asn_pdu :: "e42_setup_request \<Rightarrow> E2AP_PDU res" where
  "e2ap_enc_e42_setup_request_asn_pdu sr =
    (if \<not> int (length (e42_ran_func_item sr)) \<le> MAX_NUM_RAN_FUNC_ID then Inl AssertFail
     else
       Inr (initiatingMessage Proc_E42setup PR_E42setupRequest
             (if e42_ran_func_item sr = [] then []
              else [IE Id_RANfunctionsAdded Criticality_reject
                      (V_list L_RANfunctions_List (map put_ran_function (e42_ran_func_item sr)))])))"

definition put_connected :: "e2_node_connected \<Rightarrow> ie res" where
  "put_connected n =
    res_bind (put_node_id (nc_id n)) (\<lambda>rid.
    Inr (IE Id_E2nodesConnected Criticality_reject
          (V_list L_E2nodeConnected_List
            [rid,
             IE Id_RANfunctionsAdded Criticality_reject
               (V_list L_RANfunctions_List (map put_ran_function (ack_rf n)))])))"

text \<open>The last assertion reads the list through the pointer to an initiating message, which shares
  its storage and its layout with the pointer to the outcome: it looks at this list.\<close>

definition e2ap_enc_e42_setup_response_asn_pdu :: "e42_setup_response \<Rightarrow> E2AP_PDU res" where
  "e2ap_enc_e42_setup_response_asn_pdu sr =
    (if e42_nodes sr = [] then Inl AssertFail
     else
       res_bind (map_res put_connected (e42_nodes sr)) (\<lambda>nodes.
       Inr (successfulOutcome Proc_E42setup PR_E42setupResponse ([put_xapp_id (e42_xapp_id sr)] @ nodes))))"

definition e2ap_enc_e42_subscription_delete_request_asn_pdu ::
  "e42_ric_subscription_delete_request \<Rightarrow> E2AP_PDU res" where
  "e2ap_enc_e42_subscription_delete_request_asn_pdu e42_sdr =
    Inr (initiatingMessage Proc_E42RICsubscriptionDelete PR_E42RICsubscriptionDeleteRequest
          ([put_xapp_id (e42sdr_xapp_id e42_sdr)] @ put_ric_id (sdr_ric_id (e42sdr_sdr e42_sdr))))"

definition e2ap_enc_e42_control_request_asn_pdu :: "e42_ric_control_request \<Rightarrow> E2AP_PDU res" where
  "e2ap_enc_e42_control_request_asn_pdu e42_req =
    (if cr_hdr (e42cr_ctrl_req e42_req) = [] then Inl AssertFail
     else if cr_msg (e42cr_ctrl_req e42_req) = [] then Inl AssertFail
     else
       res_bind (put_node_id (e42cr_id e42_req)) (\<lambda>rid.
       res_bind (put_control (e42cr_ctrl_req e42_req)) (\<lambda>ies.
       Inr (initiatingMessage Proc_E42RICcontrol PR_E42RICcontrolRequest
             ([put_xapp_id (e42cr_xapp_id e42_req), rid] @ ies)))))"

section \<open>The table of encoders\<close>

text \<open>\<open>init_ap_asn\<close> enters every function under its type, and each function asserts the type.\<close>

fun enc_msg :: "u_msg \<Rightarrow> E2AP_PDU res" where
  "enc_msg (U_ric_sub_req m) = e2ap_enc_subscription_request_asn_pdu m"
| "enc_msg (U_ric_sub_resp m) = e2ap_enc_subscription_response_asn_pdu m"
| "enc_msg (U_ric_sub_fail m) = e2ap_enc_subscription_failure_asn_pdu m"
| "enc_msg (U_ric_sub_del_req m) = e2ap_enc_subscription_delete_request_asn_pdu m"
| "enc_msg (U_ric_sub_del_resp m) = e2ap_enc_subscription_delete_response_asn_pdu m"
| "enc_msg (U_ric_sub_del_fail m) = e2ap_enc_subscription_delete_failure_asn_pdu m"
| "enc_msg (U_ric_ind m) = e2ap_enc_indication_asn_pdu m"
| "enc_msg (U_ric_ctrl_req m) = e2ap_enc_control_request_asn_pdu m"
| "enc_msg (U_ric_ctrl_ack m) = e2ap_enc_control_ack_asn_pdu m"
| "enc_msg (U_ric_ctrl_fail m) = e2ap_enc_control_failure_asn_pdu m"
| "enc_msg (U_err_ind m) = e2ap_enc_error_indication_asn_pdu m"
| "enc_msg (U_e2_stp_req m) = e2ap_enc_setup_request_asn_pdu m"
| "enc_msg (U_e2_stp_resp m) = e2ap_enc_setup_response_asn_pdu m"
| "enc_msg (U_e2_stp_fail m) = e2ap_enc_setup_failure_asn_pdu m"
| "enc_msg (U_rst_req m) = e2ap_enc_reset_request_asn_pdu m"
| "enc_msg (U_rst_resp m) = e2ap_enc_reset_response_asn_pdu m"
| "enc_msg (U_ric_serv_updt m) = e2ap_enc_service_update_asn_pdu m"
| "enc_msg (U_ric_serv_updt_ack m) = e2ap_enc_service_update_ack_asn_pdu m"
| "enc_msg (U_ric_serv_updt_fail m) = e2ap_enc_service_update_failure_asn_pdu m"
| "enc_msg (U_ric_serv_query m) = e2ap_enc_service_query_asn_pdu m"
| "enc_msg (U_e2_node_conf_updt m) = e2ap_enc_node_configuration_update_asn_pdu m"
| "enc_msg (U_e2_node_conf_updt_ack m) = e2ap_enc_node_configuration_update_ack_asn_pdu m"
| "enc_msg (U_e2_node_conf_updt_fail m) = e2ap_enc_node_configuration_update_failure_asn_pdu m"
| "enc_msg (U_e2_conn_updt m) = e2ap_enc_node_connection_update_asn_pdu m"
| "enc_msg (U_e2_conn_updt_ack m) = e2ap_enc_node_connection_update_ack_asn_pdu m"
| "enc_msg (U_e2_conn_updt_fail m) = e2ap_enc_node_connection_update_failure_asn_pdu m"
| "enc_msg (U_e42_stp_req m) = e2ap_enc_e42_setup_request_asn_pdu m"
| "enc_msg (U_e42_stp_resp m) = e2ap_enc_e42_setup_response_asn_pdu m"
| "enc_msg (U_e42_ric_sub_req m) = e2ap_enc_e42_subscription_request_asn_pdu m"
| "enc_msg (U_e42_ric_sub_del_req m) = e2ap_enc_e42_subscription_delete_request_asn_pdu m"
| "enc_msg (U_e42_ric_ctrl_req m) = e2ap_enc_e42_control_request_asn_pdu m"

text \<open>From the PDU to bytes: the buffer has 16384 of them, the codec must fill it only in part.
  \<open>aper_encode\<close> is the generated codec, \<open>None\<close> its failure.\<close>

definition e2ap_enc_asn_pdu_ba :: "(E2AP_PDU \<Rightarrow> byte_array option) \<Rightarrow> E2AP_PDU \<Rightarrow> byte_array res" where
  "e2ap_enc_asn_pdu_ba aper_encode pdu =
    (case aper_encode pdu of
       None \<Rightarrow> Inl AssertFail
     | Some b \<Rightarrow> if length b < 16384 then Inr b else Inl AssertFail)"

definition e2ap_msg_enc_asn :: "(E2AP_PDU \<Rightarrow> byte_array option) \<Rightarrow> u_msg \<Rightarrow> byte_array res" where
  "e2ap_msg_enc_asn aper_encode m = res_bind (enc_msg m) (e2ap_enc_asn_pdu_ba aper_encode)"

text \<open>What the encoders above give passes these assertions.\<close>

definition pdu_fits :: "(E2AP_PDU \<Rightarrow> byte_array option) \<Rightarrow> E2AP_PDU res \<Rightarrow> bool" where
  "pdu_fits aper_encode r \<longleftrightarrow>
    (case r of
       Inl e \<Rightarrow> False
     | Inr pdu \<Rightarrow> (case aper_encode pdu of None \<Rightarrow> False | Some b \<Rightarrow> length b < 16384))"

lemma pdu_fits_iff:
  "pdu_fits aper_encode r \<longleftrightarrow> (\<exists>pdu ba. r = Inr pdu \<and> e2ap_enc_asn_pdu_ba aper_encode pdu = Inr ba)"
  by (auto simp: pdu_fits_def e2ap_enc_asn_pdu_ba_def split: sum.splits option.splits)

end
