(* ===== verification/E2apDec.thy ===== *)
theory E2apDec
  imports E2apEnc
begin

text \<open>
  The decoder of E2AP (\<open>src/lib/ap/dec/e2ap_msg_dec_asn.c\<close>): the type of the message behind a
  PDU, for each type the function that reads the PDU, and the table of these functions.  A
  failed \<open>assert\<close> is \<open>AssertFail\<close>, the access past the end of a list of elements
  \<open>OutOfBounds\<close>, an \<open>assert(0!=0 && "Not implemented")\<close> \<open>NotImplemented\<close>.
\<close>

section \<open>Shared pieces\<close>

definition pdu_is :: "E2AP_PDU_PR \<Rightarrow> ProcedureCode \<Rightarrow> value_PR \<Rightarrow> E2AP_PDU \<Rightarrow> bool" where
  "pdu_is kind proc pr pdu \<longleftrightarrow>
    pdu_present pdu = kind \<and> procedureCode pdu = proc \<and> value_present pdu = pr"

definition ie_head :: "bool \<Rightarrow> ProtocolIE_ID \<Rightarrow> (ie_value \<Rightarrow> 'a res) \<Rightarrow> ie \<Rightarrow> 'a res" where
  "ie_head strict ident get e =
    (if strict then ie_is ident Criticality_reject get e else ie_any ident get e)"

text \<open>The request identifier in the element \<open>k\<close> and the RAN function in the next one.  Some
  decoders do not test the criticality (\<open>strict\<close>), some test that the two numbers of the request
  have 16 bits (\<open>bounded\<close>), some that the function is below a constant (\<open>fmax\<close>).\<close>

definition get_ric_id :: "bool \<Rightarrow> bool \<Rightarrow> int option \<Rightarrow> nat \<Rightarrow> ie list \<Rightarrow> ric_gen_id res" where
  "get_ric_id strict bounded fmax k ies =
    res_bind (ie_at ies k) (\<lambda>e0.
    res_bind (ie_head strict Id_RICrequestID get_RICrequestID e0) (\<lambda>(rq, inst).
    if bounded \<and> \<not> (inst < MAX_RIC_INSTANCE_ID \<and> rq < MAX_RIC_REQUEST_ID) then Inl AssertFail
    else
      res_bind (ie_at ies (Suc k)) (\<lambda>e1.
      res_bind (ie_head strict Id_RANfunctionID (get_int I_RANfunctionID) e1) (\<lambda>f.
      if (case fmax of None \<Rightarrow> False | Some m \<Rightarrow> \<not> f < m) then Inl AssertFail
      else
        Inr \<lparr>ric_req_id = word_of_int rq, ric_inst_id = word_of_int inst, ran_func_id = word_of_int f\<rparr>))))"

definition get_xapp_id :: "ie list \<Rightarrow> u16 res" where
  "get_xapp_id ies =
    res_bind (ie_at ies 0) (\<lambda>e.
    res_bind (ie_is Id_XAPP_ID Criticality_reject (get_int I_XAPP_ID) e) (\<lambda>x. Inr (word_of_int x)))"

definition get_node_id :: "nat \<Rightarrow> ie list \<Rightarrow> global_e2_node_id res" where
  "get_node_id k ies =
    res_bind (ie_at ies k) (\<lambda>e.
    res_bind (ie_is Id_GlobalE2node_ID Criticality_reject get_GlobalE2node_ID e) dec_global_e2_node_id)"

section \<open>Subscriptions\<close>

definition get_subseq_action :: "int \<times> int \<Rightarrow> ric_subsequent_action res" where
  "get_subseq_action s =
    res_bind (enum_of ric_subseq_action_type_e (fst s)) (\<lambda>ty.
    Inr \<lparr>sa_type = ty, time_to_wait_ms = (if snd s \<noteq> 0 then Some (word_of_int (snd s)) else None)\<rparr>)"

definition get_action :: "ie \<Rightarrow> ric_action res" where
  "get_action e =
    res_bind (ie_any Id_RICaction_ToBeSetup_Item get_RICaction_ToBeSetup_Item e) (\<lambda>src.
    res_bind (enum_of ric_action_type_e (ricActionType src)) (\<lambda>ty.
    res_bind (case ricSubsequentAction src of
                None \<Rightarrow> Inr None
              | Some s \<Rightarrow> res_bind (get_subseq_action s) (\<lambda>sa. Inr (Some sa))) (\<lambda>sub.
    Inr \<lparr>act_id = word_of_int (ricActionID src), act_type = ty, act_definition = ricActionDefinition src,
         act_subseq = sub\<rparr>)))"

definition get_subscription_details :: "nat \<Rightarrow> ie list \<Rightarrow> (byte_array \<times> ric_action list) res" where
  "get_subscription_details k ies =
    res_bind (ie_at ies k) (\<lambda>e.
    res_bind (ie_is Id_RICsubscriptionDetails Criticality_reject get_RICsubscriptionDetails e) (\<lambda>(trig, arr).
    if \<not> (0 < length arr \<and> int (length arr) \<le> MAX_NUM_ACTION_DEF) then Inl AssertFail
    else res_bind (map_res get_action arr) (\<lambda>acts. Inr (trig, acts))))"

text \<open>The type of the answer is left 0, the number of a subscription request.\<close>

definition e2ap_dec_subscription_request :: "E2AP_PDU \<Rightarrow> u_msg res" where
  "e2ap_dec_subscription_request pdu =
    (if \<not> pdu_is E2AP_PDU_PR_initiatingMessage Proc_RICsubscription PR_RICsubscriptionRequest pdu then Inl AssertFail
     else if length (protocolIEs pdu) \<noteq> 3 then Inl AssertFail
     else
       res_bind (get_ric_id True False None 0 (protocolIEs pdu)) (\<lambda>g.
       res_bind (get_subscription_details 2 (protocolIEs pdu)) (\<lambda>(trig, acts).
       Inr (U_ric_sub_req \<lparr>sr_ric_id = g, event_trigger = trig, action = acts\<rparr>))))"

definition e2ap_dec_e42_subscription_request :: "E2AP_PDU \<Rightarrow> u_msg res" where
  "e2ap_dec_e42_subscription_request pdu =
    (if \<not> pdu_is E2AP_PDU_PR_initiatingMessage Proc_E42RICsubscription PR_E42RICsubscriptionRequest pdu
     then Inl AssertFail
     else if length (protocolIEs pdu) \<noteq> 5 then Inl AssertFail
     else
       res_bind (get_xapp_id (protocolIEs pdu)) (\<lambda>x.
       res_bind (get_node_id 1 (protocolIEs pdu)) (\<lambda>n.
       res_bind (get_ric_id True False None 2 (protocolIEs pdu)) (\<lambda>g.
       res_bind (get_subscription_details 4 (protocolIEs pdu)) (\<lambda>(trig, acts).
       Inr (U_e42_ric_sub_req
             \<lparr>e42sr_xapp_id = x, e42sr_id = n,
              e42sr_sr = \<lparr>sr_ric_id = g, event_trigger = trig, action = acts\<rparr>\<rparr>))))))"

definition get_admitted :: "ie \<Rightarrow> ric_action_admitted res" where
  "get_admitted e =
    res_bind (ie_is Id_RICaction_Admitted_Item Criticality_reject (get_int I_RICaction_Admitted_Item) e) (\<lambda>i.
    if \<not> i < MAX_RIC_ACTION_ID then Inl AssertFail else Inr \<lparr>ric_act_id = word_of_int i\<rparr>)"

definition get_not_admitted :: "ie \<Rightarrow> ric_action_not_admitted res" where
  "get_not_admitted e =
    res_bind (ie_is Id_RICaction_NotAdmitted_Item Criticality_reject get_RICaction_NotAdmitted_Item e) (\<lambda>(i, c).
    res_bind (dec_copy_cause c) (\<lambda>c'. Inr \<lparr>na_act_id = word_of_int i, na_cause = c'\<rparr>))"

definition get_not_admitted_list :: "nat \<Rightarrow> ie list \<Rightarrow> ric_action_not_admitted list res" where
  "get_not_admitted_list k ies =
    res_bind (ie_at ies k) (\<lambda>e.
    res_bind (ie_is Id_RICactions_NotAdmitted Criticality_reject (get_list L_RICaction_NotAdmitted_List) e)
      (map_res get_not_admitted))"

text \<open>The actions not admitted are read into their array, but \<open>len_na\<close> stays 0: the message has
  none.\<close>

definition e2ap_dec_subscription_response :: "E2AP_PDU \<Rightarrow> u_msg res" where
  "e2ap_dec_subscription_response pdu =
    (if \<not> pdu_is E2AP_PDU_PR_successfulOutcome Proc_RICsubscription PR_RICsubscriptionResponse pdu then Inl AssertFail
     else if criticality pdu \<noteq> Criticality_reject then Inl AssertFail
     else
       res_bind (get_ric_id True True (Some MAX_NUM_RAN_FUNC_ID) 0 (protocolIEs pdu)) (\<lambda>g.
       res_bind (ie_at (protocolIEs pdu) 2) (\<lambda>e.
       res_bind (ie_is Id_RICactions_Admitted Criticality_reject (get_list L_RICaction_Admitted_List) e) (\<lambda>arr.
       res_bind (map_res get_admitted arr) (\<lambda>adm.
       res_bind (get_not_admitted_list 3 (protocolIEs pdu)) (\<lambda>_.
       Inr (U_ric_sub_resp \<lparr>resp_ric_id = g, admitted = adm, not_admitted = []\<rparr>)))))))"

definition e2ap_dec_subscription_failure :: "E2AP_PDU \<Rightarrow> u_msg res" where
  "e2ap_dec_subscription_failure pdu =
    (if \<not> pdu_is E2AP_PDU_PR_unsuccessfulOutcome Proc_RICsubscription PR_RICsubscriptionFailure pdu then Inl AssertFail
     else if criticality pdu \<noteq> Criticality_reject then Inl AssertFail
     else
       res_bind (get_ric_id True False (Some MAX_RAN_FUNC_ID) 0 (protocolIEs pdu)) (\<lambda>g.
       res_bind (get_not_admitted_list 2 (protocolIEs pdu)) (\<lambda>na.
       if length (protocolIEs pdu) > 3 then Inl NotImplemented
       else Inr (U_ric_sub_fail \<lparr>sf_ric_id = g, sf_not_admitted = na, sf_crit_diag = None\<rparr>))))"

definition e2ap_dec_subscription_delete_request :: "E2AP_PDU \<Rightarrow> u_msg res" where
  "e2ap_dec_subscription_delete_request pdu =
    (if \<not> pdu_is E2AP_PDU_PR_initiatingMessage Proc_RICsubscriptionDelete PR_RICsubscriptionDeleteRequest pdu
     then Inl AssertFail
     else if criticality pdu \<noteq> Criticality_reject then Inl AssertFail
     else
       res_bind (get_ric_id True False (Some MAX_RAN_FUNC_ID) 0 (protocolIEs pdu)) (\<lambda>g.
       Inr (U_ric_sub_del_req \<lparr>sdr_ric_id = g\<rparr>)))"

definition e2ap_dec_subscription_delete_response :: "E2AP_PDU \<Rightarrow> u_msg res" where
  "e2ap_dec_subscription_delete_response pdu =
    (if \<not> pdu_is E2AP_PDU_PR_successfulOutcome Proc_RICsubscriptionDelete PR_RICsubscriptionDeleteResponse pdu
     then Inl AssertFail
     else if criticality pdu \<noteq> Criticality_reject then Inl AssertFail
     else
       res_bind (get_ric_id True False (Some MAX_RAN_FUNC_ID) 0 (protocolIEs pdu)) (\<lambda>g.
       Inr (U_ric_sub_del_resp \<lparr>sdresp_ric_id = g\<rparr>)))"

definition e2ap_dec_subscription_delete_failure :: "E2AP_PDU \<Rightarrow> u_msg res" where
  "e2ap_dec_subscription_delete_failure pdu =
    (if \<not> pdu_is E2AP_PDU_PR_unsuccessfulOutcome Proc_RICsubscriptionDelete PR_RICsubscriptionDeleteFailure pdu
     then Inl AssertFail
     else if criticality pdu \<noteq> Criticality_reject then Inl AssertFail
     else
       res_bind (get_ric_id True False (Some MAX_RAN_FUNC_ID) 0 (protocolIEs pdu)) (\<lambda>g.
       res_bind (ie_at (protocolIEs pdu) 2) (\<lambda>e.
       res_bind (ie_is Id_RICactions_NotAdmitted Criticality_reject get_Cause e) (\<lambda>c.
       res_bind (dec_copy_cause c) (\<lambda>c'.
       if length (protocolIEs pdu) > 3 then Inl NotImplemented
       else Inr (U_ric_sub_del_fail \<lparr>sdf_ric_id = g, sdf_cause = c', sdf_crit_diag = None\<rparr>))))))"

definition e2ap_dec_e42_subscription_delete_request :: "E2AP_PDU \<Rightarrow> u_msg res" where
  "e2ap_dec_e42_subscription_delete_request pdu =
    (if \<not> pdu_is E2AP_PDU_PR_initiatingMessage Proc_E42RICsubscriptionDelete PR_E42RICsubscriptionDeleteRequest pdu
     then Inl AssertFail
     else if criticality pdu \<noteq> Criticality_reject then Inl AssertFail
     else
       res_bind (get_xapp_id (protocolIEs pdu)) (\<lambda>x.
       res_bind (get_ric_id True False (Some MAX_RAN_FUNC_ID) 1 (protocolIEs pdu)) (\<lambda>g.
       Inr (U_e42_ric_sub_del_req \<lparr>e42sdr_xapp_id = x, e42sdr_sdr = \<lparr>sdr_ric_id = g\<rparr>\<rparr>))))"

section \<open>Indication and control\<close>

text \<open>The bodies of the loops over the elements behind the first ones.\<close>

definition indication_element :: "ie \<Rightarrow> ric_indication \<Rightarrow> ric_indication res" where
  "indication_element e ind =
    (if ie_id e = Id_RICindicationSN then
       res_bind (ie_is Id_RICindicationSN Criticality_reject (get_int I_RICindicationSN) e) (\<lambda>s.
       if \<not> s < MAX_RIC_INDICATION_SN then Inl AssertFail
       else Inr (ind\<lparr>sn := Some (word_of_int s)\<rparr>))
     else if ie_id e = Id_RICindicationType then
       res_bind (ie_is Id_RICindicationType Criticality_reject (get_int I_RICindicationType) e) (\<lambda>t.
       if \<not> t < MAX_RIC_INDICATION_TYPE then Inl AssertFail
       else res_bind (enum_of ric_indication_type_e t) (\<lambda>ty. Inr (ind\<lparr>ind_type := ty\<rparr>)))
     else if ie_id e = Id_RICindicationHeader then
       res_bind (ie_is Id_RICindicationHeader Criticality_reject (get_octets O_RICindicationHeader) e) (\<lambda>b.
       Inr (ind\<lparr>ind_hdr := b\<rparr>))
     else if ie_id e = Id_RICindicationMessage then
       res_bind (ie_is Id_RICindicationMessage Criticality_reject (get_octets O_RICindicationMessage) e) (\<lambda>b.
       Inr (ind\<lparr>ind_msg := b\<rparr>))
     else if ie_id e = Id_RICcallProcessID then
       res_bind (ie_is Id_RICcallProcessID Criticality_reject (get_octets O_RICcallProcessID) e) (\<lambda>b.
       Inr (ind\<lparr>ind_call_process_id := Some b\<rparr>))
     else Inl AssertFail)"

definition e2ap_dec_indication :: "E2AP_PDU \<Rightarrow> u_msg res" where
  "e2ap_dec_indication pdu =
    (if \<not> pdu_is E2AP_PDU_PR_initiatingMessage Proc_RICindication PR_RICindication pdu then Inl AssertFail
     else if criticality pdu \<noteq> Criticality_reject then Inl AssertFail
     else
       res_bind (get_ric_id True True (Some MAX_RAN_FUNC_ID) 0 (protocolIEs pdu)) (\<lambda>g.
       res_bind (ie_at (protocolIEs pdu) 2) (\<lambda>e.
       res_bind (ie_is Id_RICactionID Criticality_reject (get_int I_RICactionID) e) (\<lambda>a.
       if \<not> a < MAX_RIC_ACTION_ID then Inl AssertFail
       else
         res_bind (fold_res indication_element (drop 3 (protocolIEs pdu))
           \<lparr>ind_ric_id = g, ind_action_id = word_of_int a, sn = None, ind_type = RIC_IND_REPORT,
            ind_hdr = [], ind_msg = [], ind_call_process_id = None\<rparr>) (\<lambda>ind.
         Inr (U_ric_ind ind))))))"

definition control_element :: "ie \<Rightarrow> ric_control_request \<Rightarrow> ric_control_request res" where
  "control_element e ctrl =
    (if ie_id e = Id_RICcallProcessID then
       res_bind (ie_any Id_RICcallProcessID (get_octets O_RICcallProcessID) e) (\<lambda>b.
       Inr (ctrl\<lparr>cr_call_process_id := Some b\<rparr>))
     else if ie_id e = Id_RICcontrolHeader then
       res_bind (ie_any Id_RICcontrolHeader (get_octets O_RICcontrolHeader) e) (\<lambda>b. Inr (ctrl\<lparr>cr_hdr := b\<rparr>))
     else if ie_id e = Id_RICcontrolMessage then
       res_bind (ie_any Id_RICcontrolMessage (get_octets O_RICcontrolMessage) e) (\<lambda>b. Inr (ctrl\<lparr>cr_msg := b\<rparr>))
     else if ie_id e = Id_RICcontrolAckRequest then
       res_bind (ie_any Id_RICcontrolAckRequest (get_int I_RICcontrolAckRequest) e) (\<lambda>a.
       if \<not> a < 3 then Inl AssertFail
       else res_bind (enum_of ric_control_ack_req_e a) (\<lambda>r. Inr (ctrl\<lparr>ack_req := Some r\<rparr>)))
     else Inl AssertFail)"

definition empty_control :: "ric_gen_id \<Rightarrow> ric_control_request" where
  "empty_control g =
    \<lparr>cr_ric_id = g, cr_call_process_id = None, cr_hdr = [], cr_msg = [], ack_req = None\<rparr>"

definition e2ap_dec_control_request :: "E2AP_PDU \<Rightarrow> u_msg res" where
  "e2ap_dec_control_request pdu =
    (if \<not> pdu_is E2AP_PDU_PR_initiatingMessage Proc_RICcontrol PR_RICcontrolRequest pdu then Inl AssertFail
     else
       res_bind (get_ric_id False True (Some MAX_RAN_FUNC_ID) 0 (protocolIEs pdu)) (\<lambda>g.
       res_bind (fold_res control_element (drop 2 (protocolIEs pdu)) (empty_control g)) (\<lambda>ctrl.
       Inr (U_ric_ctrl_req ctrl))))"

definition e2ap_dec_e42_control_request :: "E2AP_PDU \<Rightarrow> u_msg res" where
  "e2ap_dec_e42_control_request pdu =
    (if \<not> pdu_is E2AP_PDU_PR_initiatingMessage Proc_E42RICcontrol PR_E42RICcontrolRequest pdu then Inl AssertFail
     else
       res_bind (get_xapp_id (protocolIEs pdu)) (\<lambda>x.
       res_bind (get_node_id 1 (protocolIEs pdu)) (\<lambda>n.
       res_bind (get_ric_id False True (Some MAX_RAN_FUNC_ID) 2 (protocolIEs pdu)) (\<lambda>g.
       res_bind (fold_res control_element (drop 4 (protocolIEs pdu)) (empty_control g)) (\<lambda>ctrl.
       Inr (U_e42_ric_ctrl_req \<lparr>e42cr_xapp_id = x, e42cr_id = n, e42cr_ctrl_req = ctrl\<rparr>))))))"

definition control_ack_element :: "ie \<Rightarrow> ric_control_acknowledge \<Rightarrow> ric_control_acknowledge res" where
  "control_ack_element e ca =
    (if ie_id e = Id_RICcallProcessID then
       res_bind (ie_is Id_RICcallProcessID Criticality_reject (get_octets O_RICcallProcessID) e) (\<lambda>b.
       Inr (ca\<lparr>ca_call_process_id := Some b\<rparr>))
     else if ie_id e = Id_RICcontrolStatus then
       res_bind (ie_is Id_RICcontrolStatus Criticality_reject (get_int I_RICcontrolStatus) e) (\<lambda>s.
       res_bind (enum_of ric_control_status_e s) (\<lambda>st. Inr (ca\<lparr>ca_status := st\<rparr>)))
     else if ie_id e = Id_RICcontrolOutcome then
       res_bind (ie_is Id_RICcontrolOutcome Criticality_reject (get_octets O_RICcontrolOutcome) e) (\<lambda>b.
       Inr (ca\<lparr>control_outcome := Some b\<rparr>))
     else Inl AssertFail)"

definition e2ap_dec_control_ack :: "E2AP_PDU \<Rightarrow> u_msg res" where
  "e2ap_dec_control_ack pdu =
    (if \<not> pdu_is E2AP_PDU_PR_successfulOutcome Proc_RICcontrol PR_RICcontrolAcknowledge pdu then Inl AssertFail
     else if criticality pdu \<noteq> Criticality_reject then Inl AssertFail
     else
       res_bind (get_ric_id True True (Some MAX_RAN_FUNC_ID) 0 (protocolIEs pdu)) (\<lambda>g.
       res_bind (fold_res control_ack_element (drop 2 (protocolIEs pdu))
         \<lparr>ca_ric_id = g, ca_call_process_id = None, ca_status = RIC_CONTROL_STATUS_SUCCESS,
          control_outcome = None\<rparr>) (\<lambda>ca.
       Inr (U_ric_ctrl_ack ca))))"

definition control_failure_element :: "ie \<Rightarrow> ric_control_failure \<Rightarrow> ric_control_failure res" where
  "control_failure_element e cf =
    (if ie_id e = Id_RICcallProcessID then
       res_bind (ie_is Id_RICcallProcessID Criticality_reject (get_octets O_RICcallProcessID) e) (\<lambda>b.
       Inr (cf\<lparr>cf_call_process_id := Some b\<rparr>))
     else if ie_id e = Id_Cause then
       res_bind (ie_is Id_Cause Criticality_reject get_Cause e) (\<lambda>c.
       res_bind (dec_copy_cause c) (\<lambda>c'. Inr (cf\<lparr>cf_cause := c'\<rparr>)))
     else if ie_id e = Id_RICcontrolOutcome then
       res_bind (ie_is Id_RICcontrolOutcome Criticality_reject (get_octets O_RICcontrolOutcome) e) (\<lambda>b.
       Inr (cf\<lparr>cf_control_outcome := Some b\<rparr>))
     else Inl AssertFail)"

definition e2ap_dec_control_failure :: "E2AP_PDU \<Rightarrow> u_msg res" where
  "e2ap_dec_control_failure pdu =
    (if \<not> pdu_is E2AP_PDU_PR_unsuccessfulOutcome Proc_RICcontrol PR_RICcontrolFailure pdu then Inl AssertFail
     else if criticality pdu \<noteq> Criticality_reject then Inl AssertFail
     else
       res_bind (get_ric_id True False (Some MAX_NUM_RAN_FUNC_ID) 0 (protocolIEs pdu)) (\<lambda>g.
       res_bind (fold_res control_failure_element (drop 2 (protocolIEs pdu))
         \<lparr>cf_ric_id = g, cf_call_process_id = None, cf_cause = \<lparr>present = 0, cause_val = 0\<rparr>,
          cf_control_outcome = None\<rparr>) (\<lambda>cf.
       Inr (U_ric_ctrl_fail cf))))"

section \<open>Global procedures\<close>

text \<open>The RAN function of an error indication is written through the pointer that the element of
  the request identifier allocates: without one before it, through a null pointer.\<close>

definition error_element :: "ie \<Rightarrow> e2ap_error_indication \<Rightarrow> e2ap_error_indication res" where
  "error_element e ei =
    (if ie_id e = Id_RICrequestID then
       res_bind (ie_is Id_RICrequestID Criticality_reject get_RICrequestID e) (\<lambda>(rq, inst).
       Inr (ei\<lparr>ei_ric_id := Some \<lparr>ric_req_id = word_of_int rq, ric_inst_id = word_of_int inst, ran_func_id = 0\<rparr>\<rparr>))
     else if ie_id e = Id_RANfunctionID then
       res_bind (ie_is Id_RANfunctionID Criticality_reject (get_int I_RANfunctionID) e) (\<lambda>f.
       if \<not> f < MAX_NUM_RAN_FUNC_ID then Inl AssertFail
       else (case ei_ric_id ei of
               None \<Rightarrow> Inl NullDeref
             | Some g \<Rightarrow> Inr (ei\<lparr>ei_ric_id := Some (g\<lparr>ran_func_id := word_of_int f\<rparr>)\<rparr>)))
     else if ie_id e = Id_Cause then
       res_bind (ie_is Id_Cause Criticality_reject get_Cause e) (\<lambda>c.
       res_bind (dec_copy_cause c) (\<lambda>c'. Inr (ei\<lparr>ei_cause := Some c'\<rparr>)))
     else if ie_id e = Id_CriticalityDiagnostics then
       (if ie_crit e \<noteq> Criticality_reject then Inl AssertFail
        else if ie_value e \<noteq> V_CriticalityDiagnostics then Inl AssertFail
        else Inl NotImplemented)
     else Inl AssertFail)"

definition e2ap_dec_error_indication :: "E2AP_PDU \<Rightarrow> u_msg res" where
  "e2ap_dec_error_indication pdu =
    (if \<not> pdu_is E2AP_PDU_PR_initiatingMessage Proc_ErrorIndication PR_ErrorIndication pdu then Inl AssertFail
     else if criticality pdu \<noteq> Criticality_reject then Inl AssertFail
     else
       res_bind (fold_res error_element (protocolIEs pdu)
         \<lparr>ei_ric_id = None, ei_cause = None, ei_crit_diag = None\<rparr>) (\<lambda>ei.
       Inr (U_err_ind ei)))"

definition get_component_update :: "E2nodeComponentConfigUpdate \<Rightarrow> component_update res" where
  "get_component_update u =
    (case u of
       Update_PR_gNB ng xn e1 f1 \<Rightarrow> Inr (GNB_CONFIG_UPDATE ng xn e1 f1)
     | Update_PR_en_gNB x2 \<Rightarrow> Inr (EN_GNB_CONFIG_UPDATE x2)
     | Update_PR_ng_eNB ng xn \<Rightarrow> Inr (NG_ENB_CONFIG_UPDATE ng xn)
     | Update_PR_eNB s1 x2 \<Rightarrow> Inr (ENB_CONFIG_UPDATE s1 x2)
     | Update_PR_NOTHING \<Rightarrow> Inl AssertFail)"

text \<open>The identifier of the component is left to the caller.\<close>

definition dec_copy_component_update ::
  "E2nodeComponentConfigUpdate_Item \<Rightarrow> e2_node_component_config_update res" where
  "dec_copy_component_update src =
    (if \<not> e2nodeComponentType src < 6 then Inl AssertFail
     else
       res_bind (enum_of e2_node_component_type_e (e2nodeComponentType src)) (\<lambda>ty.
       res_bind (get_component_update (e2nodeComponentConfigUpdate src)) (\<lambda>u.
       Inr \<lparr>ccu_type = ty, ccu_id_present = None, ccu_gnb_id = 0, ccu_update = u\<rparr>)))"

definition get_component_id ::
  "E2nodeComponentID option \<Rightarrow> e2_node_component_config_update \<Rightarrow> e2_node_component_config_update res" where
  "get_component_id cid dst =
    (case cid of
       None \<Rightarrow> Inr dst
     | Some (E2nodeComponentID_PR_GNB_CU_UP (Some v)) \<Rightarrow>
         Inr (dst\<lparr>ccu_id_present := Some COMPONENT_ID_GNB_CU_UP, ccu_gnb_id := word_of_int v\<rparr>)
     | Some (E2nodeComponentID_PR_GNB_DU (Some v)) \<Rightarrow>
         Inr (dst\<lparr>ccu_id_present := Some COMPONENT_ID_GNB_DU, ccu_gnb_id := word_of_int v\<rparr>)
     | Some E2nodeComponentID_PR_NOTHING \<Rightarrow> Inl AssertFail
     | Some _ \<Rightarrow> Inl NullDeref)"

definition get_setup_component :: "ie \<Rightarrow> e2_node_component_config_update res" where
  "get_setup_component e =
    res_bind (ie_is Id_E2nodeComponentConfigUpdate_Item Criticality_reject
                get_E2nodeComponentConfigUpdate_Item e) (\<lambda>src.
    res_bind (dec_copy_component_update src) (get_component_id (e2nodeComponentID src)))"

text \<open>The items of a list of functions in a setup message: identifier and criticality are not
  looked at.\<close>

definition get_setup_function :: "ie \<Rightarrow> ran_function res" where
  "get_setup_function e = res_bind (get_RANfunction_Item (ie_value e)) dec_checked_ran_function"

definition setup_request_element :: "ie \<Rightarrow> e2_setup_request_msg \<Rightarrow> e2_setup_request_msg res" where
  "setup_request_element e sr =
    (if ie_id e = Id_RANfunctionsAdded then
       res_bind (ie_is Id_RANfunctionsAdded Criticality_reject (get_list L_RANfunctions_List) e) (\<lambda>l.
       if \<not> int (length l) < MAX_NUM_RAN_FUNC_ID then Inl AssertFail
       else res_bind (map_res get_setup_function l) (\<lambda>fs. Inr (sr\<lparr>ran_func_item := fs\<rparr>)))
     else if ie_id e = Id_E2nodeComponentConfigUpdate then
       res_bind (ie_is Id_E2nodeComponentConfigUpdate Criticality_reject
                   (get_list L_E2nodeComponentConfigUpdate_List) e) (\<lambda>l.
       if \<not> int (length l) < MAX_NUM_E2_NODE_COMPONENTS then Inl AssertFail
       else res_bind (map_res get_setup_component l) (\<lambda>us. Inr (sr\<lparr>comp_conf_update := us\<rparr>)))
     else Inl AssertFail)"

text \<open>The loop goes from the last element down to the second one.\<close>

definition e2ap_dec_setup_request :: "E2AP_PDU \<Rightarrow> u_msg res" where
  "e2ap_dec_setup_request pdu =
    (if \<not> pdu_is E2AP_PDU_PR_initiatingMessage Proc_E2setup PR_E2setupRequest pdu then Inl AssertFail
     else if criticality pdu \<noteq> Criticality_reject then Inl AssertFail
     else if \<not> (0 < length (protocolIEs pdu) \<and> length (protocolIEs pdu) < 4) then Inl AssertFail
     else
       res_bind (get_node_id 0 (protocolIEs pdu)) (\<lambda>n.
       res_bind (fold_res setup_request_element (rev (tl (protocolIEs pdu)))
         \<lparr>stp_id = n, ran_func_item = [], comp_conf_update = []\<rparr>) (\<lambda>sr.
       Inr (U_e2_stp_req sr))))"

definition get_accepted :: "ie \<Rightarrow> u16 res" where
  "get_accepted e =
    res_bind (ie_is Id_RANfunctionID_Item Criticality_ignore get_RANfunctionID_Item e) (\<lambda>(i, r).
    if \<not> i < MAX_RAN_FUNC_ID then Inl AssertFail else Inr (word_of_int i))"

definition get_rejected :: "ie \<Rightarrow> rejected_ran_function res" where
  "get_rejected e =
    res_bind (ie_is Id_RANfunctionID_Item Criticality_ignore get_RANfunctionIDcause_Item e) (\<lambda>(i, c).
    if \<not> i < MAX_RAN_FUNC_ID then Inl AssertFail
    else res_bind (dec_copy_cause c) (\<lambda>c'. Inr \<lparr>rej_id = word_of_int i, rej_cause = c'\<rparr>))"

definition setup_response_element :: "ie \<Rightarrow> e2_setup_response_msg \<Rightarrow> e2_setup_response_msg res" where
  "setup_response_element e sr =
    (if ie_id e = Id_RANfunctionsAccepted then
       res_bind (ie_is Id_RANfunctionsAccepted Criticality_reject (get_list L_RANfunctionsID_List) e) (\<lambda>l.
       if \<not> int (length l) < MAX_NUM_RAN_FUNC_ID then Inl AssertFail
       else res_bind (map_res get_accepted l) (\<lambda>fs. Inr (sr\<lparr>accepted := fs\<rparr>)))
     else if ie_id e = Id_RANfunctionsRejected then
       res_bind (ie_is Id_RANfunctionsRejected Criticality_reject (get_list L_RANfunctionsIDcause_List) e) (\<lambda>l.
       res_bind (map_res get_rejected l) (\<lambda>fs. Inr (sr\<lparr>rejected := fs\<rparr>)))
     else if ie_id e = Id_E2nodeComponentConfigUpdateAck then
       res_bind (ie_is Id_E2nodeComponentConfigUpdateAck Criticality_reject
                   (get_list L_E2nodeComponentConfigUpdateAck_List) e) (\<lambda>l.
       if l \<noteq> [] then Inl NotImplemented else Inr (sr\<lparr>comp_conf_update_ack_list := []\<rparr>))
     else Inl AssertFail)"

definition e2ap_dec_setup_response :: "E2AP_PDU \<Rightarrow> u_msg res" where
  "e2ap_dec_setup_response pdu =
    (if pdu_present pdu = E2AP_PDU_PR_unsuccessfulOutcome then Inl NotImplemented
     else if \<not> pdu_is E2AP_PDU_PR_successfulOutcome Proc_E2setup PR_E2setupResponse pdu then Inl AssertFail
     else if criticality pdu \<noteq> Criticality_reject then Inl AssertFail
     else if \<not> (0 < length (protocolIEs pdu) \<and> length (protocolIEs pdu) < 4) then Inl AssertFail
     else
       res_bind (ie_at (protocolIEs pdu) 0) (\<lambda>e.
       res_bind (ie_is Id_GlobalRIC_ID Criticality_reject get_GlobalRIC_ID e) (\<lambda>(pl, rid).
       res_bind (PLMNID_TO_MCC_MNC pl) (\<lambda>p.
       res_bind (BIT_STRING_TO_MACRO_ENB_ID rid) (\<lambda>i.
       res_bind (fold_res setup_response_element (rev (tl (protocolIEs pdu)))
         \<lparr>stp_resp_id = \<lparr>gr_plmn = p, near_ric_id = i\<rparr>, accepted = [], rejected = [],
          comp_conf_update_ack_list = []\<rparr>) (\<lambda>sr.
       Inr (U_e2_stp_resp sr)))))))"

definition copy_bs_to_ba :: "BIT_STRING \<Rightarrow> byte_array res" where
  "copy_bs_to_ba src = (if bits_unused src \<noteq> 0 then Inl AssertFail else Inr (bs_buf src))"

definition setup_failure_element :: "ie \<Rightarrow> e2_setup_failure \<Rightarrow> e2_setup_failure res" where
  "setup_failure_element e sf =
    (case ie_value e of
       V_int I_TimeToWait t \<Rightarrow>
         res_bind (ie_is Id_TimeToWait Criticality_ignore Inr e) (\<lambda>_.
         res_bind (enum_of e2ap_time_to_wait_e t) (\<lambda>w. Inr (sf\<lparr>stpf_time_to_wait := Some w\<rparr>)))
     | V_CriticalityDiagnostics \<Rightarrow>
         res_bind (ie_is Id_CriticalityDiagnostics Criticality_ignore Inr e) (\<lambda>_. Inl NotImplemented)
     | V_TNLinformation t \<Rightarrow>
         res_bind (ie_is Id_TNLinformation Criticality_ignore Inr e) (\<lambda>_.
         res_bind (copy_bs_to_ba (tnlAddress t)) (\<lambda>a.
         res_bind (case tnlPort t of None \<Rightarrow> Inr None
                   | Some p \<Rightarrow> res_bind (copy_bs_to_ba p) (\<lambda>b. Inr (Some b))) (\<lambda>p.
         Inr (sf\<lparr>tl_info := Some \<lparr>tl_address = a, tl_port = p\<rparr>\<rparr>))))
     | _ \<Rightarrow> Inl AssertFail)"

definition e2ap_dec_setup_failure :: "E2AP_PDU \<Rightarrow> u_msg res" where
  "e2ap_dec_setup_failure pdu =
    (if \<not> pdu_is E2AP_PDU_PR_unsuccessfulOutcome Proc_E2setup PR_E2setupFailure pdu then Inl AssertFail
     else if criticality pdu \<noteq> Criticality_reject then Inl AssertFail
     else
       res_bind (ie_at (protocolIEs pdu) 0) (\<lambda>e.
       res_bind (ie_is Id_E2connectionSetupFailed Criticality_ignore get_Cause e) (\<lambda>c.
       res_bind (dec_copy_cause c) (\<lambda>c'.
       if \<not> length (protocolIEs pdu) \<le> 4 then Inl AssertFail
       else
         res_bind (fold_res setup_failure_element (rev (tl (protocolIEs pdu)))
           \<lparr>stpf_cause = c', stpf_time_to_wait = None, stpf_crit_diag = None, tl_info = None\<rparr>) (\<lambda>sf.
         Inr (U_e2_stp_fail sf))))))"

definition e2ap_dec_reset_request :: "E2AP_PDU \<Rightarrow> u_msg res" where
  "e2ap_dec_reset_request pdu =
    (if \<not> pdu_is E2AP_PDU_PR_initiatingMessage Proc_Reset PR_ResetRequest pdu then Inl AssertFail
     else if criticality pdu \<noteq> Criticality_reject then Inl AssertFail
     else
       res_bind (ie_at (protocolIEs pdu) 0) (\<lambda>e.
       res_bind (ie_is Id_Cause Criticality_ignore get_Cause e) (\<lambda>c.
       res_bind (dec_copy_cause c) (\<lambda>c'. Inr (U_rst_req \<lparr>rst_cause = c'\<rparr>)))))"

definition e2ap_dec_reset_response :: "E2AP_PDU \<Rightarrow> u_msg res" where
  "e2ap_dec_reset_response pdu =
    (if \<not> pdu_is E2AP_PDU_PR_successfulOutcome Proc_Reset PR_ResetResponse pdu then Inl AssertFail
     else if criticality pdu \<noteq> Criticality_reject then Inl AssertFail
     else if protocolIEs pdu \<noteq> [] then Inl NotImplemented
     else Inr (U_rst_resp \<lparr>rst_crit_diag = None\<rparr>))"

section \<open>Updates of the service\<close>

definition get_service_function :: "ie \<Rightarrow> ran_function res" where
  "get_service_function e =
    res_bind (ie_is Id_RANfunction_Item Criticality_reject get_RANfunction_Item e) (\<lambda>f.
    Inr (dec_copy_ran_function f))"

definition get_bare_function :: "ie \<Rightarrow> ran_function_id_rev res" where
  "get_bare_function e =
    res_bind (ie_is Id_RANfunction_Item Criticality_reject get_RANfunction_Item e) (\<lambda>f.
    Inr \<lparr>fr_id = word_of_int (ranFunctionID f), fr_rev = word_of_int (ranFunctionRevision f)\<rparr>)"

definition e2ap_dec_service_update :: "E2AP_PDU \<Rightarrow> u_msg res" where
  "e2ap_dec_service_update pdu =
    (if \<not> pdu_is E2AP_PDU_PR_initiatingMessage Proc_RICserviceUpdate PR_RICserviceUpdate pdu then Inl AssertFail
     else if criticality pdu \<noteq> Criticality_reject then Inl AssertFail
     else
       res_bind (ie_at (protocolIEs pdu) 0) (\<lambda>e0.
       res_bind (ie_is Id_RANfunctionsAdded Criticality_reject (get_list L_RANfunctions_List) e0) (\<lambda>l0.
       res_bind (map_res get_service_function l0) (\<lambda>add.
       res_bind (ie_at (protocolIEs pdu) 1) (\<lambda>e1.
       res_bind (ie_is Id_RANfunctionsModified Criticality_reject (get_list L_RANfunctions_List) e1) (\<lambda>l1.
       res_bind (map_res get_service_function l1) (\<lambda>md.
       res_bind (ie_at (protocolIEs pdu) 2) (\<lambda>e2.
       res_bind (ie_is Id_RANfunctionsDeleted Criticality_reject (get_list L_RANfunctionsID_List) e2) (\<lambda>l2.
       res_bind (map_res get_bare_function l2) (\<lambda>del.
       Inr (U_ric_serv_updt \<lparr>su_added = add, su_modified = md, su_deleted = del\<rparr>)))))))))))"

definition get_service_accepted :: "ie \<Rightarrow> ran_function_id_rev res" where
  "get_service_accepted e =
    res_bind (ie_is Id_RANfunction_Item Criticality_reject get_RANfunctionID_Item e) (\<lambda>(i, r).
    Inr \<lparr>fr_id = word_of_int i, fr_rev = word_of_int r\<rparr>)"

definition get_service_rejected :: "ie \<Rightarrow> rejected_ran_function res" where
  "get_service_rejected e =
    res_bind (ie_is Id_RANfunctionIEcause_Item Criticality_ignore get_RANfunctionIDcause_Item e) (\<lambda>(i, c).
    res_bind (dec_copy_cause c) (\<lambda>c'. Inr \<lparr>rej_id = word_of_int i, rej_cause = c'\<rparr>))"

text \<open>The rejected functions are read into their array, but \<open>len_rejected\<close> stays 0.\<close>

definition service_ack_element :: "ie \<Rightarrow> ric_service_update_ack \<Rightarrow> ric_service_update_ack res" where
  "service_ack_element e su =
    (if ie_id e = Id_RANfunctionsAccepted then
       res_bind (ie_is Id_RANfunctionsAccepted Criticality_ignore (get_list L_RANfunctionsID_List) e) (\<lambda>l.
       res_bind (map_res get_service_accepted l) (\<lambda>fs. Inr (su\<lparr>sua_accepted := fs\<rparr>)))
     else if ie_id e = Id_RANfunctionsRejected then
       res_bind (ie_is Id_RANfunctionsRejected Criticality_ignore (get_list L_RANfunctionsID_List) e) (\<lambda>l.
       res_bind (map_res get_service_rejected l) (\<lambda>_. Inr su))
     else Inl AssertFail)"

definition e2ap_dec_service_update_ack :: "E2AP_PDU \<Rightarrow> u_msg res" where
  "e2ap_dec_service_update_ack pdu =
    (if \<not> pdu_is E2AP_PDU_PR_successfulOutcome Proc_RICserviceUpdate PR_RICserviceUpdateAcknowledge pdu
     then Inl AssertFail
     else if criticality pdu \<noteq> Criticality_reject then Inl AssertFail
     else
       res_bind (fold_res service_ack_element (protocolIEs pdu) \<lparr>sua_accepted = [], sua_rejected = []\<rparr>) (\<lambda>su.
       Inr (U_ric_serv_updt_ack su)))"

definition service_failure_element :: "ie \<Rightarrow> ric_service_update_failure \<Rightarrow> ric_service_update_failure res" where
  "service_failure_element e uf =
    (case ie_value e of
       V_int I_TimeToWait t \<Rightarrow>
         res_bind (ie_is Id_RANfunctionsRejected Criticality_reject Inr e) (\<lambda>_.
         res_bind (enum_of e2ap_time_to_wait_e t) (\<lambda>w. Inr (uf\<lparr>suf_time_to_wait := Some w\<rparr>)))
     | V_CriticalityDiagnostics \<Rightarrow>
         res_bind (ie_is Id_RANfunctionsRejected Criticality_reject Inr e) (\<lambda>_. Inl NotImplemented)
     | _ \<Rightarrow> Inl AssertFail)"

definition e2ap_dec_service_update_failure :: "E2AP_PDU \<Rightarrow> u_msg res" where
  "e2ap_dec_service_update_failure pdu =
    (if \<not> pdu_is E2AP_PDU_PR_unsuccessfulOutcome Proc_RICserviceUpdate PR_RICserviceUpdateFailure pdu
     then Inl AssertFail
     else if criticality pdu \<noteq> Criticality_reject then Inl AssertFail
     else
       res_bind (ie_at (protocolIEs pdu) 0) (\<lambda>e.
       res_bind (ie_is Id_RANfunctionsRejected Criticality_reject (get_list L_RANfunctionsIDcause_List) e) (\<lambda>l.
       res_bind (map_res get_service_rejected l) (\<lambda>rej.
       res_bind (fold_res service_failure_element (rev (tl (protocolIEs pdu)))
         \<lparr>suf_rejected = rej, suf_time_to_wait = None, suf_crit_diag = None\<rparr>) (\<lambda>uf.
       Inr (U_ric_serv_updt_fail uf))))))"

definition e2ap_dec_service_query :: "E2AP_PDU \<Rightarrow> u_msg res" where
  "e2ap_dec_service_query pdu =
    (if \<not> pdu_is E2AP_PDU_PR_initiatingMessage Proc_RICserviceQuery PR_RICserviceQuery pdu then Inl AssertFail
     else if criticality pdu \<noteq> Criticality_reject then Inl AssertFail
     else
       res_bind (ie_at (protocolIEs pdu) 0) (\<lambda>e.
       res_bind (ie_is Id_RANfunctionsAccepted Criticality_ignore (get_list L_RANfunctionsID_List) e) (\<lambda>l.
       res_bind (map_res get_bare_function l) (\<lambda>fs. Inr (U_ric_serv_query \<lparr>sq_accepted = fs\<rparr>)))))"

section \<open>Updates of the configuration\<close>

definition get_node_component :: "ie \<Rightarrow> e2_node_component_config_update res" where
  "get_node_component e =
    res_bind (get_E2nodeComponentConfigUpdate_Item (ie_value e)) dec_copy_component_update"

definition e2ap_dec_node_configuration_update :: "E2AP_PDU \<Rightarrow> u_msg res" where
  "e2ap_dec_node_configuration_update pdu =
    (if \<not> pdu_is E2AP_PDU_PR_initiatingMessage Proc_E2nodeConfigurationUpdate PR_E2nodeConfigurationUpdate pdu
     then Inl AssertFail
     else if criticality pdu \<noteq> Criticality_reject then Inl AssertFail
     else
       res_bind (ie_at (protocolIEs pdu) 0) (\<lambda>e.
       res_bind (ie_is Id_E2nodeComponentConfigUpdate Criticality_ignore
                   (get_list L_E2nodeComponentConfigUpdate_List) e) (\<lambda>l.
       res_bind (map_res get_node_component l) (\<lambda>us.
       Inr (U_e2_node_conf_updt \<lparr>comp_conf_update_list = us\<rparr>)))))"

definition e2ap_dec_node_configuration_update_ack :: "E2AP_PDU \<Rightarrow> u_msg res" where
  "e2ap_dec_node_configuration_update_ack pdu = Inl NotImplemented"

definition e2ap_dec_node_configuration_update_failure :: "E2AP_PDU \<Rightarrow> u_msg res" where
  "e2ap_dec_node_configuration_update_failure pdu = Inl NotImplemented"

definition e2ap_dec_connection_update :: "E2AP_PDU \<Rightarrow> u_msg res" where
  "e2ap_dec_connection_update pdu = Inl NotImplemented"

definition e2ap_dec_connection_update_ack :: "E2AP_PDU \<Rightarrow> u_msg res" where
  "e2ap_dec_connection_update_ack pdu = Inl NotImplemented"

definition e2ap_dec_connection_update_failure :: "E2AP_PDU \<Rightarrow> u_msg res" where
  "e2ap_dec_connection_update_failure pdu = Inl NotImplemented"

section \<open>E42 setup\<close>

definition e2ap_dec_e42_setup_request :: "E2AP_PDU \<Rightarrow> u_msg res" where
  "e2ap_dec_e42_setup_request pdu =
    (if \<not> pdu_is E2AP_PDU_PR_initiatingMessage Proc_E42setup PR_E42setupRequest pdu then Inl AssertFail
     else if criticality pdu \<noteq> Criticality_reject then Inl AssertFail
     else if protocolIEs pdu = [] then Inl AssertFail
     else
       res_bind (ie_at (protocolIEs pdu) 0) (\<lambda>e.
       res_bind (ie_is Id_RANfunctionsAdded Criticality_reject (get_list L_RANfunctions_List) e) (\<lambda>l.
       res_bind (map_res get_setup_function l) (\<lambda>fs. Inr (U_e42_stp_req \<lparr>e42_ran_func_item = fs\<rparr>)))))"

definition get_connected :: "ie \<Rightarrow> e2_node_connected res" where
  "get_connected e =
    res_bind (ie_is Id_E2nodesConnected Criticality_reject (get_list L_E2nodeConnected_List) e) (\<lambda>l.
    if length l \<noteq> 2 then Inl AssertFail
    else
      res_bind (get_node_id 0 l) (\<lambda>n.
      res_bind (ie_at l 1) (\<lambda>e1.
      res_bind (ie_is Id_RANfunctionsAdded Criticality_reject (get_list L_RANfunctions_List) e1) (\<lambda>fl.
      res_bind (map_res get_setup_function fl) (\<lambda>fs. Inr \<lparr>nc_id = n, ack_rf = fs\<rparr>)))))"

definition e2ap_dec_e42_setup_response :: "E2AP_PDU \<Rightarrow> u_msg res" where
  "e2ap_dec_e42_setup_response pdu =
    (if \<not> pdu_is E2AP_PDU_PR_successfulOutcome Proc_E42setup PR_E42setupResponse pdu then Inl AssertFail
     else if criticality pdu \<noteq> Criticality_reject then Inl AssertFail
     else if protocolIEs pdu = [] then Inl AssertFail
     else
       res_bind (get_xapp_id (protocolIEs pdu)) (\<lambda>x.
       res_bind (map_res get_connected (tl (protocolIEs pdu))) (\<lambda>ns.
       Inr (U_e42_stp_resp \<lparr>e42_xapp_id = x, e42_nodes = ns\<rparr>))))"

section \<open>The type of a PDU and the table of decoders\<close>

text \<open>The three outcomes of a procedure.\<close>

definition by_outcome :: "E2AP_PDU_PR \<Rightarrow> e2_msg_type \<Rightarrow> e2_msg_type \<Rightarrow> e2_msg_type \<Rightarrow> e2_msg_type res" where
  "by_outcome index ini suc uns =
    (case index of
       E2AP_PDU_PR_initiatingMessage \<Rightarrow> Inr ini
     | E2AP_PDU_PR_successfulOutcome \<Rightarrow> Inr suc
     | E2AP_PDU_PR_unsuccessfulOutcome \<Rightarrow> Inr uns
     | E2AP_PDU_PR_NOTHING \<Rightarrow> Inl AssertFail)"

definition e2ap_get_msg_type :: "E2AP_PDU \<Rightarrow> e2_msg_type res" where
  "e2ap_get_msg_type pdu =
    (let index = pdu_present pdu in
     if index = E2AP_PDU_PR_NOTHING then Inl AssertFail
     else case procedureCode pdu of
       Proc_E2setup \<Rightarrow> by_outcome index E2_SETUP_REQUEST E2_SETUP_RESPONSE E2_SETUP_FAILURE
     | Proc_ErrorIndication \<Rightarrow> Inr E2AP_ERROR_INDICATION
     | Proc_Reset \<Rightarrow> by_outcome index E2AP_RESET_REQUEST E2AP_RESET_RESPONSE E2AP_RESET_RESPONSE
     | Proc_RICcontrol \<Rightarrow> by_outcome index RIC_CONTROL_REQUEST RIC_CONTROL_ACKNOWLEDGE RIC_CONTROL_FAILURE
     | Proc_RICindication \<Rightarrow> Inr RIC_INDICATION
     | Proc_RICserviceQuery \<Rightarrow> Inr RIC_SERVICE_QUERY
     | Proc_RICserviceUpdate \<Rightarrow>
         by_outcome index RIC_SERVICE_UPDATE RIC_SERVICE_UPDATE_ACKNOWLEDGE RIC_SERVICE_UPDATE_FAILURE
     | Proc_RICsubscription \<Rightarrow>
         by_outcome index RIC_SUBSCRIPTION_REQUEST RIC_SUBSCRIPTION_RESPONSE RIC_SUBSCRIPTION_FAILURE
     | Proc_RICsubscriptionDelete \<Rightarrow>
         by_outcome index RIC_SUBSCRIPTION_DELETE_REQUEST RIC_SUBSCRIPTION_DELETE_RESPONSE
           RIC_SUBSCRIPTION_DELETE_FAILURE
     | Proc_E2nodeConfigurationUpdate \<Rightarrow>
         by_outcome index E2_NODE_CONFIGURATION_UPDATE E2_NODE_CONFIGURATION_UPDATE_ACKNOWLEDGE
           E2_NODE_CONFIGURATION_UPDATE_FAILURE
     | Proc_E2connectionUpdate \<Rightarrow>
         by_outcome index E2_CONNECTION_UPDATE E2_CONNECTION_UPDATE_ACKNOWLEDGE E2_CONNECTION_UPDATE_FAILURE
     | Proc_E42setup \<Rightarrow> by_outcome index E42_SETUP_REQUEST E42_SETUP_RESPONSE E2_SETUP_FAILURE
     | Proc_E42RICsubscription \<Rightarrow>
         by_outcome index E42_RIC_SUBSCRIPTION_REQUEST RIC_SUBSCRIPTION_RESPONSE RIC_SUBSCRIPTION_FAILURE
     | Proc_E42RICsubscriptionDelete \<Rightarrow>
         by_outcome index E42_RIC_SUBSCRIPTION_DELETE_REQUEST RIC_SUBSCRIPTION_DELETE_RESPONSE
           RIC_SUBSCRIPTION_DELETE_FAILURE
     | Proc_E42RICcontrol \<Rightarrow>
         by_outcome index E42_RIC_CONTROL_REQUEST RIC_CONTROL_ACKNOWLEDGE RIC_CONTROL_FAILURE)"

fun dec_msg :: "e2_msg_type \<Rightarrow> E2AP_PDU \<Rightarrow> u_msg res" where
  "dec_msg RIC_SUBSCRIPTION_REQUEST p = e2ap_dec_subscription_request p"
| "dec_msg RIC_SUBSCRIPTION_RESPONSE p = e2ap_dec_subscription_response p"
| "dec_msg RIC_SUBSCRIPTION_FAILURE p = e2ap_dec_subscription_failure p"
| "dec_msg RIC_SUBSCRIPTION_DELETE_REQUEST p = e2ap_dec_subscription_delete_request p"
| "dec_msg RIC_SUBSCRIPTION_DELETE_RESPONSE p = e2ap_dec_subscription_delete_response p"
| "dec_msg RIC_SUBSCRIPTION_DELETE_FAILURE p = e2ap_dec_subscription_delete_failure p"
| "dec_msg RIC_INDICATION p = e2ap_dec_indication p"
| "dec_msg RIC_CONTROL_REQUEST p = e2ap_dec_control_request p"
| "dec_msg RIC_CONTROL_ACKNOWLEDGE p = e2ap_dec_control_ack p"
| "dec_msg RIC_CONTROL_FAILURE p = e2ap_dec_control_failure p"
| "dec_msg E2AP_ERROR_INDICATION p = e2ap_dec_error_indication p"
| "dec_msg E2_SETUP_REQUEST p = e2ap_dec_setup_request p"
| "dec_msg E2_SETUP_RESPONSE p = e2ap_dec_setup_response p"
| "dec_msg E2_SETUP_FAILURE p = e2ap_dec_setup_failure p"
| "dec_msg E2AP_RESET_REQUEST p = e2ap_dec_reset_request p"
| "dec_msg E2AP_RESET_RESPONSE p = e2ap_dec_reset_response p"
| "dec_msg RIC_SERVICE_UPDATE p = e2ap_dec_service_update p"
| "dec_msg RIC_SERVICE_UPDATE_ACKNOWLEDGE p = e2ap_dec_service_update_ack p"
| "dec_msg RIC_SERVICE_UPDATE_FAILURE p = e2ap_dec_service_update_failure p"
| "dec_msg RIC_SERVICE_QUERY p = e2ap_dec_service_query p"
| "dec_msg E2_NODE_CONFIGURATION_UPDATE p = e2ap_dec_node_configuration_update p"
| "dec_msg E2_NODE_CONFIGURATION_UPDATE_ACKNOWLEDGE p = e2ap_dec_node_configuration_update_ack p"
| "dec_msg E2_NODE_CONFIGURATION_UPDATE_FAILURE p = e2ap_dec_node_configuration_update_failure p"
| "dec_msg E2_CONNECTION_UPDATE p = e2ap_dec_connection_update p"
| "dec_msg E2_CONNECTION_UPDATE_ACKNOWLEDGE p = e2ap_dec_connection_update_ack p"
| "dec_msg E2_CONNECTION_UPDATE_FAILURE p = e2ap_dec_connection_update_failure p"
| "dec_msg E42_SETUP_REQUEST p = e2ap_dec_e42_setup_request p"
| "dec_msg E42_SETUP_RESPONSE p = e2ap_dec_e42_setup_response p"
| "dec_msg E42_RIC_SUBSCRIPTION_REQUEST p = e2ap_dec_e42_subscription_request p"
| "dec_msg E42_RIC_SUBSCRIPTION_DELETE_REQUEST p = e2ap_dec_e42_subscription_delete_request p"
| "dec_msg E42_RIC_CONTROL_REQUEST p = e2ap_dec_e42_control_request p"
| "dec_msg NONE_E2_MSG_TYPE p = Inl OutOfBounds"

text \<open>\<open>e2ap_msg_dec_asn\<close> behind the codec, and with it: \<open>aper_decode\<close> is the generated codec,
  \<open>None\<close> its failure.\<close>

definition dec_pdu :: "E2AP_PDU \<Rightarrow> u_msg res" where
  "dec_pdu pdu = res_bind (e2ap_get_msg_type pdu) (\<lambda>t. dec_msg t pdu)"

definition e2ap_create_pdu :: "(byte_array \<Rightarrow> E2AP_PDU option) \<Rightarrow> byte_array \<Rightarrow> E2AP_PDU res" where
  "e2ap_create_pdu aper_decode buf =
    (case aper_decode buf of None \<Rightarrow> Inl AssertFail | Some pdu \<Rightarrow> Inr pdu)"

definition e2ap_msg_dec_asn :: "(byte_array \<Rightarrow> E2AP_PDU option) \<Rightarrow> byte_array \<Rightarrow> u_msg res" where
  "e2ap_msg_dec_asn aper_decode ba =
    (if ba = [] then Inl AssertFail
     else res_bind (e2ap_create_pdu aper_decode ba) dec_pdu)"

end
