(* ===== verification/E2apWire.thy ===== *)
theory E2apWire
  imports E2apDec
begin

text \<open>
  What the encoder and the decoder of E2AP do together: \<open>e2ap_wire m\<close> encodes the message \<open>m\<close> and
  decodes the PDU.  For each member of the union the lemma named after it says exactly which
  messages come back as they were.
\<close>

definition e2ap_wire :: "u_msg \<Rightarrow> u_msg res" where
  "e2ap_wire m = res_bind (enc_msg m) dec_pdu"

section \<open>Elements\<close>

definition ric_id_ok :: "bool \<Rightarrow> int option \<Rightarrow> ric_gen_id \<Rightarrow> bool" where
  "ric_id_ok bounded fmax g \<longleftrightarrow>
    (bounded \<longrightarrow> uint (ric_req_id g) < 65536) \<and>
    (case fmax of None \<Rightarrow> True | Some m \<Rightarrow> uint (ran_func_id g) < m)"

lemma uint_u16_less: "uint (w :: u16) < 65536"
  using unsigned_less [of w, where 'a = int] by simp

lemma uint_u8_less: "uint (w :: u8) < 256"
  using unsigned_less [of w, where 'a = int] by simp

lemma get_ric_id_drop:
  assumes "drop k ies = put_ric_id g @ r"
  shows "get_ric_id strict bounded fmax k ies = (if ric_id_ok bounded fmax g then Inr g else Inl AssertFail)"
proof -
  have "length (drop k ies) = 2 + length r" by (simp add: assms put_ric_id_def)
  then have l: "Suc k < length ies" by simp
  have "ies ! k = drop k ies ! 0" "ies ! Suc k = drop k ies ! 1" using l by simp_all
  then have "ies ! k = put_ric_id g ! 0" "ies ! Suc k = put_ric_id g ! 1"
    by (simp_all add: assms put_ric_id_def)
  then show ?thesis
    using l
    by (cases g)
       (auto simp: get_ric_id_def ie_at_def put_ric_id_def ie_head_def get_defs ric_id_ok_def global_consts
         uint_u16_less split: option.splits)
qed

lemma put_ric_id_simps [simp]:
  "length (put_ric_id g) = 2"
  "put_ric_id g \<noteq> []"
  "drop 2 (put_ric_id g @ r) = r"
  "2 \<le> n \<Longrightarrow> ie_at (put_ric_id g @ r) n = ie_at r (n - 2)"
  by (simp_all add: put_ric_id_def ie_at_def nth_append numeral_2_eq_2) auto

lemma ie_at_Nil [simp]: "ie_at [] n = Inl OutOfBounds"
  by (simp add: ie_at_def)

lemma get_ric_id_put [simp]:
  "get_ric_id st b m 0 (put_ric_id g @ r) = (if ric_id_ok b m g then Inr g else Inl AssertFail)"
  "get_ric_id st b m 0 (put_ric_id g) = (if ric_id_ok b m g then Inr g else Inl AssertFail)"
  "get_ric_id st b m (Suc 0) (x # put_ric_id g @ r) = (if ric_id_ok b m g then Inr g else Inl AssertFail)"
  "get_ric_id st b m (Suc 0) (x # put_ric_id g) = (if ric_id_ok b m g then Inr g else Inl AssertFail)"
  "get_ric_id st b m 2 (x # y # put_ric_id g @ r) = (if ric_id_ok b m g then Inr g else Inl AssertFail)"
  by (rule get_ric_id_drop [where r = r] get_ric_id_drop [where r = "[]"], simp)+

lemma get_xapp_id_put [simp]: "get_xapp_id (put_xapp_id x # r) = Inr x"
  by (simp add: get_xapp_id_def put_xapp_id_def get_defs)

lemma put_node_id_trip:
  "(\<exists>e. put_node_id n = Inr e \<and>
      res_bind (ie_is Id_GlobalE2node_ID Criticality_reject get_GlobalE2node_ID e) dec_global_e2_node_id = Inr n)
    \<longleftrightarrow> node_id_ok n"
  using node_id_trip [of n]
  by (cases "enc_global_e2_node_id n") (auto simp: put_node_id_def get_defs)

text \<open>The lists of octets, numbers and causes.\<close>

lemma put_octets_opt_cases:
  obtains "b = Some []" "put_octets_opt ident pr b = Inl AssertFail"
  | "b = None" "put_octets_opt ident pr b = Inr []"
  | bs where "b = Some bs" "bs \<noteq> []"
      "put_octets_opt ident pr b = Inr [IE ident Criticality_reject (V_octets pr bs)]"
  by (cases b) (auto simp: put_octets_opt_def)

lemma cause_trip: "res_bind (enc_copy_cause c) dec_copy_cause = Inr c \<longleftrightarrow> cause_ok c"
proof (cases "cause_ok c")
  case True
  then obtain a where "enc_copy_cause c = Inr a" "dec_copy_cause a = Inr c" by (rule enc_copy_cause_ok)
  then show ?thesis using True by simp
qed (simp add: enc_copy_cause_not_ok)

lemma not_admitted_trip: "res_bind (put_not_admitted x) get_not_admitted = Inr x \<longleftrightarrow> cause_ok (na_cause x)"
  using cause_trip [of "na_cause x"]
  by (cases x; cases "enc_copy_cause (na_cause x)")
     (auto simp: put_not_admitted_def get_not_admitted_def get_defs res_bind_eq_Inr)

lemma rejected_trip:
  "res_bind (put_rejected x) get_rejected = Inr x \<longleftrightarrow> rej_id x < 4096 \<and> cause_ok (rej_cause x)"
  using cause_trip [of "rej_cause x"]
  by (cases x; cases "enc_copy_cause (rej_cause x)")
     (auto simp: put_rejected_def get_rejected_def get_defs res_bind_eq_Inr global_consts word_less_def)

lemma rejected_service_trip:
  "res_bind (put_rejected_service x) get_service_rejected = Inr x \<longleftrightarrow> cause_ok (rej_cause x)"
  using cause_trip [of "rej_cause x"]
  by (cases x; cases "enc_copy_cause (rej_cause x)")
     (auto simp: put_rejected_service_def get_service_rejected_def get_defs res_bind_eq_Inr)

definition action_ok :: "ric_action \<Rightarrow> bool" where
  "action_ok a \<longleftrightarrow>
    (case act_subseq a of
       None \<Rightarrow> True
     | Some sa \<Rightarrow> (case time_to_wait_ms sa of None \<Rightarrow> True | Some t \<Rightarrow> 0 < t \<and> t < 18))"

lemma enum_trips [simp]:
  "enum_of ric_action_type_e (enum_val ric_action_type_e a) = Inr a"
  "enum_of ric_subseq_action_type_e (enum_val ric_subseq_action_type_e b) = Inr b"
  "enum_of ric_indication_type_e (enum_val ric_indication_type_e c) = Inr c"
  "enum_of ric_control_ack_req_e (enum_val ric_control_ack_req_e d) = Inr d"
  "enum_of ric_control_status_e (enum_val ric_control_status_e e) = Inr e"
  "enum_of e2_node_component_type_e (enum_val e2_node_component_type_e f) = Inr f"
  "enum_of e2ap_time_to_wait_e (enum_val e2ap_time_to_wait_e g) = Inr g"
  by (rule enum_round_trip, simp)+

lemma enum_below [simp]:
  "enum_val ric_indication_type_e c < 2"
  "enum_val ric_control_ack_req_e d < 3"
  "enum_val e2_node_component_type_e f < 6"
proof -
  show "enum_val ric_indication_type_e c < 2" by (cases c) (simp_all add: enums)
  show "enum_val ric_control_ack_req_e d < 3" by (cases d) (simp_all add: enums)
  show "enum_val e2_node_component_type_e f < 6" by (cases f) (simp_all add: enums)
qed

lemma action_trip: "res_bind (put_action a) get_action = Inr a \<longleftrightarrow> action_ok a"
proof (cases "act_subseq a")
  case None
  then show ?thesis
    by (cases a) (simp add: put_action_def get_action_def get_defs action_ok_def)
next
  case (Some sa)
  have "uint t = 0 \<longleftrightarrow> t = 0" for t :: u32 by (rule uint_0_iff)
  then show ?thesis
    using Some
    by (cases a; cases sa; cases "time_to_wait_ms sa")
       (auto simp: put_action_def get_action_def put_subseq_action_def get_subseq_action_def get_defs action_ok_def
         word_neq_0_conv [symmetric])
qed

section \<open>Subscriptions\<close>

definition subscription_ok :: "ric_subscription_request \<Rightarrow> bool" where
  "subscription_ok m \<longleftrightarrow>
    event_trigger m \<noteq> [] \<and> 0 < length (action m) \<and> length (action m) \<le> 16 \<and> list_all action_ok (action m)"

lemmas wire_simps = e2ap_wire_def dec_pdu_def e2ap_get_msg_type_def by_outcome_def pdu_is_def Let_def get_defs
  res_bind_eq_Inr global_consts

lemma subscription_request_wire:
  "e2ap_wire (U_ric_sub_req m) = Inr (U_ric_sub_req m) \<longleftrightarrow> subscription_ok m"
proof (cases rule: map_res_trip_cases [of put_action get_action action_ok "action m", OF action_trip])
  case 1
  then show ?thesis
    by (simp add: wire_simps e2ap_enc_subscription_request_asn_pdu_def put_subscription_details_def subscription_ok_def)
next
  case (2 ys)
  then show ?thesis
    by (cases m)
       (auto simp: wire_simps e2ap_enc_subscription_request_asn_pdu_def put_subscription_details_def
         e2ap_dec_subscription_request_def get_subscription_details_def subscription_ok_def ric_id_ok_def)
qed

lemma map_admitted [simp]: "map_res get_admitted (map put_admitted l) = Inr l"
proof -
  have "map_res get_admitted (map put_admitted l) = Inr (map (\<lambda>x. x) l)"
    by (rule map_res_map) (auto simp: get_admitted_def put_admitted_def get_defs global_consts uint_u8_less)
  then show ?thesis by simp
qed

lemma subscription_response_wire:
  "e2ap_wire (U_ric_sub_resp m) = Inr (U_ric_sub_resp m) \<longleftrightarrow>
    not_admitted m = [] \<and> ric_id_ok True (Some 256) (resp_ric_id m)"
proof (cases "not_admitted m")
  case Nil
  then show ?thesis
    by (cases m)
       (auto simp: wire_simps e2ap_enc_subscription_response_asn_pdu_def put_not_admitted_list_def
         e2ap_dec_subscription_response_def get_not_admitted_list_def)
next
  case Cons
  then show ?thesis
    by (cases m) (auto simp: wire_simps e2ap_dec_subscription_response_def
      e2ap_enc_subscription_response_asn_pdu_def)
qed

text \<open>More than that: the actions a node does not admit never reach the RIC.\<close>

lemma subscription_response_loses:
  assumes "ric_id_ok True (Some 256) (resp_ric_id m)" "list_all (cause_ok \<circ> na_cause) (not_admitted m)"
  shows "e2ap_wire (U_ric_sub_resp m) = Inr (U_ric_sub_resp (m\<lparr>not_admitted := []\<rparr>))"
proof (cases rule: map_res_trip_cases [of put_not_admitted get_not_admitted "cause_ok \<circ> na_cause" "not_admitted m",
      unfolded comp_def, OF not_admitted_trip])
  case 1
  then show ?thesis using assms(2) by (simp add: comp_def)
next
  case (2 ys)
  then show ?thesis
    using assms
    by (cases m)
       (auto simp: wire_simps e2ap_enc_subscription_response_asn_pdu_def put_not_admitted_list_def
         e2ap_dec_subscription_response_def get_not_admitted_list_def comp_def)
qed

lemma subscription_failure_wire:
  "e2ap_wire (U_ric_sub_fail m) = Inr (U_ric_sub_fail m) \<longleftrightarrow>
    ric_id_ok False (Some 4096) (sf_ric_id m) \<and> list_all (\<lambda>x. cause_ok (na_cause x)) (sf_not_admitted m) \<and>
    sf_crit_diag m = None"
proof (cases rule: map_res_trip_cases [of put_not_admitted get_not_admitted _ "sf_not_admitted m", OF not_admitted_trip])
  case 1
  then show ?thesis
    by (simp add: wire_simps e2ap_enc_subscription_failure_asn_pdu_def put_not_admitted_list_def)
next
  case (2 ys)
  then show ?thesis
    by (cases m)
       (auto simp: wire_simps e2ap_enc_subscription_failure_asn_pdu_def put_not_admitted_list_def
         e2ap_dec_subscription_failure_def get_not_admitted_list_def)
qed

lemma subscription_delete_wire:
  "e2ap_wire (U_ric_sub_del_req m) = Inr (U_ric_sub_del_req m) \<longleftrightarrow> ric_id_ok False (Some 4096) (sdr_ric_id m)"
  "e2ap_wire (U_ric_sub_del_resp n) = Inr (U_ric_sub_del_resp n) \<longleftrightarrow> ric_id_ok False (Some 4096) (sdresp_ric_id n)"
proof -
  show "e2ap_wire (U_ric_sub_del_req m) = Inr (U_ric_sub_del_req m) \<longleftrightarrow> ric_id_ok False (Some 4096) (sdr_ric_id m)"
    by (cases m)
       (auto simp: wire_simps e2ap_enc_subscription_delete_request_asn_pdu_def e2ap_dec_subscription_delete_request_def)
  show "e2ap_wire (U_ric_sub_del_resp n) = Inr (U_ric_sub_del_resp n) \<longleftrightarrow> ric_id_ok False (Some 4096) (sdresp_ric_id n)"
    by (cases n)
       (auto simp: wire_simps e2ap_enc_subscription_delete_response_asn_pdu_def e2ap_dec_subscription_delete_response_def)
qed

lemma subscription_delete_failure_wire:
  "e2ap_wire (U_ric_sub_del_fail m) = Inr (U_ric_sub_del_fail m) \<longleftrightarrow>
    ric_id_ok False (Some 4096) (sdf_ric_id m) \<and> cause_ok (sdf_cause m) \<and> sdf_crit_diag m = None"
  using cause_trip [of "sdf_cause m"]
  by (cases m; cases "enc_copy_cause (sdf_cause m)")
     (auto simp: wire_simps e2ap_enc_subscription_delete_failure_asn_pdu_def e2ap_dec_subscription_delete_failure_def)

lemma e42_subscription_request_wire:
  "e2ap_wire (U_e42_ric_sub_req m) = Inr (U_e42_ric_sub_req m) \<longleftrightarrow>
    node_id_ok (e42sr_id m) \<and> subscription_ok (e42sr_sr m)"
proof (cases rule: map_res_trip_cases [of put_action get_action action_ok "action (e42sr_sr m)", OF action_trip])
  case 1
  then show ?thesis
    by (simp add: wire_simps e2ap_enc_e42_subscription_request_asn_pdu_def put_subscription_details_def subscription_ok_def)
next
  case (2 ys)
  then show ?thesis
    using node_id_trip [of "e42sr_id m"]
    by (cases m; cases "e42sr_sr m"; cases "enc_global_e2_node_id (e42sr_id m)")
       (auto simp: wire_simps e2ap_enc_e42_subscription_request_asn_pdu_def put_subscription_details_def put_node_id_def
         e2ap_dec_e42_subscription_request_def get_subscription_details_def subscription_ok_def ric_id_ok_def get_node_id_def)
qed

lemma e42_subscription_delete_wire:
  "e2ap_wire (U_e42_ric_sub_del_req m) = Inr (U_e42_ric_sub_del_req m) \<longleftrightarrow>
    ric_id_ok False (Some 4096) (sdr_ric_id (e42sdr_sdr m))"
  by (cases m; cases "e42sdr_sdr m")
     (auto simp: wire_simps e2ap_enc_e42_subscription_delete_request_asn_pdu_def
       e2ap_dec_e42_subscription_delete_request_def)

section \<open>Indication and control\<close>

lemma drop_put_ric_id [simp]:
  "drop 3 (put_ric_id g @ x # r) = r"
  "drop 4 (x # y # put_ric_id g @ r) = r"
  by (simp_all add: put_ric_id_def)

lemma indication_wire:
  "e2ap_wire (U_ric_ind m) = Inr (U_ric_ind m) \<longleftrightarrow>
    ric_id_ok True (Some 4096) (ind_ric_id m) \<and> ind_hdr m \<noteq> [] \<and> ind_msg m \<noteq> [] \<and>
    ind_call_process_id m \<noteq> Some []"
  by (cases m; cases "sn m"; cases "ind_call_process_id m")
     (auto simp: wire_simps e2ap_enc_indication_asn_pdu_def e2ap_dec_indication_def put_octets_opt_eq_Inr
       indication_element_def uint_u8_less uint_u16_less)

definition control_ok :: "ric_control_request \<Rightarrow> bool" where
  "control_ok m \<longleftrightarrow>
    ric_id_ok True (Some 4096) (cr_ric_id m) \<and> cr_hdr m \<noteq> [] \<and> cr_msg m \<noteq> [] \<and> cr_call_process_id m \<noteq> Some []"

lemma control_elements:
  assumes "put_control m = Inr (put_ric_id (cr_ric_id m) @ es)"
  shows "fold_res control_element es (empty_control (cr_ric_id m)) = Inr m"
  using assms
  by (cases m; cases "ack_req m"; cases "cr_call_process_id m")
     (auto simp: put_control_def put_octets_opt_eq_Inr res_bind_eq_Inr control_element_def empty_control_def get_defs)

lemma put_control_Inr:
  "put_control m = Inr ies \<longleftrightarrow>
    cr_call_process_id m \<noteq> Some [] \<and> (\<exists>es. ies = put_ric_id (cr_ric_id m) @ es \<and> put_control m = Inr ies)"
  by (auto simp: put_control_def put_octets_opt_eq_Inr res_bind_eq_Inr)

lemma put_control_cases:
  obtains "cr_call_process_id m = Some []" "put_control m = Inl AssertFail"
  | es where "cr_call_process_id m \<noteq> Some []" "put_control m = Inr (put_ric_id (cr_ric_id m) @ es)"
      "fold_res control_element es (empty_control (cr_ric_id m)) = Inr m"
proof (cases "cr_call_process_id m = Some []")
  case True
  then show thesis by (intro that(1)) (simp_all add: put_control_def put_octets_opt_def)
next
  case False
  then obtain es where "put_control m = Inr (put_ric_id (cr_ric_id m) @ es)"
    by (auto simp: put_control_def put_octets_opt_eq_Inr res_bind_eq_Inr)
  then show thesis using False control_elements by (intro that(2)) auto
qed

lemma control_request_wire:
  "e2ap_wire (U_ric_ctrl_req m) = Inr (U_ric_ctrl_req m) \<longleftrightarrow> control_ok m"
  by (rule put_control_cases [of m])
     (auto simp: wire_simps e2ap_enc_control_request_asn_pdu_def e2ap_dec_control_request_def control_ok_def)

lemma e42_control_request_wire:
  "e2ap_wire (U_e42_ric_ctrl_req m) = Inr (U_e42_ric_ctrl_req m) \<longleftrightarrow>
    node_id_ok (e42cr_id m) \<and> control_ok (e42cr_ctrl_req m)"
proof (rule put_control_cases [of "e42cr_ctrl_req m"])
  fix es
  assume a: "cr_call_process_id (e42cr_ctrl_req m) \<noteq> Some []"
    "put_control (e42cr_ctrl_req m) = Inr (put_ric_id (cr_ric_id (e42cr_ctrl_req m)) @ es)"
    "fold_res control_element es (empty_control (cr_ric_id (e42cr_ctrl_req m))) = Inr (e42cr_ctrl_req m)"
  then show ?thesis
    using node_id_trip [of "e42cr_id m"]
    by (cases m; cases "enc_global_e2_node_id (e42cr_id m)")
       (auto simp: wire_simps e2ap_enc_e42_control_request_asn_pdu_def e2ap_dec_e42_control_request_def control_ok_def
         put_node_id_def get_node_id_def)
qed (auto simp: wire_simps e2ap_enc_e42_control_request_asn_pdu_def control_ok_def)

lemma control_ack_wire:
  "e2ap_wire (U_ric_ctrl_ack m) = Inr (U_ric_ctrl_ack m) \<longleftrightarrow>
    ric_id_ok True (Some 4096) (ca_ric_id m) \<and> ca_call_process_id m \<noteq> Some [] \<and> control_outcome m \<noteq> Some []"
  by (cases m; cases "control_outcome m"; cases "ca_call_process_id m")
     (auto simp: wire_simps e2ap_enc_control_ack_asn_pdu_def e2ap_dec_control_ack_def put_octets_opt_eq_Inr
       control_ack_element_def)

lemma control_failure_wire:
  "e2ap_wire (U_ric_ctrl_fail m) = Inr (U_ric_ctrl_fail m) \<longleftrightarrow>
    ric_id_ok False (Some 256) (cf_ric_id m) \<and> cf_call_process_id m \<noteq> Some [] \<and> cause_ok (cf_cause m) \<and>
    cf_control_outcome m \<noteq> Some []"
  using cause_trip [of "cf_cause m"]
  by (cases m; cases "cf_control_outcome m"; cases "cf_call_process_id m"; cases "enc_copy_cause (cf_cause m)")
     (auto simp: wire_simps e2ap_enc_control_failure_asn_pdu_def e2ap_dec_control_failure_def put_octets_opt_eq_Inr
       control_failure_element_def)

section \<open>Global procedures\<close>

lemma error_indication_wire:
  "e2ap_wire (U_err_ind m) = Inr (U_err_ind m) \<longleftrightarrow>
    (case ei_ric_id m of None \<Rightarrow> True | Some g \<Rightarrow> ric_id_ok False (Some 256) g) \<and>
    (case ei_cause m of None \<Rightarrow> True | Some c \<Rightarrow> cause_ok c) \<and> ei_crit_diag m = None"
proof (cases "ei_cause m")
  case None
  then show ?thesis
    by (cases m; cases "ei_ric_id m")
       (auto simp: wire_simps e2ap_enc_error_indication_asn_pdu_def e2ap_dec_error_indication_def put_ric_id_def
         error_element_def ric_id_ok_def)
next
  case (Some c)
  then show ?thesis
    using cause_trip [of c]
    by (cases m; cases "ei_ric_id m"; cases "enc_copy_cause c")
       (auto simp: wire_simps e2ap_enc_error_indication_asn_pdu_def e2ap_dec_error_indication_def put_ric_id_def
         error_element_def ric_id_ok_def)
qed

definition component_ok :: "e2_node_component_config_update \<Rightarrow> bool" where
  "component_ok u \<longleftrightarrow>
    (case ccu_update u of CONFIG_UPDATE_NOTHING \<Rightarrow> False | ENB_CONFIG_UPDATE _ _ \<Rightarrow> False | _ \<Rightarrow> True) \<and>
    (ccu_id_present u = None \<longrightarrow> ccu_gnb_id u = 0)"

lemma setup_component_trip: "res_bind (enc_copy_component_update u) get_setup_component = Inr u \<longleftrightarrow> component_ok u"
proof (cases u)
  case (fields ty pr gid up)
  then show ?thesis
    by (cases up; cases pr; cases "the pr")
       (auto simp: enc_copy_component_update_def get_setup_component_def put_component_update_def get_defs
         dec_copy_component_update_def get_component_update_def get_component_id_def component_ok_def)
qed

lemma node_component_trip:
  "res_bind (enc_copy_component_update u) get_node_component = Inr u \<longleftrightarrow>
    component_ok u \<and> ccu_id_present u = None"
proof (cases u)
  case (fields ty pr gid up)
  then show ?thesis
    by (cases up; cases pr; cases "the pr")
       (auto simp: enc_copy_component_update_def get_node_component_def put_component_update_def get_defs
         dec_copy_component_update_def get_component_update_def component_ok_def)
qed

lemma setup_function_trip [simp]:
  "get_setup_function (put_ran_function f) = (if rf_ok f then Inr f else Inl AssertFail)"
  by (simp add: get_setup_function_def put_ran_function_def get_defs)

lemma map_setup_function: "map_res get_setup_function (map put_ran_function fs) = Inr fs \<longleftrightarrow> list_all rf_ok fs"
  by (induction fs) (auto simp: res_bind_eq_Inr)

lemma map_setup_function_Inr:
  "map_res get_setup_function (map put_ran_function fs) = Inr gs \<longleftrightarrow> list_all rf_ok fs \<and> gs = fs"
  by (induction fs arbitrary: gs) (auto simp: res_bind_eq_Inr)

end
