(* ===== verification/E2apWireSetup.thy ===== *)
theory E2apWireSetup
  imports E2apWire
begin

text \<open>
  What the encoder and the decoder of E2AP do together, for the messages of the global procedures:
  setup, reset, update of the service, of the configuration and of the connections.  Then all
  members of the union at once: \<open>wire_ok\<close> says which messages come back as they were.
\<close>

section \<open>Setup\<close>

definition setup_request_ok :: "e2_setup_request_msg \<Rightarrow> bool" where
  "setup_request_ok m \<longleftrightarrow>
    node_id_ok (stp_id m) \<and> length (ran_func_item m) < 256 \<and> list_all rf_ok (ran_func_item m) \<and>
    length (comp_conf_update m) < 1024 \<and> list_all component_ok (comp_conf_update m)"

lemma setup_request_wire:
  "e2ap_wire (U_e2_stp_req m) = Inr (U_e2_stp_req m) \<longleftrightarrow> setup_request_ok m"
proof (cases rule: map_res_trip_cases [of enc_copy_component_update get_setup_component component_ok
      "comp_conf_update m", OF setup_component_trip])
  case 1
  then show ?thesis
    by (auto simp: wire_simps e2ap_enc_setup_request_asn_pdu_def setup_request_ok_def)
next
  case (2 ys)
  then show ?thesis
    using node_id_trip [of "stp_id m"]
    by (cases m; cases "enc_global_e2_node_id (stp_id m)")
       (auto simp: wire_simps e2ap_enc_setup_request_asn_pdu_def e2ap_dec_setup_request_def put_node_id_def
         get_node_id_def setup_request_element_def setup_request_ok_def map_setup_function_Inr)
qed


definition setup_response_ok :: "e2_setup_response_msg \<Rightarrow> bool" where
  "setup_response_ok m \<longleftrightarrow>
    plmn_ok (gr_plmn (stp_resp_id m)) \<and> take_bit 20 (near_ric_id (stp_resp_id m)) = near_ric_id (stp_resp_id m) \<and>
    length (accepted m) < 256 \<and> list_all (\<lambda>f. f < 4096) (accepted m) \<and>
    length (rejected m) \<le> 256 \<and> list_all (\<lambda>r. rej_id r < 4096 \<and> cause_ok (rej_cause r)) (rejected m) \<and>
    comp_conf_update_ack_list m = []"

lemma accepted_trip [simp]: "get_accepted (put_accepted f) = (if f < 4096 then Inr f else Inl AssertFail)"
  by (simp add: get_accepted_def put_accepted_def get_defs global_consts word_less_def)

lemma map_accepted_Inr:
  "map_res get_accepted (map put_accepted fs) = Inr gs \<longleftrightarrow> list_all (\<lambda>f. f < 4096) fs \<and> gs = fs"
  by (induction fs arbitrary: gs) (auto simp: res_bind_eq_Inr)

lemma setup_response_wire:
  "e2ap_wire (U_e2_stp_resp m) = Inr (U_e2_stp_resp m) \<longleftrightarrow> setup_response_ok m"
proof (cases rule: map_res_trip_cases [of put_rejected get_rejected _ "rejected m", OF rejected_trip])
  case 1
  then show ?thesis
    by (auto simp: wire_simps e2ap_enc_setup_response_asn_pdu_def setup_response_ok_def)
next
  case (2 ys)
  let ?p = "gr_plmn (stp_resp_id m)"
  show ?thesis
    using 2 plmn_trip [of ?p] macro_enb_round_trip [of "near_ric_id (stp_resp_id m)"]
    by (cases m; cases "stp_resp_id m"; cases "PLMNID_TO_MCC_MNC (MCC_MNC_TO_PLMNID (mcc ?p) (mnc ?p) (mnc_digit_len ?p))")
       (auto simp: wire_simps e2ap_enc_setup_response_asn_pdu_def e2ap_dec_setup_response_def
         setup_response_element_def setup_response_ok_def map_accepted_Inr)
qed

definition setup_failure_ok :: "e2_setup_failure \<Rightarrow> bool" where
  "setup_failure_ok m \<longleftrightarrow> cause_ok (stpf_cause m) \<and> stpf_crit_diag m = None"

lemma setup_failure_wire:
  "e2ap_wire (U_e2_stp_fail m) = Inr (U_e2_stp_fail m) \<longleftrightarrow> setup_failure_ok m"
  using cause_trip [of "stpf_cause m"]
  by (cases m; cases "enc_copy_cause (stpf_cause m)"; cases "stpf_time_to_wait m"; cases "tl_info m";
      cases "tl_port (the (tl_info m))")
     (auto simp: wire_simps e2ap_enc_setup_failure_asn_pdu_def e2ap_dec_setup_failure_def setup_failure_element_def
       setup_failure_ok_def copy_ba_to_bit_string_def copy_bs_to_ba_def)

section \<open>Reset\<close>

lemma reset_wire:
  "e2ap_wire (U_rst_req m) = Inr (U_rst_req m) \<longleftrightarrow> cause_ok (rst_cause m)"
  "e2ap_wire (U_rst_resp n) = Inr (U_rst_resp n) \<longleftrightarrow> rst_crit_diag n = None"
proof -
  show "e2ap_wire (U_rst_req m) = Inr (U_rst_req m) \<longleftrightarrow> cause_ok (rst_cause m)"
    using cause_trip [of "rst_cause m"]
    by (cases m; cases "enc_copy_cause (rst_cause m)")
       (auto simp: wire_simps e2ap_enc_reset_request_asn_pdu_def e2ap_dec_reset_request_def)
  show "e2ap_wire (U_rst_resp n) = Inr (U_rst_resp n) \<longleftrightarrow> rst_crit_diag n = None"
    by (cases n) (auto simp: wire_simps e2ap_enc_reset_response_asn_pdu_def e2ap_dec_reset_response_def)
qed

section \<open>Service\<close>

lemma get_service_function_put [simp]: "get_service_function (put_ran_function f) = Inr f"
  by (simp add: get_service_function_def put_ran_function_def get_defs)

lemma map_service_function [simp]: "map_res get_service_function (map put_ran_function fs) = Inr fs"
  by (induction fs) simp_all

lemma bare_function_trip [simp]: "get_bare_function (put_bare_function f) = Inr f"
  by (simp add: get_bare_function_def put_bare_function_def get_defs)

lemma map_bare_function [simp]: "map_res get_bare_function (map put_bare_function fs) = Inr fs"
  by (induction fs) simp_all

lemma bare_as_service_function [simp]:
  "get_service_function (put_bare_function f) = Inr \<lparr>rf_def = [], rf_id = fr_id f, rf_rev = fr_rev f, rf_oid = None\<rparr>"
  by (simp add: get_service_function_def put_bare_function_def dec_copy_ran_function_def get_defs)

text \<open>A function that is deleted arrives as a modified one, without a definition.\<close>

definition deleted_as_modified :: "ran_function_id_rev \<Rightarrow> ran_function" where
  "deleted_as_modified f = \<lparr>rf_def = [], rf_id = fr_id f, rf_rev = fr_rev f, rf_oid = None\<rparr>"

lemma map_modified_functions [simp]:
  "map_res get_service_function (map put_ran_function fs @ map put_bare_function ds) =
    Inr (fs @ map deleted_as_modified ds)"
proof (induction fs)
  case Nil
  show ?case by (induction ds) (simp_all add: deleted_as_modified_def)
qed simp

definition service_update_ok :: "ric_service_update \<Rightarrow> bool" where
  "service_update_ok m \<longleftrightarrow> length (su_added m) \<le> 256 \<and> length (su_modified m) \<le> 256 \<and> su_deleted m = []"

lemma service_update_arrives:
  "e2ap_wire (U_ric_serv_updt m) =
    (if length (su_added m) \<le> 256 \<and> length (su_modified m) \<le> 256 \<and> length (su_deleted m) \<le> 256
     then Inr (U_ric_serv_updt
            \<lparr>su_added = su_added m, su_modified = su_modified m @ map deleted_as_modified (su_deleted m),
             su_deleted = []\<rparr>)
     else Inl AssertFail)"
  by (simp add: wire_simps e2ap_enc_service_update_asn_pdu_def e2ap_dec_service_update_def)

lemma service_update_wire:
  "e2ap_wire (U_ric_serv_updt m) = Inr (U_ric_serv_updt m) \<longleftrightarrow> service_update_ok m"
  by (cases m) (auto simp: service_update_arrives service_update_ok_def)

definition service_update_ack_ok :: "ric_service_update_ack \<Rightarrow> bool" where
  "service_update_ack_ok m \<longleftrightarrow> length (sua_accepted m) \<le> 256 \<and> sua_rejected m = []"

lemma map_service_accepted [simp]:
  "map_res get_service_accepted
     (map (\<lambda>f. IE Id_RANfunction_Item Criticality_reject (V_RANfunctionID_Item (uint (fr_id f)) (uint (fr_rev f)))) fs) =
   Inr fs"
  by (induction fs) (simp_all add: get_service_accepted_def get_defs)

lemma service_update_ack_wire:
  "e2ap_wire (U_ric_serv_updt_ack m) = Inr (U_ric_serv_updt_ack m) \<longleftrightarrow> service_update_ack_ok m"
  by (cases m)
     (auto simp: wire_simps e2ap_enc_service_update_ack_asn_pdu_def e2ap_dec_service_update_ack_def
       service_ack_element_def service_update_ack_ok_def)

definition service_update_failure_ok :: "ric_service_update_failure \<Rightarrow> bool" where
  "service_update_failure_ok m \<longleftrightarrow>
    list_all (\<lambda>r. cause_ok (rej_cause r)) (suf_rejected m) \<and> suf_time_to_wait m = None \<and> suf_crit_diag m = None"

lemma service_update_failure_wire:
  "e2ap_wire (U_ric_serv_updt_fail m) = Inr (U_ric_serv_updt_fail m) \<longleftrightarrow> service_update_failure_ok m"
proof (cases rule: map_res_trip_cases [of put_rejected_service get_service_rejected _ "suf_rejected m",
      OF rejected_service_trip])
  case 1
  then show ?thesis
    by (auto simp: wire_simps e2ap_enc_service_update_failure_asn_pdu_def service_update_failure_ok_def)
next
  case (2 ys)
  then show ?thesis
    by (cases m)
       (auto simp: wire_simps e2ap_enc_service_update_failure_asn_pdu_def e2ap_dec_service_update_failure_def
         service_failure_element_def service_update_failure_ok_def)
qed

lemma service_query_wire:
  "e2ap_wire (U_ric_serv_query m) = Inr (U_ric_serv_query m) \<longleftrightarrow> length (sq_accepted m) \<le> 256"
  by (cases m) (auto simp: wire_simps e2ap_enc_service_query_asn_pdu_def e2ap_dec_service_query_def)

section \<open>Configuration and connections\<close>

definition configuration_update_ok :: "e2_node_configuration_update \<Rightarrow> bool" where
  "configuration_update_ok m \<longleftrightarrow>
    length (comp_conf_update_list m) \<le> 16 \<and>
    list_all (\<lambda>u. component_ok u \<and> ccu_id_present u = None) (comp_conf_update_list m)"

lemma configuration_update_wire:
  "e2ap_wire (U_e2_node_conf_updt m) = Inr (U_e2_node_conf_updt m) \<longleftrightarrow> configuration_update_ok m"
proof (cases rule: map_res_trip_cases [of enc_copy_component_update get_node_component _ "comp_conf_update_list m",
      OF node_component_trip])
  case 1
  then show ?thesis
    by (auto simp: wire_simps e2ap_enc_node_configuration_update_asn_pdu_def configuration_update_ok_def)
next
  case (2 ys)
  then show ?thesis
    by (cases m)
       (auto simp: wire_simps e2ap_enc_node_configuration_update_asn_pdu_def
         e2ap_dec_node_configuration_update_def configuration_update_ok_def)
qed

text \<open>The decoders of the other messages of these procedures are empty: every such message
  stops its receiver, or already its sender.\<close>

fun no_decoder :: "u_msg \<Rightarrow> bool" where
  "no_decoder (U_e2_node_conf_updt_ack _) = True"
| "no_decoder (U_e2_node_conf_updt_fail _) = True"
| "no_decoder (U_e2_conn_updt _) = True"
| "no_decoder (U_e2_conn_updt_ack _) = True"
| "no_decoder (U_e2_conn_updt_fail _) = True"
| "no_decoder _ = False"

lemma no_decoder_stops: "no_decoder m \<Longrightarrow> \<exists>e. e2ap_wire m = Inl e"
proof (cases "enc_msg m")
  case (Inr pdu)
  assume "no_decoder m"
  then have "dec_pdu pdu = Inl NotImplemented"
    using Inr
    by (cases m)
       (auto simp: e2ap_enc_node_configuration_update_ack_asn_pdu_def
         e2ap_enc_node_configuration_update_failure_asn_pdu_def e2ap_enc_node_connection_update_asn_pdu_def
         e2ap_enc_node_connection_update_ack_asn_pdu_def e2ap_enc_node_connection_update_failure_asn_pdu_def
         e2ap_dec_node_configuration_update_ack_def e2ap_dec_node_configuration_update_failure_def
         e2ap_dec_connection_update_def e2ap_dec_connection_update_ack_def e2ap_dec_connection_update_failure_def
         res_bind_eq_Inr dec_pdu_def e2ap_get_msg_type_def by_outcome_def Let_def split: if_splits)
  then show ?thesis using Inr by (simp add: e2ap_wire_def)
qed (simp add: e2ap_wire_def)

section \<open>E42 setup\<close>

definition e42_setup_request_ok :: "e42_setup_request \<Rightarrow> bool" where
  "e42_setup_request_ok m \<longleftrightarrow>
    0 < length (e42_ran_func_item m) \<and> length (e42_ran_func_item m) \<le> 256 \<and> list_all rf_ok (e42_ran_func_item m)"

lemma e42_setup_request_wire:
  "e2ap_wire (U_e42_stp_req m) = Inr (U_e42_stp_req m) \<longleftrightarrow> e42_setup_request_ok m"
  by (cases m)
     (auto simp: wire_simps e2ap_enc_e42_setup_request_asn_pdu_def e2ap_dec_e42_setup_request_def
       map_setup_function_Inr e42_setup_request_ok_def)

lemma connected_trip:
  "res_bind (put_connected n) get_connected = Inr n \<longleftrightarrow> node_id_ok (nc_id n) \<and> list_all rf_ok (ack_rf n)"
  using node_id_trip [of "nc_id n"]
  by (cases n; cases "enc_global_e2_node_id (nc_id n)")
     (auto simp: put_connected_def get_connected_def put_node_id_def get_node_id_def get_defs ie_at_def
       res_bind_eq_Inr map_setup_function_Inr)

definition e42_setup_response_ok :: "e42_setup_response \<Rightarrow> bool" where
  "e42_setup_response_ok m \<longleftrightarrow>
    e42_nodes m \<noteq> [] \<and> list_all (\<lambda>n. node_id_ok (nc_id n) \<and> list_all rf_ok (ack_rf n)) (e42_nodes m)"

lemma e42_setup_response_wire:
  "e2ap_wire (U_e42_stp_resp m) = Inr (U_e42_stp_resp m) \<longleftrightarrow> e42_setup_response_ok m"
proof (cases rule: map_res_trip_cases [of put_connected get_connected _ "e42_nodes m", OF connected_trip])
  case 1
  then show ?thesis
    by (auto simp: wire_simps e2ap_enc_e42_setup_response_asn_pdu_def e42_setup_response_ok_def)
next
  case (2 ys)
  then show ?thesis
    by (cases m)
       (auto simp: wire_simps e2ap_enc_e42_setup_response_asn_pdu_def e2ap_dec_e42_setup_response_def
         e42_setup_response_ok_def)
qed

section \<open>All members of the union\<close>

fun wire_ok :: "u_msg \<Rightarrow> bool" where
  "wire_ok (U_ric_sub_req m) = subscription_ok m"
| "wire_ok (U_ric_sub_resp m) = (not_admitted m = [] \<and> ric_id_ok True (Some 256) (resp_ric_id m))"
| "wire_ok (U_ric_sub_fail m) = (ric_id_ok False (Some 4096) (sf_ric_id m) \<and>
     list_all (\<lambda>x. cause_ok (na_cause x)) (sf_not_admitted m) \<and> sf_crit_diag m = None)"
| "wire_ok (U_ric_sub_del_req m) = ric_id_ok False (Some 4096) (sdr_ric_id m)"
| "wire_ok (U_ric_sub_del_resp m) = ric_id_ok False (Some 4096) (sdresp_ric_id m)"
| "wire_ok (U_ric_sub_del_fail m) = (ric_id_ok False (Some 4096) (sdf_ric_id m) \<and> cause_ok (sdf_cause m) \<and>
     sdf_crit_diag m = None)"
| "wire_ok (U_ric_ind m) = (ric_id_ok True (Some 4096) (ind_ric_id m) \<and> ind_hdr m \<noteq> [] \<and> ind_msg m \<noteq> [] \<and>
     ind_call_process_id m \<noteq> Some [])"
| "wire_ok (U_ric_ctrl_req m) = control_ok m"
| "wire_ok (U_ric_ctrl_ack m) = (ric_id_ok True (Some 4096) (ca_ric_id m) \<and> ca_call_process_id m \<noteq> Some [] \<and>
     control_outcome m \<noteq> Some [])"
| "wire_ok (U_ric_ctrl_fail m) = (ric_id_ok False (Some 256) (cf_ric_id m) \<and> cf_call_process_id m \<noteq> Some [] \<and>
     cause_ok (cf_cause m) \<and> cf_control_outcome m \<noteq> Some [])"
| "wire_ok (U_err_ind m) =
     ((case ei_ric_id m of None \<Rightarrow> True | Some g \<Rightarrow> ric_id_ok False (Some 256) g) \<and>
      (case ei_cause m of None \<Rightarrow> True | Some c \<Rightarrow> cause_ok c) \<and> ei_crit_diag m = None)"
| "wire_ok (U_e2_stp_req m) = setup_request_ok m"
| "wire_ok (U_e2_stp_resp m) = setup_response_ok m"
| "wire_ok (U_e2_stp_fail m) = setup_failure_ok m"
| "wire_ok (U_rst_req m) = cause_ok (rst_cause m)"
| "wire_ok (U_rst_resp m) = (rst_crit_diag m = None)"
| "wire_ok (U_ric_serv_updt m) = service_update_ok m"
| "wire_ok (U_ric_serv_updt_ack m) = service_update_ack_ok m"
| "wire_ok (U_ric_serv_updt_fail m) = service_update_failure_ok m"
| "wire_ok (U_ric_serv_query m) = (length (sq_accepted m) \<le> 256)"
| "wire_ok (U_e2_node_conf_updt m) = configuration_update_ok m"
| "wire_ok (U_e42_stp_req m) = e42_setup_request_ok m"
| "wire_ok (U_e42_stp_resp m) = e42_setup_response_ok m"
| "wire_ok (U_e42_ric_sub_req m) = (node_id_ok (e42sr_id m) \<and> subscription_ok (e42sr_sr m))"
| "wire_ok (U_e42_ric_sub_del_req m) = ric_id_ok False (Some 4096) (sdr_ric_id (e42sdr_sdr m))"
| "wire_ok (U_e42_ric_ctrl_req m) = (node_id_ok (e42cr_id m) \<and> control_ok (e42cr_ctrl_req m))"
| "wire_ok m = False"

lemma no_decoder_wire: "no_decoder m \<Longrightarrow> e2ap_wire m \<noteq> Inr u"
  using no_decoder_stops [of m] by auto

lemma wire_ok_iff: "e2ap_wire m = Inr m \<longleftrightarrow> wire_ok m"
  by (cases m)
     (simp_all add: no_decoder_wire subscription_request_wire subscription_response_wire subscription_failure_wire
       subscription_delete_wire subscription_delete_failure_wire indication_wire control_request_wire
       control_ack_wire control_failure_wire error_indication_wire setup_request_wire setup_response_wire
       setup_failure_wire reset_wire service_update_wire service_update_ack_wire service_update_failure_wire
       service_query_wire configuration_update_wire e42_setup_request_wire e42_setup_response_wire
       e42_subscription_request_wire e42_subscription_delete_wire e42_control_request_wire)

text \<open>Different messages that arrive are told apart: their PDUs differ.\<close>

lemma enc_msg_inj:
  assumes "wire_ok m" "wire_ok n" "enc_msg m = enc_msg n"
  shows "m = n"
  using wire_ok_iff [of m] wire_ok_iff [of n] assms by (simp add: e2ap_wire_def)

lemmas enc_defs = e2ap_enc_subscription_request_asn_pdu_def e2ap_enc_subscription_response_asn_pdu_def
  e2ap_enc_subscription_failure_asn_pdu_def e2ap_enc_subscription_delete_request_asn_pdu_def
  e2ap_enc_subscription_delete_response_asn_pdu_def e2ap_enc_subscription_delete_failure_asn_pdu_def
  e2ap_enc_indication_asn_pdu_def e2ap_enc_control_request_asn_pdu_def e2ap_enc_control_ack_asn_pdu_def
  e2ap_enc_control_failure_asn_pdu_def e2ap_enc_error_indication_asn_pdu_def
  e2ap_enc_setup_request_asn_pdu_def e2ap_enc_setup_response_asn_pdu_def e2ap_enc_setup_failure_asn_pdu_def
  e2ap_enc_reset_request_asn_pdu_def e2ap_enc_reset_response_asn_pdu_def e2ap_enc_service_update_asn_pdu_def
  e2ap_enc_service_update_ack_asn_pdu_def e2ap_enc_service_update_failure_asn_pdu_def
  e2ap_enc_service_query_asn_pdu_def e2ap_enc_node_configuration_update_asn_pdu_def
  e2ap_enc_node_configuration_update_ack_asn_pdu_def e2ap_enc_node_configuration_update_failure_asn_pdu_def
  e2ap_enc_node_connection_update_asn_pdu_def e2ap_enc_node_connection_update_ack_asn_pdu_def
  e2ap_enc_node_connection_update_failure_asn_pdu_def e2ap_enc_e42_subscription_request_asn_pdu_def
  e2ap_enc_e42_setup_request_asn_pdu_def e2ap_enc_e42_setup_response_asn_pdu_def
  e2ap_enc_e42_subscription_delete_request_asn_pdu_def e2ap_enc_e42_control_request_asn_pdu_def

lemmas dec_defs = e2ap_dec_subscription_request_def e2ap_dec_e42_subscription_request_def
  e2ap_dec_subscription_response_def e2ap_dec_subscription_failure_def
  e2ap_dec_subscription_delete_request_def e2ap_dec_subscription_delete_response_def
  e2ap_dec_subscription_delete_failure_def e2ap_dec_e42_subscription_delete_request_def
  e2ap_dec_indication_def e2ap_dec_control_request_def e2ap_dec_e42_control_request_def
  e2ap_dec_control_ack_def e2ap_dec_control_failure_def e2ap_dec_error_indication_def
  e2ap_dec_setup_request_def e2ap_dec_setup_response_def e2ap_dec_setup_failure_def e2ap_dec_reset_request_def
  e2ap_dec_reset_response_def e2ap_dec_service_update_def e2ap_dec_service_update_ack_def
  e2ap_dec_service_update_failure_def e2ap_dec_service_query_def e2ap_dec_node_configuration_update_def
  e2ap_dec_node_configuration_update_ack_def e2ap_dec_node_configuration_update_failure_def
  e2ap_dec_connection_update_def e2ap_dec_connection_update_ack_def e2ap_dec_connection_update_failure_def
  e2ap_dec_e42_setup_request_def e2ap_dec_e42_setup_response_def

text \<open>A decoder makes messages of its own type only, and the type read from a PDU is the one of the
  message it was made from: no message is taken for one of another type.\<close>

lemma dec_msg_type: "dec_msg t pdu = Inr m \<Longrightarrow> u_type m = t"
  by (cases t) (auto simp: res_bind_eq_Inr dec_defs split: if_splits prod.splits)

lemma enc_msg_type: "enc_msg m = Inr pdu \<Longrightarrow> e2ap_get_msg_type pdu = Inr (u_type m)"
  by (cases m)
     (auto simp: res_bind_eq_Inr enc_defs e2ap_get_msg_type_def by_outcome_def Let_def split: if_splits)

lemma wire_type: "e2ap_wire m = Inr n \<Longrightarrow> u_type n = u_type m"
  by (auto simp: e2ap_wire_def dec_pdu_def res_bind_eq_Inr enc_msg_type dest: dec_msg_type)

end
