(* ===== verification/E2apCarry.thy ===== *)
theory E2apCarry
  imports E2apWireSetup
begin

text \<open>
  The messages of the processes over the encoding of E2AP: a message goes through the encoder of
  its sender and the decoder of its receiver.
\<close>

section \<open>Messages between processes\<close>

text \<open>A message of a process on its way: encoded, decoded, and seen by a handler.\<close>

definition carried :: "e2ap_msg \<Rightarrow> e2ap_msg res" where
  "carried m =
    (case to_union m of
       None \<Rightarrow> Inl OutOfBounds
     | Some u \<Rightarrow> res_bind (e2ap_wire u) (\<lambda>v. Inr (of_union v)))"

definition sent_ok :: "e2ap_msg \<Rightarrow> bool" where
  "sent_ok m \<longleftrightarrow> (case to_union m of None \<Rightarrow> False | Some u \<Rightarrow> wire_ok u)"

lemma carried_ok: "sent_ok m \<Longrightarrow> carried m = Inr m"
  by (auto simp: carried_def sent_ok_def wire_ok_iff [symmetric] of_to_union split: option.splits)

text \<open>The same over the bytes of the generated codec \<open>enc\<close>, \<open>dec\<close> and through the buffer of the
  encoder.  The codec reads back what it wrote; it never writes an empty PDU.\<close>

definition carried_bytes ::
  "(E2AP_PDU \<Rightarrow> byte_array option) \<Rightarrow> (byte_array \<Rightarrow> E2AP_PDU option) \<Rightarrow> e2ap_msg \<Rightarrow> e2ap_msg res" where
  "carried_bytes enc dec m =
    (case to_union m of
       None \<Rightarrow> Inl OutOfBounds
     | Some u \<Rightarrow> res_bind (e2ap_msg_enc_asn enc u) (\<lambda>b.
         res_bind (e2ap_msg_dec_asn dec b) (\<lambda>v. Inr (of_union v))))"

definition reads_back :: "(E2AP_PDU \<Rightarrow> byte_array option) \<Rightarrow> (byte_array \<Rightarrow> E2AP_PDU option) \<Rightarrow> bool" where
  "reads_back enc dec \<longleftrightarrow> (\<forall>pdu b. enc pdu = Some b \<longrightarrow> b \<noteq> [] \<and> dec b = Some pdu)"

definition msg_pdu :: "e2ap_msg \<Rightarrow> E2AP_PDU res" where
  "msg_pdu m = (case to_union m of None \<Rightarrow> Inl OutOfBounds | Some u \<Rightarrow> enc_msg u)"

definition msg_fits :: "(E2AP_PDU \<Rightarrow> byte_array option) \<Rightarrow> e2ap_msg \<Rightarrow> bool" where
  "msg_fits enc m \<longleftrightarrow> pdu_fits enc (msg_pdu m)"

lemma carried_bytes_iff:
  assumes "carried m = Inr m" "reads_back enc dec"
  shows "carried_bytes enc dec m = Inr m \<longleftrightarrow> msg_fits enc m"
proof -
  obtain u p where u: "to_union m = Some u" "enc_msg u = Inr p" "res_bind (dec_pdu p) (\<lambda>v. Inr (of_union v)) = Inr m"
    using assms(1) by (auto simp: carried_def e2ap_wire_def res_bind_eq_Inr split: option.splits)
  show ?thesis
  proof (cases "enc p")
    case (Some b)
    then have "b \<noteq> []" "dec b = Some p" using assms(2) by (auto simp: reads_back_def)
    then show ?thesis
      using u Some
      by (auto simp: carried_bytes_def msg_fits_def msg_pdu_def pdu_fits_def e2ap_msg_enc_asn_def e2ap_enc_asn_pdu_ba_def
          e2ap_msg_dec_asn_def e2ap_create_pdu_def)
  qed (use u in \<open>simp add: carried_bytes_def msg_fits_def msg_pdu_def pdu_fits_def e2ap_msg_enc_asn_def e2ap_enc_asn_pdu_ba_def\<close>)
qed

text \<open>A codec for a list of PDUs, for the witnesses: a PDU is the byte of its place in the list.\<close>

fun place :: "E2AP_PDU list \<Rightarrow> E2AP_PDU \<Rightarrow> nat option" where
  "place [] p = None"
| "place (q # qs) p = (if q = p then Some 0 else map_option Suc (place qs p))"

definition table_enc :: "E2AP_PDU list \<Rightarrow> E2AP_PDU \<Rightarrow> byte_array option" where
  "table_enc ps p = map_option (\<lambda>i. [word_of_nat i]) (place ps p)"

definition table_dec :: "E2AP_PDU list \<Rightarrow> byte_array \<Rightarrow> E2AP_PDU option" where
  "table_dec ps b = (case b of [k] \<Rightarrow> if unat k < length ps then Some (ps ! unat k) else None | _ \<Rightarrow> None)"

lemma place_nth: "place ps p = Some i \<Longrightarrow> i < length ps \<and> ps ! i = p"
  by (induction ps arbitrary: i) (auto split: if_splits)

lemma place_in: "p \<in> set ps \<Longrightarrow> place ps p \<noteq> None"
  by (induction ps) auto

lemma table_reads_back: "length ps \<le> 256 \<Longrightarrow> reads_back (table_enc ps) (table_dec ps)"
  by (auto simp: reads_back_def table_enc_def table_dec_def unat_of_nat take_bit_nat_eq_self dest!: place_nth)

definition codec_of :: "e2ap_msg list \<Rightarrow> E2AP_PDU list" where
  "codec_of ms = map (\<lambda>m. projr (msg_pdu m)) ms"

lemma codec_of_fits:
  assumes "m \<in> set ms" "carried m = Inr m"
  shows "msg_fits (table_enc (codec_of ms)) m"
proof -
  obtain pdu where "msg_pdu m = Inr pdu"
    using assms(2) by (auto simp: carried_def msg_pdu_def e2ap_wire_def res_bind_eq_Inr split: option.splits)
  then show ?thesis
    using assms(1) place_in [of pdu "codec_of ms"]
    by (force simp: msg_fits_def pdu_fits_def table_enc_def codec_of_def)
qed

lemma of_union_setup:
  "of_union v = E2_stp_req a \<longleftrightarrow> (\<exists>u. v = U_e2_stp_req u \<and> e2_setup_request.truncate u = a)"
  "of_union v = E2_stp_resp b \<longleftrightarrow> (\<exists>u. v = U_e2_stp_resp u \<and> e2_setup_response.truncate u = b)"
  by (cases v; auto)+

text \<open>A setup request of an agent, which announces no component, and the answer of the RIC.\<close>

lemma carried_setup_request:
  "carried (E2_stp_req m) = Inr (E2_stp_req m) \<longleftrightarrow>
    node_id_ok (stp_id m) \<and> length (ran_func_item m) < 256 \<and> list_all rf_ok (ran_func_item m)"
proof -
  let ?u = "e2_setup_request.extend m (e2_setup_request_msg.fields [])"
  have "setup_request_ok ?u" if "e2ap_wire (U_e2_stp_req ?u) = Inr (U_e2_stp_req v)" "e2_setup_request.truncate v = m"
    for v
  proof -
    have "comp_conf_update v = []"
      using that(1)
      by (auto simp: wire_simps e2ap_enc_setup_request_asn_pdu_def e2ap_dec_setup_request_def put_node_id_def
          get_node_id_def setup_request_element_def e2_setup_request.defs e2_setup_request_msg.defs split: if_splits)
    then have "v = ?u" using that(2) by (cases v) (auto simp: e2_setup_request.defs e2_setup_request_msg.defs)
    then show ?thesis using that(1) setup_request_wire [of ?u] by simp
  qed
  moreover have "setup_request_ok ?u \<longleftrightarrow>
      node_id_ok (stp_id m) \<and> length (ran_func_item m) < 256 \<and> list_all rf_ok (ran_func_item m)"
    by (simp add: setup_request_ok_def e2_setup_request.defs e2_setup_request_msg.defs)
  moreover have "carried (E2_stp_req m) = Inr (E2_stp_req m)" if "setup_request_ok ?u"
    by (rule carried_ok) (use that in \<open>simp add: sent_ok_def\<close>)
  ultimately show ?thesis
    by (auto simp: carried_def res_bind_eq_Inr of_union_setup)
qed

lemma carried_setup_response:
  "carried (E2_stp_resp m) = Inr (E2_stp_resp m) \<longleftrightarrow>
    plmn_ok (gr_plmn (stp_resp_id m)) \<and> take_bit 20 (near_ric_id (stp_resp_id m)) = near_ric_id (stp_resp_id m) \<and>
    length (accepted m) < 256 \<and> list_all (\<lambda>f. f < 4096) (accepted m)"
proof -
  let ?u = "e2_setup_response.extend m (e2_setup_response_msg.fields [] [])"
  have "setup_response_ok ?u" if "e2ap_wire (U_e2_stp_resp ?u) = Inr (U_e2_stp_resp v)" "e2_setup_response.truncate v = m"
    for v
  proof -
    have "rejected v = [] \<and> comp_conf_update_ack_list v = []"
      using that(1)
      by (auto simp: wire_simps e2ap_enc_setup_response_asn_pdu_def e2ap_dec_setup_response_def
          setup_response_element_def e2_setup_response.defs e2_setup_response_msg.defs split: if_splits)
    then have "v = ?u" using that(2) by (cases v) (auto simp: e2_setup_response.defs e2_setup_response_msg.defs)
    then show ?thesis using that(1) setup_response_wire [of ?u] by simp
  qed
  moreover have "setup_response_ok ?u \<longleftrightarrow> plmn_ok (gr_plmn (stp_resp_id m)) \<and>
      take_bit 20 (near_ric_id (stp_resp_id m)) = near_ric_id (stp_resp_id m) \<and>
      length (accepted m) < 256 \<and> list_all (\<lambda>f. f < 4096) (accepted m)"
    by (auto simp: setup_response_ok_def e2_setup_response.defs e2_setup_response_msg.defs)
  moreover have "carried (E2_stp_resp m) = Inr (E2_stp_resp m)" if "setup_response_ok ?u"
    by (rule carried_ok) (use that in \<open>simp add: sent_ok_def\<close>)
  ultimately show ?thesis
    by (auto simp: carried_def res_bind_eq_Inr of_union_setup)
qed

text \<open>The messages of a report and of a control, in the form the processes give them.\<close>

lemma carried_admission:
  "ric_id_ok True (Some 256) i \<Longrightarrow>
    carried (Ric_sub_resp \<lparr>resp_ric_id = i, admitted = l, not_admitted = []\<rparr>) =
    Inr (Ric_sub_resp \<lparr>resp_ric_id = i, admitted = l, not_admitted = []\<rparr>)"
  by (rule carried_ok) (simp add: sent_ok_def)

lemma carried_report:
  "ric_id_ok True (Some 4096) i \<Longrightarrow> h \<noteq> [] \<Longrightarrow> b \<noteq> [] \<Longrightarrow>
    carried (Ric_ind \<lparr>ind_ric_id = i, ind_action_id = a, sn = s, ind_type = t, ind_hdr = h, ind_msg = b,
      ind_call_process_id = None\<rparr>) =
    Inr (Ric_ind \<lparr>ind_ric_id = i, ind_action_id = a, sn = s, ind_type = t, ind_hdr = h, ind_msg = b,
      ind_call_process_id = None\<rparr>)"
  by (rule carried_ok) (simp add: sent_ok_def)

end
