(* ===== verification/RicProps.thy ===== *)
theory RicProps
  imports RicSystem E2apCarry
begin

text \<open>
  The properties of the near-RT RIC, of its iApp and of the two together.  The witnesses
  run on \<open>demo_sys\<close>: one E2 node connected from port 36421 with the RAN function 142, and
  one xApp, which got the identifier 7.
\<close>

section \<open>A small system\<close>

definition demo_node :: global_e2_node_id where
  "demo_node = \<lparr>ntype = Ngran_gNB, nplmn = \<lparr>mcc = 505, mnc = 1, mnc_digit_len = 2\<rparr>, nb_id = 1, cu_du_id = None\<rparr>"

definition demo_rf :: ran_function where
  "demo_rf = \<lparr>rf_def = [77, 65, 67], rf_id = 142, rf_rev = 0, rf_oid = None\<rparr>"

definition demo_addr :: "u16 \<Rightarrow> unit sctp_info" where
  "demo_addr p = \<lparr>addr = \<lparr>sin_family = 2, sin_port = p, sin_addr = 2130706433\<rparr>, sri = ()\<rparr>"

definition demo_sm :: "(byte_array, byte_array) sm_ric" where
  "demo_sm = \<lparr>on_subscription = (\<lambda>c. Inr \<lparr>sd_event_trigger = [1], sd_action_def = None\<rparr>),
    on_indication = (\<lambda>d. Inr \<lparr>rd_type = MAC_STATS_V0, rd_stats = sid_msg d\<rparr>),
    on_control_req = (\<lambda>w. Inr \<lparr>scd_hdr = [9], scd_msg = w\<rparr>), sm_ran_func_id = 142\<rparr>"

lemma demo_sm_sub: "on_subscription demo_sm cmd = Inr \<lparr>sd_event_trigger = [1], sd_action_def = None\<rparr>"
  by (simp add: demo_sm_def)

lemma demo_sm_ind: "on_indication demo_sm d = Inr \<lparr>rd_type = MAC_STATS_V0, rd_stats = sid_msg d\<rparr>"
  by (simp add: demo_sm_def)

definition single_map :: "'a cmp_fun \<Rightarrow> 'b cmp_fun \<Rightarrow> 'a \<Rightarrow> 'b \<Rightarrow> ('a, 'b) bi_map" where
  "single_map c1 c2 a b =
    \<lparr>left = \<lparr>root = Node ASSOC_BLACK Dummy a b Dummy, comp = c1, tsize = 1\<rparr>,
     right = \<lparr>root = Node ASSOC_BLACK Dummy b a Dummy, comp = c2, tsize = 1\<rparr>\<rparr>"

definition demo_ric :: "(unit, byte_array, byte_array) near_ric" where
  "demo_ric =
    \<lparr>ep = \<lparr>e2_map = single_map cmp_global_e2_node_id_wrapper cmp_sctp_info_wrapper demo_node (demo_addr 36421)\<rparr>,
     io = [3], plugin = \<lparr>root = Node ASSOC_BLACK Dummy 142 demo_sm Dummy, comp = cmp_ran_func_id, tsize = 1\<rparr>,
     pub_sub = \<lparr>root = Node ASSOC_BLACK Dummy 142 default_listeners Dummy, comp = cmp_ran_func_id, tsize = 1\<rparr>,
     conn_nodes = [\<lparr>en_id = demo_node, en_accepted = [142]\<rparr>], req_id = 1021, pending = init_pending_events\<rparr>"

definition demo_iapp :: "unit e42_iapp" where
  "demo_iapp =
    \<lparr>xapps = \<lparr>xapp_tree = \<lparr>root = Node ASSOC_BLACK Dummy 7 (demo_addr 5000) Dummy,
       comp = cmp_uint16_wrapper, tsize = 1\<rparr>\<rparr>,
     e2_nodes = \<lparr>node_to_rf = \<lparr>root = Node ASSOC_BLACK Dummy demo_node [demo_rf] Dummy,
       comp = cmp_global_e2_node_id_wrapper, tsize = 1\<rparr>\<rparr>,
     ric_ids_map = init_map_ric_id, next_xapp_id = 8\<rparr>"

definition demo_sys :: "(unit, byte_array, byte_array) sys" where
  "demo_sys = \<lparr>s_ric = demo_ric, s_iapp = demo_iapp\<rparr>"

lemma demo_mono: "demo_node \<in> monolithic_dom"
  by (simp add: demo_node_def monolithic_dom_def node_is_monolithic_def)

lemma demo_eq: "eq_global_e2_node_id demo_node demo_node"
  by (simp add: eq_global_e2_node_id_def demo_node_def node_is_monolithic_def eq_plmn_def)

lemma single_tree_inv:
  "k \<in> D \<Longrightarrow> rb_inv c D \<lparr>root = Node ASSOC_BLACK Dummy k v Dummy, comp = c, tsize = Suc 0\<rparr>"
  by (simp add: rb_inv_def rb_ok_def rb_entries_def sorted_entries_def)

lemma single_tree_entries:
  "rb_entries \<lparr>root = Node ASSOC_BLACK Dummy k v Dummy, comp = c, tsize = n\<rparr> = [(k, v)]"
  by (simp add: rb_entries_def)

lemma demo_ric_inv: "ric_inv monolithic_dom 3 demo_ric"
proof -
  have "pend_inv 3 [3] init_pending_events" by (rule pend_inv_init) simp
  then show ?thesis
    using demo_mono
    by (simp add: ric_inv_def demo_ric_def e2_sad_inv_def conn_inv_def plugin_inv_def single_map_def bm_inv_def
        bm_uniq_def bm_pairs_def single_tree_inv single_tree_entries uniq_entries_def demo_sm_def)
qed

lemma demo_iapp_inv: "iapp_inv monolithic_dom demo_iapp"
  using demo_mono
  by (simp add: iapp_inv_def demo_iapp_def xapps_inv_def e2reg_inv_def single_tree_inv single_tree_entries
      e2reg_entries_def uniq_entries_def xapps_get_def)

lemma demo_sad: "e2_sad_get (ep demo_ric) q = (if eq_global_e2_node_id q demo_node then Some (demo_addr 36421) else None)"
  by (simp add: demo_ric_def e2_sad_get_def single_map_def bm_pairs_def single_tree_entries)

lemma demo_sad_node: "e2_sad_node (ep demo_ric) s = (if addr s = addr (demo_addr 36421) then Some demo_node else None)"
  by (simp add: demo_ric_def e2_sad_node_def single_map_def bm_get_right_def single_tree_entries
      flip: eq_sctp_info_iff add: eq_sctp_info_wrapper_def)

lemma demo_reg: "e2reg_get (e2_nodes demo_iapp) q = (if eq_global_e2_node_id q demo_node then Some [demo_rf] else None)"
  "e2reg_entries (e2_nodes demo_iapp) = [(demo_node, [demo_rf])]"
  by (simp_all add: demo_iapp_def e2reg_get_def e2reg_entries_def single_tree_entries)

lemma demo_xapps: "xapps_get (xapps demo_iapp) k = (if k = 7 then Some (demo_addr 5000) else None)"
  by (simp add: demo_iapp_def xapps_get_def single_tree_entries)

lemma demo_sys_inv: "sys_inv monolithic_dom 3 demo_sys"
  using demo_ric_inv demo_iapp_inv
  by (simp add: sys_inv_def demo_sys_def nodes_agree_def demo_sad demo_reg ric_prov.issued_def pend_issued_def
      world_counter_def)
     (simp add: demo_ric_def demo_iapp_def)

section \<open>The system\<close>

text \<open>C1: In every state the RIC and the iApp reach from their start in an environment that respects
  \<open>fair_sys\<close>, the system is consistent: every container is well formed, the iApp knows exactly the
  nodes that have an address, each pending request has one running timer in the interest list, and no
  request identifier in use was handed out in the future.  \<open>fair_sys D\<close> admits every message of a node,
  every connection loss and every timer, and every message of an xApp, with these restrictions: a node that
  sets up is of the kind \<open>D\<close>, not connected, and on an association that no node has; when a message of an
  xApp is handled the 16-bit counters of requests and of xApps are not used up, fewer than 256 nodes are
  connected and the next descriptor is new; its requests name nodes of the kind \<open>D\<close>; and a
  subscription is not deleted again while its first deletion is pending.\<close>

theorem system_consistent:
  assumes "sys_reach D ep_fd sms st" "node_set D" "0 < ep_fd" "\<forall>sm\<in>set sms. 0 < sm_ran_func_id sm"
    "distinct (map sm_ran_func_id sms)"
  shows "sys_inv D ep_fd st"
  by (rule sys_reach_inv [OF assms])

theorem system_consistent_witness:
  "\<exists>st :: (unit, byte_array, byte_array) sys. sys_reach monolithic_dom 3 [demo_sm] st \<and>
    xapps_get (xapps (s_iapp st)) 7 = Some (demo_addr 5000) \<and> sys_inv monolithic_dom 3 st"
proof -
  have sm: "\<forall>sm\<in>set [demo_sm]. 0 < sm_ran_func_id sm" "distinct (map sm_ran_func_id [demo_sm])"
    by (simp_all add: demo_sm_def)
  obtain st0 :: "(unit, byte_array, byte_array) sys" where st0: "sys_init 3 [demo_sm] = Inr st0" "req_id (s_ric st0) = 1021"
    by (rule sys_init_ok [OF _ sm, of 3]) (auto intro: that)
  then have i0: "s_iapp st0 = init_e42_iapp" "io (s_ric st0) = [3]"
    by (auto simp: sys_init_def init_near_ric_def res_bind_eq_Inr add_fd_asio_ric_def)
  let ?req = "\<lparr>e42_ran_func_item = [demo_rf]\<rparr>"
  obtain iapp1 where i1: "e2_event_iapp near_ric_iface init_e42_iapp (s_ric st0, [9], []) (demo_addr 5000) (E42_stp_req ?req) =
      Inr (iapp1, (s_ric st0, [9], []), [(demo_addr 5000, E42_stp_resp \<lparr>e42_xapp_id = ucast (next_xapp_id (init_e42_iapp :: unit e42_iapp)),
        e42_nodes = map (\<lambda>(k, arr). \<lparr>nc_id = k, ack_rf = arr\<rparr>) (e2reg_entries (e2_nodes (init_e42_iapp :: unit e42_iapp)))\<rparr>)])"
    "xapps_get (xapps iapp1) = (xapps_get (xapps init_e42_iapp))(ucast (next_xapp_id (init_e42_iapp :: unit e42_iapp)) \<mapsto> demo_addr 5000)"
    by (rule e42_setup_ok [OF mono_nodes.node_set_axioms iapp_inv_init, of ?req near_ric_iface "(s_ric st0, [9], [])" "demo_addr 5000"])
       (auto simp: init_e42_iapp_def e2reg_entries_def init_reg_e2_node_def intro: that)
  have "fair_sys monolithic_dom st0 (From_xapp (demo_addr 5000) (E42_stp_req ?req) [9])"
    by (simp add: fair_sys_def fair_xapp_def i0 st0(2))
       (simp add: init_e42_iapp_def e2reg_entries_def init_reg_e2_node_def)
  moreover have "\<exists>out. sys_step st0 (From_xapp (demo_addr 5000) (E42_stp_req ?req) [9]) = Inr (\<lparr>s_ric = s_ric st0, s_iapp = iapp1\<rparr>, out)"
    using i1(1) by (simp add: sys_step_def i0)
  ultimately have r: "sys_reach monolithic_dom 3 [demo_sm] \<lparr>s_ric = s_ric st0, s_iapp = iapp1\<rparr>"
    using sys_next [OF sys_start [OF st0(1)]] by blast
  show ?thesis
    by (rule exI [of _ "\<lparr>s_ric = s_ric st0, s_iapp = iapp1\<rparr>"])
       (use r i1(2) system_consistent [OF r mono_nodes.node_set_axioms _ sm] in \<open>simp add: init_e42_iapp_def\<close>)
qed

text \<open>A subscription of an xApp travels to the E2 node and its answer travels back: the
  node receives the request under an identifier of the RIC, and when it answers that
  identifier the xApp that subscribed receives the answer under its own identifier; the
  timer of the request is gone then, and nothing else is pending that was not before.\<close>

theorem subscription_round_trip:
  assumes "node_set D" "sys_inv D ep_fd st" "req_id (s_ric st) < 65536"
    "xapps_get (xapps (s_iapp st)) (e42sr_xapp_id sr) = Some xinfo"
    "e42sr_id sr \<in> D" "e2_sad_get (ep (s_ric st)) (e42sr_id sr) = Some s"
    "length (e2reg_entries (e2_nodes (s_iapp st))) < 256" "0 < fd" "fd \<notin> set (io (s_ric st))"
  shows "\<exists>st1 i. sys_step st (From_xapp info (E42_ric_sub_req sr) [fd]) =
      Inr (st1, [To_node s (Ric_sub_req ((e42sr_sr sr)\<lparr>sr_ric_id := i\<rparr>))]) \<and> sys_inv D ep_fd st1 \<and>
    (\<forall>resp s'. resp_ric_id resp = i \<and> not_admitted resp = [] \<and> admitted resp = [\<lparr>ric_act_id = 0\<rparr>] \<longrightarrow>
      (\<exists>st2. sys_step st1 (From_ric_loop (Sctp_msg_arrived s' (Ric_sub_resp resp))) =
          Inr (st2, [To_xapp xinfo (Ric_sub_resp (resp\<lparr>resp_ric_id := sr_ric_id (e42sr_sr sr)\<rparr>))]) \<and>
        sys_inv D ep_fd st2 \<and> io (s_ric st2) = io (s_ric st) \<and>
        pending_fd (pending (s_ric st2)) = pending_fd (pending (s_ric st))))"
proof -
  obtain st1 i where *: "sys_step st (From_xapp info (E42_ric_sub_req sr) [fd]) =
      Inr (st1, [To_node s (Ric_sub_req ((e42sr_sr sr)\<lparr>sr_ric_id := i\<rparr>))])" "sys_inv D ep_fd st1"
    "\<And>resp s'. resp_ric_id resp = i \<Longrightarrow> not_admitted resp = [] \<Longrightarrow> admitted resp = [\<lparr>ric_act_id = 0\<rparr>] \<Longrightarrow>
      \<exists>st2. sys_step st1 (From_ric_loop (Sctp_msg_arrived s' (Ric_sub_resp resp))) =
          Inr (st2, [To_xapp xinfo (Ric_sub_resp (resp\<lparr>resp_ric_id := sr_ric_id (e42sr_sr sr)\<rparr>))]) \<and>
        sys_inv D ep_fd st2 \<and> io (s_ric st2) = io (s_ric st) \<and>
        pending_fd (pending (s_ric st2)) = pending_fd (pending (s_ric st))"
    by (rule subscription_end_to_end [OF assms, of info]) (rule that)
  show ?thesis
    by (rule exI [of _ st1], rule exI [of _ i], intro conjI allI impI) (use * in simp_all)
qed

definition demo_sub :: e42_ric_subscription_request where
  "demo_sub = \<lparr>e42sr_xapp_id = 7, e42sr_id = demo_node,
    e42sr_sr = \<lparr>sr_ric_id = \<lparr>ric_req_id = 1, ric_inst_id = 0, ran_func_id = 142\<rparr>,
      event_trigger = [1], action = []\<rparr>\<rparr>"

theorem subscription_round_trip_witness:
  "\<exists>st1 i. sys_step demo_sys (From_xapp (demo_addr 5000) (E42_ric_sub_req demo_sub) [9]) =
      Inr (st1, [To_node (demo_addr 36421) (Ric_sub_req ((e42sr_sr demo_sub)\<lparr>sr_ric_id := i\<rparr>))]) \<and>
    (\<exists>st2. sys_step st1 (From_ric_loop (Sctp_msg_arrived (demo_addr 36421)
        (Ric_sub_resp \<lparr>resp_ric_id = i, admitted = [\<lparr>ric_act_id = 0\<rparr>], not_admitted = []\<rparr>))) =
      Inr (st2, [To_xapp (demo_addr 5000) (Ric_sub_resp
        \<lparr>resp_ric_id = \<lparr>ric_req_id = 1, ric_inst_id = 0, ran_func_id = 142\<rparr>,
         admitted = [\<lparr>ric_act_id = 0\<rparr>], not_admitted = []\<rparr>)]))"
proof -
  have h: "req_id (s_ric demo_sys) < 65536"
    "xapps_get (xapps (s_iapp demo_sys)) (e42sr_xapp_id demo_sub) = Some (demo_addr 5000)"
    "e42sr_id demo_sub \<in> monolithic_dom"
    "e2_sad_get (ep (s_ric demo_sys)) (e42sr_id demo_sub) = Some (demo_addr 36421)"
    "length (e2reg_entries (e2_nodes (s_iapp demo_sys))) < 256"
    "(9::int) \<notin> set (io (s_ric demo_sys))"
    using demo_mono
    by (simp_all add: demo_sys_def demo_xapps demo_sub_def demo_sad demo_reg demo_eq)
       (simp_all add: demo_ric_def)
  obtain st1 i where *: "sys_step demo_sys (From_xapp (demo_addr 5000) (E42_ric_sub_req demo_sub) [9]) =
      Inr (st1, [To_node (demo_addr 36421) (Ric_sub_req ((e42sr_sr demo_sub)\<lparr>sr_ric_id := i\<rparr>))])"
    "\<forall>resp s'. resp_ric_id resp = i \<and> not_admitted resp = [] \<and> admitted resp = [\<lparr>ric_act_id = 0\<rparr>] \<longrightarrow>
      (\<exists>st2. sys_step st1 (From_ric_loop (Sctp_msg_arrived s' (Ric_sub_resp resp))) =
          Inr (st2, [To_xapp (demo_addr 5000) (Ric_sub_resp (resp\<lparr>resp_ric_id := sr_ric_id (e42sr_sr demo_sub)\<rparr>))]) \<and>
        sys_inv monolithic_dom 3 st2 \<and> io (s_ric st2) = io (s_ric demo_sys) \<and>
        pending_fd (pending (s_ric st2)) = pending_fd (pending (s_ric demo_sys)))"
    using subscription_round_trip [OF mono_nodes.node_set_axioms demo_sys_inv h(1-5) _ h(6), of "demo_addr 5000"]
    by auto
  show ?thesis
    by (rule exI [of _ st1], rule exI [of _ i], rule conjI [OF *(1)])
       (use *(2) [rule_format, of "\<lparr>resp_ric_id = i, admitted = [\<lparr>ric_act_id = 0\<rparr>], not_admitted = []\<rparr>"
          "demo_addr 36421"] in \<open>auto simp: demo_sub_def\<close>)
qed


definition demo_ctrl :: e42_ric_control_request where
  "demo_ctrl = \<lparr>e42cr_xapp_id = 7, e42cr_id = demo_node,
    e42cr_ctrl_req = \<lparr>cr_ric_id = \<lparr>ric_req_id = 1, ric_inst_id = 0, ran_func_id = 142\<rparr>,
      cr_call_process_id = None, cr_hdr = [1], cr_msg = [2], ack_req = None\<rparr>\<rparr>"

lemma demo_facts:
  "req_id (s_ric demo_sys) < 65536"
  "xapps_get (xapps (s_iapp demo_sys)) 7 = Some (demo_addr 5000)"
  "e2_sad_get (ep (s_ric demo_sys)) demo_node = Some (demo_addr 36421)"
  "length (e2reg_entries (e2_nodes (s_iapp demo_sys))) < 256"
  "(9::int) \<notin> set (io (s_ric demo_sys))"
  by (simp_all add: demo_sys_def demo_xapps demo_sad demo_reg demo_eq)
     (simp_all add: demo_ric_def)


lemma sub_reuse_stops:
  assumes "ric_id_get (ric_ids_map (s_iapp st)) (ucast (req_id (s_ric st))) \<noteq> None"
  shows "\<exists>e. sys_step st (From_xapp info (E42_ric_sub_req sr) fds) = Inl e"
proof (cases "fwd_sub_gen near_ric_iface (s_ric st, fds, []) (e42sr_id sr) (e42sr_sr sr)")
  case (Inl e)
  obtain b where "valid_xapp_id (s_iapp st) (ucast (e42sr_xapp_id sr)) = Inr b"
    by (simp add: ric_prov.valid_xapp_id_16)
  then show ?thesis
    using Inl
    by (cases b; cases "valid_global_e2_node (s_iapp st) (e42sr_id sr)")
       (auto simp: sys_step_def e2_event_iapp_def e2ap_msg_handle_iapp_def check_valid_msg_type_iapp_def
          e2ap_handle_e42_ric_subscription_request_iapp_def c_assert_def)
next
  case (Inr r)
  obtain k r' where r: "r = (k, r')" by (cases r)
  have "ric_id_get (ric_ids_map (s_iapp st)) (ucast (world_counter (s_ric st, fds, []))) \<noteq> None"
    using assms(1) by (simp add: world_counter_def)
  then obtain e where "e2_event_iapp near_ric_iface (s_iapp st) (s_ric st, fds, []) info (E42_ric_sub_req sr) = Inl e"
    using ric_prov.sub_req_id_reused [OF Inr [unfolded r]] by blast
  then show ?thesis by (simp add: sys_step_def)
qed

lemma ctrl_reuse_stops:
  assumes "ric_id_get (ric_ids_map (s_iapp st)) (ucast (req_id (s_ric st))) \<noteq> None"
  shows "\<exists>e. sys_step st (From_xapp info (E42_ric_ctrl_req cr) fds) = Inl e"
proof (cases "fwd_ctrl_gen near_ric_iface (s_ric st, fds, []) (e42cr_id cr) (e42cr_ctrl_req cr)")
  case (Inl e)
  obtain b where "valid_xapp_id (s_iapp st) (ucast (e42cr_xapp_id cr)) = Inr b"
    by (simp add: ric_prov.valid_xapp_id_16)
  then show ?thesis
    using Inl
    by (cases b; cases "valid_global_e2_node (s_iapp st) (e42cr_id cr)")
       (auto simp: sys_step_def e2_event_iapp_def e2ap_msg_handle_iapp_def check_valid_msg_type_iapp_def
          e2ap_handle_e42_ric_control_request_iapp_def c_assert_def)
next
  case (Inr r)
  obtain k w where r: "r = (k, w)" by (cases r)
  have "k = ucast (world_counter (s_ric st, fds, []))" using ric_prov.ctrl_counts [OF Inr [unfolded r]] by simp
  then have a: "add_map_ric_id (ric_ids_map (s_iapp st)) \<lparr>e2_node_id = e42cr_id cr, nric_req_id = k\<rparr> x = Inl AssertFail" for x
    using assms by (intro add_map_ric_id_dup) (simp add: world_counter_def)
  obtain b where "valid_xapp_id (s_iapp st) (ucast (e42cr_xapp_id cr)) = Inr b"
    by (simp add: ric_prov.valid_xapp_id_16)
  then show ?thesis
    using Inr [unfolded r] a
    by (cases b; cases "valid_global_e2_node (s_iapp st) (e42cr_id cr)")
       (auto simp: sys_step_def e2_event_iapp_def e2ap_msg_handle_iapp_def check_valid_msg_type_iapp_def
          e2ap_handle_e42_ric_control_request_iapp_def c_assert_def)
qed

text \<open>C37: A request of an xApp that needs an identifier, a subscription or a control, stops the process
  when the identifier, the low 16 bits of the RIC's counter, is still in the map of request
  identifiers, whatever else the request says; the iApp never takes an identifier out of that map, so
  this is what happens after 65536 requests.\<close>

theorem request_id_reuse_stops:
  assumes "ric_id_get (ric_ids_map (s_iapp st)) (ucast (req_id (s_ric st))) \<noteq> None"
    "q = E42_ric_sub_req sr \<or> q = E42_ric_ctrl_req cr"
  shows "\<exists>e. sys_step st (From_xapp info q fds) = Inl e"
  using assms(2) sub_reuse_stops [OF assms(1)] ctrl_reuse_stops [OF assms(1)] by blast

definition worn_sys :: "(unit, byte_array, byte_array) sys" where
  "worn_sys = demo_sys\<lparr>s_iapp := demo_iapp\<lparr>ric_ids_map :=
    \<lparr>bimap = single_map cmp_e2_node_ric_req_wrapper cmp_xapp_ric_gen_id
      \<lparr>e2_node_id = demo_node, nric_req_id = 1021\<rparr>
      \<lparr>xric_id = \<lparr>ric_req_id = 1, ric_inst_id = 0, ran_func_id = 142\<rparr>, xapp_id = 7\<rparr>\<rparr>\<rparr>\<rparr>"

theorem request_id_reuse_stops_witness:
  "(\<exists>e. sys_step worn_sys (From_xapp (demo_addr 5000) (E42_ric_sub_req demo_sub) [9]) = Inl e) \<and>
   (\<exists>e. sys_step worn_sys (From_xapp (demo_addr 5000) (E42_ric_ctrl_req demo_ctrl) [9]) = Inl e)"
proof -
  have w: "ric_id_get (ric_ids_map (s_iapp worn_sys)) (ucast (req_id (s_ric worn_sys))) \<noteq> None"
    by (simp add: worn_sys_def demo_sys_def demo_ric_def ric_id_get_def single_map_def bm_pairs_def single_tree_entries)
  show ?thesis
    using request_id_reuse_stops [OF w, of "E42_ric_sub_req demo_sub" demo_sub]
      request_id_reuse_stops [OF w, of "E42_ric_ctrl_req demo_ctrl" _ demo_ctrl] by blast
qed

section \<open>The near-RT RIC\<close>

text \<open>C10: Every event of the RIC's loop that respects \<open>fair_event\<close> and does not stop the process keeps
  the RIC well formed: its containers, the agreement of its list of connected nodes with the addresses
  of its endpoint, and of its interest list with its pending events.  \<open>fair_event D\<close> restricts only
  setup requests: the node is of the kind \<open>D\<close>, not connected yet, and writes from an association that no
  node has; all other messages, connection losses and timers are admitted.\<close>

theorem ric_event_invariant:
  assumes "node_set D" "ric_inv D ep_fd ric" "fair_event D ric e" "e2_event_ric ric e = Inr (ric', out)"
  shows "ric_inv D ep_fd ric'"
  by (rule node_set.event_keeps [OF assms])

theorem ric_event_invariant_witness:
  "\<exists>ric' out. e2_event_ric demo_ric (Sctp_connection_shutdown True (demo_addr 36421)) = Inr (ric', out) \<and>
    ric_inv monolithic_dom 3 ric'"
proof -
  obtain ric' where *: "e2_event_ric demo_ric (Sctp_connection_shutdown True (demo_addr 36421)) =
      Inr (ric', [Iapp_rm_node demo_node])"
    by (rule node_set.shutdown_step [OF mono_nodes.node_set_axioms demo_ric_inv, of "demo_addr 36421" demo_node])
       (simp_all add: demo_sad_node)
  have "fair_event monolithic_dom demo_ric (Sctp_connection_shutdown True (demo_addr 36421))"
    by (simp add: fair_event_def)
  from ric_event_invariant [OF mono_nodes.node_set_axioms demo_ric_inv this *] * show ?thesis by blast
qed

text \<open>C20: A setup request of a new E2 node that lists RAN functions, all with a loaded service model
  and a definition shorter than 127 bytes, is answered with exactly these functions, the
  iApp learns of the node, and from then on the node's address is the one it wrote from.  The
  encoding carries the request exactly when it can express the identifier of the node and there are
  fewer than 256 functions, each as \<open>rf_ok\<close> says (a number of at most 4096); it carries the answer
  exactly when the codes of the network are decimal and there are fewer than 256 functions, all with
  numbers below 4096.\<close>

theorem setup_accepted:
  assumes "node_set D" "ric_inv D ep_fd ric" "stp_id req \<in> D"
    "e2_sad_get (ep ric) (stp_id req) = None" "e2_sad_node (ep ric) info = None"
    "node_is_monolithic (ntype (stp_id req)) \<or> cu_du_id (stp_id req) \<noteq> None"
    "\<forall>rf\<in>set (ran_func_item req). plugin_get (plugin ric) (rf_id rf) \<noteq> None \<and> length (rf_def rf) < 127"
    "ran_func_item req \<noteq> []"
  shows "\<exists>ric'. e2_event_ric ric (Sctp_msg_arrived info (E2_stp_req req)) =
      Inr (ric', [Iapp_add_node (stp_id req) (ran_func_item req),
        Send_msg info (E2_stp_resp \<lparr>stp_resp_id = \<lparr>gr_plmn = nplmn (stp_id req), near_ric_id = 25\<rparr>,
          accepted = map rf_id (ran_func_item req)\<rparr>)]) \<and>
    ric_inv D ep_fd ric' \<and> e2_sad_get (ep ric') (stp_id req) = Some info \<and>
    (\<forall>q\<in>D. \<not> eq_global_e2_node_id q (stp_id req) \<longrightarrow> e2_sad_get (ep ric') q = e2_sad_get (ep ric) q) \<and>
    (carried (E2_stp_req req) = Inr (E2_stp_req req) \<longleftrightarrow>
      node_id_ok (stp_id req) \<and> length (ran_func_item req) < 256 \<and> (\<forall>rf\<in>set (ran_func_item req). rf_ok rf)) \<and>
    (carried (E2_stp_resp \<lparr>stp_resp_id = \<lparr>gr_plmn = nplmn (stp_id req), near_ric_id = 25\<rparr>,
        accepted = map rf_id (ran_func_item req)\<rparr>) =
      Inr (E2_stp_resp \<lparr>stp_resp_id = \<lparr>gr_plmn = nplmn (stp_id req), near_ric_id = 25\<rparr>,
        accepted = map rf_id (ran_func_item req)\<rparr>) \<longleftrightarrow>
      plmn_ok (nplmn (stp_id req)) \<and> length (ran_func_item req) < 256 \<and>
      (\<forall>rf\<in>set (ran_func_item req). rf_id rf < 4096))"
proof -
  have g: "generate_setup_response ric req = Inr \<lparr>stp_resp_id = \<lparr>gr_plmn = nplmn (stp_id req), near_ric_id = 25\<rparr>,
      accepted = map rf_id (ran_func_item req)\<rparr>"
    by (simp add: generate_setup_response_def accept_ran_functions_ok [OF assms(7)])
  have inv: "e2_sad_inv D (ep ric)" using assms(2) by (simp add: ric_inv_def)
  obtain m' where "add_map_e2_node_sad (ep ric) (stp_id req) info = Inr m'"
    by (rule node_set.add_sad_ok [OF assms(1) inv assms(3,4,5)])
  then obtain ric' out where e: "e2_event_ric ric (Sctp_msg_arrived info (E2_stp_req req)) = Inr (ric', out)"
    using assms(6) g
    by (auto simp: e2_event_ric_def e2ap_msg_handle_ric_def check_valid_msg_type_def Let_def
        e2ap_handle_setup_request_ric_def generate_setup_response_def)
  note s = node_set.setup_step [OF assms(1-5) e]
  have "eq_global_e2_node_id (stp_id req) (stp_id req)"
    using node_set.eq_node [OF assms(1,3,3)]
      comparator.cmp_refl [OF node_set.axioms(1) [OF assms(1)] assms(3)] by simp
  moreover have "carried (E2_stp_resp \<lparr>stp_resp_id = \<lparr>gr_plmn = nplmn (stp_id req), near_ric_id = 25\<rparr>,
        accepted = map rf_id (ran_func_item req)\<rparr>) =
      Inr (E2_stp_resp \<lparr>stp_resp_id = \<lparr>gr_plmn = nplmn (stp_id req), near_ric_id = 25\<rparr>,
        accepted = map rf_id (ran_func_item req)\<rparr>) \<longleftrightarrow>
      plmn_ok (nplmn (stp_id req)) \<and> length (ran_func_item req) < 256 \<and>
      (\<forall>rf\<in>set (ran_func_item req). rf_id rf < 4096)"
    unfolding carried_setup_response by (simp add: list_all_iff)
  moreover have "carried (E2_stp_req req) = Inr (E2_stp_req req) \<longleftrightarrow>
      node_id_ok (stp_id req) \<and> length (ran_func_item req) < 256 \<and> (\<forall>rf\<in>set (ran_func_item req). rf_ok rf)"
    unfolding carried_setup_request by (simp add: list_all_iff)
  ultimately show ?thesis using s g e assms(3) by auto
qed

definition demo_setup :: e2_setup_request where
  "demo_setup = \<lparr>stp_id = demo_node\<lparr>nb_id := 2\<rparr>, ran_func_item = [demo_rf]\<rparr>"

lemma demo_plmn: "plmn_ok (nplmn demo_node)"
  by (simp add: plmn_ok_def demo_node_def)

lemma demo_node_ok: "node_id_ok demo_node" "rf_ok demo_rf"
  by (simp_all add: node_id_ok_def demo_plmn) (simp_all add: demo_node_def rf_ok_def demo_rf_def)

lemma demo_setup_facts:
  "stp_id demo_setup \<in> monolithic_dom" "e2_sad_get (ep demo_ric) (stp_id demo_setup) = None"
  "e2_sad_node (ep demo_ric) (demo_addr 36422) = None"
  "node_is_monolithic (ntype (stp_id demo_setup))"
  by (simp_all add: demo_setup_def demo_sad demo_sad_node)
     (simp_all add: demo_node_def monolithic_dom_def node_is_monolithic_def eq_global_e2_node_id_def demo_addr_def)

theorem setup_accepted_witness:
  "\<exists>ric'. e2_event_ric demo_ric (Sctp_msg_arrived (demo_addr 36422) (E2_stp_req demo_setup)) =
      Inr (ric', [Iapp_add_node (stp_id demo_setup) [demo_rf],
        Send_msg (demo_addr 36422) (E2_stp_resp
          \<lparr>stp_resp_id = \<lparr>gr_plmn = nplmn demo_node, near_ric_id = 25\<rparr>, accepted = [142]\<rparr>)]) \<and>
    carried (E2_stp_req demo_setup) = Inr (E2_stp_req demo_setup) \<and>
    carried (E2_stp_resp \<lparr>stp_resp_id = \<lparr>gr_plmn = nplmn demo_node, near_ric_id = 25\<rparr>, accepted = [142]\<rparr>) =
      Inr (E2_stp_resp \<lparr>stp_resp_id = \<lparr>gr_plmn = nplmn demo_node, near_ric_id = 25\<rparr>, accepted = [142]\<rparr>)"
proof -
  have n: "ran_func_item demo_setup \<noteq> []" "node_id_ok (stp_id demo_setup)"
    by (simp_all add: demo_setup_def node_id_ok_def demo_plmn) (simp add: demo_node_def)
  have "\<forall>rf\<in>set (ran_func_item demo_setup). plugin_get (plugin demo_ric) (rf_id rf) \<noteq> None \<and> length (rf_def rf) < 127"
    by (simp add: demo_setup_def demo_rf_def demo_ric_def plugin_get_def single_tree_entries)
  then show ?thesis
    using setup_accepted [OF mono_nodes.node_set_axioms demo_ric_inv demo_setup_facts(1-3) disjI1 [OF demo_setup_facts(4)] _ n(1)]
      n(2) demo_node_ok(2)
    by (auto simp: demo_setup_def demo_rf_def demo_plmn)
qed

text \<open>C21: When the association of a connected node is lost the RIC tells the iApp which node it
  was, forgets its address and its entry of the connected nodes, and stays well formed.\<close>

theorem connection_loss:
  assumes "node_set D" "ric_inv D ep_fd ric" "e2_sad_node (ep ric) info = Some i"
  shows "\<exists>ric'. e2_event_ric ric (Sctp_connection_shutdown True info) = Inr (ric', [Iapp_rm_node i]) \<and>
    ric_inv D ep_fd ric' \<and>
    (\<forall>q\<in>D. e2_sad_get (ep ric') q = (if eq_global_e2_node_id q i then None else e2_sad_get (ep ric) q))"
proof -
  obtain ric' where "e2_event_ric ric (Sctp_connection_shutdown True info) = Inr (ric', [Iapp_rm_node i])"
    "ric_inv D ep_fd ric'"
    "\<And>q. q \<in> D \<Longrightarrow> e2_sad_get (ep ric') q = (if eq_global_e2_node_id q i then None else e2_sad_get (ep ric) q)"
    by (rule node_set.shutdown_step [OF assms]) (rule that)
  then show ?thesis by blast
qed

theorem connection_loss_witness:
  "\<exists>ric'. e2_event_ric demo_ric (Sctp_connection_shutdown True (demo_addr 36421)) =
      Inr (ric', [Iapp_rm_node demo_node]) \<and> e2_sad_get (ep ric') demo_node = None"
  using connection_loss [OF mono_nodes.node_set_axioms demo_ric_inv, of "demo_addr 36421" demo_node]
    demo_mono demo_eq
  by (auto simp: demo_sad_node)

text \<open>A timer that is started for an event of the RIC and stopped by the answer is taken out
  of the interest list again: what is watched and what is pending is as before, and a
  second answer to the same event stops at the assertion.\<close>

theorem pending_event_start_stop:
  assumes "pend_inv ep_fd (io ric) (pending ric)" "0 < wait" "0 < fd" "fd \<notin> set (io ric)"
    "pending_fd (pending ric) e = None"
  shows "\<exists>ric1 ric2. start_pending_event ric wait fd e = Inr ric1 \<and> fd \<in> set (io ric1) \<and>
    pending_fd (pending ric1) e = Some fd \<and>
    stop_pending_event ric1 e = Inr ric2 \<and> pend_inv ep_fd (io ric2) (pending ric2) \<and>
    io ric2 = io ric \<and> pending_fd (pending ric2) = pending_fd (pending ric) \<and>
    stop_pending_event ric2 e = Inl AssertFail"
proof -
  obtain p where p: "start_pending_event ric wait fd e = Inr (ric\<lparr>io := fd # io ric, pending := p\<rparr>)"
    "pend_inv ep_fd (fd # io ric) p" "pending_fd p = (pending_fd (pending ric))(e \<mapsto> fd)"
    by (rule start_pending_event_ok [OF assms])
  let ?r1 = "ric\<lparr>io := fd # io ric, pending := p\<rparr>"
  have p1: "pend_inv ep_fd (io ?r1) (pending ?r1)" "pending_fd (pending ?r1) e = Some fd"
    using p(2,3) by simp_all
  obtain p2 where p2: "stop_pending_event ?r1 e = Inr (?r1\<lparr>io := remove1 fd (io ?r1), pending := p2\<rparr>)"
    "pend_inv ep_fd (remove1 fd (io ?r1)) p2" "pending_fd p2 = (pending_fd (pending ?r1))(e := None)"
    by (rule stop_pending_event_ok [OF p1])
  let ?r2 = "?r1\<lparr>io := remove1 fd (io ?r1), pending := p2\<rparr>"
  have e: "pending_fd (pending ?r2) = pending_fd (pending ric)"
    using p2(3) p(3) assms(5) by (intro ext) simp
  have n: "stop_pending_event ?r2 e = Inl AssertFail"
    by (rule stop_pending_event_absent [of ep_fd]) (use p2(2,3) in simp_all)
  show ?thesis
    by (rule exI [of _ ?r1], rule exI [of _ ?r2], intro conjI) (use n p(1) p1(2) p2(1,2) e in simp_all)
qed

theorem pending_event_start_stop_witness:
  "\<exists>ric1 ric2. start_pending_event demo_ric 3000 9
      \<lparr>ev = CONTROL_REQUEST_PENDING_EVENT, pid = \<lparr>ric_req_id = 1, ric_inst_id = 0, ran_func_id = 142\<rparr>\<rparr> = Inr ric1 \<and>
    stop_pending_event ric1
      \<lparr>ev = CONTROL_REQUEST_PENDING_EVENT, pid = \<lparr>ric_req_id = 1, ric_inst_id = 0, ran_func_id = 142\<rparr>\<rparr> = Inr ric2 \<and>
    io ric2 = [3]"
proof -
  have h: "pend_inv 3 (io demo_ric) (pending demo_ric)" using demo_ric_inv by (simp add: ric_inv_def)
  show ?thesis
    using pending_event_start_stop [OF h, of 3000 9
        "\<lparr>ev = CONTROL_REQUEST_PENDING_EVENT, pid = \<lparr>ric_req_id = 1, ric_inst_id = 0, ran_func_id = 142\<rparr>\<rparr>"]
    by (auto simp: demo_ric_def)
qed

text \<open>Loading the service models registers every one of them: the RIC finds the model of
  each RAN function that was loaded and stops on the others, and each function has its
  three listeners.\<close>

theorem service_models_loaded:
  fixes sms :: "('wr, 'rd) sm_ric list"
  assumes "0 < ep_fd" "\<forall>sm\<in>set sms. 0 < sm_ran_func_id sm" "distinct (map sm_ran_func_id sms)"
  shows "\<exists>ric :: ('sri, 'wr, 'rd) near_ric. init_near_ric ep_fd sms = Inr ric \<and> ric_inv D ep_fd ric \<and>
    (\<forall>sm\<in>set sms. sm_plugin_ric (plugin ric) (sm_ran_func_id sm) = Inr sm) \<and>
    (\<forall>rf. rf \<notin> sm_ran_func_id ` set sms \<longrightarrow> sm_plugin_ric (plugin ric) rf = Inl AssertFail) \<and>
    rb_entries (pub_sub ric) = map (\<lambda>e. (fst e, default_listeners)) (rb_entries (plugin ric))"
proof -
  obtain ric :: "('sri, 'wr, 'rd) near_ric" where r: "init_near_ric ep_fd sms = Inr ric" "ric_inv D ep_fd ric"
    "plugin_get (plugin ric) = map_of (map (\<lambda>sm. (sm_ran_func_id sm, sm)) sms)"
    "rb_entries (pub_sub ric) = map (\<lambda>e. (fst e, default_listeners)) (rb_entries (plugin ric))"
    by (rule init_near_ric_ok [OF assms]) (rule that)
  have pi: "plugin_inv (plugin ric)" using r(2) by (simp add: ric_inv_def)
  have k: "map_of (map (\<lambda>sm. (sm_ran_func_id sm, sm)) sms) (sm_ran_func_id sm) = Some sm" if "sm \<in> set sms" for sm
    by (rule map_of_is_SomeI) (use that assms(3) in \<open>auto simp: o_def\<close>)
  have n: "map_of (map (\<lambda>sm. (sm_ran_func_id sm, sm)) sms) rf = None" if "rf \<notin> sm_ran_func_id ` set sms" for rf
    using that by (auto simp: map_of_eq_None_iff)
  show ?thesis
    by (intro exI [of _ ric] conjI ballI allI impI)
       (use r k n in \<open>simp_all add: sm_plugin_ric_eq [OF pi]\<close>)
qed

theorem service_models_loaded_witness:
  "\<exists>ric :: (unit, byte_array, byte_array) near_ric. init_near_ric 3 [demo_sm] = Inr ric \<and>
    sm_plugin_ric (plugin ric) 142 = Inr demo_sm \<and> sm_plugin_ric (plugin ric) 143 = Inl AssertFail"
  using service_models_loaded [of 3 "[demo_sm]" UNIV] by (auto simp: demo_sm_def)

text \<open>An indication of a loaded service model goes to the three listeners of its RAN function,
  read by that service model, and then to the iApp; the state of the RIC does not change.\<close>

lemma indication_published:
  assumes "plugin_inv (plugin ric)" "plugin_get (plugin ric) (ran_func_id (ind_ric_id ind)) = Some sm"
    "rb_entries (pub_sub ric) = map (\<lambda>e. (fst e, default_listeners)) (rb_entries (plugin ric))"
    "on_indication sm \<lparr>sid_hdr = ind_hdr ind, sid_msg = ind_msg ind,
      sid_call_process_id = ind_call_process_id ind\<rparr> = Inr d" "rd_supported (rd_type d)"
  shows "e2_event_ric ric (Sctp_msg_arrived info (Ric_ind ind)) =
    Inr (ric, map (\<lambda>n. Publish n d) default_listeners @ [Iapp_notify (Ric_ind ind)])"
  using indication_ok [OF assms] by (simp add: e2_event_ric_def)

text \<open>The tables of handlers of the RIC and of the iApp have an entry for exactly the types of
  messages that their validity checks let through, so no call goes through an empty slot.\<close>

theorem dispatch_tables_complete:
  "(check_valid_msg_type t \<longleftrightarrow> init_handle_msg_ric t \<noteq> None) \<and>
   (check_valid_msg_type_iapp t \<longleftrightarrow> init_handle_msg_iapp t \<noteq> None)"
  by (rule conjI [OF valid_iff_handler valid_iapp_iff_handler])

section \<open>The iApp\<close>

lemma carried_e42_setup_response:
  "carried (E42_stp_resp m) = Inr (E42_stp_resp m) \<longleftrightarrow> e42_setup_response_ok m"
proof -
  have "of_union v = E42_stp_resp m \<longleftrightarrow> v = U_e42_stp_resp m" for v by (cases v) auto
  then show ?thesis
    using e42_setup_response_wire [of m] by (simp add: carried_def res_bind_eq_Inr)
qed

text \<open>C36: A setup request of an xApp that lists RAN functions is answered, to the address it came
  from, with the next identifier, which no xApp had, and with every E2 node the iApp knows
  and its RAN functions; the identifier is bound to that address from then on.  The encoding
  carries the answer exactly when some node is known, and every node has an identifier and functions
  that the encoding can express: an xApp that comes before every node stops the RIC.\<close>

theorem xapp_setup_unique:
  assumes "node_set D" "iapp_inv D iapp" "e42_ran_func_item req \<noteq> []" "next_xapp_id iapp < 65535"
    "length (e2reg_entries (e2_nodes iapp)) < 256"
  shows "\<exists>iapp'. e2_event_iapp rif iapp ric info (E42_stp_req req) =
      Inr (iapp', ric, [(info, E42_stp_resp \<lparr>e42_xapp_id = ucast (next_xapp_id iapp),
        e42_nodes = map (\<lambda>(k, arr). \<lparr>nc_id = k, ack_rf = arr\<rparr>) (e2reg_entries (e2_nodes iapp))\<rparr>)]) \<and>
    iapp_inv D iapp' \<and> next_xapp_id iapp' = next_xapp_id iapp + 1 \<and>
    xapps_get (xapps iapp) (ucast (next_xapp_id iapp)) = None \<and>
    xapps_get (xapps iapp') = (xapps_get (xapps iapp))(ucast (next_xapp_id iapp) \<mapsto> info) \<and>
    (carried (E42_stp_resp \<lparr>e42_xapp_id = ucast (next_xapp_id iapp),
        e42_nodes = map (\<lambda>(k, arr). \<lparr>nc_id = k, ack_rf = arr\<rparr>) (e2reg_entries (e2_nodes iapp))\<rparr>) =
      Inr (E42_stp_resp \<lparr>e42_xapp_id = ucast (next_xapp_id iapp),
        e42_nodes = map (\<lambda>(k, arr). \<lparr>nc_id = k, ack_rf = arr\<rparr>) (e2reg_entries (e2_nodes iapp))\<rparr>) \<longleftrightarrow>
      e2reg_entries (e2_nodes iapp) \<noteq> [] \<and>
      (\<forall>(k, arr)\<in>set (e2reg_entries (e2_nodes iapp)). node_id_ok k \<and> (\<forall>rf\<in>set arr. rf_ok rf)))"
proof -
  obtain iapp' where "e2_event_iapp rif iapp ric info (E42_stp_req req) =
      Inr (iapp', ric, [(info, E42_stp_resp \<lparr>e42_xapp_id = ucast (next_xapp_id iapp),
        e42_nodes = map (\<lambda>(k, arr). \<lparr>nc_id = k, ack_rf = arr\<rparr>) (e2reg_entries (e2_nodes iapp))\<rparr>)])"
    "iapp_inv D iapp'" "next_xapp_id iapp' = next_xapp_id iapp + 1"
    "xapps_get (xapps iapp) (ucast (next_xapp_id iapp)) = None"
    "xapps_get (xapps iapp') = (xapps_get (xapps iapp))(ucast (next_xapp_id iapp) \<mapsto> info)"
    by (rule e42_setup_ok [OF assms, of rif ric info]) (rule that)
  moreover have "e42_setup_response_ok \<lparr>e42_xapp_id = ucast (next_xapp_id iapp),
        e42_nodes = map (\<lambda>(k, arr). \<lparr>nc_id = k, ack_rf = arr\<rparr>) (e2reg_entries (e2_nodes iapp))\<rparr> \<longleftrightarrow>
      e2reg_entries (e2_nodes iapp) \<noteq> [] \<and>
      (\<forall>(k, arr)\<in>set (e2reg_entries (e2_nodes iapp)). node_id_ok k \<and> (\<forall>rf\<in>set arr. rf_ok rf))"
    by (auto simp: e42_setup_response_ok_def list_all_iff)
  ultimately show ?thesis unfolding carried_e42_setup_response by blast
qed

theorem xapp_setup_unique_witness:
  "\<exists>iapp'. e2_event_iapp near_ric_iface demo_iapp (demo_ric, [], []) (demo_addr 5001)
      (E42_stp_req \<lparr>e42_ran_func_item = [demo_rf]\<rparr>) =
      Inr (iapp', (demo_ric, [], []), [(demo_addr 5001, E42_stp_resp \<lparr>e42_xapp_id = 8,
        e42_nodes = [\<lparr>nc_id = demo_node, ack_rf = [demo_rf]\<rparr>]\<rparr>)]) \<and>
    xapps_get (xapps iapp') 8 = Some (demo_addr 5001) \<and> xapps_get (xapps iapp') 7 = Some (demo_addr 5000) \<and>
    carried (E42_stp_resp \<lparr>e42_xapp_id = 8, e42_nodes = [\<lparr>nc_id = demo_node, ack_rf = [demo_rf]\<rparr>]\<rparr>) =
      Inr (E42_stp_resp \<lparr>e42_xapp_id = 8, e42_nodes = [\<lparr>nc_id = demo_node, ack_rf = [demo_rf]\<rparr>]\<rparr>)"
proof -
  have n: "next_xapp_id demo_iapp = 8" by (simp add: demo_iapp_def)
  show ?thesis
    using xapp_setup_unique [OF mono_nodes.node_set_axioms demo_iapp_inv,
        of "\<lparr>e42_ran_func_item = [demo_rf]\<rparr>" near_ric_iface "(demo_ric, [], [])" "demo_addr 5001"]
    by (auto simp: n demo_reg demo_xapps demo_node_ok)
qed

end
