(* ===== verification/TimerBook.thy ===== *)
theory TimerBook
  imports NearRic
begin

text \<open>
  Timers with the events they stand for.  The RIC, the xApp and the agent all keep a
  bidirectional map from the descriptor of a running timer to an event, and start and stop a
  timer in the same way; only the comparator of the events differs.  The locale
  \<open>timer_book\<close> is what they rely on: it is interpreted on the maps of the xApp and of the
  agent.
\<close>

definition book_start ::
  "asio_ric \<Rightarrow> (int, 'e) bi_map \<Rightarrow> int \<Rightarrow> int \<Rightarrow> 'e \<Rightarrow> (asio_ric \<times> (int, 'e) bi_map) res" where
  "book_start ios p wait fd e =
    res_bind (create_timer_ms_asio_ric ios wait wait fd) (\<lambda>i.
    res_bind (bi_map_insert p fd e) (\<lambda>p'. Inr (i, p')))"

definition book_stop ::
  "asio_ric \<Rightarrow> (int, 'e) bi_map \<Rightarrow> 'e \<Rightarrow> (asio_ric \<times> (int, 'e) bi_map) res" where
  "book_stop ios p e =
    res_bind (bi_map_extract_right p e) (\<lambda>(fd, p').
    res_bind (c_assert (0 < fd)) (\<lambda>_.
    res_bind (rm_fd_asio_ric ios fd) (\<lambda>i. Inr (i, p'))))"

text \<open>The descriptors of the timers of a book; the other descriptors of the interest list are
  \<open>others\<close>.\<close>

definition book_fds :: "(int, 'e) bi_map \<Rightarrow> int set" where
  "book_fds p = fst ` set (bm_pairs p)"

definition book_inv :: "'e cmp_fun \<Rightarrow> int set \<Rightarrow> asio_ric \<Rightarrow> (int, 'e) bi_map \<Rightarrow> bool" where
  "book_inv cmp others ios p \<longleftrightarrow> bm_inv cmp_fd fd_dom cmp UNIV p \<and> bm_uniq cmp_fd cmp p \<and>
    distinct ios \<and> set ios = others \<union> book_fds p \<and> others \<inter> book_fds p = {}"

definition book_fd :: "'e cmp_fun \<Rightarrow> (int, 'e) bi_map \<Rightarrow> 'e \<Rightarrow> int option" where
  "book_fd cmp p e = bm_get_right cmp p e"

definition book_ev :: "(int, 'e) bi_map \<Rightarrow> int \<Rightarrow> 'e option" where
  "book_ev p fd = bm_get_left cmp_fd p fd"

lemma book_init:
  "book_inv cmp others ios (bi_map_init cmp_fd cmp) \<longleftrightarrow> distinct ios \<and> set ios = others"
  "book_fd cmp (bi_map_init cmp_fd cmp) e = None" "book_ev (bi_map_init cmp_fd cmp) fd = None"
  "book_fds (bi_map_init cmp_fd cmp) = {}"
  by (auto simp: book_inv_def bm_inv_init bm_uniq_init book_fds_def)
     (simp_all add: book_fd_def book_ev_def bm_get_right_def bm_get_left_def bi_map_init_def bm_pairs_def)

lemma find_fd_book:
  "0 < fd \<Longrightarrow> rb_find_value (\<lambda>k. eq_fd fd k = Inr True) (left p) = Inr (book_ev p fd)"
  if "bm_inv cmp_fd fd_dom cmp UNIV p" for p :: "(int, 'e) bi_map"
proof -
  assume fd: "0 < fd"
  have "first_value (\<lambda>k. eq_fd fd k = Inr True) (rb_entries (left p)) = get_key cmp_fd fd (rb_entries (left p))"
    using that fd
    by (intro first_value_get_key) (auto simp: bm_inv_def rb_inv_def keys_in_def eq_fd_ok)
  then show ?thesis by (simp add: rb_find_value_eq book_ev_def bm_get_left_def)
qed

locale timer_book = comparator cmp UNIV for cmp :: "'e cmp_fun"
begin

lemma maps: "two_comparators cmp_fd fd_dom cmp UNIV"
  by (rule two_comparators.intro [OF fd.comparator_axioms comparator_axioms])

lemma same_key: "cmp q e = 0 \<Longrightarrow> get_key cmp q xs = get_key cmp e xs"
  by (induction xs) (auto simp: cmp_eq_left [of q e])

lemma fd_facts:
  assumes "book_inv cmp others ios p" "book_fd cmp p e = Some fd"
  shows "fd \<in> set ios" "fd \<notin> others" "0 < fd" "fd \<in> book_fds p"
proof -
  obtain e' where "(fd, e') \<in> set (bm_pairs p)" "fd \<in> fd_dom"
    using two_comparators.get_right_pair [OF maps, of p e fd] assms unfolding book_inv_def book_fd_def by metis
  then show "fd \<in> set ios" "fd \<notin> others" "0 < fd" "fd \<in> book_fds p"
    using assms(1) by (force simp: book_inv_def book_fds_def)+
qed

lemma start_ok:
  assumes "book_inv cmp others ios p" "0 < wait" "0 < fd" "fd \<notin> set ios" "book_fd cmp p e = None"
  obtains p' where "book_start ios p wait fd e = Inr (fd # ios, p')" "book_inv cmp others (fd # ios) p'"
    "book_fd cmp p' = (\<lambda>q. if cmp q e = 0 then Some fd else book_fd cmp p q)"
    "\<And>f. 0 < f \<Longrightarrow> book_ev p' f = (if f = fd then Some e else book_ev p f)"
    "book_fds p' = insert fd (book_fds p)"
proof -
  have i: "bm_inv cmp_fd fd_dom cmp UNIV p" "bm_uniq cmp_fd cmp p" and f: "fd \<in> fd_dom"
    using assms by (auto simp: book_inv_def)
  have "fd \<notin> fst ` set (bm_pairs p)" using assms(1,4) by (auto simp: book_inv_def book_fds_def)
  then have l: "bm_get_left cmp_fd p fd = None"
    by (force simp: bm_get_left_def bm_pairs_def get_key_None_iff fresh_key_def)
  have r: "bm_get_right cmp p e = None" using assms(5) by (simp add: book_fd_def)
  obtain p' where p': "bi_map_insert p fd e = Inr p'" "bm_inv cmp_fd fd_dom cmp UNIV p'" "bm_uniq cmp_fd cmp p'"
    "\<And>q. q \<in> fd_dom \<Longrightarrow> bm_get_left cmp_fd p' q = (if cmp_fd q fd = 0 then Some e else bm_get_left cmp_fd p q)"
    "\<And>q. q \<in> UNIV \<Longrightarrow> bm_get_right cmp p' q = (if cmp q e = 0 then Some fd else bm_get_right cmp p q)"
    by (rule two_comparators.insert_uniq [OF maps i f UNIV_I l r]) (rule that)
  have s: "set (bm_pairs p') = insert (fd, e) (set (bm_pairs p))"
    using two_comparators.insert_ok [OF maps i(1) f, of e] p'(1) by auto
  show ?thesis
  proof (rule that [of p'])
    show "book_start ios p wait fd e = Inr (fd # ios, p')"
      using assms p' by (simp add: book_start_def create_timer_ms_asio_ric_def add_fd_asio_ric_def)
    show "book_inv cmp others (fd # ios) p'"
      using p'(2,3) s assms by (auto simp: book_inv_def book_fds_def)
    show "book_fd cmp p' = (\<lambda>q. if cmp q e = 0 then Some fd else book_fd cmp p q)"
      by (intro ext) (simp add: book_fd_def p'(5))
    show "book_ev p' f = (if f = fd then Some e else book_ev p f)" if "0 < f" for f
      using that by (simp add: book_ev_def p'(4))
    show "book_fds p' = insert fd (book_fds p)" using s by (simp add: book_fds_def)
  qed
qed

lemma stop_ok:
  assumes "book_inv cmp others ios p" "book_fd cmp p e = Some fd"
  obtains p' n where "book_stop ios p e = Inr (remove1 fd ios, p')" "book_inv cmp others (remove1 fd ios) p'"
    "book_fd cmp p' = (\<lambda>q. if cmp q e = 0 then None else book_fd cmp p q)"
    "\<And>f. 0 < f \<Longrightarrow> book_ev p' f = (if f = fd then None else book_ev p f)"
    "book_fds p' = book_fds p - {fd}" "bi_map_extract_right p e = Inr (fd, p')"
    "bi_map_size p = Inr (Suc n)" "bi_map_size p' = Inr n"
proof -
  have i: "bm_inv cmp_fd fd_dom cmp UNIV p" "bm_uniq cmp_fd cmp p" using assms by (auto simp: book_inv_def)
  have g: "bm_get_right cmp p e = Some fd" using assms by (simp add: book_fd_def)
  obtain p' where p': "bi_map_extract_right p e = Inr (fd, p')" "bm_inv cmp_fd fd_dom cmp UNIV p'"
    "bm_uniq cmp_fd cmp p'" "bm_pairs p' = del_key cmp_fd fd (bm_pairs p)"
    "rb_entries (right p') = del_key cmp e (rb_entries (right p))"
    using two_comparators.extract_right_ok [OF maps i UNIV_I g] by blast
  note f = fd_facts [OF assms]
  have s: "book_fds p' = book_fds p - {fd}" by (force simp: book_fds_def p'(4) del_key_def)
  have k: "keys_in fd_dom (bm_pairs p)" using i(1) by (simp add: bm_inv_def rb_inv_def bm_pairs_def)
  obtain e' where e': "(fd, e') \<in> set (bm_pairs p)" using f(4) by (auto simp: book_fds_def)
  have "mset (bm_pairs p') = mset (bm_pairs p) - {#(fd, e')#}"
    unfolding p'(4) using i(2) k f(3) e'
    by (intro two_comparators.mset_del_key [OF maps fd.comparator_axioms]) (auto simp: bm_uniq_def bm_pairs_def)
  then have "size (mset (bm_pairs p')) = size (mset (bm_pairs p)) - 1"
    using e' by (simp add: size_Diff_singleton)
  then have n: "length (bm_pairs p) = Suc (length (bm_pairs p'))"
    using e' by (cases "bm_pairs p") auto
  show ?thesis
  proof (rule that [of p' "length (bm_pairs p')"])
    show "book_stop ios p e = Inr (remove1 fd ios, p')"
      using p' f by (simp add: book_stop_def rm_fd_asio_ric_def)
    show "book_inv cmp others (remove1 fd ios) p'"
      using assms(1) p'(2,3) s f by (auto simp: book_inv_def)
    show "book_fd cmp p' = (\<lambda>q. if cmp q e = 0 then None else book_fd cmp p q)"
      by (intro ext) (simp add: book_fd_def bm_get_right_def p'(5) get_del_key)
    show "book_ev p' q = (if q = fd then None else book_ev p q)" if "0 < q" for q
      using that f(3) k p'(4) by (simp add: book_ev_def bm_get_left_def bm_pairs_def fd.get_del_key)
    show "bi_map_size p = Inr (Suc (length (bm_pairs p')))" "bi_map_size p' = Inr (length (bm_pairs p'))"
      using bi_map_size_ok [OF i(1)] bi_map_size_ok [OF p'(2)] n by simp_all
  qed (fact s p'(1))+
qed

text \<open>The two directions of the map: the timer of an event, and the event of a timer.\<close>

lemma ev_of_fd:
  assumes "book_inv cmp others ios p" "book_fd cmp p e = Some fd"
  obtains e' where "book_ev p fd = Some e'" "cmp e e' = 0"
  using two_comparators.get_left_right [OF maps, of p e fd] assms that
  unfolding book_inv_def book_fd_def book_ev_def by blast

lemma fd_of_ev:
  assumes "book_inv cmp others ios p" "book_ev p fd = Some e" "0 < fd"
  shows "book_fd cmp p e = Some fd"
proof -
  have i: "bm_inv cmp_fd fd_dom cmp UNIV p" "bm_uniq cmp_fd cmp p" using assms by (auto simp: book_inv_def)
  have "(fd, e) \<in> set (bm_pairs p)"
    using get_key_SomeD [of cmp_fd fd "rb_entries (left p)" e] assms(2)
    by (auto simp: book_ev_def bm_get_left_def bm_pairs_def)
  then have "(e, fd) \<in> set (rb_entries (right p))" using bm_set_right [OF i(1)] by simp
  then show ?thesis
    using get_key_uniq [of "rb_entries (right p)" e fd e] i(2)
    by (simp add: book_fd_def bm_get_right_def bm_uniq_def)
qed

lemma stop_absent:
  assumes "book_inv cmp others ios p" "book_fd cmp p e = None"
  shows "book_stop ios p e = Inl AssertFail"
  using two_comparators.extract_right_absent [OF maps, of p e] assms
  by (simp add: book_stop_def book_inv_def book_fd_def)

lemma start_stop:
  assumes "book_inv cmp others ios p" "0 < wait" "0 < fd" "fd \<notin> set ios" "book_fd cmp p e = None"
    "book_start ios p wait fd e = Inr (io1, p1)"
  obtains p2 where "book_stop io1 p1 e = Inr (ios, p2)" "book_inv cmp others ios p2"
    "book_fd cmp p2 = book_fd cmp p"
proof -
  obtain p' where p': "p1 = p'" "io1 = fd # ios" "book_inv cmp others (fd # ios) p'"
    "book_fd cmp p' = (\<lambda>q. if cmp q e = 0 then Some fd else book_fd cmp p q)"
    by (rule start_ok [OF assms(1-5)]) (use assms(6) that in auto)
  have g: "book_fd cmp p' e = Some fd" by (simp add: p'(4))
  obtain p2 where p2: "book_stop (fd # ios) p' e = Inr (remove1 fd (fd # ios), p2)"
    "book_inv cmp others (remove1 fd (fd # ios)) p2"
    "book_fd cmp p2 = (\<lambda>q. if cmp q e = 0 then None else book_fd cmp p' q)"
    by (rule stop_ok [OF p'(3) g]) (rule that)
  have "book_fd cmp p q = None" if "cmp q e = 0" for q
    using assms(5) by (simp add: book_fd_def bm_get_right_def same_key [OF that])
  then have "book_fd cmp p2 = book_fd cmp p" by (intro ext) (simp add: p2(3) p'(4))
  then show ?thesis using that [of p2] p2 p'(1,2) by simp
qed

end

end
