(* ===== verification/ActProc.thy ===== *)
theory ActProc
  imports AssocReg E2apIds
begin

text \<open>
  The active procedures of an xApp (\<open>src/xApp/act_proc.c\<close>): a registry that hands out the
  request identifiers and holds, for each, the kind of procedure, the identifier, the
  callback and the E2 node.  The mutex is not modelled: every operation is one step.  What
  the xApp relies on is the locale \<open>proc_registry\<close>.
\<close>

datatype act_proc_val_e = RIC_SUBSCRIPTION_PROCEDURE_ACTIVE | RIC_CONTROL_PROCEDURE_ACTIVE

text \<open>\<open>sm_cb\<close> is a function pointer of the user, null for control procedures.\<close>

record 'cb act_proc_val =
  ap_type :: act_proc_val_e
  ap_id :: ric_gen_id
  ap_sm_cb :: "'cb option"
  ap_e2_node :: global_e2_node_id

type_synonym 'cb act_proc = "'cb act_proc_val assoc_reg"

definition init_act_proc :: "'cb act_proc" where
  "init_act_proc = assoc_reg_init"

definition valid_proc_type :: "act_proc_val_e \<Rightarrow> bool" where
  "valid_proc_type t =
    (if t = RIC_SUBSCRIPTION_PROCEDURE_ACTIVE \<or> t = RIC_CONTROL_PROCEDURE_ACTIVE then True else False)"

definition add_act_proc ::
  "'cb act_proc \<Rightarrow> act_proc_val_e \<Rightarrow> ric_gen_id \<Rightarrow> global_e2_node_id \<Rightarrow> 'cb option \<Rightarrow>
    (u32 \<times> 'cb act_proc) res" where
  "add_act_proc p t i node cb =
    res_bind (c_assert (valid_proc_type t)) (\<lambda>_.
    assoc_reg_push_back p
      \<lparr>ap_type = t, ap_id = i, ap_sm_cb = cb, ap_e2_node = cp_global_e2_node_id node\<rparr>)"

definition rm_act_proc :: "'cb act_proc \<Rightarrow> u16 \<Rightarrow> 'cb act_proc res" where
  "rm_act_proc p k =
    res_bind (find_reg p (assoc_reg_front p) (assoc_reg_end p) (ucast k)) (\<lambda>it.
    res_bind (c_assert (it \<noteq> assoc_reg_end p)) (\<lambda>_.
    res_bind (assoc_reg_next p it) (\<lambda>nxt.
    assoc_reg_erase p it nxt)))"

text \<open>A write through the pointer that \<open>assoc_reg_value\<close> answers.\<close>

definition reg_set_value :: "'v assoc_reg \<Rightarrow> nat \<Rightarrow> 'v \<Rightarrow> 'v assoc_reg" where
  "reg_set_value reg it v = reg\<lparr>arr := (arr reg)[it := (arr reg ! it)\<lparr>bval := Some v\<rparr>]\<rparr>"

text \<open>\<open>ans.ok == false\<close> is \<open>None\<close>.  The stored identifier gets the key it was found under.\<close>

definition find_act_proc :: "'cb act_proc \<Rightarrow> u16 \<Rightarrow> ('cb act_proc_val option \<times> 'cb act_proc) res" where
  "find_act_proc p k =
    res_bind (find_reg p (assoc_reg_front p) (assoc_reg_end p) (ucast k)) (\<lambda>it.
    if it = assoc_reg_end p then Inr (None, p)
    else
      res_bind (assoc_reg_value p it) (\<lambda>val.
      let val' = val\<lparr>ap_id := (ap_id val)\<lparr>ric_req_id := ucast k\<rparr>\<rparr>
      in Inr (Some val', reg_set_value p it val')))"

section \<open>What the xApp relies on\<close>

locale proc_registry =
  fixes inv :: "'p \<Rightarrow> bool" and get :: "'p \<Rightarrow> u16 \<Rightarrow> 'v option" and next_id :: "'p \<Rightarrow> nat"
    and add :: "'p \<Rightarrow> 'v \<Rightarrow> (u32 \<times> 'p) res" and find :: "'p \<Rightarrow> u16 \<Rightarrow> ('v option \<times> 'p) res"
    and rm :: "'p \<Rightarrow> u16 \<Rightarrow> 'p res" and stamp :: "u16 \<Rightarrow> 'v \<Rightarrow> 'v"
  assumes next_pos: "inv p \<Longrightarrow> 0 < next_id p"
    and get_less: "inv p \<Longrightarrow> get p k \<noteq> None \<Longrightarrow> 0 < k \<and> unat k < next_id p"
    and add_ok: "inv p \<Longrightarrow> next_id p < 65536 \<Longrightarrow>
      \<exists>p'. add p v = Inr (of_nat (next_id p), p') \<and> inv p' \<and> next_id p' = next_id p + 1 \<and>
        get p' = (get p)(of_nat (next_id p) \<mapsto> v)"
    and find_ok: "inv p \<Longrightarrow> 0 < k \<Longrightarrow>
      \<exists>p'. find p k = Inr (map_option (stamp k) (get p k), p') \<and> inv p' \<and> next_id p' = next_id p \<and>
        get p' = (case get p k of None \<Rightarrow> get p | Some v \<Rightarrow> (get p)(k \<mapsto> stamp k v))"
    and rm_ok: "inv p \<Longrightarrow> get p k \<noteq> None \<Longrightarrow>
      \<exists>p'. rm p k = Inr p' \<and> inv p' \<and> next_id p' = next_id p \<and> get p' = (get p)(k := None)"
    and rm_absent: "inv p \<Longrightarrow> 0 < k \<Longrightarrow> get p k = None \<Longrightarrow> rm p k = Inl AssertFail"
    and find_zero: "find p 0 = Inl AssertFail"
    and stamp_stamp: "stamp k (stamp k v) = stamp k v"
begin

text \<open>The next identifier is free.\<close>

lemma fresh:
  assumes "inv p" "next_id p < 65536"
  shows "get p (of_nat (next_id p)) = None"
proof (rule ccontr)
  assume "get p (of_nat (next_id p)) \<noteq> None"
  from get_less [OF assms(1) this] have "unat (of_nat (next_id p) :: u16) < next_id p" by simp
  moreover have "unat (of_nat (next_id p) :: u16) = next_id p"
    using assms(2) by (simp add: unat_of_nat take_bit_eq_mod)
  ultimately show False by simp
qed

text \<open>A procedure from its start to its end: its identifier is new and positive, it is found
  under it, and after its removal the registry answers as before.\<close>

lemma life_cycle:
  assumes "inv p" "next_id p < 65536"
  obtains p1 p2 p3 where "add p v = Inr (of_nat (next_id p), p1)" "inv p1"
    "find p1 (of_nat (next_id p)) = Inr (Some (stamp (of_nat (next_id p)) v), p2)" "inv p2"
    "rm p2 (of_nat (next_id p)) = Inr p3" "inv p3" "get p3 = get p" "next_id p3 = next_id p + 1"
proof -
  let ?k = "of_nat (next_id p) :: u16"
  obtain p1 where p1: "add p v = Inr (of_nat (next_id p), p1)" "inv p1" "next_id p1 = next_id p + 1"
    "get p1 = (get p)(?k \<mapsto> v)"
    using add_ok [OF assms] by blast
  have k: "0 < ?k" using get_less [OF p1(2), of ?k] p1(4) by simp
  obtain p2 where p2: "find p1 ?k = Inr (Some (stamp ?k v), p2)" "inv p2" "next_id p2 = next_id p1"
    "get p2 = (get p)(?k \<mapsto> stamp ?k v)"
    using find_ok [OF p1(2) k] p1(4) by auto
  obtain p3 where p3: "rm p2 ?k = Inr p3" "inv p3" "next_id p3 = next_id p2" "get p3 = (get p2)(?k := None)"
    using rm_ok [OF p2(2), of ?k] p2(4) by auto
  have "get p3 = get p" using fresh [OF assms] by (intro ext) (simp add: p3(4) p2(4))
  then show ?thesis using that [of p1 p2 p3] p1 p2 p3 by simp
qed

end

section \<open>The registry of procedures provides it\<close>

definition act_get :: "'cb act_proc \<Rightarrow> u16 \<Rightarrow> 'cb act_proc_val option" where
  "act_get p k = map_of (reg_entries p) (ucast k)"

definition stamp_id :: "u16 \<Rightarrow> 'cb act_proc_val \<Rightarrow> 'cb act_proc_val" where
  "stamp_id k v = v\<lparr>ap_id := (ap_id v)\<lparr>ric_req_id := ucast k\<rparr>\<rparr>"

lemma map_of_replace:
  "distinct (map fst (xs @ (k, v) # ys)) \<Longrightarrow> map_of (xs @ (k, w) # ys) = (map_of (xs @ (k, v) # ys))(k \<mapsto> w)"
  by (induction xs) (auto simp: fun_eq_iff)

lemma reg_set_value_ok:
  assumes "reg_inv reg" "bucket_at reg it k v"
  shows "reg_inv (reg_set_value reg it w)" "key_id (reg_set_value reg it w) = key_id reg"
    "map_of (reg_entries (reg_set_value reg it w)) = (map_of (reg_entries reg))(k \<mapsto> w)"
proof -
  have b: "it < occ_bucket reg" "has_value (arr reg ! it)" "bkey (arr reg ! it) = k"
    using assms(2) by (simp_all add: bucket_at_def)
  have sh: "reg_shape reg" using assms(1) by (simp add: reg_inv_def)
  have l: "length (occ reg) = occ_bucket reg" by (rule length_occ [OF sh])
  let ?b = "(arr reg ! it)\<lparr>bval := Some w\<rparr>"
  have o: "occ (reg_set_value reg it w) = (occ reg)[it := ?b]"
    by (simp add: occ_def reg_set_value_def take_update_swap)
  define xs ys where "xs = take it (occ reg)" and "ys = drop (Suc it) (occ reg)"
  have ox: "occ reg = xs @ arr reg ! it # ys"
    using id_take_nth_drop [of it "occ reg"] b(1) l nth_occ [OF b(1)] unfolding xs_def ys_def by simp
  have lx: "length xs = it" using b(1) l by (simp add: xs_def)
  have o': "occ (reg_set_value reg it w) = xs @ ?b # ys"
    unfolding o ox using lx by (metis list_update_length)
  show i: "reg_inv (reg_set_value reg it w)"
    using assms(1) b unfolding reg_inv_def reg_keys_def o' ox
    by (auto simp: reg_shape_def reg_set_value_def sorted_wrt_append)
  show "key_id (reg_set_value reg it w) = key_id reg" by (simp add: reg_set_value_def)
  have e: "reg_entries reg = map (\<lambda>b. (bkey b, the (bval b))) (filter has_value xs) @
      (k, the (bval (arr reg ! it))) # map (\<lambda>b. (bkey b, the (bval b))) (filter has_value ys)"
    and e': "reg_entries (reg_set_value reg it w) = map (\<lambda>b. (bkey b, the (bval b))) (filter has_value xs) @
      (k, w) # map (\<lambda>b. (bkey b, the (bval b))) (filter has_value ys)"
    using b unfolding reg_entries_def o' ox by simp_all
  show "map_of (reg_entries (reg_set_value reg it w)) = (map_of (reg_entries reg))(k \<mapsto> w)"
    using reg_distinct [OF assms(1)] unfolding e e' by (rule map_of_replace)
qed

lemma find_reg_cases:
  assumes "reg_inv reg" "0 < k"
  obtains (absent) "map_of (reg_entries reg) k = None"
      "find_reg reg (assoc_reg_front reg) (assoc_reg_end reg) k = Inr (assoc_reg_end reg)"
    | (found) it v where "map_of (reg_entries reg) k = Some v" "bucket_at reg it k v" "it \<noteq> assoc_reg_end reg"
      "find_reg reg (assoc_reg_front reg) (assoc_reg_end reg) k = Inr it"
proof -
  obtain it where it: "find_reg reg (assoc_reg_front reg) (assoc_reg_end reg) k = Inr it"
    "if it = assoc_reg_end reg then k \<notin> fst ` set (reg_entries reg) else \<exists>v. bucket_at reg it k v"
    using find_reg_ok [OF assms] by blast
  show ?thesis
  proof (cases "it = assoc_reg_end reg")
    case True
    then show ?thesis using it absent by (auto simp: map_of_eq_None_iff)
  next
    case False
    then obtain v where v: "bucket_at reg it k v" using it(2) by auto
    then have "(k, v) \<in> set (reg_entries reg)" using entries_bucket_at [OF assms(1)] by blast
    then have "map_of (reg_entries reg) k = Some v"
      using reg_distinct [OF assms(1)] by (rule map_of_is_SomeI [rotated])
    then show ?thesis using found v False it(1) by blast
  qed
qed

lemma map_of_filter_neq: "map_of (filter (\<lambda>e. fst e \<noteq> k) xs) = (map_of xs)(k := None)"
  by (induction xs) (auto simp: fun_eq_iff)

lemma act_get_None:
  "act_get p k = None \<longleftrightarrow> ucast k \<notin> fst ` set (reg_entries p)"
  by (simp add: act_get_def map_of_eq_None_iff)

lemma entry_key_bounds:
  assumes "reg_inv reg" "key \<in> fst ` set (reg_entries reg)"
  shows "0 < key \<and> unat key < key_id reg"
proof -
  obtain b where "b \<in> set (occ reg)" "bkey b = key"
    using assms(2) by (auto simp: reg_entries_def)
  then show ?thesis using assms(1) by (auto simp: reg_inv_def reg_keys_def)
qed

interpretation procs: proc_registry reg_inv act_get key_id
  "\<lambda>p v. add_act_proc p (ap_type v) (ap_id v) (ap_e2_node v) (ap_sm_cb v)"
  find_act_proc rm_act_proc stamp_id
proof
  fix p p' :: "'a act_proc" and k :: u16 and v :: "'a act_proc_val"
  show "reg_inv p \<Longrightarrow> 0 < key_id p" by (simp add: reg_inv_def)
  show "reg_inv p \<Longrightarrow> act_get p k \<noteq> None \<Longrightarrow> 0 < k \<and> unat k < key_id p"
    using entry_key_bounds [of p "ucast k"]
    by (simp add: act_get_None ucast_16_32_pos unat_ucast_16_32)
  show "find_act_proc p 0 = Inl AssertFail" by (simp add: find_act_proc_def find_reg_def)
  show "stamp_id k (stamp_id k v) = stamp_id k v" by (simp add: stamp_id_def)
  show "\<exists>p'. add_act_proc p (ap_type v) (ap_id v) (ap_e2_node v) (ap_sm_cb v) = Inr (of_nat (key_id p), p') \<and>
      reg_inv p' \<and> key_id p' = key_id p + 1 \<and> act_get p' = (act_get p)(of_nat (key_id p) \<mapsto> v)"
    if i: "reg_inv p" and n: "key_id p < 65536"
  proof -
    have vt: "valid_proc_type (ap_type v)" by (cases "ap_type v") (simp_all add: valid_proc_type_def)
    have r: "add_act_proc p (ap_type v) (ap_id v) (ap_e2_node v) (ap_sm_cb v) = assoc_reg_push_back p v"
      using vt by (cases v) (simp add: add_act_proc_def)
    obtain p' where p': "assoc_reg_push_back p v = Inr (of_nat (key_id p), p')" "reg_inv p'"
      "reg_entries p' = reg_entries p @ [(of_nat (key_id p), v)]" "key_id p' = key_id p + 1"
      using push_back_ok [OF i, of v] n by auto
    have d: "of_nat (key_id p) \<notin> fst ` set (reg_entries p)"
      using entry_key_bounds [OF i, of "of_nat (key_id p)"] n by (auto simp: unat_of_nat take_bit_eq_mod)
    have d': "map_of (reg_entries p) (of_nat (key_id p)) = None"
      using d by (simp add: map_of_eq_None_iff)
    have "act_get p' q = ((act_get p)(of_nat (key_id p) \<mapsto> v)) q" for q
      using d' ucast_16_32_inj [of q "of_nat (key_id p)"] ucast_of_nat_16_32 [OF n]
      by (auto simp: act_get_def p'(3) map_add_def split: option.splits)
    then have "act_get p' = (act_get p)(of_nat (key_id p) \<mapsto> v)" by (rule ext)
    then show ?thesis using p' unfolding r by auto
  qed
  show "\<exists>p'. find_act_proc p k = Inr (map_option (stamp_id k) (act_get p k), p') \<and> reg_inv p' \<and>
      key_id p' = key_id p \<and>
      act_get p' = (case act_get p k of None \<Rightarrow> act_get p | Some v \<Rightarrow> (act_get p)(k \<mapsto> stamp_id k v))"
    if i: "reg_inv p" and k: "0 < k"
  proof -
    have k': "0 < (ucast k :: u32)" using k by (simp add: ucast_16_32_pos)
    show ?thesis
    proof (cases rule: find_reg_cases [OF i k'])
      case 1
      then show ?thesis using i by (simp add: find_act_proc_def act_get_def)
    next
      case (2 it w)
      then have v: "assoc_reg_value p it = Inr w"
        by (simp add: assoc_reg_value_def iterator_in_ds_def bucket_at_def)
      let ?p = "reg_set_value p it (stamp_id k w)"
      note s = reg_set_value_ok [OF i 2(2), of "stamp_id k w"]
      have "act_get ?p = (act_get p)(k \<mapsto> stamp_id k w)"
        by (intro ext) (auto simp: act_get_def s(3) ucast_16_32_inj)
      then show ?thesis
        using 2 v s(1,2) by (auto simp: find_act_proc_def act_get_def stamp_id_def Let_def)
    qed
  qed
  show "\<exists>p'. rm_act_proc p k = Inr p' \<and> reg_inv p' \<and> key_id p' = key_id p \<and> act_get p' = (act_get p)(k := None)"
    if i: "reg_inv p" and g: "act_get p k \<noteq> None"
  proof -
    have k': "0 < (ucast k :: u32)" using entry_key_bounds [OF i, of "ucast k"] g by (auto simp: act_get_None)
    show ?thesis
    proof (cases rule: find_reg_cases [OF i k'])
      case 1
      then show ?thesis using g by (simp add: act_get_def)
    next
      case (2 it w)
      obtain nxt p' where e: "assoc_reg_next p it = Inr nxt" "assoc_reg_erase p it nxt = Inr p'"
        "reg_inv p'" "reg_entries p' = filter (\<lambda>e. fst e \<noteq> ucast k) (reg_entries p)" "key_id p' = key_id p"
        using erase_one_ok [OF i 2(2)] by blast
      have "act_get p' = (act_get p)(k := None)"
        by (intro ext) (auto simp: act_get_def e(4) map_of_filter_neq ucast_16_32_inj)
      then show ?thesis using 2 e by (simp add: rm_act_proc_def)
    qed
  qed
  show "rm_act_proc p k = Inl AssertFail" if i: "reg_inv p" and k: "0 < k" and g: "act_get p k = None"
  proof -
    have k': "0 < (ucast k :: u32)" using k by (simp add: ucast_16_32_pos)
    show ?thesis
      by (cases rule: find_reg_cases [OF i k']) (use g in \<open>simp_all add: rm_act_proc_def act_get_def\<close>)
  qed
qed

end
