(* ===== verification/AgentPlugin.thy ===== *)
theory AgentPlugin
  imports NearRicThms
begin

text \<open>
  The service models on the side of the RAN (\<open>src/agent/plugin_agent.c\<close>, of which
  \<open>src/xApp/plugin_agent.c\<close> is a copy) and the list of RAN functions that a setup request
  is made of.  The procedures of a service model come from a shared object and read and
  write the RAN: they are functions on a state \<open>'st\<close>.
\<close>

record 'st sm_agent =
  ag_on_subscription :: "'st \<Rightarrow> sm_subs_data \<Rightarrow> (int \<times> 'st) res"
  ag_on_indication :: "'st \<Rightarrow> (sm_ind_data \<times> 'st) res"
  ag_on_control :: "'st \<Rightarrow> sm_ctrl_req_data \<Rightarrow> (byte_array \<times> 'st) res"
  ag_on_e2_setup :: "byte_array res"
  ag_ran_func_id :: u16

type_synonym 'st plugin_ag = "(u16, 'st sm_agent) assoc_rb_tree"

text \<open>\<open>load_plugin_ag\<close> from the point where the shared object gave its service model.\<close>

definition load_plugin_ag :: "'st plugin_ag \<Rightarrow> 'st sm_agent \<Rightarrow> 'st plugin_ag res" where
  "load_plugin_ag p sm = assoc_rb_tree_insert p (ag_ran_func_id sm) sm"

definition init_plugin_ag :: "'st sm_agent list \<Rightarrow> 'st plugin_ag res" where
  "init_plugin_ag sms = fold_res (\<lambda>sm p. load_plugin_ag p sm) sms (assoc_rb_tree_init cmp_ran_func_id)"

definition sm_plugin_ag :: "'st plugin_ag \<Rightarrow> u16 \<Rightarrow> 'st sm_agent res" where
  "sm_plugin_ag p key =
    res_bind (c_assert (0 < key)) (\<lambda>_.
    res_bind (rb_find_value (eq_ran_func_id key) p) (\<lambda>r.
    case r of
      None \<Rightarrow> Inl AssertFail
    | Some sm \<Rightarrow> res_bind (c_assert (ag_ran_func_id sm = key)) (\<lambda>_. Inr sm)))"

definition size_plugin_ag :: "'st plugin_ag \<Rightarrow> nat" where
  "size_plugin_ag p = assoc_rb_tree_size p"

text \<open>The loop that fills the array of RAN functions: \<open>n\<close> more to write, then the iterator must
  be at the end.\<close>

definition setup_ran_func :: "'st sm_agent \<Rightarrow> ran_function res" where
  "setup_ran_func sm =
    res_bind (ag_on_e2_setup sm) (\<lambda>ba.
    Inr \<lparr>rf_def = ba, rf_id = ag_ran_func_id sm, rf_rev = 0, rf_oid = None\<rparr>)"

fun setup_ran_funcs ::
  "nat \<Rightarrow> (u16, 'st sm_agent) rb_it \<Rightarrow> ran_function list \<Rightarrow> ran_function list res" where
  "setup_ran_funcs 0 it rfs = res_bind (c_assert (fst it = Dummy)) (\<lambda>_. Inr rfs)"
| "setup_ran_funcs (Suc n) it rfs =
    res_bind (assoc_rb_tree_value it) (\<lambda>sm.
    res_bind (assoc_rb_tree_key it) (\<lambda>k.
    res_bind (c_assert (ag_ran_func_id sm = k)) (\<lambda>_.
    res_bind (setup_ran_func sm) (\<lambda>rf.
    res_bind (assoc_rb_tree_next it) (\<lambda>it'.
    setup_ran_funcs n it' (rfs @ [rf]))))))"

section \<open>What it finds\<close>

definition plugin_ag_inv :: "'st plugin_ag \<Rightarrow> bool" where
  "plugin_ag_inv p \<longleftrightarrow> rb_inv cmp_ran_func_id UNIV p \<and>
    (\<forall>e\<in>set (rb_entries p). ag_ran_func_id (snd e) = fst e)"

text \<open>The RAN functions that a setup request announces, or the way the process stops.\<close>

definition announced :: "'st plugin_ag \<Rightarrow> ran_function list res" where
  "announced p = map_res (\<lambda>e. setup_ran_func (snd e)) (rb_entries p)"

definition plugin_ag_get :: "'st plugin_ag \<Rightarrow> u16 \<Rightarrow> 'st sm_agent option" where
  "plugin_ag_get p rf = get_key cmp_ran_func_id rf (rb_entries p)"

lemma plugin_ag_getD: "plugin_ag_inv p \<Longrightarrow> plugin_ag_get p rf = Some sm \<Longrightarrow> ag_ran_func_id sm = rf"
  unfolding plugin_ag_get_def by (drule get_key_SomeD) (force simp: plugin_ag_inv_def)

lemma sm_plugin_ag_eq:
  assumes "plugin_ag_inv p" "0 < rf"
  shows "sm_plugin_ag p rf = (case plugin_ag_get p rf of None \<Rightarrow> Inl AssertFail | Some sm \<Rightarrow> Inr sm)"
proof (cases "plugin_ag_get p rf")
  case None
  then show ?thesis
    using assms(2) by (simp add: sm_plugin_ag_def rb_find_value_eq ran_func_first plugin_ag_get_def)
next
  case (Some sm)
  then show ?thesis
    using assms(2) plugin_ag_getD [OF assms(1) Some]
    by (simp add: sm_plugin_ag_def rb_find_value_eq ran_func_first plugin_ag_get_def)
qed

lemma load_plugin_ag_ok:
  assumes "plugin_ag_inv p" "plugin_ag_get p (ag_ran_func_id sm) = None"
  obtains p' where "load_plugin_ag p sm = Inr p'" "plugin_ag_inv p'"
    "plugin_ag_get p' = (plugin_ag_get p)(ag_ran_func_id sm \<mapsto> sm)"
    "assoc_rb_tree_size p' = assoc_rb_tree_size p + 1"
proof -
  let ?k = "ag_ran_func_id sm"
  have f: "fresh_key cmp_ran_func_id ?k (rb_entries p)"
    using assms(2) by (simp add: plugin_ag_get_def get_key_None_iff)
  obtain p' where p': "assoc_rb_tree_insert p ?k sm = Inr p'" "rb_inv cmp_ran_func_id UNIV p'"
    "rb_entries p' = ins_entry cmp_ran_func_id ?k sm (rb_entries p)"
    using ran_func.rb_insert_ok [of p ?k sm] assms(1) by (auto simp: plugin_ag_inv_def)
  have "plugin_ag_get p' = (plugin_ag_get p)(?k \<mapsto> sm)"
    using f by (intro ext) (simp add: plugin_ag_get_def ran_func.get_ins_entry p'(3))
  then show ?thesis
    using that [of p'] p' assms
    by (auto simp: load_plugin_ag_def plugin_ag_inv_def rb_size_entries [OF p'(2)]
        rb_size_entries [of cmp_ran_func_id UNIV p])
qed

lemma init_plugin_ag_ok:
  assumes "distinct (map ag_ran_func_id sms)"
  obtains p where "init_plugin_ag sms = Inr p" "plugin_ag_inv p"
    "plugin_ag_get p = map_of (map (\<lambda>sm. (ag_ran_func_id sm, sm)) sms)"
    "assoc_rb_tree_size p = length sms"
proof -
  have "\<exists>p. init_plugin_ag sms = Inr p \<and> plugin_ag_inv p \<and> assoc_rb_tree_size p = length sms \<and>
      plugin_ag_get p = map_of (map (\<lambda>sm. (ag_ran_func_id sm, sm)) sms)"
    using assms
  proof (induction sms rule: rev_induct)
    case Nil
    have "plugin_ag_get (assoc_rb_tree_init cmp_ran_func_id) rf = None" for rf :: u16
      by (simp add: plugin_ag_get_def)
    then show ?case
      by (auto simp: init_plugin_ag_def plugin_ag_inv_def rb_inv_init assoc_rb_tree_size_def)
         (simp add: assoc_rb_tree_init_def)
  next
    case (snoc sm sms)
    then obtain p where p: "init_plugin_ag sms = Inr p" "plugin_ag_inv p" "assoc_rb_tree_size p = length sms"
      "plugin_ag_get p = map_of (map (\<lambda>sm. (ag_ran_func_id sm, sm)) sms)"
      by auto
    have "plugin_ag_get p (ag_ran_func_id sm) = None"
      using snoc.prems by (auto simp: p(4) map_of_eq_None_iff)
    then obtain p' where p': "load_plugin_ag p sm = Inr p'" "plugin_ag_inv p'"
      "plugin_ag_get p' = (plugin_ag_get p)(ag_ran_func_id sm \<mapsto> sm)"
      "assoc_rb_tree_size p' = assoc_rb_tree_size p + 1"
      by (rule load_plugin_ag_ok [OF p(2)])
    have "map_of (map (\<lambda>sm. (ag_ran_func_id sm, sm)) sms) rf = None" if "rf = ag_ran_func_id sm" for rf
      using that snoc.prems by (auto simp: map_of_eq_None_iff)
    then have "plugin_ag_get p' = map_of (map (\<lambda>sm. (ag_ran_func_id sm, sm)) (sms @ [sm]))"
      by (intro ext) (auto simp: p'(3) p(4) map_add_def split: option.splits)
    then show ?case using p p' by (auto simp: init_plugin_ag_def fold_res_append)
  qed
  then show ?thesis using that by blast
qed

lemma setup_ran_funcs_ok:
  "length (it_entries it) = n \<Longrightarrow> (\<And>e. e \<in> set (it_entries it) \<Longrightarrow> ag_ran_func_id (snd e) = fst e) \<Longrightarrow>
    setup_ran_funcs n it rfs =
      res_bind (map_res (\<lambda>e. setup_ran_func (snd e)) (it_entries it)) (\<lambda>l. Inr (rfs @ l))"
proof (induction n arbitrary: it rfs)
  case 0
  then show ?case by (cases it; cases "fst it") auto
next
  case (Suc n)
  then obtain k sm es where e: "it_entries it = (k, sm) # es"
    by (cases "it_entries it") auto
  obtain it' where it': "assoc_rb_tree_next it = Inr it'" using next_total [of it] e by auto
  have es: "it_entries it' = es" using it_entries_next [OF it'] e by simp
  have kv: "assoc_rb_tree_key it = Inr k" "assoc_rb_tree_value it = Inr sm" using it_key_value [OF e] by auto
  have id: "ag_ran_func_id sm = k" using Suc.prems(2) e by auto
  have ih: "setup_ran_funcs n it' (rfs @ [rf]) =
      res_bind (map_res (\<lambda>e. setup_ran_func (snd e)) es) (\<lambda>l. Inr ((rfs @ [rf]) @ l))" for rf
    using Suc.IH [of it' "rfs @ [rf]"] Suc.prems e es by auto
  show ?case
    using e kv it' id by (cases "setup_ran_func sm") (simp_all add: ih res_bind_assoc)
qed

lemma setup_list_ok:
  assumes "plugin_ag_inv p"
  shows "setup_ran_funcs (assoc_rb_tree_size p) (assoc_rb_tree_front p) [] = announced p"
proof -
  have i: "rb_inv cmp_ran_func_id UNIV p" using assms by (simp add: plugin_ag_inv_def)
  have "res_bind (announced p) (\<lambda>l. Inr ([] @ l)) = announced p" by (cases "announced p") auto
  then show ?thesis
    using setup_ran_funcs_ok [of "assoc_rb_tree_front p" "assoc_rb_tree_size p" "[]"] assms
    by (simp add: it_entries_front rb_size_entries [OF i] plugin_ag_inv_def announced_def)
qed

end
