(* ===== verification/EventLoop.thy ===== *)
theory EventLoop
  imports FlexPrelude
begin

text \<open>
  The loops \<open>while(stop_token == false)\<close> of the xApp and of the agent: one turn per event, the
  effects collected in order.  A run ends with the events it is given, or at the first turn that
  stops the process.  The locale \<open>event_loop\<close> carries an invariant of the turns through a run;
  it is interpreted on the loops of the xApp and of the agent.
\<close>

primrec run_events ::
  "('s \<Rightarrow> 'e \<Rightarrow> ('s \<times> 'o list) res) \<Rightarrow> 'e list \<Rightarrow> 's \<Rightarrow> ('s \<times> 'o list) res" where
  "run_events turn [] s = Inr (s, [])"
| "run_events turn (e # es) s =
    res_bind (turn s e) (\<lambda>(s1, o1).
    res_bind (run_events turn es s1) (\<lambda>(s2, o2). Inr (s2, o1 @ o2)))"

text \<open>Every event is one that the environment can produce in the state it meets.\<close>

primrec fair_events ::
  "('s \<Rightarrow> 'e \<Rightarrow> ('s \<times> 'o list) res) \<Rightarrow> ('s \<Rightarrow> 'e \<Rightarrow> bool) \<Rightarrow> 'e list \<Rightarrow> 's \<Rightarrow> bool" where
  "fair_events turn fair [] s \<longleftrightarrow> True"
| "fair_events turn fair (e # es) s \<longleftrightarrow> fair s e \<and>
    (case turn s e of Inl _ \<Rightarrow> True | Inr (s1, _) \<Rightarrow> fair_events turn fair es s1)"

lemma run_events_append:
  "run_events turn (es @ fs) s =
    res_bind (run_events turn es s) (\<lambda>(s1, o1).
    res_bind (run_events turn fs s1) (\<lambda>(s2, o2). Inr (s2, o1 @ o2)))"
proof (induction es arbitrary: s)
  case Nil
  show ?case by (cases "run_events turn fs s") auto
next
  case (Cons e es)
  show ?case by (cases "turn s e") (auto simp: Cons.IH res_bind_assoc split_beta)
qed

locale event_loop =
  fixes turn :: "'s \<Rightarrow> 'e \<Rightarrow> ('s \<times> 'o list) res" and inv :: "'s \<Rightarrow> bool" and fair :: "'s \<Rightarrow> 'e \<Rightarrow> bool"
  assumes turn_keeps: "inv s \<Longrightarrow> fair s e \<Longrightarrow> turn s e = Inr (s', os) \<Longrightarrow> inv s'"
begin

lemma run_keeps:
  "inv s \<Longrightarrow> fair_events turn fair es s \<Longrightarrow> run_events turn es s = Inr (s', os) \<Longrightarrow> inv s'"
proof (induction es arbitrary: s s' os)
  case (Cons e es)
  then obtain s1 o1 o2 where r: "turn s e = Inr (s1, o1)" "run_events turn es s1 = Inr (s', o2)"
    by (auto simp: res_bind_eq_Inr)
  then show ?case using Cons.IH [of s1 s' o2] Cons.prems turn_keeps [of s e s1 o1] by simp
qed simp

end

end
