(* ===== verification/XApp.thy ===== *)
theory XApp
  imports TimerBook ActProc AgentPlugin EventLoop E2apEnc
begin

text \<open>
  The xApp: \<open>src/xApp/e42_xapp.c\<close>, \<open>e42_xapp_api.c\<close>, \<open>msg_handler_xapp.c\<close>,
  \<open>msg_generator_xapp.c\<close>, \<open>msg_dispatcher_xapp.c\<close>, \<open>pending_event_xapp.c\<close> and \<open>sync_ui.c\<close>.

  Two threads share the state: the thread of the user calls the procedures and waits in
  \<open>cond_wait_sync_ui\<close>, the thread of the event loop handles what arrives.  Every handler is one
  step; the waiting procedures take the events that the loop handles before and during the wait
  as arguments, so that an interleaving is an argument of the model.  \<open>asio_xapp.c\<close> and
  \<open>plugin_ric.c\<close> of the xApp are copies of the ones of the RIC and share their definitions.
\<close>

section \<open>Pending events\<close>

record pending_event_xapp =
  xev :: pending_event
  xpid :: ric_gen_id
  wait_ms :: int

definition eq_pending_event_xapp :: "pending_event_xapp \<Rightarrow> pending_event_xapp \<Rightarrow> bool" where
  "eq_pending_event_xapp m0 m1 =
    (if xev m0 \<noteq> xev m1 then False
     else if \<not> eq_ric_gen_id (xpid m0) (xpid m1) then False
     else True)"

text \<open>The map of the xApp is given \<open>cmp_pending_event\<close>, which reads an object as a
  \<open>pending_event_t\<close>: the first member of \<open>pending_event_xapp_t\<close>.\<close>

definition cmp_pending_xapp :: "pending_event_xapp cmp_fun" where
  "cmp_pending_xapp m0 m1 = cmp_pending_event (xev m0) (xev m1)"

type_synonym pending_event_xapp_ds = "(int, pending_event_xapp) bi_map"

definition init_pending_events_xapp :: pending_event_xapp_ds where
  "init_pending_events_xapp = bi_map_init cmp_fd cmp_pending_xapp"

definition add_pending_event ::
  "pending_event_xapp_ds \<Rightarrow> int \<Rightarrow> pending_event_xapp \<Rightarrow> pending_event_xapp_ds res" where
  "add_pending_event p fd e = res_bind (c_assert (0 < fd)) (\<lambda>_. bi_map_insert p fd e)"

definition find_pending_event_fd :: "pending_event_xapp_ds \<Rightarrow> int \<Rightarrow> bool res" where
  "find_pending_event_fd p fd =
    res_bind (c_assert (0 < fd)) (\<lambda>_.
    res_bind (rb_find_value (\<lambda>k. k = fd) (left p)) (\<lambda>r. Inr (r \<noteq> None)))"

definition rm_pending_event_ev ::
  "pending_event_xapp_ds \<Rightarrow> pending_event_xapp \<Rightarrow> (int \<times> pending_event_xapp_ds) res" where
  "rm_pending_event_ev p e =
    res_bind (bi_map_size p) (\<lambda>sz.
    res_bind (bi_map_extract_right p e) (\<lambda>(fd, p').
    res_bind (bi_map_size p') (\<lambda>sz'.
    res_bind (c_assert (sz = sz' + 1)) (\<lambda>_.
    res_bind (c_assert (0 < fd)) (\<lambda>_. Inr (fd, p'))))))"

section \<open>Waiting for an answer\<close>

record sync_ui =
  sync_wait_ms :: u32
  flag_sync :: bool
  msg_ack :: bool

definition init_sync_ui :: sync_ui where
  "init_sync_ui = \<lparr>sync_wait_ms = 5000, flag_sync = False, msg_ack = False\<rparr>"

definition signal_sync_ui :: "sync_ui \<Rightarrow> sync_ui" where
  "signal_sync_ui s = s\<lparr>flag_sync := True, msg_ack := True\<rparr>"

text \<open>\<open>cond_wait_sync_ui\<close> up to the first wait, and from the end of the last one: without a
  signal the wait ends with \<open>ETIMEDOUT\<close>.\<close>

definition cond_wait_start :: "sync_ui \<Rightarrow> u32 \<Rightarrow> sync_ui res" where
  "cond_wait_start s ms =
    res_bind (c_assert (0 < ms)) (\<lambda>_. Inr (s\<lparr>flag_sync := False, msg_ack := False\<rparr>))"

definition cond_wait_end :: "sync_ui \<Rightarrow> unit res" where
  "cond_wait_end s = res_bind (c_assert (flag_sync s)) (\<lambda>_. c_assert (msg_ack s))"

section \<open>State and effects\<close>

text \<open>\<open>xap\<close> is the codec that the encoder of E2AP ends in.  \<open>xcp\<close> is the copy of a reading that
  \<open>write_db_xapp\<close> makes before it queues it, \<open>cp_sm_ag_if_rd\<close> on the readings of the service models: it
  runs in the event loop and may stop there.\<close>

record ('wr, 'rd, 'st, 'cb) e42_xapp =
  xep_fd :: int
  xio :: asio_ric
  xplugin_ag :: "'st plugin_ag"
  xplugin_ric :: "('wr, 'rd) plugin_ric"
  xe2_nodes :: reg_e2_nodes
  xid :: u16
  xsync :: sync_ui
  xact :: "'cb act_proc"
  xpending :: pending_event_xapp_ds
  xdisp :: "('cb option \<times> 'rd sm_ag_if_rd) list"
  xconnected :: bool
  xap :: "E2AP_PDU \<Rightarrow> byte_array option"
  xcp :: "'rd sm_ag_if_rd \<Rightarrow> 'rd sm_ag_if_rd res"

datatype 'rd xapp_out =
    Xsend e2ap_msg
  | Xwrite_db global_e2_node_id "'rd sm_ag_if_rd"

type_synonym ('wr, 'rd, 'st, 'cb) xapp_res =
  "(('wr, 'rd, 'st, 'cb) e42_xapp \<times> 'rd xapp_out list) res"

type_synonym ('wr, 'rd, 'st, 'cb) xapp_ans =
  "(('wr, 'rd, 'st, 'cb) e42_xapp \<times> 'rd xapp_out list \<times> e2ap_msg) res"

text \<open>A handler gets the descriptor of the timer it may create, and a message or null.\<close>

type_synonym ('wr, 'rd, 'st, 'cb) xapp_handler =
  "('wr, 'rd, 'st, 'cb) e42_xapp \<Rightarrow> int \<Rightarrow> e2ap_msg option \<Rightarrow> ('wr, 'rd, 'st, 'cb) xapp_ans"

definition init_e42_xapp ::
  "(E2AP_PDU \<Rightarrow> byte_array option) \<Rightarrow> ('rd sm_ag_if_rd \<Rightarrow> 'rd sm_ag_if_rd res) \<Rightarrow>
    int \<Rightarrow> 'st sm_agent list \<Rightarrow> ('wr, 'rd) sm_ric list \<Rightarrow> ('wr, 'rd, 'st, 'cb) e42_xapp res" where
  "init_e42_xapp aper cp ep_fd ag_sms ric_sms =
    res_bind (add_fd_asio_ric [] ep_fd) (\<lambda>i.
    res_bind (init_plugin_ag ag_sms) (\<lambda>pa.
    res_bind (init_plugin_ric ric_sms) (\<lambda>pr.
    Inr \<lparr>xep_fd = ep_fd, xio = i, xplugin_ag = pa, xplugin_ric = pr, xe2_nodes = init_reg_e2_node,
      xid = 0, xsync = init_sync_ui, xact = init_act_proc, xpending = init_pending_events_xapp,
      xdisp = [], xconnected = False, xap = aper, xcp = cp\<rparr>)))"

section \<open>The dispatcher of indications\<close>

definition send_msg_dispatcher ::
  "('wr, 'rd, 'st, 'cb) e42_xapp \<Rightarrow> 'cb option \<Rightarrow> 'rd sm_ag_if_rd \<Rightarrow> ('wr, 'rd, 'st, 'cb) e42_xapp" where
  "send_msg_dispatcher x cb rd = x\<lparr>xdisp := xdisp x @ [(cb, rd)]\<rparr>"

definition size_msg_dispatcher :: "('wr, 'rd, 'st, 'cb) e42_xapp \<Rightarrow> nat" where
  "size_msg_dispatcher x = length (xdisp x)"

text \<open>A turn of the worker: it calls the pointer without a test.\<close>

definition worker_step ::
  "('wr, 'rd, 'st, 'cb) e42_xapp \<Rightarrow>
    (('cb \<times> 'rd sm_ag_if_rd) option \<times> ('wr, 'rd, 'st, 'cb) e42_xapp) res" where
  "worker_step x =
    (case xdisp x of
       [] \<Rightarrow> Inr (None, x)
     | (cb, rd) # q \<Rightarrow>
         (case cb of None \<Rightarrow> Inl NullDeref | Some f \<Rightarrow> Inr (Some (f, rd), x\<lparr>xdisp := q\<rparr>)))"

text \<open>The worker's loop, for at most \<open>n\<close> turns: with an empty queue it waits.\<close>

fun worker_thread ::
  "nat \<Rightarrow> ('wr, 'rd, 'st, 'cb) e42_xapp \<Rightarrow>
    (('cb \<times> 'rd sm_ag_if_rd) list \<times> ('wr, 'rd, 'st, 'cb) e42_xapp) res" where
  "worker_thread 0 x = Inr ([], x)"
| "worker_thread (Suc n) x =
    res_bind (worker_step x) (\<lambda>(r, x1).
    case r of
      None \<Rightarrow> Inr ([], x1)
    | Some c \<Rightarrow> res_bind (worker_thread n x1) (\<lambda>(cs, x2). Inr (c # cs, x2)))"

section \<open>Timers\<close>

definition add_pending_event_xapp ::
  "('wr, 'rd, 'st, 'cb) e42_xapp \<Rightarrow> int \<Rightarrow> pending_event_xapp \<Rightarrow> ('wr, 'rd, 'st, 'cb) e42_xapp res" where
  "add_pending_event_xapp x fd_timer e =
    res_bind (c_assert (0 < wait_ms e)) (\<lambda>_.
    res_bind (create_timer_ms_asio_ric (xio x) (wait_ms e) (wait_ms e) fd_timer) (\<lambda>i.
    res_bind (add_pending_event (xpending x) fd_timer e) (\<lambda>p.
    Inr (x\<lparr>xio := i, xpending := p\<rparr>))))"

definition rm_pending_event_xapp ::
  "('wr, 'rd, 'st, 'cb) e42_xapp \<Rightarrow> pending_event_xapp \<Rightarrow> ('wr, 'rd, 'st, 'cb) e42_xapp res" where
  "rm_pending_event_xapp x e =
    res_bind (rm_pending_event_ev (xpending x) e) (\<lambda>(fd, p).
    res_bind (rm_fd_asio_ric (xio x) fd) (\<lambda>i.
    Inr (x\<lparr>xio := i, xpending := p\<rparr>)))"

section \<open>Messages the xApp makes\<close>

definition generate_subscription_request_xapp ::
  "ric_gen_id \<Rightarrow> ('wr, 'rd) sm_ric \<Rightarrow> string \<Rightarrow> ric_subscription_request res" where
  "generate_subscription_request_xapp i sm cmd =
    res_bind (on_subscription sm cmd) (\<lambda>data. Inr (subs_request i data))"

definition generate_e42_setup_request :: "('wr, 'rd, 'st, 'cb) e42_xapp \<Rightarrow> e42_setup_request res" where
  "generate_e42_setup_request x =
    (let len_rf = size_plugin_ag (xplugin_ag x) in
     res_bind (c_assert (0 < len_rf)) (\<lambda>_.
     res_bind (c_assert (len_rf = size_plugin_ric (xplugin_ric x))) (\<lambda>_.
     res_bind (setup_ran_funcs len_rf (assoc_rb_tree_front (xplugin_ag x)) []) (\<lambda>rfs.
     Inr \<lparr>e42_ran_func_item = rfs\<rparr>))))"

definition generate_ric_control_request ::
  "ric_gen_id \<Rightarrow> ('wr, 'rd) sm_ric \<Rightarrow> 'wr \<Rightarrow> ric_control_request res" where
  "generate_ric_control_request i sm ctrl_msg =
    res_bind (on_control_req sm ctrl_msg) (\<lambda>data.
     res_bind (c_assert (length (scd_hdr data) < 2049)) (\<lambda>_.
     res_bind (c_assert (length (scd_msg data) < 2049)) (\<lambda>_.
     Inr \<lparr>cr_ric_id = i, cr_call_process_id = None, cr_hdr = scd_hdr data, cr_msg = scd_msg data,
          ack_req = Some RIC_CONTROL_REQUEST_ACK\<rparr>)))"


section \<open>Handlers of arriving messages\<close>

definition check_valid_msg_type_xapp :: "e2_msg_type \<Rightarrow> bool" where
  "check_valid_msg_type_xapp t =
    (if t = RIC_SUBSCRIPTION_RESPONSE \<or> t = RIC_SUBSCRIPTION_FAILURE \<or>
        t = RIC_SUBSCRIPTION_DELETE_RESPONSE \<or> t = RIC_SUBSCRIPTION_DELETE_FAILURE \<or>
        t = RIC_INDICATION \<or> t = RIC_CONTROL_ACKNOWLEDGE \<or> t = RIC_CONTROL_FAILURE \<or>
        t = E2AP_ERROR_INDICATION \<or> t = E42_SETUP_RESPONSE \<or> t = E2_SETUP_FAILURE \<or>
        t = E42_RIC_CONTROL_REQUEST \<or> t = E42_SETUP_REQUEST \<or> t = E2AP_RESET_REQUEST \<or>
        t = E2AP_RESET_RESPONSE \<or> t = RIC_SERVICE_UPDATE \<or> t = E2_NODE_CONFIGURATION_UPDATE \<or>
        t = E2_CONNECTION_UPDATE_ACKNOWLEDGE \<or> t = E2_CONNECTION_UPDATE_FAILURE
     then True else False)"

text \<open>What the three handlers of answers share: the procedure of the identifier must be
  registered, its timer stops, the user's thread is woken.\<close>

definition find_active ::
  "('wr, 'rd, 'st, 'cb) e42_xapp \<Rightarrow> ric_gen_id \<Rightarrow>
    ('cb act_proc_val option \<times> ('wr, 'rd, 'st, 'cb) e42_xapp) res" where
  "find_active x i =
    res_bind (find_act_proc (xact x) (ucast (ric_req_id i))) (\<lambda>(rv, a). Inr (rv, x\<lparr>xact := a\<rparr>))"

definition answer_arrived ::
  "('wr, 'rd, 'st, 'cb) e42_xapp \<Rightarrow> ric_gen_id \<Rightarrow> pending_event \<Rightarrow> ('wr, 'rd, 'st, 'cb) xapp_ans" where
  "answer_arrived x i kind =
    res_bind (find_active x i) (\<lambda>(rv, x1).
    case rv of
      None \<Rightarrow> Inl AssertFail
    | Some val \<Rightarrow>
        res_bind (rm_pending_event_xapp x1 \<lparr>xev = kind, xpid = ap_id val, wait_ms = 0\<rparr>) (\<lambda>x2.
        Inr (x2\<lparr>xsync := signal_sync_ui (xsync x2)\<rparr>, [], none_msg)))"

definition e2ap_handle_subscription_response_xapp :: "('wr, 'rd, 'st, 'cb) xapp_handler" where
  "e2ap_handle_subscription_response_xapp x fd msg =
    (case msg of
       Some (Ric_sub_resp resp) \<Rightarrow>
         answer_arrived x (resp_ric_id resp) E42_RIC_SUBSCRIPTION_REQUEST_PENDING_EVENT
     | _ \<Rightarrow> Inl AssertFail)"

definition e2ap_handle_subscription_delete_response_xapp :: "('wr, 'rd, 'st, 'cb) xapp_handler" where
  "e2ap_handle_subscription_delete_response_xapp x fd msg =
    (case msg of
       Some (Ric_sub_del_resp resp) \<Rightarrow>
         answer_arrived x (sdresp_ric_id resp) E42_RIC_SUBSCRIPTION_DELETE_REQUEST_PENDING_EVENT
     | _ \<Rightarrow> Inl AssertFail)"

definition e2ap_handle_control_ack_xapp :: "('wr, 'rd, 'st, 'cb) xapp_handler" where
  "e2ap_handle_control_ack_xapp x fd msg =
    (case msg of
       Some (Ric_ctrl_ack ack) \<Rightarrow>
         res_bind (c_assert (ca_status ack = RIC_CONTROL_STATUS_SUCCESS)) (\<lambda>_.
         answer_arrived x (ca_ric_id ack) E42_RIC_CONTROL_REQUEST_PENDING_EVENT)
     | _ \<Rightarrow> Inl AssertFail)"

definition ind_sm_payload :: "ric_indication \<Rightarrow> sm_ind_data res" where
  "ind_sm_payload src =
    res_bind (case ind_call_process_id src of
        None \<Rightarrow> Inr None
      | Some b \<Rightarrow> res_bind (c_assert (0 < length b)) (\<lambda>_. Inr (Some b))) (\<lambda>cpid.
    Inr \<lparr>sid_hdr = ind_hdr src, sid_msg = ind_msg src, sid_call_process_id = cpid\<rparr>)"

text \<open>The reading goes to the data base first, as a copy, and then to the dispatcher.\<close>

definition e2ap_handle_indication_xapp :: "('wr, 'rd, 'st, 'cb) xapp_handler" where
  "e2ap_handle_indication_xapp x fd msg =
    (case msg of
       Some (Ric_ind src) \<Rightarrow>
         res_bind (sm_plugin_ric (xplugin_ric x) (ran_func_id (ind_ric_id src))) (\<lambda>sm.
         res_bind (ind_sm_payload src) (\<lambda>ind_data.
         res_bind (on_indication sm ind_data) (\<lambda>rd.
         res_bind (c_assert (rd_type rd = MAC_STATS_V0 \<or> rd_type rd = RLC_STATS_V0 \<or>
             rd_type rd = PDCP_STATS_V0 \<or> rd_type rd = SLICE_STATS_V0 \<or>
             rd_type rd = KPM_STATS_V0 \<or> rd_type rd = GTP_STATS_V0)) (\<lambda>_.
         res_bind (find_active x (ind_ric_id src)) (\<lambda>(ans, x1).
         case ans of
           None \<Rightarrow> Inr (x1, [], none_msg)
         | Some val \<Rightarrow>
             res_bind (xcp x1 rd) (\<lambda>c.
             Inr (send_msg_dispatcher x1 (ap_sm_cb val) rd, [Xwrite_db (ap_e2_node val) c], none_msg)))))))
     | _ \<Rightarrow> Inl AssertFail)"

definition e2ap_handle_e42_setup_response_xapp :: "('wr, 'rd, 'st, 'cb) xapp_handler" where
  "e2ap_handle_e42_setup_response_xapp x fd msg =
    (case msg of
       Some (E42_stp_resp sr) \<Rightarrow>
         res_bind (c_assert (\<not> xconnected x)) (\<lambda>_.
         let x1 = x\<lparr>xid := e42_xapp_id sr\<rparr> in
         res_bind (fold_res (\<lambda>n r. add_reg_e2_node r (cp_global_e2_node_id (nc_id n)) (ack_rf n))
             (e42_nodes sr) (xe2_nodes x1)) (\<lambda>r.
         res_bind (rm_pending_event_xapp (x1\<lparr>xe2_nodes := r\<rparr>)
             \<lparr>xev = E42_SETUP_REQUEST_PENDING_EVENT, xpid = zero_ric_gen_id, wait_ms = 0\<rparr>) (\<lambda>x2.
         Inr (x2\<lparr>xconnected := True\<rparr>, [], none_msg))))
     | _ \<Rightarrow> Inl AssertFail)"

text \<open>The bodies that end in \<open>assert(0!=0 && "Not implemented")\<close>, with and without a test of
  the type of the message before.\<close>

definition not_implemented_xapp :: "e2_msg_type \<Rightarrow> ('wr, 'rd, 'st, 'cb) xapp_handler" where
  "not_implemented_xapp t x fd msg =
    (case msg of
       None \<Rightarrow> Inl AssertFail
     | Some m \<Rightarrow> res_bind (c_assert (msg_type m = t)) (\<lambda>_. Inl NotImplemented))"

definition e2ap_handle_subscription_failure_xapp :: "('wr, 'rd, 'st, 'cb) xapp_handler" where
  "e2ap_handle_subscription_failure_xapp = not_implemented_xapp RIC_SUBSCRIPTION_FAILURE"

definition e2ap_handle_subscription_delete_failure_xapp :: "('wr, 'rd, 'st, 'cb) xapp_handler" where
  "e2ap_handle_subscription_delete_failure_xapp = not_implemented_xapp RIC_SUBSCRIPTION_DELETE_FAILURE"

definition e2ap_handle_control_failure_xapp :: "('wr, 'rd, 'st, 'cb) xapp_handler" where
  "e2ap_handle_control_failure_xapp = not_implemented_xapp RIC_CONTROL_FAILURE"

definition e2ap_handle_error_indication_xapp :: "('wr, 'rd, 'st, 'cb) xapp_handler" where
  "e2ap_handle_error_indication_xapp = not_implemented_xapp E2AP_ERROR_INDICATION"

definition e2ap_handle_reset_request_xapp :: "('wr, 'rd, 'st, 'cb) xapp_handler" where
  "e2ap_handle_reset_request_xapp = not_implemented_xapp E2AP_RESET_REQUEST"

definition e2ap_handle_reset_response_xapp :: "('wr, 'rd, 'st, 'cb) xapp_handler" where
  "e2ap_handle_reset_response_xapp = not_implemented_xapp E2AP_RESET_RESPONSE"

definition e2ap_handle_service_update_xapp :: "('wr, 'rd, 'st, 'cb) xapp_handler" where
  "e2ap_handle_service_update_xapp = not_implemented_xapp RIC_SERVICE_UPDATE"

definition e2ap_handle_node_configuration_update_xapp :: "('wr, 'rd, 'st, 'cb) xapp_handler" where
  "e2ap_handle_node_configuration_update_xapp = not_implemented_xapp E2_NODE_CONFIGURATION_UPDATE"

definition e2ap_handle_connection_update_ack_xapp :: "('wr, 'rd, 'st, 'cb) xapp_handler" where
  "e2ap_handle_connection_update_ack_xapp = not_implemented_xapp E2_CONNECTION_UPDATE_ACKNOWLEDGE"

definition e2ap_handle_connection_update_failure_xapp :: "('wr, 'rd, 'st, 'cb) xapp_handler" where
  "e2ap_handle_connection_update_failure_xapp = not_implemented_xapp E2_CONNECTION_UPDATE_FAILURE"

definition e2ap_handle_setup_failure_xapp :: "('wr, 'rd, 'st, 'cb) xapp_handler" where
  "e2ap_handle_setup_failure_xapp x fd msg =
    (case msg of None \<Rightarrow> Inl AssertFail | Some m \<Rightarrow> Inl NotImplemented)"

section \<open>Handlers that send a request\<close>

definition e2ap_handle_e42_setup_request_xapp :: "('wr, 'rd, 'st, 'cb) xapp_handler" where
  "e2ap_handle_e42_setup_request_xapp x fd msg =
    res_bind (c_assert (msg = None)) (\<lambda>_.
    res_bind (generate_e42_setup_request x) (\<lambda>sr.
    res_bind (c_assert (0 < length (e42_ran_func_item sr))) (\<lambda>_.
    res_bind (add_pending_event_xapp x fd
      \<lparr>xev = E42_SETUP_REQUEST_PENDING_EVENT, xpid = zero_ric_gen_id, wait_ms = 3000\<rparr>) (\<lambda>x1.
    Inr (x1, [Xsend (E42_stp_req sr)], none_msg)))))"

definition e2ap_handle_e42_ric_subscription_request_xapp :: "('wr, 'rd, 'st, 'cb) xapp_handler" where
  "e2ap_handle_e42_ric_subscription_request_xapp x fd msg =
    (case msg of
       Some (E42_ric_sub_req e42_sr) \<Rightarrow>
         res_bind (add_pending_event_xapp x fd
           \<lparr>xev = E42_RIC_SUBSCRIPTION_REQUEST_PENDING_EVENT, xpid = sr_ric_id (e42sr_sr e42_sr),
            wait_ms = 5000\<rparr>) (\<lambda>x1.
         Inr (x1, [Xsend (E42_ric_sub_req e42_sr)], none_msg))
     | _ \<Rightarrow> Inl AssertFail)"

definition e2ap_handle_e42_subscription_delete_request_xapp :: "('wr, 'rd, 'st, 'cb) xapp_handler" where
  "e2ap_handle_e42_subscription_delete_request_xapp x fd msg =
    (case msg of
       Some (E42_ric_sub_del_req e42_sdr) \<Rightarrow>
         res_bind (add_pending_event_xapp x fd
           \<lparr>xev = E42_RIC_SUBSCRIPTION_DELETE_REQUEST_PENDING_EVENT,
            xpid = sdr_ric_id (e42sdr_sdr e42_sdr), wait_ms = 5000\<rparr>) (\<lambda>x1.
         Inr (x1, [Xsend (E42_ric_sub_del_req e42_sdr)], none_msg))
     | _ \<Rightarrow> Inl AssertFail)"

text \<open>The encoder of a control asserts a header and a message with bytes, and that the PDU fits its
  buffer.\<close>

definition e2ap_enc_e42_control_request_xapp ::
  "(E2AP_PDU \<Rightarrow> byte_array option) \<Rightarrow> e42_ric_control_request \<Rightarrow> byte_array res" where
  "e2ap_enc_e42_control_request_xapp aper cr =
    res_bind (e2ap_enc_e42_control_request_asn_pdu cr) (e2ap_enc_asn_pdu_ba aper)"

definition e2ap_handle_e42_ric_control_request_xapp :: "('wr, 'rd, 'st, 'cb) xapp_handler" where
  "e2ap_handle_e42_ric_control_request_xapp x fd msg =
    (case msg of
       Some (E42_ric_ctrl_req cr) \<Rightarrow>
         res_bind (e2ap_enc_e42_control_request_xapp (xap x) cr) (\<lambda>ba.
         res_bind (add_pending_event_xapp x fd
           \<lparr>xev = E42_RIC_CONTROL_REQUEST_PENDING_EVENT, xpid = cr_ric_id (e42cr_ctrl_req cr),
            wait_ms = 5000\<rparr>) (\<lambda>x1.
         Inr (x1, [Xsend (E42_ric_ctrl_req cr)], none_msg)))
     | _ \<Rightarrow> Inl AssertFail)"

fun init_handle_msg_xapp :: "e2_msg_type \<Rightarrow> ('wr, 'rd, 'st, 'cb) xapp_handler option" where
  "init_handle_msg_xapp RIC_SUBSCRIPTION_RESPONSE = Some e2ap_handle_subscription_response_xapp"
| "init_handle_msg_xapp RIC_SUBSCRIPTION_FAILURE = Some e2ap_handle_subscription_failure_xapp"
| "init_handle_msg_xapp RIC_SUBSCRIPTION_DELETE_RESPONSE = Some e2ap_handle_subscription_delete_response_xapp"
| "init_handle_msg_xapp RIC_SUBSCRIPTION_DELETE_FAILURE = Some e2ap_handle_subscription_delete_failure_xapp"
| "init_handle_msg_xapp RIC_INDICATION = Some e2ap_handle_indication_xapp"
| "init_handle_msg_xapp RIC_CONTROL_ACKNOWLEDGE = Some e2ap_handle_control_ack_xapp"
| "init_handle_msg_xapp RIC_CONTROL_FAILURE = Some e2ap_handle_control_failure_xapp"
| "init_handle_msg_xapp E2AP_ERROR_INDICATION = Some e2ap_handle_error_indication_xapp"
| "init_handle_msg_xapp E42_SETUP_REQUEST = Some e2ap_handle_e42_setup_request_xapp"
| "init_handle_msg_xapp E42_SETUP_RESPONSE = Some e2ap_handle_e42_setup_response_xapp"
| "init_handle_msg_xapp E2_SETUP_FAILURE = Some e2ap_handle_setup_failure_xapp"
| "init_handle_msg_xapp E42_RIC_SUBSCRIPTION_REQUEST = Some e2ap_handle_e42_ric_subscription_request_xapp"
| "init_handle_msg_xapp E42_RIC_SUBSCRIPTION_DELETE_REQUEST = Some e2ap_handle_e42_subscription_delete_request_xapp"
| "init_handle_msg_xapp E42_RIC_CONTROL_REQUEST = Some e2ap_handle_e42_ric_control_request_xapp"
| "init_handle_msg_xapp E2AP_RESET_REQUEST = Some e2ap_handle_reset_request_xapp"
| "init_handle_msg_xapp E2AP_RESET_RESPONSE = Some e2ap_handle_reset_response_xapp"
| "init_handle_msg_xapp RIC_SERVICE_UPDATE = Some e2ap_handle_service_update_xapp"
| "init_handle_msg_xapp E2_NODE_CONFIGURATION_UPDATE = Some e2ap_handle_node_configuration_update_xapp"
| "init_handle_msg_xapp E2_CONNECTION_UPDATE_ACKNOWLEDGE = Some e2ap_handle_connection_update_ack_xapp"
| "init_handle_msg_xapp E2_CONNECTION_UPDATE_FAILURE = Some e2ap_handle_connection_update_failure_xapp"
| "init_handle_msg_xapp _ = None"

definition e2ap_msg_handle_xapp ::
  "('wr, 'rd, 'st, 'cb) e42_xapp \<Rightarrow> int \<Rightarrow> e2ap_msg \<Rightarrow> ('wr, 'rd, 'st, 'cb) xapp_ans" where
  "e2ap_msg_handle_xapp x fd msg =
    res_bind (c_assert (check_valid_msg_type_xapp (msg_type msg))) (\<lambda>_.
    case init_handle_msg_xapp (msg_type msg) of
      None \<Rightarrow> Inl AssertFail
    | Some h \<Rightarrow> h x fd (Some msg))"

section \<open>The event loop\<close>

datatype async_event_xapp = NETWORK_EVENT | PENDING_EVENT pending_event_xapp

definition net_pkt :: "('wr, 'rd, 'st, 'cb) e42_xapp \<Rightarrow> int \<Rightarrow> bool res" where
  "net_pkt x fd = res_bind (c_assert (0 < fd)) (\<lambda>_. Inr (fd = xep_fd x))"

definition pend_event_xapp :: "('wr, 'rd, 'st, 'cb) e42_xapp \<Rightarrow> int \<Rightarrow> pending_event_xapp res" where
  "pend_event_xapp x fd =
    res_bind (c_assert (0 < fd)) (\<lambda>_.
    res_bind (rb_find_value (\<lambda>k. eq_fd fd k = Inr True) (left (xpending x))) (\<lambda>r.
    case r of None \<Rightarrow> Inl AssertFail | Some e \<Rightarrow> Inr e))"

definition find_event_type :: "('wr, 'rd, 'st, 'cb) e42_xapp \<Rightarrow> int \<Rightarrow> async_event_xapp res" where
  "find_event_type x fd =
    res_bind (net_pkt x fd) (\<lambda>net.
    if net then Inr NETWORK_EVENT
    else res_bind (pend_event_xapp x fd) (\<lambda>e. Inr (PENDING_EVENT e)))"

text \<open>What \<open>event_asio_xapp\<close> gives: no event, or a ready descriptor, with the message that
  waits at the socket and the descriptor the next timer gets.\<close>

datatype xapp_event =
    Xno_event
  | Xready int e2ap_msg int

definition e2_event_xapp ::
  "('wr, 'rd, 'st, 'cb) e42_xapp \<Rightarrow> xapp_event \<Rightarrow> ('wr, 'rd, 'st, 'cb) xapp_res" where
  "e2_event_xapp x e =
    (case e of
       Xno_event \<Rightarrow> Inr (x, [])
     | Xready fd msg tfd \<Rightarrow>
         res_bind (find_event_type x fd) (\<lambda>t.
         case t of
           NETWORK_EVENT \<Rightarrow>
             res_bind (e2ap_msg_handle_xapp x tfd msg) (\<lambda>(x1, out, ans).
             if msg_type ans \<noteq> NONE_E2_MSG_TYPE then Inr (x1, out @ [Xsend ans]) else Inr (x1, out))
         | PENDING_EVENT p \<Rightarrow>
             res_bind (c_assert (xev p = E42_SETUP_REQUEST_PENDING_EVENT \<or>
               xev p = E42_RIC_SUBSCRIPTION_REQUEST_PENDING_EVENT \<or>
               xev p = E42_RIC_SUBSCRIPTION_DELETE_REQUEST_PENDING_EVENT \<or>
               xev p = E42_RIC_CONTROL_REQUEST_PENDING_EVENT)) (\<lambda>_.
             res_bind (c_assert (xev p \<noteq> E42_RIC_SUBSCRIPTION_REQUEST_PENDING_EVENT)) (\<lambda>_.
             res_bind (c_assert (xev p \<noteq> E42_RIC_SUBSCRIPTION_DELETE_REQUEST_PENDING_EVENT)) (\<lambda>_.
             res_bind (c_assert (xev p \<noteq> E42_RIC_CONTROL_REQUEST_PENDING_EVENT)) (\<lambda>_.
             res_bind (generate_e42_setup_request x) (\<lambda>sr.
             Inr (x, [Xsend (E42_stp_req sr)]))))))))"

definition e2_event_loop_xapp ::
  "xapp_event list \<Rightarrow> ('wr, 'rd, 'st, 'cb) e42_xapp \<Rightarrow> ('wr, 'rd, 'st, 'cb) xapp_res" where
  "e2_event_loop_xapp es x = run_events e2_event_xapp es x"

definition send_setup_request ::
  "('wr, 'rd, 'st, 'cb) e42_xapp \<Rightarrow> int \<Rightarrow> ('wr, 'rd, 'st, 'cb) xapp_res" where
  "send_setup_request x fd =
    (case init_handle_msg_xapp E42_SETUP_REQUEST of
       None \<Rightarrow> Inl AssertFail
     | Some h \<Rightarrow> res_bind (h x fd None) (\<lambda>(x1, out, ans). Inr (x1, out)))"

definition start_e42_xapp ::
  "('wr, 'rd, 'st, 'cb) e42_xapp \<Rightarrow> int \<Rightarrow> xapp_event list \<Rightarrow> ('wr, 'rd, 'st, 'cb) xapp_res" where
  "start_e42_xapp x fd es =
    res_bind (send_setup_request x fd) (\<lambda>(x1, out).
    res_bind (e2_event_loop_xapp es x1) (\<lambda>(x2, out'). Inr (x2, out @ out')))"

definition e2_nodes_xapp :: "('wr, 'rd, 'st, 'cb) e42_xapp \<Rightarrow> e2_node_arr res" where
  "e2_nodes_xapp x = generate_e2_node_arr (xe2_nodes x)"

section \<open>The procedures of the user\<close>

datatype inter_xapp = Ms_1 | Ms_2 | Ms_5 | Ms_10 | Ms_end

definition interval_cmd :: "inter_xapp \<Rightarrow> string res" where
  "interval_cmd i =
    (if i = Ms_1 then Inr ''1_ms'' else if i = Ms_2 then Inr ''2_ms''
     else if i = Ms_5 then Inr ''5_ms'' else if i = Ms_10 then Inr ''10_ms''
     else Inl AssertFail)"

definition call_request_handler ::
  "e2_msg_type \<Rightarrow> ('wr, 'rd, 'st, 'cb) e42_xapp \<Rightarrow> int \<Rightarrow> e2ap_msg \<Rightarrow> ('wr, 'rd, 'st, 'cb) xapp_res" where
  "call_request_handler t x fd msg =
    (case init_handle_msg_xapp t of
       None \<Rightarrow> Inl AssertFail
     | Some h \<Rightarrow> res_bind (h x fd (Some msg)) (\<lambda>(x1, out, ans). Inr (x1, out)))"

definition send_subscription_request ::
  "('wr, 'rd, 'st, 'cb) e42_xapp \<Rightarrow> int \<Rightarrow> global_e2_node_id \<Rightarrow> ric_gen_id \<Rightarrow> inter_xapp \<Rightarrow>
    ('wr, 'rd, 'st, 'cb) xapp_res" where
  "send_subscription_request x fd node rid i =
    res_bind (interval_cmd i) (\<lambda>cmd.
    res_bind (sm_plugin_ric (xplugin_ric x) (ran_func_id rid)) (\<lambda>sm.
    res_bind (generate_subscription_request_xapp rid sm cmd) (\<lambda>sr.
    call_request_handler E42_RIC_SUBSCRIPTION_REQUEST x fd
      (E42_ric_sub_req \<lparr>e42sr_xapp_id = xid x, e42sr_id = cp_global_e2_node_id node, e42sr_sr = sr\<rparr>))))"

definition send_ric_subscription_delete ::
  "('wr, 'rd, 'st, 'cb) e42_xapp \<Rightarrow> int \<Rightarrow> ric_gen_id \<Rightarrow> ('wr, 'rd, 'st, 'cb) xapp_res" where
  "send_ric_subscription_delete x fd rid =
    call_request_handler E42_RIC_SUBSCRIPTION_DELETE_REQUEST x fd
      (E42_ric_sub_del_req \<lparr>e42sdr_xapp_id = xid x, e42sdr_sdr = \<lparr>sdr_ric_id = rid\<rparr>\<rparr>)"

definition send_control_request ::
  "('wr, 'rd, 'st, 'cb) e42_xapp \<Rightarrow> int \<Rightarrow> global_e2_node_id \<Rightarrow> ric_gen_id \<Rightarrow> 'wr \<Rightarrow>
    ('wr, 'rd, 'st, 'cb) xapp_res" where
  "send_control_request x fd node rid wr =
    res_bind (sm_plugin_ric (xplugin_ric x) (ran_func_id rid)) (\<lambda>sm.
    res_bind (generate_ric_control_request rid sm wr) (\<lambda>cr.
    call_request_handler E42_RIC_CONTROL_REQUEST x fd
      (E42_ric_ctrl_req \<lparr>e42cr_xapp_id = xid x, e42cr_id = cp_global_e2_node_id node,
        e42cr_ctrl_req = cr\<rparr>)))"

definition valid_ran_func_id :: "u16 \<Rightarrow> bool" where
  "valid_ran_func_id rf =
    (if rf = 145 \<or> rf = 142 \<or> rf = 143 \<or> rf = 144 \<or> rf = 146 \<or> rf = 148 \<or> rf = 147
     then True else False)"

definition generate_ric_gen_id ::
  "('wr, 'rd, 'st, 'cb) e42_xapp \<Rightarrow> act_proc_val_e \<Rightarrow> u16 \<Rightarrow> global_e2_node_id \<Rightarrow> 'cb option \<Rightarrow>
    (ric_gen_id \<times> ('wr, 'rd, 'st, 'cb) e42_xapp) res" where
  "generate_ric_gen_id x t rf node cb =
    res_bind (c_assert (valid_ran_func_id rf)) (\<lambda>_.
    let ric_req = \<lparr>ric_req_id = 0, ric_inst_id = 0, ran_func_id = rf\<rparr> in
    res_bind (add_act_proc (xact x) t ric_req node cb) (\<lambda>(rid, a).
    res_bind (c_assert (rid < 65536)) (\<lambda>_.
    Inr (ric_req\<lparr>ric_req_id := rid\<rparr>, x\<lparr>xact := a\<rparr>))))"

text \<open>The user's thread waits: the loop handles \<open>early\<close> before the flags are cleared and
  \<open>late\<close> until the end of the wait.\<close>

definition wait_answer ::
  "('wr, 'rd, 'st, 'cb) e42_xapp \<Rightarrow> xapp_event list \<Rightarrow> xapp_event list \<Rightarrow> ('wr, 'rd, 'st, 'cb) xapp_res" where
  "wait_answer x early late =
    res_bind (e2_event_loop_xapp early x) (\<lambda>(x1, o1).
    res_bind (cond_wait_start (xsync x1) (sync_wait_ms (xsync x1))) (\<lambda>s.
    res_bind (e2_event_loop_xapp late (x1\<lparr>xsync := s\<rparr>)) (\<lambda>(x2, o2).
    res_bind (cond_wait_end (xsync x2)) (\<lambda>_. Inr (x2, o1 @ o2)))))"

definition report_sm_sync_xapp ::
  "('wr, 'rd, 'st, 'cb) e42_xapp \<Rightarrow> int \<Rightarrow> global_e2_node_id \<Rightarrow> u16 \<Rightarrow> inter_xapp \<Rightarrow> 'cb option \<Rightarrow>
    xapp_event list \<Rightarrow> xapp_event list \<Rightarrow>
    (u32 \<times> ('wr, 'rd, 'st, 'cb) e42_xapp \<times> 'rd xapp_out list) res" where
  "report_sm_sync_xapp x fd node rf i cb early late =
    res_bind (generate_ric_gen_id x RIC_SUBSCRIPTION_PROCEDURE_ACTIVE rf node cb) (\<lambda>(rid, x1).
    res_bind (send_subscription_request x1 fd node rid i) (\<lambda>(x2, o1).
    res_bind (wait_answer x2 early late) (\<lambda>(x3, o2).
    Inr (ric_req_id rid, x3, o1 @ o2))))"

definition rm_report_sm_sync_xapp ::
  "('wr, 'rd, 'st, 'cb) e42_xapp \<Rightarrow> int \<Rightarrow> int \<Rightarrow> xapp_event list \<Rightarrow> xapp_event list \<Rightarrow>
    ('wr, 'rd, 'st, 'cb) xapp_res" where
  "rm_report_sm_sync_xapp x fd handle early late =
    res_bind (c_assert (-1 < handle \<and> handle < 65536)) (\<lambda>_.
    res_bind (find_act_proc (xact x) (word_of_int handle)) (\<lambda>(ans, a).
    case ans of
      None \<Rightarrow> Inl AssertFail
    | Some val \<Rightarrow>
        res_bind (send_ric_subscription_delete (x\<lparr>xact := a\<rparr>) fd (ap_id val)) (\<lambda>(x1, o1).
        res_bind (wait_answer x1 early late) (\<lambda>(x2, o2).
        res_bind (rm_act_proc (xact x2) (word_of_int handle)) (\<lambda>a'.
        Inr (x2\<lparr>xact := a'\<rparr>, o1 @ o2))))))"

definition control_sm_sync_xapp ::
  "('wr, 'rd, 'st, 'cb) e42_xapp \<Rightarrow> int \<Rightarrow> global_e2_node_id \<Rightarrow> u16 \<Rightarrow> 'wr \<Rightarrow>
    xapp_event list \<Rightarrow> xapp_event list \<Rightarrow> ('wr, 'rd, 'st, 'cb) xapp_res" where
  "control_sm_sync_xapp x fd node rf wr early late =
    res_bind (c_assert (valid_ran_func_id rf)) (\<lambda>_.
    res_bind (generate_ric_gen_id x RIC_CONTROL_PROCEDURE_ACTIVE rf node None) (\<lambda>(rid, x1).
    res_bind (send_control_request x1 fd node rid wr) (\<lambda>(x2, o1).
    res_bind (wait_answer x2 early late) (\<lambda>(x3, o2).
    res_bind (rm_act_proc (xact x3) (ucast (ric_req_id rid))) (\<lambda>a.
    Inr (x3\<lparr>xact := a\<rparr>, o1 @ o2))))))"

section \<open>The interface of the user (\<open>e42_xapp_api.c\<close>)\<close>

definition valid_interval :: "inter_xapp \<Rightarrow> bool res" where
  "valid_interval i =
    res_bind (c_assert (i = Ms_1 \<or> i = Ms_1 \<or> i = Ms_2 \<or> i = Ms_5 \<or> i = Ms_10)) (\<lambda>_. Inr True)"

definition valid_global_e2_node_xapp :: "global_e2_node_id \<Rightarrow> reg_e2_nodes \<Rightarrow> bool res" where
  "valid_global_e2_node_xapp node n =
    res_bind (cp_reg_e2_node n) (\<lambda>t.
    res_bind (rb_find_value (eq_global_e2_node_id node) t) (\<lambda>r. Inr (r \<noteq> None)))"

definition valid_sm_id :: "u32 \<Rightarrow> bool res" where
  "valid_sm_id sm_id =
    res_bind (c_assert (sm_id = 142 \<or> sm_id = 143 \<or> sm_id = 144 \<or> sm_id = 145 \<or> sm_id = 146 \<or>
      sm_id = 147 \<or> sm_id = 148)) (\<lambda>_. Inr True)"

definition report_sm_xapp_api ::
  "('wr, 'rd, 'st, 'cb) e42_xapp \<Rightarrow> int \<Rightarrow> global_e2_node_id \<Rightarrow> u32 \<Rightarrow> inter_xapp \<Rightarrow> 'cb option \<Rightarrow>
    xapp_event list \<Rightarrow> xapp_event list \<Rightarrow>
    (u32 \<times> ('wr, 'rd, 'st, 'cb) e42_xapp \<times> 'rd xapp_out list) res" where
  "report_sm_xapp_api x fd node sm_id i handler early late =
    res_bind (c_assert (0 < sm_id)) (\<lambda>_.
    res_bind (valid_interval i) (\<lambda>b1. res_bind (c_assert b1) (\<lambda>_.
    res_bind (valid_global_e2_node_xapp node (xe2_nodes x)) (\<lambda>b2. res_bind (c_assert b2) (\<lambda>_.
    res_bind (valid_sm_id sm_id) (\<lambda>b3. res_bind (c_assert b3) (\<lambda>_.
    res_bind (valid_interval i) (\<lambda>b4. res_bind (c_assert b4) (\<lambda>_.
    report_sm_sync_xapp x fd node (ucast sm_id) i handler early late)))))))))"

definition rm_report_sm_xapp_api ::
  "('wr, 'rd, 'st, 'cb) e42_xapp \<Rightarrow> int \<Rightarrow> int \<Rightarrow> xapp_event list \<Rightarrow> xapp_event list \<Rightarrow>
    ('wr, 'rd, 'st, 'cb) xapp_res" where
  "rm_report_sm_xapp_api x fd handle early late =
    res_bind (c_assert (-1 < handle)) (\<lambda>_. rm_report_sm_sync_xapp x fd handle early late)"

definition control_sm_xapp_api ::
  "('wr, 'rd, 'st, 'cb) e42_xapp \<Rightarrow> int \<Rightarrow> global_e2_node_id \<Rightarrow> u32 \<Rightarrow> 'wr \<Rightarrow>
    xapp_event list \<Rightarrow> xapp_event list \<Rightarrow> ('wr, 'rd, 'st, 'cb) xapp_res" where
  "control_sm_xapp_api x fd node rf wr early late =
    res_bind (c_assert (rf = 145 \<or> rf = 146)) (\<lambda>_.
    control_sm_sync_xapp x fd node (ucast rf) wr early late)"

text \<open>Stopping is refused while indications wait for the dispatcher.  The joins are not modelled.\<close>

definition try_stop_xapp_api :: "('wr, 'rd, 'st, 'cb) e42_xapp \<Rightarrow> bool" where
  "try_stop_xapp_api x = (if 0 < size_msg_dispatcher x then False else True)"

end
