(* ===== verification/XAppThms.thy ===== *)
theory XAppThms
  imports XApp
begin

text \<open>
  The xApp: its invariant, what its timers, procedures and handlers do, and the procedures of
  the user from the request to the answer.
\<close>

section \<open>Invariant\<close>

definition xapp_kinds :: "pending_event set" where
  "xapp_kinds = {E42_SETUP_REQUEST_PENDING_EVENT, E42_RIC_SUBSCRIPTION_REQUEST_PENDING_EVENT,
    E42_RIC_SUBSCRIPTION_DELETE_REQUEST_PENDING_EVENT, E42_RIC_CONTROL_REQUEST_PENDING_EVENT}"

text \<open>The timer of a kind of request.\<close>

definition xpend :: "('wr, 'rd, 'st, 'cb) e42_xapp \<Rightarrow> pending_event \<Rightarrow> int option" where
  "xpend x k = book_fd cmp_pending_xapp (xpending x) \<lparr>xev = k, xpid = zero_ric_gen_id, wait_ms = 0\<rparr>"

definition xapp_inv :: "global_e2_node_id set \<Rightarrow> ('wr, 'rd, 'st, 'cb) e42_xapp \<Rightarrow> bool" where
  "xapp_inv D x \<longleftrightarrow> book_inv cmp_pending_xapp {xep_fd x} (xio x) (xpending x) \<and> 0 < xep_fd x \<and>
    (\<forall>k. xpend x k \<noteq> None \<longrightarrow> k \<in> xapp_kinds) \<and>
    reg_inv (xact x) \<and> plugin_ag_inv (xplugin_ag x) \<and> plugin_inv (xplugin_ric x) \<and>
    e2reg_inv D (xe2_nodes x) \<and> 0 < sync_wait_ms (xsync x)"

lemma cmp_pending_xapp_eq0 [simp]: "cmp_pending_xapp a b = 0 \<longleftrightarrow> xev a = xev b"
  by (simp add: cmp_pending_xapp_def)

interpretation xbook: timer_book cmp_pending_xapp
  unfolding timer_book_def cmp_pending_xapp_def [abs_def]
  by (rule comparator_comap [OF pend_ev.comparator_axioms])

lemma xpend_eq: "book_fd cmp_pending_xapp (xpending x) e = xpend x (xev e)"
  unfolding xpend_def book_fd_def bm_get_right_def by (rule xbook.same_key) simp

lemma xpend_simps [simp]:
  "xpend (x\<lparr>xact := a\<rparr>) = xpend x" "xpend (x\<lparr>xsync := s\<rparr>) = xpend x"
  "xpend (x\<lparr>xid := i\<rparr>) = xpend x" "xpend (x\<lparr>xe2_nodes := n\<rparr>) = xpend x"
  "xpend (x\<lparr>xconnected := b\<rparr>) = xpend x" "xpend (x\<lparr>xdisp := d\<rparr>) = xpend x"
  "xpend (x\<lparr>xio := j\<rparr>) = xpend x"
  by (simp_all add: fun_eq_iff xpend_def)

lemma xapp_inv_simps [simp]:
  "xapp_inv D (x\<lparr>xid := i\<rparr>) = xapp_inv D x" "xapp_inv D (x\<lparr>xconnected := b\<rparr>) = xapp_inv D x"
  "xapp_inv D (x\<lparr>xdisp := d\<rparr>) = xapp_inv D x"
  by (simp_all add: xapp_inv_def)

lemma xapp_inv_act: "xapp_inv D x \<Longrightarrow> reg_inv a \<Longrightarrow> xapp_inv D (x\<lparr>xact := a\<rparr>)"
  by (simp add: xapp_inv_def)

lemma xapp_inv_sync:
  "xapp_inv D x \<Longrightarrow> sync_wait_ms s = sync_wait_ms (xsync x) \<Longrightarrow> xapp_inv D (x\<lparr>xsync := s\<rparr>)"
  by (simp add: xapp_inv_def)

lemma sync_wait_simps [simp]: "sync_wait_ms (signal_sync_ui s) = sync_wait_ms s"
  by (simp add: signal_sync_ui_def)

lemma init_e42_xapp_ok:
  assumes "0 < ep_fd" "distinct (map ag_ran_func_id ags)" "distinct (map sm_ran_func_id rics)"
    "\<forall>sm\<in>set rics. 0 < sm_ran_func_id sm"
  obtains x where "init_e42_xapp aper cp ep_fd ags rics = Inr x" "xapp_inv D x" "xpend x = (\<lambda>_. None)"
    "xio x = [ep_fd]" "xep_fd x = ep_fd" "\<not> xconnected x" "xact x = init_act_proc"
    "plugin_ag_get (xplugin_ag x) = map_of (map (\<lambda>sm. (ag_ran_func_id sm, sm)) ags)"
    "plugin_get (xplugin_ric x) = map_of (map (\<lambda>sm. (sm_ran_func_id sm, sm)) rics)"
    "size_plugin_ag (xplugin_ag x) = length ags" "xe2_nodes x = init_reg_e2_node" "xdisp x = []" "xap x = aper" "xcp x = cp"
proof -
  obtain pa where pa: "init_plugin_ag ags = Inr pa" "plugin_ag_inv pa"
    "plugin_ag_get pa = map_of (map (\<lambda>sm. (ag_ran_func_id sm, sm)) ags)" "assoc_rb_tree_size pa = length ags"
    by (rule init_plugin_ag_ok [OF assms(2)])
  obtain pr where pr: "init_plugin_ric rics = Inr pr" "plugin_inv pr"
    "plugin_get pr = map_of (map (\<lambda>sm. (sm_ran_func_id sm, sm)) rics)"
    by (rule init_plugin_ok [OF assms(4,3)])
  let ?x = "\<lparr>xep_fd = ep_fd, xio = [ep_fd], xplugin_ag = pa, xplugin_ric = pr,
    xe2_nodes = init_reg_e2_node, xid = 0, xsync = init_sync_ui, xact = init_act_proc,
    xpending = init_pending_events_xapp, xdisp = [], xconnected = False, xap = aper, xcp = cp\<rparr>"
  have n: "xpend ?x = (\<lambda>_. None)" by (simp add: fun_eq_iff xpend_def init_pending_events_xapp_def book_init)
  have r: "reg_inv init_act_proc" by (simp add: init_act_proc_def reg_inv_init)
  have "xapp_inv D ?x"
    unfolding xapp_inv_def n using assms(1) pa(2) pr(2) r
    by (simp add: init_pending_events_xapp_def book_init e2reg_inv_init init_sync_ui_def)
  moreover have "init_e42_xapp aper cp ep_fd ags rics = Inr ?x"
    using assms(1) by (simp add: init_e42_xapp_def add_fd_asio_ric_def pa(1) pr(1))
  ultimately show ?thesis using that [of ?x] n pa pr by (simp add: size_plugin_ag_def)
qed

section \<open>Timers\<close>

lemma add_pending_ok:
  assumes "xapp_inv D x" "xev e \<in> xapp_kinds" "0 < wait_ms e" "0 < fd" "fd \<notin> set (xio x)"
    "xpend x (xev e) = None"
  obtains p where "add_pending_event_xapp x fd e = Inr (x\<lparr>xio := fd # xio x, xpending := p\<rparr>)"
    "xapp_inv D (x\<lparr>xio := fd # xio x, xpending := p\<rparr>)"
    "xpend (x\<lparr>xio := fd # xio x, xpending := p\<rparr>) = (xpend x)(xev e \<mapsto> fd)"
proof -
  have b: "book_inv cmp_pending_xapp {xep_fd x} (xio x) (xpending x)"
    using assms(1) by (simp add: xapp_inv_def)
  have n: "book_fd cmp_pending_xapp (xpending x) e = None" using assms(6) by (simp add: xpend_eq)
  obtain p where p: "book_start (xio x) (xpending x) (wait_ms e) fd e = Inr (fd # xio x, p)"
    "book_inv cmp_pending_xapp {xep_fd x} (fd # xio x) p"
    "book_fd cmp_pending_xapp p = (\<lambda>q. if cmp_pending_xapp q e = 0 then Some fd
      else book_fd cmp_pending_xapp (xpending x) q)"
    by (rule xbook.start_ok [OF b assms(3,4,5) n]) (rule that)
  let ?x = "x\<lparr>xio := fd # xio x, xpending := p\<rparr>"
  have g: "xpend ?x = (xpend x)(xev e \<mapsto> fd)"
    by (simp add: fun_eq_iff xpend_def p(3))
  have "add_pending_event_xapp x fd e = Inr ?x"
    using p(1) assms(3,4) by (auto simp: add_pending_event_xapp_def add_pending_event_def book_start_def res_bind_eq_Inr)
  moreover have "xapp_inv D ?x"
    unfolding xapp_inv_def g using assms(1,2) p(2) by (simp add: xapp_inv_def)
  ultimately show ?thesis using that [of p] g by simp
qed

lemma rm_pending_ok:
  assumes "xapp_inv D x" "xpend x (xev e) = Some fd"
  obtains p where "rm_pending_event_xapp x e = Inr (x\<lparr>xio := remove1 fd (xio x), xpending := p\<rparr>)"
    "xapp_inv D (x\<lparr>xio := remove1 fd (xio x), xpending := p\<rparr>)"
    "xpend (x\<lparr>xio := remove1 fd (xio x), xpending := p\<rparr>) = (xpend x)(xev e := None)"
proof -
  have b: "book_inv cmp_pending_xapp {xep_fd x} (xio x) (xpending x)"
    using assms(1) by (simp add: xapp_inv_def)
  have n: "book_fd cmp_pending_xapp (xpending x) e = Some fd" using assms(2) by (simp add: xpend_eq)
  obtain p m where p: "book_inv cmp_pending_xapp {xep_fd x} (remove1 fd (xio x)) p"
    "book_fd cmp_pending_xapp p = (\<lambda>q. if cmp_pending_xapp q e = 0 then None
      else book_fd cmp_pending_xapp (xpending x) q)"
    "bi_map_extract_right (xpending x) e = Inr (fd, p)"
    "bi_map_size (xpending x) = Inr (Suc m)" "bi_map_size p = Inr m"
    by (rule xbook.stop_ok [OF b n]) (rule that)
  note f = xbook.fd_facts [OF b n]
  let ?x = "x\<lparr>xio := remove1 fd (xio x), xpending := p\<rparr>"
  have g: "xpend ?x = (xpend x)(xev e := None)"
    by (simp add: fun_eq_iff xpend_def p(2))
  have "rm_pending_event_xapp x e = Inr ?x"
    using p f by (simp add: rm_pending_event_xapp_def rm_pending_event_ev_def rm_fd_asio_ric_def)
  moreover have "xapp_inv D ?x"
    unfolding xapp_inv_def g using assms(1) p(1) by (simp add: xapp_inv_def)
  ultimately show ?thesis using that [of p] g by simp
qed

lemma rm_pending_absent:
  assumes "xapp_inv D x" "xpend x (xev e) = None"
  shows "rm_pending_event_xapp x e = Inl AssertFail"
proof -
  have b: "book_inv cmp_pending_xapp {xep_fd x} (xio x) (xpending x)"
    using assms(1) by (simp add: xapp_inv_def)
  then have i: "bm_inv cmp_fd fd_dom cmp_pending_xapp UNIV (xpending x)" by (simp add: book_inv_def)
  have "bi_map_extract_right (xpending x) e = Inl AssertFail"
    using two_comparators.extract_right_absent [OF xbook.maps i, of e] assms(2)
    by (simp add: xpend_eq [symmetric] book_fd_def)
  then show ?thesis by (simp add: rm_pending_event_xapp_def rm_pending_event_ev_def bi_map_size_ok [OF i])
qed

text \<open>What the loop makes of a ready descriptor.\<close>

lemma find_event_socket:
  "xapp_inv D x \<Longrightarrow> find_event_type x (xep_fd x) = Inr NETWORK_EVENT"
  by (simp add: find_event_type_def net_pkt_def xapp_inv_def)

lemma find_event_timer:
  assumes "xapp_inv D x" "xpend x k = Some fd"
  obtains e where "find_event_type x fd = Inr (PENDING_EVENT e)" "xev e = k" "k \<in> xapp_kinds"
    "0 < fd" "fd \<noteq> xep_fd x"
proof -
  let ?e = "\<lparr>xev = k, xpid = zero_ric_gen_id, wait_ms = 0\<rparr>"
  have b: "book_inv cmp_pending_xapp {xep_fd x} (xio x) (xpending x)"
    using assms(1) by (simp add: xapp_inv_def)
  then have i: "bm_inv cmp_fd fd_dom cmp_pending_xapp UNIV (xpending x)" by (simp add: book_inv_def)
  have n: "book_fd cmp_pending_xapp (xpending x) ?e = Some fd" using assms(2) by (simp add: xpend_eq)
  obtain e where e: "book_ev (xpending x) fd = Some e" "cmp_pending_xapp ?e e = 0"
    by (rule xbook.ev_of_fd [OF b n]) (rule that)
  note f = xbook.fd_facts [OF b n]
  have "find_event_type x fd = Inr (PENDING_EVENT e)"
    using f e(1) by (simp add: find_event_type_def net_pkt_def pend_event_xapp_def find_fd_book [OF i])
  moreover have "k \<in> xapp_kinds" using assms by (auto simp: xapp_inv_def)
  ultimately show ?thesis using that [of e] e(2) f by simp
qed

section \<open>Answers\<close>

lemma find_active_ok:
  assumes "xapp_inv D x" "0 < k" "(ucast (ric_req_id i) :: u16) = k"
  obtains a where "find_active x i = Inr (map_option (stamp_id k) (act_get (xact x) k), x\<lparr>xact := a\<rparr>)"
    "xapp_inv D (x\<lparr>xact := a\<rparr>)" "key_id a = key_id (xact x)"
    "act_get a = (case act_get (xact x) k of None \<Rightarrow> act_get (xact x)
      | Some v \<Rightarrow> (act_get (xact x))(k \<mapsto> stamp_id k v))"
proof -
  have "reg_inv (xact x)" using assms(1) by (simp add: xapp_inv_def)
  from procs.find_ok [OF this assms(2)]
  obtain a where "find_act_proc (xact x) k = Inr (map_option (stamp_id k) (act_get (xact x) k), a)"
    "reg_inv a" "key_id a = key_id (xact x)"
    "act_get a = (case act_get (xact x) k of None \<Rightarrow> act_get (xact x)
      | Some v \<Rightarrow> (act_get (xact x))(k \<mapsto> stamp_id k v))"
    by blast
  then show ?thesis using that [of a] assms xapp_inv_act [OF assms(1)] by (simp add: find_active_def)
qed

lemma answer_arrived_ok:
  assumes "xapp_inv D x" "act_get (xact x) k = Some v" "(ucast (ric_req_id i) :: u16) = k"
    "xpend x kind = Some fd"
  obtains x' a p where "answer_arrived x i kind = Inr (x', [], none_msg)"
    "x' = x\<lparr>xact := a, xio := remove1 fd (xio x), xpending := p, xsync := signal_sync_ui (xsync x)\<rparr>"
    "xapp_inv D x'" "key_id a = key_id (xact x)" "act_get a = (act_get (xact x))(k \<mapsto> stamp_id k v)"
    "xpend x' = (xpend x)(kind := None)"
proof -
  have "reg_inv (xact x)" using assms(1) by (simp add: xapp_inv_def)
  then have k: "0 < k" using procs.get_less [of "xact x" k] assms(2) by simp
  obtain a where a: "find_active x i = Inr (map_option (stamp_id k) (act_get (xact x) k), x\<lparr>xact := a\<rparr>)"
    "xapp_inv D (x\<lparr>xact := a\<rparr>)" "key_id a = key_id (xact x)"
    "act_get a = (act_get (xact x))(k \<mapsto> stamp_id k v)"
    by (rule find_active_ok [OF assms(1) k assms(3)]) (use assms(2) that in simp)
  let ?e = "\<lparr>xev = kind, xpid = ap_id (stamp_id k v), wait_ms = 0\<rparr>"
  have n: "xpend (x\<lparr>xact := a\<rparr>) (xev ?e) = Some fd" using assms(4) by simp
  obtain p where p: "rm_pending_event_xapp (x\<lparr>xact := a\<rparr>) ?e =
      Inr (x\<lparr>xact := a, xio := remove1 fd (xio (x\<lparr>xact := a\<rparr>)), xpending := p\<rparr>)"
    "xapp_inv D (x\<lparr>xact := a, xio := remove1 fd (xio (x\<lparr>xact := a\<rparr>)), xpending := p\<rparr>)"
    "xpend (x\<lparr>xact := a, xio := remove1 fd (xio (x\<lparr>xact := a\<rparr>)), xpending := p\<rparr>) =
      (xpend (x\<lparr>xact := a\<rparr>))(xev ?e := None)"
    by (rule rm_pending_ok [OF a(2) n]) (rule that)
  let ?x = "x\<lparr>xact := a, xio := remove1 fd (xio x), xpending := p, xsync := signal_sync_ui (xsync x)\<rparr>"
  have "xapp_inv D ?x" using xapp_inv_sync [OF p(2), of "signal_sync_ui (xsync x)"] by simp
  then show ?thesis
    using that [of ?x p a] a(1,3,4) p(1,3) assms(2) by (simp add: answer_arrived_def)
qed

lemma answer_arrived_stops:
  assumes "xapp_inv D x" "act_get (xact x) (ucast (ric_req_id i)) = None \<or> xpend x kind = None"
  shows "answer_arrived x i kind = Inl AssertFail"
proof (cases "(ucast (ric_req_id i) :: u16) = 0")
  case True
  then show ?thesis by (simp add: answer_arrived_def find_active_def procs.find_zero)
next
  case False
  then have k: "(0 :: u16) < ucast (ric_req_id i)" by (simp add: word_neq_0_conv)
  obtain a where a: "find_active x i =
      Inr (map_option (stamp_id (ucast (ric_req_id i))) (act_get (xact x) (ucast (ric_req_id i))), x\<lparr>xact := a\<rparr>)"
    "xapp_inv D (x\<lparr>xact := a\<rparr>)"
    by (rule find_active_ok [OF assms(1) k refl]) (rule that)
  show ?thesis
    using assms(2) a(1) rm_pending_absent [OF a(2)]
    by (cases "act_get (xact x) (ucast (ric_req_id i))") (simp_all add: answer_arrived_def)
qed

section \<open>Events\<close>

lemma event_msg:
  "xapp_inv D x \<Longrightarrow> e2_event_xapp x (Xready (xep_fd x) msg tfd) =
    res_bind (e2ap_msg_handle_xapp x tfd msg) (\<lambda>(x1, out, ans).
      if msg_type ans \<noteq> NONE_E2_MSG_TYPE then Inr (x1, out @ [Xsend ans]) else Inr (x1, out))"
  by (simp add: e2_event_xapp_def find_event_socket)

lemmas xapp_answers = e2ap_msg_handle_xapp_def check_valid_msg_type_xapp_def
  e2ap_handle_subscription_response_xapp_def e2ap_handle_subscription_delete_response_xapp_def
  e2ap_handle_control_ack_xapp_def

lemma event_sub_resp:
  "xapp_inv D x \<Longrightarrow> answer_arrived x (resp_ric_id r) E42_RIC_SUBSCRIPTION_REQUEST_PENDING_EVENT = Inr (x', [], none_msg) \<Longrightarrow>
    e2_event_xapp x (Xready (xep_fd x) (Ric_sub_resp r) tfd) = Inr (x', [])"
  by (simp add: event_msg xapp_answers)

lemma event_sub_del_resp:
  "xapp_inv D x \<Longrightarrow> answer_arrived x (sdresp_ric_id r) E42_RIC_SUBSCRIPTION_DELETE_REQUEST_PENDING_EVENT = Inr (x', [], none_msg) \<Longrightarrow>
    e2_event_xapp x (Xready (xep_fd x) (Ric_sub_del_resp r) tfd) = Inr (x', [])"
  by (simp add: event_msg xapp_answers)

lemma event_ctrl_ack:
  "xapp_inv D x \<Longrightarrow> ca_status r = RIC_CONTROL_STATUS_SUCCESS \<Longrightarrow>
    answer_arrived x (ca_ric_id r) E42_RIC_CONTROL_REQUEST_PENDING_EVENT = Inr (x', [], none_msg) \<Longrightarrow>
    e2_event_xapp x (Xready (xep_fd x) (Ric_ctrl_ack r) tfd) = Inr (x', [])"
  by (simp add: event_msg xapp_answers)

lemma setup_request_ok:
  assumes "xapp_inv D x" "0 < size_plugin_ag (xplugin_ag x)"
    "size_plugin_ag (xplugin_ag x) = size_plugin_ric (xplugin_ric x)" "announced (xplugin_ag x) = Inr rfs"
  shows "generate_e42_setup_request x = Inr \<lparr>e42_ran_func_item = rfs\<rparr>"
proof -
  have i: "plugin_ag_inv (xplugin_ag x)" using assms(1) by (simp add: xapp_inv_def)
  have "setup_ran_funcs (size_plugin_ag (xplugin_ag x)) (assoc_rb_tree_front (xplugin_ag x)) [] = Inr rfs"
    using setup_list_ok [OF i] assms(4) by (simp add: size_plugin_ag_def)
  then show ?thesis
    using assms(2,3) by (simp add: generate_e42_setup_request_def Let_def)
qed

text \<open>A timer: the setup request is repeated, for every other request the process stops.\<close>

lemma event_timeout:
  assumes "xapp_inv D x" "xpend x k = Some fd" "k \<noteq> E42_SETUP_REQUEST_PENDING_EVENT"
  shows "e2_event_xapp x (Xready fd msg tfd) = Inl AssertFail"
proof -
  obtain e where "find_event_type x fd = Inr (PENDING_EVENT e)" "xev e = k" "k \<in> xapp_kinds"
    by (rule find_event_timer [OF assms(1,2)]) (rule that)
  then show ?thesis using assms(3) by (auto simp: e2_event_xapp_def xapp_kinds_def)
qed

lemma event_setup_timeout:
  assumes "xapp_inv D x" "xpend x E42_SETUP_REQUEST_PENDING_EVENT = Some fd"
    "generate_e42_setup_request x = Inr sr"
  shows "e2_event_xapp x (Xready fd msg tfd) = Inr (x, [Xsend (E42_stp_req sr)])"
proof -
  obtain e where "find_event_type x fd = Inr (PENDING_EVENT e)" "xev e = E42_SETUP_REQUEST_PENDING_EVENT"
    by (rule find_event_timer [OF assms(1,2)]) (rule that)
  then show ?thesis using assms(3) by (simp add: e2_event_xapp_def)
qed

section \<open>Indications\<close>

text \<open>What the service model makes of an indication.\<close>

definition ind_rd :: "('wr, 'rd) sm_ric \<Rightarrow> ric_indication \<Rightarrow> 'rd sm_ag_if_rd res" where
  "ind_rd sm i = on_indication sm
    \<lparr>sid_hdr = ind_hdr i, sid_msg = ind_msg i, sid_call_process_id = ind_call_process_id i\<rparr>"

lemma event_indication:
  assumes "xapp_inv D x" "plugin_get (xplugin_ric x) (ran_func_id (ind_ric_id i)) = Some sm"
    "ind_call_process_id i \<noteq> Some []" "(ucast (ric_req_id (ind_ric_id i)) :: u16) = k" "0 < k"
    "ind_rd sm i = Inr d" "rd_supported (rd_type d)"
  obtains a where "e2_event_xapp x (Xready (xep_fd x) (Ric_ind i) tfd) =
      (case act_get (xact x) k of
         None \<Rightarrow> Inr (x\<lparr>xact := a\<rparr>, [])
       | Some v \<Rightarrow> res_bind (xcp x d) (\<lambda>c.
           Inr (x\<lparr>xact := a, xdisp := xdisp x @ [(ap_sm_cb v, d)]\<rparr>, [Xwrite_db (ap_e2_node v) c])))"
    "xapp_inv D (x\<lparr>xact := a\<rparr>)" "key_id a = key_id (xact x)"
    "act_get a = (case act_get (xact x) k of None \<Rightarrow> act_get (xact x)
      | Some v \<Rightarrow> (act_get (xact x))(k \<mapsto> stamp_id k v))"
proof -
  obtain a where a: "find_active x (ind_ric_id i) =
      Inr (map_option (stamp_id k) (act_get (xact x) k), x\<lparr>xact := a\<rparr>)"
    "xapp_inv D (x\<lparr>xact := a\<rparr>)" "key_id a = key_id (xact x)"
    "act_get a = (case act_get (xact x) k of None \<Rightarrow> act_get (xact x)
      | Some v \<Rightarrow> (act_get (xact x))(k \<mapsto> stamp_id k v))"
    by (rule find_active_ok [OF assms(1,5,4)]) (rule that)
  have sm: "sm_plugin_ric (xplugin_ric x) (ran_func_id (ind_ric_id i)) = Inr sm"
    using assms(1,2) by (simp add: xapp_inv_def sm_plugin_ric_eq)
  have pl: "ind_sm_payload i =
      Inr \<lparr>sid_hdr = ind_hdr i, sid_msg = ind_msg i, sid_call_process_id = ind_call_process_id i\<rparr>"
    using assms(3) by (cases "ind_call_process_id i") (simp_all add: ind_sm_payload_def)
  have t: "rd_type d = MAC_STATS_V0 \<or> rd_type d = RLC_STATS_V0 \<or>
      rd_type d = PDCP_STATS_V0 \<or> rd_type d = SLICE_STATS_V0 \<or>
      rd_type d = KPM_STATS_V0 \<or> rd_type d = GTP_STATS_V0"
    using assms(7) by (auto simp: rd_supported_def)
  show ?thesis
  proof (rule that [OF _ a(2-4)])
    show "e2_event_xapp x (Xready (xep_fd x) (Ric_ind i) tfd) =
      (case act_get (xact x) k of
         None \<Rightarrow> Inr (x\<lparr>xact := a\<rparr>, [])
       | Some v \<Rightarrow> res_bind (xcp x d) (\<lambda>c.
           Inr (x\<lparr>xact := a, xdisp := xdisp x @ [(ap_sm_cb v, d)]\<rparr>, [Xwrite_db (ap_e2_node v) c])))"
      using t
      by (cases "act_get (xact x) k"; cases "xcp x d")
         (simp_all add: event_msg [OF assms(1)] e2ap_msg_handle_xapp_def check_valid_msg_type_xapp_def
           e2ap_handle_indication_xapp_def sm pl a(1) ind_rd_def [symmetric] assms(6) send_msg_dispatcher_def stamp_id_def Let_def)
  qed
qed

lemma event_indication_type:
  assumes "xapp_inv D x" "plugin_get (xplugin_ric x) (ran_func_id (ind_ric_id i)) = Some sm"
    "ind_call_process_id i \<noteq> Some []" "ind_rd sm i = Inr d" "\<not> rd_supported (rd_type d)"
  shows "e2_event_xapp x (Xready (xep_fd x) (Ric_ind i) tfd) = Inl AssertFail"
proof -
  have sm: "sm_plugin_ric (xplugin_ric x) (ran_func_id (ind_ric_id i)) = Inr sm"
    using assms(1,2) by (simp add: xapp_inv_def sm_plugin_ric_eq)
  have pl: "ind_sm_payload i =
      Inr \<lparr>sid_hdr = ind_hdr i, sid_msg = ind_msg i, sid_call_process_id = ind_call_process_id i\<rparr>"
    using assms(3) by (cases "ind_call_process_id i") (simp_all add: ind_sm_payload_def)
  show ?thesis
    using assms(5)
    by (simp add: assms(4) event_msg [OF assms(1)] e2ap_msg_handle_xapp_def check_valid_msg_type_xapp_def
        e2ap_handle_indication_xapp_def sm pl ind_rd_def [symmetric] rd_supported_def)
qed

section \<open>Setup\<close>

context node_set
begin

lemma add_reg_Inr:
  assumes "e2reg_inv D r" "k \<in> D" "add_reg_e2_node r k rfs = Inr r'"
  shows "e2reg_inv D r'"
proof -
  have "rfs \<noteq> []" using assms(3) by (auto simp: add_reg_e2_node_def)
  moreover have "e2reg_get r k = None" using add_reg_dup [OF assms(1,2)] assms(3) by fastforce
  ultimately show ?thesis using add_reg_ok [OF assms(1,2), of rfs] assms(3) by auto
qed

lemma add_nodes_keeps:
  "e2reg_inv D r \<Longrightarrow> \<forall>n\<in>set ns. nc_id n \<in> D \<Longrightarrow>
    fold_res (\<lambda>n r. add_reg_e2_node r (nc_id n) (ack_rf n)) ns r = Inr r' \<Longrightarrow> e2reg_inv D r'"
  by (induction ns arbitrary: r) (auto simp: res_bind_eq_Inr intro: add_reg_Inr)

lemma add_nodes_ok:
  "e2reg_inv D r \<Longrightarrow>
    \<forall>n\<in>set ns. nc_id n \<in> D \<and> ack_rf n \<noteq> [] \<and> e2reg_get r (nc_id n) = None \<Longrightarrow>
    sorted_wrt (\<lambda>a b. \<not> eq_global_e2_node_id (nc_id b) (nc_id a)) ns \<Longrightarrow>
    \<exists>r'. fold_res (\<lambda>n r. add_reg_e2_node r (nc_id n) (ack_rf n)) ns r = Inr r' \<and> e2reg_inv D r' \<and>
      (\<forall>q\<in>D. e2reg_get r' q =
        (case find (\<lambda>n. eq_global_e2_node_id q (nc_id n)) ns of Some n \<Rightarrow> Some (ack_rf n) | None \<Rightarrow> e2reg_get r q))"
proof (induction ns arbitrary: r)
  case (Cons n ns)
  then have n: "nc_id n \<in> D" "ack_rf n \<noteq> []" "e2reg_get r (nc_id n) = None" by auto
  obtain r1 where r1: "add_reg_e2_node r (nc_id n) (ack_rf n) = Inr r1" "e2reg_inv D r1"
    "\<And>q. q \<in> D \<Longrightarrow> e2reg_get r1 q = (if eq_global_e2_node_id q (nc_id n) then Some (ack_rf n) else e2reg_get r q)"
    by (rule add_reg_ok [OF Cons.prems(1) n]) (rule that)
  have "\<forall>m\<in>set ns. nc_id m \<in> D \<and> ack_rf m \<noteq> [] \<and> e2reg_get r1 (nc_id m) = None"
    using Cons.prems(2,3) by (auto simp: r1(3))
  then obtain r' where r': "fold_res (\<lambda>n r. add_reg_e2_node r (nc_id n) (ack_rf n)) ns r1 = Inr r'" "e2reg_inv D r'"
    "\<forall>q\<in>D. e2reg_get r' q =
        (case find (\<lambda>n. eq_global_e2_node_id q (nc_id n)) ns of Some n \<Rightarrow> Some (ack_rf n) | None \<Rightarrow> e2reg_get r1 q)"
    using Cons.IH [OF r1(2)] Cons.prems(3) by auto
  have "e2reg_get r' q = (case find (\<lambda>n. eq_global_e2_node_id q (nc_id n)) (n # ns) of
      Some n \<Rightarrow> Some (ack_rf n) | None \<Rightarrow> e2reg_get r q)" if q: "q \<in> D" for q
  proof (cases "eq_global_e2_node_id q (nc_id n)")
    case True
    have "\<not> eq_global_e2_node_id q (nc_id m)" if m: "m \<in> set ns" for m
    proof
      assume e: "eq_global_e2_node_id q (nc_id m)"
      have md: "nc_id m \<in> D" using Cons.prems(2) m by auto
      have "node_cmp (nc_id m) (nc_id n) = 0"
        using cmp_eq_trans [of "nc_id m" q "nc_id n"] cmp_sym [of q "nc_id m"] e True q md n(1)
        by (simp add: eq_node)
      then show False using Cons.prems(3) m md n(1) by (auto simp: eq_node)
    qed
    then have "find (\<lambda>n. eq_global_e2_node_id q (nc_id n)) ns = None" by (simp add: find_None_iff)
    then show ?thesis using True q r'(3) by (simp add: r1(3))
  next
    case False
    then show ?thesis using q r'(3) by (simp add: r1(3) split: option.split)
  qed
  then show ?case using r1 r' by auto
qed simp

end

lemma setup_response_event:
  assumes "xapp_inv D x" "\<not> xconnected x" "xpend x E42_SETUP_REQUEST_PENDING_EVENT = Some fd"
    "fold_res (\<lambda>n r. add_reg_e2_node r (nc_id n) (ack_rf n)) (e42_nodes sr) (xe2_nodes x) = Inr r"
    "e2reg_inv D r"
  obtains p x' where "e2_event_xapp x (Xready (xep_fd x) (E42_stp_resp sr) tfd) = Inr (x', [])"
    "x' = x\<lparr>xid := e42_xapp_id sr, xe2_nodes := r, xio := remove1 fd (xio x), xpending := p, xconnected := True\<rparr>"
    "xapp_inv D x'" "xpend x' = (xpend x)(E42_SETUP_REQUEST_PENDING_EVENT := None)"
proof -
  let ?x = "x\<lparr>xid := e42_xapp_id sr, xe2_nodes := r\<rparr>"
  let ?e = "\<lparr>xev = E42_SETUP_REQUEST_PENDING_EVENT, xpid = zero_ric_gen_id, wait_ms = 0\<rparr>"
  have i: "xapp_inv D ?x" using assms(1,5) by (simp add: xapp_inv_def)
  have s: "xpend ?x (xev ?e) = Some fd" using assms(3) by simp
  obtain p where p: "rm_pending_event_xapp ?x ?e = Inr (?x\<lparr>xio := remove1 fd (xio ?x), xpending := p\<rparr>)"
    "xapp_inv D (?x\<lparr>xio := remove1 fd (xio ?x), xpending := p\<rparr>)"
    "xpend (?x\<lparr>xio := remove1 fd (xio ?x), xpending := p\<rparr>) = (xpend ?x)(xev ?e := None)"
    by (rule rm_pending_ok [OF i s]) (rule that)
  show ?thesis
  proof (rule that)
    show "e2_event_xapp x (Xready (xep_fd x) (E42_stp_resp sr) tfd) =
        Inr (?x\<lparr>xio := remove1 fd (xio x), xpending := p, xconnected := True\<rparr>, [])"
      using p(1) assms(2,4)
      by (simp add: event_msg [OF assms(1)] e2ap_msg_handle_xapp_def check_valid_msg_type_xapp_def
          e2ap_handle_e42_setup_response_xapp_def Let_def)
  qed (use p(2,3) in simp_all)
qed

section \<open>The invariant along a run\<close>

lemma rm_pending_keeps:
  assumes "xapp_inv D x" "rm_pending_event_xapp x e = Inr x'"
  shows "xapp_inv D x' \<and> xep_fd x' = xep_fd x"
proof (cases "xpend x (xev e)")
  case None
  then show ?thesis using rm_pending_absent [OF assms(1)] assms(2) by simp
next
  case (Some fd)
  show ?thesis
    by (rule rm_pending_ok [OF assms(1) Some]) (use assms(2) in auto)
qed

lemma answer_arrived_keeps:
  assumes "xapp_inv D x" "answer_arrived x i kind = Inr (x', os, m)"
  shows "xapp_inv D x' \<and> os = [] \<and> m = none_msg"
proof -
  have "\<not> (act_get (xact x) (ucast (ric_req_id i)) = None \<or> xpend x kind = None)"
    using answer_arrived_stops [OF assms(1), of i kind] assms(2) by fastforce
  then obtain v fd where v: "act_get (xact x) (ucast (ric_req_id i)) = Some v" "xpend x kind = Some fd" by auto
  show ?thesis
    by (rule answer_arrived_ok [OF assms(1) v(1) refl v(2)]) (use assms(2) in auto)
qed

lemma find_active_keeps:
  assumes "xapp_inv D x" "find_active x i = Inr (v, x')"
  shows "xapp_inv D x' \<and> (\<exists>a. x' = x\<lparr>xact := a\<rparr>)"
proof -
  have k: "(0 :: u16) < ucast (ric_req_id i)"
  proof (rule ccontr)
    assume "\<not> (0 :: u16) < ucast (ric_req_id i)"
    then have "(ucast (ric_req_id i) :: u16) = 0" by (simp only: word_neq_0_conv [symmetric] not_not)
    then show False using assms(2) by (simp add: find_active_def procs.find_zero)
  qed
  show ?thesis
    by (rule find_active_ok [OF assms(1) k refl]) (use assms(2) in auto)
qed

text \<open>What the environment has to respect: the answer of a setup names nodes of one kind; and a control
  request, for which the loop has a handler though the iApp never sends one, comes only while no control
  is pending and with a new descriptor.  All other messages and all timers are admitted.\<close>

definition fair_xevent ::
  "global_e2_node_id set \<Rightarrow> ('wr, 'rd, 'st, 'cb) e42_xapp \<Rightarrow> xapp_event \<Rightarrow> bool" where
  "fair_xevent D x e \<longleftrightarrow>
    (case e of
       Xno_event \<Rightarrow> True
     | Xready fd msg tfd \<Rightarrow>
         (case msg of
            E42_stp_resp sr \<Rightarrow> \<forall>n\<in>set (e42_nodes sr). nc_id n \<in> D
          | E42_ric_ctrl_req cr \<Rightarrow> 0 < tfd \<and> tfd \<notin> set (xio x) \<and>
              xpend x E42_RIC_CONTROL_REQUEST_PENDING_EVENT = None
          | _ \<Rightarrow> True))"

lemmas xapp_other = e2ap_handle_subscription_failure_xapp_def e2ap_handle_subscription_delete_failure_xapp_def
  e2ap_handle_control_failure_xapp_def e2ap_handle_error_indication_xapp_def e2ap_handle_reset_request_xapp_def
  e2ap_handle_reset_response_xapp_def e2ap_handle_service_update_xapp_def
  e2ap_handle_node_configuration_update_xapp_def e2ap_handle_connection_update_ack_xapp_def
  e2ap_handle_connection_update_failure_xapp_def e2ap_handle_setup_failure_xapp_def not_implemented_xapp_def

text \<open>Messages that some handler only refuses.\<close>

lemma handle_other: "e2ap_msg_handle_xapp x tfd (Other_msg t) = Inr r \<Longrightarrow> False"
  by (cases t) (simp_all add: e2ap_msg_handle_xapp_def check_valid_msg_type_xapp_def xapp_other
      e2ap_handle_subscription_response_xapp_def e2ap_handle_subscription_delete_response_xapp_def
      e2ap_handle_indication_xapp_def e2ap_handle_control_ack_xapp_def
      e2ap_handle_e42_setup_request_xapp_def e2ap_handle_e42_setup_response_xapp_def
      e2ap_handle_e42_ric_control_request_xapp_def)

lemma xapp_handler_keeps:
  assumes "node_set D" "xapp_inv D x" "fair_xevent D x (Xready fd msg tfd)"
    "e2ap_msg_handle_xapp x tfd msg = Inr (x', os, ans)"
  shows "xapp_inv D x'"
proof (cases msg)
  case (Ric_sub_resp r)
  then show ?thesis using answer_arrived_keeps [OF assms(2)] assms(4) by (auto simp: xapp_answers)
next
  case (Ric_sub_del_resp r)
  then show ?thesis using answer_arrived_keeps [OF assms(2)] assms(4) by (auto simp: xapp_answers)
next
  case (Ric_ctrl_ack r)
  then show ?thesis
    using answer_arrived_keeps [OF assms(2)] assms(4) by (auto simp: xapp_answers res_bind_eq_Inr)
next
  case (Ric_ind i)
  then show ?thesis
    using find_active_keeps [OF assms(2)] assms(4)
    by (auto simp: e2ap_msg_handle_xapp_def check_valid_msg_type_xapp_def e2ap_handle_indication_xapp_def
        res_bind_eq_Inr Let_def send_msg_dispatcher_def split: option.splits)
next
  case (E42_stp_resp sr)
  obtain r x2 where r: "fold_res (\<lambda>n r. add_reg_e2_node r (nc_id n) (ack_rf n)) (e42_nodes sr) (xe2_nodes x) = Inr r"
    "rm_pending_event_xapp (x\<lparr>xid := e42_xapp_id sr, xe2_nodes := r\<rparr>)
       \<lparr>xev = E42_SETUP_REQUEST_PENDING_EVENT, xpid = zero_ric_gen_id, wait_ms = 0\<rparr> = Inr x2"
    "x' = x2\<lparr>xconnected := True\<rparr>"
    using assms(4) E42_stp_resp
    by (auto simp: e2ap_msg_handle_xapp_def check_valid_msg_type_xapp_def
        e2ap_handle_e42_setup_response_xapp_def res_bind_eq_Inr Let_def)
  have "e2reg_inv D r"
    using node_set.add_nodes_keeps [OF assms(1) _ _ r(1)] assms(2,3) E42_stp_resp
    by (simp add: xapp_inv_def fair_xevent_def)
  then have "xapp_inv D (x\<lparr>xid := e42_xapp_id sr, xe2_nodes := r\<rparr>)"
    using assms(2) by (simp add: xapp_inv_def)
  then show ?thesis using rm_pending_keeps r(2,3) by fastforce
next
  case (E42_ric_ctrl_req cr)
  let ?e = "\<lparr>xev = E42_RIC_CONTROL_REQUEST_PENDING_EVENT, xpid = cr_ric_id (e42cr_ctrl_req cr), wait_ms = 5000\<rparr>"
  have a: "add_pending_event_xapp x tfd ?e = Inr x'"
    using assms(4) E42_ric_ctrl_req
    by (auto simp: e2ap_msg_handle_xapp_def check_valid_msg_type_xapp_def
        e2ap_handle_e42_ric_control_request_xapp_def res_bind_eq_Inr)
  show ?thesis
    by (rule add_pending_ok [OF assms(2), of ?e tfd])
       (use assms(3) E42_ric_ctrl_req a in \<open>auto simp: fair_xevent_def xapp_kinds_def\<close>)
next
  case (Other_msg t)
  then show ?thesis using handle_other assms(4) by fast
qed (use assms(3,4) in \<open>simp_all add: e2ap_msg_handle_xapp_def check_valid_msg_type_xapp_def fair_xevent_def
    e2ap_handle_e42_setup_request_xapp_def\<close>)

lemma xapp_turn_keeps:
  assumes "node_set D" "xapp_inv D x" "fair_xevent D x e" "e2_event_xapp x e = Inr (x', os)"
  shows "xapp_inv D x'"
proof (cases e)
  case Xno_event
  then show ?thesis using assms by (simp add: e2_event_xapp_def)
next
  case (Xready fd msg tfd)
  obtain t where t: "find_event_type x fd = Inr t"
    using assms(4) by (auto simp: Xready e2_event_xapp_def res_bind_eq_Inr)
  show ?thesis
  proof (cases t)
    case NETWORK_EVENT
    then obtain x1 os1 ans where h: "e2ap_msg_handle_xapp x tfd msg = Inr (x1, os1, ans)" "x1 = x'"
      using assms(4) t by (auto simp: Xready e2_event_xapp_def res_bind_eq_Inr split: if_splits)
    have "fair_xevent D x (Xready fd msg tfd)" using assms(3) Xready by simp
    then show ?thesis using xapp_handler_keeps [OF assms(1,2) _ h(1)] h(2) by simp
  next
    case (PENDING_EVENT p)
    then show ?thesis using assms(2,4) t by (auto simp: Xready e2_event_xapp_def res_bind_eq_Inr)
  qed
qed

interpretation mono_xapp: event_loop e2_event_xapp "xapp_inv monolithic_dom" "fair_xevent monolithic_dom"
  by unfold_locales (rule xapp_turn_keeps [OF mono_nodes.node_set_axioms])

interpretation split_xapp: event_loop e2_event_xapp "xapp_inv split_dom" "fair_xevent split_dom"
  by unfold_locales (rule xapp_turn_keeps [OF split_nodes.node_set_axioms])

end
