(* ===== verification/XAppUser.thy ===== *)
theory XAppUser
  imports XAppThms
begin

text \<open>
  The blocking procedures of the user, from the request to the answer: what they register, send
  and leave behind, and that they never return without an answer.
\<close>

section \<open>Request and answer\<close>

text \<open>A request whose only events are its answer, during the wait.\<close>

lemma request_answered:
  fixes x1 :: "('wr, 'rd, 'st, 'cb) e42_xapp"
  assumes "xapp_inv D x1" "act_get (xact x1) k = Some v" "0 < tfd" "tfd \<notin> set (xio x1)"
    "xev e \<in> xapp_kinds" "0 < wait_ms e" "xpend x1 (xev e) = None" "(ucast (ric_req_id i) :: u16) = k"
    "\<And>x x' :: ('wr, 'rd, 'st, 'cb) e42_xapp. xapp_inv D x \<Longrightarrow> xep_fd x = xep_fd x1 \<Longrightarrow>
      answer_arrived x i (xev e) = Inr (x', [], none_msg) \<Longrightarrow> e2_event_xapp x event = Inr (x', [])"
  obtains x2 a p x3 where "add_pending_event_xapp x1 tfd e = Inr x2"
    "wait_answer x2 [] [event] = Inr (x3, [])"
    "x3 = x1\<lparr>xact := a, xpending := p, xsync := signal_sync_ui (xsync x1)\<rparr>" "xapp_inv D x3"
    "act_get a = (act_get (xact x1))(k \<mapsto> stamp_id k v)" "key_id a = key_id (xact x1)" "xpend x3 = xpend x1"
proof -
  obtain p where p: "add_pending_event_xapp x1 tfd e = Inr (x1\<lparr>xio := tfd # xio x1, xpending := p\<rparr>)"
    "xapp_inv D (x1\<lparr>xio := tfd # xio x1, xpending := p\<rparr>)"
    "xpend (x1\<lparr>xio := tfd # xio x1, xpending := p\<rparr>) = (xpend x1)(xev e \<mapsto> tfd)"
    by (rule add_pending_ok [OF assms(1,5,6,3,4,7)]) (rule that)
  let ?s = "(xsync x1)\<lparr>flag_sync := False, msg_ack := False\<rparr>"
  let ?x = "x1\<lparr>xio := tfd # xio x1, xpending := p, xsync := ?s\<rparr>"
  have i: "xapp_inv D ?x" using xapp_inv_sync [OF p(2), of ?s] by simp
  have g: "act_get (xact ?x) k = Some v" "xpend ?x (xev e) = Some tfd" using assms(2) p(3) by simp_all
  obtain x' a q where q: "answer_arrived ?x i (xev e) = Inr (x', [], none_msg)"
    "x' = ?x\<lparr>xact := a, xio := remove1 tfd (xio ?x), xpending := q, xsync := signal_sync_ui (xsync ?x)\<rparr>"
    "xapp_inv D x'" "key_id a = key_id (xact ?x)" "act_get a = (act_get (xact ?x))(k \<mapsto> stamp_id k v)"
    "xpend x' = (xpend ?x)(xev e := None)"
    by (rule answer_arrived_ok [OF i g(1) assms(8) g(2)]) (rule that)
  have ev: "e2_event_xapp ?x event = Inr (x', [])" by (rule assms(9) [OF i _ q(1)]) simp
  have w: "0 < sync_wait_ms (xsync x1)" using assms(1) by (simp add: xapp_inv_def)
  have s: "signal_sync_ui ?s = signal_sync_ui (xsync x1)" by (simp add: signal_sync_ui_def)
  have x': "x' = x1\<lparr>xact := a, xpending := q, xsync := signal_sync_ui (xsync x1)\<rparr>"
    using q(2) s by simp
  have f: "flag_sync (xsync x')" "msg_ack (xsync x')" unfolding x' by (simp_all add: signal_sync_ui_def)
  show ?thesis
  proof (rule that [OF p(1) _ x' q(3)])
    show "wait_answer (x1\<lparr>xio := tfd # xio x1, xpending := p\<rparr>) [] [event] = Inr (x', [])"
      using w ev f by (simp add: wait_answer_def e2_event_loop_xapp_def cond_wait_start_def cond_wait_end_def)
    show "act_get a = (act_get (xact x1))(k \<mapsto> stamp_id k v)" "key_id a = key_id (xact x1)"
      using q(4,5) by simp_all
    show "xpend x' = xpend x1" using q(6) p(3) assms(7) by (auto simp: fun_eq_iff)
  qed
qed

definition report_val :: "act_proc_val_e \<Rightarrow> u16 \<Rightarrow> global_e2_node_id \<Rightarrow> 'cb option \<Rightarrow> 'cb act_proc_val" where
  "report_val t rf node cb =
    \<lparr>ap_type = t, ap_id = \<lparr>ric_req_id = 0, ric_inst_id = 0, ran_func_id = rf\<rparr>, ap_sm_cb = cb, ap_e2_node = node\<rparr>"

text \<open>The identifier of the next request.\<close>

definition next_id :: "('wr, 'rd, 'st, 'cb) e42_xapp \<Rightarrow> u16 \<Rightarrow> ric_gen_id" where
  "next_id x rf = \<lparr>ric_req_id = of_nat (key_id (xact x)), ric_inst_id = 0, ran_func_id = rf\<rparr>"

lemma generate_ric_gen_id_ok:
  assumes "xapp_inv D x" "valid_ran_func_id rf" "key_id (xact x) < 65536"
  obtains a where "generate_ric_gen_id x t rf node cb = Inr (next_id x rf, x\<lparr>xact := a\<rparr>)"
    "xapp_inv D (x\<lparr>xact := a\<rparr>)" "key_id a = key_id (xact x) + 1"
    "act_get a = (act_get (xact x))(of_nat (key_id (xact x)) \<mapsto> report_val t rf node cb)"
proof -
  let ?v = "report_val t rf node cb"
  have r: "reg_inv (xact x)" using assms(1) by (simp add: xapp_inv_def)
  obtain a where a: "add_act_proc (xact x) (ap_type ?v) (ap_id ?v) (ap_e2_node ?v) (ap_sm_cb ?v) =
      Inr (of_nat (key_id (xact x)), a)" "reg_inv a" "key_id a = key_id (xact x) + 1"
    "act_get a = (act_get (xact x))(of_nat (key_id (xact x)) \<mapsto> ?v)"
    using procs.add_ok [OF r assms(3), of ?v] by blast
  have "unat (of_nat (key_id (xact x)) :: u32) = key_id (xact x)"
    using assms(3) by (simp add: unat_of_nat take_bit_eq_mod)
  then have l: "(of_nat (key_id (xact x)) :: u32) < 65536"
    using assms(3) by (simp add: word_less_nat_alt)
  show ?thesis
  proof (rule that [of a])
    show "generate_ric_gen_id x t rf node cb = Inr (next_id x rf, x\<lparr>xact := a\<rparr>)"
      using a(1) assms(2) l by (simp add: generate_ric_gen_id_def Let_def report_val_def next_id_def)
  qed (use a xapp_inv_act [OF assms(1) a(2)] in simp_all)
qed

lemma key_u16:
  "n < 65536 \<Longrightarrow> (ucast (of_nat n :: u32) :: u16) = of_nat n"
  by (simp add: unsigned_of_nat take_bit_eq_mod)

section \<open>The procedures\<close>

text \<open>A report: the procedure stays registered under the handle that is returned.\<close>

lemma report_ok:
  assumes "xapp_inv D x" "valid_ran_func_id rf" "key_id (xact x) < 65536"
    "plugin_get (xplugin_ric x) rf = Some sm" "interval_cmd i = Inr cmd"
    "0 < tfd" "tfd \<notin> set (xio x)" "xpend x E42_RIC_SUBSCRIPTION_REQUEST_PENDING_EVENT = None"
    "(ucast (ric_req_id (resp_ric_id r)) :: u16) = of_nat (key_id (xact x))" "on_subscription sm cmd = Inr data"
  obtains x' a p where
    "report_sm_sync_xapp x tfd node rf i cb [] [Xready (xep_fd x) (Ric_sub_resp r) tfd'] =
      Inr (of_nat (key_id (xact x)), x',
        [Xsend (E42_ric_sub_req \<lparr>e42sr_xapp_id = xid x, e42sr_id = node,
          e42sr_sr = subs_request (next_id x rf) data\<rparr>)])"
    "x' = x\<lparr>xact := a, xpending := p, xsync := signal_sync_ui (xsync x)\<rparr>" "xapp_inv D x'"
    "act_get a = (act_get (xact x))(of_nat (key_id (xact x)) \<mapsto>
      stamp_id (of_nat (key_id (xact x))) (report_val RIC_SUBSCRIPTION_PROCEDURE_ACTIVE rf node cb))"
    "key_id a = key_id (xact x) + 1" "xpend x' = xpend x"
proof -
  let ?k = "of_nat (key_id (xact x)) :: u16"
  let ?v = "report_val RIC_SUBSCRIPTION_PROCEDURE_ACTIVE rf node cb"
  let ?e = "\<lparr>xev = E42_RIC_SUBSCRIPTION_REQUEST_PENDING_EVENT, xpid = next_id x rf, wait_ms = 5000\<rparr>"
  let ?ev = "Xready (xep_fd x) (Ric_sub_resp r) tfd'"
  obtain a where a: "generate_ric_gen_id x RIC_SUBSCRIPTION_PROCEDURE_ACTIVE rf node cb =
      Inr (next_id x rf, x\<lparr>xact := a\<rparr>)" "xapp_inv D (x\<lparr>xact := a\<rparr>)" "key_id a = key_id (xact x) + 1"
    "act_get a = (act_get (xact x))(?k \<mapsto> ?v)"
    by (rule generate_ric_gen_id_ok [OF assms(1-3)]) (rule that)
  let ?x = "x\<lparr>xact := a\<rparr>"
  have g: "act_get (xact ?x) ?k = Some ?v" using a(4) by simp
  obtain x2 b p x3 where w: "add_pending_event_xapp ?x tfd ?e = Inr x2"
    "wait_answer x2 [] [?ev] = Inr (x3, [])"
    "x3 = ?x\<lparr>xact := b, xpending := p, xsync := signal_sync_ui (xsync ?x)\<rparr>" "xapp_inv D x3"
    "act_get b = (act_get (xact ?x))(?k \<mapsto> stamp_id ?k ?v)" "key_id b = key_id (xact ?x)" "xpend x3 = xpend ?x"
  proof (rule request_answered [OF a(2) g assms(6), where e = ?e and i = "resp_ric_id r" and event = ?ev])
    show "e2_event_xapp y ?ev = Inr (y', [])"
      if "xapp_inv D y" "xep_fd y = xep_fd ?x" "answer_arrived y (resp_ric_id r) (xev ?e) = Inr (y', [], none_msg)" for y y'
      using event_sub_resp [OF that(1), of r y' tfd'] that(2,3) by simp
  qed (use assms in \<open>simp_all add: xapp_kinds_def that\<close>)
  have sm: "sm_plugin_ric (xplugin_ric x) rf = Inr sm"
    using assms(1,4) by (simp add: xapp_inv_def sm_plugin_ric_eq)
  have "report_sm_sync_xapp x tfd node rf i cb [] [?ev] = Inr (of_nat (key_id (xact x)), x3,
      [Xsend (E42_ric_sub_req \<lparr>e42sr_xapp_id = xid x, e42sr_id = node,
        e42sr_sr = subs_request (next_id x rf) data\<rparr>)])"
    using w(1,2) sm
    by (simp add: report_sm_sync_xapp_def a(1) send_subscription_request_def assms(5,10) call_request_handler_def
        e2ap_handle_e42_ric_subscription_request_xapp_def generate_subscription_request_xapp_def Let_def)
       (simp add: next_id_def assms(10) subs_request_def)
  then show ?thesis
    using that [of x3 p b] w(3-7) a(3,4) by (simp add: fun_upd_upd)
qed

lemma del_report_ok:
  assumes "xapp_inv D x" "0 < h" "h < 65536" "act_get (xact x) (word_of_int h) = Some v"
    "0 < tfd" "tfd \<notin> set (xio x)" "xpend x E42_RIC_SUBSCRIPTION_DELETE_REQUEST_PENDING_EVENT = None"
    "(ucast (ric_req_id (sdresp_ric_id r)) :: u16) = word_of_int h"
  obtains x' a p where
    "rm_report_sm_sync_xapp x tfd h [] [Xready (xep_fd x) (Ric_sub_del_resp r) tfd'] =
      Inr (x', [Xsend (E42_ric_sub_del_req \<lparr>e42sdr_xapp_id = xid x,
        e42sdr_sdr = \<lparr>sdr_ric_id = ap_id (stamp_id (word_of_int h) v)\<rparr>\<rparr>)])"
    "x' = x\<lparr>xact := a, xpending := p, xsync := signal_sync_ui (xsync x)\<rparr>" "xapp_inv D x'"
    "act_get a = (act_get (xact x))(word_of_int h := None)" "key_id a = key_id (xact x)" "xpend x' = xpend x"
proof -
  let ?k = "word_of_int h :: u16"
  let ?v = "stamp_id ?k v"
  let ?e = "\<lparr>xev = E42_RIC_SUBSCRIPTION_DELETE_REQUEST_PENDING_EVENT, xpid = ap_id ?v, wait_ms = 5000\<rparr>"
  let ?ev = "Xready (xep_fd x) (Ric_sub_del_resp r) tfd'"
  have rg: "reg_inv (xact x)" using assms(1) by (simp add: xapp_inv_def)
  then have k: "0 < ?k" using procs.get_less [of "xact x" ?k] assms(4) by simp
  obtain a where a: "find_act_proc (xact x) ?k = Inr (Some ?v, a)" "reg_inv a" "key_id a = key_id (xact x)"
    "act_get a = (act_get (xact x))(?k \<mapsto> ?v)"
    using procs.find_ok [OF rg k] assms(4) by auto
  let ?x = "x\<lparr>xact := a\<rparr>"
  have i: "xapp_inv D ?x" by (rule xapp_inv_act [OF assms(1) a(2)])
  have g: "act_get (xact ?x) ?k = Some ?v" using a(4) by simp
  obtain x2 b p x3 where w: "add_pending_event_xapp ?x tfd ?e = Inr x2"
    "wait_answer x2 [] [?ev] = Inr (x3, [])"
    "x3 = ?x\<lparr>xact := b, xpending := p, xsync := signal_sync_ui (xsync ?x)\<rparr>" "xapp_inv D x3"
    "act_get b = (act_get (xact ?x))(?k \<mapsto> stamp_id ?k ?v)" "key_id b = key_id (xact ?x)" "xpend x3 = xpend ?x"
  proof (rule request_answered [OF i g assms(5), where e = ?e and i = "sdresp_ric_id r" and event = ?ev])
    show "e2_event_xapp y ?ev = Inr (y', [])"
      if "xapp_inv D y" "xep_fd y = xep_fd ?x" "answer_arrived y (sdresp_ric_id r) (xev ?e) = Inr (y', [], none_msg)" for y y'
      using event_sub_del_resp [OF that(1), of r y' tfd'] that(2,3) by simp
  qed (use assms in \<open>simp_all add: xapp_kinds_def that\<close>)
  have r3: "reg_inv b" using w(3,4) by (simp add: xapp_inv_def)
  obtain c where c: "rm_act_proc b ?k = Inr c" "reg_inv c" "key_id c = key_id b" "act_get c = (act_get b)(?k := None)"
    using procs.rm_ok [OF r3, of ?k] w(5) by auto
  let ?y = "x\<lparr>xact := c, xpending := p, xsync := signal_sync_ui (xsync x)\<rparr>"
  have y: "x3\<lparr>xact := c\<rparr> = ?y" by (simp add: w(3))
  have "rm_report_sm_sync_xapp x tfd h [] [?ev] =
      Inr (?y, [Xsend (E42_ric_sub_del_req \<lparr>e42sdr_xapp_id = xid x, e42sdr_sdr = \<lparr>sdr_ric_id = ap_id ?v\<rparr>\<rparr>)])"
    using assms(2,3) w(1,2) c(1)
    by (simp add: rm_report_sm_sync_xapp_def a(1) send_ric_subscription_delete_def call_request_handler_def
        e2ap_handle_e42_subscription_delete_request_xapp_def w(3))
  moreover have "xapp_inv D ?y" using xapp_inv_act [OF w(4) c(2)] by (simp add: y)
  moreover have "xpend ?y = xpend x" using w(7) by (simp add: y [symmetric])
  ultimately show ?thesis
    using that [of ?y p c] c(3,4) w(5,6) a(3,4) by simp
qed

text \<open>The controls that pass the assertions of the encoder: header and message have bytes, and the PDU
  fits the buffer.\<close>

definition ctrl_sends :: "(E2AP_PDU \<Rightarrow> byte_array option) \<Rightarrow> e42_ric_control_request \<Rightarrow> bool" where
  "ctrl_sends aper cr \<longleftrightarrow> cr_hdr (e42cr_ctrl_req cr) \<noteq> [] \<and> cr_msg (e42cr_ctrl_req cr) \<noteq> [] \<and>
    pdu_fits aper (enc_msg (U_e42_ric_ctrl_req cr))"

lemma ctrl_sends_iff: "ctrl_sends aper cr \<longleftrightarrow> (\<exists>ba. e2ap_enc_e42_control_request_xapp aper cr = Inr ba)"
  by (auto simp: ctrl_sends_def e2ap_enc_e42_control_request_xapp_def pdu_fits_iff res_bind_eq_Inr
      e2ap_enc_e42_control_request_asn_pdu_def split: if_splits)

lemma control_ok:
  assumes "xapp_inv D x" "valid_ran_func_id rf" "key_id (xact x) < 65536"
    "plugin_get (xplugin_ric x) rf = Some sm" "generate_ric_control_request (next_id x rf) sm wr = Inr cr"
    "0 < tfd" "tfd \<notin> set (xio x)" "xpend x E42_RIC_CONTROL_REQUEST_PENDING_EVENT = None"
    "(ucast (ric_req_id (ca_ric_id r)) :: u16) = of_nat (key_id (xact x))"
    "ca_status r = RIC_CONTROL_STATUS_SUCCESS"
    "ctrl_sends (xap x) \<lparr>e42cr_xapp_id = xid x, e42cr_id = node, e42cr_ctrl_req = cr\<rparr>"
  obtains x' a p where
    "control_sm_sync_xapp x tfd node rf wr [] [Xready (xep_fd x) (Ric_ctrl_ack r) tfd'] =
      Inr (x', [Xsend (E42_ric_ctrl_req \<lparr>e42cr_xapp_id = xid x, e42cr_id = node, e42cr_ctrl_req = cr\<rparr>)])"
    "x' = x\<lparr>xact := a, xpending := p, xsync := signal_sync_ui (xsync x)\<rparr>" "xapp_inv D x'"
    "act_get a = act_get (xact x)" "key_id a = key_id (xact x) + 1" "xpend x' = xpend x"
proof -
  let ?k = "of_nat (key_id (xact x)) :: u16"
  let ?v = "report_val RIC_CONTROL_PROCEDURE_ACTIVE rf node (None :: 'd option)"
  let ?e = "\<lparr>xev = E42_RIC_CONTROL_REQUEST_PENDING_EVENT, xpid = next_id x rf, wait_ms = 5000\<rparr>"
  let ?ev = "Xready (xep_fd x) (Ric_ctrl_ack r) tfd'"
  obtain a where a: "generate_ric_gen_id x RIC_CONTROL_PROCEDURE_ACTIVE rf node None =
      Inr (next_id x rf, x\<lparr>xact := a\<rparr>)" "xapp_inv D (x\<lparr>xact := a\<rparr>)" "key_id a = key_id (xact x) + 1"
    "act_get a = (act_get (xact x))(?k \<mapsto> ?v)"
    by (rule generate_ric_gen_id_ok [OF assms(1-3)]) (rule that)
  let ?x = "x\<lparr>xact := a\<rparr>"
  have g: "act_get (xact ?x) ?k = Some ?v" using a(4) by simp
  obtain x2 b p x3 where w: "add_pending_event_xapp ?x tfd ?e = Inr x2"
    "wait_answer x2 [] [?ev] = Inr (x3, [])"
    "x3 = ?x\<lparr>xact := b, xpending := p, xsync := signal_sync_ui (xsync ?x)\<rparr>" "xapp_inv D x3"
    "act_get b = (act_get (xact ?x))(?k \<mapsto> stamp_id ?k ?v)" "key_id b = key_id (xact ?x)" "xpend x3 = xpend ?x"
  proof (rule request_answered [OF a(2) g assms(6), where e = ?e and i = "ca_ric_id r" and event = ?ev])
    show "e2_event_xapp y ?ev = Inr (y', [])"
      if "xapp_inv D y" "xep_fd y = xep_fd ?x" "answer_arrived y (ca_ric_id r) (xev ?e) = Inr (y', [], none_msg)" for y y'
      using event_ctrl_ack [OF that(1) assms(10), of y' tfd'] that(2,3) by simp
  qed (use assms in \<open>simp_all add: xapp_kinds_def that\<close>)
  have r3: "reg_inv b" using w(3,4) by (simp add: xapp_inv_def)
  obtain c where c: "rm_act_proc b ?k = Inr c" "reg_inv c" "key_id c = key_id b" "act_get c = (act_get b)(?k := None)"
    using procs.rm_ok [OF r3, of ?k] w(5) by auto
  let ?y = "x\<lparr>xact := c, xpending := p, xsync := signal_sync_ui (xsync x)\<rparr>"
  have y: "x3\<lparr>xact := c\<rparr> = ?y" by (simp add: w(3))
  have sm: "sm_plugin_ric (xplugin_ric x) rf = Inr sm" and rg: "reg_inv (xact x)"
    using assms(1,4) by (simp_all add: xapp_inv_def sm_plugin_ric_eq)
  have cid: "cr_ric_id cr = next_id x rf"
    using assms(5) by (auto simp: generate_ric_control_request_def Let_def res_bind_eq_Inr)
  have k: "(ucast (ric_req_id (next_id x rf)) :: u16) = ?k" by (simp add: next_id_def key_u16 [OF assms(3)])
  have rf: "ran_func_id (next_id x rf) = rf" by (simp add: next_id_def)
  obtain ba where ba: "e2ap_enc_e42_control_request_xapp (xap x)
      \<lparr>e42cr_xapp_id = xid x, e42cr_id = node, e42cr_ctrl_req = cr\<rparr> = Inr ba"
    using assms(11) unfolding ctrl_sends_iff by blast
  have "control_sm_sync_xapp x tfd node rf wr [] [?ev] =
      Inr (?y, [Xsend (E42_ric_ctrl_req \<lparr>e42cr_xapp_id = xid x, e42cr_id = node, e42cr_ctrl_req = cr\<rparr>)])"
    using w(1,2) c(1)
    by (simp add: control_sm_sync_xapp_def assms(2,5) a(1) send_control_request_def call_request_handler_def
        e2ap_handle_e42_ric_control_request_xapp_def rf sm cid k w(3) ba)
  moreover have "xapp_inv D ?y" using xapp_inv_act [OF w(4) c(2)] by (simp add: y)
  moreover have "xpend ?y = xpend x" using w(7) by (simp add: y [symmetric])
  moreover have "act_get c = act_get (xact x)"
    using procs.fresh [OF rg assms(3)] by (intro ext) (simp add: c(4) w(5) a(4))
  ultimately show ?thesis
    using that [of ?y p c] c(3) w(6) a(3) by simp
qed

lemma control_stops:
  assumes "xapp_inv D x" "valid_ran_func_id rf" "key_id (xact x) < 65536"
    "plugin_get (xplugin_ric x) rf = Some sm" "generate_ric_control_request (next_id x rf) sm wr = Inr cr"
    "\<not> ctrl_sends (xap x) \<lparr>e42cr_xapp_id = xid x, e42cr_id = node, e42cr_ctrl_req = cr\<rparr>"
  shows "\<exists>e. control_sm_sync_xapp x tfd node rf wr early late = Inl e"
proof -
  obtain a where a: "generate_ric_gen_id x RIC_CONTROL_PROCEDURE_ACTIVE rf node None =
      Inr (next_id x rf, x\<lparr>xact := a\<rparr>)"
    by (rule generate_ric_gen_id_ok [OF assms(1-3)]) (rule that)
  obtain e where "e2ap_enc_e42_control_request_xapp (xap x)
      \<lparr>e42cr_xapp_id = xid x, e42cr_id = node, e42cr_ctrl_req = cr\<rparr> = Inl e"
    using assms(6) unfolding ctrl_sends_iff
    by (cases "e2ap_enc_e42_control_request_xapp (xap x) \<lparr>e42cr_xapp_id = xid x, e42cr_id = node, e42cr_ctrl_req = cr\<rparr>") auto
  moreover have "sm_plugin_ric (xplugin_ric x) (ran_func_id (next_id x rf)) = Inr sm"
    using assms(1,4) by (simp add: xapp_inv_def sm_plugin_ric_eq next_id_def)
  ultimately show ?thesis
    by (simp add: control_sm_sync_xapp_def assms(2,5) a send_control_request_def call_request_handler_def
        e2ap_handle_e42_ric_control_request_xapp_def)
qed

section \<open>No answer, no return\<close>

definition is_answer :: "xapp_event \<Rightarrow> bool" where
  "is_answer e \<longleftrightarrow> (case e of
     Xno_event \<Rightarrow> False
   | Xready fd msg tfd \<Rightarrow> msg_type msg \<in>
       {RIC_SUBSCRIPTION_RESPONSE, RIC_SUBSCRIPTION_DELETE_RESPONSE, RIC_CONTROL_ACKNOWLEDGE})"

lemma rm_pending_sync: "rm_pending_event_xapp x e = Inr x' \<Longrightarrow> xsync x' = xsync x"
  by (auto simp: rm_pending_event_xapp_def res_bind_eq_Inr)

lemma add_pending_sync: "add_pending_event_xapp x fd e = Inr x' \<Longrightarrow> xsync x' = xsync x"
  by (auto simp: add_pending_event_xapp_def res_bind_eq_Inr)

lemma find_active_sync: "find_active x i = Inr (v, x') \<Longrightarrow> xsync x' = xsync x"
  by (auto simp: find_active_def res_bind_eq_Inr)

lemma handler_sync:
  assumes "e2ap_msg_handle_xapp x tfd msg = Inr (x', os, ans)" "\<not> is_answer (Xready fd msg tfd)"
  shows "xsync x' = xsync x"
proof (cases msg)
  case (Ric_ind i)
  then show ?thesis
    using assms(1)
    by (auto simp: e2ap_msg_handle_xapp_def check_valid_msg_type_xapp_def e2ap_handle_indication_xapp_def
        res_bind_eq_Inr Let_def send_msg_dispatcher_def split: option.splits dest!: find_active_sync)
next
  case (E42_stp_resp sr)
  then show ?thesis
    using assms(1)
    by (auto simp: e2ap_msg_handle_xapp_def check_valid_msg_type_xapp_def
        e2ap_handle_e42_setup_response_xapp_def res_bind_eq_Inr Let_def dest!: rm_pending_sync)
next
  case (E42_ric_ctrl_req cr)
  then show ?thesis
    using assms(1)
    by (auto simp: e2ap_msg_handle_xapp_def check_valid_msg_type_xapp_def
        e2ap_handle_e42_ric_control_request_xapp_def res_bind_eq_Inr dest!: add_pending_sync)
next
  case (Other_msg t)
  then show ?thesis using handle_other assms(1) by fast
qed (use assms in \<open>simp_all add: e2ap_msg_handle_xapp_def check_valid_msg_type_xapp_def is_answer_def
    e2ap_handle_e42_setup_request_xapp_def\<close>)

lemma turn_sync:
  assumes "e2_event_xapp x e = Inr (x', os)" "\<not> is_answer e"
  shows "xsync x' = xsync x"
proof (cases e)
  case Xno_event
  then show ?thesis using assms by (simp add: e2_event_xapp_def)
next
  case (Xready fd msg tfd)
  obtain t where t: "find_event_type x fd = Inr t"
    using assms(1) by (auto simp: Xready e2_event_xapp_def res_bind_eq_Inr)
  have n: "\<not> is_answer (Xready fd msg tfd)" using assms(2) Xready by simp
  show ?thesis
    using assms(1) t handler_sync [OF _ n]
    by (cases t) (auto simp: Xready e2_event_xapp_def res_bind_eq_Inr split: if_splits)
qed

lemma loop_sync:
  "run_events e2_event_xapp es x = Inr (x', os) \<Longrightarrow> \<forall>e\<in>set es. \<not> is_answer e \<Longrightarrow> xsync x' = xsync x"
  by (induction es arbitrary: x os) (force simp: res_bind_eq_Inr dest: turn_sync)+

lemma wait_needs_answer:
  fixes x :: "('wr, 'rd, 'st, 'cb) e42_xapp"
  assumes "\<forall>e\<in>set late. \<not> is_answer e"
  shows "wait_answer x early late \<noteq> Inr r"
proof
  assume "wait_answer x early late = Inr r"
  then obtain x1 :: "('wr, 'rd, 'st, 'cb) e42_xapp" and s x2 o2 where w: "cond_wait_start (xsync x1) (sync_wait_ms (xsync x1)) = Inr s"
    "e2_event_loop_xapp late (x1\<lparr>xsync := s\<rparr>) = Inr (x2, o2)" "cond_wait_end (xsync x2) = Inr ()"
    by (auto simp: wait_answer_def res_bind_eq_Inr)
  have "\<not> flag_sync s" using w(1) by (auto simp: cond_wait_start_def res_bind_eq_Inr)
  moreover have "xsync x2 = s" using loop_sync [OF w(2) [unfolded e2_event_loop_xapp_def] assms] by simp
  ultimately show False using w(3) by (simp add: cond_wait_end_def)
qed

end
