(* ===== verification/XAppProps.thy ===== *)
theory XAppProps
  imports RicProps XAppUser
begin

text \<open>
  The properties of the xApp.  The witnesses run on \<open>demo_xapp\<close>: identifier 7, one E2 node, the
  RAN function 142, no procedure yet, the socket on descriptor 4.
\<close>

section \<open>A small xApp\<close>

definition demo_ag :: "nat sm_agent" where
  "demo_ag = \<lparr>ag_on_subscription = (\<lambda>n s. Inr (10, n)),
    ag_on_indication = (\<lambda>n. Inr (\<lparr>sid_hdr = [7], sid_msg = [word_of_nat n], sid_call_process_id = None\<rparr>, Suc n)),
    ag_on_control = (\<lambda>n c. Inr (scd_msg c, n)), ag_on_e2_setup = Inr [77, 65, 67], ag_ran_func_id = 142\<rparr>"

text \<open>A codec that takes every PDU.\<close>

definition one_byte_enc :: "E2AP_PDU \<Rightarrow> byte_array option" where
  "one_byte_enc pdu = Some [0]"

definition demo_xapp :: "(byte_array, byte_array, nat, nat) e42_xapp" where
  "demo_xapp = \<lparr>xep_fd = 4, xio = [4],
    xplugin_ag = \<lparr>root = Node ASSOC_BLACK Dummy 142 demo_ag Dummy, comp = cmp_ran_func_id, tsize = 1\<rparr>,
    xplugin_ric = \<lparr>root = Node ASSOC_BLACK Dummy 142 demo_sm Dummy, comp = cmp_ran_func_id, tsize = 1\<rparr>,
    xe2_nodes = init_reg_e2_node, xid = 7, xsync = init_sync_ui, xact = init_act_proc,
    xpending = init_pending_events_xapp, xdisp = [], xconnected = True, xap = one_byte_enc, xcp = Inr\<rparr>"

lemma demo_xpend: "xpend demo_xapp k = None"
  by (simp add: xpend_def demo_xapp_def init_pending_events_xapp_def book_init)

lemma demo_xapp_inv: "xapp_inv monolithic_dom demo_xapp"
  unfolding xapp_inv_def demo_xpend
  by (simp add: demo_xapp_def init_pending_events_xapp_def book_init e2reg_inv_init init_sync_ui_def
      plugin_ag_inv_def plugin_inv_def single_tree_inv single_tree_entries demo_ag_def demo_sm_def
      init_act_proc_def reg_inv_init)

lemma demo_xapp_simps:
  "plugin_get (xplugin_ric demo_xapp) 142 = Some demo_sm" "key_id (xact demo_xapp) = 1" "xio demo_xapp = [4]"
  "xep_fd demo_xapp = 4" "xid demo_xapp = 7" "act_get (xact demo_xapp) k = None" "xdisp demo_xapp = []"
  "xap demo_xapp = one_byte_enc" "xcp demo_xapp = Inr"
  by (simp_all add: demo_xapp_def plugin_get_def single_tree_entries init_act_proc_def assoc_reg_init_def
      act_get_def reg_entries_def occ_def)

lemma valid_142 [simp]: "valid_ran_func_id 142"
  by (simp add: valid_ran_func_id_def)

section \<open>Procedures\<close>

text \<open>A report whose answer arrives during the wait returns the next identifier as its handle,
  has sent exactly one subscription request, made by the service model for the interval and
  carrying that identifier, and leaves the procedure registered with the callback and the node
  of the caller, no timer running and the interest list as before.\<close>

theorem report_answered:
  assumes "xapp_inv D x" "valid_ran_func_id rf" "key_id (xact x) < 65536"
    "plugin_get (xplugin_ric x) rf = Some sm" "interval_cmd i = Inr cmd"
    "0 < tfd" "tfd \<notin> set (xio x)" "xpend x E42_RIC_SUBSCRIPTION_REQUEST_PENDING_EVENT = None"
    "(ucast (ric_req_id (resp_ric_id r)) :: u16) = of_nat (key_id (xact x))" "on_subscription sm cmd = Inr data"
  shows "\<exists>x' v. report_sm_sync_xapp x tfd node rf i cb [] [Xready (xep_fd x) (Ric_sub_resp r) tfd'] =
      Inr (of_nat (key_id (xact x)), x', [Xsend (E42_ric_sub_req \<lparr>e42sr_xapp_id = xid x, e42sr_id = node,
        e42sr_sr = subs_request (next_id x rf) data\<rparr>)]) \<and> xapp_inv D x' \<and>
    act_get (xact x') = (act_get (xact x))(of_nat (key_id (xact x)) \<mapsto> v) \<and>
    ap_sm_cb v = cb \<and> ap_e2_node v = node \<and> ap_type v = RIC_SUBSCRIPTION_PROCEDURE_ACTIVE \<and>
    ran_func_id (ap_id v) = rf \<and> key_id (xact x') = key_id (xact x) + 1 \<and> xpend x' = xpend x \<and> xio x' = xio x"
proof -
  obtain x' a p where x': "report_sm_sync_xapp x tfd node rf i cb [] [Xready (xep_fd x) (Ric_sub_resp r) tfd'] =
      Inr (of_nat (key_id (xact x)), x',
        [Xsend (E42_ric_sub_req \<lparr>e42sr_xapp_id = xid x, e42sr_id = node,
          e42sr_sr = subs_request (next_id x rf) data\<rparr>)])"
    "x' = x\<lparr>xact := a, xpending := p, xsync := signal_sync_ui (xsync x)\<rparr>" "xapp_inv D x'"
    "act_get a = (act_get (xact x))(of_nat (key_id (xact x)) \<mapsto>
      stamp_id (of_nat (key_id (xact x))) (report_val RIC_SUBSCRIPTION_PROCEDURE_ACTIVE rf node cb))"
    "key_id a = key_id (xact x) + 1" "xpend x' = xpend x"
    by (rule report_ok [OF assms]) (rule that)
  show ?thesis
    by (rule exI [of _ x'],
        rule exI [of _ "stamp_id (of_nat (key_id (xact x))) (report_val RIC_SUBSCRIPTION_PROCEDURE_ACTIVE rf node cb)"])
       (use x' in \<open>simp add: stamp_id_def report_val_def\<close>)
qed

definition demo_resp :: ric_subscription_response where
  "demo_resp = \<lparr>resp_ric_id = \<lparr>ric_req_id = 1, ric_inst_id = 0, ran_func_id = 142\<rparr>,
    admitted = [\<lparr>ric_act_id = 0\<rparr>], not_admitted = []\<rparr>"

theorem report_answered_witness:
  "\<exists>x' os. report_sm_sync_xapp demo_xapp 9 demo_node 142 Ms_1 (Some 3) [] [Xready 4 (Ric_sub_resp demo_resp) 0] =
    Inr (1, x', os) \<and> (\<exists>v. act_get (xact x') 1 = Some v \<and> ap_sm_cb v = Some 3)"
proof -
  have h: "interval_cmd Ms_1 = Inr ''1_ms''" "(9::int) \<notin> set (xio demo_xapp)" "key_id (xact demo_xapp) < 65536"
    "(ucast (ric_req_id (resp_ric_id demo_resp)) :: u16) = of_nat (key_id (xact demo_xapp))"
    by (simp_all add: interval_cmd_def demo_xapp_simps demo_resp_def)
  show ?thesis
    using report_answered [OF demo_xapp_inv valid_142 h(3) demo_xapp_simps(1) h(1) _ h(2) demo_xpend h(4) demo_sm_sub,
        of demo_node "Some 3" 0]
    by (auto simp: demo_xapp_simps)
qed



lemma demo_enc_node: "\<exists>v. enc_global_e2_node_id demo_node = Inr v"
  using node_id_trip [of demo_node] demo_node_ok(1) by (auto simp: res_bind_eq_Inr)

text \<open>C22: A control request that passes the assertions of its encoder (a header and a message with bytes,
  a node whose identifier can be expressed, a PDU shorter than the buffer) and whose
  acknowledgement arrives during the wait returns; it has sent the message of the service model with
  an acknowledgement asked for, and leaves no procedure and no timer behind: the registry answers as
  before and only the counter has moved.  A request that does not pass these assertions stops.\<close>

theorem control_answered:
  assumes "xapp_inv D x" "valid_ran_func_id rf" "key_id (xact x) < 65536"
    "plugin_get (xplugin_ric x) rf = Some sm" "on_control_req sm wr = Inr data" "length (scd_hdr data) < 2049"
    "length (scd_msg data) < 2049"
    "0 < tfd" "tfd \<notin> set (xio x)" "xpend x E42_RIC_CONTROL_REQUEST_PENDING_EVENT = None"
    "(ucast (ric_req_id (ca_ric_id r)) :: u16) = of_nat (key_id (xact x))"
    "ca_status r = RIC_CONTROL_STATUS_SUCCESS"
    "q = \<lparr>e42cr_xapp_id = xid x, e42cr_id = node,
        e42cr_ctrl_req = \<lparr>cr_ric_id = next_id x rf, cr_call_process_id = None,
          cr_hdr = scd_hdr data, cr_msg = scd_msg data,
          ack_req = Some RIC_CONTROL_REQUEST_ACK\<rparr>\<rparr>"
  shows "if scd_hdr data \<noteq> [] \<and> scd_msg data \<noteq> [] \<and> pdu_fits (xap x) (enc_msg (U_e42_ric_ctrl_req q))
    then \<exists>x'. control_sm_sync_xapp x tfd node rf wr [] [Xready (xep_fd x) (Ric_ctrl_ack r) tfd'] =
        Inr (x', [Xsend (E42_ric_ctrl_req q)]) \<and>
      xapp_inv D x' \<and> act_get (xact x') = act_get (xact x) \<and> key_id (xact x') = key_id (xact x) + 1 \<and>
      xpend x' = xpend x \<and> xio x' = xio x
    else \<exists>e. control_sm_sync_xapp x tfd node rf wr [] [Xready (xep_fd x) (Ric_ctrl_ack r) tfd'] = Inl e"
proof -
  have g: "generate_ric_control_request (next_id x rf) sm wr = Inr \<lparr>cr_ric_id = next_id x rf,
      cr_call_process_id = None, cr_hdr = scd_hdr data, cr_msg = scd_msg data,
      ack_req = Some RIC_CONTROL_REQUEST_ACK\<rparr>"
    using assms(5-7) by (simp add: generate_ric_control_request_def Let_def)
  show ?thesis
  proof (cases "ctrl_sends (xap x) q")
    case True
    then have c: "scd_hdr data \<noteq> [] \<and> scd_msg data \<noteq> [] \<and> pdu_fits (xap x) (enc_msg (U_e42_ric_ctrl_req q))"
      by (simp add: ctrl_sends_def assms(13))
    obtain x' a p where "control_sm_sync_xapp x tfd node rf wr [] [Xready (xep_fd x) (Ric_ctrl_ack r) tfd'] =
        Inr (x', [Xsend (E42_ric_ctrl_req q)])"
      "x' = x\<lparr>xact := a, xpending := p, xsync := signal_sync_ui (xsync x)\<rparr>" "xapp_inv D x'"
      "act_get a = act_get (xact x)" "key_id a = key_id (xact x) + 1" "xpend x' = xpend x"
      by (rule control_ok [OF assms(1-4) g assms(8-12) True [unfolded assms(13)], of tfd'])
         (use assms(13) that in simp)
    then show ?thesis using c by auto
  next
    case False
    then show ?thesis
      using control_stops [OF assms(1-4) g False [unfolded assms(13)], of tfd "[]" "[Xready (xep_fd x) (Ric_ctrl_ack r) tfd']"]
      by (auto simp: ctrl_sends_def assms(13))
  qed
qed

theorem control_answered_witness:
  "\<exists>x' os. control_sm_sync_xapp demo_xapp 9 demo_node 142 [1, 2] [] [Xready 4 (Ric_ctrl_ack
      \<lparr>ca_ric_id = \<lparr>ric_req_id = 1, ric_inst_id = 0, ran_func_id = 142\<rparr>, ca_call_process_id = None,
       ca_status = RIC_CONTROL_STATUS_SUCCESS, control_outcome = None\<rparr>) 0] = Inr (x', os) \<and> key_id (xact x') = 2"
proof -
  let ?r = "\<lparr>ca_ric_id = \<lparr>ric_req_id = 1, ric_inst_id = 0, ran_func_id = 142\<rparr>, ca_call_process_id = None,
       ca_status = RIC_CONTROL_STATUS_SUCCESS, control_outcome = None\<rparr>"
  let ?d = "\<lparr>scd_hdr = [9], scd_msg = [1, 2]\<rparr>"
  have h: "(9::int) \<notin> set (xio demo_xapp)" "key_id (xact demo_xapp) < 65536"
    "(ucast (ric_req_id (ca_ric_id ?r)) :: u16) = of_nat (key_id (xact demo_xapp))"
    "on_control_req demo_sm [1, 2] = Inr ?d" "length (scd_hdr ?d) < 2049" "length (scd_msg ?d) < 2049"
    "ca_status ?r = RIC_CONTROL_STATUS_SUCCESS"
    by (simp_all add: demo_xapp_simps demo_sm_def)
  have e: "pdu_fits (xap demo_xapp) (enc_msg (U_e42_ric_ctrl_req \<lparr>e42cr_xapp_id = xid demo_xapp, e42cr_id = demo_node,
      e42cr_ctrl_req = \<lparr>cr_ric_id = next_id demo_xapp 142, cr_call_process_id = None, cr_hdr = scd_hdr ?d,
        cr_msg = scd_msg ?d, ack_req = Some RIC_CONTROL_REQUEST_ACK\<rparr>\<rparr>))"
    using demo_enc_node by (auto simp: demo_xapp_simps pdu_fits_def one_byte_enc_def e2ap_enc_e42_control_request_asn_pdu_def
        put_node_id_def put_control_def put_octets_opt_def)
  show ?thesis
    using control_answered [OF demo_xapp_inv valid_142 h(2) demo_xapp_simps(1) h(4-6) _ h(1) demo_xpend h(3,7) refl,
        of demo_node 0] e
    by (auto simp: demo_xapp_simps)
qed

text \<open>C23: None of the three blocking procedures returns unless an answer is handled while it waits:
  in any state, with any events before and during the wait, as long as no answer arrives
  during the wait the process stops.  In particular an answer handled after the request was
  sent and before the wait began is lost, since the wait clears the flag it set.\<close>

theorem no_return_without_answer:
  assumes "\<forall>e\<in>set late. \<not> is_answer e"
  shows "(\<exists>e. report_sm_sync_xapp x tfd node rf i cb early late = Inl e) \<and>
    (\<exists>e. rm_report_sm_sync_xapp x tfd h early late = Inl e) \<and>
    (\<exists>e. control_sm_sync_xapp x tfd node rf wr early late = Inl e)"
proof (intro conjI)
  show "\<exists>e. report_sm_sync_xapp x tfd node rf i cb early late = Inl e"
    by (cases "report_sm_sync_xapp x tfd node rf i cb early late")
       (auto simp: report_sm_sync_xapp_def res_bind_eq_Inr wait_needs_answer [OF assms])
  show "\<exists>e. rm_report_sm_sync_xapp x tfd h early late = Inl e"
    by (cases "rm_report_sm_sync_xapp x tfd h early late")
       (auto simp: rm_report_sm_sync_xapp_def res_bind_eq_Inr wait_needs_answer [OF assms] split: option.splits)
  show "\<exists>e. control_sm_sync_xapp x tfd node rf wr early late = Inl e"
    by (cases "control_sm_sync_xapp x tfd node rf wr early late")
       (auto simp: control_sm_sync_xapp_def res_bind_eq_Inr wait_needs_answer [OF assms])
qed

theorem no_return_without_answer_witness:
  "\<exists>e. report_sm_sync_xapp demo_xapp 9 demo_node 142 Ms_1 (Some 3) [Xready 4 (Ric_sub_resp demo_resp) 0] [Xno_event] = Inl e"
  using no_return_without_answer [of "[Xno_event]" demo_xapp 9 demo_node 142 Ms_1 "Some 3"
      "[Xready 4 (Ric_sub_resp demo_resp) 0]" 0 "[]"]
  by (simp add: is_answer_def)

section \<open>The event loop\<close>

text \<open>When the timer of a request expires, a setup request is sent again, the same as before,
  and the state does not change; for every other request the process stops.\<close>

theorem request_timeout:
  assumes "xapp_inv D x" "xpend x k = Some fd" "0 < size_plugin_ag (xplugin_ag x)"
    "size_plugin_ag (xplugin_ag x) = size_plugin_ric (xplugin_ric x)" "announced (xplugin_ag x) = Inr rfs"
  shows "e2_event_xapp x (Xready fd msg tfd) =
    (if k = E42_SETUP_REQUEST_PENDING_EVENT
     then Inr (x, [Xsend (E42_stp_req \<lparr>e42_ran_func_item = rfs\<rparr>)])
     else Inl AssertFail)"
  using event_timeout [OF assms(1,2)] event_setup_timeout [OF assms(1) _ setup_request_ok [OF assms(1,3,4,5)]] assms(2)
  by auto

definition waiting_xapp :: "(byte_array, byte_array, nat, nat) e42_xapp" where
  "waiting_xapp = demo_xapp\<lparr>xio := [9, 4], xpending := single_map cmp_fd cmp_pending_xapp 9
    \<lparr>xev = E42_SETUP_REQUEST_PENDING_EVENT, xpid = zero_ric_gen_id, wait_ms = 3000\<rparr>, xconnected := False\<rparr>"

lemma waiting_xpend: "xpend waiting_xapp k = (if k = E42_SETUP_REQUEST_PENDING_EVENT then Some 9 else None)"
  by (auto simp: xpend_def waiting_xapp_def book_fd_def bm_get_right_def single_map_def single_tree_entries)

lemma waiting_inv: "xapp_inv monolithic_dom waiting_xapp"
proof -
  have "book_inv cmp_pending_xapp {4} [9, 4] (single_map cmp_fd cmp_pending_xapp 9
      \<lparr>xev = E42_SETUP_REQUEST_PENDING_EVENT, xpid = zero_ric_gen_id, wait_ms = 3000\<rparr>)"
    by (auto simp: book_inv_def bm_inv_def bm_uniq_def single_map_def single_tree_inv single_tree_entries
        uniq_entries_def book_fds_def bm_pairs_def)
  then show ?thesis
    using demo_xapp_inv unfolding xapp_inv_def waiting_xpend
    by (simp add: xapp_kinds_def) (simp add: waiting_xapp_def demo_xapp_def)
qed

theorem request_timeout_witness:
  "e2_event_xapp waiting_xapp (Xready 9 none_msg 0) =
    Inr (waiting_xapp, [Xsend (E42_stp_req \<lparr>e42_ran_func_item = [demo_rf]\<rparr>)])"
proof -
  have "0 < size_plugin_ag (xplugin_ag waiting_xapp)"
    "size_plugin_ag (xplugin_ag waiting_xapp) = size_plugin_ric (xplugin_ric waiting_xapp)"
    "announced (xplugin_ag waiting_xapp) = Inr [demo_rf]"
    by (simp_all add: waiting_xapp_def demo_xapp_def size_plugin_ag_def size_plugin_ric_def assoc_rb_tree_size_def
        single_tree_entries announced_def setup_ran_func_def demo_ag_def demo_rf_def)
  then show ?thesis
    using request_timeout [OF waiting_inv, of E42_SETUP_REQUEST_PENDING_EVENT 9 "[demo_rf]" none_msg 0]
    by (simp add: waiting_xpend)
qed

lemma announced_nonempty:
  assumes "xapp_inv D x" "0 < size_plugin_ag (xplugin_ag x)" "announced (xplugin_ag x) = Inr rfs"
  shows "rfs \<noteq> []"
proof -
  have "rb_inv cmp_ran_func_id UNIV (xplugin_ag x)" using assms(1) by (simp add: xapp_inv_def plugin_ag_inv_def)
  then have "rb_entries (xplugin_ag x) \<noteq> []" using assms(2) rb_size_entries by (fastforce simp: size_plugin_ag_def)
  then show ?thesis using map_res_length [OF assms(3) [unfolded announced_def]] by auto
qed

lemma second_setup_stops:
  assumes "xapp_inv D x" "xconnected x"
  shows "e2_event_xapp x (Xready (xep_fd x) (E42_stp_resp sr) t) = Inl AssertFail"
  using event_msg [OF assms(1), of "E42_stp_resp sr" t] assms(2)
  by (simp add: e2ap_msg_handle_xapp_def check_valid_msg_type_xapp_def e2ap_handle_e42_setup_response_xapp_def)

lemma setup_timeouts:
  assumes "xapp_inv D x" "xpend x E42_SETUP_REQUEST_PENDING_EVENT = Some tfd" "generate_e42_setup_request x = Inr rq"
  shows "run_events e2_event_xapp (replicate n (Xready tfd msg t)) x = Inr (x, replicate n (Xsend (E42_stp_req rq)))"
  by (induction n) (simp_all add: event_setup_timeout [OF assms])

text \<open>C24: From its start the xApp sends a setup request that lists all its service models, and sends the
  same request again at each of the \<open>n\<close> expirations of its timer before the iApp answers; with the answer
  it has the identifier of the answer, knows exactly the nodes of the answer with their RAN
  functions, has no timer left and is connected.  A second answer stops it.\<close>

theorem xapp_setup:
  fixes x :: "('wr, 'rd, 'st, 'cb) e42_xapp"
  assumes "node_set D" "0 < ep_fd" "distinct (map ag_ran_func_id ags)" "distinct (map sm_ran_func_id rics)"
    "\<forall>sm\<in>set rics. 0 < sm_ran_func_id sm" "init_e42_xapp aper cp ep_fd ags rics = Inr x" "0 < size_plugin_ag (xplugin_ag x)"
    "size_plugin_ag (xplugin_ag x) = size_plugin_ric (xplugin_ric x)" "0 < tfd" "tfd \<noteq> ep_fd"
    "\<forall>n\<in>set (e42_nodes sr). nc_id n \<in> D \<and> ack_rf n \<noteq> []"
    "sorted_wrt (\<lambda>a b. \<not> eq_global_e2_node_id (nc_id b) (nc_id a)) (e42_nodes sr)"
    "announced (xplugin_ag x) = Inr rfs"
  shows "\<exists>x'. start_e42_xapp x tfd (replicate n (Xready tfd msg t) @ [Xready ep_fd (E42_stp_resp sr) t]) =
      Inr (x', replicate (Suc n) (Xsend (E42_stp_req \<lparr>e42_ran_func_item = rfs\<rparr>))) \<and>
    xapp_inv D x' \<and> xid x' = e42_xapp_id sr \<and> xconnected x' \<and> xpend x' = (\<lambda>_. None) \<and> xio x' = [ep_fd] \<and>
    (\<forall>q\<in>D. e2reg_get (xe2_nodes x') q =
      map_option ack_rf (find (\<lambda>n. eq_global_e2_node_id q (nc_id n)) (e42_nodes sr))) \<and>
    e2_event_xapp x' (Xready ep_fd (E42_stp_resp sr) t) = Inl AssertFail"
proof -
  obtain y :: "('wr, 'rd, 'st, 'cb) e42_xapp" where y: "init_e42_xapp aper cp ep_fd ags rics = Inr y" "xapp_inv D y" "xpend y = (\<lambda>_. None)" "xio y = [ep_fd]"
    "xep_fd y = ep_fd" "\<not> xconnected y" "xe2_nodes y = init_reg_e2_node"
    by (rule init_e42_xapp_ok [OF assms(2-5)]) (rule that)
  then have "x = y" using assms(6) by simp
  then have x: "xapp_inv D x" "xpend x = (\<lambda>_. None)" "xio x = [ep_fd]" "xep_fd x = ep_fd" "\<not> xconnected x"
    "xe2_nodes x = init_reg_e2_node"
    using y by simp_all
  let ?e = "\<lparr>xev = E42_SETUP_REQUEST_PENDING_EVENT, xpid = zero_ric_gen_id, wait_ms = 3000\<rparr>"
  let ?rq = "\<lparr>e42_ran_func_item = rfs\<rparr>"
  have rq: "generate_e42_setup_request x = Inr ?rq" by (rule setup_request_ok [OF x(1) assms(7,8,13)])
  have ne: "rfs \<noteq> []" by (rule announced_nonempty [OF x(1) assms(7,13)])
  obtain p where p: "add_pending_event_xapp x tfd ?e = Inr (x\<lparr>xio := tfd # xio x, xpending := p\<rparr>)"
    "xapp_inv D (x\<lparr>xio := tfd # xio x, xpending := p\<rparr>)"
    "xpend (x\<lparr>xio := tfd # xio x, xpending := p\<rparr>) = (xpend x)(xev ?e \<mapsto> tfd)"
    by (rule add_pending_ok [OF x(1), of ?e tfd]) (use assms(9,10) x that in \<open>auto simp: xapp_kinds_def\<close>)
  let ?x = "x\<lparr>xio := tfd # xio x, xpending := p\<rparr>"
  have s: "send_setup_request x tfd = Inr (?x, [Xsend (E42_stp_req ?rq)])"
    using p(1) rq ne by (simp add: send_setup_request_def e2ap_handle_e42_setup_request_xapp_def)
  obtain r where r: "fold_res (\<lambda>n r. add_reg_e2_node r (nc_id n) (ack_rf n)) (e42_nodes sr) (xe2_nodes ?x) = Inr r"
    "e2reg_inv D r" "\<forall>q\<in>D. e2reg_get r q =
      (case find (\<lambda>n. eq_global_e2_node_id q (nc_id n)) (e42_nodes sr) of Some n \<Rightarrow> Some (ack_rf n)
       | None \<Rightarrow> e2reg_get init_reg_e2_node q)"
    using node_set.add_nodes_ok [OF assms(1) e2reg_inv_init _ assms(12)] assms(11) x(6)
    by (auto simp: e2reg_get_def e2reg_entries_def init_reg_e2_node_def)
  have c: "\<not> xconnected ?x" "xpend ?x E42_SETUP_REQUEST_PENDING_EVENT = Some tfd" using x p(3) by simp_all
  obtain q x' where x': "e2_event_xapp ?x (Xready (xep_fd ?x) (E42_stp_resp sr) t) = Inr (x', [])"
    "x' = ?x\<lparr>xid := e42_xapp_id sr, xe2_nodes := r, xio := remove1 tfd (xio ?x), xpending := q, xconnected := True\<rparr>"
    "xapp_inv D x'" "xpend x' = (xpend ?x)(E42_SETUP_REQUEST_PENDING_EVENT := None)"
    by (rule setup_response_event [OF p(2) c r(1,2)]) (rule that)
  have again: "e2_event_xapp x' (Xready ep_fd (E42_stp_resp sr) t) = Inl AssertFail"
    using second_setup_stops [OF x'(3)] x'(2) x(4) by simp
  have rq1: "generate_e42_setup_request ?x = Inr ?rq" using rq by (simp add: generate_e42_setup_request_def)
  have w: "run_events e2_event_xapp (replicate n (Xready tfd msg t)) ?x = Inr (?x, replicate n (Xsend (E42_stp_req ?rq)))"
    by (rule setup_timeouts [OF p(2) c(2) rq1])
  have st: "start_e42_xapp x tfd (replicate n (Xready tfd msg t) @ [Xready ep_fd (E42_stp_resp sr) t]) =
      Inr (x', replicate (Suc n) (Xsend (E42_stp_req ?rq)))"
    using s w x'(1) x(4) by (simp add: start_e42_xapp_def e2_event_loop_xapp_def run_events_append)
  have g: "\<forall>q\<in>D. e2reg_get (xe2_nodes x') q =
      map_option ack_rf (find (\<lambda>n. eq_global_e2_node_id q (nc_id n)) (e42_nodes sr))"
    using r(3) by (auto simp: x'(2) e2reg_get_def e2reg_entries_def init_reg_e2_node_def split: option.split)
  show ?thesis
    by (rule exI [of _ x'], intro conjI) (use st x'(2,3,4) p(3) x again g in \<open>simp_all add: fun_eq_iff\<close>)
qed

theorem xapp_setup_witness:
  "\<exists>(x :: (byte_array, byte_array, nat, nat) e42_xapp) x'. init_e42_xapp one_byte_enc Inr 4 [demo_ag] [demo_sm] = Inr x \<and>
    start_e42_xapp x 9 [Xready 9 none_msg 0, Xready 4 (E42_stp_resp \<lparr>e42_xapp_id = 7,
      e42_nodes = [\<lparr>nc_id = demo_node, ack_rf = [demo_rf]\<rparr>]\<rparr>) 0] =
      Inr (x', [Xsend (E42_stp_req \<lparr>e42_ran_func_item = [demo_rf]\<rparr>), Xsend (E42_stp_req \<lparr>e42_ran_func_item = [demo_rf]\<rparr>)]) \<and>
    xid x' = 7 \<and> e2reg_get (xe2_nodes x') demo_node = Some [demo_rf]"
proof -
  let ?sr = "\<lparr>e42_xapp_id = 7, e42_nodes = [\<lparr>nc_id = demo_node, ack_rf = [demo_rf]\<rparr>]\<rparr>"
  have sm: "distinct (map ag_ran_func_id [demo_ag])" "distinct (map sm_ran_func_id [demo_sm])"
    "\<forall>sm\<in>set [demo_sm]. 0 < sm_ran_func_id sm"
    by (simp_all add: demo_sm_def)
  obtain x :: "(byte_array, byte_array, nat, nat) e42_xapp" where x: "init_e42_xapp one_byte_enc Inr 4 [demo_ag] [demo_sm] = Inr x"
    by (rule init_e42_xapp_ok [OF _ sm, of 4 one_byte_enc Inr UNIV]) auto
  have e: "rb_entries (xplugin_ag x) = [(142, demo_ag)]" "0 < size_plugin_ag (xplugin_ag x)"
    "size_plugin_ag (xplugin_ag x) = size_plugin_ric (xplugin_ric x)"
    using x by (auto simp: init_e42_xapp_def res_bind_eq_Inr init_plugin_ag_def load_plugin_ag_def demo_ag_def
        assoc_rb_tree_insert_def assoc_rb_tree_init_def rb_entries_def size_plugin_ag_def size_plugin_ric_def
        assoc_rb_tree_size_def init_plugin_ric_def load_plugin_ric_def demo_sm_def)
  have n: "\<forall>n\<in>set (e42_nodes ?sr). nc_id n \<in> monolithic_dom \<and> ack_rf n \<noteq> []"
    "sorted_wrt (\<lambda>a b. \<not> eq_global_e2_node_id (nc_id b) (nc_id a)) (e42_nodes ?sr)"
    using demo_mono by simp_all
  have f: "announced (xplugin_ag x) = Inr [demo_rf]"
    by (simp add: announced_def e(1) setup_ran_func_def demo_ag_def demo_rf_def)
  obtain x' where "start_e42_xapp x 9 [Xready 9 none_msg 0, Xready 4 (E42_stp_resp ?sr) 0] =
      Inr (x', [Xsend (E42_stp_req \<lparr>e42_ran_func_item = [demo_rf]\<rparr>), Xsend (E42_stp_req \<lparr>e42_ran_func_item = [demo_rf]\<rparr>)])" "xid x' = 7"
    "e2reg_get (xe2_nodes x') demo_node = Some [demo_rf]"
    using xapp_setup [OF mono_nodes.node_set_axioms _ sm x e(2,3) _ _ n f, of 9 1 none_msg 0] demo_mono
    by (auto simp: demo_eq)
  then show ?thesis using x by blast
qed

section \<open>Indications\<close>

text \<open>What a callback is called with: the function of the procedure, and what the service model
  makes of the indication.\<close>

definition ind_sm :: "('wr, 'rd, 'st, 'cb) e42_xapp \<Rightarrow> ric_indication \<Rightarrow> ('wr, 'rd) sm_ric option" where
  "ind_sm x i = plugin_get (xplugin_ric x) (ran_func_id (ind_ric_id i))"

definition ind_proc :: "('wr, 'rd, 'st, 'cb) e42_xapp \<Rightarrow> ric_indication \<Rightarrow> 'cb act_proc_val option" where
  "ind_proc x i = act_get (xact x) (ucast (ric_req_id (ind_ric_id i)))"

definition delivery :: "('wr, 'rd, 'st, 'cb) e42_xapp \<Rightarrow> ric_indication \<Rightarrow> 'cb \<times> 'rd sm_ag_if_rd" where
  "delivery x i = (the (ap_sm_cb (the (ind_proc x i))), projr (ind_rd (the (ind_sm x i)) i))"

text \<open>What goes to the data base: the node of the procedure and the copy of the reading.\<close>

definition stored :: "('wr, 'rd, 'st, 'cb) e42_xapp \<Rightarrow> ric_indication \<Rightarrow> 'rd xapp_out" where
  "stored x i = Xwrite_db (ap_e2_node (the (ind_proc x i))) (projr (xcp x (snd (delivery x i))))"

text \<open>An indication that is delivered: of a running report with a callback, with a reading of a type
  that the xApp takes and that can be copied.\<close>

definition deliverable :: "('wr, 'rd, 'st, 'cb) e42_xapp \<Rightarrow> ric_indication \<Rightarrow> bool" where
  "deliverable x i \<longleftrightarrow> ind_call_process_id i \<noteq> Some [] \<and>
    (case (ind_sm x i, ind_proc x i) of
       (Some sm, Some v) \<Rightarrow> ap_sm_cb v \<noteq> None \<and>
         (case ind_rd sm i of Inl e \<Rightarrow> False | Inr d \<Rightarrow> rd_supported (rd_type d) \<and> (\<exists>c. xcp x d = Inr c))
     | _ \<Rightarrow> False)"

lemma worker_drains:
  "xdisp x = map (\<lambda>(f, d). (Some f, d)) cs \<Longrightarrow> worker_thread (length cs) x = Inr (cs, x\<lparr>xdisp := []\<rparr>)"
proof (induction cs arbitrary: x)
  case (Cons c cs)
  obtain f d where c: "c = (f, d)" by (cases c)
  have "worker_thread (length cs) (x\<lparr>xdisp := map (\<lambda>(f, d). (Some f, d)) cs\<rparr>) =
      Inr (cs, x\<lparr>xdisp := []\<rparr>)"
    using Cons.IH [of "x\<lparr>xdisp := map (\<lambda>(f, d). (Some f, d)) cs\<rparr>"] by simp
  then show ?case using Cons.prems by (simp add: c worker_step_def)
qed simp

lemma deliver_one:
  assumes "xapp_inv D x" "deliverable x i"
  obtains x' where "e2_event_xapp x (Xready (xep_fd x) (Ric_ind i) t) = Inr (x', [stored x i])" "xapp_inv D x'"
    "xdisp x' = xdisp x @ [map_prod Some (\<lambda>d. d) (delivery x i)]" "xep_fd x' = xep_fd x"
    "deliverable x' = deliverable x" "delivery x' = delivery x" "stored x' = stored x"
proof -
  obtain sm v d c where s: "ind_sm x i = Some sm" "ind_proc x i = Some v" "rd_supported (rd_type d)"
    "ap_sm_cb v \<noteq> None" "ind_call_process_id i \<noteq> Some []" "ind_rd sm i = Inr d" "xcp x d = Inr c"
    using assms(2) by (auto simp: deliverable_def split: option.splits sum.splits)
  let ?k = "ucast (ric_req_id (ind_ric_id i)) :: u16"
  have "reg_inv (xact x)" using assms(1) by (simp add: xapp_inv_def)
  then have k: "0 < ?k" using procs.get_less [of "xact x" ?k] s(2) by (simp add: ind_proc_def)
  obtain a where a: "e2_event_xapp x (Xready (xep_fd x) (Ric_ind i) t) =
      Inr (x\<lparr>xact := a, xdisp := xdisp x @ [(ap_sm_cb v, d)]\<rparr>, [Xwrite_db (ap_e2_node v) c])"
    "xapp_inv D (x\<lparr>xact := a\<rparr>)" "act_get a = (act_get (xact x))(?k \<mapsto> stamp_id ?k v)"
    by (rule event_indication [OF assms(1) s(1) [unfolded ind_sm_def] s(5) refl k s(6,3), of t])
       (use s(2,7) that in \<open>simp add: ind_proc_def\<close>)
  let ?x = "x\<lparr>xact := a, xdisp := xdisp x @ [(ap_sm_cb v, d)]\<rparr>"
  have p: "ind_sm ?x = ind_sm x" by (simp add: fun_eq_iff ind_sm_def)
  have q: "ind_proc ?x j = ind_proc x j \<or> (\<exists>w. ind_proc x j = Some w \<and> ind_proc ?x j = Some (stamp_id ?k w))" for j
    using s(2) by (auto simp: ind_proc_def a(3))
  have dd: "delivery ?x j = delivery x j \<and> deliverable ?x j = deliverable x j \<and> stored ?x j = stored x j" for j
    using q [of j] by (auto simp: stored_def delivery_def deliverable_def p stamp_id_def split: option.split sum.split)
  have e: "e2_event_xapp x (Xready (xep_fd x) (Ric_ind i) t) = Inr (?x, [stored x i])"
    using a(1) s(1,2,6,7) by (simp add: stored_def delivery_def)
  show ?thesis
  proof (rule that [OF e])
    show "xapp_inv D ?x" using a(2) by simp
    show "xdisp ?x = xdisp x @ [map_prod Some (\<lambda>d. d) (delivery x i)]"
      using s(1,2,4,6) by (auto simp: delivery_def)
    show "deliverable ?x = deliverable x" "delivery ?x = delivery x" "stored ?x = stored x" using dd by (simp_all add: fun_eq_iff)
  qed simp
qed

lemma deliver_run:
  "xapp_inv D x \<Longrightarrow> \<forall>i\<in>set is. deliverable x i \<Longrightarrow>
    \<exists>x'. run_events e2_event_xapp (map (\<lambda>i. Xready (xep_fd x) (Ric_ind i) t) is) x = Inr (x', map (stored x) is) \<and>
      xapp_inv D x' \<and>
      xdisp x' = xdisp x @ map (\<lambda>i. map_prod Some (\<lambda>d. d) (delivery x i)) is"
proof (induction "is" arbitrary: x)
  case (Cons i "is")
  obtain x1 where x1: "e2_event_xapp x (Xready (xep_fd x) (Ric_ind i) t) = Inr (x1, [stored x i])" "xapp_inv D x1"
    "xdisp x1 = xdisp x @ [map_prod Some (\<lambda>d. d) (delivery x i)]" "xep_fd x1 = xep_fd x"
    "deliverable x1 = deliverable x" "delivery x1 = delivery x" "stored x1 = stored x"
    by (rule deliver_one [OF Cons.prems(1), of i t]) (use Cons.prems(2) that in auto)
  obtain x' where "run_events e2_event_xapp (map (\<lambda>i. Xready (xep_fd x1) (Ric_ind i) t) is) x1 = Inr (x', map (stored x1) is)"
    "xapp_inv D x'" "xdisp x' = xdisp x1 @ map (\<lambda>i. map_prod Some (\<lambda>d. d) (delivery x1 i)) is"
    using Cons.IH [OF x1(2)] Cons.prems(2) x1(5) by auto
  then show ?case using x1 by (simp add: x1(4))
qed simp

text \<open>C25: Indications of running reports, with readings that the xApp takes and that can be copied for
  the data base, reach their callbacks in the order they arrive, each exactly once, with the data that
  the service model of their RAN function reads from them; before, a copy of every one goes to the data
  base, in the same order, with the node of its report.\<close>

theorem indications_in_order:
  assumes "xapp_inv D x" "xdisp x = []" "\<forall>i\<in>set is. deliverable x i"
  shows "\<exists>x'. e2_event_loop_xapp (map (\<lambda>i. Xready (xep_fd x) (Ric_ind i) t) is) x = Inr (x', map (stored x) is) \<and>
    xapp_inv D x' \<and>
    worker_thread (length is) x' = Inr (map (delivery x) is, x'\<lparr>xdisp := []\<rparr>)"
proof -
  obtain x' where x': "run_events e2_event_xapp (map (\<lambda>i. Xready (xep_fd x) (Ric_ind i) t) is) x = Inr (x', map (stored x) is)"
    "xapp_inv D x'" "xdisp x' = xdisp x @ map (\<lambda>i. map_prod Some (\<lambda>d. d) (delivery x i)) is"
    using deliver_run [OF assms(1,3)] by blast
  have "xdisp x' = map (\<lambda>(f, d). (Some f, d)) (map (delivery x) is)"
    using x'(3) assms(2) by (simp add: map_prod_def)
  from worker_drains [OF this] x' show ?thesis by (auto simp: e2_event_loop_xapp_def)
qed

definition busy_xapp :: "(byte_array, byte_array, nat, nat) e42_xapp" where
  "busy_xapp = (case report_sm_sync_xapp demo_xapp 9 demo_node 142 Ms_1 (Some 3) []
      [Xready 4 (Ric_sub_resp demo_resp) 0] of Inr (h, x, os) \<Rightarrow> x | Inl e \<Rightarrow> demo_xapp)"

definition demo_ind :: "u8 \<Rightarrow> ric_indication" where
  "demo_ind b = \<lparr>ind_ric_id = \<lparr>ric_req_id = 1, ric_inst_id = 0, ran_func_id = 142\<rparr>, ind_action_id = 0, sn = None,
    ind_type = RIC_IND_REPORT, ind_hdr = [7], ind_msg = [b], ind_call_process_id = None\<rparr>"

lemma busy_xapp_facts:
  "xapp_inv monolithic_dom busy_xapp" "xdisp busy_xapp = []" "deliverable busy_xapp (demo_ind b)"
  "delivery busy_xapp (demo_ind b) = (3, \<lparr>rd_type = MAC_STATS_V0, rd_stats = [b]\<rparr>)"
  "stored busy_xapp (demo_ind b) = Xwrite_db demo_node \<lparr>rd_type = MAC_STATS_V0, rd_stats = [b]\<rparr>" "xep_fd busy_xapp = 4" "xcp busy_xapp = Inr"
  "plugin_get (xplugin_ric busy_xapp) 142 = Some demo_sm" "act_get (xact busy_xapp) 1 =
    Some (stamp_id 1 (report_val RIC_SUBSCRIPTION_PROCEDURE_ACTIVE 142 demo_node (Some 3)))"
proof -
  have h: "interval_cmd Ms_1 = Inr ''1_ms''" "(9::int) \<notin> set (xio demo_xapp)" "key_id (xact demo_xapp) < 65536"
    "(ucast (ric_req_id (resp_ric_id demo_resp)) :: u16) = of_nat (key_id (xact demo_xapp))"
    by (simp_all add: interval_cmd_def demo_xapp_simps demo_resp_def)
  obtain x a p os where x: "report_sm_sync_xapp demo_xapp 9 demo_node 142 Ms_1 (Some 3) []
      [Xready (xep_fd demo_xapp) (Ric_sub_resp demo_resp) 0] = Inr (of_nat (key_id (xact demo_xapp)), x, os)"
    "x = demo_xapp\<lparr>xact := a, xpending := p, xsync := signal_sync_ui (xsync demo_xapp)\<rparr>" "xapp_inv monolithic_dom x"
    "act_get a = (act_get (xact demo_xapp))(of_nat (key_id (xact demo_xapp)) \<mapsto>
      stamp_id (of_nat (key_id (xact demo_xapp))) (report_val RIC_SUBSCRIPTION_PROCEDURE_ACTIVE 142 demo_node (Some 3)))"
    by (rule report_ok [OF demo_xapp_inv valid_142 h(3) demo_xapp_simps(1) h(1) _ h(2) demo_xpend h(4) demo_sm_sub,
          of demo_node "Some 3" 0]) (use that in auto)
  have b: "busy_xapp = x" using x(1) by (simp add: busy_xapp_def demo_xapp_simps)
  show "xapp_inv monolithic_dom busy_xapp" by (simp add: b x(3))
  show "xdisp busy_xapp = []" "xep_fd busy_xapp = 4" "xcp busy_xapp = Inr" by (simp_all add: b x(2) demo_xapp_simps)
  show "plugin_get (xplugin_ric busy_xapp) 142 = Some demo_sm" "act_get (xact busy_xapp) 1 =
    Some (stamp_id 1 (report_val RIC_SUBSCRIPTION_PROCEDURE_ACTIVE 142 demo_node (Some 3)))"
    by (simp_all add: b x(2,4) demo_xapp_simps)
  have cp: "xcp busy_xapp = Inr" by (simp add: b x(2) demo_xapp_simps)
  have s: "ind_sm busy_xapp (demo_ind b) = Some demo_sm" "ind_proc busy_xapp (demo_ind b) =
      Some (stamp_id 1 (report_val RIC_SUBSCRIPTION_PROCEDURE_ACTIVE 142 demo_node (Some 3)))"
    by (simp_all add: ind_sm_def ind_proc_def demo_ind_def b x(2,4) demo_xapp_simps)
  show "deliverable busy_xapp (demo_ind b)"
    "delivery busy_xapp (demo_ind b) = (3, \<lparr>rd_type = MAC_STATS_V0, rd_stats = [b]\<rparr>)"
    "stored busy_xapp (demo_ind b) = Xwrite_db demo_node \<lparr>rd_type = MAC_STATS_V0, rd_stats = [b]\<rparr>"
    by (simp_all add: stored_def deliverable_def delivery_def cp s stamp_id_def report_val_def ind_rd_def demo_sm_ind
        rd_supported_def) (simp_all add: demo_ind_def)
qed

theorem indications_in_order_witness:
  "\<exists>x'. e2_event_loop_xapp [Xready 4 (Ric_ind (demo_ind 5)) 0, Xready 4 (Ric_ind (demo_ind 6)) 0] busy_xapp =
      Inr (x', [Xwrite_db demo_node \<lparr>rd_type = MAC_STATS_V0, rd_stats = [5]\<rparr>,
        Xwrite_db demo_node \<lparr>rd_type = MAC_STATS_V0, rd_stats = [6]\<rparr>]) \<and>
    worker_thread 2 x' = Inr ([(3, \<lparr>rd_type = MAC_STATS_V0, rd_stats = [5]\<rparr>), (3, \<lparr>rd_type = MAC_STATS_V0, rd_stats = [6]\<rparr>)],
      x'\<lparr>xdisp := []\<rparr>)"
  using indications_in_order [OF busy_xapp_facts(1,2), of "[demo_ind 5, demo_ind 6]" 0]
  by (auto simp: busy_xapp_facts numeral_2_eq_2)

section \<open>The invariant\<close>

text \<open>C11: Over any run of the event loop that respects \<open>fair_xevent\<close> and does not stop the process, the
  state of the xApp stays well formed: every pending request has one running timer in the interest list,
  at most one per kind, and the registries and trees keep their invariants.  \<open>fair_xevent D\<close> admits
  every message and every timer except two: the answer to a setup must name nodes of the kind \<open>D\<close>, and a
  control request, for which the loop has a handler but which the iApp never sends, must come with a
  new descriptor while no control is pending.\<close>

theorem xapp_run_invariant:
  assumes "node_set D" "xapp_inv D x" "fair_events e2_event_xapp (fair_xevent D) es x"
    "e2_event_loop_xapp es x = Inr (x', os)"
  shows "xapp_inv D x'"
proof -
  have "event_loop e2_event_xapp (xapp_inv D) (fair_xevent D)"
    by unfold_locales (rule xapp_turn_keeps [OF assms(1)])
  then show ?thesis
    by (rule event_loop.run_keeps) (use assms in \<open>simp_all add: e2_event_loop_xapp_def\<close>)
qed

theorem xapp_run_invariant_witness:
  "\<exists>x'. e2_event_loop_xapp [Xready 4 (Ric_ind (demo_ind 5)) 0, Xready 4 (Ric_ind (demo_ind 6)) 0] busy_xapp =
      Inr (x', [Xwrite_db demo_node \<lparr>rd_type = MAC_STATS_V0, rd_stats = [5]\<rparr>,
        Xwrite_db demo_node \<lparr>rd_type = MAC_STATS_V0, rd_stats = [6]\<rparr>]) \<and> xapp_inv monolithic_dom x'"
proof -
  let ?es = "[Xready 4 (Ric_ind (demo_ind 5)) 0, Xready 4 (Ric_ind (demo_ind 6)) 0]"
  obtain x' where l: "e2_event_loop_xapp ?es busy_xapp = Inr (x', [Xwrite_db demo_node \<lparr>rd_type = MAC_STATS_V0, rd_stats = [5]\<rparr>,
      Xwrite_db demo_node \<lparr>rd_type = MAC_STATS_V0, rd_stats = [6]\<rparr>])"
    using deliver_run [OF busy_xapp_facts(1), of "[demo_ind 5, demo_ind 6]" 0]
    by (auto simp: e2_event_loop_xapp_def busy_xapp_facts)
  have "fair_events e2_event_xapp (fair_xevent monolithic_dom) ?es busy_xapp"
    by (simp add: fair_xevent_def split: sum.split)
  from xapp_run_invariant [OF mono_nodes.node_set_axioms busy_xapp_facts(1) this l] l show ?thesis by blast
qed

end
