(* ===== verification/E2Agent.thy ===== *)
theory E2Agent
  imports TimerBook AgentPlugin EventLoop E2apEnc
begin

text \<open>
  The E2 agent, the side of the RAN: \<open>src/agent/e2_agent.c\<close>, \<open>msg_handler_agent.c\<close>,
  \<open>not_handler_agent.c\<close> and \<open>e2_agent_api.c\<close>.

  It announces its service models to the RIC, starts a timer per subscription and sends an
  indication whenever the timer expires.  The state of the RAN that the service models read and
  write is \<open>aran\<close>; \<open>aap\<close> is the codec that the encoder of the agent ends in.
\<close>

section \<open>Timers (\<open>asio_agent.c\<close>)\<close>

text \<open>The interest list of the epoll instance, as at the RIC.  The agent does not test the descriptors
  itself: \<open>epoll_ctl\<close> answers -1 for a negative one, for one added twice and for an absent one.  A timer of 0
  milliseconds is admitted; it is disarmed and never expires.\<close>

type_synonym asio_agent = "int list"

definition add_fd_asio_agent :: "asio_agent \<Rightarrow> int \<Rightarrow> asio_agent res" where
  "add_fd_asio_agent ios fd =
    res_bind (c_assert (0 \<le> fd \<and> fd \<notin> set ios)) (\<lambda>_. Inr (fd # ios))"

definition rm_fd_asio_agent :: "asio_agent \<Rightarrow> int \<Rightarrow> asio_agent res" where
  "rm_fd_asio_agent ios fd =
    res_bind (c_assert (fd \<in> set ios)) (\<lambda>_. Inr (remove1 fd ios))"

definition create_timer_ms_asio_agent :: "asio_agent \<Rightarrow> int \<Rightarrow> int \<Rightarrow> int \<Rightarrow> asio_agent res" where
  "create_timer_ms_asio_agent ios initial_ms interval_ms tfd =
    res_bind (c_assert (-1 < initial_ms)) (\<lambda>_.
    res_bind (c_assert (-1 < interval_ms)) (\<lambda>_.
    res_bind (c_assert (tfd \<noteq> -1)) (\<lambda>_.
    add_fd_asio_agent ios tfd)))"

section \<open>State\<close>

text \<open>The service model of an indication event is a pointer, null in the key of a search.\<close>

type_synonym 'st ag_event = "'st sm_agent option ind_event"

record 'st e2_agent =
  aep_fd :: int
  aio :: asio_agent
  aap :: "E2AP_PDU \<Rightarrow> byte_array option"
  aplugin :: "'st plugin_ag"
  aind :: "(int, 'st ag_event) bi_map"
  apend :: "(int, pending_event) bi_map"
  anode :: global_e2_node_id
  aran :: 'st

type_synonym 'st agent_res = "('st e2_agent \<times> e2ap_msg list) res"

text \<open>A handler gets the descriptor of the timer it may create and answers a message,
  \<open>none_msg\<close> for none.\<close>

type_synonym 'st agent_handler = "'st e2_agent \<Rightarrow> int \<Rightarrow> e2ap_msg \<Rightarrow> ('st e2_agent \<times> e2ap_msg) res"

definition init_pending_events_ag :: "(int, pending_event) bi_map" where
  "init_pending_events_ag = bi_map_init cmp_fd cmp_pending_event"

definition init_indication_event :: "(int, 'st ag_event) bi_map" where
  "init_indication_event = bi_map_init cmp_fd cmp_ind_event"

definition e2_init_agent ::
  "(E2AP_PDU \<Rightarrow> byte_array option) \<Rightarrow> int \<Rightarrow> int \<Rightarrow> global_e2_node_id \<Rightarrow> 'st sm_agent list \<Rightarrow> 'st \<Rightarrow>
    'st e2_agent res" where
  "e2_init_agent aper ep_fd port node sms rst =
    res_bind (c_assert (0 < port \<and> port < 65535)) (\<lambda>_.
    res_bind (add_fd_asio_agent [] ep_fd) (\<lambda>i.
    res_bind (init_plugin_ag sms) (\<lambda>p.
    Inr \<lparr>aep_fd = ep_fd, aio = i, aap = aper, aplugin = p, aind = init_indication_event,
      apend = init_pending_events_ag, anode = node, aran = rst\<rparr>)))"

text \<open>The identifier of the node, as \<open>init_agent_api\<close> makes it; the enumeration value of a kind
  that is neither is refused.\<close>

definition agent_node_id ::
  "int \<Rightarrow> int \<Rightarrow> int \<Rightarrow> int \<Rightarrow> int \<Rightarrow> ngran_node \<Rightarrow> global_e2_node_id res" where
  "agent_node_id mcc0 mnc0 digits nb cu_du t =
    res_bind (c_assert (0 < mcc0)) (\<lambda>_.
    res_bind (c_assert (0 < mnc0)) (\<lambda>_.
    res_bind (c_assert (0 < digits)) (\<lambda>_.
    res_bind (c_assert (0 < nb)) (\<lambda>_.
    let pl = \<lparr>mcc = word_of_int mcc0, mnc = word_of_int mnc0, mnc_digit_len = word_of_int digits\<rparr>;
        i = \<lparr>ntype = t, nplmn = pl, nb_id = word_of_int nb, cu_du_id = None\<rparr>
    in if node_is_monolithic t then Inr i
       else if node_is_cu t \<or> node_is_du t then
         res_bind (c_assert (0 < cu_du)) (\<lambda>_. Inr (i\<lparr>cu_du_id := Some (word_of_int cu_du)\<rparr>))
       else Inl AssertFail))))"

section \<open>Messages the agent makes\<close>

definition generate_setup_request_ag :: "'st e2_agent \<Rightarrow> e2_setup_request res" where
  "generate_setup_request_ag ag =
    (let len_rf = size_plugin_ag (aplugin ag) in
     res_bind (c_assert (0 < len_rf)) (\<lambda>_.
     res_bind (setup_ran_funcs len_rf (assoc_rb_tree_front (aplugin ag)) []) (\<lambda>rfs.
     Inr \<lparr>stp_id = anode ag, ran_func_item = rfs\<rparr>)))"

text \<open>A call process identifier is written into \<open>malloc(sizeof(data->len_cpid))\<close>, 8 bytes for a
  structure of 16.\<close>

definition generate_indication :: "sm_ind_data \<Rightarrow> 'st ag_event \<Rightarrow> ric_indication res" where
  "generate_indication data i_ev =
    (case sid_call_process_id data of
       None \<Rightarrow> Inr \<lparr>ind_ric_id = iric_id i_ev, ind_action_id = action_id i_ev, sn = None,
                   ind_type = RIC_IND_REPORT, ind_hdr = sid_hdr data, ind_msg = sid_msg data,
                   ind_call_process_id = None\<rparr>
     | Some b \<Rightarrow> Inl OutOfBounds)"

definition generate_subscription_response :: "ric_gen_id \<Rightarrow> u8 \<Rightarrow> ric_subscription_response" where
  "generate_subscription_response i act =
    \<lparr>resp_ric_id = i, admitted = [\<lparr>ric_act_id = act\<rparr>], not_admitted = []\<rparr>"

definition supported_ric_subscription_request :: "ric_subscription_request \<Rightarrow> bool res" where
  "supported_ric_subscription_request sr =
    res_bind (c_assert (length (action sr) = 1)) (\<lambda>_.
    res_bind (c_assert (act_type (action sr ! 0) = RIC_ACT_REPORT)) (\<lambda>_. Inr True))"

definition generate_sm_subs_data :: "ric_subscription_request \<Rightarrow> sm_subs_data" where
  "generate_sm_subs_data sr =
    \<lparr>sd_event_trigger = event_trigger sr,
     sd_action_def = (case act_definition (action sr ! 0) of None \<Rightarrow> None | Some d \<Rightarrow> Some d)\<rparr>"

section \<open>Handlers\<close>

definition check_valid_msg_type_ag :: "e2_msg_type \<Rightarrow> bool" where
  "check_valid_msg_type_ag t \<longleftrightarrow>
    t = RIC_SUBSCRIPTION_REQUEST \<or> t = RIC_SUBSCRIPTION_DELETE_REQUEST \<or> t = RIC_CONTROL_REQUEST \<or>
    t = E2AP_ERROR_INDICATION \<or> t = E2_SETUP_RESPONSE \<or> t = E2_SETUP_FAILURE \<or>
    t = E2AP_RESET_REQUEST \<or> t = E2AP_RESET_RESPONSE \<or> t = RIC_SERVICE_UPDATE_ACKNOWLEDGE \<or>
    t = RIC_SERVICE_UPDATE_FAILURE \<or> t = RIC_SERVICE_QUERY \<or>
    t = E2_NODE_CONFIGURATION_UPDATE_ACKNOWLEDGE \<or> t = E2_NODE_CONFIGURATION_UPDATE_FAILURE \<or>
    t = E2_CONNECTION_UPDATE"

definition stop_ind_event :: "'st e2_agent \<Rightarrow> ric_gen_id \<Rightarrow> 'st e2_agent res" where
  "stop_ind_event ag i =
    res_bind (bi_map_extract_right (aind ag) \<lparr>iric_id = i, ism = None, action_id = 0\<rparr>) (\<lambda>(fd, m).
    res_bind (c_assert (0 < fd)) (\<lambda>_.
    res_bind (rm_fd_asio_agent (aio ag) fd) (\<lambda>j.
    Inr (ag\<lparr>aio := j, aind := m\<rparr>))))"

definition stop_pending_event_ag :: "'st e2_agent \<Rightarrow> pending_event \<Rightarrow> 'st e2_agent res" where
  "stop_pending_event_ag ag e =
    res_bind (bi_map_extract_right (apend ag) e) (\<lambda>(fd, m).
    res_bind (c_assert (0 < fd)) (\<lambda>_.
    res_bind (rm_fd_asio_agent (aio ag) fd) (\<lambda>j.
    Inr (ag\<lparr>aio := j, apend := m\<rparr>))))"

definition start_setup_timer :: "'st e2_agent \<Rightarrow> int \<Rightarrow> 'st e2_agent res" where
  "start_setup_timer ag tfd =
    res_bind (create_timer_ms_asio_agent (aio ag) 3000 3000 tfd) (\<lambda>j.
    res_bind (bi_map_insert (apend ag) tfd SETUP_REQUEST_PENDING_EVENT) (\<lambda>m.
    Inr (ag\<lparr>aio := j, apend := m\<rparr>)))"

definition e2ap_handle_subscription_request_agent :: "'st agent_handler" where
  "e2ap_handle_subscription_request_agent ag tfd msg =
    (case msg of
       Ric_sub_req sr \<Rightarrow>
         res_bind (supported_ric_subscription_request sr) (\<lambda>b.
         res_bind (c_assert b) (\<lambda>_.
         let data = generate_sm_subs_data sr in
         res_bind (sm_plugin_ag (aplugin ag) (ran_func_id (sr_ric_id sr))) (\<lambda>sm.
         res_bind (ag_on_subscription sm (aran ag) data) (\<lambda>(ms, rst).
         res_bind (create_timer_ms_asio_agent (aio ag) ms ms tfd) (\<lambda>j.
         let a = act_id (action sr ! 0);
             e = \<lparr>iric_id = sr_ric_id sr, ism = Some sm, action_id = a\<rparr>
         in res_bind (bi_map_insert (aind ag) tfd e) (\<lambda>m.
            Inr (ag\<lparr>aran := rst, aio := j, aind := m\<rparr>,
              Ric_sub_resp (generate_subscription_response (sr_ric_id sr) a))))))))
     | _ \<Rightarrow> Inl AssertFail)"

definition e2ap_handle_subscription_delete_request_agent :: "'st agent_handler" where
  "e2ap_handle_subscription_delete_request_agent ag tfd msg =
    (case msg of
       Ric_sub_del_req sdr \<Rightarrow>
         res_bind (stop_ind_event ag (sdr_ric_id sdr)) (\<lambda>ag1.
         Inr (ag1, Ric_sub_del_resp \<lparr>sdresp_ric_id = sdr_ric_id sdr\<rparr>))
     | _ \<Rightarrow> Inl AssertFail)"

definition ba_from_ctrl_out :: "byte_array \<Rightarrow> byte_array option" where
  "ba_from_ctrl_out data = (if 0 < length data then Some data else None)"

definition e2ap_handle_control_request_agent :: "'st agent_handler" where
  "e2ap_handle_control_request_agent ag tfd msg =
    (case msg of
       Ric_ctrl_req cr \<Rightarrow>
         res_bind (c_assert (ack_req cr = Some RIC_CONTROL_REQUEST_ACK)) (\<lambda>_.
         res_bind (sm_plugin_ag (aplugin ag) (ran_func_id (cr_ric_id cr))) (\<lambda>sm.
         res_bind (ag_on_control sm (aran ag) \<lparr>scd_hdr = cr_hdr cr, scd_msg = cr_msg cr\<rparr>) (\<lambda>(out, rst).
         Inr (ag\<lparr>aran := rst\<rparr>,
           Ric_ctrl_ack \<lparr>ca_ric_id = cr_ric_id cr, ca_call_process_id = None,
             ca_status = RIC_CONTROL_STATUS_SUCCESS, control_outcome = ba_from_ctrl_out out\<rparr>))))
     | _ \<Rightarrow> Inl AssertFail)"

definition e2ap_handle_setup_response_agent :: "'st agent_handler" where
  "e2ap_handle_setup_response_agent ag tfd msg =
    (case msg of
       E2_stp_resp sr \<Rightarrow>
         res_bind (stop_pending_event_ag ag SETUP_REQUEST_PENDING_EVENT) (\<lambda>ag1. Inr (ag1, none_msg))
     | _ \<Rightarrow> Inl AssertFail)"

text \<open>The bodies that end in \<open>assert(0!=0 && "Not implemented")\<close>, without a test of the type.\<close>

definition e2ap_handle_error_indication_agent :: "'st agent_handler" where
  "e2ap_handle_error_indication_agent ag tfd msg = Inl NotImplemented"

definition e2ap_handle_setup_failure_agent :: "'st agent_handler" where
  "e2ap_handle_setup_failure_agent ag tfd msg = Inl NotImplemented"

definition e2ap_handle_reset_request_agent :: "'st agent_handler" where
  "e2ap_handle_reset_request_agent ag tfd msg = Inl NotImplemented"

definition e2ap_handle_reset_response_agent :: "'st agent_handler" where
  "e2ap_handle_reset_response_agent ag tfd msg = Inl NotImplemented"

definition e2ap_handle_service_update_ack_agent :: "'st agent_handler" where
  "e2ap_handle_service_update_ack_agent ag tfd msg = Inl NotImplemented"

definition e2ap_handle_service_update_failure_agent :: "'st agent_handler" where
  "e2ap_handle_service_update_failure_agent ag tfd msg = Inl NotImplemented"

definition e2ap_handle_service_query_agent :: "'st agent_handler" where
  "e2ap_handle_service_query_agent ag tfd msg = Inl NotImplemented"

definition e2ap_handle_node_configuration_update_ack_agent :: "'st agent_handler" where
  "e2ap_handle_node_configuration_update_ack_agent ag tfd msg = Inl NotImplemented"

definition e2ap_handle_node_configuration_update_failure_agent :: "'st agent_handler" where
  "e2ap_handle_node_configuration_update_failure_agent ag tfd msg = Inl NotImplemented"

definition e2ap_handle_connection_update_agent :: "'st agent_handler" where
  "e2ap_handle_connection_update_agent ag tfd msg = Inl NotImplemented"

fun init_handle_msg_agent :: "e2_msg_type \<Rightarrow> 'st agent_handler option" where
  "init_handle_msg_agent RIC_SUBSCRIPTION_REQUEST = Some e2ap_handle_subscription_request_agent"
| "init_handle_msg_agent RIC_SUBSCRIPTION_DELETE_REQUEST = Some e2ap_handle_subscription_delete_request_agent"
| "init_handle_msg_agent RIC_CONTROL_REQUEST = Some e2ap_handle_control_request_agent"
| "init_handle_msg_agent E2AP_ERROR_INDICATION = Some e2ap_handle_error_indication_agent"
| "init_handle_msg_agent E2_SETUP_RESPONSE = Some e2ap_handle_setup_response_agent"
| "init_handle_msg_agent E2_SETUP_FAILURE = Some e2ap_handle_setup_failure_agent"
| "init_handle_msg_agent E2AP_RESET_REQUEST = Some e2ap_handle_reset_request_agent"
| "init_handle_msg_agent E2AP_RESET_RESPONSE = Some e2ap_handle_reset_response_agent"
| "init_handle_msg_agent RIC_SERVICE_UPDATE_ACKNOWLEDGE = Some e2ap_handle_service_update_ack_agent"
| "init_handle_msg_agent RIC_SERVICE_UPDATE_FAILURE = Some e2ap_handle_service_update_failure_agent"
| "init_handle_msg_agent RIC_SERVICE_QUERY = Some e2ap_handle_service_query_agent"
| "init_handle_msg_agent E2_NODE_CONFIGURATION_UPDATE_ACKNOWLEDGE =
    Some e2ap_handle_node_configuration_update_ack_agent"
| "init_handle_msg_agent E2_NODE_CONFIGURATION_UPDATE_FAILURE =
    Some e2ap_handle_node_configuration_update_failure_agent"
| "init_handle_msg_agent E2_CONNECTION_UPDATE = Some e2ap_handle_connection_update_agent"
| "init_handle_msg_agent _ = None"

definition e2ap_msg_handle_agent :: "'st agent_handler" where
  "e2ap_msg_handle_agent ag tfd msg =
    res_bind (c_assert (check_valid_msg_type_ag (msg_type msg))) (\<lambda>_.
    case init_handle_msg_agent (msg_type msg) of
      None \<Rightarrow> Inl AssertFail
    | Some h \<Rightarrow> h ag tfd msg)"

definition notification_handle_ag :: "'st e2_agent \<Rightarrow> int \<Rightarrow> 'st e2_agent res" where
  "notification_handle_ag ag tfd = start_setup_timer ag tfd"

section \<open>The event loop\<close>

text \<open>What is waiting at the socket: a message or a notification.\<close>

datatype agent_rcv = Payload e2ap_msg | Notification

text \<open>What \<open>epoll\<close> gives: no event, or a ready descriptor, with what waits at the socket and the
  descriptor the next timer gets.\<close>

datatype agent_event =
    Ag_no_event
  | Ag_ready int agent_rcv int

datatype 'st async_event =
    CHECK_STOP_TOKEN_EVENT
  | SCTP_CONNECTION_SHUTDOWN_EVENT
  | SCTP_MSG_ARRIVED_EVENT e2ap_msg
  | INDICATION_EVENT "'st ag_event"
  | PENDING_EVENT_AG pending_event

definition ind_event_ag :: "'st e2_agent \<Rightarrow> int \<Rightarrow> 'st ag_event option res" where
  "ind_event_ag ag fd =
    res_bind (c_assert (0 < fd)) (\<lambda>_.
    rb_find_value (\<lambda>k. eq_fd fd k = Inr True) (left (aind ag)))"

definition pend_event_ag :: "'st e2_agent \<Rightarrow> int \<Rightarrow> pending_event res" where
  "pend_event_ag ag fd =
    res_bind (c_assert (0 < fd)) (\<lambda>_.
    res_bind (bi_map_size (apend ag)) (\<lambda>sz.
    res_bind (c_assert (sz = 1)) (\<lambda>_.
    res_bind (rb_find_value (\<lambda>k. eq_fd fd k = Inr True) (left (apend ag))) (\<lambda>r.
    case r of None \<Rightarrow> Inl AssertFail | Some e \<Rightarrow> Inr e))))"

definition next_async_event_agent :: "'st e2_agent \<Rightarrow> agent_event \<Rightarrow> 'st async_event res" where
  "next_async_event_agent ag e =
    (case e of
       Ag_no_event \<Rightarrow> Inr CHECK_STOP_TOKEN_EVENT
     | Ag_ready fd rcv tfd \<Rightarrow>
         res_bind (c_assert (0 < fd)) (\<lambda>_.
         if fd = aep_fd ag then
           (case rcv of
              Notification \<Rightarrow> Inr SCTP_CONNECTION_SHUTDOWN_EVENT
            | Payload msg \<Rightarrow> Inr (SCTP_MSG_ARRIVED_EVENT msg))
         else
           res_bind (ind_event_ag ag fd) (\<lambda>r.
           case r of
             Some i_ev \<Rightarrow> Inr (INDICATION_EVENT i_ev)
           | None \<Rightarrow> res_bind (pend_event_ag ag fd) (\<lambda>p. Inr (PENDING_EVENT_AG p)))))"

definition next_tfd :: "agent_event \<Rightarrow> int" where
  "next_tfd e = (case e of Ag_no_event \<Rightarrow> 0 | Ag_ready fd rcv tfd \<Rightarrow> tfd)"

text \<open>\<open>e2ap_enc_indication_ag\<close>: the encoder asserts a header and a message with bytes, and that the PDU
  fits its buffer.\<close>

definition e2ap_enc_indication_ag :: "(E2AP_PDU \<Rightarrow> byte_array option) \<Rightarrow> ric_indication \<Rightarrow> byte_array res" where
  "e2ap_enc_indication_ag aper ind = res_bind (e2ap_enc_indication_asn_pdu ind) (e2ap_enc_asn_pdu_ba aper)"

definition e2_event_agent :: "'st e2_agent \<Rightarrow> agent_event \<Rightarrow> 'st agent_res" where
  "e2_event_agent ag e =
    res_bind (next_async_event_agent ag e) (\<lambda>t.
    case t of
      SCTP_MSG_ARRIVED_EVENT msg \<Rightarrow>
        res_bind (e2ap_msg_handle_agent ag (next_tfd e) msg) (\<lambda>(ag1, ans).
        if msg_type ans \<noteq> NONE_E2_MSG_TYPE then Inr (ag1, [ans]) else Inr (ag1, []))
    | INDICATION_EVENT i_ev \<Rightarrow>
        (case ism i_ev of
           None \<Rightarrow> Inl NullDeref
         | Some sm \<Rightarrow>
             res_bind (ag_on_indication sm (aran ag)) (\<lambda>(data, rst).
             res_bind (generate_indication data i_ev) (\<lambda>ind.
             res_bind (e2ap_enc_indication_ag (aap ag) ind) (\<lambda>ba.
             Inr (ag\<lparr>aran := rst\<rparr>, [Ric_ind ind])))))
    | PENDING_EVENT_AG p \<Rightarrow>
        res_bind (c_assert (p = SETUP_REQUEST_PENDING_EVENT)) (\<lambda>_.
        res_bind (generate_setup_request_ag ag) (\<lambda>sr. Inr (ag, [E2_stp_req sr])))
    | SCTP_CONNECTION_SHUTDOWN_EVENT \<Rightarrow>
        res_bind (notification_handle_ag ag (next_tfd e)) (\<lambda>ag1. Inr (ag1, []))
    | CHECK_STOP_TOKEN_EVENT \<Rightarrow> Inr (ag, []))"

definition e2_event_loop_agent :: "agent_event list \<Rightarrow> 'st e2_agent \<Rightarrow> 'st agent_res" where
  "e2_event_loop_agent es ag = run_events e2_event_agent es ag"

definition e2_start_agent :: "'st e2_agent \<Rightarrow> int \<Rightarrow> agent_event list \<Rightarrow> 'st agent_res" where
  "e2_start_agent ag tfd es =
    res_bind (generate_setup_request_ag ag) (\<lambda>sr.
    res_bind (start_setup_timer ag tfd) (\<lambda>ag1.
    res_bind (e2_event_loop_agent es ag1) (\<lambda>(ag2, out). Inr (ag2, E2_stp_req sr # out))))"

end
