(* ===== verification/E2AgentThms.thy ===== *)
theory E2AgentThms
  imports E2Agent
begin

text \<open>
  The E2 agent: its invariant over a run, the life of a subscription, control and the setup.
\<close>

section \<open>Timers of the agent\<close>

lemma rm_fd_agent_eq: "rm_fd_asio_agent = rm_fd_asio_ric"
  by (intro ext) (simp add: rm_fd_asio_agent_def rm_fd_asio_ric_def)

lemma create_timer_agent_ok:
  "0 \<le> ms \<Longrightarrow> 0 < tfd \<Longrightarrow> tfd \<notin> set ios \<Longrightarrow> create_timer_ms_asio_agent ios ms ms tfd = Inr (tfd # ios)"
  by (simp add: create_timer_ms_asio_agent_def add_fd_asio_agent_def)

section \<open>Two books of timers in one interest list\<close>

lemma book_inv_add_other:
  "book_inv c others ios p \<Longrightarrow> fd \<notin> set ios \<Longrightarrow> book_inv c (insert fd others) (fd # ios) p"
  by (auto simp: book_inv_def)

lemma book_inv_rm_other:
  "book_inv c others ios p \<Longrightarrow> fd \<in> others \<Longrightarrow> book_inv c (others - {fd}) (remove1 fd ios) p"
  by (auto simp: book_inv_def)

lemma book_fds_ev:
  assumes "book_inv c others ios p" "fd \<in> book_fds p"
  obtains e where "book_ev p fd = Some e" "0 < fd"
proof -
  have i: "bm_inv cmp_fd fd_dom c UNIV p" "bm_uniq cmp_fd c p" using assms(1) by (auto simp: book_inv_def)
  obtain e where e: "(fd, e) \<in> set (rb_entries (left p))"
    using assms(2) by (auto simp: book_fds_def bm_pairs_def)
  have k: "keys_in fd_dom (rb_entries (left p))" using i(1) by (simp add: bm_inv_def rb_inv_def)
  then have "0 < fd" using e keys_inD [of fd_dom "rb_entries (left p)" "(fd, e)"] by simp
  moreover have "book_ev p fd = Some e"
    using fd.get_key_uniq [of "rb_entries (left p)" fd e fd] i(2) e k calculation
    by (simp add: book_ev_def bm_get_left_def bm_uniq_def)
  ultimately show ?thesis using that by blast
qed

lemma book_ev_fds: "book_ev p fd = Some e \<Longrightarrow> fd \<in> book_fds p"
  by (force simp: book_ev_def bm_get_left_def book_fds_def bm_pairs_def dest: get_key_SomeD)

section \<open>Invariant\<close>

definition ind_timer :: "'st e2_agent \<Rightarrow> ric_gen_id \<Rightarrow> int option" where
  "ind_timer ag i = book_fd cmp_ind_event (aind ag) \<lparr>iric_id = i, ism = None, action_id = 0\<rparr>"

definition ind_of :: "'st e2_agent \<Rightarrow> int \<Rightarrow> 'st ag_event option" where
  "ind_of ag fd = book_ev (aind ag) fd"

definition setup_timer :: "'st e2_agent \<Rightarrow> int option" where
  "setup_timer ag = book_fd cmp_pending_event (apend ag) SETUP_REQUEST_PENDING_EVENT"

definition agent_inv :: "'st e2_agent \<Rightarrow> bool" where
  "agent_inv ag \<longleftrightarrow>
    book_inv cmp_ind_event (insert (aep_fd ag) (book_fds (apend ag))) (aio ag) (aind ag) \<and>
    book_inv cmp_pending_event (insert (aep_fd ag) (book_fds (aind ag))) (aio ag) (apend ag) \<and>
    0 < aep_fd ag \<and> plugin_ag_inv (aplugin ag) \<and>
    (\<forall>fd e. 0 < fd \<longrightarrow> book_ev (apend ag) fd = Some e \<longrightarrow> e = SETUP_REQUEST_PENDING_EVENT) \<and>
    (\<forall>fd e. 0 < fd \<longrightarrow> ind_of ag fd = Some e \<longrightarrow> ism e \<noteq> None)"

interpretation ind_book: timer_book "cmp_ind_event :: 'st ag_event cmp_fun"
  unfolding timer_book_def by (rule ind_ev.comparator_axioms)

interpretation setup_book: timer_book cmp_pending_event
  unfolding timer_book_def by (rule pend_ev.comparator_axioms)

lemma ind_timer_eq: "book_fd cmp_ind_event (aind ag) e = ind_timer ag (iric_id e)"
  unfolding ind_timer_def book_fd_def bm_get_right_def by (rule ind_book.same_key) simp

lemma agent_inv_ran [simp]: "agent_inv (ag\<lparr>aran := r\<rparr>) = agent_inv ag"
  by (simp add: agent_inv_def ind_of_def)

lemma agent_simps [simp]:
  "ind_timer (ag\<lparr>aran := r\<rparr>) = ind_timer ag" "setup_timer (ag\<lparr>aran := r\<rparr>) = setup_timer ag"
  "ind_of (ag\<lparr>aran := r\<rparr>) = ind_of ag" "ind_timer (ag\<lparr>apend := p\<rparr>) = ind_timer ag"
  "ind_of (ag\<lparr>apend := p\<rparr>) = ind_of ag" "setup_timer (ag\<lparr>aind := q\<rparr>) = setup_timer ag"
  "ind_timer (ag\<lparr>aio := j\<rparr>) = ind_timer ag" "setup_timer (ag\<lparr>aio := j\<rparr>) = setup_timer ag"
  "ind_of (ag\<lparr>aio := j\<rparr>) = ind_of ag"
  by (simp_all add: fun_eq_iff ind_timer_def setup_timer_def ind_of_def)

lemma e2_init_agent_ok:
  assumes "0 < ep_fd" "0 < port" "port < 65535" "distinct (map ag_ran_func_id sms)"
  obtains ag where "e2_init_agent aper ep_fd port node sms r = Inr ag" "agent_inv ag" "aio ag = [ep_fd]" "aap ag = aper"
    "setup_timer ag = None" "ind_timer ag = (\<lambda>_. None)" "aep_fd ag = ep_fd" "anode ag = node" "aran ag = r"
    "plugin_ag_get (aplugin ag) = map_of (map (\<lambda>sm. (ag_ran_func_id sm, sm)) sms)"
    "size_plugin_ag (aplugin ag) = length sms"
proof -
  obtain p where p: "init_plugin_ag sms = Inr p" "plugin_ag_inv p"
    "plugin_ag_get p = map_of (map (\<lambda>sm. (ag_ran_func_id sm, sm)) sms)" "assoc_rb_tree_size p = length sms"
    by (rule init_plugin_ag_ok [OF assms(4)])
  let ?ag = "\<lparr>aep_fd = ep_fd, aio = [ep_fd], aap = aper, aplugin = p, aind = init_indication_event,
      apend = init_pending_events_ag, anode = node, aran = r\<rparr>"
  have "agent_inv ?ag"
    using assms(1) p(2) by (simp add: agent_inv_def init_indication_event_def init_pending_events_ag_def book_init ind_of_def)
  moreover have "setup_timer ?ag = None" "ind_timer ?ag = (\<lambda>_. None)"
    by (simp_all add: fun_eq_iff setup_timer_def ind_timer_def init_indication_event_def init_pending_events_ag_def book_init)
  moreover have "e2_init_agent aper ep_fd port node sms r = Inr ?ag"
    using assms by (simp add: e2_init_agent_def add_fd_asio_agent_def p(1))
  ultimately show ?thesis using that [of ?ag] p(3,4) by (simp add: size_plugin_ag_def)
qed

section \<open>Timers of subscriptions\<close>

lemma start_ind_ok:
  assumes "agent_inv ag" "0 \<le> ms" "0 < tfd" "tfd \<notin> set (aio ag)" "ind_timer ag (iric_id e) = None"
    "ism e \<noteq> None"
  obtains m ag' where "create_timer_ms_asio_agent (aio ag) ms ms tfd = Inr (tfd # aio ag)"
    "bi_map_insert (aind ag) tfd e = Inr m" "ag' = ag\<lparr>aio := tfd # aio ag, aind := m\<rparr>"
    "agent_inv ag'" "ind_timer ag' = (ind_timer ag)(iric_id e \<mapsto> tfd)"
    "\<And>f. 0 < f \<Longrightarrow> ind_of ag' f = (if f = tfd then Some e else ind_of ag f)"
proof -
  have b: "book_inv cmp_ind_event (insert (aep_fd ag) (book_fds (apend ag))) (aio ag) (aind ag)"
    "book_inv cmp_pending_event (insert (aep_fd ag) (book_fds (aind ag))) (aio ag) (apend ag)"
    using assms(1) by (simp_all add: agent_inv_def)
  have n: "book_fd cmp_ind_event (aind ag) e = None" using assms(5) by (simp add: ind_timer_eq)
  obtain m where m: "book_start (aio ag) (aind ag) 1 tfd e = Inr (tfd # aio ag, m)"
    "book_inv cmp_ind_event (insert (aep_fd ag) (book_fds (apend ag))) (tfd # aio ag) m"
    "book_fd cmp_ind_event m = (\<lambda>q. if cmp_ind_event q e = 0 then Some tfd else book_fd cmp_ind_event (aind ag) q)"
    "\<And>f. 0 < f \<Longrightarrow> book_ev m f = (if f = tfd then Some e else book_ev (aind ag) f)"
    "book_fds m = insert tfd (book_fds (aind ag))"
    by (rule ind_book.start_ok [OF b(1) _ assms(3,4) n, of 1]) (auto intro: that)
  let ?ag = "ag\<lparr>aio := tfd # aio ag, aind := m\<rparr>"
  have o: "ind_of ?ag f = (if f = tfd then Some e else ind_of ag f)" if "0 < f" for f
    using m(4) [OF that] by (simp add: ind_of_def)
  have t: "ind_timer ?ag = (ind_timer ag)(iric_id e \<mapsto> tfd)" by (simp add: fun_eq_iff ind_timer_def m(3))
  have p: "book_inv cmp_pending_event (insert tfd (insert (aep_fd ag) (book_fds (aind ag)))) (tfd # aio ag) (apend ag)"
    by (rule book_inv_add_other [OF b(2) assms(4)])
  have "agent_inv ?ag"
    using assms(1,6) m(2,5) p o by (auto simp: agent_inv_def insert_commute)
  moreover have "create_timer_ms_asio_agent (aio ag) ms ms tfd = Inr (tfd # aio ag)"
    by (rule create_timer_agent_ok [OF assms(2-4)])
  moreover have "bi_map_insert (aind ag) tfd e = Inr m" using m(1) by (auto simp: book_start_def res_bind_eq_Inr)
  ultimately show ?thesis using that [of m ?ag] t o by simp
qed

lemma stop_ind_ok:
  assumes "agent_inv ag" "ind_timer ag i = Some fd"
  obtains ag' m where "stop_ind_event ag i = Inr ag'" "ag' = ag\<lparr>aio := remove1 fd (aio ag), aind := m\<rparr>"
    "agent_inv ag'" "ind_timer ag' = (ind_timer ag)(i := None)"
    "\<And>f. 0 < f \<Longrightarrow> ind_of ag' f = (if f = fd then None else ind_of ag f)" "fd \<in> set (aio ag)" "0 < fd"
proof -
  let ?e = "\<lparr>iric_id = i, ism = None, action_id = 0\<rparr> :: 'a ag_event"
  have b: "book_inv cmp_ind_event (insert (aep_fd ag) (book_fds (apend ag))) (aio ag) (aind ag)"
    "book_inv cmp_pending_event (insert (aep_fd ag) (book_fds (aind ag))) (aio ag) (apend ag)"
    using assms(1) by (simp_all add: agent_inv_def)
  have n: "book_fd cmp_ind_event (aind ag) ?e = Some fd" using assms(2) by (simp add: ind_timer_eq)
  obtain m where m: "book_stop (aio ag) (aind ag) ?e = Inr (remove1 fd (aio ag), m)"
    "book_inv cmp_ind_event (insert (aep_fd ag) (book_fds (apend ag))) (remove1 fd (aio ag)) m"
    "book_fd cmp_ind_event m = (\<lambda>q. if cmp_ind_event q ?e = 0 then None else book_fd cmp_ind_event (aind ag) q)"
    "\<And>f. 0 < f \<Longrightarrow> book_ev m f = (if f = fd then None else book_ev (aind ag) f)"
    "book_fds m = book_fds (aind ag) - {fd}"
    by (rule ind_book.stop_ok [OF b(1) n]) (rule that)
  note f = ind_book.fd_facts [OF b(1) n]
  let ?ag = "ag\<lparr>aio := remove1 fd (aio ag), aind := m\<rparr>"
  have o: "ind_of ?ag f = (if f = fd then None else ind_of ag f)" if "0 < f" for f
    using m(4) [OF that] by (simp add: ind_of_def)
  have t: "ind_timer ?ag = (ind_timer ag)(i := None)" by (simp add: fun_eq_iff ind_timer_def m(3))
  have p: "book_inv cmp_pending_event (insert (aep_fd ag) (book_fds (aind ag)) - {fd}) (remove1 fd (aio ag)) (apend ag)"
    by (rule book_inv_rm_other [OF b(2)]) (use f in simp)
  have s: "insert (aep_fd ag) (book_fds (aind ag)) - {fd} = insert (aep_fd ag) (book_fds (aind ag) - {fd})"
    using f by auto
  have "agent_inv ?ag"
    using assms(1) m(2,5) p o s by (auto simp: agent_inv_def)
  moreover have "stop_ind_event ag i = Inr ?ag"
    using m(1) by (auto simp: book_stop_def stop_ind_event_def rm_fd_agent_eq res_bind_eq_Inr)
  ultimately show ?thesis using that [of ?ag m] t o f by simp
qed

lemma stop_ind_absent:
  assumes "agent_inv ag" "ind_timer ag i = None"
  shows "stop_ind_event ag i = Inl AssertFail"
proof -
  have "bm_inv cmp_fd fd_dom cmp_ind_event UNIV (aind ag)" using assms(1) by (simp add: agent_inv_def book_inv_def)
  then show ?thesis
    using two_comparators.extract_right_absent [OF ind_book.maps, of "aind ag"
        "\<lparr>iric_id = i, ism = None, action_id = 0\<rparr>"] assms(2)
    by (simp add: stop_ind_event_def ind_timer_def book_fd_def)
qed

section \<open>The timer of the setup request\<close>

lemma start_setup_ok:
  assumes "agent_inv ag" "0 < tfd" "tfd \<notin> set (aio ag)" "setup_timer ag = None"
  obtains m ag' where "start_setup_timer ag tfd = Inr ag'" "ag' = ag\<lparr>aio := tfd # aio ag, apend := m\<rparr>"
    "agent_inv ag'" "setup_timer ag' = Some tfd"
proof -
  have b: "book_inv cmp_ind_event (insert (aep_fd ag) (book_fds (apend ag))) (aio ag) (aind ag)"
    "book_inv cmp_pending_event (insert (aep_fd ag) (book_fds (aind ag))) (aio ag) (apend ag)"
    using assms(1) by (simp_all add: agent_inv_def)
  obtain m where m: "book_start (aio ag) (apend ag) 3000 tfd SETUP_REQUEST_PENDING_EVENT = Inr (tfd # aio ag, m)"
    "book_inv cmp_pending_event (insert (aep_fd ag) (book_fds (aind ag))) (tfd # aio ag) m"
    "book_fd cmp_pending_event m = (\<lambda>q. if cmp_pending_event q SETUP_REQUEST_PENDING_EVENT = 0 then Some tfd
      else book_fd cmp_pending_event (apend ag) q)"
    "\<And>f. 0 < f \<Longrightarrow> book_ev m f = (if f = tfd then Some SETUP_REQUEST_PENDING_EVENT else book_ev (apend ag) f)"
    "book_fds m = insert tfd (book_fds (apend ag))"
    by (rule setup_book.start_ok [OF b(2) _ assms(2,3) assms(4) [unfolded setup_timer_def], of 3000])
       (auto intro: that)
  let ?ag = "ag\<lparr>aio := tfd # aio ag, apend := m\<rparr>"
  have p: "book_inv cmp_ind_event (insert tfd (insert (aep_fd ag) (book_fds (apend ag)))) (tfd # aio ag) (aind ag)"
    by (rule book_inv_add_other [OF b(1) assms(3)])
  have "agent_inv ?ag" using assms(1) m(2,4,5) p by (auto simp: agent_inv_def insert_commute)
  moreover have "start_setup_timer ag tfd = Inr ?ag"
    using m(1) create_timer_agent_ok [of 3000 tfd "aio ag"] assms(2,3)
    by (auto simp: book_start_def start_setup_timer_def res_bind_eq_Inr)
  moreover have "setup_timer ?ag = Some tfd" by (simp add: setup_timer_def m(3))
  ultimately show ?thesis using that [of ?ag m] by simp
qed

lemma stop_setup_ok:
  assumes "agent_inv ag" "setup_timer ag = Some fd"
  obtains m ag' where "stop_pending_event_ag ag SETUP_REQUEST_PENDING_EVENT = Inr ag'"
    "ag' = ag\<lparr>aio := remove1 fd (aio ag), apend := m\<rparr>"
    "agent_inv ag'" "setup_timer ag' = None" "fd \<in> set (aio ag)"
    "bi_map_size (apend ag) = Inr 1" "book_fds (apend ag) = {fd}"
proof -
  have b: "book_inv cmp_ind_event (insert (aep_fd ag) (book_fds (apend ag))) (aio ag) (aind ag)"
    "book_inv cmp_pending_event (insert (aep_fd ag) (book_fds (aind ag))) (aio ag) (apend ag)"
    using assms(1) by (simp_all add: agent_inv_def)
  note s = assms(2) [unfolded setup_timer_def]
  note f = setup_book.fd_facts [OF b(2) s]
  obtain m n where m: "book_stop (aio ag) (apend ag) SETUP_REQUEST_PENDING_EVENT = Inr (remove1 fd (aio ag), m)"
    "book_inv cmp_pending_event (insert (aep_fd ag) (book_fds (aind ag))) (remove1 fd (aio ag)) m"
    "book_fd cmp_pending_event m = (\<lambda>q. if cmp_pending_event q SETUP_REQUEST_PENDING_EVENT = 0 then None
      else book_fd cmp_pending_event (apend ag) q)"
    "\<And>f. 0 < f \<Longrightarrow> book_ev m f = (if f = fd then None else book_ev (apend ag) f)"
    "book_fds m = book_fds (apend ag) - {fd}" "bi_map_size (apend ag) = Inr (Suc n)" "bi_map_size m = Inr n"
    by (rule setup_book.stop_ok [OF b(2) s]) (rule that)
  have "fd' = fd" if g: "fd' \<in> book_fds (apend ag)" for fd'
  proof -
    obtain e where e: "book_ev (apend ag) fd' = Some e" "0 < fd'" by (rule book_fds_ev [OF b(2) g])
    then have "e = SETUP_REQUEST_PENDING_EVENT" using assms(1) by (simp add: agent_inv_def)
    then show ?thesis using setup_book.fd_of_ev [OF b(2) e] s by simp
  qed
  then have one: "book_fds (apend ag) = {fd}" using f(4) by blast
  then have "bm_pairs m = []" using m(5) by (simp add: book_fds_def)
  then have n: "n = 0"
    using m(7) bi_map_size_ok [of cmp_fd fd_dom cmp_pending_event UNIV m] m(2) by (simp add: book_inv_def)
  let ?ag = "ag\<lparr>aio := remove1 fd (aio ag), apend := m\<rparr>"
  have p: "book_inv cmp_ind_event (insert (aep_fd ag) (book_fds (apend ag)) - {fd}) (remove1 fd (aio ag)) (aind ag)"
    by (rule book_inv_rm_other [OF b(1)]) (use f in simp)
  have q: "insert (aep_fd ag) (book_fds (apend ag)) - {fd} = insert (aep_fd ag) (book_fds m)"
    using f m(5) by auto
  have "agent_inv ?ag" using assms(1) m(2,4) p q by (auto simp: agent_inv_def split: if_splits)
  moreover have "stop_pending_event_ag ag SETUP_REQUEST_PENDING_EVENT = Inr ?ag"
    using m(1) by (auto simp: book_stop_def stop_pending_event_ag_def rm_fd_agent_eq res_bind_eq_Inr)
  moreover have "setup_timer ?ag = None" by (simp add: setup_timer_def m(3))
  ultimately show ?thesis using that [of ?ag m] f m(6) n one by simp
qed

lemma stop_setup_absent:
  assumes "agent_inv ag" "setup_timer ag = None"
  shows "stop_pending_event_ag ag SETUP_REQUEST_PENDING_EVENT = Inl AssertFail"
proof -
  have "bm_inv cmp_fd fd_dom cmp_pending_event UNIV (apend ag)" using assms(1) by (simp add: agent_inv_def book_inv_def)
  then show ?thesis
    using two_comparators.extract_right_absent [OF setup_book.maps, of "apend ag" SETUP_REQUEST_PENDING_EVENT] assms(2)
    by (simp add: stop_pending_event_ag_def setup_timer_def book_fd_def)
qed

section \<open>What is ready\<close>

lemma next_socket:
  "agent_inv ag \<Longrightarrow> next_async_event_agent ag (Ag_ready (aep_fd ag) (Payload msg) tfd) = Inr (SCTP_MSG_ARRIVED_EVENT msg)"
  "agent_inv ag \<Longrightarrow> next_async_event_agent ag (Ag_ready (aep_fd ag) Notification tfd) = Inr SCTP_CONNECTION_SHUTDOWN_EVENT"
  by (simp_all add: next_async_event_agent_def agent_inv_def)

lemma find_ind:
  assumes "agent_inv ag" "0 < fd"
  shows "ind_event_ag ag fd = Inr (ind_of ag fd)"
proof -
  have "bm_inv cmp_fd fd_dom cmp_ind_event UNIV (aind ag)" using assms(1) by (simp add: agent_inv_def book_inv_def)
  from find_fd_book [OF this assms(2)] show ?thesis using assms(2) by (simp add: ind_event_ag_def ind_of_def)
qed

lemma next_ind:
  assumes "agent_inv ag" "0 < fd" "ind_of ag fd = Some e"
  shows "next_async_event_agent ag (Ag_ready fd rcv tfd) = Inr (INDICATION_EVENT e)"
proof -
  have "fd \<in> book_fds (aind ag)" using assms(3) by (simp add: ind_of_def book_ev_fds)
  then have "fd \<noteq> aep_fd ag" using assms(1) by (auto simp: agent_inv_def book_inv_def)
  then show ?thesis using assms by (simp add: next_async_event_agent_def find_ind)
qed

lemma next_setup:
  assumes "agent_inv ag" "setup_timer ag = Some fd"
  shows "next_async_event_agent ag (Ag_ready fd rcv tfd) = Inr (PENDING_EVENT_AG SETUP_REQUEST_PENDING_EVENT)"
proof -
  have b: "book_inv cmp_pending_event (insert (aep_fd ag) (book_fds (aind ag))) (aio ag) (apend ag)"
    using assms(1) by (simp add: agent_inv_def)
  note f = setup_book.fd_facts [OF b assms(2) [unfolded setup_timer_def]]
  have "ind_of ag fd = None" using f(2) book_ev_fds [of "aind ag" fd] by (cases "ind_of ag fd") (auto simp: ind_of_def)
  moreover have "bi_map_size (apend ag) = Inr 1" by (rule stop_setup_ok [OF assms])
  moreover obtain e where "book_ev (apend ag) fd = Some e" "cmp_pending_event SETUP_REQUEST_PENDING_EVENT e = 0"
    by (rule setup_book.ev_of_fd [OF b assms(2) [unfolded setup_timer_def]]) (rule that)
  moreover have "bm_inv cmp_fd fd_dom cmp_pending_event UNIV (apend ag)" using b by (simp add: book_inv_def)
  ultimately show ?thesis
    using f by (simp add: next_async_event_agent_def find_ind [OF assms(1)] pend_event_ag_def find_fd_book)
qed

section \<open>Turns of the loop\<close>

text \<open>The indication of a report, and those that pass the assertions of the encoder: header and
  message have bytes, and the PDU fits the buffer.\<close>

definition report_ind :: "ric_gen_id \<Rightarrow> u8 \<Rightarrow> sm_ind_data \<Rightarrow> ric_indication" where
  "report_ind i a d = \<lparr>ind_ric_id = i, ind_action_id = a, sn = None, ind_type = RIC_IND_REPORT,
    ind_hdr = sid_hdr d, ind_msg = sid_msg d, ind_call_process_id = None\<rparr>"

definition ind_sends :: "(E2AP_PDU \<Rightarrow> byte_array option) \<Rightarrow> ric_indication \<Rightarrow> bool" where
  "ind_sends aper ind \<longleftrightarrow> ind_hdr ind \<noteq> [] \<and> ind_msg ind \<noteq> [] \<and> pdu_fits aper (enc_msg (U_ric_ind ind))"

lemma ind_sends_iff: "ind_sends aper ind \<longleftrightarrow> (\<exists>ba. e2ap_enc_indication_ag aper ind = Inr ba)"
  by (auto simp: ind_sends_def e2ap_enc_indication_ag_def pdu_fits_iff res_bind_eq_Inr e2ap_enc_indication_asn_pdu_def
      split: if_splits)

lemma ind_send_stops:
  "\<not> ind_sends aper ind \<Longrightarrow> ind_call_process_id ind = None \<Longrightarrow> e2ap_enc_indication_ag aper ind = Inl AssertFail"
  by (auto simp: ind_sends_def e2ap_enc_indication_ag_def pdu_fits_def e2ap_enc_indication_asn_pdu_def
      e2ap_enc_asn_pdu_ba_def put_octets_opt_def split: option.splits sum.splits if_splits)

lemma sub_event:
  assumes "agent_inv ag" "action sr = [a]" "act_type a = RIC_ACT_REPORT" "0 < ran_func_id (sr_ric_id sr)"
    "plugin_ag_get (aplugin ag) (ran_func_id (sr_ric_id sr)) = Some sm"
    "ag_on_subscription sm (aran ag) \<lparr>sd_event_trigger = event_trigger sr, sd_action_def = act_definition a\<rparr> = Inr (ms, r)"
    "0 \<le> ms" "0 < tfd" "tfd \<notin> set (aio ag)" "ind_timer ag (sr_ric_id sr) = None"
  obtains ag' m where "e2_event_agent ag (Ag_ready (aep_fd ag) (Payload (Ric_sub_req sr)) tfd) =
      Inr (ag', [Ric_sub_resp \<lparr>resp_ric_id = sr_ric_id sr, admitted = [\<lparr>ric_act_id = act_id a\<rparr>], not_admitted = []\<rparr>])"
    "ag' = ag\<lparr>aran := r, aio := tfd # aio ag, aind := m\<rparr>" "agent_inv ag'"
    "ind_timer ag' = (ind_timer ag)(sr_ric_id sr \<mapsto> tfd)"
    "\<And>f. 0 < f \<Longrightarrow> ind_of ag' f = (if f = tfd
      then Some \<lparr>iric_id = sr_ric_id sr, ism = Some sm, action_id = act_id a\<rparr> else ind_of ag f)"
proof -
  let ?e = "\<lparr>iric_id = sr_ric_id sr, ism = Some sm, action_id = act_id a\<rparr>"
  have i: "agent_inv (ag\<lparr>aran := r\<rparr>)" using assms(1) by simp
  obtain m ag' where m: "create_timer_ms_asio_agent (aio (ag\<lparr>aran := r\<rparr>)) ms ms tfd = Inr (tfd # aio (ag\<lparr>aran := r\<rparr>))"
    "bi_map_insert (aind (ag\<lparr>aran := r\<rparr>)) tfd ?e = Inr m"
    "ag' = ag\<lparr>aran := r, aio := tfd # aio (ag\<lparr>aran := r\<rparr>), aind := m\<rparr>"
    "agent_inv ag'" "ind_timer ag' = (ind_timer (ag\<lparr>aran := r\<rparr>))(iric_id ?e \<mapsto> tfd)"
    "\<And>f. 0 < f \<Longrightarrow> ind_of ag' f = (if f = tfd then Some ?e else ind_of (ag\<lparr>aran := r\<rparr>) f)"
    by (rule start_ind_ok [OF i assms(7), of tfd ?e]) (use assms that in auto)
  have d: "generate_sm_subs_data sr = \<lparr>sd_event_trigger = event_trigger sr, sd_action_def = act_definition a\<rparr>"
    using assms(2) by (cases "act_definition a") (simp_all add: generate_sm_subs_data_def)
  have sm: "sm_plugin_ag (aplugin ag) (ran_func_id (sr_ric_id sr)) = Inr sm"
    using assms(1,4,5) by (simp add: agent_inv_def sm_plugin_ag_eq)
  have ct: "create_timer_ms_asio_agent (aio ag) ms ms tfd = Inr (tfd # aio ag)" "bi_map_insert (aind ag) tfd ?e = Inr m"
    using m(1,2) by simp_all
  have "e2_event_agent ag (Ag_ready (aep_fd ag) (Payload (Ric_sub_req sr)) tfd) =
      Inr (ag', [Ric_sub_resp \<lparr>resp_ric_id = sr_ric_id sr, admitted = [\<lparr>ric_act_id = act_id a\<rparr>], not_admitted = []\<rparr>])"
    using assms(2,3,6) m(3) ct
    by (simp add: e2_event_agent_def next_socket [OF assms(1)] next_tfd_def e2ap_msg_handle_agent_def
        check_valid_msg_type_ag_def e2ap_handle_subscription_request_agent_def
        supported_ric_subscription_request_def d sm Let_def generate_subscription_response_def)
  then show ?thesis using that [of ag' m] m(3-6) by simp
qed

lemma tick_event:
  assumes "agent_inv ag" "0 < fd" "ind_of ag fd = Some \<lparr>iric_id = i, ism = Some sm, action_id = a\<rparr>"
    "ag_on_indication sm (aran ag) = Inr (d, r)" "sid_call_process_id d = None" "ind_sends (aap ag) (report_ind i a d)"
  shows "e2_event_agent ag (Ag_ready fd rcv tfd) = Inr (ag\<lparr>aran := r\<rparr>, [Ric_ind (report_ind i a d)])"
  using assms(4-6)
  by (auto simp: e2_event_agent_def next_ind [OF assms(1-3)] generate_indication_def report_ind_def ind_sends_iff)

lemma tick_stops:
  assumes "agent_inv ag" "0 < fd" "ind_of ag fd = Some \<lparr>iric_id = i, ism = Some sm, action_id = a\<rparr>"
    "ag_on_indication sm (aran ag) = Inr (d, r)" "sid_call_process_id d = None" "\<not> ind_sends (aap ag) (report_ind i a d)"
  shows "e2_event_agent ag (Ag_ready fd rcv tfd) = Inl AssertFail"
  using assms(4,5) ind_send_stops [OF assms(6)] unfolding report_ind_def
  by (simp add: e2_event_agent_def next_ind [OF assms(1-3)] generate_indication_def report_ind_def)

lemma del_event:
  assumes "agent_inv ag" "ind_timer ag (sdr_ric_id sdr) = Some fd"
  obtains ag' m where "e2_event_agent ag (Ag_ready (aep_fd ag) (Payload (Ric_sub_del_req sdr)) tfd) =
      Inr (ag', [Ric_sub_del_resp \<lparr>sdresp_ric_id = sdr_ric_id sdr\<rparr>])"
    "ag' = ag\<lparr>aio := remove1 fd (aio ag), aind := m\<rparr>" "agent_inv ag'"
    "ind_timer ag' = (ind_timer ag)(sdr_ric_id sdr := None)"
    "\<And>f. 0 < f \<Longrightarrow> ind_of ag' f = (if f = fd then None else ind_of ag f)"
proof -
  obtain ag' m where m: "stop_ind_event ag (sdr_ric_id sdr) = Inr ag'" "ag' = ag\<lparr>aio := remove1 fd (aio ag), aind := m\<rparr>"
    "agent_inv ag'" "ind_timer ag' = (ind_timer ag)(sdr_ric_id sdr := None)"
    "\<And>f. 0 < f \<Longrightarrow> ind_of ag' f = (if f = fd then None else ind_of ag f)"
    by (rule stop_ind_ok [OF assms]) (rule that)
  have "e2_event_agent ag (Ag_ready (aep_fd ag) (Payload (Ric_sub_del_req sdr)) tfd) =
      Inr (ag', [Ric_sub_del_resp \<lparr>sdresp_ric_id = sdr_ric_id sdr\<rparr>])"
    by (simp add: e2_event_agent_def next_socket [OF assms(1)] next_tfd_def e2ap_msg_handle_agent_def
        check_valid_msg_type_ag_def e2ap_handle_subscription_delete_request_agent_def m(1))
  then show ?thesis using that [of ag' m] m by simp
qed

lemma ctrl_event:
  assumes "agent_inv ag" "ack_req cr = Some RIC_CONTROL_REQUEST_ACK" "0 < ran_func_id (cr_ric_id cr)"
    "plugin_ag_get (aplugin ag) (ran_func_id (cr_ric_id cr)) = Some sm"
    "ag_on_control sm (aran ag) \<lparr>scd_hdr = cr_hdr cr, scd_msg = cr_msg cr\<rparr> = Inr (b, r)"
  shows "e2_event_agent ag (Ag_ready (aep_fd ag) (Payload (Ric_ctrl_req cr)) tfd) = Inr (ag\<lparr>aran := r\<rparr>,
    [Ric_ctrl_ack \<lparr>ca_ric_id = cr_ric_id cr, ca_call_process_id = None, ca_status = RIC_CONTROL_STATUS_SUCCESS,
      control_outcome = (if b = [] then None else Some b)\<rparr>])"
proof -
  have sm: "sm_plugin_ag (aplugin ag) (ran_func_id (cr_ric_id cr)) = Inr sm"
    using assms(1,3,4) by (simp add: agent_inv_def sm_plugin_ag_eq)
  then show ?thesis
    using assms(2,5)
    by (simp add: e2_event_agent_def next_socket [OF assms(1)] next_tfd_def e2ap_msg_handle_agent_def
        check_valid_msg_type_ag_def e2ap_handle_control_request_agent_def ba_from_ctrl_out_def)
qed

lemma setup_request_ag_ok:
  assumes "agent_inv ag" "0 < size_plugin_ag (aplugin ag)" "announced (aplugin ag) = Inr rfs"
  shows "generate_setup_request_ag ag = Inr \<lparr>stp_id = anode ag, ran_func_item = rfs\<rparr>"
proof -
  have i: "plugin_ag_inv (aplugin ag)" using assms(1) by (simp add: agent_inv_def)
  show ?thesis
    using setup_list_ok [OF i] assms(2,3) by (simp add: generate_setup_request_ag_def size_plugin_ag_def Let_def)
qed

lemma setup_resp_event:
  assumes "agent_inv ag" "setup_timer ag = Some fd"
  obtains ag' m where "e2_event_agent ag (Ag_ready (aep_fd ag) (Payload (E2_stp_resp sr)) tfd) = Inr (ag', [])"
    "ag' = ag\<lparr>aio := remove1 fd (aio ag), apend := m\<rparr>" "agent_inv ag'" "setup_timer ag' = None"
proof -
  obtain m ag' where m: "stop_pending_event_ag ag SETUP_REQUEST_PENDING_EVENT = Inr ag'"
    "ag' = ag\<lparr>aio := remove1 fd (aio ag), apend := m\<rparr>" "agent_inv ag'" "setup_timer ag' = None"
    by (rule stop_setup_ok [OF assms]) (rule that)
  have "e2_event_agent ag (Ag_ready (aep_fd ag) (Payload (E2_stp_resp sr)) tfd) = Inr (ag', [])"
    by (simp add: e2_event_agent_def next_socket [OF assms(1)] next_tfd_def e2ap_msg_handle_agent_def
        check_valid_msg_type_ag_def e2ap_handle_setup_response_agent_def m(1))
  then show ?thesis using that [of ag' m] m by simp
qed

lemma setup_timeout_event:
  assumes "agent_inv ag" "setup_timer ag = Some fd" "generate_setup_request_ag ag = Inr sr"
  shows "e2_event_agent ag (Ag_ready fd rcv tfd) = Inr (ag, [E2_stp_req sr])"
  using assms(3) by (simp add: e2_event_agent_def next_setup [OF assms(1,2)])

section \<open>The invariant along a run\<close>

text \<open>What the environment does: new timers get descriptors that are not in use, the RIC does not
  reuse the identifier of a running subscription, and the connection is not lost while the
  answer of a setup request is awaited.\<close>

definition fair_agent :: "'st e2_agent \<Rightarrow> agent_event \<Rightarrow> bool" where
  "fair_agent ag e \<longleftrightarrow>
    (case e of
       Ag_no_event \<Rightarrow> True
     | Ag_ready fd rcv tfd \<Rightarrow> 0 < tfd \<and> tfd \<notin> set (aio ag) \<and>
         (case rcv of
            Notification \<Rightarrow> fd = aep_fd ag \<longrightarrow> setup_timer ag = None
          | Payload msg \<Rightarrow>
              (case msg of Ric_sub_req sr \<Rightarrow> ind_timer ag (sr_ric_id sr) = None | _ \<Rightarrow> True)))"

lemma supported_single:
  "supported_ric_subscription_request sr = Inr b \<Longrightarrow> b \<and> (\<exists>a. action sr = [a] \<and> act_type a = RIC_ACT_REPORT)"
  by (cases "action sr") (auto simp: supported_ric_subscription_request_def res_bind_eq_Inr)

lemma agent_other: "e2ap_msg_handle_agent ag tfd (Other_msg t) = Inr r \<Longrightarrow> False"
  by (cases t) (simp_all add: e2ap_msg_handle_agent_def check_valid_msg_type_ag_def
      e2ap_handle_subscription_request_agent_def e2ap_handle_subscription_delete_request_agent_def
      e2ap_handle_control_request_agent_def e2ap_handle_setup_response_agent_def
      e2ap_handle_error_indication_agent_def e2ap_handle_setup_failure_agent_def
      e2ap_handle_reset_request_agent_def e2ap_handle_reset_response_agent_def
      e2ap_handle_service_update_ack_agent_def e2ap_handle_service_update_failure_agent_def
      e2ap_handle_service_query_agent_def e2ap_handle_node_configuration_update_ack_agent_def
      e2ap_handle_node_configuration_update_failure_agent_def e2ap_handle_connection_update_agent_def)

lemma agent_handler_keeps:
  assumes "agent_inv ag" "fair_agent ag (Ag_ready fd (Payload msg) tfd)" "e2ap_msg_handle_agent ag tfd msg = Inr (ag', ans)"
  shows "agent_inv ag'"
proof (cases msg)
  case (Ric_sub_req sr)
  obtain sm ms r j m where h:
    "create_timer_ms_asio_agent (aio ag) ms ms tfd = Inr j"
    "bi_map_insert (aind ag) tfd \<lparr>iric_id = sr_ric_id sr, ism = Some sm, action_id = act_id (action sr ! 0)\<rparr> = Inr m"
    "ag' = ag\<lparr>aran := r, aio := j, aind := m\<rparr>"
    using assms(3) Ric_sub_req
    by (auto simp: e2ap_msg_handle_agent_def check_valid_msg_type_ag_def e2ap_handle_subscription_request_agent_def
        res_bind_eq_Inr Let_def case_prod_beta)
  have "0 \<le> ms" using h(1) by (auto simp: create_timer_ms_asio_agent_def res_bind_eq_Inr)
  then show ?thesis
    using start_ind_ok [of "ag\<lparr>aran := r\<rparr>" ms tfd "\<lparr>iric_id = sr_ric_id sr, ism = Some sm, action_id = act_id (action sr ! 0)\<rparr>"]
      assms(1,2) h Ric_sub_req
    by (simp add: fair_agent_def) metis
next
  case (Ric_sub_del_req sdr)
  then obtain ag1 where s: "stop_ind_event ag (sdr_ric_id sdr) = Inr ag1" "ag' = ag1"
    using assms(3)
    by (auto simp: e2ap_msg_handle_agent_def check_valid_msg_type_ag_def
        e2ap_handle_subscription_delete_request_agent_def res_bind_eq_Inr)
  then obtain fd where "ind_timer ag (sdr_ric_id sdr) = Some fd"
    using stop_ind_absent [OF assms(1), of "sdr_ric_id sdr"] by fastforce
  then show ?thesis by (rule stop_ind_ok [OF assms(1)]) (use s in simp)
next
  case (Ric_ctrl_req cr)
  then show ?thesis
    using assms(1,3)
    by (auto simp: e2ap_msg_handle_agent_def check_valid_msg_type_ag_def
        e2ap_handle_control_request_agent_def res_bind_eq_Inr case_prod_beta)
next
  case (E2_stp_resp sr)
  then have s: "stop_pending_event_ag ag SETUP_REQUEST_PENDING_EVENT = Inr ag'"
    using assms(3)
    by (auto simp: e2ap_msg_handle_agent_def check_valid_msg_type_ag_def
        e2ap_handle_setup_response_agent_def res_bind_eq_Inr)
  then obtain fd where "setup_timer ag = Some fd"
    using stop_setup_absent [OF assms(1)] by fastforce
  then show ?thesis by (rule stop_setup_ok [OF assms(1)]) (use s in simp)
next
  case (Other_msg t)
  then show ?thesis using agent_other assms(3) by fast
qed (use assms(3) in \<open>simp_all add: e2ap_msg_handle_agent_def check_valid_msg_type_ag_def\<close>)

lemma agent_turn_keeps:
  assumes "agent_inv ag" "fair_agent ag e" "e2_event_agent ag e = Inr (ag', os)"
  shows "agent_inv ag'"
proof (cases "next_async_event_agent ag e")
  case (Inl err)
  then show ?thesis using assms(3) by (simp add: e2_event_agent_def)
next
  case (Inr t)
  show ?thesis
  proof (cases t)
    case CHECK_STOP_TOKEN_EVENT
    then show ?thesis using assms Inr by (simp add: e2_event_agent_def)
  next
    case SCTP_CONNECTION_SHUTDOWN_EVENT
    then obtain tfd where e: "e = Ag_ready (aep_fd ag) Notification tfd"
      using Inr by (auto simp: next_async_event_agent_def res_bind_eq_Inr
          split: agent_event.splits if_splits agent_rcv.splits option.splits)
    then have f: "0 < tfd" "tfd \<notin> set (aio ag)" "setup_timer ag = None"
      using assms(2) by (auto simp: fair_agent_def)
    have "start_setup_timer ag tfd = Inr ag'"
      using assms(3) Inr SCTP_CONNECTION_SHUTDOWN_EVENT
      by (auto simp: e2_event_agent_def e next_tfd_def notification_handle_ag_def res_bind_eq_Inr)
    then show ?thesis using start_setup_ok [OF assms(1) f] by auto
  next
    case (SCTP_MSG_ARRIVED_EVENT msg)
    then obtain fd tfd where e: "e = Ag_ready fd (Payload msg) tfd"
      using Inr by (auto simp: next_async_event_agent_def res_bind_eq_Inr
          split: agent_event.splits if_splits agent_rcv.splits option.splits)
    obtain ans where "e2ap_msg_handle_agent ag tfd msg = Inr (ag', ans)"
      using assms(3) Inr SCTP_MSG_ARRIVED_EVENT
      by (auto simp: e2_event_agent_def e next_tfd_def res_bind_eq_Inr split: if_splits)
    then show ?thesis using agent_handler_keeps [OF assms(1) assms(2) [unfolded e]] by simp
  next
    case (INDICATION_EVENT i_ev)
    then show ?thesis
      using assms(1,3) Inr
      by (auto simp: e2_event_agent_def res_bind_eq_Inr case_prod_beta Let_def split: option.splits)
  next
    case (PENDING_EVENT_AG p)
    then show ?thesis using assms(1,3) Inr by (auto simp: e2_event_agent_def res_bind_eq_Inr)
  qed
qed

interpretation agent_loop: event_loop e2_event_agent agent_inv fair_agent
  by unfold_locales (rule agent_turn_keeps)

end
