(* ===== verification/Network.thy ===== *)
theory Network
  imports RicSystem XAppUser E2AgentThms E2apCarry
begin

text \<open>
  The three processes together: an xApp, the near-RT RIC with its iApp, and an E2 agent.  The
  messages that one sends are the ones the other receives; the transport is a reliable channel
  per association (SCTP).  For each it is said when the encoding carries it unchanged.
\<close>

section \<open>What a subscription leaves alone at the RIC\<close>

abbreviation same_models :: "('sri, 'wr, 'rd) near_ric \<Rightarrow> ('sri, 'wr, 'rd) near_ric \<Rightarrow> bool" where
  "same_models ric ric' \<equiv> plugin ric' = plugin ric \<and> pub_sub ric' = pub_sub ric"

lemma start_pending_models: "start_pending_event ric w fd e = Inr ric' \<Longrightarrow> same_models ric ric'"
  by (auto simp: start_pending_event_def res_bind_eq_Inr)

lemma stop_pending_models: "stop_pending_event ric e = Inr ric' \<Longrightarrow> same_models ric ric'"
  by (auto simp: stop_pending_event_def res_bind_eq_Inr)

lemma fwd_sub_models:
  "fwd_sub_gen near_ric_iface (ric, fds, out) i sr = Inr (k, ric', w) \<Longrightarrow> same_models ric ric'"
  by (cases fds) (auto simp: near_ric_iface_def fwd_ric_subscription_request_def Let_def res_bind_eq_Inr
      dest!: start_pending_models)

lemma sub_req_models:
  assumes "sys_step st (From_xapp info (E42_ric_sub_req sr) fds) = Inr (st', out)"
  shows "same_models (s_ric st) (s_ric st')"
proof -
  obtain iapp' ric' w o' where
    "e2_event_iapp near_ric_iface (s_iapp st) (s_ric st, fds, []) info (E42_ric_sub_req sr) = Inr (iapp', (ric', w), o')"
    "s_ric st' = ric'"
    using assms by (auto simp: sys_step_def res_bind_eq_Inr)
  then show ?thesis
    by (auto simp: e2_event_iapp_def e2ap_msg_handle_iapp_def e2ap_handle_e42_ric_subscription_request_iapp_def
        res_bind_eq_Inr Let_def dest!: fwd_sub_models)
qed

lemma sub_resp_models:
  assumes "sys_step st (From_ric_loop (Sctp_msg_arrived s (Ric_sub_resp r))) = Inr (st', out)"
  shows "same_models (s_ric st) (s_ric st')"
proof -
  obtain ric' o' m where "e2ap_msg_handle_ric (s_ric st) (Ric_sub_resp r) = Inr (ric', o', m)"
    "same_models ric' (s_ric st')"
    using assms by (auto simp: sys_step_def e2_event_ric_def res_bind_eq_Inr split: if_splits)
  then show ?thesis
    by (auto simp: e2ap_msg_handle_ric_def e2ap_handle_subscription_response_ric_def
        res_bind_eq_Inr Let_def dest!: stop_pending_models)
qed

section \<open>A report from the xApp to the RAN and back\<close>

lemma fwd_id_ran_func [simp]: "ran_func_id (fwd_id ric i) = ran_func_id i"
  by (simp add: fwd_id_def)

lemma valid_ran_func_pos: "valid_ran_func_id rf \<Longrightarrow> 0 < rf"
  by (auto simp: valid_ran_func_id_def split: if_splits)

definition xapp_report_req ::
  "('wr, 'rd, 'st, 'cb) e42_xapp \<Rightarrow> global_e2_node_id \<Rightarrow> u16 \<Rightarrow> sm_subs_data \<Rightarrow> e42_ric_subscription_request" where
  "xapp_report_req x node rf data =
    \<lparr>e42sr_xapp_id = xid x, e42sr_id = node, e42sr_sr = subs_request (next_id x rf) data\<rparr>"

text \<open>The RAN functions an xApp may name are small numbers, and its identifiers and those of the
  RIC have 16 bits.\<close>

lemma valid_ran_func_small: "valid_ran_func_id rf \<Longrightarrow> uint rf < 256"
  by (auto simp: valid_ran_func_id_def split: if_splits)

lemma next_id_ok:
  assumes "valid_ran_func_id rf" "key_id (xact x) < 65536" "256 \<le> m"
  shows "ric_id_ok True (Some m) (next_id x rf)"
  using valid_ran_func_small [OF assms(1)] assms(2,3)
  by (simp add: ric_id_ok_def next_id_def uint_word_of_int_eq unsigned_of_nat take_bit_nat_eq_self)

lemma fwd_id_ok:
  assumes "ric_id_ok True m i"
  shows "ric_id_ok True m (fwd_id ric i)"
proof -
  have "uint (ric_req_id i) div 65536 = 0" using assms by (simp add: ric_id_ok_def)
  then have "uint (drop_bit 16 (ric_req_id i)) = 0" by (simp add: drop_bit_eq_div uint_div)
  then have "set_low16 (ric_req_id i) (ucast (req_id ric)) = ucast (ucast (req_id ric) :: u16)"
    by (intro set_low16_small) (simp add: uint_0_iff)
  then show ?thesis
    using assms uint_u16_less [of "ucast (req_id ric)"]
    by (auto simp: ric_id_ok_def fwd_id_def unsigned_ucast_eq unsigned_take_bit_eq split: option.splits)
qed

lemma subs_request_id: "sr_ric_id (subs_request i d) = i"
  by (simp add: subs_request_def)

lemma carried_subscription:
  "sd_event_trigger d \<noteq> [] \<Longrightarrow> carried (Ric_sub_req (subs_request i d)) = Inr (Ric_sub_req (subs_request i d))"
  by (rule carried_ok) (simp add: sent_ok_def subscription_ok_def subs_request_def action_ok_def)

lemma carried_report_request:
  "sd_event_trigger d \<noteq> [] \<Longrightarrow> node_id_ok node \<Longrightarrow>
    carried (E42_ric_sub_req (xapp_report_req x node rf d)) = Inr (E42_ric_sub_req (xapp_report_req x node rf d))"
  by (rule carried_ok)
     (simp add: sent_ok_def xapp_report_req_def subscription_ok_def subs_request_def action_ok_def)

text \<open>The answer of the agent to a report.\<close>

definition admission :: "ric_gen_id \<Rightarrow> ric_subscription_response" where
  "admission i = \<lparr>resp_ric_id = i, admitted = [\<lparr>ric_act_id = 0\<rparr>], not_admitted = []\<rparr>"

lemma report_chain:
  fixes st :: "('sri, 'wr, 'rd) sys" and x :: "('wr1, 'rd1, 'st1, 'cb) e42_xapp"
  assumes ric: "node_set D" "sys_inv D ep_fd st" "req_id (s_ric st) < 65536"
      "xapps_get (xapps (s_iapp st)) (xid x) = Some xinfo" "node \<in> D"
      "e2_sad_get (ep (s_ric st)) node = Some s"
      "length (e2reg_entries (e2_nodes (s_iapp st))) < 256" "0 < fd" "fd \<notin> set (io (s_ric st))"
    and xapp: "xapp_inv D x" "valid_ran_func_id rf" "key_id (xact x) < 65536"
      "plugin_get (xplugin_ric x) rf = Some sm" "interval_cmd i = Inr cmd"
      "0 < tfd" "tfd \<notin> set (xio x)" "xpend x E42_RIC_SUBSCRIPTION_REQUEST_PENDING_EVENT = None"
      "on_subscription sm cmd = Inr data"
    and agent: "agent_inv ag" "plugin_ag_get (aplugin ag) rf = Some ags"
      "ag_on_subscription ags (aran ag) data = Inr (ms, r)" "0 \<le> ms" "0 < afd"
      "afd \<notin> set (aio ag)" "ind_timer ag (fwd_id (s_ric st) (next_id x rf)) = None"
  obtains st1 ag1 st2 x1 m1 m2 m3 where
    "sys_step st (From_xapp xinfo (E42_ric_sub_req (xapp_report_req x node rf data)) [fd]) =
      Inr (st1, [To_node s m1])"
    "e2_event_agent ag (Ag_ready (aep_fd ag) (Payload m1) afd) = Inr (ag1, [m2])"
    "sys_step st1 (From_ric_loop (Sctp_msg_arrived s m2)) = Inr (st2, [To_xapp xinfo m3])"
    "report_sm_sync_xapp x tfd node rf i cb [] [Xready (xep_fd x) m3 tfd'] =
      Inr (of_nat (key_id (xact x)), x1, [Xsend (E42_ric_sub_req (xapp_report_req x node rf data))])"
    "sys_inv D ep_fd st2" "agent_inv ag1" "xapp_inv D x1"
    "ind_of ag1 afd = Some \<lparr>iric_id = fwd_id (s_ric st) (next_id x rf), ism = Some ags, action_id = 0\<rparr>"
    "routed (s_iapp st2) (fwd_id (s_ric st) (next_id x rf)) \<lparr>xric_id = next_id x rf, xapp_id = xid x\<rparr> xinfo"
    "\<exists>v. act_get (xact x1) (of_nat (key_id (xact x))) = Some v \<and> ap_sm_cb v = cb \<and> ap_e2_node v = node"
    "same_models (s_ric st) (s_ric st2)" "xplugin_ric x1 = xplugin_ric x" "aran ag1 = r"
    "aap ag1 = aap ag" "xcp x1 = xcp x"
    "m1 = Ric_sub_req (subs_request (fwd_id (s_ric st) (next_id x rf)) data)"
    "m2 = Ric_sub_resp (admission (fwd_id (s_ric st) (next_id x rf)))" "m3 = Ric_sub_resp (admission (next_id x rf))"
    "sd_event_trigger data \<noteq> [] \<longrightarrow> carried m1 = Inr m1" "carried m2 = Inr m2" "carried m3 = Inr m3"
proof -
  let ?R = "xapp_report_req x node rf data" and ?f = "fwd_id (s_ric st) (next_id x rf)"
  have sr: "sr_ric_id (e42sr_sr ?R) = next_id x rf" "e42sr_id ?R = node" "e42sr_xapp_id ?R = xid x"
    by (simp_all add: xapp_report_req_def subs_request_def Let_def)
  have ii: "iapp_inv D (s_iapp st)" using ric(2) by (simp add: sys_inv_def)
  have v: "ucast (e42sr_xapp_id ?R) \<le> next_xapp_id (s_iapp st)"
    by (rule known_xapp_id [OF ii]) (simp add: sr ric(4))
  obtain st1 where st1:
    "sys_step st (From_xapp xinfo (E42_ric_sub_req ?R) [fd]) =
      Inr (st1, [To_node s (Ric_sub_req ((e42sr_sr ?R)\<lparr>sr_ric_id := ?f\<rparr>))])"
    "sys_inv D ep_fd st1" "io (s_ric st1) = fd # io (s_ric st)"
    "pending_fd (pending (s_ric st1)) = (pending_fd (pending (s_ric st)))
      (\<lparr>ev = SUBSCRIPTION_REQUEST_PENDING_EVENT, pid = ?f\<rparr> \<mapsto> fd)"
    "ric_id_get (ric_ids_map (s_iapp st1)) = (ric_id_get (ric_ids_map (s_iapp st)))
      (ucast (req_id (s_ric st)) \<mapsto> \<lparr>xric_id = next_id x rf, xapp_id = xid x\<rparr>)"
    "(ucast (req_id (s_ric st)) :: u16) \<noteq> 0" "xapps (s_iapp st1) = xapps (s_iapp st)"
    by (rule sub_req_step [OF ric(1-3) v, of s fd xinfo]) (use ric(5-9) sr in \<open>simp_all add: that\<close>)
  let ?sr = "(e42sr_sr ?R)\<lparr>sr_ric_id := ?f\<rparr>"
  let ?a = "\<lparr>act_id = 0, act_type = RIC_ACT_REPORT, act_definition = sd_action_def data,
      act_subseq = None\<rparr>"
  have rq: "action ?sr = [?a]" "sr_ric_id ?sr = ?f" "event_trigger ?sr = sd_event_trigger data"
    by (simp_all add: xapp_report_req_def subs_request_def Let_def)
  have rf: "ran_func_id (sr_ric_id ?sr) = rf" by (simp add: rq next_id_def)
  have on: "ag_on_subscription ags (aran ag) \<lparr>sd_event_trigger = event_trigger ?sr, sd_action_def = act_definition ?a\<rparr> =
      Inr (ms, r)"
    using agent(3) unfolding rq(3) by (cases data) simp
  have ri: "0 < ran_func_id (sr_ric_id ?sr)" "plugin_ag_get (aplugin ag) (ran_func_id (sr_ric_id ?sr)) = Some ags"
    "act_type ?a = RIC_ACT_REPORT"
    using valid_ran_func_pos [OF xapp(2)] agent(2) unfolding rf by simp_all
  have nt: "ind_timer ag (sr_ric_id ?sr) = None" using agent(7) unfolding rq(2) .
  let ?m2 = "\<lparr>resp_ric_id = sr_ric_id ?sr, admitted = [\<lparr>ric_act_id = act_id ?a\<rparr>], not_admitted = []\<rparr>"
  obtain ag1 where ag1: "e2_event_agent ag (Ag_ready (aep_fd ag) (Payload (Ric_sub_req ?sr)) afd) =
      Inr (ag1, [Ric_sub_resp ?m2])" "agent_inv ag1" "aran ag1 = r" "aap ag1 = aap ag"
    "\<And>f. 0 < f \<Longrightarrow> ind_of ag1 f = (if f = afd
      then Some \<lparr>iric_id = sr_ric_id ?sr, ism = Some ags, action_id = act_id ?a\<rparr> else ind_of ag f)"
    by (rule sub_event [OF agent(1) rq(1) ri(3,1,2) on agent(4-6) nt]) (use that in simp)
  have rt: "routed (s_iapp st1) ?f \<lparr>xric_id = next_id x rf, xapp_id = xid x\<rparr> xinfo"
    by (rule routed_fwd_id) (use st1 ric(4) in simp_all)
  have rt2: "routed (s_iapp st1) (resp_ric_id ?m2) \<lparr>xric_id = next_id x rf, xapp_id = xid x\<rparr> xinfo"
    using rt by (simp add: rq)
  obtain st2 where st2: "sys_step st1 (From_ric_loop (Sctp_msg_arrived s (Ric_sub_resp ?m2))) =
      Inr (st2, [To_xapp xinfo (Ric_sub_resp (?m2\<lparr>resp_ric_id := next_id x rf\<rparr>))])"
    "sys_inv D ep_fd st2" "s_iapp st2 = s_iapp st1"
    by (rule sub_resp_step [OF st1(2) rt2, of fd s]) (use st1(4) rq(2) that in simp_all)
  let ?m3 = "?m2\<lparr>resp_ric_id := next_id x rf\<rparr>"
  have k: "(ucast (ric_req_id (resp_ric_id ?m3)) :: u16) = of_nat (key_id (xact x))"
    by (simp add: next_id_def key_u16 [OF xapp(3)])
  obtain x1 where x1: "report_sm_sync_xapp x tfd node rf i cb [] [Xready (xep_fd x) (Ric_sub_resp ?m3) tfd'] =
      Inr (of_nat (key_id (xact x)), x1, [Xsend (E42_ric_sub_req ?R)])" "xapp_inv D x1"
    "act_get (xact x1) (of_nat (key_id (xact x))) = Some (stamp_id (of_nat (key_id (xact x)))
      (report_val RIC_SUBSCRIPTION_PROCEDURE_ACTIVE rf node cb))" "xplugin_ric x1 = xplugin_ric x" "xcp x1 = xcp x"
    by (rule report_ok [OF xapp(1-5) xapp(6-8) k xapp(9), of node cb tfd']) (auto simp: xapp_report_req_def intro: that)
  have "ind_of ag1 afd = Some \<lparr>iric_id = ?f, ism = Some ags, action_id = 0\<rparr>"
    using ag1(5) [OF agent(5)] by (simp add: rq)
  moreover have "same_models (s_ric st) (s_ric st2)"
    using sub_req_models [OF st1(1)] sub_resp_models [OF st2(1)] by simp
  moreover have "?sr = subs_request ?f data" by (simp add: xapp_report_req_def subs_request_def)
  moreover have "ric_id_ok True (Some 256) (next_id x rf)" by (rule next_id_ok [OF xapp(2,3)]) simp
  ultimately show ?thesis
    by (intro that [OF st1(1) ag1(1) st2(1) x1(1) st2(2) ag1(2) x1(2)])
       (use rt st2(3) ag1(3,4) x1(3-5) in
         \<open>simp_all add: rq admission_def stamp_id_def report_val_def carried_subscription carried_admission fwd_id_ok subs_request_id\<close>)
qed

section \<open>An indication from the RAN to the callback\<close>

lemma indication_step:
  fixes st :: "('sri, 'wr, 'rd) sys"
  assumes "plugin_inv (plugin (s_ric st))" "plugin_get (plugin (s_ric st)) (ran_func_id (ind_ric_id ind)) = Some sm"
    "rb_entries (pub_sub (s_ric st)) = map (\<lambda>e. (fst e, default_listeners)) (rb_entries (plugin (s_ric st)))"
    "on_indication sm \<lparr>sid_hdr = ind_hdr ind, sid_msg = ind_msg ind,
      sid_call_process_id = ind_call_process_id ind\<rparr> = Inr rd" "rd_supported (rd_type rd)"
    "routed (s_iapp st) (ind_ric_id ind) y info"
  shows "sys_step st (From_ric_loop (Sctp_msg_arrived s (Ric_ind ind))) =
    Inr (st, map (\<lambda>n. To_listener n rd) default_listeners @
      [To_xapp info (Ric_ind (ind\<lparr>ind_ric_id := xric_id y\<rparr>))])"
proof -
  have r: "e2_event_ric (s_ric st) (Sctp_msg_arrived s (Ric_ind ind)) =
      Inr (s_ric st, map (\<lambda>n. Publish n rd) default_listeners @ [Iapp_notify (Ric_ind ind)])"
    using indication_ok [OF assms(1-5)] by (simp add: e2_event_ric_def)
  have d: "fold_res (deliver ric) (map (\<lambda>n. Publish n d) ns) (iapp, out) =
      Inr (iapp, out @ map (\<lambda>n. To_listener n d) ns)"
    for ns out iapp and d :: "'rd sm_ag_if_rd" and ric :: "('sri, 'wr, 'rd) near_ric"
    by (induction ns arbitrary: out) simp_all
  have n: "notify_msg_iapp near_ric_iface (s_iapp st) (s_ric st, [], []) (Ric_ind ind) =
      Inr (s_iapp st, (s_ric st, [], []), [(info, Ric_ind (ind\<lparr>ind_ric_id := xric_id y\<rparr>))])"
    by (rule notify_indication [OF assms(6)])
  show ?thesis by (simp add: sys_step_def r fold_res_append d n)
qed

lemma indication_chain:
  fixes st :: "('sri, 'wr, 'rd) sys" and x :: "('wr1, 'rd1, 'st1, 'cb) e42_xapp"
  assumes agent: "agent_inv ag" "0 < afd" "ind_of ag afd = Some \<lparr>iric_id = f, ism = Some ags, action_id = a\<rparr>"
      "ag_on_indication ags (aran ag) = Inr (d, r)" "sid_call_process_id d = None"
      "ind_sends (aap ag) (report_ind f a d)"
    and ric: "plugin_inv (plugin (s_ric st))" "plugin_get (plugin (s_ric st)) (ran_func_id f) = Some rsm"
      "rb_entries (pub_sub (s_ric st)) = map (\<lambda>e. (fst e, default_listeners)) (rb_entries (plugin (s_ric st)))"
      "on_indication rsm d = Inr rd" "rd_supported (rd_type rd)"
      "routed (s_iapp st) f \<lparr>xric_id = j, xapp_id = xi\<rparr> xinfo"
    and xapp: "xapp_inv D x" "plugin_get (xplugin_ric x) (ran_func_id f) = Some sm"
      "on_indication sm d = Inr xrd" "rd_supported (rd_type xrd)" "act_get (xact x) (ucast (ric_req_id j)) = Some v"
      "xcp x xrd = Inr c"
  obtains x1 where
    "e2_event_agent ag (Ag_ready afd rcv afd') = Inr (ag\<lparr>aran := r\<rparr>, [Ric_ind (report_ind f a d)])"
    "sys_step st (From_ric_loop (Sctp_msg_arrived s (Ric_ind (report_ind f a d)))) =
      Inr (st, map (\<lambda>n. To_listener n rd) default_listeners @ [To_xapp xinfo (Ric_ind (report_ind j a d))])"
    "e2_event_xapp x (Xready (xep_fd x) (Ric_ind (report_ind j a d)) tfd) = Inr (x1, [Xwrite_db (ap_e2_node v) c])"
    "xdisp x1 = xdisp x @ [(ap_sm_cb v, xrd)]" "xapp_inv D x1"
    "ric_id_ok True (Some 4096) f \<Longrightarrow> carried (Ric_ind (report_ind f a d)) = Inr (Ric_ind (report_ind f a d))"
    "ric_id_ok True (Some 4096) j \<Longrightarrow> carried (Ric_ind (report_ind j a d)) = Inr (Ric_ind (report_ind j a d))"
proof -
  let ?i = "report_ind f a d" and ?j = "report_ind j a d"
  have dd: "\<lparr>sid_hdr = sid_hdr d, sid_msg = sid_msg d, sid_call_process_id = None\<rparr> = d"
    using agent(5) by (cases d) simp
  have rf: "ran_func_id j = ran_func_id f" using ric(6) by (simp add: routed_def)
  have s1: "sys_step st (From_ric_loop (Sctp_msg_arrived s (Ric_ind ?i))) =
      Inr (st, map (\<lambda>n. To_listener n rd) default_listeners @ [To_xapp xinfo (Ric_ind ?j)])"
    using indication_step [OF ric(1) _ ric(3), of ?i rsm rd "\<lparr>xric_id = j, xapp_id = xi\<rparr>" xinfo s] ric(2,4-6) dd
    by (simp add: report_ind_def)
  have rd: "ind_rd sm ?j = Inr xrd" using dd xapp(3) by (simp add: ind_rd_def report_ind_def)
  have "reg_inv (xact x)" using xapp(1) by (simp add: xapp_inv_def)
  then have k: "0 < (ucast (ric_req_id j) :: u16)"
    using procs.get_less [of "xact x" "ucast (ric_req_id j)"] xapp(5) by simp
  obtain b where b: "e2_event_xapp x (Xready (xep_fd x) (Ric_ind ?j) tfd) =
      Inr (x\<lparr>xact := b, xdisp := xdisp x @ [(ap_sm_cb v, xrd)]\<rparr>, [Xwrite_db (ap_e2_node v) c])"
    "xapp_inv D (x\<lparr>xact := b\<rparr>)"
    by (rule event_indication [OF xapp(1), of ?j sm "ucast (ric_req_id j)" xrd tfd])
       (use xapp(2-6) rf k rd that in \<open>simp_all add: report_ind_def\<close>)
  have i: "xapp_inv D (x\<lparr>xact := b, xdisp := xdisp x @ [(ap_sm_cb v, xrd)]\<rparr>)"
    using b(2) by simp
  have ne: "sid_hdr d \<noteq> []" "sid_msg d \<noteq> []" using agent(6) by (simp_all add: ind_sends_def report_ind_def)
  show ?thesis
    by (rule that [OF tick_event [OF agent] s1 b(1) _ i]) (simp_all add: report_ind_def carried_report ne)
qed

end
