(* ===== verification/MsgTypes.thy ===== *)
theory MsgTypes
  imports Network
begin

text \<open>
  The types of the messages on the three channels: whatever a process sends is of a type that
  the validity check of the process at the other end lets through, and every type that passes
  a check has an entry in the table of handlers.
\<close>

section \<open>The tables of the xApp and of the agent\<close>

lemma valid_xapp_handler: "check_valid_msg_type_xapp t \<Longrightarrow> init_handle_msg_xapp t \<noteq> None"
  by (cases t) (simp_all add: check_valid_msg_type_xapp_def)

lemma valid_agent_iff_handler: "check_valid_msg_type_ag t \<longleftrightarrow> init_handle_msg_agent t \<noteq> None"
  by (cases t) (simp_all add: check_valid_msg_type_ag_def)

section \<open>What the agent sends\<close>

definition to_ric :: "e2ap_msg \<Rightarrow> bool" where
  "to_ric m \<longleftrightarrow> check_valid_msg_type (msg_type m)"

lemma agent_ans_type:
  "e2ap_msg_handle_agent ag tfd msg = Inr (ag', ans) \<Longrightarrow> msg_type ans = NONE_E2_MSG_TYPE \<or> to_ric ans"
proof (cases msg)
  case (Other_msg t)
  then show "e2ap_msg_handle_agent ag tfd msg = Inr (ag', ans) \<Longrightarrow> ?thesis" using agent_other by fast
qed (auto simp: e2ap_msg_handle_agent_def check_valid_msg_type_ag_def to_ric_def check_valid_msg_type_def
      e2ap_handle_subscription_request_agent_def e2ap_handle_subscription_delete_request_agent_def
      e2ap_handle_control_request_agent_def e2ap_handle_setup_response_agent_def
      res_bind_eq_Inr Let_def case_prod_beta)

lemma agent_sends:
  assumes "e2_event_agent ag e = Inr (ag', os)" "m \<in> set os"
  shows "to_ric m"
proof -
  obtain t where t: "next_async_event_agent ag e = Inr t"
    using assms(1) by (cases "next_async_event_agent ag e") (simp_all add: e2_event_agent_def)
  show ?thesis
    using assms t
    by (cases t)
       (auto simp: e2_event_agent_def res_bind_eq_Inr case_prod_beta Let_def to_ric_def check_valid_msg_type_def
         split: option.splits if_splits dest!: agent_ans_type)
qed

lemma agent_loop_sends: "run_events e2_event_agent es ag = Inr (ag', os) \<Longrightarrow> m \<in> set os \<Longrightarrow> to_ric m"
  by (induction es arbitrary: ag os) (auto simp: res_bind_eq_Inr dest: agent_sends)

section \<open>What the RIC and the iApp send\<close>

definition to_agent :: "e2ap_msg \<Rightarrow> bool" where
  "to_agent m \<longleftrightarrow> check_valid_msg_type_ag (msg_type m)"

definition to_xapp :: "e2ap_msg \<Rightarrow> bool" where
  "to_xapp m \<longleftrightarrow> check_valid_msg_type_xapp (msg_type m)"

definition out_typed :: "('sri, 'rd) sys_out \<Rightarrow> bool" where
  "out_typed o' \<longleftrightarrow> (case o' of To_node s m \<Rightarrow> to_agent m | To_xapp s m \<Rightarrow> to_xapp m | To_listener n d \<Rightarrow> True)"

definition ric_out_typed :: "('sri, 'rd) ric_out \<Rightarrow> bool" where
  "ric_out_typed o' \<longleftrightarrow> (case o' of Send_msg s m \<Rightarrow> to_agent m | _ \<Rightarrow> True)"

lemma ric_handler_typed:
  assumes "e2ap_msg_handle_ric ric msg = Inr (ric', out, ans)"
  shows "list_all ric_out_typed out \<and> (msg_type ans = NONE_E2_MSG_TYPE \<or> to_agent ans)"
proof -
  obtain h where h: "init_handle_msg_ric (msg_type msg) = Some h" "h ric msg = Inr (ric', out, ans)"
    using assms by (auto simp: e2ap_msg_handle_ric_def res_bind_eq_Inr split: option.splits)
  show ?thesis
    using h
    by (cases "msg_type msg")
       (auto simp: ric_handler_defs e2ap_handle_setup_request_ric_def res_bind_eq_Inr Let_def publish_ind_msg_eq
         list_all_iff ric_out_typed_def to_agent_def check_valid_msg_type_ag_def
         split: e2ap_msg.splits if_splits)
qed

lemma ric_event_typed:
  assumes "e2_event_ric ric e = Inr (ric', out)"
  shows "list_all ric_out_typed out"
proof (cases e)
  case (Sctp_msg_arrived info msg)
  obtain ric1 out1 ans where h: "e2ap_msg_handle_ric ric1 msg = Inr (ric', out1, ans)"
    "out = (if msg_type ans \<noteq> NONE_E2_MSG_TYPE then out1 @ [Send_msg info ans] else out1)"
    using assms by (auto simp: e2_event_ric_def Sctp_msg_arrived res_bind_eq_Inr split: if_splits)
  show ?thesis using ric_handler_typed [OF h(1)] h(2) by (auto simp: ric_out_typed_def)
qed (use assms in \<open>auto simp: e2_event_ric_def res_bind_eq_Inr notification_handle_ric_def ric_out_typed_def\<close>)

lemma iapp_answer_typed:
  assumes "e2ap_msg_handle_iapp rif iapp ric msg = Inr (iapp', ric', out, ans)"
    "msg_type msg \<in> {RIC_INDICATION, RIC_SUBSCRIPTION_RESPONSE, RIC_SUBSCRIPTION_DELETE_RESPONSE, RIC_CONTROL_ACKNOWLEDGE}"
  shows "(\<forall>p\<in>set out. to_xapp (snd p)) \<and> ric' = ric \<and> msg_type ans = NONE_E2_MSG_TYPE"
proof (cases msg)
  case (Other_msg t)
  then show ?thesis using assms by (cases t) (simp_all add: notify_defs)
qed (use assms in \<open>auto simp: notify_defs res_bind_eq_Inr Let_def send_to_xapp_eq to_xapp_def
    check_valid_msg_type_xapp_def split: option.splits\<close>)

lemma notify_typed:
  assumes "notify_msg_iapp rif iapp ric msg = Inr (iapp', ric', out)"
  shows "\<forall>p\<in>set out. to_xapp (snd p)"
proof -
  obtain ans where h: "e2ap_msg_handle_iapp rif iapp ric msg = Inr (iapp', ric', out, ans)"
    "msg_type msg = RIC_INDICATION \<or> msg_type msg = RIC_SUBSCRIPTION_RESPONSE \<or>
      msg_type msg = RIC_SUBSCRIPTION_DELETE_RESPONSE \<or> msg_type msg = RIC_CONTROL_ACKNOWLEDGE"
    using assms by (auto simp: notify_msg_iapp_def res_bind_eq_Inr)
  then show ?thesis using iapp_answer_typed [OF h(1)] by auto
qed

lemma deliver_typed:
  assumes "deliver ric x (iapp, out) = Inr (iapp', out')" "ric_out_typed x" "list_all out_typed out"
  shows "list_all out_typed out'"
proof (cases x)
  case (Iapp_notify m)
  then obtain w o' where n: "notify_msg_iapp near_ric_iface iapp (ric, [], []) m = Inr (iapp', w, o')"
    "out' = out @ map (\<lambda>(s, a). To_xapp s a) o'"
    using assms(1) by (auto simp: res_bind_eq_Inr)
  show ?thesis using notify_typed [OF n(1)] n(2) assms(3) by (auto simp: list_all_iff out_typed_def)
qed (use assms in \<open>auto simp: res_bind_eq_Inr out_typed_def ric_out_typed_def\<close>)

lemma deliver_all_typed:
  "fold_res (deliver ric) outs (iapp, out) = Inr (iapp', out') \<Longrightarrow> list_all ric_out_typed outs \<Longrightarrow>
    list_all out_typed out \<Longrightarrow> list_all out_typed out'"
proof (induction outs arbitrary: iapp out)
  case (Cons x xs)
  then obtain i1 o1 where "deliver ric x (iapp, out) = Inr (i1, o1)" "fold_res (deliver ric) xs (i1, o1) = Inr (iapp', out')"
    by (auto simp: res_bind_eq_Inr)
  then show ?case using Cons.IH [of i1 o1] Cons.prems(2,3) deliver_typed [of ric x iapp out i1 o1] by simp
qed simp

text \<open>The calls the iApp makes of the RIC add requests for the nodes only.\<close>

lemma with_timer_typed:
  assumes "with_timer f fds out = Inr (k, ric', fds', out')" "list_all ric_out_typed out"
    "\<And>fd k ric' o'. f fd = Inr (k, ric', o') \<Longrightarrow> list_all ric_out_typed o'"
  shows "list_all ric_out_typed out'"
  using assms by (cases fds) (auto simp: res_bind_eq_Inr)

lemma send_typed: "e2ap_send_bytes_ric ric i m = Inr out \<Longrightarrow> to_agent m \<Longrightarrow> list_all ric_out_typed out"
  by (auto simp: e2ap_send_bytes_ric_def res_bind_eq_Inr ric_out_typed_def)

lemma iface_typed:
  "fwd_sub_gen near_ric_iface (ric, fds, out) i sr = Inr (k, ric', fds', out') \<Longrightarrow>
    list_all ric_out_typed out \<Longrightarrow> list_all ric_out_typed out'"
  "fwd_ctrl_gen near_ric_iface (ric, fds, out) i cr = Inr (k, ric', fds', out') \<Longrightarrow>
    list_all ric_out_typed out \<Longrightarrow> list_all ric_out_typed out'"
  "fwd_del_gen near_ric_iface (ric, fds, out) i sdr = Inr (ric', fds', out') \<Longrightarrow>
    list_all ric_out_typed out \<Longrightarrow> list_all ric_out_typed out'"
  by (auto simp: near_ric_iface_def fwd_ric_subscription_request_def fwd_ric_control_request_def
      fwd_ric_subscription_request_delete_def Let_def res_bind_eq_Inr to_agent_def check_valid_msg_type_ag_def
      elim!: with_timer_typed dest!: send_typed)

lemma iapp_event_typed:
  assumes "e2_event_iapp near_ric_iface iapp (ric, fds, []) info msg = Inr (iapp', (ric', fds', routs), iouts)"
  shows "list_all ric_out_typed routs \<and> (\<forall>p\<in>set iouts. to_xapp (snd p))"
proof -
  obtain iapp1 out ans where h: "e2ap_msg_handle_iapp near_ric_iface iapp (ric, fds, []) msg =
      Inr (iapp1, (ric', fds', routs), out, ans)"
    "iouts = (if msg_type ans \<noteq> NONE_E2_MSG_TYPE then out @ [(info, ans)] else out)"
    using assms by (auto simp: e2_event_iapp_def res_bind_eq_Inr split: if_splits)
  have "list_all ric_out_typed routs \<and> (\<forall>p\<in>set out. to_xapp (snd p)) \<and>
      (msg_type ans = NONE_E2_MSG_TYPE \<or> to_xapp ans)"
  proof (cases msg)
    case (E42_ric_sub_req m)
    then show ?thesis
      using h(1) by (auto simp: e2ap_msg_handle_iapp_def check_valid_msg_type_iapp_def
          e2ap_handle_e42_ric_subscription_request_iapp_def res_bind_eq_Inr Let_def dest!: iface_typed(1))
  next
    case (E42_ric_ctrl_req m)
    then show ?thesis
      using h(1) by (auto simp: e2ap_msg_handle_iapp_def check_valid_msg_type_iapp_def
          e2ap_handle_e42_ric_control_request_iapp_def res_bind_eq_Inr Let_def dest!: iface_typed(2))
  next
    case (E42_ric_sub_del_req m)
    then show ?thesis
      using h(1) by (auto simp: e2ap_msg_handle_iapp_def check_valid_msg_type_iapp_def
          e2ap_handle_e42_ric_subscription_delete_request_iapp_def res_bind_eq_Inr Let_def dest!: iface_typed(3))
  next
    case (E42_stp_req m)
    then show ?thesis
      using h(1) by (auto simp: e2ap_msg_handle_iapp_def check_valid_msg_type_iapp_def
          e2ap_handle_e42_setup_request_iapp_def res_bind_eq_Inr to_xapp_def check_valid_msg_type_xapp_def)
  next
    case (Other_msg t)
    then show ?thesis
      using h(1) by (cases t) (simp_all add: e2ap_msg_handle_iapp_def check_valid_msg_type_iapp_def notify_defs
          e2ap_handle_e42_ric_subscription_request_iapp_def e2ap_handle_e42_ric_control_request_iapp_def
          e2ap_handle_e42_ric_subscription_delete_request_iapp_def e2ap_handle_e42_setup_request_iapp_def)
  qed (use h(1) iapp_answer_typed [OF h(1)] in
      \<open>simp_all add: e2ap_msg_handle_iapp_def check_valid_msg_type_iapp_def\<close>)
  then show ?thesis using h(2) by auto
qed

lemma sys_sends:
  assumes "sys_step st e = Inr (st', out)"
  shows "list_all out_typed out"
proof (cases e)
  case (From_ric_loop re)
  then obtain ric' outs iapp' where h: "e2_event_ric (s_ric st) re = Inr (ric', outs)"
    "fold_res (deliver ric') outs (s_iapp st, []) = Inr (iapp', out)"
    using assms by (auto simp: sys_step_def res_bind_eq_Inr)
  show ?thesis using deliver_all_typed [OF h(2)] ric_event_typed [OF h(1)] by simp
next
  case (From_xapp info msg fds)
  then obtain iapp' ric' fds' routs iouts iapp'' o' where h:
    "e2_event_iapp near_ric_iface (s_iapp st) (s_ric st, fds, []) info msg = Inr (iapp', (ric', fds', routs), iouts)"
    "fold_res (deliver ric') routs (iapp', []) = Inr (iapp'', o')" "out = o' @ map (\<lambda>(s, a). To_xapp s a) iouts"
    using assms by (auto simp: sys_step_def res_bind_eq_Inr)
  show ?thesis
    using deliver_all_typed [OF h(2)] iapp_event_typed [OF h(1)] h(3)
    by (auto simp: list_all_iff out_typed_def)
qed

section \<open>What the xApp sends\<close>

definition to_iapp :: "e2ap_msg \<Rightarrow> bool" where
  "to_iapp m \<longleftrightarrow> check_valid_msg_type_iapp (msg_type m)"

definition xout_typed :: "'rd xapp_out \<Rightarrow> bool" where
  "xout_typed o' \<longleftrightarrow> (case o' of Xsend m \<Rightarrow> to_iapp m | Xwrite_db n d \<Rightarrow> True)"

lemma answer_arrived_out: "answer_arrived x i k = Inr (x', os, ans) \<Longrightarrow> os = [] \<and> ans = none_msg"
  by (auto simp: answer_arrived_def res_bind_eq_Inr split: option.splits)

lemma xapp_handler_typed:
  assumes "e2ap_msg_handle_xapp x tfd msg = Inr (x', os, ans)"
  shows "list_all xout_typed os \<and> msg_type ans = NONE_E2_MSG_TYPE"
proof (cases msg)
  case (Other_msg t)
  then show ?thesis using handle_other assms by fast
qed (use assms in \<open>auto simp: xapp_answers e2ap_handle_indication_xapp_def e2ap_handle_e42_setup_response_xapp_def
    e2ap_handle_e42_setup_request_xapp_def e2ap_handle_e42_ric_control_request_xapp_def
    res_bind_eq_Inr Let_def xout_typed_def to_iapp_def check_valid_msg_type_iapp_def
    split: option.splits dest!: answer_arrived_out\<close>)

lemma xapp_event_typed:
  assumes "e2_event_xapp x e = Inr (x', os)"
  shows "list_all xout_typed os"
proof (cases e)
  case (Xready fd msg tfd)
  then obtain t where t: "find_event_type x fd = Inr t"
    using assms by (auto simp: e2_event_xapp_def res_bind_eq_Inr)
  show ?thesis
    using assms t Xready
    by (cases t) (auto simp: e2_event_xapp_def res_bind_eq_Inr xout_typed_def to_iapp_def
        check_valid_msg_type_iapp_def split: if_splits dest!: xapp_handler_typed)
qed (use assms in \<open>auto simp: e2_event_xapp_def\<close>)

lemma xapp_loop_typed: "run_events e2_event_xapp es x = Inr (x', os) \<Longrightarrow> list_all xout_typed os"
proof (induction es arbitrary: x os)
  case (Cons e es)
  then obtain x1 o1 o2 where "e2_event_xapp x e = Inr (x1, o1)" "run_events e2_event_xapp es x1 = Inr (x', o2)" "os = o1 @ o2"
    by (auto simp: res_bind_eq_Inr)
  then show ?case using Cons.IH xapp_event_typed by fastforce
qed simp

lemma wait_typed: "wait_answer x early late = Inr (x', os) \<Longrightarrow> list_all xout_typed os"
  by (auto simp: wait_answer_def e2_event_loop_xapp_def res_bind_eq_Inr dest!: xapp_loop_typed)

lemma call_typed:
  assumes "call_request_handler t x fd msg = Inr (x', os)"
    "t \<in> {E42_RIC_SUBSCRIPTION_REQUEST, E42_RIC_SUBSCRIPTION_DELETE_REQUEST, E42_RIC_CONTROL_REQUEST}"
  shows "list_all xout_typed os"
  using assms
  by (auto simp: call_request_handler_def res_bind_eq_Inr e2ap_handle_e42_ric_subscription_request_xapp_def
      e2ap_handle_e42_subscription_delete_request_xapp_def e2ap_handle_e42_ric_control_request_xapp_def
      xout_typed_def to_iapp_def check_valid_msg_type_iapp_def split: e2ap_msg.splits)

lemma report_typed: "report_sm_sync_xapp x fd node rf i cb early late = Inr (h, x', os) \<Longrightarrow> list_all xout_typed os"
  by (auto simp: report_sm_sync_xapp_def send_subscription_request_def res_bind_eq_Inr
      dest!: wait_typed call_typed)

lemma rm_report_typed: "rm_report_sm_sync_xapp x fd h early late = Inr (x', os) \<Longrightarrow> list_all xout_typed os"
  by (auto simp: rm_report_sm_sync_xapp_def send_ric_subscription_delete_def res_bind_eq_Inr
      split: option.splits dest!: wait_typed call_typed)

lemma control_typed: "control_sm_sync_xapp x fd node rf wr early late = Inr (x', os) \<Longrightarrow> list_all xout_typed os"
  by (auto simp: control_sm_sync_xapp_def send_control_request_def res_bind_eq_Inr
      dest!: wait_typed call_typed)

end
