(* ===== verification/AgentProps.thy ===== *)
theory AgentProps
  imports XAppProps MsgTypes
begin

text \<open>
  The properties of the E2 agent and of the three processes together.  The witnesses run on
  \<open>demo_agent\<close>, a node with the service model \<open>demo_ag\<close> of the RAN function 142 whose state is a
  counter.
\<close>

section \<open>A small agent\<close>

definition demo_agent :: "nat e2_agent" where
  "demo_agent = \<lparr>aep_fd = 5, aio = [5], aap = one_byte_enc,
    aplugin = \<lparr>root = Node ASSOC_BLACK Dummy 142 demo_ag Dummy, comp = cmp_ran_func_id, tsize = 1\<rparr>,
    aind = init_indication_event, apend = init_pending_events_ag, anode = demo_node, aran = 0\<rparr>"

lemma demo_agent_inv: "agent_inv demo_agent"
  by (simp add: agent_inv_def demo_agent_def init_indication_event_def init_pending_events_ag_def book_init
      ind_of_def plugin_ag_inv_def single_tree_inv single_tree_entries demo_ag_def)

lemma demo_agent_simps:
  "ind_timer demo_agent i = None" "setup_timer demo_agent = None" "aio demo_agent = [5]" "aep_fd demo_agent = 5"
  "plugin_ag_get (aplugin demo_agent) 142 = Some demo_ag" "aran demo_agent = 0"
  "rb_entries (aplugin demo_agent) = [(142, demo_ag)]" "0 < size_plugin_ag (aplugin demo_agent)"
  "anode demo_agent = demo_node" "aap demo_agent = one_byte_enc"
  by (simp_all add: demo_agent_def ind_timer_def setup_timer_def init_indication_event_def
      init_pending_events_ag_def book_init plugin_ag_get_def single_tree_entries size_plugin_ag_def
      assoc_rb_tree_size_def)

section \<open>Subscriptions\<close>

text \<open>The reports of a service model, one per expiration of the timer.\<close>

primrec sm_reports :: "nat \<Rightarrow> 'st sm_agent \<Rightarrow> 'st \<Rightarrow> (sm_ind_data list \<times> 'st) res" where
  "sm_reports 0 sm s = Inr ([], s)"
| "sm_reports (Suc n) sm s =
    res_bind (ag_on_indication sm s) (\<lambda>(d, s1).
    res_bind (sm_reports n sm s1) (\<lambda>(ds, s2). Inr (d # ds, s2)))"

text \<open>A report as a message, and the reports that the agent can send: without a call process
  identifier, and passing the assertions of the encoder.\<close>

definition report_of :: "ric_gen_id \<Rightarrow> u8 \<Rightarrow> sm_ind_data \<Rightarrow> e2ap_msg" where
  "report_of i a d = Ric_ind (report_ind i a d)"

definition report_sends :: "(E2AP_PDU \<Rightarrow> byte_array option) \<Rightarrow> ric_gen_id \<Rightarrow> u8 \<Rightarrow> sm_ind_data \<Rightarrow> bool" where
  "report_sends aper i a d \<longleftrightarrow> sid_call_process_id d = None \<and> sid_hdr d \<noteq> [] \<and> sid_msg d \<noteq> [] \<and>
    pdu_fits aper (enc_msg (U_ric_ind (report_ind i a d)))"

lemma report_sends_ind: "report_sends aper i a d \<longleftrightarrow> sid_call_process_id d = None \<and> ind_sends aper (report_ind i a d)"
  by (auto simp: report_sends_def ind_sends_def report_ind_def)

lemma ticks_run:
  "agent_inv ag \<Longrightarrow> 0 < fd \<Longrightarrow> ind_of ag fd = Some \<lparr>iric_id = i, ism = Some sm, action_id = a\<rparr> \<Longrightarrow>
    sm_reports n sm (aran ag) = Inr (ds, r) \<Longrightarrow> \<forall>d\<in>set ds. report_sends (aap ag) i a d \<Longrightarrow>
    run_events e2_event_agent (replicate n (Ag_ready fd rcv t)) ag =
      Inr (ag\<lparr>aran := r\<rparr>, map (report_of i a) ds)"
proof (induction n arbitrary: ag ds)
  case (Suc n)
  obtain d r1 ds1 where d: "ag_on_indication sm (aran ag) = Inr (d, r1)" "sm_reports n sm r1 = Inr (ds1, r)" "ds = d # ds1"
    using Suc.prems(4) by (auto simp: res_bind_eq_Inr)
  have c: "sid_call_process_id d = None" "ind_sends (aap ag) (report_ind i a d)"
    using Suc.prems(5) d(3) by (simp_all add: report_sends_ind)
  have t: "e2_event_agent ag (Ag_ready fd rcv t) = Inr (ag\<lparr>aran := r1\<rparr>, [report_of i a d])"
    using tick_event [OF Suc.prems(1-3) d(1) c] by (simp add: report_of_def)
  have "run_events e2_event_agent (replicate n (Ag_ready fd rcv t)) (ag\<lparr>aran := r1\<rparr>) =
      Inr ((ag\<lparr>aran := r1\<rparr>)\<lparr>aran := r\<rparr>, map (report_of i a) ds1)"
    using Suc.IH [of "ag\<lparr>aran := r1\<rparr>" ds1] Suc.prems d(2,3) by simp
  then show ?case by (simp add: t d(3))
qed simp

text \<open>C9: The life of a subscription at the agent.  A request with one report action for a loaded
  service model that answers a period above 0 (a timer of 0 is disarmed) is admitted, under its own
  identifier and action; from then on every expiration of its timer sends one indication with that
  identifier, that action and the next report of the service model, \<open>n\<close> expirations exactly \<open>n\<close>
  indications, as long as the reports pass the assertions of the encoder: a header and a message with
  bytes, a PDU shorter than the buffer, and no call process identifier.  The delete request is
  answered, and afterwards no subscription and no timer is left that was not there before.  A report
  that does not pass these assertions stops the agent at the expiration.\<close>

theorem subscription_life:
  assumes "agent_inv ag" "action sr = [a]" "act_type a = RIC_ACT_REPORT" "0 < ran_func_id (sr_ric_id sr)"
    "plugin_ag_get (aplugin ag) (ran_func_id (sr_ric_id sr)) = Some sm"
    "ag_on_subscription sm (aran ag) \<lparr>sd_event_trigger = event_trigger sr, sd_action_def = act_definition a\<rparr> = Inr (ms, r)"
    "0 < ms" "0 < tfd" "tfd \<notin> set (aio ag)" "ind_timer ag (sr_ric_id sr) = None"
    "sm_reports n sm r = Inr (ds, r')" "\<forall>d\<in>set ds. report_sends (aap ag) (sr_ric_id sr) (act_id a) d"
  shows "(\<exists>ag'. e2_event_loop_agent (Ag_ready (aep_fd ag) (Payload (Ric_sub_req sr)) tfd #
        replicate n (Ag_ready tfd rcv t) @
        [Ag_ready (aep_fd ag) (Payload (Ric_sub_del_req \<lparr>sdr_ric_id = sr_ric_id sr\<rparr>)) t]) ag =
      Inr (ag', Ric_sub_resp \<lparr>resp_ric_id = sr_ric_id sr, admitted = [\<lparr>ric_act_id = act_id a\<rparr>], not_admitted = []\<rparr> #
        map (report_of (sr_ric_id sr) (act_id a)) ds @
        [Ric_sub_del_resp \<lparr>sdresp_ric_id = sr_ric_id sr\<rparr>]) \<and>
    agent_inv ag' \<and> ind_timer ag' = ind_timer ag \<and> aio ag' = aio ag \<and> aran ag' = r') \<and>
   (\<forall>bad r2. ag_on_indication sm r' = Inr (bad, r2) \<and> sid_call_process_id bad = None \<and>
       \<not> report_sends (aap ag) (sr_ric_id sr) (act_id a) bad \<longrightarrow>
     e2_event_loop_agent (Ag_ready (aep_fd ag) (Payload (Ric_sub_req sr)) tfd #
        replicate n (Ag_ready tfd rcv t) @ [Ag_ready tfd rcv t]) ag = Inl AssertFail)"
proof -
  obtain ag1 m where ag1: "e2_event_agent ag (Ag_ready (aep_fd ag) (Payload (Ric_sub_req sr)) tfd) =
      Inr (ag1, [Ric_sub_resp \<lparr>resp_ric_id = sr_ric_id sr, admitted = [\<lparr>ric_act_id = act_id a\<rparr>], not_admitted = []\<rparr>])"
    "ag1 = ag\<lparr>aran := r, aio := tfd # aio ag, aind := m\<rparr>" "agent_inv ag1"
    "ind_timer ag1 = (ind_timer ag)(sr_ric_id sr \<mapsto> tfd)"
    "\<And>f. 0 < f \<Longrightarrow> ind_of ag1 f = (if f = tfd
      then Some \<lparr>iric_id = sr_ric_id sr, ism = Some sm, action_id = act_id a\<rparr> else ind_of ag f)"
    by (rule sub_event [OF assms(1-6) _ assms(8-10)]) (use assms(7) that in simp_all)
  have i1: "ind_of ag1 tfd = Some \<lparr>iric_id = sr_ric_id sr, ism = Some sm, action_id = act_id a\<rparr>"
    using ag1(5) [OF assms(8)] by simp
  have r1: "aran ag1 = r" "aep_fd ag1 = aep_fd ag" "aap ag1 = aap ag" by (simp_all add: ag1(2))
  let ?ag2 = "ag1\<lparr>aran := r'\<rparr>"
  have t: "run_events e2_event_agent (replicate n (Ag_ready tfd rcv t)) ag1 =
      Inr (?ag2, map (report_of (sr_ric_id sr) (act_id a)) ds)"
    using ticks_run [OF ag1(3) assms(8) i1, of n ds r' rcv t] assms(11,12) by (simp add: r1)
  have i2: "agent_inv ?ag2" "ind_timer ?ag2 (sdr_ric_id \<lparr>sdr_ric_id = sr_ric_id sr\<rparr>) = Some tfd"
    using ag1(3,4) by simp_all
  obtain ag3 m3 where ag3: "e2_event_agent ?ag2 (Ag_ready (aep_fd ?ag2) (Payload (Ric_sub_del_req \<lparr>sdr_ric_id = sr_ric_id sr\<rparr>)) t) =
      Inr (ag3, [Ric_sub_del_resp \<lparr>sdresp_ric_id = sdr_ric_id \<lparr>sdr_ric_id = sr_ric_id sr\<rparr>\<rparr>])"
    "ag3 = ?ag2\<lparr>aio := remove1 tfd (aio ?ag2), aind := m3\<rparr>" "agent_inv ag3"
    "ind_timer ag3 = (ind_timer ?ag2)(sdr_ric_id \<lparr>sdr_ric_id = sr_ric_id sr\<rparr> := None)"
    by (rule del_event [OF i2]) (rule that)
  have "ind_timer ag3 = ind_timer ag" using assms(10) by (auto simp: fun_eq_iff ag3(4) ag1(4))
  moreover have "aio ag3 = aio ag" "aran ag3 = r'" by (simp_all add: ag3(2) ag1(2))
  moreover have "e2_event_agent ?ag2 (Ag_ready tfd rcv t) = Inl AssertFail"
    if "\<not> report_sends (aap ag) (sr_ric_id sr) (act_id a) bad" "ag_on_indication sm r' = Inr (bad, r2)"
      "sid_call_process_id bad = None" for bad r2
    by (rule tick_stops [OF i2(1) assms(8), of "sr_ric_id sr" sm "act_id a" bad r2])
       (use that i1 r1 in \<open>simp_all add: report_sends_ind\<close>)
  ultimately show ?thesis
    using ag1(1) t ag3(1,3) r1(2) by (auto simp: e2_event_loop_agent_def run_events_append)
qed

definition demo_sub_req :: ric_subscription_request where
  "demo_sub_req = \<lparr>sr_ric_id = \<lparr>ric_req_id = 1021, ric_inst_id = 0, ran_func_id = 142\<rparr>, event_trigger = [1],
    action = [\<lparr>act_id = 0, act_type = RIC_ACT_REPORT, act_definition = None, act_subseq = None\<rparr>]\<rparr>"

lemma demo_fits: "h \<noteq> [] \<Longrightarrow> b \<noteq> [] \<Longrightarrow>
    pdu_fits one_byte_enc (e2ap_enc_indication_asn_pdu (report_ind i a \<lparr>sid_hdr = h, sid_msg = b, sid_call_process_id = None\<rparr>))"
  by (simp add: pdu_fits_def one_byte_enc_def report_ind_def e2ap_enc_indication_asn_pdu_def put_octets_opt_def)

theorem subscription_life_witness:
  "\<exists>ag'. e2_event_loop_agent [Ag_ready 5 (Payload (Ric_sub_req demo_sub_req)) 9, Ag_ready 9 Notification 0,
      Ag_ready 9 Notification 0, Ag_ready 5 (Payload (Ric_sub_del_req \<lparr>sdr_ric_id = sr_ric_id demo_sub_req\<rparr>)) 0] demo_agent =
    Inr (ag', [Ric_sub_resp \<lparr>resp_ric_id = sr_ric_id demo_sub_req, admitted = [\<lparr>ric_act_id = 0\<rparr>], not_admitted = []\<rparr>,
      report_of (sr_ric_id demo_sub_req) 0 \<lparr>sid_hdr = [7], sid_msg = [0], sid_call_process_id = None\<rparr>,
      report_of (sr_ric_id demo_sub_req) 0 \<lparr>sid_hdr = [7], sid_msg = [1], sid_call_process_id = None\<rparr>,
      Ric_sub_del_resp \<lparr>sdresp_ric_id = sr_ric_id demo_sub_req\<rparr>]) \<and> aio ag' = [5]"
proof -
  let ?a = "\<lparr>act_id = 0, act_type = RIC_ACT_REPORT, act_definition = None, act_subseq = None\<rparr>"
  have h: "action demo_sub_req = [?a]" "act_type ?a = RIC_ACT_REPORT" "0 < ran_func_id (sr_ric_id demo_sub_req)"
    "plugin_ag_get (aplugin demo_agent) (ran_func_id (sr_ric_id demo_sub_req)) = Some demo_ag"
    "ag_on_subscription demo_ag (aran demo_agent)
      \<lparr>sd_event_trigger = event_trigger demo_sub_req, sd_action_def = act_definition ?a\<rparr> = Inr (10, 0)"
    "(0::int) < 10" "(0::int) < 9" "(9::int) \<notin> set (aio demo_agent)" "ind_timer demo_agent (sr_ric_id demo_sub_req) = None"
    by (simp_all add: demo_sub_req_def demo_agent_simps) (simp_all add: demo_ag_def)
  have s: "sm_reports 2 demo_ag 0 = Inr ([\<lparr>sid_hdr = [7], sid_msg = [0], sid_call_process_id = None\<rparr>,
      \<lparr>sid_hdr = [7], sid_msg = [1], sid_call_process_id = None\<rparr>], 2)"
    by (simp add: numeral_2_eq_2 demo_ag_def)
  have f: "\<forall>d\<in>set [\<lparr>sid_hdr = [7], sid_msg = [0], sid_call_process_id = None\<rparr>,
      \<lparr>sid_hdr = [7], sid_msg = [1], sid_call_process_id = None\<rparr>].
    report_sends (aap demo_agent) (sr_ric_id demo_sub_req) (act_id ?a) d"
    by (simp add: report_sends_def demo_agent_simps demo_fits)
  note l = subscription_life [OF demo_agent_inv h s f, of Notification 0]
  have e: "replicate 2 (Ag_ready 9 Notification 0) = [Ag_ready 9 Notification 0, Ag_ready 9 Notification 0]"
    by (simp add: numeral_2_eq_2)
  from conjunct1 [OF l] show ?thesis unfolding e by (auto simp: demo_agent_simps)
qed

section \<open>Setup\<close>

text \<open>C26: The agent announces every loaded service model in its setup request and repeats the same
  request at every expiration of the timer, without any other change, until the response
  arrives, which stops the timer; a second response stops the process.  The encoding carries the
  request exactly when it can express the identifier of the node and there are fewer than 256
  service models, with numbers of at most 4096.\<close>

theorem setup_until_answered:
  assumes "agent_inv ag" "0 < size_plugin_ag (aplugin ag)" "setup_timer ag = None" "0 < tfd" "tfd \<notin> set (aio ag)"
    "announced (aplugin ag) = Inr rfs"
  shows "\<exists>ag'. e2_start_agent ag tfd (replicate n (Ag_ready tfd rcv t) @
        [Ag_ready (aep_fd ag) (Payload (E2_stp_resp resp)) t]) =
      Inr (ag', replicate (Suc n) (E2_stp_req \<lparr>stp_id = anode ag, ran_func_item = rfs\<rparr>)) \<and>
    agent_inv ag' \<and> setup_timer ag' = None \<and> aio ag' = aio ag \<and>
    e2_event_agent ag' (Ag_ready (aep_fd ag) (Payload (E2_stp_resp resp)) t) = Inl AssertFail \<and>
    (carried (E2_stp_req \<lparr>stp_id = anode ag, ran_func_item = rfs\<rparr>) =
      Inr (E2_stp_req \<lparr>stp_id = anode ag, ran_func_item = rfs\<rparr>) \<longleftrightarrow>
      node_id_ok (anode ag) \<and> length rfs < 256 \<and> (\<forall>rf\<in>set rfs. rf_ok rf))"
proof -
  let ?sr = "\<lparr>stp_id = anode ag, ran_func_item = rfs\<rparr>"
  have sr: "generate_setup_request_ag ag = Inr ?sr" by (rule setup_request_ag_ok [OF assms(1,2,6)])
  obtain m ag1 where ag1: "start_setup_timer ag tfd = Inr ag1" "ag1 = ag\<lparr>aio := tfd # aio ag, apend := m\<rparr>"
    "agent_inv ag1" "setup_timer ag1 = Some tfd"
    by (rule start_setup_ok [OF assms(1,4,5,3)]) (rule that)
  have sr1: "generate_setup_request_ag ag1 = Inr ?sr"
    using sr by (simp add: generate_setup_request_ag_def ag1(2))
  have t: "run_events e2_event_agent (replicate n (Ag_ready tfd rcv t)) ag1 = Inr (ag1, replicate n (E2_stp_req ?sr))"
    by (induction n) (simp_all add: setup_timeout_event [OF ag1(3,4) sr1])
  obtain ag2 m2 where ag2: "e2_event_agent ag1 (Ag_ready (aep_fd ag1) (Payload (E2_stp_resp resp)) t) = Inr (ag2, [])"
    "ag2 = ag1\<lparr>aio := remove1 tfd (aio ag1), apend := m2\<rparr>" "agent_inv ag2" "setup_timer ag2 = None"
    by (rule setup_resp_event [OF ag1(3,4)]) (rule that)
  have e: "aep_fd ag1 = aep_fd ag" "aep_fd ag2 = aep_fd ag" "aio ag2 = aio ag" by (simp_all add: ag2(2) ag1(2))
  have "e2_event_agent ag2 (Ag_ready (aep_fd ag) (Payload (E2_stp_resp resp)) t) = Inl AssertFail"
    using next_socket(1) [OF ag2(3)] stop_setup_absent [OF ag2(3,4)]
    by (simp add: e2_event_agent_def e(2) [symmetric] next_tfd_def e2ap_msg_handle_agent_def
        check_valid_msg_type_ag_def e2ap_handle_setup_response_agent_def)
  moreover have "replicate n (E2_stp_req ?sr) = replicate n (E2_stp_req ?sr) @ []" by simp
  moreover have "carried (E2_stp_req ?sr) = Inr (E2_stp_req ?sr) \<longleftrightarrow>
      node_id_ok (anode ag) \<and> length rfs < 256 \<and> (\<forall>rf\<in>set rfs. rf_ok rf)"
    unfolding carried_setup_request by (simp add: list_all_iff)
  ultimately show ?thesis
    using sr ag1(1) t ag2(1,3,4) e
    by (simp add: e2_start_agent_def e2_event_loop_agent_def run_events_append)
qed

theorem setup_until_answered_witness:
  "\<exists>ag'. e2_start_agent demo_agent 9 [Ag_ready 9 Notification 0, Ag_ready 5 (Payload (E2_stp_resp
      \<lparr>stp_resp_id = \<lparr>gr_plmn = nplmn demo_node, near_ric_id = 25\<rparr>, accepted = [142]\<rparr>)) 0] =
    Inr (ag', [E2_stp_req \<lparr>stp_id = demo_node, ran_func_item = [demo_rf]\<rparr>,
      E2_stp_req \<lparr>stp_id = demo_node, ran_func_item = [demo_rf]\<rparr>]) \<and> setup_timer ag' = None \<and>
    carried (E2_stp_req \<lparr>stp_id = demo_node, ran_func_item = [demo_rf]\<rparr>) =
      Inr (E2_stp_req \<lparr>stp_id = demo_node, ran_func_item = [demo_rf]\<rparr>)"
proof -
  have h: "(0::int) < 9" "(9::int) \<notin> set (aio demo_agent)" by (simp_all add: demo_agent_simps)
  have f: "announced (aplugin demo_agent) = Inr [demo_rf]"
    by (simp add: announced_def demo_agent_simps setup_ran_func_def demo_ag_def demo_rf_def)
  show ?thesis
    using setup_until_answered [OF demo_agent_inv demo_agent_simps(8,2) h f, of 1 Notification 0
        "\<lparr>stp_resp_id = \<lparr>gr_plmn = nplmn demo_node, near_ric_id = 25\<rparr>, accepted = [142]\<rparr>"]
    by (auto simp: demo_agent_simps demo_node_ok)
qed

text \<open>C27: A connection lost while the answer of a setup request is still awaited leaves two pending
  setup requests, and the next timer of either stops the process: the loop asserts that at most
  one event is pending.\<close>

theorem second_loss_stops:
  assumes "agent_inv ag" "setup_timer ag = Some fd0" "0 < tfd" "tfd \<notin> set (aio ag)"
  shows "\<exists>ag'. e2_event_agent ag (Ag_ready (aep_fd ag) Notification tfd) = Inr (ag', []) \<and>
    (\<forall>fd rcv t. fd = fd0 \<or> fd = tfd \<longrightarrow> e2_event_agent ag' (Ag_ready fd rcv t) = Inl AssertFail)"
proof -
  have b: "book_inv cmp_ind_event (insert (aep_fd ag) (book_fds (apend ag))) (aio ag) (aind ag)"
    "book_inv cmp_pending_event (insert (aep_fd ag) (book_fds (aind ag))) (aio ag) (apend ag)"
    using assms(1) by (simp_all add: agent_inv_def)
  note f = setup_book.fd_facts [OF b(2) assms(2) [unfolded setup_timer_def]]
  have i: "bm_inv cmp_fd fd_dom cmp_pending_event UNIV (apend ag)" using b(2) by (simp add: book_inv_def)
  have "bi_map_size (apend ag) = Inr 1" by (rule stop_setup_ok [OF assms(1,2)])
  then have one: "length (bm_pairs (apend ag)) = 1" using bi_map_size_ok [OF i] by simp
  have d: "tfd \<in> fd_dom" using assms(3) by simp
  obtain m where m: "bi_map_insert (apend ag) tfd SETUP_REQUEST_PENDING_EVENT = Inr m"
    "bm_inv cmp_fd fd_dom cmp_pending_event UNIV m"
    "bm_pairs m = ins_entry cmp_fd tfd SETUP_REQUEST_PENDING_EVENT (bm_pairs (apend ag))"
    using two_comparators.insert_ok [OF setup_book.maps i d, of SETUP_REQUEST_PENDING_EVENT] by auto
  let ?ag = "ag\<lparr>aio := tfd # aio ag, apend := m\<rparr>"
  have two: "bi_map_size m = Inr 2" using bi_map_size_ok [OF m(2)] m(3) one by simp
  have s: "start_setup_timer ag tfd = Inr ?ag"
    using assms(3,4) m(1) by (simp add: start_setup_timer_def create_timer_agent_ok)
  have e: "e2_event_agent ag (Ag_ready (aep_fd ag) Notification tfd) = Inr (?ag, [])"
    by (simp add: e2_event_agent_def next_socket(2) [OF assms(1)] next_tfd_def notification_handle_ag_def s)
  have "e2_event_agent ?ag (Ag_ready fd rcv t) = Inl AssertFail" if fd: "fd = fd0 \<or> fd = tfd" for fd rcv t
  proof -
    have p: "0 < fd" "fd \<noteq> aep_fd ag" "fd \<notin> book_fds (aind ag)"
      using fd f assms(3,4) b by (auto simp: book_inv_def)
    have "bm_inv cmp_fd fd_dom cmp_ind_event UNIV (aind ag)" using b(1) by (simp add: book_inv_def)
    from find_fd_book [OF this p(1)] have "ind_event_ag ?ag fd = Inr (ind_of ag fd)"
      using p(1) by (simp add: ind_event_ag_def ind_of_def)
    moreover have "ind_of ag fd = None" using p(3) book_ev_fds [of "aind ag" fd] by (cases "ind_of ag fd") (auto simp: ind_of_def)
    ultimately show ?thesis
      using p two by (simp add: e2_event_agent_def next_async_event_agent_def pend_event_ag_def)
  qed
  then show ?thesis using e by blast
qed

definition lost_agent :: "nat e2_agent" where
  "lost_agent = demo_agent\<lparr>aio := [9, 5], apend := single_map cmp_fd cmp_pending_event 9 SETUP_REQUEST_PENDING_EVENT\<rparr>"

theorem second_loss_stops_witness:
  "\<exists>ag'. e2_event_agent lost_agent (Ag_ready 5 Notification 10) = Inr (ag', []) \<and>
    e2_event_agent ag' (Ag_ready 9 Notification 0) = Inl AssertFail"
proof -
  have s: "setup_timer demo_agent = None" by (simp add: demo_agent_simps)
  obtain m ag1 where ag1: "start_setup_timer demo_agent 9 = Inr ag1" "ag1 = demo_agent\<lparr>aio := 9 # aio demo_agent, apend := m\<rparr>"
    "agent_inv ag1" "setup_timer ag1 = Some 9"
    by (rule start_setup_ok [OF demo_agent_inv _ _ s, of 9]) (use that in \<open>simp_all add: demo_agent_simps\<close>)
  have "ag1 = lost_agent"
    using ag1(1) by (simp add: start_setup_timer_def create_timer_ms_asio_agent_def add_fd_asio_agent_def demo_agent_def
        init_pending_events_ag_def bi_map_init_def bi_map_insert_def assoc_rb_tree_insert_def assoc_rb_tree_init_def
        lost_agent_def single_map_def)
  then show ?thesis
    using second_loss_stops [OF ag1(3,4), of 10] by (auto simp: lost_agent_def demo_agent_simps)
qed

section \<open>The invariant\<close>

text \<open>C12: Over any run that does not stop the process and respects \<open>fair_agent\<close> (new timers get
  descriptors that are positive and free, the RIC does not reuse the identifier of a running
  subscription, and no connection is lost during a setup), the state of the agent stays well formed:
  every subscription and the setup request have one timer each in the interest list, no timer belongs to
  two of them, and at most one setup is pending.\<close>

theorem agent_run_invariant:
  assumes "agent_inv ag" "fair_events e2_event_agent fair_agent es ag" "e2_event_loop_agent es ag = Inr (ag', os)"
  shows "agent_inv ag'"
  by (rule agent_loop.run_keeps [OF assms(1,2)]) (use assms(3) in \<open>simp add: e2_event_loop_agent_def\<close>)

text \<open>The witness: a subscription, one expiration of its timer, a connection loss.\<close>

theorem agent_run_invariant_witness:
  "\<exists>ag'. e2_event_loop_agent [Ag_ready 5 (Payload (Ric_sub_req demo_sub_req)) 9, Ag_ready 9 Notification 10,
      Ag_ready 5 Notification 10] demo_agent =
    Inr (ag', [Ric_sub_resp \<lparr>resp_ric_id = sr_ric_id demo_sub_req, admitted = [\<lparr>ric_act_id = 0\<rparr>], not_admitted = []\<rparr>,
      report_of (sr_ric_id demo_sub_req) 0 \<lparr>sid_hdr = [7], sid_msg = [0], sid_call_process_id = None\<rparr>]) \<and>
    aio ag' = [10, 9, 5] \<and> agent_inv ag'"
proof -
  let ?a = "\<lparr>act_id = 0, act_type = RIC_ACT_REPORT, act_definition = None, act_subseq = None\<rparr>"
  let ?e1 = "Ag_ready 5 (Payload (Ric_sub_req demo_sub_req)) 9" and ?e2 = "Ag_ready 9 Notification 10"
    and ?e3 = "Ag_ready 5 Notification 10"
  have h: "action demo_sub_req = [?a]" "act_type ?a = RIC_ACT_REPORT" "0 < ran_func_id (sr_ric_id demo_sub_req)"
    "plugin_ag_get (aplugin demo_agent) (ran_func_id (sr_ric_id demo_sub_req)) = Some demo_ag"
    "ag_on_subscription demo_ag (aran demo_agent)
      \<lparr>sd_event_trigger = event_trigger demo_sub_req, sd_action_def = act_definition ?a\<rparr> = Inr (10, 0)"
    "(0::int) \<le> 10" "(0::int) < 9" "(9::int) \<notin> set (aio demo_agent)" "ind_timer demo_agent (sr_ric_id demo_sub_req) = None"
    by (simp_all add: demo_sub_req_def demo_agent_simps) (simp_all add: demo_ag_def)
  obtain ag1 m where ag1: "e2_event_agent demo_agent (Ag_ready (aep_fd demo_agent) (Payload (Ric_sub_req demo_sub_req)) 9) =
      Inr (ag1, [Ric_sub_resp \<lparr>resp_ric_id = sr_ric_id demo_sub_req, admitted = [\<lparr>ric_act_id = act_id ?a\<rparr>], not_admitted = []\<rparr>])"
    "ag1 = demo_agent\<lparr>aran := 0, aio := 9 # aio demo_agent, aind := m\<rparr>" "agent_inv ag1"
    "\<And>f. 0 < f \<Longrightarrow> ind_of ag1 f = (if f = 9
      then Some \<lparr>iric_id = sr_ric_id demo_sub_req, ism = Some demo_ag, action_id = act_id ?a\<rparr> else ind_of demo_agent f)"
    by (rule sub_event [OF demo_agent_inv h]) (rule that)
  let ?d = "\<lparr>sid_hdr = [7], sid_msg = [0], sid_call_process_id = None\<rparr>"
  have i1: "ind_of ag1 9 = Some \<lparr>iric_id = sr_ric_id demo_sub_req, ism = Some demo_ag, action_id = 0\<rparr>"
    using ag1(4) by simp
  have d: "ag_on_indication demo_ag (aran ag1) = Inr (?d, Suc 0)" by (simp add: ag1(2) demo_ag_def)
  have f: "ind_sends (aap ag1) (report_ind (sr_ric_id demo_sub_req) 0 ?d)"
    by (simp add: ag1(2) demo_agent_simps ind_sends_def demo_fits) (simp add: report_ind_def)
  have t: "e2_event_agent ag1 ?e2 = Inr (ag1\<lparr>aran := Suc 0\<rparr>, [report_of (sr_ric_id demo_sub_req) 0 ?d])"
    using tick_event [OF ag1(3) _ i1 d _ f] by (simp add: report_of_def)
  let ?ag2 = "ag1\<lparr>aran := Suc 0\<rparr>"
  have i0: "agent_inv ?ag2" using ag1(3) by simp
  have i2: "agent_inv ?ag2" "(10::int) \<notin> set (aio ?ag2)" "setup_timer ?ag2 = None" "aep_fd ?ag2 = 5"
    by (rule i0) (simp_all add: ag1(2) demo_agent_simps)
  obtain q ag3 where ag3: "start_setup_timer ?ag2 10 = Inr ag3" "ag3 = ?ag2\<lparr>aio := 10 # aio ?ag2, apend := q\<rparr>"
    by (rule start_setup_ok [OF i2(1) _ i2(2,3)]) (use that in simp_all)
  have n: "e2_event_agent ?ag2 ?e3 = Inr (ag3, [])"
    using next_socket(2) [OF i2(1), of 10] i2(4)
    by (simp add: e2_event_agent_def notification_handle_ag_def next_tfd_def ag3(1))
  have e: "e2_event_agent demo_agent ?e1 = Inr (ag1, [Ric_sub_resp \<lparr>resp_ric_id = sr_ric_id demo_sub_req,
      admitted = [\<lparr>ric_act_id = 0\<rparr>], not_admitted = []\<rparr>])"
    using ag1(1) by (simp add: demo_agent_simps)
  have l: "e2_event_loop_agent [?e1, ?e2, ?e3] demo_agent = Inr (ag3,
      [Ric_sub_resp \<lparr>resp_ric_id = sr_ric_id demo_sub_req, admitted = [\<lparr>ric_act_id = 0\<rparr>], not_admitted = []\<rparr>,
      report_of (sr_ric_id demo_sub_req) 0 ?d])"
    using e t n by (simp add: e2_event_loop_agent_def)
  have "fair_events e2_event_agent fair_agent [?e1, ?e2, ?e3] demo_agent"
    using e t n h i2 by (simp add: fair_agent_def demo_agent_simps ag1(2))
  from agent_run_invariant [OF demo_agent_inv this l] l show ?thesis
    by (auto simp: ag3(2) ag1(2) demo_agent_simps)
qed

end
