(* ===== verification/NetProps.thy ===== *)
theory NetProps
  imports AgentProps
begin

text \<open>
  The properties of the three processes together: a report travels from the xApp to the RAN and its
  answer back, an indication from the RAN to the callback of the xApp, and every message that one
  process sends has a handler at the other end.
\<close>

section \<open>From the xApp to the RAN and back\<close>

text \<open>C2: A report of an xApp, carried through the RIC and its iApp to the agent and answered there,
  returns to its caller: the request reaches the agent under an identifier of the RIC, the agent
  starts the report timer, the response reaches the xApp under the xApp's own identifier, and
  afterwards the three processes agree on the subscription: the agent reports under the identifier
  that the iApp routes to the procedure in which the xApp keeps the callback.  The service model asks
  with an event trigger that has bytes, the encoding can express the identifier of the node, and the
  four PDUs fit the buffers of their senders; then each of the four messages arrives unchanged over
  its bytes, with any codec that reads back what it wrote.\<close>

theorem report_end_to_end:
  fixes st :: "('sri, 'wr, 'rd) sys" and x :: "('wr1, 'rd1, 'st1, 'cb) e42_xapp"
  assumes "node_set D" "sys_inv D ep_fd st" "req_id (s_ric st) < 65536"
      "xapps_get (xapps (s_iapp st)) (xid x) = Some xinfo" "node \<in> D"
      "e2_sad_get (ep (s_ric st)) node = Some s"
      "length (e2reg_entries (e2_nodes (s_iapp st))) < 256" "0 < fd" "fd \<notin> set (io (s_ric st))"
    and "xapp_inv D x" "valid_ran_func_id rf" "key_id (xact x) < 65536"
      "plugin_get (xplugin_ric x) rf = Some sm" "interval_cmd i = Inr cmd"
      "0 < tfd" "tfd \<notin> set (xio x)" "xpend x E42_RIC_SUBSCRIPTION_REQUEST_PENDING_EVENT = None"
      "on_subscription sm cmd = Inr data"
    and "agent_inv ag" "plugin_ag_get (aplugin ag) rf = Some ags"
      "ag_on_subscription ags (aran ag) data = Inr (ms, r)" "0 < ms" "0 < afd"
      "afd \<notin> set (aio ag)" "ind_timer ag f = None"
    and "f = fwd_id (s_ric st) (next_id x rf)" "q = E42_ric_sub_req (xapp_report_req x node rf data)"
      "m1 = Ric_sub_req (subs_request f data)" "m2 = Ric_sub_resp (admission f)"
      "m3 = Ric_sub_resp (admission (next_id x rf))"
    and "sd_event_trigger data \<noteq> []" "node_id_ok node" "reads_back enc dec" "\<forall>m\<in>{q, m1, m2, m3}. msg_fits enc m"
  shows "(\<exists>st1 ag1 st2 x1.
    sys_step st (From_xapp xinfo q [fd]) = Inr (st1, [To_node s m1]) \<and>
    e2_event_agent ag (Ag_ready (aep_fd ag) (Payload m1) afd) = Inr (ag1, [m2]) \<and>
    sys_step st1 (From_ric_loop (Sctp_msg_arrived s m2)) = Inr (st2, [To_xapp xinfo m3]) \<and>
    report_sm_sync_xapp x tfd node rf i cb [] [Xready (xep_fd x) m3 tfd'] =
      Inr (of_nat (key_id (xact x)), x1, [Xsend q]) \<and>
    sys_inv D ep_fd st2 \<and> agent_inv ag1 \<and> xapp_inv D x1 \<and>
    ind_of ag1 afd = Some \<lparr>iric_id = f, ism = Some ags, action_id = 0\<rparr> \<and>
    routed (s_iapp st2) f \<lparr>xric_id = next_id x rf, xapp_id = xid x\<rparr> xinfo \<and>
    (\<exists>v. act_get (xact x1) (of_nat (key_id (xact x))) = Some v \<and> ap_sm_cb v = cb \<and> ap_e2_node v = node)) \<and>
   (\<forall>m\<in>{q, m1, m2, m3}. carried_bytes enc dec m = Inr m)"
proof
  have ms: "0 \<le> ms" using assms(22) by simp
  note c = assms(1-21) ms assms(23,24) assms(25) [unfolded assms(26)]
  obtain m1' m2' m3' where e: "carried m1' = Inr m1'" "carried m2' = Inr m2'" "carried m3' = Inr m3'"
    "m1' = m1" "m2' = m2" "m3' = m3"
    by (rule report_chain [OF c, of cb tfd']) (use assms(26-31) that in simp)
  have "carried q = Inr q"
    using carried_report_request [OF assms(31,32)] by (simp add: assms(27))
  then have "\<forall>m\<in>{q, m1, m2, m3}. carried m = Inr m" using e by simp
  then show "\<forall>m\<in>{q, m1, m2, m3}. carried_bytes enc dec m = Inr m"
    using carried_bytes_iff [OF _ assms(33)] assms(34) by blast
  show "\<exists>st1 ag1 st2 x1.
    sys_step st (From_xapp xinfo q [fd]) = Inr (st1, [To_node s m1]) \<and>
    e2_event_agent ag (Ag_ready (aep_fd ag) (Payload m1) afd) = Inr (ag1, [m2]) \<and>
    sys_step st1 (From_ric_loop (Sctp_msg_arrived s m2)) = Inr (st2, [To_xapp xinfo m3]) \<and>
    report_sm_sync_xapp x tfd node rf i cb [] [Xready (xep_fd x) m3 tfd'] =
      Inr (of_nat (key_id (xact x)), x1, [Xsend q]) \<and>
    sys_inv D ep_fd st2 \<and> agent_inv ag1 \<and> xapp_inv D x1 \<and>
    ind_of ag1 afd = Some \<lparr>iric_id = f, ism = Some ags, action_id = 0\<rparr> \<and>
    routed (s_iapp st2) f \<lparr>xric_id = next_id x rf, xapp_id = xid x\<rparr> xinfo \<and>
    (\<exists>v. act_get (xact x1) (of_nat (key_id (xact x))) = Some v \<and> ap_sm_cb v = cb \<and> ap_e2_node v = node)"
    by (rule report_chain [OF c, of cb tfd']) (use assms(26-30) in blast)
qed

lemma demo_xapp_facts:
  "xapps_get (xapps (s_iapp demo_sys)) (xid demo_xapp) = Some (demo_addr 5000)" "interval_cmd Ms_1 = Inr ''1_ms''"
  "key_id (xact demo_xapp) < 65536" "(9::int) \<notin> set (xio demo_xapp)" "(9::int) \<notin> set (aio demo_agent)"
  "ag_on_subscription demo_ag (aran demo_agent) \<lparr>sd_event_trigger = [1], sd_action_def = None\<rparr> = Inr (10, 0)"
  "ind_timer demo_agent i = None"
  by (simp_all add: demo_xapp_simps demo_facts interval_cmd_def demo_agent_simps) (simp add: demo_ag_def)

theorem report_end_to_end_witness:
  "\<exists>st1 ag1 st2 (x1 :: (byte_array, byte_array, nat, nat) e42_xapp) q m1 m2 m3 enc dec.
    sys_step demo_sys (From_xapp (demo_addr 5000) q [9]) = Inr (st1, [To_node (demo_addr 36421) m1]) \<and>
    e2_event_agent demo_agent (Ag_ready 5 (Payload m1) 9) = Inr (ag1, [m2]) \<and>
    sys_step st1 (From_ric_loop (Sctp_msg_arrived (demo_addr 36421) m2)) = Inr (st2, [To_xapp (demo_addr 5000) m3]) \<and>
    report_sm_sync_xapp demo_xapp 9 demo_node 142 Ms_1 (Some 3) [] [Xready 4 m3 0] = Inr (1, x1, [Xsend q]) \<and>
    (\<forall>m\<in>{q, m1, m2, m3}. carried_bytes enc dec m = Inr m)"
proof -
  let ?d = "\<lparr>sd_event_trigger = [1], sd_action_def = None\<rparr>"
  let ?f = "fwd_id (s_ric demo_sys) (next_id demo_xapp 142)"
  let ?q = "E42_ric_sub_req (xapp_report_req demo_xapp demo_node 142 ?d)" and ?m1 = "Ric_sub_req (subs_request ?f ?d)"
    and ?m2 = "Ric_sub_resp (admission ?f)" and ?m3 = "Ric_sub_resp (admission (next_id demo_xapp 142))"
  let ?ps = "codec_of [?q, ?m1, ?m2, ?m3]"
  have t: "sd_event_trigger ?d \<noteq> []" by simp
  have "ric_id_ok True (Some 256) (next_id demo_xapp 142)" by (rule next_id_ok [OF valid_142 demo_xapp_facts(3)]) simp
  then have "carried ?q = Inr ?q \<and> carried ?m1 = Inr ?m1 \<and> carried ?m2 = Inr ?m2 \<and> carried ?m3 = Inr ?m3"
    using carried_report_request [OF t demo_node_ok(1)] carried_subscription [OF t]
    by (simp add: admission_def carried_admission fwd_id_ok)
  then have f: "\<forall>m\<in>{?q, ?m1, ?m2, ?m3}. msg_fits (table_enc ?ps) m"
    by (auto intro: codec_of_fits)
  have r: "reads_back (table_enc ?ps) (table_dec ?ps)" by (rule table_reads_back) (simp add: codec_of_def)
  have p: "(0::int) < 10" "(0::int) < 9" by simp_all
  from report_end_to_end [OF mono_nodes.node_set_axioms demo_sys_inv demo_facts(1) demo_xapp_facts(1) demo_mono
      demo_facts(3,4) p(2) demo_facts(5) demo_xapp_inv valid_142 demo_xapp_facts(3) demo_xapp_simps(1)
      demo_xapp_facts(2) p(2) demo_xapp_facts(4) demo_xpend demo_sm_sub demo_agent_inv demo_agent_simps(5) demo_xapp_facts(6) p
      demo_xapp_facts(5,7) refl refl refl refl refl t demo_node_ok(1) r f, of "Some 3" 0]
  show ?thesis unfolding demo_xapp_simps(2,4) demo_agent_simps(4) by (simp only: of_nat_1) blast
qed

section \<open>From the RAN to the callback\<close>

text \<open>C3: An expiration of a report timer at the agent ends in the callback of the xApp: the agent
  sends one indication with what its service model produced, the RIC hands it decoded to its
  listeners and forwards it to the xApp that subscribed, and the xApp writes a copy to its data base
  and queues it, decoded by its own service model, for the callback of that subscription.  The
  RIC and the subscription itself do not change.  The report has a header and a message with bytes, its
  PDU fits the buffer of the agent and, under the identifier of the xApp, the one of the iApp, the two
  identifiers have 16 bits and a RAN function of at most 4095, and the reading can be copied; then both
  indications arrive unchanged over their bytes, with any codec that reads back what it wrote.\<close>

theorem indication_end_to_end:
  fixes st :: "('sri, 'wr, 'rd) sys" and x :: "('wr1, 'rd1, 'st1, 'cb) e42_xapp"
  assumes "agent_inv ag" "0 < afd" "ind_of ag afd = Some \<lparr>iric_id = f, ism = Some ags, action_id = a\<rparr>"
      "ag_on_indication ags (aran ag) = Inr (d, r)" "sid_call_process_id d = None"
    and "plugin_inv (plugin (s_ric st))" "plugin_get (plugin (s_ric st)) (ran_func_id f) = Some rsm"
      "rb_entries (pub_sub (s_ric st)) = map (\<lambda>e. (fst e, default_listeners)) (rb_entries (plugin (s_ric st)))"
      "on_indication rsm d = Inr rd" "rd_supported (rd_type rd)"
      "routed (s_iapp st) f \<lparr>xric_id = j, xapp_id = xi\<rparr> xinfo"
    and "xapp_inv D x" "plugin_get (xplugin_ric x) (ran_func_id f) = Some sm"
      "on_indication sm d = Inr xrd" "rd_supported (rd_type xrd)" "act_get (xact x) (ucast (ric_req_id j)) = Some v"
      "xcp x xrd = Inr c"
    and "m1 = Ric_ind (report_ind f a d)" "m2 = Ric_ind (report_ind j a d)"
      "sid_hdr d \<noteq> []" "sid_msg d \<noteq> []" "ric_id_ok True (Some 4096) f" "ric_id_ok True (Some 4096) j"
      "reads_back (aap ag) dec" "\<forall>m\<in>{m1, m2}. msg_fits (aap ag) m"
  shows "(\<exists>x1.
    e2_event_agent ag (Ag_ready afd rcv afd') = Inr (ag\<lparr>aran := r\<rparr>, [m1]) \<and>
    sys_step st (From_ric_loop (Sctp_msg_arrived s m1)) =
      Inr (st, map (\<lambda>n. To_listener n rd) default_listeners @ [To_xapp xinfo m2]) \<and>
    e2_event_xapp x (Xready (xep_fd x) m2 tfd) = Inr (x1, [Xwrite_db (ap_e2_node v) c]) \<and>
    xdisp x1 = xdisp x @ [(ap_sm_cb v, xrd)] \<and> xapp_inv D x1) \<and>
   (\<forall>m\<in>{m1, m2}. carried_bytes (aap ag) dec m = Inr m)"
proof -
  have s: "ind_sends (aap ag) (report_ind f a d)"
    using assms(18,20,21,25) by (simp add: ind_sends_def msg_fits_def msg_pdu_def) (simp add: report_ind_def)
  obtain x1 where x1: "e2_event_agent ag (Ag_ready afd rcv afd') = Inr (ag\<lparr>aran := r\<rparr>, [m1])"
    "sys_step st (From_ric_loop (Sctp_msg_arrived s m1)) =
      Inr (st, map (\<lambda>n. To_listener n rd) default_listeners @ [To_xapp xinfo m2])"
    "e2_event_xapp x (Xready (xep_fd x) m2 tfd) = Inr (x1, [Xwrite_db (ap_e2_node v) c])"
    "xdisp x1 = xdisp x @ [(ap_sm_cb v, xrd)]" "xapp_inv D x1" "carried m1 = Inr m1" "carried m2 = Inr m2"
    by (rule indication_chain [OF assms(1-5) s assms(6-17), of rcv afd' s tfd]) (use assms(18,19,22,23) that in simp)
  have "\<forall>m\<in>{m1, m2}. carried m = Inr m" using x1(6,7) by simp
  then have "\<forall>m\<in>{m1, m2}. carried_bytes (aap ag) dec m = Inr m"
    using carried_bytes_iff [OF _ assms(24)] assms(25) by blast
  then show ?thesis using x1(1-5) by blast
qed

text \<open>The witness starts after a report: the iApp routes the identifier 1021 to the xApp 7, whose
  procedure 1 has the callback 3, and the agent reports with the timer 9.\<close>

lemma reporting_agent:
  obtains ag where "agent_inv ag"
    "ind_of ag 9 = Some \<lparr>iric_id = \<lparr>ric_req_id = 1021, ric_inst_id = 0, ran_func_id = 142\<rparr>, ism = Some demo_ag, action_id = 0\<rparr>"
proof -
  let ?a = "\<lparr>act_id = 0, act_type = RIC_ACT_REPORT, act_definition = None, act_subseq = None\<rparr>"
  have h: "action demo_sub_req = [?a]" "act_type ?a = RIC_ACT_REPORT" "0 < ran_func_id (sr_ric_id demo_sub_req)"
    "plugin_ag_get (aplugin demo_agent) (ran_func_id (sr_ric_id demo_sub_req)) = Some demo_ag"
    "ag_on_subscription demo_ag (aran demo_agent)
      \<lparr>sd_event_trigger = event_trigger demo_sub_req, sd_action_def = act_definition ?a\<rparr> = Inr (10, 0)"
    by (simp_all add: demo_sub_req_def demo_agent_simps) (simp_all add: demo_ag_def)
  obtain ag where "agent_inv ag" "\<And>f. 0 < f \<Longrightarrow> ind_of ag f = (if f = 9
      then Some \<lparr>iric_id = sr_ric_id demo_sub_req, ism = Some demo_ag, action_id = act_id ?a\<rparr> else ind_of demo_agent f)"
    by (rule sub_event [OF demo_agent_inv h _ _ demo_xapp_facts(5,7)]) (use that in simp_all)
  then show ?thesis using that [of ag] by (simp add: demo_sub_req_def)
qed

lemma worn_facts:
  "plugin_inv (plugin (s_ric worn_sys))" "plugin_get (plugin (s_ric worn_sys)) 142 = Some demo_sm"
  "rb_entries (pub_sub (s_ric worn_sys)) = map (\<lambda>e. (fst e, default_listeners)) (rb_entries (plugin (s_ric worn_sys)))"
  "routed (s_iapp worn_sys) \<lparr>ric_req_id = 1021, ric_inst_id = 0, ran_func_id = 142\<rparr>
    \<lparr>xric_id = \<lparr>ric_req_id = 1, ric_inst_id = 0, ran_func_id = 142\<rparr>, xapp_id = 7\<rparr> (demo_addr 5000)"
proof -
  show "plugin_inv (plugin (s_ric worn_sys))" "plugin_get (plugin (s_ric worn_sys)) 142 = Some demo_sm"
    "rb_entries (pub_sub (s_ric worn_sys)) = map (\<lambda>e. (fst e, default_listeners)) (rb_entries (plugin (s_ric worn_sys)))"
    by (simp_all add: worn_sys_def demo_sys_def demo_ric_def plugin_inv_def plugin_get_def single_tree_inv
        single_tree_entries demo_sm_def)
  have "xapps_get (xapps (s_iapp worn_sys)) 7 = Some (demo_addr 5000)"
    by (simp add: worn_sys_def demo_xapps)
  then show "routed (s_iapp worn_sys) \<lparr>ric_req_id = 1021, ric_inst_id = 0, ran_func_id = 142\<rparr>
    \<lparr>xric_id = \<lparr>ric_req_id = 1, ric_inst_id = 0, ran_func_id = 142\<rparr>, xapp_id = 7\<rparr> (demo_addr 5000)"
    by (simp add: routed_def) (simp add: worn_sys_def ric_id_get_def single_map_def bm_pairs_def single_tree_entries)
qed

theorem indication_end_to_end_witness:
  "\<exists>(ag :: nat e2_agent) ag1 m1 m2 x1 w d dec.
    e2_event_agent ag (Ag_ready 9 Notification 0) = Inr (ag1, [m1]) \<and>
    sys_step worn_sys (From_ric_loop (Sctp_msg_arrived (demo_addr 36421) m1)) =
      Inr (worn_sys, map (\<lambda>n. To_listener n d) default_listeners @ [To_xapp (demo_addr 5000) m2]) \<and>
    e2_event_xapp busy_xapp (Xready 4 m2 0) = Inr (x1, [w]) \<and> xdisp x1 = [(Some 3, d)] \<and>
    (\<forall>m\<in>{m1, m2}. carried_bytes (aap ag) dec m = Inr m)"
proof -
  obtain ag0 where ag0: "agent_inv ag0"
    "ind_of ag0 9 = Some \<lparr>iric_id = \<lparr>ric_req_id = 1021, ric_inst_id = 0, ran_func_id = 142\<rparr>, ism = Some demo_ag, action_id = 0\<rparr>"
    by (rule reporting_agent)
  let ?f = "\<lparr>ric_req_id = 1021, ric_inst_id = 0, ran_func_id = 142\<rparr>" and ?j = "\<lparr>ric_req_id = 1, ric_inst_id = 0, ran_func_id = 142\<rparr>"
  let ?d = "\<lparr>sid_hdr = [7], sid_msg = [word_of_nat (aran ag0)], sid_call_process_id = None\<rparr>"
  let ?m1 = "Ric_ind (report_ind ?f 0 ?d)" and ?m2 = "Ric_ind (report_ind ?j 0 ?d)"
  let ?ps = "codec_of [?m1, ?m2]"
  let ?ag = "ag0\<lparr>aap := table_enc ?ps\<rparr>"
  have ag: "agent_inv ?ag" "ind_of ?ag 9 = Some \<lparr>iric_id = ?f, ism = Some demo_ag, action_id = 0\<rparr>"
    "ag_on_indication demo_ag (aran ?ag) = Inr (?d, Suc (aran ag0))"
    using ag0 by (simp_all add: agent_inv_def ind_of_def demo_ag_def)
  have ids: "ric_id_ok True (Some 4096) ?f" "ric_id_ok True (Some 4096) ?j" by (simp_all add: ric_id_ok_def)
  have "carried ?m1 = Inr ?m1" "carried ?m2 = Inr ?m2"
    using ids by (simp_all add: report_ind_def carried_report)
  then have fit: "\<forall>m\<in>{?m1, ?m2}. msg_fits (aap ?ag) m" by (auto intro: codec_of_fits)
  have rbk: "reads_back (aap ?ag) (table_dec ?ps)" by (simp add: table_reads_back codec_of_def)
  obtain v where v: "plugin_get (xplugin_ric busy_xapp) 142 = Some demo_sm" "act_get (xact busy_xapp) 1 = Some v"
    "ap_sm_cb v = Some 3"
    using busy_xapp_facts(8,9) by (auto simp: stamp_id_def report_val_def)
  have h: "(0::int) < 9" "plugin_get (plugin (s_ric worn_sys)) (ran_func_id ?f) = Some demo_sm"
    "plugin_get (xplugin_ric busy_xapp) (ran_func_id ?f) = Some demo_sm"
    "on_indication demo_sm ?d = Inr \<lparr>rd_type = MAC_STATS_V0, rd_stats = [word_of_nat (aran ag0)]\<rparr>"
    "rd_supported (rd_type (\<lparr>rd_type = MAC_STATS_V0, rd_stats = [word_of_nat (aran ag0)]\<rparr> :: byte_array sm_ag_if_rd))"
    "sid_call_process_id ?d = None" "act_get (xact busy_xapp) (ucast (ric_req_id ?j)) = Some v"
    "xcp busy_xapp \<lparr>rd_type = MAC_STATS_V0, rd_stats = [word_of_nat (aran ag0)]\<rparr> =
      Inr \<lparr>rd_type = MAC_STATS_V0, rd_stats = [word_of_nat (aran ag0)]\<rparr>"
    "sid_hdr ?d \<noteq> []" "sid_msg ?d \<noteq> []"
    using worn_facts(2) v by (simp_all add: demo_sm_ind rd_supported_def busy_xapp_facts)
  from indication_end_to_end [OF ag(1) h(1) ag(2,3) h(6) worn_facts(1) h(2) worn_facts(3) h(4,5) worn_facts(4)
      busy_xapp_facts(1) h(3-5,7,8) refl refl h(9,10) ids rbk fit, of Notification 0 "demo_addr 36421" 0]
  show ?thesis unfolding busy_xapp_facts(2,6) v(3) append_Nil by blast
qed

section \<open>Types of messages\<close>

text \<open>C19: On every channel the messages fit the other end: whatever the agent sends, from any state
  and over any run of events, the RIC has a handler for; whatever the RIC sends to a node or to an
  xApp, and whatever an xApp sends in its loop or in one of its requests, passes the check of
  message types at its receiver and has an entry in the receiver's table of handlers.\<close>

theorem messages_typed:
  "(e2_event_loop_agent es ag = Inr (ag', aos) \<longrightarrow>
     (\<forall>m\<in>set aos. check_valid_msg_type (msg_type m) \<and> init_handle_msg_ric (msg_type m) \<noteq> None)) \<and>
   (sys_step st e = Inr (st', sos) \<longrightarrow>
     (\<forall>s m. To_node s m \<in> set sos \<longrightarrow> check_valid_msg_type_ag (msg_type m) \<and> init_handle_msg_agent (msg_type m) \<noteq> None) \<and>
     (\<forall>s m. To_xapp s m \<in> set sos \<longrightarrow> check_valid_msg_type_xapp (msg_type m) \<and> init_handle_msg_xapp (msg_type m) \<noteq> None)) \<and>
   (e2_event_loop_xapp xes x = Inr (x', xos) \<or> report_sm_sync_xapp x fd node rf i cb early late = Inr (h, x', xos) \<or>
    rm_report_sm_sync_xapp x fd h2 early late = Inr (x', xos) \<or>
    control_sm_sync_xapp x fd node rf wr early late = Inr (x', xos) \<longrightarrow>
     (\<forall>m. Xsend m \<in> set xos \<longrightarrow> check_valid_msg_type_iapp (msg_type m) \<and> init_handle_msg_iapp (msg_type m) \<noteq> None))"
proof (intro conjI impI)
  assume "e2_event_loop_agent es ag = Inr (ag', aos)"
  then show "\<forall>m\<in>set aos. check_valid_msg_type (msg_type m) \<and> init_handle_msg_ric (msg_type m) \<noteq> None"
    unfolding e2_event_loop_agent_def valid_iff_handler [symmetric] by (auto dest: agent_loop_sends simp: to_ric_def)
next
  assume "sys_step st e = Inr (st', sos)"
  note t = sys_sends [OF this, unfolded list_all_iff]
  have n: "to_agent m" if "To_node s m \<in> set sos" for s m using bspec [OF t that] by (simp add: out_typed_def)
  have a: "to_xapp m" if "To_xapp s m \<in> set sos" for s m using bspec [OF t that] by (simp add: out_typed_def)
  show "\<forall>s m. To_node s m \<in> set sos \<longrightarrow> check_valid_msg_type_ag (msg_type m) \<and> init_handle_msg_agent (msg_type m) \<noteq> None"
    using n unfolding to_agent_def valid_agent_iff_handler [symmetric] by blast
  show "\<forall>s m. To_xapp s m \<in> set sos \<longrightarrow> check_valid_msg_type_xapp (msg_type m) \<and> init_handle_msg_xapp (msg_type m) \<noteq> None"
    using a valid_xapp_handler unfolding to_xapp_def by blast
next
  assume "e2_event_loop_xapp xes x = Inr (x', xos) \<or> report_sm_sync_xapp x fd node rf i cb early late = Inr (h, x', xos) \<or>
    rm_report_sm_sync_xapp x fd h2 early late = Inr (x', xos) \<or>
    control_sm_sync_xapp x fd node rf wr early late = Inr (x', xos)"
  then have t: "list_all xout_typed xos"
    using xapp_loop_typed report_typed rm_report_typed control_typed by (auto simp: e2_event_loop_xapp_def)
  have i: "to_iapp m" if "Xsend m \<in> set xos" for m
    using bspec [OF t [unfolded list_all_iff] that] by (simp add: xout_typed_def)
  show "\<forall>m. Xsend m \<in> set xos \<longrightarrow> check_valid_msg_type_iapp (msg_type m) \<and> init_handle_msg_iapp (msg_type m) \<noteq> None"
    using i unfolding to_iapp_def valid_iapp_iff_handler [symmetric] by blast
qed

lemma demo_chain:
  obtains st1 ag1 st2 and x1 :: "(byte_array, byte_array, nat, nat) e42_xapp" and m1 m2 m3 m where
    "e2_event_agent demo_agent (Ag_ready 5 (Payload m1) 9) = Inr (ag1, [m2])"
    "sys_step st1 (From_ric_loop (Sctp_msg_arrived (demo_addr 36421) m2)) =
      Inr (st2 :: (unit, byte_array, byte_array) sys, [To_xapp (demo_addr 5000) m3])"
    "report_sm_sync_xapp demo_xapp 9 demo_node 142 Ms_1 (Some 3) [] [Xready 4 m3 0] = Inr (1, x1, [Xsend m])"
  by (rule report_chain [OF mono_nodes.node_set_axioms demo_sys_inv demo_facts(1) demo_xapp_facts(1) demo_mono
      demo_facts(3,4) _ demo_facts(5) demo_xapp_inv valid_142 demo_xapp_facts(3) demo_xapp_simps(1)
      demo_xapp_facts(2) _ demo_xapp_facts(4) demo_xpend demo_sm_sub demo_agent_inv demo_agent_simps(5) demo_xapp_facts(6) _ _
      demo_xapp_facts(5,7), of "Some 3" 0])
    (use that in \<open>auto simp: demo_xapp_simps demo_agent_simps\<close>)

theorem messages_typed_witness:
  "\<exists>m1 ag1 m2 st1 (st2 :: (unit, byte_array, byte_array) sys) m3 (x1 :: (byte_array, byte_array, nat, nat) e42_xapp) m.
    e2_event_loop_agent [Ag_ready 5 (Payload m1) 9] demo_agent = Inr (ag1, [m2]) \<and>
    init_handle_msg_ric (msg_type m2) \<noteq> (None :: (unit, byte_array, byte_array) ric_handler option) \<and>
    sys_step st1 (From_ric_loop (Sctp_msg_arrived (demo_addr 36421) m2)) = Inr (st2, [To_xapp (demo_addr 5000) m3]) \<and>
    check_valid_msg_type_xapp (msg_type m3) \<and>
    report_sm_sync_xapp demo_xapp 9 demo_node 142 Ms_1 (Some 3) [] [Xready 4 m3 0] = Inr (1, x1, [Xsend m]) \<and>
    check_valid_msg_type_iapp (msg_type m)"
proof -
  obtain m1 m2 m3 m ag1 st1 and st2 :: "(unit, byte_array, byte_array) sys"
    and x1 :: "(byte_array, byte_array, nat, nat) e42_xapp" where c:
    "e2_event_agent demo_agent (Ag_ready 5 (Payload m1) 9) = Inr (ag1, [m2])"
    "sys_step st1 (From_ric_loop (Sctp_msg_arrived (demo_addr 36421) m2)) = Inr (st2, [To_xapp (demo_addr 5000) m3])"
    "report_sm_sync_xapp demo_xapp 9 demo_node 142 Ms_1 (Some 3) [] [Xready 4 m3 0] = Inr (1, x1, [Xsend m])"
    by (rule demo_chain)
  have l: "e2_event_loop_agent [Ag_ready 5 (Payload m1) 9] demo_agent = Inr (ag1, [m2])"
    by (simp add: e2_event_loop_agent_def c(1))
  show ?thesis
    using messages_typed [THEN conjunct1, THEN mp, OF l] messages_typed [THEN conjunct2, THEN conjunct1, THEN mp, OF c(2)]
      messages_typed [THEN conjunct2, THEN conjunct2, THEN mp, OF disjI2, OF disjI1, OF c(3)] l c(2,3)
    by (intro exI conjI) auto
qed

end
