(* ===== verification/MacSm.thy ===== *)
theory MacSm
  imports Bytes
begin

text \<open>
  The statistics of the MAC layer: \<open>src/sm/mac_sm/ie/mac_data_ie.c\<close> and the plain codec
  (\<open>enc/mac_enc_plain.c\<close>, \<open>dec/mac_dec_plain.c\<close>).  A \<open>float\<close> is its 32 bits, a signed integer
  its word; the five counters of a HARQ process are a tuple.  A message keeps its length and
  its array, since the code trusts the one to bound the other.
\<close>

section \<open>Data\<close>

type_synonym harq = "u32 \<times> u32 \<times> u32 \<times> u32 \<times> u32"

record mac_ue_stats_impl =
  m_dl_aggr_tbs :: u64
  m_ul_aggr_tbs :: u64
  m_dl_aggr_bytes_sdus :: u64
  m_ul_aggr_bytes_sdus :: u64
  m_dl_curr_tbs :: u64
  m_ul_curr_tbs :: u64
  m_dl_sched_rb :: u64
  m_ul_sched_rb :: u64
  m_pusch_snr :: u32
  m_pucch_snr :: u32
  m_dl_bler :: u32
  m_ul_bler :: u32
  m_dl_harq :: harq
  m_ul_harq :: harq
  m_dl_num_harq :: u32
  m_ul_num_harq :: u32
  m_rnti :: u32
  m_dl_aggr_prb :: u32
  m_ul_aggr_prb :: u32
  m_dl_aggr_sdus :: u32
  m_ul_aggr_sdus :: u32
  m_dl_aggr_retx_prb :: u32
  m_ul_aggr_retx_prb :: u32
  m_bsr :: u32
  m_frame :: u16
  m_slot :: u16
  m_wb_cqi :: u8
  m_dl_mcs1 :: u8
  m_ul_mcs1 :: u8
  m_dl_mcs2 :: u8
  m_ul_mcs2 :: u8
  m_phr :: u8

record mac_ind_msg =
  len_ue_stats :: u32
  ue_stats :: "mac_ue_stats_impl list"
  m_tstamp :: u64

record mac_ind_data =
  mac_hdr :: u32
  mac_msg :: mac_ind_msg
  mac_proc_id :: "u32 option"

section \<open>Copy and equality\<close>

definition cp_mac_ue_stats_impl :: "mac_ue_stats_impl \<Rightarrow> mac_ue_stats_impl" where
  "cp_mac_ue_stats_impl s =
    \<lparr>m_dl_aggr_tbs = m_dl_aggr_tbs s, m_ul_aggr_tbs = m_ul_aggr_tbs s,
     m_dl_aggr_bytes_sdus = m_dl_aggr_bytes_sdus s,
     m_ul_aggr_bytes_sdus = m_ul_aggr_bytes_sdus s, m_dl_curr_tbs = m_dl_curr_tbs s,
     m_ul_curr_tbs = m_ul_curr_tbs s, m_dl_sched_rb = m_dl_sched_rb s,
     m_ul_sched_rb = m_ul_sched_rb s, m_pusch_snr = m_pusch_snr s,
     m_pucch_snr = m_pucch_snr s, m_dl_bler = m_dl_bler s, m_ul_bler = m_ul_bler s,
     m_dl_harq = m_dl_harq s, m_ul_harq = m_ul_harq s,
     m_dl_num_harq = m_dl_num_harq s, m_ul_num_harq = m_ul_num_harq s,
     m_rnti = m_rnti s, m_dl_aggr_prb = m_dl_aggr_prb s,
     m_ul_aggr_prb = m_ul_aggr_prb s, m_dl_aggr_sdus = m_dl_aggr_sdus s,
     m_ul_aggr_sdus = m_ul_aggr_sdus s, m_dl_aggr_retx_prb = m_dl_aggr_retx_prb s,
     m_ul_aggr_retx_prb = m_ul_aggr_retx_prb s, m_bsr = m_bsr s, m_frame = m_frame s,
     m_slot = m_slot s, m_wb_cqi = m_wb_cqi s, m_dl_mcs1 = m_dl_mcs1 s,
     m_ul_mcs1 = m_ul_mcs1 s, m_dl_mcs2 = m_dl_mcs2 s, m_ul_mcs2 = m_ul_mcs2 s,
     m_phr = m_phr s\<rparr>"

definition cp_mac_ind_msg :: "mac_ind_msg \<Rightarrow> mac_ind_msg res" where
  "cp_mac_ind_msg src =
    res_bind (take_elems (unat (len_ue_stats src)) (ue_stats src)) (\<lambda>xs.
    Inr \<lparr>len_ue_stats = len_ue_stats src, ue_stats = map cp_mac_ue_stats_impl xs, m_tstamp = m_tstamp src\<rparr>)"

text \<open>Headers and process identifiers are one number.\<close>

definition cp_mac_ind_hdr :: "u32 \<Rightarrow> u32" where
  "cp_mac_ind_hdr src = src"

definition eq_mac_ind_hdr :: "u32 \<Rightarrow> u32 \<Rightarrow> bool" where
  "eq_mac_ind_hdr m0 m1 \<longleftrightarrow> m0 = m1"

definition cp_mac_call_proc_id :: "u32 \<Rightarrow> u32" where
  "cp_mac_call_proc_id src = src"

definition eq_mac_call_proc_id :: "u32 option \<Rightarrow> u32 option \<Rightarrow> bool" where
  "eq_mac_call_proc_id m0 m1 =
    (case (m0, m1) of (None, None) \<Rightarrow> True | (Some a, Some b) \<Rightarrow> a = b | _ \<Rightarrow> False)"

definition cp_mac_ind_data :: "mac_ind_data \<Rightarrow> mac_ind_data res" where
  "cp_mac_ind_data src =
    res_bind (cp_mac_ind_msg (mac_msg src)) (\<lambda>m.
    Inr \<lparr>mac_hdr = cp_mac_ind_hdr (mac_hdr src), mac_msg = m,
      mac_proc_id = map_option cp_mac_call_proc_id (mac_proc_id src)\<rparr>)"

text \<open>All fields but the floats.\<close>

definition eq_mac_ue_ints :: "mac_ue_stats_impl \<Rightarrow> mac_ue_stats_impl \<Rightarrow> bool" where
  "eq_mac_ue_ints s t \<longleftrightarrow>
    m_dl_aggr_tbs s = m_dl_aggr_tbs t \<and> m_ul_aggr_tbs s = m_ul_aggr_tbs t \<and>
    m_dl_aggr_bytes_sdus s = m_dl_aggr_bytes_sdus t \<and>
    m_ul_aggr_bytes_sdus s = m_ul_aggr_bytes_sdus t \<and>
    m_dl_curr_tbs s = m_dl_curr_tbs t \<and> m_ul_curr_tbs s = m_ul_curr_tbs t \<and>
    m_dl_sched_rb s = m_dl_sched_rb t \<and> m_ul_sched_rb s = m_ul_sched_rb t \<and>
    m_dl_harq s = m_dl_harq t \<and> m_ul_harq s = m_ul_harq t \<and>
    m_dl_num_harq s = m_dl_num_harq t \<and> m_ul_num_harq s = m_ul_num_harq t \<and>
    m_rnti s = m_rnti t \<and> m_dl_aggr_prb s = m_dl_aggr_prb t \<and>
    m_ul_aggr_prb s = m_ul_aggr_prb t \<and> m_dl_aggr_sdus s = m_dl_aggr_sdus t \<and>
    m_ul_aggr_sdus s = m_ul_aggr_sdus t \<and>
    m_dl_aggr_retx_prb s = m_dl_aggr_retx_prb t \<and>
    m_ul_aggr_retx_prb s = m_ul_aggr_retx_prb t \<and> m_bsr s = m_bsr t \<and>
    m_frame s = m_frame t \<and> m_slot s = m_slot t \<and> m_wb_cqi s = m_wb_cqi t \<and>
    m_dl_mcs1 s = m_dl_mcs1 t \<and> m_ul_mcs1 s = m_ul_mcs1 t \<and>
    m_dl_mcs2 s = m_dl_mcs2 t \<and> m_ul_mcs2 s = m_ul_mcs2 t \<and> m_phr s = m_phr t"

definition eq_mac_ue_stats ::
  "(u32 \<Rightarrow> u32 \<Rightarrow> bool) \<Rightarrow> mac_ue_stats_impl \<Rightarrow> mac_ue_stats_impl \<Rightarrow> bool res" where
  "eq_mac_ue_stats near s t =
    (if \<not> eq_mac_ue_ints s t \<or> f32_ne (m_dl_bler s) (m_dl_bler t) \<or> f32_ne (m_ul_bler s) (m_ul_bler t)
     then Inr False
     else res_bind (eq_float near (m_pusch_snr s) (m_pusch_snr t)) (\<lambda>b.
       if \<not> b then Inr False else eq_float near (m_pucch_snr s) (m_pucch_snr s)))"

definition eq_mac_ind_msg :: "(u32 \<Rightarrow> u32 \<Rightarrow> bool) \<Rightarrow> mac_ind_msg \<Rightarrow> mac_ind_msg \<Rightarrow> bool res" where
  "eq_mac_ind_msg near m0 m1 =
    (if len_ue_stats m0 \<noteq> len_ue_stats m1 \<or> m_tstamp m0 \<noteq> m_tstamp m1 then Inr False
     else eq_elems (eq_mac_ue_stats near) (unat (len_ue_stats m0)) (ue_stats m0) (ue_stats m1))"

section \<open>Layout in memory\<close>

text \<open>170 bytes of fields and 6 of padding.\<close>

definition le5 :: "harq \<Rightarrow> byte_array" where
  "le5 h = (case h of (a, b, c, d, e) \<Rightarrow> le a @ le b @ le c @ le d @ le e)"

definition rd_le5 :: "byte_array \<Rightarrow> harq \<times> byte_array" where
  "rd_le5 bs =
    (let (a, b0) = rd_le bs; (b, b1) = rd_le b0; (c, b2) = rd_le b1; (d, b3) = rd_le b2; (e, b4) = rd_le b3
     in ((a, b, c, d, e), b4))"

definition put_mac_ue :: "(nat \<Rightarrow> u8) \<Rightarrow> mac_ue_stats_impl \<Rightarrow> byte_array" where
  "put_mac_ue pad s =
    le (m_dl_aggr_tbs s) @ le (m_ul_aggr_tbs s) @ le (m_dl_aggr_bytes_sdus s) @
    le (m_ul_aggr_bytes_sdus s) @ le (m_dl_curr_tbs s) @ le (m_ul_curr_tbs s) @
    le (m_dl_sched_rb s) @ le (m_ul_sched_rb s) @ le (m_pusch_snr s) @ le (m_pucch_snr s) @
    le (m_dl_bler s) @ le (m_ul_bler s) @ le5 (m_dl_harq s) @ le5 (m_ul_harq s) @
    le (m_dl_num_harq s) @ le (m_ul_num_harq s) @ le (m_rnti s) @ le (m_dl_aggr_prb s) @
    le (m_ul_aggr_prb s) @ le (m_dl_aggr_sdus s) @ le (m_ul_aggr_sdus s) @
    le (m_dl_aggr_retx_prb s) @ le (m_ul_aggr_retx_prb s) @ le (m_bsr s) @ le (m_frame s) @
    le (m_slot s) @ le (m_wb_cqi s) @ le (m_dl_mcs1 s) @ le (m_ul_mcs1 s) @ le (m_dl_mcs2 s) @
    le (m_ul_mcs2 s) @ le (m_phr s) @ map pad [0..<6]"

definition get_mac_ue :: "byte_array \<Rightarrow> mac_ue_stats_impl" where
  "get_mac_ue bs =
    (let (x0, b0) = rd_le bs; (x1, b1) = rd_le b0; (x2, b2) = rd_le b1; (x3, b3) = rd_le b2;
         (x4, b4) = rd_le b3; (x5, b5) = rd_le b4; (x6, b6) = rd_le b5;
         (x7, b7) = rd_le b6; (x8, b8) = rd_le b7; (x9, b9) = rd_le b8;
         (x10, b10) = rd_le b9; (x11, b11) = rd_le b10; (x12, b12) = rd_le5 b11;
         (x13, b13) = rd_le5 b12; (x14, b14) = rd_le b13; (x15, b15) = rd_le b14;
         (x16, b16) = rd_le b15; (x17, b17) = rd_le b16; (x18, b18) = rd_le b17;
         (x19, b19) = rd_le b18; (x20, b20) = rd_le b19; (x21, b21) = rd_le b20;
         (x22, b22) = rd_le b21; (x23, b23) = rd_le b22; (x24, b24) = rd_le b23;
         (x25, b25) = rd_le b24; (x26, b26) = rd_le b25; (x27, b27) = rd_le b26;
         (x28, b28) = rd_le b27; (x29, b29) = rd_le b28; (x30, b30) = rd_le b29;
         (x31, b31) = rd_le b30
     in \<lparr>m_dl_aggr_tbs = x0, m_ul_aggr_tbs = x1, m_dl_aggr_bytes_sdus = x2,
         m_ul_aggr_bytes_sdus = x3, m_dl_curr_tbs = x4, m_ul_curr_tbs = x5,
         m_dl_sched_rb = x6, m_ul_sched_rb = x7, m_pusch_snr = x8, m_pucch_snr = x9,
         m_dl_bler = x10, m_ul_bler = x11, m_dl_harq = x12, m_ul_harq = x13,
         m_dl_num_harq = x14, m_ul_num_harq = x15, m_rnti = x16, m_dl_aggr_prb = x17,
         m_ul_aggr_prb = x18, m_dl_aggr_sdus = x19, m_ul_aggr_sdus = x20,
         m_dl_aggr_retx_prb = x21, m_ul_aggr_retx_prb = x22, m_bsr = x23,
         m_frame = x24, m_slot = x25, m_wb_cqi = x26, m_dl_mcs1 = x27,
         m_ul_mcs1 = x28, m_dl_mcs2 = x29, m_ul_mcs2 = x30, m_phr = x31\<rparr>)"

lemma rd_le5_append [simp]: "rd_le5 (le5 h @ bs) = (h, bs)"
  by (cases h) (simp add: le5_def rd_le5_def)

lemma length_le5 [simp]: "length (le5 h) = 20"
  by (cases h) (simp add: le5_def)

interpretation mac_ue: struct_codec 176 put_mac_ue get_mac_ue
proof
  fix pad s
  show "length (put_mac_ue pad s) = 176" by (simp add: put_mac_ue_def)
  show "get_mac_ue (put_mac_ue pad s) = s" by (simp add: put_mac_ue_def get_mac_ue_def)
qed

section \<open>Codec\<close>

definition mac_enc_event_trigger_plain :: "u32 \<Rightarrow> byte_array" where
  "mac_enc_event_trigger_plain ms = le ms"

definition mac_dec_event_trigger_plain :: "byte_array \<Rightarrow> u32 res" where
  "mac_dec_event_trigger_plain ev_tr = res_bind (memcpy_from 4 ev_tr) (\<lambda>(b, r). Inr (un_le b))"

definition mac_enc_ind_hdr_plain :: "u32 \<Rightarrow> byte_array" where
  "mac_enc_ind_hdr_plain hdr = le hdr"

definition mac_dec_ind_hdr_plain :: "byte_array \<Rightarrow> u32 res" where
  "mac_dec_ind_hdr_plain hdr = dec_exact hdr"

text \<open>The length of the buffer is a \<open>uint32_t\<close>: with too many elements it wraps and the copies run
  past the buffer.\<close>

definition mac_enc_ind_msg_plain :: "(nat \<Rightarrow> nat \<Rightarrow> u8) \<Rightarrow> mac_ind_msg \<Rightarrow> byte_array res" where
  "mac_enc_ind_msg_plain pads m =
    (let len = 4 + 176 * len_ue_stats m + 8 :: u32 in
     res_bind (put_elems put_mac_ue pads (unat (len_ue_stats m)) (ue_stats m)) (\<lambda>bs.
     let buf = le (len_ue_stats m) @ bs @ le (m_tstamp m) in
     res_bind (if unat len < length buf then Inl OutOfBounds else Inr ()) (\<lambda>_.
     res_bind (c_assert (length buf = unat len)) (\<lambda>_. Inr buf))))"

definition mac_dec_ind_msg_plain :: "byte_array \<Rightarrow> mac_ind_msg res" where
  "mac_dec_ind_msg_plain bs =
    res_bind (memcpy_from 4 bs) (\<lambda>(l, b0).
    let n = un_le l :: u32 in
    res_bind (get_elems 176 get_mac_ue (unat n) b0) (\<lambda>(xs, b1).
    res_bind (memcpy_from 8 b1) (\<lambda>(t, b2).
    res_bind (c_assert (b2 = [])) (\<lambda>_.
    Inr \<lparr>len_ue_stats = n, ue_stats = xs, m_tstamp = un_le t\<rparr>))))"

definition mac_enc_ctrl_hdr_plain :: "u32 \<Rightarrow> byte_array" where
  "mac_enc_ctrl_hdr_plain ctrl_hdr = le ctrl_hdr"

definition mac_dec_ctrl_hdr_plain :: "byte_array \<Rightarrow> u32 res" where
  "mac_dec_ctrl_hdr_plain ctrl_hdr = dec_exact ctrl_hdr"

definition mac_enc_ctrl_msg_plain :: "u32 \<Rightarrow> byte_array" where
  "mac_enc_ctrl_msg_plain ctrl_msg = le ctrl_msg"

definition mac_dec_ctrl_msg_plain :: "byte_array \<Rightarrow> u32 res" where
  "mac_dec_ctrl_msg_plain ctrl_msg = dec_exact ctrl_msg"

section \<open>Properties\<close>

definition wf_mac :: "mac_ind_msg \<Rightarrow> bool" where
  "wf_mac m \<longleftrightarrow> unat (len_ue_stats m) = length (ue_stats m)"

lemma mac_codec:
  assumes "wf_mac m" "176 * length (ue_stats m) + 12 < 2 ^ 32"
  obtains bs where "mac_enc_ind_msg_plain pads m = Inr bs" "mac_dec_ind_msg_plain bs = Inr m"
    "length bs = 176 * length (ue_stats m) + 12"
proof -
  have n: "unat (len_ue_stats m) = length (ue_stats m)" using assms(1) by (simp add: wf_mac_def)
  obtain bs where bs: "put_elems put_mac_ue pads (length (ue_stats m)) (ue_stats m) = Inr bs"
    "length bs = 176 * length (ue_stats m)"
    "\<And>r. get_elems 176 get_mac_ue (length (ue_stats m)) (bs @ r) = Inr (ue_stats m, r)"
    by (rule mac_ue.put_elems_ok) (rule that)
  have l: "unat (12 + 176 * len_ue_stats m :: u32) = 12 + 176 * length (ue_stats m)"
    using assms(2) n by (simp add: unat_word_ariths)
  let ?buf = "le (len_ue_stats m) @ bs @ le (m_tstamp m)"
  have "mac_enc_ind_msg_plain pads m = Inr ?buf"
    by (simp add: mac_enc_ind_msg_plain_def n bs(1,2) l Let_def)
  moreover have "mac_dec_ind_msg_plain ?buf = Inr m"
    by (simp add: mac_dec_ind_msg_plain_def un_le_le n bs(3) Let_def)
  moreover have "length ?buf = 176 * length (ue_stats m) + 12" by (simp add: bs(2))
  ultimately show ?thesis by (rule that)
qed

lemma mac_trigger: "mac_dec_event_trigger_plain (mac_enc_event_trigger_plain ms @ r) = Inr ms"
  by (simp add: mac_dec_event_trigger_plain_def mac_enc_event_trigger_plain_def un_le_le)

lemma mac_small:
  "mac_dec_ind_hdr_plain (mac_enc_ind_hdr_plain x) = Inr x"
  "mac_dec_ctrl_hdr_plain (mac_enc_ctrl_hdr_plain x) = Inr x"
  "mac_dec_ctrl_msg_plain (mac_enc_ctrl_msg_plain x) = Inr x"
  by (simp_all add: mac_dec_ind_hdr_plain_def mac_enc_ind_hdr_plain_def mac_dec_ctrl_hdr_plain_def
      mac_enc_ctrl_hdr_plain_def mac_dec_ctrl_msg_plain_def mac_enc_ctrl_msg_plain_def)

lemma cp_mac_ue: "cp_mac_ue_stats_impl = (\<lambda>s. s)"
  by (simp add: fun_eq_iff cp_mac_ue_stats_impl_def)

lemma cp_mac: "wf_mac m \<Longrightarrow> cp_mac_ind_msg m = Inr m"
  by (simp add: cp_mac_ind_msg_def wf_mac_def cp_mac_ue)

text \<open>A second slip of the comparison: \<open>pucch_snr\<close> is compared with itself.\<close>

lemma eq_mac_ignores_pucch:
  assumes "\<not> f32_nan (m_dl_bler s)" "\<not> f32_nan (m_ul_bler s)" "\<not> f32_nan (m_pusch_snr s)" "\<not> f32_nan (m_pucch_snr s)"
  shows "eq_mac_ind_msg near \<lparr>len_ue_stats = 1, ue_stats = [s], m_tstamp = t\<rparr>
    \<lparr>len_ue_stats = 1, ue_stats = [s\<lparr>m_pucch_snr := x\<rparr>], m_tstamp = t\<rparr> = Inr True"
  using assms by (simp add: eq_mac_ind_msg_def eq_mac_ue_stats_def eq_mac_ue_ints_def f32_ne_def)

end
