(* ===== verification/RlcSm.thy ===== *)
theory RlcSm
  imports Bytes
begin

text \<open>
  The statistics of the RLC layer: \<open>src/sm/rlc_sm/ie/rlc_data_ie.c\<close> and the plain codec
  (\<open>enc/rlc_enc_plain.c\<close>, \<open>dec/rlc_dec_plain.c\<close>).  The bearers are copied as a block of
  memory; the other information elements stop as not implemented.
\<close>

section \<open>Data\<close>

record rlc_radio_bearer_stats =
  r_txpdu_pkts :: u32
  r_txpdu_bytes :: u32
  r_txpdu_wt_ms :: u32
  r_txpdu_dd_pkts :: u32
  r_txpdu_dd_bytes :: u32
  r_txpdu_retx_pkts :: u32
  r_txpdu_retx_bytes :: u32
  r_txpdu_segmented :: u32
  r_txpdu_status_pkts :: u32
  r_txpdu_status_bytes :: u32
  r_txbuf_occ_bytes :: u32
  r_txbuf_occ_pkts :: u32
  r_rxpdu_pkts :: u32
  r_rxpdu_bytes :: u32
  r_rxpdu_dup_pkts :: u32
  r_rxpdu_dup_bytes :: u32
  r_rxpdu_dd_pkts :: u32
  r_rxpdu_dd_bytes :: u32
  r_rxpdu_ow_pkts :: u32
  r_rxpdu_ow_bytes :: u32
  r_rxpdu_status_pkts :: u32
  r_rxpdu_status_bytes :: u32
  r_rxbuf_occ_bytes :: u32
  r_rxbuf_occ_pkts :: u32
  r_txsdu_pkts :: u32
  r_txsdu_bytes :: u32
  r_rxsdu_pkts :: u32
  r_rxsdu_bytes :: u32
  r_rxsdu_dd_pkts :: u32
  r_rxsdu_dd_bytes :: u32
  r_rnti :: u32
  r_mode :: u8
  r_rbid :: u8

record rlc_ind_msg =
  r_len :: u32
  r_rb :: "rlc_radio_bearer_stats list"
  r_tstamp :: u64

record rlc_ind_data =
  rlc_hdr :: u32
  rlc_msg :: rlc_ind_msg
  rlc_proc_id :: "u32 option"

section \<open>Copy and equality\<close>


definition cp_rlc_ind_hdr :: "u32 \<Rightarrow> u32" where
  "cp_rlc_ind_hdr src = src"

definition eq_rlc_ind_hdr :: "u32 \<Rightarrow> u32 \<Rightarrow> bool" where
  "eq_rlc_ind_hdr m0 m1 \<longleftrightarrow> m0 = m1"

definition cp_rlc_call_proc_id :: "u32 \<Rightarrow> u32" where
  "cp_rlc_call_proc_id src = src"

definition eq_rlc_call_proc_id :: "u32 option \<Rightarrow> u32 option \<Rightarrow> bool" where
  "eq_rlc_call_proc_id m0 m1 =
    (case (m0, m1) of (None, None) \<Rightarrow> True | (Some a, Some b) \<Rightarrow> a = b | _ \<Rightarrow> False)"

definition cp_rlc_ind_msg :: "rlc_ind_msg \<Rightarrow> rlc_ind_msg res" where
  "cp_rlc_ind_msg src =
    res_bind (take_elems (unat (r_len src)) (r_rb src)) (\<lambda>xs.
    Inr \<lparr>r_len = r_len src, r_rb = xs, r_tstamp = r_tstamp src\<rparr>)"

definition cp_rlc_ind_data :: "rlc_ind_data \<Rightarrow> rlc_ind_data res" where
  "cp_rlc_ind_data src =
    res_bind (cp_rlc_ind_msg (rlc_msg src)) (\<lambda>m.
    Inr \<lparr>rlc_hdr = cp_rlc_ind_hdr (rlc_hdr src), rlc_msg = m,
      rlc_proc_id = map_option cp_rlc_call_proc_id (rlc_proc_id src)\<rparr>)"

text \<open>The comparison of two elements of the array, field by field.\<close>

definition eq_rlc_rb :: "rlc_radio_bearer_stats \<Rightarrow> rlc_radio_bearer_stats \<Rightarrow> bool" where
  "eq_rlc_rb s t \<longleftrightarrow>
    r_txpdu_pkts s = r_txpdu_pkts t \<and> r_txpdu_bytes s = r_txpdu_bytes t \<and> r_txpdu_wt_ms s = r_txpdu_wt_ms t \<and>
    r_txpdu_dd_pkts s = r_txpdu_dd_pkts t \<and> r_txpdu_dd_bytes s = r_txpdu_dd_bytes t \<and>
    r_txpdu_retx_pkts s = r_txpdu_retx_pkts t \<and> r_txpdu_retx_bytes s = r_txpdu_retx_bytes t \<and>
    r_txpdu_segmented s = r_txpdu_segmented t \<and> r_txpdu_status_pkts s = r_txpdu_status_pkts t \<and>
    r_txpdu_status_bytes s = r_txpdu_status_bytes t \<and> r_txbuf_occ_bytes s = r_txbuf_occ_bytes t \<and>
    r_txbuf_occ_pkts s = r_txbuf_occ_pkts t \<and> r_rxpdu_pkts s = r_rxpdu_pkts t \<and> r_rxpdu_bytes s = r_rxpdu_bytes t \<and>
    r_rxpdu_dup_pkts s = r_rxpdu_dup_pkts t \<and> r_rxpdu_dup_bytes s = r_rxpdu_dup_bytes t \<and>
    r_rxpdu_dd_pkts s = r_rxpdu_dd_pkts t \<and> r_rxpdu_dd_bytes s = r_rxpdu_dd_bytes t \<and>
    r_rxpdu_ow_pkts s = r_rxpdu_ow_pkts t \<and> r_rxpdu_ow_bytes s = r_rxpdu_ow_bytes t \<and>
    r_rxpdu_status_pkts s = r_rxpdu_status_pkts t \<and> r_rxpdu_status_bytes s = r_rxpdu_status_bytes t \<and>
    r_rxbuf_occ_bytes s = r_rxbuf_occ_bytes t \<and> r_rxbuf_occ_pkts s = r_rxbuf_occ_pkts t \<and>
    r_txsdu_pkts s = r_txsdu_pkts t \<and> r_txsdu_bytes s = r_txsdu_bytes t \<and> r_rxsdu_pkts s = r_rxsdu_pkts t \<and>
    r_rxsdu_bytes s = r_rxsdu_bytes t \<and> r_rxsdu_dd_pkts s = r_rxsdu_dd_pkts t \<and>
    r_rxsdu_dd_bytes s = r_rxsdu_dd_bytes t \<and> r_rnti s = r_rnti t \<and> r_mode s = r_mode t \<and> r_rbid s = r_rbid t"

definition eq_rlc_ind_msg :: "rlc_ind_msg \<Rightarrow> rlc_ind_msg \<Rightarrow> bool res" where
  "eq_rlc_ind_msg m0 m1 =
    (if r_tstamp m0 \<noteq> r_tstamp m1 \<or> r_len m0 \<noteq> r_len m1 then Inr False
     else eq_elems (\<lambda>x y. Inr (eq_rlc_rb x y)) (unat (r_len m0)) (r_rb m0) (r_rb m1))"

section \<open>Layout in memory\<close>

text \<open>126 bytes of fields and 2 of padding.\<close>

definition put_rlc_rb :: "(nat \<Rightarrow> u8) \<Rightarrow> rlc_radio_bearer_stats \<Rightarrow> byte_array" where
  "put_rlc_rb pad s =
    le (r_txpdu_pkts s) @ le (r_txpdu_bytes s) @ le (r_txpdu_wt_ms s) @ le (r_txpdu_dd_pkts s) @
    le (r_txpdu_dd_bytes s) @ le (r_txpdu_retx_pkts s) @ le (r_txpdu_retx_bytes s) @
    le (r_txpdu_segmented s) @ le (r_txpdu_status_pkts s) @ le (r_txpdu_status_bytes s) @
    le (r_txbuf_occ_bytes s) @ le (r_txbuf_occ_pkts s) @ le (r_rxpdu_pkts s) @
    le (r_rxpdu_bytes s) @ le (r_rxpdu_dup_pkts s) @ le (r_rxpdu_dup_bytes s) @
    le (r_rxpdu_dd_pkts s) @ le (r_rxpdu_dd_bytes s) @ le (r_rxpdu_ow_pkts s) @
    le (r_rxpdu_ow_bytes s) @ le (r_rxpdu_status_pkts s) @ le (r_rxpdu_status_bytes s) @
    le (r_rxbuf_occ_bytes s) @ le (r_rxbuf_occ_pkts s) @ le (r_txsdu_pkts s) @
    le (r_txsdu_bytes s) @ le (r_rxsdu_pkts s) @ le (r_rxsdu_bytes s) @ le (r_rxsdu_dd_pkts s) @
    le (r_rxsdu_dd_bytes s) @ le (r_rnti s) @ le (r_mode s) @ le (r_rbid s) @ map pad [0..<2]"

definition get_rlc_rb :: "byte_array \<Rightarrow> rlc_radio_bearer_stats" where
  "get_rlc_rb bs =
    (let (x0, b0) = rd_le bs; (x1, b1) = rd_le b0; (x2, b2) = rd_le b1; (x3, b3) = rd_le b2;
         (x4, b4) = rd_le b3; (x5, b5) = rd_le b4; (x6, b6) = rd_le b5; (x7, b7) = rd_le b6;
         (x8, b8) = rd_le b7; (x9, b9) = rd_le b8; (x10, b10) = rd_le b9; (x11, b11) = rd_le b10;
         (x12, b12) = rd_le b11; (x13, b13) = rd_le b12; (x14, b14) = rd_le b13;
         (x15, b15) = rd_le b14; (x16, b16) = rd_le b15; (x17, b17) = rd_le b16;
         (x18, b18) = rd_le b17; (x19, b19) = rd_le b18; (x20, b20) = rd_le b19;
         (x21, b21) = rd_le b20; (x22, b22) = rd_le b21; (x23, b23) = rd_le b22;
         (x24, b24) = rd_le b23; (x25, b25) = rd_le b24; (x26, b26) = rd_le b25;
         (x27, b27) = rd_le b26; (x28, b28) = rd_le b27; (x29, b29) = rd_le b28;
         (x30, b30) = rd_le b29; (x31, b31) = rd_le b30; (x32, b32) = rd_le b31
     in \<lparr>r_txpdu_pkts = x0, r_txpdu_bytes = x1, r_txpdu_wt_ms = x2, r_txpdu_dd_pkts = x3,
         r_txpdu_dd_bytes = x4, r_txpdu_retx_pkts = x5, r_txpdu_retx_bytes = x6,
         r_txpdu_segmented = x7, r_txpdu_status_pkts = x8, r_txpdu_status_bytes = x9,
         r_txbuf_occ_bytes = x10, r_txbuf_occ_pkts = x11, r_rxpdu_pkts = x12, r_rxpdu_bytes = x13,
         r_rxpdu_dup_pkts = x14, r_rxpdu_dup_bytes = x15, r_rxpdu_dd_pkts = x16,
         r_rxpdu_dd_bytes = x17, r_rxpdu_ow_pkts = x18, r_rxpdu_ow_bytes = x19,
         r_rxpdu_status_pkts = x20, r_rxpdu_status_bytes = x21, r_rxbuf_occ_bytes = x22,
         r_rxbuf_occ_pkts = x23, r_txsdu_pkts = x24, r_txsdu_bytes = x25, r_rxsdu_pkts = x26,
         r_rxsdu_bytes = x27, r_rxsdu_dd_pkts = x28, r_rxsdu_dd_bytes = x29, r_rnti = x30,
         r_mode = x31, r_rbid = x32\<rparr>)"

interpretation rlc_rb: struct_codec 128 put_rlc_rb get_rlc_rb
proof
  fix pad s
  show "length (put_rlc_rb pad s) = 128" by (simp add: put_rlc_rb_def)
  show "get_rlc_rb (put_rlc_rb pad s) = s" by (simp add: put_rlc_rb_def get_rlc_rb_def)
qed

section \<open>Codec\<close>

definition rlc_enc_event_trigger_plain :: "u32 \<Rightarrow> byte_array" where
  "rlc_enc_event_trigger_plain ms = le ms"

definition rlc_dec_event_trigger_plain :: "byte_array \<Rightarrow> u32 res" where
  "rlc_dec_event_trigger_plain ev_tr = res_bind (memcpy_from 4 ev_tr) (\<lambda>(b, r). Inr (un_le b))"

definition rlc_enc_ind_hdr_plain :: "u32 \<Rightarrow> byte_array" where
  "rlc_enc_ind_hdr_plain hdr = le hdr"

definition rlc_dec_ind_hdr_plain :: "byte_array \<Rightarrow> u32 res" where
  "rlc_dec_ind_hdr_plain hdr = dec_exact hdr"

text \<open>The size is computed in \<open>size_t\<close>, where it does not wrap.\<close>

definition rlc_enc_ind_msg_plain :: "(nat \<Rightarrow> nat \<Rightarrow> u8) \<Rightarrow> rlc_ind_msg \<Rightarrow> byte_array res" where
  "rlc_enc_ind_msg_plain pads m =
    (let sz = 4 + 128 * ucast (r_len m) + 8 :: u64 in
     res_bind (put_elems put_rlc_rb pads (unat (r_len m)) (r_rb m)) (\<lambda>bs.
     let buf = le (r_len m) @ bs @ le (r_tstamp m) in
     res_bind (if unat sz < length buf then Inl OutOfBounds else Inr ()) (\<lambda>_.
     res_bind (c_assert (length buf = unat sz)) (\<lambda>_. Inr buf))))"

definition rlc_dec_ind_msg_plain :: "byte_array \<Rightarrow> rlc_ind_msg res" where
  "rlc_dec_ind_msg_plain bs =
    res_bind (c_assert (16 \<le> next_pow2 (of_nat (length bs)))) (\<lambda>_.
    res_bind (memcpy_from 4 bs) (\<lambda>(l, b0).
    let n = un_le l :: u32 in
    res_bind (get_elems 128 get_rlc_rb (unat n) b0) (\<lambda>(xs, b1).
    res_bind (memcpy_from 8 b1) (\<lambda>(t, b2).
    res_bind (c_assert (b2 = [])) (\<lambda>_.
    Inr \<lparr>r_len = n, r_rb = xs, r_tstamp = un_le t\<rparr>)))))"

definition rlc_enc_ctrl_hdr_plain :: "u32 \<Rightarrow> byte_array" where
  "rlc_enc_ctrl_hdr_plain ctrl_hdr = le ctrl_hdr"

definition rlc_dec_ctrl_hdr_plain :: "byte_array \<Rightarrow> u32 res" where
  "rlc_dec_ctrl_hdr_plain ctrl_hdr = dec_exact ctrl_hdr"

definition rlc_enc_ctrl_msg_plain :: "u32 \<Rightarrow> byte_array" where
  "rlc_enc_ctrl_msg_plain ctrl_msg = le ctrl_msg"

definition rlc_dec_ctrl_msg_plain :: "byte_array \<Rightarrow> u32 res" where
  "rlc_dec_ctrl_msg_plain ctrl_msg = dec_exact ctrl_msg"


section \<open>Properties\<close>

definition wf_rlc :: "rlc_ind_msg \<Rightarrow> bool" where
  "wf_rlc m \<longleftrightarrow> unat (r_len m) = length (r_rb m)"

lemma rlc_codec:
  assumes "wf_rlc m"
  obtains bs where "rlc_enc_ind_msg_plain pads m = Inr bs" "rlc_dec_ind_msg_plain bs = Inr m"
    "length bs = 128 * length (r_rb m) + 12"
proof -
  have n: "unat (r_len m) = length (r_rb m)" using assms(1) by (simp add: wf_rlc_def)
  then have small: "length (r_rb m) < 2 ^ 32" using unsigned_less [of "r_len m", where 'a = nat] by simp
  obtain bs where bs: "put_elems put_rlc_rb pads (length (r_rb m)) (r_rb m) = Inr bs"
    "length bs = 128 * length (r_rb m)"
    "\<And>r. get_elems 128 get_rlc_rb (length (r_rb m)) (bs @ r) = Inr (r_rb m, r)"
    by (rule rlc_rb.put_elems_ok) (rule that)
  have l: "unat (12 + 128 * ucast (r_len m) :: u64) = 12 + 128 * length (r_rb m)"
    using small n by (simp add: unat_word_ariths unat_ucast_32_64)
  let ?buf = "le (r_len m) @ bs @ le (r_tstamp m)"
  have "rlc_enc_ind_msg_plain pads m = Inr ?buf"
    by (simp add: rlc_enc_ind_msg_plain_def n bs(1,2) l Let_def)
  moreover have "rlc_dec_ind_msg_plain ?buf = Inr m"
  proof -
    have "length ?buf = 128 * length (r_rb m) + 12" by (simp add: bs(2))
    then have "16 \<le> unat (next_pow2 (of_nat (length ?buf)))"
      using small by (intro next_pow2_ge) simp_all
    then have "16 \<le> next_pow2 (of_nat (length ?buf))" by (simp add: word_le_nat_alt)
    then show ?thesis by (simp add: rlc_dec_ind_msg_plain_def un_le_le n bs(3) Let_def)
  qed
  moreover have "length ?buf = 128 * length (r_rb m) + 12" by (simp add: bs(2))
  ultimately show ?thesis by (rule that)
qed

lemma rlc_trigger: "rlc_dec_event_trigger_plain (rlc_enc_event_trigger_plain ms @ r) = Inr ms"
  by (simp add: rlc_dec_event_trigger_plain_def rlc_enc_event_trigger_plain_def un_le_le)

lemma rlc_small:
  "rlc_dec_ind_hdr_plain (rlc_enc_ind_hdr_plain x) = Inr x"
  "rlc_dec_ctrl_hdr_plain (rlc_enc_ctrl_hdr_plain x) = Inr x"
  "rlc_dec_ctrl_msg_plain (rlc_enc_ctrl_msg_plain x) = Inr x"
  by (simp_all add: rlc_dec_ind_hdr_plain_def rlc_enc_ind_hdr_plain_def rlc_dec_ctrl_hdr_plain_def
      rlc_enc_ctrl_hdr_plain_def rlc_dec_ctrl_msg_plain_def rlc_enc_ctrl_msg_plain_def)

lemma cp_rlc: "wf_rlc m \<Longrightarrow> cp_rlc_ind_msg m = Inr m"
  by (simp add: cp_rlc_ind_msg_def wf_rlc_def)

lemma eq_rlc_rb: "eq_rlc_rb s t \<longleftrightarrow> s = t"
  by (cases s, cases t) (auto simp: eq_rlc_rb_def)

lemma eq_rlc:
  assumes "wf_rlc m0" "wf_rlc m1"
  shows "eq_rlc_ind_msg m0 m1 = Inr (m0 = m1)"
proof (cases "r_tstamp m0 = r_tstamp m1 \<and> r_len m0 = r_len m1")
  case True
  then have "eq_elems (\<lambda>x y. Inr (eq_rlc_rb x y)) (unat (r_len m0)) (r_rb m0) (r_rb m1) =
      Inr (r_rb m0 = r_rb m1)"
    using assms by (intro eq_elems_exact) (auto simp: wf_rlc_def eq_rlc_rb)
  with True show ?thesis by (cases m0, cases m1) (simp add: eq_rlc_ind_msg_def)
next
  case False
  then show ?thesis by (auto simp: eq_rlc_ind_msg_def)
qed

end
