(* ===== verification/PdcpSm.thy ===== *)
theory PdcpSm
  imports Bytes
begin

text \<open>
  The statistics of the PDCP layer: \<open>src/sm/pdcp_sm/ie/pdcp_data_ie.c\<close> and the plain codec
  (\<open>enc/pdcp_enc_plain.c\<close>, \<open>dec/pdcp_dec_plain.c\<close>), with the checks of the bearers that
  copy, equality and free assert.
\<close>

section \<open>Data\<close>

record pdcp_radio_bearer_stats =
  p_txpdu_pkts :: u32
  p_txpdu_bytes :: u32
  p_txpdu_sn :: u32
  p_rxpdu_pkts :: u32
  p_rxpdu_bytes :: u32
  p_rxpdu_sn :: u32
  p_rxpdu_oo_pkts :: u32
  p_rxpdu_oo_bytes :: u32
  p_rxpdu_dd_pkts :: u32
  p_rxpdu_dd_bytes :: u32
  p_rxpdu_ro_count :: u32
  p_txsdu_pkts :: u32
  p_txsdu_bytes :: u32
  p_rxsdu_pkts :: u32
  p_rxsdu_bytes :: u32
  p_rnti :: u32
  p_mode :: u8
  p_rbid :: u8

record pdcp_ind_msg =
  p_len :: u32
  p_rb :: "pdcp_radio_bearer_stats list"
  p_tstamp :: u64

record pdcp_ind_data =
  pdcp_hdr :: u32
  pdcp_msg :: pdcp_ind_msg
  pdcp_proc_id :: "u32 option"

section \<open>Copy and equality\<close>

text \<open>The checks of the debug build: a check that fails stops the program.\<close>

definition check_pdcp_mode :: "u8 \<Rightarrow> unit res" where
  "check_pdcp_mode mode = c_assert (mode = 0 \<or> mode = 1 \<or> mode = 2)"

definition check_pdcp_rbid :: "u8 \<Rightarrow> unit res" where
  "check_pdcp_rbid rbid = c_assert (rbid < 11)"

definition check_pdcp_bearer :: "pdcp_radio_bearer_stats \<Rightarrow> unit res" where
  "check_pdcp_bearer rb = c_assert
    (p_txpdu_pkts rb \<le> p_txpdu_bytes rb \<and> p_rxpdu_pkts rb \<le> p_rxpdu_bytes rb \<and>
     p_txsdu_pkts rb \<le> p_txsdu_bytes rb \<and> p_rxsdu_pkts rb \<le> p_rxsdu_bytes rb)"

fun check_pdcp_rbs :: "nat \<Rightarrow> pdcp_radio_bearer_stats list \<Rightarrow> unit res" where
  "check_pdcp_rbs 0 rbs = Inr ()"
| "check_pdcp_rbs (Suc n) [] = Inl OutOfBounds"
| "check_pdcp_rbs (Suc n) (rb # rbs) =
    res_bind (check_pdcp_mode (p_mode rb)) (\<lambda>_.
    res_bind (check_pdcp_rbid (p_rbid rb)) (\<lambda>_.
    res_bind (check_pdcp_bearer rb) (\<lambda>_. check_pdcp_rbs n rbs)))"

definition check_pdcp_invariants :: "pdcp_ind_msg \<Rightarrow> unit res" where
  "check_pdcp_invariants msg = check_pdcp_rbs (unat (p_len msg)) (p_rb msg)"

definition free_pdcp_ind_msg :: "pdcp_ind_msg \<Rightarrow> unit res" where
  "free_pdcp_ind_msg msg = check_pdcp_invariants msg"

definition cp_pdcp_ind_hdr :: "u32 \<Rightarrow> u32" where
  "cp_pdcp_ind_hdr src = src"

definition eq_pdcp_ind_hdr :: "u32 \<Rightarrow> u32 \<Rightarrow> bool" where
  "eq_pdcp_ind_hdr m0 m1 \<longleftrightarrow> m0 = m1"

definition cp_pdcp_call_proc_id :: "u32 \<Rightarrow> u32" where
  "cp_pdcp_call_proc_id src = src"

definition eq_pdcp_call_proc_id :: "u32 option \<Rightarrow> u32 option \<Rightarrow> bool" where
  "eq_pdcp_call_proc_id m0 m1 =
    (case (m0, m1) of (None, None) \<Rightarrow> True | (Some a, Some b) \<Rightarrow> a = b | _ \<Rightarrow> False)"

definition cp_pdcp_ind_msg :: "pdcp_ind_msg \<Rightarrow> pdcp_ind_msg res" where
  "cp_pdcp_ind_msg src =
    res_bind (check_pdcp_invariants src) (\<lambda>_.
    res_bind (take_elems (unat (p_len src)) (p_rb src)) (\<lambda>xs.
    Inr \<lparr>p_len = p_len src, p_rb = xs, p_tstamp = p_tstamp src\<rparr>))"

definition cp_pdcp_ind_data :: "pdcp_ind_data \<Rightarrow> pdcp_ind_data res" where
  "cp_pdcp_ind_data src =
    res_bind (cp_pdcp_ind_msg (pdcp_msg src)) (\<lambda>m.
    Inr \<lparr>pdcp_hdr = cp_pdcp_ind_hdr (pdcp_hdr src), pdcp_msg = m,
      pdcp_proc_id = map_option cp_pdcp_call_proc_id (pdcp_proc_id src)\<rparr>)"

text \<open>The comparison of two elements of the array, field by field.\<close>

definition eq_pdcp_rb :: "pdcp_radio_bearer_stats \<Rightarrow> pdcp_radio_bearer_stats \<Rightarrow> bool" where
  "eq_pdcp_rb s t \<longleftrightarrow>
    p_txpdu_pkts s = p_txpdu_pkts t \<and> p_txpdu_bytes s = p_txpdu_bytes t \<and> p_txpdu_sn s = p_txpdu_sn t \<and>
    p_rxpdu_pkts s = p_rxpdu_pkts t \<and> p_rxpdu_bytes s = p_rxpdu_bytes t \<and> p_rxpdu_sn s = p_rxpdu_sn t \<and>
    p_rxpdu_oo_pkts s = p_rxpdu_oo_pkts t \<and> p_rxpdu_oo_bytes s = p_rxpdu_oo_bytes t \<and>
    p_rxpdu_dd_pkts s = p_rxpdu_dd_pkts t \<and> p_rxpdu_dd_bytes s = p_rxpdu_dd_bytes t \<and>
    p_rxpdu_ro_count s = p_rxpdu_ro_count t \<and> p_txsdu_pkts s = p_txsdu_pkts t \<and> p_txsdu_bytes s = p_txsdu_bytes t \<and>
    p_rxsdu_pkts s = p_rxsdu_pkts t \<and> p_rxsdu_bytes s = p_rxsdu_bytes t \<and> p_rnti s = p_rnti t \<and>
    p_mode s = p_mode t \<and> p_rbid s = p_rbid t"

text \<open>Messages that differ stop the program: the code holds it for impossible.\<close>

definition eq_pdcp_ind_msg :: "pdcp_ind_msg \<Rightarrow> pdcp_ind_msg \<Rightarrow> bool res" where
  "eq_pdcp_ind_msg m0 m1 =
    res_bind (check_pdcp_invariants m0) (\<lambda>_.
    res_bind (check_pdcp_invariants m1) (\<lambda>_.
    if p_tstamp m0 \<noteq> p_tstamp m1 \<or> p_len m0 \<noteq> p_len m1 then Inl AssertFail
    else eq_elems (\<lambda>x y. res_bind (c_assert (eq_pdcp_rb x y)) (\<lambda>_. Inr True))
           (unat (p_len m0)) (p_rb m0) (p_rb m1)))"

definition cp_pdcp_ctrl_msg :: "u32 \<Rightarrow> u32" where
  "cp_pdcp_ctrl_msg src = src"

definition eq_pdcp_ctrl_msg :: "u32 \<Rightarrow> u32 \<Rightarrow> bool" where
  "eq_pdcp_ctrl_msg m0 m1 = (if m0 = m1 then True else False)"

section \<open>Layout in memory\<close>

text \<open>66 bytes of fields and 2 of padding.\<close>

definition put_pdcp_rb :: "(nat \<Rightarrow> u8) \<Rightarrow> pdcp_radio_bearer_stats \<Rightarrow> byte_array" where
  "put_pdcp_rb pad s =
    le (p_txpdu_pkts s) @ le (p_txpdu_bytes s) @ le (p_txpdu_sn s) @ le (p_rxpdu_pkts s) @
    le (p_rxpdu_bytes s) @ le (p_rxpdu_sn s) @ le (p_rxpdu_oo_pkts s) @ le (p_rxpdu_oo_bytes s) @
    le (p_rxpdu_dd_pkts s) @ le (p_rxpdu_dd_bytes s) @ le (p_rxpdu_ro_count s) @
    le (p_txsdu_pkts s) @ le (p_txsdu_bytes s) @ le (p_rxsdu_pkts s) @ le (p_rxsdu_bytes s) @
    le (p_rnti s) @ le (p_mode s) @ le (p_rbid s) @ map pad [0..<2]"

definition get_pdcp_rb :: "byte_array \<Rightarrow> pdcp_radio_bearer_stats" where
  "get_pdcp_rb bs =
    (let (x0, b0) = rd_le bs; (x1, b1) = rd_le b0; (x2, b2) = rd_le b1; (x3, b3) = rd_le b2;
         (x4, b4) = rd_le b3; (x5, b5) = rd_le b4; (x6, b6) = rd_le b5; (x7, b7) = rd_le b6;
         (x8, b8) = rd_le b7; (x9, b9) = rd_le b8; (x10, b10) = rd_le b9; (x11, b11) = rd_le b10;
         (x12, b12) = rd_le b11; (x13, b13) = rd_le b12; (x14, b14) = rd_le b13;
         (x15, b15) = rd_le b14; (x16, b16) = rd_le b15; (x17, b17) = rd_le b16
     in \<lparr>p_txpdu_pkts = x0, p_txpdu_bytes = x1, p_txpdu_sn = x2, p_rxpdu_pkts = x3,
         p_rxpdu_bytes = x4, p_rxpdu_sn = x5, p_rxpdu_oo_pkts = x6, p_rxpdu_oo_bytes = x7,
         p_rxpdu_dd_pkts = x8, p_rxpdu_dd_bytes = x9, p_rxpdu_ro_count = x10, p_txsdu_pkts = x11,
         p_txsdu_bytes = x12, p_rxsdu_pkts = x13, p_rxsdu_bytes = x14, p_rnti = x15, p_mode = x16,
         p_rbid = x17\<rparr>)"

interpretation pdcp_rb: struct_codec 68 put_pdcp_rb get_pdcp_rb
proof
  fix pad s
  show "length (put_pdcp_rb pad s) = 68" by (simp add: put_pdcp_rb_def)
  show "get_pdcp_rb (put_pdcp_rb pad s) = s" by (simp add: put_pdcp_rb_def get_pdcp_rb_def)
qed

section \<open>Codec\<close>

definition pdcp_enc_event_trigger_plain :: "u32 \<Rightarrow> byte_array" where
  "pdcp_enc_event_trigger_plain ms = le ms"

definition pdcp_dec_event_trigger_plain :: "byte_array \<Rightarrow> u32 res" where
  "pdcp_dec_event_trigger_plain ev_tr = res_bind (memcpy_from 4 ev_tr) (\<lambda>(b, r). Inr (un_le b))"

definition pdcp_enc_ind_hdr_plain :: "u32 \<Rightarrow> byte_array" where
  "pdcp_enc_ind_hdr_plain hdr = le hdr"

definition pdcp_dec_ind_hdr_plain :: "byte_array \<Rightarrow> u32 res" where
  "pdcp_dec_ind_hdr_plain hdr = dec_exact hdr"

text \<open>The size is computed in \<open>size_t\<close>, where it does not wrap.\<close>

definition pdcp_enc_ind_msg_plain :: "(nat \<Rightarrow> nat \<Rightarrow> u8) \<Rightarrow> pdcp_ind_msg \<Rightarrow> byte_array res" where
  "pdcp_enc_ind_msg_plain pads m =
    (let sz = 4 + 8 + 68 * ucast (p_len m) :: u64 in
     res_bind (put_elems put_pdcp_rb pads (unat (p_len m)) (p_rb m)) (\<lambda>bs.
     let buf = le (p_len m) @ bs @ le (p_tstamp m) in
     res_bind (if unat sz < length buf then Inl OutOfBounds else Inr ()) (\<lambda>_.
     res_bind (c_assert (length buf = unat sz)) (\<lambda>_. Inr buf))))"

definition pdcp_dec_ind_msg_plain :: "byte_array \<Rightarrow> pdcp_ind_msg res" where
  "pdcp_dec_ind_msg_plain bs =
    res_bind (c_assert (12 \<le> length bs)) (\<lambda>_.
    res_bind (memcpy_from 4 bs) (\<lambda>(l, b0).
    let n = un_le l :: u32 in
    res_bind (get_elems 68 get_pdcp_rb (unat n) b0) (\<lambda>(xs, b1).
    res_bind (memcpy_from 8 b1) (\<lambda>(t, b2).
    res_bind (c_assert (b2 = [])) (\<lambda>_.
    Inr \<lparr>p_len = n, p_rb = xs, p_tstamp = un_le t\<rparr>)))))"

definition pdcp_enc_ctrl_hdr_plain :: "u32 \<Rightarrow> byte_array" where
  "pdcp_enc_ctrl_hdr_plain ctrl_hdr = le ctrl_hdr"

definition pdcp_dec_ctrl_hdr_plain :: "byte_array \<Rightarrow> u32 res" where
  "pdcp_dec_ctrl_hdr_plain ctrl_hdr = dec_exact ctrl_hdr"

definition pdcp_enc_ctrl_msg_plain :: "u32 \<Rightarrow> byte_array" where
  "pdcp_enc_ctrl_msg_plain ctrl_msg = le ctrl_msg"

definition pdcp_dec_ctrl_msg_plain :: "byte_array \<Rightarrow> u32 res" where
  "pdcp_dec_ctrl_msg_plain ctrl_msg = dec_exact ctrl_msg"

text \<open>The outcome of a control is an enumeration, a 32-bit integer in memory.\<close>

definition pdcp_enc_ctrl_out_plain :: "u32 \<Rightarrow> byte_array" where
  "pdcp_enc_ctrl_out_plain ctrl_out = le ctrl_out"

definition pdcp_dec_ctrl_out_plain :: "byte_array \<Rightarrow> u32 res" where
  "pdcp_dec_ctrl_out_plain ctrl_out =
    res_bind (c_assert (0 < length ctrl_out)) (\<lambda>_. dec_exact ctrl_out)"

section \<open>Properties\<close>

definition wf_pdcp :: "pdcp_ind_msg \<Rightarrow> bool" where
  "wf_pdcp m \<longleftrightarrow> unat (p_len m) = length (p_rb m)"

lemma pdcp_codec:
  assumes "wf_pdcp m"
  obtains bs where "pdcp_enc_ind_msg_plain pads m = Inr bs" "pdcp_dec_ind_msg_plain bs = Inr m"
    "length bs = 68 * length (p_rb m) + 12"
proof -
  have n: "unat (p_len m) = length (p_rb m)" using assms(1) by (simp add: wf_pdcp_def)
  then have small: "length (p_rb m) < 2 ^ 32" using unsigned_less [of "p_len m", where 'a = nat] by simp
  obtain bs where bs: "put_elems put_pdcp_rb pads (length (p_rb m)) (p_rb m) = Inr bs"
    "length bs = 68 * length (p_rb m)"
    "\<And>r. get_elems 68 get_pdcp_rb (length (p_rb m)) (bs @ r) = Inr (p_rb m, r)"
    by (rule pdcp_rb.put_elems_ok) (rule that)
  have l: "unat (12 + 68 * ucast (p_len m) :: u64) = 12 + 68 * length (p_rb m)"
    using small n by (simp add: unat_word_ariths unat_ucast_32_64)
  let ?buf = "le (p_len m) @ bs @ le (p_tstamp m)"
  have "pdcp_enc_ind_msg_plain pads m = Inr ?buf"
    by (simp add: pdcp_enc_ind_msg_plain_def n bs(1,2) l Let_def)
  moreover have "pdcp_dec_ind_msg_plain ?buf = Inr m"
    by (simp add: pdcp_dec_ind_msg_plain_def un_le_le n bs(3) Let_def)
  moreover have "length ?buf = 68 * length (p_rb m) + 12" by (simp add: bs(2))
  ultimately show ?thesis by (rule that)
qed

lemma pdcp_trigger: "pdcp_dec_event_trigger_plain (pdcp_enc_event_trigger_plain ms @ r) = Inr ms"
  by (simp add: pdcp_dec_event_trigger_plain_def pdcp_enc_event_trigger_plain_def un_le_le)

lemma pdcp_small:
  "pdcp_dec_ind_hdr_plain (pdcp_enc_ind_hdr_plain x) = Inr x"
  "pdcp_dec_ctrl_hdr_plain (pdcp_enc_ctrl_hdr_plain x) = Inr x"
  "pdcp_dec_ctrl_msg_plain (pdcp_enc_ctrl_msg_plain x) = Inr x"
  by (simp_all add: pdcp_dec_ind_hdr_plain_def pdcp_enc_ind_hdr_plain_def pdcp_dec_ctrl_hdr_plain_def
      pdcp_enc_ctrl_hdr_plain_def pdcp_dec_ctrl_msg_plain_def pdcp_enc_ctrl_msg_plain_def)

lemma pdcp_out: "pdcp_dec_ctrl_out_plain (pdcp_enc_ctrl_out_plain x) = Inr x"
  by (simp add: pdcp_dec_ctrl_out_plain_def pdcp_enc_ctrl_out_plain_def dec_exact_le flip: length_greater_0_conv)

text \<open>What the checks accept.\<close>

definition ok_pdcp_rb :: "pdcp_radio_bearer_stats \<Rightarrow> bool" where
  "ok_pdcp_rb rb \<longleftrightarrow> p_mode rb \<in> {0, 1, 2} \<and> p_rbid rb < 11 \<and>
    p_txpdu_pkts rb \<le> p_txpdu_bytes rb \<and> p_rxpdu_pkts rb \<le> p_rxpdu_bytes rb \<and>
    p_txsdu_pkts rb \<le> p_txsdu_bytes rb \<and> p_rxsdu_pkts rb \<le> p_rxsdu_bytes rb"

lemma check_pdcp_rb:
  "res_bind (check_pdcp_mode (p_mode rb)) (\<lambda>_. res_bind (check_pdcp_rbid (p_rbid rb)) (\<lambda>_.
    res_bind (check_pdcp_bearer rb) (\<lambda>_. k))) = (if ok_pdcp_rb rb then k else Inl AssertFail)"
  by (auto simp: check_pdcp_mode_def check_pdcp_rbid_def check_pdcp_bearer_def ok_pdcp_rb_def c_assert_def)

lemma check_pdcp_rbs:
  "length rbs = n \<Longrightarrow> check_pdcp_rbs n rbs = (if list_all ok_pdcp_rb rbs then Inr () else Inl AssertFail)"
proof (induction rbs arbitrary: n)
  case (Cons rb rbs)
  then show ?case by (cases n) (simp_all only: check_pdcp_rbs.simps check_pdcp_rb, auto)
qed simp

lemma check_pdcp:
  "wf_pdcp m \<Longrightarrow> check_pdcp_invariants m = (if list_all ok_pdcp_rb (p_rb m) then Inr () else Inl AssertFail)"
  by (simp add: check_pdcp_invariants_def wf_pdcp_def check_pdcp_rbs)

lemma cp_pdcp:
  "wf_pdcp m \<Longrightarrow> cp_pdcp_ind_msg m = (if list_all ok_pdcp_rb (p_rb m) then Inr m else Inl AssertFail)"
  by (simp add: cp_pdcp_ind_msg_def check_pdcp) (simp add: wf_pdcp_def)

lemma eq_pdcp_rb: "eq_pdcp_rb s t \<longleftrightarrow> s = t"
  by (cases s, cases t) (auto simp: eq_pdcp_rb_def)

lemma eq_elems_assert:
  "length xs = n \<Longrightarrow> length ys = n \<Longrightarrow>
   eq_elems (\<lambda>x y. res_bind (c_assert (x = y)) (\<lambda>_. Inr True)) n xs ys = (if xs = ys then Inr True else Inl AssertFail)"
proof (induction n arbitrary: xs ys)
  case (Suc n)
  then obtain x xs' y ys' where "xs = x # xs'" "ys = y # ys'" by (metis length_Suc_conv)
  with Suc show ?case by (auto simp: c_assert_def)
qed simp

lemma eq_pdcp:
  assumes "wf_pdcp m0" "wf_pdcp m1"
  shows "eq_pdcp_ind_msg m0 m1 =
    (if m0 = m1 \<and> list_all ok_pdcp_rb (p_rb m0) then Inr True else Inl AssertFail)"
proof -
  have e: "p_len m0 = p_len m1 \<Longrightarrow>
      eq_elems (\<lambda>x y. res_bind (c_assert (x = y)) (\<lambda>_. Inr True)) (unat (p_len m0)) (p_rb m0) (p_rb m1) =
      (if p_rb m0 = p_rb m1 then Inr True else Inl AssertFail)"
    using assms by (intro eq_elems_assert) (auto simp: wf_pdcp_def)
  show ?thesis
    using assms e by (cases m0, cases m1) (auto simp: eq_pdcp_ind_msg_def check_pdcp eq_pdcp_rb)
qed

end
