(* ===== verification/GtpSm.thy ===== *)
theory GtpSm
  imports Bytes
begin

text \<open>
  The statistics of the GTP tunnels: \<open>src/sm/gtp_sm/ie/gtp_data_ie.c\<close> and the plain codec
  (\<open>enc/gtp_enc_plain.c\<close>, \<open>dec/gtp_dec_plain.c\<close>).
\<close>

section \<open>Data\<close>

record gtp_ngu_t_stats =
  g_rnti :: u32
  g_teidgnb :: u32
  g_qfi :: u8
  g_teidupf :: u8

record gtp_ind_msg =
  g_len :: u32
  g_ngut :: "gtp_ngu_t_stats list"
  g_tstamp :: u64

record gtp_ind_data =
  gtp_hdr :: u32
  gtp_msg :: gtp_ind_msg
  gtp_proc_id :: "u32 option"

section \<open>Copy and equality\<close>


definition cp_gtp_ind_hdr :: "u32 \<Rightarrow> u32" where
  "cp_gtp_ind_hdr src = src"

definition eq_gtp_ind_hdr :: "u32 \<Rightarrow> u32 \<Rightarrow> bool" where
  "eq_gtp_ind_hdr m0 m1 \<longleftrightarrow> m0 = m1"

definition cp_gtp_call_proc_id :: "u32 \<Rightarrow> u32" where
  "cp_gtp_call_proc_id src = src"

definition eq_gtp_call_proc_id :: "u32 option \<Rightarrow> u32 option \<Rightarrow> bool" where
  "eq_gtp_call_proc_id m0 m1 =
    (case (m0, m1) of (None, None) \<Rightarrow> True | (Some a, Some b) \<Rightarrow> a = b | _ \<Rightarrow> False)"

definition cp_gtp_ind_msg :: "gtp_ind_msg \<Rightarrow> gtp_ind_msg res" where
  "cp_gtp_ind_msg src =
    res_bind (take_elems (unat (g_len src)) (g_ngut src)) (\<lambda>xs.
    Inr \<lparr>g_len = g_len src, g_ngut = xs, g_tstamp = g_tstamp src\<rparr>)"

definition cp_gtp_ind_data :: "gtp_ind_data \<Rightarrow> gtp_ind_data res" where
  "cp_gtp_ind_data src =
    res_bind (cp_gtp_ind_msg (gtp_msg src)) (\<lambda>m.
    Inr \<lparr>gtp_hdr = cp_gtp_ind_hdr (gtp_hdr src), gtp_msg = m,
      gtp_proc_id = map_option cp_gtp_call_proc_id (gtp_proc_id src)\<rparr>)"

text \<open>The comparison of two elements of the array, field by field.\<close>

definition eq_gtp_ngut :: "gtp_ngu_t_stats \<Rightarrow> gtp_ngu_t_stats \<Rightarrow> bool" where
  "eq_gtp_ngut s t \<longleftrightarrow>
    g_rnti s = g_rnti t \<and> g_teidgnb s = g_teidgnb t \<and> g_qfi s = g_qfi t \<and> g_teidupf s = g_teidupf t"

definition eq_gtp_ind_msg :: "gtp_ind_msg \<Rightarrow> gtp_ind_msg \<Rightarrow> bool res" where
  "eq_gtp_ind_msg m0 m1 =
    (if g_tstamp m0 \<noteq> g_tstamp m1 \<or> g_len m0 \<noteq> g_len m1 then Inr False
     else eq_elems (\<lambda>x y. Inr (eq_gtp_ngut x y)) (unat (g_len m0)) (g_ngut m0) (g_ngut m1))"

section \<open>Layout in memory\<close>

text \<open>10 bytes of fields and 2 of padding.\<close>

definition put_gtp_ngut :: "(nat \<Rightarrow> u8) \<Rightarrow> gtp_ngu_t_stats \<Rightarrow> byte_array" where
  "put_gtp_ngut pad s =
    le (g_rnti s) @ le (g_teidgnb s) @ le (g_qfi s) @ le (g_teidupf s) @ map pad [0..<2]"

definition get_gtp_ngut :: "byte_array \<Rightarrow> gtp_ngu_t_stats" where
  "get_gtp_ngut bs =
    (let (x0, b0) = rd_le bs; (x1, b1) = rd_le b0; (x2, b2) = rd_le b1; (x3, b3) = rd_le b2
     in \<lparr>g_rnti = x0, g_teidgnb = x1, g_qfi = x2, g_teidupf = x3\<rparr>)"

interpretation gtp_ngut: struct_codec 12 put_gtp_ngut get_gtp_ngut
proof
  fix pad s
  show "length (put_gtp_ngut pad s) = 12" by (simp add: put_gtp_ngut_def)
  show "get_gtp_ngut (put_gtp_ngut pad s) = s" by (simp add: put_gtp_ngut_def get_gtp_ngut_def)
qed

section \<open>Codec\<close>

definition gtp_enc_event_trigger_plain :: "u32 \<Rightarrow> byte_array" where
  "gtp_enc_event_trigger_plain ms = le ms"

definition gtp_dec_event_trigger_plain :: "byte_array \<Rightarrow> u32 res" where
  "gtp_dec_event_trigger_plain ev_tr = res_bind (memcpy_from 4 ev_tr) (\<lambda>(b, r). Inr (un_le b))"

definition gtp_enc_ind_hdr_plain :: "u32 \<Rightarrow> byte_array" where
  "gtp_enc_ind_hdr_plain hdr = le hdr"

definition gtp_dec_ind_hdr_plain :: "byte_array \<Rightarrow> u32 res" where
  "gtp_dec_ind_hdr_plain hdr = dec_exact hdr"

text \<open>The size is computed in \<open>size_t\<close>, where it does not wrap.\<close>

definition gtp_enc_ind_msg_plain :: "(nat \<Rightarrow> nat \<Rightarrow> u8) \<Rightarrow> gtp_ind_msg \<Rightarrow> byte_array res" where
  "gtp_enc_ind_msg_plain pads m =
    (let sz = 4 + 12 * ucast (g_len m) + 8 :: u64 in
     res_bind (put_elems put_gtp_ngut pads (unat (g_len m)) (g_ngut m)) (\<lambda>bs.
     let buf = le (g_len m) @ bs @ le (g_tstamp m) in
     res_bind (if unat sz < length buf then Inl OutOfBounds else Inr ()) (\<lambda>_.
     res_bind (c_assert (length buf = unat sz)) (\<lambda>_. Inr buf))))"

definition gtp_dec_ind_msg_plain :: "byte_array \<Rightarrow> gtp_ind_msg res" where
  "gtp_dec_ind_msg_plain bs =
    res_bind (c_assert (16 \<le> next_pow2 (of_nat (length bs)))) (\<lambda>_.
    res_bind (memcpy_from 4 bs) (\<lambda>(l, b0).
    let n = un_le l :: u32 in
    res_bind (get_elems 12 get_gtp_ngut (unat n) b0) (\<lambda>(xs, b1).
    res_bind (memcpy_from 8 b1) (\<lambda>(t, b2).
    res_bind (c_assert (b2 = [])) (\<lambda>_.
    Inr \<lparr>g_len = n, g_ngut = xs, g_tstamp = un_le t\<rparr>)))))"

definition gtp_enc_ctrl_hdr_plain :: "u32 \<Rightarrow> byte_array" where
  "gtp_enc_ctrl_hdr_plain ctrl_hdr = le ctrl_hdr"

definition gtp_dec_ctrl_hdr_plain :: "byte_array \<Rightarrow> u32 res" where
  "gtp_dec_ctrl_hdr_plain ctrl_hdr = dec_exact ctrl_hdr"

definition gtp_enc_ctrl_msg_plain :: "u32 \<Rightarrow> byte_array" where
  "gtp_enc_ctrl_msg_plain ctrl_msg = le ctrl_msg"

definition gtp_dec_ctrl_msg_plain :: "byte_array \<Rightarrow> u32 res" where
  "gtp_dec_ctrl_msg_plain ctrl_msg = dec_exact ctrl_msg"


section \<open>Properties\<close>

definition wf_gtp :: "gtp_ind_msg \<Rightarrow> bool" where
  "wf_gtp m \<longleftrightarrow> unat (g_len m) = length (g_ngut m)"

lemma gtp_codec:
  assumes "wf_gtp m"
  obtains bs where "gtp_enc_ind_msg_plain pads m = Inr bs" "gtp_dec_ind_msg_plain bs = Inr m"
    "length bs = 12 * length (g_ngut m) + 12"
proof -
  have n: "unat (g_len m) = length (g_ngut m)" using assms(1) by (simp add: wf_gtp_def)
  then have small: "length (g_ngut m) < 2 ^ 32" using unsigned_less [of "g_len m", where 'a = nat] by simp
  obtain bs where bs: "put_elems put_gtp_ngut pads (length (g_ngut m)) (g_ngut m) = Inr bs"
    "length bs = 12 * length (g_ngut m)"
    "\<And>r. get_elems 12 get_gtp_ngut (length (g_ngut m)) (bs @ r) = Inr (g_ngut m, r)"
    by (rule gtp_ngut.put_elems_ok) (rule that)
  have l: "unat (12 + 12 * ucast (g_len m) :: u64) = 12 + 12 * length (g_ngut m)"
    using small n by (simp add: unat_word_ariths unat_ucast_32_64)
  let ?buf = "le (g_len m) @ bs @ le (g_tstamp m)"
  have "gtp_enc_ind_msg_plain pads m = Inr ?buf"
    by (simp add: gtp_enc_ind_msg_plain_def n bs(1,2) l Let_def)
  moreover have "gtp_dec_ind_msg_plain ?buf = Inr m"
  proof -
    have "length ?buf = 12 * length (g_ngut m) + 12" by (simp add: bs(2))
    then have "16 \<le> unat (next_pow2 (of_nat (length ?buf)))"
      using small by (intro next_pow2_ge) simp_all
    then have "16 \<le> next_pow2 (of_nat (length ?buf))" by (simp add: word_le_nat_alt)
    then show ?thesis by (simp add: gtp_dec_ind_msg_plain_def un_le_le n bs(3) Let_def)
  qed
  moreover have "length ?buf = 12 * length (g_ngut m) + 12" by (simp add: bs(2))
  ultimately show ?thesis by (rule that)
qed

lemma gtp_trigger: "gtp_dec_event_trigger_plain (gtp_enc_event_trigger_plain ms @ r) = Inr ms"
  by (simp add: gtp_dec_event_trigger_plain_def gtp_enc_event_trigger_plain_def un_le_le)

lemma gtp_small:
  "gtp_dec_ind_hdr_plain (gtp_enc_ind_hdr_plain x) = Inr x"
  "gtp_dec_ctrl_hdr_plain (gtp_enc_ctrl_hdr_plain x) = Inr x"
  "gtp_dec_ctrl_msg_plain (gtp_enc_ctrl_msg_plain x) = Inr x"
  by (simp_all add: gtp_dec_ind_hdr_plain_def gtp_enc_ind_hdr_plain_def gtp_dec_ctrl_hdr_plain_def
      gtp_enc_ctrl_hdr_plain_def gtp_dec_ctrl_msg_plain_def gtp_enc_ctrl_msg_plain_def)

lemma cp_gtp: "wf_gtp m \<Longrightarrow> cp_gtp_ind_msg m = Inr m"
  by (simp add: cp_gtp_ind_msg_def wf_gtp_def)

lemma eq_gtp_ngut: "eq_gtp_ngut s t \<longleftrightarrow> s = t"
  by (cases s, cases t) (auto simp: eq_gtp_ngut_def)

lemma eq_gtp:
  assumes "wf_gtp m0" "wf_gtp m1"
  shows "eq_gtp_ind_msg m0 m1 = Inr (m0 = m1)"
proof (cases "g_tstamp m0 = g_tstamp m1 \<and> g_len m0 = g_len m1")
  case True
  then have "eq_elems (\<lambda>x y. Inr (eq_gtp_ngut x y)) (unat (g_len m0)) (g_ngut m0) (g_ngut m1) =
      Inr (g_ngut m0 = g_ngut m1)"
    using assms by (intro eq_elems_exact) (auto simp: wf_gtp_def eq_gtp_ngut)
  with True show ?thesis by (cases m0, cases m1) (simp add: eq_gtp_ind_msg_def)
next
  case False
  then show ?thesis by (auto simp: eq_gtp_ind_msg_def)
qed

end
