(* ===== verification/Wire.thy ===== *)
theory Wire
  imports Bytes
begin

text \<open>
  Messages of a variable layout.  The encoders of the service models SLICE and TC first compute the
  size of a message, allocate a buffer of that size and then write one member after the other
  through a pointer; the decoders read them back through a pointer.  A writer gets the room that is
  left behind its pointer and returns the bytes that it writes, or stops when they do not fit; a
  reader gets the bytes behind its pointer and returns a value and what follows.
  \<open>writes w bs\<close> and \<open>reads g v bs\<close> say what a writer and a reader do with the bytes \<open>bs\<close>; the locale
  \<open>wire_format\<close> is what ties the size, the writer and the reader of a type to one format.
\<close>

section \<open>Writers\<close>

type_synonym writer = "nat \<Rightarrow> byte_array res"

definition wr :: "byte_array \<Rightarrow> writer" where
  "wr bs room = (if length bs \<le> room then Inr bs else Inl OutOfBounds)"

text \<open>\<open>memcpy\<close> of the first \<open>n\<close> bytes of an array.\<close>

definition wr_arr :: "nat \<Rightarrow> byte_array \<Rightarrow> writer" where
  "wr_arr n bs room = res_bind (memcpy_from n bs) (\<lambda>(b, r). wr b room)"

fun wr_seq :: "writer list \<Rightarrow> writer" where
  "wr_seq [] room = Inr []"
| "wr_seq (w # ws) room =
    res_bind (w room) (\<lambda>x. res_bind (wr_seq ws (room - length x)) (\<lambda>y. Inr (x @ y)))"

text \<open>A writer behind \<open>assert(it < end)\<close>, and one that stops.\<close>

definition wr_in :: "writer \<Rightarrow> writer" where
  "wr_in w room = res_bind (c_assert (0 < room)) (\<lambda>_. w room)"

definition wr_fail :: writer where
  "wr_fail room = Inl AssertFail"

fun wr_elems :: "('a \<Rightarrow> writer) \<Rightarrow> nat \<Rightarrow> 'a list \<Rightarrow> writer" where
  "wr_elems w 0 xs room = Inr []"
| "wr_elems w (Suc n) [] room = Inl OutOfBounds"
| "wr_elems w (Suc n) (x # xs) room =
    res_bind (w x room) (\<lambda>b. res_bind (wr_elems w n xs (room - length b)) (\<lambda>c. Inr (b @ c)))"

fun cal_elems :: "('a \<Rightarrow> nat res) \<Rightarrow> nat \<Rightarrow> 'a list \<Rightarrow> nat res" where
  "cal_elems cal 0 xs = Inr 0"
| "cal_elems cal (Suc n) [] = Inl OutOfBounds"
| "cal_elems cal (Suc n) (x # xs) = res_bind (cal x) (\<lambda>a. res_bind (cal_elems cal n xs) (\<lambda>b. Inr (a + b)))"

text \<open>A \<open>size_t\<close> has 64 bits: the sum of the sizes, computed in \<open>nat\<close>, is taken modulo \<open>2 ^ 64\<close>.  The
  last assertion of an encoder is that the pointer is at the end of the buffer.\<close>

definition wr_buffer :: "nat res \<Rightarrow> writer \<Rightarrow> byte_array res" where
  "wr_buffer cal w =
    res_bind cal (\<lambda>n.
    let sz = n mod 2 ^ 64 in
    res_bind (w sz) (\<lambda>buf.
    res_bind (c_assert (length buf = sz)) (\<lambda>_. Inr buf)))"

text \<open>A writer that leaves room behind what it writes, as after \<open>assert(it < end)\<close> behind it.\<close>

definition wr_left :: "writer \<Rightarrow> writer" where
  "wr_left w room = res_bind (w room) (\<lambda>bs. res_bind (c_assert (length bs < room)) (\<lambda>_. Inr bs))"

text \<open>With \<open>k\<close> bytes of room to spare the writer writes \<open>bs\<close>.\<close>

definition writes_k :: "nat \<Rightarrow> writer \<Rightarrow> byte_array \<Rightarrow> bool" where
  "writes_k k w bs \<longleftrightarrow> (\<forall>room. length bs + k \<le> room \<longrightarrow> w room = Inr bs)"

abbreviation writes :: "writer \<Rightarrow> byte_array \<Rightarrow> bool" where
  "writes \<equiv> writes_k 0"

named_theorems wire "what writers write"

lemma writes_wr [wire]: "writes_k k (wr bs) bs"
  by (simp add: writes_k_def wr_def)

lemma writes_arr [wire]: "n \<le> length bs \<Longrightarrow> writes_k k (wr_arr n bs) (take n bs)"
  by (simp add: writes_k_def wr_arr_def wr_def memcpy_from_def)

lemma writes_mono: "writes w bs \<Longrightarrow> writes_k k w bs"
  by (simp add: writes_k_def)

text \<open>A sequence of writers: the rule is applied first, then every member is simplified.\<close>

lemma writes_seq: "list_all2 (writes_k k) ws bss \<Longrightarrow> writes_k k (wr_seq ws) (concat bss)"
  by (induction ws bss rule: list_all2_induct) (auto simp: writes_k_def)

lemma writes_in: "writes_k k w bs \<Longrightarrow> bs \<noteq> [] \<Longrightarrow> writes_k k (wr_in w) bs"
proof -
  assume w: "writes_k k w bs" and b: "bs \<noteq> []"
  have "0 < room" if "length bs + k \<le> room" for room using b that by (cases bs) auto
  then show ?thesis using w by (simp add: writes_k_def wr_in_def)
qed

lemma writes_left: "writes_k 1 w bs \<Longrightarrow> writes_k 1 (wr_left w) bs"
  by (simp add: writes_k_def wr_left_def)

text \<open>The room that the first writer needs to spare is that of the second.\<close>

lemma writes_spare: "writes_k 1 w a \<Longrightarrow> writes v b \<Longrightarrow> b \<noteq> [] \<Longrightarrow> writes (wr_seq [w, v]) (a @ b)"
proof -
  assume w: "writes_k 1 w a" and v: "writes v b" and b: "b \<noteq> []"
  have "length a + 1 \<le> room" if "length (a @ b) \<le> room" for room using b that by (cases b) auto
  then show ?thesis using w v by (simp add: writes_k_def)
qed

lemma wr_buffer_ok:
  assumes "cal = Inr (length bs)" "writes w bs" "length bs < 2 ^ 64"
  shows "wr_buffer cal w = Inr bs"
  using assms by (simp add: wr_buffer_def writes_k_def)

section \<open>Readers\<close>

definition rdw :: "byte_array \<Rightarrow> ('a::len word \<times> byte_array) res" where
  "rdw bs = res_bind (memcpy_from (LENGTH('a) div 8) bs) (\<lambda>(b, r). Inr (un_le b, r))"

lemma rdw_append [simp]: "8 dvd LENGTH('a) \<Longrightarrow> rdw (le (w :: 'a::len word) @ bs) = Inr (w, bs)"
  by (simp add: rdw_def un_le_le)

lemma rdw_all [simp]: "8 dvd LENGTH('a) \<Longrightarrow> rdw (le (w :: 'a::len word)) = Inr (w, [])"
  using rdw_append [of w "[]"] by simp

fun rd_elems :: "(byte_array \<Rightarrow> ('a \<times> byte_array) res) \<Rightarrow> nat \<Rightarrow> byte_array \<Rightarrow> ('a list \<times> byte_array) res" where
  "rd_elems g 0 bs = Inr ([], bs)"
| "rd_elems g (Suc n) bs =
    res_bind (g bs) (\<lambda>(x, bs'). res_bind (rd_elems g n bs') (\<lambda>(xs, r). Inr (x # xs, r)))"

text \<open>A reader behind which the buffer goes on.\<close>

definition rd_left :: "(byte_array \<Rightarrow> ('a \<times> byte_array) res) \<Rightarrow> byte_array \<Rightarrow> ('a \<times> byte_array) res" where
  "rd_left g bs = res_bind (g bs) (\<lambda>(x, r). res_bind (c_assert (r \<noteq> [])) (\<lambda>_. Inr (x, r)))"

text \<open>With at least \<open>k\<close> bytes behind \<open>bs\<close> the reader returns \<open>v\<close>.\<close>

definition reads_k :: "nat \<Rightarrow> (byte_array \<Rightarrow> ('a \<times> byte_array) res) \<Rightarrow> 'a \<Rightarrow> byte_array \<Rightarrow> bool" where
  "reads_k k g v bs \<longleftrightarrow> (\<forall>r. k \<le> length r \<longrightarrow> g (bs @ r) = Inr (v, r))"

abbreviation reads :: "(byte_array \<Rightarrow> ('a \<times> byte_array) res) \<Rightarrow> 'a \<Rightarrow> byte_array \<Rightarrow> bool" where
  "reads \<equiv> reads_k 0"

lemma readsD: "reads_k k g v bs \<Longrightarrow> k \<le> length r \<Longrightarrow> g (bs @ r) = Inr (v, r)"
  by (simp add: reads_k_def)

lemma reads_left: "reads_k 1 g v bs \<Longrightarrow> reads_k 1 (rd_left g) v bs"
  by (auto simp: reads_k_def rd_left_def Suc_le_eq)

section \<open>Formats\<close>

definition elem_bytes :: "('a \<Rightarrow> byte_array) \<Rightarrow> nat \<Rightarrow> 'a list \<Rightarrow> byte_array" where
  "elem_bytes bytes n xs = concat (map bytes (take n xs))"

text \<open>\<open>bytes\<close> is the format of the values that are \<open>ok\<close>; \<open>seen\<close> is the value that its reader returns.
  Writer and reader may need \<open>slack\<close> bytes behind theirs.\<close>

locale wire_format =
  fixes slack :: nat and ok :: "'a \<Rightarrow> bool" and bytes :: "'a \<Rightarrow> byte_array" and cal :: "'a \<Rightarrow> nat res"
    and put :: "'a \<Rightarrow> writer" and get :: "byte_array \<Rightarrow> ('a \<times> byte_array) res" and seen :: "'a \<Rightarrow> 'a"
  assumes size: "ok x \<Longrightarrow> cal x = Inr (length (bytes x))"
    and written: "ok x \<Longrightarrow> writes_k slack (put x) (bytes x)"
    and read: "ok x \<Longrightarrow> reads_k slack get (seen x) (bytes x)"
begin

text \<open>An array of at least \<open>n\<close> elements, of which the first \<open>n\<close> are written.\<close>

lemma elems_size: "list_all ok (take n xs) \<Longrightarrow> n \<le> length xs \<Longrightarrow> cal_elems cal n xs = Inr (length (elem_bytes bytes n xs))"
proof (induction n arbitrary: xs)
  case (Suc n)
  then obtain y ys where xs: "xs = y # ys" by (cases xs) auto
  with Suc show ?case by (simp add: elem_bytes_def size)
qed (simp add: elem_bytes_def)

lemma elems_written:
  "list_all ok (take n xs) \<Longrightarrow> n \<le> length xs \<Longrightarrow> writes_k slack (wr_elems put n xs) (elem_bytes bytes n xs)"
proof (induction n arbitrary: xs)
  case (Suc n)
  then obtain y ys where xs: "xs = y # ys" by (cases xs) auto
  with Suc have "writes_k slack (wr_elems put n ys) (elem_bytes bytes n ys)" "writes_k slack (put y) (bytes y)"
    by (auto simp: written)
  then show ?case by (simp add: writes_k_def elem_bytes_def xs)
qed (simp add: writes_k_def elem_bytes_def)

lemma elems_read:
  "list_all ok (take n xs) \<Longrightarrow> n \<le> length xs \<Longrightarrow> reads_k slack (rd_elems get n) (map seen (take n xs)) (elem_bytes bytes n xs)"
proof (induction n arbitrary: xs)
  case (Suc n)
  then obtain y ys where xs: "xs = y # ys" by (cases xs) auto
  with Suc have "reads_k slack (rd_elems get n) (map seen (take n ys)) (elem_bytes bytes n ys)"
    "reads_k slack get (seen y) (bytes y)"
    by (auto simp: read)
  then show ?case by (simp add: reads_k_def elem_bytes_def xs)
qed (simp add: reads_k_def elem_bytes_def)

end

text \<open>An integer is the simplest format: an array of 32-bit integers is written element by element.\<close>

definition cal_u32 :: "u32 \<Rightarrow> nat res" where
  "cal_u32 x = Inr 4"

definition put_u32 :: "u32 \<Rightarrow> writer" where
  "put_u32 x = wr (le x)"

interpretation u32_wire: wire_format 0 "\<lambda>_. True" le cal_u32 put_u32 rdw "\<lambda>x. x"
  by unfold_locales (simp_all add: cal_u32_def put_u32_def wire reads_k_def)

lemma writes_u32 [wire]: "n \<le> length xs \<Longrightarrow> writes_k k (wr_elems put_u32 n xs) (elem_bytes le n xs)"
  by (rule writes_mono, rule u32_wire.elems_written) (simp_all add: list_all_iff)

lemma rd_u32s [simp]: "n \<le> length xs \<Longrightarrow> rd_elems rdw n (elem_bytes le n xs @ r) = Inr (take n xs :: u32 list, r)"
  using readsD [OF u32_wire.elems_read, of n xs r] by (simp add: list_all_iff)

lemma rd_u32s_all [simp]: "n \<le> length xs \<Longrightarrow> rd_elems rdw n (elem_bytes le n xs) = Inr (take n xs :: u32 list, [])"
  using rd_u32s [of n xs "[]"] by simp

lemma length_u32s [simp]: "n \<le> length xs \<Longrightarrow> length (elem_bytes le n xs) = 4 * n" for xs :: "u32 list"
  by (simp add: elem_bytes_def length_concat o_def sum_list_triv)

lemma le_nonempty [simp]: "8 \<le> LENGTH('a) \<Longrightarrow> le (w :: 'a::len word) \<noteq> []"
  by (simp flip: length_greater_0_conv)

end
