(* ===== verification/SliceSm.thy ===== *)
theory SliceSm
  imports Wire
begin

text \<open>
  The configuration of the slices of a node: \<open>src/sm/slice_sm/ie/slice_data_ie.c\<close> and the plain codec
  (\<open>enc/slice_enc_plain.c\<close>, \<open>dec/slice_dec_plain.c\<close>).  A tagged union is a datatype with one
  more constructor for the values of the tag that the code does not know.  A string or an array
  has its announced length and the bytes or elements that its memory holds; the null pointer is
  the empty list.
\<close>

section \<open>Data\<close>

record static_slice =
  pos_low :: u32
  pos_high :: u32

record nvs_rate =
  mbps_required :: u32
  mbps_reference :: u32

datatype nvs_slice =
    Nvs_rate nvs_rate
  | Nvs_capacity u32
  | Nvs_unknown u32

record scn19_on_demand =
  od_pct_reserved :: u32
  od_log_delta :: u32
  od_tau :: u32

datatype scn19_slice =
    Scn19_dynamic nvs_rate
  | Scn19_fixed static_slice
  | Scn19_on_demand scn19_on_demand
  | Scn19_unknown u32

record edf_slice =
  deadline :: u32
  guaranteed_prbs :: u32
  max_replenish :: u32
  len_over :: u32
  over :: "u32 list"

text \<open>The tag 0, no algorithm, is among the unknown ones of every function.\<close>

datatype slice_params =
    Slice_static static_slice
  | Slice_nvs nvs_slice
  | Slice_scn19 scn19_slice
  | Slice_edf edf_slice
  | Slice_unknown u32

record fr_slice =
  sl_id :: u32
  sl_len_label :: u32
  sl_label :: byte_array
  sl_len_sched :: u32
  sl_sched :: byte_array
  sl_params :: slice_params

record ul_dl_slice_conf =
  len_slices :: u32
  slices :: "fr_slice list"
  len_sched_name :: u32
  sched_name :: byte_array

record slice_conf =
  sc_dl :: ul_dl_slice_conf
  sc_ul :: ul_dl_slice_conf

record ue_slice_assoc =
  ue_dl_id :: u32
  ue_ul_id :: u32
  ue_rnti :: u16

record ue_slice_conf =
  len_ue_slice :: u32
  ues :: "ue_slice_assoc list"

record slice_ind_msg =
  ind_slice_conf :: slice_conf
  ind_ue_slice_conf :: ue_slice_conf
  sl_tstamp :: u64

record slice_ind_data =
  slice_hdr :: u32
  slice_msg :: slice_ind_msg
  slice_proc_id :: "u32 option"

record del_slice_conf =
  len_dl :: u32
  del_dl :: "u32 list"
  len_ul :: u32
  del_ul :: "u32 list"

datatype slice_ctrl_msg =
    Add_mod_slice slice_conf
  | Del_slice del_slice_conf
  | Ue_slice ue_slice_conf
  | Slice_ctrl_unknown u32

record slice_ctrl_out =
  out_ans :: u32
  len_diag :: u32
  diagnostic :: byte_array

section \<open>Equality\<close>

definition memcmp_eq :: "nat \<Rightarrow> byte_array \<Rightarrow> byte_array \<Rightarrow> bool res" where
  "memcmp_eq n xs ys =
    (if length xs < n \<or> length ys < n then Inl OutOfBounds else Inr (take n xs = take n ys))"

definition eq_slice_ind_hdr :: "u32 \<Rightarrow> u32 \<Rightarrow> bool" where
  "eq_slice_ind_hdr m0 m1 \<longleftrightarrow> m0 = m1"

definition eq_static_slice :: "static_slice \<Rightarrow> static_slice \<Rightarrow> bool" where
  "eq_static_slice m0 m1 \<longleftrightarrow> pos_high m0 = pos_high m1 \<and> pos_low m0 = pos_low m1"

definition eq_nvs_rate :: "nvs_rate \<Rightarrow> nvs_rate \<Rightarrow> bool" where
  "eq_nvs_rate m0 m1 \<longleftrightarrow>
    f32_eq (mbps_reference m0) (mbps_reference m1) \<and> f32_eq (mbps_required m0) (mbps_required m1)"

definition eq_nvs_cap :: "u32 \<Rightarrow> u32 \<Rightarrow> bool" where
  "eq_nvs_cap m0 m1 \<longleftrightarrow> f32_eq m0 m1"

definition eq_nvs_slice :: "nvs_slice \<Rightarrow> nvs_slice \<Rightarrow> bool" where
  "eq_nvs_slice m0 m1 \<longleftrightarrow>
    (case (m0, m1) of
       (Nvs_rate a, Nvs_rate b) \<Rightarrow> eq_nvs_rate a b
     | (Nvs_capacity a, Nvs_capacity b) \<Rightarrow> eq_nvs_cap a b
     | _ \<Rightarrow> False)"

definition eq_scn19_on_demand :: "scn19_on_demand \<Rightarrow> scn19_on_demand \<Rightarrow> bool" where
  "eq_scn19_on_demand m0 m1 \<longleftrightarrow>
    f32_eq (od_log_delta m0) (od_log_delta m1) \<and> f32_eq (od_pct_reserved m0) (od_pct_reserved m1) \<and>
    od_tau m0 = od_tau m1"

definition eq_scn19_slice :: "scn19_slice \<Rightarrow> scn19_slice \<Rightarrow> bool" where
  "eq_scn19_slice m0 m1 \<longleftrightarrow>
    (case (m0, m1) of
       (Scn19_dynamic a, Scn19_dynamic b) \<Rightarrow> eq_nvs_rate a b
     | (Scn19_fixed a, Scn19_fixed b) \<Rightarrow> eq_static_slice a b
     | (Scn19_on_demand a, Scn19_on_demand b) \<Rightarrow> eq_scn19_on_demand a b
     | _ \<Rightarrow> False)"

definition eq_edf_slice :: "edf_slice \<Rightarrow> edf_slice \<Rightarrow> bool res" where
  "eq_edf_slice m0 m1 =
    res_bind (eq_elems (\<lambda>a b. Inr (a = b)) (unat (len_over m0)) (over m0) (over m1)) (\<lambda>b.
    Inr (b \<and> deadline m0 = deadline m1 \<and> guaranteed_prbs m0 = guaranteed_prbs m1 \<and>
      max_replenish m0 = max_replenish m1 \<and> len_over m0 = len_over m1))"

definition eq_slice_params :: "slice_params \<Rightarrow> slice_params \<Rightarrow> bool res" where
  "eq_slice_params m0 m1 =
    (case (m0, m1) of
       (Slice_static a, Slice_static b) \<Rightarrow> Inr (eq_static_slice a b)
     | (Slice_nvs a, Slice_nvs b) \<Rightarrow> Inr (eq_nvs_slice a b)
     | (Slice_scn19 a, Slice_scn19 b) \<Rightarrow> Inr (eq_scn19_slice a b)
     | (Slice_edf a, Slice_edf b) \<Rightarrow> eq_edf_slice a b
     | _ \<Rightarrow> Inr False)"

definition eq_slice :: "fr_slice \<Rightarrow> fr_slice \<Rightarrow> bool res" where
  "eq_slice m0 m1 =
    (if sl_id m0 \<noteq> sl_id m1 \<or> sl_len_label m0 \<noteq> sl_len_label m1 then Inr False
     else res_bind (memcmp_eq (unat (sl_len_label m0)) (sl_label m0) (sl_label m1)) (\<lambda>b.
       if \<not> b \<or> sl_len_sched m0 \<noteq> sl_len_sched m1 then Inr False
       else eq_slice_params (sl_params m0) (sl_params m1)))"

definition eq_ul_dl_slice_conf :: "ul_dl_slice_conf \<Rightarrow> ul_dl_slice_conf \<Rightarrow> bool res" where
  "eq_ul_dl_slice_conf m0 m1 =
    (if len_sched_name m0 \<noteq> len_sched_name m1 \<or> len_slices m0 \<noteq> len_slices m1 then Inr False
     else res_bind (memcmp_eq (unat (len_sched_name m0)) (sched_name m0) (sched_name m1)) (\<lambda>b.
       if \<not> b then Inr False else eq_elems eq_slice (unat (len_slices m0)) (slices m0) (slices m1)))"

definition eq_slice_conf :: "slice_conf \<Rightarrow> slice_conf \<Rightarrow> bool res" where
  "eq_slice_conf m0 m1 =
    res_bind (eq_ul_dl_slice_conf (sc_ul m0) (sc_ul m1)) (\<lambda>b.
    if b then eq_ul_dl_slice_conf (sc_dl m0) (sc_dl m1) else Inr False)"

definition eq_ue_slice_assoc :: "ue_slice_assoc \<Rightarrow> ue_slice_assoc \<Rightarrow> bool" where
  "eq_ue_slice_assoc m0 m1 \<longleftrightarrow>
    ue_dl_id m0 = ue_dl_id m1 \<and> ue_rnti m0 = ue_rnti m1 \<and> ue_ul_id m0 = ue_ul_id m1"

definition eq_ue_slice_conf :: "ue_slice_conf \<Rightarrow> ue_slice_conf \<Rightarrow> bool res" where
  "eq_ue_slice_conf m0 m1 =
    (if len_ue_slice m0 \<noteq> len_ue_slice m1 then Inr False
     else eq_elems (\<lambda>a b. Inr (eq_ue_slice_assoc a b)) (unat (len_ue_slice m0)) (ues m0) (ues m1))"

definition eq_slice_ind_msg :: "slice_ind_msg \<Rightarrow> slice_ind_msg \<Rightarrow> bool res" where
  "eq_slice_ind_msg m0 m1 =
    res_bind (eq_slice_conf (ind_slice_conf m0) (ind_slice_conf m1)) (\<lambda>b.
    if \<not> b then Inr False
    else res_bind (eq_ue_slice_conf (ind_ue_slice_conf m0) (ind_ue_slice_conf m1)) (\<lambda>c.
      Inr (c \<and> sl_tstamp m0 = sl_tstamp m1)))"

definition eq_slice_ctrl_hdr :: "u32 \<Rightarrow> u32 \<Rightarrow> bool" where
  "eq_slice_ctrl_hdr m0 m1 \<longleftrightarrow> m0 = m1"

definition eq_del_slice :: "del_slice_conf \<Rightarrow> del_slice_conf \<Rightarrow> bool res" where
  "eq_del_slice m0 m1 =
    (if len_dl m0 \<noteq> len_dl m1 then Inr False
     else res_bind (eq_elems (\<lambda>a b. Inr (a = b)) (unat (len_dl m0)) (del_dl m0) (del_dl m1)) (\<lambda>b.
       if \<not> b \<or> len_ul m0 \<noteq> len_ul m1 then Inr False
       else eq_elems (\<lambda>a b. Inr (a = b)) (unat (len_ul m0)) (del_ul m0) (del_ul m1)))"

text \<open>\<open>eq_slice_ctrl_msg\<close> only looks at the tag of its first argument; on two messages of different
  types it reads the second union through the wrong member.  What memory holds there is
  not specified by the values: the outcome is the argument \<open>other\<close>.\<close>

definition eq_slice_ctrl_msg :: "bool res \<Rightarrow> slice_ctrl_msg \<Rightarrow> slice_ctrl_msg \<Rightarrow> bool res" where
  "eq_slice_ctrl_msg other m0 m1 =
    (case m0 of
       Add_mod_slice a \<Rightarrow> (case m1 of Add_mod_slice b \<Rightarrow> eq_slice_conf a b | _ \<Rightarrow> other)
     | Del_slice a \<Rightarrow> (case m1 of Del_slice b \<Rightarrow> eq_del_slice a b | _ \<Rightarrow> other)
     | Ue_slice a \<Rightarrow> (case m1 of Ue_slice b \<Rightarrow> eq_ue_slice_conf a b | _ \<Rightarrow> other)
     | Slice_ctrl_unknown v \<Rightarrow> Inl AssertFail)"

definition eq_slice_ctrl_out :: "slice_ctrl_out \<Rightarrow> slice_ctrl_out \<Rightarrow> bool res" where
  "eq_slice_ctrl_out m0 m1 =
    (if len_diag m0 \<noteq> len_diag m1 then Inr False
     else if 0 < len_diag m0 then memcmp_eq (unat (len_diag m0)) (diagnostic m0) (diagnostic m1)
     else Inr True)"

section \<open>Copy\<close>

definition cp_slice_ind_hdr :: "u32 \<Rightarrow> u32" where
  "cp_slice_ind_hdr src = src"

definition cp_scn19_slice :: "scn19_slice \<Rightarrow> scn19_slice res" where
  "cp_scn19_slice src = (case src of Scn19_unknown v \<Rightarrow> Inl AssertFail | _ \<Rightarrow> Inr src)"

text \<open>The array of an EDF slice is copied through a pointer that is still null.\<close>

definition cp_slice_params :: "slice_params \<Rightarrow> slice_params res" where
  "cp_slice_params src =
    res_bind
      (case src of
         Slice_static s \<Rightarrow> Inr (Slice_static s)
       | Slice_nvs n \<Rightarrow> (case n of Nvs_unknown v \<Rightarrow> Inl AssertFail | _ \<Rightarrow> Inr (Slice_nvs n))
       | Slice_scn19 s \<Rightarrow> res_bind (cp_scn19_slice s) (\<lambda>c. Inr (Slice_scn19 c))
       | Slice_edf e \<Rightarrow> if 0 < len_over e then Inl NullDeref else Inr (Slice_edf (e\<lparr>over := []\<rparr>))
       | Slice_unknown v \<Rightarrow> Inl AssertFail) (\<lambda>dst.
    res_bind (must (eq_slice_params dst src)) (\<lambda>_. Inr dst))"

definition cpy_slice :: "fr_slice \<Rightarrow> fr_slice res" where
  "cpy_slice src =
    res_bind (take_elems (unat (sl_len_label src)) (sl_label src)) (\<lambda>lb.
    res_bind (take_elems (unat (sl_len_sched src)) (sl_sched src)) (\<lambda>sc.
    res_bind (cp_slice_params (sl_params src)) (\<lambda>p.
    let dst = \<lparr>sl_id = sl_id src, sl_len_label = sl_len_label src, sl_label = lb,
      sl_len_sched = sl_len_sched src, sl_sched = sc, sl_params = p\<rparr> in
    res_bind (must (eq_slice src dst)) (\<lambda>_. Inr dst))))"

fun map_res :: "('a \<Rightarrow> 'b res) \<Rightarrow> 'a list \<Rightarrow> 'b list res" where
  "map_res f [] = Inr []"
| "map_res f (x # xs) = res_bind (f x) (\<lambda>y. res_bind (map_res f xs) (\<lambda>ys. Inr (y # ys)))"

definition cpy_ul_dl_slice_conf :: "ul_dl_slice_conf \<Rightarrow> ul_dl_slice_conf res" where
  "cpy_ul_dl_slice_conf src =
    res_bind (take_elems (unat (len_sched_name src)) (sched_name src)) (\<lambda>nm.
    res_bind (take_elems (unat (len_slices src)) (slices src)) (\<lambda>ss.
    res_bind (map_res cpy_slice ss) (\<lambda>cs.
    let dst = \<lparr>len_slices = len_slices src, slices = cs, len_sched_name = len_sched_name src, sched_name = nm\<rparr> in
    res_bind (must (eq_ul_dl_slice_conf src dst)) (\<lambda>_. Inr dst))))"

definition cp_slice_conf :: "slice_conf \<Rightarrow> slice_conf res" where
  "cp_slice_conf src =
    res_bind (cpy_ul_dl_slice_conf (sc_dl src)) (\<lambda>dl.
    res_bind (cpy_ul_dl_slice_conf (sc_ul src)) (\<lambda>ul.
    let dst = \<lparr>sc_dl = dl, sc_ul = ul\<rparr> in
    res_bind (must (eq_slice_conf src dst)) (\<lambda>_. Inr dst)))"

definition cp_ue_slice_assoc :: "ue_slice_assoc \<Rightarrow> ue_slice_assoc" where
  "cp_ue_slice_assoc src = \<lparr>ue_dl_id = ue_dl_id src, ue_ul_id = ue_ul_id src, ue_rnti = ue_rnti src\<rparr>"

definition cp_ue_slice_conf :: "ue_slice_conf \<Rightarrow> ue_slice_conf res" where
  "cp_ue_slice_conf src =
    res_bind (take_elems (unat (len_ue_slice src)) (ues src)) (\<lambda>us.
    Inr \<lparr>len_ue_slice = len_ue_slice src, ues = map cp_ue_slice_assoc us\<rparr>)"

definition cp_slice_ind_msg :: "slice_ind_msg \<Rightarrow> slice_ind_msg res" where
  "cp_slice_ind_msg src =
    res_bind (cp_slice_conf (ind_slice_conf src)) (\<lambda>c.
    res_bind (cp_ue_slice_conf (ind_ue_slice_conf src)) (\<lambda>u.
    let out = \<lparr>ind_slice_conf = c, ind_ue_slice_conf = u, sl_tstamp = sl_tstamp src\<rparr> in
    res_bind (must (eq_slice_ind_msg src out)) (\<lambda>_. Inr out)))"

text \<open>The identifier of a procedure is not implemented.\<close>

definition cp_slice_ind_data :: "slice_ind_data \<Rightarrow> slice_ind_data res" where
  "cp_slice_ind_data src =
    res_bind (cp_slice_ind_msg (slice_msg src)) (\<lambda>m.
    if slice_proc_id src \<noteq> None then Inl AssertFail
    else Inr \<lparr>slice_hdr = cp_slice_ind_hdr (slice_hdr src), slice_msg = m, slice_proc_id = None\<rparr>)"

definition cp_slice_ctrl_hdr :: "u32 \<Rightarrow> u32" where
  "cp_slice_ctrl_hdr src = src"

definition cp_del_slice :: "del_slice_conf \<Rightarrow> del_slice_conf res" where
  "cp_del_slice src =
    res_bind (take_elems (unat (len_dl src)) (del_dl src)) (\<lambda>d.
    res_bind (take_elems (unat (len_ul src)) (del_ul src)) (\<lambda>u.
    Inr \<lparr>len_dl = len_dl src, del_dl = d, len_ul = len_ul src, del_ul = u\<rparr>))"

definition cp_slice_ctrl_msg :: "slice_ctrl_msg \<Rightarrow> slice_ctrl_msg res" where
  "cp_slice_ctrl_msg src =
    (case src of
       Add_mod_slice c \<Rightarrow> res_bind (cp_slice_conf c) (\<lambda>d. Inr (Add_mod_slice d))
     | Del_slice c \<Rightarrow> res_bind (cp_del_slice c) (\<lambda>d. Inr (Del_slice d))
     | Ue_slice c \<Rightarrow> res_bind (cp_ue_slice_conf c) (\<lambda>d. Inr (Ue_slice d))
     | Slice_ctrl_unknown v \<Rightarrow> Inl AssertFail)"

text \<open>The outcome is not copied: it is 0 in the copy.\<close>

definition cp_slice_ctrl_out :: "slice_ctrl_out \<Rightarrow> slice_ctrl_out res" where
  "cp_slice_ctrl_out src =
    res_bind (take_elems (unat (len_diag src)) (diagnostic src)) (\<lambda>d.
    Inr \<lparr>out_ans = 0, len_diag = len_diag src, diagnostic = d\<rparr>)"

section \<open>Freeing\<close>

text \<open>What freeing checks: announced memory is not null.\<close>

definition free_len :: "u32 \<Rightarrow> 'a list \<Rightarrow> unit res" where
  "free_len n xs = (if 0 < n then c_assert (xs \<noteq> []) else Inr ())"

definition free_slice_param :: "slice_params \<Rightarrow> unit res" where
  "free_slice_param p = (case p of Slice_edf e \<Rightarrow> free_len (len_over e) (over e) | _ \<Rightarrow> Inr ())"

definition free_fr_slice :: "fr_slice \<Rightarrow> unit res" where
  "free_fr_slice s =
    res_bind (free_len (sl_len_label s) (sl_label s)) (\<lambda>_.
    res_bind (free_len (sl_len_sched s) (sl_sched s)) (\<lambda>_. free_slice_param (sl_params s)))"

definition free_ul_dl_slice_conf :: "ul_dl_slice_conf \<Rightarrow> unit res" where
  "free_ul_dl_slice_conf conf =
    (if 0 < len_slices conf then
       res_bind (c_assert (slices conf \<noteq> [])) (\<lambda>_.
       res_bind (take_elems (unat (len_slices conf)) (slices conf)) (\<lambda>ss.
       res_bind (map_res free_fr_slice ss) (\<lambda>_. Inr ())))
     else Inr ())"

definition free_slice_conf :: "slice_conf \<Rightarrow> unit res" where
  "free_slice_conf conf =
    res_bind (free_ul_dl_slice_conf (sc_ul conf)) (\<lambda>_. free_ul_dl_slice_conf (sc_dl conf))"

definition free_ue_slice_conf :: "ue_slice_conf \<Rightarrow> unit res" where
  "free_ue_slice_conf conf = free_len (len_ue_slice conf) (ues conf)"

definition free_slice_ind_msg :: "slice_ind_msg \<Rightarrow> unit res" where
  "free_slice_ind_msg m =
    res_bind (free_slice_conf (ind_slice_conf m)) (\<lambda>_. free_ue_slice_conf (ind_ue_slice_conf m))"

definition free_slice_call_proc_id :: "u32 option \<Rightarrow> unit res" where
  "free_slice_call_proc_id p = (if p = None then Inr () else Inl AssertFail)"

definition free_slice_ind_data :: "slice_ind_data \<Rightarrow> unit res" where
  "free_slice_ind_data d =
    res_bind (free_slice_ind_msg (slice_msg d)) (\<lambda>_. free_slice_call_proc_id (slice_proc_id d))"

definition free_del_slice_conf :: "del_slice_conf \<Rightarrow> unit res" where
  "free_del_slice_conf conf =
    res_bind (free_len (len_dl conf) (del_dl conf)) (\<lambda>_. free_len (len_ul conf) (del_ul conf))"

definition free_slice_ctrl_msg :: "slice_ctrl_msg \<Rightarrow> unit res" where
  "free_slice_ctrl_msg src =
    (case src of
       Add_mod_slice c \<Rightarrow> free_slice_conf c
     | Del_slice c \<Rightarrow> free_del_slice_conf c
     | Ue_slice c \<Rightarrow> free_ue_slice_conf c
     | Slice_ctrl_unknown v \<Rightarrow> Inl AssertFail)"

definition free_slice_ctrl_out :: "slice_ctrl_out \<Rightarrow> unit res" where
  "free_slice_ctrl_out src = free_len (len_diag src) (diagnostic src)"

end
