(* ===== verification/SliceCodec.thy ===== *)
theory SliceCodec
  imports SliceSm
begin

text \<open>
  The plain codec of the SLICE model: \<open>src/sm/slice_sm/enc/slice_enc_plain.c\<close> and
  \<open>dec/slice_dec_plain.c\<close>.  For every type there is the size (\<open>cal_*\<close>), the writer (\<open>fill_*\<close>), the
  reader (\<open>get_*\<close>, called \<open>fill_*\<close> in the decoder too).
\<close>

section \<open>Sizes\<close>

definition cal_static :: "static_slice \<Rightarrow> nat" where
  "cal_static s = 4 + 4"

definition cal_nvs :: "nvs_slice \<Rightarrow> nat res" where
  "cal_nvs n = (case n of Nvs_rate r \<Rightarrow> Inr (4 + 4 + 4) | Nvs_capacity c \<Rightarrow> Inr (4 + 4) | Nvs_unknown v \<Rightarrow> Inl AssertFail)"

definition cal_scn19 :: "scn19_slice \<Rightarrow> nat res" where
  "cal_scn19 s =
    (case s of Scn19_dynamic r \<Rightarrow> Inr (4 + 4 + 4) | Scn19_fixed f \<Rightarrow> Inr (4 + 4 + 4)
     | Scn19_on_demand d \<Rightarrow> Inr (4 + 4 + 4 + 4) | Scn19_unknown v \<Rightarrow> Inl AssertFail)"

definition cal_edf :: "edf_slice \<Rightarrow> nat" where
  "cal_edf e = 4 + 4 + 4 + 4 + 4 * unat (len_over e)"

definition cal_params :: "slice_params \<Rightarrow> nat res" where
  "cal_params p =
    res_bind
      (case p of Slice_static s \<Rightarrow> Inr (cal_static s) | Slice_nvs n \<Rightarrow> cal_nvs n | Slice_scn19 s \<Rightarrow> cal_scn19 s
       | Slice_edf e \<Rightarrow> Inr (cal_edf e) | Slice_unknown v \<Rightarrow> Inl AssertFail) (\<lambda>sz. Inr (4 + sz))"

definition cal_fr_slice :: "fr_slice \<Rightarrow> nat res" where
  "cal_fr_slice s =
    res_bind (cal_params (sl_params s)) (\<lambda>sz.
    Inr (4 + 4 + unat (sl_len_label s) + 4 + unat (sl_len_sched s) + sz))"

definition cal_slc :: "nat \<Rightarrow> fr_slice list \<Rightarrow> nat res" where
  "cal_slc len slc = cal_elems cal_fr_slice len slc"

definition cal_ul_dl :: "ul_dl_slice_conf \<Rightarrow> nat res" where
  "cal_ul_dl slc =
    res_bind (cal_slc (unat (len_slices slc)) (slices slc)) (\<lambda>sz. Inr (4 + unat (len_sched_name slc) + 4 + sz))"

definition cal_slice_conf :: "slice_conf \<Rightarrow> nat res" where
  "cal_slice_conf slc =
    res_bind (cal_ul_dl (sc_ul slc)) (\<lambda>ul. res_bind (cal_ul_dl (sc_dl slc)) (\<lambda>dl. Inr (ul + dl)))"

definition cal_ue_slice_assoc :: "ue_slice_assoc \<Rightarrow> nat res" where
  "cal_ue_slice_assoc assoc = Inr (4 + 4 + 2)"

definition cal_ue_slice_conf :: "ue_slice_conf \<Rightarrow> nat res" where
  "cal_ue_slice_conf slc =
    res_bind (cal_elems cal_ue_slice_assoc (unat (len_ue_slice slc)) (ues slc)) (\<lambda>sz. Inr (4 + sz))"

definition cal_ind_msg_payload :: "slice_ind_msg \<Rightarrow> nat res" where
  "cal_ind_msg_payload m =
    res_bind (cal_slice_conf (ind_slice_conf m)) (\<lambda>sz_conf.
    res_bind (cal_ue_slice_conf (ind_ue_slice_conf m)) (\<lambda>sz_ues. Inr (sz_conf + sz_ues + 8)))"

definition cal_del_slice :: "del_slice_conf \<Rightarrow> nat" where
  "cal_del_slice del = 4 + unat (len_dl del) * 4 + 4 + unat (len_ul del) * 4"

definition cal_ctrl_msg_payload :: "slice_ctrl_msg \<Rightarrow> nat res" where
  "cal_ctrl_msg_payload m =
    res_bind
      (case m of Add_mod_slice c \<Rightarrow> cal_slice_conf c | Del_slice c \<Rightarrow> Inr (cal_del_slice c)
       | Ue_slice c \<Rightarrow> cal_ue_slice_conf c | Slice_ctrl_unknown v \<Rightarrow> Inl AssertFail) (\<lambda>sz. Inr (4 + sz))"

section \<open>Writers\<close>

definition fill_static :: "static_slice \<Rightarrow> writer" where
  "fill_static s = wr_in (wr_seq [wr (le (pos_high s)), wr (le (pos_low s))])"

definition fill_rate :: "nvs_rate \<Rightarrow> writer" where
  "fill_rate nvs = wr_seq [wr (le (mbps_reference nvs)), wr (le (mbps_required nvs))]"

definition fill_capacity :: "u32 \<Rightarrow> writer" where
  "fill_capacity nvs = wr (le nvs)"

text \<open>The tag of a union, as it is in memory.\<close>

definition nvs_conf :: "nvs_slice \<Rightarrow> u32" where
  "nvs_conf n = (case n of Nvs_rate r \<Rightarrow> 0 | Nvs_capacity c \<Rightarrow> 1 | Nvs_unknown v \<Rightarrow> v)"

definition fill_nvs :: "nvs_slice \<Rightarrow> writer" where
  "fill_nvs nvs = wr_seq [wr (le (nvs_conf nvs)),
    (case nvs of Nvs_rate r \<Rightarrow> fill_rate r | Nvs_capacity c \<Rightarrow> fill_capacity c | Nvs_unknown v \<Rightarrow> wr_fail)]"

definition fill_on_demand :: "scn19_on_demand \<Rightarrow> writer" where
  "fill_on_demand scn = wr_seq [wr (le (od_log_delta scn)), wr (le (od_pct_reserved scn)), wr (le (od_tau scn))]"

definition scn19_conf :: "scn19_slice \<Rightarrow> u32" where
  "scn19_conf s = (case s of Scn19_dynamic r \<Rightarrow> 0 | Scn19_fixed f \<Rightarrow> 1 | Scn19_on_demand d \<Rightarrow> 2 | Scn19_unknown v \<Rightarrow> v)"

definition fill_scn19 :: "scn19_slice \<Rightarrow> writer" where
  "fill_scn19 scn = wr_seq [wr (le (scn19_conf scn)),
    (case scn of Scn19_dynamic r \<Rightarrow> fill_rate r | Scn19_fixed f \<Rightarrow> fill_static f
     | Scn19_on_demand d \<Rightarrow> fill_on_demand d | Scn19_unknown v \<Rightarrow> wr_fail)]"

text \<open>The writer of an EDF slice replaces the array by a new one of zeros before it writes it.\<close>

definition fill_edf :: "edf_slice \<Rightarrow> writer" where
  "fill_edf edf = wr_seq [wr (le (deadline edf)), wr (le (guaranteed_prbs edf)), wr (le (max_replenish edf)),
    wr (le (len_over edf)), wr_elems put_u32 (unat (len_over edf)) (replicate (unat (len_over edf)) 0)]"

definition params_type :: "slice_params \<Rightarrow> u32" where
  "params_type p =
    (case p of Slice_static s \<Rightarrow> 1 | Slice_nvs n \<Rightarrow> 2 | Slice_scn19 s \<Rightarrow> 3 | Slice_edf e \<Rightarrow> 4 | Slice_unknown v \<Rightarrow> v)"

definition fill_params :: "slice_params \<Rightarrow> writer" where
  "fill_params par = wr_seq [wr (le (params_type par)),
    (case par of Slice_static s \<Rightarrow> fill_static s | Slice_nvs n \<Rightarrow> fill_nvs n | Slice_scn19 s \<Rightarrow> fill_scn19 s
     | Slice_edf e \<Rightarrow> fill_edf e | Slice_unknown v \<Rightarrow> wr_fail)]"

definition fill_slice :: "fr_slice \<Rightarrow> writer" where
  "fill_slice slc = wr_in (wr_seq [wr (le (sl_id slc)), wr (le (sl_len_label slc)),
    wr_arr (unat (sl_len_label slc)) (sl_label slc), wr (le (sl_len_sched slc)),
    wr_arr (unat (sl_len_sched slc)) (sl_sched slc), fill_params (sl_params slc)])"

definition fill_ul_dl_slice_conf :: "ul_dl_slice_conf \<Rightarrow> writer" where
  "fill_ul_dl_slice_conf conf = wr_seq [wr (le (len_sched_name conf)),
    wr_arr (unat (len_sched_name conf)) (sched_name conf), wr (le (len_slices conf)),
    wr_elems fill_slice (unat (len_slices conf)) (slices conf)]"

definition fill_slice_conf :: "slice_conf \<Rightarrow> writer" where
  "fill_slice_conf conf = wr_seq [fill_ul_dl_slice_conf (sc_dl conf), fill_ul_dl_slice_conf (sc_ul conf)]"

definition fill_ue_slice_assoc :: "ue_slice_assoc \<Rightarrow> writer" where
  "fill_ue_slice_assoc assoc = wr_in (wr_seq [wr (le (ue_dl_id assoc)), wr (le (ue_ul_id assoc)), wr (le (ue_rnti assoc))])"

definition fill_ue_slice_conf :: "ue_slice_conf \<Rightarrow> writer" where
  "fill_ue_slice_conf slc = wr_seq [wr (le (len_ue_slice slc)),
    wr_elems fill_ue_slice_assoc (unat (len_ue_slice slc)) (ues slc)]"

definition fill_del_slice_conf :: "del_slice_conf \<Rightarrow> writer" where
  "fill_del_slice_conf conf = wr_seq [wr (le (len_dl conf)), wr_elems put_u32 (unat (len_dl conf)) (del_dl conf),
    wr (le (len_ul conf)), wr_elems put_u32 (unat (len_ul conf)) (del_ul conf)]"

definition slice_ctrl_type :: "slice_ctrl_msg \<Rightarrow> u32" where
  "slice_ctrl_type m = (case m of Add_mod_slice c \<Rightarrow> 0 | Del_slice c \<Rightarrow> 1 | Ue_slice c \<Rightarrow> 2 | Slice_ctrl_unknown v \<Rightarrow> v)"

definition fill_slice_ctrl_msg :: "slice_ctrl_msg \<Rightarrow> writer" where
  "fill_slice_ctrl_msg m = wr_seq [wr (le (slice_ctrl_type m)),
    (case m of Add_mod_slice c \<Rightarrow> fill_slice_conf c | Del_slice c \<Rightarrow> fill_del_slice_conf c
     | Ue_slice c \<Rightarrow> fill_ue_slice_conf c | Slice_ctrl_unknown v \<Rightarrow> wr_fail)]"

section \<open>Encoders\<close>

definition slice_enc_event_trigger_plain :: "u32 \<Rightarrow> byte_array" where
  "slice_enc_event_trigger_plain ms = le ms"

definition slice_enc_ind_hdr_plain :: "u32 \<Rightarrow> byte_array" where
  "slice_enc_ind_hdr_plain hdr = le hdr"

definition slice_enc_ind_msg_plain :: "slice_ind_msg \<Rightarrow> byte_array res" where
  "slice_enc_ind_msg_plain m =
    wr_buffer (cal_ind_msg_payload m) (wr_seq [fill_slice_conf (ind_slice_conf m),
      fill_ue_slice_conf (ind_ue_slice_conf m), wr (le (sl_tstamp m))])"

definition slice_enc_ctrl_hdr_plain :: "u32 \<Rightarrow> byte_array" where
  "slice_enc_ctrl_hdr_plain hdr = le hdr"

definition slice_enc_ctrl_msg_plain :: "slice_ctrl_msg \<Rightarrow> byte_array res" where
  "slice_enc_ctrl_msg_plain m = wr_buffer (cal_ctrl_msg_payload m) (fill_slice_ctrl_msg m)"

text \<open>Only the diagnostic is encoded, not the outcome.\<close>

definition slice_enc_ctrl_out_plain :: "slice_ctrl_out \<Rightarrow> byte_array res" where
  "slice_enc_ctrl_out_plain ctrl =
    wr_buffer (Inr (4 + unat (len_diag ctrl)))
      (wr_seq [wr (le (len_diag ctrl)), wr_arr (unat (len_diag ctrl)) (diagnostic ctrl)])"

text \<open>What the encoder leaves in the message: the new arrays of the EDF slices.\<close>

definition edf_zeroed :: "slice_params \<Rightarrow> slice_params" where
  "edf_zeroed p =
    (case p of Slice_edf e \<Rightarrow>
       Slice_edf (if 0 < len_over e then e\<lparr>over := replicate (unat (len_over e)) 0\<rparr> else e) | _ \<Rightarrow> p)"

definition slices_zeroed :: "ul_dl_slice_conf \<Rightarrow> ul_dl_slice_conf" where
  "slices_zeroed c = c\<lparr>slices := map (\<lambda>s. s\<lparr>sl_params := edf_zeroed (sl_params s)\<rparr>) (take (unat (len_slices c)) (slices c)) @
    drop (unat (len_slices c)) (slices c)\<rparr>"

definition conf_zeroed :: "slice_conf \<Rightarrow> slice_conf" where
  "conf_zeroed c = \<lparr>sc_dl = slices_zeroed (sc_dl c), sc_ul = slices_zeroed (sc_ul c)\<rparr>"

section \<open>Readers\<close>

definition get_static :: "byte_array \<Rightarrow> (static_slice \<times> byte_array) res" where
  "get_static it =
    res_bind (c_assert (it \<noteq> [])) (\<lambda>_.
    res_bind (rdw it) (\<lambda>(h, it).
    res_bind (rdw it) (\<lambda>(l, it). Inr (\<lparr>pos_low = l, pos_high = h\<rparr>, it))))"

definition get_rate :: "byte_array \<Rightarrow> (nvs_rate \<times> byte_array) res" where
  "get_rate it =
    res_bind (rdw it) (\<lambda>(f, it).
    res_bind (rdw it) (\<lambda>(q, it). Inr (\<lparr>mbps_required = q, mbps_reference = f\<rparr>, it)))"

definition get_capacity :: "byte_array \<Rightarrow> (u32 \<times> byte_array) res" where
  "get_capacity it = rdw it"

definition get_nvs :: "byte_array \<Rightarrow> (nvs_slice \<times> byte_array) res" where
  "get_nvs it =
    res_bind (rdw it) (\<lambda>(conf :: u32, it).
    if conf = 0 then res_bind (get_rate it) (\<lambda>(r, it). Inr (Nvs_rate r, it))
    else if conf = 1 then res_bind (get_capacity it) (\<lambda>(c, it). Inr (Nvs_capacity c, it))
    else Inl AssertFail)"

definition get_on_demand :: "byte_array \<Rightarrow> (scn19_on_demand \<times> byte_array) res" where
  "get_on_demand it =
    res_bind (rdw it) (\<lambda>(d, it).
    res_bind (rdw it) (\<lambda>(p, it).
    res_bind (rdw it) (\<lambda>(t, it). Inr (\<lparr>od_pct_reserved = p, od_log_delta = d, od_tau = t\<rparr>, it))))"

definition get_scn19 :: "byte_array \<Rightarrow> (scn19_slice \<times> byte_array) res" where
  "get_scn19 it =
    res_bind (rdw it) (\<lambda>(conf :: u32, it).
    if conf = 0 then res_bind (get_rate it) (\<lambda>(r, it). Inr (Scn19_dynamic r, it))
    else if conf = 1 then res_bind (get_static it) (\<lambda>(f, it). Inr (Scn19_fixed f, it))
    else if conf = 2 then res_bind (get_on_demand it) (\<lambda>(d, it). Inr (Scn19_on_demand d, it))
    else Inl AssertFail)"

definition get_edf :: "byte_array \<Rightarrow> (edf_slice \<times> byte_array) res" where
  "get_edf it =
    res_bind (rdw it) (\<lambda>(d, it).
    res_bind (rdw it) (\<lambda>(g, it).
    res_bind (rdw it) (\<lambda>(m, it).
    res_bind (rdw it) (\<lambda>(n, it).
    res_bind (rd_elems rdw (unat n) it) (\<lambda>(ov, it).
    Inr (\<lparr>deadline = d, guaranteed_prbs = g, max_replenish = m, len_over = n, over = ov\<rparr>, it))))))"

definition get_params :: "byte_array \<Rightarrow> (slice_params \<times> byte_array) res" where
  "get_params it =
    res_bind (rdw it) (\<lambda>(type :: u32, it).
    if type = 1 then res_bind (get_static it) (\<lambda>(s, it). Inr (Slice_static s, it))
    else if type = 2 then res_bind (get_nvs it) (\<lambda>(n, it). Inr (Slice_nvs n, it))
    else if type = 3 then res_bind (get_scn19 it) (\<lambda>(s, it). Inr (Slice_scn19 s, it))
    else if type = 4 then res_bind (get_edf it) (\<lambda>(e, it). Inr (Slice_edf e, it))
    else Inl AssertFail)"

text \<open>A string is read into zeroed memory with one byte more.\<close>

definition get_str :: "u32 \<Rightarrow> byte_array \<Rightarrow> (byte_array \<times> byte_array) res" where
  "get_str n it =
    res_bind (memcpy_from (unat n) it) (\<lambda>(b, it). Inr (if 0 < n then b @ [0] else [], it))"

definition get_slice :: "byte_array \<Rightarrow> (fr_slice \<times> byte_array) res" where
  "get_slice it =
    res_bind (rdw it) (\<lambda>(i, it).
    res_bind (rdw it) (\<lambda>(nl, it).
    res_bind (get_str nl it) (\<lambda>(lb, it).
    res_bind (rdw it) (\<lambda>(ns, it).
    res_bind (get_str ns it) (\<lambda>(sc, it).
    res_bind (get_params it) (\<lambda>(p, it).
    Inr (\<lparr>sl_id = i, sl_len_label = nl, sl_label = lb, sl_len_sched = ns, sl_sched = sc, sl_params = p\<rparr>, it)))))))"

definition get_ul_dl_slice_conf :: "byte_array \<Rightarrow> (ul_dl_slice_conf \<times> byte_array) res" where
  "get_ul_dl_slice_conf it =
    res_bind (rdw it) (\<lambda>(nn, it).
    res_bind (get_str nn it) (\<lambda>(nm, it).
    res_bind (rdw it) (\<lambda>(n, it).
    res_bind (rd_elems get_slice (unat n) it) (\<lambda>(ss, it).
    Inr (\<lparr>len_slices = n, slices = ss, len_sched_name = nn, sched_name = nm\<rparr>, it)))))"

definition get_slice_conf :: "byte_array \<Rightarrow> (slice_conf \<times> byte_array) res" where
  "get_slice_conf it =
    res_bind (get_ul_dl_slice_conf it) (\<lambda>(dl, it).
    res_bind (get_ul_dl_slice_conf it) (\<lambda>(ul, it). Inr (\<lparr>sc_dl = dl, sc_ul = ul\<rparr>, it)))"

definition get_ue_slice_assoc :: "byte_array \<Rightarrow> (ue_slice_assoc \<times> byte_array) res" where
  "get_ue_slice_assoc it =
    res_bind (rdw it) (\<lambda>(d, it).
    res_bind (rdw it) (\<lambda>(u, it).
    res_bind (rdw it) (\<lambda>(r, it). Inr (\<lparr>ue_dl_id = d, ue_ul_id = u, ue_rnti = r\<rparr>, it))))"

definition get_ue_slice_conf :: "byte_array \<Rightarrow> (ue_slice_conf \<times> byte_array) res" where
  "get_ue_slice_conf it =
    res_bind (rdw it) (\<lambda>(n, it).
    res_bind (rd_elems get_ue_slice_assoc (unat n) it) (\<lambda>(us, it). Inr (\<lparr>len_ue_slice = n, ues = us\<rparr>, it)))"

definition get_del_slice :: "byte_array \<Rightarrow> (del_slice_conf \<times> byte_array) res" where
  "get_del_slice it =
    res_bind (rdw it) (\<lambda>(nd, it).
    res_bind (rd_elems rdw (unat nd) it) (\<lambda>(ds, it).
    res_bind (rdw it) (\<lambda>(nu, it).
    res_bind (rd_elems rdw (unat nu) it) (\<lambda>(us, it).
    Inr (\<lparr>len_dl = nd, del_dl = ds, len_ul = nu, del_ul = us\<rparr>, it)))))"

section \<open>Decoders\<close>

definition slice_dec_event_trigger_plain :: "byte_array \<Rightarrow> u32 res" where
  "slice_dec_event_trigger_plain ev_tr = res_bind (memcpy_from 4 ev_tr) (\<lambda>(b, r). Inr (un_le b))"

definition slice_dec_ind_hdr_plain :: "byte_array \<Rightarrow> u32 res" where
  "slice_dec_ind_hdr_plain hdr = dec_exact hdr"

definition slice_dec_ind_msg_plain :: "byte_array \<Rightarrow> slice_ind_msg res" where
  "slice_dec_ind_msg_plain it =
    res_bind (get_slice_conf it) (\<lambda>(c, it).
    res_bind (get_ue_slice_conf it) (\<lambda>(u, it).
    res_bind (rdw it) (\<lambda>(t, it).
    res_bind (c_assert (it = [])) (\<lambda>_.
    Inr \<lparr>ind_slice_conf = c, ind_ue_slice_conf = u, sl_tstamp = t\<rparr>))))"

definition slice_dec_ctrl_hdr_plain :: "byte_array \<Rightarrow> u32 res" where
  "slice_dec_ctrl_hdr_plain hdr = dec_exact hdr"

definition slice_dec_ctrl_msg_plain :: "byte_array \<Rightarrow> slice_ctrl_msg res" where
  "slice_dec_ctrl_msg_plain it =
    res_bind (rdw it) (\<lambda>(type :: u32, it).
    res_bind
      (if type = 0 then res_bind (get_slice_conf it) (\<lambda>(c, it). Inr (Add_mod_slice c, it))
       else if type = 1 then res_bind (get_del_slice it) (\<lambda>(c, it). Inr (Del_slice c, it))
       else if type = 2 then res_bind (get_ue_slice_conf it) (\<lambda>(c, it). Inr (Ue_slice c, it))
       else Inl AssertFail) (\<lambda>(m, it).
    res_bind (c_assert (it = [])) (\<lambda>_. Inr m)))"

text \<open>The length of the buffer is not used, and what is behind the diagnostic is ignored.\<close>

definition slice_dec_ctrl_out_plain :: "byte_array \<Rightarrow> slice_ctrl_out res" where
  "slice_dec_ctrl_out_plain it =
    res_bind (rdw it) (\<lambda>(n, it).
    if 0 < n then res_bind (memcpy_from (unat n) it) (\<lambda>(d, r). Inr \<lparr>out_ans = 0, len_diag = n, diagnostic = d\<rparr>)
    else Inr \<lparr>out_ans = 0, len_diag = n, diagnostic = []\<rparr>)"

end
