(* ===== verification/TcSm.thy ===== *)
theory TcSm
  imports Wire
begin

text \<open>
  The traffic control of a node: \<open>src/sm/tc_sm/ie/tc_data_ie.c\<close>.  Tagged unions are datatypes with one more
  constructor for unknown tags; a struct of one integer is that integer, the empty layer 7
  filter is left out; an array has its announced length and the elements its memory holds.
\<close>

section \<open>The state that is reported\<close>

record L3_filter =
  src_addr :: u64
  dst_addr :: u64

record L4_filter =
  src_port :: u32
  dst_port :: u32
  protocol :: u32

record tc_cls_osi_filter =
  flt_id :: u32
  flt_l3 :: L3_filter
  flt_l4 :: L4_filter
  flt_dst_queue :: u32

record tc_cls_osi =
  osi_len :: u32
  osi_flt :: "tc_cls_osi_filter list"

datatype tc_cls =
    Cls_rr u32
  | Cls_osi tc_cls_osi
  | Cls_sto u32
  | Cls_unknown u32

record tc_mtr =
  time_window_ms :: u32
  bnd :: u32

record tc_plc =
  plc_id :: u32
  plc_mtr :: tc_mtr
  plc_drp :: u32
  plc_mrk :: u32
  plc_max_rate_kbps :: u32
  plc_active :: u32
  plc_dst_id :: u32
  plc_dev_id :: u32

text \<open>The three kinds of queues have the same members; the counter is that of the dropped packets, for ECN
  that of the marked ones.\<close>

record tc_queue_stats =
  tq_bytes :: u32
  tq_pkts :: u32
  tq_bytes_fwd :: u32
  tq_pkts_fwd :: u32
  tq_count :: u32
  tq_avg_sojourn :: u32
  tq_last_sojourn :: u64

datatype tc_queue_u =
    Queue_fifo tc_queue_stats
  | Queue_codel tc_queue_stats
  | Queue_ecn_codel tc_queue_stats
  | Queue_unknown u32

record tc_queue =
  tq_id :: u32
  tq_u :: tc_queue_u

record tc_sch_prio =
  len_q_prio :: u32
  q_prio :: "u32 list"

datatype tc_sch =
    Sch_rr u32
  | Sch_prio tc_sch_prio
  | Sch_unknown u32

record tc_shp =
  shp_id :: u32
  shp_active :: u32
  shp_max_rate_kbps :: u32
  shp_mtr :: tc_mtr

record tc_pcr =
  pcr_type :: u32
  pcr_id :: u32
  pcr_mtr :: tc_mtr

record tc_ind_msg =
  ind_sch :: tc_sch
  ind_pcr :: tc_pcr
  ind_cls :: tc_cls
  len_q :: u32
  ind_shp :: "tc_shp list"
  ind_plc :: "tc_plc list"
  ind_q :: "tc_queue list"
  tc_tstamp :: u64

record tc_ind_data =
  tc_hdr :: u32
  tc_msg :: tc_ind_msg
  tc_proc_id :: "u32 option"

section \<open>Control messages\<close>

record tc_add_cls_osi =
  add_l3 :: L3_filter
  add_l4 :: L4_filter
  add_dst_queue :: u32

datatype tc_add_ctrl_cls = Add_cls_rr u32 | Add_cls_osi tc_add_cls_osi | Add_cls_sto u32 | Add_cls_unknown u32

datatype tc_mod_ctrl_cls = Mod_cls_rr u32 | Mod_cls_osi tc_cls_osi_filter | Mod_cls_sto u32 | Mod_cls_unknown u32

datatype tc_del_ctrl_cls = Del_cls_rr u32 | Del_cls_osi u32 | Del_cls_sto u32 | Del_cls_unknown u32

datatype tc_ctrl_cls = Cls_add tc_add_ctrl_cls | Cls_mod tc_mod_ctrl_cls | Cls_del tc_del_ctrl_cls | Cls_act_unknown u32

record tc_mod_ctrl_plc =
  mplc_id :: u32
  drop_rate_kbps :: u32
  mplc_dev_id :: u32
  dev_rate_kbps :: u32
  mplc_active :: u32

datatype tc_ctrl_plc = Plc_add u32 | Plc_mod tc_mod_ctrl_plc | Plc_del u32 | Plc_act_unknown u32

record tc_ctrl_queue_codel =
  target_ms :: u32
  interval_ms :: u32

datatype tc_ctrl_queue_u = Q_fifo u32 | Q_codel tc_ctrl_queue_codel | Q_ecn_codel tc_ctrl_queue_codel | Q_unknown u32

text \<open>Modifying and deleting name a queue; deleting has its type as a number.\<close>

datatype tc_ctrl_queue = Queue_add tc_ctrl_queue_u | Queue_mod u32 tc_ctrl_queue_u | Queue_del u32 u32 | Queue_act_unknown u32

datatype tc_mod_ctrl_sch = Mod_sch_rr u32 | Mod_sch_prio tc_sch_prio | Mod_sch_unknown u32

datatype tc_ctrl_sch = Sch_add u32 | Sch_mod tc_mod_ctrl_sch | Sch_del u32 | Sch_act_unknown u32

record tc_mod_ctrl_shp =
  mshp_id :: u32
  mshp_time_window_ms :: u32
  mshp_max_rate_kbps :: u32
  mshp_active :: u32

datatype tc_ctrl_shp = Shp_add u32 | Shp_mod tc_mod_ctrl_shp | Shp_del u32 | Shp_act_unknown u32

record tc_pcr_5g_bdp =
  drb_sz :: u32
  bdp_tstamp :: u64

datatype tc_mod_ctrl_pcr = Mod_pcr_dummy u32 | Mod_pcr_5g_bdp tc_pcr_5g_bdp | Mod_pcr_unknown u32

datatype tc_ctrl_pcr = Pcr_add u32 | Pcr_mod tc_mod_ctrl_pcr | Pcr_del u32 | Pcr_act_unknown u32

datatype tc_ctrl_msg =
    Ctrl_cls tc_ctrl_cls
  | Ctrl_plc tc_ctrl_plc
  | Ctrl_queue tc_ctrl_queue
  | Ctrl_sch tc_ctrl_sch
  | Ctrl_shp tc_ctrl_shp
  | Ctrl_pcr tc_ctrl_pcr
  | Ctrl_unknown u32

section \<open>Equality\<close>

text \<open>Floats are compared with a tolerance: \<open>near\<close> is the comparison of \<open>eq_float\<close> with the tolerance 0.01,
  \<open>near3\<close> with 0.001.\<close>

definition eq_tc_sch_prio :: "tc_sch_prio \<Rightarrow> tc_sch_prio \<Rightarrow> bool res" where
  "eq_tc_sch_prio m0 m1 =
    (if len_q_prio m0 \<noteq> len_q_prio m1 then Inr False
     else eq_elems (\<lambda>a b. Inr (a = b)) (unat (len_q_prio m0)) (q_prio m0) (q_prio m1))"

definition eq_tc_sch :: "tc_sch \<Rightarrow> tc_sch \<Rightarrow> bool res" where
  "eq_tc_sch m0 m1 =
    (case (m0, m1) of
       (Sch_rr a, Sch_rr b) \<Rightarrow> Inr True
     | (Sch_prio a, Sch_prio b) \<Rightarrow> eq_tc_sch_prio a b
     | (Sch_unknown a, Sch_unknown b) \<Rightarrow> if a \<noteq> b then Inr False else Inl AssertFail
     | _ \<Rightarrow> Inr False)"

definition eq_tc_mtr :: "(u32 \<Rightarrow> u32 \<Rightarrow> bool) \<Rightarrow> tc_mtr \<Rightarrow> tc_mtr \<Rightarrow> bool res" where
  "eq_tc_mtr near m0 m1 =
    (if time_window_ms m0 \<noteq> time_window_ms m1 then Inr False else eq_float near (bnd m0) (bnd m1))"

definition eq_tc_pcr :: "(u32 \<Rightarrow> u32 \<Rightarrow> bool) \<Rightarrow> tc_pcr \<Rightarrow> tc_pcr \<Rightarrow> bool res" where
  "eq_tc_pcr near m0 m1 =
    (if pcr_type m0 \<noteq> pcr_type m1 \<or> pcr_id m0 \<noteq> pcr_id m1 then Inr False
     else eq_tc_mtr near (pcr_mtr m0) (pcr_mtr m1))"

definition eq_L3_filter :: "L3_filter \<Rightarrow> L3_filter \<Rightarrow> bool" where
  "eq_L3_filter m0 m1 \<longleftrightarrow> src_addr m0 = src_addr m1 \<and> dst_addr m0 = dst_addr m1"

definition eq_L4_filter :: "L4_filter \<Rightarrow> L4_filter \<Rightarrow> bool" where
  "eq_L4_filter m0 m1 \<longleftrightarrow> src_port m0 = src_port m1 \<and> dst_port m0 = dst_port m1 \<and> protocol m0 = protocol m1"

definition eq_tc_cls_osi_filter :: "tc_cls_osi_filter \<Rightarrow> tc_cls_osi_filter \<Rightarrow> bool" where
  "eq_tc_cls_osi_filter m0 m1 \<longleftrightarrow>
    flt_id m0 = flt_id m1 \<and> eq_L3_filter (flt_l3 m0) (flt_l3 m1) \<and> eq_L4_filter (flt_l4 m0) (flt_l4 m1) \<and>
    flt_dst_queue m0 = flt_dst_queue m1"

definition eq_tc_cls_osi :: "tc_cls_osi \<Rightarrow> tc_cls_osi \<Rightarrow> bool res" where
  "eq_tc_cls_osi m0 m1 =
    (if osi_len m0 \<noteq> osi_len m1 then Inr False
     else eq_elems (\<lambda>a b. Inr (eq_tc_cls_osi_filter a b)) (unat (osi_len m0)) (osi_flt m0) (osi_flt m1))"

definition eq_tc_cls :: "tc_cls \<Rightarrow> tc_cls \<Rightarrow> bool res" where
  "eq_tc_cls m0 m1 =
    (case (m0, m1) of
       (Cls_rr a, Cls_rr b) \<Rightarrow> Inr (a = b)
     | (Cls_osi a, Cls_osi b) \<Rightarrow> eq_tc_cls_osi a b
     | (Cls_sto a, Cls_sto b) \<Rightarrow> Inr (a = b)
     | (Cls_unknown a, Cls_unknown b) \<Rightarrow> if a \<noteq> b then Inr False else Inl AssertFail
     | _ \<Rightarrow> Inr False)"

text \<open>The rate of a shaper is not compared.\<close>

definition eq_tc_shp :: "(u32 \<Rightarrow> u32 \<Rightarrow> bool) \<Rightarrow> tc_shp \<Rightarrow> tc_shp \<Rightarrow> bool res" where
  "eq_tc_shp near m0 m1 =
    (if shp_id m0 \<noteq> shp_id m1 \<or> shp_active m0 \<noteq> shp_active m1 then Inr False
     else eq_tc_mtr near (shp_mtr m0) (shp_mtr m1))"

definition eq_tc_drp :: "u32 \<Rightarrow> u32 \<Rightarrow> bool" where
  "eq_tc_drp m0 m1 \<longleftrightarrow> m0 = m1"

definition eq_tc_mrk :: "u32 \<Rightarrow> u32 \<Rightarrow> bool" where
  "eq_tc_mrk m0 m1 \<longleftrightarrow> m0 = m1"

definition eq_tc_plc :: "(u32 \<Rightarrow> u32 \<Rightarrow> bool) \<Rightarrow> tc_plc \<Rightarrow> tc_plc \<Rightarrow> bool res" where
  "eq_tc_plc near m0 m1 =
    (if plc_id m0 \<noteq> plc_id m1 then Inr False
     else res_bind (eq_tc_mtr near (plc_mtr m0) (plc_mtr m1)) (\<lambda>b.
       if \<not> b \<or> \<not> eq_tc_drp (plc_drp m0) (plc_drp m1) \<or> \<not> eq_tc_mrk (plc_mrk m0) (plc_mrk m1) then Inr False
       else res_bind (eq_float near (plc_max_rate_kbps m0) (plc_max_rate_kbps m1)) (\<lambda>c.
         Inr (c \<and> plc_active m0 = plc_active m1 \<and> plc_dst_id m0 = plc_dst_id m1 \<and> plc_dev_id m0 = plc_dev_id m1))))"

text \<open>The same function for the three kinds of queues; the last sojourn time is not compared.\<close>

definition eq_tc_queue_fifo :: "(u32 \<Rightarrow> u32 \<Rightarrow> bool) \<Rightarrow> tc_queue_stats \<Rightarrow> tc_queue_stats \<Rightarrow> bool res" where
  "eq_tc_queue_fifo near3 m0 m1 =
    (if \<not> eq_tc_drp (tq_count m0) (tq_count m1) then Inr False
     else res_bind (eq_float near3 (tq_avg_sojourn m0) (tq_avg_sojourn m1)) (\<lambda>b.
       Inr (b \<and> tq_bytes m0 = tq_bytes m1 \<and> tq_pkts m0 = tq_pkts m1 \<and> tq_bytes_fwd m0 = tq_bytes_fwd m1 \<and>
         tq_pkts_fwd m0 = tq_pkts_fwd m1)))"

definition eq_tc_q :: "(u32 \<Rightarrow> u32 \<Rightarrow> bool) \<Rightarrow> tc_queue \<Rightarrow> tc_queue \<Rightarrow> bool res" where
  "eq_tc_q near3 m0 m1 =
    (case (tq_u m0, tq_u m1) of
       (Queue_fifo a, Queue_fifo b) \<Rightarrow> eq_tc_queue_fifo near3 a b
     | (Queue_codel a, Queue_codel b) \<Rightarrow> eq_tc_queue_fifo near3 a b
     | (Queue_ecn_codel a, Queue_ecn_codel b) \<Rightarrow> eq_tc_queue_fifo near3 a b
     | (Queue_unknown a, Queue_unknown b) \<Rightarrow> if a \<noteq> b then Inr False else Inl AssertFail
     | _ \<Rightarrow> Inr False)"

text \<open>A difference is an assertion that fails.\<close>

fun eq_tc_all ::
  "(u32 \<Rightarrow> u32 \<Rightarrow> bool) \<Rightarrow> (u32 \<Rightarrow> u32 \<Rightarrow> bool) \<Rightarrow> nat \<Rightarrow> (tc_shp \<times> tc_plc \<times> tc_queue) list \<Rightarrow>
    (tc_shp \<times> tc_plc \<times> tc_queue) list \<Rightarrow> unit res" where
  "eq_tc_all near near3 0 xs ys = Inr ()"
| "eq_tc_all near near3 (Suc n) ((s, p, q) # xs) ((s', p', q') # ys) =
    res_bind (must (eq_tc_shp near s s')) (\<lambda>_.
    res_bind (must (eq_tc_plc near p p')) (\<lambda>_.
    res_bind (must (eq_tc_q near3 q q')) (\<lambda>_. eq_tc_all near near3 n xs ys)))"
| "eq_tc_all near near3 (Suc n) xs ys = Inl OutOfBounds"

text \<open>The three arrays, read with the same index.\<close>

definition tc_rows :: "tc_ind_msg \<Rightarrow> (tc_shp \<times> tc_plc \<times> tc_queue) list" where
  "tc_rows m = zip (ind_shp m) (zip (ind_plc m) (ind_q m))"

definition eq_tc_ind_msg ::
  "(u32 \<Rightarrow> u32 \<Rightarrow> bool) \<Rightarrow> (u32 \<Rightarrow> u32 \<Rightarrow> bool) \<Rightarrow> tc_ind_msg \<Rightarrow> tc_ind_msg \<Rightarrow> bool res" where
  "eq_tc_ind_msg near near3 m0 m1 =
    res_bind (c_assert (tc_tstamp m0 = tc_tstamp m1)) (\<lambda>_.
    res_bind (must (eq_tc_sch (ind_sch m0) (ind_sch m1))) (\<lambda>_.
    res_bind (must (eq_tc_pcr near (ind_pcr m0) (ind_pcr m1))) (\<lambda>_.
    res_bind (must (eq_tc_cls (ind_cls m0) (ind_cls m1))) (\<lambda>_.
    res_bind (c_assert (len_q m0 = len_q m1)) (\<lambda>_.
    res_bind (eq_tc_all near near3 (unat (len_q m0)) (tc_rows m0) (tc_rows m1)) (\<lambda>_. Inr True))))))"

definition eq_tc_ctrl_hdr :: "u32 \<Rightarrow> u32 \<Rightarrow> bool" where
  "eq_tc_ctrl_hdr m0 m1 \<longleftrightarrow> m0 = m1"

definition eq_tc_ctrl_out :: "u32 \<Rightarrow> u32 \<Rightarrow> bool" where
  "eq_tc_ctrl_out m0 m1 \<longleftrightarrow> m0 = m1"

section \<open>Copy of the state\<close>

definition cp_tc_ind_hdr :: "u32 \<Rightarrow> u32" where
  "cp_tc_ind_hdr src = src"

definition cp_tc_sch_prio :: "tc_sch_prio \<Rightarrow> tc_sch_prio res" where
  "cp_tc_sch_prio src =
    res_bind (take_elems (unat (len_q_prio src)) (q_prio src)) (\<lambda>p. Inr \<lparr>len_q_prio = len_q_prio src, q_prio = p\<rparr>)"

definition cp_tc_sch_rr :: "u32 \<Rightarrow> u32" where
  "cp_tc_sch_rr src = src"

definition cp_tc_sch :: "tc_sch \<Rightarrow> tc_sch res" where
  "cp_tc_sch src =
    (case src of Sch_rr d \<Rightarrow> Inr (Sch_rr (cp_tc_sch_rr d)) | Sch_prio p \<Rightarrow> res_bind (cp_tc_sch_prio p) (\<lambda>c. Inr (Sch_prio c))
     | Sch_unknown v \<Rightarrow> Inl AssertFail)"

definition cp_tc_mtr :: "tc_mtr \<Rightarrow> tc_mtr" where
  "cp_tc_mtr src = \<lparr>time_window_ms = time_window_ms src, bnd = bnd src\<rparr>"

definition cp_tc_pcr :: "tc_pcr \<Rightarrow> tc_pcr" where
  "cp_tc_pcr src = \<lparr>pcr_type = pcr_type src, pcr_id = pcr_id src, pcr_mtr = cp_tc_mtr (pcr_mtr src)\<rparr>"

definition cp_L3_filter :: "L3_filter \<Rightarrow> L3_filter" where
  "cp_L3_filter src = \<lparr>src_addr = src_addr src, dst_addr = dst_addr src\<rparr>"

definition cp_L4_filter :: "L4_filter \<Rightarrow> L4_filter" where
  "cp_L4_filter src = \<lparr>src_port = src_port src, dst_port = dst_port src, protocol = protocol src\<rparr>"

definition cp_tc_cls_osi_filter :: "tc_cls_osi_filter \<Rightarrow> tc_cls_osi_filter" where
  "cp_tc_cls_osi_filter src = \<lparr>flt_id = flt_id src, flt_l3 = cp_L3_filter (flt_l3 src), flt_l4 = cp_L4_filter (flt_l4 src),
    flt_dst_queue = flt_dst_queue src\<rparr>"

definition cp_tc_cls_osi :: "tc_cls_osi \<Rightarrow> tc_cls_osi res" where
  "cp_tc_cls_osi src =
    res_bind (take_elems (unat (osi_len src)) (osi_flt src)) (\<lambda>fs.
    Inr \<lparr>osi_len = osi_len src, osi_flt = map cp_tc_cls_osi_filter fs\<rparr>)"

definition cp_tc_cls :: "tc_cls \<Rightarrow> tc_cls res" where
  "cp_tc_cls src =
    (case src of Cls_rr d \<Rightarrow> Inr (Cls_rr d) | Cls_osi c \<Rightarrow> res_bind (cp_tc_cls_osi c) (\<lambda>c. Inr (Cls_osi c))
     | Cls_sto d \<Rightarrow> Inr (Cls_sto d) | Cls_unknown v \<Rightarrow> Inl AssertFail)"

text \<open>Not copied, and 0 in the copy: the identifier of a queue, its last sojourn time, and the rate of a
  shaper.\<close>

definition cp_tc_queue_stats :: "tc_queue_stats \<Rightarrow> tc_queue_stats" where
  "cp_tc_queue_stats src = \<lparr>tq_bytes = tq_bytes src, tq_pkts = tq_pkts src, tq_bytes_fwd = tq_bytes_fwd src,
    tq_pkts_fwd = tq_pkts_fwd src, tq_count = tq_count src, tq_avg_sojourn = tq_avg_sojourn src, tq_last_sojourn = 0\<rparr>"

definition cp_tc_queue :: "tc_queue \<Rightarrow> tc_queue res" where
  "cp_tc_queue src =
    res_bind
      (case tq_u src of
         Queue_fifo s \<Rightarrow> Inr (Queue_fifo (cp_tc_queue_stats s))
       | Queue_codel s \<Rightarrow> Inr (Queue_codel (cp_tc_queue_stats s))
       | Queue_ecn_codel s \<Rightarrow> Inr (Queue_ecn_codel (cp_tc_queue_stats s))
       | Queue_unknown v \<Rightarrow> Inl AssertFail) (\<lambda>u. Inr \<lparr>tq_id = 0, tq_u = u\<rparr>)"

definition cp_tc_shp :: "tc_shp \<Rightarrow> tc_shp res" where
  "cp_tc_shp src =
    res_bind (c_assert (shp_active src = 0 \<or> shp_active src = 1)) (\<lambda>_.
    Inr \<lparr>shp_id = shp_id src, shp_active = shp_active src, shp_max_rate_kbps = 0, shp_mtr = cp_tc_mtr (shp_mtr src)\<rparr>)"

definition cp_tc_plc :: "tc_plc \<Rightarrow> tc_plc res" where
  "cp_tc_plc src =
    res_bind (c_assert (plc_active src = 0 \<or> plc_active src = 1)) (\<lambda>_.
    Inr \<lparr>plc_id = plc_id src, plc_mtr = cp_tc_mtr (plc_mtr src), plc_drp = plc_drp src, plc_mrk = plc_mrk src,
      plc_max_rate_kbps = plc_max_rate_kbps src, plc_active = plc_active src, plc_dst_id = plc_dst_id src,
      plc_dev_id = plc_dev_id src\<rparr>)"

fun cp_tc_shp_q_plc ::
  "nat \<Rightarrow> (tc_shp \<times> tc_plc \<times> tc_queue) list \<Rightarrow> (tc_shp list \<times> tc_plc list \<times> tc_queue list) res" where
  "cp_tc_shp_q_plc 0 rows = Inr ([], [], [])"
| "cp_tc_shp_q_plc (Suc n) [] = Inl OutOfBounds"
| "cp_tc_shp_q_plc (Suc n) ((s, p, q) # rows) =
    res_bind (cp_tc_queue q) (\<lambda>q'.
    res_bind (cp_tc_shp s) (\<lambda>s'.
    res_bind (cp_tc_plc p) (\<lambda>p'.
    res_bind (cp_tc_shp_q_plc n rows) (\<lambda>(ss, ps, qs). Inr (s' # ss, p' # ps, q' # qs)))))"

text \<open>The last assertion compares floats with their copies, which have the same bits, so that no
  distance is computed: any argument does for \<open>near\<close>.\<close>

definition cp_tc_ind_msg :: "tc_ind_msg \<Rightarrow> tc_ind_msg res" where
  "cp_tc_ind_msg src =
    res_bind (cp_tc_sch (ind_sch src)) (\<lambda>sch.
    res_bind (cp_tc_cls (ind_cls src)) (\<lambda>cls.
    res_bind (cp_tc_shp_q_plc (unat (len_q src)) (tc_rows src)) (\<lambda>(ss, ps, qs).
    let dst = \<lparr>ind_sch = sch, ind_pcr = cp_tc_pcr (ind_pcr src), ind_cls = cls, len_q = len_q src,
      ind_shp = ss, ind_plc = ps, ind_q = qs, tc_tstamp = tc_tstamp src\<rparr> in
    res_bind (must (eq_tc_ind_msg (\<lambda>a b. False) (\<lambda>a b. False) src dst)) (\<lambda>_. Inr dst))))"

definition cp_tc_ind_data :: "tc_ind_data \<Rightarrow> tc_ind_data res" where
  "cp_tc_ind_data src =
    res_bind (cp_tc_ind_msg (tc_msg src)) (\<lambda>m.
    if tc_proc_id src \<noteq> None then Inl AssertFail
    else Inr \<lparr>tc_hdr = cp_tc_ind_hdr (tc_hdr src), tc_msg = m, tc_proc_id = None\<rparr>)"

section \<open>Copy of control messages\<close>

definition cp_tc_ctrl_hdr :: "u32 \<Rightarrow> u32" where
  "cp_tc_ctrl_hdr src = src"

definition cp_tc_add_cls_osi :: "tc_add_cls_osi \<Rightarrow> tc_add_cls_osi" where
  "cp_tc_add_cls_osi src = \<lparr>add_l3 = cp_L3_filter (add_l3 src), add_l4 = cp_L4_filter (add_l4 src),
    add_dst_queue = add_dst_queue src\<rparr>"

definition cp_tc_add_ctrl_cls :: "tc_add_ctrl_cls \<Rightarrow> tc_add_ctrl_cls res" where
  "cp_tc_add_ctrl_cls src =
    (case src of Add_cls_rr d \<Rightarrow> Inr (Add_cls_rr d) | Add_cls_osi c \<Rightarrow> Inr (Add_cls_osi (cp_tc_add_cls_osi c))
     | Add_cls_sto d \<Rightarrow> Inr (Add_cls_sto d) | Add_cls_unknown v \<Rightarrow> Inl AssertFail)"

definition cp_tc_mod_ctrl_cls :: "tc_mod_ctrl_cls \<Rightarrow> tc_mod_ctrl_cls res" where
  "cp_tc_mod_ctrl_cls src =
    (case src of Mod_cls_rr d \<Rightarrow> Inr (Mod_cls_rr d) | Mod_cls_osi c \<Rightarrow> Inr (Mod_cls_osi (cp_tc_cls_osi_filter c))
     | Mod_cls_sto d \<Rightarrow> Inr (Mod_cls_sto d) | Mod_cls_unknown v \<Rightarrow> Inl AssertFail)"

definition cp_tc_del_ctrl_cls :: "tc_del_ctrl_cls \<Rightarrow> tc_del_ctrl_cls res" where
  "cp_tc_del_ctrl_cls src =
    (case src of Del_cls_rr d \<Rightarrow> Inr (Del_cls_rr d) | Del_cls_osi i \<Rightarrow> Inr (Del_cls_osi i)
     | Del_cls_sto d \<Rightarrow> Inr (Del_cls_sto d) | Del_cls_unknown v \<Rightarrow> Inl AssertFail)"

definition cp_tc_ctrl_cls :: "tc_ctrl_cls \<Rightarrow> tc_ctrl_cls res" where
  "cp_tc_ctrl_cls src =
    (case src of Cls_add c \<Rightarrow> res_bind (cp_tc_add_ctrl_cls c) (\<lambda>c. Inr (Cls_add c))
     | Cls_del c \<Rightarrow> res_bind (cp_tc_del_ctrl_cls c) (\<lambda>c. Inr (Cls_del c))
     | Cls_mod c \<Rightarrow> res_bind (cp_tc_mod_ctrl_cls c) (\<lambda>c. Inr (Cls_mod c))
     | Cls_act_unknown v \<Rightarrow> Inl AssertFail)"

definition cp_tc_mod_ctrl_plc :: "tc_mod_ctrl_plc \<Rightarrow> tc_mod_ctrl_plc" where
  "cp_tc_mod_ctrl_plc src = \<lparr>mplc_id = mplc_id src, drop_rate_kbps = drop_rate_kbps src, mplc_dev_id = mplc_dev_id src,
    dev_rate_kbps = dev_rate_kbps src, mplc_active = mplc_active src\<rparr>"

definition cp_tc_ctrl_plc :: "tc_ctrl_plc \<Rightarrow> tc_ctrl_plc res" where
  "cp_tc_ctrl_plc src =
    (case src of Plc_add d \<Rightarrow> Inr (Plc_add d) | Plc_del i \<Rightarrow> Inr (Plc_del i)
     | Plc_mod m \<Rightarrow> Inr (Plc_mod (cp_tc_mod_ctrl_plc m)) | Plc_act_unknown v \<Rightarrow> Inl AssertFail)"

definition cp_tc_ctrl_q_codel :: "tc_ctrl_queue_codel \<Rightarrow> tc_ctrl_queue_codel" where
  "cp_tc_ctrl_q_codel src = \<lparr>target_ms = target_ms src, interval_ms = interval_ms src\<rparr>"

definition cp_tc_add_ctrl_queue :: "tc_ctrl_queue_u \<Rightarrow> tc_ctrl_queue_u res" where
  "cp_tc_add_ctrl_queue src =
    (case src of Q_fifo d \<Rightarrow> Inr (Q_fifo d) | Q_codel c \<Rightarrow> Inr (Q_codel (cp_tc_ctrl_q_codel c))
     | Q_ecn_codel c \<Rightarrow> Inr (Q_ecn_codel (cp_tc_ctrl_q_codel c)) | Q_unknown v \<Rightarrow> Inl AssertFail)"

definition cp_tc_ctrl_q :: "tc_ctrl_queue \<Rightarrow> tc_ctrl_queue res" where
  "cp_tc_ctrl_q src =
    (case src of Queue_add u \<Rightarrow> res_bind (cp_tc_add_ctrl_queue u) (\<lambda>u. Inr (Queue_add u))
     | Queue_del i t \<Rightarrow> Inr (Queue_del i t)
     | Queue_mod i u \<Rightarrow> res_bind (cp_tc_add_ctrl_queue u) (\<lambda>u. Inr (Queue_mod i u))
     | Queue_act_unknown v \<Rightarrow> Inl AssertFail)"

definition cp_tc_mod_ctrl_sch :: "tc_mod_ctrl_sch \<Rightarrow> tc_mod_ctrl_sch res" where
  "cp_tc_mod_ctrl_sch src =
    (case src of Mod_sch_rr d \<Rightarrow> Inr (Mod_sch_rr d) | Mod_sch_prio p \<Rightarrow> res_bind (cp_tc_sch_prio p) (\<lambda>p. Inr (Mod_sch_prio p))
     | Mod_sch_unknown v \<Rightarrow> Inl AssertFail)"

definition cp_tc_ctrl_sch :: "tc_ctrl_sch \<Rightarrow> tc_ctrl_sch res" where
  "cp_tc_ctrl_sch src =
    (case src of Sch_add d \<Rightarrow> Inr (Sch_add d) | Sch_del d \<Rightarrow> Inr (Sch_del d)
     | Sch_mod m \<Rightarrow> res_bind (cp_tc_mod_ctrl_sch m) (\<lambda>m. Inr (Sch_mod m)) | Sch_act_unknown v \<Rightarrow> Inl AssertFail)"

definition cp_tc_mod_ctrl_shp :: "tc_mod_ctrl_shp \<Rightarrow> tc_mod_ctrl_shp" where
  "cp_tc_mod_ctrl_shp src = \<lparr>mshp_id = mshp_id src, mshp_time_window_ms = mshp_time_window_ms src,
    mshp_max_rate_kbps = mshp_max_rate_kbps src, mshp_active = mshp_active src\<rparr>"

definition cp_tc_ctrl_shp :: "tc_ctrl_shp \<Rightarrow> tc_ctrl_shp res" where
  "cp_tc_ctrl_shp src =
    (case src of Shp_add d \<Rightarrow> Inr (Shp_add d) | Shp_del i \<Rightarrow> Inr (Shp_del i)
     | Shp_mod m \<Rightarrow> Inr (Shp_mod (cp_tc_mod_ctrl_shp m)) | Shp_act_unknown v \<Rightarrow> Inl AssertFail)"

definition cp_tc_pcr_5g_bdp :: "tc_pcr_5g_bdp \<Rightarrow> tc_pcr_5g_bdp" where
  "cp_tc_pcr_5g_bdp src = \<lparr>drb_sz = drb_sz src, bdp_tstamp = bdp_tstamp src\<rparr>"

definition cp_tc_mod_ctrl_pcr :: "tc_mod_ctrl_pcr \<Rightarrow> tc_mod_ctrl_pcr res" where
  "cp_tc_mod_ctrl_pcr src =
    (case src of Mod_pcr_dummy d \<Rightarrow> Inr (Mod_pcr_dummy d) | Mod_pcr_5g_bdp b \<Rightarrow> Inr (Mod_pcr_5g_bdp (cp_tc_pcr_5g_bdp b))
     | Mod_pcr_unknown v \<Rightarrow> Inl AssertFail)"

definition cp_tc_ctrl_pcr :: "tc_ctrl_pcr \<Rightarrow> tc_ctrl_pcr res" where
  "cp_tc_ctrl_pcr src =
    (case src of Pcr_add d \<Rightarrow> Inr (Pcr_add d) | Pcr_del d \<Rightarrow> Inr (Pcr_del d)
     | Pcr_mod m \<Rightarrow> res_bind (cp_tc_mod_ctrl_pcr m) (\<lambda>m. Inr (Pcr_mod m)) | Pcr_act_unknown v \<Rightarrow> Inl AssertFail)"

definition cp_tc_ctrl_msg :: "tc_ctrl_msg \<Rightarrow> tc_ctrl_msg res" where
  "cp_tc_ctrl_msg src =
    (case src of Ctrl_cls c \<Rightarrow> res_bind (cp_tc_ctrl_cls c) (\<lambda>c. Inr (Ctrl_cls c))
     | Ctrl_plc c \<Rightarrow> res_bind (cp_tc_ctrl_plc c) (\<lambda>c. Inr (Ctrl_plc c))
     | Ctrl_queue c \<Rightarrow> res_bind (cp_tc_ctrl_q c) (\<lambda>c. Inr (Ctrl_queue c))
     | Ctrl_sch c \<Rightarrow> res_bind (cp_tc_ctrl_sch c) (\<lambda>c. Inr (Ctrl_sch c))
     | Ctrl_shp c \<Rightarrow> res_bind (cp_tc_ctrl_shp c) (\<lambda>c. Inr (Ctrl_shp c))
     | Ctrl_pcr c \<Rightarrow> res_bind (cp_tc_ctrl_pcr c) (\<lambda>c. Inr (Ctrl_pcr c))
     | Ctrl_unknown v \<Rightarrow> Inl AssertFail)"

definition cp_tc_ctrl_out :: "u32 \<Rightarrow> u32" where
  "cp_tc_ctrl_out src = src"

section \<open>Freeing\<close>

text \<open>What stops: unknown tags, null arrays of an announced length, and a procedure identifier.\<close>

definition free_tc_sch :: "tc_sch \<Rightarrow> unit res" where
  "free_tc_sch s = (case s of Sch_unknown v \<Rightarrow> Inl AssertFail | _ \<Rightarrow> Inr ())"

definition free_tc_ind_msg :: "tc_ind_msg \<Rightarrow> unit res" where
  "free_tc_ind_msg m =
    res_bind (free_tc_sch (ind_sch m)) (\<lambda>_.
    if 0 < len_q m then c_assert (ind_shp m \<noteq> [] \<and> ind_plc m \<noteq> [] \<and> ind_q m \<noteq> []) else Inr ())"

definition free_tc_call_proc_id :: "u32 option \<Rightarrow> unit res" where
  "free_tc_call_proc_id p = (if p = None then Inr () else Inl AssertFail)"

definition free_tc_ind_data :: "tc_ind_data \<Rightarrow> unit res" where
  "free_tc_ind_data d = res_bind (free_tc_ind_msg (tc_msg d)) (\<lambda>_. free_tc_call_proc_id (tc_proc_id d))"

definition free_tc_ctrl_cls :: "tc_ctrl_cls \<Rightarrow> unit res" where
  "free_tc_ctrl_cls c =
    (case c of Cls_add (Add_cls_unknown v) \<Rightarrow> Inl AssertFail | Cls_mod (Mod_cls_unknown v) \<Rightarrow> Inl AssertFail
     | Cls_act_unknown v \<Rightarrow> Inl AssertFail | _ \<Rightarrow> Inr ())"

definition free_tc_ctrl_q :: "tc_ctrl_queue \<Rightarrow> unit res" where
  "free_tc_ctrl_q q = (case q of Queue_act_unknown v \<Rightarrow> Inl AssertFail | _ \<Rightarrow> Inr ())"

definition free_tc_ctrl_sch :: "tc_ctrl_sch \<Rightarrow> unit res" where
  "free_tc_ctrl_sch s =
    (case s of Sch_mod (Mod_sch_unknown v) \<Rightarrow> Inl AssertFail | Sch_act_unknown v \<Rightarrow> Inl AssertFail | _ \<Rightarrow> Inr ())"

definition free_tc_ctrl_msg :: "tc_ctrl_msg \<Rightarrow> unit res" where
  "free_tc_ctrl_msg m =
    (case m of Ctrl_cls c \<Rightarrow> free_tc_ctrl_cls c | Ctrl_plc c \<Rightarrow> Inr () | Ctrl_queue c \<Rightarrow> free_tc_ctrl_q c
     | Ctrl_sch c \<Rightarrow> free_tc_ctrl_sch c | Ctrl_shp c \<Rightarrow> Inr () | Ctrl_pcr c \<Rightarrow> Inr () | Ctrl_unknown v \<Rightarrow> Inl AssertFail)"

end
