(* ===== verification/TcCodec.thy ===== *)
theory TcCodec
  imports TcSm
begin

text \<open>
  The plain codec of traffic control: \<open>src/sm/tc_sm/enc/tc_enc_plain.c\<close> and \<open>dec/tc_dec_plain.c\<close>.  The
  functions of the members of a union are part of the function of the union.  An OSI filter is
  copied as a struct, with four bytes of padding behind its identifier.
\<close>

section \<open>A filter in memory\<close>

definition put_filter :: "(nat \<Rightarrow> u8) \<Rightarrow> tc_cls_osi_filter \<Rightarrow> byte_array" where
  "put_filter pad f =
    le (flt_id f) @ map pad [0..<4] @ le (src_addr (flt_l3 f)) @ le (dst_addr (flt_l3 f)) @ le (src_port (flt_l4 f)) @
    le (dst_port (flt_l4 f)) @ le (protocol (flt_l4 f)) @ le (flt_dst_queue f)"

definition get_filter :: "byte_array \<Rightarrow> tc_cls_osi_filter" where
  "get_filter bs =
    (let (i, b) = rd_le bs; (sa, b) = rd_le (drop 4 b); (da, b) = rd_le b; (sp, b) = rd_le b; (dp, b) = rd_le b;
         (pr, b) = rd_le b; (q, b) = rd_le b
     in \<lparr>flt_id = i, flt_l3 = \<lparr>src_addr = sa, dst_addr = da\<rparr>,
          flt_l4 = \<lparr>src_port = sp, dst_port = dp, protocol = pr\<rparr>, flt_dst_queue = q\<rparr>)"

lemma rd_le_all: "8 dvd LENGTH('a) \<Longrightarrow> rd_le (le (w :: 'a::len word)) = (w, [])"
  using rd_le_append [of w "[]"] by simp

interpretation filter_mem: struct_codec 40 put_filter get_filter
  by unfold_locales (simp_all add: put_filter_def get_filter_def rd_le_all)

section \<open>Sizes of the state\<close>

definition cal_sch_payload :: "tc_sch \<Rightarrow> nat res" where
  "cal_sch_payload s =
    (case s of Sch_rr d \<Rightarrow> Inr 4 | Sch_prio p \<Rightarrow> Inr (4 + 4 + 4 * unat (len_q_prio p)) | Sch_unknown v \<Rightarrow> Inl AssertFail)"

definition cal_mtr_payload :: "tc_mtr \<Rightarrow> nat" where
  "cal_mtr_payload m = 4 + 4"

definition cal_pcr_payload :: "tc_pcr \<Rightarrow> nat" where
  "cal_pcr_payload pcr = 4 + 4 + cal_mtr_payload (pcr_mtr pcr)"

definition cal_cls_payload :: "tc_cls \<Rightarrow> nat res" where
  "cal_cls_payload c =
    (case c of Cls_rr d \<Rightarrow> Inr (4 + 4) | Cls_osi osi \<Rightarrow> Inr (4 + (4 + 40 * unat (osi_len osi)))
     | Cls_sto d \<Rightarrow> Inr (4 + 4) | Cls_unknown v \<Rightarrow> Inl AssertFail)"

definition cal_drp_payload :: "u32 \<Rightarrow> nat" where
  "cal_drp_payload drp = 4"

definition cal_mrk_payload :: "u32 \<Rightarrow> nat" where
  "cal_mrk_payload mrk = 4"

definition cal_q_payload :: "tc_queue \<Rightarrow> nat res" where
  "cal_q_payload q =
    (case tq_u q of
       Queue_fifo s \<Rightarrow> Inr (4 + 4 + 4 + 4 + 4 + cal_drp_payload (tq_count s) + 4 + 8)
     | Queue_codel s \<Rightarrow> Inr (4 + 4 + 4 + 4 + 4 + cal_drp_payload (tq_count s) + 4 + 8)
     | Queue_ecn_codel s \<Rightarrow> Inr (4 + 4 + 4 + 4 + 4 + cal_mrk_payload (tq_count s) + 4 + 8)
     | Queue_unknown v \<Rightarrow> Inl AssertFail)"

definition cal_shp_payload :: "tc_shp \<Rightarrow> nat" where
  "cal_shp_payload shp = 4 + 4 + 4 + cal_mtr_payload (shp_mtr shp)"

definition cal_plc_payload :: "tc_plc \<Rightarrow> nat" where
  "cal_plc_payload plc =
    4 + cal_mtr_payload (plc_mtr plc) + cal_drp_payload (plc_drp plc) + cal_mrk_payload (plc_mrk plc) + 4 + 4 + 4 + 4"

fun cal_row :: "tc_shp \<times> tc_plc \<times> tc_queue \<Rightarrow> nat res" where
  "cal_row (shp, plc, q) =
    res_bind (cal_q_payload q) (\<lambda>sz. Inr (sz + cal_shp_payload shp + cal_plc_payload plc))"

definition cal_tc_ind_msg_payload :: "tc_ind_msg \<Rightarrow> nat res" where
  "cal_tc_ind_msg_payload m =
    res_bind (cal_sch_payload (ind_sch m)) (\<lambda>sz_sch.
    res_bind (cal_cls_payload (ind_cls m)) (\<lambda>sz_cls.
    res_bind (cal_elems cal_row (unat (len_q m)) (tc_rows m)) (\<lambda>sz.
    Inr (sz_sch + cal_pcr_payload (ind_pcr m) + sz_cls + 4 + sz + 8))))"

section \<open>Writers of the state\<close>

definition tc_enc_sch_prio :: "tc_sch_prio \<Rightarrow> writer" where
  "tc_enc_sch_prio p = wr_seq [wr (le (len_q_prio p)), wr_elems put_u32 (unat (len_q_prio p)) (q_prio p)]"

text \<open>Of the scheduler RR only the tag is written.\<close>

definition sch_type :: "tc_sch \<Rightarrow> u32" where
  "sch_type s = (case s of Sch_rr d \<Rightarrow> 0 | Sch_prio p \<Rightarrow> 1 | Sch_unknown v \<Rightarrow> v)"

definition tc_enc_sch :: "tc_sch \<Rightarrow> writer" where
  "tc_enc_sch sch = wr_seq [wr (le (sch_type sch)),
    (case sch of Sch_rr d \<Rightarrow> wr [] | Sch_prio p \<Rightarrow> tc_enc_sch_prio p | Sch_unknown v \<Rightarrow> wr_fail)]"

definition tc_enc_mtr :: "tc_mtr \<Rightarrow> writer" where
  "tc_enc_mtr mtr = wr_seq [wr (le (bnd mtr)), wr (le (time_window_ms mtr))]"

definition tc_enc_pcr :: "tc_pcr \<Rightarrow> writer" where
  "tc_enc_pcr pcr = wr_seq [wr (le (pcr_type pcr)), wr (le (pcr_id pcr)), tc_enc_mtr (pcr_mtr pcr)]"

definition wr_filters :: "(nat \<Rightarrow> nat \<Rightarrow> u8) \<Rightarrow> nat \<Rightarrow> tc_cls_osi_filter list \<Rightarrow> writer" where
  "wr_filters pads n fs room = res_bind (put_elems put_filter pads n fs) (\<lambda>bs. wr bs room)"

definition tc_enc_cls_osi :: "(nat \<Rightarrow> nat \<Rightarrow> u8) \<Rightarrow> tc_cls_osi \<Rightarrow> writer" where
  "tc_enc_cls_osi pads osi = wr_seq [wr (le (osi_len osi)), wr_filters pads (unat (osi_len osi)) (osi_flt osi)]"

definition cls_type :: "tc_cls \<Rightarrow> u32" where
  "cls_type c = (case c of Cls_rr d \<Rightarrow> 0 | Cls_osi osi \<Rightarrow> 1 | Cls_sto d \<Rightarrow> 2 | Cls_unknown v \<Rightarrow> v)"

definition tc_enc_cls :: "(nat \<Rightarrow> nat \<Rightarrow> u8) \<Rightarrow> tc_cls \<Rightarrow> writer" where
  "tc_enc_cls pads cls = wr_seq [wr (le (cls_type cls)),
    (case cls of Cls_rr d \<Rightarrow> wr (le d) | Cls_osi osi \<Rightarrow> tc_enc_cls_osi pads osi | Cls_sto d \<Rightarrow> wr (le d)
     | Cls_unknown v \<Rightarrow> wr_fail)]"

definition tc_enc_shp :: "tc_shp \<Rightarrow> writer" where
  "tc_enc_shp shp = wr_seq [wr (le (shp_id shp)), wr (le (shp_active shp)), wr (le (shp_max_rate_kbps shp)),
    tc_enc_mtr (shp_mtr shp)]"

definition tc_enc_drp :: "u32 \<Rightarrow> writer" where
  "tc_enc_drp drp = wr (le drp)"

definition tc_enc_mrk :: "u32 \<Rightarrow> writer" where
  "tc_enc_mrk mrk = wr (le mrk)"

definition tc_enc_plc :: "tc_plc \<Rightarrow> writer" where
  "tc_enc_plc plc = wr_seq [wr (le (plc_id plc)), tc_enc_mtr (plc_mtr plc), tc_enc_drp (plc_drp plc), tc_enc_mrk (plc_mrk plc),
    wr (le (plc_max_rate_kbps plc)), wr (le (plc_active plc)), wr (le (plc_dst_id plc)), wr (le (plc_dev_id plc))]"

definition tc_enc_q_fifo :: "tc_queue_stats \<Rightarrow> writer" where
  "tc_enc_q_fifo q = wr_seq [wr (le (tq_bytes q)), wr (le (tq_pkts q)), wr (le (tq_bytes_fwd q)), wr (le (tq_pkts_fwd q)),
    tc_enc_drp (tq_count q), wr (le (tq_avg_sojourn q)), wr (le (tq_last_sojourn q))]"

definition tc_enc_q_codel :: "tc_queue_stats \<Rightarrow> writer" where
  "tc_enc_q_codel q = wr_seq [wr (le (tq_bytes q)), wr (le (tq_pkts q)), wr (le (tq_bytes_fwd q)), wr (le (tq_pkts_fwd q)),
    tc_enc_drp (tq_count q), wr (le (tq_avg_sojourn q)), wr (le (tq_last_sojourn q))]"

definition tc_enc_q_ecn_codel :: "tc_queue_stats \<Rightarrow> writer" where
  "tc_enc_q_ecn_codel q = wr_seq [wr (le (tq_bytes q)), wr (le (tq_pkts q)), wr (le (tq_bytes_fwd q)), wr (le (tq_pkts_fwd q)),
    tc_enc_mrk (tq_count q), wr (le (tq_avg_sojourn q)), wr (le (tq_last_sojourn q))]"

text \<open>The identifier of a queue is not written.\<close>

definition queue_type :: "tc_queue_u \<Rightarrow> u32" where
  "queue_type u = (case u of Queue_fifo s \<Rightarrow> 0 | Queue_codel s \<Rightarrow> 1 | Queue_ecn_codel s \<Rightarrow> 2 | Queue_unknown v \<Rightarrow> v)"

definition tc_enc_q :: "tc_queue \<Rightarrow> writer" where
  "tc_enc_q q = wr_seq [wr (le (queue_type (tq_u q))),
    (case tq_u q of Queue_fifo s \<Rightarrow> tc_enc_q_fifo s | Queue_codel s \<Rightarrow> tc_enc_q_codel s
     | Queue_ecn_codel s \<Rightarrow> tc_enc_q_ecn_codel s | Queue_unknown v \<Rightarrow> wr_fail)]"

fun tc_enc_row :: "tc_shp \<times> tc_plc \<times> tc_queue \<Rightarrow> writer" where
  "tc_enc_row (shp, plc, q) = wr_seq [wr_left (tc_enc_shp shp), wr_left (tc_enc_plc plc), wr_left (tc_enc_q q)]"

definition tc_enc_ind_msg_plain :: "(nat \<Rightarrow> nat \<Rightarrow> u8) \<Rightarrow> tc_ind_msg \<Rightarrow> byte_array res" where
  "tc_enc_ind_msg_plain pads m =
    wr_buffer (cal_tc_ind_msg_payload m)
      (wr_seq [wr_seq [wr_left (tc_enc_sch (ind_sch m)), wr_left (tc_enc_pcr (ind_pcr m)), wr_left (tc_enc_cls pads (ind_cls m)),
        wr_left (wr (le (len_q m))), wr_elems tc_enc_row (unat (len_q m)) (tc_rows m)], wr (le (tc_tstamp m))])"

section \<open>Readers of the state\<close>

definition tc_dec_sch_prio :: "byte_array \<Rightarrow> (tc_sch_prio \<times> byte_array) res" where
  "tc_dec_sch_prio it =
    res_bind (rdw it) (\<lambda>(n, it).
    res_bind (rd_elems rdw (unat n) it) (\<lambda>(p, it). Inr (\<lparr>len_q_prio = n, q_prio = p\<rparr>, it)))"

definition tc_dec_sch :: "byte_array \<Rightarrow> (tc_sch \<times> byte_array) res" where
  "tc_dec_sch it =
    res_bind (rdw it) (\<lambda>(type :: u32, it).
    if type = 0 then Inr (Sch_rr 0, it)
    else if type = 1 then res_bind (tc_dec_sch_prio it) (\<lambda>(p, it). Inr (Sch_prio p, it))
    else Inl AssertFail)"

definition tc_dec_mtr :: "byte_array \<Rightarrow> (tc_mtr \<times> byte_array) res" where
  "tc_dec_mtr it =
    res_bind (rdw it) (\<lambda>(b, it). res_bind (rdw it) (\<lambda>(t, it). Inr (\<lparr>time_window_ms = t, bnd = b\<rparr>, it)))"

definition tc_dec_pcr :: "byte_array \<Rightarrow> (tc_pcr \<times> byte_array) res" where
  "tc_dec_pcr it =
    res_bind (rdw it) (\<lambda>(t, it).
    res_bind (rdw it) (\<lambda>(i, it).
    res_bind (tc_dec_mtr it) (\<lambda>(m, it). Inr (\<lparr>pcr_type = t, pcr_id = i, pcr_mtr = m\<rparr>, it))))"

definition tc_dec_cls_osi :: "byte_array \<Rightarrow> (tc_cls_osi \<times> byte_array) res" where
  "tc_dec_cls_osi it =
    res_bind (rdw it) (\<lambda>(n, it).
    res_bind (get_elems 40 get_filter (unat n) it) (\<lambda>(fs, it). Inr (\<lparr>osi_len = n, osi_flt = fs\<rparr>, it)))"

definition tc_dec_cls :: "byte_array \<Rightarrow> (tc_cls \<times> byte_array) res" where
  "tc_dec_cls it =
    res_bind (rdw it) (\<lambda>(type :: u32, it).
    if type = 0 then res_bind (rdw it) (\<lambda>(d, it). Inr (Cls_rr d, it))
    else if type = 1 then res_bind (tc_dec_cls_osi it) (\<lambda>(c, it). Inr (Cls_osi c, it))
    else if type = 2 then res_bind (rdw it) (\<lambda>(d, it). Inr (Cls_sto d, it))
    else Inl AssertFail)"

definition tc_dec_shp :: "byte_array \<Rightarrow> (tc_shp \<times> byte_array) res" where
  "tc_dec_shp it =
    res_bind (rdw it) (\<lambda>(i, it).
    res_bind (rdw it) (\<lambda>(a, it).
    res_bind (rdw it) (\<lambda>(r, it).
    res_bind (tc_dec_mtr it) (\<lambda>(m, it).
    Inr (\<lparr>shp_id = i, shp_active = a, shp_max_rate_kbps = r, shp_mtr = m\<rparr>, it)))))"

definition tc_dec_plc :: "byte_array \<Rightarrow> (tc_plc \<times> byte_array) res" where
  "tc_dec_plc it =
    res_bind (rdw it) (\<lambda>(i, it).
    res_bind (tc_dec_mtr it) (\<lambda>(m, it).
    res_bind (rdw it) (\<lambda>(d, it).
    res_bind (rdw it) (\<lambda>(k, it).
    res_bind (rdw it) (\<lambda>(r, it).
    res_bind (rdw it) (\<lambda>(a, it).
    res_bind (rdw it) (\<lambda>(ds, it).
    res_bind (rdw it) (\<lambda>(dv, it).
    Inr (\<lparr>plc_id = i, plc_mtr = m, plc_drp = d, plc_mrk = k, plc_max_rate_kbps = r, plc_active = a, plc_dst_id = ds,
      plc_dev_id = dv\<rparr>, it)))))))))"

definition tc_dec_q_fifo :: "byte_array \<Rightarrow> (tc_queue_stats \<times> byte_array) res" where
  "tc_dec_q_fifo it =
    res_bind (rdw it) (\<lambda>(b, it).
    res_bind (rdw it) (\<lambda>(p, it).
    res_bind (rdw it) (\<lambda>(bf, it).
    res_bind (rdw it) (\<lambda>(pf, it).
    res_bind (rdw it) (\<lambda>(c, it).
    res_bind (rdw it) (\<lambda>(a, it).
    res_bind (rdw it) (\<lambda>(l, it).
    Inr (\<lparr>tq_bytes = b, tq_pkts = p, tq_bytes_fwd = bf, tq_pkts_fwd = pf, tq_count = c, tq_avg_sojourn = a,
      tq_last_sojourn = l\<rparr>, it))))))))"

definition tc_dec_q :: "byte_array \<Rightarrow> (tc_queue \<times> byte_array) res" where
  "tc_dec_q it =
    res_bind (rdw it) (\<lambda>(type :: u32, it).
    if type = 0 then res_bind (tc_dec_q_fifo it) (\<lambda>(s, it). Inr (\<lparr>tq_id = 0, tq_u = Queue_fifo s\<rparr>, it))
    else if type = 1 then res_bind (tc_dec_q_fifo it) (\<lambda>(s, it). Inr (\<lparr>tq_id = 0, tq_u = Queue_codel s\<rparr>, it))
    else if type = 2 then res_bind (tc_dec_q_fifo it) (\<lambda>(s, it). Inr (\<lparr>tq_id = 0, tq_u = Queue_ecn_codel s\<rparr>, it))
    else Inl AssertFail)"

definition tc_dec_row :: "byte_array \<Rightarrow> ((tc_shp \<times> tc_plc \<times> tc_queue) \<times> byte_array) res" where
  "tc_dec_row it =
    res_bind (rd_left tc_dec_shp it) (\<lambda>(s, it).
    res_bind (rd_left tc_dec_plc it) (\<lambda>(p, it).
    res_bind (rd_left tc_dec_q it) (\<lambda>(q, it). Inr ((s, p, q), it))))"

definition tc_dec_ind_msg_plain :: "byte_array \<Rightarrow> tc_ind_msg res" where
  "tc_dec_ind_msg_plain it =
    res_bind (rd_left tc_dec_sch it) (\<lambda>(sch, it).
    res_bind (rd_left tc_dec_pcr it) (\<lambda>(pcr, it).
    res_bind (rd_left tc_dec_cls it) (\<lambda>(cls, it).
    res_bind (rd_left rdw it) (\<lambda>(n, it).
    res_bind (rd_elems tc_dec_row (unat n) it) (\<lambda>(rows, it).
    res_bind (rdw it) (\<lambda>(t, it).
    res_bind (c_assert (it = [])) (\<lambda>_.
    Inr \<lparr>ind_sch = sch, ind_pcr = pcr, ind_cls = cls, len_q = n, ind_shp = map fst rows, ind_plc = map (fst \<circ> snd) rows,
      ind_q = map (snd \<circ> snd) rows, tc_tstamp = t\<rparr>)))))))"

section \<open>Small information elements\<close>

definition tc_enc_event_trigger_plain :: "u32 \<Rightarrow> byte_array" where
  "tc_enc_event_trigger_plain ms = le ms"

definition tc_dec_event_trigger_plain :: "byte_array \<Rightarrow> u32 res" where
  "tc_dec_event_trigger_plain ev_tr = res_bind (memcpy_from 4 ev_tr) (\<lambda>(b, r). Inr (un_le b))"

definition tc_enc_ind_hdr_plain :: "u32 \<Rightarrow> byte_array" where
  "tc_enc_ind_hdr_plain hdr = le hdr"

definition tc_dec_ind_hdr_plain :: "byte_array \<Rightarrow> u32 res" where
  "tc_dec_ind_hdr_plain hdr = dec_exact hdr"

definition tc_enc_ctrl_hdr_plain :: "u32 \<Rightarrow> byte_array" where
  "tc_enc_ctrl_hdr_plain hdr = le hdr"

definition tc_dec_ctrl_hdr_plain :: "byte_array \<Rightarrow> u32 res" where
  "tc_dec_ctrl_hdr_plain hdr = dec_exact hdr"

definition tc_enc_ctrl_out_plain :: "u32 \<Rightarrow> byte_array" where
  "tc_enc_ctrl_out_plain out = le out"

definition tc_dec_ctrl_out_plain :: "byte_array \<Rightarrow> u32 res" where
  "tc_dec_ctrl_out_plain out = dec_exact out"

end
