(* ===== verification/TcCtrl.thy ===== *)
theory TcCtrl
  imports TcCodec
begin

text \<open>
  The plain codec of the control messages of traffic control: the second half of
  \<open>src/sm/tc_sm/enc/tc_enc_plain.c\<close> and \<open>dec/tc_dec_plain.c\<close>.  For each of the six objects there is a
  size, a writer and a reader; a message is the tag of the object, the tag of the action
  and the members.  \<open>pad\<close> is the padding of a filter that is copied as a struct.
\<close>

section \<open>Sizes\<close>

definition cal_tc_add_ctrl_payload_cls :: "tc_add_ctrl_cls \<Rightarrow> nat res" where
  "cal_tc_add_ctrl_payload_cls add =
    (case add of Add_cls_rr d \<Rightarrow> Inr (4 + 4) | Add_cls_osi c \<Rightarrow> Inr (4 + (16 + 12 + 0 + 4)) | Add_cls_sto d \<Rightarrow> Inr (4 + 4)
     | Add_cls_unknown v \<Rightarrow> Inl AssertFail)"

definition cal_tc_mod_ctrl_payload_cls :: "tc_mod_ctrl_cls \<Rightarrow> nat res" where
  "cal_tc_mod_ctrl_payload_cls md =
    (case md of Mod_cls_rr d \<Rightarrow> Inr (4 + 4) | Mod_cls_osi c \<Rightarrow> Inr (4 + 40) | Mod_cls_sto d \<Rightarrow> Inr (4 + 4)
     | Mod_cls_unknown v \<Rightarrow> Inl AssertFail)"

definition cal_tc_del_ctrl_payload_cls :: "tc_del_ctrl_cls \<Rightarrow> nat res" where
  "cal_tc_del_ctrl_payload_cls del =
    (case del of Del_cls_rr d \<Rightarrow> Inr (4 + 4) | Del_cls_osi i \<Rightarrow> Inr (4 + 4) | Del_cls_sto d \<Rightarrow> Inr (4 + 4)
     | Del_cls_unknown v \<Rightarrow> Inl AssertFail)"

definition cal_tc_ctrl_payload_cls :: "tc_ctrl_cls \<Rightarrow> nat res" where
  "cal_tc_ctrl_payload_cls cls =
    res_bind
      (case cls of Cls_add c \<Rightarrow> cal_tc_add_ctrl_payload_cls c | Cls_del c \<Rightarrow> cal_tc_del_ctrl_payload_cls c
       | Cls_mod c \<Rightarrow> cal_tc_mod_ctrl_payload_cls c | Cls_act_unknown v \<Rightarrow> Inl AssertFail) (\<lambda>sz. Inr (4 + sz))"

definition cal_tc_ctrl_payload_plc :: "tc_ctrl_plc \<Rightarrow> nat res" where
  "cal_tc_ctrl_payload_plc plc =
    (case plc of Plc_add d \<Rightarrow> Inr (4 + 4) | Plc_del i \<Rightarrow> Inr (4 + 4) | Plc_mod m \<Rightarrow> Inr (4 + (4 + 4 + 4 + 4 + 4))
     | Plc_act_unknown v \<Rightarrow> Inl AssertFail)"

definition cal_tc_ctrl_payload_q_add :: "tc_ctrl_queue_u \<Rightarrow> nat res" where
  "cal_tc_ctrl_payload_q_add add =
    (case add of Q_fifo d \<Rightarrow> Inr (4 + 4) | Q_codel c \<Rightarrow> Inr (4 + (4 + 4)) | Q_ecn_codel c \<Rightarrow> Inr (4 + (4 + 4))
     | Q_unknown v \<Rightarrow> Inl AssertFail)"

definition cal_tc_ctrl_payload_q_mod :: "u32 \<Rightarrow> tc_ctrl_queue_u \<Rightarrow> nat res" where
  "cal_tc_ctrl_payload_q_mod i md =
    (case md of Q_fifo d \<Rightarrow> Inr (4 + 4 + 4) | Q_codel c \<Rightarrow> Inr (4 + 4 + (4 + 4)) | Q_ecn_codel c \<Rightarrow> Inr (4 + 4 + (4 + 4))
     | Q_unknown v \<Rightarrow> Inl AssertFail)"

definition cal_tc_ctrl_payload_q_del :: "u32 \<Rightarrow> u32 \<Rightarrow> nat" where
  "cal_tc_ctrl_payload_q_del i type = 4 + 4"

definition cal_tc_ctrl_payload_q :: "tc_ctrl_queue \<Rightarrow> nat res" where
  "cal_tc_ctrl_payload_q q =
    res_bind
      (case q of Queue_add u \<Rightarrow> cal_tc_ctrl_payload_q_add u | Queue_mod i u \<Rightarrow> cal_tc_ctrl_payload_q_mod i u
       | Queue_del i t \<Rightarrow> Inr (cal_tc_ctrl_payload_q_del i t) | Queue_act_unknown v \<Rightarrow> Inl AssertFail) (\<lambda>sz. Inr (4 + sz))"

definition cal_tc_ctrl_payload_sch_mod :: "tc_mod_ctrl_sch \<Rightarrow> nat res" where
  "cal_tc_ctrl_payload_sch_mod md =
    (case md of Mod_sch_rr d \<Rightarrow> Inr (4 + 4) | Mod_sch_prio p \<Rightarrow> Inr (4 + (4 + unat (len_q_prio p) * 4))
     | Mod_sch_unknown v \<Rightarrow> Inl AssertFail)"

definition cal_tc_ctrl_payload_sch :: "tc_ctrl_sch \<Rightarrow> nat res" where
  "cal_tc_ctrl_payload_sch sch =
    res_bind
      (case sch of Sch_add d \<Rightarrow> Inr 4 | Sch_del d \<Rightarrow> Inr 4 | Sch_mod m \<Rightarrow> cal_tc_ctrl_payload_sch_mod m
       | Sch_act_unknown v \<Rightarrow> Inl AssertFail) (\<lambda>sz. Inr (4 + sz))"

definition cal_tc_ctrl_payload_shp :: "tc_ctrl_shp \<Rightarrow> nat res" where
  "cal_tc_ctrl_payload_shp shp =
    (case shp of Shp_add d \<Rightarrow> Inr (4 + 4) | Shp_del i \<Rightarrow> Inr (4 + 4) | Shp_mod m \<Rightarrow> Inr (4 + (4 + 4 + 4 + 4))
     | Shp_act_unknown v \<Rightarrow> Inl AssertFail)"

definition cal_tc_ctrl_payload_pcr_mod :: "tc_mod_ctrl_pcr \<Rightarrow> nat res" where
  "cal_tc_ctrl_payload_pcr_mod md =
    (case md of Mod_pcr_dummy d \<Rightarrow> Inr (4 + 4) | Mod_pcr_5g_bdp b \<Rightarrow> Inr (4 + (4 + 8)) | Mod_pcr_unknown v \<Rightarrow> Inl AssertFail)"

definition cal_tc_ctrl_payload_pcr :: "tc_ctrl_pcr \<Rightarrow> nat res" where
  "cal_tc_ctrl_payload_pcr pcr =
    res_bind
      (case pcr of Pcr_add d \<Rightarrow> Inr 4 | Pcr_del d \<Rightarrow> Inr 4 | Pcr_mod m \<Rightarrow> cal_tc_ctrl_payload_pcr_mod m
       | Pcr_act_unknown v \<Rightarrow> Inl AssertFail) (\<lambda>sz. Inr (4 + sz))"

definition cal_tc_ctrl_payload :: "tc_ctrl_msg \<Rightarrow> nat res" where
  "cal_tc_ctrl_payload m =
    res_bind
      (case m of Ctrl_cls c \<Rightarrow> cal_tc_ctrl_payload_cls c | Ctrl_plc c \<Rightarrow> cal_tc_ctrl_payload_plc c
       | Ctrl_queue c \<Rightarrow> cal_tc_ctrl_payload_q c | Ctrl_sch c \<Rightarrow> cal_tc_ctrl_payload_sch c
       | Ctrl_shp c \<Rightarrow> cal_tc_ctrl_payload_shp c | Ctrl_pcr c \<Rightarrow> cal_tc_ctrl_payload_pcr c
       | Ctrl_unknown v \<Rightarrow> Inl AssertFail) (\<lambda>sz. Inr (4 + sz))"

section \<open>Writers\<close>

definition enc_tc_add_ctrl_payload_cls_osi :: "tc_add_cls_osi \<Rightarrow> writer" where
  "enc_tc_add_ctrl_payload_cls_osi osi = wr_seq [wr (le (src_addr (add_l3 osi))), wr (le (dst_addr (add_l3 osi))),
    wr (le (src_port (add_l4 osi))), wr (le (dst_port (add_l4 osi))), wr (le (protocol (add_l4 osi))),
    wr (le (add_dst_queue osi))]"

definition add_cls_type :: "tc_add_ctrl_cls \<Rightarrow> u32" where
  "add_cls_type c = (case c of Add_cls_rr d \<Rightarrow> 0 | Add_cls_osi osi \<Rightarrow> 1 | Add_cls_sto d \<Rightarrow> 2 | Add_cls_unknown v \<Rightarrow> v)"

definition enc_tc_add_ctrl_payload_cls :: "tc_add_ctrl_cls \<Rightarrow> writer" where
  "enc_tc_add_ctrl_payload_cls add = wr_seq [wr (le (add_cls_type add)),
    (case add of Add_cls_rr d \<Rightarrow> wr (le d) | Add_cls_osi osi \<Rightarrow> enc_tc_add_ctrl_payload_cls_osi osi
     | Add_cls_sto d \<Rightarrow> wr (le d) | Add_cls_unknown v \<Rightarrow> wr_fail)]"

definition mod_cls_type :: "tc_mod_ctrl_cls \<Rightarrow> u32" where
  "mod_cls_type c = (case c of Mod_cls_rr d \<Rightarrow> 0 | Mod_cls_osi f \<Rightarrow> 1 | Mod_cls_sto d \<Rightarrow> 2 | Mod_cls_unknown v \<Rightarrow> v)"

definition enc_tc_mod_ctrl_payload_cls :: "(nat \<Rightarrow> u8) \<Rightarrow> tc_mod_ctrl_cls \<Rightarrow> writer" where
  "enc_tc_mod_ctrl_payload_cls pad md = wr_seq [wr (le (mod_cls_type md)),
    (case md of Mod_cls_rr d \<Rightarrow> wr (le d) | Mod_cls_osi f \<Rightarrow> wr (put_filter pad f)
     | Mod_cls_sto d \<Rightarrow> wr (le d) | Mod_cls_unknown v \<Rightarrow> wr_fail)]"

definition del_cls_type :: "tc_del_ctrl_cls \<Rightarrow> u32" where
  "del_cls_type c = (case c of Del_cls_rr d \<Rightarrow> 0 | Del_cls_osi i \<Rightarrow> 1 | Del_cls_sto d \<Rightarrow> 2 | Del_cls_unknown v \<Rightarrow> v)"

definition enc_tc_del_ctrl_payload_cls :: "tc_del_ctrl_cls \<Rightarrow> writer" where
  "enc_tc_del_ctrl_payload_cls del = wr_seq [wr (le (del_cls_type del)),
    (case del of Del_cls_rr d \<Rightarrow> wr (le d) | Del_cls_osi i \<Rightarrow> wr (le i)
     | Del_cls_sto d \<Rightarrow> wr (le d) | Del_cls_unknown v \<Rightarrow> wr_fail)]"

text \<open>The tags of the actions: adding is 0, deleting 1, modifying 2.\<close>

definition cls_act :: "tc_ctrl_cls \<Rightarrow> u32" where
  "cls_act c = (case c of Cls_add a \<Rightarrow> 0 | Cls_del d \<Rightarrow> 1 | Cls_mod m \<Rightarrow> 2 | Cls_act_unknown v \<Rightarrow> v)"

definition enc_tc_ctrl_payload_cls :: "(nat \<Rightarrow> u8) \<Rightarrow> tc_ctrl_cls \<Rightarrow> writer" where
  "enc_tc_ctrl_payload_cls pad cls = wr_seq [wr (le (cls_act cls)),
    (case cls of Cls_add c \<Rightarrow> enc_tc_add_ctrl_payload_cls c | Cls_del c \<Rightarrow> enc_tc_del_ctrl_payload_cls c
     | Cls_mod c \<Rightarrow> enc_tc_mod_ctrl_payload_cls pad c | Cls_act_unknown v \<Rightarrow> wr_fail)]"

definition enc_tc_mod_ctrl_payload_plc :: "tc_mod_ctrl_plc \<Rightarrow> writer" where
  "enc_tc_mod_ctrl_payload_plc m = wr_seq [wr (le (mplc_id m)), wr (le (drop_rate_kbps m)), wr (le (mplc_dev_id m)),
    wr (le (dev_rate_kbps m)), wr (le (mplc_active m))]"

definition plc_act :: "tc_ctrl_plc \<Rightarrow> u32" where
  "plc_act c = (case c of Plc_add a \<Rightarrow> 0 | Plc_del d \<Rightarrow> 1 | Plc_mod m \<Rightarrow> 2 | Plc_act_unknown v \<Rightarrow> v)"

definition enc_tc_ctrl_payload_plc :: "tc_ctrl_plc \<Rightarrow> writer" where
  "enc_tc_ctrl_payload_plc plc = wr_seq [wr (le (plc_act plc)),
    (case plc of Plc_add d \<Rightarrow> wr (le d) | Plc_del i \<Rightarrow> wr (le i) | Plc_mod m \<Rightarrow> enc_tc_mod_ctrl_payload_plc m
     | Plc_act_unknown v \<Rightarrow> wr_fail)]"

definition enc_tc_ctrl_payload_q_codel :: "tc_ctrl_queue_codel \<Rightarrow> writer" where
  "enc_tc_ctrl_payload_q_codel c = wr_seq [wr (le (target_ms c)), wr (le (interval_ms c))]"

definition q_type :: "tc_ctrl_queue_u \<Rightarrow> u32" where
  "q_type u = (case u of Q_fifo d \<Rightarrow> 0 | Q_codel c \<Rightarrow> 1 | Q_ecn_codel c \<Rightarrow> 2 | Q_unknown v \<Rightarrow> v)"

definition enc_tc_add_ctrl_payload_q :: "tc_ctrl_queue_u \<Rightarrow> writer" where
  "enc_tc_add_ctrl_payload_q add = wr_seq [wr (le (q_type add)),
    (case add of Q_fifo d \<Rightarrow> wr (le d) | Q_codel c \<Rightarrow> enc_tc_ctrl_payload_q_codel c
     | Q_ecn_codel c \<Rightarrow> enc_tc_ctrl_payload_q_codel c | Q_unknown v \<Rightarrow> wr_fail)]"

definition enc_tc_mod_ctrl_payload_q :: "u32 \<Rightarrow> tc_ctrl_queue_u \<Rightarrow> writer" where
  "enc_tc_mod_ctrl_payload_q i md = wr_seq [wr (le i), wr (le (q_type md)),
    (case md of Q_fifo d \<Rightarrow> wr (le d) | Q_codel c \<Rightarrow> enc_tc_ctrl_payload_q_codel c
     | Q_ecn_codel c \<Rightarrow> enc_tc_ctrl_payload_q_codel c | Q_unknown v \<Rightarrow> wr_fail)]"

definition enc_tc_del_ctrl_payload_q :: "u32 \<Rightarrow> u32 \<Rightarrow> writer" where
  "enc_tc_del_ctrl_payload_q i type = wr_seq [wr (le i), wr (le type)]"

definition queue_act :: "tc_ctrl_queue \<Rightarrow> u32" where
  "queue_act q = (case q of Queue_add u \<Rightarrow> 0 | Queue_del i t \<Rightarrow> 1 | Queue_mod i u \<Rightarrow> 2 | Queue_act_unknown v \<Rightarrow> v)"

definition enc_tc_ctrl_payload_q :: "tc_ctrl_queue \<Rightarrow> writer" where
  "enc_tc_ctrl_payload_q q = wr_seq [wr (le (queue_act q)),
    (case q of Queue_add u \<Rightarrow> enc_tc_add_ctrl_payload_q u | Queue_del i t \<Rightarrow> enc_tc_del_ctrl_payload_q i t
     | Queue_mod i u \<Rightarrow> enc_tc_mod_ctrl_payload_q i u | Queue_act_unknown v \<Rightarrow> wr_fail)]"

definition enc_tc_mod_ctrl_payload_sch_prio :: "tc_sch_prio \<Rightarrow> writer" where
  "enc_tc_mod_ctrl_payload_sch_prio p =
    wr_seq [wr (le (len_q_prio p)), wr_elems put_u32 (unat (len_q_prio p)) (q_prio p)]"

definition mod_sch_type :: "tc_mod_ctrl_sch \<Rightarrow> u32" where
  "mod_sch_type m = (case m of Mod_sch_rr d \<Rightarrow> 0 | Mod_sch_prio p \<Rightarrow> 1 | Mod_sch_unknown v \<Rightarrow> v)"

definition enc_tc_mod_ctrl_payload_sch :: "tc_mod_ctrl_sch \<Rightarrow> writer" where
  "enc_tc_mod_ctrl_payload_sch md = wr_seq [wr (le (mod_sch_type md)),
    (case md of Mod_sch_rr d \<Rightarrow> wr (le d) | Mod_sch_prio p \<Rightarrow> enc_tc_mod_ctrl_payload_sch_prio p
     | Mod_sch_unknown v \<Rightarrow> wr_fail)]"

definition sch_act :: "tc_ctrl_sch \<Rightarrow> u32" where
  "sch_act s = (case s of Sch_add d \<Rightarrow> 0 | Sch_del d \<Rightarrow> 1 | Sch_mod m \<Rightarrow> 2 | Sch_act_unknown v \<Rightarrow> v)"

definition enc_tc_ctrl_payload_sch :: "tc_ctrl_sch \<Rightarrow> writer" where
  "enc_tc_ctrl_payload_sch sch = wr_seq [wr (le (sch_act sch)),
    (case sch of Sch_add d \<Rightarrow> wr (le d) | Sch_del d \<Rightarrow> wr (le d) | Sch_mod m \<Rightarrow> enc_tc_mod_ctrl_payload_sch m
     | Sch_act_unknown v \<Rightarrow> wr_fail)]"

definition enc_tc_mod_ctrl_payload_shp :: "tc_mod_ctrl_shp \<Rightarrow> writer" where
  "enc_tc_mod_ctrl_payload_shp m = wr_seq [wr (le (mshp_id m)), wr (le (mshp_time_window_ms m)),
    wr (le (mshp_max_rate_kbps m)), wr (le (mshp_active m))]"

definition shp_act :: "tc_ctrl_shp \<Rightarrow> u32" where
  "shp_act s = (case s of Shp_add d \<Rightarrow> 0 | Shp_del i \<Rightarrow> 1 | Shp_mod m \<Rightarrow> 2 | Shp_act_unknown v \<Rightarrow> v)"

definition enc_tc_ctrl_payload_shp :: "tc_ctrl_shp \<Rightarrow> writer" where
  "enc_tc_ctrl_payload_shp shp = wr_seq [wr (le (shp_act shp)),
    (case shp of Shp_add d \<Rightarrow> wr (le d) | Shp_del i \<Rightarrow> wr (le i) | Shp_mod m \<Rightarrow> enc_tc_mod_ctrl_payload_shp m
     | Shp_act_unknown v \<Rightarrow> wr_fail)]"

definition enc_tc_mod_ctrl_payload_pcr_bdp :: "tc_pcr_5g_bdp \<Rightarrow> writer" where
  "enc_tc_mod_ctrl_payload_pcr_bdp b = wr_seq [wr (le (drb_sz b)), wr (le (bdp_tstamp b))]"

definition mod_pcr_type :: "tc_mod_ctrl_pcr \<Rightarrow> u32" where
  "mod_pcr_type m = (case m of Mod_pcr_dummy d \<Rightarrow> 0 | Mod_pcr_5g_bdp b \<Rightarrow> 1 | Mod_pcr_unknown v \<Rightarrow> v)"

definition enc_tc_mod_ctrl_payload_pcr :: "tc_mod_ctrl_pcr \<Rightarrow> writer" where
  "enc_tc_mod_ctrl_payload_pcr md = wr_seq [wr (le (mod_pcr_type md)),
    (case md of Mod_pcr_dummy d \<Rightarrow> wr (le d) | Mod_pcr_5g_bdp b \<Rightarrow> enc_tc_mod_ctrl_payload_pcr_bdp b
     | Mod_pcr_unknown v \<Rightarrow> wr_fail)]"

definition pcr_act :: "tc_ctrl_pcr \<Rightarrow> u32" where
  "pcr_act p = (case p of Pcr_add d \<Rightarrow> 0 | Pcr_del d \<Rightarrow> 1 | Pcr_mod m \<Rightarrow> 2 | Pcr_act_unknown v \<Rightarrow> v)"

definition enc_tc_ctrl_payload_pcr :: "tc_ctrl_pcr \<Rightarrow> writer" where
  "enc_tc_ctrl_payload_pcr pcr = wr_seq [wr (le (pcr_act pcr)),
    (case pcr of Pcr_add d \<Rightarrow> wr (le d) | Pcr_del d \<Rightarrow> wr (le d) | Pcr_mod m \<Rightarrow> enc_tc_mod_ctrl_payload_pcr m
     | Pcr_act_unknown v \<Rightarrow> wr_fail)]"

definition tc_ctrl_type :: "tc_ctrl_msg \<Rightarrow> u32" where
  "tc_ctrl_type m =
    (case m of Ctrl_cls c \<Rightarrow> 0 | Ctrl_plc c \<Rightarrow> 1 | Ctrl_queue c \<Rightarrow> 2 | Ctrl_sch c \<Rightarrow> 3 | Ctrl_shp c \<Rightarrow> 4 | Ctrl_pcr c \<Rightarrow> 5
     | Ctrl_unknown v \<Rightarrow> v)"

definition tc_enc_ctrl_msg_plain :: "(nat \<Rightarrow> u8) \<Rightarrow> tc_ctrl_msg \<Rightarrow> byte_array res" where
  "tc_enc_ctrl_msg_plain pad m =
    wr_buffer (cal_tc_ctrl_payload m) (wr_seq [wr (le (tc_ctrl_type m)),
      (case m of Ctrl_cls c \<Rightarrow> enc_tc_ctrl_payload_cls pad c | Ctrl_plc c \<Rightarrow> enc_tc_ctrl_payload_plc c
       | Ctrl_queue c \<Rightarrow> enc_tc_ctrl_payload_q c | Ctrl_sch c \<Rightarrow> enc_tc_ctrl_payload_sch c
       | Ctrl_shp c \<Rightarrow> enc_tc_ctrl_payload_shp c | Ctrl_pcr c \<Rightarrow> enc_tc_ctrl_payload_pcr c | Ctrl_unknown v \<Rightarrow> wr_fail)])"

section \<open>Readers\<close>

definition dec_tc_add_ctrl_payload_cls_osi :: "byte_array \<Rightarrow> (tc_add_cls_osi \<times> byte_array) res" where
  "dec_tc_add_ctrl_payload_cls_osi it =
    res_bind (rdw it) (\<lambda>(sa, it).
    res_bind (rdw it) (\<lambda>(da, it).
    res_bind (rdw it) (\<lambda>(sp, it).
    res_bind (rdw it) (\<lambda>(dp, it).
    res_bind (rdw it) (\<lambda>(pr, it).
    res_bind (rdw it) (\<lambda>(q, it).
    Inr (\<lparr>add_l3 = \<lparr>src_addr = sa, dst_addr = da\<rparr>, add_l4 = \<lparr>src_port = sp, dst_port = dp, protocol = pr\<rparr>,
      add_dst_queue = q\<rparr>, it)))))))"

definition dec_tc_add_ctrl_payload_cls :: "byte_array \<Rightarrow> (tc_add_ctrl_cls \<times> byte_array) res" where
  "dec_tc_add_ctrl_payload_cls it =
    res_bind (rdw it) (\<lambda>(type :: u32, it).
    if type = 0 then res_bind (rdw it) (\<lambda>(d, it). Inr (Add_cls_rr d, it))
    else if type = 1 then res_bind (dec_tc_add_ctrl_payload_cls_osi it) (\<lambda>(c, it). Inr (Add_cls_osi c, it))
    else if type = 2 then res_bind (rdw it) (\<lambda>(d, it). Inr (Add_cls_sto d, it))
    else Inl AssertFail)"

definition dec_tc_del_ctrl_payload_cls :: "byte_array \<Rightarrow> (tc_del_ctrl_cls \<times> byte_array) res" where
  "dec_tc_del_ctrl_payload_cls it =
    res_bind (rdw it) (\<lambda>(type :: u32, it).
    if type = 0 then res_bind (rdw it) (\<lambda>(d, it). Inr (Del_cls_rr d, it))
    else if type = 1 then res_bind (rdw it) (\<lambda>(i, it). Inr (Del_cls_osi i, it))
    else if type = 2 then res_bind (rdw it) (\<lambda>(d, it). Inr (Del_cls_sto d, it))
    else Inl AssertFail)"

definition dec_tc_mod_ctrl_payload_cls :: "byte_array \<Rightarrow> (tc_mod_ctrl_cls \<times> byte_array) res" where
  "dec_tc_mod_ctrl_payload_cls it =
    res_bind (rdw it) (\<lambda>(type :: u32, it).
    if type = 0 then res_bind (rdw it) (\<lambda>(d, it). Inr (Mod_cls_rr d, it))
    else if type = 1 then res_bind (memcpy_from 40 it) (\<lambda>(b, it). Inr (Mod_cls_osi (get_filter b), it))
    else if type = 2 then res_bind (rdw it) (\<lambda>(d, it). Inr (Mod_cls_sto d, it))
    else Inl AssertFail)"

definition dec_tc_ctrl_payload_cls :: "byte_array \<Rightarrow> (tc_ctrl_cls \<times> byte_array) res" where
  "dec_tc_ctrl_payload_cls it =
    res_bind (rdw it) (\<lambda>(act :: u32, it).
    if act = 0 then res_bind (dec_tc_add_ctrl_payload_cls it) (\<lambda>(c, it). Inr (Cls_add c, it))
    else if act = 1 then res_bind (dec_tc_del_ctrl_payload_cls it) (\<lambda>(c, it). Inr (Cls_del c, it))
    else if act = 2 then res_bind (dec_tc_mod_ctrl_payload_cls it) (\<lambda>(c, it). Inr (Cls_mod c, it))
    else Inl AssertFail)"

definition dec_tc_mod_ctrl_payload_plc :: "byte_array \<Rightarrow> (tc_mod_ctrl_plc \<times> byte_array) res" where
  "dec_tc_mod_ctrl_payload_plc it =
    res_bind (rdw it) (\<lambda>(i, it).
    res_bind (rdw it) (\<lambda>(dr, it).
    res_bind (rdw it) (\<lambda>(dv, it).
    res_bind (rdw it) (\<lambda>(vr, it).
    res_bind (rdw it) (\<lambda>(a, it).
    Inr (\<lparr>mplc_id = i, drop_rate_kbps = dr, mplc_dev_id = dv, dev_rate_kbps = vr, mplc_active = a\<rparr>, it))))))"

definition dec_tc_ctrl_payload_plc :: "byte_array \<Rightarrow> (tc_ctrl_plc \<times> byte_array) res" where
  "dec_tc_ctrl_payload_plc it =
    res_bind (rdw it) (\<lambda>(act :: u32, it).
    if act = 0 then res_bind (rdw it) (\<lambda>(d, it). Inr (Plc_add d, it))
    else if act = 1 then res_bind (rdw it) (\<lambda>(i, it). Inr (Plc_del i, it))
    else if act = 2 then res_bind (dec_tc_mod_ctrl_payload_plc it) (\<lambda>(m, it). Inr (Plc_mod m, it))
    else Inl AssertFail)"

definition dec_tc_ctrl_payload_q_codel :: "byte_array \<Rightarrow> (tc_ctrl_queue_codel \<times> byte_array) res" where
  "dec_tc_ctrl_payload_q_codel it =
    res_bind (rdw it) (\<lambda>(t, it). res_bind (rdw it) (\<lambda>(i, it). Inr (\<lparr>target_ms = t, interval_ms = i\<rparr>, it)))"

definition dec_tc_add_ctrl_payload_q :: "byte_array \<Rightarrow> (tc_ctrl_queue_u \<times> byte_array) res" where
  "dec_tc_add_ctrl_payload_q it =
    res_bind (rdw it) (\<lambda>(type :: u32, it).
    if type = 0 then res_bind (rdw it) (\<lambda>(d, it). Inr (Q_fifo d, it))
    else if type = 1 then res_bind (dec_tc_ctrl_payload_q_codel it) (\<lambda>(c, it). Inr (Q_codel c, it))
    else if type = 2 then res_bind (dec_tc_ctrl_payload_q_codel it) (\<lambda>(c, it). Inr (Q_ecn_codel c, it))
    else Inl AssertFail)"

definition dec_tc_del_ctrl_payload_q :: "byte_array \<Rightarrow> ((u32 \<times> u32) \<times> byte_array) res" where
  "dec_tc_del_ctrl_payload_q it =
    res_bind (rdw it) (\<lambda>(i, it). res_bind (rdw it) (\<lambda>(t, it). Inr ((i, t), it)))"

definition dec_tc_mod_ctrl_payload_q :: "byte_array \<Rightarrow> ((u32 \<times> tc_ctrl_queue_u) \<times> byte_array) res" where
  "dec_tc_mod_ctrl_payload_q it =
    res_bind (rdw it) (\<lambda>(i, it).
    res_bind (rdw it) (\<lambda>(type :: u32, it).
    if type = 0 then res_bind (rdw it) (\<lambda>(d, it). Inr ((i, Q_fifo d), it))
    else if type = 1 then res_bind (dec_tc_ctrl_payload_q_codel it) (\<lambda>(c, it). Inr ((i, Q_codel c), it))
    else if type = 2 then res_bind (dec_tc_ctrl_payload_q_codel it) (\<lambda>(c, it). Inr ((i, Q_ecn_codel c), it))
    else Inl AssertFail))"

definition dec_tc_ctrl_payload_q :: "byte_array \<Rightarrow> (tc_ctrl_queue \<times> byte_array) res" where
  "dec_tc_ctrl_payload_q it =
    res_bind (rdw it) (\<lambda>(act :: u32, it).
    if act = 0 then res_bind (dec_tc_add_ctrl_payload_q it) (\<lambda>(u, it). Inr (Queue_add u, it))
    else if act = 1 then res_bind (dec_tc_del_ctrl_payload_q it) (\<lambda>((i, t), it). Inr (Queue_del i t, it))
    else if act = 2 then res_bind (dec_tc_mod_ctrl_payload_q it) (\<lambda>((i, u), it). Inr (Queue_mod i u, it))
    else Inl AssertFail)"

definition dec_tc_mod_ctrl_payload_sch_prio :: "byte_array \<Rightarrow> (tc_sch_prio \<times> byte_array) res" where
  "dec_tc_mod_ctrl_payload_sch_prio it =
    res_bind (rdw it) (\<lambda>(n, it).
    res_bind (rd_elems rdw (unat n) it) (\<lambda>(p, it). Inr (\<lparr>len_q_prio = n, q_prio = p\<rparr>, it)))"

definition dec_tc_mod_ctrl_payload_sch :: "byte_array \<Rightarrow> (tc_mod_ctrl_sch \<times> byte_array) res" where
  "dec_tc_mod_ctrl_payload_sch it =
    res_bind (rdw it) (\<lambda>(type :: u32, it).
    if type = 0 then res_bind (rdw it) (\<lambda>(d, it). Inr (Mod_sch_rr d, it))
    else if type = 1 then res_bind (dec_tc_mod_ctrl_payload_sch_prio it) (\<lambda>(p, it). Inr (Mod_sch_prio p, it))
    else Inl AssertFail)"

definition dec_tc_ctrl_payload_sch :: "byte_array \<Rightarrow> (tc_ctrl_sch \<times> byte_array) res" where
  "dec_tc_ctrl_payload_sch it =
    res_bind (rdw it) (\<lambda>(act :: u32, it).
    if act = 0 then res_bind (rdw it) (\<lambda>(d, it). Inr (Sch_add d, it))
    else if act = 1 then res_bind (rdw it) (\<lambda>(d, it). Inr (Sch_del d, it))
    else if act = 2 then res_bind (dec_tc_mod_ctrl_payload_sch it) (\<lambda>(m, it). Inr (Sch_mod m, it))
    else Inl AssertFail)"

definition dec_tc_mod_ctrl_payload_shp :: "byte_array \<Rightarrow> (tc_mod_ctrl_shp \<times> byte_array) res" where
  "dec_tc_mod_ctrl_payload_shp it =
    res_bind (rdw it) (\<lambda>(i, it).
    res_bind (rdw it) (\<lambda>(t, it).
    res_bind (rdw it) (\<lambda>(r, it).
    res_bind (rdw it) (\<lambda>(a, it).
    Inr (\<lparr>mshp_id = i, mshp_time_window_ms = t, mshp_max_rate_kbps = r, mshp_active = a\<rparr>, it)))))"

definition dec_tc_ctrl_payload_shp :: "byte_array \<Rightarrow> (tc_ctrl_shp \<times> byte_array) res" where
  "dec_tc_ctrl_payload_shp it =
    res_bind (rdw it) (\<lambda>(act :: u32, it).
    if act = 0 then res_bind (rdw it) (\<lambda>(d, it). Inr (Shp_add d, it))
    else if act = 1 then res_bind (rdw it) (\<lambda>(i, it). Inr (Shp_del i, it))
    else if act = 2 then res_bind (dec_tc_mod_ctrl_payload_shp it) (\<lambda>(m, it). Inr (Shp_mod m, it))
    else Inl AssertFail)"

definition dec_tc_mod_ctrl_payload_pcr_bdp :: "byte_array \<Rightarrow> (tc_pcr_5g_bdp \<times> byte_array) res" where
  "dec_tc_mod_ctrl_payload_pcr_bdp it =
    res_bind (rdw it) (\<lambda>(d, it). res_bind (rdw it) (\<lambda>(t, it). Inr (\<lparr>drb_sz = d, bdp_tstamp = t\<rparr>, it)))"

definition dec_tc_mod_ctrl_payload_pcr :: "byte_array \<Rightarrow> (tc_mod_ctrl_pcr \<times> byte_array) res" where
  "dec_tc_mod_ctrl_payload_pcr it =
    res_bind (rdw it) (\<lambda>(type :: u32, it).
    if type = 0 then res_bind (rdw it) (\<lambda>(d, it). Inr (Mod_pcr_dummy d, it))
    else if type = 1 then res_bind (dec_tc_mod_ctrl_payload_pcr_bdp it) (\<lambda>(b, it). Inr (Mod_pcr_5g_bdp b, it))
    else Inl AssertFail)"

definition dec_tc_ctrl_payload_pcr :: "byte_array \<Rightarrow> (tc_ctrl_pcr \<times> byte_array) res" where
  "dec_tc_ctrl_payload_pcr it =
    res_bind (rdw it) (\<lambda>(act :: u32, it).
    if act = 0 then res_bind (rdw it) (\<lambda>(d, it). Inr (Pcr_add d, it))
    else if act = 1 then res_bind (rdw it) (\<lambda>(d, it). Inr (Pcr_del d, it))
    else if act = 2 then res_bind (dec_tc_mod_ctrl_payload_pcr it) (\<lambda>(m, it). Inr (Pcr_mod m, it))
    else Inl AssertFail)"

definition dec_tc_ctrl_payload :: "byte_array \<Rightarrow> (tc_ctrl_msg \<times> byte_array) res" where
  "dec_tc_ctrl_payload it =
    res_bind (rdw it) (\<lambda>(type :: u32, it).
    if type = 0 then res_bind (dec_tc_ctrl_payload_cls it) (\<lambda>(c, it). Inr (Ctrl_cls c, it))
    else if type = 1 then res_bind (dec_tc_ctrl_payload_plc it) (\<lambda>(c, it). Inr (Ctrl_plc c, it))
    else if type = 2 then res_bind (dec_tc_ctrl_payload_q it) (\<lambda>(c, it). Inr (Ctrl_queue c, it))
    else if type = 3 then res_bind (dec_tc_ctrl_payload_sch it) (\<lambda>(c, it). Inr (Ctrl_sch c, it))
    else if type = 4 then res_bind (dec_tc_ctrl_payload_shp it) (\<lambda>(c, it). Inr (Ctrl_shp c, it))
    else if type = 5 then res_bind (dec_tc_ctrl_payload_pcr it) (\<lambda>(c, it). Inr (Ctrl_pcr c, it))
    else Inl AssertFail)"

definition tc_dec_ctrl_msg_plain :: "byte_array \<Rightarrow> tc_ctrl_msg res" where
  "tc_dec_ctrl_msg_plain it =
    res_bind (c_assert (0 < length it)) (\<lambda>_.
    res_bind (dec_tc_ctrl_payload it) (\<lambda>(m, it).
    res_bind (c_assert (it = [])) (\<lambda>_. Inr m)))"

end
