(* ===== verification/KpmSm.thy ===== *)
theory KpmSm
  imports E2apMsg
begin

text \<open>
  The data of the service model KPM (\<open>src/sm/kpm_sm_v2.02/ie/kpm_data_ie.h\<close>) with its copies and its
  comparison (\<open>kpm_data_ie.c\<close>).  A \<open>long\<close> or \<open>unsigned long\<close> is a word of 64 bits, a \<open>double\<close> its
  bits, an enumeration a word of 32 bits, since the code meets values that the enumeration does not
  name.  An array with its length is a list, an optional member an option.

  Copies are deep up to two kinds of pointers, which stay shared and which no function frees twice
  in a message that was received: the members of a label after the first two, and the name of a
  measurement without labels.  As values they are the same.
\<close>

section \<open>Data\<close>

record adapter_S_NSSAI =
  sST :: byte_array
  sD :: "byte_array option"

record adapter_LabelInfoItem =
  noLabel :: "u64 option"
  plmnID :: "byte_array option"
  sliceID :: "adapter_S_NSSAI option"
  fiveQI :: "u64 option"
  qFI :: "u64 option"
  qCI :: "u64 option"
  qCImax :: "u64 option"
  qCImin :: "u64 option"
  aRPmax :: "u64 option"
  aRPmin :: "u64 option"
  bitrateRange :: "u64 option"
  layerMU_MIMO :: "u64 option"
  sUM :: "u64 option"
  distBinX :: "u64 option"
  distBinY :: "u64 option"
  distBinZ :: "u64 option"
  preLabelOverride :: "u64 option"
  startEndInd :: "u64 option"
  lab_min :: "u64 option"
  lab_max :: "u64 option"
  lab_avg :: "u64 option"

definition KPM_V2_MEASUREMENT_TYPE_NAME :: u32 where "KPM_V2_MEASUREMENT_TYPE_NAME = 1"
definition KPM_V2_MEASUREMENT_TYPE_ID :: u32 where "KPM_V2_MEASUREMENT_TYPE_ID = 2"

record MeasInfo_t =
  meas_type :: u32
  measName :: byte_array
  measID :: u64
  labelInfo :: "adapter_LabelInfoItem list"

type_synonym kpm_event_trigger = u64

definition KPMV2_CELL_ID_CHOICE_NOTHING :: u32 where "KPMV2_CELL_ID_CHOICE_NOTHING = 0"
definition KPMV2_CELL_ID_CHOICE_NR_CGI :: u32 where "KPMV2_CELL_ID_CHOICE_NR_CGI = 1"
definition KPMV2_CELL_ID_CHOICE_EUTRA_CGI :: u32 where "KPMV2_CELL_ID_CHOICE_EUTRA_CGI = 2"

record kpm_action_def =
  ric_style_type :: u64
  granularity_period :: u64
  ad_MeasInfo :: "MeasInfo_t list"
  cell_global_id :: u32
  nRCellIdentity :: u64
  pLMNIdentity :: byte_array
  eUTRACellIdentity :: u64

record kpm_ind_hdr =
  collectStartTime :: u32
  fileFormatversion :: "byte_array option"
  senderName :: "byte_array option"
  senderType :: "byte_array option"
  vendorName :: "byte_array option"

definition MeasRecord_int :: u32 where "MeasRecord_int = 1"
definition MeasRecord_real :: u32 where "MeasRecord_real = 2"
definition MeasRecord_noval :: u32 where "MeasRecord_noval = 3"

record adapter_MeasRecord =
  rec_type :: u32
  int_val :: u64
  real_val :: u64

record adapter_MeasDataItem =
  measRecord :: "adapter_MeasRecord list"
  incompleteFlag :: u64

record kpm_ind_msg =
  MeasData :: "adapter_MeasDataItem list"
  im_MeasInfo :: "MeasInfo_t list"
  granulPeriod :: "u64 option"

text \<open>The styles of triggers and reports are empty structures: a list of them is its length.\<close>

record kpm_func_def =
  ShortName :: byte_array
  E2SM_OID :: byte_array
  Description :: byte_array
  ranFunction_Instance :: "u64 option"
  ric_EventTriggerStyle_List_len :: nat
  ric_ReportStyle_List_len :: nat

record kpm_ind_data =
  kpm_hdr :: kpm_ind_hdr
  kpm_msg :: kpm_ind_msg

lemmas kpm_consts = KPM_V2_MEASUREMENT_TYPE_NAME_def KPM_V2_MEASUREMENT_TYPE_ID_def KPMV2_CELL_ID_CHOICE_NOTHING_def
  KPMV2_CELL_ID_CHOICE_NR_CGI_def KPMV2_CELL_ID_CHOICE_EUTRA_CGI_def MeasRecord_int_def MeasRecord_real_def MeasRecord_noval_def

section \<open>Copies\<close>

definition cp_kpm_ind_hdr :: "kpm_ind_hdr \<Rightarrow> kpm_ind_hdr" where
  "cp_kpm_ind_hdr src =
    \<lparr>collectStartTime = collectStartTime src,
     fileFormatversion = map_option copy_byte_array (fileFormatversion src),
     senderName = map_option copy_byte_array (senderName src),
     senderType = map_option copy_byte_array (senderType src),
     vendorName = map_option copy_byte_array (vendorName src)\<rparr>"

text \<open>The destination has been filled by \<open>memcpy\<close> before: it keeps the members not written here.\<close>

definition cp_label_info :: "adapter_LabelInfoItem \<Rightarrow> adapter_LabelInfoItem \<Rightarrow> adapter_LabelInfoItem res" where
  "cp_label_info dst src =
    (case noLabel src of
       Some n \<Rightarrow> Inr (dst\<lparr>noLabel := Some n\<rparr>)
     | None \<Rightarrow>
        (case plmnID src of
           Some b \<Rightarrow> Inr (dst\<lparr>plmnID := Some (copy_byte_array b)\<rparr>)
         | None \<Rightarrow> Inl AssertFail))"

definition cp_meas_info :: "MeasInfo_t \<Rightarrow> MeasInfo_t res" where
  "cp_meas_info src =
    res_bind (map_res (\<lambda>l. cp_label_info l l) (labelInfo src)) (\<lambda>ls.
    Inr (src\<lparr>measName := (if ls \<noteq> [] \<and> meas_type src = KPM_V2_MEASUREMENT_TYPE_NAME
                          then copy_byte_array (measName src) else measName src),
             labelInfo := ls\<rparr>))"

definition cp_kpm_ind_msg :: "kpm_ind_msg \<Rightarrow> kpm_ind_msg res" where
  "cp_kpm_ind_msg src =
    res_bind (map_res cp_meas_info (im_MeasInfo src)) (\<lambda>mi.
    Inr \<lparr>MeasData = MeasData src, im_MeasInfo = mi, granulPeriod = granulPeriod src\<rparr>)"

definition cp_kpm_ind_data :: "kpm_ind_data \<Rightarrow> kpm_ind_data res" where
  "cp_kpm_ind_data src =
    res_bind (cp_kpm_ind_msg (kpm_msg src)) (\<lambda>m. Inr \<lparr>kpm_hdr = cp_kpm_ind_hdr (kpm_hdr src), kpm_msg = m\<rparr>)"

text \<open>A label that can be copied says that there is no label, or names a network.\<close>

definition label_copies :: "adapter_LabelInfoItem \<Rightarrow> bool" where
  "label_copies l \<longleftrightarrow> noLabel l \<noteq> None \<or> plmnID l \<noteq> None"

definition labels_copy :: "kpm_ind_msg \<Rightarrow> bool" where
  "labels_copy m \<longleftrightarrow> list_all (\<lambda>i. list_all label_copies (labelInfo i)) (im_MeasInfo m)"

lemma cp_label_info_self: "cp_label_info l l = (if label_copies l then Inr l else Inl AssertFail)"
  by (cases l) (auto simp: cp_label_info_def label_copies_def copy_byte_array_def split: option.splits)

lemma map_res_self:
  "map_res (\<lambda>x. if P x then Inr x else Inl e) xs = (if list_all P xs then Inr xs else Inl e)"
  by (induction xs) auto

lemma cp_meas_info_eq:
  "cp_meas_info i = (if list_all label_copies (labelInfo i) then Inr i else Inl AssertFail)"
  by (cases i) (simp add: cp_meas_info_def cp_label_info_self map_res_self copy_byte_array_def)

lemma cp_kpm_ind_msg_eq: "cp_kpm_ind_msg m = (if labels_copy m then Inr m else Inl AssertFail)"
  by (cases m) (simp add: cp_kpm_ind_msg_def cp_meas_info_eq [abs_def] map_res_self labels_copy_def)

lemma cp_kpm_ind_hdr_eq: "cp_kpm_ind_hdr h = h"
  by (cases h) (simp add: cp_kpm_ind_hdr_def copy_byte_array_def option.map_ident cong: map_option_cong)

lemma cp_kpm_ind_data_eq: "cp_kpm_ind_data d = (if labels_copy (kpm_msg d) then Inr d else Inl AssertFail)"
  by (cases d) (simp add: cp_kpm_ind_data_def cp_kpm_ind_msg_eq cp_kpm_ind_hdr_eq)

section \<open>Comparison\<close>

text \<open>The loop over the data of the first message, which reads the data of the second at the same
  index whatever its length.\<close>

fun eq_meas_data :: "adapter_MeasDataItem list \<Rightarrow> adapter_MeasDataItem list \<Rightarrow> bool res" where
  "eq_meas_data [] ys = Inr True"
| "eq_meas_data (x # xs) [] = Inl OutOfBounds"
| "eq_meas_data (x # xs) (y # ys) =
    res_bind (eq_meas_data xs ys) (\<lambda>b. Inr (length (measRecord x) = length (measRecord y) \<and> b))"

text \<open>The periods are compared as pointers: \<open>same_period\<close> says whether they are one.\<close>

definition eq_kpm_ind_msg :: "bool \<Rightarrow> kpm_ind_msg \<Rightarrow> kpm_ind_msg \<Rightarrow> bool res" where
  "eq_kpm_ind_msg same_period m0 m1 =
    res_bind (eq_meas_data (MeasData m0) (MeasData m1)) (\<lambda>b.
    Inr ((granulPeriod m0 \<noteq> None \<longrightarrow> same_period) \<and>
         length (MeasData m0) = length (MeasData m1) \<and>
         length (im_MeasInfo m0) = length (im_MeasInfo m1) \<and> b))"

lemma eq_meas_data_eq:
  "eq_meas_data xs ys =
    (if length xs \<le> length ys
     then Inr (list_all2 (\<lambda>x y. length (measRecord x) = length (measRecord y)) xs (take (length xs) ys))
     else Inl OutOfBounds)"
  by (induction xs ys rule: eq_meas_data.induct) auto

text \<open>What the comparison decides: only the shape of the messages, and only when the second has as
  much data as the first.\<close>

lemma eq_kpm_ind_msg_eq:
  "eq_kpm_ind_msg same m0 m1 =
    (if length (MeasData m0) \<le> length (MeasData m1)
     then Inr ((granulPeriod m0 \<noteq> None \<longrightarrow> same) \<and>
       map (length \<circ> measRecord) (MeasData m0) = map (length \<circ> measRecord) (MeasData m1) \<and>
       length (im_MeasInfo m0) = length (im_MeasInfo m1))
     else Inl OutOfBounds)"
  by (auto simp: eq_kpm_ind_msg_def eq_meas_data_eq list_all2_conv_all_nth list_eq_iff_nth_eq)

end
