(* ===== verification/KpmAsn.thy ===== *)
theory KpmAsn
  imports KpmSm E2apAsn
begin

text \<open>
  The ASN.1 encoding of KPM (\<open>src/sm/kpm_sm_v2.02/enc/kpm_enc_asn.c\<close>, \<open>dec/kpm_dec_asn.c\<close>): the
  structures of the generated headers (\<open>ie/asn\<close>) that these functions fill and read, for each element
  the PDU that the encoder builds and what the decoder makes of a PDU, and the two calls of the
  aligned PER codec, which the ASN.1 compiler generated and which is an argument.

  A choice is a datatype, an optional member an option.  Formats that no function reads have no
  contents.  Memory is always available.  Names are shorter than \<open>2 ^ 31\<close> bytes, the width of the
  length that \<open>OCTET_STRING_fromBuf\<close> takes.
\<close>

unbundle bit_operations_syntax

section \<open>Generated structures\<close>

datatype E2SM_KPM_EventTriggerDefinition =
    eventDefinition_NOTHING
  | eventDefinition_Format1 u64

record LabelInfoItem =
  ml_noLabel :: "u64 option"
  ml_plmnID :: "byte_array option"

datatype MeasurementType =
    MeasurementType_PR_NOTHING
  | MeasurementType_PR_measName byte_array
  | MeasurementType_PR_measID u64

record MeasurementInfoItem =
  measType :: MeasurementType
  labelInfoList :: "LabelInfoItem list"

datatype CGI =
    CGI_PR_NOTHING
  | CGI_PR_nR_CGI byte_array BIT_STRING
  | CGI_PR_eUTRA_CGI byte_array BIT_STRING

record ActionDefinition_Format1 =
  adf_measInfoList :: "MeasurementInfoItem list"
  adf_granulPeriod :: u64
  cellGlobalID :: "CGI option"

datatype actionDefinition_formats =
    actionDefinition_NOTHING
  | actionDefinition_Format1 ActionDefinition_Format1
  | actionDefinition_Format2
  | actionDefinition_Format3
  | actionDefinition_Format4
  | actionDefinition_Format5

record E2SM_KPM_ActionDefinition =
  ric_Style_Type :: u64
  ad_formats :: actionDefinition_formats

record IndicationHeader_Format1 =
  colletStartTime :: byte_array
  ih_fileFormatversion :: "byte_array option"
  ih_senderName :: "byte_array option"
  ih_senderType :: "byte_array option"
  ih_vendorName :: "byte_array option"

datatype E2SM_KPM_IndicationHeader =
    indicationHeader_NOTHING
  | indicationHeader_Format1 IndicationHeader_Format1

datatype MeasurementRecordItem =
    MeasurementRecordItem_PR_NOTHING
  | MeasurementRecordItem_PR_integer u64
  | MeasurementRecordItem_PR_real u64
  | MeasurementRecordItem_PR_noValue

record MeasurementDataItem =
  md_measRecord :: "MeasurementRecordItem list"
  md_incompleteFlag :: "u64 option"

record IndicationMessage_Format1 =
  measData :: "MeasurementDataItem list"
  measInfoList :: "MeasurementInfoItem list option"
  im_granulPeriod :: "u64 option"

datatype E2SM_KPM_IndicationMessage =
    indicationMessage_NOTHING
  | indicationMessage_Format1 IndicationMessage_Format1
  | indicationMessage_Format2
  | indicationMessage_Format3

record E2SM_KPM_RANfunction_Description =
  ranFunction_ShortName :: byte_array
  ranFunction_E2SM_OID :: byte_array
  ranFunction_Description :: byte_array
  rfn_Instance :: "u64 option"
  rfd_EventTriggerStyle_List :: "nat option"
  rfd_ReportStyle_List :: "nat option"

definition maxnoofMeasurementInfo :: nat where "maxnoofMeasurementInfo = 65535"
definition maxnoofLabelInfo :: nat where "maxnoofLabelInfo = 2147483647"
definition maxnoofMeasurementRecord :: nat where "maxnoofMeasurementRecord = 65535"
definition maxnoofMeasurementValue :: nat where "maxnoofMeasurementValue = 2147483647"

lemmas kpm_maxs = maxnoofMeasurementInfo_def maxnoofLabelInfo_def maxnoofMeasurementRecord_def maxnoofMeasurementValue_def

section \<open>The codec\<close>

text \<open>\<open>asn_encode_to_buffer\<close> and \<open>asn_decode\<close> for the five types.  The encoder gives the bytes or
  fails, the decoder gives the structure or fails.\<close>

record kpm_codec =
  enc_et :: "E2SM_KPM_EventTriggerDefinition \<Rightarrow> byte_array option"
  dec_et :: "byte_array \<Rightarrow> E2SM_KPM_EventTriggerDefinition option"
  enc_ad :: "E2SM_KPM_ActionDefinition \<Rightarrow> byte_array option"
  dec_ad :: "byte_array \<Rightarrow> E2SM_KPM_ActionDefinition option"
  enc_ih :: "E2SM_KPM_IndicationHeader \<Rightarrow> byte_array option"
  dec_ih :: "byte_array \<Rightarrow> E2SM_KPM_IndicationHeader option"
  enc_im :: "E2SM_KPM_IndicationMessage \<Rightarrow> byte_array option"
  dec_im :: "byte_array \<Rightarrow> E2SM_KPM_IndicationMessage option"
  enc_fd :: "E2SM_KPM_RANfunction_Description \<Rightarrow> byte_array option"
  dec_fd :: "byte_array \<Rightarrow> E2SM_KPM_RANfunction_Description option"

text \<open>Into a buffer of 2048 bytes; out of bytes of which there is at least one.\<close>

definition kpm_encode :: "('p \<Rightarrow> byte_array option) \<Rightarrow> 'p \<Rightarrow> byte_array res" where
  "kpm_encode enc pdu =
    (case enc pdu of None \<Rightarrow> Inl AssertFail | Some b \<Rightarrow> if length b \<le> 2048 then Inr b else Inl AssertFail)"

definition kpm_decode :: "(byte_array \<Rightarrow> 'p option) \<Rightarrow> byte_array \<Rightarrow> 'p res" where
  "kpm_decode dec b =
    (if b = [] then Inl AssertFail else case dec b of None \<Rightarrow> Inl AssertFail | Some pdu \<Rightarrow> Inr pdu)"

section \<open>Encoder\<close>

definition event_trigger_pdu :: "kpm_event_trigger \<Rightarrow> E2SM_KPM_EventTriggerDefinition" where
  "event_trigger_pdu ms = eventDefinition_Format1 ms"

definition kpm_enc_event_trigger_asn :: "kpm_codec \<Rightarrow> kpm_event_trigger \<Rightarrow> byte_array res" where
  "kpm_enc_event_trigger_asn c ms = kpm_encode (enc_et c) (event_trigger_pdu ms)"

definition cp_label_info_item_into_asn :: "adapter_LabelInfoItem \<Rightarrow> LabelInfoItem" where
  "cp_label_info_item_into_asn src =
    (case noLabel src of
       Some n \<Rightarrow> \<lparr>ml_noLabel = Some n, ml_plmnID = None\<rparr>
     | None \<Rightarrow> \<lparr>ml_noLabel = None, ml_plmnID = plmnID src\<rparr>)"

text \<open>One measurement.  The action definition asserts (\<open>counted\<close>) that it has labels, and not too many.\<close>

definition put_meas_info :: "bool \<Rightarrow> MeasInfo_t \<Rightarrow> MeasurementInfoItem res" where
  "put_meas_info counted mi =
    (if meas_type mi \<noteq> KPM_V2_MEASUREMENT_TYPE_NAME \<and> meas_type mi \<noteq> KPM_V2_MEASUREMENT_TYPE_ID then Inl AssertFail
     else if counted \<and> \<not> (length (labelInfo mi) \<le> maxnoofLabelInfo \<and> 0 < length (labelInfo mi)) then Inl AssertFail
     else
       Inr \<lparr>measType = (if meas_type mi = KPM_V2_MEASUREMENT_TYPE_NAME
                        then MeasurementType_PR_measName (measName mi)
                        else MeasurementType_PR_measID (measID mi)),
            labelInfoList = map cp_label_info_item_into_asn (labelInfo mi)\<rparr>)"

text \<open>The cell of an action definition is written through \<open>adf_p->cellGlobalID\<close>, which is null.\<close>

definition action_def_pdu :: "kpm_action_def \<Rightarrow> E2SM_KPM_ActionDefinition res" where
  "action_def_pdu ad =
    (if \<not> (0 < sint (ric_style_type ad) \<and> sint (ric_style_type ad) < 6) then Inl AssertFail
     else if ric_style_type ad \<noteq> 1 then Inl AssertFail
     else if \<not> (length (ad_MeasInfo ad) \<le> maxnoofMeasurementInfo \<and> 0 < length (ad_MeasInfo ad)) then Inl AssertFail
     else
       res_bind (map_res (put_meas_info True) (ad_MeasInfo ad)) (\<lambda>l.
       if cell_global_id ad = KPMV2_CELL_ID_CHOICE_NOTHING then
         Inr \<lparr>ric_Style_Type = ric_style_type ad, ad_formats = actionDefinition_Format1
                \<lparr>adf_measInfoList = l, adf_granulPeriod = granularity_period ad, cellGlobalID = None\<rparr>\<rparr>
       else if cell_global_id ad = KPMV2_CELL_ID_CHOICE_NR_CGI \<or> cell_global_id ad = KPMV2_CELL_ID_CHOICE_EUTRA_CGI
       then Inl NullDeref
       else Inl AssertFail))"

definition kpm_enc_action_def_asn :: "kpm_codec \<Rightarrow> kpm_action_def \<Rightarrow> byte_array res" where
  "kpm_enc_action_def_asn c ad = res_bind (action_def_pdu ad) (kpm_encode (enc_ad c))"

definition INT32_TO_OCTET_STRING :: "u32 \<Rightarrow> byte_array" where
  "INT32_TO_OCTET_STRING x = [ucast (drop_bit 24 x), ucast (drop_bit 16 x), ucast (drop_bit 8 x), ucast x]"

text \<open>\<open>htonl\<close> and \<open>ntohl\<close> on x86-64 swap the bytes.\<close>

definition htonl :: "u32 \<Rightarrow> u32" where
  "htonl x = push_bit 24 (ucast (ucast x :: u8)) OR push_bit 16 (ucast (ucast (drop_bit 8 x) :: u8)) OR
    push_bit 8 (ucast (ucast (drop_bit 16 x) :: u8)) OR ucast (ucast (drop_bit 24 x) :: u8)"

text \<open>\<open>OCTET_STRING_fromBuf\<close> into the null pointer of an optional member returns an error.\<close>

definition ind_hdr_pdu :: "kpm_ind_hdr \<Rightarrow> E2SM_KPM_IndicationHeader res" where
  "ind_hdr_pdu h =
    (if fileFormatversion h \<noteq> None then Inl AssertFail
     else if senderName h \<noteq> None then Inl AssertFail
     else if senderType h \<noteq> None then Inl AssertFail
     else if vendorName h \<noteq> None then Inl AssertFail
     else Inr (indicationHeader_Format1
            \<lparr>colletStartTime = INT32_TO_OCTET_STRING (htonl (collectStartTime h)), ih_fileFormatversion = None,
             ih_senderName = None, ih_senderType = None, ih_vendorName = None\<rparr>))"

definition kpm_enc_ind_hdr_asn :: "kpm_codec \<Rightarrow> kpm_ind_hdr \<Rightarrow> byte_array res" where
  "kpm_enc_ind_hdr_asn c h = res_bind (ind_hdr_pdu h) (kpm_encode (enc_ih c))"

definition put_meas_record :: "adapter_MeasRecord \<Rightarrow> MeasurementRecordItem res" where
  "put_meas_record r =
    (if rec_type r = MeasRecord_int then Inr (MeasurementRecordItem_PR_integer (int_val r))
     else if rec_type r = MeasRecord_real then Inr (MeasurementRecordItem_PR_real (real_val r))
     else if rec_type r = MeasRecord_noval then Inr MeasurementRecordItem_PR_noValue
     else Inl AssertFail)"

definition put_meas_data :: "adapter_MeasDataItem \<Rightarrow> MeasurementDataItem res" where
  "put_meas_data d =
    (if \<not> (length (measRecord d) \<le> maxnoofMeasurementValue \<and> 0 < length (measRecord d)) then Inl AssertFail
     else
       res_bind (map_res put_meas_record (measRecord d)) (\<lambda>l.
       Inr \<lparr>md_measRecord = l, md_incompleteFlag = (if incompleteFlag d = 0 then Some 0 else None)\<rparr>))"

definition ind_msg_pdu :: "kpm_ind_msg \<Rightarrow> E2SM_KPM_IndicationMessage res" where
  "ind_msg_pdu m =
    (if \<not> (length (MeasData m) \<le> maxnoofMeasurementRecord \<and> 0 < length (MeasData m)) then Inl AssertFail
     else
       res_bind (map_res put_meas_data (MeasData m)) (\<lambda>md.
       res_bind (if 0 < length (im_MeasInfo m) then
                   if \<not> length (im_MeasInfo m) \<le> maxnoofMeasurementInfo then Inl AssertFail
                   else res_bind (map_res (put_meas_info False) (im_MeasInfo m)) (\<lambda>l. Inr (Some l))
                 else Inr None) (\<lambda>mi.
       Inr (indicationMessage_Format1 \<lparr>measData = md, measInfoList = mi, im_granulPeriod = granulPeriod m\<rparr>))))"

definition kpm_enc_ind_msg_asn :: "kpm_codec \<Rightarrow> kpm_ind_msg \<Rightarrow> byte_array res" where
  "kpm_enc_ind_msg_asn c m = res_bind (ind_msg_pdu m) (kpm_encode (enc_im c))"

definition func_def_pdu :: "kpm_func_def \<Rightarrow> E2SM_KPM_RANfunction_Description" where
  "func_def_pdu f =
    \<lparr>ranFunction_ShortName = ShortName f, ranFunction_E2SM_OID = E2SM_OID f, ranFunction_Description = Description f,
     rfn_Instance = None, rfd_EventTriggerStyle_List = None, rfd_ReportStyle_List = None\<rparr>"

definition kpm_enc_func_def_asn :: "kpm_codec \<Rightarrow> kpm_func_def \<Rightarrow> byte_array res" where
  "kpm_enc_func_def_asn c f = kpm_encode (enc_fd c) (func_def_pdu f)"

section \<open>Decoder\<close>

definition event_trigger_of_pdu :: "E2SM_KPM_EventTriggerDefinition \<Rightarrow> kpm_event_trigger res" where
  "event_trigger_of_pdu pdu =
    (case pdu of eventDefinition_Format1 ms \<Rightarrow> Inr ms | eventDefinition_NOTHING \<Rightarrow> Inl AssertFail)"

definition kpm_dec_event_trigger_asn :: "kpm_codec \<Rightarrow> byte_array \<Rightarrow> kpm_event_trigger res" where
  "kpm_dec_event_trigger_asn c b = res_bind (kpm_decode (dec_et c) b) event_trigger_of_pdu"

text \<open>A label into a zeroed one.  \<open>dst->plmnID\<close> is null when the network is written through it.\<close>

definition no_label_info :: adapter_LabelInfoItem where
  "no_label_info =
    \<lparr>noLabel = None, plmnID = None, sliceID = None, fiveQI = None, qFI = None, qCI = None, qCImax = None, qCImin = None,
     aRPmax = None, aRPmin = None, bitrateRange = None, layerMU_MIMO = None, sUM = None, distBinX = None,
     distBinY = None, distBinZ = None, preLabelOverride = None, startEndInd = None, lab_min = None, lab_max = None,
     lab_avg = None\<rparr>"

definition cp_label_info_item_from_asn :: "LabelInfoItem \<Rightarrow> adapter_LabelInfoItem res" where
  "cp_label_info_item_from_asn src =
    (case ml_noLabel src of
       Some n \<Rightarrow> Inr (no_label_info\<lparr>noLabel := Some n\<rparr>)
     | None \<Rightarrow> if ml_plmnID src \<noteq> None then Inl NullDeref else Inr no_label_info)"

text \<open>The type and the name or number of a measurement, into a zeroed structure.\<close>

definition get_meas_type :: "MeasurementType \<Rightarrow> MeasInfo_t" where
  "get_meas_type t =
    (case t of
       MeasurementType_PR_NOTHING \<Rightarrow> \<lparr>meas_type = 0, measName = [], measID = 0, labelInfo = []\<rparr>
     | MeasurementType_PR_measName n \<Rightarrow>
         \<lparr>meas_type = KPM_V2_MEASUREMENT_TYPE_NAME, measName = n, measID = 0, labelInfo = []\<rparr>
     | MeasurementType_PR_measID i \<Rightarrow>
         \<lparr>meas_type = KPM_V2_MEASUREMENT_TYPE_ID, measName = [], measID = i, labelInfo = []\<rparr>)"

text \<open>The labels of one measurement of an action definition; a measurement without type is skipped.\<close>

definition get_action_meas_info :: "MeasurementInfoItem \<Rightarrow> MeasInfo_t res" where
  "get_action_meas_info src =
    (if measType src = MeasurementType_PR_NOTHING then Inr (get_meas_type (measType src))
     else
       res_bind (map_res cp_label_info_item_from_asn (labelInfoList src)) (\<lambda>ls.
       Inr ((get_meas_type (measType src))\<lparr>labelInfo := ls\<rparr>)))"

definition action_def_of_pdu :: "E2SM_KPM_ActionDefinition \<Rightarrow> kpm_action_def res" where
  "action_def_of_pdu pdu =
    (let ret = \<lparr>ric_style_type = ric_Style_Type pdu, granularity_period = 0, ad_MeasInfo = [], cell_global_id = 0,
                nRCellIdentity = 0, pLMNIdentity = [], eUTRACellIdentity = 0\<rparr> in
     case ad_formats pdu of
       actionDefinition_NOTHING \<Rightarrow> Inr ret
     | actionDefinition_Format1 adf \<Rightarrow>
         res_bind (map_res get_action_meas_info (adf_measInfoList adf)) (\<lambda>l.
         Inr (ret\<lparr>ad_MeasInfo := l, granularity_period := adf_granulPeriod adf\<rparr>))
     | _ \<Rightarrow> Inl AssertFail)"

definition kpm_dec_action_def_asn :: "kpm_codec \<Rightarrow> byte_array \<Rightarrow> kpm_action_def res" where
  "kpm_dec_action_def_asn c b = res_bind (kpm_decode (dec_ad c) b) action_def_of_pdu"

text \<open>The macro reads four bytes whatever the length of the string.\<close>

definition OCTET_STRING_TO_INT32 :: "byte_array \<Rightarrow> u32 res" where
  "OCTET_STRING_TO_INT32 b =
    (if length b < 4 then Inl OutOfBounds
     else Inr (push_bit 24 (ucast (b ! 0)) OR push_bit 16 (ucast (b ! 1)) OR push_bit 8 (ucast (b ! 2)) OR ucast (b ! 3)))"

text \<open>An optional member of a header is written into memory of 8 bytes, the size of a pointer: a
  byte array has 16.\<close>

definition ind_hdr_of_pdu :: "E2SM_KPM_IndicationHeader \<Rightarrow> kpm_ind_hdr res" where
  "ind_hdr_of_pdu pdu =
    (case pdu of
       indicationHeader_NOTHING \<Rightarrow>
         Inr \<lparr>collectStartTime = 0, fileFormatversion = None, senderName = None, senderType = None, vendorName = None\<rparr>
     | indicationHeader_Format1 h \<Rightarrow>
         res_bind (OCTET_STRING_TO_INT32 (colletStartTime h)) (\<lambda>ts.
         if ih_fileFormatversion h \<noteq> None \<or> ih_senderName h \<noteq> None \<or> ih_senderType h \<noteq> None \<or> ih_vendorName h \<noteq> None
         then Inl OutOfBounds
         else Inr \<lparr>collectStartTime = htonl ts, fileFormatversion = None, senderName = None, senderType = None,
                vendorName = None\<rparr>))"

definition kpm_dec_ind_hdr_asn :: "kpm_codec \<Rightarrow> byte_array \<Rightarrow> kpm_ind_hdr res" where
  "kpm_dec_ind_hdr_asn c b = res_bind (kpm_decode (dec_ih c) b) ind_hdr_of_pdu"

definition get_meas_record :: "MeasurementRecordItem \<Rightarrow> adapter_MeasRecord res" where
  "get_meas_record r =
    (case r of
       MeasurementRecordItem_PR_noValue \<Rightarrow> Inr \<lparr>rec_type = MeasRecord_noval, int_val = 0, real_val = 0\<rparr>
     | MeasurementRecordItem_PR_integer i \<Rightarrow> Inr \<lparr>rec_type = MeasRecord_int, int_val = i, real_val = 0\<rparr>
     | MeasurementRecordItem_PR_real d \<Rightarrow> Inr \<lparr>rec_type = MeasRecord_real, int_val = 0, real_val = d\<rparr>
     | MeasurementRecordItem_PR_NOTHING \<Rightarrow> Inl AssertFail)"

definition get_meas_data :: "MeasurementDataItem \<Rightarrow> adapter_MeasDataItem res" where
  "get_meas_data item =
    res_bind (map_res get_meas_record (md_measRecord item)) (\<lambda>l.
    Inr \<lparr>measRecord = l, incompleteFlag = (if md_incompleteFlag item \<noteq> None then 0 else - 1)\<rparr>)"

text \<open>The labels of a measurement of an indication go into an array with room for as many labels as
  the \<^emph>\<open>first\<close> measurement has (\<open>ret.MeasInfo->labelInfo_len\<close>).\<close>

fun get_labels :: "nat \<Rightarrow> LabelInfoItem list \<Rightarrow> adapter_LabelInfoItem list res" where
  "get_labels n [] = Inr []"
| "get_labels 0 (l # ls) = Inl OutOfBounds"
| "get_labels (Suc n) (l # ls) =
    res_bind (cp_label_info_item_from_asn l) (\<lambda>x. res_bind (get_labels n ls) (\<lambda>xs. Inr (x # xs)))"

definition get_meas_info :: "nat \<Rightarrow> MeasurementInfoItem \<Rightarrow> MeasInfo_t res" where
  "get_meas_info n src =
    res_bind (get_labels n (labelInfoList src)) (\<lambda>ls. Inr ((get_meas_type (measType src))\<lparr>labelInfo := ls\<rparr>))"

definition get_meas_infos :: "MeasurementInfoItem list option \<Rightarrow> MeasInfo_t list res" where
  "get_meas_infos l =
    (case l of None \<Rightarrow> Inr [] | Some [] \<Rightarrow> Inr []
     | Some (i # is) \<Rightarrow> map_res (get_meas_info (length (labelInfoList i))) (i # is))"

definition ind_msg_of_pdu :: "E2SM_KPM_IndicationMessage \<Rightarrow> kpm_ind_msg res" where
  "ind_msg_of_pdu pdu =
    (case pdu of
       indicationMessage_Format1 m \<Rightarrow>
         res_bind (map_res get_meas_data (measData m)) (\<lambda>md.
         res_bind (get_meas_infos (measInfoList m)) (\<lambda>mi.
         if im_granulPeriod m \<noteq> None then Inl AssertFail
         else Inr \<lparr>MeasData = md, im_MeasInfo = mi, granulPeriod = None\<rparr>))
     | _ \<Rightarrow> Inr \<lparr>MeasData = [], im_MeasInfo = [], granulPeriod = None\<rparr>)"

definition kpm_dec_ind_msg_asn :: "kpm_codec \<Rightarrow> byte_array \<Rightarrow> kpm_ind_msg res" where
  "kpm_dec_ind_msg_asn c b = res_bind (kpm_decode (dec_im c) b) ind_msg_of_pdu"

definition func_def_of_pdu :: "E2SM_KPM_RANfunction_Description \<Rightarrow> kpm_func_def res" where
  "func_def_of_pdu pdu =
    (if rfn_Instance pdu \<noteq> None then Inl AssertFail
     else if rfd_EventTriggerStyle_List pdu \<noteq> None then Inl AssertFail
     else if rfd_ReportStyle_List pdu \<noteq> None then Inl AssertFail
     else Inr \<lparr>ShortName = ranFunction_ShortName pdu, E2SM_OID = ranFunction_E2SM_OID pdu,
            Description = ranFunction_Description pdu, ranFunction_Instance = None,
            ric_EventTriggerStyle_List_len = 0, ric_ReportStyle_List_len = 0\<rparr>)"

definition kpm_dec_func_def_asn :: "kpm_codec \<Rightarrow> byte_array \<Rightarrow> kpm_func_def res" where
  "kpm_dec_func_def_asn c b = res_bind (kpm_decode (dec_fd c) b) func_def_of_pdu"

end
