(* ===== verification/SmIo.thy ===== *)
theory SmIo
  imports MacSm RlcSm PdcpSm GtpSm SliceCodec TcCtrl KpmAsn AgentPlugin
begin

text \<open>
  The service models MAC, RLC, PDCP, GTP, SLICE, TC and KPM as the agent and the RIC load them
  (\<open>src/sm/*_sm*/*_sm_agent.c\<close>, \<open>*_sm_ric.c\<close>), with the data they exchange with the RAN and with
  the applications (\<open>src/sm/agent_if\<close>).  A tagged union is a datatype with the members of these
  seven models.

  The RAN is code outside of the repository: a service model reaches it through the two
  functions of \<open>sm_io_ag\<close>.  \<open>read\<close> is called with the type of the statistics set and fills the
  member of that type, so it is one function per member here; \<open>io_pad\<close> are the bytes of padding
  in the elements it filled.
\<close>

section \<open>Interfaces\<close>

datatype sm_stats =
    Mac_stats mac_ind_data
  | Rlc_stats rlc_ind_data
  | Pdcp_stats pdcp_ind_data
  | Gtp_stats gtp_ind_data
  | Slice_stats slice_ind_data
  | Tc_stats tc_ind_data
  | Kpm_stats kpm_ind_data

text \<open>A control request is the number in its header and the action, or the message.\<close>

datatype sm_ag_if_wr =
    Subscribe_timer u32
  | Mac_ctrl u32 u32
  | Rlc_ctrl u32 u32
  | Pdcp_ctrl u32 u32
  | Gtp_ctrl u32 u32
  | Slice_ctrl u32 slice_ctrl_msg
  | Tc_ctrl u32 tc_ctrl_msg

datatype sm_ag_if_ans =
    Mac_ans u32
  | Rlc_ans u32
  | Pdcp_ans u32
  | Gtp_ans u32
  | Slice_ans slice_ctrl_out
  | Tc_ans u32

record 'st sm_io_ag =
  io_read_mac :: "'st \<Rightarrow> mac_ind_data \<times> 'st"
  io_read_rlc :: "'st \<Rightarrow> rlc_ind_data \<times> 'st"
  io_read_pdcp :: "'st \<Rightarrow> pdcp_ind_data \<times> 'st"
  io_read_gtp :: "'st \<Rightarrow> gtp_ind_data \<times> 'st"
  io_read_slice :: "'st \<Rightarrow> slice_ind_data \<times> 'st"
  io_read_tc :: "'st \<Rightarrow> tc_ind_data \<times> 'st"
  io_read_kpm :: "'st \<Rightarrow> kpm_ind_data \<times> 'st"
  io_pad :: "'st \<Rightarrow> nat \<Rightarrow> nat \<Rightarrow> u8"
  io_write :: "sm_ag_if_wr \<Rightarrow> 'st \<Rightarrow> sm_ag_if_ans \<times> 'st"

text \<open>The copy that is queued for the data base.  \<open>NotImplemented\<close> stands for what is
  not modelled: a union read through another member than its type says.  A type
  that is none of the seven falls through an assertion that holds (it asserts a string) to a
  union that is zero; its value is not modelled either.\<close>

definition cp_sm_ag_if_rd :: "sm_stats sm_ag_if_rd \<Rightarrow> sm_stats sm_ag_if_rd res" where
  "cp_sm_ag_if_rd d =
    (if rd_type d = MAC_STATS_V0 then
       (case rd_stats d of Mac_stats i \<Rightarrow>
          res_bind (cp_mac_ind_data i) (\<lambda>c. Inr \<lparr>rd_type = rd_type d, rd_stats = Mac_stats c\<rparr>)
        | _ \<Rightarrow> Inl NotImplemented)
     else if rd_type d = RLC_STATS_V0 then
       (case rd_stats d of Rlc_stats i \<Rightarrow>
          res_bind (cp_rlc_ind_data i) (\<lambda>c. Inr \<lparr>rd_type = rd_type d, rd_stats = Rlc_stats c\<rparr>)
        | _ \<Rightarrow> Inl NotImplemented)
     else if rd_type d = PDCP_STATS_V0 then
       (case rd_stats d of Pdcp_stats i \<Rightarrow>
          res_bind (cp_pdcp_ind_data i) (\<lambda>c. Inr \<lparr>rd_type = rd_type d, rd_stats = Pdcp_stats c\<rparr>)
        | _ \<Rightarrow> Inl NotImplemented)
     else if rd_type d = GTP_STATS_V0 then
       (case rd_stats d of Gtp_stats i \<Rightarrow>
          res_bind (cp_gtp_ind_data i) (\<lambda>c. Inr \<lparr>rd_type = rd_type d, rd_stats = Gtp_stats c\<rparr>)
        | _ \<Rightarrow> Inl NotImplemented)
     else if rd_type d = SLICE_STATS_V0 then
       (case rd_stats d of Slice_stats i \<Rightarrow>
          res_bind (cp_slice_ind_data i) (\<lambda>c. Inr \<lparr>rd_type = rd_type d, rd_stats = Slice_stats c\<rparr>)
        | _ \<Rightarrow> Inl NotImplemented)
     else if rd_type d = TC_STATS_V0 then
       (case rd_stats d of Tc_stats i \<Rightarrow>
          res_bind (cp_tc_ind_data i) (\<lambda>c. Inr \<lparr>rd_type = rd_type d, rd_stats = Tc_stats c\<rparr>)
        | _ \<Rightarrow> Inl NotImplemented)
     else if rd_type d = KPM_STATS_V0 then
       (case rd_stats d of Kpm_stats i \<Rightarrow>
          res_bind (cp_kpm_ind_data i) (\<lambda>c. Inr \<lparr>rd_type = rd_type d, rd_stats = Kpm_stats c\<rparr>)
        | _ \<Rightarrow> Inl NotImplemented)
     else Inl NotImplemented)"

text \<open>Freeing has an effect only where it stops: on the bearers of PDCP, and on what SLICE and TC check.\<close>

definition free_sm_ag_if_rd :: "sm_stats sm_ag_if_rd \<Rightarrow> unit res" where
  "free_sm_ag_if_rd d =
    (if rd_type d = MAC_STATS_V0 \<or> rd_type d = RLC_STATS_V0 \<or> rd_type d = GTP_STATS_V0 \<or> rd_type d = KPM_STATS_V0
     then Inr ()
     else if rd_type d = PDCP_STATS_V0 then
       (case rd_stats d of Pdcp_stats i \<Rightarrow> free_pdcp_ind_msg (pdcp_msg i) | _ \<Rightarrow> Inl NotImplemented)
     else if rd_type d = SLICE_STATS_V0 then
       (case rd_stats d of Slice_stats i \<Rightarrow> free_slice_ind_data i | _ \<Rightarrow> Inl NotImplemented)
     else if rd_type d = TC_STATS_V0 then
       (case rd_stats d of Tc_stats i \<Rightarrow> free_tc_ind_data i | _ \<Rightarrow> Inl NotImplemented)
     else Inl NotImplemented)"

section \<open>What the models have in common\<close>

text \<open>The command of a subscription, the same chain of comparisons in every model.\<close>

definition cmd_ms :: "string \<Rightarrow> u32 res" where
  "cmd_ms cmd =
    (if cmd = ''1_ms'' then Inr 1 else if cmd = ''2_ms'' then Inr 2
     else if cmd = ''5_ms'' then Inr 5 else if cmd = ''10_ms'' then Inr 10 else Inl AssertFail)"

text \<open>The definition of the RAN function is its name, without the terminating zero.\<close>

definition str_bytes :: "string \<Rightarrow> byte_array" where
  "str_bytes s = map of_char s"

section \<open>MAC\<close>

definition on_subscription_mac_sm_ric :: "string \<Rightarrow> sm_subs_data res" where
  "on_subscription_mac_sm_ric cmd =
    res_bind (cmd_ms cmd) (\<lambda>ms.
    Inr \<lparr>sd_event_trigger = mac_enc_event_trigger_plain ms, sd_action_def = None\<rparr>)"

definition on_indication_mac_sm_ric :: "sm_ind_data \<Rightarrow> sm_stats sm_ag_if_rd res" where
  "on_indication_mac_sm_ric d =
    res_bind (mac_dec_ind_msg_plain (sid_msg d)) (\<lambda>m.
    Inr \<lparr>rd_type = MAC_STATS_V0, rd_stats = Mac_stats \<lparr>mac_hdr = 0, mac_msg = m, mac_proc_id = None\<rparr>\<rparr>)"

definition on_control_req_mac_sm_ric :: "sm_ag_if_wr \<Rightarrow> sm_ctrl_req_data res" where
  "on_control_req_mac_sm_ric req =
    (case req of Mac_ctrl hdr act \<Rightarrow>
        res_bind (c_assert (hdr = 0)) (\<lambda>_.
        res_bind (c_assert (act = 42)) (\<lambda>_.
        Inr \<lparr>scd_hdr = mac_enc_ctrl_hdr_plain hdr, scd_msg = mac_enc_ctrl_msg_plain act\<rparr>))
     | _ \<Rightarrow> Inl AssertFail)"

definition make_mac_sm_ric :: "(sm_ag_if_wr, sm_stats) sm_ric" where
  "make_mac_sm_ric = \<lparr>on_subscription = on_subscription_mac_sm_ric, on_indication = on_indication_mac_sm_ric,
    on_control_req = on_control_req_mac_sm_ric, sm_ran_func_id = 142\<rparr>"

definition on_subscription_mac_sm_ag :: "'st \<Rightarrow> sm_subs_data \<Rightarrow> (int \<times> 'st) res" where
  "on_subscription_mac_sm_ag st data =
    res_bind (mac_dec_event_trigger_plain (sd_event_trigger data)) (\<lambda>ms. Inr (uint ms, st))"

definition on_indication_mac_sm_ag :: "'st sm_io_ag \<Rightarrow> 'st \<Rightarrow> (sm_ind_data \<times> 'st) res" where
  "on_indication_mac_sm_ag rio st =
    (let (ind, st') = io_read_mac rio st in
     res_bind (mac_enc_ind_msg_plain (io_pad rio st') (mac_msg ind)) (\<lambda>ba.
     Inr (\<lparr>sid_hdr = mac_enc_ind_hdr_plain 0, sid_msg = ba, sid_call_process_id = None\<rparr>, st')))"

definition on_control_mac_sm_ag ::
  "'st sm_io_ag \<Rightarrow> 'st \<Rightarrow> sm_ctrl_req_data \<Rightarrow> (byte_array \<times> 'st) res" where
  "on_control_mac_sm_ag rio st data =
    res_bind (mac_dec_ctrl_hdr_plain (scd_hdr data)) (\<lambda>hdr.
    res_bind (c_assert (hdr = 0)) (\<lambda>_.
    res_bind (mac_dec_ctrl_msg_plain (scd_msg data)) (\<lambda>act.
    res_bind (c_assert (act = 42)) (\<lambda>_.
    let (ans, st') = io_write rio (Mac_ctrl 0 act) st in Inr ([], st')))))"

definition on_e2_setup_mac_sm_ag :: byte_array where
  "on_e2_setup_mac_sm_ag = str_bytes ''MAC_STATS_V0''"

definition make_mac_sm_agent :: "'st sm_io_ag \<Rightarrow> 'st sm_agent" where
  "make_mac_sm_agent rio = \<lparr>ag_on_subscription = on_subscription_mac_sm_ag, ag_on_indication = on_indication_mac_sm_ag rio,
    ag_on_control = on_control_mac_sm_ag rio, ag_on_e2_setup = Inr on_e2_setup_mac_sm_ag, ag_ran_func_id = 142\<rparr>"

section \<open>RLC\<close>

definition on_subscription_rlc_sm_ric :: "string \<Rightarrow> sm_subs_data res" where
  "on_subscription_rlc_sm_ric cmd =
    res_bind (cmd_ms cmd) (\<lambda>ms.
    Inr \<lparr>sd_event_trigger = rlc_enc_event_trigger_plain ms, sd_action_def = None\<rparr>)"

definition on_indication_rlc_sm_ric :: "sm_ind_data \<Rightarrow> sm_stats sm_ag_if_rd res" where
  "on_indication_rlc_sm_ric d =
    res_bind (rlc_dec_ind_msg_plain (sid_msg d)) (\<lambda>m.
    res_bind (rlc_dec_ind_hdr_plain (sid_hdr d)) (\<lambda>h.
    Inr \<lparr>rd_type = RLC_STATS_V0, rd_stats = Rlc_stats \<lparr>rlc_hdr = h, rlc_msg = m, rlc_proc_id = None\<rparr>\<rparr>))"

definition on_control_req_rlc_sm_ric :: "sm_ag_if_wr \<Rightarrow> sm_ctrl_req_data res" where
  "on_control_req_rlc_sm_ric req =
    (case req of Rlc_ctrl hdr act \<Rightarrow>
        res_bind (c_assert (hdr = 0)) (\<lambda>_.
        res_bind (c_assert (act = 42)) (\<lambda>_.
        Inr \<lparr>scd_hdr = rlc_enc_ctrl_hdr_plain hdr, scd_msg = rlc_enc_ctrl_msg_plain act\<rparr>))
     | _ \<Rightarrow> Inl AssertFail)"

definition make_rlc_sm_ric :: "(sm_ag_if_wr, sm_stats) sm_ric" where
  "make_rlc_sm_ric = \<lparr>on_subscription = on_subscription_rlc_sm_ric, on_indication = on_indication_rlc_sm_ric,
    on_control_req = on_control_req_rlc_sm_ric, sm_ran_func_id = 143\<rparr>"

definition on_subscription_rlc_sm_ag :: "'st \<Rightarrow> sm_subs_data \<Rightarrow> (int \<times> 'st) res" where
  "on_subscription_rlc_sm_ag st data =
    res_bind (rlc_dec_event_trigger_plain (sd_event_trigger data)) (\<lambda>ms. Inr (uint ms, st))"

definition on_indication_rlc_sm_ag :: "'st sm_io_ag \<Rightarrow> 'st \<Rightarrow> (sm_ind_data \<times> 'st) res" where
  "on_indication_rlc_sm_ag rio st =
    (let (ind, st') = io_read_rlc rio st in
     res_bind (rlc_enc_ind_msg_plain (io_pad rio st') (rlc_msg ind)) (\<lambda>ba.
     Inr (\<lparr>sid_hdr = rlc_enc_ind_hdr_plain 0, sid_msg = ba, sid_call_process_id = None\<rparr>, st')))"

definition on_control_rlc_sm_ag ::
  "'st sm_io_ag \<Rightarrow> 'st \<Rightarrow> sm_ctrl_req_data \<Rightarrow> (byte_array \<times> 'st) res" where
  "on_control_rlc_sm_ag rio st data =
    res_bind (rlc_dec_ctrl_hdr_plain (scd_hdr data)) (\<lambda>hdr.
    res_bind (c_assert (hdr = 0)) (\<lambda>_.
    res_bind (rlc_dec_ctrl_msg_plain (scd_msg data)) (\<lambda>act.
    res_bind (c_assert (act = 42)) (\<lambda>_.
    let (ans, st') = io_write rio (Rlc_ctrl 0 act) st in Inr ([], st')))))"

definition on_e2_setup_rlc_sm_ag :: byte_array where
  "on_e2_setup_rlc_sm_ag = str_bytes ''RLC_STATS_V0''"

definition make_rlc_sm_agent :: "'st sm_io_ag \<Rightarrow> 'st sm_agent" where
  "make_rlc_sm_agent rio = \<lparr>ag_on_subscription = on_subscription_rlc_sm_ag, ag_on_indication = on_indication_rlc_sm_ag rio,
    ag_on_control = on_control_rlc_sm_ag rio, ag_on_e2_setup = Inr on_e2_setup_rlc_sm_ag, ag_ran_func_id = 143\<rparr>"

section \<open>PDCP\<close>

definition on_subscription_pdcp_sm_ric :: "string \<Rightarrow> sm_subs_data res" where
  "on_subscription_pdcp_sm_ric cmd =
    res_bind (cmd_ms cmd) (\<lambda>ms.
    Inr \<lparr>sd_event_trigger = pdcp_enc_event_trigger_plain ms, sd_action_def = None\<rparr>)"

definition on_indication_pdcp_sm_ric :: "sm_ind_data \<Rightarrow> sm_stats sm_ag_if_rd res" where
  "on_indication_pdcp_sm_ric d =
    res_bind (pdcp_dec_ind_hdr_plain (sid_hdr d)) (\<lambda>h.
    res_bind (pdcp_dec_ind_msg_plain (sid_msg d)) (\<lambda>m.
    Inr \<lparr>rd_type = PDCP_STATS_V0, rd_stats = Pdcp_stats \<lparr>pdcp_hdr = h, pdcp_msg = m, pdcp_proc_id = None\<rparr>\<rparr>))"

definition on_control_req_pdcp_sm_ric :: "sm_ag_if_wr \<Rightarrow> sm_ctrl_req_data res" where
  "on_control_req_pdcp_sm_ric req =
    (case req of Pdcp_ctrl hdr act \<Rightarrow>
        Inr \<lparr>scd_hdr = pdcp_enc_ctrl_hdr_plain hdr, scd_msg = pdcp_enc_ctrl_msg_plain act\<rparr>
     | _ \<Rightarrow> Inl AssertFail)"

definition on_control_out_pdcp_sm_ric :: "byte_array \<Rightarrow> sm_ag_if_ans res" where
  "on_control_out_pdcp_sm_ric out =
    res_bind (c_assert (0 < length out)) (\<lambda>_.
    res_bind (pdcp_dec_ctrl_out_plain out) (\<lambda>a. Inr (Pdcp_ans a)))"

definition make_pdcp_sm_ric :: "(sm_ag_if_wr, sm_stats) sm_ric" where
  "make_pdcp_sm_ric = \<lparr>on_subscription = on_subscription_pdcp_sm_ric, on_indication = on_indication_pdcp_sm_ric,
    on_control_req = on_control_req_pdcp_sm_ric, sm_ran_func_id = 144\<rparr>"

definition on_subscription_pdcp_sm_ag :: "'st \<Rightarrow> sm_subs_data \<Rightarrow> (int \<times> 'st) res" where
  "on_subscription_pdcp_sm_ag st data =
    res_bind (pdcp_dec_event_trigger_plain (sd_event_trigger data)) (\<lambda>ms. Inr (uint ms, st))"

text \<open>The statistics are freed when the function is left, after the encoding.\<close>

definition on_indication_pdcp_sm_ag :: "'st sm_io_ag \<Rightarrow> 'st \<Rightarrow> (sm_ind_data \<times> 'st) res" where
  "on_indication_pdcp_sm_ag rio st =
    (let (ind, st') = io_read_pdcp rio st in
     res_bind (pdcp_enc_ind_msg_plain (io_pad rio st') (pdcp_msg ind)) (\<lambda>ba.
     res_bind (free_pdcp_ind_msg (pdcp_msg ind)) (\<lambda>_.
     Inr (\<lparr>sid_hdr = pdcp_enc_ind_hdr_plain 0, sid_msg = ba, sid_call_process_id = None\<rparr>, st'))))"

definition on_control_pdcp_sm_ag ::
  "'st sm_io_ag \<Rightarrow> 'st \<Rightarrow> sm_ctrl_req_data \<Rightarrow> (byte_array \<times> 'st) res" where
  "on_control_pdcp_sm_ag rio st data =
    res_bind (pdcp_dec_ctrl_hdr_plain (scd_hdr data)) (\<lambda>hdr.
    res_bind (c_assert (hdr = 0)) (\<lambda>_.
    res_bind (pdcp_dec_ctrl_msg_plain (scd_msg data)) (\<lambda>act.
    res_bind (c_assert (act = 42)) (\<lambda>_.
    let (ans, st') = io_write rio (Pdcp_ctrl 0 (cp_pdcp_ctrl_msg act)) st in
    (case ans of Pdcp_ans out \<Rightarrow> Inr (pdcp_enc_ctrl_out_plain out, st') | _ \<Rightarrow> Inl AssertFail)))))"

definition on_e2_setup_pdcp_sm_ag :: byte_array where
  "on_e2_setup_pdcp_sm_ag = str_bytes ''PDCP_STATS_V0''"

definition make_pdcp_sm_agent :: "'st sm_io_ag \<Rightarrow> 'st sm_agent" where
  "make_pdcp_sm_agent rio = \<lparr>ag_on_subscription = on_subscription_pdcp_sm_ag, ag_on_indication = on_indication_pdcp_sm_ag rio,
    ag_on_control = on_control_pdcp_sm_ag rio, ag_on_e2_setup = Inr on_e2_setup_pdcp_sm_ag, ag_ran_func_id = 144\<rparr>"

section \<open>GTP\<close>

definition on_subscription_gtp_sm_ric :: "string \<Rightarrow> sm_subs_data res" where
  "on_subscription_gtp_sm_ric cmd =
    res_bind (cmd_ms cmd) (\<lambda>ms.
    Inr \<lparr>sd_event_trigger = gtp_enc_event_trigger_plain ms, sd_action_def = None\<rparr>)"

definition on_indication_gtp_sm_ric :: "sm_ind_data \<Rightarrow> sm_stats sm_ag_if_rd res" where
  "on_indication_gtp_sm_ric d =
    res_bind (gtp_dec_ind_msg_plain (sid_msg d)) (\<lambda>m.
    res_bind (gtp_dec_ind_hdr_plain (sid_hdr d)) (\<lambda>h.
    Inr \<lparr>rd_type = GTP_STATS_V0, rd_stats = Gtp_stats \<lparr>gtp_hdr = h, gtp_msg = m, gtp_proc_id = None\<rparr>\<rparr>))"

definition on_control_req_gtp_sm_ric :: "sm_ag_if_wr \<Rightarrow> sm_ctrl_req_data res" where
  "on_control_req_gtp_sm_ric req =
    (case req of Gtp_ctrl hdr act \<Rightarrow>
        res_bind (c_assert (hdr = 0)) (\<lambda>_.
        res_bind (c_assert (act = 42)) (\<lambda>_.
        Inr \<lparr>scd_hdr = gtp_enc_ctrl_hdr_plain hdr, scd_msg = gtp_enc_ctrl_msg_plain act\<rparr>))
     | _ \<Rightarrow> Inl AssertFail)"

definition make_gtp_sm_ric :: "(sm_ag_if_wr, sm_stats) sm_ric" where
  "make_gtp_sm_ric = \<lparr>on_subscription = on_subscription_gtp_sm_ric, on_indication = on_indication_gtp_sm_ric,
    on_control_req = on_control_req_gtp_sm_ric, sm_ran_func_id = 148\<rparr>"

definition on_subscription_gtp_sm_ag :: "'st \<Rightarrow> sm_subs_data \<Rightarrow> (int \<times> 'st) res" where
  "on_subscription_gtp_sm_ag st data =
    res_bind (gtp_dec_event_trigger_plain (sd_event_trigger data)) (\<lambda>ms. Inr (uint ms, st))"

definition on_indication_gtp_sm_ag :: "'st sm_io_ag \<Rightarrow> 'st \<Rightarrow> (sm_ind_data \<times> 'st) res" where
  "on_indication_gtp_sm_ag rio st =
    (let (ind, st') = io_read_gtp rio st in
     res_bind (gtp_enc_ind_msg_plain (io_pad rio st') (gtp_msg ind)) (\<lambda>ba.
     Inr (\<lparr>sid_hdr = gtp_enc_ind_hdr_plain 0, sid_msg = ba, sid_call_process_id = None\<rparr>, st')))"

definition on_control_gtp_sm_ag ::
  "'st sm_io_ag \<Rightarrow> 'st \<Rightarrow> sm_ctrl_req_data \<Rightarrow> (byte_array \<times> 'st) res" where
  "on_control_gtp_sm_ag rio st data =
    res_bind (gtp_dec_ctrl_hdr_plain (scd_hdr data)) (\<lambda>hdr.
    res_bind (c_assert (hdr = 0)) (\<lambda>_.
    res_bind (gtp_dec_ctrl_msg_plain (scd_msg data)) (\<lambda>act.
    res_bind (c_assert (act = 42)) (\<lambda>_.
    let (ans, st') = io_write rio (Gtp_ctrl 0 act) st in Inr ([], st')))))"

definition on_e2_setup_gtp_sm_ag :: byte_array where
  "on_e2_setup_gtp_sm_ag = str_bytes ''GTP_STATS_V0''"

definition make_gtp_sm_agent :: "'st sm_io_ag \<Rightarrow> 'st sm_agent" where
  "make_gtp_sm_agent rio = \<lparr>ag_on_subscription = on_subscription_gtp_sm_ag, ag_on_indication = on_indication_gtp_sm_ag rio,
    ag_on_control = on_control_gtp_sm_ag rio, ag_on_e2_setup = Inr on_e2_setup_gtp_sm_ag, ag_ran_func_id = 148\<rparr>"

section \<open>SLICE\<close>

definition on_subscription_slice_sm_ric :: "string \<Rightarrow> sm_subs_data res" where
  "on_subscription_slice_sm_ric cmd =
    res_bind (cmd_ms cmd) (\<lambda>ms.
    Inr \<lparr>sd_event_trigger = slice_enc_event_trigger_plain ms, sd_action_def = None\<rparr>)"

text \<open>The header is not decoded: it is zero.\<close>

definition on_indication_slice_sm_ric :: "sm_ind_data \<Rightarrow> sm_stats sm_ag_if_rd res" where
  "on_indication_slice_sm_ric d =
    res_bind (slice_dec_ind_msg_plain (sid_msg d)) (\<lambda>m.
    Inr \<lparr>rd_type = SLICE_STATS_V0, rd_stats = Slice_stats \<lparr>slice_hdr = 0, slice_msg = m, slice_proc_id = None\<rparr>\<rparr>)"

definition ric_on_control_req_slice_sm_ric :: "sm_ag_if_wr \<Rightarrow> sm_ctrl_req_data res" where
  "ric_on_control_req_slice_sm_ric req =
    (case req of Slice_ctrl hdr m \<Rightarrow>
        res_bind (slice_enc_ctrl_msg_plain m) (\<lambda>ba.
        Inr \<lparr>scd_hdr = slice_enc_ctrl_hdr_plain hdr, scd_msg = ba\<rparr>)
     | _ \<Rightarrow> Inl AssertFail)"

definition ric_on_control_out_slice_sm_ric :: "byte_array \<Rightarrow> sm_ag_if_ans res" where
  "ric_on_control_out_slice_sm_ric out =
    res_bind (slice_dec_ctrl_out_plain out) (\<lambda>a.
    res_bind (c_assert (0 < len_diag a)) (\<lambda>_. Inr (Slice_ans a)))"

definition make_slice_sm_ric :: "(sm_ag_if_wr, sm_stats) sm_ric" where
  "make_slice_sm_ric = \<lparr>on_subscription = on_subscription_slice_sm_ric, on_indication = on_indication_slice_sm_ric,
    on_control_req = ric_on_control_req_slice_sm_ric, sm_ran_func_id = 145\<rparr>"

definition on_subscription_slice_sm_ag :: "'st \<Rightarrow> sm_subs_data \<Rightarrow> (int \<times> 'st) res" where
  "on_subscription_slice_sm_ag st data =
    res_bind (slice_dec_event_trigger_plain (sd_event_trigger data)) (\<lambda>ms. Inr (uint ms, st))"

text \<open>The statistics are freed when the function is left, in the order opposite to the declarations: the message as
  the encoder left it.\<close>

definition on_indication_slice_sm_ag :: "'st sm_io_ag \<Rightarrow> 'st \<Rightarrow> (sm_ind_data \<times> 'st) res" where
  "on_indication_slice_sm_ag rio st =
    (let (ind, st') = io_read_slice rio st; m = slice_msg ind in
     res_bind (slice_enc_ind_msg_plain m) (\<lambda>ba.
     res_bind (free_slice_call_proc_id (slice_proc_id ind)) (\<lambda>_.
     res_bind (free_slice_ind_msg (m\<lparr>ind_slice_conf := conf_zeroed (ind_slice_conf m)\<rparr>)) (\<lambda>_.
     Inr (\<lparr>sid_hdr = slice_enc_ind_hdr_plain 0, sid_msg = ba, sid_call_process_id = None\<rparr>, st')))))"

definition on_control_slice_sm_ag ::
  "'st sm_io_ag \<Rightarrow> 'st \<Rightarrow> sm_ctrl_req_data \<Rightarrow> (byte_array \<times> 'st) res" where
  "on_control_slice_sm_ag rio st data =
    res_bind (slice_dec_ctrl_hdr_plain (scd_hdr data)) (\<lambda>hdr.
    res_bind (slice_dec_ctrl_msg_plain (scd_msg data)) (\<lambda>m.
    let (ans, st') = io_write rio (Slice_ctrl hdr m) st in
    (case ans of Slice_ans out \<Rightarrow>
        res_bind (slice_enc_ctrl_out_plain out) (\<lambda>ba.
        res_bind (free_slice_ctrl_out out) (\<lambda>_.
        res_bind (free_slice_ctrl_msg m) (\<lambda>_. Inr (ba, st'))))
     | _ \<Rightarrow> Inl AssertFail)))"

definition on_e2_setup_slice_sm_ag :: byte_array where
  "on_e2_setup_slice_sm_ag = str_bytes ''SLICE_STATS_V0''"

definition make_slice_sm_agent :: "'st sm_io_ag \<Rightarrow> 'st sm_agent" where
  "make_slice_sm_agent rio = \<lparr>ag_on_subscription = on_subscription_slice_sm_ag, ag_on_indication = on_indication_slice_sm_ag rio,
    ag_on_control = on_control_slice_sm_ag rio, ag_on_e2_setup = Inr on_e2_setup_slice_sm_ag, ag_ran_func_id = 145\<rparr>"

section \<open>TC\<close>

definition on_subscription_tc_sm_ric :: "string \<Rightarrow> sm_subs_data res" where
  "on_subscription_tc_sm_ric cmd =
    res_bind (cmd_ms cmd) (\<lambda>ms.
    Inr \<lparr>sd_event_trigger = tc_enc_event_trigger_plain ms, sd_action_def = None\<rparr>)"

text \<open>The header is not decoded: it is zero.\<close>

definition on_indication_tc_sm_ric :: "sm_ind_data \<Rightarrow> sm_stats sm_ag_if_rd res" where
  "on_indication_tc_sm_ric d =
    res_bind (tc_dec_ind_msg_plain (sid_msg d)) (\<lambda>m.
    Inr \<lparr>rd_type = TC_STATS_V0, rd_stats = Tc_stats \<lparr>tc_hdr = 0, tc_msg = m, tc_proc_id = None\<rparr>\<rparr>)"

text \<open>\<open>pad\<close> is the padding of a filter in the message of the caller.\<close>

definition ric_on_control_req_tc_sm_ric :: "(nat \<Rightarrow> u8) \<Rightarrow> sm_ag_if_wr \<Rightarrow> sm_ctrl_req_data res" where
  "ric_on_control_req_tc_sm_ric pad req =
    (case req of Tc_ctrl hdr m \<Rightarrow>
        res_bind (tc_enc_ctrl_msg_plain pad m) (\<lambda>ba.
        Inr \<lparr>scd_hdr = tc_enc_ctrl_hdr_plain hdr, scd_msg = ba\<rparr>)
     | _ \<Rightarrow> Inl AssertFail)"

definition ric_on_control_out_tc_sm_ric :: "byte_array \<Rightarrow> sm_ag_if_ans res" where
  "ric_on_control_out_tc_sm_ric out = res_bind (tc_dec_ctrl_out_plain out) (\<lambda>a. Inr (Tc_ans a))"

definition make_tc_sm_ric :: "(nat \<Rightarrow> u8) \<Rightarrow> (sm_ag_if_wr, sm_stats) sm_ric" where
  "make_tc_sm_ric pad = \<lparr>on_subscription = on_subscription_tc_sm_ric, on_indication = on_indication_tc_sm_ric,
    on_control_req = ric_on_control_req_tc_sm_ric pad, sm_ran_func_id = 146\<rparr>"

definition on_subscription_tc_sm_ag :: "'st \<Rightarrow> sm_subs_data \<Rightarrow> (int \<times> 'st) res" where
  "on_subscription_tc_sm_ag st data =
    res_bind (tc_dec_event_trigger_plain (sd_event_trigger data)) (\<lambda>ms. Inr (uint ms, st))"

definition on_indication_tc_sm_ag :: "'st sm_io_ag \<Rightarrow> 'st \<Rightarrow> (sm_ind_data \<times> 'st) res" where
  "on_indication_tc_sm_ag rio st =
    (let (ind, st') = io_read_tc rio st in
     res_bind (tc_enc_ind_msg_plain (io_pad rio st') (tc_msg ind)) (\<lambda>ba.
     res_bind (free_tc_call_proc_id (tc_proc_id ind)) (\<lambda>_.
     res_bind (free_tc_ind_msg (tc_msg ind)) (\<lambda>_.
     Inr (\<lparr>sid_hdr = tc_enc_ind_hdr_plain 0, sid_msg = ba, sid_call_process_id = None\<rparr>, st')))))"

definition on_control_tc_sm_ag ::
  "'st sm_io_ag \<Rightarrow> 'st \<Rightarrow> sm_ctrl_req_data \<Rightarrow> (byte_array \<times> 'st) res" where
  "on_control_tc_sm_ag rio st data =
    res_bind (tc_dec_ctrl_hdr_plain (scd_hdr data)) (\<lambda>hdr.
    res_bind (tc_dec_ctrl_msg_plain (scd_msg data)) (\<lambda>m.
    let (ans, st') = io_write rio (Tc_ctrl hdr m) st in
    (case ans of Tc_ans out \<Rightarrow>
        res_bind (free_tc_ctrl_msg m) (\<lambda>_. Inr (tc_enc_ctrl_out_plain out, st'))
     | _ \<Rightarrow> Inl AssertFail)))"

definition on_e2_setup_tc_sm_ag :: byte_array where
  "on_e2_setup_tc_sm_ag = str_bytes ''TC_STATS_V0''"

definition make_tc_sm_agent :: "'st sm_io_ag \<Rightarrow> 'st sm_agent" where
  "make_tc_sm_agent rio = \<lparr>ag_on_subscription = on_subscription_tc_sm_ag, ag_on_indication = on_indication_tc_sm_ag rio,
    ag_on_control = on_control_tc_sm_ag rio, ag_on_e2_setup = Inr on_e2_setup_tc_sm_ag, ag_ran_func_id = 146\<rparr>"

section \<open>KPM\<close>

text \<open>The action definition that every subscription carries: one measurement by its name, whose length
  counts the terminating zero, with one label that says that there is none.\<close>

definition dummy_action_def :: kpm_action_def where
  "dummy_action_def =
    \<lparr>ric_style_type = 1, granularity_period = 1,
     ad_MeasInfo = [\<lparr>meas_type = KPM_V2_MEASUREMENT_TYPE_NAME, measName = str_bytes ''test'' @ [0], measID = 0,
       labelInfo = [no_label_info\<lparr>noLabel := Some 0\<rparr>]\<rparr>],
     cell_global_id = KPMV2_CELL_ID_CHOICE_NOTHING, nRCellIdentity = 0, pLMNIdentity = [], eUTRACellIdentity = 0\<rparr>"

definition on_subscription_kpm_sm_ric :: "kpm_codec \<Rightarrow> string \<Rightarrow> sm_subs_data res" where
  "on_subscription_kpm_sm_ric c cmd =
    res_bind (cmd_ms cmd) (\<lambda>ms.
    res_bind (kpm_enc_event_trigger_asn c (ucast ms)) (\<lambda>ba.
    res_bind (kpm_enc_action_def_asn c dummy_action_def) (\<lambda>ba_ad.
    Inr \<lparr>sd_event_trigger = ba, sd_action_def = Some ba_ad\<rparr>)))"

definition on_indication_kpm_sm_ric :: "kpm_codec \<Rightarrow> sm_ind_data \<Rightarrow> sm_stats sm_ag_if_rd res" where
  "on_indication_kpm_sm_ric c d =
    res_bind (kpm_dec_ind_msg_asn c (sid_msg d)) (\<lambda>m.
    res_bind (kpm_dec_ind_hdr_asn c (sid_hdr d)) (\<lambda>h.
    Inr \<lparr>rd_type = KPM_STATS_V0, rd_stats = Kpm_stats \<lparr>kpm_hdr = h, kpm_msg = m\<rparr>\<rparr>))"

definition ric_on_e2_setup_kpm_sm_ric :: "kpm_codec \<Rightarrow> byte_array \<Rightarrow> unit res" where
  "ric_on_e2_setup_kpm_sm_ric c ran_fun_def = res_bind (kpm_dec_func_def_asn c ran_fun_def) (\<lambda>fdef. Inr ())"

text \<open>The pointers to the procedures of a control are null on both sides.\<close>

definition make_kpm_sm_ric :: "kpm_codec \<Rightarrow> (sm_ag_if_wr, sm_stats) sm_ric" where
  "make_kpm_sm_ric c = \<lparr>on_subscription = on_subscription_kpm_sm_ric c, on_indication = on_indication_kpm_sm_ric c,
    on_control_req = (\<lambda>_. Inl NullDeref), sm_ran_func_id = 147\<rparr>"

text \<open>The period is read into 64 bits and kept in 32.\<close>

definition on_subscription_kpm_sm_ag :: "kpm_codec \<Rightarrow> 'st \<Rightarrow> sm_subs_data \<Rightarrow> (int \<times> 'st) res" where
  "on_subscription_kpm_sm_ag c st data =
    res_bind (kpm_dec_event_trigger_asn c (sd_event_trigger data)) (\<lambda>ms.
    res_bind (case sd_action_def data of
                None \<Rightarrow> Inr ()
              | Some b \<Rightarrow> if b = [] then Inr () else res_bind (kpm_dec_action_def_asn c b) (\<lambda>acd. Inr ())) (\<lambda>_.
    Inr (uint (ucast ms :: u32), st)))"

definition on_indication_kpm_sm_ag :: "kpm_codec \<Rightarrow> 'st sm_io_ag \<Rightarrow> 'st \<Rightarrow> (sm_ind_data \<times> 'st) res" where
  "on_indication_kpm_sm_ag c rio st =
    (let (ind, st') = io_read_kpm rio st in
     res_bind (kpm_enc_ind_hdr_asn c (kpm_hdr ind)) (\<lambda>ba_hdr.
     res_bind (kpm_enc_ind_msg_asn c (kpm_msg ind)) (\<lambda>ba.
     Inr (\<lparr>sid_hdr = ba_hdr, sid_msg = ba, sid_call_process_id = None\<rparr>, st'))))"

definition kpm_announced_def :: kpm_func_def where
  "kpm_announced_def =
    \<lparr>ShortName = str_bytes ''ORAN-E2SM-KPM'', E2SM_OID = str_bytes ''1.3.6.1.4.1.53148.1.2.2.2'',
     Description = str_bytes ''KPM Monitor'', ranFunction_Instance = None, ric_EventTriggerStyle_List_len = 0,
     ric_ReportStyle_List_len = 0\<rparr>"

definition on_e2_setup_kpm_sm_ag :: "kpm_codec \<Rightarrow> byte_array res" where
  "on_e2_setup_kpm_sm_ag c = kpm_enc_func_def_asn c kpm_announced_def"

definition make_kpm_sm_agent :: "kpm_codec \<Rightarrow> 'st sm_io_ag \<Rightarrow> 'st sm_agent" where
  "make_kpm_sm_agent c rio = \<lparr>ag_on_subscription = on_subscription_kpm_sm_ag c,
    ag_on_indication = on_indication_kpm_sm_ag c rio, ag_on_control = (\<lambda>_ _. Inl NullDeref),
    ag_on_e2_setup = on_e2_setup_kpm_sm_ag c, ag_ran_func_id = 147\<rparr>"

end
