(* ===== verification/SliceWire.thy ===== *)
theory SliceWire
  imports SliceCodec
begin

text \<open>
  The format of the SLICE model, and that size, writer and reader of every type agree with it.
  \<open>ok_*\<close> says what the encoder needs of a value: known tags, and at least the announced number of
  elements in every array.
\<close>

section \<open>Well-formed values\<close>

definition ok_nvs :: "nvs_slice \<Rightarrow> bool" where
  "ok_nvs n \<longleftrightarrow> (case n of Nvs_unknown v \<Rightarrow> False | _ \<Rightarrow> True)"

definition ok_scn19 :: "scn19_slice \<Rightarrow> bool" where
  "ok_scn19 s \<longleftrightarrow> (case s of Scn19_unknown v \<Rightarrow> False | _ \<Rightarrow> True)"

definition ok_params :: "slice_params \<Rightarrow> bool" where
  "ok_params p \<longleftrightarrow> (case p of Slice_nvs n \<Rightarrow> ok_nvs n | Slice_scn19 s \<Rightarrow> ok_scn19 s | Slice_unknown v \<Rightarrow> False | _ \<Rightarrow> True)"

definition ok_slice :: "fr_slice \<Rightarrow> bool" where
  "ok_slice s \<longleftrightarrow> unat (sl_len_label s) \<le> length (sl_label s) \<and> unat (sl_len_sched s) \<le> length (sl_sched s) \<and>
    ok_params (sl_params s)"

definition ok_ul_dl :: "ul_dl_slice_conf \<Rightarrow> bool" where
  "ok_ul_dl c \<longleftrightarrow> unat (len_sched_name c) \<le> length (sched_name c) \<and> unat (len_slices c) \<le> length (slices c) \<and>
    list_all ok_slice (take (unat (len_slices c)) (slices c))"

definition ok_conf :: "slice_conf \<Rightarrow> bool" where
  "ok_conf c \<longleftrightarrow> ok_ul_dl (sc_dl c) \<and> ok_ul_dl (sc_ul c)"

definition ok_ue_conf :: "ue_slice_conf \<Rightarrow> bool" where
  "ok_ue_conf c \<longleftrightarrow> unat (len_ue_slice c) \<le> length (ues c)"

definition ok_slice_msg :: "slice_ind_msg \<Rightarrow> bool" where
  "ok_slice_msg m \<longleftrightarrow> ok_conf (ind_slice_conf m) \<and> ok_ue_conf (ind_ue_slice_conf m)"

definition ok_del :: "del_slice_conf \<Rightarrow> bool" where
  "ok_del c \<longleftrightarrow> unat (len_dl c) \<le> length (del_dl c) \<and> unat (len_ul c) \<le> length (del_ul c)"

definition ok_slice_ctrl :: "slice_ctrl_msg \<Rightarrow> bool" where
  "ok_slice_ctrl m \<longleftrightarrow>
    (case m of Add_mod_slice c \<Rightarrow> ok_conf c | Del_slice c \<Rightarrow> ok_del c | Ue_slice c \<Rightarrow> ok_ue_conf c
     | Slice_ctrl_unknown v \<Rightarrow> False)"

definition ok_slice_out :: "slice_ctrl_out \<Rightarrow> bool" where
  "ok_slice_out ctrl \<longleftrightarrow> unat (len_diag ctrl) \<le> length (diagnostic ctrl)"

section \<open>The format\<close>

definition static_bytes :: "static_slice \<Rightarrow> byte_array" where
  "static_bytes s = concat [le (pos_high s), le (pos_low s)]"

definition rate_bytes :: "nvs_rate \<Rightarrow> byte_array" where
  "rate_bytes r = concat [le (mbps_reference r), le (mbps_required r)]"

definition nvs_bytes :: "nvs_slice \<Rightarrow> byte_array" where
  "nvs_bytes n = concat [le (nvs_conf n),
    (case n of Nvs_rate r \<Rightarrow> rate_bytes r | Nvs_capacity c \<Rightarrow> le c | Nvs_unknown v \<Rightarrow> [])]"

definition on_demand_bytes :: "scn19_on_demand \<Rightarrow> byte_array" where
  "on_demand_bytes d = concat [le (od_log_delta d), le (od_pct_reserved d), le (od_tau d)]"

definition scn19_bytes :: "scn19_slice \<Rightarrow> byte_array" where
  "scn19_bytes s = concat [le (scn19_conf s),
    (case s of Scn19_dynamic r \<Rightarrow> rate_bytes r | Scn19_fixed f \<Rightarrow> static_bytes f
     | Scn19_on_demand d \<Rightarrow> on_demand_bytes d | Scn19_unknown v \<Rightarrow> [])]"

definition edf_bytes :: "edf_slice \<Rightarrow> byte_array" where
  "edf_bytes e = concat [le (deadline e), le (guaranteed_prbs e), le (max_replenish e), le (len_over e),
    elem_bytes le (unat (len_over e)) (replicate (unat (len_over e)) (0 :: u32))]"

definition params_bytes :: "slice_params \<Rightarrow> byte_array" where
  "params_bytes p = concat [le (params_type p),
    (case p of Slice_static s \<Rightarrow> static_bytes s | Slice_nvs n \<Rightarrow> nvs_bytes n | Slice_scn19 s \<Rightarrow> scn19_bytes s
     | Slice_edf e \<Rightarrow> edf_bytes e | Slice_unknown v \<Rightarrow> [])]"

definition slice_bytes :: "fr_slice \<Rightarrow> byte_array" where
  "slice_bytes s = concat [le (sl_id s), le (sl_len_label s), take (unat (sl_len_label s)) (sl_label s),
    le (sl_len_sched s), take (unat (sl_len_sched s)) (sl_sched s), params_bytes (sl_params s)]"

definition ul_dl_bytes :: "ul_dl_slice_conf \<Rightarrow> byte_array" where
  "ul_dl_bytes c = concat [le (len_sched_name c), take (unat (len_sched_name c)) (sched_name c), le (len_slices c),
    elem_bytes slice_bytes (unat (len_slices c)) (slices c)]"

definition conf_bytes :: "slice_conf \<Rightarrow> byte_array" where
  "conf_bytes c = concat [ul_dl_bytes (sc_dl c), ul_dl_bytes (sc_ul c)]"

definition assoc_bytes :: "ue_slice_assoc \<Rightarrow> byte_array" where
  "assoc_bytes a = concat [le (ue_dl_id a), le (ue_ul_id a), le (ue_rnti a)]"

definition ue_conf_bytes :: "ue_slice_conf \<Rightarrow> byte_array" where
  "ue_conf_bytes c = concat [le (len_ue_slice c), elem_bytes assoc_bytes (unat (len_ue_slice c)) (ues c)]"

definition slice_msg_bytes :: "slice_ind_msg \<Rightarrow> byte_array" where
  "slice_msg_bytes m = concat [conf_bytes (ind_slice_conf m), ue_conf_bytes (ind_ue_slice_conf m), le (sl_tstamp m)]"

definition del_bytes :: "del_slice_conf \<Rightarrow> byte_array" where
  "del_bytes c = concat [le (len_dl c), elem_bytes le (unat (len_dl c)) (del_dl c),
    le (len_ul c), elem_bytes le (unat (len_ul c)) (del_ul c)]"

definition slice_ctrl_bytes :: "slice_ctrl_msg \<Rightarrow> byte_array" where
  "slice_ctrl_bytes m = concat [le (slice_ctrl_type m),
    (case m of Add_mod_slice c \<Rightarrow> conf_bytes c | Del_slice c \<Rightarrow> del_bytes c | Ue_slice c \<Rightarrow> ue_conf_bytes c
     | Slice_ctrl_unknown v \<Rightarrow> [])]"

section \<open>What a reader returns\<close>

definition seen_str :: "u32 \<Rightarrow> byte_array \<Rightarrow> byte_array" where
  "seen_str n bs = (if 0 < n then take (unat n) bs @ [0] else [])"

definition seen_params :: "slice_params \<Rightarrow> slice_params" where
  "seen_params p =
    (case p of Slice_edf e \<Rightarrow> Slice_edf (e\<lparr>over := replicate (unat (len_over e)) 0\<rparr>) | _ \<Rightarrow> p)"

definition seen_slice :: "fr_slice \<Rightarrow> fr_slice" where
  "seen_slice s = \<lparr>sl_id = sl_id s, sl_len_label = sl_len_label s, sl_label = seen_str (sl_len_label s) (sl_label s),
    sl_len_sched = sl_len_sched s, sl_sched = seen_str (sl_len_sched s) (sl_sched s), sl_params = seen_params (sl_params s)\<rparr>"

definition seen_ul_dl :: "ul_dl_slice_conf \<Rightarrow> ul_dl_slice_conf" where
  "seen_ul_dl c = \<lparr>len_slices = len_slices c, slices = map seen_slice (take (unat (len_slices c)) (slices c)),
    len_sched_name = len_sched_name c, sched_name = seen_str (len_sched_name c) (sched_name c)\<rparr>"

definition seen_conf :: "slice_conf \<Rightarrow> slice_conf" where
  "seen_conf c = \<lparr>sc_dl = seen_ul_dl (sc_dl c), sc_ul = seen_ul_dl (sc_ul c)\<rparr>"

definition seen_ue_conf :: "ue_slice_conf \<Rightarrow> ue_slice_conf" where
  "seen_ue_conf c = \<lparr>len_ue_slice = len_ue_slice c, ues = take (unat (len_ue_slice c)) (ues c)\<rparr>"

definition seen_slice_msg :: "slice_ind_msg \<Rightarrow> slice_ind_msg" where
  "seen_slice_msg m = \<lparr>ind_slice_conf = seen_conf (ind_slice_conf m),
    ind_ue_slice_conf = seen_ue_conf (ind_ue_slice_conf m), sl_tstamp = sl_tstamp m\<rparr>"

definition seen_del :: "del_slice_conf \<Rightarrow> del_slice_conf" where
  "seen_del c = \<lparr>len_dl = len_dl c, del_dl = take (unat (len_dl c)) (del_dl c),
    len_ul = len_ul c, del_ul = take (unat (len_ul c)) (del_ul c)\<rparr>"

definition seen_slice_ctrl :: "slice_ctrl_msg \<Rightarrow> slice_ctrl_msg" where
  "seen_slice_ctrl m =
    (case m of Add_mod_slice c \<Rightarrow> Add_mod_slice (seen_conf c) | Del_slice c \<Rightarrow> Del_slice (seen_del c)
     | Ue_slice c \<Rightarrow> Ue_slice (seen_ue_conf c) | Slice_ctrl_unknown v \<Rightarrow> m)"

definition seen_slice_out :: "slice_ctrl_out \<Rightarrow> slice_ctrl_out" where
  "seen_slice_out ctrl = \<lparr>out_ans = 0, len_diag = len_diag ctrl, diagnostic = take (unat (len_diag ctrl)) (diagnostic ctrl)\<rparr>"

section \<open>Writers write the format\<close>

lemma writes_static [wire]: "writes (fill_static s) (static_bytes s)"
  unfolding fill_static_def static_bytes_def by (rule writes_in, rule writes_seq) (simp_all add: wire)

lemma writes_rate [wire]: "writes (fill_rate r) (rate_bytes r)"
  unfolding fill_rate_def rate_bytes_def by (rule writes_seq) (simp add: wire)

lemma writes_nvs [wire]: "ok_nvs n \<Longrightarrow> writes (fill_nvs n) (nvs_bytes n)"
  unfolding fill_nvs_def nvs_bytes_def
  by (rule writes_seq) (simp add: wire ok_nvs_def fill_capacity_def split: nvs_slice.splits)

lemma writes_on_demand [wire]: "writes (fill_on_demand d) (on_demand_bytes d)"
  unfolding fill_on_demand_def on_demand_bytes_def by (rule writes_seq) (simp add: wire)

lemma writes_scn19 [wire]: "ok_scn19 s \<Longrightarrow> writes (fill_scn19 s) (scn19_bytes s)"
  unfolding fill_scn19_def scn19_bytes_def
  by (rule writes_seq) (simp add: wire ok_scn19_def split: scn19_slice.splits)

lemma writes_edf [wire]: "writes (fill_edf e) (edf_bytes e)"
  unfolding fill_edf_def edf_bytes_def by (rule writes_seq) (simp add: wire)

lemma writes_params [wire]: "ok_params p \<Longrightarrow> writes (fill_params p) (params_bytes p)"
  unfolding fill_params_def params_bytes_def
  by (rule writes_seq) (simp add: wire ok_params_def split: slice_params.splits)

lemma writes_slice: "ok_slice s \<Longrightarrow> writes (fill_slice s) (slice_bytes s)"
  unfolding fill_slice_def slice_bytes_def
  by (rule writes_in, rule writes_seq) (simp_all add: wire ok_slice_def)

lemma writes_assoc: "writes (fill_ue_slice_assoc a) (assoc_bytes a)"
  unfolding fill_ue_slice_assoc_def assoc_bytes_def by (rule writes_in, rule writes_seq) (simp_all add: wire)

section \<open>Sizes are those of the format\<close>

lemma cal_params_ok: "ok_params p \<Longrightarrow> cal_params p = Inr (length (params_bytes p))"
  by (auto simp: cal_params_def params_bytes_def ok_params_def cal_static_def static_bytes_def cal_nvs_def nvs_bytes_def
      ok_nvs_def rate_bytes_def cal_scn19_def scn19_bytes_def ok_scn19_def on_demand_bytes_def cal_edf_def edf_bytes_def
      split: slice_params.splits nvs_slice.splits scn19_slice.splits)

lemma cal_slice_ok: "ok_slice s \<Longrightarrow> cal_fr_slice s = Inr (length (slice_bytes s))"
  by (simp add: cal_fr_slice_def slice_bytes_def ok_slice_def cal_params_ok)

section \<open>Readers read the format\<close>

lemma get_static_ok [simp]: "get_static (static_bytes s @ r) = Inr (s, r)"
  by (simp add: get_static_def static_bytes_def)

lemma get_rate_ok [simp]: "get_rate (rate_bytes n @ r) = Inr (n, r)"
  by (simp add: get_rate_def rate_bytes_def)

lemma get_nvs_ok [simp]: "ok_nvs n \<Longrightarrow> get_nvs (nvs_bytes n @ r) = Inr (n, r)"
  by (simp add: get_nvs_def nvs_bytes_def ok_nvs_def nvs_conf_def get_capacity_def split: nvs_slice.splits)

lemma get_on_demand_ok [simp]: "get_on_demand (on_demand_bytes d @ r) = Inr (d, r)"
  by (simp add: get_on_demand_def on_demand_bytes_def)

lemma get_scn19_ok [simp]: "ok_scn19 s \<Longrightarrow> get_scn19 (scn19_bytes s @ r) = Inr (s, r)"
  by (simp add: get_scn19_def scn19_bytes_def ok_scn19_def scn19_conf_def split: scn19_slice.splits)

lemma get_edf_ok [simp]: "get_edf (edf_bytes e @ r) = Inr (e\<lparr>over := replicate (unat (len_over e)) 0\<rparr>, r)"
  by (simp add: get_edf_def edf_bytes_def)

lemma get_params_ok [simp]: "ok_params p \<Longrightarrow> get_params (params_bytes p @ r) = Inr (seen_params p, r)"
  by (simp add: get_params_def params_bytes_def ok_params_def params_type_def seen_params_def split: slice_params.splits)

lemma get_str_ok [simp]: "unat n \<le> length bs \<Longrightarrow> get_str n (take (unat n) bs @ r) = Inr (seen_str n bs, r)"
  by (simp add: get_str_def seen_str_def)

lemma get_slice_ok: "ok_slice s \<Longrightarrow> get_slice (slice_bytes s @ r) = Inr (seen_slice s, r)"
  by (simp add: get_slice_def slice_bytes_def ok_slice_def seen_slice_def)

lemma assoc_bytes_size: "length (assoc_bytes a) = 10"
  by (simp add: assoc_bytes_def)

lemma get_assoc_ok: "get_ue_slice_assoc (assoc_bytes a @ r) = Inr (a, r)"
  by (simp add: get_ue_slice_assoc_def assoc_bytes_def)

interpretation slice_wire: wire_format 0 ok_slice slice_bytes cal_fr_slice fill_slice get_slice seen_slice
  by unfold_locales (simp_all add: cal_slice_ok writes_slice reads_k_def get_slice_ok)

interpretation assoc_wire: wire_format 0 "\<lambda>_. True" assoc_bytes cal_ue_slice_assoc fill_ue_slice_assoc get_ue_slice_assoc "\<lambda>a. a"
  by unfold_locales (simp_all add: cal_ue_slice_assoc_def assoc_bytes_size writes_assoc reads_k_def get_assoc_ok)

text \<open>The configurations of a direction, of both, and of the users.\<close>

interpretation ul_dl_wire: wire_format 0 ok_ul_dl ul_dl_bytes cal_ul_dl fill_ul_dl_slice_conf get_ul_dl_slice_conf seen_ul_dl
proof
  fix c assume c: "ok_ul_dl c"
  let ?n = "unat (len_slices c)"
  have s: "list_all ok_slice (take ?n (slices c))" "?n \<le> length (slices c)" "unat (len_sched_name c) \<le> length (sched_name c)"
    using c by (simp_all add: ok_ul_dl_def)
  show "cal_ul_dl c = Inr (length (ul_dl_bytes c))"
    by (simp add: cal_ul_dl_def cal_slc_def ul_dl_bytes_def slice_wire.elems_size [OF s(1,2)] s(3))
  show "writes (fill_ul_dl_slice_conf c) (ul_dl_bytes c)"
    unfolding fill_ul_dl_slice_conf_def ul_dl_bytes_def
    by (rule writes_seq) (simp add: wire s(3) slice_wire.elems_written [OF s(1,2)])
  show "reads get_ul_dl_slice_conf (seen_ul_dl c) (ul_dl_bytes c)"
    by (simp add: reads_k_def get_ul_dl_slice_conf_def ul_dl_bytes_def seen_ul_dl_def s(3)
        readsD [OF slice_wire.elems_read [OF s(1,2)]])
qed

interpretation conf_wire: wire_format 0 ok_conf conf_bytes cal_slice_conf fill_slice_conf get_slice_conf seen_conf
proof
  fix c assume "ok_conf c"
  then have c: "ok_ul_dl (sc_dl c)" "ok_ul_dl (sc_ul c)" by (simp_all add: ok_conf_def)
  show "cal_slice_conf c = Inr (length (conf_bytes c))"
    by (simp add: cal_slice_conf_def conf_bytes_def ul_dl_wire.size c)
  show "writes (fill_slice_conf c) (conf_bytes c)"
    unfolding fill_slice_conf_def conf_bytes_def by (rule writes_seq) (simp add: ul_dl_wire.written c)
  show "reads get_slice_conf (seen_conf c) (conf_bytes c)"
    by (simp add: reads_k_def get_slice_conf_def conf_bytes_def seen_conf_def readsD [OF ul_dl_wire.read] c)
qed

interpretation ue_conf_wire: wire_format 0 ok_ue_conf ue_conf_bytes cal_ue_slice_conf fill_ue_slice_conf get_ue_slice_conf seen_ue_conf
proof
  fix c assume "ok_ue_conf c"
  then have n: "unat (len_ue_slice c) \<le> length (ues c)" "list_all (\<lambda>_. True) (take (unat (len_ue_slice c)) (ues c))"
    by (simp_all add: ok_ue_conf_def list_all_iff)
  show "cal_ue_slice_conf c = Inr (length (ue_conf_bytes c))"
    by (simp add: cal_ue_slice_conf_def ue_conf_bytes_def assoc_wire.elems_size [OF n(2,1)])
  show "writes (fill_ue_slice_conf c) (ue_conf_bytes c)"
    unfolding fill_ue_slice_conf_def ue_conf_bytes_def
    by (rule writes_seq) (simp add: wire assoc_wire.elems_written [OF n(2,1)])
  show "reads get_ue_slice_conf (seen_ue_conf c) (ue_conf_bytes c)"
    by (simp add: reads_k_def get_ue_slice_conf_def ue_conf_bytes_def seen_ue_conf_def readsD [OF assoc_wire.elems_read [OF n(2,1)]])
qed

section \<open>Messages\<close>

lemma slice_codec:
  assumes "ok_slice_msg m" "length (slice_msg_bytes m) < 2 ^ 64"
  shows "slice_enc_ind_msg_plain m = Inr (slice_msg_bytes m)"
    and "slice_dec_ind_msg_plain (slice_msg_bytes m) = Inr (seen_slice_msg m)"
proof -
  have c: "ok_conf (ind_slice_conf m)" "ok_ue_conf (ind_ue_slice_conf m)" using assms(1) by (simp_all add: ok_slice_msg_def)
  show "slice_enc_ind_msg_plain m = Inr (slice_msg_bytes m)"
    unfolding slice_enc_ind_msg_plain_def
  proof (rule wr_buffer_ok)
    show "cal_ind_msg_payload m = Inr (length (slice_msg_bytes m))"
      by (simp add: cal_ind_msg_payload_def slice_msg_bytes_def conf_wire.size ue_conf_wire.size c)
    show "writes (wr_seq [fill_slice_conf (ind_slice_conf m), fill_ue_slice_conf (ind_ue_slice_conf m), wr (le (sl_tstamp m))])
        (slice_msg_bytes m)"
      unfolding slice_msg_bytes_def by (rule writes_seq) (simp add: wire conf_wire.written ue_conf_wire.written c)
  qed (rule assms(2))
  show "slice_dec_ind_msg_plain (slice_msg_bytes m) = Inr (seen_slice_msg m)"
    by (simp add: slice_dec_ind_msg_plain_def slice_msg_bytes_def seen_slice_msg_def readsD [OF conf_wire.read]
        readsD [OF ue_conf_wire.read] c)
qed

lemma slice_ctrl_codec:
  assumes "ok_slice_ctrl m" "length (slice_ctrl_bytes m) < 2 ^ 64"
  shows "slice_enc_ctrl_msg_plain m = Inr (slice_ctrl_bytes m)"
    and "slice_dec_ctrl_msg_plain (slice_ctrl_bytes m) = Inr (seen_slice_ctrl m)"
proof -
  have k: "reads g v bs \<Longrightarrow> g bs = Inr (v, [])" for g :: "byte_array \<Rightarrow> ('a \<times> byte_array) res" and v bs
    using readsD [of 0 g v bs "[]"] by simp
  show "slice_enc_ctrl_msg_plain m = Inr (slice_ctrl_bytes m)"
    unfolding slice_enc_ctrl_msg_plain_def
  proof (rule wr_buffer_ok)
    show "cal_ctrl_msg_payload m = Inr (length (slice_ctrl_bytes m))"
      using assms(1) by (auto simp: cal_ctrl_msg_payload_def slice_ctrl_bytes_def ok_slice_ctrl_def conf_wire.size ue_conf_wire.size
          cal_del_slice_def del_bytes_def ok_del_def split: slice_ctrl_msg.splits)
    show "writes (fill_slice_ctrl_msg m) (slice_ctrl_bytes m)"
      unfolding fill_slice_ctrl_msg_def slice_ctrl_bytes_def
      by (rule writes_seq, cases m)
         (use assms(1) in \<open>simp_all add: wire ok_slice_ctrl_def conf_wire.written ue_conf_wire.written ok_del_def
           fill_del_slice_conf_def del_bytes_def writes_seq del: concat.simps\<close>)
  qed (rule assms(2))
  show "slice_dec_ctrl_msg_plain (slice_ctrl_bytes m) = Inr (seen_slice_ctrl m)"
    using assms(1)
    by (cases m) (simp_all add: slice_dec_ctrl_msg_plain_def slice_ctrl_bytes_def slice_ctrl_type_def ok_slice_ctrl_def
        seen_slice_ctrl_def k [OF conf_wire.read] k [OF ue_conf_wire.read] get_del_slice_def del_bytes_def ok_del_def seen_del_def)
qed

end
