(* ===== verification/SliceCopy.thy ===== *)
theory SliceCopy
  imports SliceWire
begin

text \<open>
  Which messages of the SLICE model can be copied, and what the copy is.  Every level of the copy asserts that the
  copy compares equal to the original, floats with \<open>==\<close>, so that a number that is not one stops
  it; the array of an EDF slice stops it, too.  The copy holds the announced part of every string
  and array.
\<close>

section \<open>Messages that can be copied\<close>

definition rate_copies :: "nvs_rate \<Rightarrow> bool" where
  "rate_copies r \<longleftrightarrow> \<not> f32_nan (mbps_reference r) \<and> \<not> f32_nan (mbps_required r)"

definition params_copies :: "slice_params \<Rightarrow> bool" where
  "params_copies p \<longleftrightarrow>
    (case p of
       Slice_static s \<Rightarrow> True
     | Slice_nvs n \<Rightarrow> (case n of Nvs_rate r \<Rightarrow> rate_copies r | Nvs_capacity c \<Rightarrow> \<not> f32_nan c | Nvs_unknown v \<Rightarrow> False)
     | Slice_scn19 s \<Rightarrow>
         (case s of Scn19_dynamic r \<Rightarrow> rate_copies r | Scn19_fixed f \<Rightarrow> True
          | Scn19_on_demand d \<Rightarrow> \<not> f32_nan (od_log_delta d) \<and> \<not> f32_nan (od_pct_reserved d) | Scn19_unknown v \<Rightarrow> False)
     | Slice_edf e \<Rightarrow> len_over e = 0
     | Slice_unknown v \<Rightarrow> False)"

definition slice_copies :: "fr_slice \<Rightarrow> bool" where
  "slice_copies s \<longleftrightarrow> unat (sl_len_label s) \<le> length (sl_label s) \<and> unat (sl_len_sched s) \<le> length (sl_sched s) \<and>
    params_copies (sl_params s)"

definition ul_dl_copies :: "ul_dl_slice_conf \<Rightarrow> bool" where
  "ul_dl_copies c \<longleftrightarrow> unat (len_sched_name c) \<le> length (sched_name c) \<and> unat (len_slices c) \<le> length (slices c) \<and>
    list_all slice_copies (take (unat (len_slices c)) (slices c))"

definition conf_copies :: "slice_conf \<Rightarrow> bool" where
  "conf_copies c \<longleftrightarrow> ul_dl_copies (sc_dl c) \<and> ul_dl_copies (sc_ul c)"

definition slice_msg_copies :: "slice_ind_msg \<Rightarrow> bool" where
  "slice_msg_copies m \<longleftrightarrow> conf_copies (ind_slice_conf m) \<and> ok_ue_conf (ind_ue_slice_conf m)"

section \<open>The announced part of a message\<close>

definition params_part :: "slice_params \<Rightarrow> slice_params" where
  "params_part p = (case p of Slice_edf e \<Rightarrow> Slice_edf (e\<lparr>over := []\<rparr>) | _ \<Rightarrow> p)"

definition slice_part :: "fr_slice \<Rightarrow> fr_slice" where
  "slice_part s = \<lparr>sl_id = sl_id s, sl_len_label = sl_len_label s, sl_label = take (unat (sl_len_label s)) (sl_label s),
    sl_len_sched = sl_len_sched s, sl_sched = take (unat (sl_len_sched s)) (sl_sched s), sl_params = params_part (sl_params s)\<rparr>"

definition ul_dl_part :: "ul_dl_slice_conf \<Rightarrow> ul_dl_slice_conf" where
  "ul_dl_part c = \<lparr>len_slices = len_slices c, slices = map slice_part (take (unat (len_slices c)) (slices c)),
    len_sched_name = len_sched_name c, sched_name = take (unat (len_sched_name c)) (sched_name c)\<rparr>"

definition conf_part :: "slice_conf \<Rightarrow> slice_conf" where
  "conf_part c = \<lparr>sc_dl = ul_dl_part (sc_dl c), sc_ul = ul_dl_part (sc_ul c)\<rparr>"

definition slice_msg_part :: "slice_ind_msg \<Rightarrow> slice_ind_msg" where
  "slice_msg_part m = \<lparr>ind_slice_conf = conf_part (ind_slice_conf m), ind_ue_slice_conf = seen_ue_conf (ind_ue_slice_conf m),
    sl_tstamp = sl_tstamp m\<rparr>"

section \<open>Copying\<close>

lemma must_eq_Inr [simp]: "must r = Inr u \<longleftrightarrow> r = Inr True"
  by (cases r) (auto simp: must_def)

lemma take_elems_eq_Inr [simp]: "take_elems n xs = Inr ys \<longleftrightarrow> n \<le> length xs \<and> ys = take n xs"
  by (auto simp: take_elems_def)

lemma memcmp_take [simp]: "n \<le> length xs \<Longrightarrow> memcmp_eq n xs (take n xs) = Inr True"
  by (simp add: memcmp_eq_def)

lemma eq_elems_map:
  "n \<le> length xs \<Longrightarrow> list_all (\<lambda>x. eq x (f x) = Inr True) (take n xs) \<Longrightarrow> eq_elems eq n xs (map f (take n xs)) = Inr True"
proof (induction n arbitrary: xs)
  case (Suc n)
  then obtain y ys where "xs = y # ys" by (cases xs) auto
  with Suc show ?case by simp
qed simp

lemma eq_elems_take: "n \<le> length xs \<Longrightarrow> (\<And>x. eq x x = Inr True) \<Longrightarrow> eq_elems eq n xs (take n xs) = Inr True"
  using eq_elems_map [of n xs eq "\<lambda>x. x"] by (simp add: list_all_iff)

lemma map_res_eq:
  "(\<And>x y. f x = Inr y \<longleftrightarrow> P x \<and> y = g x) \<Longrightarrow> map_res f xs = Inr ys \<longleftrightarrow> list_all P xs \<and> ys = map g xs"
  by (induction xs arbitrary: ys) (auto simp: res_bind_eq_Inr)

lemma eq_params_part: "params_copies p \<Longrightarrow> eq_slice_params p (params_part p) = Inr True"
  by (auto simp: params_copies_def params_part_def eq_slice_params_def eq_static_slice_def eq_nvs_slice_def eq_nvs_rate_def
      eq_nvs_cap_def eq_scn19_slice_def eq_scn19_on_demand_def eq_edf_slice_def rate_copies_def
      split: slice_params.splits nvs_slice.splits scn19_slice.splits)

lemma cp_params: "cp_slice_params p = Inr q \<longleftrightarrow> params_copies p \<and> q = params_part p"
  by (auto simp: cp_slice_params_def params_copies_def params_part_def eq_slice_params_def eq_static_slice_def eq_nvs_slice_def
      eq_nvs_rate_def eq_nvs_cap_def eq_scn19_slice_def eq_scn19_on_demand_def eq_edf_slice_def rate_copies_def cp_scn19_slice_def
      res_bind_eq_Inr word_gt_0 split: slice_params.splits nvs_slice.splits scn19_slice.splits)

lemma eq_slice_part: "slice_copies s \<Longrightarrow> eq_slice s (slice_part s) = Inr True"
  by (simp add: eq_slice_def slice_part_def slice_copies_def eq_params_part)

lemma cp_slice: "cpy_slice s = Inr t \<longleftrightarrow> slice_copies s \<and> t = slice_part s"
proof -
  have "cpy_slice s = Inr t \<longleftrightarrow> slice_copies s \<and> must (eq_slice s (slice_part s)) = Inr () \<and> t = slice_part s"
    by (auto simp: cpy_slice_def Let_def res_bind_eq_Inr slice_part_def slice_copies_def cp_params)
  then show ?thesis using eq_slice_part [of s] by auto
qed

lemma eq_ul_dl_part: "ul_dl_copies c \<Longrightarrow> eq_ul_dl_slice_conf c (ul_dl_part c) = Inr True"
proof -
  assume c: "ul_dl_copies c"
  then have "list_all (\<lambda>s. eq_slice s (slice_part s) = Inr True) (take (unat (len_slices c)) (slices c))"
    by (auto simp: ul_dl_copies_def list_all_iff eq_slice_part)
  then show ?thesis using c by (simp add: eq_ul_dl_slice_conf_def ul_dl_part_def ul_dl_copies_def eq_elems_map)
qed

lemma cp_ul_dl: "cpy_ul_dl_slice_conf c = Inr d \<longleftrightarrow> ul_dl_copies c \<and> d = ul_dl_part c"
proof -
  have "cpy_ul_dl_slice_conf c = Inr d \<longleftrightarrow>
      ul_dl_copies c \<and> must (eq_ul_dl_slice_conf c (ul_dl_part c)) = Inr () \<and> d = ul_dl_part c"
    by (auto simp: cpy_ul_dl_slice_conf_def Let_def res_bind_eq_Inr map_res_eq [OF cp_slice] ul_dl_part_def ul_dl_copies_def)
  then show ?thesis using eq_ul_dl_part [of c] by auto
qed

lemma eq_conf_part: "conf_copies c \<Longrightarrow> eq_slice_conf c (conf_part c) = Inr True"
  by (simp add: eq_slice_conf_def conf_part_def conf_copies_def eq_ul_dl_part)

lemma cp_conf: "cp_slice_conf c = Inr d \<longleftrightarrow> conf_copies c \<and> d = conf_part c"
proof -
  have "cp_slice_conf c = Inr d \<longleftrightarrow> conf_copies c \<and> must (eq_slice_conf c (conf_part c)) = Inr () \<and> d = conf_part c"
    by (auto simp: cp_slice_conf_def Let_def res_bind_eq_Inr cp_ul_dl conf_part_def conf_copies_def)
  then show ?thesis using eq_conf_part [of c] by auto
qed

lemma cp_ue_conf: "cp_ue_slice_conf c = Inr d \<longleftrightarrow> ok_ue_conf c \<and> d = seen_ue_conf c"
proof -
  have "map cp_ue_slice_assoc us = us" for us by (induction us) (simp_all add: cp_ue_slice_assoc_def)
  then show ?thesis by (auto simp: cp_ue_slice_conf_def res_bind_eq_Inr seen_ue_conf_def ok_ue_conf_def)
qed

lemma cp_slice_msg: "cp_slice_ind_msg m = Inr d \<longleftrightarrow> slice_msg_copies m \<and> d = slice_msg_part m"
proof -
  have u: "eq_ue_slice_conf c (seen_ue_conf c) = Inr True" if "ok_ue_conf c" for c
    using that by (simp add: eq_ue_slice_conf_def seen_ue_conf_def ok_ue_conf_def eq_elems_take eq_ue_slice_assoc_def)
  have "cp_slice_ind_msg m = Inr d \<longleftrightarrow>
      slice_msg_copies m \<and> must (eq_slice_ind_msg m (slice_msg_part m)) = Inr () \<and> d = slice_msg_part m"
    by (auto simp: cp_slice_ind_msg_def Let_def res_bind_eq_Inr cp_conf cp_ue_conf slice_msg_part_def slice_msg_copies_def)
  then show ?thesis
    by (auto simp: eq_slice_ind_msg_def slice_msg_part_def slice_msg_copies_def eq_conf_part u)
qed

lemma cp_slice_data:
  "cp_slice_ind_data i = Inr d \<longleftrightarrow> slice_msg_copies (slice_msg i) \<and> slice_proc_id i = None \<and>
    d = \<lparr>slice_hdr = slice_hdr i, slice_msg = slice_msg_part (slice_msg i), slice_proc_id = None\<rparr>"
  by (auto simp: cp_slice_ind_data_def res_bind_eq_Inr cp_slice_msg cp_slice_ind_hdr_def)

lemma copies_ok: "slice_msg_copies m \<Longrightarrow> ok_slice_msg m"
proof -
  have p: "ok_params p" if "params_copies p" for p
    using that by (auto simp: params_copies_def ok_params_def ok_nvs_def ok_scn19_def
        split: slice_params.splits nvs_slice.splits scn19_slice.splits)
  have "ok_ul_dl c" if "ul_dl_copies c" for c
    using that p by (auto simp: ul_dl_copies_def ok_ul_dl_def list_all_iff slice_copies_def ok_slice_def)
  then show "slice_msg_copies m \<Longrightarrow> ok_slice_msg m"
    by (simp add: slice_msg_copies_def ok_slice_msg_def conf_copies_def ok_conf_def)
qed

section \<open>Freeing\<close>

text \<open>What the encoder leaves in a message, what the decoder returns and what the copy makes is
  freed without a failing assertion.\<close>

lemma free_len_ok: "unat n \<le> length xs \<Longrightarrow> free_len n xs = Inr ()"
  by (cases xs) (auto simp: free_len_def c_assert_def word_gt_0 unat_eq_zero)

lemma map_res_unit: "list_all (\<lambda>x. f x = Inr ()) xs \<Longrightarrow> map_res f xs = Inr (replicate (length xs) ())"
  by (induction xs) simp_all

definition slice_frees :: "fr_slice \<Rightarrow> bool" where
  "slice_frees s \<longleftrightarrow> unat (sl_len_label s) \<le> length (sl_label s) \<and> unat (sl_len_sched s) \<le> length (sl_sched s) \<and>
    (case sl_params s of Slice_edf e \<Rightarrow> unat (len_over e) \<le> length (over e) | _ \<Rightarrow> True)"

definition ul_dl_frees :: "ul_dl_slice_conf \<Rightarrow> bool" where
  "ul_dl_frees c \<longleftrightarrow> unat (len_slices c) \<le> length (slices c) \<and> list_all slice_frees (take (unat (len_slices c)) (slices c))"

lemma free_ul_dl_ok: "ul_dl_frees c \<Longrightarrow> free_ul_dl_slice_conf c = Inr ()"
proof -
  assume c: "ul_dl_frees c"
  have "free_fr_slice s = Inr ()" if "slice_frees s" for s
    using that by (auto simp: slice_frees_def free_fr_slice_def free_len_ok free_slice_param_def split: slice_params.splits)
  then have "map_res free_fr_slice (take (unat (len_slices c)) (slices c)) =
      Inr (replicate (length (take (unat (len_slices c)) (slices c))) ())"
    using c by (intro map_res_unit) (auto simp: ul_dl_frees_def list_all_iff)
  moreover have "slices c \<noteq> []" if "0 < len_slices c"
    using c that by (auto simp: ul_dl_frees_def word_gt_0 unat_eq_zero)
  ultimately show ?thesis using c by (auto simp: free_ul_dl_slice_conf_def take_elems_def ul_dl_frees_def)
qed

lemma free_slice_msg_ok:
  assumes "ul_dl_frees (sc_dl (ind_slice_conf m))" "ul_dl_frees (sc_ul (ind_slice_conf m))" "ok_ue_conf (ind_ue_slice_conf m)"
  shows "free_slice_ind_msg m = Inr ()"
  using assms by (simp add: free_slice_ind_msg_def free_slice_conf_def free_ul_dl_ok free_ue_slice_conf_def free_len_ok ok_ue_conf_def)

lemma free_zeroed: "ok_slice_msg m \<Longrightarrow> free_slice_ind_msg (m\<lparr>ind_slice_conf := conf_zeroed (ind_slice_conf m)\<rparr>) = Inr ()"
proof -
  assume m: "ok_slice_msg m"
  have "ul_dl_frees (slices_zeroed c)" if "ok_ul_dl c" for c
    using that by (auto simp: ul_dl_frees_def slices_zeroed_def ok_ul_dl_def list_all_iff slice_frees_def ok_slice_def
        edf_zeroed_def word_gt_0 split: slice_params.splits)
  then show ?thesis
    using m by (intro free_slice_msg_ok) (auto simp: ok_slice_msg_def ok_conf_def conf_zeroed_def)
qed

lemma free_part: "slice_msg_copies m \<Longrightarrow> free_slice_ind_msg (slice_msg_part m) = Inr ()"
proof -
  assume m: "slice_msg_copies m"
  have "ul_dl_frees (ul_dl_part c)" if "ul_dl_copies c" for c
    using that by (auto simp: ul_dl_frees_def ul_dl_part_def ul_dl_copies_def list_all_iff slice_frees_def slice_part_def
        slice_copies_def params_part_def params_copies_def split: slice_params.splits)
  then show ?thesis
    using m by (intro free_slice_msg_ok)
      (auto simp: slice_msg_copies_def conf_copies_def slice_msg_part_def conf_part_def ok_ue_conf_def seen_ue_conf_def)
qed

lemma free_seen: "ok_slice_msg m \<Longrightarrow> free_slice_ind_msg (seen_slice_msg m) = Inr ()"
proof -
  assume m: "ok_slice_msg m"
  have s: "unat n \<le> length (seen_str n bs)" if "unat n \<le> length bs" for n bs
    using that by (auto simp: seen_str_def word_gt_0 unat_eq_zero)
  have "ul_dl_frees (seen_ul_dl c)" if "ok_ul_dl c" for c
    using that s by (auto simp: ul_dl_frees_def seen_ul_dl_def ok_ul_dl_def list_all_iff slice_frees_def seen_slice_def
        ok_slice_def seen_params_def split: slice_params.splits)
  then show ?thesis
    using m by (intro free_slice_msg_ok)
      (auto simp: ok_slice_msg_def ok_conf_def seen_slice_msg_def seen_conf_def ok_ue_conf_def seen_ue_conf_def)
qed

end
