(* ===== verification/TcWire.thy ===== *)
theory TcWire
  imports TcCtrl
begin

text \<open>
  The format of the messages of traffic control, and that size, writer and reader of every type
  agree with it.  \<open>ok_*\<close> says what the encoder needs of a value: known tags, and at least the
  announced number of elements in every array.  A reader loses the number of an RR scheduler and the
  identifiers of the queues, which are not written.
\<close>

section \<open>The state\<close>

definition ok_prio :: "tc_sch_prio \<Rightarrow> bool" where
  "ok_prio p \<longleftrightarrow> unat (len_q_prio p) \<le> length (q_prio p)"

definition ok_sch :: "tc_sch \<Rightarrow> bool" where
  "ok_sch s \<longleftrightarrow> (case s of Sch_prio p \<Rightarrow> ok_prio p | Sch_rr d \<Rightarrow> True | Sch_unknown v \<Rightarrow> False)"

definition ok_cls :: "tc_cls \<Rightarrow> bool" where
  "ok_cls c \<longleftrightarrow> (case c of Cls_osi osi \<Rightarrow> unat (osi_len osi) \<le> length (osi_flt osi) | Cls_unknown v \<Rightarrow> False | _ \<Rightarrow> True)"

definition ok_queue :: "tc_queue \<Rightarrow> bool" where
  "ok_queue q \<longleftrightarrow> (case tq_u q of Queue_unknown v \<Rightarrow> False | _ \<Rightarrow> True)"

definition ok_row :: "tc_shp \<times> tc_plc \<times> tc_queue \<Rightarrow> bool" where
  "ok_row r \<longleftrightarrow> ok_queue (snd (snd r))"

definition ok_tc_msg :: "tc_ind_msg \<Rightarrow> bool" where
  "ok_tc_msg m \<longleftrightarrow> ok_sch (ind_sch m) \<and> ok_cls (ind_cls m) \<and> unat (len_q m) \<le> length (ind_shp m) \<and>
    unat (len_q m) \<le> length (ind_plc m) \<and> unat (len_q m) \<le> length (ind_q m) \<and>
    list_all ok_queue (take (unat (len_q m)) (ind_q m))"

definition prio_bytes :: "tc_sch_prio \<Rightarrow> byte_array" where
  "prio_bytes p = concat [le (len_q_prio p), elem_bytes le (unat (len_q_prio p)) (q_prio p)]"

definition sch_bytes :: "tc_sch \<Rightarrow> byte_array" where
  "sch_bytes s = concat [le (sch_type s), (case s of Sch_prio p \<Rightarrow> prio_bytes p | _ \<Rightarrow> [])]"

definition mtr_bytes :: "tc_mtr \<Rightarrow> byte_array" where
  "mtr_bytes m = concat [le (bnd m), le (time_window_ms m)]"

definition pcr_bytes :: "tc_pcr \<Rightarrow> byte_array" where
  "pcr_bytes p = concat [le (pcr_type p), le (pcr_id p), mtr_bytes (pcr_mtr p)]"

text \<open>The filters with their padding.\<close>

fun filters_bytes :: "(nat \<Rightarrow> nat \<Rightarrow> u8) \<Rightarrow> nat \<Rightarrow> tc_cls_osi_filter list \<Rightarrow> byte_array" where
  "filters_bytes pads (Suc n) (f # fs) = put_filter (pads 0) f @ filters_bytes (\<lambda>i. pads (Suc i)) n fs"
| "filters_bytes pads n fs = []"

definition cls_bytes :: "(nat \<Rightarrow> nat \<Rightarrow> u8) \<Rightarrow> tc_cls \<Rightarrow> byte_array" where
  "cls_bytes pads c = concat [le (cls_type c),
    (case c of Cls_rr d \<Rightarrow> le d | Cls_osi osi \<Rightarrow> concat [le (osi_len osi), filters_bytes pads (unat (osi_len osi)) (osi_flt osi)]
     | Cls_sto d \<Rightarrow> le d | Cls_unknown v \<Rightarrow> [])]"

definition shp_bytes :: "tc_shp \<Rightarrow> byte_array" where
  "shp_bytes s = concat [le (shp_id s), le (shp_active s), le (shp_max_rate_kbps s), mtr_bytes (shp_mtr s)]"

definition plc_bytes :: "tc_plc \<Rightarrow> byte_array" where
  "plc_bytes p = concat [le (plc_id p), mtr_bytes (plc_mtr p), le (plc_drp p), le (plc_mrk p), le (plc_max_rate_kbps p),
    le (plc_active p), le (plc_dst_id p), le (plc_dev_id p)]"

definition stats_bytes :: "tc_queue_stats \<Rightarrow> byte_array" where
  "stats_bytes s = concat [le (tq_bytes s), le (tq_pkts s), le (tq_bytes_fwd s), le (tq_pkts_fwd s), le (tq_count s),
    le (tq_avg_sojourn s), le (tq_last_sojourn s)]"

definition queue_bytes :: "tc_queue \<Rightarrow> byte_array" where
  "queue_bytes q = concat [le (queue_type (tq_u q)),
    (case tq_u q of Queue_fifo s \<Rightarrow> stats_bytes s | Queue_codel s \<Rightarrow> stats_bytes s | Queue_ecn_codel s \<Rightarrow> stats_bytes s
     | Queue_unknown v \<Rightarrow> [])]"

definition row_bytes :: "tc_shp \<times> tc_plc \<times> tc_queue \<Rightarrow> byte_array" where
  "row_bytes r = concat [shp_bytes (fst r), plc_bytes (fst (snd r)), queue_bytes (snd (snd r))]"

definition tc_msg_bytes :: "(nat \<Rightarrow> nat \<Rightarrow> u8) \<Rightarrow> tc_ind_msg \<Rightarrow> byte_array" where
  "tc_msg_bytes pads m = concat [sch_bytes (ind_sch m), pcr_bytes (ind_pcr m), cls_bytes pads (ind_cls m), le (len_q m),
    elem_bytes row_bytes (unat (len_q m)) (tc_rows m)] @ le (tc_tstamp m)"

definition seen_prio :: "tc_sch_prio \<Rightarrow> tc_sch_prio" where
  "seen_prio p = \<lparr>len_q_prio = len_q_prio p, q_prio = take (unat (len_q_prio p)) (q_prio p)\<rparr>"

definition seen_sch :: "tc_sch \<Rightarrow> tc_sch" where
  "seen_sch s = (case s of Sch_rr d \<Rightarrow> Sch_rr 0 | Sch_prio p \<Rightarrow> Sch_prio (seen_prio p) | Sch_unknown v \<Rightarrow> s)"

definition seen_cls :: "tc_cls \<Rightarrow> tc_cls" where
  "seen_cls c =
    (case c of Cls_osi osi \<Rightarrow> Cls_osi \<lparr>osi_len = osi_len osi, osi_flt = take (unat (osi_len osi)) (osi_flt osi)\<rparr> | _ \<Rightarrow> c)"

definition seen_queue :: "tc_queue \<Rightarrow> tc_queue" where
  "seen_queue q = q\<lparr>tq_id := 0\<rparr>"

definition seen_row :: "tc_shp \<times> tc_plc \<times> tc_queue \<Rightarrow> tc_shp \<times> tc_plc \<times> tc_queue" where
  "seen_row r = (fst r, fst (snd r), seen_queue (snd (snd r)))"

definition seen_tc_msg :: "tc_ind_msg \<Rightarrow> tc_ind_msg" where
  "seen_tc_msg m = \<lparr>ind_sch = seen_sch (ind_sch m), ind_pcr = ind_pcr m, ind_cls = seen_cls (ind_cls m), len_q = len_q m,
    ind_shp = take (unat (len_q m)) (ind_shp m), ind_plc = take (unat (len_q m)) (ind_plc m),
    ind_q = map seen_queue (take (unat (len_q m)) (ind_q m)), tc_tstamp = tc_tstamp m\<rparr>"

section \<open>Writers and readers of the state\<close>

lemma writes_prio [wire]: "ok_prio p \<Longrightarrow> writes_k k (tc_enc_sch_prio p) (prio_bytes p)"
  unfolding tc_enc_sch_prio_def prio_bytes_def by (rule writes_seq) (simp add: wire ok_prio_def)

lemma writes_sch [wire]: "ok_sch s \<Longrightarrow> writes_k k (tc_enc_sch s) (sch_bytes s)"
  unfolding tc_enc_sch_def sch_bytes_def by (rule writes_seq) (simp add: wire ok_sch_def split: tc_sch.splits)

lemma writes_mtr [wire]: "writes_k k (tc_enc_mtr m) (mtr_bytes m)"
  unfolding tc_enc_mtr_def mtr_bytes_def by (rule writes_seq) (simp add: wire)

lemma writes_pcr [wire]: "writes_k k (tc_enc_pcr p) (pcr_bytes p)"
  unfolding tc_enc_pcr_def pcr_bytes_def by (rule writes_seq) (simp add: wire)

lemma put_filters: "n \<le> length fs \<Longrightarrow> put_elems put_filter pads n fs = Inr (filters_bytes pads n fs)"
  by (induction pads n fs rule: filters_bytes.induct) auto

lemma length_filters: "n \<le> length fs \<Longrightarrow> length (filters_bytes pads n fs) = 40 * n"
  by (induction pads n fs rule: filters_bytes.induct) (auto simp: filter_mem.put_size)

lemma get_filters: "n \<le> length fs \<Longrightarrow> get_elems 40 get_filter n (filters_bytes pads n fs @ r) = Inr (take n fs, r)"
  by (induction pads n fs rule: filters_bytes.induct) (auto simp: filter_mem.put_size filter_mem.get_put)

lemma writes_filters [wire]: "n \<le> length fs \<Longrightarrow> writes_k k (wr_filters pads n fs) (filters_bytes pads n fs)"
  by (simp add: writes_k_def wr_filters_def put_filters wr_def)

lemma writes_osi [wire]:
  "unat (osi_len osi) \<le> length (osi_flt osi) \<Longrightarrow>
    writes_k k (tc_enc_cls_osi pads osi) (concat [le (osi_len osi), filters_bytes pads (unat (osi_len osi)) (osi_flt osi)])"
  unfolding tc_enc_cls_osi_def by (rule writes_seq) (simp add: wire)

lemma writes_cls [wire]: "ok_cls c \<Longrightarrow> writes_k k (tc_enc_cls pads c) (cls_bytes pads c)"
  unfolding tc_enc_cls_def cls_bytes_def
  by (rule writes_seq) (simp add: wire ok_cls_def del: concat.simps split: tc_cls.splits)

lemma writes_shp [wire]: "writes_k k (tc_enc_shp s) (shp_bytes s)"
  unfolding tc_enc_shp_def shp_bytes_def by (rule writes_seq) (simp add: wire)

lemma writes_plc [wire]: "writes_k k (tc_enc_plc p) (plc_bytes p)"
  unfolding tc_enc_plc_def plc_bytes_def by (rule writes_seq) (simp add: wire tc_enc_drp_def tc_enc_mrk_def)

lemma writes_stats [wire]:
  "writes_k k (tc_enc_q_fifo s) (stats_bytes s)" "writes_k k (tc_enc_q_codel s) (stats_bytes s)"
  "writes_k k (tc_enc_q_ecn_codel s) (stats_bytes s)"
  unfolding tc_enc_q_fifo_def tc_enc_q_codel_def tc_enc_q_ecn_codel_def stats_bytes_def
  by (rule writes_seq, simp add: wire tc_enc_drp_def tc_enc_mrk_def)+

lemma writes_queue [wire]: "ok_queue q \<Longrightarrow> writes_k k (tc_enc_q q) (queue_bytes q)"
  unfolding tc_enc_q_def queue_bytes_def
  by (rule writes_seq) (simp add: wire ok_queue_def split: tc_queue_u.splits)

lemma cal_queue_ok: "ok_queue q \<Longrightarrow> cal_q_payload q = Inr (length (queue_bytes q))"
  by (simp add: cal_q_payload_def queue_bytes_def ok_queue_def stats_bytes_def cal_drp_payload_def cal_mrk_payload_def
      split: tc_queue_u.splits)

lemma cal_sch_ok: "ok_sch s \<Longrightarrow> cal_sch_payload s = Inr (length (sch_bytes s))"
  by (simp add: cal_sch_payload_def sch_bytes_def ok_sch_def ok_prio_def prio_bytes_def split: tc_sch.splits)

lemma cal_cls_ok: "ok_cls c \<Longrightarrow> cal_cls_payload c = Inr (length (cls_bytes pads c))"
  by (simp add: cal_cls_payload_def cls_bytes_def ok_cls_def length_filters split: tc_cls.splits)

lemma get_prio_ok [simp]: "ok_prio p \<Longrightarrow> tc_dec_sch_prio (prio_bytes p @ r) = Inr (seen_prio p, r)"
  by (simp add: tc_dec_sch_prio_def prio_bytes_def ok_prio_def seen_prio_def)

lemma reads_sch: "ok_sch s \<Longrightarrow> reads_k k tc_dec_sch (seen_sch s) (sch_bytes s)"
  by (simp add: reads_k_def tc_dec_sch_def sch_bytes_def ok_sch_def sch_type_def seen_sch_def split: tc_sch.splits)

lemma get_mtr_ok [simp]: "tc_dec_mtr (mtr_bytes m @ r) = Inr (m, r)" "tc_dec_mtr (mtr_bytes m) = Inr (m, [])"
  by (simp_all add: tc_dec_mtr_def mtr_bytes_def)

lemma reads_pcr: "reads_k k tc_dec_pcr p (pcr_bytes p)"
  by (simp add: reads_k_def tc_dec_pcr_def pcr_bytes_def)

lemma reads_cls: "ok_cls c \<Longrightarrow> reads_k k tc_dec_cls (seen_cls c) (cls_bytes pads c)"
  by (simp add: reads_k_def tc_dec_cls_def cls_bytes_def ok_cls_def cls_type_def seen_cls_def tc_dec_cls_osi_def get_filters
      split: tc_cls.splits)

lemma reads_shp: "reads_k k tc_dec_shp s (shp_bytes s)"
  by (simp add: reads_k_def tc_dec_shp_def shp_bytes_def)

lemma reads_plc: "reads_k k tc_dec_plc p (plc_bytes p)"
  by (simp add: reads_k_def tc_dec_plc_def plc_bytes_def)

lemma get_stats_ok [simp]: "tc_dec_q_fifo (stats_bytes s @ r) = Inr (s, r)"
  by (simp add: tc_dec_q_fifo_def stats_bytes_def)

lemma reads_queue: "ok_queue q \<Longrightarrow> reads_k k tc_dec_q (seen_queue q) (queue_bytes q)"
  by (cases q) (simp add: reads_k_def tc_dec_q_def queue_bytes_def ok_queue_def queue_type_def seen_queue_def split: tc_queue_u.splits)

lemma reads_len: "reads_k k rdw (w :: u32) (le w)"
  by (simp add: reads_k_def)

text \<open>A row of the three arrays, behind which there is always something.\<close>

interpretation row_wire: wire_format 1 ok_row row_bytes cal_row tc_enc_row tc_dec_row seen_row
proof
  fix r :: "tc_shp \<times> tc_plc \<times> tc_queue"
  assume ok: "ok_row r"
  obtain s p q where r: "r = (s, p, q)" by (cases r)
  have q: "ok_queue q" using ok by (simp add: ok_row_def r)
  show "cal_row r = Inr (length (row_bytes r))"
    by (simp add: r cal_queue_ok [OF q] row_bytes_def cal_shp_payload_def cal_plc_payload_def cal_mtr_payload_def
        cal_drp_payload_def cal_mrk_payload_def shp_bytes_def plc_bytes_def mtr_bytes_def)
  show "writes_k 1 (tc_enc_row r) (row_bytes r)"
    unfolding r tc_enc_row.simps row_bytes_def fst_conv snd_conv
    by (rule writes_seq) (simp add: writes_left [unfolded One_nat_def] wire q)
  show "reads_k 1 tc_dec_row (seen_row r) (row_bytes r)"
    unfolding reads_k_def
  proof (intro allI impI)
    fix t :: byte_array assume t: "1 \<le> length t"
    have l: "1 \<le> length (plc_bytes p @ queue_bytes q @ t)" "1 \<le> length (queue_bytes q @ t)" using t by simp_all
    show "tc_dec_row (row_bytes r @ t) = Inr (seen_row r, t)"
      by (simp add: tc_dec_row_def row_bytes_def r seen_row_def readsD [OF reads_left [OF reads_shp] l(1)]
          readsD [OF reads_left [OF reads_plc] l(2)] readsD [OF reads_left [OF reads_queue [OF q]] t])
  qed
qed

lemma ok_rows: "ok_tc_msg m \<Longrightarrow> list_all ok_row (take (unat (len_q m)) (tc_rows m))"
  by (simp add: ok_tc_msg_def tc_rows_def take_zip list_all_length ok_row_def)

lemma length_rows: "ok_tc_msg m \<Longrightarrow> unat (len_q m) \<le> length (tc_rows m)"
  by (simp add: ok_tc_msg_def tc_rows_def)

lemma seen_rows:
  assumes "ok_tc_msg m"
  defines "rows \<equiv> map seen_row (take (unat (len_q m)) (tc_rows m))"
  shows "map fst rows = take (unat (len_q m)) (ind_shp m)" "map (fst \<circ> snd) rows = take (unat (len_q m)) (ind_plc m)"
    "map (snd \<circ> snd) rows = map seen_queue (take (unat (len_q m)) (ind_q m))"
  using assms(1)
  by (auto simp: rows_def tc_rows_def take_zip ok_tc_msg_def seen_row_def o_def intro!: nth_equalityI)

lemma tc_codec:
  assumes "ok_tc_msg m" "length (tc_msg_bytes pads m) < 2 ^ 64"
  shows "tc_enc_ind_msg_plain pads m = Inr (tc_msg_bytes pads m)"
    and "tc_dec_ind_msg_plain (tc_msg_bytes pads m) = Inr (seen_tc_msg m)"
proof -
  have ok: "ok_sch (ind_sch m)" "ok_cls (ind_cls m)" using assms(1) by (simp_all add: ok_tc_msg_def)
  note rows = ok_rows [OF assms(1)] length_rows [OF assms(1)]
  show "tc_enc_ind_msg_plain pads m = Inr (tc_msg_bytes pads m)"
    unfolding tc_enc_ind_msg_plain_def
  proof (rule wr_buffer_ok)
    show "cal_tc_ind_msg_payload m = Inr (length (tc_msg_bytes pads m))"
      by (simp add: cal_tc_ind_msg_payload_def tc_msg_bytes_def cal_sch_ok ok cal_cls_ok [where pads = pads]
          row_wire.elems_size [OF rows] cal_pcr_payload_def cal_mtr_payload_def pcr_bytes_def mtr_bytes_def)
    show "writes (wr_seq [wr_seq [wr_left (tc_enc_sch (ind_sch m)), wr_left (tc_enc_pcr (ind_pcr m)),
        wr_left (tc_enc_cls pads (ind_cls m)), wr_left (wr (le (len_q m))),
        wr_elems tc_enc_row (unat (len_q m)) (tc_rows m)], wr (le (tc_tstamp m))]) (tc_msg_bytes pads m)"
      unfolding tc_msg_bytes_def
      by (rule writes_spare, rule writes_seq)
         (simp_all add: writes_left [unfolded One_nat_def] wire ok row_wire.elems_written [OF rows, unfolded One_nat_def])
  qed (rule assms(2))
  let ?t = "le (tc_tstamp m)"
  have t: "1 \<le> length ?t" by simp
  have l: "1 \<le> length (elem_bytes row_bytes n xs @ ?t)" "1 \<le> length (le (len_q m) @ elem_bytes row_bytes n xs @ ?t)"
    "1 \<le> length (cls_bytes pads (ind_cls m) @ le (len_q m) @ elem_bytes row_bytes n xs @ ?t)"
    "1 \<le> length (pcr_bytes (ind_pcr m) @ cls_bytes pads (ind_cls m) @ le (len_q m) @ elem_bytes row_bytes n xs @ ?t)"
    for n xs using t by simp_all
  show "tc_dec_ind_msg_plain (tc_msg_bytes pads m) = Inr (seen_tc_msg m)"
    by (simp add: tc_dec_ind_msg_plain_def tc_msg_bytes_def seen_tc_msg_def readsD [OF reads_left [OF reads_sch [OF ok(1)]] l(4)]
        readsD [OF reads_left [OF reads_pcr] l(3)] readsD [OF reads_left [OF reads_cls [OF ok(2)]] l(2)]
        readsD [OF reads_left [OF reads_len] l(1)] readsD [OF row_wire.elems_read [OF rows] t]
        seen_rows [OF assms(1)] del: map_map)
qed

end
