(* ===== verification/TcCopy.thy ===== *)
theory TcCopy
  imports TcWire SliceCopy
begin

text \<open>
  Which messages of traffic control can be copied, and what the copy is.  The copy loses the
  identifier and the last sojourn time of the queues and the rate of the shapers, and the comparison that
  ends it does not look at them; it stops on an active flag that is neither 0 nor 1 and on floats that are not
  a number.
\<close>

section \<open>Messages that can be copied\<close>

definition shp_copies :: "tc_shp \<Rightarrow> bool" where
  "shp_copies s \<longleftrightarrow> (shp_active s = 0 \<or> shp_active s = 1) \<and> \<not> f32_nan (bnd (shp_mtr s))"

definition plc_copies :: "tc_plc \<Rightarrow> bool" where
  "plc_copies p \<longleftrightarrow> (plc_active p = 0 \<or> plc_active p = 1) \<and> \<not> f32_nan (bnd (plc_mtr p)) \<and> \<not> f32_nan (plc_max_rate_kbps p)"

definition queue_copies :: "tc_queue \<Rightarrow> bool" where
  "queue_copies q \<longleftrightarrow>
    (case tq_u q of Queue_fifo s \<Rightarrow> \<not> f32_nan (tq_avg_sojourn s) | Queue_codel s \<Rightarrow> \<not> f32_nan (tq_avg_sojourn s)
     | Queue_ecn_codel s \<Rightarrow> \<not> f32_nan (tq_avg_sojourn s) | Queue_unknown v \<Rightarrow> False)"

definition row_copies :: "tc_shp \<times> tc_plc \<times> tc_queue \<Rightarrow> bool" where
  "row_copies r \<longleftrightarrow> shp_copies (fst r) \<and> plc_copies (fst (snd r)) \<and> queue_copies (snd (snd r))"

definition tc_msg_copies :: "tc_ind_msg \<Rightarrow> bool" where
  "tc_msg_copies m \<longleftrightarrow> ok_sch (ind_sch m) \<and> ok_cls (ind_cls m) \<and> \<not> f32_nan (bnd (pcr_mtr (ind_pcr m))) \<and>
    unat (len_q m) \<le> length (tc_rows m) \<and> list_all row_copies (take (unat (len_q m)) (tc_rows m))"

section \<open>What is copied\<close>

definition sch_part :: "tc_sch \<Rightarrow> tc_sch" where
  "sch_part s = (case s of Sch_prio p \<Rightarrow> Sch_prio (seen_prio p) | _ \<Rightarrow> s)"

definition shp_part :: "tc_shp \<Rightarrow> tc_shp" where
  "shp_part s = s\<lparr>shp_max_rate_kbps := 0\<rparr>"

definition stats_part :: "tc_queue_stats \<Rightarrow> tc_queue_stats" where
  "stats_part s = s\<lparr>tq_last_sojourn := 0\<rparr>"

definition queue_part :: "tc_queue \<Rightarrow> tc_queue" where
  "queue_part q = \<lparr>tq_id = 0, tq_u =
    (case tq_u q of Queue_fifo s \<Rightarrow> Queue_fifo (stats_part s) | Queue_codel s \<Rightarrow> Queue_codel (stats_part s)
     | Queue_ecn_codel s \<Rightarrow> Queue_ecn_codel (stats_part s) | Queue_unknown v \<Rightarrow> Queue_unknown v)\<rparr>"

definition row_part :: "tc_shp \<times> tc_plc \<times> tc_queue \<Rightarrow> tc_shp \<times> tc_plc \<times> tc_queue" where
  "row_part r = (shp_part (fst r), fst (snd r), queue_part (snd (snd r)))"

definition rows_part :: "tc_ind_msg \<Rightarrow> (tc_shp \<times> tc_plc \<times> tc_queue) list" where
  "rows_part m = map row_part (take (unat (len_q m)) (tc_rows m))"

definition tc_msg_part :: "tc_ind_msg \<Rightarrow> tc_ind_msg" where
  "tc_msg_part m = \<lparr>ind_sch = sch_part (ind_sch m), ind_pcr = ind_pcr m, ind_cls = seen_cls (ind_cls m), len_q = len_q m,
    ind_shp = map fst (rows_part m), ind_plc = map (fst \<circ> snd) (rows_part m), ind_q = map (snd \<circ> snd) (rows_part m),
    tc_tstamp = tc_tstamp m\<rparr>"

section \<open>Copying\<close>

lemma eq_sch_part: "ok_sch s \<Longrightarrow> eq_tc_sch s (sch_part s) = Inr True"
  by (auto simp: ok_sch_def ok_prio_def eq_tc_sch_def sch_part_def seen_prio_def eq_tc_sch_prio_def eq_elems_take
      split: tc_sch.splits)

lemma cp_sch: "cp_tc_sch s = Inr t \<longleftrightarrow> ok_sch s \<and> t = sch_part s"
  by (auto simp: cp_tc_sch_def ok_sch_def ok_prio_def sch_part_def cp_tc_sch_prio_def cp_tc_sch_rr_def seen_prio_def
      res_bind_eq_Inr split: tc_sch.splits)

lemma eq_mtr_same [simp]: "eq_tc_mtr near m m = (if f32_nan (bnd m) then Inl AssertFail else Inr True)"
  by (simp add: eq_tc_mtr_def)

lemma cp_mtr [simp]: "cp_tc_mtr m = m"
  by (simp add: cp_tc_mtr_def)

lemma cp_pcr [simp]: "cp_tc_pcr p = p"
  by (simp add: cp_tc_pcr_def)

lemma eq_filter_same [simp]: "eq_tc_cls_osi_filter f f"
  by (simp add: eq_tc_cls_osi_filter_def eq_L3_filter_def eq_L4_filter_def)

lemma cp_filters [simp]: "map cp_tc_cls_osi_filter fs = fs"
  by (induction fs) (simp_all add: cp_tc_cls_osi_filter_def cp_L3_filter_def cp_L4_filter_def)

lemma eq_cls_part: "ok_cls c \<Longrightarrow> eq_tc_cls c (seen_cls c) = Inr True"
  by (auto simp: ok_cls_def eq_tc_cls_def seen_cls_def eq_tc_cls_osi_def eq_elems_take split: tc_cls.splits)

lemma cp_cls: "cp_tc_cls c = Inr d \<longleftrightarrow> ok_cls c \<and> d = seen_cls c"
  by (auto simp: cp_tc_cls_def ok_cls_def seen_cls_def cp_tc_cls_osi_def res_bind_eq_Inr split: tc_cls.splits)

lemma eq_shp_part [simp]: "eq_tc_shp near s (shp_part s) = Inr True \<longleftrightarrow> \<not> f32_nan (bnd (shp_mtr s))"
  by (simp add: eq_tc_shp_def shp_part_def)

lemma eq_plc_same [simp]:
  "eq_tc_plc near p p = Inr True \<longleftrightarrow> \<not> f32_nan (bnd (plc_mtr p)) \<and> \<not> f32_nan (plc_max_rate_kbps p)"
  by (simp add: eq_tc_plc_def eq_tc_drp_def eq_tc_mrk_def)

lemma eq_stats_part [simp]: "eq_tc_queue_fifo near3 s (stats_part s) = Inr True \<longleftrightarrow> \<not> f32_nan (tq_avg_sojourn s)"
  by (simp add: eq_tc_queue_fifo_def stats_part_def eq_tc_drp_def)

lemma eq_queue_part [simp]: "eq_tc_q near3 q (queue_part q) = Inr True \<longleftrightarrow> queue_copies q"
  by (cases "tq_u q") (simp_all add: eq_tc_q_def queue_part_def queue_copies_def)

text \<open>The rows of three arrays of the same length are what they were made of.\<close>

lemma tc_rows_split [simp]:
  "tc_rows \<lparr>ind_sch = sc, ind_pcr = pc, ind_cls = cl, len_q = n, ind_shp = map fst rs, ind_plc = map (fst \<circ> snd) rs,
    ind_q = map (snd \<circ> snd) rs, tc_tstamp = t\<rparr> = rs"
  by (simp add: tc_rows_def) (induction rs; simp)

lemma cp_queue: "cp_tc_queue q = Inr r \<longleftrightarrow> (case tq_u q of Queue_unknown v \<Rightarrow> False | _ \<Rightarrow> True) \<and> r = queue_part q"
  by (auto simp: cp_tc_queue_def queue_part_def cp_tc_queue_stats_def stats_part_def res_bind_eq_Inr
      split: tc_queue_u.splits)

lemma cp_shp: "cp_tc_shp s = Inr t \<longleftrightarrow> (shp_active s = 0 \<or> shp_active s = 1) \<and> t = shp_part s"
  by (auto simp: cp_tc_shp_def shp_part_def res_bind_eq_Inr)

lemma cp_plc: "cp_tc_plc p = Inr t \<longleftrightarrow> (plc_active p = 0 \<or> plc_active p = 1) \<and> t = p"
  by (auto simp: cp_tc_plc_def res_bind_eq_Inr)

text \<open>The part of \<open>row_copies\<close> that the copy of the elements checks; the comparison checks the rest.\<close>

definition row_flags :: "tc_shp \<times> tc_plc \<times> tc_queue \<Rightarrow> bool" where
  "row_flags r \<longleftrightarrow> (shp_active (fst r) = 0 \<or> shp_active (fst r) = 1) \<and> (plc_active (fst (snd r)) = 0 \<or> plc_active (fst (snd r)) = 1) \<and>
    (case tq_u (snd (snd r)) of Queue_unknown v \<Rightarrow> False | _ \<Rightarrow> True)"

lemma cp_rows:
  "cp_tc_shp_q_plc n rows = Inr out \<longleftrightarrow> n \<le> length rows \<and> list_all row_flags (take n rows) \<and>
    out = (let rs = map row_part (take n rows) in (map fst rs, map (fst \<circ> snd) rs, map (snd \<circ> snd) rs))"
proof (induction n rows arbitrary: out rule: cp_tc_shp_q_plc.induct)
  case (3 n s p q rows)
  show ?case
    by (auto simp: res_bind_eq_Inr cp_queue cp_shp cp_plc 3 Let_def row_part_def row_flags_def)
qed auto

lemma eq_row_flags:
  "row_flags (s, p, q) \<Longrightarrow> row_part (s, p, q) = (s', p', q') \<Longrightarrow>
    row_copies (s, p, q) \<longleftrightarrow> eq_tc_shp near s s' = Inr True \<and> eq_tc_plc near p p' = Inr True \<and> eq_tc_q near3 q q' = Inr True"
  by (auto simp: row_copies_def row_part_def row_flags_def shp_copies_def plc_copies_def)

lemma eq_rows_flags:
  "n \<le> length rows \<Longrightarrow> list_all row_flags (take n rows) \<Longrightarrow>
    eq_tc_all near near3 n rows (map row_part (take n rows)) = Inr () \<longleftrightarrow> list_all row_copies (take n rows)"
proof (induction n arbitrary: rows)
  case (Suc n)
  then obtain s p q rs where r: "rows = (s, p, q) # rs" by (cases rows) auto
  obtain s' p' q' where p: "row_part (s, p, q) = (s', p', q')" by (cases "row_part (s, p, q)")
  have f: "row_flags (s, p, q)" using Suc.prems r by simp
  show ?case using Suc r p eq_row_flags [OF f p, of near near3] by (auto simp: res_bind_eq_Inr)
qed simp

lemma copies_flags: "row_copies r \<Longrightarrow> row_flags r"
  by (auto simp: row_copies_def row_flags_def shp_copies_def plc_copies_def queue_copies_def split: tc_queue_u.splits)

lemma cp_tc_msg: "cp_tc_ind_msg m = Inr d \<longleftrightarrow> tc_msg_copies m \<and> d = tc_msg_part m"
proof -
  let ?n = "unat (len_q m)"
  let ?flags = "ok_sch (ind_sch m) \<and> ok_cls (ind_cls m) \<and> ?n \<le> length (tc_rows m) \<and> list_all row_flags (take ?n (tc_rows m))"
  let ?dst = "tc_msg_part m"
  have "cp_tc_ind_msg m = Inr d \<longleftrightarrow> ?flags \<and> eq_tc_ind_msg (\<lambda>a b. False) (\<lambda>a b. False) m ?dst = Inr True \<and> d = ?dst"
    by (auto simp: cp_tc_ind_msg_def res_bind_eq_Inr cp_sch cp_cls cp_rows Let_def tc_msg_part_def rows_part_def simp del: map_map)
  moreover have "eq_tc_ind_msg (\<lambda>a b. False) (\<lambda>a b. False) m ?dst = Inr True \<longleftrightarrow>
      \<not> f32_nan (bnd (pcr_mtr (ind_pcr m))) \<and> list_all row_copies (take ?n (tc_rows m))" if f: ?flags
    using eq_rows_flags [of ?n "tc_rows m" "\<lambda>a b. False" "\<lambda>a b. False"] f
    by (auto simp: eq_tc_ind_msg_def tc_msg_part_def rows_part_def res_bind_eq_Inr eq_sch_part eq_cls_part eq_tc_pcr_def
          simp del: map_map)
  moreover have "list_all row_flags (take ?n (tc_rows m))" if "list_all row_copies (take ?n (tc_rows m))"
    using that copies_flags by (auto simp: list_all_iff)
  ultimately show ?thesis by (auto simp: tc_msg_copies_def)
qed

lemma cp_tc_data:
  "cp_tc_ind_data i = Inr d \<longleftrightarrow> tc_msg_copies (tc_msg i) \<and> tc_proc_id i = None \<and>
    d = \<lparr>tc_hdr = tc_hdr i, tc_msg = tc_msg_part (tc_msg i), tc_proc_id = None\<rparr>"
  by (auto simp: cp_tc_ind_data_def res_bind_eq_Inr cp_tc_msg cp_tc_ind_hdr_def)

section \<open>Freeing\<close>

lemma free_tc_ok:
  assumes "ok_sch (ind_sch m)" "unat (len_q m) \<le> length (tc_rows m)"
  shows "free_tc_ind_msg m = Inr ()"
proof -
  have "free_tc_sch (ind_sch m) = Inr ()" using assms(1) by (auto simp: ok_sch_def free_tc_sch_def split: tc_sch.splits)
  moreover have "ind_shp m \<noteq> [] \<and> ind_plc m \<noteq> [] \<and> ind_q m \<noteq> []" if "0 < len_q m"
    using assms(2) that by (auto simp: tc_rows_def word_gt_0 unat_eq_zero)
  ultimately show ?thesis by (auto simp: free_tc_ind_msg_def)
qed

lemma free_tc_part: "tc_msg_copies m \<Longrightarrow> free_tc_ind_msg (tc_msg_part m) = Inr ()"
proof -
  assume m: "tc_msg_copies m"
  have "tc_rows (tc_msg_part m) = rows_part m" by (simp add: tc_msg_part_def)
  moreover have "ok_sch (sch_part s)" if "ok_sch s" for s
    using that by (auto simp: ok_sch_def sch_part_def ok_prio_def seen_prio_def split: tc_sch.splits)
  ultimately show ?thesis
    using m by (intro free_tc_ok) (simp_all add: tc_msg_copies_def tc_msg_part_def rows_part_def)
qed

end
