(* ===== verification/TcCtrlWire.thy ===== *)
theory TcCtrlWire
  imports TcWire
begin

text \<open>
  The format of the control messages of traffic control.  Every object of the messages is a
  \<open>wire_format\<close>: size, writer and reader of \<open>TcCtrl\<close> agree on its bytes, provided that its tags are
  known and a priority list has the announced number of elements.
\<close>

section \<open>The format\<close>

definition add_cls_bytes :: "tc_add_ctrl_cls \<Rightarrow> byte_array" where
  "add_cls_bytes c = concat [le (add_cls_type c),
    (case c of Add_cls_rr d \<Rightarrow> le d | Add_cls_sto d \<Rightarrow> le d | Add_cls_unknown v \<Rightarrow> []
     | Add_cls_osi osi \<Rightarrow> concat [le (src_addr (add_l3 osi)), le (dst_addr (add_l3 osi)), le (src_port (add_l4 osi)),
         le (dst_port (add_l4 osi)), le (protocol (add_l4 osi)), le (add_dst_queue osi)])]"

definition mod_cls_bytes :: "(nat \<Rightarrow> u8) \<Rightarrow> tc_mod_ctrl_cls \<Rightarrow> byte_array" where
  "mod_cls_bytes pad c = concat [le (mod_cls_type c),
    (case c of Mod_cls_rr d \<Rightarrow> le d | Mod_cls_osi f \<Rightarrow> put_filter pad f | Mod_cls_sto d \<Rightarrow> le d | Mod_cls_unknown v \<Rightarrow> [])]"

definition del_cls_bytes :: "tc_del_ctrl_cls \<Rightarrow> byte_array" where
  "del_cls_bytes c = concat [le (del_cls_type c),
    (case c of Del_cls_rr d \<Rightarrow> le d | Del_cls_osi i \<Rightarrow> le i | Del_cls_sto d \<Rightarrow> le d | Del_cls_unknown v \<Rightarrow> [])]"

definition ctrl_cls_bytes :: "(nat \<Rightarrow> u8) \<Rightarrow> tc_ctrl_cls \<Rightarrow> byte_array" where
  "ctrl_cls_bytes pad c = concat [le (cls_act c),
    (case c of Cls_add a \<Rightarrow> add_cls_bytes a | Cls_del d \<Rightarrow> del_cls_bytes d | Cls_mod m \<Rightarrow> mod_cls_bytes pad m
     | Cls_act_unknown v \<Rightarrow> [])]"

definition ctrl_plc_bytes :: "tc_ctrl_plc \<Rightarrow> byte_array" where
  "ctrl_plc_bytes p = concat [le (plc_act p),
    (case p of Plc_add d \<Rightarrow> le d | Plc_del i \<Rightarrow> le i | Plc_act_unknown v \<Rightarrow> []
     | Plc_mod m \<Rightarrow> concat [le (mplc_id m), le (drop_rate_kbps m), le (mplc_dev_id m), le (dev_rate_kbps m), le (mplc_active m)])]"

definition q_bytes :: "tc_ctrl_queue_u \<Rightarrow> byte_array" where
  "q_bytes u = concat [le (q_type u),
    (case u of Q_fifo d \<Rightarrow> le d | Q_codel c \<Rightarrow> concat [le (target_ms c), le (interval_ms c)]
     | Q_ecn_codel c \<Rightarrow> concat [le (target_ms c), le (interval_ms c)] | Q_unknown v \<Rightarrow> [])]"

definition ctrl_queue_bytes :: "tc_ctrl_queue \<Rightarrow> byte_array" where
  "ctrl_queue_bytes q = concat [le (queue_act q),
    (case q of Queue_add u \<Rightarrow> q_bytes u | Queue_del i t \<Rightarrow> concat [le i, le t] | Queue_mod i u \<Rightarrow> concat [le i, q_bytes u]
     | Queue_act_unknown v \<Rightarrow> [])]"

definition mod_sch_bytes :: "tc_mod_ctrl_sch \<Rightarrow> byte_array" where
  "mod_sch_bytes m = concat [le (mod_sch_type m),
    (case m of Mod_sch_rr d \<Rightarrow> le d | Mod_sch_prio p \<Rightarrow> prio_bytes p | Mod_sch_unknown v \<Rightarrow> [])]"

definition ctrl_sch_bytes :: "tc_ctrl_sch \<Rightarrow> byte_array" where
  "ctrl_sch_bytes s = concat [le (sch_act s),
    (case s of Sch_add d \<Rightarrow> le d | Sch_del d \<Rightarrow> le d | Sch_mod m \<Rightarrow> mod_sch_bytes m | Sch_act_unknown v \<Rightarrow> [])]"

definition ctrl_shp_bytes :: "tc_ctrl_shp \<Rightarrow> byte_array" where
  "ctrl_shp_bytes s = concat [le (shp_act s),
    (case s of Shp_add d \<Rightarrow> le d | Shp_del i \<Rightarrow> le i | Shp_act_unknown v \<Rightarrow> []
     | Shp_mod m \<Rightarrow> concat [le (mshp_id m), le (mshp_time_window_ms m), le (mshp_max_rate_kbps m), le (mshp_active m)])]"

definition mod_pcr_bytes :: "tc_mod_ctrl_pcr \<Rightarrow> byte_array" where
  "mod_pcr_bytes m = concat [le (mod_pcr_type m),
    (case m of Mod_pcr_dummy d \<Rightarrow> le d | Mod_pcr_5g_bdp b \<Rightarrow> concat [le (drb_sz b), le (bdp_tstamp b)] | Mod_pcr_unknown v \<Rightarrow> [])]"

definition ctrl_pcr_bytes :: "tc_ctrl_pcr \<Rightarrow> byte_array" where
  "ctrl_pcr_bytes p = concat [le (pcr_act p),
    (case p of Pcr_add d \<Rightarrow> le d | Pcr_del d \<Rightarrow> le d | Pcr_mod m \<Rightarrow> mod_pcr_bytes m | Pcr_act_unknown v \<Rightarrow> [])]"

definition tc_ctrl_bytes :: "(nat \<Rightarrow> u8) \<Rightarrow> tc_ctrl_msg \<Rightarrow> byte_array" where
  "tc_ctrl_bytes pad m = concat [le (tc_ctrl_type m),
    (case m of Ctrl_cls c \<Rightarrow> ctrl_cls_bytes pad c | Ctrl_plc c \<Rightarrow> ctrl_plc_bytes c | Ctrl_queue c \<Rightarrow> ctrl_queue_bytes c
     | Ctrl_sch c \<Rightarrow> ctrl_sch_bytes c | Ctrl_shp c \<Rightarrow> ctrl_shp_bytes c | Ctrl_pcr c \<Rightarrow> ctrl_pcr_bytes c | Ctrl_unknown v \<Rightarrow> [])]"

section \<open>Messages that are encoded, and what is read\<close>

definition ok_add_cls :: "tc_add_ctrl_cls \<Rightarrow> bool" where
  "ok_add_cls c \<longleftrightarrow> (case c of Add_cls_unknown v \<Rightarrow> False | _ \<Rightarrow> True)"

definition ok_mod_cls :: "tc_mod_ctrl_cls \<Rightarrow> bool" where
  "ok_mod_cls c \<longleftrightarrow> (case c of Mod_cls_unknown v \<Rightarrow> False | _ \<Rightarrow> True)"

definition ok_del_cls :: "tc_del_ctrl_cls \<Rightarrow> bool" where
  "ok_del_cls c \<longleftrightarrow> (case c of Del_cls_unknown v \<Rightarrow> False | _ \<Rightarrow> True)"

definition ok_ctrl_cls :: "tc_ctrl_cls \<Rightarrow> bool" where
  "ok_ctrl_cls c \<longleftrightarrow>
    (case c of Cls_add a \<Rightarrow> ok_add_cls a | Cls_del d \<Rightarrow> ok_del_cls d | Cls_mod m \<Rightarrow> ok_mod_cls m | Cls_act_unknown v \<Rightarrow> False)"

definition ok_ctrl_plc :: "tc_ctrl_plc \<Rightarrow> bool" where
  "ok_ctrl_plc c \<longleftrightarrow> (case c of Plc_act_unknown v \<Rightarrow> False | _ \<Rightarrow> True)"

definition ok_q :: "tc_ctrl_queue_u \<Rightarrow> bool" where
  "ok_q u \<longleftrightarrow> (case u of Q_unknown v \<Rightarrow> False | _ \<Rightarrow> True)"

definition ok_ctrl_queue :: "tc_ctrl_queue \<Rightarrow> bool" where
  "ok_ctrl_queue q \<longleftrightarrow>
    (case q of Queue_add u \<Rightarrow> ok_q u | Queue_del i t \<Rightarrow> True | Queue_mod i u \<Rightarrow> ok_q u | Queue_act_unknown v \<Rightarrow> False)"

definition ok_mod_sch :: "tc_mod_ctrl_sch \<Rightarrow> bool" where
  "ok_mod_sch m \<longleftrightarrow> (case m of Mod_sch_rr d \<Rightarrow> True | Mod_sch_prio p \<Rightarrow> ok_prio p | Mod_sch_unknown v \<Rightarrow> False)"

definition ok_ctrl_sch :: "tc_ctrl_sch \<Rightarrow> bool" where
  "ok_ctrl_sch s \<longleftrightarrow> (case s of Sch_mod m \<Rightarrow> ok_mod_sch m | Sch_act_unknown v \<Rightarrow> False | _ \<Rightarrow> True)"

definition ok_ctrl_shp :: "tc_ctrl_shp \<Rightarrow> bool" where
  "ok_ctrl_shp s \<longleftrightarrow> (case s of Shp_act_unknown v \<Rightarrow> False | _ \<Rightarrow> True)"

definition ok_mod_pcr :: "tc_mod_ctrl_pcr \<Rightarrow> bool" where
  "ok_mod_pcr m \<longleftrightarrow> (case m of Mod_pcr_unknown v \<Rightarrow> False | _ \<Rightarrow> True)"

definition ok_ctrl_pcr :: "tc_ctrl_pcr \<Rightarrow> bool" where
  "ok_ctrl_pcr p \<longleftrightarrow> (case p of Pcr_mod m \<Rightarrow> ok_mod_pcr m | Pcr_act_unknown v \<Rightarrow> False | _ \<Rightarrow> True)"

definition ok_tc_ctrl :: "tc_ctrl_msg \<Rightarrow> bool" where
  "ok_tc_ctrl m \<longleftrightarrow>
    (case m of Ctrl_cls c \<Rightarrow> ok_ctrl_cls c | Ctrl_plc c \<Rightarrow> ok_ctrl_plc c | Ctrl_queue c \<Rightarrow> ok_ctrl_queue c
     | Ctrl_sch c \<Rightarrow> ok_ctrl_sch c | Ctrl_shp c \<Rightarrow> ok_ctrl_shp c | Ctrl_pcr c \<Rightarrow> ok_ctrl_pcr c | Ctrl_unknown v \<Rightarrow> False)"

definition seen_mod_sch :: "tc_mod_ctrl_sch \<Rightarrow> tc_mod_ctrl_sch" where
  "seen_mod_sch m = (case m of Mod_sch_prio p \<Rightarrow> Mod_sch_prio (seen_prio p) | _ \<Rightarrow> m)"

definition seen_ctrl_sch :: "tc_ctrl_sch \<Rightarrow> tc_ctrl_sch" where
  "seen_ctrl_sch s = (case s of Sch_mod m \<Rightarrow> Sch_mod (seen_mod_sch m) | _ \<Rightarrow> s)"

definition seen_tc_ctrl :: "tc_ctrl_msg \<Rightarrow> tc_ctrl_msg" where
  "seen_tc_ctrl m = (case m of Ctrl_sch c \<Rightarrow> Ctrl_sch (seen_ctrl_sch c) | _ \<Rightarrow> m)"

section \<open>Size, writer and reader of every object\<close>

interpretation add_cls_wire: wire_format 0 ok_add_cls add_cls_bytes cal_tc_add_ctrl_payload_cls
  enc_tc_add_ctrl_payload_cls dec_tc_add_ctrl_payload_cls "\<lambda>x. x"
proof
  fix c assume ok: "ok_add_cls c"
  show "cal_tc_add_ctrl_payload_cls c = Inr (length (add_cls_bytes c))"
    using ok by (simp add: ok_add_cls_def cal_tc_add_ctrl_payload_cls_def add_cls_bytes_def split: tc_add_ctrl_cls.splits)
  show "writes (enc_tc_add_ctrl_payload_cls c) (add_cls_bytes c)"
    unfolding enc_tc_add_ctrl_payload_cls_def add_cls_bytes_def
    by (rule writes_seq)
       (use ok in \<open>simp add: wire ok_add_cls_def enc_tc_add_ctrl_payload_cls_osi_def writes_seq del: concat.simps
        split: tc_add_ctrl_cls.splits\<close>)
  show "reads dec_tc_add_ctrl_payload_cls c (add_cls_bytes c)"
    using ok by (simp add: reads_k_def ok_add_cls_def dec_tc_add_ctrl_payload_cls_def add_cls_bytes_def add_cls_type_def
        dec_tc_add_ctrl_payload_cls_osi_def split: tc_add_ctrl_cls.splits)
qed

interpretation mod_cls_wire: wire_format 0 ok_mod_cls "mod_cls_bytes pad" cal_tc_mod_ctrl_payload_cls
  "enc_tc_mod_ctrl_payload_cls pad" dec_tc_mod_ctrl_payload_cls "\<lambda>x. x" for pad
proof
  fix c assume ok: "ok_mod_cls c"
  show "cal_tc_mod_ctrl_payload_cls c = Inr (length (mod_cls_bytes pad c))"
    using ok by (simp add: ok_mod_cls_def cal_tc_mod_ctrl_payload_cls_def mod_cls_bytes_def filter_mem.put_size
        split: tc_mod_ctrl_cls.splits)
  show "writes (enc_tc_mod_ctrl_payload_cls pad c) (mod_cls_bytes pad c)"
    unfolding enc_tc_mod_ctrl_payload_cls_def mod_cls_bytes_def
    by (rule writes_seq) (use ok in \<open>simp add: wire ok_mod_cls_def split: tc_mod_ctrl_cls.splits\<close>)
  show "reads dec_tc_mod_ctrl_payload_cls c (mod_cls_bytes pad c)"
    using ok by (simp add: reads_k_def ok_mod_cls_def dec_tc_mod_ctrl_payload_cls_def mod_cls_bytes_def mod_cls_type_def
        memcpy_from_def filter_mem.put_size filter_mem.get_put split: tc_mod_ctrl_cls.splits)
qed

interpretation del_cls_wire: wire_format 0 ok_del_cls del_cls_bytes cal_tc_del_ctrl_payload_cls
  enc_tc_del_ctrl_payload_cls dec_tc_del_ctrl_payload_cls "\<lambda>x. x"
proof
  fix c assume ok: "ok_del_cls c"
  show "cal_tc_del_ctrl_payload_cls c = Inr (length (del_cls_bytes c))"
    using ok by (simp add: ok_del_cls_def cal_tc_del_ctrl_payload_cls_def del_cls_bytes_def split: tc_del_ctrl_cls.splits)
  show "writes (enc_tc_del_ctrl_payload_cls c) (del_cls_bytes c)"
    unfolding enc_tc_del_ctrl_payload_cls_def del_cls_bytes_def
    by (rule writes_seq) (use ok in \<open>simp add: wire ok_del_cls_def split: tc_del_ctrl_cls.splits\<close>)
  show "reads dec_tc_del_ctrl_payload_cls c (del_cls_bytes c)"
    using ok by (simp add: reads_k_def ok_del_cls_def dec_tc_del_ctrl_payload_cls_def del_cls_bytes_def del_cls_type_def
        split: tc_del_ctrl_cls.splits)
qed

interpretation ctrl_cls_wire: wire_format 0 ok_ctrl_cls "ctrl_cls_bytes pad" cal_tc_ctrl_payload_cls
  "enc_tc_ctrl_payload_cls pad" dec_tc_ctrl_payload_cls "\<lambda>x. x" for pad
proof
  fix c assume ok: "ok_ctrl_cls c"
  show "cal_tc_ctrl_payload_cls c = Inr (length (ctrl_cls_bytes pad c))"
    using ok by (simp add: ok_ctrl_cls_def cal_tc_ctrl_payload_cls_def ctrl_cls_bytes_def add_cls_wire.size
        mod_cls_wire.size [where pad = pad] del_cls_wire.size split: tc_ctrl_cls.splits)
  show "writes (enc_tc_ctrl_payload_cls pad c) (ctrl_cls_bytes pad c)"
    unfolding enc_tc_ctrl_payload_cls_def ctrl_cls_bytes_def
    by (rule writes_seq) (use ok in \<open>simp add: wire ok_ctrl_cls_def add_cls_wire.written mod_cls_wire.written
        del_cls_wire.written split: tc_ctrl_cls.splits\<close>)
  show "reads dec_tc_ctrl_payload_cls c (ctrl_cls_bytes pad c)"
    using ok by (cases c) (simp_all add: reads_k_def [of 0 dec_tc_ctrl_payload_cls] ok_ctrl_cls_def dec_tc_ctrl_payload_cls_def
        ctrl_cls_bytes_def cls_act_def readsD [OF add_cls_wire.read] readsD [OF mod_cls_wire.read] readsD [OF del_cls_wire.read])
qed

interpretation ctrl_plc_wire: wire_format 0 ok_ctrl_plc ctrl_plc_bytes cal_tc_ctrl_payload_plc
  enc_tc_ctrl_payload_plc dec_tc_ctrl_payload_plc "\<lambda>x. x"
proof
  fix c assume ok: "ok_ctrl_plc c"
  show "cal_tc_ctrl_payload_plc c = Inr (length (ctrl_plc_bytes c))"
    using ok by (simp add: ok_ctrl_plc_def cal_tc_ctrl_payload_plc_def ctrl_plc_bytes_def split: tc_ctrl_plc.splits)
  show "writes (enc_tc_ctrl_payload_plc c) (ctrl_plc_bytes c)"
    unfolding enc_tc_ctrl_payload_plc_def ctrl_plc_bytes_def
    by (rule writes_seq) (use ok in \<open>simp add: wire ok_ctrl_plc_def enc_tc_mod_ctrl_payload_plc_def writes_seq
        del: concat.simps split: tc_ctrl_plc.splits\<close>)
  show "reads dec_tc_ctrl_payload_plc c (ctrl_plc_bytes c)"
    using ok by (simp add: reads_k_def ok_ctrl_plc_def dec_tc_ctrl_payload_plc_def dec_tc_mod_ctrl_payload_plc_def
        ctrl_plc_bytes_def plc_act_def split: tc_ctrl_plc.splits)
qed

interpretation q_wire: wire_format 0 ok_q q_bytes cal_tc_ctrl_payload_q_add
  enc_tc_add_ctrl_payload_q dec_tc_add_ctrl_payload_q "\<lambda>x. x"
proof
  fix u assume ok: "ok_q u"
  show "cal_tc_ctrl_payload_q_add u = Inr (length (q_bytes u))"
    using ok by (simp add: ok_q_def cal_tc_ctrl_payload_q_add_def q_bytes_def split: tc_ctrl_queue_u.splits)
  show "writes (enc_tc_add_ctrl_payload_q u) (q_bytes u)"
    unfolding enc_tc_add_ctrl_payload_q_def q_bytes_def
    by (rule writes_seq) (use ok in \<open>simp add: wire ok_q_def enc_tc_ctrl_payload_q_codel_def writes_seq
        del: concat.simps split: tc_ctrl_queue_u.splits\<close>)
  show "reads dec_tc_add_ctrl_payload_q u (q_bytes u)"
    using ok by (simp add: reads_k_def ok_q_def dec_tc_add_ctrl_payload_q_def q_bytes_def q_type_def
        dec_tc_ctrl_payload_q_codel_def split: tc_ctrl_queue_u.splits)
qed

text \<open>To modify a queue is to write its identifier before what it becomes.\<close>

lemma size_q_mod: "ok_q u \<Longrightarrow> cal_tc_ctrl_payload_q_mod i u = Inr (length (concat [le i, q_bytes u]))"
  by (simp add: ok_q_def cal_tc_ctrl_payload_q_mod_def q_bytes_def split: tc_ctrl_queue_u.splits)

lemma writes_q_mod: "ok_q u \<Longrightarrow> writes (enc_tc_mod_ctrl_payload_q i u) (concat [le i, q_bytes u])"
proof -
  assume ok: "ok_q u"
  have "writes (enc_tc_mod_ctrl_payload_q i u) (concat [le i, le (q_type u),
    (case u of Q_fifo d \<Rightarrow> le d | Q_codel c \<Rightarrow> concat [le (target_ms c), le (interval_ms c)]
     | Q_ecn_codel c \<Rightarrow> concat [le (target_ms c), le (interval_ms c)] | Q_unknown v \<Rightarrow> [])])"
    unfolding enc_tc_mod_ctrl_payload_q_def
    by (rule writes_seq) (use ok in \<open>simp add: wire ok_q_def enc_tc_ctrl_payload_q_codel_def writes_seq
        del: concat.simps split: tc_ctrl_queue_u.splits\<close>)
  then show ?thesis by (simp add: q_bytes_def)
qed

lemma reads_q_mod: "ok_q u \<Longrightarrow> dec_tc_mod_ctrl_payload_q (le i @ q_bytes u @ r) = Inr ((i, u), r)"
  by (simp add: ok_q_def dec_tc_mod_ctrl_payload_q_def q_bytes_def q_type_def dec_tc_ctrl_payload_q_codel_def
      split: tc_ctrl_queue_u.splits)

interpretation ctrl_queue_wire: wire_format 0 ok_ctrl_queue ctrl_queue_bytes cal_tc_ctrl_payload_q
  enc_tc_ctrl_payload_q dec_tc_ctrl_payload_q "\<lambda>x. x"
proof
  fix q assume ok: "ok_ctrl_queue q"
  show "cal_tc_ctrl_payload_q q = Inr (length (ctrl_queue_bytes q))"
    using ok by (simp add: ok_ctrl_queue_def cal_tc_ctrl_payload_q_def ctrl_queue_bytes_def q_wire.size size_q_mod
        cal_tc_ctrl_payload_q_del_def split: tc_ctrl_queue.splits)
  show "writes (enc_tc_ctrl_payload_q q) (ctrl_queue_bytes q)"
    unfolding enc_tc_ctrl_payload_q_def ctrl_queue_bytes_def
    by (rule writes_seq) (use ok in \<open>simp add: wire ok_ctrl_queue_def q_wire.written writes_q_mod
        enc_tc_del_ctrl_payload_q_def writes_seq del: concat.simps split: tc_ctrl_queue.splits\<close>)
  show "reads dec_tc_ctrl_payload_q q (ctrl_queue_bytes q)"
    using ok by (cases q) (simp_all add: reads_k_def [of 0 dec_tc_ctrl_payload_q] ok_ctrl_queue_def dec_tc_ctrl_payload_q_def
        ctrl_queue_bytes_def queue_act_def readsD [OF q_wire.read] reads_q_mod dec_tc_del_ctrl_payload_q_def)
qed

interpretation mod_sch_wire: wire_format 0 ok_mod_sch mod_sch_bytes cal_tc_ctrl_payload_sch_mod
  enc_tc_mod_ctrl_payload_sch dec_tc_mod_ctrl_payload_sch seen_mod_sch
proof
  fix m assume ok: "ok_mod_sch m"
  show "cal_tc_ctrl_payload_sch_mod m = Inr (length (mod_sch_bytes m))"
    using ok by (simp add: ok_mod_sch_def cal_tc_ctrl_payload_sch_mod_def mod_sch_bytes_def ok_prio_def prio_bytes_def
        split: tc_mod_ctrl_sch.splits)
  have p: "writes (enc_tc_mod_ctrl_payload_sch_prio p) (prio_bytes p)" if "ok_prio p" for p
    unfolding enc_tc_mod_ctrl_payload_sch_prio_def prio_bytes_def by (rule writes_seq) (use that in \<open>simp add: wire ok_prio_def\<close>)
  show "writes (enc_tc_mod_ctrl_payload_sch m) (mod_sch_bytes m)"
    unfolding enc_tc_mod_ctrl_payload_sch_def mod_sch_bytes_def
    by (rule writes_seq) (use ok in \<open>simp add: wire p ok_mod_sch_def split: tc_mod_ctrl_sch.splits\<close>)
  show "reads dec_tc_mod_ctrl_payload_sch (seen_mod_sch m) (mod_sch_bytes m)"
    using ok by (simp add: reads_k_def ok_mod_sch_def dec_tc_mod_ctrl_payload_sch_def dec_tc_mod_ctrl_payload_sch_prio_def
        mod_sch_bytes_def prio_bytes_def ok_prio_def seen_prio_def seen_mod_sch_def mod_sch_type_def split: tc_mod_ctrl_sch.splits)
qed

interpretation ctrl_sch_wire: wire_format 0 ok_ctrl_sch ctrl_sch_bytes cal_tc_ctrl_payload_sch
  enc_tc_ctrl_payload_sch dec_tc_ctrl_payload_sch seen_ctrl_sch
proof
  fix s assume ok: "ok_ctrl_sch s"
  show "cal_tc_ctrl_payload_sch s = Inr (length (ctrl_sch_bytes s))"
    using ok by (simp add: ok_ctrl_sch_def cal_tc_ctrl_payload_sch_def ctrl_sch_bytes_def mod_sch_wire.size
        split: tc_ctrl_sch.splits)
  show "writes (enc_tc_ctrl_payload_sch s) (ctrl_sch_bytes s)"
    unfolding enc_tc_ctrl_payload_sch_def ctrl_sch_bytes_def
    by (rule writes_seq) (use ok in \<open>simp add: wire ok_ctrl_sch_def mod_sch_wire.written split: tc_ctrl_sch.splits\<close>)
  show "reads dec_tc_ctrl_payload_sch (seen_ctrl_sch s) (ctrl_sch_bytes s)"
    using ok by (cases s) (simp_all add: reads_k_def [of 0 dec_tc_ctrl_payload_sch] ok_ctrl_sch_def dec_tc_ctrl_payload_sch_def
        ctrl_sch_bytes_def sch_act_def seen_ctrl_sch_def readsD [OF mod_sch_wire.read])
qed

interpretation ctrl_shp_wire: wire_format 0 ok_ctrl_shp ctrl_shp_bytes cal_tc_ctrl_payload_shp
  enc_tc_ctrl_payload_shp dec_tc_ctrl_payload_shp "\<lambda>x. x"
proof
  fix s assume ok: "ok_ctrl_shp s"
  show "cal_tc_ctrl_payload_shp s = Inr (length (ctrl_shp_bytes s))"
    using ok by (simp add: ok_ctrl_shp_def cal_tc_ctrl_payload_shp_def ctrl_shp_bytes_def split: tc_ctrl_shp.splits)
  show "writes (enc_tc_ctrl_payload_shp s) (ctrl_shp_bytes s)"
    unfolding enc_tc_ctrl_payload_shp_def ctrl_shp_bytes_def
    by (rule writes_seq) (use ok in \<open>simp add: wire ok_ctrl_shp_def enc_tc_mod_ctrl_payload_shp_def writes_seq
        del: concat.simps split: tc_ctrl_shp.splits\<close>)
  show "reads dec_tc_ctrl_payload_shp s (ctrl_shp_bytes s)"
    using ok by (simp add: reads_k_def ok_ctrl_shp_def dec_tc_ctrl_payload_shp_def dec_tc_mod_ctrl_payload_shp_def
        ctrl_shp_bytes_def shp_act_def split: tc_ctrl_shp.splits)
qed

interpretation mod_pcr_wire: wire_format 0 ok_mod_pcr mod_pcr_bytes cal_tc_ctrl_payload_pcr_mod
  enc_tc_mod_ctrl_payload_pcr dec_tc_mod_ctrl_payload_pcr "\<lambda>x. x"
proof
  fix m assume ok: "ok_mod_pcr m"
  show "cal_tc_ctrl_payload_pcr_mod m = Inr (length (mod_pcr_bytes m))"
    using ok by (simp add: ok_mod_pcr_def cal_tc_ctrl_payload_pcr_mod_def mod_pcr_bytes_def split: tc_mod_ctrl_pcr.splits)
  show "writes (enc_tc_mod_ctrl_payload_pcr m) (mod_pcr_bytes m)"
    unfolding enc_tc_mod_ctrl_payload_pcr_def mod_pcr_bytes_def
    by (rule writes_seq) (use ok in \<open>simp add: wire ok_mod_pcr_def enc_tc_mod_ctrl_payload_pcr_bdp_def writes_seq
        del: concat.simps split: tc_mod_ctrl_pcr.splits\<close>)
  show "reads dec_tc_mod_ctrl_payload_pcr m (mod_pcr_bytes m)"
    using ok by (simp add: reads_k_def ok_mod_pcr_def dec_tc_mod_ctrl_payload_pcr_def dec_tc_mod_ctrl_payload_pcr_bdp_def
        mod_pcr_bytes_def mod_pcr_type_def split: tc_mod_ctrl_pcr.splits)
qed

interpretation ctrl_pcr_wire: wire_format 0 ok_ctrl_pcr ctrl_pcr_bytes cal_tc_ctrl_payload_pcr
  enc_tc_ctrl_payload_pcr dec_tc_ctrl_payload_pcr "\<lambda>x. x"
proof
  fix p assume ok: "ok_ctrl_pcr p"
  show "cal_tc_ctrl_payload_pcr p = Inr (length (ctrl_pcr_bytes p))"
    using ok by (simp add: ok_ctrl_pcr_def cal_tc_ctrl_payload_pcr_def ctrl_pcr_bytes_def mod_pcr_wire.size
        split: tc_ctrl_pcr.splits)
  show "writes (enc_tc_ctrl_payload_pcr p) (ctrl_pcr_bytes p)"
    unfolding enc_tc_ctrl_payload_pcr_def ctrl_pcr_bytes_def
    by (rule writes_seq) (use ok in \<open>simp add: wire ok_ctrl_pcr_def mod_pcr_wire.written split: tc_ctrl_pcr.splits\<close>)
  show "reads dec_tc_ctrl_payload_pcr p (ctrl_pcr_bytes p)"
    using ok by (cases p) (simp_all add: reads_k_def [of 0 dec_tc_ctrl_payload_pcr] ok_ctrl_pcr_def dec_tc_ctrl_payload_pcr_def
        ctrl_pcr_bytes_def pcr_act_def readsD [OF mod_pcr_wire.read])
qed

section \<open>The message\<close>

lemma tc_ctrl_codec:
  assumes "ok_tc_ctrl m" "length (tc_ctrl_bytes pad m) < 2 ^ 64"
  shows "tc_enc_ctrl_msg_plain pad m = Inr (tc_ctrl_bytes pad m)"
    and "tc_dec_ctrl_msg_plain (tc_ctrl_bytes pad m) = Inr (seen_tc_ctrl m)"
proof -
  have k: "reads g v bs \<Longrightarrow> g bs = Inr (v, [])" for g :: "byte_array \<Rightarrow> ('a \<times> byte_array) res" and v bs
    using readsD [of 0 g v bs "[]"] by simp
  show "tc_enc_ctrl_msg_plain pad m = Inr (tc_ctrl_bytes pad m)"
    unfolding tc_enc_ctrl_msg_plain_def
  proof (rule wr_buffer_ok)
    show "cal_tc_ctrl_payload m = Inr (length (tc_ctrl_bytes pad m))"
      using assms(1) by (cases m) (simp_all add: cal_tc_ctrl_payload_def tc_ctrl_bytes_def ok_tc_ctrl_def
          ctrl_cls_wire.size [where pad = pad] ctrl_plc_wire.size ctrl_queue_wire.size ctrl_sch_wire.size ctrl_shp_wire.size
          ctrl_pcr_wire.size)
    show "writes (wr_seq [wr (le (tc_ctrl_type m)),
      (case m of Ctrl_cls c \<Rightarrow> enc_tc_ctrl_payload_cls pad c | Ctrl_plc c \<Rightarrow> enc_tc_ctrl_payload_plc c
       | Ctrl_queue c \<Rightarrow> enc_tc_ctrl_payload_q c | Ctrl_sch c \<Rightarrow> enc_tc_ctrl_payload_sch c
       | Ctrl_shp c \<Rightarrow> enc_tc_ctrl_payload_shp c | Ctrl_pcr c \<Rightarrow> enc_tc_ctrl_payload_pcr c | Ctrl_unknown v \<Rightarrow> wr_fail)])
      (tc_ctrl_bytes pad m)"
      unfolding tc_ctrl_bytes_def
      by (rule writes_seq, cases m)
         (use assms(1) in \<open>simp_all add: wire ok_tc_ctrl_def ctrl_cls_wire.written ctrl_plc_wire.written
           ctrl_queue_wire.written ctrl_sch_wire.written ctrl_shp_wire.written ctrl_pcr_wire.written\<close>)
  qed (rule assms(2))
  show "tc_dec_ctrl_msg_plain (tc_ctrl_bytes pad m) = Inr (seen_tc_ctrl m)"
    using assms(1)
    by (cases m) (simp_all add: tc_dec_ctrl_msg_plain_def dec_tc_ctrl_payload_def tc_ctrl_bytes_def tc_ctrl_type_def
        ok_tc_ctrl_def seen_tc_ctrl_def k [OF ctrl_cls_wire.read] k [OF ctrl_plc_wire.read] k [OF ctrl_queue_wire.read]
        k [OF ctrl_sch_wire.read] k [OF ctrl_shp_wire.read] k [OF ctrl_pcr_wire.read])
qed

end
