(* ===== verification/KpmWire.thy ===== *)
theory KpmWire
  imports KpmAsn
begin

text \<open>
  What the encoder and the decoder of KPM do together on the PDU, element by element: exactly which
  values come back as they were.
\<close>

section \<open>Labels and measurements\<close>

definition label_ok :: "adapter_LabelInfoItem \<Rightarrow> bool" where
  "label_ok l \<longleftrightarrow> l = no_label_info\<lparr>noLabel := noLabel l\<rparr>"

definition meas_info_ok :: "bool \<Rightarrow> MeasInfo_t \<Rightarrow> bool" where
  "meas_info_ok counted i \<longleftrightarrow>
    (meas_type i = KPM_V2_MEASUREMENT_TYPE_NAME \<and> measID i = 0 \<or>
     meas_type i = KPM_V2_MEASUREMENT_TYPE_ID \<and> measName i = []) \<and>
    (counted \<longrightarrow> labelInfo i \<noteq> [] \<and> length (labelInfo i) \<le> maxnoofLabelInfo) \<and> list_all label_ok (labelInfo i)"

lemma label_trip: "cp_label_info_item_from_asn (cp_label_info_item_into_asn l) = Inr l \<longleftrightarrow> label_ok l"
  by (cases l)
     (auto simp: cp_label_info_item_from_asn_def cp_label_info_item_into_asn_def label_ok_def no_label_info_def
       split: option.splits)

lemma labels_trip:
  "map_res cp_label_info_item_from_asn (map cp_label_info_item_into_asn ls) = Inr ls \<longleftrightarrow> list_all label_ok ls"
  by (induction ls) (auto simp: res_bind_eq_Inr label_trip)

lemma get_labels_eq_Inr:
  "get_labels n ls = Inr xs \<longleftrightarrow> length ls \<le> n \<and> map_res cp_label_info_item_from_asn ls = Inr xs"
  by (induction n ls arbitrary: xs rule: get_labels.induct) (auto simp: res_bind_eq_Inr)

lemma put_meas_info_length: "put_meas_info b i = Inr j \<Longrightarrow> length (labelInfoList j) = length (labelInfo i)"
  by (auto simp: put_meas_info_def split: if_splits)

lemma meas_info_trip:
  "res_bind (put_meas_info False i) (get_meas_info n) = Inr i \<longleftrightarrow>
    meas_info_ok False i \<and> length (labelInfo i) \<le> n"
  by (cases i)
     (auto simp: put_meas_info_def get_meas_info_def get_meas_type_def meas_info_ok_def res_bind_eq_Inr
       get_labels_eq_Inr labels_trip kpm_consts)

lemma action_meas_info_trip:
  "res_bind (put_meas_info True i) get_action_meas_info = Inr i \<longleftrightarrow> meas_info_ok True i"
  by (cases i)
     (auto simp: put_meas_info_def get_action_meas_info_def get_meas_type_def meas_info_ok_def res_bind_eq_Inr
       labels_trip kpm_consts)

section \<open>Action definition\<close>

definition action_def_ok :: "kpm_action_def \<Rightarrow> bool" where
  "action_def_ok ad \<longleftrightarrow>
    ric_style_type ad = 1 \<and> ad_MeasInfo ad \<noteq> [] \<and> length (ad_MeasInfo ad) \<le> maxnoofMeasurementInfo \<and>
    list_all (meas_info_ok True) (ad_MeasInfo ad) \<and> cell_global_id ad = KPMV2_CELL_ID_CHOICE_NOTHING \<and>
    nRCellIdentity ad = 0 \<and> pLMNIdentity ad = [] \<and> eUTRACellIdentity ad = 0"

lemma action_def_trip: "res_bind (action_def_pdu ad) action_def_of_pdu = Inr ad \<longleftrightarrow> action_def_ok ad"
proof (cases rule: map_res_trip_cases [of "put_meas_info True" get_action_meas_info "meas_info_ok True" "ad_MeasInfo ad",
      OF action_meas_info_trip])
  case 1
  then show ?thesis by (auto simp: action_def_pdu_def action_def_ok_def)
next
  case (2 ys)
  then show ?thesis
    by (cases ad)
       (auto simp: action_def_pdu_def action_def_of_pdu_def action_def_ok_def res_bind_eq_Inr kpm_consts)
qed

section \<open>Header\<close>

lemma byte_cases:
  fixes n :: nat
  assumes "n < 32"
  obtains "n < 8" | "8 \<le> n" "n < 16" | "16 \<le> n" "n < 24" | "24 \<le> n" "n < 32"
  using assms by linarith

lemma time_trip: "OCTET_STRING_TO_INT32 (INT32_TO_OCTET_STRING x) = Inr x"
proof -
  have "(push_bit 24 (ucast (ucast (drop_bit 24 x) :: u8)) OR push_bit 16 (ucast (ucast (drop_bit 16 x) :: u8)) OR
      push_bit 8 (ucast (ucast (drop_bit 8 x) :: u8)) OR ucast (ucast x :: u8) :: u32) = x"
  proof (rule bit_word_eqI)
    fix n assume "n < LENGTH(32)"
    then have "n < 32" by simp
    then show "bit (push_bit 24 (ucast (ucast (drop_bit 24 x) :: u8)) OR push_bit 16 (ucast (ucast (drop_bit 16 x) :: u8)) OR
        push_bit 8 (ucast (ucast (drop_bit 8 x) :: u8)) OR ucast (ucast x :: u8) :: u32) n = bit x n"
      by (cases rule: byte_cases) (auto simp: bit_simps)
  qed
  then show ?thesis by (simp add: OCTET_STRING_TO_INT32_def INT32_TO_OCTET_STRING_def)
qed

lemma bit_htonl:
  "n < 32 \<Longrightarrow> bit (htonl x) n \<longleftrightarrow>
    (if n < 8 then bit x (n + 24) else if n < 16 then bit x (n + 8) else if n < 24 then bit x (n - 8) else bit x (n - 24))"
  by (erule byte_cases) (auto simp: htonl_def bit_simps add.commute)

lemma htonl_htonl [simp]: "htonl (htonl x) = x"
proof (rule bit_word_eqI)
  fix n assume "n < LENGTH(32)"
  then have "n < 32" by simp
  then show "bit (htonl (htonl x)) n = bit x n"
    by (cases rule: byte_cases) (auto simp: bit_htonl)
qed

lemma ind_hdr_trip:
  "res_bind (ind_hdr_pdu h) ind_hdr_of_pdu =
    (if fileFormatversion h = None \<and> senderName h = None \<and> senderType h = None \<and> vendorName h = None
     then Inr h else Inl AssertFail)"
  by (cases h) (auto simp: ind_hdr_pdu_def ind_hdr_of_pdu_def time_trip)

section \<open>Message\<close>

definition meas_record_ok :: "adapter_MeasRecord \<Rightarrow> bool" where
  "meas_record_ok r \<longleftrightarrow>
    rec_type r = MeasRecord_int \<and> real_val r = 0 \<or> rec_type r = MeasRecord_real \<and> int_val r = 0 \<or>
    rec_type r = MeasRecord_noval \<and> int_val r = 0 \<and> real_val r = 0"

definition meas_data_ok :: "adapter_MeasDataItem \<Rightarrow> bool" where
  "meas_data_ok d \<longleftrightarrow>
    measRecord d \<noteq> [] \<and> length (measRecord d) \<le> maxnoofMeasurementValue \<and> list_all meas_record_ok (measRecord d) \<and>
    (incompleteFlag d = 0 \<or> incompleteFlag d = - 1)"

text \<open>What stops the decoder or is lost: a granularity period, and a measurement with more labels
  than the first one.\<close>

definition labels_fit :: "MeasInfo_t list \<Rightarrow> bool" where
  "labels_fit l \<longleftrightarrow> list_all (\<lambda>i. length (labelInfo i) \<le> length (labelInfo (hd l))) l"

definition kpm_msg_ok :: "kpm_ind_msg \<Rightarrow> bool" where
  "kpm_msg_ok m \<longleftrightarrow>
    MeasData m \<noteq> [] \<and> length (MeasData m) \<le> maxnoofMeasurementRecord \<and> list_all meas_data_ok (MeasData m) \<and>
    length (im_MeasInfo m) \<le> maxnoofMeasurementInfo \<and> list_all (meas_info_ok False) (im_MeasInfo m) \<and>
    labels_fit (im_MeasInfo m) \<and> granulPeriod m = None"

lemma meas_record_trip: "res_bind (put_meas_record r) get_meas_record = Inr r \<longleftrightarrow> meas_record_ok r"
  by (cases r) (auto simp: put_meas_record_def get_meas_record_def meas_record_ok_def kpm_consts)

lemma meas_data_trip: "res_bind (put_meas_data d) get_meas_data = Inr d \<longleftrightarrow> meas_data_ok d"
proof (cases rule: map_res_trip_cases [of put_meas_record get_meas_record meas_record_ok "measRecord d", OF meas_record_trip])
  case 1
  then show ?thesis by (auto simp: put_meas_data_def meas_data_ok_def)
next
  case (2 ys)
  then show ?thesis
    by (cases d) (auto simp: put_meas_data_def get_meas_data_def meas_data_ok_def res_bind_eq_Inr)
qed

lemma meas_infos_trip:
  assumes "xs \<noteq> []"
  shows "res_bind (map_res (put_meas_info False) xs) (\<lambda>l. get_meas_infos (Some l)) = Inr xs \<longleftrightarrow>
    list_all (meas_info_ok False) xs \<and> labels_fit xs"
proof (cases rule: map_res_trip_cases [of "put_meas_info False" "get_meas_info (length (labelInfo (hd xs)))"
      "\<lambda>i. meas_info_ok False i \<and> length (labelInfo i) \<le> length (labelInfo (hd xs))" xs, OF meas_info_trip])
  case 1
  then show ?thesis by (auto simp: labels_fit_def list_all_iff)
next
  case (2 ys)
  obtain x xs' y ys' where e: "xs = x # xs'" "ys = y # ys'"
    using assms 2(3) by (cases xs; cases ys) auto
  then have "length (labelInfoList y) = length (labelInfo x)"
    using 2(1) by (auto simp: res_bind_eq_Inr put_meas_info_length)
  then have "get_meas_infos (Some ys) = map_res (get_meas_info (length (labelInfo (hd xs)))) ys"
    by (simp add: get_meas_infos_def e)
  then show ?thesis using 2 by (auto simp: labels_fit_def list_all_iff)
qed

lemma ind_msg_trip: "res_bind (ind_msg_pdu m) ind_msg_of_pdu = Inr m \<longleftrightarrow> kpm_msg_ok m"
proof (cases rule: map_res_trip_cases [of put_meas_data get_meas_data meas_data_ok "MeasData m", OF meas_data_trip])
  case 1
  then show ?thesis by (auto simp: ind_msg_pdu_def kpm_msg_ok_def)
next
  case (2 md)
  show ?thesis
  proof (cases "im_MeasInfo m = []")
    case True
    then show ?thesis
      using 2 by (cases m) (auto simp: ind_msg_pdu_def ind_msg_of_pdu_def kpm_msg_ok_def res_bind_eq_Inr
        get_meas_infos_def labels_fit_def)
  next
    case False
    then show ?thesis
      using 2 meas_infos_trip [OF False]
      by (cases m; cases "map_res (put_meas_info False) (im_MeasInfo m)")
         (auto simp: ind_msg_pdu_def ind_msg_of_pdu_def kpm_msg_ok_def res_bind_eq_Inr)
  qed
qed

text \<open>Of a message that its encoding keeps, the copies need every label to say that there is none.\<close>

lemma labels_copy_ok:
  assumes "kpm_msg_ok m"
  shows "labels_copy m \<longleftrightarrow> (\<forall>i\<in>set (im_MeasInfo m). \<forall>l\<in>set (labelInfo i). noLabel l \<noteq> None)"
proof -
  have "label_copies l \<longleftrightarrow> noLabel l \<noteq> None" if "i \<in> set (im_MeasInfo m)" "l \<in> set (labelInfo i)" for i l
  proof -
    have "label_ok l" using assms that by (auto simp: kpm_msg_ok_def list_all_iff meas_info_ok_def)
    then have "plmnID l = plmnID (no_label_info\<lparr>noLabel := noLabel l\<rparr>)" unfolding label_ok_def by (rule arg_cong)
    then show ?thesis by (simp add: label_copies_def no_label_info_def)
  qed
  then show ?thesis by (auto simp: labels_copy_def list_all_iff)
qed

text \<open>What stops the decoder.\<close>

lemma get_labels_stops:
  assumes "length ls > n \<or> (\<exists>l\<in>set ls. noLabel l = None \<and> plmnID l \<noteq> None)"
  shows "get_labels n (map cp_label_info_item_into_asn ls) \<noteq> Inr xs"
proof -
  have "map_res cp_label_info_item_from_asn (map cp_label_info_item_into_asn ls) \<noteq> Inr xs"
    if "\<exists>l\<in>set ls. noLabel l = None \<and> plmnID l \<noteq> None"
    using that
    by (induction ls arbitrary: xs)
       (auto simp: res_bind_eq_Inr cp_label_info_item_from_asn_def cp_label_info_item_into_asn_def)
  then show ?thesis using assms by (auto simp: get_labels_eq_Inr)
qed

lemma meas_infos_stop:
  assumes "map_res (put_meas_info False) xs = Inr ys" "xs \<noteq> []"
    "\<not> labels_fit xs \<or> (\<exists>i\<in>set xs. \<exists>l\<in>set (labelInfo i). noLabel l = None \<and> plmnID l \<noteq> None)"
  shows "get_meas_infos (Some ys) \<noteq> Inr zs"
proof
  assume g: "get_meas_infos (Some ys) = Inr zs"
  have p: "put_meas_info False x = Inr y \<Longrightarrow> labelInfoList y = map cp_label_info_item_into_asn (labelInfo x)" for x y
    by (auto simp: put_meas_info_def split: if_splits)
  obtain x xs' y ys' where e: "xs = x # xs'" "ys = y # ys'" "put_meas_info False x = Inr y"
    using assms(1,2) by (cases xs) (auto simp: res_bind_eq_Inr)
  obtain i where i: "i \<in> set xs" "length (labelInfo i) > length (labelInfo x) \<or>
      (\<exists>l\<in>set (labelInfo i). noLabel l = None \<and> plmnID l \<noteq> None)"
    using assms(3) by (auto simp: labels_fit_def list_all_iff e(1) not_le)
  obtain j where j: "j \<in> set ys" "put_meas_info False i = Inr j"
    using map_res_set [OF assms(1) i(1)] by blast
  have "map_res (get_meas_info (length (labelInfo x))) ys = Inr zs"
    using g p [OF e(3)] by (simp add: get_meas_infos_def e(2))
  then obtain z where "get_meas_info (length (labelInfo x)) j = Inr z"
    using map_res_set [OF _ j(1)] by blast
  then show False
    using get_labels_stops [OF i(2)] p [OF j(2)] by (auto simp: get_meas_info_def res_bind_eq_Inr)
qed

lemma ind_msg_stops:
  assumes "ind_msg_pdu m = Inr p"
    "granulPeriod m \<noteq> None \<or> \<not> labels_fit (im_MeasInfo m) \<or>
     (\<exists>i\<in>set (im_MeasInfo m). \<exists>l\<in>set (labelInfo i). noLabel l = None \<and> plmnID l \<noteq> None)"
  shows "ind_msg_of_pdu p \<noteq> Inr n"
proof (cases "granulPeriod m = None")
  case False
  then show ?thesis using assms(1) by (auto simp: ind_msg_pdu_def ind_msg_of_pdu_def res_bind_eq_Inr)
next
  case True
  then have bad: "\<not> labels_fit (im_MeasInfo m) \<or>
      (\<exists>i\<in>set (im_MeasInfo m). \<exists>l\<in>set (labelInfo i). noLabel l = None \<and> plmnID l \<noteq> None)"
    using assms(2) by simp
  then have ne: "im_MeasInfo m \<noteq> []" by (auto simp: labels_fit_def)
  then obtain md ys where "p = indicationMessage_Format1 \<lparr>measData = md, measInfoList = Some ys, im_granulPeriod = granulPeriod m\<rparr>"
    "map_res (put_meas_info False) (im_MeasInfo m) = Inr ys"
    using assms(1) by (auto simp: ind_msg_pdu_def res_bind_eq_Inr)
  then show ?thesis
    using meas_infos_stop [OF _ ne bad] by (auto simp: ind_msg_of_pdu_def res_bind_eq_Inr)
qed

lemma func_def_trip:
  "res_bind (Inr (func_def_pdu f)) func_def_of_pdu = Inr f \<longleftrightarrow>
    ranFunction_Instance f = None \<and> ric_EventTriggerStyle_List_len f = 0 \<and> ric_ReportStyle_List_len f = 0"
  by (cases f) (auto simp: func_def_pdu_def func_def_of_pdu_def)

section \<open>With the codec\<close>

text \<open>The generated codec on one PDU: it writes the bytes, and reads the PDU back from them.\<close>

definition codes :: "('p \<Rightarrow> byte_array option) \<Rightarrow> (byte_array \<Rightarrow> 'p option) \<Rightarrow> 'p \<Rightarrow> byte_array \<Rightarrow> bool" where
  "codes enc dec pdu b \<longleftrightarrow> enc pdu = Some b \<and> dec b = Some pdu \<and> b \<noteq> [] \<and> length b \<le> 2048"

lemma codes_encode: "codes enc dec pdu b \<Longrightarrow> kpm_encode enc pdu = Inr b"
  by (simp add: codes_def kpm_encode_def)

lemma codes_decode: "codes enc dec pdu b \<Longrightarrow> kpm_decode dec b = Inr pdu"
  by (simp add: codes_def kpm_decode_def)

end
