(* ===== verification/SmThms.thy ===== *)
theory SmThms
  imports SmIo SliceCopy TcCopy TcCtrlWire KpmWire Network
begin

text \<open>
  What a service model promises: its two halves, loaded by the agent and by the RIC or an xApp, undo
  each other on the bytes that travel between them.  The locale \<open>sm_halves\<close> is this contract;
  \<open>service_model\<close> adds that the RIC and the xApp accept the type of the statistics and that what
  travels has bytes, as the encoding of E2AP demands.  MAC, RLC, PDCP,
  GTP and SLICE fulfil both, and the chains of messages of \<open>Network\<close> deliver under them what
  the RAN measured; TC fulfils the first only.
\<close>

section \<open>The contract\<close>

locale sm_halves =
  fixes ag :: "'st sm_agent" and rc :: "(sm_ag_if_wr, sm_stats) sm_ric"
    and st_ok :: "'st \<Rightarrow> bool" and seen :: "'st \<Rightarrow> sm_stats sm_ag_if_rd" and after :: "'st \<Rightarrow> 'st"
  assumes same_id: "sm_ran_func_id rc = ag_ran_func_id ag"
    and interval: "cmd_ms cmd = Inr ms \<Longrightarrow>
      \<exists>d. on_subscription rc cmd = Inr d \<and> (\<forall>st. ag_on_subscription ag st d = Inr (uint ms, st))"
    and reading: "st_ok st \<Longrightarrow> \<exists>d. ag_on_indication ag st = Inr (d, after st) \<and>
      sid_call_process_id d = None \<and> on_indication rc d = Inr (seen st)"
begin

lemma interval_reaches:
  assumes "interval_cmd i = Inr cmd"
  obtains d ms where "on_subscription rc cmd = Inr d" "0 < ms" "cmd_ms cmd = Inr ms"
    "\<And>st. ag_on_subscription ag st d = Inr (uint ms, st)"
proof -
  obtain ms :: u32 where ms: "cmd_ms cmd = Inr ms" "0 < ms"
    using assms by (cases i) (auto simp: interval_cmd_def cmd_ms_def)
  then show ?thesis using interval [OF ms(1)] that by blast
qed

end

locale service_model = sm_halves ag rc st_ok seen after
  for ag :: "'st sm_agent" and rc :: "(sm_ag_if_wr, sm_stats) sm_ric"
    and st_ok :: "'st \<Rightarrow> bool" and seen :: "'st \<Rightarrow> sm_stats sm_ag_if_rd" and after :: "'st \<Rightarrow> 'st" +
  assumes supported: "rd_supported (rd_type (seen st))"
    and trigger_bytes: "on_subscription rc cmd = Inr d \<Longrightarrow> sd_event_trigger d \<noteq> []"
    and reading_bytes: "st_ok st \<Longrightarrow> ag_on_indication ag st = Inr (i, st') \<Longrightarrow> sid_hdr i \<noteq> [] \<and> sid_msg i \<noteq> []"
begin

lemma reading_delivered:
  assumes "agent_inv a" "0 < afd" "ind_of a afd = Some \<lparr>iric_id = f, ism = Some ag, action_id = act\<rparr>" "st_ok (aran a)"
      "ag_on_indication ag (aran a) = Inr (d, r)" "msg_fits (aap a) (Ric_ind (report_ind f act d))"
    and "plugin_inv (plugin (s_ric st))" "plugin_get (plugin (s_ric st)) (ran_func_id f) = Some rc"
      "rb_entries (pub_sub (s_ric st)) = map (\<lambda>e. (fst e, default_listeners)) (rb_entries (plugin (s_ric st)))"
      "routed (s_iapp st) f \<lparr>xric_id = j, xapp_id = xi\<rparr> xinfo"
    and "xapp_inv D x" "plugin_get (xplugin_ric x) (ran_func_id f) = Some rc"
      "act_get (xact x) (ucast (ric_req_id j)) = Some v" "xcp x (seen (aran a)) = Inr c"
  obtains x1 where
    "e2_event_agent a (Ag_ready afd rcv afd') = Inr (a\<lparr>aran := after (aran a)\<rparr>, [Ric_ind (report_ind f act d)])"
    "sys_step st (From_ric_loop (Sctp_msg_arrived s (Ric_ind (report_ind f act d)))) =
      Inr (st, map (\<lambda>n. To_listener n (seen (aran a))) default_listeners @ [To_xapp xinfo (Ric_ind (report_ind j act d))])"
    "e2_event_xapp x (Xready (xep_fd x) (Ric_ind (report_ind j act d)) tfd) = Inr (x1, [Xwrite_db (ap_e2_node v) c])"
    "xdisp x1 = xdisp x @ [(ap_sm_cb v, seen (aran a))]" "xapp_inv D x1"
    "ric_id_ok True (Some 4096) f \<Longrightarrow> carried (Ric_ind (report_ind f act d)) = Inr (Ric_ind (report_ind f act d))"
    "ric_id_ok True (Some 4096) j \<Longrightarrow> carried (Ric_ind (report_ind j act d)) = Inr (Ric_ind (report_ind j act d))"
proof -
  have d: "r = after (aran a)" "sid_call_process_id d = None" "on_indication rc d = Inr (seen (aran a))"
    using reading [OF assms(4)] assms(5) by auto
  have s: "ind_sends (aap a) (report_ind f act d)"
    using reading_bytes [OF assms(4,5)] assms(6)
    by (simp add: ind_sends_def msg_fits_def msg_pdu_def) (simp add: report_ind_def)
  show ?thesis
    by (rule indication_chain [OF assms(1-3) assms(5) [unfolded d(1)] d(2) s assms(7-9) d(3) supported assms(10-12) d(3)
          supported assms(13,14), of rcv afd' s tfd]) (rule that)
qed

text \<open>A report of an xApp from its request to its first reading.\<close>

lemma report_to_reading:
  assumes "node_set D" "sys_inv D ep_fd st" "req_id (s_ric st) < 65536"
      "xapps_get (xapps (s_iapp st)) (xid x) = Some xinfo" "node \<in> D"
      "e2_sad_get (ep (s_ric st)) node = Some s"
      "length (e2reg_entries (e2_nodes (s_iapp st))) < 256" "0 < fd" "fd \<notin> set (io (s_ric st))"
    and xapp: "xapp_inv D x" "valid_ran_func_id rf" "key_id (xact x) < 65536"
      "plugin_get (xplugin_ric x) rf = Some rc" "interval_cmd i = Inr cmd"
      "0 < tfd" "tfd \<notin> set (xio x)" "xpend x E42_RIC_SUBSCRIPTION_REQUEST_PENDING_EVENT = None"
    and agent: "agent_inv a" "plugin_ag_get (aplugin a) rf = Some ag" "0 < afd"
      "afd \<notin> set (aio a)" "ind_timer a (fwd_id (s_ric st) (next_id x rf)) = None" "st_ok (aran a)"
      "ag_on_indication ag (aran a) = Inr (dd, r)" "msg_fits (aap a) n1"
    and ric: "plugin_get (plugin (s_ric st)) rf = Some rc" "plugin_inv (plugin (s_ric st))"
      "rb_entries (pub_sub (s_ric st)) = map (\<lambda>e. (fst e, default_listeners)) (rb_entries (plugin (s_ric st)))"
    and copy: "xcp x (seen (aran a)) = Inr c"
    and ns: "n1 = Ric_ind (report_ind (fwd_id (s_ric st) (next_id x rf)) 0 dd)" "n2 = Ric_ind (report_ind (next_id x rf) 0 dd)"
  obtains st1 a1 st2 x1 x2 q m1 m2 m3 where
    "sys_step st (From_xapp xinfo q [fd]) = Inr (st1, [To_node s m1])"
    "e2_event_agent a (Ag_ready (aep_fd a) (Payload m1) afd) = Inr (a1, [m2])"
    "sys_step st1 (From_ric_loop (Sctp_msg_arrived s m2)) = Inr (st2, [To_xapp xinfo m3])"
    "report_sm_sync_xapp x tfd node rf i cb [] [Xready (xep_fd x) m3 tfd'] =
      Inr (of_nat (key_id (xact x)), x1, [Xsend q])"
    "e2_event_agent a1 (Ag_ready afd rcv afd') = Inr (a1\<lparr>aran := after (aran a)\<rparr>, [n1])"
    "sys_step st2 (From_ric_loop (Sctp_msg_arrived s n1)) =
      Inr (st2, map (\<lambda>n. To_listener n (seen (aran a))) default_listeners @ [To_xapp xinfo n2])"
    "e2_event_xapp x1 (Xready (xep_fd x1) n2 tfd'') = Inr (x2, [Xwrite_db node c])"
    "xdisp x2 = xdisp x1 @ [(cb, seen (aran a))]" "sys_inv D ep_fd st2" "xapp_inv D x2"
    "node_id_ok node \<longrightarrow> carried q = Inr q" "\<forall>m\<in>{m1, m2, m3, n1, n2}. carried m = Inr m"
proof -
  obtain d and ms :: u32 where d: "on_subscription rc cmd = Inr d" "0 < ms"
    "\<And>st. ag_on_subscription ag st d = Inr (uint ms, st)"
    by (rule interval_reaches [OF xapp(5)]) (rule that)
  have ms: "0 \<le> uint ms" by simp
  let ?q = "E42_ric_sub_req (xapp_report_req x node rf d)" and ?f = "fwd_id (s_ric st) (next_id x rf)"
  obtain st1 a1 st2 x1 m1 m2 m3 where c:
    "sys_step st (From_xapp xinfo ?q [fd]) = Inr (st1, [To_node s m1])"
    "e2_event_agent a (Ag_ready (aep_fd a) (Payload m1) afd) = Inr (a1, [m2])"
    "sys_step st1 (From_ric_loop (Sctp_msg_arrived s m2)) = Inr (st2, [To_xapp xinfo m3])"
    "report_sm_sync_xapp x tfd node rf i cb [] [Xready (xep_fd x) m3 tfd'] =
      Inr (of_nat (key_id (xact x)), x1, [Xsend ?q])"
    "sys_inv D ep_fd st2" "agent_inv a1" "xapp_inv D x1"
    "ind_of a1 afd = Some \<lparr>iric_id = ?f, ism = Some ag, action_id = 0\<rparr>"
    "routed (s_iapp st2) ?f \<lparr>xric_id = next_id x rf, xapp_id = xid x\<rparr> xinfo"
    "\<exists>v. act_get (xact x1) (of_nat (key_id (xact x))) = Some v \<and> ap_sm_cb v = cb \<and> ap_e2_node v = node"
    "same_models (s_ric st) (s_ric st2)" "xplugin_ric x1 = xplugin_ric x" "aran a1 = aran a" "aap a1 = aap a" "xcp x1 = xcp x"
    "sd_event_trigger d \<noteq> [] \<longrightarrow> carried m1 = Inr m1" "carried m2 = Inr m2" "carried m3 = Inr m3"
    by (rule report_chain [OF assms(1-9) xapp d(1) agent(1,2) d(3) ms agent(3-5), of cb tfd']) (rule that)
  obtain v where v: "act_get (xact x1) (of_nat (key_id (xact x))) = Some v" "ap_sm_cb v = cb" "ap_e2_node v = node"
    using c(10) by blast
  have h: "st_ok (aran a1)" "plugin_inv (plugin (s_ric st2))" "plugin_get (plugin (s_ric st2)) (ran_func_id ?f) = Some rc"
    "rb_entries (pub_sub (s_ric st2)) = map (\<lambda>e. (fst e, default_listeners)) (rb_entries (plugin (s_ric st2)))"
    "plugin_get (xplugin_ric x1) (ran_func_id ?f) = Some rc"
    "act_get (xact x1) (ucast (ric_req_id (next_id x rf))) = Some v"
    "ag_on_indication ag (aran a1) = Inr (dd, r)" "msg_fits (aap a1) (Ric_ind (report_ind ?f 0 dd))"
    "xcp x1 (seen (aran a1)) = Inr c"
    using agent(6-8) ric xapp(4) c(11-15) v(1) copy ns by (simp_all add: next_id_def key_u16 [OF xapp(3)])
  obtain x2 where n:
    "e2_event_agent a1 (Ag_ready afd rcv afd') = Inr (a1\<lparr>aran := after (aran a1)\<rparr>, [Ric_ind (report_ind ?f 0 dd)])"
    "sys_step st2 (From_ric_loop (Sctp_msg_arrived s (Ric_ind (report_ind ?f 0 dd)))) =
      Inr (st2, map (\<lambda>n. To_listener n (seen (aran a1))) default_listeners @
        [To_xapp xinfo (Ric_ind (report_ind (next_id x rf) 0 dd))])"
    "e2_event_xapp x1 (Xready (xep_fd x1) (Ric_ind (report_ind (next_id x rf) 0 dd)) tfd'') =
      Inr (x2, [Xwrite_db (ap_e2_node v) c])"
    "xdisp x2 = xdisp x1 @ [(ap_sm_cb v, seen (aran a1))]" "xapp_inv D x2"
    "ric_id_ok True (Some 4096) ?f \<Longrightarrow> carried (Ric_ind (report_ind ?f 0 dd)) = Inr (Ric_ind (report_ind ?f 0 dd))"
    "ric_id_ok True (Some 4096) (next_id x rf) \<Longrightarrow> carried (Ric_ind (report_ind (next_id x rf) 0 dd)) =
      Inr (Ric_ind (report_ind (next_id x rf) 0 dd))"
    by (rule reading_delivered [OF c(6) agent(3) c(8) h(1) h(7,8) h(2-4) c(9) c(7) h(5,6,9), of rcv afd' s tfd'']) (rule that)
  note n = n [folded ns]
  have "ric_id_ok True (Some 4096) (next_id x rf)" by (rule next_id_ok [OF xapp(2,3)]) simp
  then have all: "\<forall>m\<in>{m1, m2, m3, n1, n2}. carried m = Inr m"
    using c(16-18) n(6,7) trigger_bytes [OF d(1)] by (simp add: fwd_id_ok)
  have q: "node_id_ok node \<longrightarrow> carried ?q = Inr ?q"
    using carried_report_request [of d node x rf] trigger_bytes [OF d(1)] by simp
  show ?thesis
    by (rule that [OF c(1-4) _ _ _ _ c(5) n(5) q all]) (use n v(2,3) c(13) in simp_all)
qed

end

section \<open>The models with a plain encoding\<close>

lemmas sm_simps = make_mac_sm_ric_def make_mac_sm_agent_def make_rlc_sm_ric_def make_rlc_sm_agent_def
  make_pdcp_sm_ric_def make_pdcp_sm_agent_def make_gtp_sm_ric_def make_gtp_sm_agent_def
  make_slice_sm_ric_def make_slice_sm_agent_def make_tc_sm_ric_def make_tc_sm_agent_def

lemmas sm_ric_defs = on_subscription_mac_sm_ric_def on_subscription_rlc_sm_ric_def on_subscription_pdcp_sm_ric_def
  on_subscription_gtp_sm_ric_def on_indication_mac_sm_ric_def on_indication_rlc_sm_ric_def
  on_indication_pdcp_sm_ric_def on_indication_gtp_sm_ric_def on_subscription_slice_sm_ric_def
  on_indication_slice_sm_ric_def on_subscription_tc_sm_ric_def on_indication_tc_sm_ric_def

lemmas sm_agent_defs = on_subscription_mac_sm_ag_def on_subscription_rlc_sm_ag_def on_subscription_pdcp_sm_ag_def
  on_subscription_gtp_sm_ag_def on_indication_mac_sm_ag_def on_indication_rlc_sm_ag_def
  on_indication_pdcp_sm_ag_def on_indication_gtp_sm_ag_def on_subscription_slice_sm_ag_def
  on_indication_slice_sm_ag_def on_subscription_tc_sm_ag_def on_indication_tc_sm_ag_def

lemmas sm_bytes_defs = mac_enc_ind_hdr_plain_def mac_enc_ind_msg_plain_def rlc_enc_ind_hdr_plain_def
  rlc_enc_ind_msg_plain_def pdcp_enc_ind_hdr_plain_def pdcp_enc_ind_msg_plain_def gtp_enc_ind_hdr_plain_def
  gtp_enc_ind_msg_plain_def slice_enc_ind_hdr_plain_def

lemma triggers_nonempty [simp]:
  "mac_enc_event_trigger_plain ms \<noteq> []" "rlc_enc_event_trigger_plain ms \<noteq> []" "pdcp_enc_event_trigger_plain ms \<noteq> []"
  "gtp_enc_event_trigger_plain ms \<noteq> []" "slice_enc_event_trigger_plain ms \<noteq> []"
  by (simp_all add: mac_enc_event_trigger_plain_def rlc_enc_event_trigger_plain_def pdcp_enc_event_trigger_plain_def
      gtp_enc_event_trigger_plain_def slice_enc_event_trigger_plain_def)

lemma triggers [simp]:
  "mac_dec_event_trigger_plain (mac_enc_event_trigger_plain ms) = Inr ms"
  "rlc_dec_event_trigger_plain (rlc_enc_event_trigger_plain ms) = Inr ms"
  "pdcp_dec_event_trigger_plain (pdcp_enc_event_trigger_plain ms) = Inr ms"
  "gtp_dec_event_trigger_plain (gtp_enc_event_trigger_plain ms) = Inr ms"
  "slice_dec_event_trigger_plain (slice_enc_event_trigger_plain ms) = Inr ms"
  "tc_dec_event_trigger_plain (tc_enc_event_trigger_plain ms) = Inr ms"
  using mac_trigger [of ms "[]"] rlc_trigger [of ms "[]"] pdcp_trigger [of ms "[]"] gtp_trigger [of ms "[]"]
  by (simp_all add: slice_dec_event_trigger_plain_def slice_enc_event_trigger_plain_def tc_dec_event_trigger_plain_def
      tc_enc_event_trigger_plain_def memcpy_from_def un_le_le)

text \<open>The statistics that a reading yields, and the readings that the encoders accept.\<close>

definition mac_seen :: "'st sm_io_ag \<Rightarrow> 'st \<Rightarrow> sm_stats sm_ag_if_rd" where
  "mac_seen rio st = \<lparr>rd_type = MAC_STATS_V0,
    rd_stats = Mac_stats \<lparr>mac_hdr = 0, mac_msg = mac_msg (fst (io_read_mac rio st)), mac_proc_id = None\<rparr>\<rparr>"

definition mac_reads :: "'st sm_io_ag \<Rightarrow> 'st \<Rightarrow> bool" where
  "mac_reads rio st \<longleftrightarrow> (let m = mac_msg (fst (io_read_mac rio st)) in
    wf_mac m \<and> 176 * length (ue_stats m) + 12 < 2 ^ 32)"

definition rlc_seen :: "'st sm_io_ag \<Rightarrow> 'st \<Rightarrow> sm_stats sm_ag_if_rd" where
  "rlc_seen rio st = \<lparr>rd_type = RLC_STATS_V0,
    rd_stats = Rlc_stats \<lparr>rlc_hdr = 0, rlc_msg = rlc_msg (fst (io_read_rlc rio st)), rlc_proc_id = None\<rparr>\<rparr>"

definition rlc_reads :: "'st sm_io_ag \<Rightarrow> 'st \<Rightarrow> bool" where
  "rlc_reads rio st \<longleftrightarrow> wf_rlc (rlc_msg (fst (io_read_rlc rio st)))"

definition pdcp_seen :: "'st sm_io_ag \<Rightarrow> 'st \<Rightarrow> sm_stats sm_ag_if_rd" where
  "pdcp_seen rio st = \<lparr>rd_type = PDCP_STATS_V0,
    rd_stats = Pdcp_stats \<lparr>pdcp_hdr = 0, pdcp_msg = pdcp_msg (fst (io_read_pdcp rio st)), pdcp_proc_id = None\<rparr>\<rparr>"

definition pdcp_reads :: "'st sm_io_ag \<Rightarrow> 'st \<Rightarrow> bool" where
  "pdcp_reads rio st \<longleftrightarrow> (let m = pdcp_msg (fst (io_read_pdcp rio st)) in
    wf_pdcp m \<and> list_all ok_pdcp_rb (p_rb m))"

definition gtp_seen :: "'st sm_io_ag \<Rightarrow> 'st \<Rightarrow> sm_stats sm_ag_if_rd" where
  "gtp_seen rio st = \<lparr>rd_type = GTP_STATS_V0,
    rd_stats = Gtp_stats \<lparr>gtp_hdr = 0, gtp_msg = gtp_msg (fst (io_read_gtp rio st)), gtp_proc_id = None\<rparr>\<rparr>"

definition gtp_reads :: "'st sm_io_ag \<Rightarrow> 'st \<Rightarrow> bool" where
  "gtp_reads rio st \<longleftrightarrow> wf_gtp (gtp_msg (fst (io_read_gtp rio st)))"

text \<open>Of a SLICE or TC message the other side sees what \<open>seen_slice_msg\<close> and \<open>seen_tc_msg\<close> say.\<close>

definition slice_seen :: "'st sm_io_ag \<Rightarrow> 'st \<Rightarrow> sm_stats sm_ag_if_rd" where
  "slice_seen rio st = \<lparr>rd_type = SLICE_STATS_V0, rd_stats = Slice_stats
    \<lparr>slice_hdr = 0, slice_msg = seen_slice_msg (slice_msg (fst (io_read_slice rio st))), slice_proc_id = None\<rparr>\<rparr>"

definition slice_reads :: "'st sm_io_ag \<Rightarrow> 'st \<Rightarrow> bool" where
  "slice_reads rio st \<longleftrightarrow> (let d = fst (io_read_slice rio st) in
    ok_slice_msg (slice_msg d) \<and> length (slice_msg_bytes (slice_msg d)) < 2 ^ 64 \<and> slice_proc_id d = None)"

definition tc_seen :: "'st sm_io_ag \<Rightarrow> 'st \<Rightarrow> sm_stats sm_ag_if_rd" where
  "tc_seen rio st = \<lparr>rd_type = TC_STATS_V0, rd_stats = Tc_stats
    \<lparr>tc_hdr = 0, tc_msg = seen_tc_msg (tc_msg (fst (io_read_tc rio st))), tc_proc_id = None\<rparr>\<rparr>"

definition tc_reads :: "'st sm_io_ag \<Rightarrow> 'st \<Rightarrow> bool" where
  "tc_reads rio st \<longleftrightarrow> (let (d, st') = io_read_tc rio st in
    ok_tc_msg (tc_msg d) \<and> length (tc_msg_bytes (io_pad rio st') (tc_msg d)) < 2 ^ 64 \<and> tc_proc_id d = None)"

lemmas seen_defs = mac_seen_def rlc_seen_def pdcp_seen_def gtp_seen_def slice_seen_def tc_seen_def

lemma mac_service: "service_model (make_mac_sm_agent rio) make_mac_sm_ric (mac_reads rio) (mac_seen rio) (\<lambda>st. snd (io_read_mac rio st))"
proof
  fix st assume r: "mac_reads rio st"
  let ?m = "mac_msg (fst (io_read_mac rio st))" and ?p = "io_pad rio (snd (io_read_mac rio st))"
  obtain bs where "mac_enc_ind_msg_plain ?p ?m = Inr bs" "mac_dec_ind_msg_plain bs = Inr ?m"
    using r mac_codec [of ?m ?p] by (auto simp: mac_reads_def Let_def)
  then show "\<exists>d. ag_on_indication (make_mac_sm_agent rio) st = Inr (d, snd (io_read_mac rio st)) \<and>
      sid_call_process_id d = None \<and> on_indication make_mac_sm_ric d = Inr (mac_seen rio st)"
    by (simp add: sm_simps sm_ric_defs sm_agent_defs mac_seen_def case_prod_beta Let_def)
qed (auto simp: sm_simps sm_ric_defs sm_agent_defs sm_bytes_defs mac_seen_def rd_supported_def res_bind_eq_Inr Let_def
    split: prod.splits)

lemma rlc_service: "service_model (make_rlc_sm_agent rio) make_rlc_sm_ric (rlc_reads rio) (rlc_seen rio) (\<lambda>st. snd (io_read_rlc rio st))"
proof
  fix st assume r: "rlc_reads rio st"
  let ?m = "rlc_msg (fst (io_read_rlc rio st))" and ?p = "io_pad rio (snd (io_read_rlc rio st))"
  obtain bs where "rlc_enc_ind_msg_plain ?p ?m = Inr bs" "rlc_dec_ind_msg_plain bs = Inr ?m"
    using r rlc_codec [of ?m ?p] by (auto simp: rlc_reads_def)
  then show "\<exists>d. ag_on_indication (make_rlc_sm_agent rio) st = Inr (d, snd (io_read_rlc rio st)) \<and>
      sid_call_process_id d = None \<and> on_indication make_rlc_sm_ric d = Inr (rlc_seen rio st)"
    by (simp add: sm_simps sm_ric_defs sm_agent_defs rlc_seen_def case_prod_beta Let_def rlc_small)
qed (auto simp: sm_simps sm_ric_defs sm_agent_defs sm_bytes_defs rlc_seen_def rd_supported_def res_bind_eq_Inr Let_def
    split: prod.splits)

lemma pdcp_service: "service_model (make_pdcp_sm_agent rio) make_pdcp_sm_ric (pdcp_reads rio) (pdcp_seen rio) (\<lambda>st. snd (io_read_pdcp rio st))"
proof
  fix st assume r: "pdcp_reads rio st"
  let ?m = "pdcp_msg (fst (io_read_pdcp rio st))" and ?p = "io_pad rio (snd (io_read_pdcp rio st))"
  have f: "free_pdcp_ind_msg ?m = Inr ()"
    using r by (simp add: free_pdcp_ind_msg_def check_pdcp pdcp_reads_def Let_def)
  obtain bs where "pdcp_enc_ind_msg_plain ?p ?m = Inr bs" "pdcp_dec_ind_msg_plain bs = Inr ?m"
    using r pdcp_codec [of ?m ?p] by (auto simp: pdcp_reads_def Let_def)
  then show "\<exists>d. ag_on_indication (make_pdcp_sm_agent rio) st = Inr (d, snd (io_read_pdcp rio st)) \<and>
      sid_call_process_id d = None \<and> on_indication make_pdcp_sm_ric d = Inr (pdcp_seen rio st)"
    by (simp add: sm_simps sm_ric_defs sm_agent_defs pdcp_seen_def case_prod_beta Let_def pdcp_small f)
qed (auto simp: sm_simps sm_ric_defs sm_agent_defs sm_bytes_defs pdcp_seen_def rd_supported_def res_bind_eq_Inr Let_def
    split: prod.splits)

lemma gtp_service: "service_model (make_gtp_sm_agent rio) make_gtp_sm_ric (gtp_reads rio) (gtp_seen rio) (\<lambda>st. snd (io_read_gtp rio st))"
proof
  fix st assume r: "gtp_reads rio st"
  let ?m = "gtp_msg (fst (io_read_gtp rio st))" and ?p = "io_pad rio (snd (io_read_gtp rio st))"
  obtain bs where "gtp_enc_ind_msg_plain ?p ?m = Inr bs" "gtp_dec_ind_msg_plain bs = Inr ?m"
    using r gtp_codec [of ?m ?p] by (auto simp: gtp_reads_def)
  then show "\<exists>d. ag_on_indication (make_gtp_sm_agent rio) st = Inr (d, snd (io_read_gtp rio st)) \<and>
      sid_call_process_id d = None \<and> on_indication make_gtp_sm_ric d = Inr (gtp_seen rio st)"
    by (simp add: sm_simps sm_ric_defs sm_agent_defs gtp_seen_def case_prod_beta Let_def gtp_small)
qed (auto simp: sm_simps sm_ric_defs sm_agent_defs sm_bytes_defs gtp_seen_def rd_supported_def res_bind_eq_Inr Let_def
    split: prod.splits)

lemma slice_service:
  "service_model (make_slice_sm_agent rio) make_slice_sm_ric (slice_reads rio) (slice_seen rio) (\<lambda>st. snd (io_read_slice rio st))"
proof
  fix st assume r: "slice_reads rio st"
  let ?d = "fst (io_read_slice rio st)"
  have r: "ok_slice_msg (slice_msg ?d)" "length (slice_msg_bytes (slice_msg ?d)) < 2 ^ 64" "slice_proc_id ?d = None"
    using r by (simp_all add: slice_reads_def Let_def)
  show "\<exists>d. ag_on_indication (make_slice_sm_agent rio) st = Inr (d, snd (io_read_slice rio st)) \<and>
      sid_call_process_id d = None \<and> on_indication make_slice_sm_ric d = Inr (slice_seen rio st)"
    using slice_codec [OF r(1,2)] r(3) free_zeroed [OF r(1)]
    by (simp add: sm_simps sm_ric_defs sm_agent_defs slice_seen_def case_prod_beta Let_def free_slice_call_proc_id_def)
next
  fix st i st' assume r: "slice_reads rio st" "ag_on_indication (make_slice_sm_agent rio) st = Inr (i, st')"
  let ?d = "fst (io_read_slice rio st)"
  have "slice_enc_ind_msg_plain (slice_msg ?d) = Inr (slice_msg_bytes (slice_msg ?d))"
    using r(1) by (intro slice_codec) (simp_all add: slice_reads_def Let_def)
  then show "sid_hdr i \<noteq> [] \<and> sid_msg i \<noteq> []"
    using r(2) by (auto simp: sm_simps sm_agent_defs sm_bytes_defs case_prod_beta res_bind_eq_Inr slice_msg_bytes_def Let_def)
qed (auto simp: sm_simps sm_ric_defs sm_agent_defs sm_bytes_defs slice_seen_def rd_supported_def res_bind_eq_Inr Let_def
    split: prod.splits)

lemma tc_service:
  "sm_halves (make_tc_sm_agent rio) (make_tc_sm_ric pad) (tc_reads rio) (tc_seen rio) (\<lambda>st. snd (io_read_tc rio st))"
proof
  fix st assume r: "tc_reads rio st"
  let ?d = "fst (io_read_tc rio st)" and ?p = "io_pad rio (snd (io_read_tc rio st))"
  have r: "ok_tc_msg (tc_msg ?d)" "length (tc_msg_bytes ?p (tc_msg ?d)) < 2 ^ 64" "tc_proc_id ?d = None"
    using r by (simp_all add: tc_reads_def case_prod_beta)
  have f: "free_tc_ind_msg (tc_msg ?d) = Inr ()"
    using r(1) length_rows [OF r(1)] by (intro free_tc_ok) (simp_all add: ok_tc_msg_def)
  show "\<exists>d. ag_on_indication (make_tc_sm_agent rio) st = Inr (d, snd (io_read_tc rio st)) \<and>
      sid_call_process_id d = None \<and> on_indication (make_tc_sm_ric pad) d = Inr (tc_seen rio st)"
    using tc_codec [OF r(1,2)] r(3) f
    by (simp add: sm_simps sm_ric_defs sm_agent_defs tc_seen_def case_prod_beta Let_def free_tc_call_proc_id_def)
qed (simp_all add: sm_simps sm_ric_defs sm_agent_defs tc_seen_def)

interpretation mac_sm: service_model "make_mac_sm_agent rio" make_mac_sm_ric "mac_reads rio" "mac_seen rio" "\<lambda>st. snd (io_read_mac rio st)"
  for rio by (rule mac_service)

interpretation rlc_sm: service_model "make_rlc_sm_agent rio" make_rlc_sm_ric "rlc_reads rio" "rlc_seen rio" "\<lambda>st. snd (io_read_rlc rio st)"
  for rio by (rule rlc_service)

interpretation pdcp_sm: service_model "make_pdcp_sm_agent rio" make_pdcp_sm_ric "pdcp_reads rio" "pdcp_seen rio" "\<lambda>st. snd (io_read_pdcp rio st)"
  for rio by (rule pdcp_service)

interpretation gtp_sm: service_model "make_gtp_sm_agent rio" make_gtp_sm_ric "gtp_reads rio" "gtp_seen rio" "\<lambda>st. snd (io_read_gtp rio st)"
  for rio by (rule gtp_service)

interpretation slice_sm: service_model "make_slice_sm_agent rio" make_slice_sm_ric "slice_reads rio" "slice_seen rio" "\<lambda>st. snd (io_read_slice rio st)"
  for rio by (rule slice_service)

interpretation tc_sm: sm_halves "make_tc_sm_agent rio" "make_tc_sm_ric pad" "tc_reads rio" "tc_seen rio" "\<lambda>st. snd (io_read_tc rio st)"
  for rio and pad by (rule tc_service)

section \<open>KPM\<close>

text \<open>The generated codec is sound on a value: it writes the PDU of the value into the buffer and reads
  it back.  For the constant parts of KPM: every period a command can ask for, the action
  definition of a subscription, the definition of the RAN function.\<close>

definition kpm_codec_ok :: "kpm_codec \<Rightarrow> bool" where
  "kpm_codec_ok c \<longleftrightarrow>
    (\<forall>ms\<in>{1, 2, 5, 10}. \<exists>b. codes (enc_et c) (dec_et c) (event_trigger_pdu ms) b) \<and>
    (\<exists>b. codes (enc_ad c) (dec_ad c) (projr (action_def_pdu dummy_action_def)) b) \<and>
    (\<exists>b. codes (enc_fd c) (dec_fd c) (func_def_pdu kpm_announced_def) b)"

definition kpm_seen :: "'st sm_io_ag \<Rightarrow> 'st \<Rightarrow> sm_stats sm_ag_if_rd" where
  "kpm_seen rio st = \<lparr>rd_type = KPM_STATS_V0, rd_stats = Kpm_stats (fst (io_read_kpm rio st))\<rparr>"

text \<open>A reading that the two halves carry: a header without optional members, a message that its
  encoding keeps, and a codec that is sound on both.\<close>

definition kpm_hdr_ok :: "kpm_ind_hdr \<Rightarrow> bool" where
  "kpm_hdr_ok h \<longleftrightarrow> fileFormatversion h = None \<and> senderName h = None \<and> senderType h = None \<and> vendorName h = None"

definition kpm_coded :: "kpm_codec \<Rightarrow> kpm_ind_data \<Rightarrow> bool" where
  "kpm_coded c d \<longleftrightarrow>
    (\<forall>p. ind_hdr_pdu (kpm_hdr d) = Inr p \<longrightarrow> (\<exists>b. codes (enc_ih c) (dec_ih c) p b)) \<and>
    (\<forall>p. ind_msg_pdu (kpm_msg d) = Inr p \<longrightarrow> (\<exists>b. codes (enc_im c) (dec_im c) p b))"

definition kpm_reads :: "kpm_codec \<Rightarrow> 'st sm_io_ag \<Rightarrow> 'st \<Rightarrow> bool" where
  "kpm_reads c rio st \<longleftrightarrow> (let d = fst (io_read_kpm rio st) in
    kpm_coded c d \<and> kpm_hdr_ok (kpm_hdr d) \<and> kpm_msg_ok (kpm_msg d))"

lemma dummy_action_def_ok: "action_def_ok dummy_action_def"
  by (simp add: action_def_ok_def dummy_action_def_def meas_info_ok_def label_ok_def no_label_info_def kpm_maxs kpm_consts)

lemma dummy_action_def_trip:
  obtains p where "action_def_pdu dummy_action_def = Inr p" "action_def_of_pdu p = Inr dummy_action_def"
  using action_def_trip [of dummy_action_def] dummy_action_def_ok by (auto simp: res_bind_eq_Inr)

lemma kpm_action_def:
  assumes "kpm_codec_ok c"
  obtains b where "kpm_enc_action_def_asn c dummy_action_def = Inr b" "kpm_dec_action_def_asn c b = Inr dummy_action_def"
    "b \<noteq> []"
proof -
  obtain p where p: "action_def_pdu dummy_action_def = Inr p" "action_def_of_pdu p = Inr dummy_action_def"
    by (rule dummy_action_def_trip)
  then obtain b where "codes (enc_ad c) (dec_ad c) p b" using assms by (auto simp: kpm_codec_ok_def)
  with p show ?thesis
    by (intro that [of b]) (simp_all add: kpm_enc_action_def_asn_def kpm_dec_action_def_asn_def codes_encode codes_decode codes_def)
qed

lemma kpm_trigger:
  assumes "kpm_codec_ok c" "cmd_ms cmd = Inr ms"
  obtains b where "kpm_enc_event_trigger_asn c (ucast ms) = Inr b" "kpm_dec_event_trigger_asn c b = Inr (ucast ms)" "b \<noteq> []"
proof -
  have "(ucast ms :: u64) \<in> {1, 2, 5, 10}" using assms(2) by (auto simp: cmd_ms_def split: if_splits)
  then obtain b where "codes (enc_et c) (dec_et c) (event_trigger_pdu (ucast ms)) b"
    using assms(1) unfolding kpm_codec_ok_def by blast
  then show ?thesis
    by (intro that [of b]) (simp_all add: kpm_enc_event_trigger_asn_def kpm_dec_event_trigger_asn_def codes_encode
      codes_decode event_trigger_of_pdu_def event_trigger_pdu_def codes_def)
qed

lemma kpm_func_def:
  assumes "kpm_codec_ok c"
  obtains b where "kpm_enc_func_def_asn c kpm_announced_def = Inr b" "kpm_dec_func_def_asn c b = Inr kpm_announced_def"
proof -
  obtain b where "codes (enc_fd c) (dec_fd c) (func_def_pdu kpm_announced_def) b"
    using assms by (auto simp: kpm_codec_ok_def)
  moreover have "func_def_of_pdu (func_def_pdu kpm_announced_def) = Inr kpm_announced_def"
    using func_def_trip [of kpm_announced_def] by (simp add: kpm_announced_def_def)
  ultimately show ?thesis
    by (intro that [of b]) (simp_all add: kpm_enc_func_def_asn_def kpm_dec_func_def_asn_def codes_encode codes_decode)
qed

text \<open>A reading whose header has no optional member: what the agent sends, and what the other side
  makes of it.\<close>

lemma kpm_reading:
  assumes "kpm_coded c d" "kpm_hdr_ok (kpm_hdr d)" "io_read_kpm rio st = (d, st')" "ind_msg_pdu (kpm_msg d) = Inr p"
  obtains i where "on_indication_kpm_sm_ag c rio st = Inr (i, st')" "sid_call_process_id i = None"
    "sid_hdr i \<noteq> []" "sid_msg i \<noteq> []"
    "on_indication_kpm_sm_ric c i = res_bind (ind_msg_of_pdu p) (\<lambda>m.
      Inr \<lparr>rd_type = KPM_STATS_V0, rd_stats = Kpm_stats \<lparr>kpm_hdr = kpm_hdr d, kpm_msg = m\<rparr>\<rparr>)"
proof -
  obtain h where h: "ind_hdr_pdu (kpm_hdr d) = Inr h" "ind_hdr_of_pdu h = Inr (kpm_hdr d)"
    using ind_hdr_trip [of "kpm_hdr d"] assms(2) by (auto simp: kpm_hdr_ok_def res_bind_eq_Inr)
  obtain b b' where b: "codes (enc_ih c) (dec_ih c) h b" "codes (enc_im c) (dec_im c) p b'"
    using assms(1,4) h(1) by (auto simp: kpm_coded_def)
  show ?thesis
    by (rule that [of "\<lparr>sid_hdr = b, sid_msg = b', sid_call_process_id = None\<rparr>"])
       (use b h assms(3,4) in \<open>simp_all add: on_indication_kpm_sm_ag_def on_indication_kpm_sm_ric_def kpm_enc_ind_hdr_asn_def
         kpm_dec_ind_hdr_asn_def kpm_enc_ind_msg_asn_def kpm_dec_ind_msg_asn_def codes_encode codes_decode\<close>,
        simp_all add: codes_def)
qed

lemma kpm_service:
  assumes "kpm_codec_ok c"
  shows "service_model (make_kpm_sm_agent c rio) (make_kpm_sm_ric c) (kpm_reads c rio) (kpm_seen rio)
    (\<lambda>st. snd (io_read_kpm rio st))"
proof
  fix cmd ms assume m: "cmd_ms cmd = Inr ms"
  obtain b where b: "kpm_enc_event_trigger_asn c (ucast ms) = Inr b" "kpm_dec_event_trigger_asn c b = Inr (ucast ms)"
    "b \<noteq> []"
    by (rule kpm_trigger [OF assms m])
  obtain a where a: "kpm_enc_action_def_asn c dummy_action_def = Inr a" "kpm_dec_action_def_asn c a = Inr dummy_action_def"
    by (rule kpm_action_def [OF assms])
  have "(ucast (ucast ms :: u64) :: u32) = ms" by (rule bit_word_eqI) (auto simp: bit_simps)
  then show "\<exists>d. on_subscription (make_kpm_sm_ric c) cmd = Inr d \<and>
      (\<forall>st. ag_on_subscription (make_kpm_sm_agent c rio) st d = Inr (uint ms, st))"
    using a b m by (simp add: make_kpm_sm_ric_def make_kpm_sm_agent_def on_subscription_kpm_sm_ric_def
        on_subscription_kpm_sm_ag_def)
next
  fix st assume r: "kpm_reads c rio st"
  let ?d = "fst (io_read_kpm rio st)"
  have k: "kpm_coded c ?d" "kpm_hdr_ok (kpm_hdr ?d)" "kpm_msg_ok (kpm_msg ?d)"
    using r by (simp_all add: kpm_reads_def Let_def)
  obtain p where p: "ind_msg_pdu (kpm_msg ?d) = Inr p" "ind_msg_of_pdu p = Inr (kpm_msg ?d)"
    using ind_msg_trip [of "kpm_msg ?d"] k(3) by (auto simp: res_bind_eq_Inr)
  obtain i where i: "on_indication_kpm_sm_ag c rio st = Inr (i, snd (io_read_kpm rio st))" "sid_call_process_id i = None"
    "sid_hdr i \<noteq> []" "sid_msg i \<noteq> []" "on_indication_kpm_sm_ric c i = res_bind (ind_msg_of_pdu p) (\<lambda>m.
      Inr \<lparr>rd_type = KPM_STATS_V0, rd_stats = Kpm_stats \<lparr>kpm_hdr = kpm_hdr ?d, kpm_msg = m\<rparr>\<rparr>)"
    by (rule kpm_reading [OF k(1,2) _ p(1), of rio st "snd (io_read_kpm rio st)"]) simp_all
  then show "\<exists>d. ag_on_indication (make_kpm_sm_agent c rio) st = Inr (d, snd (io_read_kpm rio st)) \<and>
      sid_call_process_id d = None \<and> on_indication (make_kpm_sm_ric c) d = Inr (kpm_seen rio st)"
    using p(2) by (simp add: make_kpm_sm_agent_def make_kpm_sm_ric_def kpm_seen_def)
  fix i' st' assume "ag_on_indication (make_kpm_sm_agent c rio) st = Inr (i', st')"
  then show "sid_hdr i' \<noteq> [] \<and> sid_msg i' \<noteq> []" using i by (simp add: make_kpm_sm_agent_def)
next
  fix cmd d assume "on_subscription (make_kpm_sm_ric c) cmd = Inr d"
  then obtain ms b where "cmd_ms cmd = Inr ms" "kpm_enc_event_trigger_asn c (ucast ms) = Inr b" "sd_event_trigger d = b"
    by (auto simp: make_kpm_sm_ric_def on_subscription_kpm_sm_ric_def res_bind_eq_Inr)
  then show "sd_event_trigger d \<noteq> []" using kpm_trigger [OF assms, of cmd ms] by auto
qed (simp_all add: make_kpm_sm_agent_def make_kpm_sm_ric_def kpm_seen_def rd_supported_def)

section \<open>Controls of SLICE and TC\<close>

lemma slice_out_codec:
  assumes "ok_slice_out out"
  obtains bs where "slice_enc_ctrl_out_plain out = Inr bs" "slice_dec_ctrl_out_plain bs = Inr (seen_slice_out out)"
proof -
  let ?bs = "concat [le (len_diag out), take (unat (len_diag out)) (diagnostic out)]"
  have n: "unat (len_diag out) \<le> length (diagnostic out)" using assms by (simp add: ok_slice_out_def)
  have "unat (len_diag out) < 2 ^ LENGTH(32)" by (rule unsigned_less)
  then have l: "length ?bs < 2 ^ 64" using n by simp
  have "slice_enc_ctrl_out_plain out = Inr ?bs"
    unfolding slice_enc_ctrl_out_plain_def
  proof (rule wr_buffer_ok [OF _ _ l])
    show "writes (wr_seq [wr (le (len_diag out)), wr_arr (unat (len_diag out)) (diagnostic out)]) ?bs"
      by (rule writes_seq) (simp add: wire n)
  qed (use n in simp)
  moreover have "slice_dec_ctrl_out_plain ?bs = Inr (seen_slice_out out)"
    using n by (auto simp: slice_dec_ctrl_out_plain_def seen_slice_out_def memcpy_from_def word_gt_0)
  ultimately show ?thesis by (rule that)
qed

lemma free_slice_ctrl: "ok_slice_ctrl m \<Longrightarrow> free_slice_ctrl_msg (seen_slice_ctrl m) = Inr ()"
proof -
  assume m: "ok_slice_ctrl m"
  have s: "unat n \<le> length (seen_str n bs)" if "unat n \<le> length bs" for n bs
    using that by (auto simp: seen_str_def word_gt_0 unat_eq_zero)
  have "ul_dl_frees (seen_ul_dl c)" if "ok_ul_dl c" for c
    using that s by (auto simp: ul_dl_frees_def seen_ul_dl_def ok_ul_dl_def list_all_iff slice_frees_def seen_slice_def
        ok_slice_def seen_params_def split: slice_params.splits)
  then have "free_slice_conf (seen_conf c) = Inr ()" if "ok_conf c" for c
    using that by (simp add: free_slice_conf_def seen_conf_def free_ul_dl_ok ok_conf_def)
  then show ?thesis
    using m by (cases m) (simp_all add: ok_slice_ctrl_def seen_slice_ctrl_def free_slice_ctrl_msg_def free_del_slice_conf_def
        ok_del_def seen_del_def free_ue_slice_conf_def ok_ue_conf_def seen_ue_conf_def free_len_ok)
qed

lemma free_tc_ctrl: "ok_tc_ctrl m \<Longrightarrow> free_tc_ctrl_msg (seen_tc_ctrl m) = Inr ()"
proof (cases m)
  case (Ctrl_cls c)
  then show "ok_tc_ctrl m \<Longrightarrow> ?thesis"
    by (auto simp: ok_tc_ctrl_def seen_tc_ctrl_def free_tc_ctrl_msg_def free_tc_ctrl_cls_def ok_ctrl_cls_def ok_add_cls_def
        ok_mod_cls_def ok_del_cls_def split: tc_ctrl_cls.splits tc_add_ctrl_cls.splits tc_mod_ctrl_cls.splits)
next
  case (Ctrl_sch c)
  then show "ok_tc_ctrl m \<Longrightarrow> ?thesis"
    by (auto simp: ok_tc_ctrl_def seen_tc_ctrl_def free_tc_ctrl_msg_def free_tc_ctrl_sch_def ok_ctrl_sch_def seen_ctrl_sch_def
        ok_mod_sch_def seen_mod_sch_def split: tc_ctrl_sch.splits tc_mod_ctrl_sch.splits)
qed (auto simp: ok_tc_ctrl_def seen_tc_ctrl_def free_tc_ctrl_msg_def free_tc_ctrl_q_def ok_ctrl_queue_def split: tc_ctrl_queue.splits)

end
