(* ===== verification/SmProps.thy ===== *)
theory SmProps
  imports SmThms NetProps
begin

text \<open>
  The properties of the service models.  The witnesses use \<open>demo_rio\<close>, a RAN that reports one element
  per message, and \<open>sm_sys\<close>, \<open>sm_xapp\<close> and \<open>sm_agent\<close>, the small processes of the other
  properties with one service model.
\<close>

section \<open>A small RAN\<close>

definition demo_slice_msg :: slice_ind_msg where
  "demo_slice_msg =
    (let dl = \<lparr>len_slices = 1, slices = [\<lparr>sl_id = 3, sl_len_label = 2, sl_label = [115, 49], sl_len_sched = 1, sl_sched = [80],
        sl_params = Slice_nvs (Nvs_rate \<lparr>mbps_required = 7, mbps_reference = 9\<rparr>)\<rparr>], len_sched_name = 1, sched_name = [78]\<rparr>;
      ul = \<lparr>len_slices = 0, slices = [], len_sched_name = 0, sched_name = []\<rparr> in
     \<lparr>ind_slice_conf = \<lparr>sc_dl = dl, sc_ul = ul\<rparr>,
      ind_ue_slice_conf = \<lparr>len_ue_slice = 1, ues = [\<lparr>ue_dl_id = 3, ue_ul_id = 0, ue_rnti = 17921\<rparr>]\<rparr>, sl_tstamp = 1\<rparr>)"

definition demo_tc_msg :: tc_ind_msg where
  "demo_tc_msg =
    (let mtr = \<lparr>time_window_ms = 100, bnd = 5\<rparr> in
     \<lparr>ind_sch = Sch_prio \<lparr>len_q_prio = 2, q_prio = [4, 6]\<rparr>, ind_pcr = \<lparr>pcr_type = 0, pcr_id = 1, pcr_mtr = mtr\<rparr>, ind_cls = Cls_rr 0,
      len_q = 1, ind_shp = [\<lparr>shp_id = 1, shp_active = 1, shp_max_rate_kbps = 800, shp_mtr = mtr\<rparr>],
      ind_plc = [\<lparr>plc_id = 1, plc_mtr = mtr, plc_drp = 2, plc_mrk = 0, plc_max_rate_kbps = 6, plc_active = 0, plc_dst_id = 0,
        plc_dev_id = 0\<rparr>],
      ind_q = [\<lparr>tq_id = 12, tq_u = Queue_fifo \<lparr>tq_bytes = 90, tq_pkts = 3, tq_bytes_fwd = 40, tq_pkts_fwd = 1, tq_count = 0,
        tq_avg_sojourn = 8, tq_last_sojourn = 11\<rparr>\<rparr>], tc_tstamp = 2\<rparr>)"

definition demo_kpm_data :: kpm_ind_data where
  "demo_kpm_data =
    \<lparr>kpm_hdr = \<lparr>collectStartTime = 1700000000, fileFormatversion = None, senderName = None, senderType = None,
       vendorName = None\<rparr>,
     kpm_msg = \<lparr>MeasData = [\<lparr>measRecord = [\<lparr>rec_type = 1, int_val = 42, real_val = 0\<rparr>], incompleteFlag = 0\<rparr>],
       im_MeasInfo = [\<lparr>meas_type = 1, measName = [68, 82, 66], measID = 0, labelInfo = [no_label_info\<lparr>noLabel := Some 0\<rparr>]\<rparr>],
       granulPeriod = None\<rparr>\<rparr>"

definition demo_rio :: "nat sm_io_ag" where
  "demo_rio =
    \<lparr>io_read_mac = (\<lambda>n. (\<lparr>mac_hdr = 0, mac_msg = \<lparr>len_ue_stats = 1, ue_stats = [get_mac_ue (replicate 176 (of_nat n))],
        m_tstamp = of_nat n\<rparr>, mac_proc_id = None\<rparr>, Suc n)),
     io_read_rlc = (\<lambda>n. (\<lparr>rlc_hdr = 0, rlc_msg = \<lparr>r_len = 1, r_rb = [get_rlc_rb (replicate 128 (of_nat n))],
        r_tstamp = of_nat n\<rparr>, rlc_proc_id = None\<rparr>, Suc n)),
     io_read_pdcp = (\<lambda>n. (\<lparr>pdcp_hdr = 0, pdcp_msg = \<lparr>p_len = 1, p_rb = [get_pdcp_rb (replicate 68 0)],
        p_tstamp = of_nat n\<rparr>, pdcp_proc_id = None\<rparr>, Suc n)),
     io_read_gtp = (\<lambda>n. (\<lparr>gtp_hdr = 0, gtp_msg = \<lparr>g_len = 1, g_ngut = [get_gtp_ngut (replicate 12 (of_nat n))],
        g_tstamp = of_nat n\<rparr>, gtp_proc_id = None\<rparr>, Suc n)),
     io_read_slice = (\<lambda>n. (\<lparr>slice_hdr = 0, slice_msg = demo_slice_msg, slice_proc_id = None\<rparr>, Suc n)),
     io_read_tc = (\<lambda>n. (\<lparr>tc_hdr = 0, tc_msg = demo_tc_msg, tc_proc_id = None\<rparr>, Suc n)),
     io_read_kpm = (\<lambda>n. (demo_kpm_data, Suc n)),
     io_pad = (\<lambda>n i j. of_nat (n + i + j)),
     io_write = (\<lambda>req n. (case req of Slice_ctrl h m \<Rightarrow> Slice_ans \<lparr>out_ans = 1, len_diag = 2, diagnostic = [75, 79]\<rparr>
        | Tc_ctrl h m \<Rightarrow> Tc_ans 0 | _ \<Rightarrow> Pdcp_ans 0, n + 100))\<rparr>"

lemma un_le_zeros: "un_le (replicate n 0) = (0 :: 'a::len word)"
  by (induction n) simp_all

lemma demo_bearer: "ok_pdcp_rb (get_pdcp_rb (replicate 68 0))"
  by (simp add: ok_pdcp_rb_def get_pdcp_rb_def rd_le_def Let_def un_le_zeros)

lemma pdcp_out_bytes: "pdcp_enc_ctrl_out_plain out \<noteq> []"
  by (simp add: pdcp_enc_ctrl_out_plain_def flip: length_greater_0_conv)

section \<open>Readings\<close>

text \<open>C15: What the RAN reports is what the RIC and the xApp read.  For each of the four service models, if
  the array that the RAN fills has the announced length (and, for MAC, fits into the 32-bit length of
  the buffer, and for PDCP satisfies the checks of the bearers), then the agent encodes the
  reading whatever the bytes of padding are, and decoding it on the other side gives the
  same statistics and time stamp.\<close>

theorem stats_round_trip:
  assumes "wf_mac m" "176 * length (ue_stats m) + 12 < 2 ^ 32" "wf_rlc r" "wf_pdcp p" "list_all ok_pdcp_rb (p_rb p)"
    "wf_gtp g" "mac_msg (fst (io_read_mac rio st)) = m" "rlc_msg (fst (io_read_rlc rio st)) = r"
    "pdcp_msg (fst (io_read_pdcp rio st)) = p" "gtp_msg (fst (io_read_gtp rio st)) = g"
  shows "(\<exists>d. ag_on_indication (make_mac_sm_agent rio) st = Inr (d, snd (io_read_mac rio st)) \<and>
      on_indication make_mac_sm_ric d = Inr \<lparr>rd_type = MAC_STATS_V0,
        rd_stats = Mac_stats \<lparr>mac_hdr = 0, mac_msg = m, mac_proc_id = None\<rparr>\<rparr>) \<and>
    (\<exists>d. ag_on_indication (make_rlc_sm_agent rio) st = Inr (d, snd (io_read_rlc rio st)) \<and>
      on_indication make_rlc_sm_ric d = Inr \<lparr>rd_type = RLC_STATS_V0,
        rd_stats = Rlc_stats \<lparr>rlc_hdr = 0, rlc_msg = r, rlc_proc_id = None\<rparr>\<rparr>) \<and>
    (\<exists>d. ag_on_indication (make_pdcp_sm_agent rio) st = Inr (d, snd (io_read_pdcp rio st)) \<and>
      on_indication make_pdcp_sm_ric d = Inr \<lparr>rd_type = PDCP_STATS_V0,
        rd_stats = Pdcp_stats \<lparr>pdcp_hdr = 0, pdcp_msg = p, pdcp_proc_id = None\<rparr>\<rparr>) \<and>
    (\<exists>d. ag_on_indication (make_gtp_sm_agent rio) st = Inr (d, snd (io_read_gtp rio st)) \<and>
      on_indication make_gtp_sm_ric d = Inr \<lparr>rd_type = GTP_STATS_V0,
        rd_stats = Gtp_stats \<lparr>gtp_hdr = 0, gtp_msg = g, gtp_proc_id = None\<rparr>\<rparr>)"
proof (intro conjI)
  show "\<exists>d. ag_on_indication (make_mac_sm_agent rio) st = Inr (d, snd (io_read_mac rio st)) \<and>
      on_indication make_mac_sm_ric d = Inr \<lparr>rd_type = MAC_STATS_V0,
        rd_stats = Mac_stats \<lparr>mac_hdr = 0, mac_msg = m, mac_proc_id = None\<rparr>\<rparr>"
    using mac_sm.reading [of rio st] assms by (auto simp: mac_reads_def mac_seen_def)
  show "\<exists>d. ag_on_indication (make_rlc_sm_agent rio) st = Inr (d, snd (io_read_rlc rio st)) \<and>
      on_indication make_rlc_sm_ric d = Inr \<lparr>rd_type = RLC_STATS_V0,
        rd_stats = Rlc_stats \<lparr>rlc_hdr = 0, rlc_msg = r, rlc_proc_id = None\<rparr>\<rparr>"
    using rlc_sm.reading [of rio st] assms by (auto simp: rlc_reads_def rlc_seen_def)
  show "\<exists>d. ag_on_indication (make_pdcp_sm_agent rio) st = Inr (d, snd (io_read_pdcp rio st)) \<and>
      on_indication make_pdcp_sm_ric d = Inr \<lparr>rd_type = PDCP_STATS_V0,
        rd_stats = Pdcp_stats \<lparr>pdcp_hdr = 0, pdcp_msg = p, pdcp_proc_id = None\<rparr>\<rparr>"
    using pdcp_sm.reading [of rio st] assms by (auto simp: pdcp_reads_def pdcp_seen_def)
  show "\<exists>d. ag_on_indication (make_gtp_sm_agent rio) st = Inr (d, snd (io_read_gtp rio st)) \<and>
      on_indication make_gtp_sm_ric d = Inr \<lparr>rd_type = GTP_STATS_V0,
        rd_stats = Gtp_stats \<lparr>gtp_hdr = 0, gtp_msg = g, gtp_proc_id = None\<rparr>\<rparr>"
    using gtp_sm.reading [of rio st] assms by (auto simp: gtp_reads_def gtp_seen_def)
qed

theorem stats_round_trip_witness:
  "\<exists>d d' s s'. ag_on_indication (make_mac_sm_agent demo_rio) 7 = Inr (d, 8) \<and> on_indication make_mac_sm_ric d = Inr s \<and>
    ag_on_indication (make_pdcp_sm_agent demo_rio) 7 = Inr (d', 8) \<and> on_indication make_pdcp_sm_ric d' = Inr s'"
proof -
  have "wf_mac (mac_msg (fst (io_read_mac demo_rio 7)))"
    "176 * length (ue_stats (mac_msg (fst (io_read_mac demo_rio 7)))) + 12 < 2 ^ 32"
    "wf_rlc (rlc_msg (fst (io_read_rlc demo_rio 7)))" "wf_pdcp (pdcp_msg (fst (io_read_pdcp demo_rio 7)))"
    "list_all ok_pdcp_rb (p_rb (pdcp_msg (fst (io_read_pdcp demo_rio 7))))"
    "wf_gtp (gtp_msg (fst (io_read_gtp demo_rio 7)))"
    by (simp_all add: demo_rio_def wf_mac_def wf_rlc_def wf_pdcp_def wf_gtp_def demo_bearer)
  from stats_round_trip [OF this refl refl refl refl] show ?thesis
    by (simp add: demo_rio_def) blast
qed

text \<open>The messages of variable length.\<close>

lemma demo_slice_ok: "ok_slice_msg demo_slice_msg" "length (slice_msg_bytes demo_slice_msg) < 2 ^ 64"
  by (simp_all add: Let_def demo_slice_msg_def ok_slice_msg_def ok_conf_def ok_ul_dl_def ok_slice_def ok_params_def ok_nvs_def
      ok_ue_conf_def slice_msg_bytes_def conf_bytes_def ul_dl_bytes_def ue_conf_bytes_def elem_bytes_def slice_bytes_def
      params_bytes_def nvs_bytes_def rate_bytes_def assoc_bytes_def)

lemma demo_tc_ok: "ok_tc_msg demo_tc_msg" "length (tc_msg_bytes pads demo_tc_msg) < 2 ^ 64"
  by (simp_all add: Let_def demo_tc_msg_def ok_tc_msg_def ok_sch_def ok_prio_def ok_cls_def ok_queue_def tc_msg_bytes_def sch_bytes_def
      prio_bytes_def pcr_bytes_def cls_bytes_def elem_bytes_def tc_rows_def row_bytes_def shp_bytes_def plc_bytes_def
      queue_bytes_def stats_bytes_def mtr_bytes_def)

text \<open>C16: The readings of SLICE and TC, whose messages have tagged unions, strings and arrays of any length,
  reach the other side through the bytes.  If the tags are known, every array has at least
  the announced number of elements and no procedure identifier is set, then the agent computes the size, writes
  exactly that many bytes, frees the message without a failing check, and the other half of
  the model reads it back: of SLICE all but the elements of the EDF arrays, which
  are zero, and with a zero behind every string; of TC all but the identifiers of the queues and the number of
  an RR scheduler.\<close>

theorem slice_tc_readings:
  assumes "io_read_slice rio st = (\<lparr>slice_hdr = h, slice_msg = m, slice_proc_id = None\<rparr>, st1)" "ok_slice_msg m"
    "length (slice_msg_bytes m) < 2 ^ 64"
    "io_read_tc rio st = (\<lparr>tc_hdr = h', tc_msg = t, tc_proc_id = None\<rparr>, st2)" "ok_tc_msg t"
    "length (tc_msg_bytes (io_pad rio st2) t) < 2 ^ 64"
  shows "(\<exists>d. ag_on_indication (make_slice_sm_agent rio) st = Inr (d, st1) \<and>
      on_indication make_slice_sm_ric d = Inr \<lparr>rd_type = SLICE_STATS_V0,
        rd_stats = Slice_stats \<lparr>slice_hdr = 0, slice_msg = seen_slice_msg m, slice_proc_id = None\<rparr>\<rparr>) \<and>
    (\<exists>d. ag_on_indication (make_tc_sm_agent rio) st = Inr (d, st2) \<and>
      on_indication (make_tc_sm_ric pad) d = Inr \<lparr>rd_type = TC_STATS_V0,
        rd_stats = Tc_stats \<lparr>tc_hdr = 0, tc_msg = seen_tc_msg t, tc_proc_id = None\<rparr>\<rparr>)"
proof
  show "\<exists>d. ag_on_indication (make_slice_sm_agent rio) st = Inr (d, st1) \<and>
      on_indication make_slice_sm_ric d = Inr \<lparr>rd_type = SLICE_STATS_V0,
        rd_stats = Slice_stats \<lparr>slice_hdr = 0, slice_msg = seen_slice_msg m, slice_proc_id = None\<rparr>\<rparr>"
    using slice_sm.reading [of rio st] assms(1-3) by (auto simp: slice_reads_def slice_seen_def)
  show "\<exists>d. ag_on_indication (make_tc_sm_agent rio) st = Inr (d, st2) \<and>
      on_indication (make_tc_sm_ric pad) d = Inr \<lparr>rd_type = TC_STATS_V0,
        rd_stats = Tc_stats \<lparr>tc_hdr = 0, tc_msg = seen_tc_msg t, tc_proc_id = None\<rparr>\<rparr>"
    using tc_sm.reading [of rio st pad] assms(4-6) by (auto simp: tc_reads_def tc_seen_def)
qed

theorem slice_tc_readings_witness:
  "\<exists>d d' s t. ag_on_indication (make_slice_sm_agent demo_rio) 7 = Inr (d, 8) \<and>
    on_indication make_slice_sm_ric d = Inr \<lparr>rd_type = SLICE_STATS_V0, rd_stats = Slice_stats s\<rparr> \<and>
    slices (sc_dl (ind_slice_conf (slice_msg s))) = [\<lparr>sl_id = 3, sl_len_label = 2, sl_label = [115, 49, 0], sl_len_sched = 1,
      sl_sched = [80, 0], sl_params = Slice_nvs (Nvs_rate \<lparr>mbps_required = 7, mbps_reference = 9\<rparr>)\<rparr>] \<and>
    ag_on_indication (make_tc_sm_agent demo_rio) 7 = Inr (d', 8) \<and>
    on_indication (make_tc_sm_ric (\<lambda>i. 0)) d' = Inr \<lparr>rd_type = TC_STATS_V0, rd_stats = Tc_stats t\<rparr> \<and>
    map tq_id (ind_q (tc_msg t)) = [0] \<and> ind_shp (tc_msg t) = ind_shp demo_tc_msg"
proof -
  have r: "io_read_slice demo_rio 7 = (\<lparr>slice_hdr = 0, slice_msg = demo_slice_msg, slice_proc_id = None\<rparr>, 8)"
    "io_read_tc demo_rio 7 = (\<lparr>tc_hdr = 0, tc_msg = demo_tc_msg, tc_proc_id = None\<rparr>, 8)"
    by (simp_all add: demo_rio_def)
  have e: "slices (sc_dl (ind_slice_conf (seen_slice_msg demo_slice_msg))) =
      [\<lparr>sl_id = 3, sl_len_label = 2, sl_label = [115, 49, 0], sl_len_sched = 1,
      sl_sched = [80, 0], sl_params = Slice_nvs (Nvs_rate \<lparr>mbps_required = 7, mbps_reference = 9\<rparr>)\<rparr>]"
    "map tq_id (ind_q (seen_tc_msg demo_tc_msg)) = [0]" "ind_shp (seen_tc_msg demo_tc_msg) = ind_shp demo_tc_msg"
    by (simp_all add: Let_def demo_slice_msg_def seen_slice_msg_def seen_conf_def seen_ul_dl_def seen_slice_def seen_str_def
        seen_params_def demo_tc_msg_def seen_tc_msg_def seen_queue_def)
  obtain d d' where "ag_on_indication (make_slice_sm_agent demo_rio) 7 = Inr (d, 8)"
    "on_indication make_slice_sm_ric d = Inr \<lparr>rd_type = SLICE_STATS_V0,
      rd_stats = Slice_stats \<lparr>slice_hdr = 0, slice_msg = seen_slice_msg demo_slice_msg, slice_proc_id = None\<rparr>\<rparr>"
    "ag_on_indication (make_tc_sm_agent demo_rio) 7 = Inr (d', 8)"
    "on_indication (make_tc_sm_ric (\<lambda>i. 0)) d' = Inr \<lparr>rd_type = TC_STATS_V0,
      rd_stats = Tc_stats \<lparr>tc_hdr = 0, tc_msg = seen_tc_msg demo_tc_msg, tc_proc_id = None\<rparr>\<rparr>"
    using slice_tc_readings [OF r(1) demo_slice_ok r(2) demo_tc_ok, of "\<lambda>i. 0"] by blast
  then show ?thesis
    by (intro exI [of _ d] exI [of _ d'] exI [of _ "\<lparr>slice_hdr = 0, slice_msg = seen_slice_msg demo_slice_msg, slice_proc_id = None\<rparr>"]
        exI [of _ "\<lparr>tc_hdr = 0, tc_msg = seen_tc_msg demo_tc_msg, tc_proc_id = None\<rparr>"]) (use e in simp)
qed

section \<open>Copy and comparison\<close>

text \<open>C38: On statistics whose arrays have the announced length, the comparison of RLC and of GTP decides
  equality, and their copy is the original; the comparison of PDCP returns only when the two are
  equal and all bearers satisfy the checks, and otherwise stops the program, as its copy does on
  a bearer that violates a check.\<close>

theorem stats_equality:
  assumes "wf_rlc r0" "wf_rlc r1" "wf_gtp g0" "wf_gtp g1" "wf_pdcp p0" "wf_pdcp p1"
  shows "eq_rlc_ind_msg r0 r1 = Inr (r0 = r1) \<and> eq_gtp_ind_msg g0 g1 = Inr (g0 = g1) \<and>
    eq_pdcp_ind_msg p0 p1 = (if p0 = p1 \<and> list_all ok_pdcp_rb (p_rb p0) then Inr True else Inl AssertFail) \<and>
    cp_rlc_ind_msg r0 = Inr r0 \<and> cp_gtp_ind_msg g0 = Inr g0 \<and>
    cp_pdcp_ind_msg p0 = (if list_all ok_pdcp_rb (p_rb p0) then Inr p0 else Inl AssertFail)"
  using eq_rlc [OF assms(1,2)] eq_gtp [OF assms(3,4)] eq_pdcp [OF assms(5,6)] cp_rlc [OF assms(1)]
    cp_gtp [OF assms(3)] cp_pdcp [OF assms(5)] by blast

theorem stats_equality_witness:
  "eq_rlc_ind_msg (rlc_msg (fst (io_read_rlc demo_rio 1))) (rlc_msg (fst (io_read_rlc demo_rio 2))) = Inr False \<and>
   eq_pdcp_ind_msg (pdcp_msg (fst (io_read_pdcp demo_rio 1))) (pdcp_msg (fst (io_read_pdcp demo_rio 2))) = Inl AssertFail"
proof -
  have "wf_rlc (rlc_msg (fst (io_read_rlc demo_rio n)))" "wf_gtp (gtp_msg (fst (io_read_gtp demo_rio n)))"
    "wf_pdcp (pdcp_msg (fst (io_read_pdcp demo_rio n)))" for n
    by (simp_all add: demo_rio_def wf_rlc_def wf_gtp_def wf_pdcp_def)
  from stats_equality [OF this(1) [of 1] this(1) [of 2] this(2) [of 1] this(2) [of 2] this(3) [of 1] this(3) [of 2]]
  show ?thesis by (simp add: demo_rio_def)
qed

text \<open>C39: Exactly which messages of SLICE and TC survive their copy, and what the copy is.  A SLICE message is copied
  if and only if every tag is known, the arrays are as long as announced, no rate is a NaN
  and no EDF slice has an array; the copy is the announced part.  A TC message is copied if and only
  if the tags are known, the flags are 0 or 1, no float is a NaN and the arrays are long enough; the copy
  has lost the identifiers and last sojourn times of the queues and the rates of the shapers.  On all others the
  copy stops the process.\<close>

theorem slice_tc_copies:
  "(cp_slice_ind_msg m = Inr c \<longleftrightarrow> slice_msg_copies m \<and> c = slice_msg_part m) \<and>
   (cp_tc_ind_msg t = Inr d \<longleftrightarrow> tc_msg_copies t \<and> d = tc_msg_part t)"
  using cp_slice_msg cp_tc_msg by blast

section \<open>Controls\<close>

text \<open>C31: A control request that the RIC's half of a service model accepts reaches the RAN as it is: for
  MAC, RLC and GTP the agent's half writes exactly that request and answers with an empty
  outcome.  The half of PDCP at the RIC accepts every header and action, but the agent only the
  header 0 and the action 42 and stops on others; the RAN's answer, if it is one of PDCP, is
  encoded so that the RIC's half reads it back.\<close>

theorem controls_reach_ran:
  "(on_control_req make_mac_sm_ric req = Inr q \<longrightarrow>
      ag_on_control (make_mac_sm_agent rio) st q = Inr ([], snd (io_write rio req st))) \<and>
   (on_control_req make_rlc_sm_ric req = Inr q \<longrightarrow>
      ag_on_control (make_rlc_sm_agent rio) st q = Inr ([], snd (io_write rio req st))) \<and>
   (on_control_req make_gtp_sm_ric req = Inr q \<longrightarrow>
      ag_on_control (make_gtp_sm_agent rio) st q = Inr ([], snd (io_write rio req st))) \<and>
   (on_control_req make_pdcp_sm_ric req = Inr q \<longrightarrow>
      ag_on_control (make_pdcp_sm_agent rio) st q =
        (if req \<noteq> Pdcp_ctrl 0 42 then Inl AssertFail
         else case io_write rio req st of (ans, st') \<Rightarrow>
           (case ans of Pdcp_ans out \<Rightarrow> Inr (pdcp_enc_ctrl_out_plain out, st') | _ \<Rightarrow> Inl AssertFail))) \<and>
   on_control_out_pdcp_sm_ric (pdcp_enc_ctrl_out_plain out) = Inr (Pdcp_ans out)"
proof (intro conjI impI)
  show "ag_on_control (make_mac_sm_agent rio) st q = Inr ([], snd (io_write rio req st))"
    if "on_control_req make_mac_sm_ric req = Inr q"
    using that by (cases req) (auto simp: sm_simps on_control_req_mac_sm_ric_def on_control_mac_sm_ag_def
        res_bind_eq_Inr mac_small case_prod_beta)
  show "ag_on_control (make_rlc_sm_agent rio) st q = Inr ([], snd (io_write rio req st))"
    if "on_control_req make_rlc_sm_ric req = Inr q"
    using that by (cases req) (auto simp: sm_simps on_control_req_rlc_sm_ric_def on_control_rlc_sm_ag_def
        res_bind_eq_Inr rlc_small case_prod_beta)
  show "ag_on_control (make_gtp_sm_agent rio) st q = Inr ([], snd (io_write rio req st))"
    if "on_control_req make_gtp_sm_ric req = Inr q"
    using that by (cases req) (auto simp: sm_simps on_control_req_gtp_sm_ric_def on_control_gtp_sm_ag_def
        res_bind_eq_Inr gtp_small case_prod_beta)
  show "ag_on_control (make_pdcp_sm_agent rio) st q =
        (if req \<noteq> Pdcp_ctrl 0 42 then Inl AssertFail
         else case io_write rio req st of (ans, st') \<Rightarrow>
           (case ans of Pdcp_ans out \<Rightarrow> Inr (pdcp_enc_ctrl_out_plain out, st') | _ \<Rightarrow> Inl AssertFail))"
    if "on_control_req make_pdcp_sm_ric req = Inr q"
    using that by (cases req) (auto simp: sm_simps on_control_req_pdcp_sm_ric_def on_control_pdcp_sm_ag_def
        pdcp_small case_prod_beta cp_pdcp_ctrl_msg_def c_assert_def)
  show "on_control_out_pdcp_sm_ric (pdcp_enc_ctrl_out_plain out) = Inr (Pdcp_ans out)"
    by (simp add: on_control_out_pdcp_sm_ric_def pdcp_out pdcp_out_bytes)
qed

theorem controls_reach_ran_witness:
  "\<exists>q q'. on_control_req make_mac_sm_ric (Mac_ctrl 0 42) = Inr q \<and>
    ag_on_control (make_mac_sm_agent demo_rio) 5 q = Inr ([], 105) \<and>
    on_control_req make_pdcp_sm_ric (Pdcp_ctrl 1 42) = Inr q' \<and>
    ag_on_control (make_pdcp_sm_agent demo_rio) 5 q' = Inl AssertFail"
proof -
  let ?q = "\<lparr>scd_hdr = mac_enc_ctrl_hdr_plain 0, scd_msg = mac_enc_ctrl_msg_plain 42\<rparr>"
    and ?q' = "\<lparr>scd_hdr = pdcp_enc_ctrl_hdr_plain 1, scd_msg = pdcp_enc_ctrl_msg_plain 42\<rparr>"
  have q: "on_control_req make_mac_sm_ric (Mac_ctrl 0 42) = Inr ?q"
    "on_control_req make_pdcp_sm_ric (Pdcp_ctrl 1 42) = Inr ?q'"
    by (simp_all add: sm_simps on_control_req_mac_sm_ric_def on_control_req_pdcp_sm_ric_def)
  have "ag_on_control (make_mac_sm_agent demo_rio) 5 ?q = Inr ([], snd (io_write demo_rio (Mac_ctrl 0 42) 5))"
    using controls_reach_ran [of "Mac_ctrl 0 42" ?q demo_rio 5] q(1) by blast
  moreover have "ag_on_control (make_pdcp_sm_agent demo_rio) 5 ?q' = Inl AssertFail"
    using controls_reach_ran [of "Pdcp_ctrl 1 42" ?q' demo_rio 5] q(2) by simp
  ultimately show ?thesis using q by (simp add: demo_rio_def)
qed

text \<open>C32: A control of SLICE or TC whose tags are known and whose arrays are as long as announced is encoded, decoded
  at the agent and written to the RAN with the number of its header, the message being what the format
  keeps of it.  The answer comes back encoded: of SLICE only the diagnostic, so that the outcome that
  the other side reads is 0, success, whatever the RAN answered, and an answer
  without diagnostic stops it; of TC the outcome.\<close>

theorem slice_tc_controls:
  assumes "ok_slice_ctrl m" "length (slice_ctrl_bytes m) < 2 ^ 64" "ok_slice_out out"
    "io_write rio (Slice_ctrl h (seen_slice_ctrl m)) st = (Slice_ans out, st1)"
    "ok_tc_ctrl c" "length (tc_ctrl_bytes pad c) < 2 ^ 64"
    "io_write rio (Tc_ctrl h (seen_tc_ctrl c)) st = (Tc_ans o', st2)"
  shows "(\<exists>q ba. on_control_req make_slice_sm_ric (Slice_ctrl h m) = Inr q \<and>
      ag_on_control (make_slice_sm_agent rio) st q = Inr (ba, st1) \<and>
      ric_on_control_out_slice_sm_ric ba =
        (if len_diag out = 0 then Inl AssertFail
         else Inr (Slice_ans (out\<lparr>out_ans := 0, diagnostic := take (unat (len_diag out)) (diagnostic out)\<rparr>)))) \<and>
    (\<exists>q ba. on_control_req (make_tc_sm_ric pad) (Tc_ctrl h c) = Inr q \<and>
      ag_on_control (make_tc_sm_agent rio) st q = Inr (ba, st2) \<and>
      ric_on_control_out_tc_sm_ric ba = Inr (Tc_ans o'))"
proof
  obtain ba where ba: "slice_enc_ctrl_out_plain out = Inr ba" "slice_dec_ctrl_out_plain ba = Inr (seen_slice_out out)"
    by (rule slice_out_codec [OF assms(3)]) (rule that)
  have f: "free_slice_ctrl_out out = Inr ()" using assms(3) by (simp add: free_slice_ctrl_out_def free_len_ok ok_slice_out_def)
  show "\<exists>q ba. on_control_req make_slice_sm_ric (Slice_ctrl h m) = Inr q \<and>
      ag_on_control (make_slice_sm_agent rio) st q = Inr (ba, st1) \<and>
      ric_on_control_out_slice_sm_ric ba =
        (if len_diag out = 0 then Inl AssertFail
         else Inr (Slice_ans (out\<lparr>out_ans := 0, diagnostic := take (unat (len_diag out)) (diagnostic out)\<rparr>)))"
    using slice_ctrl_codec [OF assms(1,2)] assms(4) ba f free_slice_ctrl [OF assms(1)]
    by (simp add: sm_simps ric_on_control_req_slice_sm_ric_def on_control_slice_sm_ag_def slice_dec_ctrl_hdr_plain_def
        slice_enc_ctrl_hdr_plain_def ric_on_control_out_slice_sm_ric_def seen_slice_out_def word_gt_0)
  show "\<exists>q ba. on_control_req (make_tc_sm_ric pad) (Tc_ctrl h c) = Inr q \<and>
      ag_on_control (make_tc_sm_agent rio) st q = Inr (ba, st2) \<and> ric_on_control_out_tc_sm_ric ba = Inr (Tc_ans o')"
    using tc_ctrl_codec [OF assms(5,6)] assms(7) free_tc_ctrl [OF assms(5)]
    by (simp add: sm_simps ric_on_control_req_tc_sm_ric_def on_control_tc_sm_ag_def tc_dec_ctrl_hdr_plain_def
        tc_enc_ctrl_hdr_plain_def ric_on_control_out_tc_sm_ric_def tc_enc_ctrl_out_plain_def tc_dec_ctrl_out_plain_def)
qed

definition demo_slice_ctrl :: slice_ctrl_msg where
  "demo_slice_ctrl = Del_slice \<lparr>len_dl = 2, del_dl = [3, 5], len_ul = 0, del_ul = []\<rparr>"

definition demo_tc_ctrl :: tc_ctrl_msg where
  "demo_tc_ctrl = Ctrl_queue (Queue_mod 3 (Q_codel \<lparr>target_ms = 5, interval_ms = 100\<rparr>))"

theorem slice_tc_controls_witness:
  "\<exists>q ba s q' ba'. on_control_req make_slice_sm_ric (Slice_ctrl 0 demo_slice_ctrl) = Inr q \<and>
    ag_on_control (make_slice_sm_agent demo_rio) 5 q = Inr (ba, 105) \<and>
    ric_on_control_out_slice_sm_ric ba = Inr (Slice_ans s) \<and> out_ans s = 0 \<and> diagnostic s = [75, 79] \<and>
    on_control_req (make_tc_sm_ric (\<lambda>i. 0)) (Tc_ctrl 0 demo_tc_ctrl) = Inr q' \<and>
    ag_on_control (make_tc_sm_agent demo_rio) 5 q' = Inr (ba', 105) \<and> ric_on_control_out_tc_sm_ric ba' = Inr (Tc_ans 0)"
proof -
  let ?out = "\<lparr>out_ans = 1, len_diag = 2, diagnostic = [75, 79]\<rparr>"
  have s: "ok_slice_ctrl demo_slice_ctrl" "length (slice_ctrl_bytes demo_slice_ctrl) < 2 ^ 64" "ok_slice_out ?out"
    "io_write demo_rio (Slice_ctrl 0 (seen_slice_ctrl demo_slice_ctrl)) 5 = (Slice_ans ?out, 105)"
    by (simp_all add: demo_slice_ctrl_def ok_slice_ctrl_def ok_del_def slice_ctrl_bytes_def del_bytes_def ok_slice_out_def
        demo_rio_def)
  have t: "ok_tc_ctrl demo_tc_ctrl" "length (tc_ctrl_bytes (\<lambda>i. 0) demo_tc_ctrl) < 2 ^ 64"
    "io_write demo_rio (Tc_ctrl 0 (seen_tc_ctrl demo_tc_ctrl)) 5 = (Tc_ans 0, 105)"
    by (simp_all add: demo_tc_ctrl_def ok_tc_ctrl_def ok_ctrl_queue_def ok_q_def tc_ctrl_bytes_def ctrl_queue_bytes_def
        q_bytes_def demo_rio_def)
  show ?thesis using slice_tc_controls [OF s t] by auto
qed

section \<open>From the interval to the callback\<close>

text \<open>C4: An xApp that asks for a report of the MAC layer of a connected node gets the statistics
  that the RAN measured.  The request travels to the agent, which starts its timer, and the
  answer back to the xApp; at the first expiration of the timer the listeners of the RIC, the
  data base of the xApp and the queue of its callback get exactly the statistics that the RAN
  returned, through the bytes of the plain encoding and two identifiers.  Every message is one that the
  encoder and the decoder of E2AP keep (the request of the xApp when the encoding can express the identifier
  of the node), so its bytes give it back exactly when its PDU fits the buffer of 16384 bytes; for the two
  indications this is required, because the agent, or the iApp that passes one on, stops otherwise.\<close>

theorem mac_report_delivered:
  fixes st :: "('sri, sm_ag_if_wr, sm_stats) sys" and x :: "(sm_ag_if_wr, sm_stats, 'st1, 'cb) e42_xapp"
  assumes "node_set D" "sys_inv D ep_fd st" "req_id (s_ric st) < 65536"
      "xapps_get (xapps (s_iapp st)) (xid x) = Some xinfo" "node \<in> D"
      "e2_sad_get (ep (s_ric st)) node = Some s"
      "length (e2reg_entries (e2_nodes (s_iapp st))) < 256" "0 < fd" "fd \<notin> set (io (s_ric st))"
    and "xapp_inv D x" "valid_ran_func_id rf" "key_id (xact x) < 65536"
      "plugin_get (xplugin_ric x) rf = Some make_mac_sm_ric" "interval_cmd i = Inr cmd"
      "0 < tfd" "tfd \<notin> set (xio x)" "xpend x E42_RIC_SUBSCRIPTION_REQUEST_PENDING_EVENT = None"
    and "agent_inv a" "plugin_ag_get (aplugin a) rf = Some (make_mac_sm_agent rio)" "0 < afd"
      "afd \<notin> set (aio a)" "ind_timer a (fwd_id (s_ric st) (next_id x rf)) = None" "mac_reads rio (aran a)"
      "ag_on_indication (make_mac_sm_agent rio) (aran a) = Inr (dd, r)"
    and "plugin_get (plugin (s_ric st)) rf = Some make_mac_sm_ric" "plugin_inv (plugin (s_ric st))"
      "rb_entries (pub_sub (s_ric st)) = map (\<lambda>e. (fst e, default_listeners)) (rb_entries (plugin (s_ric st)))"
    and "mac_msg (fst (io_read_mac rio (aran a))) = m"
      "stats = \<lparr>rd_type = MAC_STATS_V0, rd_stats = Mac_stats \<lparr>mac_hdr = 0, mac_msg = m, mac_proc_id = None\<rparr>\<rparr>"
      "xcp x = cp_sm_ag_if_rd"
    and "n1 = Ric_ind (report_ind (fwd_id (s_ric st) (next_id x rf)) 0 dd)" "n2 = Ric_ind (report_ind (next_id x rf) 0 dd)"
      "reads_back (aap a) dec" "\<forall>n\<in>{n1, n2}. msg_fits (aap a) n"
  shows "\<exists>st1 a1 st2 x1 x2 q m1 m2 m3.
    sys_step st (From_xapp xinfo q [fd]) = Inr (st1, [To_node s m1]) \<and>
    e2_event_agent a (Ag_ready (aep_fd a) (Payload m1) afd) = Inr (a1, [m2]) \<and>
    sys_step st1 (From_ric_loop (Sctp_msg_arrived s m2)) = Inr (st2, [To_xapp xinfo m3]) \<and>
    report_sm_sync_xapp x tfd node rf i cb [] [Xready (xep_fd x) m3 tfd'] =
      Inr (of_nat (key_id (xact x)), x1, [Xsend q]) \<and>
    e2_event_agent a1 (Ag_ready afd rcv afd') = Inr (a1\<lparr>aran := snd (io_read_mac rio (aran a))\<rparr>, [n1]) \<and>
    sys_step st2 (From_ric_loop (Sctp_msg_arrived s n1)) =
      Inr (st2, map (\<lambda>n. To_listener n stats) default_listeners @ [To_xapp xinfo n2]) \<and>
    e2_event_xapp x1 (Xready (xep_fd x1) n2 tfd'') = Inr (x2, [Xwrite_db node stats]) \<and>
    xdisp x2 = xdisp x1 @ [(cb, stats)] \<and> sys_inv D ep_fd st2 \<and> xapp_inv D x2 \<and>
    (node_id_ok node \<longrightarrow> carried q = Inr q) \<and>
    (\<forall>n\<in>{m1, m2, m3}. carried n = Inr n \<and> (carried_bytes (aap a) dec n = Inr n \<longleftrightarrow> msg_fits (aap a) n)) \<and>
    (\<forall>n\<in>{n1, n2}. carried_bytes (aap a) dec n = Inr n)"
proof -
  have s: "mac_seen rio (aran a) = stats" using assms(28,29) by (simp add: mac_seen_def)
  have "wf_mac m" using assms(23,28) by (simp add: mac_reads_def Let_def)
  then have c: "xcp x (mac_seen rio (aran a)) = Inr stats"
    unfolding s by (simp add: assms(29,30) cp_sm_ag_if_rd_def cp_mac_ind_data_def cp_mac cp_mac_ind_hdr_def)
  have f: "msg_fits (aap a) n1" using assms(34) by simp
  show ?thesis
    by (rule mac_sm.report_to_reading [OF assms(1-24) f assms(25-27) c assms(31,32), of cb tfd' rcv afd' tfd'',
        unfolded s]) (use carried_bytes_iff [OF _ assms(33)] assms(34) in blast)
qed

text \<open>The small processes with one service model, its halves \<open>ag\<close> and \<open>rc\<close>.\<close>

definition sm_tree :: "u16 \<Rightarrow> 'v \<Rightarrow> (u16, 'v) assoc_rb_tree" where
  "sm_tree rf v = \<lparr>root = Node ASSOC_BLACK Dummy rf v Dummy, comp = cmp_ran_func_id, tsize = 1\<rparr>"

definition sm_sys :: "u16 \<Rightarrow> (sm_ag_if_wr, sm_stats) sm_ric \<Rightarrow> (unit, sm_ag_if_wr, sm_stats) sys" where
  "sm_sys rf rc = \<lparr>s_ric =
    \<lparr>ep = ep demo_ric, io = [3], plugin = sm_tree rf rc, pub_sub = sm_tree rf default_listeners,
     conn_nodes = conn_nodes demo_ric, req_id = 1021, pending = init_pending_events\<rparr>,
    s_iapp = demo_iapp\<rparr>"

definition sm_xapp :: "u16 \<Rightarrow> (sm_ag_if_wr, sm_stats) sm_ric \<Rightarrow> (sm_ag_if_wr, sm_stats, nat, nat) e42_xapp" where
  "sm_xapp rf rc = \<lparr>xep_fd = 4, xio = [4], xplugin_ag = xplugin_ag demo_xapp, xplugin_ric = sm_tree rf rc,
    xe2_nodes = init_reg_e2_node, xid = 7, xsync = init_sync_ui, xact = init_act_proc,
    xpending = init_pending_events_xapp, xdisp = [], xconnected = True,
    xap = one_byte_enc, xcp = cp_sm_ag_if_rd\<rparr>"

definition sm_agent_demo :: "(E2AP_PDU \<Rightarrow> byte_array option) \<Rightarrow> u16 \<Rightarrow> nat sm_agent \<Rightarrow> nat e2_agent" where
  "sm_agent_demo aper rf ag = demo_agent\<lparr>aap := aper, aplugin := sm_tree rf ag\<rparr>"

lemma sm_tree [simp]: "rb_inv cmp_ran_func_id UNIV (sm_tree rf v)" "rb_entries (sm_tree rf v) = [(rf, v)]"
  by (simp_all add: sm_tree_def single_tree_inv single_tree_entries)

lemma sm_sys_inv:
  assumes "sm_ran_func_id rc = rf" "0 < rf"
  shows "sys_inv monolithic_dom 3 (sm_sys rf rc)"
proof -
  have "pend_inv 3 [3] init_pending_events" by (rule pend_inv_init) simp
  then have "ric_inv monolithic_dom 3 (s_ric (sm_sys rf rc))"
    using demo_ric_inv assms by (simp add: ric_inv_def sm_sys_def demo_ric_def plugin_inv_def)
  then show ?thesis
    using demo_iapp_inv
    by (simp add: sys_inv_def sm_sys_def nodes_agree_def demo_sad demo_reg ric_prov.issued_def pend_issued_def
        world_counter_def)
       (simp add: demo_ric_def demo_iapp_def)
qed

lemma sm_xpend: "xpend (sm_xapp rf rc) k = None"
  by (simp add: xpend_def sm_xapp_def init_pending_events_xapp_def book_init)

lemma sm_xapp_inv:
  assumes "sm_ran_func_id rc = rf" "0 < rf"
  shows "xapp_inv monolithic_dom (sm_xapp rf rc)"
  using assms unfolding xapp_inv_def sm_xpend
  by (simp add: sm_xapp_def demo_xapp_def init_pending_events_xapp_def book_init e2reg_inv_init init_sync_ui_def
      plugin_ag_inv_def plugin_inv_def single_tree_inv single_tree_entries demo_ag_def init_act_proc_def reg_inv_init)

lemma sm_agent_inv:
  assumes "ag_ran_func_id ag = rf"
  shows "agent_inv (sm_agent_demo aper rf ag)"
  using assms
  by (simp add: agent_inv_def sm_agent_demo_def demo_agent_def init_indication_event_def init_pending_events_ag_def
      book_init ind_of_def plugin_ag_inv_def)

lemma sm_facts:
  "req_id (s_ric (sm_sys rf rc)) < 65536" "xapps_get (xapps (s_iapp (sm_sys rf rc))) (xid (sm_xapp rf rc)) = Some (demo_addr 5000)"
  "e2_sad_get (ep (s_ric (sm_sys rf rc))) demo_node = Some (demo_addr 36421)"
  "length (e2reg_entries (e2_nodes (s_iapp (sm_sys rf rc)))) < 256" "(0::int) < 9" "(9::int) \<notin> set (io (s_ric (sm_sys rf rc)))"
  "key_id (xact (sm_xapp rf rc)) < 65536" "plugin_get (xplugin_ric (sm_xapp rf rc)) rf = Some rc"
  "interval_cmd Ms_5 = Inr ''5_ms''" "(9::int) \<notin> set (xio (sm_xapp rf rc))"
  "plugin_ag_get (aplugin (sm_agent_demo aper rf ag)) rf = Some ag" "(9::int) \<notin> set (aio (sm_agent_demo aper rf ag))"
  "ind_timer (sm_agent_demo aper rf ag) j = None" "aran (sm_agent_demo aper rf ag) = aran demo_agent"
  "plugin_get (plugin (s_ric (sm_sys rf rc))) rf = Some rc"
  "rb_entries (pub_sub (s_ric (sm_sys rf rc))) = map (\<lambda>e. (fst e, default_listeners)) (rb_entries (plugin (s_ric (sm_sys rf rc))))"
  "xcp (sm_xapp rf rc) = cp_sm_ag_if_rd" "aap (sm_agent_demo aper rf ag) = aper"
  by (simp_all add: sm_sys_def sm_xapp_def sm_agent_demo_def demo_xapps demo_sad demo_reg demo_eq plugin_get_def
      init_act_proc_def assoc_reg_init_def interval_cmd_def plugin_ag_get_def)
     (simp_all add: demo_ric_def demo_agent_def ind_timer_def init_indication_event_def book_init)

lemma sm_plugin_inv:
  "sm_ran_func_id rc = rf \<Longrightarrow> 0 < rf \<Longrightarrow> plugin_inv (plugin (s_ric (sm_sys rf rc)))"
  by (simp add: sm_sys_def plugin_inv_def)

lemma mac_reads_demo: "mac_reads demo_rio n"
  by (simp add: mac_reads_def demo_rio_def wf_mac_def)

text \<open>The codec of a witness knows the two indications of the report.\<close>

definition sm_inds :: "u16 \<Rightarrow> (sm_ag_if_wr, sm_stats) sm_ric \<Rightarrow> sm_ind_data \<Rightarrow> e2ap_msg list" where
  "sm_inds rf rc d = [Ric_ind (report_ind (fwd_id (s_ric (sm_sys rf rc)) (next_id (sm_xapp rf rc) rf)) 0 d),
     Ric_ind (report_ind (next_id (sm_xapp rf rc) rf) 0 d)]"

lemma sm_inds_fit:
  assumes "valid_ran_func_id rf" "sid_hdr d \<noteq> []" "sid_msg d \<noteq> []"
  shows "n \<in> set (sm_inds rf rc d) \<Longrightarrow> msg_fits (table_enc (codec_of (sm_inds rf rc d))) n"
    and "reads_back (table_enc (codec_of (sm_inds rf rc d))) (table_dec (codec_of (sm_inds rf rc d)))"
proof -
  have "ric_id_ok True (Some 4096) (next_id (sm_xapp rf rc) rf)" by (rule next_id_ok [OF assms(1) sm_facts(7)]) simp
  then show "n \<in> set (sm_inds rf rc d) \<Longrightarrow> msg_fits (table_enc (codec_of (sm_inds rf rc d))) n"
    using assms(2,3)
    by (intro codec_of_fits) (auto simp: sm_inds_def report_ind_def fwd_id_ok intro!: carried_report)
  show "reads_back (table_enc (codec_of (sm_inds rf rc d))) (table_dec (codec_of (sm_inds rf rc d)))"
    by (rule table_reads_back) (simp add: codec_of_def sm_inds_def)
qed

theorem mac_report_delivered_witness:
  "\<exists>st1 a1 st2 x1 x2 q m1 m2 m3 n1 n2 enc dec.
    sys_step (sm_sys 142 make_mac_sm_ric) (From_xapp (demo_addr 5000) q [9]) = Inr (st1, [To_node (demo_addr 36421) m1]) \<and>
    e2_event_agent (sm_agent_demo enc 142 (make_mac_sm_agent demo_rio)) (Ag_ready 5 (Payload m1) 9) = Inr (a1, [m2]) \<and>
    sys_step st1 (From_ric_loop (Sctp_msg_arrived (demo_addr 36421) m2)) = Inr (st2, [To_xapp (demo_addr 5000) m3]) \<and>
    report_sm_sync_xapp (sm_xapp 142 make_mac_sm_ric) 9 demo_node 142 Ms_5 (Some 3) [] [Xready 4 m3 0] =
      Inr (of_nat (key_id (xact (sm_xapp 142 make_mac_sm_ric))), x1, [Xsend q]) \<and>
    e2_event_agent a1 (Ag_ready 9 Notification 0) = Inr (a1\<lparr>aran := snd (io_read_mac demo_rio (aran demo_agent))\<rparr>, [n1]) \<and>
    e2_event_xapp x1 (Xready (xep_fd x1) n2 0) = Inr (x2, [Xwrite_db demo_node (mac_seen demo_rio (aran demo_agent))]) \<and>
    carried q = Inr q \<and> (\<forall>m\<in>{n1, n2}. carried_bytes enc dec m = Inr m)"
proof -
  let ?ag = "make_mac_sm_agent demo_rio" and ?rc = make_mac_sm_ric
  have i: "sm_ran_func_id ?rc = 142" "ag_ran_func_id ?ag = 142" "(0 :: u16) < 142"
    by (simp_all add: make_mac_sm_ric_def make_mac_sm_agent_def)
  obtain d where d: "ag_on_indication ?ag (aran demo_agent) = Inr (d, snd (io_read_mac demo_rio (aran demo_agent)))"
    using mac_sm.reading [OF mac_reads_demo] by blast
  note b = mac_sm.reading_bytes [OF mac_reads_demo d]
  let ?enc = "table_enc (codec_of (sm_inds 142 ?rc d))" and ?dec = "table_dec (codec_of (sm_inds 142 ?rc d))"
  let ?n1 = "Ric_ind (report_ind (fwd_id (s_ric (sm_sys 142 ?rc)) (next_id (sm_xapp 142 ?rc) 142)) 0 d)"
    and ?n2 = "Ric_ind (report_ind (next_id (sm_xapp 142 ?rc) 142) 0 d)"
  let ?a = "sm_agent_demo ?enc 142 ?ag"
  have fd: "aep_fd ?a = 5" "xep_fd (sm_xapp 142 ?rc) = 4"
    by (simp_all add: sm_agent_demo_def demo_agent_def sm_xapp_def)
  have d': "ag_on_indication ?ag (aran ?a) = Inr (d, snd (io_read_mac demo_rio (aran demo_agent)))"
    using d by (simp add: sm_facts(14))
  have f: "\<forall>n\<in>{?n1, ?n2}. msg_fits (aap ?a) n" "reads_back (aap ?a) ?dec"
    using sm_inds_fit [OF valid_142 conjunct1 [OF b] conjunct2 [OF b], where rc = ?rc]
    by (simp_all add: sm_facts(18)) (simp add: sm_inds_def)
  show ?thesis
    using demo_node_ok mac_report_delivered [OF mono_nodes.node_set_axioms sm_sys_inv [OF i(1,3)] sm_facts(1,2) demo_mono
      sm_facts(3-6) sm_xapp_inv [OF i(1,3)] valid_142 sm_facts(7-9,5,10) sm_xpend sm_agent_inv [OF i(2)] sm_facts(11,5,12,13)
      mac_reads_demo d' sm_facts(15) sm_plugin_inv [OF i(1,3)] sm_facts(16) refl refl sm_facts(17) refl refl f(2,1),
      of "Some 3" 0 Notification 0 0]
    unfolding mac_seen_def sm_facts(14,18) fd by blast
qed

end
