(* ===== verification/TsQueue.thy ===== *)
theory TsQueue
  imports SeqRing
begin

text \<open>
  The queue between threads of \<open>src/util/alg_ds/ds/ts_queue/ts_queue.c\<close>: a ring and the flags that
  end its consumer.  Every operation holds the mutex from its start to its end and is one step
  here; a consumer that waits on the condition variable makes no progress, the answer \<open>Blocks\<close>.
  The function that an operation applies to the elements it takes writes to static memory \<open>'s\<close>.
\<close>

section \<open>Operations\<close>

record 'v tsq =
  tsq_ring :: "'v seq_ring"
  stop_token :: bool
  stopped :: bool

datatype 's popped = Blocks | Null | Taken 's

definition init_tsq :: "'v tsq" where
  "init_tsq = \<lparr>tsq_ring = seq_ring_init, stop_token = False, stopped = False\<rparr>"

definition push_tsq :: "'v tsq \<Rightarrow> 'v \<Rightarrow> 'v tsq res" where
  "push_tsq q v = res_bind (seq_ring_push_back (tsq_ring q) v) (\<lambda>r. Inr (q\<lparr>tsq_ring := r\<rparr>))"

definition wait_and_pop_tsq ::
  "'v tsq \<Rightarrow> ('v \<Rightarrow> 's \<Rightarrow> 's res) \<Rightarrow> 's \<Rightarrow> ('v tsq \<times> 's popped) res" where
  "wait_and_pop_tsq q f s =
    (if seq_ring_size (tsq_ring q) = 0 \<and> \<not> stop_token q then Inr (q, Blocks)
     else if stop_token q then Inr (q\<lparr>stopped := True\<rparr>, Null)
     else
       let it = seq_ring_front (tsq_ring q) in
       res_bind (ring_value (tsq_ring q) it) (\<lambda>v.
       res_bind (f v s) (\<lambda>elm.
       res_bind (c_assert (it \<noteq> seq_ring_end (tsq_ring q))) (\<lambda>_.
       res_bind (seq_ring_erase (tsq_ring q) it (seq_ring_next (tsq_ring q) it)) (\<lambda>r.
       Inr (q\<lparr>tsq_ring := r\<rparr>, Taken elm))))))"

text \<open>The loop of the two batch operations.\<close>

fun pop_loop ::
  "nat \<Rightarrow> 'v seq_ring \<Rightarrow> ('v \<Rightarrow> 's \<Rightarrow> 's res) \<Rightarrow> u32 \<Rightarrow> 's \<Rightarrow> (u32 \<times> 's) res" where
  "pop_loop 0 r f it s = Inr (it, s)"
| "pop_loop (Suc n) r f it s =
    res_bind (ring_value r it) (\<lambda>v.
    res_bind (f v s) (\<lambda>s'. pop_loop n r f (seq_ring_next r it) s'))"

definition pop_tsq_10 :: "'v tsq \<Rightarrow> ('v \<Rightarrow> 's \<Rightarrow> 's res) \<Rightarrow> 's \<Rightarrow> ('v tsq \<times> 's popped) res" where
  "pop_tsq_10 q f s =
    (if stop_token q then Inr (q\<lparr>stopped := True\<rparr>, Null)
     else
       res_bind (c_assert (10 \<le> seq_ring_size (tsq_ring q))) (\<lambda>_.
       let it = seq_ring_front (tsq_ring q) in
       res_bind (c_assert (it \<noteq> seq_ring_end (tsq_ring q))) (\<lambda>_.
       res_bind (pop_loop 10 (tsq_ring q) f it s) (\<lambda>(it', elm).
       res_bind (seq_ring_erase (tsq_ring q) it it') (\<lambda>r.
       Inr (q\<lparr>tsq_ring := r\<rparr>, Taken elm))))))"

definition pop_tsq_100 :: "'v tsq \<Rightarrow> ('v \<Rightarrow> 's \<Rightarrow> 's res) \<Rightarrow> 's \<Rightarrow> ('v tsq \<times> 's popped) res" where
  "pop_tsq_100 q f s =
    (if stop_token q then Inr (q\<lparr>stopped := True\<rparr>, Null)
     else
       res_bind (c_assert (100 \<le> seq_ring_size (tsq_ring q))) (\<lambda>_.
       let it = seq_ring_front (tsq_ring q) in
       res_bind (c_assert (it \<noteq> seq_ring_end (tsq_ring q))) (\<lambda>_.
       res_bind (pop_loop 100 (tsq_ring q) f it s) (\<lambda>(it', elm).
       res_bind (seq_ring_erase (tsq_ring q) it it') (\<lambda>r.
       Inr (q\<lparr>tsq_ring := r\<rparr>, Taken elm))))))"

definition size_tsq :: "'v tsq \<Rightarrow> u64" where
  "size_tsq q = seq_ring_size (tsq_ring q)"

text \<open>\<open>free_tsq\<close> asks the consumer to end and waits until it did; then it passes what is left to
  its function and releases the memory.\<close>

definition stop_tsq :: "'v tsq \<Rightarrow> 'v tsq" where
  "stop_tsq q = q\<lparr>stop_token := True\<rparr>"

definition free_tsq :: "'v tsq \<Rightarrow> 'v list res" where
  "free_tsq q = res_bind (c_assert (stopped q)) (\<lambda>_. seq_ring_free (tsq_ring q))"

section \<open>The queue it implements\<close>

definition tsq_rep :: "'v tsq \<Rightarrow> 'v list \<Rightarrow> bool" where
  "tsq_rep q xs \<longleftrightarrow> ring_rep (tsq_ring q) xs"

lemma tsq_rep_flags [simp]:
  "tsq_rep (q\<lparr>stopped := b\<rparr>) xs \<longleftrightarrow> tsq_rep q xs" "tsq_rep (stop_tsq q) xs \<longleftrightarrow> tsq_rep q xs"
  by (simp_all add: tsq_rep_def stop_tsq_def)

lemma tsq_init: "tsq_rep init_tsq []"
  by (simp add: tsq_rep_def init_tsq_def ring_init)

lemma tsq_size: "tsq_rep q xs \<Longrightarrow> unat (size_tsq q) = length xs"
  by (simp add: tsq_rep_def size_tsq_def ring_rep_size)

lemma tsq_push:
  assumes "tsq_rep q xs" "length xs + 1 < 2 ^ 31"
  obtains q' where "push_tsq q v = Inr q'" "tsq_rep q' (xs @ [v])" "stop_token q' = stop_token q"
proof -
  obtain r where "seq_ring_push_back (tsq_ring q) v = Inr r" "ring_rep r (xs @ [v])"
    by (rule push_ok [OF assms [unfolded tsq_rep_def]])
  then show ?thesis using that [of "q\<lparr>tsq_ring := r\<rparr>"] by (simp add: push_tsq_def tsq_rep_def)
qed

lemma pop_loop_ok:
  assumes "ring_at k r xs"
  shows "i + n \<le> length xs \<Longrightarrow>
    pop_loop n r f (seq_ring_at r (of_nat i)) s =
      res_bind (fold_res f (take n (drop i xs)) s) (\<lambda>s'. Inr (seq_ring_at r (of_nat (i + n)), s'))"
proof (induction n arbitrary: i s)
  case (Suc n)
  then have i: "i < length xs" by simp
  have d: "take (Suc n) (drop i xs) = xs ! i # take n (drop (Suc i) xs)"
    by (simp add: Cons_nth_drop_Suc [OF i, symmetric])
  show ?case
    unfolding d pop_loop.simps fold_res.simps ring_value_at [OF assms i] ring_next [OF assms] res_bind_simps
      res_bind_assoc
    using Suc.IH [of "Suc i"] Suc.prems by (intro res_bind_cong) (simp_all del: of_nat_Suc)
qed simp

text \<open>Taking \<open>n\<close> elements at once.\<close>

lemma take_batch:
  assumes "tsq_rep q xs" "0 < n" "n \<le> length xs" "fold_res f (take n xs) s = Inr s'"
  obtains r where "seq_ring_front (tsq_ring q) \<noteq> seq_ring_end (tsq_ring q)"
    "res_bind (pop_loop n (tsq_ring q) f (seq_ring_front (tsq_ring q)) s) (\<lambda>(it', elm).
       res_bind (seq_ring_erase (tsq_ring q) (seq_ring_front (tsq_ring q)) it') (\<lambda>r.
       Inr (q\<lparr>tsq_ring := r\<rparr>, Taken elm))) = Inr (q\<lparr>tsq_ring := r\<rparr>, Taken s')"
    "tsq_rep (q\<lparr>tsq_ring := r\<rparr>) (drop n xs)"
proof -
  obtain k where k: "ring_at k (tsq_ring q) xs" using assms(1) by (auto simp: tsq_rep_def ring_rep_def)
  obtain r where r: "seq_ring_erase (tsq_ring q) (seq_ring_front (tsq_ring q)) (seq_ring_at (tsq_ring q) (of_nat n)) = Inr r"
    "ring_at k r (drop n xs)"
    by (rule ring_erase_ok [OF k assms(2,3)])
  have "pop_loop n (tsq_ring q) f (seq_ring_front (tsq_ring q)) s = Inr (seq_ring_at (tsq_ring q) (of_nat n), s')"
    using pop_loop_ok [OF k, of 0 n f s] assms(3,4) by (simp add: ring_front)
  moreover have "xs \<noteq> []" using assms(2,3) by auto
  then have "seq_ring_front (tsq_ring q) \<noteq> seq_ring_end (tsq_ring q)"
    using ring_at_inj [OF k, of 0 "length xs"] assms(2,3) ring_end [OF k] by (auto simp: ring_front)
  moreover have "tsq_rep (q\<lparr>tsq_ring := r\<rparr>) (drop n xs)" using r(2) by (auto simp: tsq_rep_def ring_rep_def)
  ultimately show ?thesis using r(1) by (intro that) simp_all
qed

lemma wait_and_pop_ok:
  assumes "tsq_rep q (x # xs)" "\<not> stop_token q" "f x s = Inr s'"
  obtains q' where "wait_and_pop_tsq q f s = Inr (q', Taken s')" "tsq_rep q' xs" "stop_token q' = stop_token q"
proof -
  have z: "seq_ring_size (tsq_ring q) \<noteq> 0" using tsq_size [OF assms(1)] by (auto simp: size_tsq_def)
  obtain r where r: "seq_ring_front (tsq_ring q) \<noteq> seq_ring_end (tsq_ring q)"
    "res_bind (pop_loop 1 (tsq_ring q) f (seq_ring_front (tsq_ring q)) s) (\<lambda>(it', elm).
       res_bind (seq_ring_erase (tsq_ring q) (seq_ring_front (tsq_ring q)) it') (\<lambda>r.
       Inr (q\<lparr>tsq_ring := r\<rparr>, Taken elm))) = Inr (q\<lparr>tsq_ring := r\<rparr>, Taken s')"
    "tsq_rep (q\<lparr>tsq_ring := r\<rparr>) (drop 1 (x # xs))"
    by (rule take_batch [OF assms(1), of 1 f s s']) (use assms(3) in simp_all)
  have "wait_and_pop_tsq q f s = Inr (q\<lparr>tsq_ring := r\<rparr>, Taken s')"
    using r(1,2) z assms(2) by (simp add: wait_and_pop_tsq_def Let_def res_bind_assoc)
  then show ?thesis using r(3) by (intro that [of "q\<lparr>tsq_ring := r\<rparr>"]) simp_all
qed

lemma pop_10_ok:
  assumes "tsq_rep q xs" "\<not> stop_token q" "10 \<le> length xs" "fold_res f (take 10 xs) s = Inr s'"
  obtains q' where "pop_tsq_10 q f s = Inr (q', Taken s')" "tsq_rep q' (drop 10 xs)" "stop_token q' = stop_token q"
proof -
  obtain r where r: "seq_ring_front (tsq_ring q) \<noteq> seq_ring_end (tsq_ring q)"
    "res_bind (pop_loop 10 (tsq_ring q) f (seq_ring_front (tsq_ring q)) s) (\<lambda>(it', elm).
       res_bind (seq_ring_erase (tsq_ring q) (seq_ring_front (tsq_ring q)) it') (\<lambda>r.
       Inr (q\<lparr>tsq_ring := r\<rparr>, Taken elm))) = Inr (q\<lparr>tsq_ring := r\<rparr>, Taken s')"
    "tsq_rep (q\<lparr>tsq_ring := r\<rparr>) (drop 10 xs)"
    by (rule take_batch [OF assms(1) _ assms(3,4)]) simp_all
  have "10 \<le> seq_ring_size (tsq_ring q)"
    using tsq_size [OF assms(1)] assms(3) by (simp add: size_tsq_def word_le_nat_alt)
  then have e: "pop_tsq_10 q f s = Inr (q\<lparr>tsq_ring := r\<rparr>, Taken s')" using r(1,2) assms(2) by (simp add: pop_tsq_10_def Let_def)
  show ?thesis by (rule that [OF e r(3)]) simp
qed

lemma pop_100_ok:
  assumes "tsq_rep q xs" "\<not> stop_token q" "100 \<le> length xs" "fold_res f (take 100 xs) s = Inr s'"
  obtains q' where "pop_tsq_100 q f s = Inr (q', Taken s')" "tsq_rep q' (drop 100 xs)" "stop_token q' = stop_token q"
proof -
  obtain r where r: "seq_ring_front (tsq_ring q) \<noteq> seq_ring_end (tsq_ring q)"
    "res_bind (pop_loop 100 (tsq_ring q) f (seq_ring_front (tsq_ring q)) s) (\<lambda>(it', elm).
       res_bind (seq_ring_erase (tsq_ring q) (seq_ring_front (tsq_ring q)) it') (\<lambda>r.
       Inr (q\<lparr>tsq_ring := r\<rparr>, Taken elm))) = Inr (q\<lparr>tsq_ring := r\<rparr>, Taken s')"
    "tsq_rep (q\<lparr>tsq_ring := r\<rparr>) (drop 100 xs)"
    by (rule take_batch [OF assms(1) _ assms(3,4)]) simp_all
  have "100 \<le> seq_ring_size (tsq_ring q)"
    using tsq_size [OF assms(1)] assms(3) by (simp add: size_tsq_def word_le_nat_alt)
  then have e: "pop_tsq_100 q f s = Inr (q\<lparr>tsq_ring := r\<rparr>, Taken s')" using r(1,2) assms(2) by (simp add: pop_tsq_100_def Let_def)
  show ?thesis by (rule that [OF e r(3)]) simp
qed

lemma wait_blocks: "tsq_rep q [] \<Longrightarrow> \<not> stop_token q \<Longrightarrow> wait_and_pop_tsq q f s = Inr (q, Blocks)"
  using tsq_size [of q "[]"] by (simp add: wait_and_pop_tsq_def size_tsq_def unat_eq_zero)

lemma pops_stopped:
  "stop_token q \<Longrightarrow> wait_and_pop_tsq q f s = Inr (q\<lparr>stopped := True\<rparr>, Null)"
  "stop_token q \<Longrightarrow> pop_tsq_10 q f s = Inr (q\<lparr>stopped := True\<rparr>, Null)"
  "stop_token q \<Longrightarrow> pop_tsq_100 q f s = Inr (q\<lparr>stopped := True\<rparr>, Null)"
  by (simp_all add: wait_and_pop_tsq_def pop_tsq_10_def pop_tsq_100_def)

end
