(* ===== verification/DbXapp.thy ===== *)
theory DbXapp
  imports TsQueue SmIo SliceCopy TcCopy
begin

text \<open>
  The writer of the xApp's data base (\<open>src/xApp/db/db.c\<close>): the event loop queues a copy of every
  indication, a thread of its own takes them in batches of 100, 10 or 1 and passes them to the
  back end one by one.  What it passes on is \<open>db_out\<close>; the back end (SQLite) is not modelled.  The
  threads interleave: an event is one operation of the event loop, or one access of the writer to the
  queue with what follows up to its next access.
\<close>

section \<open>State and operations\<close>

record e2_node_ag_if =
  ai_id :: global_e2_node_id
  ai_rd :: "sm_stats sm_ag_if_rd"

text \<open>Where the writer is: before it asks for the size, or about to take a batch.\<close>

datatype db_pc = At_size | At_pop nat | Ended

record db_xapp =
  db_q :: "e2_node_ag_if tsq"
  db_pc :: db_pc
  db_out :: "e2_node_ag_if list"

text \<open>The functions that copy an element to static memory: one cell, or the next of 10 or 100.\<close>

definition create_val :: "e2_node_ag_if \<Rightarrow> e2_node_ag_if list \<Rightarrow> e2_node_ag_if list res" where
  "create_val it cell = Inr [it]"

definition create_val_10 :: "e2_node_ag_if \<Rightarrow> e2_node_ag_if list \<Rightarrow> e2_node_ag_if list res" where
  "create_val_10 it arr =
    (if 10 \<le> length arr then Inl OutOfBounds
     else let arr' = arr @ [it] in res_bind (c_assert (length arr' < 11)) (\<lambda>_. Inr arr'))"

definition create_val_100 :: "e2_node_ag_if \<Rightarrow> e2_node_ag_if list \<Rightarrow> e2_node_ag_if list res" where
  "create_val_100 it arr =
    (if 100 \<le> length arr then Inl OutOfBounds
     else let arr' = arr @ [it] in res_bind (c_assert (length arr' < 101)) (\<lambda>_. Inr arr'))"

text \<open>The loop over a batch: write an element, then free it.\<close>

fun write_batch :: "e2_node_ag_if list \<Rightarrow> e2_node_ag_if list \<Rightarrow> e2_node_ag_if list res" where
  "write_batch [] out = Inr out"
| "write_batch (d # ds) out =
    res_bind (free_sm_ag_if_rd (ai_rd d)) (\<lambda>_. write_batch ds (out @ [d]))"

definition worker_thread :: "db_xapp \<Rightarrow> db_xapp res" where
  "worker_thread db =
    (case db_pc db of
       At_size \<Rightarrow>
         let sz = size_tsq (db_q db) in
         Inr (db\<lparr>db_pc := At_pop (if 100 < sz then 100 else if 10 < sz then 10 else 1)\<rparr>)
     | At_pop sz \<Rightarrow>
         res_bind (if sz = 100 then pop_tsq_100 (db_q db) create_val_100 []
           else if sz = 10 then pop_tsq_10 (db_q db) create_val_10 []
           else wait_and_pop_tsq (db_q db) create_val []) (\<lambda>(q, p).
         case p of
           Blocks \<Rightarrow> Inr (db\<lparr>db_q := q\<rparr>)
         | Null \<Rightarrow> Inr (db\<lparr>db_q := q\<lparr>stopped := True\<rparr>, db_pc := Ended\<rparr>)
         | Taken ds \<Rightarrow> res_bind (write_batch ds (db_out db)) (\<lambda>out.
             Inr (db\<lparr>db_q := q, db_pc := At_size, db_out := out\<rparr>)))
     | Ended \<Rightarrow> Inr db)"

definition init_db_xapp :: db_xapp where
  "init_db_xapp = \<lparr>db_q = init_tsq, db_pc = At_size, db_out = []\<rparr>"

definition write_db_xapp ::
  "db_xapp \<Rightarrow> global_e2_node_id \<Rightarrow> sm_stats sm_ag_if_rd \<Rightarrow> db_xapp res" where
  "write_db_xapp db i rd =
    res_bind (cp_sm_ag_if_rd rd) (\<lambda>c.
    res_bind (push_tsq (db_q db) \<lparr>ai_id = cp_global_e2_node_id i, ai_rd = c\<rparr>) (\<lambda>q.
    Inr (db\<lparr>db_q := q\<rparr>)))"

text \<open>\<open>close_db_xapp\<close> starts by asking the writer to end.\<close>

datatype db_event =
    Db_write global_e2_node_id "sm_stats sm_ag_if_rd"
  | Db_work
  | Db_close

fun db_step :: "db_event \<Rightarrow> db_xapp \<Rightarrow> db_xapp res" where
  "db_step (Db_write i rd) db = write_db_xapp db i rd"
| "db_step Db_work db = worker_thread db"
| "db_step Db_close db = Inr (db\<lparr>db_q := stop_tsq (db_q db)\<rparr>)"

definition db_run :: "db_event list \<Rightarrow> db_xapp \<Rightarrow> db_xapp res" where
  "db_run es db = fold_res db_step es db"

section \<open>Specification: a list that is written from the front\<close>

text \<open>Statistics that can be copied and freed: the arrays have the announced length, the bearers of
  PDCP satisfy the checks, and SLICE, TC and KPM hold nothing that stops their copy.\<close>

definition rd_ok :: "sm_stats sm_ag_if_rd \<Rightarrow> bool" where
  "rd_ok d =
    (case rd_stats d of
       Mac_stats i \<Rightarrow> rd_type d = MAC_STATS_V0 \<and> wf_mac (mac_msg i)
     | Rlc_stats i \<Rightarrow> rd_type d = RLC_STATS_V0 \<and> wf_rlc (rlc_msg i)
     | Pdcp_stats i \<Rightarrow> rd_type d = PDCP_STATS_V0 \<and> wf_pdcp (pdcp_msg i) \<and> list_all ok_pdcp_rb (p_rb (pdcp_msg i))
     | Gtp_stats i \<Rightarrow> rd_type d = GTP_STATS_V0 \<and> wf_gtp (gtp_msg i)
     | Slice_stats i \<Rightarrow> rd_type d = SLICE_STATS_V0 \<and> slice_msg_copies (slice_msg i) \<and> slice_proc_id i = None
     | Tc_stats i \<Rightarrow> rd_type d = TC_STATS_V0 \<and> tc_msg_copies (tc_msg i) \<and> tc_proc_id i = None
     | Kpm_stats i \<Rightarrow> rd_type d = KPM_STATS_V0 \<and> labels_copy (kpm_msg i))"

text \<open>What the copy keeps of them: of SLICE the announced part, of TC not every member.\<close>

definition rd_kept :: "sm_stats sm_ag_if_rd \<Rightarrow> sm_stats sm_ag_if_rd" where
  "rd_kept d =
    (case rd_stats d of
       Slice_stats i \<Rightarrow> \<lparr>rd_type = rd_type d, rd_stats = Slice_stats (i\<lparr>slice_msg := slice_msg_part (slice_msg i)\<rparr>)\<rparr>
     | Tc_stats i \<Rightarrow> \<lparr>rd_type = rd_type d, rd_stats = Tc_stats (i\<lparr>tc_msg := tc_msg_part (tc_msg i)\<rparr>)\<rparr>
     | _ \<Rightarrow> d)"

text \<open>The elements that the event loop queues, in order.\<close>

fun db_stored :: "db_event list \<Rightarrow> e2_node_ag_if list" where
  "db_stored [] = []"
| "db_stored (Db_write i rd # es) = \<lparr>ai_id = cp_global_e2_node_id i, ai_rd = rd_kept rd\<rparr> # db_stored es"
| "db_stored (_ # es) = db_stored es"

lemma db_stored_append: "db_stored (es @ fs) = db_stored es @ db_stored fs"
  by (induction es rule: db_stored.induct) simp_all

lemma cp_mac_data: "wf_mac (mac_msg i) \<Longrightarrow> cp_mac_ind_data i = Inr i"
  by (cases i; cases "mac_proc_id i") (simp_all add: cp_mac_ind_data_def cp_mac cp_mac_ind_hdr_def cp_mac_call_proc_id_def)

lemma cp_rlc_data: "wf_rlc (rlc_msg i) \<Longrightarrow> cp_rlc_ind_data i = Inr i"
  by (cases i; cases "rlc_proc_id i") (simp_all add: cp_rlc_ind_data_def cp_rlc cp_rlc_ind_hdr_def cp_rlc_call_proc_id_def)

lemma cp_pdcp_data: "wf_pdcp (pdcp_msg i) \<Longrightarrow> list_all ok_pdcp_rb (p_rb (pdcp_msg i)) \<Longrightarrow> cp_pdcp_ind_data i = Inr i"
  by (cases i; cases "pdcp_proc_id i") (simp_all add: cp_pdcp_ind_data_def cp_pdcp cp_pdcp_ind_hdr_def cp_pdcp_call_proc_id_def)

lemma cp_gtp_data: "wf_gtp (gtp_msg i) \<Longrightarrow> cp_gtp_ind_data i = Inr i"
  by (cases i; cases "gtp_proc_id i") (simp_all add: cp_gtp_ind_data_def cp_gtp cp_gtp_ind_hdr_def cp_gtp_call_proc_id_def)

lemma cp_slice_kept:
  "slice_msg_copies (slice_msg i) \<Longrightarrow> slice_proc_id i = None \<Longrightarrow>
    cp_slice_ind_data i = Inr (i\<lparr>slice_msg := slice_msg_part (slice_msg i)\<rparr>)"
  by (cases i) (simp add: cp_slice_data)

lemma cp_tc_kept:
  "tc_msg_copies (tc_msg i) \<Longrightarrow> tc_proc_id i = None \<Longrightarrow> cp_tc_ind_data i = Inr (i\<lparr>tc_msg := tc_msg_part (tc_msg i)\<rparr>)"
  by (cases i) (simp add: cp_tc_data)

lemma rd_ok_copy: "rd_ok d \<Longrightarrow> cp_sm_ag_if_rd d = Inr (rd_kept d)"
  by (cases d; cases "rd_stats d")
     (auto simp: rd_ok_def rd_kept_def cp_sm_ag_if_rd_def cp_mac_data cp_rlc_data cp_pdcp_data cp_gtp_data cp_slice_kept cp_tc_kept
       cp_kpm_ind_data_eq)

lemma rd_ok_free: "rd_ok d \<Longrightarrow> free_sm_ag_if_rd (rd_kept d) = Inr ()"
  by (cases "rd_stats d")
     (auto simp: rd_ok_def rd_kept_def free_sm_ag_if_rd_def free_pdcp_ind_msg_def check_pdcp free_slice_ind_data_def free_part
       free_slice_call_proc_id_def free_tc_ind_data_def free_tc_part free_tc_call_proc_id_def)

lemma write_batch_ok: "\<forall>d\<in>set ds. free_sm_ag_if_rd (ai_rd d) = Inr () \<Longrightarrow> write_batch ds out = Inr (out @ ds)"
  by (induction ds arbitrary: out) simp_all

lemma create_10: "length arr + length xs \<le> 10 \<Longrightarrow> fold_res create_val_10 xs arr = Inr (arr @ xs)"
  by (induction xs arbitrary: arr) (simp_all add: create_val_10_def Let_def)

lemma create_100: "length arr + length xs \<le> 100 \<Longrightarrow> fold_res create_val_100 xs arr = Inr (arr @ xs)"
  by (induction xs arbitrary: arr) (simp_all add: create_val_100_def Let_def)

definition db_inv :: "db_xapp \<Rightarrow> e2_node_ag_if list \<Rightarrow> bool" where
  "db_inv db xs \<longleftrightarrow> tsq_rep (db_q db) xs \<and> (\<forall>d\<in>set xs. free_sm_ag_if_rd (ai_rd d) = Inr ()) \<and>
    (case db_pc db of At_size \<Rightarrow> True
     | At_pop n \<Rightarrow> n = 1 \<or> n = 10 \<and> 10 \<le> length xs \<or> n = 100 \<and> 100 \<le> length xs
     | Ended \<Rightarrow> stop_token (db_q db))"

lemma db_inv_init: "db_inv init_db_xapp []"
  by (simp add: db_inv_def init_db_xapp_def tsq_init)

lemma db_write_ok:
  assumes "db_inv db xs" "length xs + 1 < 2 ^ 31" "rd_ok rd"
  obtains db' where "write_db_xapp db i rd = Inr db'" "db_inv db' (xs @ [\<lparr>ai_id = cp_global_e2_node_id i, ai_rd = rd_kept rd\<rparr>])"
    "db_out db' = db_out db" "stop_token (db_q db') = stop_token (db_q db)"
proof -
  let ?v = "\<lparr>ai_id = cp_global_e2_node_id i, ai_rd = rd_kept rd\<rparr>"
  obtain q where q: "push_tsq (db_q db) ?v = Inr q" "tsq_rep q (xs @ [?v])" "stop_token q = stop_token (db_q db)"
    by (rule tsq_push [of "db_q db" xs ?v]) (use assms in \<open>auto simp: db_inv_def\<close>)
  have "db_inv (db\<lparr>db_q := q\<rparr>) (xs @ [?v])"
    using assms q rd_ok_free [OF assms(3)] by (auto simp: db_inv_def split: db_pc.splits)
  then show ?thesis
    using q(1,3) assms(3) by (intro that [of "db\<lparr>db_q := q\<rparr>"]) (simp_all add: write_db_xapp_def rd_ok_copy)
qed

text \<open>One step of the writer takes nothing or a prefix of the queue.\<close>

lemma worker_ok:
  assumes "db_inv db xs"
  obtains db' n where "worker_thread db = Inr db'" "db_inv db' (drop n xs)" "db_out db' = db_out db @ take n xs"
    "stop_token (db_q db') = stop_token (db_q db)"
    "\<not> stop_token (db_q db) \<Longrightarrow> db_pc db = At_size \<Longrightarrow> n = 0 \<and> (\<exists>m. db_pc db' = At_pop m)"
    "\<not> stop_token (db_q db) \<Longrightarrow> db_pc db = At_pop m \<Longrightarrow> xs \<noteq> [] \<Longrightarrow> 0 < n \<and> n \<le> length xs \<and> db_pc db' = At_size"
proof (cases "db_pc db")
  case At_size
  have z: "unat (size_tsq (db_q db)) = length xs" using assms by (simp add: db_inv_def tsq_size)
  let ?n = "if 100 < size_tsq (db_q db) then 100 else if 10 < size_tsq (db_q db) then 10 else 1 :: nat"
  have "db_inv (db\<lparr>db_pc := At_pop ?n\<rparr>) xs"
    using assms z by (simp add: db_inv_def word_less_nat_alt)
  then show ?thesis
    using At_size by (intro that [of "db\<lparr>db_pc := At_pop ?n\<rparr>" 0]) (simp_all add: worker_thread_def Let_def)
next
  case (At_pop b)
  have i: "tsq_rep (db_q db) xs" "\<forall>d\<in>set xs. free_sm_ag_if_rd (ai_rd d) = Inr ()"
    "b = 1 \<or> b = 10 \<and> 10 \<le> length xs \<or> b = 100 \<and> 100 \<le> length xs"
    using assms At_pop by (simp_all add: db_inv_def)
  let ?pop = "if b = 100 then pop_tsq_100 (db_q db) create_val_100 []
    else if b = 10 then pop_tsq_10 (db_q db) create_val_10 [] else wait_and_pop_tsq (db_q db) create_val []"
  show ?thesis
  proof (cases "stop_token (db_q db)")
    case True
    let ?db = "db\<lparr>db_q := (db_q db)\<lparr>stopped := True\<rparr>, db_pc := Ended\<rparr>"
    have "worker_thread db = Inr ?db" using At_pop True by (simp add: worker_thread_def pops_stopped)
    moreover have "db_inv ?db xs" using i True by (simp add: db_inv_def)
    ultimately show ?thesis using True by (intro that [of ?db 0]) simp_all
  next
    case run: False
    show ?thesis
    proof (cases "xs = []")
      case True
      then have b: "b = 1" using i(3) by auto
      have "worker_thread db = Inr db"
        using At_pop b True i(1) run by (simp add: worker_thread_def wait_blocks)
      then show ?thesis using assms True run At_pop by (intro that [of db 0]) simp_all
    next
      case False
      obtain q where q: "?pop = Inr (q, Taken (take b xs))" "tsq_rep q (drop b xs)" "stop_token q = stop_token (db_q db)"
        using i(3)
      proof (elim disjE conjE)
        assume b: "b = 1"
        obtain x ys where xs: "xs = x # ys" using False by (cases xs) auto
        show thesis
          by (rule wait_and_pop_ok [OF i(1) [unfolded xs] run, of create_val "[]"])
             (use b xs in \<open>auto simp: create_val_def intro: that\<close>)
      next
        assume b: "b = 10" "10 \<le> length xs"
        show thesis
          by (rule pop_10_ok [OF i(1) run b(2) create_10 [of "[]"]]) (use b in \<open>auto intro: that\<close>)
      next
        assume b: "b = 100" "100 \<le> length xs"
        show thesis
          by (rule pop_100_ok [OF i(1) run b(2) create_100 [of "[]"]]) (use b in \<open>auto intro: that\<close>)
      qed
      let ?db = "db\<lparr>db_q := q, db_pc := At_size, db_out := db_out db @ take b xs\<rparr>"
      have "write_batch (take b xs) (db_out db) = Inr (db_out db @ take b xs)"
        using i(2) by (intro write_batch_ok) (auto dest: in_set_takeD)
      then have "worker_thread db = Inr ?db" using At_pop q(1) by (simp add: worker_thread_def)
      moreover have "db_inv ?db (drop b xs)" using i(2) q(2) by (auto simp: db_inv_def dest: in_set_dropD)
      moreover have "0 < b" "b \<le> length xs" using i(3) False by (auto simp: Suc_le_eq)
      ultimately show ?thesis using q(3) At_pop by (intro that [of ?db b]) simp_all
    qed
  qed
next
  case Ended
  then show ?thesis
    using assms by (intro that [of db 0]) (auto simp: worker_thread_def db_inv_def)
qed

lemma db_run_ok:
  assumes "db_inv db xs" "\<forall>i rd. Db_write i rd \<in> set es \<longrightarrow> rd_ok rd" "length xs + length (db_stored es) < 2 ^ 31"
  obtains db' ys where "db_run es db = Inr db'" "db_inv db' ys" "db_out db' @ ys = db_out db @ xs @ db_stored es"
    "Db_close \<notin> set es \<Longrightarrow> stop_token (db_q db') = stop_token (db_q db)"
proof -
  have "\<exists>db' ys. db_run es db = Inr db' \<and> db_inv db' ys \<and> db_out db' @ ys = db_out db @ xs @ db_stored es \<and>
      (Db_close \<notin> set es \<longrightarrow> stop_token (db_q db') = stop_token (db_q db))"
    using assms
  proof (induction es arbitrary: db xs)
    case Nil
    then show ?case by (auto simp: db_run_def)
  next
    case (Cons e es)
    obtain db1 xs1 where s: "db_step e db = Inr db1" "db_inv db1 xs1"
      "db_out db1 @ xs1 = db_out db @ xs @ db_stored [e]" "length xs1 \<le> length xs + length (db_stored [e])"
      "e \<noteq> Db_close \<Longrightarrow> stop_token (db_q db1) = stop_token (db_q db)"
    proof (cases e)
      case (Db_write i rd)
      have "length xs + 1 < 2 ^ 31" "rd_ok rd" using Cons.prems(2,3) Db_write by auto
      then show ?thesis
        by (rule db_write_ok [OF Cons.prems(1)]) (use Db_write in \<open>auto intro: that\<close>)
    next
      case Db_work
      show ?thesis
        by (rule worker_ok [OF Cons.prems(1)]) (use Db_work in \<open>auto intro: that\<close>)
    next
      case Db_close
      have "db_inv (db\<lparr>db_q := stop_tsq (db_q db)\<rparr>) xs"
        using Cons.prems(1) by (auto simp: db_inv_def stop_tsq_def tsq_rep_def split: db_pc.splits)
      then show ?thesis using Db_close by (intro that [of "db\<lparr>db_q := stop_tsq (db_q db)\<rparr>" xs]) simp_all
    qed
    have "length xs1 + length (db_stored es) < 2 ^ 31"
      using s(4) Cons.prems(3) db_stored_append [of "[e]" es] by simp
    then obtain db' ys where "db_run es db1 = Inr db'" "db_inv db' ys" "db_out db' @ ys = db_out db1 @ xs1 @ db_stored es"
      "Db_close \<notin> set es \<longrightarrow> stop_token (db_q db') = stop_token (db_q db1)"
      using Cons.IH [OF s(2)] Cons.prems(2) by auto
    moreover have "db_out db1 @ xs1 @ db_stored es = db_out db @ xs @ db_stored (e # es)"
      using s(3) db_stored_append [of "[e]" es] by (metis append.assoc append_Cons append_Nil)
    ultimately show ?case using s(1,5) by (auto simp: db_run_def)
  qed
  then show ?thesis using that by blast
qed

text \<open>The writer empties the queue: two steps per element are enough.\<close>

lemma db_drain:
  "db_inv db xs \<Longrightarrow> \<not> stop_token (db_q db) \<Longrightarrow> 2 * length xs \<le> n \<Longrightarrow>
    \<exists>db'. db_run (replicate n Db_work) db = Inr db' \<and> db_inv db' [] \<and> db_out db' = db_out db @ xs"
proof (induction n arbitrary: db xs rule: less_induct)
  case (less n)
  have idle: "\<exists>db'. db_run (replicate m Db_work) d = Inr db' \<and> db_inv db' [] \<and> db_out db' = db_out d"
    if "db_inv d []" for d m
    using that
  proof (induction m arbitrary: d)
    case (Suc m)
    obtain d' j where d: "worker_thread d = Inr d'" "db_inv d' (drop j [])" "db_out d' = db_out d @ take j []"
      by (rule worker_ok [OF Suc.prems]) (rule that)
    then show ?case using Suc.IH [of d'] by (simp add: db_run_def)
  qed (simp add: db_run_def)
  show ?case
  proof (cases "xs = []")
    case True
    then show ?thesis using idle [of db n] less.prems(1) by simp
  next
    case False
    then have "2 \<le> n" using less.prems(3) by (cases xs) auto
    then obtain m where m: "n = Suc (Suc m)" by (metis add_2_eq_Suc le_Suc_ex)
    show ?thesis
    proof (cases "db_pc db")
      case At_size
      obtain d1 where d1: "worker_thread db = Inr d1" "db_inv d1 xs" "db_out d1 = db_out db"
        "\<not> stop_token (db_q d1)" "\<exists>b. db_pc d1 = At_pop b"
        by (rule worker_ok [OF less.prems(1)]) (use At_size less.prems(2) in \<open>auto intro: that\<close>)
      then obtain b where b: "db_pc d1 = At_pop b" by blast
      obtain d2 k where d2: "worker_thread d1 = Inr d2" "db_inv d2 (drop k xs)" "db_out d2 = db_out d1 @ take k xs"
        "\<not> stop_token (db_q d2)" "0 < k" "k \<le> length xs"
        by (rule worker_ok [OF d1(2), of b]) (use b d1(4) False in \<open>auto intro: that\<close>)
      have "2 * length (drop k xs) \<le> m" using less.prems(3) d2(5,6) m by simp
      then show ?thesis
        using less.IH [of m d2 "drop k xs"] d2 d1 m by (auto simp: db_run_def)
    next
      case (At_pop b)
      obtain d2 k where d2: "worker_thread db = Inr d2" "db_inv d2 (drop k xs)" "db_out d2 = db_out db @ take k xs"
        "\<not> stop_token (db_q d2)" "0 < k" "k \<le> length xs"
        by (rule worker_ok [OF less.prems(1), of b]) (use At_pop less.prems(2) False in \<open>auto intro: that\<close>)
      have "2 * length (drop k xs) \<le> Suc m" using less.prems(3) d2(5,6) m by simp
      then show ?thesis
        using less.IH [of "Suc m" d2 "drop k xs"] d2 m by (auto simp: db_run_def)
    next
      case Ended
      then show ?thesis using less.prems(1,2) by (simp add: db_inv_def)
    qed
  qed
qed

end
