(* ===== verification/DbProps.thy ===== *)
theory DbProps
  imports DbXapp SmProps
begin

text \<open>
  The properties of the queue between the threads and of the writer of the data base.
\<close>

section \<open>The queue\<close>

text \<open>C13: The queue between threads is a first-in-first-out list.  Whatever the capacity of its ring, where
  the counters stand and whether they wrapped around, in a state that holds \<open>xs\<close>: the size is the
  length of \<open>xs\<close>; a push appends, growing the ring when it is full; a consumer that takes one
  element gets the first, blocks when there is none, and gets nothing after the stop; the
  batches of 10 and 100 are the first 10 and 100 elements; freeing the ring visits exactly \<open>xs\<close>.\<close>

theorem queue_is_fifo:
  assumes "tsq_rep q xs" "length xs + 1 < 2 ^ 31"
  shows "unat (size_tsq q) = length xs \<and>
    (\<exists>q'. push_tsq q v = Inr q' \<and> tsq_rep q' (xs @ [v])) \<and>
    (\<not> stop_token q \<and> xs = [] \<longrightarrow> wait_and_pop_tsq q (\<lambda>x s. Inr (s @ [x])) [] = Inr (q, Blocks)) \<and>
    (\<not> stop_token q \<and> xs \<noteq> [] \<longrightarrow> (\<exists>q'. wait_and_pop_tsq q (\<lambda>x s. Inr (s @ [x])) [] = Inr (q', Taken [hd xs]) \<and>
      tsq_rep q' (tl xs))) \<and>
    (\<not> stop_token q \<and> 10 \<le> length xs \<longrightarrow> (\<exists>q'. pop_tsq_10 q (\<lambda>x s. Inr (s @ [x])) [] = Inr (q', Taken (take 10 xs)) \<and>
      tsq_rep q' (drop 10 xs))) \<and>
    (\<not> stop_token q \<and> 100 \<le> length xs \<longrightarrow> (\<exists>q'. pop_tsq_100 q (\<lambda>x s. Inr (s @ [x])) [] = Inr (q', Taken (take 100 xs)) \<and>
      tsq_rep q' (drop 100 xs))) \<and>
    (stop_token q \<longrightarrow> wait_and_pop_tsq q (\<lambda>x s. Inr (s @ [x])) [] = Inr (q\<lparr>stopped := True\<rparr>, Null)) \<and>
    (stopped q \<longrightarrow> free_tsq q = Inr xs)"
proof (intro conjI impI)
  let ?f = "\<lambda>x s. Inr (s @ [x])"
  have c: "fold_res ?f ys s = Inr (s @ ys)" for ys s by (induction ys arbitrary: s) simp_all
  show "unat (size_tsq q) = length xs" by (rule tsq_size [OF assms(1)])
  show "\<exists>q'. push_tsq q v = Inr q' \<and> tsq_rep q' (xs @ [v])" by (rule tsq_push [OF assms, of v]) blast
  show "wait_and_pop_tsq q ?f [] = Inr (q, Blocks)" if "\<not> stop_token q \<and> xs = []"
    using wait_blocks [of q ?f "[]"] that assms(1) by simp
  show "\<exists>q'. wait_and_pop_tsq q ?f [] = Inr (q', Taken [hd xs]) \<and> tsq_rep q' (tl xs)" if h: "\<not> stop_token q \<and> xs \<noteq> []"
    by (rule wait_and_pop_ok [of q "hd xs" "tl xs" ?f "[]" "[hd xs]"]) (use h assms(1) in auto)
  show "\<exists>q'. pop_tsq_10 q ?f [] = Inr (q', Taken (take 10 xs)) \<and> tsq_rep q' (drop 10 xs)"
    if h: "\<not> stop_token q \<and> 10 \<le> length xs"
    by (rule pop_10_ok [OF assms(1) _ _ c [of _ "[]"]]) (use h in auto)
  show "\<exists>q'. pop_tsq_100 q ?f [] = Inr (q', Taken (take 100 xs)) \<and> tsq_rep q' (drop 100 xs)"
    if h: "\<not> stop_token q \<and> 100 \<le> length xs"
    by (rule pop_100_ok [OF assms(1) _ _ c [of _ "[]"]]) (use h in auto)
  show "wait_and_pop_tsq q ?f [] = Inr (q\<lparr>stopped := True\<rparr>, Null)" if "stop_token q" using that by (rule pops_stopped)
  show "free_tsq q = Inr xs" if "stopped q" using that assms(1) by (simp add: free_tsq_def tsq_rep_def ring_free)
qed

text \<open>The witness: 40 pushes into the ring of 32 cells, and a batch of 10.\<close>

lemma pushes_ok:
  "tsq_rep q xs \<Longrightarrow> length xs + length vs < 2 ^ 31 \<Longrightarrow>
    \<exists>q'. fold_res (\<lambda>v q. push_tsq q v) vs q = Inr q' \<and> tsq_rep q' (xs @ vs) \<and> stop_token q' = stop_token q"
proof (induction vs arbitrary: q xs)
  case (Cons v vs)
  obtain q1 where q1: "push_tsq q v = Inr q1" "tsq_rep q1 (xs @ [v])" "stop_token q1 = stop_token q"
    by (rule tsq_push [OF Cons.prems(1), of v]) (use Cons.prems(2) in auto)
  then show ?case using Cons.IH [OF q1(2)] Cons.prems(2) by simp
qed auto

theorem queue_is_fifo_witness:
  "\<exists>(q :: nat tsq) q'. fold_res (\<lambda>v q. push_tsq q v) [0..<40] init_tsq = Inr q \<and>
    pop_tsq_10 q (\<lambda>x s. Inr (s @ [x])) [] = Inr (q', Taken [0..<10]) \<and> tsq_rep q' [10..<40]"
proof -
  have "length ([] :: nat list) + length [0..<40] < 2 ^ 31" by simp
  then obtain q :: "nat tsq" where q: "fold_res (\<lambda>v q. push_tsq q v) [0..<40] init_tsq = Inr q" "tsq_rep q [0..<40]"
    "\<not> stop_token q"
    using pushes_ok [OF tsq_init, of "[0..<40]"] by (auto simp: init_tsq_def)
  have l: "length [0..<40] + 1 < 2 ^ 31" by simp
  show ?thesis using queue_is_fifo [OF q(2) l, of 0] q(1,3) by auto
qed

section \<open>The writer\<close>

text \<open>C14: The writer of the data base is equivalent to writing every indication when it arrives.  For
  every interleaving of the event loop, which queues copies, and of the writer, which takes
  batches of 100, 10 or 1, no assertion fails and what is written so far, followed by what is
  still queued, is what was queued, in order, each once; and unless the data base was closed,
  two steps of the writer per queued element write the rest.\<close>

theorem db_writes_in_order:
  assumes "\<forall>i rd. Db_write i rd \<in> set es \<longrightarrow> rd_ok rd" "length (db_stored es) < 2 ^ 31"
  shows "(\<exists>db ys. db_run es init_db_xapp = Inr db \<and> tsq_rep (db_q db) ys \<and> db_out db @ ys = db_stored es) \<and>
    (Db_close \<notin> set es \<longrightarrow> (\<exists>db. db_run (es @ replicate (2 * length (db_stored es)) Db_work) init_db_xapp = Inr db \<and>
      db_out db = db_stored es))"
proof -
  obtain db ys where db: "db_run es init_db_xapp = Inr db" "db_inv db ys" "db_out db @ ys = db_stored es"
    "Db_close \<notin> set es \<Longrightarrow> \<not> stop_token (db_q db)"
    by (rule db_run_ok [OF db_inv_init, of es]) (use assms that in \<open>auto simp: init_db_xapp_def init_tsq_def\<close>)
  have "\<exists>d. db_run (es @ replicate (2 * length (db_stored es)) Db_work) init_db_xapp = Inr d \<and> db_out d = db_stored es"
    if "Db_close \<notin> set es"
  proof -
    have "2 * length ys \<le> 2 * length (db_stored es)" using arg_cong [OF db(3), of length] by simp
    from db_drain [OF db(2) db(4) [OF that] this] show ?thesis
      using db(1,3) by (auto simp: db_run_def fold_res_append)
  qed
  then show ?thesis using db(1-3) by (auto simp: db_inv_def)
qed

definition demo_writes :: "nat \<Rightarrow> db_event list" where
  "demo_writes n = map (\<lambda>i. Db_write demo_node (mac_seen demo_rio i)) [0..<n]"

lemma demo_stored: "db_stored (demo_writes n) =
    map (\<lambda>i. \<lparr>ai_id = cp_global_e2_node_id demo_node, ai_rd = mac_seen demo_rio i\<rparr>) [0..<n]"
  by (induction n) (simp_all add: demo_writes_def db_stored_append rd_kept_def mac_seen_def)

theorem db_writes_in_order_witness:
  "\<exists>db. db_run (demo_writes 150 @ replicate 300 Db_work) init_db_xapp = Inr db \<and>
    map ai_rd (db_out db) = map (mac_seen demo_rio) [0..<150]"
proof -
  have ok: "\<forall>i rd. Db_write i rd \<in> set (demo_writes 150) \<longrightarrow> rd_ok rd"
    by (auto simp: demo_writes_def rd_ok_def mac_seen_def demo_rio_def wf_mac_def)
  have "length (db_stored (demo_writes 150)) < 2 ^ 31" "Db_close \<notin> set (demo_writes 150)"
    by (simp_all add: demo_stored) (auto simp: demo_writes_def)
  from db_writes_in_order [OF ok this(1)] this show ?thesis by (auto simp: demo_stored)
qed

end
