(* ===== verification/E2apProps.thy ===== *)
theory E2apProps
  imports E2apCarry
begin

text \<open>
  The properties of the encoding of E2AP: which messages arrive as they were sent, on the PDUs and
  on the bytes of the generated codec.
\<close>

section \<open>What arrives\<close>

text \<open>C6: For each of the 31 messages of E2AP and E42 the encoder and the decoder are inverse exactly
  on the messages that \<open>wire_ok\<close> describes, and a message is never taken for one of another type.
  \<open>wire_ok\<close> lists the bounds (numbers of RAN functions, actions and components, numbers of
  functions, identifiers of 16, 20 and 28 bits, decimal codes of the network, causes) and what the code
  loses: actions that are not admitted, functions that are deleted or rejected by an update, an
  identifier of a component, an update of an eNB, criticality diagnostics, and all answers to updates
  of the configuration and of the connections.\<close>

theorem e2ap_wire_exact:
  "(e2ap_wire m = Inr m \<longleftrightarrow> wire_ok m) \<and> (e2ap_wire m = Inr n \<longrightarrow> u_type n = u_type m)"
  using wire_ok_iff [of m] wire_type [of m n] by blast

text \<open>Two messages for the witness: an update that deletes a function arrives as another one, and a
  failure of the setup arrives as it is.\<close>

definition demo_update :: ric_service_update where
  "demo_update = \<lparr>su_added = [], su_modified = [], su_deleted = [\<lparr>fr_id = 142, fr_rev = 0\<rparr>]\<rparr>"

definition demo_failure :: e2_setup_failure where
  "demo_failure = \<lparr>stpf_cause = \<lparr>present = 5, cause_val = 1\<rparr>, stpf_time_to_wait = Some TIMETOWAIT_V5S,
    stpf_crit_diag = None, tl_info = Some \<lparr>tl_address = [127, 0, 0, 1], tl_port = None\<rparr>\<rparr>"

theorem e2ap_wire_exact_witness:
  "e2ap_wire (U_e2_stp_fail demo_failure) = Inr (U_e2_stp_fail demo_failure) \<and>
   e2ap_wire (U_ric_serv_updt demo_update) \<noteq> Inr (U_ric_serv_updt demo_update) \<and>
   (\<exists>n. e2ap_wire (U_ric_serv_updt demo_update) = Inr n \<and> u_type n = RIC_SERVICE_UPDATE)"
proof -
  have "wire_ok (U_e2_stp_fail demo_failure)" "\<not> wire_ok (U_ric_serv_updt demo_update)"
    by (simp_all add: setup_failure_ok_def demo_failure_def cause_ok_def service_update_ok_def demo_update_def)
  moreover obtain n where "e2ap_wire (U_ric_serv_updt demo_update) = Inr n"
    by (simp add: service_update_arrives demo_update_def)
  ultimately show ?thesis
    using e2ap_wire_exact [of "U_e2_stp_fail demo_failure"] e2ap_wire_exact [of "U_ric_serv_updt demo_update" n] by simp
qed

section \<open>Bytes\<close>

text \<open>C40: On the bytes: when the generated codec writes a PDU and reads it back, the message that
  made the PDU arrives as it was exactly when it is one that \<open>wire_ok\<close> describes and the bytes fit
  the buffer of 16384; a longer PDU stops its sender.\<close>

theorem e2ap_bytes_exact:
  assumes "enc_msg m = Inr pdu" "aper_encode pdu = Some b" "aper_decode b = Some pdu" "b \<noteq> []"
  shows "(res_bind (e2ap_msg_enc_asn aper_encode m) (e2ap_msg_dec_asn aper_decode) = Inr m \<longleftrightarrow>
      wire_ok m \<and> length b < 16384) \<and>
    (16384 \<le> length b \<longrightarrow> e2ap_msg_enc_asn aper_encode m = Inl AssertFail)"
  using wire_ok_iff [of m] assms
  by (auto simp: e2ap_msg_enc_asn_def e2ap_enc_asn_pdu_ba_def e2ap_msg_dec_asn_def e2ap_create_pdu_def e2ap_wire_def)

text \<open>The witness has a codec for one PDU, the empty answer to a reset, in 3 bytes.\<close>

definition demo_pdu :: E2AP_PDU where
  "demo_pdu = successfulOutcome Proc_Reset PR_ResetResponse []"

definition demo_encode :: "E2AP_PDU \<Rightarrow> byte_array option" where
  "demo_encode pdu = (if pdu = demo_pdu then Some [32, 3, 0] else None)"

definition demo_decode :: "byte_array \<Rightarrow> E2AP_PDU option" where
  "demo_decode b = (if b = [32, 3, 0] then Some demo_pdu else None)"

theorem e2ap_bytes_exact_witness:
  "e2ap_msg_enc_asn demo_encode (U_rst_resp \<lparr>rst_crit_diag = None\<rparr>) = Inr [32, 3, 0] \<and>
   res_bind (e2ap_msg_enc_asn demo_encode (U_rst_resp \<lparr>rst_crit_diag = None\<rparr>)) (e2ap_msg_dec_asn demo_decode) =
     Inr (U_rst_resp \<lparr>rst_crit_diag = None\<rparr>)"
proof -
  have e: "enc_msg (U_rst_resp \<lparr>rst_crit_diag = None\<rparr>) = Inr demo_pdu"
    by (simp add: e2ap_enc_reset_response_asn_pdu_def demo_pdu_def)
  have c: "demo_encode demo_pdu = Some [32, 3, 0]" "demo_decode [32, 3, 0] = Some demo_pdu"
    by (simp_all add: demo_encode_def demo_decode_def)
  show ?thesis
    using e2ap_bytes_exact [where aper_encode = demo_encode and aper_decode = demo_decode, OF e c] e c(1) by (simp add: e2ap_msg_enc_asn_def e2ap_enc_asn_pdu_ba_def)
qed

end
