(* ===== verification/KpmProps.thy ===== *)
theory KpmProps
  imports SmProps
begin

text \<open>
  The properties of the service model KPM: what its encoding keeps, what a reading becomes on its
  way, and a report from the request to the callback.  The codec that the ASN.1 compiler generated is
  an argument; the witnesses have a small one that knows the PDUs of one RAN.
\<close>

section \<open>A small codec\<close>

text \<open>It writes a period as one byte, the time of a header as its four bytes, and gives one byte to each of
  the other PDUs of \<open>demo_kpm_data\<close>; it fails on all others.\<close>

definition demo_msg_pdu :: E2SM_KPM_IndicationMessage where
  "demo_msg_pdu = indicationMessage_Format1
    \<lparr>measData = [\<lparr>md_measRecord = [MeasurementRecordItem_PR_integer 42], md_incompleteFlag = Some 0\<rparr>],
     measInfoList = Some [\<lparr>measType = MeasurementType_PR_measName [68, 82, 66],
       labelInfoList = [\<lparr>ml_noLabel = Some 0, ml_plmnID = None\<rparr>]\<rparr>],
     im_granulPeriod = None\<rparr>"

definition demo_hdr_pdu :: E2SM_KPM_IndicationHeader where
  "demo_hdr_pdu = projr (ind_hdr_pdu (kpm_hdr demo_kpm_data))"

definition one_pdu :: "'p \<Rightarrow> u8 \<Rightarrow> 'p \<Rightarrow> byte_array option" where
  "one_pdu p b q = (if q = p then Some [b] else None)"

definition one_bytes :: "'p \<Rightarrow> u8 \<Rightarrow> byte_array \<Rightarrow> 'p option" where
  "one_bytes p b c = (if c = [b] then Some p else None)"

definition demo_codec :: kpm_codec where
  "demo_codec =
    \<lparr>enc_et = (\<lambda>p. case p of eventDefinition_Format1 ms \<Rightarrow> if ms < 256 then Some [ucast ms] else None | _ \<Rightarrow> None),
     dec_et = (\<lambda>b. case b of [m] \<Rightarrow> Some (eventDefinition_Format1 (ucast m)) | _ \<Rightarrow> None),
     enc_ad = one_pdu (projr (action_def_pdu dummy_action_def)) 1, dec_ad = one_bytes (projr (action_def_pdu dummy_action_def)) 1,
     enc_ih = one_pdu demo_hdr_pdu 2, dec_ih = one_bytes demo_hdr_pdu 2,
     enc_im = one_pdu demo_msg_pdu 3, dec_im = one_bytes demo_msg_pdu 3,
     enc_fd = one_pdu (func_def_pdu kpm_announced_def) 4, dec_fd = one_bytes (func_def_pdu kpm_announced_def) 4\<rparr>"

lemma codes_one: "codes (one_pdu p b) (one_bytes p b) p [b]"
  by (simp add: codes_def one_pdu_def one_bytes_def)

lemma demo_codec_ok: "kpm_codec_ok demo_codec"
proof -
  have "codes (enc_et demo_codec) (dec_et demo_codec) (event_trigger_pdu ms) [ucast ms]" if "ms \<in> {1, 2, 5, 10}" for ms
    using that by (auto simp: codes_def demo_codec_def event_trigger_pdu_def)
  moreover have "codes (enc_ad demo_codec) (dec_ad demo_codec) (projr (action_def_pdu dummy_action_def)) [1]"
    "codes (enc_fd demo_codec) (dec_fd demo_codec) (func_def_pdu kpm_announced_def) [4]"
    by (simp_all add: demo_codec_def codes_one)
  ultimately show ?thesis unfolding kpm_codec_ok_def by blast
qed

lemma demo_msg_pdu: "ind_msg_pdu (kpm_msg demo_kpm_data) = Inr demo_msg_pdu"
  by (simp add: ind_msg_pdu_def demo_kpm_data_def demo_msg_pdu_def put_meas_data_def put_meas_record_def put_meas_info_def
      cp_label_info_item_into_asn_def kpm_maxs kpm_consts)

lemma demo_hdr_ok: "kpm_hdr_ok (kpm_hdr demo_kpm_data)"
  by (simp add: kpm_hdr_ok_def demo_kpm_data_def)

lemma demo_kpm_coded: "kpm_coded demo_codec demo_kpm_data"
  using codes_one [of demo_hdr_pdu 2] codes_one [of demo_msg_pdu 3]
  by (auto simp: kpm_coded_def demo_hdr_pdu_def demo_msg_pdu demo_codec_def)

lemma demo_msg_ok: "kpm_msg_ok (kpm_msg demo_kpm_data)"
  by (simp add: kpm_msg_ok_def demo_kpm_data_def meas_data_ok_def meas_record_ok_def meas_info_ok_def label_ok_def
      no_label_info_def labels_fit_def kpm_maxs kpm_consts)

lemma demo_read_kpm: "io_read_kpm demo_rio n = (demo_kpm_data, Suc n)"
  by (simp add: demo_rio_def)

section \<open>What the encoding keeps\<close>

text \<open>C17: On the PDUs, the encoder and the decoder of KPM are inverse exactly on the values described
  by \<open>kpm_msg_ok\<close>, \<open>action_def_ok\<close> and \<open>func_def_trip\<close>: measurements with a name or a number, labels
  that say at most that there is none, no granularity period, no cell, no instance, and no
  measurement with more labels than the first.  Every period of a trigger arrives, and every header,
  or its encoder stops on an optional member.\<close>

theorem kpm_wire_exact:
  "(res_bind (ind_msg_pdu m) ind_msg_of_pdu = Inr m \<longleftrightarrow> kpm_msg_ok m) \<and>
   (res_bind (action_def_pdu ad) action_def_of_pdu = Inr ad \<longleftrightarrow> action_def_ok ad) \<and>
   res_bind (ind_hdr_pdu h) ind_hdr_of_pdu = (if kpm_hdr_ok h then Inr h else Inl AssertFail) \<and>
   event_trigger_of_pdu (event_trigger_pdu ms) = Inr ms \<and>
   (func_def_of_pdu (func_def_pdu f) = Inr f \<longleftrightarrow>
     ranFunction_Instance f = None \<and> ric_EventTriggerStyle_List_len f = 0 \<and> ric_ReportStyle_List_len f = 0)"
  using ind_msg_trip [of m] action_def_trip [of ad] ind_hdr_trip [of h] func_def_trip [of f]
  by (simp add: kpm_hdr_ok_def event_trigger_of_pdu_def event_trigger_pdu_def)

section \<open>Readings\<close>

text \<open>C18: The agent encodes a reading of the RAN; the RIC and the xApp read the same header and message
  when the encoding keeps the message.  They stop when the message has a granularity period, a
  label that names a network, or a measurement with more labels than the first.  What they read can
  be copied for the data base exactly when every label says that there is none: an empty label
  arrives but stops the copy.\<close>

theorem kpm_readings:
  assumes "kpm_coded c d" "kpm_hdr_ok (kpm_hdr d)" "io_read_kpm rio st = (d, st')" "ind_msg_pdu (kpm_msg d) = Inr p"
    "rd = \<lparr>rd_type = KPM_STATS_V0, rd_stats = Kpm_stats d\<rparr>"
  shows "\<exists>i. on_indication_kpm_sm_ag c rio st = Inr (i, st') \<and>
    (kpm_msg_ok (kpm_msg d) \<longrightarrow>
      on_indication_kpm_sm_ric c i = Inr rd \<and>
      cp_sm_ag_if_rd rd = (if \<forall>mi\<in>set (im_MeasInfo (kpm_msg d)). \<forall>l\<in>set (labelInfo mi). noLabel l \<noteq> None
                           then Inr rd else Inl AssertFail)) \<and>
    (granulPeriod (kpm_msg d) \<noteq> None \<or> \<not> labels_fit (im_MeasInfo (kpm_msg d)) \<or>
      (\<exists>mi\<in>set (im_MeasInfo (kpm_msg d)). \<exists>l\<in>set (labelInfo mi). noLabel l = None \<and> plmnID l \<noteq> None) \<longrightarrow>
      (\<forall>r. on_indication_kpm_sm_ric c i \<noteq> Inr r))"
proof -
  obtain i where i: "on_indication_kpm_sm_ag c rio st = Inr (i, st')"
    "on_indication_kpm_sm_ric c i = res_bind (ind_msg_of_pdu p) (\<lambda>m.
      Inr \<lparr>rd_type = KPM_STATS_V0, rd_stats = Kpm_stats \<lparr>kpm_hdr = kpm_hdr d, kpm_msg = m\<rparr>\<rparr>)"
    by (rule kpm_reading [OF assms(1-4)]) (rule that)
  have "on_indication_kpm_sm_ric c i = Inr rd" if "kpm_msg_ok (kpm_msg d)"
    using ind_msg_trip [of "kpm_msg d"] that i(2) assms(4,5) by simp
  moreover have "cp_sm_ag_if_rd rd = (if \<forall>mi\<in>set (im_MeasInfo (kpm_msg d)). \<forall>l\<in>set (labelInfo mi). noLabel l \<noteq> None
      then Inr rd else Inl AssertFail)" if "kpm_msg_ok (kpm_msg d)"
    using labels_copy_ok [OF that] by (simp add: assms(5) cp_sm_ag_if_rd_def cp_kpm_ind_data_eq)
  moreover have "\<forall>r. on_indication_kpm_sm_ric c i \<noteq> Inr r" if "granulPeriod (kpm_msg d) \<noteq> None \<or>
      \<not> labels_fit (im_MeasInfo (kpm_msg d)) \<or>
      (\<exists>mi\<in>set (im_MeasInfo (kpm_msg d)). \<exists>l\<in>set (labelInfo mi). noLabel l = None \<and> plmnID l \<noteq> None)"
    using ind_msg_stops [OF assms(4) that] i(2) by (auto simp: res_bind_eq_Inr)
  ultimately show ?thesis using i(1) by blast
qed

theorem kpm_readings_witness:
  "\<exists>i. on_indication_kpm_sm_ag demo_codec demo_rio 5 = Inr (i, 6) \<and>
    on_indication_kpm_sm_ric demo_codec i = Inr \<lparr>rd_type = KPM_STATS_V0, rd_stats = Kpm_stats demo_kpm_data\<rparr> \<and>
    cp_sm_ag_if_rd \<lparr>rd_type = KPM_STATS_V0, rd_stats = Kpm_stats demo_kpm_data\<rparr> =
      Inr \<lparr>rd_type = KPM_STATS_V0, rd_stats = Kpm_stats demo_kpm_data\<rparr>"
proof -
  have r: "io_read_kpm demo_rio 5 = (demo_kpm_data, 6)" by (simp add: demo_read_kpm)
  have l: "\<forall>mi\<in>set (im_MeasInfo (kpm_msg demo_kpm_data)). \<forall>l\<in>set (labelInfo mi). noLabel l \<noteq> None"
    by (simp add: demo_kpm_data_def)
  show ?thesis
    using kpm_readings [OF demo_kpm_coded demo_hdr_ok r demo_msg_pdu refl] demo_msg_ok l by auto
qed

section \<open>From the interval to the callback\<close>

text \<open>C5: An xApp that asks for a KPM report of a connected node gets the measurements of the RAN.  The
  request carries a period and the fixed action definition, which the agent decodes before it
  starts its timer; at the first expiration the listeners of the RIC, the data base of the xApp and the
  queue of its callback get exactly the header and the message of the RAN, through the ASN.1 encoding of
  KPM and the encoding of E2AP.  Every label says that there is none, because the xApp copies the reading
  for its data base before it calls back and stops at an empty label, and the two indications fit the buffer of
  the E2AP encoder.  The node announced the model with a description that the RIC can decode.\<close>

theorem kpm_report_delivered:
  fixes st :: "('sri, sm_ag_if_wr, sm_stats) sys" and x :: "(sm_ag_if_wr, sm_stats, 'st1, 'cb) e42_xapp"
  assumes "kpm_codec_ok c" and "node_set D" "sys_inv D ep_fd st" "req_id (s_ric st) < 65536"
      "xapps_get (xapps (s_iapp st)) (xid x) = Some xinfo" "node \<in> D"
      "e2_sad_get (ep (s_ric st)) node = Some s"
      "length (e2reg_entries (e2_nodes (s_iapp st))) < 256" "0 < fd" "fd \<notin> set (io (s_ric st))"
    and "xapp_inv D x" "key_id (xact x) < 65536"
      "plugin_get (xplugin_ric x) 147 = Some (make_kpm_sm_ric c)" "interval_cmd i = Inr cmd"
      "0 < tfd" "tfd \<notin> set (xio x)" "xpend x E42_RIC_SUBSCRIPTION_REQUEST_PENDING_EVENT = None"
    and "agent_inv a" "plugin_ag_get (aplugin a) 147 = Some (make_kpm_sm_agent c rio)" "0 < afd"
      "afd \<notin> set (aio a)" "ind_timer a (fwd_id (s_ric st) (next_id x 147)) = None"
      "io_read_kpm rio (aran a) = (d, ran')" "kpm_coded c d" "kpm_hdr_ok (kpm_hdr d)" "kpm_msg_ok (kpm_msg d)"
      "\<forall>mi\<in>set (im_MeasInfo (kpm_msg d)). \<forall>l\<in>set (labelInfo mi). noLabel l \<noteq> None"
      "ag_on_indication (make_kpm_sm_agent c rio) (aran a) = Inr (dd, r)"
    and "plugin_get (plugin (s_ric st)) 147 = Some (make_kpm_sm_ric c)" "plugin_inv (plugin (s_ric st))"
      "rb_entries (pub_sub (s_ric st)) = map (\<lambda>e. (fst e, default_listeners)) (rb_entries (plugin (s_ric st)))"
    and "stats = \<lparr>rd_type = KPM_STATS_V0, rd_stats = Kpm_stats d\<rparr>" "xcp x = cp_sm_ag_if_rd"
    and "n1 = Ric_ind (report_ind (fwd_id (s_ric st) (next_id x 147)) 0 dd)" "n2 = Ric_ind (report_ind (next_id x 147) 0 dd)"
      "reads_back (aap a) dec" "\<forall>n\<in>{n1, n2}. msg_fits (aap a) n"
  shows "(\<exists>st1 a1 st2 x1 x2 q m1 m2 m3.
    sys_step st (From_xapp xinfo q [fd]) = Inr (st1, [To_node s m1]) \<and>
    e2_event_agent a (Ag_ready (aep_fd a) (Payload m1) afd) = Inr (a1, [m2]) \<and>
    sys_step st1 (From_ric_loop (Sctp_msg_arrived s m2)) = Inr (st2, [To_xapp xinfo m3]) \<and>
    report_sm_sync_xapp x tfd node 147 i cb [] [Xready (xep_fd x) m3 tfd'] =
      Inr (of_nat (key_id (xact x)), x1, [Xsend q]) \<and>
    e2_event_agent a1 (Ag_ready afd rcv afd') = Inr (a1\<lparr>aran := ran'\<rparr>, [n1]) \<and>
    sys_step st2 (From_ric_loop (Sctp_msg_arrived s n1)) =
      Inr (st2, map (\<lambda>n. To_listener n stats) default_listeners @ [To_xapp xinfo n2]) \<and>
    e2_event_xapp x1 (Xready (xep_fd x1) n2 tfd'') = Inr (x2, [Xwrite_db node stats]) \<and>
    xdisp x2 = xdisp x1 @ [(cb, stats)] \<and> sys_inv D ep_fd st2 \<and> xapp_inv D x2 \<and>
    (node_id_ok node \<longrightarrow> carried q = Inr q) \<and>
    (\<forall>n\<in>{m1, m2, m3}. carried n = Inr n \<and> (carried_bytes (aap a) dec n = Inr n \<longleftrightarrow> msg_fits (aap a) n)) \<and>
    (\<forall>n\<in>{n1, n2}. carried_bytes (aap a) dec n = Inr n)) \<and>
    (\<exists>b. ag_on_e2_setup (make_kpm_sm_agent c rio) = Inr b \<and> ric_on_e2_setup_kpm_sm_ric c b = Inr ())"
proof -
  have r: "kpm_reads c rio (aran a)" "kpm_seen rio (aran a) = stats" "snd (io_read_kpm rio (aran a)) = ran'"
    using assms(23-26,32) by (simp_all add: kpm_reads_def kpm_seen_def)
  have v: "valid_ran_func_id 147" by (simp add: valid_ran_func_id_def)
  have cp: "xcp x (kpm_seen rio (aran a)) = Inr stats"
    using labels_copy_ok [OF assms(26)] assms(27,32,33) r(2) by (simp add: cp_sm_ag_if_rd_def cp_kpm_ind_data_eq)
  have f: "msg_fits (aap a) n1" using assms(37) by simp
  show ?thesis
  proof (rule conjI, goal_cases)
    case 1
    show ?case
      by (rule service_model.report_to_reading [OF kpm_service [OF assms(1)] assms(2-11) v assms(12-22) r(1) assms(28) f
          assms(29-31) cp assms(34,35), of cb tfd' rcv afd' tfd'', unfolded r(2,3)])
        (use carried_bytes_iff [OF _ assms(36)] assms(37) in blast)
  next
    case 2
    obtain b where "kpm_enc_func_def_asn c kpm_announced_def = Inr b" "kpm_dec_func_def_asn c b = Inr kpm_announced_def"
      by (rule kpm_func_def [OF assms(1)])
    then show ?case
      by (simp add: make_kpm_sm_agent_def on_e2_setup_kpm_sm_ag_def ric_on_e2_setup_kpm_sm_ric_def)
  qed
qed

theorem kpm_report_delivered_witness:
  "\<exists>st1 a1 st2 x1 x2 q m1 m2 m3 n1 n2 enc dec.
    sys_step (sm_sys 147 (make_kpm_sm_ric demo_codec)) (From_xapp (demo_addr 5000) q [9]) =
      Inr (st1, [To_node (demo_addr 36421) m1]) \<and>
    e2_event_agent (sm_agent_demo enc 147 (make_kpm_sm_agent demo_codec demo_rio)) (Ag_ready 5 (Payload m1) 9) = Inr (a1, [m2]) \<and>
    sys_step st1 (From_ric_loop (Sctp_msg_arrived (demo_addr 36421) m2)) = Inr (st2, [To_xapp (demo_addr 5000) m3]) \<and>
    report_sm_sync_xapp (sm_xapp 147 (make_kpm_sm_ric demo_codec)) 9 demo_node 147 Ms_5 (Some 3) [] [Xready 4 m3 0] =
      Inr (of_nat (key_id (xact (sm_xapp 147 (make_kpm_sm_ric demo_codec)))), x1, [Xsend q]) \<and>
    e2_event_agent a1 (Ag_ready 9 Notification 0) = Inr (a1\<lparr>aran := Suc (aran demo_agent)\<rparr>, [n1]) \<and>
    e2_event_xapp x1 (Xready (xep_fd x1) n2 0) =
      Inr (x2, [Xwrite_db demo_node \<lparr>rd_type = KPM_STATS_V0, rd_stats = Kpm_stats demo_kpm_data\<rparr>]) \<and>
    carried q = Inr q \<and> (\<forall>m\<in>{n1, n2}. carried_bytes enc dec m = Inr m)"
proof -
  let ?rc = "make_kpm_sm_ric demo_codec" and ?ag = "make_kpm_sm_agent demo_codec demo_rio"
  have i: "sm_ran_func_id ?rc = 147" "ag_ran_func_id ?ag = 147" "(0 :: u16) < 147" "valid_ran_func_id 147"
    by (simp_all add: make_kpm_sm_ric_def make_kpm_sm_agent_def valid_ran_func_id_def)
  have rd: "kpm_reads demo_codec demo_rio (aran demo_agent)"
    using demo_kpm_coded demo_hdr_ok demo_msg_ok by (simp add: kpm_reads_def demo_read_kpm)
  obtain d r where d: "ag_on_indication ?ag (aran demo_agent) = Inr (d, r)"
    using service_model.axioms(1) [OF kpm_service [OF demo_codec_ok], THEN sm_halves.reading, OF rd] by blast
  note b = service_model.reading_bytes [OF kpm_service [OF demo_codec_ok] rd d]
  let ?enc = "table_enc (codec_of (sm_inds 147 ?rc d))" and ?dec = "table_dec (codec_of (sm_inds 147 ?rc d))"
  let ?n1 = "Ric_ind (report_ind (fwd_id (s_ric (sm_sys 147 ?rc)) (next_id (sm_xapp 147 ?rc) 147)) 0 d)"
    and ?n2 = "Ric_ind (report_ind (next_id (sm_xapp 147 ?rc) 147) 0 d)"
  let ?a = "sm_agent_demo ?enc 147 ?ag"
  have fd: "aep_fd ?a = 5" "xep_fd (sm_xapp 147 ?rc) = 4"
    by (simp_all add: sm_agent_demo_def demo_agent_def sm_xapp_def)
  have d': "ag_on_indication ?ag (aran ?a) = Inr (d, r)" using d by (simp add: sm_facts(14))
  have f: "\<forall>n\<in>{?n1, ?n2}. msg_fits (aap ?a) n" "reads_back (aap ?a) ?dec"
    using sm_inds_fit [OF i(4) conjunct1 [OF b] conjunct2 [OF b], where rc = ?rc]
    by (simp_all add: sm_facts(18)) (simp add: sm_inds_def)
  have l: "\<forall>mi\<in>set (im_MeasInfo (kpm_msg demo_kpm_data)). \<forall>l\<in>set (labelInfo mi). noLabel l \<noteq> None"
    by (simp add: demo_kpm_data_def)
  show ?thesis
    using demo_node_ok conjunct1 [OF kpm_report_delivered [OF demo_codec_ok mono_nodes.node_set_axioms sm_sys_inv [OF i(1,3)] sm_facts(1,2)
      demo_mono sm_facts(3-6) sm_xapp_inv [OF i(1,3)] sm_facts(7-9,5,10) sm_xpend sm_agent_inv [OF i(2)]
      sm_facts(11,5,12,13) demo_read_kpm demo_kpm_coded demo_hdr_ok demo_msg_ok l d' sm_facts(15) sm_plugin_inv [OF i(1,3)]
      sm_facts(16) refl sm_facts(17) refl refl f(2,1), of "Some 3" 0 Notification 0 0]]
    unfolding sm_facts(14,18) fd by blast
qed

end
