(* ===== verification/Spec2Isabelle.thy ===== *)
theory Spec2Isabelle
  imports ContainerProps HashTable StringSearch RicProps XAppProps AgentProps NetProps SmProps DbProps E2apProps KpmProps
begin

text \<open>
  FlexRIC: a verification development of its core.

  The program.  FlexRIC is a near-real-time RAN intelligent controller.  Three kinds of processes talk
  E2AP over SCTP.  An E2 agent (\<open>src/agent\<close>) runs in a node of the radio access network, announces
  the service models it has loaded and sends indications on timers.  The near-RT RIC (\<open>src/ric\<close>)
  accepts agents, gives every request an identifier of its own, runs a timer per pending request and
  publishes indications; a part of it, the iApp (\<open>src/ric/iApp\<close>), serves the xApps over the
  extension E42 and translates identifiers in both directions.  An xApp (\<open>src/xApp\<close>) offers blocking
  procedures to its user: report, removal of a report, control; a second thread runs its event
  loop, a third calls the callbacks, a fourth writes the data base.  Service models (\<open>src/sm\<close>)
  are pairs of halves, one loaded by the agent, one by the RIC and the xApps, that encode and decode
  what the messages carry.  All of it stands on the containers of \<open>src/util/alg_ds\<close>.

  How the model represents the program.  A struct is a record, an enum or a tagged union a datatype,
  an integer of w bits a word of w bits, an array with its length both where the code keeps both.
  A function that can fail an assertion, read out of bounds or through a null pointer has a result
  \<open>'a res\<close>, \<open>Inl\<close> with the reason or \<open>Inr\<close> with the value (\<open>FlexPrelude\<close>).  A handler takes the state of
  its process and returns the new state and the list of what it does to the outside, in order:
  messages sent, timers, calls to the other side, entries for a listener.  Assertions are those of a
  build without NDEBUG.  A lock makes an operation one step, so an interleaving of threads is an
  order of steps; where a procedure waits, the events that another thread handles before and during
  the wait are an argument.  File descriptors that the operating system chooses are arguments.

  Sending.  The state of an agent and of an xApp holds the codec that the ASN.1 compiler generated
  (\<open>aap\<close>, \<open>xap\<close>): before an agent sends an indication and an xApp a control request, the step runs the
  encoder with its assertions (a header and a message that are not empty, a PDU below 16384 bytes), and
  stops where the program stops.  The other messages are sent without the encoder in the step: the
  statements about them say which of them the encoder and the decoder keep (\<open>carried\<close>) and, given a
  codec that reads back what it wrote, that the bytes arrive exactly when the PDU fits (\<open>carried_bytes\<close>,
  \<open>msg_fits\<close>).  The field \<open>xcp\<close> of an xApp is the copy of a reading that \<open>write_db_xapp\<close> makes before the
  callback is called; in the program it is \<open>cp_sm_ag_if_rd\<close>, on the statistics of the service models, and the
  statements about these models take it as such.

  The theories, in the order of the code.
  Containers: \<open>AssocSpec\<close> (the contract of associative containers, a list ordered by a comparator, and
  its locale), \<open>RbTree\<close> (\<open>assoc_rb_tree.c\<close>: the linked nodes as a zipper), \<open>RbUpdate\<close> (writing through an
  iterator), \<open>BiMap\<close> (\<open>bimap.c\<close>), \<open>AssocReg\<close> (\<open>assoc_reg.c\<close>, \<open>lower_bound.c\<close>), \<open>SeqRing\<close> and \<open>TsQueue\<close>
  (\<open>seq_ring.c\<close>, \<open>ts_queue.c\<close>: the queue between threads), \<open>SeqArr\<close> (\<open>seq_arr.c\<close> on the bytes of its allocation,
  with the loops of \<open>for_each.c\<close> and \<open>find.c\<close>), \<open>HashTable\<close> (\<open>assoc_ht_open_address.c\<close>, \<open>murmur_hash_32.c\<close>), \<open>StringSearch\<close>
  (\<open>alg/string\<close>).
  Identifiers and messages: \<open>Compare\<close>, \<open>E2apIds\<close> (comparators and keys), \<open>E2apMsg\<close> (\<open>type_defs.h\<close> and
  \<open>src/lib/ap/e2ap_types\<close>: records, equality, copy, move).
  The RIC: \<open>RegE2Nodes\<close>, \<open>ApMaps\<close> (its maps), \<open>NearRic\<close> (\<open>near_ric.c\<close>, \<open>msg_handler_ric.c\<close>,
  \<open>not_handler_ric.c\<close>, \<open>plugin_ric.c\<close>), \<open>IApp\<close> (\<open>e42_iapp.c\<close>, \<open>msg_handler_iapp.c\<close>), \<open>RicSystem\<close>
  (both with the calls between them: one step is one turn of one of the two loops).
  The xApp: \<open>TimerBook\<close>, \<open>ActProc\<close>, \<open>EventLoop\<close>, \<open>XApp\<close>.  The agent: \<open>AgentPlugin\<close>, \<open>E2Agent\<close> (\<open>e2_agent.c\<close>,
  \<open>msg_handler_agent.c\<close>, \<open>asio_agent.c\<close>, whose timers may be disarmed with a period of 0).
  Service models: \<open>Bytes\<close> (integers and structs as bytes of x86-64 memory), \<open>MacSm\<close>,
  \<open>RlcSm\<close>, \<open>PdcpSm\<close>, \<open>GtpSm\<close> (\<open>ie/*.c\<close>, \<open>enc/*_enc_plain.c\<close>, \<open>dec/*_dec_plain.c\<close>); \<open>Wire\<close> (writers and
  readers of messages of variable layout), \<open>SliceSm\<close>, \<open>SliceCodec\<close>, \<open>TcSm\<close>, \<open>TcCodec\<close>, \<open>TcCtrl\<close> (the same files of
  SLICE and TC), \<open>SliceWire\<close>, \<open>TcWire\<close>, \<open>TcCtrlWire\<close> (their formats, and that size, writer and reader agree
  with them), \<open>SliceCopy\<close>, \<open>TcCopy\<close> (what survives a copy);
  \<open>KpmSm\<close>, \<open>KpmAsn\<close>, \<open>KpmWire\<close> (KPM: data, ASN.1 encoding, both directions together); \<open>SmIo\<close> (\<open>*_sm_agent.c\<close>,
  \<open>*_sm_ric.c\<close>, \<open>agent_if\<close>), \<open>SmThms\<close>.
  E2AP on the wire (\<open>src/lib/ap\<close>): \<open>E2apAsn\<close> (the values of the generated structures, \<open>conversions.h\<close>, the
  helpers both directions share), \<open>E2apPdu\<close> (PDUs and information elements), \<open>E2apUnion\<close> (every member of the
  message union), \<open>E2apEnc\<close> (\<open>enc/e2ap_msg_enc_asn.c\<close>), \<open>E2apDec\<close> (\<open>dec/e2ap_msg_dec_asn.c\<close>), \<open>E2apWire\<close> and
  \<open>E2apWireSetup\<close> (encoder and decoder together, message by message), \<open>E2apCarry\<close> (the messages of the
  processes over it).
  The data base of the xApp: \<open>DbXapp\<close> (\<open>db.c\<close>).
  The processes together: \<open>Network\<close>, \<open>MsgTypes\<close>.

  Interfaces are locales with an interpretation on the model: \<open>comparator\<close> and \<open>assoc_container\<close>
  (trees and maps), \<open>node_set\<close> (E2 node identifiers on which the comparison of the code is an order),
  \<open>timer_book\<close> (timers and the events they stand for), \<open>proc_registry\<close> (procedures of an xApp),
  \<open>ric_provider\<close> and its relatives (the RIC as the iApp sees it), \<open>event_loop\<close>, \<open>struct_codec\<close> (an element of an
  array as bytes), \<open>wire_format\<close> (size, writer and reader of a type follow one format), \<open>sm_halves\<close> and
  \<open>service_model\<close> (the two halves of a service model undo each other, and the RIC takes its statistics),
  \<open>ht_keys\<close> (keys that are equal have the same hash).

  What the lemmas show.  Containers: the trees keep order and balance, every container implements the
  contract, the ring with its wrapping counters implements a list, the hash table a list of pairs, the
  dynamic array a list as long as an element has at most 33 bytes.  Processes: each has an
  invariant that every event keeps (\<open>ric_inv\<close>, \<open>iapp_inv\<close>, \<open>sys_inv\<close>, \<open>xapp_inv\<close>, \<open>agent_inv\<close>), proved handler
  by handler and carried to runs; each handler has a lemma for its effect.  Together: requests,
  answers, indications and controls travel through all processes and arrive unchanged under
  translated identifiers; every message that is sent has a handler at its receiver.  Service
  models: what the RAN reports is what the applications read, byte by byte, and what of SLICE and TC is lost
  on the way.  E2AP: for each of the 31 messages exactly which values come back from encoder and decoder
  as they were, so that the chains between the processes go over the encoding.  The properties are in
  the theories whose names end in \<open>Props\<close>, each with a witness on a small concrete system.

  Bounds.  Request identifiers are 16 bits: the chains assume the counter below 65536, and
  \<open>request_id_reuse_stops\<close> shows what happens after.  A list of nodes has at most 255 entries, its counter
  has 8 bits.  A ring has up to \<open>2 ^ 31\<close> elements: its counters have 32 bits; the loop over its values
  gets its capacity as fuel, and an iteration visits fewer cells.  A probe of the hash table comes back to its start after as
  many rounds as the table has places, its fuel.  The loops over a dynamic array and the search of Boyer and Moore need not
  end and are partial functions; it is proved that the first end, and that the second does not always.  The
  array is followed up to \<open>2 ^ 24\<close> elements, where its occupation is an exact \<open>float\<close>.  The loops of the trees recurse on the
  height or on a measure, with a termination proof; the event loops run over the list of events they are
  given.  A PDU of E2AP has fewer than 16384 bytes, its buffer.  A message of MAC has fewer than \<open>2 ^ 32\<close> bytes, the width of its length, one of SLICE or TC fewer
  than \<open>2 ^ 64\<close>, the width of \<open>size_t\<close>.

  Not modelled.  The aligned PER codec of E2AP is code that the ASN.1 compiler generated
  (\<open>src/lib/ap/ie/asn\<close>): the two calls that turn a PDU into bytes and back are arguments, and a statement
  about bytes assumes that they undo each other on the PDU at hand.  The FlatBuffers variant
  (\<open>enc/e2ap_msg_enc_fb.c\<close>) implements only parts of it over generated code.  Functions that only release
  memory have no definition.  Sockets, epoll, timerfd
  and dlopen are calls of the operating system (\<open>src/lib/ep\<close>, \<open>asio_*.c\<close>); what the processes keep of
  them (interest lists, timers, loaded models) is in their states.  The PER codec of KPM is an argument like that of E2AP;
  the ASN.1 and FlatBuffers codecs of the other service models only assert.
  The statements of SQLite, the listeners and iApps that print to the terminal or write to
  other data bases (\<open>src/ric/iApps\<close>, \<open>src/xApp/db\<close>) only produce output.  The SQLite library itself, the
  examples, the tests and the bindings are not part of the core.
\<close>

end
